(* ===== verification/Prelude.thy ===== *)
theory Prelude
  imports Main "HOL-Library.Word" "HOL-Library.Sublist"
    "HOL-Library.Char_ord" "HOL-Library.List_Lexorder"
begin

text \<open>
  What every component shares: the machine integers, Rust's \<open>Result\<close> with anyhow's error
  chain, the loops that stop at the first error, and \<open>std::collections::BTreeMap\<close> as an
  association list kept in strictly ascending key order, with the interface its clients rely
  on as the locale \<open>ordered_map\<close>.
\<close>

named_theorems result_simps \<open>rewriting a chain of fallible steps\<close>
named_theorems btree_simps \<open>lookup after an update of an ordered map\<close>

section \<open>Machine integers\<close>

type_synonym u8 = "8 word"
type_synonym u16 = "16 word"
type_synonym u32 = "32 word"
type_synonym u64 = "64 word"
type_synonym usize = "64 word"

section \<open>Results\<close>

text \<open>
  An \<open>anyhow::Error\<close> is its chain of messages, outermost context first. \<open>{}\<close> prints
  the outermost one, \<open>{:#}\<close> the whole chain joined by a colon.
\<close>

type_synonym anyhow = "string list"
type_synonym 'a result = "anyhow + 'a"

definition bail :: "string \<Rightarrow> 'a result" where
  "bail msg = Inl [msg]"

definition err_display :: "anyhow \<Rightarrow> string" where
  "err_display e = (case e of [] \<Rightarrow> [] | m # _ \<Rightarrow> m)"

fun and_then :: "'e + 'a \<Rightarrow> ('a \<Rightarrow> 'e + 'b) \<Rightarrow> 'e + 'b" where
  "and_then (Inl e) f = Inl e"
| "and_then (Inr x) f = f x"

fun map_err :: "('e \<Rightarrow> 'f) \<Rightarrow> 'e + 'a \<Rightarrow> 'f + 'a" where
  "map_err g (Inl e) = Inl (g e)"
| "map_err g (Inr x) = Inr x"

definition with_context :: "string \<Rightarrow> 'a result \<Rightarrow> 'a result" where
  "with_context msg r = map_err (\<lambda>e. msg # e) r"

definition ok_or :: "'e \<Rightarrow> 'a option \<Rightarrow> 'e + 'a" where
  "ok_or e x = (case x of None \<Rightarrow> Inl e | Some y \<Rightarrow> Inr y)"

definition ensure :: "bool \<Rightarrow> string \<Rightarrow> unit result" where
  "ensure b msg = (if b then Inr () else bail msg)"

fun is_ok :: "'e + 'a \<Rightarrow> bool" where
  "is_ok (Inl e) = False"
| "is_ok (Inr x) = True"

lemma and_then_cong [fundef_cong]:
  "r = r' \<Longrightarrow> (\<And>x. r' = Inr x \<Longrightarrow> f x = f' x) \<Longrightarrow> and_then r f = and_then r' f'"
  by (cases r') auto

lemma and_then_Inr [result_simps]:
  "and_then r f = Inr y \<longleftrightarrow> (\<exists>x. r = Inr x \<and> f x = Inr y)"
  by (cases r) auto

lemma and_then_Inl [result_simps]:
  "and_then r f = Inl e \<longleftrightarrow> r = Inl e \<or> (\<exists>x. r = Inr x \<and> f x = Inl e)"
  by (cases r) auto

lemma map_err_Inr [result_simps]: "map_err g r = Inr x \<longleftrightarrow> r = Inr x"
  by (cases r) auto

lemma with_context_Inr [result_simps]: "with_context m r = Inr x \<longleftrightarrow> r = Inr x"
  by (simp add: with_context_def result_simps)

lemma with_context_simps [simp]:
  "with_context m (Inr x) = Inr x" "with_context m (Inl e) = Inl (m # e)"
  by (simp_all add: with_context_def)

lemma ok_or_Inr [result_simps]: "ok_or e x = Inr y \<longleftrightarrow> x = Some y"
  by (cases x) (auto simp: ok_or_def)

lemma ok_or_simps [simp]: "ok_or e None = Inl e" "ok_or e (Some x) = Inr x"
  by (simp_all add: ok_or_def)

lemma ensure_Inr [result_simps]: "ensure b m = Inr u \<longleftrightarrow> b"
  by (simp add: ensure_def bail_def)

lemma ensure_simps [simp]: "ensure True m = Inr ()" "ensure False m = Inl [m]"
  by (simp_all add: ensure_def bail_def)

lemma bail_not_Inr [result_simps]: "bail m = Inr x \<longleftrightarrow> False"
  by (simp add: bail_def)

lemma bail_Inl [result_simps]: "bail m = Inl e \<longleftrightarrow> e = [m]"
  by (auto simp: bail_def)

lemma if_bail [result_simps]:
  "(if b then bail m else r) = Inr x \<longleftrightarrow> \<not> b \<and> r = Inr x"
  "(if b then r else bail m) = Inr x \<longleftrightarrow> b \<and> r = Inr x"
  "(if b then Inl e else r) = Inr x \<longleftrightarrow> \<not> b \<and> r = Inr x"
  "(if b then r else Inl e) = Inr x \<longleftrightarrow> b \<and> r = Inr x"
  by (auto simp: bail_def)

lemma is_ok_iff: "is_ok r \<longleftrightarrow> (\<exists>x. r = Inr x)"
  by (cases r) auto

subsection \<open>Loops that stop at the first error\<close>

text \<open>\<open>for x in xs { body(x)?; }\<close>\<close>

fun try_for_each :: "('a \<Rightarrow> 'e + unit) \<Rightarrow> 'a list \<Rightarrow> 'e + unit" where
  "try_for_each f [] = Inr ()"
| "try_for_each f (x # xs) = and_then (f x) (\<lambda>_. try_for_each f xs)"

text \<open>A loop that updates a state and may fail.\<close>

fun try_fold :: "('a \<Rightarrow> 's \<Rightarrow> 'e + 's) \<Rightarrow> 'a list \<Rightarrow> 's \<Rightarrow> 'e + 's" where
  "try_fold f [] s = Inr s"
| "try_fold f (x # xs) s = and_then (f x s) (try_fold f xs)"

text \<open>\<open>for x in xs { out.push(f(x)?); }\<close>\<close>

fun try_map :: "('a \<Rightarrow> 'e + 'b) \<Rightarrow> 'a list \<Rightarrow> 'e + 'b list" where
  "try_map f [] = Inr []"
| "try_map f (x # xs) = and_then (f x) (\<lambda>y. and_then (try_map f xs) (\<lambda>ys. Inr (y # ys)))"

lemma try_for_each_Inr [result_simps]:
  "try_for_each f xs = Inr u \<longleftrightarrow> (\<forall>x \<in> set xs. f x = Inr ())"
  by (induction xs) (auto simp: result_simps)

lemma try_for_each_Inl_D:
  "try_for_each f xs = Inl e \<Longrightarrow> \<exists>x \<in> set xs. f x = Inl e"
  by (induction xs) (auto simp: result_simps)

lemma try_map_Inr [result_simps]:
  "try_map f xs = Inr ys \<longleftrightarrow> list_all2 (\<lambda>x y. f x = Inr y) xs ys"
  by (induction xs arbitrary: ys) (auto simp: result_simps list_all2_Cons1)

lemma try_fold_append:
  "try_fold f (xs @ ys) s = and_then (try_fold f xs s) (try_fold f ys)"
proof (induction xs arbitrary: s)
  case (Cons x xs)
  then show ?case by (cases "f x s") auto
qed simp

text \<open>An invariant that every step keeps holds of the final state.\<close>

lemma try_fold_inv:
  assumes "try_fold f xs s = Inr t" and "I s"
    and "\<And>x s t. x \<in> set xs \<Longrightarrow> I s \<Longrightarrow> f x s = Inr t \<Longrightarrow> I t"
  shows "I t"
  using assms
proof (induction xs arbitrary: s)
  case (Cons x xs)
  then obtain s' where "f x s = Inr s'" and "try_fold f xs s' = Inr t"
    by (auto simp: result_simps)
  with Cons show ?case by (metis list.set_intros)
qed simp

subsection \<open>Effects\<close>

text \<open>A fallible operation on a state: the outcome and the state it leaves, also when it fails.\<close>

type_synonym ('s, 'a) action = "'s \<Rightarrow> 'a result \<times> 's"

definition act_bind :: "('s, 'a) action \<Rightarrow> ('a \<Rightarrow> ('s, 'b) action) \<Rightarrow> ('s, 'b) action" where
  "act_bind m f s = (case m s of (Inl e, s') \<Rightarrow> (Inl e, s') | (Inr x, s') \<Rightarrow> f x s')"

definition act_return :: "'a \<Rightarrow> ('s, 'a) action" where
  "act_return x s = (Inr x, s)"

definition act_lift :: "'a result \<Rightarrow> ('s, 'a) action" where
  "act_lift r s = (r, s)"

lemma act_simps [simp]:
  "act_return x s = (Inr x, s)" "act_lift r s = (r, s)"
  by (simp_all add: act_return_def act_lift_def)

lemma act_bind_cases:
  "act_bind m f s = (r, t) \<longleftrightarrow>
     (\<exists>e. m s = (Inl e, t) \<and> r = Inl e) \<or> (\<exists>x s'. m s = (Inr x, s') \<and> f x s' = (r, t))"
  by (auto simp: act_bind_def split: prod.splits sum.splits)

lemma act_bind_Inr [result_simps]:
  "act_bind m f s = (Inr y, t) \<longleftrightarrow> (\<exists>x s'. m s = (Inr x, s') \<and> f x s' = (Inr y, t))"
  by (auto simp: act_bind_cases)

lemma act_bind_run [simp]:
  "m s = (Inr x, s') \<Longrightarrow> act_bind m f s = f x s'"
  "m s = (Inl e, s') \<Longrightarrow> act_bind m f s = (Inl e, s')"
  by (simp_all add: act_bind_def)

section \<open>Ordered maps\<close>

type_synonym ('k, 'v) btree = "('k \<times> 'v) list"

abbreviation bt_get :: "('k, 'v) btree \<Rightarrow> 'k \<Rightarrow> 'v option" where
  "bt_get \<equiv> map_of"

abbreviation bt_keys :: "('k, 'v) btree \<Rightarrow> 'k list" where
  "bt_keys m \<equiv> map fst m"

abbreviation bt_values :: "('k, 'v) btree \<Rightarrow> 'v list" where
  "bt_values m \<equiv> map snd m"

fun bt_insert :: "'k::linorder \<Rightarrow> 'v \<Rightarrow> ('k, 'v) btree \<Rightarrow> ('k, 'v) btree" where
  "bt_insert k v [] = [(k, v)]"
| "bt_insert k v ((a, b) # m) =
     (if k < a then (k, v) # (a, b) # m
      else if k = a then (k, v) # m
      else (a, b) # bt_insert k v m)"

fun bt_remove :: "'k \<Rightarrow> ('k, 'v) btree \<Rightarrow> ('k, 'v) btree" where
  "bt_remove k [] = []"
| "bt_remove k ((a, b) # m) = (if k = a then m else (a, b) # bt_remove k m)"

definition bt_from_iter :: "('k::linorder \<times> 'v) list \<Rightarrow> ('k, 'v) btree" where
  "bt_from_iter kvs = fold (\<lambda>(k, v). bt_insert k v) kvs []"

abbreviation bt_ok :: "('k::linorder, 'v) btree \<Rightarrow> bool" where
  "bt_ok m \<equiv> sorted_wrt (<) (map fst m)"

lemma bt_get_insert [btree_simps, simp]:
  "bt_get (bt_insert k v m) = (bt_get m)(k \<mapsto> v)"
  by (induction k v m rule: bt_insert.induct) (auto simp: fun_eq_iff)

lemma bt_keys_insert [btree_simps, simp]:
  "set (bt_keys (bt_insert k v m)) = insert k (set (bt_keys m))"
  by (induction k v m rule: bt_insert.induct) auto

lemma bt_ok_insert [simp, intro]: "bt_ok m \<Longrightarrow> bt_ok (bt_insert k v m)"
proof (induction k v m rule: bt_insert.induct)
  case (2 k v a b m)
  then show ?case
    using bt_keys_insert [of k v m] by (auto dest: order.strict_trans simp del: bt_keys_insert)
qed simp

lemma bt_get_None_iff: "bt_get m k = None \<longleftrightarrow> k \<notin> set (bt_keys m)"
  by (rule map_of_eq_None_iff [THEN trans]) simp

lemma bt_get_remove [btree_simps]:
  "bt_ok m \<Longrightarrow> bt_get (bt_remove k m) = (bt_get m)(k := None)"
proof (induction k m rule: bt_remove.induct)
  case (2 k a b m)
  show ?case
  proof (cases "k = a")
    case True
    with 2 have "bt_get m a = None"
      by (subst bt_get_None_iff) auto
    with True show ?thesis by (auto simp: fun_eq_iff)
  next
    case False
    with 2 show ?thesis by (auto simp: fun_eq_iff)
  qed
qed auto

lemma bt_keys_remove_subset: "set (bt_keys (bt_remove k m)) \<subseteq> set (bt_keys m)"
  by (induction k m rule: bt_remove.induct) auto

lemma bt_ok_remove [simp, intro]: "bt_ok m \<Longrightarrow> bt_ok (bt_remove k m)"
proof (induction k m rule: bt_remove.induct)
  case (2 k a b m)
  then show ?case
    using bt_keys_remove_subset [of k m] by (auto dest!: subsetD)
qed simp

lemma bt_ok_distinct: "bt_ok m \<Longrightarrow> distinct (bt_keys m)"
  by (induction m) auto

lemma map_of_rev: "distinct (map fst xs) \<Longrightarrow> map_of (rev xs) = map_of xs"
proof (induction xs)
  case (Cons x xs)
  then have "map_of xs (fst x) = None" by (simp add: map_of_eq_None_iff)
  with Cons show ?case
    by (cases x) (auto simp: fun_eq_iff map_add_def split: option.splits)
qed simp

lemma bt_get_mem: "bt_ok m \<Longrightarrow> (k, v) \<in> set m \<Longrightarrow> bt_get m k = Some v"
  by (rule map_of_is_SomeI) (auto dest: bt_ok_distinct)

text \<open>An ordered map is determined by its lookups.\<close>

lemma bt_rebuild: "bt_ok m \<Longrightarrow> map (\<lambda>k. (k, the (bt_get m k))) (bt_keys m) = m"
  by (auto simp: bt_get_mem intro!: map_idI)

lemma bt_ext:
  assumes "bt_ok m" and "bt_ok m'" and "bt_get m = bt_get m'"
  shows "m = m'"
proof -
  have "set (bt_keys m) = set (bt_keys m')"
    using assms(3) by (metis dom_map_of_conv_image_fst list.set_map)
  with assms(1,2) have "bt_keys m = bt_keys m'" by (simp add: strict_sorted_equal)
  with assms show ?thesis by (metis bt_rebuild)
qed

subsection \<open>The interface the clients of an ordered map use\<close>

locale ordered_map =
  fixes get :: "'m \<Rightarrow> 'k \<Rightarrow> 'v option"
    and put :: "'k \<Rightarrow> 'v \<Rightarrow> 'm \<Rightarrow> 'm"
    and del :: "'k \<Rightarrow> 'm \<Rightarrow> 'm"
    and ok :: "'m \<Rightarrow> bool"
  assumes get_put: "get (put k v m) = (get m)(k \<mapsto> v)"
    and get_del: "ok m \<Longrightarrow> get (del k m) = (get m)(k := None)"
    and ok_put: "ok m \<Longrightarrow> ok (put k v m)"
    and ok_del: "ok m \<Longrightarrow> ok (del k m)"
begin

lemma get_put_same: "get (put k v m) k = Some v"
  by (simp add: get_put)

lemma get_put_other: "j \<noteq> k \<Longrightarrow> get (put k v m) j = get m j"
  by (simp add: get_put)

lemma put_all_get:
  "get (fold (\<lambda>(k, v). put k v) kvs m) = get m ++ map_of (rev kvs)"
  by (induction kvs arbitrary: m)
    (auto simp: get_put fun_eq_iff map_add_def split: option.splits)

lemma put_all_ok: "ok m \<Longrightarrow> ok (fold (\<lambda>(k, v). put k v) kvs m)"
  by (induction kvs arbitrary: m) (auto simp: ok_put)

end

interpretation btree: ordered_map bt_get bt_insert bt_remove bt_ok
  by unfold_locales (auto simp: bt_get_remove)

lemma bt_ok_from_iter [simp]: "bt_ok (bt_from_iter kvs)"
  unfolding bt_from_iter_def by (rule btree.put_all_ok) simp

lemma bt_get_from_iter: "bt_get (bt_from_iter kvs) = map_of (rev kvs)"
  unfolding bt_from_iter_def by (subst btree.put_all_get) simp

end
