(* ===== verification/RustStr.thy ===== *)
theory RustStr
  imports Prelude
begin

text \<open>
  The part of Rust's \<open>str\<close> and \<open>String\<close> that the sources use. A \<open>String\<close> is its
  UTF-8 bytes, a \<^typ>\<open>string\<close> whose characters are bytes: \<open>len\<close> is \<open>length\<close>, and
  \<open>starts_with\<close>, \<open>ends_with\<close> and \<open>contains\<close> with a string pattern are \<open>prefix\<close>,
  \<open>suffix\<close> and \<open>sublist\<close> on bytes, as they are in the standard library.
\<close>

named_theorems str_simps \<open>string scanning\<close>

section \<open>Bytes and ASCII case\<close>

abbreviation byte :: "char \<Rightarrow> nat" where
  "byte c \<equiv> of_char c"

definition ascii_lower :: "char \<Rightarrow> char" where
  "ascii_lower c = (if 65 \<le> byte c \<and> byte c \<le> 90 then char_of (byte c + 32) else c)"

definition to_ascii_lowercase :: "string \<Rightarrow> string" where
  "to_ascii_lowercase s = map ascii_lower s"

definition eq_ignore_ascii_case :: "string \<Rightarrow> string \<Rightarrow> bool" where
  "eq_ignore_ascii_case a b \<longleftrightarrow> to_ascii_lowercase a = to_ascii_lowercase b"

definition is_ascii_digit :: "char \<Rightarrow> bool" where
  "is_ascii_digit c \<longleftrightarrow> 48 \<le> byte c \<and> byte c \<le> 57"

definition is_ascii_alphanumeric :: "char \<Rightarrow> bool" where
  "is_ascii_alphanumeric c \<longleftrightarrow> is_ascii_digit c \<or> 65 \<le> byte c \<and> byte c \<le> 90 \<or> 97 \<le> byte c \<and> byte c \<le> 122"

lemma byte_lt [simp]: "byte c < 256"
  using of_char_mod_256 [of c, where ?'a = nat] mod_less_divisor [of 256 "byte c"] by presburger

lemma byte_char_of [simp]: "n < 256 \<Longrightarrow> byte (char_of n) = n" for n :: nat
  by simp

lemma byte_ascii_lower:
  "byte (ascii_lower c) = (if 65 \<le> byte c \<and> byte c \<le> 90 then byte c + 32 else byte c)"
  by (simp add: ascii_lower_def)

lemma ascii_lower_eq_other:
  assumes "ascii_lower c = d" and "byte d < 97"
  shows "c = d"
proof (cases "65 \<le> byte c \<and> byte c \<le> 90")
  case True
  with assms byte_ascii_lower [of c] have "byte c + 32 < 97" by metis
  with True have False by linarith
  then show ?thesis ..
next
  case False
  with assms show ?thesis unfolding ascii_lower_def by presburger
qed

lemma ascii_lower_punct [simp]:
  "ascii_lower c = CHR ''.'' \<longleftrightarrow> c = CHR ''.''" "ascii_lower c = CHR ''*'' \<longleftrightarrow> c = CHR ''*''"
proof -
  have fixed: "ascii_lower (CHR ''.'') = CHR ''.''" "ascii_lower (CHR ''*'') = CHR ''*''"
    by (simp_all add: ascii_lower_def)
  then show "ascii_lower c = CHR ''.'' \<longleftrightarrow> c = CHR ''.''" "ascii_lower c = CHR ''*'' \<longleftrightarrow> c = CHR ''*''"
    using ascii_lower_eq_other [of c] by fastforce+
qed

lemma ascii_lower_idem [simp]: "ascii_lower (ascii_lower c) = ascii_lower c"
  by (simp add: ascii_lower_def)

lemma to_ascii_lowercase_idem [simp]:
  "to_ascii_lowercase (to_ascii_lowercase s) = to_ascii_lowercase s"
  by (simp add: to_ascii_lowercase_def)

lemma length_to_ascii_lowercase [simp]: "length (to_ascii_lowercase s) = length s"
  by (simp add: to_ascii_lowercase_def)

lemma eq_ignore_ascii_case_refl [simp]: "eq_ignore_ascii_case a a"
  by (simp add: eq_ignore_ascii_case_def)

section \<open>White space\<close>

text \<open>The 25 code points with the Unicode property \<open>White_Space\<close>, as UTF-8 byte strings.\<close>

definition white_space :: "string list" where
  "white_space =
     [[CHR 0x09], [CHR 0x0A], [CHR 0x0B], [CHR 0x0C], [CHR 0x0D], [CHR 0x20],
      [CHR 0xC2, CHR 0x85], [CHR 0xC2, CHR 0xA0], [CHR 0xE1, CHR 0x9A, CHR 0x80],
      [CHR 0xE2, CHR 0x80, CHR 0x80], [CHR 0xE2, CHR 0x80, CHR 0x81], [CHR 0xE2, CHR 0x80, CHR 0x82],
      [CHR 0xE2, CHR 0x80, CHR 0x83], [CHR 0xE2, CHR 0x80, CHR 0x84], [CHR 0xE2, CHR 0x80, CHR 0x85],
      [CHR 0xE2, CHR 0x80, CHR 0x86], [CHR 0xE2, CHR 0x80, CHR 0x87], [CHR 0xE2, CHR 0x80, CHR 0x88],
      [CHR 0xE2, CHR 0x80, CHR 0x89], [CHR 0xE2, CHR 0x80, CHR 0x8A], [CHR 0xE2, CHR 0x80, CHR 0xA8],
      [CHR 0xE2, CHR 0x80, CHR 0xA9], [CHR 0xE2, CHR 0x80, CHR 0xAF], [CHR 0xE2, CHR 0x81, CHR 0x9F],
      [CHR 0xE3, CHR 0x80, CHR 0x80]]"

text \<open>Drop, from the front, as many of the given byte strings as match.\<close>

function strip_front :: "string list \<Rightarrow> string \<Rightarrow> string" where
  "strip_front ws s =
     (case find (\<lambda>w. w \<noteq> [] \<and> prefix w s) ws of
        None \<Rightarrow> s
      | Some w \<Rightarrow> strip_front ws (drop (length w) s))"
  by pat_completeness auto
termination
  by (relation "measure (\<lambda>(ws, s). length s)")
    (auto simp: find_Some_iff, metis diff_less length_greater_0_conv prefix_bot.extremum_uniqueI)

declare strip_front.simps [simp del]

definition trim_start :: "string \<Rightarrow> string" where
  "trim_start s = strip_front white_space s"

definition trim_end :: "string \<Rightarrow> string" where
  "trim_end s = rev (strip_front (map rev white_space) (rev s))"

definition trim :: "string \<Rightarrow> string" where
  "trim s = trim_end (trim_start s)"

lemma strip_front_suffix: "suffix (strip_front ws s) s"
proof (induction ws s rule: strip_front.induct)
  case (1 ws s)
  show ?case
    by (subst strip_front.simps)
      (auto split: option.splits dest: 1 intro: suffix_order.trans suffix_drop)
qed

lemma strip_front_none:
  "w \<in> set ws \<Longrightarrow> w \<noteq> [] \<Longrightarrow> \<not> prefix w (strip_front ws s)"
proof (induction ws s rule: strip_front.induct)
  case (1 ws s)
  then show ?case
    by (subst strip_front.simps) (auto simp: find_None_iff split: option.splits)
qed

lemma strip_front_id:
  "(\<And>w. w \<in> set ws \<Longrightarrow> w \<noteq> [] \<Longrightarrow> \<not> prefix w s) \<Longrightarrow> strip_front ws s = s"
  by (subst strip_front.simps) (auto split: option.splits simp: find_Some_iff)

lemma trim_Nil [simp]: "trim [] = []"
  by (simp add: trim_def trim_start_def trim_end_def strip_front_id)

lemma length_trim: "length (trim s) \<le> length s"
  using strip_front_suffix [of white_space s] strip_front_suffix [of "map rev white_space" "rev (trim_start s)"]
  unfolding trim_def trim_end_def trim_start_def by (auto dest!: suffix_length_le)

lemma sublist_trim: "sublist (trim s) s"
proof -
  have "suffix (strip_front (map rev white_space) (rev t)) (rev t)" for t
    by (rule strip_front_suffix)
  then have "prefix (trim_end t) t" for t
    unfolding trim_end_def suffix_to_prefix by simp
  moreover have "suffix (trim_start s) s"
    unfolding trim_start_def by (rule strip_front_suffix)
  ultimately show ?thesis
    unfolding trim_def by (meson prefix_imp_sublist suffix_imp_sublist sublist_order.order_trans)
qed

text \<open>\<open>trim_end_matches\<close> and \<open>trim_start_matches\<close> with a set of one-byte characters.\<close>

definition trim_end_matches :: "char list \<Rightarrow> string \<Rightarrow> string" where
  "trim_end_matches cs s = rev (dropWhile (\<lambda>c. c \<in> set cs) (rev s))"

lemma trim_end_matches_prefix: "prefix (trim_end_matches cs s) s"
  unfolding trim_end_matches_def suffix_to_prefix [symmetric]
  by (metis rev_rev_ident suffix_dropWhile suffix_to_prefix)

lemma trim_end_matches_last:
  "trim_end_matches cs s \<noteq> [] \<Longrightarrow> last (trim_end_matches cs s) \<notin> set cs"
  unfolding trim_end_matches_def
  using hd_dropWhile [of "\<lambda>c. c \<in> set cs" "rev s"] by (auto simp: last_rev)

lemma trim_end_matches_snoc:
  "trim_end_matches cs (s @ [c]) = (if c \<in> set cs then trim_end_matches cs s else s @ [c])"
  by (simp add: trim_end_matches_def)

section \<open>Searching\<close>

definition strip_prefix :: "string \<Rightarrow> string \<Rightarrow> string option" where
  "strip_prefix p s = (if prefix p s then Some (drop (length p) s) else None)"

definition strip_suffix :: "string \<Rightarrow> string \<Rightarrow> string option" where
  "strip_suffix p s = (if suffix p s then Some (take (length s - length p) s) else None)"

text \<open>\<open>find\<close>: the offset of the first occurrence.\<close>

fun str_find :: "string \<Rightarrow> string \<Rightarrow> nat option" where
  "str_find p [] = (if p = [] then Some 0 else None)"
| "str_find p (c # s) = (if prefix p (c # s) then Some 0 else map_option Suc (str_find p s))"

text \<open>\<open>split_once\<close>: what is before and after the first occurrence.\<close>

definition split_once :: "string \<Rightarrow> string \<Rightarrow> (string \<times> string) option" where
  "split_once p s = map_option (\<lambda>i. (take i s, drop (i + length p) s)) (str_find p s)"

lemma str_find_None: "str_find p s = None \<longleftrightarrow> \<not> sublist p s"
  by (induction s) (auto simp: sublist_Cons_right)

lemma str_find_Some:
  "str_find p s = Some i \<Longrightarrow> prefix p (drop i s) \<and> i + length p \<le> length s"
  by (induction s arbitrary: i) (auto split: if_splits dest: prefix_length_le)

lemma str_find_first:
  "str_find p s = Some i \<Longrightarrow> j < i \<Longrightarrow> \<not> prefix p (drop j s)"
proof (induction s arbitrary: i j)
  case (Cons c s)
  then show ?case by (cases j) (auto split: if_splits)
qed (auto split: if_splits)

lemma split_once_Some:
  assumes "split_once p s = Some (a, b)"
  shows "s = a @ p @ b"
proof -
  from assms obtain i where i: "str_find p s = Some i" "a = take i s" "b = drop (i + length p) s"
    by (auto simp: split_once_def)
  from str_find_Some [OF i(1)] obtain r where r: "drop i s = p @ r"
    by (auto elim: prefixE)
  have "s = take i s @ drop i s" by simp
  also have "\<dots> = a @ p @ r" using r i by simp
  also have "r = b" using r i by (metis append_eq_conv_conj drop_drop add.commute)
  finally show ?thesis .
qed

text \<open>On a separator of one byte.\<close>

lemma split_once_Cons:
  "split_once [d] (c # s) =
     (if c = d then Some ([], s) else map_option (\<lambda>(a, b). (c # a, b)) (split_once [d] s))"
  by (cases "str_find [d] s") (auto simp: split_once_def)

lemma split_once_char:
  "split_once [d] s = Some (a, b) \<longleftrightarrow> s = a @ d # b \<and> d \<notin> set a"
proof (induction s arbitrary: a)
  case (Cons c s)
  then show ?case by (cases a) (auto simp: split_once_Cons)
qed (simp add: split_once_def)

lemma split_once_char_None: "split_once [d] s = None \<longleftrightarrow> d \<notin> set s"
  by (induction s) (auto simp: split_once_Cons, simp add: split_once_def)

text \<open>\<open>split(c)\<close> on a one-byte separator, \<open>join\<close>, \<open>lines\<close>, \<open>split_whitespace\<close>.\<close>

fun split_char :: "char \<Rightarrow> string \<Rightarrow> string list" where
  "split_char d [] = [[]]"
| "split_char d (c # s) =
     (if c = d then [] # split_char d s
      else (case split_char d s of [] \<Rightarrow> [[c]] | w # ws \<Rightarrow> (c # w) # ws))"

fun str_join :: "string \<Rightarrow> string list \<Rightarrow> string" where
  "str_join sep [] = []"
| "str_join sep [s] = s"
| "str_join sep (s # ss) = s @ sep @ str_join sep ss"

lemma split_char_not_Nil [simp]: "split_char d s \<noteq> []"
  by (induction s) (auto split: list.splits)

lemma join_split_char: "str_join [d] (split_char d s) = s"
proof (induction s)
  case (Cons c s)
  then show ?case
    by (cases "split_char d s"; cases "tl (split_char d s)") auto
qed simp

lemma split_char_no_sep: "w \<in> set (split_char d s) \<Longrightarrow> d \<notin> set w"
  by (induction s arbitrary: w) (auto split: list.splits if_splits)

definition strip_cr :: "string \<Rightarrow> string" where
  "strip_cr l = (if l \<noteq> [] \<and> last l = CHR 0x0D then butlast l else l)"

text \<open>\<open>lines()\<close> ends a line at a line feed, drops one carriage return before it, and does not
  count an empty line after the last line feed. A final line without a line feed keeps a
  trailing carriage return.\<close>

fun str_lines :: "string \<Rightarrow> string list" where
  "str_lines s =
     (let ls = split_char (CHR 0x0A) s
      in map strip_cr (butlast ls) @ (if last ls = [] then [] else [last ls]))"

text \<open>\<open>split_whitespace\<close>: the maximal runs between white space.\<close>

function split_ws :: "string \<Rightarrow> string \<Rightarrow> string list" where
  "split_ws acc s =
     (case s of
        [] \<Rightarrow> (if acc = [] then [] else [rev acc])
      | c # cs \<Rightarrow>
          (case find (\<lambda>w. w \<noteq> [] \<and> prefix w s) white_space of
             None \<Rightarrow> split_ws (c # acc) cs
           | Some w \<Rightarrow> (if acc = [] then [] else [rev acc]) @ split_ws [] (drop (length w) s)))"
  by pat_completeness auto
termination
  by (relation "measure (\<lambda>(acc, s). length s)") (auto simp: find_Some_iff)

declare split_ws.simps [simp del]

definition split_whitespace :: "string \<Rightarrow> string list" where
  "split_whitespace s = split_ws [] s"

text \<open>The piece before the first of the given separators, as \<open>split(..).next()\<close> gives it.\<close>

fun take_until :: "string list \<Rightarrow> string \<Rightarrow> string" where
  "take_until ws [] = []"
| "take_until ws (c # s) =
     (if list_ex (\<lambda>w. w \<noteq> [] \<and> prefix w (c # s)) ws then [] else c # take_until ws s)"

text \<open>The bytes of the character a text begins with.\<close>

definition utf8_len :: "char \<Rightarrow> nat" where
  "utf8_len c = (if byte c < 0xC0 then 1 else if byte c < 0xE0 then 2 else if byte c < 0xF0 then 3 else 4)"

section \<open>Replacing\<close>

text \<open>\<open>chars()\<close>: the UTF-8 sequences of a text.\<close>

function chars :: "string \<Rightarrow> string list" where
  "chars [] = []"
| "chars (c # s) = take (utf8_len c) (c # s) # chars (drop (utf8_len c) (c # s))"
  by pat_completeness auto
termination by (relation "measure length") (auto simp: utf8_len_def)

declare chars.simps(2) [simp del]

text \<open>
  \<open>str::replace\<close> for a pattern that is not empty: the non-overlapping occurrences from left
  to right.
\<close>

function str_replace :: "string \<Rightarrow> string \<Rightarrow> string \<Rightarrow> string" where
  "str_replace p r s =
     (if p = [] then s
      else if prefix p s then r @ str_replace p r (drop (length p) s)
      else (case s of [] \<Rightarrow> [] | c # cs \<Rightarrow> c # str_replace p r cs))"
  by pat_completeness auto
termination
  by (relation "measure (\<lambda>(p, r, s). length s)")
    (auto dest: prefix_length_le, metis diff_less length_greater_0_conv prefix_bot.extremum_uniqueI)

declare str_replace.simps [simp del]

lemma str_replace_Nil: "p \<noteq> [] \<Longrightarrow> str_replace p r [] = []"
  by (simp add: str_replace.simps)

lemma str_replace_hit:
  "p \<noteq> [] \<Longrightarrow> prefix p s \<Longrightarrow> str_replace p r s = r @ str_replace p r (drop (length p) s)"
  by (subst str_replace.simps) simp

lemma str_replace_miss:
  "p \<noteq> [] \<Longrightarrow> \<not> prefix p (c # cs) \<Longrightarrow> str_replace p r (c # cs) = c # str_replace p r cs"
  by (subst str_replace.simps) simp

lemma str_replace_induct [consumes 1, case_names Nil hit miss]:
  assumes "p \<noteq> []" and "P []"
    and "\<And>s. prefix p s \<Longrightarrow> P (drop (length p) s) \<Longrightarrow> P s"
    and "\<And>c cs. \<not> prefix p (c # cs) \<Longrightarrow> P cs \<Longrightarrow> P (c # cs)"
  shows "P s"
proof (induction s rule: length_induct)
  case (1 s)
  show ?case
  proof (cases "prefix p s")
    case True
    with assms(1) have "length (drop (length p) s) < length s"
      by (metis diff_less length_drop length_greater_0_conv prefix_bot.extremum_uniqueI)
    with 1 True assms(3) show ?thesis by blast
  next
    case False
    with 1 assms(2,4) show ?thesis by (cases s) auto
  qed
qed

text \<open>A text without the pattern is left as it is.\<close>

lemma str_replace_absent: "p \<noteq> [] \<Longrightarrow> \<not> sublist p s \<Longrightarrow> str_replace p r s = s"
proof (induction s)
  case (Cons c cs)
  then show ?case by (auto simp: str_replace_miss sublist_Cons_right)
qed (simp add: str_replace_Nil)

section \<open>Decimal numbers\<close>

fun show_nat :: "nat \<Rightarrow> string" where
  "show_nat n = (if n < 10 then [char_of (48 + n)] else show_nat (n div 10) @ [char_of (48 + n mod 10)])"

declare show_nat.simps [simp del]

definition show_int :: "int \<Rightarrow> string" where
  "show_int i = (if i < 0 then CHR ''-'' # show_nat (nat (- i)) else show_nat (nat i))"

fun digits_val :: "nat \<Rightarrow> string \<Rightarrow> nat option" where
  "digits_val acc [] = Some acc"
| "digits_val acc (c # s) =
     (if is_ascii_digit c then digits_val (acc * 10 + (byte c - 48)) s else None)"

text \<open>\<open>str::parse\<close> of an unsigned integer with the given upper bound: an optional plus sign,
  then at least one digit, and the value must fit.\<close>

definition parse_unsigned :: "nat \<Rightarrow> string \<Rightarrow> nat option" where
  "parse_unsigned bound s =
     (let d = (case s of [] \<Rightarrow> [] | c # cs \<Rightarrow> if c = CHR ''+'' then cs else s)
      in if d = [] then None
         else (case digits_val 0 d of None \<Rightarrow> None | Some n \<Rightarrow> if n < bound then Some n else None))"

text \<open>\<open>str::parse::<i64>\<close>.\<close>

definition parse_i64 :: "string \<Rightarrow> int option" where
  "parse_i64 s =
     (case s of
        [] \<Rightarrow> None
      | c # cs \<Rightarrow>
          if c = CHR ''-'' then
            (if cs = [] then None
             else (case digits_val 0 cs of
                     None \<Rightarrow> None
                   | Some n \<Rightarrow> if n \<le> 2 ^ 63 then Some (- int n) else None))
          else map_option int (parse_unsigned (2 ^ 63) s))"

lemma digits_val_append:
  "digits_val a (s @ t) = Option.bind (digits_val a s) (\<lambda>b. digits_val b t)"
  by (induction a s rule: digits_val.induct) auto

lemma is_ascii_digit_show: "n < 10 \<Longrightarrow> is_ascii_digit (char_of (48 + n))" for n :: nat
  by (simp add: is_ascii_digit_def)

lemma digits_val_show_nat: "digits_val 0 (show_nat n) = Some n"
proof (induction n rule: show_nat.induct)
  case (1 n)
  show ?case
  proof (cases "n < 10")
    case True
    then show ?thesis by (simp add: show_nat.simps [of n] is_ascii_digit_show)
  next
    case False
    with 1 have IH: "digits_val 0 (show_nat (n div 10)) = Some (n div 10)" by simp
    have d: "is_ascii_digit (char_of (48 + n mod 10))" by (rule is_ascii_digit_show) simp
    have b: "byte (char_of (48 + n mod 10)) = 48 + n mod 10" by (rule byte_char_of) simp
    from False show ?thesis
      by (simp add: show_nat.simps [of n] digits_val_append IH d b del: of_char_of)
  qed
qed

lemma show_nat_digits: "c \<in> set (show_nat n) \<Longrightarrow> is_ascii_digit c"
proof (induction n rule: show_nat.induct)
  case (1 n)
  then show ?case
    by (cases "n < 10")
      (auto simp: show_nat.simps [of n] is_ascii_digit_show simp del: of_char_of)
qed

lemma show_nat_not_Nil [simp]: "show_nat n \<noteq> []"
  by (simp add: show_nat.simps [of n])

text \<open>The decimal and hexadecimal digits, for evaluation.\<close>

lemma char_of_digits [simp]:
  "char_of (48 :: nat) = CHR ''0''" "char_of (49 :: nat) = CHR ''1''"
  "char_of (50 :: nat) = CHR ''2''" "char_of (51 :: nat) = CHR ''3''"
  "char_of (52 :: nat) = CHR ''4''" "char_of (53 :: nat) = CHR ''5''"
  "char_of (54 :: nat) = CHR ''6''" "char_of (55 :: nat) = CHR ''7''"
  "char_of (56 :: nat) = CHR ''8''" "char_of (57 :: nat) = CHR ''9''"
  "char_of (65 :: nat) = CHR ''A''" "char_of (66 :: nat) = CHR ''B''"
  "char_of (67 :: nat) = CHR ''C''" "char_of (68 :: nat) = CHR ''D''"
  "char_of (69 :: nat) = CHR ''E''" "char_of (70 :: nat) = CHR ''F''"
  "char_of (97 :: nat) = CHR ''a''" "char_of (98 :: nat) = CHR ''b''"
  "char_of (99 :: nat) = CHR ''c''" "char_of (100 :: nat) = CHR ''d''"
  "char_of (101 :: nat) = CHR ''e''" "char_of (102 :: nat) = CHR ''f''"
  by code_simp+

text \<open>Printing a number and parsing it back.\<close>

lemma parse_show_nat: "n < bound \<Longrightarrow> parse_unsigned bound (show_nat n) = Some n"
proof -
  assume "n < bound"
  obtain c cs where s: "show_nat n = c # cs" by (cases "show_nat n") auto
  then have "is_ascii_digit c" using show_nat_digits [of c n] by simp
  then have "c \<noteq> CHR ''+''" by (auto simp: is_ascii_digit_def)
  then show ?thesis
    using \<open>n < bound\<close> digits_val_show_nat [of n] s by (simp add: parse_unsigned_def)
qed

end
