(* ===== verification/Ssrf.thy ===== *)
theory Ssrf
  imports RustStr
begin

text \<open>
  The filter against server-side request forgery: \<open>src/security/ssrf.rs\<close> and
  \<open>src/security/dns.rs\<close>, with the methods of \<open>std::net::Ipv4Addr\<close> and \<open>Ipv6Addr\<close>
  they call. The octet and segment tests are proved equal to a list of CIDR blocks, the
  form the documentation of the filter uses. The interface the protocol executors rely on is
  the locale \<open>host_validator\<close>: a validated host gives addresses, all of them safe.
\<close>

unbundle bit_operations_syntax

section \<open>Addresses\<close>

datatype ipv4 = Ipv4 u8 u8 u8 u8

datatype ipv6 = Ipv6 u16 u16 u16 u16 u16 u16 u16 u16

datatype ip_addr = V4 ipv4 | V6 ipv6

subsection \<open>std::net::Ipv4Addr\<close>

fun octets :: "ipv4 \<Rightarrow> u8 list" where
  "octets (Ipv4 a b c d) = [a, b, c, d]"

fun v4_is_private :: "ipv4 \<Rightarrow> bool" where
  "v4_is_private (Ipv4 a b c d) \<longleftrightarrow>
     a = 10 \<or> a = 172 \<and> 16 \<le> b \<and> b \<le> 31 \<or> a = 192 \<and> b = 168"

fun v4_is_loopback :: "ipv4 \<Rightarrow> bool" where
  "v4_is_loopback (Ipv4 a b c d) \<longleftrightarrow> a = 127"

fun v4_is_link_local :: "ipv4 \<Rightarrow> bool" where
  "v4_is_link_local (Ipv4 a b c d) \<longleftrightarrow> a = 169 \<and> b = 254"

fun v4_is_multicast :: "ipv4 \<Rightarrow> bool" where
  "v4_is_multicast (Ipv4 a b c d) \<longleftrightarrow> 224 \<le> a \<and> a \<le> 239"

fun v4_is_broadcast :: "ipv4 \<Rightarrow> bool" where
  "v4_is_broadcast (Ipv4 a b c d) \<longleftrightarrow> a = 255 \<and> b = 255 \<and> c = 255 \<and> d = 255"

fun v4_is_unspecified :: "ipv4 \<Rightarrow> bool" where
  "v4_is_unspecified (Ipv4 a b c d) \<longleftrightarrow> a = 0 \<and> b = 0 \<and> c = 0 \<and> d = 0"

fun v4_is_documentation :: "ipv4 \<Rightarrow> bool" where
  "v4_is_documentation (Ipv4 a b c d) \<longleftrightarrow>
     a = 192 \<and> b = 0 \<and> c = 2 \<or> a = 198 \<and> b = 51 \<and> c = 100 \<or> a = 203 \<and> b = 0 \<and> c = 113"

subsection \<open>std::net::Ipv6Addr\<close>

fun v6_to_ipv4_mapped :: "ipv6 \<Rightarrow> ipv4 option" where
  "v6_to_ipv4_mapped (Ipv6 s0 s1 s2 s3 s4 s5 s6 s7) =
     (if s0 = 0 \<and> s1 = 0 \<and> s2 = 0 \<and> s3 = 0 \<and> s4 = 0 \<and> s5 = 0xFFFF
      then Some (Ipv4 (ucast (drop_bit 8 s6)) (ucast s6) (ucast (drop_bit 8 s7)) (ucast s7))
      else None)"

fun v6_is_loopback :: "ipv6 \<Rightarrow> bool" where
  "v6_is_loopback ip \<longleftrightarrow> ip = Ipv6 0 0 0 0 0 0 0 1"

fun v6_is_unspecified :: "ipv6 \<Rightarrow> bool" where
  "v6_is_unspecified ip \<longleftrightarrow> ip = Ipv6 0 0 0 0 0 0 0 0"

fun v6_is_unique_local :: "ipv6 \<Rightarrow> bool" where
  "v6_is_unique_local (Ipv6 s0 s1 s2 s3 s4 s5 s6 s7) \<longleftrightarrow> s0 AND 0xFE00 = 0xFC00"

fun v6_is_multicast :: "ipv6 \<Rightarrow> bool" where
  "v6_is_multicast (Ipv6 s0 s1 s2 s3 s4 s5 s6 s7) \<longleftrightarrow> drop_bit 8 s0 = 0xFF"

fun v6_is_unicast_link_local :: "ipv6 \<Rightarrow> bool" where
  "v6_is_unicast_link_local (Ipv6 s0 s1 s2 s3 s4 s5 s6 s7) \<longleftrightarrow> s0 AND 0xFFC0 = 0xFE80"

section \<open>src/security/ssrf.rs\<close>

fun is_ipv4_shared_space :: "ipv4 \<Rightarrow> bool" where
  "is_ipv4_shared_space (Ipv4 a b c d) \<longleftrightarrow> a = 100 \<and> b AND 0xC0 = 0x40"

fun is_ipv4_reserved_range :: "ipv4 \<Rightarrow> bool" where
  "is_ipv4_reserved_range (Ipv4 a b c d) \<longleftrightarrow> 240 \<le> a"

fun is_ipv4_benchmarking :: "ipv4 \<Rightarrow> bool" where
  "is_ipv4_benchmarking (Ipv4 a b c d) \<longleftrightarrow> a = 198 \<and> (b = 18 \<or> b = 19)"

fun is_ipv4_ietf_protocol_assignments :: "ipv4 \<Rightarrow> bool" where
  "is_ipv4_ietf_protocol_assignments (Ipv4 a b c d) \<longleftrightarrow> a = 192 \<and> b = 0 \<and> c = 0"

fun is_ipv6_documentation :: "ipv6 \<Rightarrow> bool" where
  "is_ipv6_documentation (Ipv6 s0 s1 s2 s3 s4 s5 s6 s7) \<longleftrightarrow> s0 = 0x2001 \<and> s1 = 0x0DB8"

fun is_ipv6_site_local :: "ipv6 \<Rightarrow> bool" where
  "is_ipv6_site_local (Ipv6 s0 s1 s2 s3 s4 s5 s6 s7) \<longleftrightarrow> s0 AND 0xFFC0 = 0xFEC0"

definition is_ipv6_metadata :: "ipv6 \<Rightarrow> bool" where
  "is_ipv6_metadata ip \<longleftrightarrow>
     ip = Ipv6 0xFD00 0x0EC2 0 0 0 0 0 0x0254 \<or> ip = Ipv6 0 0 0 0 0 0xFFFF 0xA9FE 0xA9FE"

text \<open>The two arms of \<open>is_blocked_ip\<close>; the V6 arm re-enters the V4 one on a mapped address.\<close>

definition is_blocked_v4 :: "ipv4 \<Rightarrow> bool \<Rightarrow> bool" where
  "is_blocked_v4 v4 allow_private_ips \<longleftrightarrow>
     (\<not> allow_private_ips \<and> (v4_is_private v4 \<or> v4_is_loopback v4))
     \<or> v4_is_link_local v4
     \<or> v4_is_multicast v4
     \<or> v4_is_broadcast v4
     \<or> v4_is_unspecified v4
     \<or> is_ipv4_reserved_range v4
     \<or> v4_is_documentation v4
     \<or> is_ipv4_shared_space v4
     \<or> is_ipv4_benchmarking v4
     \<or> is_ipv4_ietf_protocol_assignments v4
     \<or> octets v4 = [169, 254, 169, 254]
     \<or> octets v4 = [100, 100, 100, 200]"

fun is_blocked_ip :: "ip_addr \<Rightarrow> bool \<Rightarrow> bool" where
  "is_blocked_ip (V4 v4) allow_private_ips = is_blocked_v4 v4 allow_private_ips"
| "is_blocked_ip (V6 v6) allow_private_ips =
     (case v6_to_ipv4_mapped v6 of
        Some mapped \<Rightarrow> is_blocked_v4 mapped allow_private_ips
      | None \<Rightarrow>
          (\<not> allow_private_ips \<and> (v6_is_loopback v6 \<or> v6_is_unique_local v6 \<or> is_ipv6_site_local v6))
          \<or> v6_is_unspecified v6
          \<or> v6_is_multicast v6
          \<or> v6_is_unicast_link_local v6
          \<or> is_ipv6_documentation v6
          \<or> is_ipv6_metadata v6)"

text \<open>The address in the error message is printed by a parameter, \<open>Display\<close> of \<open>IpAddr\<close>.\<close>

definition ensure_safe_ip :: "(ip_addr \<Rightarrow> string) \<Rightarrow> ip_addr \<Rightarrow> bool \<Rightarrow> unit result" where
  "ensure_safe_ip show_ip ip allow_private_ips =
     (if is_blocked_ip ip allow_private_ips
      then bail (''blocked potentially unsafe IP address `'' @ show_ip ip @ ''`'')
      else Inr ())"

section \<open>src/security/dns.rs\<close>

text \<open>
  The resolver library is a parameter: building it gives an error text or a lookup function,
  a lookup gives an error or the addresses in the order of the answer.
\<close>

type_synonym dns_resolver = "string + (string \<Rightarrow> ip_addr list result)"

definition resolve_and_validate_host ::
    "(ip_addr \<Rightarrow> string) \<Rightarrow> dns_resolver \<Rightarrow> string \<Rightarrow> bool \<Rightarrow> ip_addr list result" where
  "resolve_and_validate_host show_ip builder host allow_private_ips =
     and_then (map_err (\<lambda>e. [''resolver setup failed: '' @ e]) builder) (\<lambda>lookup_ip.
     and_then (with_context (''failed DNS resolution for host `'' @ host @ ''`'') (lookup_ip host)) (\<lambda>response.
     and_then (try_fold (\<lambda>ip ips.
                  and_then (ensure_safe_ip show_ip ip allow_private_ips) (\<lambda>_. Inr (ips @ [ip])))
                response []) (\<lambda>ips.
     if ips = [] then bail (''host `'' @ host @ ''` resolved to no addresses'')
     else Inr ips)))"

section \<open>The CIDR blocks the filter stands for\<close>

text \<open>An address as a number, and membership in a block given by its network and prefix length.\<close>

fun v4_nat :: "ipv4 \<Rightarrow> nat" where
  "v4_nat (Ipv4 a b c d) = ((unat a * 256 + unat b) * 256 + unat c) * 256 + unat d"

definition in_cidr4 :: "ipv4 \<Rightarrow> ipv4 \<times> nat \<Rightarrow> bool" where
  "in_cidr4 ip block \<longleftrightarrow>
     v4_nat ip div 2 ^ (32 - snd block) = v4_nat (fst block) div 2 ^ (32 - snd block)"

definition v4_private_blocks :: "(ipv4 \<times> nat) list" where
  "v4_private_blocks =
     [(Ipv4 10 0 0 0, 8), (Ipv4 172 16 0 0, 12), (Ipv4 192 168 0 0, 16), (Ipv4 127 0 0 0, 8)]"

definition v4_hazard_blocks :: "(ipv4 \<times> nat) list" where
  "v4_hazard_blocks =
     [(Ipv4 0 0 0 0, 32), (Ipv4 100 64 0 0, 10), (Ipv4 169 254 0 0, 16), (Ipv4 192 0 0 0, 24),
      (Ipv4 192 0 2 0, 24), (Ipv4 198 18 0 0, 15), (Ipv4 198 51 100 0, 24),
      (Ipv4 203 0 113 0, 24), (Ipv4 224 0 0 0, 4), (Ipv4 240 0 0 0, 4)]"

fun v6_segments :: "ipv6 \<Rightarrow> nat list" where
  "v6_segments (Ipv6 s0 s1 s2 s3 s4 s5 s6 s7) =
     [unat s0, unat s1, unat s2, unat s3, unat s4, unat s5, unat s6, unat s7]"

definition v6_nat :: "ipv6 \<Rightarrow> nat" where
  "v6_nat ip = foldl (\<lambda>n s. n * 65536 + s) 0 (v6_segments ip)"

definition in_cidr6 :: "ipv6 \<Rightarrow> ipv6 \<times> nat \<Rightarrow> bool" where
  "in_cidr6 ip block \<longleftrightarrow>
     v6_nat ip div 2 ^ (128 - snd block) = v6_nat (fst block) div 2 ^ (128 - snd block)"

definition v6_private_blocks :: "(ipv6 \<times> nat) list" where
  "v6_private_blocks =
     [(Ipv6 0 0 0 0 0 0 0 1, 128), (Ipv6 0xFC00 0 0 0 0 0 0 0, 7), (Ipv6 0xFEC0 0 0 0 0 0 0 0, 10)]"

definition v6_hazard_blocks :: "(ipv6 \<times> nat) list" where
  "v6_hazard_blocks =
     [(Ipv6 0 0 0 0 0 0 0 0, 128), (Ipv6 0xFF00 0 0 0 0 0 0 0, 8), (Ipv6 0xFE80 0 0 0 0 0 0 0, 10),
      (Ipv6 0x2001 0x0DB8 0 0 0 0 0 0, 32), (Ipv6 0xFD00 0x0EC2 0 0 0 0 0 0x0254, 128)]"

definition v6_mapped_block :: "ipv6 \<times> nat" where
  "v6_mapped_block = (Ipv6 0 0 0 0 0 0xFFFF 0 0, 96)"

subsection \<open>Masks and prefixes\<close>

lemma div_prefix: "r < m \<Longrightarrow> (x * m + r) div (m * k) = x div k" for r m x k :: nat
  by (cases "m = 0") (simp_all add: div_mult2_eq)

lemma unat_and_not_mask: "unat (x AND NOT (mask n)) = unat x div 2 ^ n * 2 ^ n"
  for x :: "'a::len word"
proof -
  have "x AND NOT (mask n) = push_bit n (drop_bit n x)"
    by (rule bit_word_eqI) (auto simp: bit_simps)
  then have "(x AND NOT (mask n)) + take_bit n x = x"
    by (simp add: bits_ident)
  then have "x AND NOT (mask n) = x - take_bit n x"
    by (simp add: eq_diff_eq)
  moreover have "take_bit n x \<le> x"
    by (simp add: word_le_nat_alt unsigned_take_bit_eq take_bit_nat_less_eq_self)
  ultimately have "unat (x AND NOT (mask n)) = unat x - unat (take_bit n x)"
    by (simp only: unat_sub)
  then have "unat (x AND NOT (mask n)) = unat x - unat x mod 2 ^ n"
    by (metis take_bit_eq_mod unsigned_take_bit_eq)
  then show ?thesis by (simp add: minus_mod_eq_div_mult)
qed

text \<open>Two numbers in base \<open>m\<close> agree when their digits do.\<close>

lemma digit_eq: "y < m \<Longrightarrow> y' < m \<Longrightarrow> x * m + y = x' * m + y' \<longleftrightarrow> x = x' \<and> y = y'"
  for x x' y y' m :: nat
proof
  assume *: "y < m" "y' < m" "x * m + y = x' * m + y'"
  have "x = (x * m + y) div m" and "y = (x * m + y) mod m"
    using *(1) by simp_all
  with *(2,3) show "x = x' \<and> y = y'" by simp
qed simp

lemma digit_div_eq:
  fixes x x' y y' m k :: nat
  assumes "y < m * k" and "y' < m * k" and "0 < k"
  shows "(x * (m * k) + y) div k = (x' * (m * k) + y') div k \<longleftrightarrow> x = x' \<and> y div k = y' div k"
    (is "?l = ?r \<longleftrightarrow> _")
proof -
  have "?l = x * m + y div k" and "?r = x' * m + y' div k"
    using assms(3) by (simp_all flip: mult.assoc)
  moreover have "y div k < m" and "y' div k < m"
    using assms by (simp_all add: less_mult_imp_div_less)
  ultimately show ?thesis by (simp add: digit_eq)
qed

lemma unat_u8: "unat (x :: u8) < 256"
  using unsigned_less [of x] by simp

lemma unat_u16: "unat (x :: u16) < 65536"
  using unsigned_less [of x] by simp

subsection \<open>The V4 blocks\<close>

declare v4_nat.simps [simp del]

lemma v4_nat_digits:
  "v4_nat (Ipv4 a b c d) = unat a * 16777216 + ((unat b * 256 + unat c) * 256 + unat d)"
  "v4_nat (Ipv4 a b c d) = (unat a * 256 + unat b) * 65536 + (unat c * 256 + unat d)"
  "v4_nat (Ipv4 a b c d) = ((unat a * 256 + unat b) * 256 + unat c) * 256 + unat d"
  by (simp_all add: v4_nat.simps)

lemma v4_div:
  "v4_nat (Ipv4 a b c d) div (16777216 * k) = unat a div k"
  "v4_nat (Ipv4 a b c d) div (65536 * k) = (unat a * 256 + unat b) div k"
  "v4_nat (Ipv4 a b c d) div 256 = (unat a * 256 + unat b) * 256 + unat c"
proof -
  note bounds = unat_u8 [of b] unat_u8 [of c] unat_u8 [of d]
  from bounds show "v4_nat (Ipv4 a b c d) div (16777216 * k) = unat a div k"
    unfolding v4_nat_digits(1) by (intro div_prefix) simp
  from bounds show "v4_nat (Ipv4 a b c d) div (65536 * k) = (unat a * 256 + unat b) div k"
    unfolding v4_nat_digits(2) by (intro div_prefix) simp
  from bounds show "v4_nat (Ipv4 a b c d) div 256 = (unat a * 256 + unat b) * 256 + unat c"
    unfolding v4_nat_digits(3) by simp
qed

lemma pow_split: "n \<le> m \<Longrightarrow> m \<le> w \<Longrightarrow> (2::nat) ^ (w - n) = 2 ^ (w - m) * 2 ^ (m - n)"
  by (simp flip: power_add)

lemma in_cidr4_first:
  "n \<le> 8 \<Longrightarrow> in_cidr4 (Ipv4 a b c d) (Ipv4 a' b' c' d', n) \<longleftrightarrow>
     unat a div 2 ^ (8 - n) = unat a' div 2 ^ (8 - n)"
  using pow_split [of n 8 32] by (simp add: in_cidr4_def v4_div)

lemma in_cidr4_second:
  assumes "8 \<le> n" and "n \<le> 16"
  shows "in_cidr4 (Ipv4 a b c d) (Ipv4 a' b' c' d', n) \<longleftrightarrow>
     a = a' \<and> unat b div 2 ^ (16 - n) = unat b' div 2 ^ (16 - n)"
proof -
  have k: "(256 :: nat) = 2 ^ (n - 8) * 2 ^ (16 - n)"
    using assms by (simp flip: power_add)
  have "in_cidr4 (Ipv4 a b c d) (Ipv4 a' b' c' d', n) \<longleftrightarrow>
     (unat a * 256 + unat b) div 2 ^ (16 - n) = (unat a' * 256 + unat b') div 2 ^ (16 - n)"
    using assms pow_split [of n 16 32] by (simp add: in_cidr4_def v4_div)
  also have "\<dots> \<longleftrightarrow> unat a = unat a' \<and> unat b div 2 ^ (16 - n) = unat b' div 2 ^ (16 - n)"
    using unat_u8 [of b] unat_u8 [of b'] unfolding k by (intro digit_div_eq) simp_all
  finally show ?thesis by (simp add: word_unat_eq_iff)
qed

lemma in_cidr4_third:
  "in_cidr4 (Ipv4 a b c d) (Ipv4 a' b' c' d', 24) \<longleftrightarrow> a = a' \<and> b = b' \<and> c = c'"
proof -
  have "in_cidr4 (Ipv4 a b c d) (Ipv4 a' b' c' d', 24) \<longleftrightarrow>
     (unat a * 256 + unat b) * 256 + unat c = (unat a' * 256 + unat b') * 256 + unat c'"
    using v4_div(3) [of a b c d] v4_div(3) [of a' b' c' d']
    by (simp only: in_cidr4_def fst_conv snd_conv) simp
  then show ?thesis
    unfolding digit_eq [OF unat_u8 unat_u8] by (simp add: word_unat_eq_iff)
qed

lemma in_cidr4_all:
  "in_cidr4 (Ipv4 a b c d) (Ipv4 a' b' c' d', 32) \<longleftrightarrow> a = a' \<and> b = b' \<and> c = c' \<and> d = d'"
  by (simp only: in_cidr4_def v4_nat.simps fst_conv snd_conv diff_self_eq_0 power_0 div_by_1
      digit_eq [OF unat_u8 unat_u8] word_unat_eq_iff [symmetric]) simp

lemmas in_cidr4_simps = in_cidr4_first in_cidr4_second in_cidr4_third in_cidr4_all

lemma unat_mask_consts:
  "(0xC0 :: u8) = NOT (mask 6)" "(0xFFC0 :: u16) = NOT (mask 6)" "(0xFE00 :: u16) = NOT (mask 9)"
  by (simp_all add: mask_eq_exp_minus_1)

lemma masked_eq:
  "(b :: u8) AND 0xC0 = 0x40 \<longleftrightarrow> unat b div 64 = 1"
  "(s :: u16) AND 0xFFC0 = 0xFE80 \<longleftrightarrow> unat s div 64 = 0x3FA"
  "(s :: u16) AND 0xFFC0 = 0xFEC0 \<longleftrightarrow> unat s div 64 = 0x3FB"
  "(s :: u16) AND 0xFE00 = 0xFC00 \<longleftrightarrow> unat s div 512 = 0x7E"
  unfolding unat_mask_consts word_unat_eq_iff unat_and_not_mask by simp_all

lemma small_div:
  "n div 16 = 1 \<longleftrightarrow> 16 \<le> n \<and> n \<le> 31"
  "n div 2 = 9 \<longleftrightarrow> n = 18 \<or> n = 19"
  "n div 16 = 14 \<longleftrightarrow> 224 \<le> n \<and> n \<le> 239"
  "n < 256 \<Longrightarrow> n div 16 = 15 \<longleftrightarrow> 240 \<le> n" for n :: nat
  by auto

lemma octet_range:
  "unat (b :: u8) div 16 = 1 \<longleftrightarrow> 16 \<le> b \<and> b \<le> 31"
  "unat (b :: u8) div 16 = Suc 0 \<longleftrightarrow> 16 \<le> b \<and> b \<le> 31"
  "unat (b :: u8) div 2 = 9 \<longleftrightarrow> b = 18 \<or> b = 19"
  "unat (b :: u8) div 16 = 14 \<longleftrightarrow> 224 \<le> b \<and> b \<le> 239"
  "unat (b :: u8) div 16 = 15 \<longleftrightarrow> 240 \<le> b"
  using small_div [of "unat b"] unat_u8 [of b] by (simp_all add: word_le_nat_alt word_unat_eq_iff)

lemma private_blocks_iff:
  "(\<exists>block \<in> set v4_private_blocks. in_cidr4 v4 block) \<longleftrightarrow> v4_is_private v4 \<or> v4_is_loopback v4"
proof (cases v4)
  case (Ipv4 a b c d)
  have "unat (127 :: u8) = 127" "unat (10 :: u8) = 10" by simp_all
  then show ?thesis
    unfolding Ipv4 v4_private_blocks_def
    by (simp add: in_cidr4_first in_cidr4_second octet_range)
      (auto simp: word_unat_eq_iff)
qed

lemma hazard_block_tests:
  "in_cidr4 (Ipv4 a b c d) (Ipv4 100 64 0 0, 10) \<longleftrightarrow> is_ipv4_shared_space (Ipv4 a b c d)"
  "in_cidr4 (Ipv4 a b c d) (Ipv4 169 254 0 0, 16) \<longleftrightarrow> v4_is_link_local (Ipv4 a b c d)"
  "in_cidr4 (Ipv4 a b c d) (Ipv4 198 18 0 0, 15) \<longleftrightarrow> is_ipv4_benchmarking (Ipv4 a b c d)"
  "in_cidr4 (Ipv4 a b c d) (Ipv4 224 0 0 0, 4) \<longleftrightarrow> v4_is_multicast (Ipv4 a b c d)"
  "in_cidr4 (Ipv4 a b c d) (Ipv4 240 0 0 0, 4) \<longleftrightarrow> is_ipv4_reserved_range (Ipv4 a b c d)"
  "in_cidr4 (Ipv4 a b c d) (Ipv4 192 0 0 0, 24) \<longleftrightarrow> is_ipv4_ietf_protocol_assignments (Ipv4 a b c d)"
  "in_cidr4 (Ipv4 a b c d) (Ipv4 0 0 0 0, 32) \<longleftrightarrow> v4_is_unspecified (Ipv4 a b c d)"
  by (simp_all add: in_cidr4_first in_cidr4_second in_cidr4_third in_cidr4_all octet_range masked_eq)
    (auto simp: word_unat_eq_iff)

lemma hazard_blocks_iff:
  "(\<exists>block \<in> set v4_hazard_blocks. in_cidr4 v4 block) \<longleftrightarrow> is_blocked_v4 v4 True"
proof (cases v4)
  case (Ipv4 a b c d)
  have redundant: "v4_is_broadcast v4 \<Longrightarrow> is_ipv4_reserved_range v4"
    "octets v4 = [169, 254, 169, 254] \<Longrightarrow> v4_is_link_local v4"
    "octets v4 = [100, 100, 100, 200] \<Longrightarrow> is_ipv4_shared_space v4"
    by (auto simp: Ipv4 masked_eq)
  have documentation: "v4_is_documentation v4 \<longleftrightarrow> in_cidr4 v4 (Ipv4 192 0 2 0, 24)
      \<or> in_cidr4 v4 (Ipv4 198 51 100 0, 24) \<or> in_cidr4 v4 (Ipv4 203 0 113 0, 24)"
    by (simp add: Ipv4 in_cidr4_third)
  have "(\<exists>block \<in> set v4_hazard_blocks. in_cidr4 v4 block) \<longleftrightarrow>
      v4_is_unspecified v4 \<or> is_ipv4_shared_space v4 \<or> v4_is_link_local v4
      \<or> is_ipv4_ietf_protocol_assignments v4 \<or> v4_is_documentation v4 \<or> is_ipv4_benchmarking v4
      \<or> v4_is_multicast v4 \<or> is_ipv4_reserved_range v4"
    unfolding documentation unfolding Ipv4 hazard_block_tests [symmetric] v4_hazard_blocks_def
    by (simp only: list.set) blast
  then show ?thesis unfolding is_blocked_v4_def using redundant by blast
qed

lemma blocked_v4_split:
  "is_blocked_v4 v4 allow \<longleftrightarrow> is_blocked_v4 v4 True \<or> \<not> allow \<and> (v4_is_private v4 \<or> v4_is_loopback v4)"
  by (auto simp: is_blocked_v4_def)

subsection \<open>The V6 blocks\<close>

lemma v6_nat_first:
  "v6_nat (Ipv6 s0 s1 s2 s3 s4 s5 s6 s7) div (2 ^ 112 * k) = unat s0 div k"
proof -
  have eq: "v6_nat (Ipv6 s0 s1 s2 s3 s4 s5 s6 s7) = unat s0 * 2 ^ 112 +
      ((((((unat s1 * 65536 + unat s2) * 65536 + unat s3) * 65536 + unat s4) * 65536
        + unat s5) * 65536 + unat s6) * 65536 + unat s7)"
    by (simp add: v6_nat_def)
  show ?thesis
    unfolding eq
    using unat_u16 [of s1] unat_u16 [of s2] unat_u16 [of s3] unat_u16 [of s4]
      unat_u16 [of s5] unat_u16 [of s6] unat_u16 [of s7]
    by (intro div_prefix) simp
qed

lemma in_cidr6_first:
  "n \<le> 16 \<Longrightarrow> in_cidr6 (Ipv6 s0 s1 s2 s3 s4 s5 s6 s7) (Ipv6 t0 t1 t2 t3 t4 t5 t6 t7, n) \<longleftrightarrow>
     unat s0 div 2 ^ (16 - n) = unat t0 div 2 ^ (16 - n)"
  using pow_split [of n 16 128] v6_nat_first [of s0 s1 s2 s3 s4 s5 s6 s7 "2 ^ (16 - n)"]
    v6_nat_first [of t0 t1 t2 t3 t4 t5 t6 t7 "2 ^ (16 - n)"]
  by (simp only: in_cidr6_def fst_conv snd_conv) simp

text \<open>A list of digits below the base as a number.\<close>

lemma horner_append:
  "foldl (\<lambda>n s. n * m + s) a (xs @ ys) = foldl (\<lambda>n s. n * m + s) a xs * m ^ length ys + foldl (\<lambda>n s. n * m + s) 0 ys"
  for m a :: nat
  by (induction ys rule: rev_induct) (simp_all add: algebra_simps flip: append_assoc)

lemma horner_less: "\<forall>x \<in> set xs. x < m \<Longrightarrow> foldl (\<lambda>n s. n * m + s) 0 xs < m ^ length xs" for m :: nat
proof (induction xs rule: rev_induct)
  case (snoc x xs)
  then have "foldl (\<lambda>n s. n * m + s) 0 xs + 1 \<le> m ^ length xs" and "x < m" by simp_all
  then have "(foldl (\<lambda>n s. n * m + s) 0 xs + 1) * m \<le> m ^ length xs * m"
    by (intro mult_le_mono1)
  with \<open>x < m\<close> show ?case by (simp add: algebra_simps)
qed simp

lemma horner_inj:
  "length xs = length ys \<Longrightarrow> \<forall>x \<in> set xs \<union> set ys. x < m \<Longrightarrow>
   foldl (\<lambda>n s. n * m + s) 0 xs = foldl (\<lambda>n s. n * m + s) 0 ys \<longleftrightarrow> xs = ys" for m :: nat
proof (induction xs arbitrary: ys rule: rev_induct)
  case (snoc x xs)
  then obtain y ys' where ys: "ys = ys' @ [y]" by (cases ys rule: rev_cases) auto
  from snoc.prems ys have "x < m" "y < m" "length xs = length ys'" by auto
  then show ?case
    using snoc.IH [of ys'] snoc.prems(2) ys by (simp add: digit_eq)
qed simp

lemma v6_segments_bound: "\<forall>s \<in> set (v6_segments ip). s < 65536"
  by (cases ip) (simp add: unat_u16)

lemma length_v6_segments [simp]: "length (v6_segments ip) = 8"
  by (cases ip) simp

lemma v6_segments_inject: "v6_segments ip = v6_segments ip' \<longleftrightarrow> ip = ip'"
  by (cases ip; cases ip') (simp add: word_unat_eq_iff)

lemma v6_nat_div:
  assumes "k \<le> 8"
  shows "v6_nat ip div 2 ^ (16 * k) = foldl (\<lambda>n s. n * 65536 + s) 0 (take (8 - k) (v6_segments ip))"
proof -
  let ?h = "foldl (\<lambda>n s. n * 65536 + s) (0 :: nat)"
  have len: "length (drop (8 - k) (v6_segments ip)) = k" using assms by simp
  have "?h (drop (8 - k) (v6_segments ip)) < 65536 ^ k"
    using horner_less [of "drop (8 - k) (v6_segments ip)" 65536] v6_segments_bound [of ip] len
    by (metis in_set_dropD)
  moreover have "v6_nat ip = ?h (take (8 - k) (v6_segments ip)) * 65536 ^ k + ?h (drop (8 - k) (v6_segments ip))"
    unfolding v6_nat_def
    by (subst append_take_drop_id [of "8 - k", symmetric], subst horner_append) (simp only: len)
  moreover have "(2 :: nat) ^ (16 * k) = 65536 ^ k" by (simp add: power_mult)
  ultimately show ?thesis by simp
qed

text \<open>A block whose prefix ends at a segment boundary compares the leading segments.\<close>

lemma in_cidr6_segments:
  assumes "k \<le> 8"
  shows "in_cidr6 ip (net, 128 - 16 * k) \<longleftrightarrow> take (8 - k) (v6_segments ip) = take (8 - k) (v6_segments net)"
proof -
  have "128 - (128 - 16 * k) = 16 * k" using assms by simp
  moreover have "\<forall>s \<in> set (take (8 - k) (v6_segments ip)) \<union> set (take (8 - k) (v6_segments net)). s < 65536"
    using v6_segments_bound by (blast dest: in_set_takeD)
  ultimately show ?thesis
    by (simp only: in_cidr6_def v6_nat_div [OF assms] horner_inj length_take length_v6_segments snd_conv fst_conv)
qed

lemma in_cidr6_all: "in_cidr6 ip (net, 128) \<longleftrightarrow> ip = net"
  using in_cidr6_segments [of 0 ip net] by (simp add: v6_segments_inject)

lemma in_cidr6_two:
  "in_cidr6 (Ipv6 s0 s1 s2 s3 s4 s5 s6 s7) (Ipv6 t0 t1 t2 t3 t4 t5 t6 t7, 32) \<longleftrightarrow> s0 = t0 \<and> s1 = t1"
  using in_cidr6_segments [of 6 "Ipv6 s0 s1 s2 s3 s4 s5 s6 s7" "Ipv6 t0 t1 t2 t3 t4 t5 t6 t7"]
  by (simp add: word_unat_eq_iff)

lemma in_mapped_block: "in_cidr6 v6 v6_mapped_block \<longleftrightarrow> v6_to_ipv4_mapped v6 \<noteq> None"
proof (cases v6)
  case (Ipv6 s0 s1 s2 s3 s4 s5 s6 s7)
  then show ?thesis
    using in_cidr6_segments [of 2 v6 "Ipv6 0 0 0 0 0 0xFFFF 0 0"]
    by (simp add: v6_mapped_block_def word_unat_eq_iff)
qed

lemma high_byte: "drop_bit 8 (s :: u16) = 0xFF \<longleftrightarrow> unat s div 256 = 0xFF"
  by (simp only: word_unat_eq_iff unat_drop_bit_eq) (simp add: drop_bit_eq_div)

lemma v6_private_blocks_iff:
  "(\<exists>block \<in> set v6_private_blocks. in_cidr6 v6 block) \<longleftrightarrow>
     v6_is_loopback v6 \<or> v6_is_unique_local v6 \<or> is_ipv6_site_local v6"
  by (cases v6)
    (simp add: v6_private_blocks_def masked_eq in_cidr6_first in_cidr6_all)

lemma v6_hazard_blocks_iff:
  "(\<exists>block \<in> set v6_hazard_blocks. in_cidr6 v6 block) \<longleftrightarrow>
     v6_is_unspecified v6 \<or> v6_is_multicast v6 \<or> v6_is_unicast_link_local v6
     \<or> is_ipv6_documentation v6 \<or> v6 = Ipv6 0xFD00 0x0EC2 0 0 0 0 0 0x0254"
  by (cases v6)
    (simp add: v6_hazard_blocks_def masked_eq high_byte in_cidr6_first in_cidr6_two in_cidr6_all)

section \<open>What the filter blocks\<close>

text \<open>
  C1. On an IPv4 address the octet tests of \<open>is_blocked_ip\<close> are exactly the CIDR list: the
  hazard blocks (metadata, link-local, shared, documentation, benchmarking, multicast, reserved)
  always, and the private and loopback blocks unless private addresses are allowed.
\<close>

theorem is_blocked_v4_cidr:
  "is_blocked_ip (V4 v4) allow \<longleftrightarrow>
     (\<exists>block \<in> set v4_hazard_blocks. in_cidr4 v4 block)
     \<or> \<not> allow \<and> (\<exists>block \<in> set v4_private_blocks. in_cidr4 v4 block)"
  unfolding hazard_blocks_iff private_blocks_iff by (simp add: blocked_v4_split [of v4 allow])

text \<open>
  C3. On an IPv6 address the decision is the one for the embedded address inside the mapped block
  \<open>::ffff:0:0/96\<close>, and the CIDR list outside it; the second metadata alias, which lies in the
  mapped block, is covered by the link-local block.
\<close>

theorem is_blocked_v6_cidr:
  "is_blocked_ip (V6 v6) allow \<longleftrightarrow>
     (if in_cidr6 v6 v6_mapped_block then is_blocked_ip (V4 (the (v6_to_ipv4_mapped v6))) allow
      else (\<exists>block \<in> set v6_hazard_blocks. in_cidr6 v6 block)
           \<or> \<not> allow \<and> (\<exists>block \<in> set v6_private_blocks. in_cidr6 v6 block))"
proof (cases "v6_to_ipv4_mapped v6")
  case None
  then have "v6 \<noteq> Ipv6 0 0 0 0 0 0xFFFF 0xA9FE 0xA9FE" by auto
  with None show ?thesis
    unfolding in_mapped_block v6_hazard_blocks_iff v6_private_blocks_iff is_blocked_ip.simps is_ipv6_metadata_def
    by auto
next
  case (Some v4)
  then show ?thesis unfolding in_mapped_block by simp
qed

text \<open>
  Allowing private addresses only ever unblocks addresses of the private and loopback blocks,
  directly or as a mapped IPv6 address: every other decision is the same.
\<close>

theorem allow_private_only_private:
  "(is_blocked_ip ip False \<noteq> is_blocked_ip ip True) \<longleftrightarrow>
     \<not> is_blocked_ip ip True \<and>
     (case ip of
        V4 v4 \<Rightarrow> \<exists>block \<in> set v4_private_blocks. in_cidr4 v4 block
      | V6 v6 \<Rightarrow> (case v6_to_ipv4_mapped v6 of
            Some v4 \<Rightarrow> \<exists>block \<in> set v4_private_blocks. in_cidr4 v4 block
          | None \<Rightarrow> \<exists>block \<in> set v6_private_blocks. in_cidr6 v6 block))"
  unfolding private_blocks_iff v6_private_blocks_iff
  by (cases ip) (auto simp: is_blocked_v4_def split: option.splits)

lemma blocked_mono: "is_blocked_ip ip True \<Longrightarrow> is_blocked_ip ip allow"
  by (cases ip) (auto simp: is_blocked_v4_def split: option.splits)

text \<open>The documented cloud metadata endpoints stay blocked when private addresses are allowed.\<close>

lemma metadata_always_blocked:
  "is_blocked_ip (V4 (Ipv4 169 254 169 254)) allow"
  "is_blocked_ip (V4 (Ipv4 100 100 100 200)) allow"
  "is_blocked_ip (V6 (Ipv6 0xFD00 0x0EC2 0 0 0 0 0 0x0254)) allow"
  "is_blocked_ip (V6 (Ipv6 0 0 0 0 0 0xFFFF 0xA9FE 0xA9FE)) allow"
  by (simp_all add: is_blocked_v4_def is_ipv6_metadata_def)

text \<open>IPv6 forms that embed an IPv4 address other than the mapped one are not decoded: a
  NAT64 or IPv4-compatible address of a blocked host passes.\<close>

lemma embedded_forms_pass:
  "\<not> is_blocked_ip (V6 (Ipv6 0x64 0xFF9B 0 0 0 0 0xA9FE 0xA9FE)) allow"
  "\<not> is_blocked_ip (V6 (Ipv6 0 0 0 0 0 0 0xA9FE 0xA9FE)) allow"
  by (simp_all add: is_ipv6_metadata_def)

section \<open>Resolution\<close>

text \<open>The contract the clients of the resolver rely on: a validated host has an address, and
  all its addresses are safe. What a provider has to promise is stated as a locale.\<close>

locale host_validator =
  fixes validate :: "string \<Rightarrow> bool \<Rightarrow> ip_addr list result"
    and blocked :: "ip_addr \<Rightarrow> bool \<Rightarrow> bool"
  assumes validated_nonempty: "validate host allow = Inr ips \<Longrightarrow> ips \<noteq> []"
    and validated_safe: "validate host allow = Inr ips \<Longrightarrow> ip \<in> set ips \<Longrightarrow> \<not> blocked ip allow"
begin

lemma validated_hd: "validate host allow = Inr ips \<Longrightarrow> \<not> blocked (hd ips) allow"
  using validated_nonempty validated_safe by (simp add: list.set_sel(1))

lemma validated_list:
  "validate host allow = Inr ips \<Longrightarrow> ips \<noteq> [] \<and> (\<forall>ip \<in> set ips. \<not> blocked ip allow)"
  using validated_nonempty validated_safe by blast

text \<open>A connection is only opened to a member of a validated list, so a blocked address is never
  dialled, whatever is done with the list.\<close>

lemma no_blocked_target:
  "validate host allow = Inr ips \<Longrightarrow> blocked ip allow \<Longrightarrow> ip \<notin> set ips"
  using validated_safe by blast

end

lemma ensure_safe_ip_Inr [result_simps]:
  "ensure_safe_ip show_ip ip allow = Inr u \<longleftrightarrow> \<not> is_blocked_ip ip allow"
  by (simp add: ensure_safe_ip_def result_simps)

lemma collect_safe:
  "try_fold (\<lambda>ip ips. and_then (ensure_safe_ip show_ip ip allow) (\<lambda>_. Inr (ips @ [ip]))) response acc
     = Inr ips \<longleftrightarrow> ips = acc @ response \<and> (\<forall>ip \<in> set response. \<not> is_blocked_ip ip allow)"
  by (induction response arbitrary: acc) (auto simp: result_simps)

text \<open>
  C6. Host validation succeeds exactly when the resolver answers with at least one address and
  none of them is blocked, and then it returns the whole answer in its order: a single unsafe
  record rejects the host.
\<close>

theorem resolve_and_validate_host_iff:
  "resolve_and_validate_host show_ip builder host allow = Inr ips \<longleftrightarrow>
     (\<exists>lookup. builder = Inr lookup \<and> lookup host = Inr ips) \<and> ips \<noteq> []
     \<and> (\<forall>ip \<in> set ips. \<not> is_blocked_ip ip allow)"
  unfolding resolve_and_validate_host_def
  by (auto simp: result_simps collect_safe)

theorem resolve_and_validate_host_iff_witness:
  "resolve_and_validate_host (\<lambda>_. ''ip'') (Inr (\<lambda>h. Inr [V4 (Ipv4 93 184 216 34)])) ''example.com'' False
     = Inr [V4 (Ipv4 93 184 216 34)]
   \<and> resolve_and_validate_host (\<lambda>_. ''ip'') (Inr (\<lambda>h. Inr [V4 (Ipv4 93 184 216 34), V4 (Ipv4 10 0 0 1)]))
        ''example.com'' False \<noteq> Inr [V4 (Ipv4 93 184 216 34), V4 (Ipv4 10 0 0 1)]"
  unfolding resolve_and_validate_host_iff by (simp add: is_blocked_v4_def)

lemma resolve_lookup:
  "resolve_and_validate_host show_ip builder host allow = Inr ips \<Longrightarrow>
     ips \<noteq> [] \<and> (\<forall>ip \<in> set ips. \<not> is_blocked_ip ip allow)"
  unfolding resolve_and_validate_host_def by (auto simp: result_simps collect_safe)

interpretation dns: host_validator "resolve_and_validate_host show_ip builder" is_blocked_ip
  for show_ip builder
  by unfold_locales (auto dest: resolve_lookup)

end
