(* ===== verification/Json.thy ===== *)
theory Json
  imports RustStr
begin

text \<open>
  \<open>serde_json::Value\<close> and the accessors the sources call. The crate is built without its
  \<open>preserve_order\<close> feature (it has no \<open>indexmap\<close> dependency in the lock file), so an object
  is a \<open>BTreeMap\<close>: an association list in ascending key order. An \<open>f64\<close> is its IEEE 754 bit
  pattern; conversions to and from decimal text are parameters where they are used.
\<close>

type_synonym f64 = "64 word"

text \<open>A \<open>serde_json::Number\<close>: not negative, negative, or a finite float.\<close>

datatype number = PosInt u64 | NegInt int | Float f64

datatype json =
    JNull
  | JBool bool
  | JNumber number
  | JString string
  | JArray "json list"
  | JObject "(string \<times> json) list"

type_synonym json_map = "(string, json) btree"

fun number_as_i64 :: "number \<Rightarrow> int option" where
  "number_as_i64 (PosInt n) = (if uint n \<le> 2 ^ 63 - 1 then Some (uint n) else None)"
| "number_as_i64 (NegInt i) = Some i"
| "number_as_i64 (Float f) = None"

text \<open>\<open>Number::from\<close> on an \<open>i64\<close> and on an unsigned value.\<close>

definition number_of_i64 :: "int \<Rightarrow> number" where
  "number_of_i64 i = (if i < 0 then NegInt i else PosInt (word_of_int i))"

fun as_i64 :: "json \<Rightarrow> int option" where
  "as_i64 (JNumber n) = number_as_i64 n"
| "as_i64 v = None"

fun is_null :: "json \<Rightarrow> bool" where
  "is_null JNull = True" | "is_null v = False"

fun is_boolean :: "json \<Rightarrow> bool" where
  "is_boolean (JBool b) = True" | "is_boolean v = False"

fun is_number :: "json \<Rightarrow> bool" where
  "is_number (JNumber n) = True" | "is_number v = False"

fun is_string :: "json \<Rightarrow> bool" where
  "is_string (JString s) = True" | "is_string v = False"

fun is_array :: "json \<Rightarrow> bool" where
  "is_array (JArray vs) = True" | "is_array v = False"

fun is_object :: "json \<Rightarrow> bool" where
  "is_object (JObject m) = True" | "is_object v = False"

fun as_str :: "json \<Rightarrow> string option" where
  "as_str (JString s) = Some s" | "as_str v = None"

fun as_object :: "json \<Rightarrow> json_map option" where
  "as_object (JObject m) = Some m" | "as_object v = None"

text \<open>\<open>Value::get\<close> with a string key.\<close>

fun json_get :: "json \<Rightarrow> string \<Rightarrow> json option" where
  "json_get (JObject m) k = bt_get m k"
| "json_get v k = None"

text \<open>Indexing with a string: null where there is no such member.\<close>

definition json_at :: "json \<Rightarrow> string \<Rightarrow> json" where
  "json_at v key = (case json_get v key of Some x \<Rightarrow> x | None \<Rightarrow> JNull)"

fun as_array :: "json \<Rightarrow> json list option" where
  "as_array (JArray vs) = Some vs" | "as_array v = None"

fun as_bool :: "json \<Rightarrow> bool option" where
  "as_bool (JBool b) = Some b" | "as_bool v = None"

fun as_u64 :: "json \<Rightarrow> u64 option" where
  "as_u64 (JNumber (PosInt n)) = Some n" | "as_u64 v = None"

text \<open>An object literal: the macro \<open>json!\<close> and \<open>Map::from_iter\<close> sort the keys.\<close>

definition jobj :: "(string \<times> json) list \<Rightarrow> json" where
  "jobj kvs = JObject (bt_from_iter kvs)"

lemma json_get_jobj [simp]: "json_get (jobj kvs) k = map_of (rev kvs) k"
  by (simp add: jobj_def bt_get_from_iter)

lemma as_i64_number_of_i64:
  "- (2 ^ 63) \<le> i \<Longrightarrow> i < 2 ^ 63 \<Longrightarrow> number_as_i64 (number_of_i64 i) = Some i"
  by (simp add: number_of_i64_def uint_word_of_int)

text \<open>Every object in a value has its keys in strictly ascending order.\<close>

fun json_ok :: "json \<Rightarrow> bool" and json_list_ok :: "json list \<Rightarrow> bool"
  and json_fields_ok :: "(string \<times> json) list \<Rightarrow> bool" where
  "json_ok (JArray vs) = json_list_ok vs"
| "json_ok (JObject m) = (bt_ok m \<and> json_fields_ok m)"
| "json_ok v = True"
| "json_list_ok [] = True"
| "json_list_ok (v # vs) = (json_ok v \<and> json_list_ok vs)"
| "json_fields_ok [] = True"
| "json_fields_ok ((k, v) # m) = (json_ok v \<and> json_fields_ok m)"

lemma json_list_ok_iff: "json_list_ok vs \<longleftrightarrow> (\<forall>v \<in> set vs. json_ok v)"
  by (induction vs) auto

lemma json_fields_ok_iff: "json_fields_ok m \<longleftrightarrow> (\<forall>v \<in> set (bt_values m). json_ok v)"
  by (induction m) auto

text \<open>Every string leaf of a value: what a template engine or a redactor has to look at.\<close>

fun json_strings :: "json \<Rightarrow> string list" and json_list_strings :: "json list \<Rightarrow> string list"
  and json_fields_strings :: "(string \<times> json) list \<Rightarrow> string list" where
  "json_strings (JString s) = [s]"
| "json_strings (JArray vs) = json_list_strings vs"
| "json_strings (JObject m) = json_fields_strings m"
| "json_strings v = []"
| "json_list_strings [] = []"
| "json_list_strings (v # vs) = json_strings v @ json_list_strings vs"
| "json_fields_strings [] = []"
| "json_fields_strings ((k, v) # m) = json_strings v @ json_fields_strings m"

end
