(* ===== verification/BrowserSchema.thy ===== *)
theory BrowserSchema
  imports Json
begin

text \<open>
  The steps of a browser command (\<open>crates/earl-protocol-browser/src/schema.rs\<close>): one
  constructor per variant of \<open>BrowserStep\<close>, with the fields in the source's order, and the
  three accessors that match on all of them. \<open>Close\<close> is \<open>Close_Tab\<close> here.
\<close>

definition unwrap_or :: "'a option \<Rightarrow> 'a \<Rightarrow> 'a" where
  "unwrap_or x d = (case x of None \<Rightarrow> d | Some y \<Rightarrow> y)"

lemma unwrap_or_simps [simp]: "unwrap_or None d = d" "unwrap_or (Some x) d = x"
  by (simp_all add: unwrap_or_def)

datatype (plugins only: ) browser_step =
    Navigate string "u16 option" "u64 option" bool
  | NavigateBack "u64 option" bool
  | NavigateForward "u64 option" bool
  | Reload "u64 option" bool
  | Snapshot "u64 option" bool
  | Screenshot "string option" "string option" bool "string option" "u64 option" bool
  | ConsoleMessages "string option" "u64 option" bool
  | ConsoleClear bool
  | NetworkRequests bool bool
  | NetworkClear bool
  | Click "string option" "string option" bool "u64 option" bool
  | Hover "string option" "string option" "u64 option" bool
  | Drag "string option" "string option" "string option" "string option" "u64 option" bool
  | Fill "string option" "string option" string "bool option" "u64 option" bool
  | FillForm "json list" "u64 option" bool
  | SelectOption "string option" "string option" "string list" "u64 option" bool
  | PressKey string "u64 option" bool
  | Check "string option" "string option" "u64 option" bool
  | Uncheck "string option" "string option" "u64 option" bool
  | MouseMove f64 f64 bool
  | MouseClick f64 f64 "string option" bool
  | MouseDrag f64 f64 f64 f64 bool
  | MouseDown "string option" bool
  | MouseUp "string option" bool
  | MouseWheel f64 f64 bool
  | WaitFor "f64 option" "string option" "string option" "u64 option" bool
  | VerifyElementVisible "string option" "string option" bool
  | VerifyTextVisible string bool
  | VerifyListVisible "string option" "string list" bool
  | VerifyValue "string option" string bool
  | Evaluate string "string option" "u64 option" bool
  | RunCode string "u64 option" bool
  | Tabs string "usize option" bool
  | Resize u32 u32 bool
  | Close_Tab bool
  | Route string "u16 option" "string option" "string option" bool
  | RouteList bool
  | Unroute string bool
  | CookieList "string option" bool
  | CookieGet string bool
  | CookieSet string string "string option" "string option" "f64 option" bool bool bool
  | CookieDelete string bool
  | CookieClear bool
  | LocalStorageGet string bool
  | LocalStorageSet string string bool
  | LocalStorageDelete string bool
  | LocalStorageClear bool
  | SessionStorageGet string bool
  | SessionStorageSet string string bool
  | SessionStorageDelete string bool
  | SessionStorageClear bool
  | StorageState "string option" bool
  | SetStorageState string bool
  | FileUpload "string list" "u64 option" bool
  | HandleDialog bool "string option" bool
  | Download string "u64 option" bool
  | PdfSave "string option" bool
  | StartVideo "u32 option" "u32 option" bool
  | StopVideo "string option" bool
  | StartTracing bool
  | StopTracing "string option" bool
  | GenerateLocator string bool

primrec action_name :: "browser_step \<Rightarrow> string" where
  "action_name (Navigate a0 a1 a2 a3) = ''navigate''"
| "action_name (NavigateBack a0 a1) = ''navigate_back''"
| "action_name (NavigateForward a0 a1) = ''navigate_forward''"
| "action_name (Reload a0 a1) = ''reload''"
| "action_name (Snapshot a0 a1) = ''snapshot''"
| "action_name (Screenshot a0 a1 a2 a3 a4 a5) = ''screenshot''"
| "action_name (ConsoleMessages a0 a1 a2) = ''console_messages''"
| "action_name (ConsoleClear a0) = ''console_clear''"
| "action_name (NetworkRequests a0 a1) = ''network_requests''"
| "action_name (NetworkClear a0) = ''network_clear''"
| "action_name (Click a0 a1 a2 a3 a4) = ''click''"
| "action_name (Hover a0 a1 a2 a3) = ''hover''"
| "action_name (Drag a0 a1 a2 a3 a4 a5) = ''drag''"
| "action_name (Fill a0 a1 a2 a3 a4 a5) = ''fill''"
| "action_name (FillForm a0 a1 a2) = ''fill_form''"
| "action_name (SelectOption a0 a1 a2 a3 a4) = ''select_option''"
| "action_name (PressKey a0 a1 a2) = ''press_key''"
| "action_name (Check a0 a1 a2 a3) = ''check''"
| "action_name (Uncheck a0 a1 a2 a3) = ''uncheck''"
| "action_name (MouseMove a0 a1 a2) = ''mouse_move''"
| "action_name (MouseClick a0 a1 a2 a3) = ''mouse_click''"
| "action_name (MouseDrag a0 a1 a2 a3 a4) = ''mouse_drag''"
| "action_name (MouseDown a0 a1) = ''mouse_down''"
| "action_name (MouseUp a0 a1) = ''mouse_up''"
| "action_name (MouseWheel a0 a1 a2) = ''mouse_wheel''"
| "action_name (WaitFor a0 a1 a2 a3 a4) = ''wait_for''"
| "action_name (VerifyElementVisible a0 a1 a2) = ''verify_element_visible''"
| "action_name (VerifyTextVisible a0 a1) = ''verify_text_visible''"
| "action_name (VerifyListVisible a0 a1 a2) = ''verify_list_visible''"
| "action_name (VerifyValue a0 a1 a2) = ''verify_value''"
| "action_name (Evaluate a0 a1 a2 a3) = ''evaluate''"
| "action_name (RunCode a0 a1 a2) = ''run_code''"
| "action_name (Tabs a0 a1 a2) = ''tabs''"
| "action_name (Resize a0 a1 a2) = ''resize''"
| "action_name (Close_Tab a0) = ''close''"
| "action_name (Route a0 a1 a2 a3 a4) = ''route''"
| "action_name (RouteList a0) = ''route_list''"
| "action_name (Unroute a0 a1) = ''unroute''"
| "action_name (CookieList a0 a1) = ''cookie_list''"
| "action_name (CookieGet a0 a1) = ''cookie_get''"
| "action_name (CookieSet a0 a1 a2 a3 a4 a5 a6 a7) = ''cookie_set''"
| "action_name (CookieDelete a0 a1) = ''cookie_delete''"
| "action_name (CookieClear a0) = ''cookie_clear''"
| "action_name (LocalStorageGet a0 a1) = ''local_storage_get''"
| "action_name (LocalStorageSet a0 a1 a2) = ''local_storage_set''"
| "action_name (LocalStorageDelete a0 a1) = ''local_storage_delete''"
| "action_name (LocalStorageClear a0) = ''local_storage_clear''"
| "action_name (SessionStorageGet a0 a1) = ''session_storage_get''"
| "action_name (SessionStorageSet a0 a1 a2) = ''session_storage_set''"
| "action_name (SessionStorageDelete a0 a1) = ''session_storage_delete''"
| "action_name (SessionStorageClear a0) = ''session_storage_clear''"
| "action_name (StorageState a0 a1) = ''storage_state''"
| "action_name (SetStorageState a0 a1) = ''set_storage_state''"
| "action_name (FileUpload a0 a1 a2) = ''file_upload''"
| "action_name (HandleDialog a0 a1 a2) = ''handle_dialog''"
| "action_name (Download a0 a1 a2) = ''download''"
| "action_name (PdfSave a0 a1) = ''pdf_save''"
| "action_name (StartVideo a0 a1 a2) = ''start_video''"
| "action_name (StopVideo a0 a1) = ''stop_video''"
| "action_name (StartTracing a0) = ''start_tracing''"
| "action_name (StopTracing a0 a1) = ''stop_tracing''"
| "action_name (GenerateLocator a0 a1) = ''generate_locator''"

primrec is_optional :: "browser_step \<Rightarrow> bool" where
  "is_optional (Navigate a0 a1 a2 optional) = optional"
| "is_optional (NavigateBack a0 optional) = optional"
| "is_optional (NavigateForward a0 optional) = optional"
| "is_optional (Reload a0 optional) = optional"
| "is_optional (Snapshot a0 optional) = optional"
| "is_optional (Screenshot a0 a1 a2 a3 a4 optional) = optional"
| "is_optional (ConsoleMessages a0 a1 optional) = optional"
| "is_optional (ConsoleClear optional) = optional"
| "is_optional (NetworkRequests a0 optional) = optional"
| "is_optional (NetworkClear optional) = optional"
| "is_optional (Click a0 a1 a2 a3 optional) = optional"
| "is_optional (Hover a0 a1 a2 optional) = optional"
| "is_optional (Drag a0 a1 a2 a3 a4 optional) = optional"
| "is_optional (Fill a0 a1 a2 a3 a4 optional) = optional"
| "is_optional (FillForm a0 a1 optional) = optional"
| "is_optional (SelectOption a0 a1 a2 a3 optional) = optional"
| "is_optional (PressKey a0 a1 optional) = optional"
| "is_optional (Check a0 a1 a2 optional) = optional"
| "is_optional (Uncheck a0 a1 a2 optional) = optional"
| "is_optional (MouseMove a0 a1 optional) = optional"
| "is_optional (MouseClick a0 a1 a2 optional) = optional"
| "is_optional (MouseDrag a0 a1 a2 a3 optional) = optional"
| "is_optional (MouseDown a0 optional) = optional"
| "is_optional (MouseUp a0 optional) = optional"
| "is_optional (MouseWheel a0 a1 optional) = optional"
| "is_optional (WaitFor a0 a1 a2 a3 optional) = optional"
| "is_optional (VerifyElementVisible a0 a1 optional) = optional"
| "is_optional (VerifyTextVisible a0 optional) = optional"
| "is_optional (VerifyListVisible a0 a1 optional) = optional"
| "is_optional (VerifyValue a0 a1 optional) = optional"
| "is_optional (Evaluate a0 a1 a2 optional) = optional"
| "is_optional (RunCode a0 a1 optional) = optional"
| "is_optional (Tabs a0 a1 optional) = optional"
| "is_optional (Resize a0 a1 optional) = optional"
| "is_optional (Close_Tab optional) = optional"
| "is_optional (Route a0 a1 a2 a3 optional) = optional"
| "is_optional (RouteList optional) = optional"
| "is_optional (Unroute a0 optional) = optional"
| "is_optional (CookieList a0 optional) = optional"
| "is_optional (CookieGet a0 optional) = optional"
| "is_optional (CookieSet a0 a1 a2 a3 a4 a5 a6 optional) = optional"
| "is_optional (CookieDelete a0 optional) = optional"
| "is_optional (CookieClear optional) = optional"
| "is_optional (LocalStorageGet a0 optional) = optional"
| "is_optional (LocalStorageSet a0 a1 optional) = optional"
| "is_optional (LocalStorageDelete a0 optional) = optional"
| "is_optional (LocalStorageClear optional) = optional"
| "is_optional (SessionStorageGet a0 optional) = optional"
| "is_optional (SessionStorageSet a0 a1 optional) = optional"
| "is_optional (SessionStorageDelete a0 optional) = optional"
| "is_optional (SessionStorageClear optional) = optional"
| "is_optional (StorageState a0 optional) = optional"
| "is_optional (SetStorageState a0 optional) = optional"
| "is_optional (FileUpload a0 a1 optional) = optional"
| "is_optional (HandleDialog a0 a1 optional) = optional"
| "is_optional (Download a0 a1 optional) = optional"
| "is_optional (PdfSave a0 optional) = optional"
| "is_optional (StartVideo a0 a1 optional) = optional"
| "is_optional (StopVideo a0 optional) = optional"
| "is_optional (StartTracing optional) = optional"
| "is_optional (StopTracing a0 optional) = optional"
| "is_optional (GenerateLocator a0 optional) = optional"

primrec step_timeout_ms :: "browser_step \<Rightarrow> u64 \<Rightarrow> u64" where
  "step_timeout_ms (Navigate a0 a1 timeout_ms a3) = (\<lambda>global. unwrap_or timeout_ms global)"
| "step_timeout_ms (NavigateBack timeout_ms a1) = (\<lambda>global. unwrap_or timeout_ms global)"
| "step_timeout_ms (NavigateForward timeout_ms a1) = (\<lambda>global. unwrap_or timeout_ms global)"
| "step_timeout_ms (Reload timeout_ms a1) = (\<lambda>global. unwrap_or timeout_ms global)"
| "step_timeout_ms (Snapshot timeout_ms a1) = (\<lambda>global. unwrap_or timeout_ms global)"
| "step_timeout_ms (Screenshot a0 a1 a2 a3 timeout_ms a5) = (\<lambda>global. unwrap_or timeout_ms global)"
| "step_timeout_ms (ConsoleMessages a0 timeout_ms a2) = (\<lambda>global. unwrap_or timeout_ms global)"
| "step_timeout_ms (ConsoleClear a0) = (\<lambda>global. global)"
| "step_timeout_ms (NetworkRequests a0 a1) = (\<lambda>global. global)"
| "step_timeout_ms (NetworkClear a0) = (\<lambda>global. global)"
| "step_timeout_ms (Click a0 a1 a2 timeout_ms a4) = (\<lambda>global. unwrap_or timeout_ms global)"
| "step_timeout_ms (Hover a0 a1 timeout_ms a3) = (\<lambda>global. unwrap_or timeout_ms global)"
| "step_timeout_ms (Drag a0 a1 a2 a3 timeout_ms a5) = (\<lambda>global. unwrap_or timeout_ms global)"
| "step_timeout_ms (Fill a0 a1 a2 a3 timeout_ms a5) = (\<lambda>global. unwrap_or timeout_ms global)"
| "step_timeout_ms (FillForm a0 timeout_ms a2) = (\<lambda>global. unwrap_or timeout_ms global)"
| "step_timeout_ms (SelectOption a0 a1 a2 timeout_ms a4) = (\<lambda>global. unwrap_or timeout_ms global)"
| "step_timeout_ms (PressKey a0 timeout_ms a2) = (\<lambda>global. unwrap_or timeout_ms global)"
| "step_timeout_ms (Check a0 a1 timeout_ms a3) = (\<lambda>global. unwrap_or timeout_ms global)"
| "step_timeout_ms (Uncheck a0 a1 timeout_ms a3) = (\<lambda>global. unwrap_or timeout_ms global)"
| "step_timeout_ms (MouseMove a0 a1 a2) = (\<lambda>global. global)"
| "step_timeout_ms (MouseClick a0 a1 a2 a3) = (\<lambda>global. global)"
| "step_timeout_ms (MouseDrag a0 a1 a2 a3 a4) = (\<lambda>global. global)"
| "step_timeout_ms (MouseDown a0 a1) = (\<lambda>global. global)"
| "step_timeout_ms (MouseUp a0 a1) = (\<lambda>global. global)"
| "step_timeout_ms (MouseWheel a0 a1 a2) = (\<lambda>global. global)"
| "step_timeout_ms (WaitFor a0 a1 a2 timeout_ms a4) = (\<lambda>global. unwrap_or timeout_ms global)"
| "step_timeout_ms (VerifyElementVisible a0 a1 a2) = (\<lambda>global. global)"
| "step_timeout_ms (VerifyTextVisible a0 a1) = (\<lambda>global. global)"
| "step_timeout_ms (VerifyListVisible a0 a1 a2) = (\<lambda>global. global)"
| "step_timeout_ms (VerifyValue a0 a1 a2) = (\<lambda>global. global)"
| "step_timeout_ms (Evaluate a0 a1 timeout_ms a3) = (\<lambda>global. unwrap_or timeout_ms global)"
| "step_timeout_ms (RunCode a0 timeout_ms a2) = (\<lambda>global. unwrap_or timeout_ms global)"
| "step_timeout_ms (Tabs a0 a1 a2) = (\<lambda>global. global)"
| "step_timeout_ms (Resize a0 a1 a2) = (\<lambda>global. global)"
| "step_timeout_ms (Close_Tab a0) = (\<lambda>global. global)"
| "step_timeout_ms (Route a0 a1 a2 a3 a4) = (\<lambda>global. global)"
| "step_timeout_ms (RouteList a0) = (\<lambda>global. global)"
| "step_timeout_ms (Unroute a0 a1) = (\<lambda>global. global)"
| "step_timeout_ms (CookieList a0 a1) = (\<lambda>global. global)"
| "step_timeout_ms (CookieGet a0 a1) = (\<lambda>global. global)"
| "step_timeout_ms (CookieSet a0 a1 a2 a3 a4 a5 a6 a7) = (\<lambda>global. global)"
| "step_timeout_ms (CookieDelete a0 a1) = (\<lambda>global. global)"
| "step_timeout_ms (CookieClear a0) = (\<lambda>global. global)"
| "step_timeout_ms (LocalStorageGet a0 a1) = (\<lambda>global. global)"
| "step_timeout_ms (LocalStorageSet a0 a1 a2) = (\<lambda>global. global)"
| "step_timeout_ms (LocalStorageDelete a0 a1) = (\<lambda>global. global)"
| "step_timeout_ms (LocalStorageClear a0) = (\<lambda>global. global)"
| "step_timeout_ms (SessionStorageGet a0 a1) = (\<lambda>global. global)"
| "step_timeout_ms (SessionStorageSet a0 a1 a2) = (\<lambda>global. global)"
| "step_timeout_ms (SessionStorageDelete a0 a1) = (\<lambda>global. global)"
| "step_timeout_ms (SessionStorageClear a0) = (\<lambda>global. global)"
| "step_timeout_ms (StorageState a0 a1) = (\<lambda>global. global)"
| "step_timeout_ms (SetStorageState a0 a1) = (\<lambda>global. global)"
| "step_timeout_ms (FileUpload a0 timeout_ms a2) = (\<lambda>global. unwrap_or timeout_ms global)"
| "step_timeout_ms (HandleDialog a0 a1 a2) = (\<lambda>global. global)"
| "step_timeout_ms (Download a0 timeout_ms a2) = (\<lambda>global. unwrap_or timeout_ms global)"
| "step_timeout_ms (PdfSave a0 a1) = (\<lambda>global. global)"
| "step_timeout_ms (StartVideo a0 a1 a2) = (\<lambda>global. global)"
| "step_timeout_ms (StopVideo a0 a1) = (\<lambda>global. global)"
| "step_timeout_ms (StartTracing a0) = (\<lambda>global. global)"
| "step_timeout_ms (StopTracing a0 a1) = (\<lambda>global. global)"
| "step_timeout_ms (GenerateLocator a0 a1) = (\<lambda>global. global)"

record browser_template =
  bt_session_id :: "string option"
  bt_headless :: bool
  bt_timeout_ms :: u64
  bt_on_failure_screenshot :: bool
  bt_steps :: "browser_step list"

record browser_operation =
  bo_browser :: browser_template

end
