(* ===== verification/Schema.thy ===== *)
theory Schema
  imports BrowserSchema
begin

text \<open>
  The template schema: \<open>crates/earl-core/src/schema.rs\<close>, the operation templates of the protocol
  crates, and \<open>src/template/schema.rs\<close> with the accessors of \<open>OperationTemplate\<close>. All
  protocol features are taken as compiled in, as in the default feature set.
\<close>

section \<open>earl-core\<close>

record allow_rule =
  rule_scheme :: string
  rule_host :: string
  rule_port :: u16
  rule_path_prefix :: string

datatype command_mode = ModeRead | ModeWrite

fun mode_as_str :: "command_mode \<Rightarrow> string" where
  "mode_as_str ModeRead = ''read''"
| "mode_as_str ModeWrite = ''write''"

datatype param_type = PString | PInteger | PNumber | PBoolean | PNull | PArray | PObject

fun param_type_display :: "param_type \<Rightarrow> string" where
  "param_type_display PString = ''string''"
| "param_type_display PInteger = ''integer''"
| "param_type_display PNumber = ''number''"
| "param_type_display PBoolean = ''boolean''"
| "param_type_display PNull = ''null''"
| "param_type_display PArray = ''array''"
| "param_type_display PObject = ''object''"

record param_spec =
  param_name :: string
  param_ty :: param_type
  param_required :: bool
  param_default :: "json option"
  param_description :: "string option"

datatype api_key_location = KeyHeader | KeyQuery | KeyCookie

datatype auth_template =
    AuthNone
  | AuthApiKey (auth_location: api_key_location) (auth_name: string) (auth_secret: string)
  | AuthBearer (auth_bearer_secret: string)
  | AuthBasic (auth_username: string) (auth_password_secret: string)
  | AuthOAuth2Profile (auth_profile: string)

record multipart_part_template =
  part_name :: string
  part_value :: "string option"
  part_bytes_base64 :: "string option"
  part_file_path :: "string option"
  part_content_type :: "string option"
  part_filename :: "string option"

datatype body_template =
    BodyNone
  | BodyJson json
  | BodyFormUrlencoded json_map
  | BodyMultipart "multipart_part_template list"
  | BodyRawText string "string option"
  | BodyRawBytesBase64 string "string option"
  | BodyFileStream string "string option"

record redirect_template =
  redirect_follow :: bool
  redirect_max_hops :: usize

record retry_template =
  retry_attempts :: usize
  retry_backoff_ms :: u64
  retry_statuses :: "u16 list"

record tls_template =
  tls_min :: "string option"

record transport_template =
  tt_timeout_ms :: "u64 option"
  tt_max_response_bytes :: "u64 option"
  tt_redirects :: "redirect_template option"
  tt_retry :: "retry_template option"
  tt_compression :: "bool option"
  tt_tls :: "tls_template option"
  tt_proxy_profile :: "string option"

datatype result_decode = DecodeAuto | DecodeJson | DecodeText | DecodeHtml | DecodeXml | DecodeBinary

datatype result_extract =
    ExtractJsonPointer string
  | ExtractRegex string
  | ExtractXPath string
  | ExtractCssSelector string

record result_template =
  rt_decode :: result_decode
  rt_extract :: "result_extract option"
  rt_output :: string
  rt_alias :: "string option"

section \<open>Operation templates of the protocol crates\<close>

record http_operation =
  http_method :: string
  http_url :: string
  http_path :: "string option"
  http_query :: "json_map option"
  http_headers :: "json_map option"
  http_cookies :: "json_map option"
  http_auth :: "auth_template option"
  http_body :: "body_template option"
  http_stream :: bool
  http_transport :: "transport_template option"

record graphql_template =
  gt_query :: string
  gt_operation_name :: "string option"
  gt_variables :: "json option"

record graphql_operation =
  gql_method :: string
  gql_url :: string
  gql_path :: "string option"
  gql_query :: "json_map option"
  gql_headers :: "json_map option"
  gql_cookies :: "json_map option"
  gql_auth :: "auth_template option"
  gql_graphql :: graphql_template
  gql_stream :: bool
  gql_transport :: "transport_template option"

record grpc_template =
  grpc_service :: string
  grpc_method :: string
  grpc_body :: "json option"
  grpc_descriptor_set_file :: "string option"

record grpc_operation =
  grpc_url :: string
  grpc_headers :: "json_map option"
  grpc_auth :: "auth_template option"
  grpc_grpc :: grpc_template
  grpc_stream :: bool
  grpc_transport :: "transport_template option"

record bash_sandbox_template =
  bs_network :: "bool option"
  bs_writable_paths :: "string list option"
  bs_max_time_ms :: "u64 option"
  bs_max_output_bytes :: "u64 option"
  bs_max_memory_bytes :: "u64 option"
  bs_max_cpu_time_ms :: "u64 option"

record bash_script_template =
  bash_script_src :: string
  bash_env :: "json_map option"
  bash_cwd :: "string option"
  bash_sandbox :: "bash_sandbox_template option"

record bash_operation =
  bash_bash :: bash_script_template
  bash_stream :: bool
  bash_transport :: "transport_template option"

record sql_sandbox_template =
  ss_read_only :: "bool option"
  ss_max_rows :: "u64 option"
  ss_max_time_ms :: "u64 option"

record sql_query_template =
  sql_connection_secret :: string
  sql_query_src :: string
  sql_params :: "json list option"
  sql_sandbox :: "sql_sandbox_template option"

record sql_operation =
  sql_sql :: sql_query_template
  sql_transport :: "transport_template option"

section \<open>The template file\<close>

datatype operation_template =
    OpHttp http_operation
  | OpGraphql graphql_operation
  | OpGrpc grpc_operation
  | OpBash bash_operation
  | OpSql sql_operation
  | OpBrowser browser_operation

datatype operation_protocol = Http | Graphql | Grpc | Bash | Sql | Browser

record annotations =
  ann_mode :: command_mode
  ann_secrets :: "string list"
  ann_allow_env_protocol_switching :: bool

record provider_environments =
  pe_default :: "string option"
  pe_secrets :: "string list"
  pe_environments :: "(string, (string, string) btree) btree"

record environment_override =
  eo_operation :: operation_template
  eo_result :: "result_template option"

record command_template =
  ct_title :: string
  ct_summary :: string
  ct_description :: string
  ct_categories :: "string list"
  ct_annotations :: annotations
  ct_params :: "param_spec list"
  ct_operation :: operation_template
  ct_result :: result_template
  ct_environment_overrides :: "(string, environment_override) btree"

record template_file =
  tf_version :: u32
  tf_provider :: string
  tf_categories :: "string list"
  tf_environments :: "provider_environments option"
  tf_commands :: "(string, command_template) btree"

subsection \<open>Accessors of OperationTemplate\<close>

fun op_protocol :: "operation_template \<Rightarrow> operation_protocol" where
  "op_protocol (OpHttp op) = Http"
| "op_protocol (OpGraphql op) = Graphql"
| "op_protocol (OpGrpc op) = Grpc"
| "op_protocol (OpBash op) = Bash"
| "op_protocol (OpSql op) = Sql"
| "op_protocol (OpBrowser op) = Browser"

fun op_transport :: "operation_template \<Rightarrow> transport_template option" where
  "op_transport (OpHttp op) = http_transport op"
| "op_transport (OpGraphql op) = gql_transport op"
| "op_transport (OpGrpc op) = grpc_transport op"
| "op_transport (OpBash op) = bash_transport op"
| "op_transport (OpSql op) = sql_transport op"
| "op_transport (OpBrowser op) = None"

fun op_auth :: "operation_template \<Rightarrow> auth_template option" where
  "op_auth (OpHttp op) = http_auth op"
| "op_auth (OpGraphql op) = gql_auth op"
| "op_auth (OpGrpc op) = grpc_auth op"
| "op_auth op = None"

fun op_request_url :: "operation_template \<Rightarrow> string option" where
  "op_request_url (OpHttp op) = Some (http_url op)"
| "op_request_url (OpGraphql op) = Some (gql_url op)"
| "op_request_url (OpGrpc op) = Some (grpc_url op)"
| "op_request_url op = None"

fun op_grpc_service_method :: "operation_template \<Rightarrow> (string \<times> string) option" where
  "op_grpc_service_method (OpGrpc op) = Some (grpc_service (grpc_grpc op), grpc_method (grpc_grpc op))"
| "op_grpc_service_method op = None"

fun op_bash_script :: "operation_template \<Rightarrow> string option" where
  "op_bash_script (OpBash op) = Some (bash_script_src (bash_bash op))"
| "op_bash_script op = None"

fun op_sql_query :: "operation_template \<Rightarrow> string option" where
  "op_sql_query (OpSql op) = Some (sql_query_src (sql_sql op))"
| "op_sql_query op = None"

fun op_is_streaming :: "operation_template \<Rightarrow> bool" where
  "op_is_streaming (OpHttp op) = http_stream op"
| "op_is_streaming (OpGraphql op) = gql_stream op"
| "op_is_streaming (OpGrpc op) = grpc_stream op"
| "op_is_streaming (OpBash op) = bash_stream op"
| "op_is_streaming (OpSql op) = False"
| "op_is_streaming (OpBrowser op) = False"

subsection \<open>Defaults\<close>

definition default_follow_redirects :: bool where
  "default_follow_redirects = True"

definition default_redirect_hops :: usize where
  "default_redirect_hops = 5"

definition default_backoff_ms :: u64 where
  "default_backoff_ms = 250"

definition default_result_output :: string where
  "default_result_output = ''{{ result }}''"

definition default_result_template :: result_template where
  "default_result_template =
     \<lparr>rt_decode = DecodeAuto, rt_extract = None, rt_output = default_result_output, rt_alias = None\<rparr>"

end
