(* ===== verification/Allowlist.thy ===== *)
theory Allowlist
  imports Schema
begin

text \<open>
  The egress allowlist \<open>crates/earl-core/src/allowlist.rs\<close>. A parsed \<open>url::Url\<close> is the record of
  what its accessors return; parsing is done by the URL library. The path test is proved to be
  a comparison of whole path segments.
\<close>

record url =
  url_as_str :: string
  url_scheme :: string
  url_host_str :: "string option"
  url_port_or_known_default :: "u16 option"
  url_path :: string

definition normalize_path :: "string \<Rightarrow> string" where
  "normalize_path path =
     (let trimmed = trim path;
          with_leading = (if prefix ''/'' trimmed then trimmed else ''/'' @ trimmed)
      in if length with_leading > 1 then trim_end_matches ''/'' with_leading else ''/'')"

definition path_prefix_matches :: "string \<Rightarrow> string \<Rightarrow> bool" where
  "path_prefix_matches path pre =
     (let normalized_path = normalize_path path; normalized_prefix = normalize_path pre
      in if normalized_prefix = ''/'' then True
         else normalized_path = normalized_prefix \<or> prefix (normalized_prefix @ ''/'') normalized_path)"

definition matches_rule :: "url \<Rightarrow> allow_rule \<Rightarrow> bool" where
  "matches_rule u rule =
     (eq_ignore_ascii_case (url_scheme u) (rule_scheme rule)
      \<and> (case url_host_str u of None \<Rightarrow> False | Some host \<Rightarrow> eq_ignore_ascii_case host (rule_host rule))
      \<and> (case url_port_or_known_default u of None \<Rightarrow> False | Some port \<Rightarrow> port = rule_port rule)
      \<and> path_prefix_matches (url_path u) (rule_path_prefix rule))"

definition ensure_url_allowed :: "url \<Rightarrow> allow_rule list \<Rightarrow> unit result" where
  "ensure_url_allowed u allow_rules =
     (if allow_rules = [] then Inr ()
      else if list_ex (matches_rule u) allow_rules then Inr ()
      else bail (''url `'' @ url_as_str u @ ''` is not allowed by template allowlist policy''))"

section \<open>Paths as segments\<close>

text \<open>The segments of a path, without the empty ones a trailing slash leaves.\<close>

definition path_segments :: "string \<Rightarrow> string list" where
  "path_segments path =
     (let trimmed = trim path
      in split_char (CHR ''/'')
           (trim_end_matches ''/'' (if prefix ''/'' trimmed then trimmed else ''/'' @ trimmed)))"

lemma split_char_append:
  "split_char d (a @ d # b) = split_char d a @ split_char d b"
proof (induction a)
  case (Cons c a)
  then show ?case by (cases "split_char d a") auto
qed simp

lemma str_join_append:
  "xs \<noteq> [] \<Longrightarrow> ys \<noteq> [] \<Longrightarrow> str_join sep (xs @ ys) = str_join sep xs @ sep @ str_join sep ys"
proof (induction sep xs rule: str_join.induct)
  case (2 sep s)
  then show ?case by (cases ys) auto
qed auto

text \<open>One string extends another at a separator iff the list of its pieces extends the other's.\<close>

lemma prefix_split_char:
  "prefix (split_char d p) (split_char d q) \<longleftrightarrow> q = p \<or> prefix (p @ [d]) q"
proof
  assume "prefix (split_char d p) (split_char d q)"
  then obtain ws where ws: "split_char d q = split_char d p @ ws" by (auto elim: prefixE)
  then have q: "q = str_join [d] (split_char d p @ ws)" by (metis join_split_char)
  show "q = p \<or> prefix (p @ [d]) q"
  proof (cases "ws = []")
    case True
    then show ?thesis using q by (simp add: join_split_char)
  next
    case False
    then show ?thesis using q by (simp add: str_join_append join_split_char)
  qed
next
  assume "q = p \<or> prefix (p @ [d]) q"
  then show "prefix (split_char d p) (split_char d q)"
    by (auto elim!: prefixE simp: split_char_append)
qed

lemma normalize_path_segments:
  "path_segments path = split_char (CHR ''/'') (if normalize_path path = ''/'' then [] else normalize_path path)"
proof -
  let ?w = "if prefix ''/'' (trim path) then trim path else ''/'' @ trim path"
  have "length ?w > 1 \<or> ?w = ''/''"
    by (cases "trim path") (auto simp: prefix_Cons)
  moreover have "trim_end_matches ''/'' ?w \<noteq> ''/''"
    using trim_end_matches_last [of "''/''" ?w] by auto
  ultimately show ?thesis
    unfolding path_segments_def normalize_path_def Let_def
    by (auto simp: trim_end_matches_def)
qed

lemma normalized_shape: "normalize_path path = [] \<or> prefix ''/'' (normalize_path path)"
proof -
  let ?w = "if prefix ''/'' (trim path) then trim path else ''/'' @ trim path"
  have w: "prefix ''/'' ?w" by simp
  have "prefix (trim_end_matches ''/'' ?w) ?w" by (rule trim_end_matches_prefix)
  with w have "trim_end_matches ''/'' ?w = [] \<or> prefix ''/'' (trim_end_matches ''/'' ?w)"
    by (cases "trim_end_matches ''/'' ?w"; cases ?w) (simp_all add: prefix_Cons)
  then show ?thesis by (auto simp: normalize_path_def Let_def)
qed

text \<open>The path of an allow rule matches exactly the request paths whose leading segments are the
  rule's segments: \<open>/api\<close> allows \<open>/api\<close> and \<open>/api/x\<close>, never \<open>/apix\<close>.\<close>

lemma path_prefix_matches_segments:
  "path_prefix_matches path pre \<longleftrightarrow> prefix (path_segments pre) (path_segments path)"
proof -
  have boundary: "prefix (p @ ''/'') q \<longleftrightarrow> prefix (p @ [CHR ''/'']) q" for p q :: string by simp
  consider "normalize_path pre = ''/''" | "normalize_path pre \<noteq> ''/''" "normalize_path path = ''/''"
    | "normalize_path pre \<noteq> ''/''" "normalize_path path \<noteq> ''/''" by blast
  then show ?thesis
  proof cases
    case 1
    then have "prefix (split_char (CHR ''/'') []) (path_segments path)"
      unfolding normalize_path_segments prefix_split_char
      using normalized_shape [of path] by auto
    with 1 show ?thesis by (simp add: path_prefix_matches_def normalize_path_segments)
  next
    case 2
    then show ?thesis
      using normalized_shape [of pre]
      by (auto simp: path_prefix_matches_def Let_def normalize_path_segments prefix_Cons
          simp del: split_char.simps simp: prefix_split_char)
  next
    case 3
    then show ?thesis
      by (simp add: path_prefix_matches_def Let_def normalize_path_segments prefix_split_char)
  qed
qed

text \<open>
  C9. A request leaves the allowlist check with success iff the list is empty or one rule has its
  scheme and host (up to ASCII case), its port, and a path whose segments begin the request's.
\<close>

theorem ensure_url_allowed_iff:
  "ensure_url_allowed u rules = Inr () \<longleftrightarrow>
     rules = [] \<or>
     (\<exists>rule \<in> set rules.
        eq_ignore_ascii_case (url_scheme u) (rule_scheme rule)
        \<and> (\<exists>host. url_host_str u = Some host \<and> eq_ignore_ascii_case host (rule_host rule))
        \<and> url_port_or_known_default u = Some (rule_port rule)
        \<and> prefix (path_segments (rule_path_prefix rule)) (path_segments (url_path u)))"
  by (auto simp: ensure_url_allowed_def list_ex_iff matches_rule_def path_prefix_matches_segments
      result_simps split: option.splits)

end
