(* ===== verification/Config.thy ===== *)
theory Config
  imports Schema
begin

text \<open>
  The configuration file \<open>src/config.rs\<close>: its sections as records, the defaults of \<open>serde\<close> and of
  the \<open>Default\<close> implementations, the directories under the home directory, and \<open>load_config\<close>.
  The file system and the TOML reader are parameters.
\<close>

section \<open>Sections\<close>

record environments_config =
  env_cfg_default :: "string option"

record local_search_config =
  ls_embedding_model :: string
  ls_reranker_model :: string

record remote_search_config =
  rs_enabled :: bool
  rs_base_url :: "string option"
  rs_api_key_secret :: "string option"
  rs_embeddings_path :: string
  rs_rerank_path :: string
  rs_openai_compatible :: bool
  rs_timeout_ms :: u64

record search_config =
  sc_top_k :: usize
  sc_rerank_k :: usize
  sc_local :: local_search_config
  sc_remote :: remote_search_config

record jwt_config =
  jwt_oidc_discovery_url :: "string option"
  jwt_issuer :: "string option"
  jwt_jwks_uri :: "string option"
  jwt_audience :: string
  jwt_algorithms :: "string list"
  jwt_clock_skew_seconds :: u64
  jwt_jwks_cache_max_age_seconds :: u64

datatype oauth_flow = AuthCodePkce | DeviceCode | ClientCredentials

record oauth_profile =
  oa_flow :: oauth_flow
  oa_client_id :: string
  oa_client_secret_key :: "string option"
  oa_issuer :: "string option"
  oa_authorization_url :: "string option"
  oa_token_url :: "string option"
  oa_device_authorization_url :: "string option"
  oa_redirect_url :: "string option"
  oa_scopes :: "string list"
  oa_use_auth_request_body :: bool

record auth_config =
  ac_profiles :: "(string, oauth_profile) btree"
  ac_jwt :: "jwt_config option"

record proxy_profile =
  proxy_url :: string

record network_config =
  nc_allow :: "allow_rule list"
  nc_proxy_profiles :: "(string, proxy_profile) btree"
  nc_allow_private_ips :: bool

record sandbox_config =
  sb_bash_max_time_ms :: "u64 option"
  sb_bash_max_output_bytes :: "u64 option"
  sb_bash_allow_network :: bool
  sb_bash_max_memory_bytes :: "u64 option"
  sb_bash_max_cpu_time_ms :: "u64 option"
  sb_sql_force_read_only :: bool
  sb_sql_max_rows :: "u64 option"
  sb_sql_connection_allowlist :: "string list"

datatype policy_effect = EffectAllow | EffectDeny

datatype policy_mode = PolicyRead | PolicyWrite

record policy_rule =
  pr_subjects :: "string list"
  pr_tools :: "string list"
  pr_modes :: "policy_mode list option"
  pr_effect :: policy_effect

record config =
  cfg_search :: search_config
  cfg_auth :: auth_config
  cfg_network :: network_config
  cfg_sandbox :: sandbox_config
  cfg_policy :: "policy_rule list"
  cfg_environments :: environments_config

section \<open>Defaults\<close>

definition default_local_search :: local_search_config where
  "default_local_search =
     \<lparr>ls_embedding_model = ''BGESmallENV15Q'', ls_reranker_model = ''JINARerankerV1TurboEn''\<rparr>"

definition default_remote_search :: remote_search_config where
  "default_remote_search =
     \<lparr>rs_enabled = False, rs_base_url = None, rs_api_key_secret = None,
      rs_embeddings_path = ''/embeddings'', rs_rerank_path = ''/rerank'',
      rs_openai_compatible = True, rs_timeout_ms = 10000\<rparr>"

definition default_search :: search_config where
  "default_search =
     \<lparr>sc_top_k = 40, sc_rerank_k = 10, sc_local = default_local_search,
      sc_remote = default_remote_search\<rparr>"

definition default_sandbox :: sandbox_config where
  "default_sandbox =
     \<lparr>sb_bash_max_time_ms = None, sb_bash_max_output_bytes = None, sb_bash_allow_network = False,
      sb_bash_max_memory_bytes = None, sb_bash_max_cpu_time_ms = None,
      sb_sql_force_read_only = True, sb_sql_max_rows = None, sb_sql_connection_allowlist = []\<rparr>"

definition default_config :: config where
  "default_config =
     \<lparr>cfg_search = default_search,
      cfg_auth = \<lparr>ac_profiles = [], ac_jwt = None\<rparr>,
      cfg_network = \<lparr>nc_allow = [], nc_proxy_profiles = [], nc_allow_private_ips = False\<rparr>,
      cfg_sandbox = default_sandbox,
      cfg_policy = [],
      cfg_environments = \<lparr>env_cfg_default = None\<rparr>\<rparr>"

section \<open>Directories\<close>

text \<open>\<open>PathBuf::join\<close>: an absolute path replaces the base.\<close>

definition path_join :: "string \<Rightarrow> string \<Rightarrow> string" where
  "path_join base p =
     (if prefix ''/'' p then p
      else if base = [] \<or> suffix ''/'' base then base @ p
      else base @ ''/'' @ p)"

definition config_dir :: "string \<Rightarrow> string" where
  "config_dir home = path_join (path_join home ''.config'') ''earl''"

definition config_file_path :: "string \<Rightarrow> string" where
  "config_file_path home = path_join (config_dir home) ''config.toml''"

definition state_dir :: "string \<Rightarrow> string" where
  "state_dir home = path_join (path_join (path_join home ''.local'') ''state'') ''earl''"

definition cache_dir :: "string \<Rightarrow> string" where
  "cache_dir home = path_join (path_join home ''.cache'') ''earl''"

definition local_templates_dir :: "string \<Rightarrow> string" where
  "local_templates_dir cwd = path_join cwd ''templates''"

definition global_templates_dir :: "string \<Rightarrow> string" where
  "global_templates_dir home = path_join (config_dir home) ''templates''"

definition secrets_index_path :: "string \<Rightarrow> string" where
  "secrets_index_path home = path_join (state_dir home) ''secrets-index.json''"

definition search_index_path :: "string \<Rightarrow> string" where
  "search_index_path home = path_join (cache_dir home) ''search-index-v1.json''"

section \<open>Loading\<close>

text \<open>Reading a file gives its text or the message of the operating system.\<close>

definition load_config ::
    "(string \<Rightarrow> bool) \<Rightarrow> (string \<Rightarrow> string + string) \<Rightarrow> (string \<Rightarrow> string + config) \<Rightarrow> string \<Rightarrow> config result" where
  "load_config exists read_to_string from_toml home =
     (let path = config_file_path home
      in if \<not> exists path then Inr default_config
         else and_then (with_context (''failed reading config file '' @ path)
                         (map_err (\<lambda>e. [e]) (read_to_string path))) (\<lambda>raw.
              with_context (''invalid config TOML '' @ path) (map_err (\<lambda>e. [e]) (from_toml raw))))"

lemma load_config_missing:
  "\<not> exists (config_file_path home) \<Longrightarrow> load_config exists rd toml home = Inr default_config"
  by (simp add: load_config_def)

text \<open>With no file, the defaults are the restrictive ones: no policy, no private addresses, no
  network in scripts, read-only SQL.\<close>

lemma default_config_restrictive:
  "cfg_policy default_config = []"
  "\<not> nc_allow_private_ips (cfg_network default_config)"
  "\<not> sb_bash_allow_network (cfg_sandbox default_config)"
  "sb_sql_force_read_only (cfg_sandbox default_config)"
  by (simp_all add: default_config_def default_sandbox_def)

end
