(* ===== verification/Policy.thy ===== *)
theory Policy
  imports Config
begin

text \<open>
  Access policies of the HTTP server: \<open>src/mcp/policy.rs\<close>. The backtracking glob matcher is
  proved equal to a declarative reading of the pattern (each star stands for a run without
  dots), and the evaluation loop to "some matching rule allows and none denies".
\<close>

datatype policy_decision = Allow | Deny

section \<open>Globs\<close>

function glob_matches_recursive :: "string \<Rightarrow> string \<Rightarrow> bool" where
  "glob_matches_recursive pattern value =
     (case pattern of
        [] \<Rightarrow> value = []
      | p # ps \<Rightarrow>
          if p = CHR ''*'' then
            (if glob_matches_recursive ps value then True
             else (case value of
                     [] \<Rightarrow> False
                   | ch # vs \<Rightarrow> if ch \<noteq> CHR ''.'' then glob_matches_recursive pattern vs else False))
          else (case value of
                  [] \<Rightarrow> False
                | v # vs \<Rightarrow> if ascii_lower p = ascii_lower v then glob_matches_recursive ps vs else False))"
  by pat_completeness auto
termination
  by (relation "measure (\<lambda>(p, v). length p + length v)") auto

declare glob_matches_recursive.simps [simp del]

definition glob_matches :: "string \<Rightarrow> string \<Rightarrow> bool" where
  "glob_matches pattern value =
     (if pattern = ''*'' then True
      else if length pattern + length value > 256 then False
      else glob_matches_recursive (to_ascii_lowercase pattern) (to_ascii_lowercase value))"

definition matches_any :: "string list \<Rightarrow> string \<Rightarrow> bool" where
  "matches_any patterns value = list_ex (\<lambda>pattern. glob_matches pattern value) patterns"

section \<open>Evaluation\<close>

fun policy_mode_of :: "command_mode \<Rightarrow> policy_mode" where
  "policy_mode_of ModeRead = PolicyRead"
| "policy_mode_of ModeWrite = PolicyWrite"

fun evaluate_loop :: "string \<Rightarrow> string \<Rightarrow> command_mode \<Rightarrow> bool \<Rightarrow> policy_rule list \<Rightarrow> policy_decision" where
  "evaluate_loop subject tool_key tool_mode has_allow [] = (if has_allow then Allow else Deny)"
| "evaluate_loop subject tool_key tool_mode has_allow (policy # policies) =
     (let continue = evaluate_loop subject tool_key tool_mode has_allow policies
      in if \<not> matches_any (pr_subjects policy) subject then continue
         else if \<not> matches_any (pr_tools policy) tool_key then continue
         else if (case pr_modes policy of
                    None \<Rightarrow> False
                  | Some modes \<Rightarrow> policy_mode_of tool_mode \<notin> set modes) then continue
         else (case pr_effect policy of
                 EffectDeny \<Rightarrow> Deny
               | EffectAllow \<Rightarrow> evaluate_loop subject tool_key tool_mode True policies))"

definition evaluate :: "policy_rule list \<Rightarrow> string \<Rightarrow> string \<Rightarrow> command_mode \<Rightarrow> policy_decision" where
  "evaluate policies subject tool_key tool_mode =
     evaluate_loop subject tool_key tool_mode False policies"

definition filter_allowed :: "policy_rule list \<Rightarrow> string \<Rightarrow> (string \<times> command_mode) list \<Rightarrow> string list" where
  "filter_allowed policies subject entries =
     map fst (filter (\<lambda>(key, mode). evaluate policies subject key mode = Allow) entries)"

section \<open>What a pattern means\<close>

text \<open>
  A pattern denotes the strings obtained by putting a run without dots for each star; the
  literal pieces are compared up to ASCII case.
\<close>

inductive glob_denotes :: "string \<Rightarrow> string \<Rightarrow> bool" where
  Done: "glob_denotes [] []"
| Star: "CHR ''.'' \<notin> set run \<Longrightarrow> glob_denotes ps vs \<Longrightarrow> glob_denotes (CHR ''*'' # ps) (run @ vs)"
| Literal: "p \<noteq> CHR ''*'' \<Longrightarrow> ascii_lower p = ascii_lower v \<Longrightarrow> glob_denotes ps vs \<Longrightarrow>
    glob_denotes (p # ps) (v # vs)"

inductive_cases glob_denotes_NilE: "glob_denotes [] v"
inductive_cases glob_denotes_StarE: "glob_denotes (CHR ''*'' # ps) v"

inductive_simps glob_denotes_Nil: "glob_denotes [] v"
inductive_simps glob_denotes_Cons: "glob_denotes (p # ps) v"

lemma glob_denotes_Star:
  "glob_denotes (CHR ''*'' # ps) v \<longleftrightarrow>
     glob_denotes ps v \<or> (\<exists>c vs. v = c # vs \<and> c \<noteq> CHR ''.'' \<and> glob_denotes (CHR ''*'' # ps) vs)"
  (is "?l \<longleftrightarrow> ?r")
proof
  assume ?l
  then obtain run vs where v: "v = run @ vs" "CHR ''.'' \<notin> set run" "glob_denotes ps vs"
    by (auto elim: glob_denotes_StarE)
  then show ?r by (cases run) (auto intro: glob_denotes.Star)
next
  assume ?r
  then show ?l
  proof (elim disjE exE conjE)
    assume "glob_denotes ps v"
    then show ?l using glob_denotes.Star [of "[]" ps v] by simp
  next
    fix c vs
    assume *: "v = c # vs" "c \<noteq> CHR ''.''" "glob_denotes (CHR ''*'' # ps) vs"
    from *(3) obtain run ws where "vs = run @ ws" "CHR ''.'' \<notin> set run" "glob_denotes ps ws"
      by (auto elim: glob_denotes_StarE)
    with * show ?l using glob_denotes.Star [of "c # run" ps ws] by simp
  qed
qed

lemma glob_denotes_Star_simps:
  "glob_denotes (CHR ''*'' # ps) [] \<longleftrightarrow> glob_denotes ps []"
  "glob_denotes (CHR ''*'' # ps) (c # vs) \<longleftrightarrow>
     glob_denotes ps (c # vs) \<or> c \<noteq> CHR ''.'' \<and> glob_denotes (CHR ''*'' # ps) vs"
  by (subst glob_denotes_Star, simp)+

lemma glob_denotes_Literal_simps:
  "p \<noteq> CHR ''*'' \<Longrightarrow> \<not> glob_denotes (p # ps) []"
  "p \<noteq> CHR ''*'' \<Longrightarrow>
     glob_denotes (p # ps) (v # vs) \<longleftrightarrow> ascii_lower p = ascii_lower v \<and> glob_denotes ps vs"
  by (simp_all add: glob_denotes_Cons)

text \<open>The matcher decides the meaning of the pattern, and always returns.\<close>

lemma glob_matches_recursive_iff: "glob_matches_recursive p v \<longleftrightarrow> glob_denotes p v"
proof (induction p v rule: glob_matches_recursive.induct)
  case (1 pattern val)
  show ?case
  proof (cases pattern)
    case Nil
    then show ?thesis by (auto simp: glob_matches_recursive.simps [of "[]"] glob_denotes_Nil)
  next
    case (Cons p ps)
    show ?thesis
    proof (cases "p = CHR ''*''")
      case True
      with Cons 1(1) [OF Cons True] 1(2) [OF Cons True] show ?thesis
        by (subst glob_matches_recursive.simps, cases val)
          (simp_all add: glob_denotes_Star_simps)
    next
      case False
      with Cons 1(3) [OF Cons False] show ?thesis
        by (subst glob_matches_recursive.simps, cases val) (simp_all add: glob_denotes_Literal_simps)
    qed
  qed
qed

lemma glob_matches_recursive_lower:
  "glob_matches_recursive (to_ascii_lowercase p) (to_ascii_lowercase v) = glob_matches_recursive p v"
proof (induction p v rule: glob_matches_recursive.induct)
  case (1 pattern val)
  show ?case
  proof (cases pattern)
    case Nil
    then show ?thesis
      by (simp add: glob_matches_recursive.simps [of "[]"] to_ascii_lowercase_def)
  next
    case (Cons p ps)
    show ?thesis
    proof (cases "p = CHR ''*''")
      case True
      have star: "ascii_lower (CHR ''*'') = CHR ''*''" by simp
      show ?thesis
        using 1(1) [OF Cons True] 1(2) [OF Cons True] Cons True
        by (cases val) (auto simp: glob_matches_recursive_iff to_ascii_lowercase_def star
            glob_denotes_Star_simps)
    next
      case False
      with Cons 1(3) [OF Cons False] show ?thesis
        by (cases val)
          (auto simp: glob_matches_recursive_iff to_ascii_lowercase_def glob_denotes_Literal_simps)
    qed
  qed
qed

lemma glob_matches_iff:
  "glob_matches pattern val \<longleftrightarrow>
     pattern = ''*'' \<or> length pattern + length val \<le> 256 \<and> glob_denotes pattern val"
  using glob_matches_recursive_lower [of pattern val]
  by (auto simp: glob_matches_def glob_matches_recursive_iff)

section \<open>What the rules decide\<close>

definition rule_applies :: "string \<Rightarrow> string \<Rightarrow> command_mode \<Rightarrow> policy_rule \<Rightarrow> bool" where
  "rule_applies subject tool_key tool_mode policy \<longleftrightarrow>
     (\<exists>p \<in> set (pr_subjects policy). glob_matches p subject)
     \<and> (\<exists>p \<in> set (pr_tools policy). glob_matches p tool_key)
     \<and> (\<forall>modes. pr_modes policy = Some modes \<longrightarrow> policy_mode_of tool_mode \<in> set modes)"

lemma evaluate_loop_iff:
  "evaluate_loop subject tool_key tool_mode has_allow policies = Allow \<longleftrightarrow>
     (has_allow \<or> (\<exists>r \<in> set policies. rule_applies subject tool_key tool_mode r \<and> pr_effect r = EffectAllow))
     \<and> (\<forall>r \<in> set policies. rule_applies subject tool_key tool_mode r \<longrightarrow> pr_effect r \<noteq> EffectDeny)"
proof (induction policies arbitrary: has_allow)
  case (Cons r policies)
  have applies: "rule_applies subject tool_key tool_mode r \<longleftrightarrow>
      matches_any (pr_subjects r) subject \<and> matches_any (pr_tools r) tool_key
      \<and> \<not> (case pr_modes r of None \<Rightarrow> False | Some modes \<Rightarrow> policy_mode_of tool_mode \<notin> set modes)"
    by (auto simp: rule_applies_def matches_any_def list_ex_iff split: option.splits)
  show ?case
    unfolding evaluate_loop.simps Let_def
    using Cons.IH applies by (cases "pr_effect r") auto
qed simp

lemma evaluate_allow_iff:
  "evaluate policies subject tool_key tool_mode = Allow \<longleftrightarrow>
     (\<exists>r \<in> set policies. rule_applies subject tool_key tool_mode r \<and> pr_effect r = EffectAllow)
     \<and> (\<forall>r \<in> set policies. rule_applies subject tool_key tool_mode r \<longrightarrow> pr_effect r \<noteq> EffectDeny)"
  by (simp add: evaluate_def evaluate_loop_iff)

text \<open>
  C18. A policy pattern matches a string iff it is the lone star, or both together have at most 256
  bytes and the string is obtained from the pattern by putting a run without dots for each star,
  the other characters compared up to ASCII case. The matcher returns on every input.
\<close>

theorem glob_matches_denotes:
  "glob_matches pattern val \<longleftrightarrow>
     pattern = ''*'' \<or> length pattern + length val \<le> 256 \<and> glob_denotes pattern val"
  by (rule glob_matches_iff)

text \<open>
  C15. Deny overrides: a call is allowed iff some rule that applies to its subject, tool and mode
  allows it and no rule that applies denies it. With no applicable rule it is denied, and the order
  of the rules does not matter.
\<close>

theorem evaluate_deny_overrides:
  "evaluate policies subject tool_key tool_mode =
     (if (\<exists>r \<in> set policies. rule_applies subject tool_key tool_mode r \<and> pr_effect r = EffectAllow)
         \<and> \<not> (\<exists>r \<in> set policies. rule_applies subject tool_key tool_mode r \<and> pr_effect r = EffectDeny)
      then Allow else Deny)"
  using evaluate_allow_iff [of policies subject tool_key tool_mode]
  by (cases "evaluate policies subject tool_key tool_mode") auto

lemma evaluate_default_deny: "evaluate [] subject tool_key tool_mode = Deny"
  by (simp add: evaluate_def)

lemma evaluate_order:
  "set policies = set policies' \<Longrightarrow>
     evaluate policies subject tool_key tool_mode = evaluate policies' subject tool_key tool_mode"
  using evaluate_allow_iff [of policies subject tool_key tool_mode]
    evaluate_allow_iff [of policies' subject tool_key tool_mode]
  by (cases "evaluate policies subject tool_key tool_mode";
      cases "evaluate policies' subject tool_key tool_mode") simp_all

lemma filter_allowed_mem:
  "key \<in> set (filter_allowed policies subject entries) \<longleftrightarrow>
     (\<exists>mode. (key, mode) \<in> set entries \<and> evaluate policies subject key mode = Allow)"
  by (force simp: filter_allowed_def)

text \<open>
  The length guard makes a deny rule fail open: a subject that a deny pattern denotes is
  allowed by a lone-star allow rule as soon as pattern and subject exceed 256 bytes.
\<close>

theorem long_subject_escapes_deny:
  assumes "length pattern + length subject > 256" and "pattern \<noteq> ''*''"
    and "allow = \<lparr>pr_subjects = [''*''], pr_tools = [''*''], pr_modes = None, pr_effect = EffectAllow\<rparr>"
    and "deny = \<lparr>pr_subjects = [pattern], pr_tools = [''*''], pr_modes = None, pr_effect = EffectDeny\<rparr>"
  shows "evaluate [allow, deny] subject tool_key tool_mode = Allow"
  using assms by (auto simp: evaluate_allow_iff rule_applies_def glob_matches_iff)

theorem long_subject_escapes_deny_witness:
  "glob_denotes ''mallory*'' (''mallory'' @ replicate 250 (CHR ''x''))
   \<and> evaluate
       [\<lparr>pr_subjects = [''*''], pr_tools = [''*''], pr_modes = None, pr_effect = EffectAllow\<rparr>,
        \<lparr>pr_subjects = [''mallory*''], pr_tools = [''*''], pr_modes = None, pr_effect = EffectDeny\<rparr>]
       (''mallory'' @ replicate 250 (CHR ''x'')) ''db.drop'' ModeWrite = Allow"
proof
  have "glob_denotes ''*'' (replicate 250 (CHR ''x''))"
    using glob_denotes.Star [OF _ glob_denotes.Done, of "replicate 250 (CHR ''x'')"] by simp
  then show "glob_denotes ''mallory*'' (''mallory'' @ replicate 250 (CHR ''x''))"
    by (simp add: glob_denotes_Literal_simps)
qed (rule long_subject_escapes_deny [OF _ _ refl refl], simp_all)

end
