(* ===== verification/Binder.thy ===== *)
theory Binder
  imports Schema
begin

text \<open>
  Calls: \<open>src/expression/ast.rs\<close>, the argument binder \<open>src/expression/binder.rs\<close>, and the reader of
  command line arguments \<open>src/expression/cli_args.rs\<close>. Reading a float and reading JSON text are
  parameters.
\<close>

section \<open>Call expressions\<close>

record call_expression =
  ce_provider :: string
  ce_command :: string
  ce_positional_args :: "json list"
  ce_named_args :: "(string \<times> json) list"

definition command_key :: "call_expression \<Rightarrow> string" where
  "command_key e = ce_provider e @ ''.'' @ ce_command e"

section \<open>Binding arguments\<close>

datatype bind_error =
    TooManyPositional nat nat
  | UnknownArgument string
  | DuplicateArgument string
  | MissingRequired string
  | InvalidType string string string

fun matches_type :: "json \<Rightarrow> param_type \<Rightarrow> bool" where
  "matches_type v PString = is_string v"
| "matches_type v PInteger = (as_i64 v \<noteq> None)"
| "matches_type v PNumber = is_number v"
| "matches_type v PBoolean = is_boolean v"
| "matches_type v PNull = is_null v"
| "matches_type v PArray = is_array v"
| "matches_type v PObject = is_object v"

definition value_type_name :: "json \<Rightarrow> string" where
  "value_type_name v =
     (if is_string v then ''string''
      else if as_i64 v \<noteq> None then ''integer''
      else if is_number v then ''number''
      else if is_boolean v then ''boolean''
      else if is_null v then ''null''
      else if is_array v then ''array''
      else if is_object v then ''object''
      else ''unknown'')"

text \<open>The four loops of \<open>bind_arguments\<close>.\<close>

definition insert_positional :: "string \<times> json \<Rightarrow> json_map \<Rightarrow> bind_error + json_map" where
  "insert_positional = (\<lambda>(name, v) out.
     if bt_get out name \<noteq> None then Inl (DuplicateArgument name) else Inr (bt_insert name v out))"

definition insert_named :: "param_spec list \<Rightarrow> string \<times> json \<Rightarrow> json_map \<Rightarrow> bind_error + json_map" where
  "insert_named params = (\<lambda>(name, v) out.
     if \<not> list_ex (\<lambda>p. param_name p = name) params then Inl (UnknownArgument name)
     else if bt_get out name \<noteq> None then Inl (DuplicateArgument name)
     else Inr (bt_insert name v out))"

definition fill_default :: "param_spec \<Rightarrow> json_map \<Rightarrow> bind_error + json_map" where
  "fill_default p out =
     (if bt_get out (param_name p) = None then
        (case param_default p of
           Some d \<Rightarrow> Inr (bt_insert (param_name p) d out)
         | None \<Rightarrow> if param_required p then Inl (MissingRequired (param_name p)) else Inr out)
      else Inr out)"

definition check_type :: "json_map \<Rightarrow> param_spec \<Rightarrow> bind_error + unit" where
  "check_type out p =
     (case bt_get out (param_name p) of
        None \<Rightarrow> Inr ()
      | Some v \<Rightarrow>
          if \<not> is_null v \<and> \<not> matches_type v (param_ty p)
          then Inl (InvalidType (param_name p) (param_type_display (param_ty p)) (value_type_name v))
          else Inr ())"

definition bind_arguments :: "call_expression \<Rightarrow> param_spec list \<Rightarrow> bind_error + json_map" where
  "bind_arguments e params =
     (if length (ce_positional_args e) > length params
      then Inl (TooManyPositional (length params) (length (ce_positional_args e)))
      else
        and_then (try_fold insert_positional (zip (map param_name params) (ce_positional_args e)) []) (\<lambda>out.
        and_then (try_fold (insert_named params) (ce_named_args e) out) (\<lambda>out.
        and_then (try_fold fill_default params out) (\<lambda>out.
        and_then (try_for_each (check_type out) params) (\<lambda>_. Inr out)))))"

section \<open>Command line arguments\<close>

datatype cli_args_error =
    InvalidCommand string
  | UnknownParam string
  | MissingValue string
  | InvalidValue string string string
  | BareArgument string

definition f64_is_finite :: "f64 \<Rightarrow> bool" where
  "f64_is_finite x \<longleftrightarrow> take_bit 11 (drop_bit 52 x) \<noteq> 0x7FF"

text \<open>\<open>serde_json::Number::from_f64\<close>.\<close>

definition number_from_f64 :: "f64 \<Rightarrow> number option" where
  "number_from_f64 x = (if f64_is_finite x then Some (Float x) else None)"

definition parse_typed_value ::
    "(string \<Rightarrow> f64 option) \<Rightarrow> (string \<Rightarrow> json option) \<Rightarrow> string \<Rightarrow> string \<Rightarrow> param_type \<Rightarrow> cli_args_error + json" where
  "parse_typed_value parse_f64 json_from_str name raw ty =
     (case ty of
        PString \<Rightarrow> Inr (JString raw)
      | PInteger \<Rightarrow> and_then (ok_or (InvalidValue name ''integer'' raw) (parse_i64 raw))
                     (\<lambda>n. Inr (JNumber (number_of_i64 n)))
      | PNumber \<Rightarrow> and_then (ok_or (InvalidValue name ''number'' raw) (parse_f64 raw)) (\<lambda>n.
                     ok_or (InvalidValue name ''number'' raw) (map_option JNumber (number_from_f64 n)))
      | PBoolean \<Rightarrow> (if raw = ''true'' then Inr (JBool True)
                     else if raw = ''false'' then Inr (JBool False)
                     else Inl (InvalidValue name ''boolean'' raw))
      | PNull \<Rightarrow> (if raw = ''null'' then Inr JNull else Inl (InvalidValue name ''null'' raw))
      | _ \<Rightarrow> ok_or (InvalidValue name (if ty = PArray then ''JSON array'' else ''JSON object'') raw)
               (json_from_str raw))"

text \<open>What a boolean flag consumes: the next token when it is a boolean literal.\<close>

definition parse_flag :: "string list \<Rightarrow> json \<times> string list" where
  "parse_flag rest =
     (case rest of
        [] \<Rightarrow> (JBool True, [])
      | raw # rest' \<Rightarrow>
          if \<not> prefix ''--'' raw then
            (if raw = ''true'' then (JBool True, rest')
             else if raw = ''false'' then (JBool False, rest')
             else (JBool True, rest))
          else (JBool True, rest))"

lemma length_parse_flag: "length (snd (parse_flag rest)) \<le> length rest"
  by (auto simp: parse_flag_def split: list.splits)

text \<open>The value of one parameter and the tokens left after it.\<close>

definition parse_value ::
    "(string \<Rightarrow> f64 option) \<Rightarrow> (string \<Rightarrow> json option) \<Rightarrow> param_spec \<Rightarrow> string \<Rightarrow> string list \<Rightarrow>
     cli_args_error + json \<times> string list" where
  "parse_value parse_f64 json_from_str spec name rest =
     (if param_ty spec = PBoolean then Inr (parse_flag rest)
      else (case rest of
              [] \<Rightarrow> Inl (MissingValue name)
            | raw # rest' \<Rightarrow>
                and_then (parse_typed_value parse_f64 json_from_str name raw (param_ty spec))
                  (\<lambda>v. Inr (v, rest'))))"

lemma length_parse_value:
  "parse_value pf pj spec name rest = Inr (v, rest') \<Longrightarrow> length rest' \<le> length rest"
  using length_parse_flag [of rest]
  by (auto simp: parse_value_def result_simps split: if_splits list.splits)

function parse_args_loop ::
    "(string \<Rightarrow> f64 option) \<Rightarrow> (string \<Rightarrow> json option) \<Rightarrow> param_spec list \<Rightarrow> string list \<Rightarrow>
     (string \<times> json) list \<Rightarrow> cli_args_error + (string \<times> json) list" where
  "parse_args_loop pf pj params [] named_args = Inr named_args"
| "parse_args_loop pf pj params (token # rest) named_args =
     (case strip_prefix ''--'' token of
        None \<Rightarrow> Inl (BareArgument token)
      | Some name \<Rightarrow>
          if name = [] then Inl (BareArgument token)
          else
            and_then (ok_or (UnknownParam name) (find (\<lambda>p. param_name p = name) params)) (\<lambda>spec.
            and_then (parse_value pf pj spec name rest) (\<lambda>r.
            parse_args_loop pf pj params (snd r) (named_args @ [(name, fst r)]))))"
  by pat_completeness auto
termination
  by (relation "measure (\<lambda>(pf, pj, ps, ts, acc). length ts)")
    (auto dest: length_parse_value simp: less_Suc_eq_le)

definition parse_cli_args ::
    "(string \<Rightarrow> f64 option) \<Rightarrow> (string \<Rightarrow> json option) \<Rightarrow> string \<Rightarrow> string list \<Rightarrow> param_spec list \<Rightarrow>
     cli_args_error + call_expression" where
  "parse_cli_args parse_f64 json_from_str command raw_args params =
     and_then (ok_or (InvalidCommand command) (split_once ''.'' command)) (\<lambda>(provider, cmd).
     if provider = [] \<or> cmd = [] then Inl (InvalidCommand command)
     else
       and_then (parse_args_loop parse_f64 json_from_str params raw_args []) (\<lambda>named_args.
       Inr \<lparr>ce_provider = provider, ce_command = cmd, ce_positional_args = [], ce_named_args = named_args\<rparr>))"

section \<open>What binding guarantees\<close>

text \<open>The arguments a call supplies, by name.\<close>

definition supplied :: "call_expression \<Rightarrow> param_spec list \<Rightarrow> (string \<times> json) list" where
  "supplied e params = zip (map param_name params) (ce_positional_args e) @ ce_named_args e"

lemma insert_positional_Inr:
  "insert_positional (k, v) out = Inr out' \<longleftrightarrow> k \<notin> dom (bt_get out) \<and> out' = bt_insert k v out"
  by (auto simp: insert_positional_def)

lemma insert_named_Inr:
  "insert_named params (k, v) out = Inr out' \<longleftrightarrow>
     k \<in> param_name ` set params \<and> k \<notin> dom (bt_get out) \<and> out' = bt_insert k v out"
  by (auto simp: insert_named_def list_ex_iff)

lemma fold_insert_new:
  assumes step: "\<And>k v out out'. f (k, v) out = Inr out' \<longleftrightarrow> P k \<and> k \<notin> dom (bt_get out) \<and> out' = bt_insert k v out"
  shows "try_fold f kvs out = Inr out' \<longleftrightarrow>
     distinct (map fst kvs) \<and> (\<forall>k \<in> fst ` set kvs. P k) \<and> fst ` set kvs \<inter> dom (bt_get out) = {}
     \<and> out' = fold (\<lambda>(k, v). bt_insert k v) kvs out"
proof (induction kvs arbitrary: out)
  case (Cons kv kvs)
  obtain k v where kv: "kv = (k, v)" by (cases kv)
  show ?case
    unfolding kv try_fold.simps and_then_Inr step
    by (simp add: Cons.IH) (auto simp del: map_of_eq_None_iff simp: image_iff)
qed auto

lemma positional_fold:
  "try_fold insert_positional kvs out = Inr out' \<longleftrightarrow>
     distinct (map fst kvs) \<and> fst ` set kvs \<inter> dom (bt_get out) = {}
     \<and> out' = fold (\<lambda>(k, v). bt_insert k v) kvs out"
  using fold_insert_new [of insert_positional "\<lambda>k. True" kvs out out']
  by (simp add: insert_positional_Inr)

lemma named_fold:
  "try_fold (insert_named params) kvs out = Inr out' \<longleftrightarrow>
     distinct (map fst kvs) \<and> fst ` set kvs \<subseteq> param_name ` set params
     \<and> fst ` set kvs \<inter> dom (bt_get out) = {}
     \<and> out' = fold (\<lambda>(k, v). bt_insert k v) kvs out"
  using fold_insert_new [of "insert_named params" "\<lambda>k. k \<in> param_name ` set params" kvs out out']
  by (simp only: insert_named_Inr) blast

text \<open>The default of a parameter by name.\<close>

definition default_of :: "param_spec list \<Rightarrow> string \<Rightarrow> json option" where
  "default_of params n = Option.bind (map_of (map (\<lambda>p. (param_name p, param_default p)) params) n) id"

definition fill :: "param_spec \<Rightarrow> json_map \<Rightarrow> json_map" where
  "fill p out =
     (case (bt_get out (param_name p), param_default p) of
        (None, Some d) \<Rightarrow> bt_insert (param_name p) d out
      | _ \<Rightarrow> out)"

lemma fill_get:
  "bt_get (fill p out) n =
     (if n = param_name p \<and> bt_get out n = None then param_default p else bt_get out n)"
  by (auto simp: fill_def split: option.splits)

lemma fill_default_Inr:
  "fill_default p out = Inr out' \<longleftrightarrow>
     (param_required p \<longrightarrow> param_default p = None \<longrightarrow> bt_get out (param_name p) \<noteq> None)
     \<and> out' = fill p out"
  by (auto simp: fill_default_def fill_def split: option.splits)

lemma default_fold:
  assumes "distinct (map param_name params)"
  shows "try_fold fill_default params out = Inr out' \<longleftrightarrow>
     (\<forall>p \<in> set params. param_required p \<longrightarrow> param_default p = None \<longrightarrow> bt_get out (param_name p) \<noteq> None)
     \<and> out' = fold fill params out"
  using assms
proof (induction params arbitrary: out)
  case (Cons p params)
  then have "bt_get (fill p out) (param_name q) = bt_get out (param_name q)" if "q \<in> set params" for q
    using that by (auto simp: fill_get image_iff)
  with Cons show ?case
    by (simp only: try_fold.simps and_then_Inr fill_default_Inr) auto
qed auto

lemma fill_fold_get:
  assumes "distinct (map param_name params)"
  shows "bt_get (fold fill params out) n =
     (case bt_get out n of Some v \<Rightarrow> Some v | None \<Rightarrow> default_of params n)"
  using assms
proof (induction params arbitrary: out)
  case (Cons p params)
  then have "map_of (map (\<lambda>p. (param_name p, param_default p)) params) (param_name p) = None"
    by (auto simp: map_of_eq_None_iff)
  then have "default_of params (param_name p) = None"
    by (simp add: default_of_def)
  with Cons show ?case
    by (auto simp: fill_get default_of_def split: option.splits)
qed (simp add: default_of_def split: option.split)

lemma fill_fold_ok: "bt_ok out \<Longrightarrow> bt_ok (fold fill params out)"
proof (induction params arbitrary: out)
  case (Cons p params)
  have "bt_ok (fill p out)" using Cons.prems by (auto simp: fill_def split: option.splits)
  then show ?case using Cons.IH by simp
qed simp

lemma check_types_Inr:
  "try_for_each (check_type out) params = Inr u \<longleftrightarrow>
     (\<forall>p \<in> set params. \<forall>v. bt_get out (param_name p) = Some v \<longrightarrow> is_null v \<or> matches_type v (param_ty p))"
  by (auto simp: result_simps check_type_def split: option.splits)

text \<open>What the two argument loops leave.\<close>

lemma supplied_folds:
  "(\<exists>out. try_fold insert_positional (zip (map param_name params) (ce_positional_args e)) [] = Inr out
      \<and> try_fold (insert_named params) (ce_named_args e) out = Inr out') \<longleftrightarrow>
     distinct (map fst (supplied e params)) \<and> fst ` set (ce_named_args e) \<subseteq> param_name ` set params
     \<and> out' = bt_from_iter (supplied e params)"
proof -
  let ?pos = "zip (map param_name params) (ce_positional_args e)"
  have get: "dom (bt_get (fold (\<lambda>(k, v). bt_insert k v) ?pos [])) = fst ` set ?pos"
    using bt_get_from_iter [of ?pos] by (simp add: bt_from_iter_def dom_map_of_conv_image_fst)
  show ?thesis
    unfolding positional_fold named_fold supplied_def bt_from_iter_def by (auto simp: get)
qed

lemma supplied_names:
  "length (ce_positional_args e) \<le> length params \<Longrightarrow>
   fst ` set (ce_named_args e) \<subseteq> param_name ` set params \<longleftrightarrow>
   fst ` set (supplied e params) \<subseteq> param_name ` set params"
  by (auto simp: supplied_def dest!: set_zip_leftD)

text \<open>
  C26. Binding, for parameters with distinct names: it succeeds with a map iff the call gives at most
  as many positional arguments as there are parameters, no argument twice and only declared ones,
  every required parameter without a default is given, and every value that is not null has its
  parameter's type. The map then holds exactly the given values, and the declared default for the
  parameters not given.
\<close>

theorem bind_arguments_iff:
  assumes "distinct (map param_name params)"
  shows "bind_arguments e params = Inr out \<longleftrightarrow>
     length (ce_positional_args e) \<le> length params
     \<and> distinct (map fst (supplied e params))
     \<and> fst ` set (supplied e params) \<subseteq> param_name ` set params
     \<and> (\<forall>p \<in> set params. param_required p \<longrightarrow> param_default p = None \<longrightarrow>
            param_name p \<in> fst ` set (supplied e params))
     \<and> bt_ok out
     \<and> (\<forall>n. bt_get out n =
            (case map_of (supplied e params) n of Some v \<Rightarrow> Some v | None \<Rightarrow> default_of params n))
     \<and> (\<forall>p \<in> set params. \<forall>v. bt_get out (param_name p) = Some v \<longrightarrow>
            is_null v \<or> matches_type v (param_ty p))"
    (is "?bind \<longleftrightarrow> ?few \<and> ?dist \<and> ?known \<and> ?req \<and> ?ok \<and> ?get \<and> ?typed")
proof -
  let ?args = "bt_from_iter (supplied e params)"
  have get: "bt_get ?args = map_of (supplied e params)" if ?dist
    using that by (simp add: bt_get_from_iter map_of_rev)
  have keys: "fst ` set ?args = fst ` set (supplied e params)" if ?dist
    using get [OF that] by (metis dom_map_of_conv_image_fst)
  have out: "out = fold fill params ?args \<longleftrightarrow> ?ok \<and> ?get" if ?dist
    using fill_fold_get [OF assms, of ?args] fill_fold_ok [of ?args params] get [OF that]
    by (auto simp: fun_eq_iff intro!: bt_ext)
  have "?bind \<longleftrightarrow> ?few \<and> (\<exists>args. (\<exists>o1. try_fold insert_positional (zip (map param_name params) (ce_positional_args e)) [] = Inr o1
      \<and> try_fold (insert_named params) (ce_named_args e) o1 = Inr args)
      \<and> try_fold fill_default params args = Inr out \<and> ?typed)"
    unfolding bind_arguments_def by (auto simp: and_then_Inr check_types_Inr)
  also have "\<dots> \<longleftrightarrow> ?few \<and> ?dist \<and> fst ` set (ce_named_args e) \<subseteq> param_name ` set params
      \<and> ?req \<and> out = fold fill params ?args \<and> ?typed"
    unfolding supplied_folds default_fold [OF assms] map_of_eq_None_iff using keys by auto
  also have "\<dots> \<longleftrightarrow> ?few \<and> ?dist \<and> ?known \<and> ?req \<and> out = fold fill params ?args \<and> ?typed"
    using supplied_names [of e params] by blast
  also have "\<dots> \<longleftrightarrow> ?few \<and> ?dist \<and> ?known \<and> ?req \<and> ?ok \<and> ?get \<and> ?typed"
    using out by blast
  finally show ?thesis .
qed

theorem bind_arguments_iff_witness:
  "bind_arguments
     \<lparr>ce_provider = ''gh'', ce_command = ''ls'', ce_positional_args = [JString ''me''],
      ce_named_args = [(''n'', JNumber (PosInt 3))]\<rparr>
     [\<lparr>param_name = ''owner'', param_ty = PString, param_required = True, param_default = None,
       param_description = None\<rparr>,
      \<lparr>param_name = ''n'', param_ty = PInteger, param_required = False, param_default = None,
       param_description = None\<rparr>,
      \<lparr>param_name = ''all'', param_ty = PBoolean, param_required = False,
       param_default = Some (JBool False), param_description = None\<rparr>]
   = Inr [(''all'', JBool False), (''n'', JNumber (PosInt 3)), (''owner'', JString ''me'')]"
  by (subst bind_arguments_iff)
    (simp_all add: supplied_def default_of_def fun_eq_iff)

section \<open>What the command line reader guarantees\<close>

lemma find_name: "find (\<lambda>p. param_name p = n) params = Some p \<Longrightarrow> p \<in> set params \<and> param_name p = n"
  by (auto simp: find_Some_iff)

text \<open>The type a token is read with is the declared one, except that array and object
  parameters take any JSON text.\<close>

definition read_type :: "param_type \<Rightarrow> json \<Rightarrow> bool" where
  "read_type ty v \<longleftrightarrow> ty = PArray \<or> ty = PObject \<or> matches_type v ty"

lemma parse_unsigned_bound: "parse_unsigned b s = Some n \<Longrightarrow> n < b"
  by (auto simp: parse_unsigned_def Let_def split: if_splits option.splits)

lemma parse_i64_range: "parse_i64 s = Some i \<Longrightarrow> - (2 ^ 63) \<le> i \<and> i < 2 ^ 63"
  using parse_unsigned_bound [of "2 ^ 63" s]
  by (auto simp: parse_i64_def split: list.splits if_splits option.splits dest: parse_unsigned_bound)

lemma parse_typed_value_type: "parse_typed_value pf pj n raw ty = Inr v \<Longrightarrow> read_type ty v"
  by (auto simp: parse_typed_value_def read_type_def result_simps number_from_f64_def
      as_i64_number_of_i64 dest!: parse_i64_range split: param_type.splits if_splits)

lemma parse_value_type:
  "parse_value pf pj spec n rest = Inr (v, rest') \<Longrightarrow> read_type (param_ty spec) v"
  by (auto simp: parse_value_def result_simps parse_flag_def read_type_def
      split: if_splits list.splits dest: parse_typed_value_type)

lemma parse_args_loop_named:
  assumes "parse_args_loop pf pj params tokens acc = Inr named"
    and "\<forall>(n, v) \<in> set acc. \<exists>p \<in> set params. param_name p = n \<and> read_type (param_ty p) v"
  shows "\<forall>(n, v) \<in> set named. \<exists>p \<in> set params. param_name p = n \<and> read_type (param_ty p) v"
  using assms
proof (induction pf pj params tokens acc rule: parse_args_loop.induct)
  case (2 pf pj params token rest acc)
  then obtain n spec r where n: "strip_prefix ''--'' token = Some n" "n \<noteq> []"
    and spec: "find (\<lambda>p. param_name p = n) params = Some spec"
    and r: "parse_value pf pj spec n rest = Inr r"
    and loop: "parse_args_loop pf pj params (snd r) (acc @ [(n, fst r)]) = Inr named"
    by (auto simp: result_simps split: option.splits if_splits)
  have "read_type (param_ty spec) (fst r)"
    using r parse_value_type [of pf pj spec n rest "fst r" "snd r"] by simp
  with 2(3) find_name [OF spec]
  have "\<forall>(n, v) \<in> set (acc @ [(n, fst r)]). \<exists>p \<in> set params. param_name p = n \<and> read_type (param_ty p) v"
    by auto
  from 2(1) [OF n _ r loop this] spec show ?case by simp
qed simp

lemma insert_named_err:
  "try_fold (insert_named params) kvs out = Inl err \<Longrightarrow> fst ` set kvs \<subseteq> param_name ` set params \<Longrightarrow>
     \<exists>n. err = DuplicateArgument n"
proof (induction kvs arbitrary: out)
  case (Cons kv kvs)
  obtain n v where kv: "kv = (n, v)" by (cases kv)
  with Cons.prems have "list_ex (\<lambda>p. param_name p = n) params" by (auto simp: list_ex_iff)
  with Cons kv show ?case
    by (fastforce simp: and_then_Inl insert_named_def split: if_splits)
qed simp

lemma fill_default_err:
  "try_fold fill_default ps out = Inl err \<Longrightarrow> \<exists>n. err = MissingRequired n"
  by (induction ps arbitrary: out)
    (auto simp: and_then_Inl fill_default_def split: if_splits option.splits)

lemma check_type_err:
  "check_type out p = Inl err \<Longrightarrow>
     \<exists>v. bt_get out (param_name p) = Some v \<and> \<not> matches_type v (param_ty p)
       \<and> err = InvalidType (param_name p) (param_type_display (param_ty p)) (value_type_name v)"
  by (auto simp: check_type_def split: option.splits if_splits)

lemma default_of_mem:
  assumes "distinct (map param_name params)" and "p \<in> set params"
  shows "default_of params (param_name p) = param_default p"
proof -
  have "distinct (map fst (map (\<lambda>p. (param_name p, param_default p)) params))"
    using assms(1) by (simp add: comp_def)
  with assms(2) have "map_of (map (\<lambda>p. (param_name p, param_default p)) params) (param_name p) = Some (param_default p)"
    by (intro map_of_is_SomeI) auto
  then show ?thesis by (simp add: default_of_def)
qed

text \<open>
  Reading a command line and binding the result never reports too many or unknown arguments:
  what is left to fail is a repeated flag, a missing required parameter, and a type error, the
  last only for an array or object parameter or a declared default of the wrong type.
\<close>

theorem cli_then_bind_errors:
  assumes "parse_cli_args pf pj command tokens params = Inr e"
    and "distinct (map param_name params)"
    and "bind_arguments e params = Inl err"
  shows "(\<exists>n. err = DuplicateArgument n) \<or> (\<exists>n. err = MissingRequired n)
     \<or> (\<exists>p \<in> set params. \<exists>actual. err = InvalidType (param_name p) (param_type_display (param_ty p)) actual
          \<and> (param_ty p = PArray \<or> param_ty p = PObject
             \<or> (\<exists>d. param_default p = Some d \<and> \<not> matches_type d (param_ty p))))"
proof -
  let ?named = "ce_named_args e"
  from assms(1) have pos: "ce_positional_args e = []"
    and "parse_args_loop pf pj params tokens [] = Inr ?named"
    by (auto simp: parse_cli_args_def and_then_Inr ok_or_Inr split: if_splits)
  then have named: "\<forall>(n, v) \<in> set ?named. \<exists>p \<in> set params. param_name p = n \<and> read_type (param_ty p) v"
    using parse_args_loop_named [of pf pj params tokens "[]" ?named] by simp
  then have known: "fst ` set ?named \<subseteq> param_name ` set params" by fastforce
  from assms(3) pos consider
      (named) "try_fold (insert_named params) ?named [] = Inl err"
    | (fill) args where "try_fold fill_default params args = Inl err"
    | (type) args out where "try_fold (insert_named params) ?named [] = Inr args"
        "try_fold fill_default params args = Inr out" "try_for_each (check_type out) params = Inl err"
    by (auto simp: bind_arguments_def and_then_Inl)
  then show ?thesis
  proof cases
    case named
    then show ?thesis using insert_named_err known by blast
  next
    case fill
    then show ?thesis using fill_default_err by blast
  next
    case type
    then obtain p v where p: "p \<in> set params" "bt_get out (param_name p) = Some v"
      "\<not> matches_type v (param_ty p)"
      "err = InvalidType (param_name p) (param_type_display (param_ty p)) (value_type_name v)"
      by (meson check_type_err try_for_each_Inl_D)
    have args: "bt_get args = map_of ?named"
      using type(1) bt_get_from_iter [of ?named] unfolding named_fold bt_from_iter_def
      by (simp add: map_of_rev)
    from type(2) have "out = fold fill params args" by (simp add: default_fold [OF assms(2)])
    then have "bt_get out (param_name p) =
        (case map_of ?named (param_name p) of Some v \<Rightarrow> Some v | None \<Rightarrow> param_default p)"
      using default_of_mem [OF assms(2) p(1)] 
      by (simp add: fill_fold_get [OF assms(2)] args split: option.split)
    with p(2) consider "(param_name p, v) \<in> set ?named" | "param_default p = Some v"
      by (auto split: option.splits dest: map_of_SomeD)
    then show ?thesis
    proof cases
      case 1
      with named obtain q where "q \<in> set params" "param_name q = param_name p" "read_type (param_ty q) v"
        by blast
      with assms(2) p(1) have "read_type (param_ty p) v" by (metis distinct_map inj_onD)
      then show ?thesis using p by (auto simp: read_type_def)
    next
      case 2
      then show ?thesis using p by blast
    qed
  qed
qed

definition tags_param :: param_spec where
  "tags_param = \<lparr>param_name = ''tags'', param_ty = PArray, param_required = True,
     param_default = None, param_description = None\<rparr>"

definition tags_call :: call_expression where
  "tags_call = \<lparr>ce_provider = ''gh'', ce_command = ''tag'', ce_positional_args = [],
     ce_named_args = [(''tags'', JObject [])]\<rparr>"

theorem cli_then_bind_errors_witness:
  "parse_cli_args (\<lambda>_. None) (\<lambda>s. Some (JObject [])) ''gh.tag'' [''--tags'', ''{}''] [tags_param] = Inr tags_call
   \<and> bind_arguments tags_call [tags_param] = Inl (InvalidType ''tags'' ''array'' ''object'')
   \<and> (\<exists>p \<in> set [tags_param]. \<exists>actual. InvalidType ''tags'' ''array'' ''object'' =
          InvalidType (param_name p) (param_type_display (param_ty p)) actual
        \<and> (param_ty p = PArray \<or> param_ty p = PObject
           \<or> (\<exists>d. param_default p = Some d \<and> \<not> matches_type d (param_ty p))))"
proof -
  have 1: "parse_cli_args (\<lambda>_. None) (\<lambda>s. Some (JObject [])) ''gh.tag'' [''--tags'', ''{}''] [tags_param] = Inr tags_call"
    by (simp add: parse_cli_args_def split_once_def strip_prefix_def parse_value_def
      parse_typed_value_def tags_param_def tags_call_def)
  have 2: "distinct (map param_name [tags_param])" by simp
  have 3: "bind_arguments tags_call [tags_param] = Inl (InvalidType ''tags'' ''array'' ''object'')"
    by (simp add: bind_arguments_def insert_named_def fill_default_def check_type_def
      value_type_name_def tags_param_def tags_call_def)
  show ?thesis using cli_then_bind_errors [OF 1 2 3] 1 3 by simp
qed

end
