(* ===== verification/Redact.thy ===== *)
theory Redact
  imports Json
begin

text \<open>
  The secret redactor \<open>crates/earl-core/src/redact.rs\<close>. The base64 and URL encoders are
  libraries, so parameters; the hexadecimal one is the source's. The main lemma follows a text
  through the replacements one after the other: no listed variant survives them, unless it is
  built from the marker itself.
\<close>

text \<open>The encoders of the \<open>base64\<close> and \<open>url\<close> crates.\<close>

record encoders =
  base64_standard :: "string \<Rightarrow> string"
  base64_url_safe :: "string \<Rightarrow> string"
  byte_serialize :: "string \<Rightarrow> string"

record redactor =
  red_secrets :: "string list"

definition hex_digit :: "bool \<Rightarrow> nat \<Rightarrow> char" where
  "hex_digit uppercase n =
     char_of (if n < 10 then 48 + n else if uppercase then 55 + n else 87 + n)"

definition hex_encode :: "string \<Rightarrow> bool \<Rightarrow> string" where
  "hex_encode bytes uppercase =
     concat (map (\<lambda>b. [hex_digit uppercase (byte b div 16), hex_digit uppercase (byte b mod 16)]) bytes)"

text \<open>The strings inserted into the set for one secret.\<close>

definition secret_variants :: "encoders \<Rightarrow> string \<Rightarrow> string list" where
  "secret_variants enc secret =
     (if secret = [] then []
      else secret #
        (if length secret \<ge> 6 then
           [base64_standard enc secret, base64_url_safe enc secret,
            hex_encode secret False, hex_encode secret True]
           @ (let url_encoded = byte_serialize enc secret
              in if url_encoded \<noteq> [] then [url_encoded] else [])
         else []))"

text \<open>A \<open>BTreeSet\<close> is iterated in ascending order; the stable sort then puts longer ones first.\<close>

definition redactor_new :: "encoders \<Rightarrow> string list \<Rightarrow> redactor" where
  "redactor_new enc secrets =
     (let variants = remdups (sort (concat (map (secret_variants enc) secrets)))
      in \<lparr>red_secrets = sort_key (\<lambda>s. - int (length s)) variants\<rparr>)"

text \<open>\<open>str::replace\<close> with an empty pattern puts the replacement around every character. Only
  an encoder that returns the empty string could bring such a pattern in.\<close>

definition marker :: string where
  "marker = ''[REDACTED]''"

definition redact :: "redactor \<Rightarrow> string \<Rightarrow> string" where
  "redact r input = fold (\<lambda>secret out. str_replace secret marker out) (red_secrets r) input"

fun redact_json :: "redactor \<Rightarrow> json \<Rightarrow> json"
  and redact_json_list :: "redactor \<Rightarrow> json list \<Rightarrow> json list"
  and redact_json_fields :: "redactor \<Rightarrow> (string \<times> json) list \<Rightarrow> (string \<times> json) list" where
  "redact_json r JNull = JNull"
| "redact_json r (JBool v) = JBool v"
| "redact_json r (JNumber v) = JNumber v"
| "redact_json r (JString v) = JString (redact r v)"
| "redact_json r (JArray values) = JArray (redact_json_list r values)"
| "redact_json r (JObject m) = JObject (redact_json_fields r m)"
| "redact_json_list r [] = []"
| "redact_json_list r (v # vs) = redact_json r v # redact_json_list r vs"
| "redact_json_fields r [] = []"
| "redact_json_fields r ((k, v) # m) = (k, redact_json r v) # redact_json_fields r m"

section \<open>Replacing leaves no listed secret\<close>

text \<open>A string without the separator lies on one side of it.\<close>

lemma sublist_around:
  assumes "c \<notin> set v"
  shows "sublist v (a @ c # b) \<longleftrightarrow> sublist v a \<or> sublist v b"
proof
  assume "sublist v (a @ c # b)"
  then consider "sublist v a" | "sublist v (c # b)"
    | x y where "v = x @ y" "suffix x a" "prefix y (c # b)"
    unfolding sublist_append by blast
  then show "sublist v a \<or> sublist v b"
  proof cases
    case 2
    with assms show ?thesis
      by (auto simp: sublist_Cons_right prefix_Cons)
  next
    case 3
    with assms have "y = []" by (auto simp: prefix_Cons)
    with 3 show ?thesis by simp
  qed simp
next
  assume "sublist v a \<or> sublist v b"
  then show "sublist v (a @ c # b)"
    by (auto simp: sublist_append sublist_Cons_right)
qed

text \<open>A string that cannot be part of the marker or reach across it.\<close>

definition outside_marker :: "string \<Rightarrow> bool" where
  "outside_marker v \<longleftrightarrow> CHR ''['' \<notin> set v \<and> CHR '']'' \<notin> set v \<and> \<not> sublist v ''REDACTED''"

lemma outside_marker_around:
  assumes "outside_marker v"
  shows "sublist v (marker @ b) \<longleftrightarrow> sublist v b"
proof -
  have split: "marker @ b = [] @ CHR ''['' # ''REDACTED'' @ CHR '']'' # b"
    by (simp add: marker_def)
  from assms have "sublist v ([] @ CHR ''['' # ''REDACTED'' @ CHR '']'' # b) \<longleftrightarrow>
      sublist v [] \<or> sublist v ''REDACTED'' \<or> sublist v b"
    unfolding outside_marker_def using sublist_around by metis
  moreover from assms have "\<not> sublist v []" "\<not> sublist v ''REDACTED''"
    by (auto simp: outside_marker_def)
  ultimately show ?thesis unfolding split by blast
qed

lemma prefix_str_replace:
  assumes "p \<noteq> []" and "CHR ''['' \<notin> set v" and "prefix v (str_replace p marker s)"
  shows "prefix v s"
  using assms
proof (induction s arbitrary: v rule: str_replace_induct)
  case (hit s)
  then have "prefix v (marker @ str_replace p marker (drop (length p) s))"
    using assms(1) by (simp add: str_replace_hit)
  with hit(3) show ?case by (cases v) (auto simp: marker_def)
next
  case (miss c cs)
  then show ?case using assms(1) by (cases v) (auto simp: str_replace_miss)
qed (simp add: str_replace_Nil assms(1))

lemma str_replace_removes:
  assumes "p \<noteq> []" and "outside_marker v" and "p = v \<or> \<not> sublist v s"
  shows "\<not> sublist v (str_replace p marker s)"
  using assms
proof (induction s rule: str_replace_induct)
  case Nil
  then show ?case using assms(1) by (auto simp: str_replace_Nil outside_marker_def)
next
  case (hit s)
  have "sublist (drop (length p) s) s" by (simp add: suffix_drop suffix_imp_sublist)
  with hit(4) have "p = v \<or> \<not> sublist v (drop (length p) s)"
    by (blast intro: sublist_order.order.trans)
  with hit assms(1) show ?case by (simp add: str_replace_hit outside_marker_around)
next
  case (miss c cs)
  have "\<not> prefix v (c # str_replace p marker cs)"
  proof
    assume "prefix v (c # str_replace p marker cs)"
    then have "prefix v (c # cs)"
      using prefix_str_replace [of p v "c # cs"] miss assms(1)
      by (simp add: str_replace_miss outside_marker_def)
    with miss show False by (auto dest: prefix_imp_sublist)
  qed
  with miss assms(1) show ?case
    by (auto simp: str_replace_miss sublist_Cons_right)
qed

lemma redact_fold_removes:
  assumes "\<forall>p \<in> set ps. p \<noteq> []" and "outside_marker v" and "v \<in> set ps \<or> \<not> sublist v s"
  shows "\<not> sublist v (fold (\<lambda>secret out. str_replace secret marker out) ps s)"
  using assms
proof (induction ps arbitrary: s)
  case (Cons p ps)
  then have "v \<in> set ps \<or> \<not> sublist v (str_replace p marker s)"
    using str_replace_removes [of p v s] by auto
  with Cons show ?case by simp
qed auto

lemma redact_fold_absent:
  "\<forall>p \<in> set ps. p \<noteq> [] \<and> \<not> sublist p s \<Longrightarrow>
     fold (\<lambda>secret out. str_replace secret marker out) ps s = s"
  by (induction ps) (auto simp: str_replace_absent)

section \<open>The redactor of a list of secrets\<close>

text \<open>An encoder never makes something empty out of a secret.\<close>

definition encoders_ok :: "encoders \<Rightarrow> bool" where
  "encoders_ok enc \<longleftrightarrow>
     (\<forall>s. s \<noteq> [] \<longrightarrow> base64_standard enc s \<noteq> [] \<and> base64_url_safe enc s \<noteq> [])"

lemma hex_encode_Nil_iff: "hex_encode s upper = [] \<longleftrightarrow> s = []" "[] = hex_encode s upper \<longleftrightarrow> s = []"
  by (cases s; simp add: hex_encode_def)+

lemma length_hex_encode: "length (hex_encode s upper) = 2 * length s"
  by (induction s) (auto simp: hex_encode_def)

lemma secret_variants_not_Nil:
  assumes "encoders_ok enc" and "v \<in> set (secret_variants enc s)"
  shows "v \<noteq> []"
proof -
  from assms(2) have s: "s \<noteq> []" by (auto simp: secret_variants_def)
  then have "base64_standard enc s \<noteq> []" "base64_url_safe enc s \<noteq> []"
    using assms(1) by (simp_all add: encoders_ok_def)
  with s assms(2) show ?thesis
    by (auto simp: secret_variants_def Let_def hex_encode_Nil_iff split: if_splits)
qed

lemma set_redactor_new:
  "set (red_secrets (redactor_new enc secrets)) = (\<Union>s \<in> set secrets. set (secret_variants enc s))"
  by (simp add: redactor_new_def Let_def)

text \<open>Longer variants are replaced before shorter ones, so no longer secret loses its match to
  a part of it.\<close>

lemma redactor_new_order:
  "sorted_wrt (\<lambda>a b. length b \<le> length a) (red_secrets (redactor_new enc secrets))"
proof -
  have "sorted (map (\<lambda>s. - int (length s)) (sort_key (\<lambda>s. - int (length s)) vs))" for vs :: "string list"
    by simp
  then show ?thesis
    unfolding redactor_new_def Let_def sorted_map by (simp add: sorted_wrt_map)
qed

lemma redact_removes_listed:
  assumes "secret \<in> set secrets" and "encoders_ok enc"
    and "v \<in> set (secret_variants enc secret)" and "outside_marker v"
  shows "\<not> sublist v (redact (redactor_new enc secrets) input)"
  unfolding redact_def
proof (rule redact_fold_removes)
  show "\<forall>p \<in> set (red_secrets (redactor_new enc secrets)). p \<noteq> []"
    using secret_variants_not_Nil [OF assms(2)] by (auto simp: set_redactor_new)
  show "v \<in> set (red_secrets (redactor_new enc secrets)) \<or> \<not> sublist v input"
    using assms by (auto simp: set_redactor_new)
qed (rule assms)

text \<open>
  C31. No secret survives redaction: neither the secret nor, from six bytes on, its base64,
  hexadecimal and URL-encoded forms occur in the redacted text, provided the form has no bracket
  and is not a part of the word REDACTED.
\<close>

theorem redact_removes_secrets:
  assumes "encoders_ok enc" and "secret \<in> set secrets"
    and "v \<in> set (secret_variants enc secret)" and "outside_marker v"
  shows "\<not> sublist v (redact (redactor_new enc secrets) input)"
  using redact_removes_listed [OF assms(2,1,3,4)] .

definition hex_encoders :: encoders where
  "hex_encoders = \<lparr>base64_standard = (\<lambda>s. hex_encode s True),
     base64_url_safe = (\<lambda>s. hex_encode s False), byte_serialize = id\<rparr>"

theorem redact_removes_secrets_witness:
  "\<not> sublist ''hunter2'' (redact (redactor_new hex_encoders [''x'', ''hunter2'']) ''pw=hunter2;hunter2'')
   \<and> \<not> sublist ''68756e74657232'' (redact (redactor_new hex_encoders [''x'', ''hunter2'']) ''0x68756e74657232'')"
proof
  have ok: "encoders_ok hex_encoders"
    by (simp add: encoders_ok_def hex_encoders_def hex_encode_Nil_iff)
  have mem: "''hunter2'' \<in> set (secret_variants hex_encoders ''hunter2'')"
    "''68756e74657232'' \<in> set (secret_variants hex_encoders ''hunter2'')"
    by (simp_all add: secret_variants_def hex_encoders_def hex_encode_def hex_digit_def)
  show "\<not> sublist ''hunter2'' (redact (redactor_new hex_encoders [''x'', ''hunter2'']) ''pw=hunter2;hunter2'')"
    by (rule redact_removes_secrets [OF ok _ mem(1)]) (simp_all add: outside_marker_def sublist_Cons_right)
  show "\<not> sublist ''68756e74657232'' (redact (redactor_new hex_encoders [''x'', ''hunter2'']) ''0x68756e74657232'')"
    by (rule redact_removes_secrets [OF ok _ mem(2)]) (simp_all add: outside_marker_def sublist_Cons_right)
qed

text \<open>A text in which no variant occurs is not changed.\<close>

lemma redact_absent:
  "encoders_ok enc \<Longrightarrow>
   \<forall>s \<in> set secrets. \<forall>v \<in> set (secret_variants enc s). \<not> sublist v input \<Longrightarrow>
   redact (redactor_new enc secrets) input = input"
  unfolding redact_def
  by (rule redact_fold_absent) (use secret_variants_not_Nil in \<open>auto simp: set_redactor_new\<close>)

lemma redact_no_secrets: "redact (redactor_new enc []) input = input"
  by (simp add: redact_def redactor_new_def)

section \<open>JSON values\<close>

text \<open>Two values with the same shape: arrays of one length, objects with the same keys.\<close>

fun same_shape :: "json \<Rightarrow> json \<Rightarrow> bool" where
  "same_shape (JString a) (JString b) = True"
| "same_shape (JArray as) (JArray bs) = list_all2 same_shape as bs"
| "same_shape (JObject m) (JObject n) = list_all2 (\<lambda>(k, v) (k', v'). k = k' \<and> same_shape v v') m n"
| "same_shape a b = (a = b)"

lemma redact_json_strings:
  "json_strings (redact_json r v) = map (redact r) (json_strings v)"
  "json_list_strings (redact_json_list r vs) = map (redact r) (json_list_strings vs)"
  "json_fields_strings (redact_json_fields r m) = map (redact r) (json_fields_strings m)"
  by (induction r v and r vs and r m rule: redact_json_redact_json_list_redact_json_fields.induct) auto

lemma redact_json_fields_keys: "bt_keys (redact_json_fields r m) = bt_keys m"
  by (induction m) auto

lemma redact_json_ok:
  "json_ok (redact_json r v) = json_ok v"
  "json_list_ok (redact_json_list r vs) = json_list_ok vs"
  "json_fields_ok (redact_json_fields r m) = json_fields_ok m"
  by (induction r v and r vs and r m rule: redact_json_redact_json_list_redact_json_fields.induct)
    (auto simp: redact_json_fields_keys)

lemma redact_json_shape:
  "same_shape v (redact_json r v)"
  "list_all2 same_shape vs (redact_json_list r vs)"
  "list_all2 (\<lambda>(k, v) (k', v'). k = k' \<and> same_shape v v') m (redact_json_fields r m)"
  by (induction r v and r vs and r m rule: redact_json_redact_json_list_redact_json_fields.induct) auto

text \<open>
  Redacting a JSON value redacts every string in it and changes nothing else: the shape, the
  object keys and the other leaves stay, so a secret used as a key is printed.
\<close>

theorem redact_json_leaves:
  "json_strings (redact_json r v) = map (redact r) (json_strings v)
   \<and> same_shape v (redact_json r v)
   \<and> json_ok (redact_json r v) = json_ok v"
  by (simp add: redact_json_strings redact_json_shape redact_json_ok)

end
