(* ===== verification/Secrets.thy ===== *)
theory Secrets
  imports Config
begin

text \<open>
  Secrets: \<open>src/secrets/store.rs\<close>, \<open>metadata_index.rs\<close>, \<open>mod.rs\<close> and \<open>keychain.rs\<close>. The trait
  \<open>SecretStore\<close> is a record of operations on a store state, its contract the locale
  \<open>secret_store\<close>, interpreted on the in-memory store; the secret manager and its index are
  proved over the contract. The keyring, the external resolvers, the clock, the index file and
  its JSON form are parameters.
\<close>

section \<open>The index\<close>

text \<open>A time stamp is a number of nanoseconds.\<close>

record secret_metadata =
  sm_key :: string
  sm_created_at :: int
  sm_updated_at :: int

type_synonym secret_index = "(string, secret_metadata) btree"

definition index_upsert :: "int \<Rightarrow> string \<Rightarrow> secret_index \<Rightarrow> secret_index" where
  "index_upsert now key index =
     bt_insert key
       (case bt_get index key of
          Some meta \<Rightarrow> meta\<lparr>sm_updated_at := now\<rparr>
        | None \<Rightarrow> \<lparr>sm_key = key, sm_created_at = now, sm_updated_at = now\<rparr>) index"

definition index_remove :: "string \<Rightarrow> secret_index \<Rightarrow> secret_index" where
  "index_remove key index = bt_remove key index"

definition index_list :: "secret_index \<Rightarrow> secret_metadata list" where
  "index_list index = bt_values index"

definition index_get :: "secret_index \<Rightarrow> string \<Rightarrow> secret_metadata option" where
  "index_get index key = bt_get index key"

section \<open>Stores\<close>

record 'st secret_store_ops =
  set_secret :: "string \<Rightarrow> string \<Rightarrow> ('st, unit) action"
  get_secret :: "string \<Rightarrow> 'st \<Rightarrow> string option result"
  delete_secret :: "string \<Rightarrow> ('st, bool) action"

text \<open>The in-memory store: a map behind a mutex that may be poisoned.\<close>

record memory_store =
  ms_poisoned :: bool
  ms_values :: "(string, string) btree"

definition poisoned_error :: anyhow where
  "poisoned_error = [''in-memory secret store mutex poisoned'']"

definition mem_set_secret :: "string \<Rightarrow> string \<Rightarrow> (memory_store, unit) action" where
  "mem_set_secret key secret st =
     (if ms_poisoned st then (Inl poisoned_error, st)
      else (Inr (), st\<lparr>ms_values := bt_insert key secret (ms_values st)\<rparr>))"

definition mem_get_secret :: "string \<Rightarrow> memory_store \<Rightarrow> string option result" where
  "mem_get_secret key st =
     (if ms_poisoned st then Inl poisoned_error else Inr (bt_get (ms_values st) key))"

definition mem_delete_secret :: "string \<Rightarrow> (memory_store, bool) action" where
  "mem_delete_secret key st =
     (if ms_poisoned st then (Inl poisoned_error, st)
      else (Inr (bt_get (ms_values st) key \<noteq> None),
            st\<lparr>ms_values := bt_remove key (ms_values st)\<rparr>))"

definition in_memory_store :: "memory_store secret_store_ops" where
  "in_memory_store =
     \<lparr>set_secret = mem_set_secret, get_secret = mem_get_secret, delete_secret = mem_delete_secret\<rparr>"

text \<open>The keychain store over the operations of the \<open>keyring\<close> crate.\<close>

datatype keyring_error = NoEntry | KeyringFailure string

record 'k keyring =
  kr_new :: "string \<Rightarrow> string \<Rightarrow> string + unit"
  kr_set_password :: "string \<Rightarrow> string \<Rightarrow> string \<Rightarrow> 'k \<Rightarrow> (keyring_error + unit) \<times> 'k"
  kr_get_password :: "string \<Rightarrow> string \<Rightarrow> 'k \<Rightarrow> keyring_error + string"
  kr_delete_credential :: "string \<Rightarrow> string \<Rightarrow> 'k \<Rightarrow> (keyring_error + unit) \<times> 'k"
  kr_show_error :: "keyring_error \<Rightarrow> string"

definition service_name :: string where
  "service_name = ''earl''"

definition keychain_entry :: "'k keyring \<Rightarrow> string \<Rightarrow> unit result" where
  "keychain_entry kr key =
     map_err (\<lambda>err. [''failed creating keyring entry for `'' @ key @ ''`: '' @ err]) (kr_new kr service_name key)"

definition keychain_set_secret :: "'k keyring \<Rightarrow> string \<Rightarrow> string \<Rightarrow> ('k, unit) action" where
  "keychain_set_secret kr key secret =
     act_bind (act_lift (keychain_entry kr key)) (\<lambda>_ k.
       (case kr_set_password kr service_name key secret k of
          (Inr _, k') \<Rightarrow> (Inr (), k')
        | (Inl err, k') \<Rightarrow>
            (Inl [''failed storing secret `'' @ key @ ''` in keychain: '' @ kr_show_error kr err], k')))"

definition keychain_get_secret :: "'k keyring \<Rightarrow> string \<Rightarrow> 'k \<Rightarrow> string option result" where
  "keychain_get_secret kr key k =
     and_then (keychain_entry kr key) (\<lambda>_.
       (case kr_get_password kr service_name key k of
          Inr v \<Rightarrow> Inr (Some v)
        | Inl NoEntry \<Rightarrow> Inr None
        | Inl err \<Rightarrow> Inl [''failed reading secret `'' @ key @ ''` from keychain: '' @ kr_show_error kr err]))"

definition keychain_delete_secret :: "'k keyring \<Rightarrow> string \<Rightarrow> ('k, bool) action" where
  "keychain_delete_secret kr key =
     act_bind (act_lift (keychain_entry kr key)) (\<lambda>_ k.
       (case kr_delete_credential kr service_name key k of
          (Inr _, k') \<Rightarrow> (Inr True, k')
        | (Inl NoEntry, k') \<Rightarrow> (Inr False, k')
        | (Inl err, k') \<Rightarrow>
            (Inl [''failed deleting secret `'' @ key @ ''` from keychain: '' @ kr_show_error kr err], k')))"

definition keychain_store :: "'k keyring \<Rightarrow> 'k secret_store_ops" where
  "keychain_store kr =
     \<lparr>set_secret = keychain_set_secret kr, get_secret = keychain_get_secret kr,
      delete_secret = keychain_delete_secret kr\<rparr>"

section \<open>Requiring a secret\<close>

text \<open>An external resolver may answer differently on each call, so it acts on a state.\<close>

record 'w secret_resolver =
  resolver_scheme :: string
  resolver_resolve :: "string \<Rightarrow> ('w, string) action"

text \<open>\<open>{:#}\<close> prints the whole chain. Unicode lower-casing is a parameter.\<close>

definition transient_marks :: "string list" where
  "transient_marks =
     [''timeout'', ''timed out'', ''connection reset'', ''connection refused'', ''broken pipe'',
      ''http 500'', ''http 502'', ''http 503'', ''http 504'', ''http 429'',
      ''status code 500'', ''status code 502'', ''status code 503'', ''status code 504'',
      ''status code 429'']"

definition is_transient :: "(string \<Rightarrow> string) \<Rightarrow> anyhow \<Rightarrow> bool" where
  "is_transient to_lowercase err =
     (let msg = to_lowercase (str_join '': '' err)
      in list_ex (\<lambda>mark. sublist mark msg) transient_marks)"

definition max_attempts :: nat where
  "max_attempts = 3"

definition backoff_base_ms :: nat where
  "backoff_base_ms = 500"

text \<open>The loop over the attempts that are left; the state also logs how long it slept.\<close>

function resolve_attempts ::
    "(string \<Rightarrow> string) \<Rightarrow> ('w, string) action \<Rightarrow> nat \<Rightarrow> ('w \<times> nat list, string) action" where
  "resolve_attempts lower resolve attempt (w, slept) =
     (case resolve w of
        (Inr secret, w') \<Rightarrow> (Inr secret, (w', slept))
      | (Inl err, w') \<Rightarrow>
          if attempt < max_attempts \<and> is_transient lower err
          then resolve_attempts lower resolve (attempt + 1) (w', slept @ [backoff_base_ms * attempt])
          else (Inl err, (w', slept)))"
  by pat_completeness auto
termination
  by (relation "measure (\<lambda>(lower, resolve, attempt, ws). max_attempts - attempt)") auto

declare resolve_attempts.simps [simp del]

definition require_secret ::
    "(string \<Rightarrow> string) \<Rightarrow> 'st secret_store_ops \<Rightarrow> 'w secret_resolver list \<Rightarrow> string \<Rightarrow> 'st \<Rightarrow>
     ('w \<times> nat list, string) action" where
  "require_secret lower store resolvers key st ws =
     (case split_once ''://'' key of
        Some (scheme, _) \<Rightarrow>
          (case find (\<lambda>r. resolver_scheme r = scheme) resolvers of
             Some r \<Rightarrow> resolve_attempts lower (resolver_resolve r key) 1 ws
           | None \<Rightarrow> (bail (''no secret resolver registered for scheme `'' @ scheme @ ''://`''), ws))
      | None \<Rightarrow>
          (and_then (get_secret store key st)
             (\<lambda>v. ok_or [''missing required secret `'' @ key @ ''`''] v), ws))"

section \<open>The secret manager\<close>

text \<open>
  The state: the store and the index file, absent until first written. File operations may fail;
  a failed write leaves what the operating system says. Serialising cannot fail on this type.
\<close>

record ('st, 'f) secret_world =
  sw_store :: 'st
  sw_index :: "'f option"

record 'f index_io =
  io_path :: string
  io_parent :: "string option"
  io_read :: "'f \<Rightarrow> string + 'f"
  io_create_dir :: "string + unit"
  io_write :: "'f option \<Rightarrow> 'f \<Rightarrow> (string + unit) \<times> 'f option"
  io_set_permissions :: "string + unit"
  io_to_json :: "secret_index \<Rightarrow> 'f"
  io_from_json :: "'f \<Rightarrow> string + secret_index"

definition os_error :: "string + 'a \<Rightarrow> 'a result" where
  "os_error r = map_err (\<lambda>e. [e]) r"

definition load_index :: "'f index_io \<Rightarrow> 'f option \<Rightarrow> secret_index result" where
  "load_index io file =
     (case file of
        None \<Rightarrow> Inr []
      | Some content \<Rightarrow>
          and_then (with_context (''failed reading secrets index '' @ io_path io) (os_error (io_read io content))) (\<lambda>raw.
          with_context (''invalid secrets index JSON '' @ io_path io) (os_error (io_from_json io raw))))"

definition save_index :: "'f index_io \<Rightarrow> secret_index \<Rightarrow> ('f option, unit) action" where
  "save_index io index =
     act_bind (act_lift (case io_parent io of
                           None \<Rightarrow> Inr ()
                         | Some parent \<Rightarrow> with_context (''failed creating index directory '' @ parent)
                                           (os_error (io_create_dir io)))) (\<lambda>_.
     act_bind (\<lambda>file. (case io_write io file (io_to_json io index) of
                          (r, file') \<Rightarrow> (with_context (''failed writing secrets index '' @ io_path io) (os_error r), file'))) (\<lambda>_.
     act_lift (with_context (''failed setting permissions on '' @ io_path io)
                 (os_error (io_set_permissions io)))))"

text \<open>Running a step on one part of the state.\<close>

definition on_store :: "('st, 'a) action \<Rightarrow> (('st, 'f) secret_world, 'a) action" where
  "on_store m w = (case m (sw_store w) of (r, st) \<Rightarrow> (r, w\<lparr>sw_store := st\<rparr>))"

definition on_index :: "('f option, 'a) action \<Rightarrow> (('st, 'f) secret_world, 'a) action" where
  "on_index m w = (case m (sw_index w) of (r, file) \<Rightarrow> (r, w\<lparr>sw_index := file\<rparr>))"

definition manager_load_index :: "'f index_io \<Rightarrow> (('st, 'f) secret_world, secret_index) action" where
  "manager_load_index io w = (load_index io (sw_index w), w)"

definition manager_set ::
    "'st secret_store_ops \<Rightarrow> 'f index_io \<Rightarrow> int \<Rightarrow> string \<Rightarrow> string \<Rightarrow> (('st, 'f) secret_world, unit) action" where
  "manager_set store io now key secret =
     act_bind (on_store (set_secret store key secret)) (\<lambda>_.
     act_bind (manager_load_index io) (\<lambda>index.
     on_index (save_index io (index_upsert now key index))))"

definition manager_get ::
    "'st secret_store_ops \<Rightarrow> 'f index_io \<Rightarrow> int \<Rightarrow> string \<Rightarrow>
     (('st, 'f) secret_world, secret_metadata option) action" where
  "manager_get store io now key =
     act_bind (\<lambda>w. (get_secret store key (sw_store w), w)) (\<lambda>secret.
     if secret = None then act_return None
     else
       act_bind (manager_load_index io) (\<lambda>index.
       if index_get index key = None then
         act_bind (on_index (save_index io (index_upsert now key index))) (\<lambda>_.
         act_return (index_get (index_upsert now key index) key))
       else act_return (index_get index key)))"

definition manager_list ::
    "'f index_io \<Rightarrow> (('st, 'f) secret_world, secret_metadata list) action" where
  "manager_list io =
     act_bind (manager_load_index io) (\<lambda>index. act_return (sort_key sm_key (index_list index)))"

definition manager_delete ::
    "'st secret_store_ops \<Rightarrow> 'f index_io \<Rightarrow> string \<Rightarrow> (('st, 'f) secret_world, bool) action" where
  "manager_delete store io key =
     act_bind (on_store (delete_secret store key)) (\<lambda>deleted.
     act_bind (manager_load_index io) (\<lambda>index.
     act_bind (on_index (save_index io (index_remove key index))) (\<lambda>_.
     act_return deleted)))"

section \<open>The contract of a store\<close>

locale secret_store =
  fixes put :: "string \<Rightarrow> string \<Rightarrow> 'st \<Rightarrow> unit result \<times> 'st"
    and look :: "string \<Rightarrow> 'st \<Rightarrow> string option result"
    and del :: "string \<Rightarrow> 'st \<Rightarrow> bool result \<times> 'st"
    and inv :: "'st \<Rightarrow> bool"
  assumes put_inv: "inv st \<Longrightarrow> inv (snd (put k v st))"
    and del_inv: "inv st \<Longrightarrow> inv (snd (del k st))"
    and put_err: "inv st \<Longrightarrow> put k v st = (Inl e, st') \<Longrightarrow> look j st' = look j st"
    and put_ok: "inv st \<Longrightarrow> put k v st = (Inr u, st') \<Longrightarrow> look j st' = (if j = k then Inr (Some v) else look j st)"
    and del_err: "inv st \<Longrightarrow> del k st = (Inl e, st') \<Longrightarrow> look j st' = look j st"
    and del_ok: "inv st \<Longrightarrow> del k st = (Inr b, st') \<Longrightarrow>
        look j st' = (if j = k then Inr None else look j st) \<and> (b \<longleftrightarrow> (\<exists>v. look k st = Inr (Some v)))"
begin

text \<open>Storing never makes a present secret disappear, whatever the outcome.\<close>

lemma put_keeps:
  "inv st \<Longrightarrow> put k v st = (r, st') \<Longrightarrow> look j st = Inr (Some x) \<Longrightarrow> \<exists>y. look j st' = Inr (Some y)"
  using put_err put_ok by (cases r) auto

lemma put_look: "inv st \<Longrightarrow> put k v st = (Inr u, st') \<Longrightarrow> look k st' = Inr (Some v)"
  using put_ok by auto

lemma del_look: "inv st \<Longrightarrow> del k st = (Inr b, st') \<Longrightarrow> look k st' = Inr None"
  using del_ok by auto

lemma del_other:
  "inv st \<Longrightarrow> del k st = (r, st') \<Longrightarrow> j \<noteq> k \<Longrightarrow> look j st' = look j st"
  using del_err del_ok by (cases r) auto

lemma put_del_roundtrip:
  "inv st \<Longrightarrow> put k v st = (Inr u, st1) \<Longrightarrow> del k st1 = (Inr b, st2) \<Longrightarrow> b \<and> look k st2 = Inr None"
  using put_inv [of st k v] put_ok [of st k v u st1 k] del_ok [of st1 k b st2] by force

end

definition memory_ok :: "memory_store \<Rightarrow> bool" where
  "memory_ok st \<longleftrightarrow> bt_ok (ms_values st)"

interpretation memory: secret_store
  "set_secret in_memory_store" "get_secret in_memory_store" "delete_secret in_memory_store" memory_ok
  by unfold_locales
    (auto simp: in_memory_store_def memory_ok_def mem_set_secret_def mem_get_secret_def
      mem_delete_secret_def bt_get_remove split: if_splits)

section \<open>What requiring a secret does\<close>

definition retryable :: "(string \<Rightarrow> string) \<Rightarrow> 'a result \<Rightarrow> bool" where
  "retryable lower r \<longleftrightarrow> (\<exists>err. r = Inl err \<and> is_transient lower err)"

lemma resolve_attempts_spec:
  assumes "1 \<le> attempt" and "attempt \<le> max_attempts"
  shows "\<exists>n. attempt + n \<le> max_attempts
     \<and> (\<forall>i < n. retryable lower (fst (resolve (((\<lambda>w. snd (resolve w)) ^^ i) w))))
     \<and> (attempt + n = max_attempts \<or> \<not> retryable lower (fst (resolve (((\<lambda>w. snd (resolve w)) ^^ n) w))))
     \<and> resolve_attempts lower resolve attempt (w, slept) =
         (fst (resolve (((\<lambda>w. snd (resolve w)) ^^ n) w)),
          ((\<lambda>w. snd (resolve w)) ^^ Suc n) w,
          slept @ map (\<lambda>k. backoff_base_ms * k) [attempt ..< attempt + n])"
  using assms
proof (induction "max_attempts - attempt" arbitrary: attempt w slept)
  case 0
  then show ?case
    by (intro exI [of _ 0]) (simp add: resolve_attempts.simps split: prod.splits sum.splits)
next
  case (Suc d)
  show ?case
  proof (cases "retryable lower (fst (resolve w))")
    case False
    then show ?thesis
      by (intro exI [of _ 0])
        (use Suc.prems in \<open>auto simp: retryable_def resolve_attempts.simps split: prod.splits sum.splits\<close>)
  next
    case True
    then obtain err w' where r: "resolve w = (Inl err, w')" "is_transient lower err"
      by (cases "resolve w") (auto simp: retryable_def)
    from Suc(2) have less: "attempt < max_attempts" by simp
    have "d = max_attempts - (attempt + 1)" using Suc(2) by simp
    from Suc(1) [OF this, of w' "slept @ [backoff_base_ms * attempt]"] less
    obtain n where n: "attempt + 1 + n \<le> max_attempts"
      "\<forall>i < n. retryable lower (fst (resolve (((\<lambda>w. snd (resolve w)) ^^ i) w')))"
      "attempt + 1 + n = max_attempts \<or> \<not> retryable lower (fst (resolve (((\<lambda>w. snd (resolve w)) ^^ n) w')))"
      "resolve_attempts lower resolve (attempt + 1) (w', slept @ [backoff_base_ms * attempt]) =
         (fst (resolve (((\<lambda>w. snd (resolve w)) ^^ n) w')),
          ((\<lambda>w. snd (resolve w)) ^^ Suc n) w',
          (slept @ [backoff_base_ms * attempt]) @ map (\<lambda>k. backoff_base_ms * k) [attempt + 1 ..< attempt + 1 + n])"
      by auto
    have shift: "((\<lambda>w. snd (resolve w)) ^^ i) w' = ((\<lambda>w. snd (resolve w)) ^^ Suc i) w" for i
      using r by (simp add: funpow_Suc_right del: funpow.simps)
    have all: "\<forall>i < Suc n. retryable lower (fst (resolve (((\<lambda>w. snd (resolve w)) ^^ i) w)))"
      using n(2) True unfolding shift by (auto simp: less_Suc_eq_0_disj)
    have step: "resolve_attempts lower resolve attempt (w, slept) =
        resolve_attempts lower resolve (attempt + 1) (w', slept @ [backoff_base_ms * attempt])"
      using r less by (simp add: resolve_attempts.simps [of lower resolve attempt])
    have upt: "[attempt ..< attempt + Suc n] = attempt # [attempt + 1 ..< attempt + 1 + n]"
      by (simp add: upt_conv_Cons)
    show ?thesis
      using n(1,3) all unfolding step n(4) shift
      by (intro exI [of _ "Suc n"]) (simp only: upt, simp)
  qed
qed

text \<open>
  A key with a scheme is resolved by the first resolver of that scheme, without looking at the
  keychain, in at most three attempts: every attempt before the last failed with a transient
  error, the pauses are 500 and 1000 ms, and the outcome is the last attempt's.
\<close>

theorem require_secret_uri:
  assumes "split_once ''://'' key = Some (scheme, rest)"
    and "find (\<lambda>r. resolver_scheme r = scheme) resolvers = Some r"
  shows "\<exists>n \<le> 2.
     (\<forall>i < n. retryable lower (fst (resolver_resolve r key (((\<lambda>w. snd (resolver_resolve r key w)) ^^ i) w))))
     \<and> (n = 2 \<or> \<not> retryable lower (fst (resolver_resolve r key (((\<lambda>w. snd (resolver_resolve r key w)) ^^ n) w))))
     \<and> require_secret lower store resolvers key st (w, []) =
         (fst (resolver_resolve r key (((\<lambda>w. snd (resolver_resolve r key w)) ^^ n) w)),
          ((\<lambda>w. snd (resolver_resolve r key w)) ^^ Suc n) w, take n [500, 1000])"
proof -
  obtain n where n: "1 + n \<le> max_attempts"
     "\<forall>i < n. retryable lower (fst (resolver_resolve r key (((\<lambda>w. snd (resolver_resolve r key w)) ^^ i) w)))"
     "1 + n = max_attempts \<or> \<not> retryable lower (fst (resolver_resolve r key (((\<lambda>w. snd (resolver_resolve r key w)) ^^ n) w)))"
     "resolve_attempts lower (resolver_resolve r key) 1 (w, []) =
         (fst (resolver_resolve r key (((\<lambda>w. snd (resolver_resolve r key w)) ^^ n) w)),
          ((\<lambda>w. snd (resolver_resolve r key w)) ^^ Suc n) w,
          [] @ map (\<lambda>k. backoff_base_ms * k) [1 ..< 1 + n])"
    using resolve_attempts_spec [of 1 lower "resolver_resolve r key" w "[]"] by (auto simp: max_attempts_def)
  have "n = 0 \<or> n = 1 \<or> n = 2" using n(1) by (auto simp: max_attempts_def)
  then have "map (\<lambda>k. backoff_base_ms * k) [1 ..< 1 + n] = take n [500, 1000]"
    by (auto simp: backoff_base_ms_def upt_rec)
  then show ?thesis
    using n assms by (intro exI [of _ n]) (simp add: require_secret_def max_attempts_def)
qed

text \<open>A resolver that times out once and then answers: the state counts the calls.\<close>

definition flaky_resolver :: "nat secret_resolver" where
  "flaky_resolver = \<lparr>resolver_scheme = ''op'',
     resolver_resolve = (\<lambda>key n. if n = 0 then (Inl [''request timeout''], 1) else (Inr ''s3cr3t'', Suc n))\<rparr>"

theorem require_secret_uri_witness:
  "\<exists>n \<le> 2. require_secret id in_memory_store [flaky_resolver] ''op://a/b'' \<lparr>ms_poisoned = False, ms_values = []\<rparr> (0, []) =
     (fst (resolver_resolve flaky_resolver ''op://a/b''
        (((\<lambda>w. snd (resolver_resolve flaky_resolver ''op://a/b'' w)) ^^ n) 0)),
      ((\<lambda>w. snd (resolver_resolve flaky_resolver ''op://a/b'' w)) ^^ Suc n) 0, take n [500, 1000])"
  using require_secret_uri [of "''op://a/b''" "''op''" "''a/b''" "[flaky_resolver]" flaky_resolver
      id 0 in_memory_store "\<lparr>ms_poisoned = False, ms_values = []\<rparr>"]
  by (auto simp: split_once_def flaky_resolver_def)

lemma require_secret_plain:
  "split_once ''://'' key = None \<Longrightarrow>
   require_secret lower store resolvers key st ws =
     (case get_secret store key st of
        Inl e \<Rightarrow> (Inl e, ws)
      | Inr None \<Rightarrow> (Inl [''missing required secret `'' @ key @ ''`''], ws)
      | Inr (Some v) \<Rightarrow> (Inr v, ws))"
  by (auto simp: require_secret_def split: sum.splits option.splits)

section \<open>What the manager keeps\<close>

text \<open>What is relied on from the file system and the JSON library: reading gives the content or an
  error, the index survives a round trip, what is read back is an ordered map, and a failed write
  leaves the old content, the new one, or something that does not parse.\<close>

definition io_faithful :: "'f index_io \<Rightarrow> bool" where
  "io_faithful io \<longleftrightarrow>
     (\<forall>f g. io_read io f = Inr g \<longrightarrow> g = f)
     \<and> (\<forall>i. bt_ok i \<longrightarrow> io_from_json io (io_to_json io i) = Inr i)
     \<and> (\<forall>f i. io_from_json io f = Inr i \<longrightarrow> bt_ok i)
     \<and> (\<forall>old new u f. io_write io old new = (Inr u, f) \<longrightarrow> f = Some new)
     \<and> (\<forall>old new e f. io_write io old new = (Inl e, f) \<longrightarrow>
          f = old \<or> f = Some new \<or> (\<exists>c e. f = Some c \<and> io_from_json io c = Inl e))"

text \<open>Every key of a readable index has its secret in the store.\<close>

definition covers ::
    "('st \<Rightarrow> string \<Rightarrow> string option result) \<Rightarrow> 'f index_io \<Rightarrow> ('st, 'f) secret_world \<Rightarrow> bool" where
  "covers look io w \<longleftrightarrow>
     (\<forall>index. load_index io (sw_index w) = Inr index \<longrightarrow>
        (\<forall>k \<in> set (bt_keys index). \<exists>v. look (sw_store w) k = Inr (Some v)))"

lemma io_faithfulD:
  assumes "io_faithful io"
  shows "io_read io f = Inr g \<Longrightarrow> g = f" "bt_ok i \<Longrightarrow> io_from_json io (io_to_json io i) = Inr i"
    "io_from_json io f = Inr i \<Longrightarrow> bt_ok i" "io_write io old new = (Inr u, file) \<Longrightarrow> file = Some new"
    "io_write io old new = (Inl e, file) \<Longrightarrow>
       file = old \<or> file = Some new \<or> (\<exists>c e. file = Some c \<and> io_from_json io c = Inl e)"
  using assms unfolding io_faithful_def by (simp_all, blast?)

lemma load_index_Inr:
  assumes "io_faithful io" and "load_index io content = Inr index"
  shows "bt_ok index \<and> (content = None \<and> index = [] \<or> (\<exists>c. content = Some c \<and> io_from_json io c = Inr index))"
proof (cases content)
  case None
  with assms(2) show ?thesis by (simp add: load_index_def)
next
  case (Some c)
  with assms(2) obtain raw where "io_read io c = Inr raw" "io_from_json io raw = Inr index"
    by (auto simp: load_index_def os_error_def result_simps)
  with io_faithfulD [OF assms(1)] Some show ?thesis by blast
qed

lemma save_index_file:
  assumes "io_faithful io" and "save_index io index file = (r, file')"
    and "load_index io file' = Inr index'" and "bt_ok index"
  shows "load_index io file = Inr index' \<or> index' = index"
proof (cases "file' = file")
  case False
  with assms(2) obtain r1 where w: "io_write io file (io_to_json io index) = (r1, file')"
    by (auto simp: save_index_def act_bind_cases split: prod.splits)
  have "file' = Some (io_to_json io index) \<or> (\<exists>c e. file' = Some c \<and> io_from_json io c = Inl e)"
  proof (cases r1)
    case (Inl e)
    with w False io_faithfulD(5) [OF assms(1)] show ?thesis by blast
  next
    case (Inr u)
    with w io_faithfulD(4) [OF assms(1)] show ?thesis by blast
  qed
  with load_index_Inr [OF assms(1,3)] io_faithfulD(2) [OF assms(1,4)] show ?thesis by fastforce
qed (use assms in simp)

lemma save_index_ok:
  assumes "io_faithful io" and "save_index io index file = (Inr u, file')"
  shows "file' = Some (io_to_json io index)"
proof -
  from assms(2) obtain r where "io_write io file (io_to_json io index) = (r, file')" "is_ok r"
    unfolding save_index_def act_bind_Inr act_simps
    by (auto simp: os_error_def result_simps split: prod.splits)
  then show ?thesis using io_faithfulD(4) [OF assms(1)] by (cases r) auto
qed

lemma load_saved:
  assumes "io_faithful io" and "load_index io (Some (io_to_json io index)) = Inr index'" and "bt_ok index"
  shows "index' = index"
  using load_index_Inr [OF assms(1,2)] io_faithfulD(2) [OF assms(1,3)] by simp

lemma bt_ok_upsert: "bt_ok index \<Longrightarrow> bt_ok (index_upsert now key index)"
  unfolding index_upsert_def by (rule bt_ok_insert)

lemma bt_ok_index_remove: "bt_ok index \<Longrightarrow> bt_ok (index_remove key index)"
  unfolding index_remove_def by (rule bt_ok_remove)

lemma bt_keys_remove: "bt_ok m \<Longrightarrow> set (bt_keys (bt_remove k m)) = set (bt_keys m) - {k}"
  using bt_get_remove [of m k] dom_map_of_conv_image_fst [of "bt_remove k m"] dom_map_of_conv_image_fst [of m]
  by (simp add: dom_fun_upd)

lemma bt_keys_upsert: "set (bt_keys (index_upsert now key index)) = insert key (set (bt_keys index))"
  unfolding index_upsert_def by (rule bt_keys_insert)

lemma on_store_iff:
  "on_store m w = (r, w') \<longleftrightarrow> (\<exists>st. m (sw_store w) = (r, st) \<and> w' = w\<lparr>sw_store := st\<rparr>)"
  by (auto simp: on_store_def split: prod.splits)

lemma on_index_iff:
  "on_index m w = (r, w') \<longleftrightarrow> (\<exists>f. m (sw_index w) = (r, f) \<and> w' = w\<lparr>sw_index := f\<rparr>)"
  by (auto simp: on_index_def split: prod.splits)

text \<open>The operations of the manager on a lawful store.\<close>

locale managed_store = secret_store "set_secret store" "\<lambda>k st. get_secret store k st" "delete_secret store" inv
  for store :: "'st secret_store_ops" and inv :: "'st \<Rightarrow> bool"
begin

abbreviation look_up :: "'st \<Rightarrow> string \<Rightarrow> string option result" where
  "look_up st k \<equiv> get_secret store k st"

lemma covers_save:
  assumes "io_faithful io" and "covers look_up io w" and "load_index io (sw_index w) = Inr index"
    and "\<exists>v. look_up (sw_store w) key = Inr (Some v)"
    and "on_index (save_index io (index_upsert now key index)) w = (r, w')"
  shows "covers look_up io w'"
proof -
  from assms(5) obtain file' where save: "save_index io (index_upsert now key index) (sw_index w) = (r, file')"
    and w': "w' = w\<lparr>sw_index := file'\<rparr>"
    by (auto simp: on_index_def split: prod.splits)
  have ok: "bt_ok (index_upsert now key index)"
    using load_index_Inr [OF assms(1,3)] bt_ok_upsert by blast
  show ?thesis
    unfolding covers_def w'
  proof (intro allI impI ballI)
    fix index' k
    assume load: "load_index io (sw_index (w\<lparr>sw_index := file'\<rparr>)) = Inr index'" and k: "k \<in> set (bt_keys index')"
    from save_index_file [OF assms(1) save _ ok, of index'] load
    have "load_index io (sw_index w) = Inr index' \<or> index' = index_upsert now key index" by simp
    with assms(2,3) k bt_keys_upsert [of now key index]
    have "k = key \<or> (\<exists>v. look_up (sw_store w) k = Inr (Some v))"
      unfolding covers_def by blast
    with assms(4) show "\<exists>v. look_up (sw_store (w\<lparr>sw_index := file'\<rparr>)) k = Inr (Some v)" by auto
  qed
qed

lemma set_covers:
  assumes "io_faithful io" and "inv (sw_store w)" and "covers look_up io w"
    and "manager_set store io now key secret w = (r, w')"
  shows "covers look_up io w'"
proof -
  obtain r1 st where put: "set_secret store key secret (sw_store w) = (r1, st)" by fastforce
  let ?w1 = "w\<lparr>sw_store := st\<rparr>"
  have on: "on_store (set_secret store key secret) w = (r1, ?w1)" by (simp add: on_store_def put)
  have cov1: "covers look_up io ?w1"
    using assms(3) put_keeps [OF assms(2) put] by (fastforce simp: covers_def)
  show ?thesis
  proof (cases r1)
    case (Inl e)
    then show ?thesis using assms(4) on cov1 by (simp add: manager_set_def)
  next
    case (Inr u)
    have look: "look_up st key = Inr (Some secret)"
      using put_look [OF assms(2)] put Inr by simp
    show ?thesis
    proof (cases "load_index io (sw_index w)")
      case (Inl e)
      then show ?thesis
        using assms(4) on cov1 Inr by (simp add: manager_set_def manager_load_index_def)
    next
      case (Inr index)
      then show ?thesis
        using assms(4) on cov1 \<open>r1 = Inr u\<close> look covers_save [OF assms(1) cov1, of index key now r w']
        by (simp add: manager_set_def manager_load_index_def)
    qed
  qed
qed

lemma get_covers:
  assumes "io_faithful io" and "covers look_up io w" and "manager_get store io now key w = (r, w')"
  shows "covers look_up io w'"
proof -
  from assms(3) consider "w' = w"
    | index r1 where "\<exists>v. look_up (sw_store w) key = Inr (Some v)" "load_index io (sw_index w) = Inr index"
        "on_index (save_index io (index_upsert now key index)) w = (r1, w')"
    by (auto simp: manager_get_def act_bind_cases manager_load_index_def split: if_splits)
  then show ?thesis using covers_save [OF assms(1,2)] assms(2) by cases auto
qed

text \<open>Deleting keeps it too, when the whole operation succeeds.\<close>

lemma delete_covers:
  assumes "io_faithful io" and "inv (sw_store w)" and "covers look_up io w"
    and "manager_delete store io key w = (Inr b, w')"
  shows "covers look_up io w' \<and> look_up (sw_store w') key = Inr None"
proof -
  from assms(4) obtain st index file' where del: "delete_secret store key (sw_store w) = (Inr b, st)"
    and load: "load_index io (sw_index w) = Inr index"
    and save: "save_index io (index_remove key index) (sw_index w) = (Inr (), file')"
    and w': "w' = w\<lparr>sw_store := st, sw_index := file'\<rparr>"
    by (auto simp: manager_delete_def act_bind_Inr on_store_iff on_index_iff manager_load_index_def)
  have file': "file' = Some (io_to_json io (index_remove key index))"
    by (rule save_index_ok [OF assms(1) save])
  have ok: "bt_ok (index_remove key index)"
    using load_index_Inr [OF assms(1) load] bt_ok_index_remove by blast
  have keys: "set (bt_keys (index_remove key index)) = set (bt_keys index) - {key}"
    using load_index_Inr [OF assms(1) load] unfolding index_remove_def by (blast intro!: bt_keys_remove)
  have "covers look_up io w'"
    unfolding covers_def w' file'
  proof (intro allI impI ballI)
    fix index' k
    assume "load_index io (sw_index (w\<lparr>sw_store := st, sw_index := Some (io_to_json io (index_remove key index))\<rparr>)) = Inr index'"
      and "k \<in> set (bt_keys index')"
    with keys load_saved [OF assms(1) _ ok, of index']
    have "k \<in> set (bt_keys index)" "k \<noteq> key" by simp_all
    with assms(3) load del_other [OF assms(2) del] show
      "\<exists>v. look_up (sw_store (w\<lparr>sw_store := st, sw_index := Some (io_to_json io (index_remove key index))\<rparr>)) k = Inr (Some v)"
      by (auto simp: covers_def)
  qed
  moreover have "look_up (sw_store w') key = Inr None"
    using del_look [OF assms(2) del] by (simp add: w')
  ultimately show ?thesis ..
qed

lemma set_then_get:
  assumes "io_faithful io" and "inv (sw_store w)"
    and "manager_set store io now key secret w = (Inr u, w')"
    and "manager_get store io now' key w' = (Inr meta, w'')"
  shows "\<exists>m. meta = Some m \<and> sm_updated_at m = now \<and> w'' = w'"
proof -
  from assms(3) obtain st index file' where put: "set_secret store key secret (sw_store w) = (Inr (), st)"
    and save: "save_index io (index_upsert now key index) (sw_index w) = (Inr (), file')"
    and load: "load_index io (sw_index w) = Inr index"
    and w': "w' = w\<lparr>sw_store := st, sw_index := file'\<rparr>"
    by (auto simp: manager_set_def act_bind_Inr on_store_iff on_index_iff manager_load_index_def)
  have look: "look_up st key = Inr (Some secret)" using put_look [OF assms(2) put] .
  have file': "file' = Some (io_to_json io (index_upsert now key index))"
    by (rule save_index_ok [OF assms(1) save])
  obtain m where get: "index_get (index_upsert now key index) key = Some m" "sm_updated_at m = now"
    by (cases "bt_get index key") (auto simp: index_get_def index_upsert_def)
  from assms(4) look file' w' obtain index' where
    "load_index io (Some (io_to_json io (index_upsert now key index))) = Inr index'"
    and rest: "(if index_get index' key = None then
         act_bind (on_index (save_index io (index_upsert now' key index'))) (\<lambda>_.
         act_return (index_get (index_upsert now' key index') key))
       else act_return (index_get index' key)) w' = (Inr meta, w'')"
    by (auto simp: manager_get_def act_bind_Inr manager_load_index_def)
  moreover have "bt_ok (index_upsert now key index)"
    using load_index_Inr [OF assms(1) load] bt_ok_upsert by blast
  ultimately have "index' = index_upsert now key index"
    using load_saved [OF assms(1)] by blast
  with rest get(1) have "meta = Some m" "w'' = w'" by (simp_all add: get(1))
  with get(2) show ?thesis by blast
qed

end

interpretation memory_manager: managed_store in_memory_store memory_ok
  by (unfold_locales)

text \<open>The index file as the index itself: every operation of the file system succeeds.\<close>

definition plain_io :: "secret_index index_io" where
  "plain_io = \<lparr>io_path = ''secrets-index.json'', io_parent = None, io_read = Inr, io_create_dir = Inr (),
     io_write = (\<lambda>old new. (Inr (), Some new)), io_set_permissions = Inr (), io_to_json = id,
     io_from_json = (\<lambda>i. if bt_ok i then Inr i else Inl ''keys'')\<rparr>"

definition empty_world :: "(memory_store, 'f) secret_world" where
  "empty_world = \<lparr>sw_store = \<lparr>ms_poisoned = False, ms_values = []\<rparr>, sw_index = None\<rparr>"

lemma plain_io_faithful: "io_faithful plain_io"
  by (auto simp: io_faithful_def plain_io_def split: if_splits)

lemma empty_world_covers: "covers (\<lambda>st k. get_secret in_memory_store k st) plain_io empty_world"
  by (simp add: covers_def empty_world_def load_index_def)

text \<open>
  The index never names a secret that the store does not hold: storing and looking up keep that
  invariant whatever fails on the way, and so does a deletion that succeeds.
\<close>

theorem manager_keeps_index_covered:
  assumes "managed_store store lawful" and "io_faithful io" and "lawful (sw_store w)"
    and "covers (\<lambda>st k. get_secret store k st) io w"
  shows "(manager_set store io now key secret w = (r, w') \<longrightarrow>
            covers (\<lambda>st k. get_secret store k st) io w')
       \<and> (manager_get store io now key w = (meta, w') \<longrightarrow>
            covers (\<lambda>st k. get_secret store k st) io w')
       \<and> (manager_delete store io key w = (Inr b, w') \<longrightarrow>
            covers (\<lambda>st k. get_secret store k st) io w' \<and> get_secret store key (sw_store w') = Inr None)"
  using managed_store.set_covers [OF assms] managed_store.get_covers [OF assms(1,2,4)]
    managed_store.delete_covers [OF assms] by blast

theorem manager_keeps_index_covered_witness:
  "covers (\<lambda>st k. get_secret in_memory_store k st) plain_io
     (snd (manager_set in_memory_store plain_io 7 ''gh.token'' ''s3cr3t'' empty_world))
   \<and> sw_index (snd (manager_set in_memory_store plain_io 7 ''gh.token'' ''s3cr3t'' empty_world))
      = Some [(''gh.token'', \<lparr>sm_key = ''gh.token'', sm_created_at = 7, sm_updated_at = 7\<rparr>)]"
proof
  have ok: "memory_ok (sw_store (empty_world :: (memory_store, secret_index) secret_world))"
    by (simp add: memory_ok_def empty_world_def)
  show "covers (\<lambda>st k. get_secret in_memory_store k st) plain_io
     (snd (manager_set in_memory_store plain_io 7 ''gh.token'' ''s3cr3t'' empty_world))"
    using manager_keeps_index_covered [OF memory_manager.managed_store_axioms
          plain_io_faithful ok empty_world_covers] by (metis prod.collapse)
  show "sw_index (snd (manager_set in_memory_store plain_io 7 ''gh.token'' ''s3cr3t'' empty_world))
      = Some [(''gh.token'', \<lparr>sm_key = ''gh.token'', sm_created_at = 7, sm_updated_at = 7\<rparr>)]"
    by (simp add: manager_set_def in_memory_store_def mem_set_secret_def empty_world_def plain_io_def
        on_store_def manager_load_index_def load_index_def index_upsert_def on_index_def save_index_def
        os_error_def act_bind_def)
qed

text \<open>A deletion whose index write fails leaves a key without a secret behind.\<close>

lemma failed_delete_uncovers:
  "\<exists>(io :: secret_index index_io) w w' e. io_faithful io \<and> covers (\<lambda>st k. get_secret in_memory_store k st) io w
     \<and> manager_delete in_memory_store io k w = (Inl e, w')
     \<and> \<not> covers (\<lambda>st k. get_secret in_memory_store k st) io w'"
proof -
  let ?io = "plain_io\<lparr>io_write := \<lambda>old new. (Inl ''disk full'', old)\<rparr>"
  let ?meta = "\<lparr>sm_key = k, sm_created_at = 0, sm_updated_at = 0\<rparr>"
  let ?w = "\<lparr>sw_store = \<lparr>ms_poisoned = False, ms_values = [(k, [])]\<rparr>, sw_index = Some [(k, ?meta)]\<rparr>"
  let ?w' = "\<lparr>sw_store = \<lparr>ms_poisoned = False, ms_values = []\<rparr>, sw_index = Some [(k, ?meta)]\<rparr>"
  have 1: "io_faithful ?io" by (auto simp: io_faithful_def plain_io_def split: if_splits)
  have 2: "covers (\<lambda>st k. get_secret in_memory_store k st) ?io ?w"
    by (simp add: covers_def plain_io_def load_index_def os_error_def in_memory_store_def mem_get_secret_def)
  have 3: "manager_delete in_memory_store ?io k ?w =
      (Inl [''failed writing secrets index secrets-index.json'', ''disk full''], ?w')"
    by (simp add: manager_delete_def in_memory_store_def mem_delete_secret_def plain_io_def
        on_store_def manager_load_index_def load_index_def os_error_def on_index_def save_index_def act_bind_def)
  have 4: "\<not> covers (\<lambda>st k. get_secret in_memory_store k st) ?io ?w'"
    by (simp add: covers_def plain_io_def load_index_def os_error_def in_memory_store_def mem_get_secret_def)
  show ?thesis by (intro exI conjI) (rule 1 2 3 4)+
qed

end
