(* ===== verification/Validator.thy ===== *)
theory Validator
  imports Schema
begin

text \<open>
  Environment selection \<open>src/template/environments.rs\<close> and the template validator
  \<open>src/template/validator.rs\<close>. What the validator guarantees is stated over all operations of a
  command, the default one and every environment override.
\<close>

section \<open>src/template/environments.rs\<close>

definition resolve_active_env :: "string option \<Rightarrow> string option \<Rightarrow> string option \<Rightarrow> string option" where
  "resolve_active_env cli_env config_env template_default =
     (case cli_env of
        Some e \<Rightarrow> Some e
      | None \<Rightarrow> (case config_env of Some e \<Rightarrow> Some e | None \<Rightarrow> template_default))"

definition env_name_char :: "char \<Rightarrow> bool" where
  "env_name_char c \<longleftrightarrow> is_ascii_alphanumeric c \<or> c = CHR ''_'' \<or> c = CHR ''-''"

definition validate_env_name :: "string \<Rightarrow> unit result" where
  "validate_env_name name =
     (if name = [] \<or> length name > 64
      then bail (''environment name must be 1'' @ [CHR 0xE2, CHR 0x80, CHR 0x93] @ ''64 characters, got `'' @ name @ ''`'')
      else if \<not> list_all env_name_char name
      then bail (''environment name `'' @ name @ ''` contains invalid characters; only alphanumeric, underscore, and hyphen are allowed'')
      else Inr ())"

definition select_for_env :: "command_template \<Rightarrow> string option \<Rightarrow> operation_template \<times> result_template" where
  "select_for_env cmd env_name =
     (case env_name of
        None \<Rightarrow> (ct_operation cmd, ct_result cmd)
      | Some name \<Rightarrow>
          (case bt_get (ct_environment_overrides cmd) name of
             Some ov \<Rightarrow>
               (case eo_result ov of
                  Some r \<Rightarrow> (eo_operation ov, r)
                | None \<Rightarrow> (eo_operation ov, ct_result cmd))
           | None \<Rightarrow> (ct_operation cmd, ct_result cmd)))"

section \<open>References in template strings\<close>

definition ref_separators :: "string list" where
  "ref_separators = ''|'' # white_space"

function extract_secret_refs :: "string \<Rightarrow> string list" where
  "extract_secret_refs remaining =
     (case str_find ''{{'' remaining of
        None \<Rightarrow> []
      | Some start \<Rightarrow>
          (let remaining = drop (start + 2) remaining
           in case str_find ''}}'' remaining of
                None \<Rightarrow> []
              | Some e \<Rightarrow>
                  (case strip_prefix ''secrets.'' (trim (take e remaining)) of
                     Some key \<Rightarrow> [trim_end_matches ''.'' (take_until ref_separators key)]
                   | None \<Rightarrow> [])
                  @ extract_secret_refs (drop (e + 2) remaining)))"
  by pat_completeness auto
termination
  by (relation "measure length") (auto dest!: str_find_Some)

declare extract_secret_refs.simps [simp del]

text \<open>The length of the identifier a text begins with. Alphanumeric characters beyond ASCII are
  those of the Unicode tables, a parameter.\<close>

function ident_len :: "(string \<Rightarrow> bool) \<Rightarrow> string \<Rightarrow> nat" where
  "ident_len alnum [] = 0"
| "ident_len alnum (c # s) =
     (let n = utf8_len c
      in if (if byte c < 128 then is_ascii_alphanumeric c \<or> c = CHR ''_'' else alnum (take n (c # s)))
         then n + ident_len alnum (drop n (c # s)) else 0)"
  by pat_completeness auto
termination
  by (relation "measure (\<lambda>(alnum, s). length s)") (auto simp: utf8_len_def)

declare ident_len.simps(2) [simp del]

function extract_args_refs :: "(string \<Rightarrow> bool) \<Rightarrow> string \<Rightarrow> string list" where
  "extract_args_refs alnum remaining =
     (case str_find ''args.'' remaining of
        None \<Rightarrow> []
      | Some pos \<Rightarrow>
          (let after = drop (pos + 5) remaining;
               e = ident_len alnum after;
               skip = (if e > 0 then e else case after of [] \<Rightarrow> 0 | c # _ \<Rightarrow> utf8_len c)
           in (if e > 0 then [take e after] else [])
              @ extract_args_refs alnum (drop (pos + 5 + skip) remaining)))"
  by pat_completeness auto
termination
  by (relation "measure (\<lambda>(alnum, s). length s)") (auto dest!: str_find_Some)

declare extract_args_refs.simps [simp del]

text \<open>\<open>collect_value_strings\<close> is \<^const>\<open>json_strings\<close>: strings of arrays and of object values in
  order.\<close>

definition opt_list :: "'a option \<Rightarrow> 'a list" where
  "opt_list x = (case x of None \<Rightarrow> [] | Some y \<Rightarrow> [y])"

definition map_strings :: "json_map option \<Rightarrow> string list" where
  "map_strings m = (case m of None \<Rightarrow> [] | Some kvs \<Rightarrow> concat (map json_strings (bt_values kvs)))"

definition part_strings :: "multipart_part_template \<Rightarrow> string list" where
  "part_strings part =
     opt_list (part_value part) @ opt_list (part_bytes_base64 part)
     @ opt_list (part_file_path part) @ opt_list (part_filename part)"

fun collect_body_strings :: "body_template \<Rightarrow> string list" where
  "collect_body_strings BodyNone = []"
| "collect_body_strings (BodyJson v) = json_strings v"
| "collect_body_strings (BodyFormUrlencoded m) = concat (map json_strings (bt_values m))"
| "collect_body_strings (BodyMultipart parts) = concat (map part_strings parts)"
| "collect_body_strings (BodyRawText v ct) = [v]"
| "collect_body_strings (BodyRawBytesBase64 v ct) = [v]"
| "collect_body_strings (BodyFileStream path ct) = [path]"

fun collect_operation_strings :: "operation_template \<Rightarrow> string list" where
  "collect_operation_strings (OpHttp op) =
     http_url op # opt_list (http_path op) @ map_strings (http_query op) @ map_strings (http_headers op)
     @ map_strings (http_cookies op) @ (case http_body op of None \<Rightarrow> [] | Some b \<Rightarrow> collect_body_strings b)"
| "collect_operation_strings (OpGraphql op) =
     gql_url op # opt_list (gql_path op) @ map_strings (gql_query op) @ map_strings (gql_headers op)
     @ map_strings (gql_cookies op) @ [gt_query (gql_graphql op)]
     @ opt_list (gt_operation_name (gql_graphql op))
     @ (case gt_variables (gql_graphql op) of None \<Rightarrow> [] | Some v \<Rightarrow> json_strings v)"
| "collect_operation_strings (OpGrpc op) =
     grpc_url op # map_strings (grpc_headers op)
     @ [grpc_service (grpc_grpc op), grpc_method (grpc_grpc op)]
     @ (case grpc_body (grpc_grpc op) of None \<Rightarrow> [] | Some v \<Rightarrow> json_strings v)
     @ opt_list (grpc_descriptor_set_file (grpc_grpc op))"
| "collect_operation_strings (OpBash op) =
     bash_script_src (bash_bash op) # map_strings (bash_env (bash_bash op)) @ opt_list (bash_cwd (bash_bash op))"
| "collect_operation_strings (OpSql op) =
     (case sql_params (sql_sql op) of None \<Rightarrow> [] | Some vs \<Rightarrow> concat (map json_strings vs))"
| "collect_operation_strings (OpBrowser op) = []"

definition command_strings :: "command_template \<Rightarrow> string list" where
  "command_strings cmd =
     collect_operation_strings (ct_operation cmd) @ [rt_output (ct_result cmd)]
     @ concat (map (\<lambda>ov. collect_operation_strings (eo_operation ov)
                     @ (case eo_result ov of None \<Rightarrow> [] | Some r \<Rightarrow> [rt_output r]))
                (bt_values (ct_environment_overrides cmd)))"

section \<open>Checks of one operation\<close>

definition is_blank :: "string \<Rightarrow> bool" where
  "is_blank s \<longleftrightarrow> trim s = []"

definition validate_auth :: "string \<Rightarrow> auth_template \<Rightarrow> string list \<Rightarrow> unit result" where
  "validate_auth command_name auth allowed_secrets =
     (let ensure_secret = (\<lambda>secret.
            if secret \<notin> set allowed_secrets
            then bail (''command '' @ command_name @ '' auth secret `'' @ secret @ ''` is not declared in annotations.secrets'')
            else Inr ())
      in case auth of
           AuthNone \<Rightarrow> Inr ()
         | AuthApiKey loc name secret \<Rightarrow> ensure_secret secret
         | AuthBearer secret \<Rightarrow> ensure_secret secret
         | AuthBasic user password_secret \<Rightarrow> ensure_secret password_secret
         | AuthOAuth2Profile profile \<Rightarrow> Inr ())"

definition validate_part :: "string \<Rightarrow> multipart_part_template \<Rightarrow> unit result" where
  "validate_part command_name part =
     (let count = (if part_value part \<noteq> None then 1 else 0)
            + (if part_bytes_base64 part \<noteq> None then 1 else 0)
            + (if part_file_path part \<noteq> None then (1 :: nat) else 0)
      in if count \<noteq> 1
         then bail (''command '' @ command_name @ '' multipart part `'' @ part_name part
                    @ ''` must specify exactly one of value, bytes_base64, file_path'')
         else Inr ())"

definition validate_body :: "string \<Rightarrow> body_template \<Rightarrow> unit result" where
  "validate_body command_name body =
     (case body of
        BodyMultipart parts \<Rightarrow>
          (if parts = []
           then bail (''command '' @ command_name @ '' multipart body must include at least one part'')
           else try_for_each (validate_part command_name) parts)
      | BodyFileStream path content_type \<Rightarrow>
          (if is_blank path
           then bail (''command '' @ command_name @ '' file_stream body path must not be empty'')
           else Inr ())
      | _ \<Rightarrow> Inr ())"

definition tls_versions :: "string list" where
  "tls_versions = [''1.0'', ''1.1'', ''1.2'', ''1.3'']"

definition validate_transport :: "string \<Rightarrow> transport_template option \<Rightarrow> unit result" where
  "validate_transport command_name transport =
     (case transport of
        None \<Rightarrow> Inr ()
      | Some t \<Rightarrow>
          if tt_timeout_ms t = Some 0
          then bail (''command '' @ command_name @ '' transport.timeout_ms must be greater than 0'')
          else if tt_max_response_bytes t = Some 0
          then bail (''command '' @ command_name @ '' transport.max_response_bytes must be greater than 0'')
          else if (case tt_proxy_profile t of None \<Rightarrow> False | Some p \<Rightarrow> is_blank p)
          then bail (''command '' @ command_name @ '' transport.proxy_profile must not be empty'')
          else
            (case Option.bind (tt_tls t) tls_min of
               None \<Rightarrow> Inr ()
             | Some v \<Rightarrow>
                 (let min_version = trim v
                  in if min_version \<noteq> [] \<and> min_version \<notin> set tls_versions
                     then bail (''command '' @ command_name @ '' has unsupported transport.tls.min_version `'' @ min_version @ ''`'')
                     else Inr ())))"

definition validate_http_operation :: "string \<Rightarrow> http_operation \<Rightarrow> string list \<Rightarrow> unit result" where
  "validate_http_operation command_name op allowed_secrets =
     (if is_blank (http_url op) then bail (''command '' @ command_name @ '' has empty operation.url'')
      else if is_blank (http_method op) then bail (''command '' @ command_name @ '' has empty operation.method'')
      else
        and_then (case http_auth op of None \<Rightarrow> Inr () | Some auth \<Rightarrow> validate_auth command_name auth allowed_secrets) (\<lambda>_.
        and_then (case http_body op of None \<Rightarrow> Inr () | Some body \<Rightarrow> validate_body command_name body) (\<lambda>_.
        validate_transport command_name (http_transport op))))"

definition validate_graphql_operation :: "string \<Rightarrow> graphql_operation \<Rightarrow> string list \<Rightarrow> unit result" where
  "validate_graphql_operation command_name op allowed_secrets =
     (if is_blank (gql_url op) then bail (''command '' @ command_name @ '' has empty operation.url'')
      else if is_blank (gt_query (gql_graphql op))
      then bail (''command '' @ command_name @ '' has empty operation.graphql.query'')
      else if \<not> is_blank (gql_method op) \<and> \<not> eq_ignore_ascii_case (gql_method op) ''POST''
      then bail (''command '' @ command_name @ '' graphql operation.method must be POST when provided'')
      else
        and_then (case gql_auth op of None \<Rightarrow> Inr () | Some auth \<Rightarrow> validate_auth command_name auth allowed_secrets) (\<lambda>_.
        validate_transport command_name (gql_transport op)))"

definition validate_grpc_operation :: "string \<Rightarrow> grpc_operation \<Rightarrow> string list \<Rightarrow> unit result" where
  "validate_grpc_operation command_name op allowed_secrets =
     (if is_blank (grpc_url op) then bail (''command '' @ command_name @ '' has empty operation.url'')
      else if is_blank (grpc_service (grpc_grpc op))
      then bail (''command '' @ command_name @ '' has empty operation.grpc.service'')
      else if is_blank (grpc_method (grpc_grpc op))
      then bail (''command '' @ command_name @ '' has empty operation.grpc.method'')
      else if (case grpc_descriptor_set_file (grpc_grpc op) of None \<Rightarrow> False | Some p \<Rightarrow> is_blank p)
      then bail (''command '' @ command_name @ '' operation.grpc.descriptor_set_file must not be empty'')
      else if (case grpc_body (grpc_grpc op) of None \<Rightarrow> False | Some b \<Rightarrow> \<not> is_object b \<and> \<not> is_array b)
      then bail (''command '' @ command_name
             @ '' operation.grpc.body must be a JSON object (unary/server-streaming) or array (client-streaming)'')
      else
        and_then
          (case grpc_auth op of
             None \<Rightarrow> Inr ()
           | Some auth \<Rightarrow>
               if (case auth of AuthApiKey loc name secret \<Rightarrow> loc \<noteq> KeyHeader | _ \<Rightarrow> False)
               then bail (''command '' @ command_name @ '' grpc auth api_key location must be `header`'')
               else validate_auth command_name auth allowed_secrets) (\<lambda>_.
        and_then
          (case grpc_transport op of
             None \<Rightarrow> Inr ()
           | Some t \<Rightarrow>
               if tt_proxy_profile t \<noteq> None
               then bail (''command '' @ command_name @ '' grpc transport.proxy_profile is not supported'')
               else if Option.bind (tt_tls t) tls_min \<noteq> None
               then bail (''command '' @ command_name @ '' grpc transport.tls.min_version is not supported'')
               else Inr ()) (\<lambda>_.
        validate_transport command_name (grpc_transport op))))"

text \<open>\<open>Path::components\<close> yields \<open>ParentDir\<close> for each segment that is two dots.\<close>

definition has_parent_dir :: "string \<Rightarrow> bool" where
  "has_parent_dir path \<longleftrightarrow> ''..'' \<in> set (split_char (CHR ''/'') path)"

definition validate_bash_operation :: "string \<Rightarrow> bash_operation \<Rightarrow> unit result" where
  "validate_bash_operation command_name op =
     (if is_blank (bash_script_src (bash_bash op))
      then bail (''command '' @ command_name @ '' has empty operation.bash.script'')
      else
        and_then
          (case Option.bind (bash_sandbox (bash_bash op)) bs_writable_paths of
             None \<Rightarrow> Inr ()
           | Some paths \<Rightarrow>
               try_for_each (\<lambda>path.
                 if prefix ''/'' path \<or> prefix [CHR 0x5C] path
                 then bail (''command '' @ command_name
                        @ '' operation.bash.sandbox.writable_paths contains absolute path `'' @ path @ ''`'')
                 else if has_parent_dir path
                 then bail (''command '' @ command_name
                        @ '' operation.bash.sandbox.writable_paths contains `..` in path `'' @ path @ ''`'')
                 else Inr ()) paths) (\<lambda>_.
        validate_transport command_name (bash_transport op)))"

definition validate_sql_operation :: "string \<Rightarrow> sql_operation \<Rightarrow> string list \<Rightarrow> unit result" where
  "validate_sql_operation command_name op allowed_secrets =
     (if is_blank (sql_query_src (sql_sql op))
      then bail (''command '' @ command_name @ '' has empty operation.sql.query'')
      else if sublist ''{{'' (sql_query_src (sql_sql op)) \<or> sublist ''}}'' (sql_query_src (sql_sql op))
      then bail (''command '' @ command_name @ '' operation.sql.query must not contain Jinja2 template expressions'')
      else if is_blank (sql_connection_secret (sql_sql op))
      then bail (''command '' @ command_name @ '' has empty operation.sql.connection_secret'')
      else if sql_connection_secret (sql_sql op) \<notin> set allowed_secrets
      then bail (''command '' @ command_name @ '' operation.sql.connection_secret `''
             @ sql_connection_secret (sql_sql op) @ ''` is not declared in annotations.secrets'')
      else validate_transport command_name (sql_transport op))"

fun validate_operation :: "string \<Rightarrow> operation_template \<Rightarrow> string list \<Rightarrow> unit result" where
  "validate_operation command_name (OpHttp op) allowed = validate_http_operation command_name op allowed"
| "validate_operation command_name (OpGraphql op) allowed = validate_graphql_operation command_name op allowed"
| "validate_operation command_name (OpGrpc op) allowed = validate_grpc_operation command_name op allowed"
| "validate_operation command_name (OpBash op) allowed = validate_bash_operation command_name op"
| "validate_operation command_name (OpSql op) allowed = validate_sql_operation command_name op allowed"
| "validate_operation command_name (OpBrowser op) allowed = Inr ()"

section \<open>Checks of a command and of a file\<close>

definition validate_params :: "string \<Rightarrow> param_spec list \<Rightarrow> unit result" where
  "validate_params command_name params =
     and_then (try_fold (\<lambda>param seen.
         if is_blank (param_name param)
         then bail (''command '' @ command_name @ '' has parameter with empty name'')
         else if param_name param \<in> set seen
         then bail (''command '' @ command_name @ '' has duplicate parameter `'' @ param_name param @ ''`'')
         else Inr (param_name param # seen)) params []) (\<lambda>_. Inr ())"

definition validate_template_args :: "(string \<Rightarrow> bool) \<Rightarrow> string \<Rightarrow> command_template \<Rightarrow> unit result" where
  "validate_template_args alnum command_name cmd =
     try_for_each (\<lambda>s.
       try_for_each (\<lambda>arg_ref.
         if arg_ref \<notin> param_name ` set (ct_params cmd)
         then bail (''command '' @ command_name @ '' references undeclared param `args.'' @ arg_ref @ ''` in template'')
         else Inr ()) (extract_args_refs alnum s)) (command_strings cmd)"

definition validate_command :: "(string \<Rightarrow> bool) \<Rightarrow> string \<Rightarrow> command_template \<Rightarrow> unit result" where
  "validate_command alnum command_name cmd =
     (if is_blank (ct_title cmd) then bail (''command '' @ command_name @ '' has empty title'')
      else if is_blank (ct_summary cmd) then bail (''command '' @ command_name @ '' has empty summary'')
      else if is_blank (ct_description cmd) then bail (''command '' @ command_name @ '' has empty description'')
      else
        and_then (validate_operation command_name (ct_operation cmd) (ann_secrets (ct_annotations cmd))) (\<lambda>_.
        if is_blank (rt_output (ct_result cmd))
        then bail (''command '' @ command_name @ '' has empty result.output'')
        else
          and_then (validate_params command_name (ct_params cmd)) (\<lambda>_.
          validate_template_args alnum command_name cmd)))"

fun protocol_debug :: "operation_protocol \<Rightarrow> string" where
  "protocol_debug Http = ''Http''"
| "protocol_debug Graphql = ''Graphql''"
| "protocol_debug Grpc = ''Grpc''"
| "protocol_debug Bash = ''Bash''"
| "protocol_debug Sql = ''Sql''"
| "protocol_debug Browser = ''Browser''"

definition validate_environments :: "string \<Rightarrow> provider_environments \<Rightarrow> unit result" where
  "validate_environments provider envs =
     and_then
       (case pe_default envs of
          None \<Rightarrow> Inr ()
        | Some default_name \<Rightarrow>
            and_then (map_err (\<lambda>e. [''provider `'' @ provider @ ''` environments.default: '' @ err_display e])
                        (validate_env_name default_name)) (\<lambda>_.
            if bt_get (pe_environments envs) default_name = None
            then bail (''provider `'' @ provider @ ''` environments.default is `'' @ default_name
                   @ ''` but that environment is not defined; available: ''
                   @ str_join '', '' (bt_keys (pe_environments envs)))
            else Inr ())) (\<lambda>_.
     and_then
       (try_for_each (\<lambda>env_key.
          map_err (\<lambda>e. [''provider `'' @ provider @ ''` environments block contains invalid name `''
                     @ env_key @ ''`: '' @ err_display e]) (validate_env_name env_key))
          (bt_keys (pe_environments envs))) (\<lambda>_.
     try_for_each (\<lambda>(env_name, vars).
       try_for_each (\<lambda>(var_name, value).
         try_for_each (\<lambda>secret_ref.
           if secret_ref \<notin> set (pe_secrets envs)
           then bail (''provider `'' @ provider @ ''` environments.'' @ env_name @ ''.'' @ var_name
                  @ '' references secret `'' @ secret_ref @ ''` which is not declared in environments.secrets'')
           else Inr ()) (extract_secret_refs value)) vars) (pe_environments envs)))"

text \<open>The defined names are listed in map order in the message; the source joins a hash set.\<close>

definition validate_override ::
    "string list \<Rightarrow> string \<Rightarrow> command_template \<Rightarrow> string \<times> environment_override \<Rightarrow> unit result" where
  "validate_override defined name cmd = (\<lambda>(env_name, ov).
     and_then (map_err (\<lambda>e. [''command `'' @ name @ ''` has invalid environment override name `''
                 @ env_name @ ''`: '' @ err_display e]) (validate_env_name env_name)) (\<lambda>_.
     if defined \<noteq> [] \<and> env_name \<notin> set defined
     then bail (''command `'' @ name @ ''` has environment override for `'' @ env_name
            @ ''` which is not defined in the provider environments block; defined: '' @ str_join '', '' defined)
     else if op_protocol (eo_operation ov) \<noteq> op_protocol (ct_operation cmd)
         \<and> \<not> ann_allow_env_protocol_switching (ct_annotations cmd)
     then bail (''command `'' @ name @ ''` environment `'' @ env_name @ ''` switches protocol from ''
            @ protocol_debug (op_protocol (ct_operation cmd)) @ '' to '' @ protocol_debug (op_protocol (eo_operation ov))
            @ ''; add `annotations { allow_environment_protocol_switching = true }` to opt in'')
     else
       and_then (validate_operation name (eo_operation ov) (ann_secrets (ct_annotations cmd))) (\<lambda>_.
       case eo_result ov of
         None \<Rightarrow> Inr ()
       | Some r \<Rightarrow>
           if is_blank (rt_output r)
           then bail (''command `'' @ name @ ''` environment override `'' @ env_name @ ''` has empty result.output'')
           else Inr ())))"

definition validate_template_file :: "(string \<Rightarrow> bool) \<Rightarrow> template_file \<Rightarrow> unit result" where
  "validate_template_file alnum file =
     (if tf_version file \<noteq> 1
      then bail (''unsupported template version '' @ show_nat (unat (tf_version file)) @ '' for provider '' @ tf_provider file)
      else if is_blank (tf_provider file) then bail ''template provider must not be empty''
      else if tf_commands file = [] then bail (''provider '' @ tf_provider file @ '' defines no commands'')
      else
        (let defined_env_names =
           (case tf_environments file of None \<Rightarrow> [] | Some e \<Rightarrow> bt_keys (pe_environments e))
         in and_then
              (case tf_environments file of
                 None \<Rightarrow> Inr () | Some envs \<Rightarrow> validate_environments (tf_provider file) envs) (\<lambda>_.
            try_for_each (\<lambda>(name, cmd).
              and_then (try_for_each (validate_override defined_env_names name cmd) (ct_environment_overrides cmd)) (\<lambda>_.
              validate_command alnum name cmd)) (tf_commands file))))"

section \<open>What a validated file guarantees\<close>

text \<open>The operations a command may run: its own and those of its environment overrides.\<close>

definition command_operations :: "command_template \<Rightarrow> operation_template list" where
  "command_operations cmd =
     ct_operation cmd # map eo_operation (bt_values (ct_environment_overrides cmd))"

fun auth_secrets :: "auth_template \<Rightarrow> string list" where
  "auth_secrets (AuthApiKey loc name secret) = [secret]"
| "auth_secrets (AuthBearer secret) = [secret]"
| "auth_secrets (AuthBasic user password_secret) = [password_secret]"
| "auth_secrets auth = []"

text \<open>The secrets an operation names, by its authentication or its connection.\<close>

fun op_secrets :: "operation_template \<Rightarrow> string list" where
  "op_secrets (OpSql op) = [sql_connection_secret (sql_sql op)]"
| "op_secrets op = (case op_auth op of None \<Rightarrow> [] | Some auth \<Rightarrow> auth_secrets auth)"

definition transport_wf :: "transport_template option \<Rightarrow> bool" where
  "transport_wf transport \<longleftrightarrow>
     (\<forall>t. transport = Some t \<longrightarrow>
        tt_timeout_ms t \<noteq> Some 0 \<and> tt_max_response_bytes t \<noteq> Some 0
        \<and> (\<forall>p. tt_proxy_profile t = Some p \<longrightarrow> \<not> is_blank p)
        \<and> (\<forall>tls v. tt_tls t = Some tls \<longrightarrow> tls_min tls = Some v \<longrightarrow> trim v \<in> set ([] # tls_versions)))"

definition body_wf :: "body_template \<Rightarrow> bool" where
  "body_wf body \<longleftrightarrow>
     (case body of
        BodyMultipart parts \<Rightarrow> parts \<noteq> [] \<and>
          (\<forall>p \<in> set parts. length (opt_list (part_value p) @ opt_list (part_bytes_base64 p) @ opt_list (part_file_path p)) = 1)
      | BodyFileStream path ct \<Rightarrow> \<not> is_blank path
      | _ \<Rightarrow> True)"

fun op_wf :: "operation_template \<Rightarrow> bool" where
  "op_wf (OpHttp op) \<longleftrightarrow> \<not> is_blank (http_url op) \<and> \<not> is_blank (http_method op)
     \<and> (\<forall>b. http_body op = Some b \<longrightarrow> body_wf b) \<and> transport_wf (http_transport op)"
| "op_wf (OpGraphql op) \<longleftrightarrow> \<not> is_blank (gql_url op) \<and> \<not> is_blank (gt_query (gql_graphql op))
     \<and> (is_blank (gql_method op) \<or> eq_ignore_ascii_case (gql_method op) ''POST'') \<and> transport_wf (gql_transport op)"
| "op_wf (OpGrpc op) \<longleftrightarrow> \<not> is_blank (grpc_url op) \<and> \<not> is_blank (grpc_service (grpc_grpc op))
     \<and> \<not> is_blank (grpc_method (grpc_grpc op))
     \<and> (\<forall>b. grpc_body (grpc_grpc op) = Some b \<longrightarrow> is_object b \<or> is_array b)
     \<and> (\<forall>loc name secret. grpc_auth op = Some (AuthApiKey loc name secret) \<longrightarrow> loc = KeyHeader)
     \<and> transport_wf (grpc_transport op)"
| "op_wf (OpBash op) \<longleftrightarrow> \<not> is_blank (bash_script_src (bash_bash op))
     \<and> (\<forall>sandbox paths. bash_sandbox (bash_bash op) = Some sandbox \<longrightarrow> bs_writable_paths sandbox = Some paths \<longrightarrow>
          (\<forall>p \<in> set paths. \<not> prefix ''/'' p \<and> ''..'' \<notin> set (split_char (CHR ''/'') p)))
     \<and> transport_wf (bash_transport op)"
| "op_wf (OpSql op) \<longleftrightarrow> \<not> is_blank (sql_query_src (sql_sql op))
     \<and> \<not> sublist ''{{'' (sql_query_src (sql_sql op)) \<and> \<not> sublist ''}}'' (sql_query_src (sql_sql op))
     \<and> transport_wf (sql_transport op)"
| "op_wf (OpBrowser op) \<longleftrightarrow> True"

lemma validate_transport_wf: "validate_transport n t = Inr () \<Longrightarrow> transport_wf t"
  by (auto simp: validate_transport_def transport_wf_def Let_def result_simps
      split: option.splits if_splits)

lemma validate_auth_secrets: "validate_auth n auth allowed = Inr () \<Longrightarrow> set (auth_secrets auth) \<subseteq> set allowed"
  by (auto simp: validate_auth_def Let_def result_simps split: auth_template.splits if_splits)

lemma validate_part_one:
  "validate_part n p = Inr () \<Longrightarrow>
     length (opt_list (part_value p) @ opt_list (part_bytes_base64 p) @ opt_list (part_file_path p)) = Suc 0"
  by (auto simp: validate_part_def opt_list_def Let_def result_simps split: if_splits option.splits)

lemma validate_body_wf: "validate_body n b = Inr () \<Longrightarrow> body_wf b"
  by (cases b)
    (auto simp: validate_body_def body_wf_def result_simps simp del: length_append
      split: if_splits dest: validate_part_one)

lemmas validate_op_defs = validate_http_operation_def validate_graphql_operation_def
  validate_grpc_operation_def validate_bash_operation_def validate_sql_operation_def

lemma validate_operation_wf: "validate_operation n op allowed = Inr () \<Longrightarrow> op_wf op"
  by (cases op)
    (auto simp: validate_op_defs result_simps has_parent_dir_def
      dest: validate_transport_wf validate_body_wf split: option.splits if_splits)

lemma validate_operation_secrets:
  "validate_operation n op allowed = Inr () \<Longrightarrow> set (op_secrets op) \<subseteq> set allowed"
  by (cases op)
    (auto simp: validate_op_defs result_simps
      dest!: validate_auth_secrets split: option.splits if_splits)

lemma validated_operations:
  assumes "validate_template_file alnum f = Inr ()" and "(name, cmd) \<in> set (tf_commands f)"
    and "op \<in> set (command_operations cmd)"
  shows "validate_operation name op (ann_secrets (ct_annotations cmd)) = Inr ()"
  using assms
  by (fastforce simp: validate_template_file_def validate_override_def validate_command_def Let_def
      command_operations_def result_simps split: option.splits prod.splits)

lemma select_for_env_operations: "fst (select_for_env cmd env) \<in> set (command_operations cmd)"
  by (force simp: select_for_env_def command_operations_def split: option.splits dest!: map_of_SomeD)

lemma validate_params_fold:
  "try_fold (\<lambda>param seen.
      if is_blank (param_name param) then Inl (e1 param)
      else if param_name param \<in> set seen then Inl (e2 param)
      else Inr (param_name param # seen)) params seen = Inr seen' \<Longrightarrow>
   distinct (map param_name params) \<and> set (map param_name params) \<inter> set seen = {}
     \<and> (\<forall>p \<in> set params. \<not> is_blank (param_name p))"
proof (induction params arbitrary: seen)
  case (Cons p params)
  then show ?case by (fastforce simp: and_then_Inr split: if_splits)
qed simp

lemma validate_params_distinct:
  "validate_params n params = Inr () \<Longrightarrow>
     distinct (map param_name params) \<and> (\<forall>p \<in> set params. \<not> is_blank (param_name p))"
  unfolding validate_params_def bail_def
  by (auto simp: and_then_Inr dest!: validate_params_fold)

lemma validated_command:
  assumes "validate_template_file alnum f = Inr ()" and "(name, cmd) \<in> set (tf_commands f)"
  shows "validate_command alnum name cmd = Inr ()"
  using assms by (fastforce simp: validate_template_file_def Let_def result_simps split: option.splits)

lemma validated_override:
  assumes "validate_template_file alnum f = Inr ()" and "(name, cmd) \<in> set (tf_commands f)"
    and "(env, ov) \<in> set (ct_environment_overrides cmd)"
  shows "validate_override (case tf_environments f of None \<Rightarrow> [] | Some e \<Rightarrow> bt_keys (pe_environments e))
     name cmd (env, ov) = Inr ()"
  using assms by (fastforce simp: validate_template_file_def Let_def result_simps)

lemma validate_env_name_Inr:
  "validate_env_name name = Inr () \<longleftrightarrow> name \<noteq> [] \<and> length name \<le> 64 \<and> list_all env_name_char name"
  by (auto simp: validate_env_name_def result_simps)

text \<open>The parameters of a validated command are distinct, as binding its arguments needs.\<close>

lemma validated_params_distinct:
  "validate_template_file alnum f = Inr () \<Longrightarrow> (name, cmd) \<in> set (tf_commands f) \<Longrightarrow>
     distinct (map param_name (ct_params cmd))"
  using validated_command [of alnum f name cmd] validate_params_distinct [of name "ct_params cmd"]
  by (auto simp: validate_command_def result_simps)

text \<open>
  Whatever environment is selected, a command of a validated file only names secrets that its
  annotations declare, in its authentication and in its SQL connection.
\<close>

theorem validated_secrets_declared:
  assumes "validate_template_file alnum f = Inr ()" and "(name, cmd) \<in> set (tf_commands f)"
  shows "set (op_secrets (fst (select_for_env cmd env))) \<subseteq> set (ann_secrets (ct_annotations cmd))"
  using validate_operation_secrets [OF validated_operations [OF assms select_for_env_operations]] .


text \<open>
  Every reference \<open>args.x\<close> that the scanner finds in a template string of a validated command, in
  any of its operations and results, is a declared parameter; the parameters have distinct names.
\<close>

theorem validated_args_declared:
  assumes "validate_template_file alnum f = Inr ()" and "(name, cmd) \<in> set (tf_commands f)"
    and "op \<in> set (command_operations cmd)" and "s \<in> set (collect_operation_strings op)"
    and "x \<in> set (extract_args_refs alnum s)"
  shows "x \<in> param_name ` set (ct_params cmd) \<and> distinct (map param_name (ct_params cmd))"
proof
  have "validate_template_args alnum name cmd = Inr ()"
    using validated_command [OF assms(1,2)] by (simp add: validate_command_def result_simps)
  then have "\<forall>s \<in> set (command_strings cmd). set (extract_args_refs alnum s) \<subseteq> param_name ` set (ct_params cmd)"
    by (auto simp: validate_template_args_def result_simps)
  moreover have "s \<in> set (command_strings cmd)"
    using assms(3,4) by (auto simp: command_strings_def command_operations_def)
  ultimately show "x \<in> param_name ` set (ct_params cmd)" using assms(5) by blast
qed (rule validated_params_distinct [OF assms(1,2)])

text \<open>
  Environments of a validated file: the default one is defined, every name in the block and in an
  override has 1 to 64 letters, digits, hyphens and underscores, an override names a defined
  environment when the block defines any, and switches the protocol only when the command opts in.
\<close>

theorem validated_environments:
  assumes "validate_template_file alnum f = Inr ()"
  shows "(\<forall>envs. tf_environments f = Some envs \<longrightarrow>
            (\<forall>d. pe_default envs = Some d \<longrightarrow> d \<in> set (bt_keys (pe_environments envs)))
            \<and> (\<forall>n \<in> set (bt_keys (pe_environments envs)). n \<noteq> [] \<and> length n \<le> 64 \<and> list_all env_name_char n))
       \<and> (\<forall>(name, cmd) \<in> set (tf_commands f). \<forall>(env, ov) \<in> set (ct_environment_overrides cmd).
            env \<noteq> [] \<and> length env \<le> 64 \<and> list_all env_name_char env
            \<and> (\<forall>envs. tf_environments f = Some envs \<longrightarrow> pe_environments envs \<noteq> [] \<longrightarrow>
                 env \<in> set (bt_keys (pe_environments envs)))
            \<and> (op_protocol (eo_operation ov) = op_protocol (ct_operation cmd)
               \<or> ann_allow_env_protocol_switching (ct_annotations cmd)))"
proof (intro conjI)
  show "\<forall>envs. tf_environments f = Some envs \<longrightarrow>
            (\<forall>d. pe_default envs = Some d \<longrightarrow> d \<in> set (bt_keys (pe_environments envs)))
            \<and> (\<forall>n \<in> set (bt_keys (pe_environments envs)). n \<noteq> [] \<and> length n \<le> 64 \<and> list_all env_name_char n)"
    using assms
    by (force simp: validate_template_file_def validate_environments_def Let_def result_simps
        validate_env_name_Inr dest!: map_of_SomeD split: option.splits)
  show "\<forall>(name, cmd) \<in> set (tf_commands f). \<forall>(env, ov) \<in> set (ct_environment_overrides cmd).
            env \<noteq> [] \<and> length env \<le> 64 \<and> list_all env_name_char env
            \<and> (\<forall>envs. tf_environments f = Some envs \<longrightarrow> pe_environments envs \<noteq> [] \<longrightarrow>
                 env \<in> set (bt_keys (pe_environments envs)))
            \<and> (op_protocol (eo_operation ov) = op_protocol (ct_operation cmd)
               \<or> ann_allow_env_protocol_switching (ct_annotations cmd))"
  proof clarify
    fix name cmd env ov
    assume "(name, cmd) \<in> set (tf_commands f)" "(env, ov) \<in> set (ct_environment_overrides cmd)"
    from validated_override [OF assms this]
    show "env \<noteq> [] \<and> length env \<le> 64 \<and> list_all env_name_char env
            \<and> (\<forall>envs. tf_environments f = Some envs \<longrightarrow> pe_environments envs \<noteq> [] \<longrightarrow>
                 env \<in> set (bt_keys (pe_environments envs)))
            \<and> (op_protocol (eo_operation ov) = op_protocol (ct_operation cmd)
               \<or> ann_allow_env_protocol_switching (ct_annotations cmd))"
      by (auto simp: validate_override_def result_simps validate_env_name_Inr)
  qed
qed

section \<open>A validated file\<close>

definition sample_sql :: "string \<Rightarrow> operation_template" where
  "sample_sql query = OpSql
     \<lparr>sql_sql = \<lparr>sql_connection_secret = ''db.url'', sql_query_src = query,
                  sql_params = Some [JString ''{{ args.id }}''], sql_sandbox = None\<rparr>,
      sql_transport = None\<rparr>"

definition sample_command :: command_template where
  "sample_command =
     \<lparr>ct_title = ''Rows'', ct_summary = ''Rows'', ct_description = ''Rows'', ct_categories = [],
      ct_annotations = \<lparr>ann_mode = ModeRead, ann_secrets = [''db.url''], ann_allow_env_protocol_switching = False\<rparr>,
      ct_params = [\<lparr>param_name = ''id'', param_ty = PInteger, param_required = True, param_default = None,
                     param_description = None\<rparr>],
      ct_operation = sample_sql ''select ?'',
      ct_result = default_result_template,
      ct_environment_overrides =
        [(''prod'', \<lparr>eo_operation = sample_sql ''select p where ?'', eo_result = None\<rparr>)]\<rparr>"

definition sample_file :: template_file where
  "sample_file =
     \<lparr>tf_version = 1, tf_provider = ''db'', tf_categories = [],
      tf_environments = Some \<lparr>pe_default = Some ''prod'', pe_secrets = [''k''],
                               pe_environments = [(''prod'', [(''v'', ''{{ secrets.k }}'')])]\<rparr>,
      tf_commands = [(''rows'', sample_command)]\<rparr>"

lemma sample_valid: "validate_template_file (\<lambda>_. False) sample_file = Inr ()"
  by code_simp

lemma sample_mem: "(''rows'', sample_command) \<in> set (tf_commands sample_file)"
  by (simp add: sample_file_def)

theorem validated_secrets_declared_witness:
  "set (op_secrets (fst (select_for_env sample_command (Some ''prod'')))) \<subseteq> {''db.url''}
   \<and> op_secrets (fst (select_for_env sample_command (Some ''prod''))) = [''db.url'']"
  using validated_secrets_declared [OF sample_valid sample_mem, of "Some ''prod''"]
  by (simp add: sample_command_def select_for_env_def sample_sql_def)


theorem validated_args_declared_witness:
  "''id'' \<in> param_name ` set (ct_params sample_command) \<and> distinct (map param_name (ct_params sample_command))"
proof -
  have "''{{ args.id }}'' \<in> set (collect_operation_strings (ct_operation sample_command))"
    by (simp add: sample_command_def sample_sql_def)
  moreover have "''id'' \<in> set (extract_args_refs (\<lambda>_. False) ''{{ args.id }}'')"
    by code_simp
  ultimately show ?thesis
    by (intro validated_args_declared [OF sample_valid sample_mem, of "ct_operation sample_command"])
      (simp_all add: command_operations_def)
qed

theorem validated_environments_witness:
  "\<exists>envs. tf_environments sample_file = Some envs \<and> pe_default envs = Some ''prod''
     \<and> ''prod'' \<in> set (bt_keys (pe_environments envs))"
  using validated_environments [OF sample_valid] by (simp add: sample_file_def)

text \<open>An undeclared secret, a braced query and a duplicate parameter are rejected.\<close>

lemma validator_rejects:
  "validate_sql_operation ''c'' \<lparr>sql_sql = \<lparr>sql_connection_secret = ''db.url'', sql_query_src = ''select {{ args.x }}'',
      sql_params = None, sql_sandbox = None\<rparr>, sql_transport = None\<rparr> [''db.url'']
   = bail ''command c operation.sql.query must not contain Jinja2 template expressions''"
  by code_simp

end
