(* ===== verification/Catalog.thy ===== *)
theory Catalog
  imports Validator
begin

text \<open>
  The template catalog \<open>src/template/catalog.rs\<close>, how it is filled by \<open>src/template/loader.rs\<close>, the
  directory walk \<open>src/template/files.rs\<close> and the cache \<open>src/template/cache.rs\<close>. The file system is a
  record of functions and the HCL reader a parameter; the archive format of the cache is a parameter
  with the round trip its users rely on.
\<close>

section \<open>src/template/catalog.rs\<close>

datatype template_scope = ScopeLocal | ScopeGlobal

record template_source =
  src_path :: string
  src_scope :: template_scope

record catalog_entry =
  te_key :: string
  te_provider :: string
  te_command :: string
  te_title :: string
  te_summary :: string
  te_description :: string
  te_categories :: "string list"
  te_mode :: command_mode
  te_source :: template_source
  te_template :: command_template
  te_provider_environments :: "provider_environments option"

type_synonym catalog = "(string, catalog_entry) btree"

definition catalog_empty :: catalog where
  "catalog_empty = []"

definition catalog_get :: "catalog \<Rightarrow> string \<Rightarrow> catalog_entry option" where
  "catalog_get cat key = bt_get cat key"

definition catalog_upsert :: "string \<Rightarrow> catalog_entry \<Rightarrow> catalog \<Rightarrow> catalog" where
  "catalog_upsert key entry cat = bt_insert key entry cat"

definition catalog_values :: "catalog \<Rightarrow> catalog_entry list" where
  "catalog_values cat = bt_values cat"

section \<open>The file system\<close>

datatype file_kind = FileDir | FileRegular | FileOther

datatype fs_error = NotFound | FsError string

text \<open>An entry of a directory: its path, and its kind without following links.\<close>

record filesystem =
  fs_canonicalize :: "string \<Rightarrow> fs_error + string"
  fs_read_dir :: "string \<Rightarrow> string + (string + string \<times> (string + file_kind)) list"
  fs_read :: "string \<Rightarrow> string + string"
  fs_mtime :: "string \<Rightarrow> u64 option"

definition show_fs_error :: "fs_error \<Rightarrow> string" where
  "show_fs_error e = (case e of NotFound \<Rightarrow> ''entity not found'' | FsError m \<Rightarrow> m)"

text \<open>The components of a path, with the root as the empty first one, and \<open>Path::starts_with\<close>.\<close>

definition path_components :: "string \<Rightarrow> string list" where
  "path_components p =
     (if prefix ''/'' p then [[]] else []) @ filter (\<lambda>c. c \<noteq> [] \<and> c \<noteq> ''.'') (split_char (CHR ''/'') p)"

definition path_starts_with :: "string \<Rightarrow> string \<Rightarrow> bool" where
  "path_starts_with p root = prefix (path_components root) (path_components p)"

definition file_name :: "string \<Rightarrow> string" where
  "file_name p = (let cs = filter (\<lambda>c. c \<noteq> [] \<and> c \<noteq> ''.'') (split_char (CHR ''/'') p) in if cs = [] then [] else last cs)"

text \<open>\<open>Path::extension\<close>: what follows the last dot of the file name, unless the name starts with its
  only dot.\<close>

definition path_extension :: "string \<Rightarrow> string option" where
  "path_extension p =
     (let pieces = split_char (CHR ''.'') (file_name p)
      in if file_name p = ''..'' \<or> length pieces < 2 \<or> concat (butlast pieces) = [] \<and> length pieces = 2
         then None else Some (last pieces))"

text \<open>The directory of a file in a joined path.\<close>

definition path_parent :: "string \<Rightarrow> string" where
  "path_parent p =
     (let cs = split_char (CHR ''/'') p
      in if length cs < 2 then ''.'' else if butlast cs = [[]] then ''/'' else str_join ''/'' (butlast cs))"

section \<open>src/template/files.rs\<close>

definition is_template_file :: "string \<Rightarrow> bool" where
  "is_template_file path \<longleftrightarrow> path_extension path = Some ''hcl''"

text \<open>
  The walk visits directories without following links, so on a finite tree it ends; the fuel
  bounds the depth, and running out of it is the outcome None.
\<close>

fun collect_template_files ::
    "filesystem \<Rightarrow> nat \<Rightarrow> string \<Rightarrow> string \<Rightarrow> string list \<Rightarrow> string list result option" where
  "collect_template_files fs 0 dir root acc = None"
| "collect_template_files fs (Suc fuel) dir root acc =
     (case fs_read_dir fs dir of
        Inl e \<Rightarrow> Some (Inl [''failed listing template directory '' @ dir, e])
      | Inr entries \<Rightarrow>
          fold (\<lambda>entry state.
            (case state of
               None \<Rightarrow> None
             | Some (Inl e) \<Rightarrow> Some (Inl e)
             | Some (Inr files) \<Rightarrow>
                 (case entry of
                    Inl e \<Rightarrow> Some (Inl [e])
                  | Inr (path, kind) \<Rightarrow>
                      (case kind of
                         Inl e \<Rightarrow> Some (Inl [''failed inspecting template path '' @ path, e])
                       | Inr FileDir \<Rightarrow>
                           (case fs_canonicalize fs path of
                              Inr canonical \<Rightarrow>
                                if path_starts_with canonical root
                                then collect_template_files fs fuel canonical root files
                                else Some (Inr files)
                            | Inl e \<Rightarrow> Some (Inr files))
                       | Inr FileRegular \<Rightarrow>
                           if is_template_file path then
                             (case fs_canonicalize fs path of
                                Inr canonical \<Rightarrow>
                                  if path_starts_with canonical root then Some (Inr (files @ [canonical]))
                                  else Some (Inr files)
                              | Inl e \<Rightarrow> Some (Inr files))
                           else Some (Inr files)
                       | Inr FileOther \<Rightarrow> Some (Inr files)))))
            entries (Some (Inr acc)))"

text \<open>Paths are ordered by their components.\<close>

definition template_files_in_dir :: "filesystem \<Rightarrow> nat \<Rightarrow> string \<Rightarrow> string list result option" where
  "template_files_in_dir fs fuel dir =
     (case fs_canonicalize fs dir of
        Inl NotFound \<Rightarrow> Some (Inr [])
      | Inl e \<Rightarrow> Some (Inl [''failed to canonicalize template directory '' @ dir, show_fs_error e])
      | Inr canonical \<Rightarrow>
          map_option (\<lambda>r. and_then r (\<lambda>files. Inr (sort_key path_components files)))
            (collect_template_files fs fuel canonical canonical []))"

section \<open>src/template/loader.rs\<close>

text \<open>What loading needs: the file system, the HCL reader and the Unicode table of the validator.\<close>

record loader =
  ld_fs :: filesystem
  ld_parse :: "string \<Rightarrow> string \<Rightarrow> template_file result"
  ld_alnum :: "string \<Rightarrow> bool"

definition merge_categories :: "string list \<Rightarrow> string list \<Rightarrow> string list" where
  "merge_categories provider_categories command_categories =
     fold (\<lambda>category categories. if category \<in> set categories then categories else categories @ [category])
       command_categories provider_categories"

definition entry_of ::
    "string \<Rightarrow> template_scope \<Rightarrow> template_file \<Rightarrow> string \<Rightarrow> command_template \<Rightarrow> catalog_entry" where
  "entry_of path scope parsed command_name template =
     \<lparr>te_key = tf_provider parsed @ ''.'' @ command_name,
      te_provider = tf_provider parsed,
      te_command = command_name,
      te_title = ct_title template,
      te_summary = ct_summary template,
      te_description = ct_description template,
      te_categories = merge_categories (tf_categories parsed) (ct_categories template),
      te_mode = ann_mode (ct_annotations template),
      te_source = \<lparr>src_path = path, src_scope = scope\<rparr>,
      te_template = template,
      te_provider_environments = tf_environments parsed\<rparr>"

definition read_template :: "loader \<Rightarrow> string \<Rightarrow> template_file result" where
  "read_template ld path =
     and_then (with_context (''failed reading template '' @ path) (map_err (\<lambda>e. [e]) (fs_read (ld_fs ld) path))) (\<lambda>content.
     and_then (with_context (''invalid HCL in '' @ path) (ld_parse ld content (path_parent path))) (\<lambda>parsed.
     and_then (with_context (''validation failed for '' @ path) (validate_template_file (ld_alnum ld) parsed)) (\<lambda>_.
     Inr parsed)))"

definition load_file_into_catalog :: "loader \<Rightarrow> template_scope \<Rightarrow> string \<Rightarrow> catalog \<Rightarrow> catalog result" where
  "load_file_into_catalog ld scope path cat =
     and_then (read_template ld path) (\<lambda>parsed.
     Inr (fold (\<lambda>(command_name, template) cat.
            catalog_upsert (tf_provider parsed @ ''.'' @ command_name)
              (entry_of path scope parsed command_name template) cat)
          (tf_commands parsed) cat))"

definition load_files :: "loader \<Rightarrow> template_scope \<Rightarrow> string list \<Rightarrow> catalog \<Rightarrow> catalog result" where
  "load_files ld scope files cat = try_fold (load_file_into_catalog ld scope) files cat"

definition load_catalog_from_dirs :: "loader \<Rightarrow> nat \<Rightarrow> string \<Rightarrow> string \<Rightarrow> catalog result option" where
  "load_catalog_from_dirs ld fuel global_dir local_dir =
     (case template_files_in_dir (ld_fs ld) fuel global_dir of
        None \<Rightarrow> None
      | Some (Inl e) \<Rightarrow> Some (Inl e)
      | Some (Inr global_files) \<Rightarrow>
          (case load_files ld ScopeGlobal global_files catalog_empty of
             Inl e \<Rightarrow> Some (Inl e)
           | Inr cat \<Rightarrow>
               (case template_files_in_dir (ld_fs ld) fuel local_dir of
                  None \<Rightarrow> None
                | Some (Inl e) \<Rightarrow> Some (Inl e)
                | Some (Inr local_files) \<Rightarrow> Some (load_files ld ScopeLocal local_files cat))))"

definition validate_all_from_dirs :: "loader \<Rightarrow> nat \<Rightarrow> string \<Rightarrow> string \<Rightarrow> string list result option" where
  "validate_all_from_dirs ld fuel global_dir local_dir =
     (case template_files_in_dir (ld_fs ld) fuel global_dir of
        None \<Rightarrow> None
      | Some (Inl e) \<Rightarrow> Some (Inl e)
      | Some (Inr global_files) \<Rightarrow>
          (case template_files_in_dir (ld_fs ld) fuel local_dir of
             None \<Rightarrow> None
           | Some (Inl e) \<Rightarrow> Some (Inl e)
           | Some (Inr local_files) \<Rightarrow>
               (let files = sort_key path_components (remdups (global_files @ local_files))
                in Some (and_then (try_for_each (\<lambda>f. and_then (read_template ld f) (\<lambda>_. Inr ())) files)
                          (\<lambda>_. Inr files)))))"

section \<open>src/template/cache.rs\<close>

type_synonym fingerprint = "(string \<times> u64) list"

record cache_file =
  cf_version :: u32
  cf_fingerprint :: fingerprint
  cf_catalog :: catalog

definition cache_version :: u32 where
  "cache_version = 2"

text \<open>\<open>dedup_by\<close> on the path keeps the first of consecutive equal ones.\<close>

fun dedup_paths :: "fingerprint \<Rightarrow> fingerprint" where
  "dedup_paths [] = []"
| "dedup_paths [e] = [e]"
| "dedup_paths (a # b # es) =
     (if fst a = fst b then dedup_paths (a # es) else a # dedup_paths (b # es))"

definition fingerprint_of :: "filesystem \<Rightarrow> string list \<Rightarrow> fingerprint" where
  "fingerprint_of fs files = map (\<lambda>f. (f, case fs_mtime fs f of None \<Rightarrow> 0 | Some t \<Rightarrow> t)) files"

definition collect_fingerprint :: "filesystem \<Rightarrow> nat \<Rightarrow> string \<Rightarrow> string \<Rightarrow> fingerprint result option" where
  "collect_fingerprint fs fuel global_dir local_dir =
     (case template_files_in_dir fs fuel global_dir of
        None \<Rightarrow> None
      | Some (Inl e) \<Rightarrow> Some (Inl e)
      | Some (Inr gs) \<Rightarrow>
          (case template_files_in_dir fs fuel local_dir of
             None \<Rightarrow> None
           | Some (Inl e) \<Rightarrow> Some (Inl e)
           | Some (Inr ls) \<Rightarrow>
               Some (Inr (dedup_paths
                 (sort_key (\<lambda>e. path_components (fst e)) (fingerprint_of fs gs @ fingerprint_of fs ls))))))"

text \<open>The archive format, and whether writing the temporary file and renaming it succeed.\<close>

record 'f cache_io =
  cio_encode :: "cache_file \<Rightarrow> string + 'f"
  cio_decode :: "'f \<Rightarrow> cache_file option"
  cio_replace :: "string + unit"

definition try_load_cache :: "'f cache_io \<Rightarrow> 'f option \<Rightarrow> fingerprint \<Rightarrow> catalog option" where
  "try_load_cache io content fp =
     (case Option.bind content (cio_decode io) of
        None \<Rightarrow> None
      | Some cached \<Rightarrow>
          if cf_version cached \<noteq> cache_version then None
          else if cf_fingerprint cached \<noteq> fp then None
          else Some (cf_catalog cached))"

definition save_cache :: "'f cache_io \<Rightarrow> fingerprint \<Rightarrow> catalog \<Rightarrow> ('f option, unit) action" where
  "save_cache io fp cat content =
     (case cio_encode io \<lparr>cf_version = cache_version, cf_fingerprint = fp, cf_catalog = cat\<rparr> of
        Inl e \<Rightarrow> (Inl [e], content)
      | Inr bytes \<Rightarrow>
          (case cio_replace io of
             Inl e \<Rightarrow> (Inl [e], content)
           | Inr _ \<Rightarrow> (Inr (), Some bytes)))"

definition load_catalog_with_cache ::
    "loader \<Rightarrow> nat \<Rightarrow> 'f cache_io \<Rightarrow> string \<Rightarrow> string \<Rightarrow> 'f option \<Rightarrow> (catalog result \<times> 'f option) option" where
  "load_catalog_with_cache ld fuel io global_dir local_dir content =
     (case collect_fingerprint (ld_fs ld) fuel global_dir local_dir of
        None \<Rightarrow> None
      | Some (Inl e) \<Rightarrow> Some (Inl e, content)
      | Some (Inr fp) \<Rightarrow>
          (case try_load_cache io content fp of
             Some cat \<Rightarrow> Some (Inr cat, content)
           | None \<Rightarrow>
               (case load_catalog_from_dirs ld fuel global_dir local_dir of
                  None \<Rightarrow> None
                | Some (Inl e) \<Rightarrow> Some (Inl e, content)
                | Some (Inr cat) \<Rightarrow> Some (Inr cat, snd (save_cache io fp cat content)))))"

section \<open>The walk stays inside its root\<close>

lemma collect_fold_inv:
  assumes "fold (\<lambda>entry state. case state of None \<Rightarrow> None | Some (Inl e) \<Rightarrow> Some (Inl e)
      | Some (Inr files) \<Rightarrow> step entry files) entries (Some (Inr acc)) = Some (Inr files)"
    and "\<And>entry fs fs'. entry \<in> set entries \<Longrightarrow> step entry fs = Some (Inr fs') \<Longrightarrow> I fs \<Longrightarrow> I fs'" and "I acc"
  shows "I (files :: 'a)"
proof -
  let ?f = "\<lambda>entry (state :: ('b + 'a) option). case state of None \<Rightarrow> None | Some (Inl e) \<Rightarrow> Some (Inl e)
      | Some (Inr files) \<Rightarrow> step entry files"
  have stuck: "fold ?f es None = None" "fold ?f es (Some (Inl e)) = Some (Inl e)" for es e
    by (induction es) auto
  from assms show ?thesis
  proof (induction entries arbitrary: acc)
    case (Cons entry entries)
    show ?case
    proof (cases "step entry acc")
      case None
      with Cons.prems(1) stuck(1) [of entries] show ?thesis by simp
    next
      case (Some r)
      show ?thesis
      proof (cases r)
        case (Inl e)
        with Some Cons.prems(1) stuck(2) [of entries e] show ?thesis by simp
      next
        case (Inr acc')
        show ?thesis
        proof (rule Cons.IH)
          from Some Inr Cons.prems(1) show "fold ?f entries (Some (Inr acc')) = Some (Inr files)" by simp
          show "I acc'" by (rule Cons.prems(2) [of entry acc]) (use Cons.prems(3) Some Inr in simp_all)
        next
          fix e fs fs'
          assume "e \<in> set entries" "step e fs = Some (Inr fs')" "I fs"
          then show "I fs'" by (blast intro: Cons.prems(2) list.set_intros)
        qed
      qed
    qed
  qed simp
qed

lemma collect_inside:
  "collect_template_files fs fuel dir root acc = Some (Inr files) \<Longrightarrow>
     \<forall>f \<in> set acc. path_starts_with f root \<Longrightarrow> \<forall>f \<in> set files. path_starts_with f root"
proof (induction fs fuel dir root acc arbitrary: files rule: collect_template_files.induct)
  case (2 fs fuel dir root acc)
  from 2(2) obtain entries where entries: "fs_read_dir fs dir = Inr entries"
    by (auto split: sum.splits)
  show ?case
    using 2(2) unfolding collect_template_files.simps entries sum.case
    apply -
    apply (erule collect_fold_inv [where I = "\<lambda>files. \<forall>f \<in> set files. path_starts_with f root"])
    subgoal for entry fs1 fs2
      using 2(1) [OF entries]
      by (fastforce split: sum.splits prod.splits file_kind.splits if_splits)
    by (rule 2(3))
qed simp

lemma template_files_inside:
  assumes "template_files_in_dir fs fuel dir = Some (Inr files)" and "f \<in> set files"
  shows "\<exists>root. fs_canonicalize fs dir = Inr root \<and> path_starts_with f root"
proof -
  from assms obtain root fs0 where root: "fs_canonicalize fs dir = Inr root"
    and "collect_template_files fs fuel root root [] = Some (Inr fs0)" "f \<in> set fs0"
    by (auto simp: template_files_in_dir_def and_then_Inr split: sum.splits fs_error.splits)
  with collect_inside [of fs fuel root root "[]" fs0] show ?thesis by auto
qed

section \<open>What a catalog holds\<close>

text \<open>An entry comes from a command of a validated file, under the key of that command.\<close>

definition entry_ok :: "loader \<Rightarrow> catalog_entry \<Rightarrow> bool" where
  "entry_ok ld e \<longleftrightarrow>
     (\<exists>f. validate_template_file (ld_alnum ld) f = Inr ()
        \<and> (te_command e, te_template e) \<in> set (tf_commands f)
        \<and> e = entry_of (src_path (te_source e)) (src_scope (te_source e)) f (te_command e) (te_template e))"

definition catalog_ok :: "loader \<Rightarrow> catalog \<Rightarrow> bool" where
  "catalog_ok ld cat \<longleftrightarrow>
     bt_ok cat \<and> (\<forall>(k, e) \<in> set cat. k = te_key e \<and> entry_ok ld e)"

definition file_entries :: "string \<Rightarrow> template_scope \<Rightarrow> template_file \<Rightarrow> (string \<times> catalog_entry) list" where
  "file_entries path scope f =
     map (\<lambda>(n, t). (tf_provider f @ ''.'' @ n, entry_of path scope f n t)) (tf_commands f)"

lemma load_file_Inr:
  "load_file_into_catalog ld scope path cat = Inr cat' \<longleftrightarrow>
     (\<exists>f. read_template ld path = Inr f \<and> cat' = fold (\<lambda>(k, v). bt_insert k v) (file_entries path scope f) cat)"
  by (auto simp: load_file_into_catalog_def and_then_Inr file_entries_def fold_map catalog_upsert_def
      comp_def case_prod_unfold)

lemma read_template_valid:
  "read_template ld path = Inr f \<Longrightarrow> validate_template_file (ld_alnum ld) f = Inr ()"
  by (auto simp: read_template_def result_simps)

lemma bt_insert_mem: "x \<in> set (bt_insert k v m) \<Longrightarrow> x = (k, v) \<or> x \<in> set m"
  by (induction k v m rule: bt_insert.induct) (auto split: if_splits)

lemma fold_insert_mem:
  "x \<in> set (fold (\<lambda>(k, v). bt_insert k v) kvs m) \<Longrightarrow> x \<in> set kvs \<or> x \<in> set m"
  by (induction kvs arbitrary: m) (auto dest: bt_insert_mem)

lemma load_file_ok:
  assumes "load_file_into_catalog ld scope path cat = Inr cat'" and "catalog_ok ld cat"
  shows "catalog_ok ld cat'"
proof -
  from assms(1) obtain f where f: "read_template ld path = Inr f"
    and cat': "cat' = fold (\<lambda>(k, v). bt_insert k v) (file_entries path scope f) cat"
    by (auto simp: load_file_Inr)
  have "k = te_key e \<and> entry_ok ld e" if "(k, e) \<in> set (file_entries path scope f)" for k e
    using that read_template_valid [OF f]
    by (auto simp: file_entries_def entry_ok_def entry_of_def intro!: exI [of _ f])
  with assms(2) show ?thesis
    unfolding catalog_ok_def cat'
    by (auto intro: btree.put_all_ok dest!: fold_insert_mem)
qed

lemma load_files_ok:
  "load_files ld scope files cat = Inr cat' \<Longrightarrow> catalog_ok ld cat \<Longrightarrow> catalog_ok ld cat'"
  unfolding load_files_def by (erule try_fold_inv) (auto intro: load_file_ok)

lemma load_dirs_ok:
  "load_catalog_from_dirs ld fuel global_dir local_dir = Some (Inr cat) \<Longrightarrow> catalog_ok ld cat"
  by (auto simp: load_catalog_from_dirs_def catalog_empty_def catalog_ok_def
      split: option.splits sum.splits
      dest!: load_files_ok [of ld ScopeLocal] load_files_ok [of ld ScopeGlobal])

lemma file_entries_scope: "(k, e) \<in> set (file_entries path scope f) \<Longrightarrow> src_scope (te_source e) = scope"
  by (auto simp: file_entries_def entry_of_def)

lemma load_file_get:
  assumes "load_file_into_catalog ld scope path cat = Inr cat'" and "catalog_get cat' key = Some e"
  shows "src_scope (te_source e) = scope \<or> catalog_get cat key = Some e"
proof -
  from assms(1) obtain f where "cat' = fold (\<lambda>(k, v). bt_insert k v) (file_entries path scope f) cat"
    by (auto simp: load_file_Inr)
  with assms(2) have "(bt_get cat ++ map_of (rev (file_entries path scope f))) key = Some e"
    by (simp add: catalog_get_def btree.put_all_get)
  then consider "map_of (rev (file_entries path scope f)) key = Some e" | "bt_get cat key = Some e"
    unfolding map_add_Some_iff by blast
  then show ?thesis
    using file_entries_scope by cases (auto simp: catalog_get_def dest: map_of_SomeD)
qed

lemma load_file_defines:
  assumes "load_file_into_catalog ld scope path cat = Inr cat'" and "read_template ld path = Inr f"
    and "(n, t) \<in> set (tf_commands f)"
  shows "\<exists>e. catalog_get cat' (tf_provider f @ ''.'' @ n) = Some e \<and> src_scope (te_source e) = scope"
proof -
  let ?key = "tf_provider f @ ''.'' @ n"
  have "?key \<in> fst ` set (file_entries path scope f)"
    using assms(3) by (force simp: file_entries_def)
  then obtain e where e: "map_of (rev (file_entries path scope f)) ?key = Some e"
    by (metis map_of_eq_None_iff not_None_eq set_rev)
  then have "src_scope (te_source e) = scope"
    using file_entries_scope by (auto dest: map_of_SomeD)
  with e assms show ?thesis
    by (auto simp: load_file_Inr catalog_get_def btree.put_all_get)
qed

lemma load_files_scope:
  assumes "load_files ld scope files cat = Inr cat'" and "path \<in> set files"
    and "read_template ld path = Inr f" and "(n, t) \<in> set (tf_commands f)"
  shows "\<exists>e. catalog_get cat' (tf_provider f @ ''.'' @ n) = Some e \<and> src_scope (te_source e) = scope"
proof -
  let ?key = "tf_provider f @ ''.'' @ n"
  let ?I = "\<lambda>cat. \<exists>e. catalog_get cat ?key = Some e \<and> src_scope (te_source e) = scope"
  obtain xs ys where files: "files = xs @ path # ys" using assms(2) by (meson split_list)
  then obtain c1 c2 where "load_file_into_catalog ld scope path c1 = Inr c2"
    and rest: "try_fold (load_file_into_catalog ld scope) ys c2 = Inr cat'"
    using assms(1) by (auto simp: load_files_def try_fold_append and_then_Inr)
  then have "?I c2" using load_file_defines assms(3,4) by blast
  with rest show ?thesis
  proof (rule try_fold_inv)
    fix p c c'
    assume "?I c" and load: "load_file_into_catalog ld scope p c = Inr c'"
    from load obtain g where c': "c' = fold (\<lambda>(k, v). bt_insert k v) (file_entries p scope g) c"
      by (auto simp: load_file_Inr)
    with \<open>?I c\<close> have "catalog_get c' ?key \<noteq> None"
      by (auto simp: catalog_get_def btree.put_all_get map_add_def split: option.splits)
    then obtain e where "catalog_get c' ?key = Some e" by blast
    with load_file_get [OF load] \<open>?I c\<close> show "?I c'" by fastforce
  qed
qed

text \<open>
  Every entry of a loaded catalog stands under its own key, and comes from a command of a file that
  passed the validator: its mode is the one annotated, and its parameters have distinct names, as
  binding its arguments needs.
\<close>

theorem loaded_catalog_ok:
  assumes "load_catalog_from_dirs ld fuel global_dir local_dir = Some (Inr cat)"
    and "catalog_get cat key = Some e"
  shows "key = te_key e \<and> key = te_provider e @ ''.'' @ te_command e
     \<and> te_mode e = ann_mode (ct_annotations (te_template e))
     \<and> distinct (map param_name (ct_params (te_template e)))
     \<and> op_wf (fst (select_for_env (te_template e) env))"
proof -
  from load_dirs_ok [OF assms(1)] assms(2) have key: "key = te_key e" and "entry_ok ld e"
    by (auto simp: catalog_ok_def catalog_get_def dest: map_of_SomeD)
  then obtain f where f: "validate_template_file (ld_alnum ld) f = Inr ()"
    and mem: "(te_command e, te_template e) \<in> set (tf_commands f)"
    and e: "e = entry_of (src_path (te_source e)) (src_scope (te_source e)) f (te_command e) (te_template e)"
    by (auto simp: entry_ok_def)
  from e have "te_key e = tf_provider f @ ''.'' @ te_command e" "te_provider e = tf_provider f"
    "te_mode e = ann_mode (ct_annotations (te_template e))"
    unfolding entry_of_def by (metis catalog_entry.select_convs)+
  with key validated_params_distinct [OF f mem]
    validate_operation_wf [OF validated_operations [OF f mem select_for_env_operations]]
  show ?thesis by simp
qed

text \<open>
  A command of a local template file always wins over a global one with the same key.
\<close>

theorem local_overrides_global:
  assumes "load_catalog_from_dirs ld fuel global_dir local_dir = Some (Inr cat)"
    and "template_files_in_dir (ld_fs ld) fuel local_dir = Some (Inr files)" and "path \<in> set files"
    and "read_template ld path = Inr f" and "(n, t) \<in> set (tf_commands f)"
  shows "\<exists>e. catalog_get cat (tf_provider f @ ''.'' @ n) = Some e \<and> src_scope (te_source e) = ScopeLocal"
proof -
  from assms(1,2) obtain c where "load_files ld ScopeLocal files c = Inr cat"
    by (auto simp: load_catalog_from_dirs_def split: option.splits sum.splits)
  then show ?thesis by (rule load_files_scope [OF _ assms(3-5)])
qed

text \<open>What the archive has to keep: an encoded cache file decodes to itself.\<close>

definition archive_ok :: "'f cache_io \<Rightarrow> bool" where
  "archive_ok io \<longleftrightarrow> (\<forall>c bytes. cio_encode io c = Inr bytes \<longrightarrow> cio_decode io bytes = Some c)"

lemma save_then_load_cache:
  assumes "archive_ok io" and "save_cache io fp cat content = (Inr (), content')"
  shows "try_load_cache io content' fp = Some cat"
  using assms
  by (auto simp: save_cache_def try_load_cache_def archive_ok_def split: sum.splits)

text \<open>
  After a load that wrote the cache, a second load with the same fingerprint gives the catalog of
  the first one, whatever the files contain by then: a change that leaves every path and
  modification second alone, or is made in a file that a template includes, is not seen.
\<close>

theorem second_load_is_cached:
  assumes "archive_ok io"
    and "collect_fingerprint (ld_fs ld) fuel g l = Some (Inr fp)"
    and "load_catalog_from_dirs ld fuel g l = Some (Inr cat)"
    and "save_cache io fp cat None = (Inr (), content)"
    and "collect_fingerprint (ld_fs ld') fuel' g' l' = Some (Inr fp)"
  shows "load_catalog_with_cache ld fuel io g l None = Some (Inr cat, content)
     \<and> load_catalog_with_cache ld' fuel' io g' l' content = Some (Inr cat, content)"
proof -
  have "try_load_cache io None fp = None" by (simp add: try_load_cache_def)
  then show ?thesis
    using assms save_then_load_cache [OF assms(1,4)] by (simp add: load_catalog_with_cache_def)
qed

section \<open>A loaded catalog\<close>

text \<open>The same template file in a global and in a local directory.\<close>

definition sample_fs :: filesystem where
  "sample_fs =
     \<lparr>fs_canonicalize = Inr,
      fs_read_dir = (\<lambda>dir. Inr [Inr (dir @ ''/db.hcl'', Inr FileRegular), Inr (dir @ ''/README'', Inr FileRegular)]),
      fs_read = (\<lambda>path. Inr ''text''), fs_mtime = (\<lambda>path. Some 9)\<rparr>"

definition sample_loader :: loader where
  "sample_loader = \<lparr>ld_fs = sample_fs, ld_parse = (\<lambda>content base. Inr sample_file), ld_alnum = (\<lambda>_. False)\<rparr>"

definition sample_entry :: catalog_entry where
  "sample_entry = entry_of ''/l/db.hcl'' ScopeLocal sample_file ''rows'' sample_command"

lemma sample_files:
  "template_files_in_dir (ld_fs sample_loader) 3 ''/g'' = Some (Inr [''/g/db.hcl''])"
  "template_files_in_dir (ld_fs sample_loader) 3 ''/l'' = Some (Inr [''/l/db.hcl''])"
  by code_simp+

lemma sample_read: "read_template sample_loader path = Inr sample_file"
  by (simp add: read_template_def sample_loader_def sample_fs_def sample_valid)

lemma sample_load:
  "load_catalog_from_dirs sample_loader 3 ''/g'' ''/l'' = Some (Inr [(''db.rows'', sample_entry)])"
  by (simp add: load_catalog_from_dirs_def sample_files load_files_def load_file_into_catalog_def sample_read)
    (simp add: sample_file_def catalog_upsert_def catalog_empty_def sample_entry_def)

theorem loaded_catalog_ok_witness:
  "te_mode sample_entry = ModeRead \<and> distinct (map param_name (ct_params (te_template sample_entry)))
   \<and> op_wf (fst (select_for_env (te_template sample_entry) (Some ''prod'')))"
  using loaded_catalog_ok [OF sample_load, of "''db.rows''" sample_entry "Some ''prod''"]
  by (simp add: catalog_get_def sample_entry_def entry_of_def sample_command_def)

theorem local_overrides_global_witness:
  "\<exists>e. catalog_get [(''db.rows'', sample_entry)] ''db.rows'' = Some e \<and> src_scope (te_source e) = ScopeLocal"
  using local_overrides_global [OF sample_load sample_files(2) _ sample_read, of "''/l/db.hcl''" "''rows''" sample_command]
  by (simp add: sample_file_def)

definition sample_archive :: "cache_file cache_io" where
  "sample_archive = \<lparr>cio_encode = Inr, cio_decode = Some, cio_replace = Inr ()\<rparr>"

lemma sample_fingerprint:
  "collect_fingerprint (ld_fs sample_loader) 3 ''/g'' ''/l'' = Some (Inr [(''/g/db.hcl'', 9), (''/l/db.hcl'', 9)])"
  by (simp only: collect_fingerprint_def sample_files option.case sum.case) code_simp

text \<open>By the second load the files no longer parse, and the first catalog is returned.\<close>

theorem second_load_is_cached_witness:
  "\<exists>content. load_catalog_with_cache (sample_loader\<lparr>ld_parse := (\<lambda>content base. bail ''syntax error'')\<rparr>) 3
      sample_archive ''/g'' ''/l'' content = Some (Inr [(''db.rows'', sample_entry)], content)"
proof -
  let ?ld' = "sample_loader\<lparr>ld_parse := (\<lambda>content base. bail ''syntax error'')\<rparr>"
  have ok: "archive_ok sample_archive" by (simp add: archive_ok_def sample_archive_def)
  obtain content where save: "save_cache sample_archive [(''/g/db.hcl'', 9), (''/l/db.hcl'', 9)]
      [(''db.rows'', sample_entry)] None = (Inr (), content)"
    by (simp add: save_cache_def sample_archive_def)
  have "collect_fingerprint (ld_fs ?ld') 3 ''/g'' ''/l'' = Some (Inr [(''/g/db.hcl'', 9), (''/l/db.hcl'', 9)])"
    using sample_fingerprint by simp
  from second_load_is_cached [OF ok sample_fingerprint sample_load save this]
  show ?thesis by blast
qed

end
