(* ===== verification/Parser.thy ===== *)
theory Parser
  imports Catalog Config
begin

text \<open>
  The template reader \<open>src/template/parser.rs\<close>: the HCL library gives a JSON value (a parameter),
  which is normalised to the canonical shape, its function expressions are evaluated, and the
  schema is read from it (a parameter: derived code). The security property of the file is that
  \<open>file(..)\<close> only reads below the directory of the template.
\<close>

section \<open>Normalisation\<close>

definition expect_object :: "json \<Rightarrow> string \<Rightarrow> json_map result" where
  "expect_object v field =
     (case v of JObject m \<Rightarrow> Inr m | _ \<Rightarrow> bail (field @ '' must be an object''))"

definition normalize_param :: "string \<Rightarrow> string \<times> json \<Rightarrow> json result" where
  "normalize_param params_path = (\<lambda>(param_name, param_value).
     (let param_path = params_path @ ''.'' @ param_name
      in and_then (expect_object param_value param_path) (\<lambda>param.
         case bt_get param ''name'' of
           Some (JString existing_name) \<Rightarrow>
             if existing_name = param_name then Inr (JObject param)
             else bail (param_path @ ''.name (`'' @ existing_name @ ''`) must match parameter label `'' @ param_name @ ''`'')
         | Some _ \<Rightarrow> bail (param_path @ ''.name must be a string when provided'')
         | None \<Rightarrow> Inr (JObject (bt_insert ''name'' (JString param_name) param)))))"

definition normalize_params :: "json_map \<Rightarrow> string \<Rightarrow> json_map result" where
  "normalize_params command command_path =
     (let params_attr = bt_get command ''params'';
          command = bt_remove ''params'' command;
          param_blocks = bt_get command ''param'';
          command = bt_remove ''param'' command
      in if params_attr \<noteq> None \<and> param_blocks \<noteq> None
         then bail (command_path @ '' must define either `params` or `param`, not both'')
         else
           (case params_attr of
              Some v \<Rightarrow> Inr (bt_insert ''params'' v command)
            | None \<Rightarrow>
                (case param_blocks of
                   None \<Rightarrow> Inr command
                 | Some blocks \<Rightarrow>
                     (let params_path = command_path @ ''.param''
                      in and_then (expect_object blocks params_path) (\<lambda>param_map.
                         and_then (try_map (normalize_param params_path) param_map) (\<lambda>normalized.
                         Inr (bt_insert ''params'' (JArray normalized) command)))))))"

definition normalize_environment_overrides :: "json_map \<Rightarrow> string \<Rightarrow> json_map result" where
  "normalize_environment_overrides command command_path =
     (case bt_get command ''environment'' of
        None \<Rightarrow> Inr command
      | Some env_blocks \<Rightarrow>
          and_then (expect_object env_blocks (command_path @ ''.environment'')) (\<lambda>env_map.
          Inr (bt_insert ''environment_overrides'' (JObject env_map) (bt_remove ''environment'' command))))"

definition normalize_command_map :: "json \<Rightarrow> string \<Rightarrow> json_map result" where
  "normalize_command_map v field =
     and_then (expect_object v field) (\<lambda>command_map.
     try_fold (\<lambda>(command_name, command_value) normalized.
       (let command_path = field @ ''.'' @ command_name
        in and_then (expect_object command_value command_path) (\<lambda>command.
           and_then (normalize_params command command_path) (\<lambda>command.
           and_then (normalize_environment_overrides command command_path) (\<lambda>command.
           Inr (bt_insert command_name (JObject command) normalized))))))
       command_map [])"

definition normalize_commands :: "json_map \<Rightarrow> (json_map \<times> json_map) result" where
  "normalize_commands root =
     (let commands_attr = bt_get root ''commands'';
          root = bt_remove ''commands'' root;
          command_blocks = bt_get root ''command'';
          root = bt_remove ''command'' root
      in and_then
           (case (commands_attr, command_blocks) of
              (Some _, Some _) \<Rightarrow> bail ''template must define either `commands` or `command`, not both''
            | (Some v, None) \<Rightarrow> normalize_command_map v ''commands''
            | (None, Some v) \<Rightarrow> normalize_command_map v ''command''
            | (None, None) \<Rightarrow> Inr []) (\<lambda>commands.
         Inr (commands, root)))"

definition normalize_environments_block :: "json_map \<Rightarrow> json_map result" where
  "normalize_environments_block root =
     (case bt_get root ''environments'' of
        None \<Rightarrow> Inr root
      | Some env_value \<Rightarrow>
          and_then (expect_object env_value ''environments'') (\<lambda>env_map.
          and_then
            (try_fold (\<lambda>(key, val) (dflt, secrets, named_envs).
               if key = ''default'' then Inr (Some val, secrets, named_envs)
               else if key = ''secrets'' then Inr (dflt, val, named_envs)
               else and_then (expect_object val (''environments.'' @ key)) (\<lambda>env_obj.
                    Inr (dflt, secrets, bt_insert key (JObject env_obj) named_envs)))
              env_map (None, JArray [], [])) (\<lambda>(dflt, secrets, named_envs).
          (let normalized = (case dflt of None \<Rightarrow> [] | Some d \<Rightarrow> bt_insert ''default'' d []);
               normalized = bt_insert ''secrets'' secrets normalized;
               normalized = bt_insert ''environments'' (JObject named_envs) normalized
           in Inr (bt_insert ''environments'' (JObject normalized) (bt_remove ''environments'' root))))))"

section \<open>Function expressions\<close>

datatype hcl_expr = Literal string | Call string hcl_expr

text \<open>The text of an expression, without the wrapper of a native one.\<close>

definition unwrap_expr :: "string \<Rightarrow> string" where
  "unwrap_expr s =
     (let s = trim s
      in case Option.bind (strip_prefix ''${'' s) (strip_suffix ''}'') of
           Some r \<Rightarrow> trim r
         | None \<Rightarrow> s)"

lemma length_unwrap_expr: "length (unwrap_expr s) \<le> length s"
  using length_trim [of s]
  by (auto simp: unwrap_expr_def Let_def strip_prefix_def strip_suffix_def
      intro: order_trans [OF length_trim] split: option.splits bind_splits if_splits)

definition is_fn_name :: "string \<Rightarrow> bool" where
  "is_fn_name name \<longleftrightarrow> name \<noteq> [] \<and> list_all (\<lambda>c. is_ascii_alphanumeric c \<or> c = CHR ''_'') name"

lemma length_fn_argument:
  assumes "str_find ''('' x = Some paren"
  shows "length (trim (drop (Suc paren) (take (length x - Suc 0) x))) < length x"
proof -
  from str_find_Some [OF assms] have "paren + 1 \<le> length x" by simp
  then show ?thesis
    using length_trim [of "drop (Suc paren) (take (length x - Suc 0) x)"] by simp
qed

lemma length_fn_argument_less:
  "str_find ''('' (unwrap_expr s) = Some paren \<Longrightarrow>
     Suc (2 * length (trim (drop (Suc paren) (take (length (unwrap_expr s) - Suc 0) (unwrap_expr s))))) < 2 * length s"
  using length_fn_argument [of "unwrap_expr s" paren] length_unwrap_expr [of s] by simp

function parse_expr :: "string \<Rightarrow> hcl_expr option" and parse_arg :: "string \<Rightarrow> hcl_expr option" where
  "parse_expr s =
     (let s = unwrap_expr s
      in case str_find ''('' s of
           None \<Rightarrow> None
         | Some paren \<Rightarrow>
             (let name = take paren s
              in if \<not> is_fn_name name then None
                 else if \<not> suffix '')'' s then None
                 else map_option (Call name)
                        (parse_arg (trim (drop (paren + 1) (take (length s - 1) s))))))"
| "parse_arg s =
     (let s = trim s
      in if prefix [CHR 0x22] s \<and> suffix [CHR 0x22] s \<and> length s \<ge> 2
         then Some (Literal (drop 1 (take (length s - 1) s)))
         else parse_expr s)"
  by pat_completeness auto
termination
  by (relation "measure (case_sum (\<lambda>s. 2 * length s) (\<lambda>s. 2 * length s + 1))")
    (simp_all add: length_fn_argument_less length_trim le_imp_less_Suc)

declare parse_expr.simps [simp del] parse_arg.simps [simp del]

fun eval_expr :: "filesystem \<Rightarrow> (string \<Rightarrow> string) \<Rightarrow> string \<Rightarrow> hcl_expr \<Rightarrow> string result" where
  "eval_expr fs base64 base_dir (Literal s) = Inr s"
| "eval_expr fs base64 base_dir (Call name arg) =
     and_then (eval_expr fs base64 base_dir arg) (\<lambda>arg_val.
     if name = ''file'' then
       (if prefix ''/'' arg_val
        then bail (''file() path must be relative, got `'' @ arg_val @ ''`'')
        else if sublist ''..'' arg_val
        then bail (''file() path must not contain `..` segments, got `'' @ arg_val @ ''`'')
        else
          and_then (with_context (''failed resolving file path referenced by file('' @ [CHR 0x22] @ arg_val @ [CHR 0x22] @ '')'')
                     (map_err (\<lambda>e. [show_fs_error e]) (fs_canonicalize fs (path_join base_dir arg_val)))) (\<lambda>canonical.
          and_then (with_context ''failed canonicalizing template base directory''
                     (map_err (\<lambda>e. [show_fs_error e]) (fs_canonicalize fs base_dir))) (\<lambda>canonical_base.
          if \<not> path_starts_with canonical canonical_base
          then bail (''file('' @ [CHR 0x22] @ arg_val @ [CHR 0x22] @ '') resolves outside the template directory'')
          else with_context (''failed reading file referenced by file('' @ [CHR 0x22] @ arg_val @ [CHR 0x22] @ '')'')
                 (map_err (\<lambda>e. [e]) (fs_read fs canonical)))))
     else if name = ''base64encode'' then Inr (base64 arg_val)
     else if name = ''trimspace'' then Inr (trim arg_val)
     else bail (''unknown function `'' @ name @ ''`''))"

fun resolve_functions :: "filesystem \<Rightarrow> (string \<Rightarrow> string) \<Rightarrow> string \<Rightarrow> json \<Rightarrow> json result"
  and resolve_functions_list :: "filesystem \<Rightarrow> (string \<Rightarrow> string) \<Rightarrow> string \<Rightarrow> json list \<Rightarrow> json list result"
  and resolve_functions_fields ::
    "filesystem \<Rightarrow> (string \<Rightarrow> string) \<Rightarrow> string \<Rightarrow> (string \<times> json) list \<Rightarrow> (string \<times> json) list result" where
  "resolve_functions fs b64 base_dir (JString s) =
     (case parse_expr s of
        None \<Rightarrow> Inr (JString s)
      | Some expr \<Rightarrow> and_then (eval_expr fs b64 base_dir expr) (\<lambda>t. Inr (JString t)))"
| "resolve_functions fs b64 base_dir (JArray vs) =
     and_then (resolve_functions_list fs b64 base_dir vs) (\<lambda>ws. Inr (JArray ws))"
| "resolve_functions fs b64 base_dir (JObject m) =
     and_then (resolve_functions_fields fs b64 base_dir m) (\<lambda>n. Inr (JObject n))"
| "resolve_functions fs b64 base_dir v = Inr v"
| "resolve_functions_list fs b64 base_dir [] = Inr []"
| "resolve_functions_list fs b64 base_dir (v # vs) =
     and_then (resolve_functions fs b64 base_dir v) (\<lambda>w.
     and_then (resolve_functions_list fs b64 base_dir vs) (\<lambda>ws. Inr (w # ws)))"
| "resolve_functions_fields fs b64 base_dir [] = Inr []"
| "resolve_functions_fields fs b64 base_dir ((k, v) # m) =
     and_then (resolve_functions fs b64 base_dir v) (\<lambda>w.
     and_then (resolve_functions_fields fs b64 base_dir m) (\<lambda>n. Inr ((k, w) # n)))"

text \<open>The HCL reader gives a value or its error; the schema reader likewise.\<close>

definition parse_template_hcl ::
    "(string \<Rightarrow> string + json) \<Rightarrow> (json \<Rightarrow> string + template_file) \<Rightarrow> filesystem \<Rightarrow> (string \<Rightarrow> string) \<Rightarrow>
     string \<Rightarrow> string \<Rightarrow> template_file result" where
  "parse_template_hcl hcl_from_str from_value fs base64 content base_dir =
     and_then (with_context ''invalid HCL'' (map_err (\<lambda>e. [e]) (hcl_from_str content))) (\<lambda>root_value.
     case root_value of
       JObject root \<Rightarrow>
         and_then (normalize_environments_block root) (\<lambda>root.
         and_then (normalize_commands root) (\<lambda>(commands, root).
         and_then (resolve_functions fs base64 base_dir (JObject (bt_insert ''commands'' (JObject commands) root))) (\<lambda>v.
         with_context ''template does not match schema'' (map_err (\<lambda>e. [e]) (from_value v)))))
     | _ \<Rightarrow> bail ''template root must be an object'')"

section \<open>What a template can read\<close>

text \<open>Two file systems that look the same from below a directory.\<close>

definition same_below :: "string \<Rightarrow> filesystem \<Rightarrow> filesystem \<Rightarrow> bool" where
  "same_below base_dir fs fs' \<longleftrightarrow>
     fs_canonicalize fs = fs_canonicalize fs'
     \<and> (\<forall>root path. fs_canonicalize fs base_dir = Inr root \<longrightarrow> path_starts_with path root \<longrightarrow>
          fs_read fs path = fs_read fs' path)"

lemma eval_expr_below:
  assumes "same_below base_dir fs fs'"
  shows "eval_expr fs b64 base_dir e = eval_expr fs' b64 base_dir e"
proof (induction e)
  case (Call name arg)
  show ?case
    unfolding eval_expr.simps Call.IH
    by (intro and_then_cong refl)
      (use assms in \<open>auto simp: same_below_def result_simps intro!: and_then_cong\<close>)
qed simp

lemma resolve_functions_below:
  assumes "same_below base_dir fs fs'"
  shows "resolve_functions fs b64 base_dir v = resolve_functions fs' b64 base_dir v"
    and "resolve_functions_list fs b64 base_dir vs = resolve_functions_list fs' b64 base_dir vs"
    and "resolve_functions_fields fs b64 base_dir m = resolve_functions_fields fs' b64 base_dir m"
  by (induction v and vs and m rule: json_strings_json_list_strings_json_fields_strings.induct)
    (simp_all add: eval_expr_below [OF assms] split: option.splits)

text \<open>
  A template only reads files below its own directory: its parse depends on nothing else of the
  file system than the resolution of paths and the texts of files whose resolved path starts with the
  resolved directory.
\<close>

theorem parse_reads_only_below:
  assumes "same_below base_dir fs fs'"
  shows "parse_template_hcl hcl from_value fs b64 content base_dir =
         parse_template_hcl hcl from_value fs' b64 content base_dir"
  unfolding parse_template_hcl_def by (simp add: resolve_functions_below [OF assms])

definition host_fs :: "string \<Rightarrow> filesystem" where
  "host_fs passwd =
     \<lparr>fs_canonicalize = Inr, fs_read_dir = (\<lambda>dir. Inr []),
      fs_read = (\<lambda>path. if path = ''/etc/passwd'' then Inr passwd else Inr ''select 1''), fs_mtime = (\<lambda>path. None)\<rparr>"

theorem parse_reads_only_below_witness:
  "parse_template_hcl (\<lambda>s. Inr (JObject [(''x'', JString s)])) (\<lambda>v. Inl ''schema'') (host_fs ''root:x'') id ''file(..)'' ''/t''
   = parse_template_hcl (\<lambda>s. Inr (JObject [(''x'', JString s)])) (\<lambda>v. Inl ''schema'') (host_fs ''other'') id ''file(..)'' ''/t''"
proof (rule parse_reads_only_below)
  have "\<not> path_starts_with ''/etc/passwd'' ''/t''" by code_simp
  then show "same_below ''/t'' (host_fs ''root:x'') (host_fs ''other'')"
    by (auto simp: same_below_def host_fs_def)
qed

text \<open>The parameter blocks of a command become its parameter list, each under its label.\<close>

lemma normalize_param_name:
  assumes "normalize_param path (n, v) = Inr w"
  shows "json_get w ''name'' = Some (JString n)"
proof -
  from assms obtain m where m: "v = JObject m"
    by (cases v) (simp_all add: normalize_param_def expect_object_def bail_def Let_def)
  show ?thesis
  proof (cases "bt_get m ''name''")
    case None
    with assms m show ?thesis by (auto simp: normalize_param_def expect_object_def Let_def)
  next
    case (Some j)
    show ?thesis
    proof (cases "\<exists>s. j = JString s")
      case True
      with assms m Some show ?thesis
        by (auto simp: normalize_param_def expect_object_def Let_def result_simps)
    next
      case False
      with assms m Some show ?thesis
        by (cases j) (simp_all add: normalize_param_def expect_object_def Let_def result_simps)
    qed
  qed
qed

lemma normalize_params_labels:
  assumes "normalize_params command path = Inr command'" and "bt_ok command"
    and "bt_get command ''param'' = Some (JObject blocks)"
  shows "\<exists>ps. bt_get command' ''params'' = Some (JArray ps)
     \<and> map (\<lambda>p. json_get p ''name'') ps = map (\<lambda>n. Some (JString n)) (bt_keys blocks)"
proof -
  have get: "bt_get (bt_remove ''params'' command) ''param'' = Some (JObject blocks)"
    using assms(2,3) by (simp add: bt_get_remove)
  with assms(1) obtain ps where ps: "list_all2 (\<lambda>b p. normalize_param (path @ ''.param'') b = Inr p) blocks ps"
    and "bt_get command' ''params'' = Some (JArray ps)"
    by (auto simp: normalize_params_def Let_def expect_object_def result_simps split: option.splits if_splits)
  moreover from ps have "map (\<lambda>p. json_get p ''name'') ps = map (\<lambda>n. Some (JString n)) (bt_keys blocks)"
    by (induction rule: list_all2_induct) (auto dest: normalize_param_name)
  ultimately show ?thesis by blast
qed

end
