(* ===== verification/Transport.thy ===== *)
theory Transport
  imports Validator Config
begin

text \<open>
  Transport settings: \<open>crates/earl-core/src/transport.rs\<close> and \<open>src/protocol/transport.rs\<close>. Durations
  are milliseconds.
\<close>

datatype tls_version = TLS_1_0 | TLS_1_1 | TLS_1_2 | TLS_1_3

record resolved_transport =
  rv_timeout_ms :: nat
  rv_follow_redirects :: bool
  rv_max_redirect_hops :: usize
  rv_retry_max_attempts :: usize
  rv_retry_backoff_ms :: nat
  rv_retry_on_status :: "u16 list"
  rv_compression :: bool
  rv_tls_min_version :: "tls_version option"
  rv_proxy_url :: "string option"
  rv_max_response_bytes :: usize

definition default_max_response_bytes :: usize where
  "default_max_response_bytes = 8 * 1024 * 1024"

text \<open>A string field, trimmed, when it is not blank.\<close>

definition trimmed_field :: "string option \<Rightarrow> string option" where
  "trimmed_field x = (case x of None \<Rightarrow> None | Some s \<Rightarrow> if trim s = [] then None else Some (trim s))"

definition parse_tls_min_version :: "transport_template option \<Rightarrow> tls_version option result" where
  "parse_tls_min_version input =
     (case trimmed_field (Option.bind (Option.bind input tt_tls) tls_min) of
        None \<Rightarrow> Inr None
      | Some raw \<Rightarrow>
          if raw = ''1.0'' then Inr (Some TLS_1_0)
          else if raw = ''1.1'' then Inr (Some TLS_1_1)
          else if raw = ''1.2'' then Inr (Some TLS_1_2)
          else if raw = ''1.3'' then Inr (Some TLS_1_3)
          else bail (''unsupported tls.min_version `'' @ raw @ ''`; expected one of 1.0, 1.1, 1.2, 1.3''))"

definition resolve_proxy_url ::
    "transport_template option \<Rightarrow> (string, proxy_profile) btree \<Rightarrow> string option result" where
  "resolve_proxy_url input proxy_profiles =
     (case trimmed_field (Option.bind input tt_proxy_profile) of
        None \<Rightarrow> Inr None
      | Some profile_name \<Rightarrow>
          and_then (ok_or [''unknown transport proxy_profile `'' @ profile_name @ ''`'']
                     (bt_get proxy_profiles profile_name)) (\<lambda>profile.
          if trim (proxy_url profile) = []
          then bail (''proxy profile `'' @ profile_name @ ''` has empty url'')
          else Inr (Some (trim (proxy_url profile)))))"

definition clamp :: "usize \<Rightarrow> usize \<Rightarrow> usize \<Rightarrow> usize" where
  "clamp lo hi x = (if x < lo then lo else if x > hi then hi else x)"

definition resolve_transport ::
    "transport_template option \<Rightarrow> (string, proxy_profile) btree \<Rightarrow> resolved_transport result" where
  "resolve_transport input proxy_profiles =
     (let timeout = (case Option.bind input tt_timeout_ms of Some ms \<Rightarrow> unat ms | None \<Rightarrow> 30 * 1000);
          (follow_redirects, max_redirect_hops) =
            (case Option.bind input tt_redirects of
               Some r \<Rightarrow> (redirect_follow r, redirect_max_hops r) | None \<Rightarrow> (True, 5));
          (retry_max_attempts, retry_backoff, retry_on_status) =
            (case Option.bind input tt_retry of
               Some r \<Rightarrow> (if retry_attempts r = 0 then 1 else retry_attempts r,
                          unat (max (retry_backoff_ms r) 1), retry_statuses r)
             | None \<Rightarrow> (1, 250, []));
          compression = (case Option.bind input tt_compression of Some c \<Rightarrow> c | None \<Rightarrow> True)
      in and_then (parse_tls_min_version input) (\<lambda>tls_min_version.
         and_then (resolve_proxy_url input proxy_profiles) (\<lambda>proxy_url.
         Inr \<lparr>rv_timeout_ms = timeout, rv_follow_redirects = follow_redirects,
              rv_max_redirect_hops = max_redirect_hops, rv_retry_max_attempts = retry_max_attempts,
              rv_retry_backoff_ms = retry_backoff, rv_retry_on_status = retry_on_status,
              rv_compression = compression, rv_tls_min_version = tls_min_version,
              rv_proxy_url = proxy_url,
              rv_max_response_bytes =
                clamp 1024 (128 * 1024 * 1024)
                  (case Option.bind input tt_max_response_bytes of
                     Some v \<Rightarrow> v | None \<Rightarrow> default_max_response_bytes)\<rparr>)))"

section \<open>Bounds\<close>

lemma clamp_bounds: "lo \<le> hi \<Longrightarrow> lo \<le> clamp lo hi x \<and> clamp lo hi x \<le> hi"
  by (auto simp: clamp_def not_less)

lemma resolve_proxy_url_Inr:
  "resolve_proxy_url input profiles = Inr (Some u) \<Longrightarrow>
     \<exists>p \<in> set (bt_values profiles). u = trim (proxy_url p) \<and> u \<noteq> []"
  by (force simp: resolve_proxy_url_def result_simps split: option.splits dest!: map_of_SomeD)

text \<open>
  Whatever the template says, a resolved transport makes at least one attempt, waits at least a
  millisecond between attempts, and accepts between 1 KiB and 128 MiB of response; a proxy URL
  comes from a configured profile.
\<close>

theorem resolve_transport_bounds:
  assumes "resolve_transport input profiles = Inr t"
  shows "1 \<le> rv_retry_max_attempts t \<and> 1 \<le> rv_retry_backoff_ms t
     \<and> 1024 \<le> rv_max_response_bytes t \<and> rv_max_response_bytes t \<le> 128 * 1024 * 1024
     \<and> (\<forall>u. rv_proxy_url t = Some u \<longrightarrow> u \<noteq> [] \<and> (\<exists>p \<in> set (bt_values profiles). u = trim (proxy_url p)))"
proof -
  from assms obtain tls proxy where proxy: "resolve_proxy_url input profiles = Inr proxy"
    and t: "t = \<lparr>rv_timeout_ms = (case Option.bind input tt_timeout_ms of Some ms \<Rightarrow> unat ms | None \<Rightarrow> 30 * 1000),
      rv_follow_redirects = fst (case Option.bind input tt_redirects of
               Some r \<Rightarrow> (redirect_follow r, redirect_max_hops r) | None \<Rightarrow> (True, 5)),
      rv_max_redirect_hops = snd (case Option.bind input tt_redirects of
               Some r \<Rightarrow> (redirect_follow r, redirect_max_hops r) | None \<Rightarrow> (True, 5)),
      rv_retry_max_attempts = (case Option.bind input tt_retry of
               Some r \<Rightarrow> if retry_attempts r = 0 then 1 else retry_attempts r | None \<Rightarrow> 1),
      rv_retry_backoff_ms = (case Option.bind input tt_retry of
               Some r \<Rightarrow> unat (max (retry_backoff_ms r) 1) | None \<Rightarrow> 250),
      rv_retry_on_status = (case Option.bind input tt_retry of Some r \<Rightarrow> retry_statuses r | None \<Rightarrow> []),
      rv_compression = (case Option.bind input tt_compression of Some c \<Rightarrow> c | None \<Rightarrow> True),
      rv_tls_min_version = tls, rv_proxy_url = proxy,
      rv_max_response_bytes = clamp 1024 (128 * 1024 * 1024)
        (case Option.bind input tt_max_response_bytes of Some v \<Rightarrow> v | None \<Rightarrow> default_max_response_bytes)\<rparr>"
    unfolding resolve_transport_def by (auto simp: Let_def and_then_Inr split: prod.splits option.splits)
  have attempts: "1 \<le> rv_retry_max_attempts t"
    unfolding t by (auto simp: word_le_nat_alt unat_gt_0 Suc_le_eq split: option.splits)
  have "1 \<le> unat (max b 1)" for b :: u64
    by (metis max.cobounded2 unat_1 word_le_nat_alt)
  then have backoff: "1 \<le> rv_retry_backoff_ms t"
    unfolding t by (simp split: option.splits)
  have bytes: "1024 \<le> rv_max_response_bytes t \<and> rv_max_response_bytes t \<le> 128 * 1024 * 1024"
    unfolding t resolved_transport.simps by (rule clamp_bounds) simp
  have "\<forall>u. rv_proxy_url t = Some u \<longrightarrow> u \<noteq> [] \<and> (\<exists>p \<in> set (bt_values profiles). u = trim (proxy_url p))"
    using resolve_proxy_url_Inr proxy unfolding t by fastforce
  with attempts backoff bytes show ?thesis by blast
qed

theorem resolve_transport_bounds_witness:
  "\<exists>t. resolve_transport (Some \<lparr>tt_timeout_ms = None, tt_max_response_bytes = Some 7, tt_redirects = None,
      tt_retry = Some \<lparr>retry_attempts = 0, retry_backoff_ms = 0, retry_statuses = [503]\<rparr>,
      tt_compression = None, tt_tls = None, tt_proxy_profile = None\<rparr>) [] = Inr t
     \<and> 1 \<le> rv_retry_max_attempts t \<and> rv_max_response_bytes t = 1024"
proof -
  let ?in = "Some \<lparr>tt_timeout_ms = None, tt_max_response_bytes = Some 7, tt_redirects = None,
      tt_retry = Some \<lparr>retry_attempts = 0, retry_backoff_ms = 0, retry_statuses = [503]\<rparr>,
      tt_compression = None, tt_tls = None, tt_proxy_profile = None\<rparr>"
  obtain t where t: "resolve_transport ?in [] = Inr t" and b: "rv_max_response_bytes t = 1024"
    by (simp add: resolve_transport_def parse_tls_min_version_def resolve_proxy_url_def trimmed_field_def
        clamp_def)
  show ?thesis using resolve_transport_bounds [OF t] t b by blast
qed

text \<open>For validated settings the only thing that can go wrong is the proxy profile.\<close>

lemma resolve_transport_wf:
  assumes "transport_wf input" and "Option.bind input tt_proxy_profile = None"
  shows "\<exists>t. resolve_transport input profiles = Inr t"
proof -
  have "\<exists>v. parse_tls_min_version input = Inr v"
    using assms(1)
    by (auto simp: parse_tls_min_version_def trimmed_field_def transport_wf_def tls_versions_def
        split: option.splits bind_splits if_splits)
  then show ?thesis
    using assms(2) by (auto simp: resolve_transport_def resolve_proxy_url_def trimmed_field_def Let_def
        split: option.splits prod.splits)
qed

end
