(* ===== verification/Render.thy ===== *)
theory Render
  imports Json
begin

text \<open>
  Rendering: the trait \<open>TemplateRenderer\<close> and its helpers \<open>crates/earl-core/src/render.rs\<close>, and the
  implementation over the minijinja engine \<open>src/template/render.rs\<close>. The engine and the JSON text
  writer are parameters. The trait is a record of two functions, its contract the locale
  \<open>template_renderer\<close>, interpreted on the implementation.
\<close>

section \<open>The engine\<close>

text \<open>Rendering a template, compiling an expression, evaluating it; errors are texts.\<close>

record ('e, 'v) minijinja =
  mj_render_str :: "string \<Rightarrow> json \<Rightarrow> string + string"
  mj_compile :: "string \<Rightarrow> string + 'e"
  mj_eval :: "'e \<Rightarrow> json \<Rightarrow> string + 'v"
  mj_is_undefined :: "'v \<Rightarrow> bool"
  mj_to_value :: "'v \<Rightarrow> string + json"

section \<open>src/template/render.rs\<close>

definition render_failed :: "string \<Rightarrow> string" where
  "render_failed input = ''template render failed for string `'' @ input @ ''`''"

definition jinja :: "string \<Rightarrow> string + 'a \<Rightarrow> 'a result" where
  "jinja input r = with_context (render_failed input) (map_err (\<lambda>e. [e]) r)"

definition render_string_raw :: "('e, 'v) minijinja \<Rightarrow> string \<Rightarrow> json \<Rightarrow> string result" where
  "render_string_raw mj input context = jinja input (mj_render_str mj input context)"

definition pure_expression :: "string \<Rightarrow> string option" where
  "pure_expression input =
     (let trimmed = trim input
      in if prefix ''{{'' trimmed \<and> suffix ''}}'' trimmed
         then (let inner = drop 2 (take (length trimmed - 2) trimmed)
               in if \<not> sublist ''{{'' inner \<and> \<not> sublist ''}}'' inner then Some (trim inner) else None)
         else None)"

definition render_string_value :: "('e, 'v) minijinja \<Rightarrow> string \<Rightarrow> json \<Rightarrow> json result" where
  "render_string_value mj input context =
     (case pure_expression input of
        Some expr_str \<Rightarrow>
          and_then (jinja input (mj_compile mj expr_str)) (\<lambda>expr.
          and_then (jinja input (mj_eval mj expr context)) (\<lambda>result.
          if mj_is_undefined mj result then Inr JNull
          else jinja input (mj_to_value mj result)))
      | None \<Rightarrow> and_then (render_string_raw mj input context) (\<lambda>rendered. Inr (JString rendered)))"

fun render_json_value :: "('e, 'v) minijinja \<Rightarrow> json \<Rightarrow> json \<Rightarrow> json result"
  and render_json_list :: "('e, 'v) minijinja \<Rightarrow> json list \<Rightarrow> json \<Rightarrow> json list result"
  and render_json_fields ::
    "('e, 'v) minijinja \<Rightarrow> (string \<times> json) list \<Rightarrow> json \<Rightarrow> json_map \<Rightarrow> json_map result" where
  "render_json_value mj JNull context = Inr JNull"
| "render_json_value mj (JBool v) context = Inr (JBool v)"
| "render_json_value mj (JNumber v) context = Inr (JNumber v)"
| "render_json_value mj (JString v) context = render_string_value mj v context"
| "render_json_value mj (JArray vs) context =
     and_then (render_json_list mj vs context) (\<lambda>out. Inr (JArray out))"
| "render_json_value mj (JObject obj) context =
     and_then (render_json_fields mj obj context []) (\<lambda>out. Inr (JObject out))"
| "render_json_list mj [] context = Inr []"
| "render_json_list mj (item # items) context =
     and_then (render_json_value mj item context) (\<lambda>v.
     and_then (render_json_list mj items context) (\<lambda>vs. Inr (v # vs)))"
| "render_json_fields mj [] context out = Inr out"
| "render_json_fields mj ((k, v) # obj) context out =
     and_then (render_string_raw mj k context) (\<lambda>rendered_key.
     and_then (render_json_value mj v context) (\<lambda>rendered_val.
     render_json_fields mj obj context
       (if \<not> is_null rendered_val then bt_insert rendered_key rendered_val out else out)))"

section \<open>crates/earl-core/src/render.rs\<close>

record renderer =
  rd_render_str :: "string \<Rightarrow> json \<Rightarrow> string result"
  rd_render_value :: "json \<Rightarrow> json \<Rightarrow> json result"

definition jinja_renderer :: "('e, 'v) minijinja \<Rightarrow> renderer" where
  "jinja_renderer mj =
     \<lparr>rd_render_str = render_string_raw mj, rd_render_value = render_json_value mj\<rparr>"

text \<open>Numbers, arrays and objects are written by the JSON library.\<close>

definition value_to_string :: "(json \<Rightarrow> string) \<Rightarrow> json \<Rightarrow> string result" where
  "value_to_string json_text v =
     (case v of
        JNull \<Rightarrow> Inr []
      | JBool b \<Rightarrow> Inr (if b then ''true'' else ''false'')
      | JNumber n \<Rightarrow> Inr (json_text v)
      | JString s \<Rightarrow> Inr s
      | _ \<Rightarrow> Inr (json_text v))"

definition push_value :: "(json \<Rightarrow> string) \<Rightarrow> string \<Rightarrow> json \<Rightarrow> (string \<times> string) list \<Rightarrow> (string \<times> string) list result" where
  "push_value json_text key v out =
     and_then (value_to_string json_text v) (\<lambda>s. Inr (if s \<noteq> [] then out @ [(key, s)] else out))"

definition render_entry ::
    "(json \<Rightarrow> string) \<Rightarrow> renderer \<Rightarrow> json \<Rightarrow> string \<times> json \<Rightarrow> (string \<times> string) list \<Rightarrow> (string \<times> string) list result" where
  "render_entry json_text rd context = (\<lambda>(key, v) out.
     and_then (rd_render_str rd key context) (\<lambda>rendered_key.
     and_then (rd_render_value rd v context) (\<lambda>rendered_value.
     case rendered_value of
       JNull \<Rightarrow> Inr out
     | JArray vs \<Rightarrow> try_fold (push_value json_text rendered_key) vs out
     | other \<Rightarrow> push_value json_text rendered_key other out)))"

definition render_key_value_map ::
    "(json \<Rightarrow> string) \<Rightarrow> renderer \<Rightarrow> json_map option \<Rightarrow> json \<Rightarrow> (string \<times> string) list result" where
  "render_key_value_map json_text rd input context =
     (case input of
        None \<Rightarrow> Inr []
      | Some entries \<Rightarrow> try_fold (render_entry json_text rd context) entries [])"

section \<open>The contract of a renderer\<close>

text \<open>No object in a value has a null member.\<close>

fun no_null_members :: "json \<Rightarrow> bool" and no_null_list :: "json list \<Rightarrow> bool"
  and no_null_fields :: "(string \<times> json) list \<Rightarrow> bool" where
  "no_null_members (JArray vs) = no_null_list vs"
| "no_null_members (JObject m) = no_null_fields m"
| "no_null_members v = True"
| "no_null_list [] = True"
| "no_null_list (v # vs) = (no_null_members v \<and> no_null_list vs)"
| "no_null_fields [] = True"
| "no_null_fields ((k, v) # m) = (\<not> is_null v \<and> no_null_members v \<and> no_null_fields m)"

locale template_renderer =
  fixes render_str :: "string \<Rightarrow> json \<Rightarrow> string result"
    and render_value :: "json \<Rightarrow> json \<Rightarrow> json result"
  assumes render_scalar:
      "is_null v \<or> is_boolean v \<or> is_number v \<Longrightarrow> render_value v context = Inr v"
    and render_array:
      "render_value (JArray vs) context = and_then (try_map (\<lambda>v. render_value v context) vs) (\<lambda>ws. Inr (JArray ws))"
    and render_object:
      "render_value (JObject m) context = Inr w \<Longrightarrow>
         \<exists>n. w = JObject n \<and> bt_ok n \<and> (\<forall>v \<in> set (bt_values n). \<not> is_null v)"
begin

lemma render_array_length:
  "render_value (JArray vs) context = Inr w \<Longrightarrow> \<exists>ws. w = JArray ws \<and> length ws = length vs"
  by (auto simp: render_array result_simps dest: list_all2_lengthD)

lemma render_object_no_null:
  assumes "render_value (JObject m) ctx = Inr (JObject n)"
  shows "bt_get n k \<noteq> Some JNull"
proof
  assume "bt_get n k = Some JNull"
  then have "JNull \<in> set (bt_values n)" by (force dest: map_of_SomeD)
  with render_object [OF assms] show False by auto
qed

text \<open>No pair of a rendered map has an empty value: absent parameters do not reach the request.\<close>

lemma push_value_nonempty:
  "push_value json_text key v out = Inr out' \<Longrightarrow> [] \<notin> snd ` set out \<Longrightarrow> [] \<notin> snd ` set out'"
  by (auto simp: push_value_def result_simps split: if_splits)

lemma push_values_nonempty:
  "try_fold (push_value json_text key) vs out = Inr out' \<Longrightarrow> [] \<notin> snd ` set out \<Longrightarrow> [] \<notin> snd ` set out'"
  by (rule try_fold_inv) (assumption+, rule push_value_nonempty)

lemma render_entry_nonempty:
  assumes "render_entry json_text \<lparr>rd_render_str = render_str, rd_render_value = render_value\<rparr> ctx kv out = Inr out'"
    and "[] \<notin> snd ` set out"
  shows "[] \<notin> snd ` set out'"
proof -
  obtain key0 v0 where kv: "kv = (key0, v0)" by (cases kv)
  with assms(1) obtain key v where v: "render_value v0 ctx = Inr v"
    and rest: "(case v of JNull \<Rightarrow> Inr out
      | JArray vs \<Rightarrow> try_fold (push_value json_text key) vs out
      | other \<Rightarrow> push_value json_text key other out) = Inr out'"
    by (auto simp: render_entry_def and_then_Inr)
  from rest assms(2) show ?thesis
    by (cases v) (auto dest: push_value_nonempty push_values_nonempty)
qed

lemma rendered_map_nonempty:
  assumes "render_key_value_map json_text \<lparr>rd_render_str = render_str, rd_render_value = render_value\<rparr> input ctx = Inr out"
  shows "[] \<notin> snd ` set out"
proof (cases input)
  case (Some entries)
  with assms have "try_fold (render_entry json_text \<lparr>rd_render_str = render_str, rd_render_value = render_value\<rparr> ctx) entries [] = Inr out"
    by (simp add: render_key_value_map_def)
  then show ?thesis by (rule try_fold_inv) (simp, rule render_entry_nonempty)
qed (use assms in \<open>simp add: render_key_value_map_def\<close>)

end

lemma render_json_list_map: "render_json_list mj vs context = try_map (\<lambda>v. render_json_value mj v context) vs"
  by (induction vs) auto

lemma bt_values_insert_subset: "set (bt_values (bt_insert k v m)) \<subseteq> insert v (set (bt_values m))"
  by (induction k v m rule: bt_insert.induct) auto

lemma render_json_fields_inv:
  "render_json_fields mj obj ctx out = Inr out' \<Longrightarrow> bt_ok out \<and> (\<forall>v \<in> set (bt_values out). \<not> is_null v) \<Longrightarrow>
     bt_ok out' \<and> (\<forall>v \<in> set (bt_values out'). \<not> is_null v)"
proof (induction obj arbitrary: out)
  case (Cons kv obj)
  obtain k v where kv: "kv = (k, v)" by (cases kv)
  with Cons.prems(1) obtain key w where rest: "render_json_fields mj obj ctx
      (if \<not> is_null w then bt_insert key w out else out) = Inr out'"
    by (auto simp: and_then_Inr)
  have sub: "set (bt_values (bt_insert key w out)) \<subseteq> insert w (set (bt_values out))"
    by (rule bt_values_insert_subset)
  show ?case
  proof (cases "is_null w")
    case True
    with rest show ?thesis by (intro Cons.IH [OF _ Cons.prems(2)]) simp
  next
    case False
    with rest have "render_json_fields mj obj ctx (bt_insert key w out) = Inr out'" by simp
    moreover from Cons.prems(2) have "bt_ok (bt_insert key w out)" by blast
    moreover from sub False Cons.prems(2) have "\<forall>v \<in> set (bt_values (bt_insert key w out)). \<not> is_null v"
      by blast
    ultimately show ?thesis by (intro Cons.IH conjI)
  qed
qed simp

interpretation jinja: template_renderer "render_string_raw mj" "render_json_value mj" for mj
proof
  fix v ctx
  show "is_null v \<or> is_boolean v \<or> is_number v \<Longrightarrow> render_json_value mj v ctx = Inr v"
    by (cases v) auto
next
  fix vs ctx
  show "render_json_value mj (JArray vs) ctx =
      and_then (try_map (\<lambda>v. render_json_value mj v ctx) vs) (\<lambda>ws. Inr (JArray ws))"
    by (simp add: render_json_list_map)
next
  fix m ctx w
  assume "render_json_value mj (JObject m) ctx = Inr w"
  then obtain n where "w = JObject n" "render_json_fields mj m ctx [] = Inr n"
    by (auto simp: and_then_Inr)
  with render_json_fields_inv [of mj m _ "[]" n]
  show "\<exists>n. w = JObject n \<and> bt_ok n \<and> (\<forall>v \<in> set (bt_values n). \<not> is_null v)" by simp
qed

section \<open>Templates without markers\<close>

text \<open>
  A text without template markers that does not end in a newline (the engine drops one at the end)
  stands for itself.
\<close>

definition plain_text :: "string \<Rightarrow> bool" where
  "plain_text s \<longleftrightarrow> \<not> sublist ''{{'' s \<and> \<not> sublist ''{%'' s \<and> \<not> sublist ''{#'' s \<and> \<not> suffix [CHR 0x0A] s"

fun plain_value :: "json \<Rightarrow> bool" and plain_list :: "json list \<Rightarrow> bool"
  and plain_fields :: "(string \<times> json) list \<Rightarrow> bool" where
  "plain_value (JString s) = plain_text s"
| "plain_value (JArray vs) = plain_list vs"
| "plain_value (JObject m) = plain_fields m"
| "plain_value v = True"
| "plain_list [] = True"
| "plain_list (v # vs) = (plain_value v \<and> plain_list vs)"
| "plain_fields [] = True"
| "plain_fields ((k, v) # m) = (plain_text k \<and> plain_value v \<and> plain_fields m)"

text \<open>A value less the null members of its objects.\<close>

fun prune :: "json \<Rightarrow> json" and prune_list :: "json list \<Rightarrow> json list"
  and prune_fields :: "(string \<times> json) list \<Rightarrow> (string \<times> json) list" where
  "prune (JArray vs) = JArray (prune_list vs)"
| "prune (JObject m) = JObject (prune_fields m)"
| "prune v = v"
| "prune_list [] = []"
| "prune_list (v # vs) = prune v # prune_list vs"
| "prune_fields [] = []"
| "prune_fields ((k, v) # m) = (if is_null v then prune_fields m else (k, prune v) # prune_fields m)"

lemma is_null_prune [simp]: "is_null (prune v) = is_null v"
  by (cases v) auto

lemma plain_not_pure: "plain_text s \<Longrightarrow> pure_expression s = None"
proof (rule ccontr)
  assume plain: "plain_text s" and "pure_expression s \<noteq> None"
  then have "prefix ''{{'' (trim s)" by (auto simp: pure_expression_def Let_def split: if_splits)
  then have "sublist ''{{'' (trim s)" by (rule prefix_imp_sublist)
  moreover have "sublist (trim s) s" by (rule sublist_trim)
  ultimately show False using plain sublist_order.order_trans unfolding plain_text_def by blast
qed

lemma bt_insert_last: "\<forall>j \<in> set (bt_keys m). j < k \<Longrightarrow> bt_insert k v m = m @ [(k, v)]"
  by (induction k v m rule: bt_insert.induct) auto

text \<open>The engine returns such a text as it is.\<close>

definition engine_identity :: "('e, 'v) minijinja \<Rightarrow> bool" where
  "engine_identity mj \<longleftrightarrow> (\<forall>s ctx. plain_text s \<longrightarrow> mj_render_str mj s ctx = Inr s)"

lemma plain_raw: "engine_identity mj \<Longrightarrow> plain_text s \<Longrightarrow> render_string_raw mj s ctx = Inr s"
  by (simp add: engine_identity_def render_string_raw_def jinja_def)

lemma plain_string: "engine_identity mj \<Longrightarrow> plain_text s \<Longrightarrow> render_string_value mj s ctx = Inr (JString s)"
  by (simp add: render_string_value_def plain_not_pure plain_raw)

lemma plain_renders:
  assumes mj: "engine_identity mj"
  shows "plain_value v \<Longrightarrow> json_ok v \<Longrightarrow> render_json_value mj v ctx = Inr (prune v)"
    and "plain_list vs \<Longrightarrow> json_list_ok vs \<Longrightarrow> render_json_list mj vs ctx = Inr (prune_list vs)"
    and "plain_fields m \<Longrightarrow> json_fields_ok m \<Longrightarrow> bt_ok m \<Longrightarrow>
           (\<forall>k \<in> set (bt_keys m). \<forall>j \<in> set (bt_keys out). j < k) \<Longrightarrow>
           render_json_fields mj m ctx out = Inr (out @ prune_fields m)"
proof (induction v and vs and m arbitrary: and and out
    rule: prune_prune_list_prune_fields.induct [case_names Array Object Null Bool Number String Empty Item None Cons])
  case (Cons k v m)
  show ?case
  proof (cases "is_null v")
    case True
    with Cons show ?thesis by (cases v) (auto simp: plain_raw [OF mj])
  next
    case False
    have "bt_insert k (prune v) out = out @ [(k, prune v)]"
      using "Cons.prems" by (intro bt_insert_last) auto
    moreover have "render_json_fields mj m ctx (out @ [(k, prune v)]) = Inr ((out @ [(k, prune v)]) @ prune_fields m)"
      using False "Cons.prems" by (intro "Cons.IH") auto
    moreover have "render_json_value mj v ctx = Inr (prune v)"
      using False Cons by auto
    ultimately show ?thesis using False "Cons.prems" by (simp add: plain_raw [OF mj])
  qed
qed (auto simp: plain_string [OF mj])

section \<open>Properties\<close>

text \<open>
  A template value without template markers renders to itself, less the null members of its
  objects, for an engine that returns marker-free text unchanged.
\<close>

theorem plain_value_renders_to_itself:
  "engine_identity mj \<Longrightarrow> plain_value v \<Longrightarrow> json_ok v \<Longrightarrow>
     rd_render_value (jinja_renderer mj) v ctx = Inr (prune v)"
  by (simp add: jinja_renderer_def plain_renders)

definition sample_engine :: "(string, json) minijinja" where
  "sample_engine =
     \<lparr>mj_render_str = (\<lambda>s ctx. if plain_text s then Inr s else Inl ''unsupported''),
      mj_compile = (\<lambda>s. Inr s),
      mj_eval = (\<lambda>e ctx. Inr (case json_get ctx e of Some v \<Rightarrow> v | None \<Rightarrow> JNull)),
      mj_is_undefined = is_null, mj_to_value = Inr\<rparr>"

lemma sample_engine_identity: "engine_identity sample_engine"
  by (simp add: engine_identity_def sample_engine_def)

theorem plain_value_renders_to_itself_witness:
  "rd_render_value (jinja_renderer sample_engine)
     (JObject [(''a'', JNull), (''b'', JArray [JNull, JString ''x''])]) JNull
   = Inr (JObject [(''b'', JArray [JNull, JString ''x''])])"
proof -
  have "plain_value (JObject [(''a'', JNull), (''b'', JArray [JNull, JString ''x''])])" by code_simp
  moreover have "json_ok (JObject [(''a'', JNull), (''b'', JArray [JNull, JString ''x''])])" by code_simp
  ultimately show ?thesis
    using plain_value_renders_to_itself [OF sample_engine_identity] by simp
qed

text \<open>
  The query, header, cookie and form pairs rendered for a request never have an empty value: a
  parameter that is absent, null or empty leaves no pair behind.
\<close>

theorem rendered_pairs_nonempty:
  "render_key_value_map json_text (jinja_renderer mj) input ctx = Inr out \<Longrightarrow> [] \<notin> snd ` set out"
  unfolding jinja_renderer_def by (rule jinja.rendered_map_nonempty)

theorem rendered_pairs_nonempty_witness:
  "render_key_value_map (\<lambda>v. ''?'') (jinja_renderer sample_engine)
     (Some [(''limit'', JString ''{{ n }}''), (''q'', JString ''{{ missing }}'')])
     (JObject [(''n'', JArray [JString ''1'', JString []])]) = Inr [(''limit'', ''1'')]
   \<and> [] \<notin> snd ` set [(''limit'', ''1'')]"
proof -
  have "render_key_value_map (\<lambda>v. ''?'') (jinja_renderer sample_engine)
     (Some [(''limit'', JString ''{{ n }}''), (''q'', JString ''{{ missing }}'')])
     (JObject [(''n'', JArray [JString ''1'', JString []])]) = Inr [(''limit'', ''1'')]"
    by code_simp
  from this rendered_pairs_nonempty [OF this] show ?thesis ..
qed

end
