(* ===== verification/Builders.thy ===== *)
theory Builders
  imports Render Schema Allowlist
begin

text \<open>
  From an operation template to the data of one request: the prepared types of
  \<open>crates/earl-core/src/lib.rs\<close> and the builders of the protocol crates
  (\<open>earl-protocol-{http,bash,sql,grpc,browser}/src/builder.rs\<close>). Parsing of URLs and methods,
  base64, the JSON text writer, the derived step reader and the file system are parameters.
\<close>

section \<open>Prepared data\<close>

record prepared_multipart_part =
  mp_name :: string
  mp_bytes :: string
  mp_content_type :: "string option"
  mp_filename :: "string option"

datatype prepared_body =
    EmptyBody
  | JsonBody json
  | FormBody "(string \<times> string) list"
  | MultipartBody "prepared_multipart_part list"
  | RawBytes string "string option"

record prepared_http_data =
  ph_method :: string
  ph_url :: url
  ph_query :: "(string \<times> string) list"
  ph_headers :: "(string \<times> string) list"
  ph_cookies :: "(string \<times> string) list"
  ph_body :: prepared_body

record prepared_grpc_data =
  pg_url :: url
  pg_headers :: "(string \<times> string) list"
  pg_body :: prepared_body
  pg_service :: string
  pg_method :: string
  pg_descriptor_set :: "string option"

record resolved_bash_sandbox =
  rb_network :: bool
  rb_writable_paths :: "string list"
  rb_max_time_ms :: "u64 option"
  rb_max_output_bytes :: "usize option"
  rb_max_memory_bytes :: "usize option"
  rb_max_cpu_time_ms :: "u64 option"

record prepared_bash_script =
  pb_script :: string
  pb_env :: "(string \<times> string) list"
  pb_cwd :: "string option"
  pb_stdin :: "string option"
  pb_sandbox :: resolved_bash_sandbox

record prepared_sql_query =
  ps_connection_url :: string
  ps_query :: string
  ps_params :: "json list"
  ps_read_only :: bool
  ps_max_rows :: usize

record prepared_browser_command =
  pc_session_id :: "string option"
  pc_headless :: bool
  pc_timeout_ms :: u64
  pc_on_failure_screenshot :: bool
  pc_steps :: "browser_step list"

section \<open>What the builders take from the libraries\<close>

record builder_libs =
  bl_url_parse :: "string \<Rightarrow> string + url"
  bl_set_path :: "string \<Rightarrow> url \<Rightarrow> url"
  bl_parse_method :: "string \<Rightarrow> string + string"
  bl_base64_decode :: "string \<Rightarrow> string + string"
  bl_json_text :: "json \<Rightarrow> string"
  bl_read_file :: "string \<Rightarrow> string + string"
  bl_step_to_value :: "browser_step \<Rightarrow> string + json"
  bl_step_from_value :: "json \<Rightarrow> string + browser_step"

definition library :: "string + 'a \<Rightarrow> 'a result" where
  "library r = map_err (\<lambda>e. [e]) r"

lemma library_Inr [result_simps]: "library r = Inr x \<longleftrightarrow> r = Inr x"
  by (simp add: library_def result_simps)

text \<open>\<open>opt.map(f).transpose()?\<close>\<close>

definition transpose_map :: "('a \<Rightarrow> 'e + 'b) \<Rightarrow> 'a option \<Rightarrow> 'e + 'b option" where
  "transpose_map f x = (case x of None \<Rightarrow> Inr None | Some y \<Rightarrow> and_then (f y) (\<lambda>z. Inr (Some z)))"

section \<open>HTTP and GraphQL\<close>

definition parse_http_method :: "builder_libs \<Rightarrow> string \<Rightarrow> string option \<Rightarrow> string result" where
  "parse_http_method lib meth fallback =
     (let raw = trim meth;
          meth = (if raw = [] then unwrap_or fallback [] else raw)
      in with_context (''invalid HTTP method `'' @ meth @ ''`'') (library (bl_parse_method lib meth)))"

definition ensure_header_default ::
    "string \<Rightarrow> string \<Rightarrow> (string \<times> string) list \<Rightarrow> (string \<times> string) list" where
  "ensure_header_default name value headers =
     (if list_ex (\<lambda>(k, _). eq_ignore_ascii_case k name) headers then headers
      else headers @ [(name, value)])"

definition parse_operation_url :: "builder_libs \<Rightarrow> string \<Rightarrow> string \<Rightarrow> url result" where
  "parse_operation_url lib command_key url_text =
     with_context (''template `'' @ command_key @ ''` rendered invalid operation URL `'' @ url_text @ ''`'')
       (library (bl_url_parse lib url_text))"

definition render_http_primitives ::
    "builder_libs \<Rightarrow> renderer \<Rightarrow> string \<Rightarrow> string option \<Rightarrow> json_map option \<Rightarrow> json_map option \<Rightarrow>
     json_map option \<Rightarrow> json \<Rightarrow> string \<Rightarrow>
     (url \<times> (string \<times> string) list \<times> (string \<times> string) list \<times> (string \<times> string) list) result" where
  "render_http_primitives lib rd url_template path_template query_template headers_template
       cookies_template ctx command_key =
     and_then (rd_render_str rd url_template ctx) (\<lambda>url_text.
     and_then (parse_operation_url lib command_key url_text) (\<lambda>url0.
     and_then
       (case path_template of
          None \<Rightarrow> Inr url0
        | Some template \<Rightarrow>
            and_then (rd_render_str rd template ctx) (\<lambda>rendered_path.
            if prefix ''/'' rendered_path then Inr (bl_set_path lib rendered_path url0)
            else Inr (bl_set_path lib
                        (trim_end_matches ''/'' (url_path url0) @ ''/'' @ rendered_path) url0))) (\<lambda>url.
     and_then (render_key_value_map (bl_json_text lib) rd query_template ctx) (\<lambda>query.
     and_then (render_key_value_map (bl_json_text lib) rd headers_template ctx) (\<lambda>headers.
     and_then (render_key_value_map (bl_json_text lib) rd cookies_template ctx) (\<lambda>cookies.
     Inr (url, query, headers, cookies)))))))"

definition render_part ::
    "builder_libs \<Rightarrow> renderer \<Rightarrow> json \<Rightarrow> multipart_part_template \<Rightarrow> prepared_multipart_part result" where
  "render_part lib rd ctx part =
     and_then
       (case part_value part of
          Some value \<Rightarrow> rd_render_str rd value ctx
        | None \<Rightarrow>
       (case part_bytes_base64 part of
          Some value \<Rightarrow>
            and_then (rd_render_str rd value ctx) (\<lambda>rendered.
              with_context ''invalid multipart bytes_base64'' (library (bl_base64_decode lib rendered)))
        | None \<Rightarrow>
       (case part_file_path part of
          Some path \<Rightarrow>
            and_then (rd_render_str rd path ctx) (\<lambda>rendered_path.
              with_context (''failed reading multipart file `'' @ rendered_path @ ''`'')
                (library (bl_read_file lib rendered_path)))
        | None \<Rightarrow>
            bail (''multipart part `'' @ part_name part @ ''` does not contain any data source''))))
       (\<lambda>bytes.
     and_then (transpose_map (\<lambda>name. rd_render_str rd name ctx) (part_filename part)) (\<lambda>filename.
     Inr \<lparr>mp_name = part_name part, mp_bytes = bytes, mp_content_type = part_content_type part,
          mp_filename = filename\<rparr>))"

definition render_multipart_parts ::
    "builder_libs \<Rightarrow> renderer \<Rightarrow> multipart_part_template list \<Rightarrow> json \<Rightarrow> prepared_multipart_part list result" where
  "render_multipart_parts lib rd parts ctx = try_map (render_part lib rd ctx) parts"

definition render_http_body ::
    "builder_libs \<Rightarrow> renderer \<Rightarrow> http_operation \<Rightarrow> json \<Rightarrow> string \<Rightarrow> prepared_body result" where
  "render_http_body lib rd http ctx command_key =
     (case unwrap_or (http_body http) BodyNone of
        BodyNone \<Rightarrow> Inr EmptyBody
      | BodyJson value \<Rightarrow> and_then (rd_render_value rd value ctx) (\<lambda>v. Inr (JsonBody v))
      | BodyFormUrlencoded form_fields \<Rightarrow>
          and_then (render_key_value_map (bl_json_text lib) rd (Some form_fields) ctx) (\<lambda>form. Inr (FormBody form))
      | BodyMultipart parts \<Rightarrow>
          and_then (render_multipart_parts lib rd parts ctx) (\<lambda>ps. Inr (MultipartBody ps))
      | BodyRawText value content_type \<Rightarrow>
          and_then (rd_render_str rd value ctx) (\<lambda>rendered.
          Inr (RawBytes rendered
                (case content_type of Some t \<Rightarrow> Some t | None \<Rightarrow> Some ''text/plain'')))
      | BodyRawBytesBase64 value content_type \<Rightarrow>
          and_then (rd_render_str rd value ctx) (\<lambda>rendered.
          and_then (with_context ''invalid base64 in raw_bytes_base64 body''
                     (library (bl_base64_decode lib rendered))) (\<lambda>bytes.
          Inr (RawBytes bytes content_type)))
      | BodyFileStream path content_type \<Rightarrow>
          and_then (rd_render_str rd path ctx) (\<lambda>rendered_path.
          and_then (with_context (''failed reading file_stream body data from `'' @ rendered_path
                        @ ''` for command '' @ command_key)
                     (library (bl_read_file lib rendered_path))) (\<lambda>bytes.
          Inr (RawBytes bytes content_type))))"

definition build_http_request ::
    "builder_libs \<Rightarrow> renderer \<Rightarrow> http_operation \<Rightarrow> json \<Rightarrow> string \<Rightarrow> prepared_http_data result" where
  "build_http_request lib rd http ctx command_key =
     and_then (render_http_primitives lib rd (http_url http) (http_path http) (http_query http)
                 (http_headers http) (http_cookies http) ctx command_key) (\<lambda>(url, query, headers, cookies).
     and_then (render_http_body lib rd http ctx command_key) (\<lambda>body.
     and_then (parse_http_method lib (http_method http) None) (\<lambda>meth.
     Inr \<lparr>ph_method = meth, ph_url = url, ph_query = query, ph_headers = headers,
          ph_cookies = cookies, ph_body = body\<rparr>)))"

definition render_graphql_body :: "renderer \<Rightarrow> graphql_template \<Rightarrow> json \<Rightarrow> json result" where
  "render_graphql_body rd graphql ctx =
     and_then (rd_render_str rd (gt_query graphql) ctx) (\<lambda>query.
     and_then
       (case gt_operation_name graphql of
          None \<Rightarrow> Inr (bt_insert ''query'' (JString query) [])
        | Some operation_name \<Rightarrow>
            and_then (rd_render_str rd operation_name ctx) (\<lambda>name.
            Inr (bt_insert ''operationName'' (JString name) (bt_insert ''query'' (JString query) [])))) (\<lambda>payload.
     and_then
       (case gt_variables graphql of
          None \<Rightarrow> Inr payload
        | Some variables \<Rightarrow>
            and_then (rd_render_value rd variables ctx) (\<lambda>vars.
            Inr (bt_insert ''variables'' vars payload))) (\<lambda>payload'.
     Inr (JObject payload'))))"

definition build_graphql_request ::
    "builder_libs \<Rightarrow> renderer \<Rightarrow> graphql_operation \<Rightarrow> json \<Rightarrow> string \<Rightarrow> prepared_http_data result" where
  "build_graphql_request lib rd graphql ctx command_key =
     and_then (render_http_primitives lib rd (gql_url graphql) (gql_path graphql) (gql_query graphql)
                 (gql_headers graphql) (gql_cookies graphql) ctx command_key) (\<lambda>(url, query, headers, cookies).
     (let headers = ensure_header_default ''Content-Type'' ''application/json''
                      (ensure_header_default ''Accept'' ''application/json'' headers)
      in and_then (render_graphql_body rd (gql_graphql graphql) ctx) (\<lambda>body.
         and_then (parse_http_method lib (gql_method graphql) (Some ''POST'')) (\<lambda>meth.
         Inr \<lparr>ph_method = meth, ph_url = url, ph_query = query, ph_headers = headers,
              ph_cookies = cookies, ph_body = JsonBody body\<rparr>))))"

section \<open>gRPC\<close>

definition build_grpc_request ::
    "builder_libs \<Rightarrow> renderer \<Rightarrow> grpc_operation \<Rightarrow> json \<Rightarrow> string \<Rightarrow> prepared_grpc_data result" where
  "build_grpc_request lib rd grpc_op ctx command_key =
     (let grpc = grpc_grpc grpc_op in
      and_then (rd_render_str rd (grpc_url grpc_op) ctx) (\<lambda>url_text.
      and_then (parse_operation_url lib command_key url_text) (\<lambda>url.
      and_then (render_key_value_map (bl_json_text lib) rd (grpc_headers grpc_op) ctx) (\<lambda>headers.
      and_then (rd_render_str rd (grpc_service grpc) ctx) (\<lambda>service.
      if trim service = [] then bail ''operation.grpc.service rendered empty''
      else and_then (rd_render_str rd (grpc_method grpc) ctx) (\<lambda>meth.
      if trim meth = [] then bail ''operation.grpc.method rendered empty''
      else and_then (transpose_map (\<lambda>path. rd_render_str rd path ctx) (grpc_descriptor_set_file grpc)) (\<lambda>rendered.
      and_then (transpose_map (\<lambda>rendered_path.
                  with_context (''failed reading operation.grpc.descriptor_set_file `'' @ rendered_path
                      @ ''` for command '' @ command_key)
                    (library (bl_read_file lib rendered_path))) rendered) (\<lambda>descriptor_set.
      and_then (case grpc_body grpc of Some body \<Rightarrow> rd_render_value rd body ctx | None \<Rightarrow> Inr (JObject [])) (\<lambda>body.
      Inr \<lparr>pg_url = url, pg_headers = headers, pg_body = JsonBody body, pg_service = trim service,
           pg_method = trim meth, pg_descriptor_set = descriptor_set\<rparr>)))))))))"

section \<open>Bash\<close>

record global_bash_limits =
  gl_allow_network :: bool
  gl_max_time_ms :: "u64 option"
  gl_max_output_bytes :: "u64 option"
  gl_max_memory_bytes :: "u64 option"
  gl_max_cpu_time_ms :: "u64 option"

fun most_restrictive_option :: "u64 option \<Rightarrow> u64 option \<Rightarrow> u64 option" where
  "most_restrictive_option (Some a) (Some b) = Some (min a b)"
| "most_restrictive_option (Some a) None = Some a"
| "most_restrictive_option None (Some b) = Some b"
| "most_restrictive_option None None = None"

definition build_bash_request ::
    "builder_libs \<Rightarrow> renderer \<Rightarrow> bash_operation \<Rightarrow> json \<Rightarrow> global_bash_limits \<Rightarrow> prepared_bash_script result" where
  "build_bash_request lib rd bash_op ctx global_limits =
     and_then (rd_render_str rd (bash_script_src (bash_bash bash_op)) ctx) (\<lambda>script.
     if trim script = [] then bail ''operation.bash.script rendered empty''
     else
     and_then (render_key_value_map (bl_json_text lib) rd (bash_env (bash_bash bash_op)) ctx) (\<lambda>env.
     and_then (transpose_map (\<lambda>value. rd_render_str rd value ctx) (bash_cwd (bash_bash bash_op))) (\<lambda>cwd.
     (let template_sandbox = bash_sandbox (bash_bash bash_op)
      in Inr \<lparr>pb_script = script, pb_env = env,
              pb_cwd = (case cwd of Some value \<Rightarrow> if trim value \<noteq> [] then Some value else None | None \<Rightarrow> None),
              pb_stdin = None,
              pb_sandbox =
                \<lparr>rb_network = unwrap_or (Option.bind template_sandbox bs_network) False
                              \<and> gl_allow_network global_limits,
                 rb_writable_paths = unwrap_or (Option.bind template_sandbox bs_writable_paths) [],
                 rb_max_time_ms = most_restrictive_option
                   (Option.bind template_sandbox bs_max_time_ms) (gl_max_time_ms global_limits),
                 rb_max_output_bytes = most_restrictive_option
                   (Option.bind template_sandbox bs_max_output_bytes) (gl_max_output_bytes global_limits),
                 rb_max_memory_bytes = most_restrictive_option
                   (Option.bind template_sandbox bs_max_memory_bytes) (gl_max_memory_bytes global_limits),
                 rb_max_cpu_time_ms = most_restrictive_option
                   (Option.bind template_sandbox bs_max_cpu_time_ms) (gl_max_cpu_time_ms global_limits)\<rparr>\<rparr>))))"

section \<open>SQL\<close>

definition build_sql_request ::
    "renderer \<Rightarrow> sql_operation \<Rightarrow> json \<Rightarrow> string \<Rightarrow> prepared_sql_query result" where
  "build_sql_request rd sql_op ctx connection_url =
     and_then (rd_render_str rd (sql_query_src (sql_sql sql_op)) ctx) (\<lambda>query.
     if trim query = [] then bail ''operation.sql.query rendered empty''
     else
     and_then
       (case sql_params (sql_sql sql_op) of
          Some param_templates \<Rightarrow> try_map (\<lambda>p. rd_render_value rd p ctx) param_templates
        | None \<Rightarrow> Inr []) (\<lambda>params.
     Inr \<lparr>ps_connection_url = connection_url, ps_query = query, ps_params = params,
          ps_read_only = unwrap_or (Option.bind (sql_sandbox (sql_sql sql_op)) ss_read_only) True,
          ps_max_rows = unwrap_or (Option.bind (sql_sandbox (sql_sql sql_op)) ss_max_rows) 1000\<rparr>))"

section \<open>Browser\<close>

definition default_session_id :: string where
  "default_session_id = ''default''"

text \<open>\<open>render_strings_in_value\<close> rewrites the value in place; here it returns the new value.\<close>

fun render_strings_in_value :: "renderer \<Rightarrow> json \<Rightarrow> json \<Rightarrow> json result"
  and render_strings_in_list :: "renderer \<Rightarrow> json \<Rightarrow> json list \<Rightarrow> json list result"
  and render_strings_in_fields :: "renderer \<Rightarrow> json \<Rightarrow> (string \<times> json) list \<Rightarrow> (string \<times> json) list result" where
  "render_strings_in_value r ctx (JString s) =
     and_then (rd_render_str r s ctx) (\<lambda>t. Inr (JString t))"
| "render_strings_in_value r ctx (JObject m) =
     and_then (render_strings_in_fields r ctx m) (\<lambda>n. Inr (JObject n))"
| "render_strings_in_value r ctx (JArray vs) =
     and_then (render_strings_in_list r ctx vs) (\<lambda>ws. Inr (JArray ws))"
| "render_strings_in_value r ctx v = Inr v"
| "render_strings_in_list r ctx [] = Inr []"
| "render_strings_in_list r ctx (v # vs) =
     and_then (render_strings_in_value r ctx v) (\<lambda>w.
     and_then (render_strings_in_list r ctx vs) (\<lambda>ws. Inr (w # ws)))"
| "render_strings_in_fields r ctx [] = Inr []"
| "render_strings_in_fields r ctx ((k, v) # m) =
     and_then (if k = ''action'' then Inr v else render_strings_in_value r ctx v) (\<lambda>w.
     and_then (render_strings_in_fields r ctx m) (\<lambda>n. Inr ((k, w) # n)))"

definition render_step :: "builder_libs \<Rightarrow> renderer \<Rightarrow> json \<Rightarrow> browser_step \<Rightarrow> browser_step result" where
  "render_step lib r ctx step =
     and_then (library (bl_step_to_value lib step)) (\<lambda>val.
     and_then (render_strings_in_value r ctx val) (\<lambda>val'.
     library (bl_step_from_value lib val')))"

definition build_browser_request ::
    "builder_libs \<Rightarrow> renderer \<Rightarrow> browser_operation \<Rightarrow> json \<Rightarrow> prepared_browser_command result" where
  "build_browser_request lib rd op ctx =
     (let tmpl = bo_browser op in
      if bt_steps tmpl = [] then bail ''operation.browser.steps must not be empty''
      else
      and_then
        (case bt_session_id tmpl of
           None \<Rightarrow> Inr (Some default_session_id)
         | Some s \<Rightarrow> and_then (rd_render_str rd s ctx) (\<lambda>rendered.
                      Inr (if rendered = [] then None else Some rendered))) (\<lambda>session_id.
      and_then (try_map (render_step lib rd ctx) (bt_steps tmpl)) (\<lambda>steps.
      Inr \<lparr>pc_session_id = session_id, pc_headless = bt_headless tmpl, pc_timeout_ms = bt_timeout_ms tmpl,
           pc_on_failure_screenshot = bt_on_failure_screenshot tmpl, pc_steps = steps\<rparr>)))"

section \<open>Limits\<close>

text \<open>A configured limit is there in the result, and the result is not above it.\<close>

definition within :: "u64 option \<Rightarrow> u64 option \<Rightarrow> bool" where
  "within limit actual \<longleftrightarrow>
     (case limit of None \<Rightarrow> True | Some l \<Rightarrow> (case actual of None \<Rightarrow> False | Some v \<Rightarrow> v \<le> l))"

lemma most_restrictive_within:
  "within a (most_restrictive_option a b)" "within b (most_restrictive_option a b)"
  by (cases a; cases b; simp add: within_def)+

lemma most_restrictive_exact:
  "most_restrictive_option a b = None \<or> most_restrictive_option a b = a \<or> most_restrictive_option a b = b"
  by (cases a; cases b; auto simp: min_def)

lemma build_bash_request_Inr:
  "build_bash_request lib rd op ctx gl = Inr p \<Longrightarrow>
     trim (pb_script p) \<noteq> [] \<and> pb_stdin p = None \<and>
     pb_sandbox p =
       (let s = bash_sandbox (bash_bash op) in
        \<lparr>rb_network = unwrap_or (Option.bind s bs_network) False \<and> gl_allow_network gl,
         rb_writable_paths = unwrap_or (Option.bind s bs_writable_paths) [],
         rb_max_time_ms = most_restrictive_option (Option.bind s bs_max_time_ms) (gl_max_time_ms gl),
         rb_max_output_bytes = most_restrictive_option (Option.bind s bs_max_output_bytes) (gl_max_output_bytes gl),
         rb_max_memory_bytes = most_restrictive_option (Option.bind s bs_max_memory_bytes) (gl_max_memory_bytes gl),
         rb_max_cpu_time_ms = most_restrictive_option (Option.bind s bs_max_cpu_time_ms) (gl_max_cpu_time_ms gl)\<rparr>)"
  by (auto simp: build_bash_request_def result_simps Let_def)

text \<open>
  The limits of a prepared script are within the template's limits and within the global ones,
  and it has network access only if the template asks for it and the configuration allows it.
\<close>

theorem bash_most_restrictive_wins:
  assumes "build_bash_request lib rd op ctx gl = Inr p"
  shows "let s = bash_sandbox (bash_bash op); r = pb_sandbox p in
      rb_network r = (Option.bind s bs_network = Some True \<and> gl_allow_network gl)
      \<and> within (Option.bind s bs_max_time_ms) (rb_max_time_ms r) \<and> within (gl_max_time_ms gl) (rb_max_time_ms r)
      \<and> within (Option.bind s bs_max_output_bytes) (rb_max_output_bytes r)
      \<and> within (gl_max_output_bytes gl) (rb_max_output_bytes r)
      \<and> within (Option.bind s bs_max_memory_bytes) (rb_max_memory_bytes r)
      \<and> within (gl_max_memory_bytes gl) (rb_max_memory_bytes r)
      \<and> within (Option.bind s bs_max_cpu_time_ms) (rb_max_cpu_time_ms r)
      \<and> within (gl_max_cpu_time_ms gl) (rb_max_cpu_time_ms r)"
proof -
  have "unwrap_or x False \<longleftrightarrow> x = Some True" for x by (cases x) auto
  with build_bash_request_Inr [OF assms] show ?thesis
    by (simp add: Let_def most_restrictive_within)
qed

definition echo_renderer :: renderer where
  "echo_renderer = \<lparr>rd_render_str = (\<lambda>s ctx. Inr s), rd_render_value = (\<lambda>v ctx. Inr v)\<rparr>"

definition sample_url :: "string \<Rightarrow> url" where
  "sample_url path =
     \<lparr>url_as_str = ''https://api.example.com'' @ path, url_scheme = ''https'',
      url_host_str = Some ''api.example.com'', url_port_or_known_default = Some 443, url_path = path\<rparr>"

definition sample_libs :: builder_libs where
  "sample_libs =
     \<lparr>bl_url_parse = (\<lambda>s. if s = ''https://api.example.com/'' then Inr (sample_url ''/'') else Inl ''bad''),
      bl_set_path = (\<lambda>path u. sample_url path), bl_parse_method = Inr, bl_base64_decode = Inr,
      bl_json_text = (\<lambda>v. ''?''), bl_read_file = (\<lambda>p. Inl ''no file''),
      bl_step_to_value = (\<lambda>s. Inr (JObject [(''action'', JString ''cookie_clear''), (''url'', JString ''/'')])),
      bl_step_from_value = (\<lambda>v. Inr (CookieClear False))\<rparr>"

theorem bash_most_restrictive_wins_witness:
  "\<exists>p. build_bash_request sample_libs echo_renderer
         \<lparr>bash_bash = \<lparr>bash_script_src = ''ls'', bash_env = None, bash_cwd = None,
            bash_sandbox = Some \<lparr>bs_network = Some True, bs_writable_paths = None, bs_max_time_ms = Some 900,
              bs_max_output_bytes = None, bs_max_memory_bytes = None, bs_max_cpu_time_ms = None\<rparr>\<rparr>,
          bash_stream = False, bash_transport = None\<rparr> JNull
         \<lparr>gl_allow_network = False, gl_max_time_ms = Some 500, gl_max_output_bytes = Some 64,
          gl_max_memory_bytes = None, gl_max_cpu_time_ms = None\<rparr> = Inr p
       \<and> \<not> rb_network (pb_sandbox p) \<and> within (Some 900) (rb_max_time_ms (pb_sandbox p))
       \<and> within (Some 500) (rb_max_time_ms (pb_sandbox p))"
proof -
  let ?op = "\<lparr>bash_bash = \<lparr>bash_script_src = ''ls'', bash_env = None, bash_cwd = None,
            bash_sandbox = Some \<lparr>bs_network = Some True, bs_writable_paths = None, bs_max_time_ms = Some 900,
              bs_max_output_bytes = None, bs_max_memory_bytes = None, bs_max_cpu_time_ms = None\<rparr>\<rparr>,
          bash_stream = False, bash_transport = None\<rparr>"
  let ?gl = "\<lparr>gl_allow_network = False, gl_max_time_ms = Some 500, gl_max_output_bytes = Some 64,
          gl_max_memory_bytes = None, gl_max_cpu_time_ms = None\<rparr>"
  have "trim ''ls'' \<noteq> []" by code_simp
  then obtain p where p: "build_bash_request sample_libs echo_renderer ?op JNull ?gl = Inr p"
    by (auto simp: build_bash_request_def echo_renderer_def render_key_value_map_def transpose_map_def Let_def)
  from bash_most_restrictive_wins [OF p] p show ?thesis
    by (intro exI [of _ p]) (simp add: Let_def)
qed

section \<open>GraphQL headers\<close>

definition has_header :: "string \<Rightarrow> (string \<times> string) list \<Rightarrow> bool" where
  "has_header name headers \<longleftrightarrow> list_ex (\<lambda>(k, v). eq_ignore_ascii_case k name) headers"

lemma ensure_header_default_has: "has_header name (ensure_header_default name value headers)"
  by (auto simp: has_header_def ensure_header_default_def eq_ignore_ascii_case_def)

lemma ensure_header_default_keeps:
  "has_header n headers \<Longrightarrow> has_header n (ensure_header_default name value headers)"
  by (auto simp: has_header_def ensure_header_default_def)

lemma ensure_header_default_prefix: "prefix headers (ensure_header_default name value headers)"
  by (simp add: ensure_header_default_def)

text \<open>
  A GraphQL request has an Accept and a Content-Type header, keeps the headers the template
  renders in front, and adds a default only when the template names no such header in any case.
\<close>

theorem graphql_request_headers:
  assumes "build_graphql_request lib rd op ctx key = Inr p"
    and "render_key_value_map (bl_json_text lib) rd (gql_headers op) ctx = Inr headers"
  shows "has_header ''Accept'' (ph_headers p) \<and> has_header ''Content-Type'' (ph_headers p)
     \<and> prefix headers (ph_headers p)
     \<and> (has_header ''Accept'' headers \<and> has_header ''Content-Type'' headers \<longrightarrow> ph_headers p = headers)
     \<and> (\<exists>v. ph_body p = JsonBody v)"
proof -
  from assms have "ph_headers p = ensure_header_default ''Content-Type'' ''application/json''
        (ensure_header_default ''Accept'' ''application/json'' headers) \<and> (\<exists>v. ph_body p = JsonBody v)"
    by (auto simp: build_graphql_request_def render_http_primitives_def and_then_Inr Let_def)
  moreover have "ensure_header_default n v headers = headers" if "has_header n headers" for n v
    using that by (simp add: ensure_header_default_def has_header_def)
  moreover have "prefix headers (ensure_header_default n v (ensure_header_default n' v' headers))" for n v n' v'
    by (rule prefix_order.order_trans [OF ensure_header_default_prefix ensure_header_default_prefix])
  ultimately show ?thesis
    by (simp add: ensure_header_default_has ensure_header_default_keeps)
qed

theorem graphql_request_headers_witness:
  "\<exists>p. build_graphql_request sample_libs echo_renderer
         \<lparr>gql_method = [], gql_url = ''https://api.example.com/'', gql_path = Some ''graphql'', gql_query = None,
          gql_headers = Some [(''accept'', JString ''text/plain'')], gql_cookies = None, gql_auth = None,
          gql_graphql = \<lparr>gt_query = ''{me{id}}'', gt_operation_name = None, gt_variables = None\<rparr>,
          gql_stream = False, gql_transport = None\<rparr> JNull ''api.me'' = Inr p
       \<and> ph_headers p = [(''accept'', ''text/plain''), (''Content-Type'', ''application/json'')]
       \<and> has_header ''Content-Type'' (ph_headers p)"
proof -
  let ?op = "\<lparr>gql_method = [], gql_url = ''https://api.example.com/'', gql_path = Some ''graphql'', gql_query = None,
          gql_headers = Some [(''accept'', JString ''text/plain'')], gql_cookies = None, gql_auth = None,
          gql_graphql = \<lparr>gt_query = ''{me{id}}'', gt_operation_name = None, gt_variables = None\<rparr>,
          gql_stream = False, gql_transport = None\<rparr>"
  have headers: "render_key_value_map (bl_json_text sample_libs) echo_renderer (gql_headers ?op) JNull
      = Inr [(''accept'', ''text/plain'')]"
    by code_simp
  have "is_ok (build_graphql_request sample_libs echo_renderer ?op JNull ''api.me'')" by code_simp
  then obtain p where p: "build_graphql_request sample_libs echo_renderer ?op JNull ''api.me'' = Inr p"
    by (auto simp: is_ok_iff)
  have "map_err (\<lambda>e. ()) (and_then (build_graphql_request sample_libs echo_renderer ?op JNull ''api.me'') (\<lambda>p. Inr (ph_headers p)))
      = Inr [(''accept'', ''text/plain''), (''Content-Type'', ''application/json'')]"
    by code_simp
  with p have "ph_headers p = [(''accept'', ''text/plain''), (''Content-Type'', ''application/json'')]" by simp
  with p graphql_request_headers [OF p headers] show ?thesis by blast
qed

section \<open>Browser steps\<close>

lemma render_strings_in_fields_keys:
  "render_strings_in_fields r ctx m = Inr n \<Longrightarrow>
     bt_keys n = bt_keys m \<and> bt_get n ''action'' = bt_get m ''action''"
  by (induction m arbitrary: n) (auto simp: and_then_Inr split: if_splits)

lemma render_strings_in_value_action:
  "render_strings_in_value r ctx v = Inr w \<Longrightarrow> is_object v \<Longrightarrow>
     is_object w \<and> json_get w ''action'' = json_get v ''action''"
  by (cases v) (auto simp: and_then_Inr dest: render_strings_in_fields_keys)

text \<open>
  Every step of a prepared browser command is read back from a rendered form of the template's
  step, in order, and rendering never changes the tag that says which action the step is, whatever
  the arguments are.
\<close>

theorem browser_steps_keep_action:
  assumes "build_browser_request lib rd op ctx = Inr p"
    and "\<forall>step v. bl_step_to_value lib step = Inr v \<longrightarrow> is_object v"
  shows "pc_steps p \<noteq> []
     \<and> list_all2 (\<lambda>step out. \<exists>v w. bl_step_to_value lib step = Inr v \<and> bl_step_from_value lib w = Inr out
          \<and> json_get w ''action'' = json_get v ''action'') (bt_steps (bo_browser op)) (pc_steps p)"
proof -
  from assms(1) have ne: "bt_steps (bo_browser op) \<noteq> []"
    and all: "list_all2 (\<lambda>step out. render_step lib rd ctx step = Inr out) (bt_steps (bo_browser op)) (pc_steps p)"
    by (auto simp: build_browser_request_def Let_def result_simps)
  have "\<exists>v w. bl_step_to_value lib step = Inr v \<and> bl_step_from_value lib w = Inr out
          \<and> json_get w ''action'' = json_get v ''action''"
    if "render_step lib rd ctx step = Inr out" for step out
  proof -
    from that obtain v w where v: "bl_step_to_value lib step = Inr v"
      and w: "render_strings_in_value rd ctx v = Inr w" and out: "bl_step_from_value lib w = Inr out"
      by (auto simp: render_step_def result_simps)
    from assms(2) v have "is_object v" by blast
    from render_strings_in_value_action [OF w this] v out show ?thesis by blast
  qed
  with all have "list_all2 (\<lambda>step out. \<exists>v w. bl_step_to_value lib step = Inr v \<and> bl_step_from_value lib w = Inr out
          \<and> json_get w ''action'' = json_get v ''action'') (bt_steps (bo_browser op)) (pc_steps p)"
    by (rule list_all2_mono)
  with ne show ?thesis by auto
qed

theorem browser_steps_keep_action_witness:
  "\<exists>p. build_browser_request sample_libs echo_renderer
        \<lparr>bo_browser = \<lparr>bt_session_id = Some [], bt_headless = True, bt_timeout_ms = 30000,
           bt_on_failure_screenshot = True, bt_steps = [CookieClear False]\<rparr>\<rparr> JNull = Inr p
      \<and> pc_session_id p = None \<and> pc_steps p \<noteq> []"
proof -
  let ?op = "\<lparr>bo_browser = \<lparr>bt_session_id = Some [], bt_headless = True, bt_timeout_ms = 30000,
           bt_on_failure_screenshot = True, bt_steps = [CookieClear False]\<rparr>\<rparr>"
  obtain p where p: "build_browser_request sample_libs echo_renderer ?op JNull = Inr p" "pc_session_id p = None"
    by (simp add: build_browser_request_def Let_def render_step_def sample_libs_def library_def echo_renderer_def)
  have "\<forall>step v. bl_step_to_value sample_libs step = Inr v \<longrightarrow> is_object v"
    by (auto simp: sample_libs_def)
  from browser_steps_keep_action [OF p(1) this] p show ?thesis by blast
qed

end
