(* ===== verification/Prepare.thy ===== *)
theory Prepare
  imports Builders Transport Redact Secrets Catalog
begin

text \<open>
  \<open>src/protocol/builder.rs\<close>: from a catalog entry and its bound arguments to a prepared request.
  Secrets are fetched in declaration order, each value is remembered for the redactor, the
  variables of the active environment are rendered over the secrets, the protocol's builder runs,
  authentication is added, and the global sandbox caps are applied. The state is what external
  resolvers and the OAuth token provider leave behind.
\<close>

section \<open>Prepared requests\<close>

datatype prepared_protocol_data =
    PHttp prepared_http_data
  | PGraphql prepared_http_data
  | PGrpc prepared_grpc_data
  | PBash prepared_bash_script
  | PSql prepared_sql_query
  | PBrowser prepared_browser_command

record prepared_request =
  rq_key :: string
  rq_mode :: command_mode
  rq_stream :: bool
  rq_allow_rules :: "allow_rule list"
  rq_allow_private_ips :: bool
  rq_transport :: resolved_transport
  rq_result_template :: result_template
  rq_args :: json_map
  rq_redactor :: redactor
  rq_data :: prepared_protocol_data

text \<open>What the builder is given: the secret manager, the token provider, the configuration.\<close>

record ('st, 'w, 'o, 'e, 'v) provision =
  pv_lower :: "string \<Rightarrow> string"
  pv_store :: "'st secret_store_ops"
  pv_secrets :: 'st
  pv_resolvers :: "'w secret_resolver list"
  pv_token :: "string \<Rightarrow> ('o, string) action"
  pv_engine :: "('e, 'v) minijinja"
  pv_libs :: builder_libs
  pv_encoders :: encoders
  pv_allow_rules :: "allow_rule list"
  pv_proxy_profiles :: "(string, proxy_profile) btree"
  pv_sandbox :: sandbox_config
  pv_allow_private_ips :: bool

type_synonym ('w, 'o) prep_state = "('w \<times> nat list) \<times> 'o"

definition fetch_secret :: "('st, 'w, 'o, 'e, 'v) provision \<Rightarrow> string \<Rightarrow> (('w, 'o) prep_state, string) action" where
  "fetch_secret pv key = (\<lambda>(ws, os).
     (case require_secret (pv_lower pv) (pv_store pv) (pv_resolvers pv) key (pv_secrets pv) ws of
        (r, ws') \<Rightarrow> (r, (ws', os))))"

definition fetch_token :: "('st, 'w, 'o, 'e, 'v) provision \<Rightarrow> string \<Rightarrow> (('w, 'o) prep_state, string) action" where
  "fetch_token pv profile = (\<lambda>(ws, os). (case pv_token pv profile os of (r, os') \<Rightarrow> (r, (ws, os'))))"

section \<open>Helpers\<close>

fun insert_parts :: "string list \<Rightarrow> json \<Rightarrow> json_map \<Rightarrow> json_map" where
  "insert_parts [] value root = root"
| "insert_parts [part] value root = bt_insert part value root"
| "insert_parts (part # parts) value root =
     bt_insert part
       (JObject (insert_parts parts value
          (case bt_get root part of Some (JObject child) \<Rightarrow> child | _ \<Rightarrow> []))) root"

definition dotted_parts :: "string \<Rightarrow> string list" where
  "dotted_parts dotted_key = filter (\<lambda>p. p \<noteq> []) (split_char (CHR ''.'') dotted_key)"

definition insert_dotted_key :: "string \<Rightarrow> json \<Rightarrow> json_map \<Rightarrow> json_map" where
  "insert_dotted_key dotted_key value root = insert_parts (dotted_parts dotted_key) value root"

definition render_var ::
    "('e, 'v) minijinja \<Rightarrow> string \<Rightarrow> json \<Rightarrow> string \<times> string \<Rightarrow> json_map \<times> string list \<Rightarrow>
     (json_map \<times> string list) result" where
  "render_var mj name render_ctx = (\<lambda>(key, template_str) (resolved, secret_values).
     and_then (with_context (''failed rendering vars.'' @ key @ '' for environment `'' @ name @ ''`'')
                (render_string_raw mj template_str render_ctx)) (\<lambda>rendered.
     Inr (bt_insert key (JString rendered) resolved, secret_values @ [rendered])))"

definition resolve_vars ::
    "('e, 'v) minijinja \<Rightarrow> provider_environments option \<Rightarrow> string option \<Rightarrow> json \<Rightarrow> string list \<Rightarrow>
     (json_map \<times> string list) result" where
  "resolve_vars mj provider_envs env_name secrets_context secret_values =
     (case provider_envs of
        None \<Rightarrow> Inr ([], secret_values)
      | Some envs \<Rightarrow>
     (case env_name of
        None \<Rightarrow> Inr ([], secret_values)
      | Some name \<Rightarrow>
     (case bt_get (pe_environments envs) name of
        None \<Rightarrow> bail (''environment `'' @ name @ ''` is not defined; available: ''
                       @ str_join '', '' (bt_keys (pe_environments envs)))
      | Some env_vars \<Rightarrow>
          try_fold (render_var mj name (jobj [(''secrets'', secrets_context)])) env_vars ([], secret_values))))"

section \<open>Authentication\<close>

record auth_outputs =
  ao_headers :: "(string \<times> string) list"
  ao_query :: "(string \<times> string) list"
  ao_cookies :: "(string \<times> string) list"
  ao_secret_values :: "string list"

definition push_secret :: "string \<Rightarrow> auth_outputs \<Rightarrow> auth_outputs" where
  "push_secret v out = out\<lparr>ao_secret_values := ao_secret_values out @ [v]\<rparr>"

definition push_header :: "string \<Rightarrow> string \<Rightarrow> auth_outputs \<Rightarrow> auth_outputs" where
  "push_header name v out = out\<lparr>ao_headers := ao_headers out @ [(name, v)]\<rparr>"

fun apply_auth_inner ::
    "('st, 'w, 'o, 'e, 'v) provision \<Rightarrow> auth_template \<Rightarrow> json \<Rightarrow> auth_outputs \<Rightarrow>
     (('w, 'o) prep_state, auth_outputs) action" where
  "apply_auth_inner pv AuthNone ctx out = act_return out"
| "apply_auth_inner pv (AuthApiKey location name secret) ctx out =
     act_bind (fetch_secret pv secret) (\<lambda>v.
       let out = push_secret v out
       in act_return (case location of
            KeyHeader \<Rightarrow> push_header name v out
          | KeyQuery \<Rightarrow> out\<lparr>ao_query := ao_query out @ [(name, v)]\<rparr>
          | KeyCookie \<Rightarrow> out\<lparr>ao_cookies := ao_cookies out @ [(name, v)]\<rparr>))"
| "apply_auth_inner pv (AuthBearer secret) ctx out =
     act_bind (fetch_secret pv secret) (\<lambda>token.
       act_return (push_header ''Authorization'' (''Bearer '' @ token) (push_secret token out)))"
| "apply_auth_inner pv (AuthBasic username password_secret) ctx out =
     act_bind (act_lift (render_string_raw (pv_engine pv) username ctx)) (\<lambda>user.
     act_bind (fetch_secret pv password_secret) (\<lambda>password.
       act_return (push_header ''Authorization''
         (''Basic '' @ base64_standard (pv_encoders pv) (user @ '':'' @ password)) (push_secret password out))))"
| "apply_auth_inner pv (AuthOAuth2Profile profile) ctx out =
     act_bind (fetch_token pv profile) (\<lambda>token.
       act_return (push_header ''Authorization'' (''Bearer '' @ token) (push_secret token out)))"

definition apply_auth ::
    "('st, 'w, 'o, 'e, 'v) provision \<Rightarrow> auth_template option \<Rightarrow> json \<Rightarrow> auth_outputs \<Rightarrow>
     (('w, 'o) prep_state, auth_outputs) action" where
  "apply_auth pv auth ctx out =
     (case auth of None \<Rightarrow> act_return out | Some a \<Rightarrow> apply_auth_inner pv a ctx out)"

section \<open>Building a request\<close>

text \<open>The two loops over secret keys: each value enters the context and the list for the redactor.\<close>

fun load_secrets ::
    "('st, 'w, 'o, 'e, 'v) provision \<Rightarrow> string list \<Rightarrow> json_map \<times> string list \<Rightarrow>
     (('w, 'o) prep_state, json_map \<times> string list) action" where
  "load_secrets pv [] acc = act_return acc"
| "load_secrets pv (key # keys) (secrets_context, secret_values) =
     act_bind (fetch_secret pv key) (\<lambda>secret.
       load_secrets pv keys
         (insert_dotted_key key (JString secret) secrets_context, secret_values @ [secret]))"

text \<open>The keys of both loops, in order; environment secrets already declared are skipped.\<close>

definition declared_keys :: "catalog_entry \<Rightarrow> string list" where
  "declared_keys entry =
     ann_secrets (ct_annotations (te_template entry)) @
     (case te_provider_environments entry of
        None \<Rightarrow> []
      | Some envs \<Rightarrow>
          filter (\<lambda>k. k \<notin> set (ann_secrets (ct_annotations (te_template entry)))) (pe_secrets envs))"

definition global_limits_of :: "sandbox_config \<Rightarrow> global_bash_limits" where
  "global_limits_of sb =
     \<lparr>gl_allow_network = sb_bash_allow_network sb, gl_max_time_ms = sb_bash_max_time_ms sb,
      gl_max_output_bytes = sb_bash_max_output_bytes sb, gl_max_memory_bytes = sb_bash_max_memory_bytes sb,
      gl_max_cpu_time_ms = sb_bash_max_cpu_time_ms sb\<rparr>"

definition cap_sql :: "sandbox_config \<Rightarrow> prepared_sql_query \<Rightarrow> prepared_sql_query" where
  "cap_sql sb query =
     (let query = (if sb_sql_force_read_only sb then query\<lparr>ps_read_only := True\<rparr> else query)
      in case sb_sql_max_rows sb of
           Some global \<Rightarrow> query\<lparr>ps_max_rows := min (ps_max_rows query) global\<rparr>
         | None \<Rightarrow> query)"

text \<open>The match on the operation: the protocol data, the allow rules that apply, all secret values.\<close>

fun build_protocol_data ::
    "('st, 'w, 'o, 'e, 'v) provision \<Rightarrow> string \<Rightarrow> operation_template \<Rightarrow> json \<Rightarrow> string list \<Rightarrow>
     (('w, 'o) prep_state, prepared_protocol_data \<times> allow_rule list \<times> string list) action" where
  "build_protocol_data pv key (OpHttp http) ctx secret_values =
     act_bind (act_lift (build_http_request (pv_libs pv) (jinja_renderer (pv_engine pv)) http ctx key)) (\<lambda>data.
     act_bind (apply_auth pv (http_auth http) ctx
         \<lparr>ao_headers = ph_headers data, ao_query = ph_query data, ao_cookies = ph_cookies data,
          ao_secret_values = secret_values\<rparr>) (\<lambda>out.
     act_return (PHttp (data\<lparr>ph_headers := ao_headers out, ph_query := ao_query out, ph_cookies := ao_cookies out\<rparr>),
       pv_allow_rules pv, ao_secret_values out)))"
| "build_protocol_data pv key (OpGraphql graphql) ctx secret_values =
     act_bind (act_lift (build_graphql_request (pv_libs pv) (jinja_renderer (pv_engine pv)) graphql ctx key)) (\<lambda>data.
     act_bind (apply_auth pv (gql_auth graphql) ctx
         \<lparr>ao_headers = ph_headers data, ao_query = ph_query data, ao_cookies = ph_cookies data,
          ao_secret_values = secret_values\<rparr>) (\<lambda>out.
     act_return (PGraphql (data\<lparr>ph_headers := ao_headers out, ph_query := ao_query out, ph_cookies := ao_cookies out\<rparr>),
       pv_allow_rules pv, ao_secret_values out)))"
| "build_protocol_data pv key (OpGrpc grpc) ctx secret_values =
     act_bind (act_lift (build_grpc_request (pv_libs pv) (jinja_renderer (pv_engine pv)) grpc ctx key)) (\<lambda>data.
     act_bind (apply_auth pv (grpc_auth grpc) ctx
         \<lparr>ao_headers = pg_headers data, ao_query = [], ao_cookies = [], ao_secret_values = secret_values\<rparr>) (\<lambda>out.
     if ao_query out \<noteq> [] \<or> ao_cookies out \<noteq> []
     then act_lift (bail (''template `'' @ key
            @ ''` gRPC auth must use header-based credentials (query/cookie auth is unsupported)''))
     else act_return (PGrpc (data\<lparr>pg_headers := ao_headers out\<rparr>), pv_allow_rules pv, ao_secret_values out)))"
| "build_protocol_data pv key (OpBash bash) ctx secret_values =
     act_bind (act_lift (build_bash_request (pv_libs pv) (jinja_renderer (pv_engine pv)) bash ctx
                           (global_limits_of (pv_sandbox pv)))) (\<lambda>data.
     act_return (PBash data, [], secret_values))"
| "build_protocol_data pv key (OpSql sql) ctx secret_values =
     (let connection_secret_key = sql_connection_secret (sql_sql sql)
      in if sb_sql_connection_allowlist (pv_sandbox pv) \<noteq> []
            \<and> \<not> list_ex (\<lambda>s. s = connection_secret_key) (sb_sql_connection_allowlist (pv_sandbox pv))
         then act_lift (bail (''template `'' @ key @ ''` sql connection_secret `'' @ connection_secret_key
                @ ''` is not in sandbox.sql_connection_allowlist''))
         else
         act_bind (fetch_secret pv connection_secret_key) (\<lambda>connection_url.
         act_bind (act_lift (build_sql_request (jinja_renderer (pv_engine pv)) sql ctx connection_url)) (\<lambda>data.
         act_return (PSql (cap_sql (pv_sandbox pv) data), [], secret_values @ [connection_url]))))"
| "build_protocol_data pv key (OpBrowser browser) ctx secret_values =
     act_bind (act_lift (build_browser_request (pv_libs pv) (jinja_renderer (pv_engine pv)) browser ctx)) (\<lambda>data.
     act_return (PBrowser data, [], secret_values))"

definition finish_request ::
    "('st, 'w, 'o, 'e, 'v) provision \<Rightarrow> catalog_entry \<Rightarrow> json_map \<Rightarrow> operation_template \<times> result_template \<Rightarrow>
     resolved_transport \<Rightarrow> prepared_protocol_data \<times> allow_rule list \<times> string list \<Rightarrow> prepared_request" where
  "finish_request pv entry args selected transport built =
     \<lparr>rq_key = te_key entry, rq_mode = te_mode entry, rq_stream = op_is_streaming (fst selected),
      rq_allow_rules = fst (snd built), rq_allow_private_ips = pv_allow_private_ips pv,
      rq_transport = transport, rq_result_template = snd selected, rq_args = args,
      rq_redactor = redactor_new (pv_encoders pv) (snd (snd built)), rq_data = fst built\<rparr>"

definition render_context :: "json_map \<Rightarrow> json_map \<Rightarrow> json_map \<Rightarrow> json" where
  "render_context args secrets_context vars_context =
     jobj [(''args'', JObject args), (''secrets'', JObject secrets_context), (''vars'', JObject vars_context)]"

definition prepare_operation ::
    "('st, 'w, 'o, 'e, 'v) provision \<Rightarrow> catalog_entry \<Rightarrow> json_map \<Rightarrow> string option \<Rightarrow> json_map \<Rightarrow>
     json_map \<Rightarrow> string list \<Rightarrow> (('w, 'o) prep_state, prepared_request) action" where
  "prepare_operation pv entry args active_env secrets_context vars_context secret_values =
     (let selected = select_for_env (te_template entry) active_env
      in act_bind (act_lift (resolve_transport (op_transport (fst selected)) (pv_proxy_profiles pv))) (\<lambda>transport.
         act_bind (build_protocol_data pv (te_key entry) (fst selected)
                     (render_context args secrets_context vars_context) secret_values) (\<lambda>built.
         act_return (finish_request pv entry args selected transport built))))"

definition build_prepared_request ::
    "('st, 'w, 'o, 'e, 'v) provision \<Rightarrow> catalog_entry \<Rightarrow> json_map \<Rightarrow> string option \<Rightarrow>
     (('w, 'o) prep_state, prepared_request) action" where
  "build_prepared_request pv entry args active_env =
     act_bind (load_secrets pv (declared_keys entry) ([], [])) (\<lambda>(secrets_context, secret_values).
     act_bind (act_lift (resolve_vars (pv_engine pv) (te_provider_environments entry) active_env
                           (JObject secrets_context) secret_values)) (\<lambda>(vars_context, secret_values).
     prepare_operation pv entry args active_env secrets_context vars_context secret_values))"

section \<open>Secrets along a dotted path\<close>

fun at_parts :: "string list \<Rightarrow> json_map \<Rightarrow> json option" where
  "at_parts [] root = None"
| "at_parts [part] root = bt_get root part"
| "at_parts (part # parts) root =
     (case bt_get root part of Some (JObject child) \<Rightarrow> at_parts parts child | _ \<Rightarrow> None)"

lemma at_parts_Cons:
  "ps \<noteq> [] \<Longrightarrow> at_parts (p # ps) root =
     (case bt_get root p of Some (JObject child) \<Rightarrow> at_parts ps child | _ \<Rightarrow> None)"
  by (cases ps) auto

lemma at_parts_empty: "at_parts ps [] = None"
  by (cases ps rule: list.exhaust) (auto simp: neq_Nil_conv at_parts_Cons, case_tac x22, auto)

lemma insert_parts_Cons:
  "ps \<noteq> [] \<Longrightarrow> insert_parts (p # ps) value root =
     bt_insert p (JObject (insert_parts ps value
        (case bt_get root p of Some (JObject child) \<Rightarrow> child | _ \<Rightarrow> []))) root"
  by (cases ps) auto

lemma at_insert_same: "ps \<noteq> [] \<Longrightarrow> at_parts ps (insert_parts ps value root) = Some value"
proof (induction ps arbitrary: root)
  case (Cons p ps)
  then show ?case by (cases "ps = []") (auto simp: insert_parts_Cons at_parts_Cons)
qed simp

lemma at_insert_other:
  "\<not> prefix ps qs \<Longrightarrow> \<not> prefix qs ps \<Longrightarrow> at_parts qs (insert_parts ps value root) = at_parts qs root"
proof (induction ps arbitrary: qs root)
  case (Cons p ps)
  then obtain q qs' where qs: "qs = q # qs'" by (cases qs) auto
  show ?case
  proof (cases "q = p")
    case True
    with Cons.prems qs have ne: "ps \<noteq> []" "qs' \<noteq> []" and rest: "\<not> prefix ps qs'" "\<not> prefix qs' ps"
      by auto
    show ?thesis
      using Cons.IH [OF rest] ne qs True
      by (auto simp: insert_parts_Cons at_parts_Cons at_parts_empty split: option.splits json.splits)
  next
    case False
    with qs show ?thesis
      by (cases "ps = []"; cases "qs' = []") (auto simp: insert_parts_Cons at_parts_Cons)
  qed
qed simp

section \<open>What the secret store supplies\<close>

text \<open>The value of a key of the store; keys of external resolvers have none here.\<close>

definition store_value :: "('st, 'w, 'o, 'e, 'v) provision \<Rightarrow> string \<Rightarrow> string option" where
  "store_value pv key =
     (case split_once ''://'' key of
        Some _ \<Rightarrow> None
      | None \<Rightarrow> (case get_secret (pv_store pv) key (pv_secrets pv) of Inr v \<Rightarrow> v | Inl _ \<Rightarrow> None))"

lemma fetch_secret_store:
  assumes "fetch_secret pv key s = (Inr v, s')" and "store_value pv key = Some secret"
  shows "v = secret"
proof -
  from assms(2) have "split_once ''://'' key = None" "get_secret (pv_store pv) key (pv_secrets pv) = Inr (Some secret)"
    by (auto simp: store_value_def split: option.splits sum.splits)
  with assms(1) show ?thesis
    by (auto simp: fetch_secret_def require_secret_def split: prod.splits)
qed

text \<open>A list of values has the secrets of a list of keys.\<close>

definition holds_secrets :: "('st, 'w, 'o, 'e, 'v) provision \<Rightarrow> string list \<Rightarrow> string list \<Rightarrow> bool" where
  "holds_secrets pv keys values \<longleftrightarrow>
     (\<forall>key \<in> set keys. \<forall>secret. store_value pv key = Some secret \<longrightarrow> secret \<in> set values)"

lemma holds_secrets_mono:
  "holds_secrets pv keys values \<Longrightarrow> set values \<subseteq> set values' \<Longrightarrow> holds_secrets pv keys values'"
  unfolding holds_secrets_def by blast

lemma load_secrets_spec:
  "load_secrets pv keys (ctx, vs) s = (Inr (ctx', vs'), s') \<Longrightarrow>
     \<exists>ws. vs' = vs @ ws \<and> length ws = length keys
        \<and> (\<forall>i < length keys. \<forall>x. store_value pv (keys ! i) = Some x \<longrightarrow> ws ! i = x)
        \<and> ctx' = fold (\<lambda>(k, w). insert_dotted_key k (JString w)) (zip keys ws) ctx"
proof (induction keys arbitrary: ctx vs s)
  case (Cons key keys)
  from Cons.prems obtain w s1 where w: "fetch_secret pv key s = (Inr w, s1)"
    and rest: "load_secrets pv keys (insert_dotted_key key (JString w) ctx, vs @ [w]) s1 = (Inr (ctx', vs'), s')"
    by (auto simp: act_bind_Inr)
  from Cons.IH [OF rest] obtain ws where "vs' = (vs @ [w]) @ ws" "length ws = length keys"
    "\<forall>i < length keys. \<forall>x. store_value pv (keys ! i) = Some x \<longrightarrow> ws ! i = x"
    "ctx' = fold (\<lambda>(k, w). insert_dotted_key k (JString w)) (zip keys ws) (insert_dotted_key key (JString w) ctx)"
    by blast
  then show ?case
    using fetch_secret_store [OF w]
    by (intro exI [of _ "w # ws"]) (auto simp: nth_Cons split: nat.splits)
qed simp

lemma load_secrets_holds:
  assumes "load_secrets pv keys (ctx, vs) s = (Inr (ctx', vs'), s')"
  shows "holds_secrets pv keys vs'"
proof -
  from load_secrets_spec [OF assms] obtain ws where ws: "vs' = vs @ ws" "length ws = length keys"
    "\<forall>i < length keys. \<forall>x. store_value pv (keys ! i) = Some x \<longrightarrow> ws ! i = x"
    by blast
  then show ?thesis
    by (fastforce simp: holds_secrets_def in_set_conv_nth [of _ keys] intro: nth_mem [of _ ws, simplified])
qed

text \<open>Every rendered variable is among the values for the redactor.\<close>

definition vars_tracked :: "json_map \<times> string list \<Rightarrow> bool" where
  "vars_tracked = (\<lambda>(vars, values). \<forall>v \<in> set (bt_values vars). \<exists>x \<in> set values. v = JString x)"

lemma render_var_keeps:
  assumes "render_var mj name ctx kt (vars, vs) = Inr (vars', vs')" and "vars_tracked (vars, vs)"
  shows "set vs \<subseteq> set vs' \<and> vars_tracked (vars', vs')"
proof -
  from assms(1) obtain key x where "vars' = bt_insert key (JString x) vars" "vs' = vs @ [x]"
    by (cases kt) (auto simp: render_var_def and_then_Inr)
  with assms(2) bt_values_insert_subset [of key "JString x" vars] show ?thesis
    unfolding vars_tracked_def by fastforce
qed

lemma render_vars_keep:
  "try_fold (render_var mj name c) env_vars (vars, vs) = Inr (vars', vs') \<Longrightarrow> vars_tracked (vars, vs) \<Longrightarrow>
     set vs \<subseteq> set vs' \<and> vars_tracked (vars', vs')"
proof (induction env_vars arbitrary: vars vs)
  case (Cons kt env_vars)
  from Cons.prems(1) obtain vars1 vs1 where one: "render_var mj name c kt (vars, vs) = Inr (vars1, vs1)"
    and rest: "try_fold (render_var mj name c) env_vars (vars1, vs1) = Inr (vars', vs')"
    by (auto simp: and_then_Inr)
  from render_var_keeps [OF one Cons.prems(2)] Cons.IH [OF rest] show ?case by blast
qed simp

lemma resolve_vars_keeps:
  assumes "resolve_vars mj envs env ctx vs = Inr (vars, vs')"
  shows "set vs \<subseteq> set vs' \<and> vars_tracked (vars, vs')"
proof -
  have empty: "vars_tracked ([], vs)" by (simp add: vars_tracked_def)
  show ?thesis
  proof (cases envs)
    case (Some e)
    show ?thesis
    proof (cases env)
      case (Some name)
      with assms \<open>envs = Some e\<close> obtain env_vars
        where "try_fold (render_var mj name (jobj [(''secrets'', ctx)])) env_vars ([], vs) = Inr (vars, vs')"
        by (cases "bt_get (pe_environments e) name") (simp_all add: resolve_vars_def bail_not_Inr)
      from render_vars_keep [OF this empty] show ?thesis .
    qed (use assms empty \<open>envs = Some e\<close> in \<open>simp add: resolve_vars_def\<close>)
  qed (use assms empty in \<open>simp add: resolve_vars_def\<close>)
qed

lemma fetch_holds: "fetch_secret pv key s = (Inr v, s') \<Longrightarrow> v \<in> set values \<Longrightarrow> holds_secrets pv [key] values"
  unfolding holds_secrets_def using fetch_secret_store [of pv key s v s'] by auto

lemma apply_auth_inner_holds:
  assumes "apply_auth_inner pv auth ctx out s = (Inr out', s')"
  shows "set (ao_secret_values out) \<subseteq> set (ao_secret_values out')
    \<and> holds_secrets pv (auth_secrets auth) (ao_secret_values out')"
proof (cases auth)
  case (AuthApiKey location name secret)
  with assms obtain v where "fetch_secret pv secret s = (Inr v, s')"
    and "ao_secret_values out' = ao_secret_values out @ [v]"
    by (cases location) (auto simp: act_bind_Inr push_secret_def push_header_def Let_def)
  with AuthApiKey show ?thesis by (auto intro: fetch_holds)
next
  case (AuthBearer secret)
  with assms show ?thesis
    by (auto simp: act_bind_Inr push_secret_def push_header_def intro: fetch_holds)
next
  case (AuthBasic username secret)
  with assms show ?thesis
    by (auto simp: act_bind_Inr push_secret_def push_header_def intro: fetch_holds)
qed (use assms in \<open>auto simp: act_bind_Inr holds_secrets_def push_secret_def push_header_def\<close>)

lemma apply_auth_holds:
  assumes "apply_auth pv auth ctx out s = (Inr out', s')"
  shows "set (ao_secret_values out) \<subseteq> set (ao_secret_values out')
    \<and> holds_secrets pv (case auth of None \<Rightarrow> [] | Some a \<Rightarrow> auth_secrets a) (ao_secret_values out')"
proof (cases auth)
  case None
  with assms show ?thesis by (simp add: apply_auth_def holds_secrets_def)
next
  case (Some a)
  with assms show ?thesis using apply_auth_inner_holds [of pv a ctx out s out' s'] by (simp add: apply_auth_def)
qed

lemma build_protocol_data_holds:
  assumes "build_protocol_data pv key op ctx vs s = (Inr (data, rules, vs'), s')"
  shows "set vs \<subseteq> set vs' \<and> holds_secrets pv (op_secrets op) vs'"
proof (cases op)
  case (OpHttp http)
  with assms show ?thesis by (auto simp: act_bind_Inr dest!: apply_auth_holds)
next
  case (OpGraphql graphql)
  with assms show ?thesis by (auto simp: act_bind_Inr dest!: apply_auth_holds)
next
  case (OpGrpc grpc)
  with assms show ?thesis by (auto simp: act_bind_Inr bail_def dest!: apply_auth_holds split: if_splits)
next
  case (OpSql sql)
  with assms obtain url where "fetch_secret pv (sql_connection_secret (sql_sql sql)) s = (Inr url, s')"
    and "vs' = vs @ [url]"
    by (auto simp: act_bind_Inr Let_def bail_def split: if_splits)
  with OpSql show ?thesis by (auto intro: fetch_holds)
qed (use assms in \<open>auto simp: act_bind_Inr holds_secrets_def\<close>)

lemma prepare_operation_Inr:
  assumes "prepare_operation pv entry args env secrets vars vs s = (Inr p, s')"
  obtains transport built
  where "resolve_transport (op_transport (fst (select_for_env (te_template entry) env))) (pv_proxy_profiles pv) = Inr transport"
    and "build_protocol_data pv (te_key entry) (fst (select_for_env (te_template entry) env))
           (render_context args secrets vars) vs s = (Inr built, s')"
    and "p = finish_request pv entry args (select_for_env (te_template entry) env) transport built"
  using assms unfolding prepare_operation_def Let_def act_bind_Inr act_lift_def act_return_def
  by (auto simp del: split_paired_Ex)

lemma build_prepared_Inr:
  assumes "build_prepared_request pv entry args env s = (Inr p, s')"
  obtains secrets vs1 s1 vars vs2
  where "load_secrets pv (declared_keys entry) ([], []) s = (Inr (secrets, vs1), s1)"
    and "resolve_vars (pv_engine pv) (te_provider_environments entry) env (JObject secrets) vs1 = Inr (vars, vs2)"
    and "prepare_operation pv entry args env secrets vars vs2 s1 = (Inr p, s')"
  using assms unfolding build_prepared_request_def act_bind_Inr [of "load_secrets _ _ _"]
  by (auto simp del: split_paired_Ex simp: act_bind_Inr [of "act_lift _"])

section \<open>Every secret of a request is redacted\<close>

lemma build_prepared_redactor:
  assumes "build_prepared_request pv entry args env s = (Inr p, s')"
  obtains vals where "rq_redactor p = redactor_new (pv_encoders pv) vals"
    and "holds_secrets pv (declared_keys entry @ op_secrets (fst (select_for_env (te_template entry) env))) vals"
proof -
  from assms obtain secrets vs1 s1 vars vs2 where
    load: "load_secrets pv (declared_keys entry) ([], []) s = (Inr (secrets, vs1), s1)"
    and vars: "resolve_vars (pv_engine pv) (te_provider_environments entry) env (JObject secrets) vs1 = Inr (vars, vs2)"
    and op: "prepare_operation pv entry args env secrets vars vs2 s1 = (Inr p, s')"
    by (rule build_prepared_Inr)
  from op obtain transport data rules vs3 where
    data: "build_protocol_data pv (te_key entry) (fst (select_for_env (te_template entry) env))
           (render_context args secrets vars) vs2 s1 = (Inr (data, rules, vs3), s')"
    and p: "p = finish_request pv entry args (select_for_env (te_template entry) env) transport (data, rules, vs3)"
    by (elim prepare_operation_Inr) (metis prod.exhaust)
  have "set vs1 \<subseteq> set vs3"
    using resolve_vars_keeps [OF vars] build_protocol_data_holds [OF data] by blast
  then have "holds_secrets pv (declared_keys entry) vs3"
    using load_secrets_holds [OF load] holds_secrets_mono by blast
  moreover have "holds_secrets pv (op_secrets (fst (select_for_env (te_template entry) env))) vs3"
    using build_protocol_data_holds [OF data] by blast
  ultimately show thesis
    by (intro that [of vs3]) (auto simp: holds_secrets_def p finish_request_def)
qed

lemma build_prepared_redacts:
  assumes "build_prepared_request pv entry args env s = (Inr p, s')"
    and "key \<in> set (declared_keys entry @ op_secrets (fst (select_for_env (te_template entry) env)))"
    and "store_value pv key = Some secret" and "encoders_ok (pv_encoders pv)"
    and "v \<in> set (secret_variants (pv_encoders pv) secret)" and "outside_marker v"
  shows "\<not> sublist v (redact (rq_redactor p) output)"
proof -
  from build_prepared_redactor [OF assms(1)] obtain vals
    where p: "rq_redactor p = redactor_new (pv_encoders pv) vals"
      and "holds_secrets pv (declared_keys entry @ op_secrets (fst (select_for_env (te_template entry) env))) vals" .
  with assms(2,3) have "secret \<in> set vals" by (auto simp: holds_secrets_def)
  then show ?thesis
    unfolding p using redact_removes_listed assms(4,5,6) by blast
qed


section \<open>Only declared secrets are read\<close>

lemma fetch_secret_agree:
  "get_secret (pv_store pv) key st = get_secret (pv_store pv) key (pv_secrets pv) \<Longrightarrow>
     fetch_secret (pv\<lparr>pv_secrets := st\<rparr>) key s = fetch_secret pv key s"
  by (cases s) (auto simp: fetch_secret_def require_secret_def split: option.splits)

definition agree :: "('st, 'w, 'o, 'e, 'v) provision \<Rightarrow> 'st \<Rightarrow> string list \<Rightarrow> bool" where
  "agree pv st keys \<longleftrightarrow>
     (\<forall>key \<in> set keys. get_secret (pv_store pv) key st = get_secret (pv_store pv) key (pv_secrets pv))"

lemma fetch_token_agree: "fetch_token (pv\<lparr>pv_secrets := st\<rparr>) profile = fetch_token pv profile"
  by (auto simp: fetch_token_def fun_eq_iff)

lemma load_secrets_agree:
  "agree pv st keys \<Longrightarrow> load_secrets (pv\<lparr>pv_secrets := st\<rparr>) keys acc s = load_secrets pv keys acc s"
proof (induction pv keys acc arbitrary: s rule: load_secrets.induct)
  case (2 pv key keys ctx vs)
  then show ?case
    by (auto simp: act_bind_def fetch_secret_agree agree_def split: prod.splits sum.splits)
qed simp

lemma apply_auth_agree:
  assumes "agree pv st (case auth of None \<Rightarrow> [] | Some a \<Rightarrow> auth_secrets a)"
  shows "apply_auth (pv\<lparr>pv_secrets := st\<rparr>) auth ctx out s = apply_auth pv auth ctx out s"
proof (cases auth)
  case (Some a)
  with assms show ?thesis
    by (cases a) (auto simp: apply_auth_def agree_def act_bind_def fetch_secret_agree fetch_token_agree
        split: sum.splits prod.splits)
qed (simp add: apply_auth_def)

lemma build_protocol_data_agree:
  assumes "agree pv st (op_secrets op)"
  shows "build_protocol_data (pv\<lparr>pv_secrets := st\<rparr>) key op ctx vs s = build_protocol_data pv key op ctx vs s"
  using assms
  by (cases op) (auto simp: act_bind_def apply_auth_agree fetch_secret_agree agree_def Let_def
      split: sum.splits prod.splits)

lemma prepare_operation_agree:
  assumes "agree pv st (op_secrets (fst (select_for_env (te_template entry) env)))"
  shows "prepare_operation (pv\<lparr>pv_secrets := st\<rparr>) entry args env secrets vars vs s
       = prepare_operation pv entry args env secrets vars vs s"
proof -
  have "build_protocol_data (pv\<lparr>pv_secrets := st\<rparr>) key (fst (select_for_env (te_template entry) env))
      = build_protocol_data pv key (fst (select_for_env (te_template entry) env))" for key
    by (simp add: fun_eq_iff build_protocol_data_agree [OF assms])
  moreover have "finish_request (pv\<lparr>pv_secrets := st\<rparr>) = finish_request pv"
    by (simp add: fun_eq_iff finish_request_def)
  ultimately show ?thesis by (simp add: prepare_operation_def Let_def)
qed

lemma build_prepared_agree:
  assumes "agree pv st (declared_keys entry @ op_secrets (fst (select_for_env (te_template entry) env)))"
  shows "build_prepared_request (pv\<lparr>pv_secrets := st\<rparr>) entry args env s = build_prepared_request pv entry args env s"
proof -
  have "agree pv st (declared_keys entry)" "agree pv st (op_secrets (fst (select_for_env (te_template entry) env)))"
    using assms by (auto simp: agree_def)
  then have "load_secrets (pv\<lparr>pv_secrets := st\<rparr>) (declared_keys entry) = load_secrets pv (declared_keys entry)"
    "prepare_operation (pv\<lparr>pv_secrets := st\<rparr>) entry args env = prepare_operation pv entry args env"
    by (simp_all add: fun_eq_iff load_secrets_agree prepare_operation_agree)
  then show ?thesis by (simp add: build_prepared_request_def)
qed


section \<open>What the configuration allows\<close>

text \<open>The sandbox limits on the data of a request.\<close>

fun data_allowed :: "sandbox_config \<Rightarrow> prepared_protocol_data \<Rightarrow> bool" where
  "data_allowed sb (PSql q) \<longleftrightarrow>
     (sb_sql_force_read_only sb \<longrightarrow> ps_read_only q) \<and> within (sb_sql_max_rows sb) (Some (ps_max_rows q))"
| "data_allowed sb (PBash b) \<longleftrightarrow>
     (rb_network (pb_sandbox b) \<longrightarrow> sb_bash_allow_network sb)
     \<and> within (sb_bash_max_time_ms sb) (rb_max_time_ms (pb_sandbox b))
     \<and> within (sb_bash_max_output_bytes sb) (rb_max_output_bytes (pb_sandbox b))
     \<and> within (sb_bash_max_memory_bytes sb) (rb_max_memory_bytes (pb_sandbox b))
     \<and> within (sb_bash_max_cpu_time_ms sb) (rb_max_cpu_time_ms (pb_sandbox b))"
| "data_allowed sb data \<longleftrightarrow> True"

text \<open>The data is of the operation's protocol.\<close>

fun data_protocol :: "prepared_protocol_data \<Rightarrow> operation_protocol" where
  "data_protocol (PHttp d) = Http"
| "data_protocol (PGraphql d) = Graphql"
| "data_protocol (PGrpc d) = Grpc"
| "data_protocol (PBash d) = Bash"
| "data_protocol (PSql d) = Sql"
| "data_protocol (PBrowser d) = Browser"

lemma cap_sql_allowed: "data_allowed sb (PSql (cap_sql sb q))"
  by (auto simp: cap_sql_def within_def Let_def split: option.splits)

lemma bash_allowed:
  assumes "build_bash_request lib rd op ctx (global_limits_of sb) = Inr p"
  shows "data_allowed sb (PBash p)"
  using build_bash_request_Inr [OF assms]
  by (simp add: global_limits_of_def Let_def most_restrictive_within)

definition connection_allowed :: "sandbox_config \<Rightarrow> operation_template \<Rightarrow> bool" where
  "connection_allowed sb op \<longleftrightarrow>
     (case op of OpSql sql \<Rightarrow>
        sb_sql_connection_allowlist sb = []
        \<or> sql_connection_secret (sql_sql sql) \<in> set (sb_sql_connection_allowlist sb)
      | _ \<Rightarrow> True)"

definition has_allow_rules :: "operation_protocol \<Rightarrow> bool" where
  "has_allow_rules p \<longleftrightarrow> p = Http \<or> p = Graphql \<or> p = Grpc"

lemma build_protocol_data_allowed:
  assumes "build_protocol_data pv key op ctx vs s = (Inr (data, rules, vs'), s')"
  shows "data_allowed (pv_sandbox pv) data \<and> data_protocol data = op_protocol op
    \<and> connection_allowed (pv_sandbox pv) op
    \<and> rules = (if has_allow_rules (op_protocol op) then pv_allow_rules pv else [])"
proof (cases op)
  case (OpBash bash)
  with assms show ?thesis
    by (auto simp: act_bind_Inr has_allow_rules_def connection_allowed_def intro: bash_allowed simp del: data_allowed.simps)
next
  case (OpSql sql)
  with assms have "sb_sql_connection_allowlist (pv_sandbox pv) = []
      \<or> list_ex (\<lambda>s. s = sql_connection_secret (sql_sql sql)) (sb_sql_connection_allowlist (pv_sandbox pv))"
    by (auto simp: Let_def bail_def split: if_splits)
  moreover from OpSql assms obtain q where "data = PSql (cap_sql (pv_sandbox pv) q)" "rules = []"
    by (auto simp: act_bind_Inr Let_def bail_def split: if_splits)
  ultimately show ?thesis
    using OpSql cap_sql_allowed
    by (auto simp: has_allow_rules_def connection_allowed_def list_ex_iff simp del: data_allowed.simps)
next
  case (OpGrpc grpc)
  with assms show ?thesis
    by (auto simp: act_bind_Inr has_allow_rules_def connection_allowed_def bail_def split: if_splits)
qed (use assms in \<open>auto simp: act_bind_Inr has_allow_rules_def connection_allowed_def\<close>)

lemma build_prepared_configuration:
  assumes "build_prepared_request pv entry args env s = (Inr p, s')"
  shows "let op = fst (select_for_env (te_template entry) env) in
      data_protocol (rq_data p) = op_protocol op
      \<and> data_allowed (pv_sandbox pv) (rq_data p)
      \<and> connection_allowed (pv_sandbox pv) op
      \<and> rq_allow_rules p = (if has_allow_rules (op_protocol op) then pv_allow_rules pv else [])
      \<and> rq_allow_private_ips p = pv_allow_private_ips pv
      \<and> rq_mode p = te_mode entry \<and> rq_key p = te_key entry \<and> rq_args p = args
      \<and> resolve_transport (op_transport op) (pv_proxy_profiles pv) = Inr (rq_transport p)"
proof -
  from assms obtain secrets vars vs2 s1
    where "prepare_operation pv entry args env secrets vars vs2 s1 = (Inr p, s')"
    by (rule build_prepared_Inr)
  then obtain transport data rules vs3 where
    t: "resolve_transport (op_transport (fst (select_for_env (te_template entry) env))) (pv_proxy_profiles pv) = Inr transport"
    and data: "build_protocol_data pv (te_key entry) (fst (select_for_env (te_template entry) env))
           (render_context args secrets vars) vs2 s1 = (Inr (data, rules, vs3), s')"
    and p: "p = finish_request pv entry args (select_for_env (te_template entry) env) transport (data, rules, vs3)"
    by (elim prepare_operation_Inr) (metis prod.exhaust)
  from build_protocol_data_allowed [OF data] t show ?thesis
    by (simp add: Let_def p finish_request_def)
qed

text \<open>
  C17. A prepared request obeys the configuration whatever the template says: its data is of the
  operation's protocol and within the sandbox limits, SQL runs only over an allowed connection,
  HTTP, GraphQL and gRPC carry the egress rules and the private-address setting, and the mode and
  key are those of the catalog entry.
\<close>

theorem prepared_obeys_configuration:
  assumes "build_prepared_request pv entry args env s = (Inr p, s')"
  shows "let op = fst (select_for_env (te_template entry) env) in
      data_protocol (rq_data p) = op_protocol op
      \<and> data_allowed (pv_sandbox pv) (rq_data p)
      \<and> connection_allowed (pv_sandbox pv) op
      \<and> rq_allow_rules p = (if has_allow_rules (op_protocol op) then pv_allow_rules pv else [])
      \<and> rq_allow_private_ips p = pv_allow_private_ips pv
      \<and> rq_mode p = te_mode entry \<and> rq_key p = te_key entry \<and> rq_args p = args
      \<and> resolve_transport (op_transport op) (pv_proxy_profiles pv) = Inr (rq_transport p)"
  using assms by (rule build_prepared_configuration)

section \<open>Secrets are found at their paths\<close>

lemma fold_insert_keeps:
  assumes "at_parts qs root = Some v"
    and "\<forall>(k, w) \<in> set kws. \<not> prefix (dotted_parts k) qs \<and> \<not> prefix qs (dotted_parts k)"
  shows "at_parts qs (fold (\<lambda>(k, w). insert_dotted_key k (JString w)) kws root) = Some v"
  using assms
  by (induction kws arbitrary: root) (auto simp: insert_dotted_key_def at_insert_other)

text \<open>No key's path is a prefix of another's.\<close>

definition separate_keys :: "string list \<Rightarrow> bool" where
  "separate_keys keys \<longleftrightarrow>
     (\<forall>k \<in> set keys. dotted_parts k \<noteq> [])
     \<and> sorted_wrt (\<lambda>a b. \<not> prefix (dotted_parts a) (dotted_parts b) \<and> \<not> prefix (dotted_parts b) (dotted_parts a)) keys"

lemma fold_insert_at:
  assumes "separate_keys keys" and "length ws = length keys" and "i < length keys"
  shows "at_parts (dotted_parts (keys ! i)) (fold (\<lambda>(k, w). insert_dotted_key k (JString w)) (zip keys ws) root)
    = Some (JString (ws ! i))"
  using assms
proof (induction keys arbitrary: ws root i)
  case (Cons key keys)
  then obtain w ws' where ws: "ws = w # ws'" by (cases ws) auto
  have sep: "separate_keys keys" using Cons.prems(1) by (simp add: separate_keys_def)
  show ?case
  proof (cases i)
    case 0
    have "at_parts (dotted_parts key) (insert_dotted_key key (JString w) root) = Some (JString w)"
      using Cons.prems(1) by (simp add: insert_dotted_key_def at_insert_same separate_keys_def)
    moreover have "\<forall>(k, w) \<in> set (zip keys ws'). \<not> prefix (dotted_parts k) (dotted_parts key)
        \<and> \<not> prefix (dotted_parts key) (dotted_parts k)"
      using Cons.prems(1) by (auto simp: separate_keys_def dest: set_zip_leftD)
    ultimately show ?thesis using fold_insert_keeps 0 ws by simp
  next
    case (Suc j)
    with Cons.IH [OF sep, of ws' j] Cons.prems ws show ?thesis by simp
  qed
qed simp

text \<open>
  When no declared key is a dotted prefix of another, the template context holds every declared
  secret of the store at its dotted path.
\<close>

theorem secrets_at_their_paths:
  assumes "load_secrets pv keys ([], []) s = (Inr (ctx, vs), s')" and "separate_keys keys"
    and "key \<in> set keys" and "store_value pv key = Some secret"
  shows "at_parts (dotted_parts key) ctx = Some (JString secret)"
proof -
  from load_secrets_spec [OF assms(1)] obtain ws where ws: "length ws = length keys"
    "\<forall>i < length keys. \<forall>x. store_value pv (keys ! i) = Some x \<longrightarrow> ws ! i = x"
    "ctx = fold (\<lambda>(k, w). insert_dotted_key k (JString w)) (zip keys ws) []"
    by blast
  from assms(3) obtain i where i: "i < length keys" "keys ! i = key" by (auto simp: in_set_conv_nth)
  with ws assms(4) have "ws ! i = secret" by blast
  with fold_insert_at [OF assms(2) ws(1) i(1), of "[]"] i ws(3) show ?thesis by simp
qed

text \<open>Otherwise the later key wins: the secret \<open>db.url\<close> is no longer there.\<close>

lemma shorter_key_clobbers:
  "at_parts (dotted_parts ''db.url'')
     (insert_dotted_key ''db'' (JString ''b'') (insert_dotted_key ''db.url'' (JString ''a'') [])) = None"
  by code_simp

section \<open>A concrete request\<close>

definition sample_provision :: "(memory_store, unit, unit, string, json) provision" where
  "sample_provision =
     \<lparr>pv_lower = id, pv_store = in_memory_store,
      pv_secrets = \<lparr>ms_poisoned = False, ms_values = [(''db.url'', ''hunter2''), (''k'', ''kay'')]\<rparr>,
      pv_resolvers = [], pv_token = (\<lambda>profile s. (Inl [''no''], s)), pv_engine = sample_engine,
      pv_libs = sample_libs, pv_encoders = hex_encoders, pv_allow_rules = [], pv_proxy_profiles = [],
      pv_sandbox = default_sandbox\<lparr>sb_sql_max_rows := Some 5\<rparr>, pv_allow_private_ips = False\<rparr>"

definition sample_secrets :: json_map where
  "sample_secrets = [(''db'', JObject [(''url'', JString ''hunter2'')]), (''k'', JString ''kay'')]"

definition sample_query :: prepared_sql_query where
  "sample_query = \<lparr>ps_connection_url = ''hunter2'', ps_query = ''select ?'', ps_params = [JNull],
     ps_read_only = True, ps_max_rows = 5\<rparr>"

definition sample_transport :: resolved_transport where
  "sample_transport =
     \<lparr>rv_timeout_ms = 30000, rv_follow_redirects = True, rv_max_redirect_hops = 5, rv_retry_max_attempts = 1,
      rv_retry_backoff_ms = 250, rv_retry_on_status = [], rv_compression = True, rv_tls_min_version = None,
      rv_proxy_url = None, rv_max_response_bytes = 8388608\<rparr>"

lemma sample_fetch:
  "fetch_secret sample_provision ''db.url'' s = (Inr ''hunter2'', s)"
  "fetch_secret sample_provision ''k'' s = (Inr ''kay'', s)"
proof -
  have "split_once ''://'' ''db.url'' = None" "split_once ''://'' ''k'' = None" by code_simp+
  then show "fetch_secret sample_provision ''db.url'' s = (Inr ''hunter2'', s)"
    "fetch_secret sample_provision ''k'' s = (Inr ''kay'', s)"
    by (auto simp: fetch_secret_def require_secret_def sample_provision_def in_memory_store_def
        mem_get_secret_def split: prod.splits)
qed

lemma sample_keys: "declared_keys sample_entry = [''db.url'', ''k'']"
  by code_simp

lemma sample_load_secrets:
  "load_secrets sample_provision [''db.url'', ''k''] ([], []) s = (Inr (sample_secrets, [''hunter2'', ''kay'']), s)"
proof -
  have "insert_dotted_key ''k'' (JString ''kay'') (insert_dotted_key ''db.url'' (JString ''hunter2'') []) = sample_secrets"
    by code_simp
  then show ?thesis by (simp add: sample_fetch)
qed

lemma sample_operation: "fst (select_for_env (te_template sample_entry) None) = sample_sql ''select ?''"
  by (simp add: sample_entry_def entry_of_def sample_command_def select_for_env_def)

lemma sample_sql_built:
  "build_sql_request (jinja_renderer sample_engine) (case sample_sql ''select ?'' of OpSql q \<Rightarrow> q)
     (render_context [] sample_secrets []) ''hunter2'' = Inr (sample_query\<lparr>ps_max_rows := 1000\<rparr>)"
  by code_simp

lemma sample_prepared:
  "build_prepared_request sample_provision sample_entry [] None s =
     (Inr (finish_request sample_provision sample_entry [] (sample_sql ''select ?'', default_result_template)
        sample_transport (PSql sample_query, [], [''hunter2'', ''kay'', ''hunter2''])), s)"
proof -
  have sel: "select_for_env (te_template sample_entry) None = (sample_sql ''select ?'', default_result_template)"
    by (simp add: sample_entry_def entry_of_def sample_command_def select_for_env_def)
  have t: "resolve_transport (op_transport (sample_sql ''select ?'')) (pv_proxy_profiles sample_provision)
      = Inr sample_transport"
    by (simp add: sample_sql_def resolve_transport_def parse_tls_min_version_def resolve_proxy_url_def
        trimmed_field_def clamp_def sample_transport_def default_max_response_bytes_def)
  have "build_protocol_data sample_provision (te_key sample_entry) (sample_sql ''select ?'')
      (render_context [] sample_secrets []) [''hunter2'', ''kay''] s
    = (Inr (PSql sample_query, [], [''hunter2'', ''kay'', ''hunter2'']), s)"
    using sample_sql_built
    by (simp add: sample_sql_def sample_fetch Let_def)
      (simp add: sample_provision_def default_sandbox_def cap_sql_def sample_query_def)
  moreover have "resolve_vars mj envs None ctx vs = Inr ([], vs)" for mj :: "(string, json) minijinja" and envs ctx vs
    by (simp add: resolve_vars_def split: option.splits)
  ultimately show ?thesis
    by (simp add: build_prepared_request_def sample_keys sample_load_secrets
        prepare_operation_def sel t Let_def del: load_secrets.simps)
qed



theorem prepared_obeys_configuration_witness:
  "data_allowed (default_sandbox\<lparr>sb_sql_max_rows := Some 5\<rparr>) (PSql sample_query)
   \<and> ps_read_only sample_query \<and> ps_max_rows sample_query = 5"
  using prepared_obeys_configuration [OF sample_prepared [of "(((), []), ())"]]
  by (simp add: Let_def finish_request_def sample_provision_def sample_query_def default_sandbox_def)

theorem secrets_at_their_paths_witness:
  "at_parts [''db'', ''url''] sample_secrets = Some (JString ''hunter2'')"
proof -
  have parts: "dotted_parts ''db.url'' = [''db'', ''url'']" "dotted_parts ''k'' = [''k'']" by code_simp+
  have "store_value sample_provision ''db.url'' = Some ''hunter2''"
  proof -
    have "split_once ''://'' ''db.url'' = None" by code_simp
    then show ?thesis
      by (simp add: store_value_def sample_provision_def in_memory_store_def mem_get_secret_def)
  qed
  from secrets_at_their_paths [OF sample_load_secrets [of "(((), []), ())"] _ _ this]
  show ?thesis by (simp add: separate_keys_def parts)
qed

end
