(* ===== verification/Utf8.thy ===== *)
theory Utf8
  imports RustStr
begin

text \<open>
  UTF-8 as \<open>core::str\<close> reads it: how far a byte string is valid (\<open>from_utf8\<close> with
  \<open>Utf8Error::valid_up_to\<close>) and \<open>String::from_utf8_lossy\<close>, which puts one replacement
  character for every maximal invalid prefix. Decoding of responses and the SSE reader use both.
\<close>

section \<open>The character at the head of a byte string\<close>

datatype utf8_char = Valid nat | Invalid nat | Incomplete

definition byte_in :: "nat \<Rightarrow> nat \<Rightarrow> char \<Rightarrow> bool" where
  "byte_in lo hi c \<longleftrightarrow> lo \<le> (of_char c :: nat) \<and> (of_char c :: nat) \<le> hi"

abbreviation cont_byte :: "char \<Rightarrow> bool" where
  "cont_byte \<equiv> byte_in 128 191"

text \<open>The bytes allowed second after a first byte of a three or four byte sequence.\<close>

definition second_ok :: "char \<Rightarrow> char \<Rightarrow> bool" where
  "second_ok b0 b1 =
     (if byte_in 224 224 b0 then byte_in 160 191 b1
      else if byte_in 237 237 b0 then byte_in 128 159 b1
      else if byte_in 240 240 b0 then byte_in 144 191 b1
      else if byte_in 244 244 b0 then byte_in 128 143 b1
      else cont_byte b1)"

text \<open>Continuation bytes still expected, after \<open>n\<close> bytes that are fine.\<close>

fun utf8_rest :: "nat \<Rightarrow> nat \<Rightarrow> string \<Rightarrow> utf8_char" where
  "utf8_rest 0 n bs = Valid n"
| "utf8_rest (Suc k) n [] = Incomplete"
| "utf8_rest (Suc k) n (b # bs) = (if cont_byte b then utf8_rest k (Suc n) bs else Invalid n)"

definition utf8_second :: "nat \<Rightarrow> char \<Rightarrow> string \<Rightarrow> utf8_char" where
  "utf8_second k b0 bs =
     (case bs of [] \<Rightarrow> Incomplete
      | b1 # rest \<Rightarrow> if second_ok b0 b1 then utf8_rest k 2 rest else Invalid 1)"

fun utf8_head :: "string \<Rightarrow> utf8_char" where
  "utf8_head [] = Incomplete"
| "utf8_head (b0 # bs) =
     (if byte_in 0 127 b0 then Valid 1
      else if byte_in 194 223 b0 then utf8_rest 1 1 bs
      else if byte_in 224 239 b0 then utf8_second 1 b0 bs
      else if byte_in 240 244 b0 then utf8_second 2 b0 bs
      else Invalid 1)"

lemma utf8_rest_bounds:
  "utf8_rest k n bs = Valid m \<Longrightarrow> m = n + k \<and> k \<le> length bs"
  "utf8_rest k n bs = Invalid m \<Longrightarrow> n \<le> m"
  by (induction k n bs rule: utf8_rest.induct) (auto split: if_splits)

lemma utf8_head_Valid:
  assumes "utf8_head s = Valid n"
  shows "0 < n \<and> n \<le> length s"
proof (cases s)
  case (Cons b bs)
  with assms show ?thesis
    by (auto simp: utf8_second_def split: if_splits list.splits dest!: utf8_rest_bounds)
qed (use assms in simp)

lemma utf8_head_Invalid:
  assumes "utf8_head s = Invalid n"
  shows "0 < n"
proof (cases s)
  case (Cons b bs)
  with assms show ?thesis
    by (auto simp: utf8_second_def split: if_splits list.splits dest!: utf8_rest_bounds(2))
qed (use assms in simp)

section \<open>Validity and lossy decoding\<close>

function valid_up_to :: "string \<Rightarrow> nat" where
  "valid_up_to s = (case utf8_head s of Valid n \<Rightarrow> n + valid_up_to (drop n s) | _ \<Rightarrow> 0)"
  by pat_completeness auto
termination
  by (relation "measure length") (auto dest: utf8_head_Valid)

declare valid_up_to.simps [simp del]

definition is_utf8 :: "string \<Rightarrow> bool" where
  "is_utf8 s \<longleftrightarrow> valid_up_to s = length s"

definition replacement_char :: string where
  "replacement_char = [CHR 0xEF, CHR 0xBF, CHR 0xBD]"

function from_utf8_lossy :: "string \<Rightarrow> string" where
  "from_utf8_lossy s =
     (if s = [] then []
      else case utf8_head s of
             Valid n \<Rightarrow> take n s @ from_utf8_lossy (drop n s)
           | Invalid n \<Rightarrow> replacement_char @ from_utf8_lossy (drop n s)
           | Incomplete \<Rightarrow> replacement_char)"
  by pat_completeness auto
termination
  by (relation "measure length") (auto dest: utf8_head_Valid utf8_head_Invalid)

declare from_utf8_lossy.simps [simp del]

lemma valid_up_to_le: "valid_up_to s \<le> length s"
proof (induction s rule: valid_up_to.induct)
  case (1 s)
  then show ?case
    using utf8_head_Valid [of s] by (subst valid_up_to.simps) (fastforce split: utf8_char.splits)
qed

lemma utf8_rest_append:
  "utf8_rest k n bs = Valid m \<Longrightarrow> utf8_rest k n (bs @ cs) = Valid m"
  by (induction k n bs rule: utf8_rest.induct) (auto split: if_splits)

text \<open>What follows a complete character does not matter.\<close>

lemma utf8_head_append:
  assumes "utf8_head s = Valid n"
  shows "utf8_head (s @ t) = Valid n"
proof (cases s)
  case (Cons b bs)
  with assms show ?thesis
    by (auto simp: utf8_second_def utf8_rest_append split: if_splits list.splits)
qed (use assms in simp)

lemma utf8_rest_take:
  "utf8_rest k n bs = Valid m \<Longrightarrow> utf8_rest k n (take k bs) = Valid m"
  by (induction k n bs rule: utf8_rest.induct) (auto split: if_splits)

lemma utf8_second_take:
  assumes "utf8_second k b bs = Valid n"
  shows "n = k + 2 \<and> utf8_second k b (take (Suc k) bs) = Valid n"
proof (cases bs)
  case (Cons c cs)
  with assms have "second_ok b c" "utf8_rest k 2 cs = Valid n"
    by (simp_all add: utf8_second_def split: if_splits)
  with Cons show ?thesis using utf8_rest_take utf8_rest_bounds(1) by (fastforce simp: utf8_second_def)
qed (use assms in \<open>simp add: utf8_second_def\<close>)

lemma utf8_head_take:
  assumes "utf8_head s = Valid n"
  shows "utf8_head (take n s) = Valid n"
proof (cases s)
  case (Cons b bs)
  consider "byte_in 0 127 b" | "\<not> byte_in 0 127 b" "byte_in 194 223 b"
    | "\<not> byte_in 0 127 b" "\<not> byte_in 194 223 b" "byte_in 224 239 b"
    | "\<not> byte_in 0 127 b" "\<not> byte_in 194 223 b" "\<not> byte_in 224 239 b" "byte_in 240 244 b"
    | "\<not> byte_in 0 127 b" "\<not> byte_in 194 223 b" "\<not> byte_in 224 239 b" "\<not> byte_in 240 244 b"
    by blast
  then show ?thesis
  proof cases
    case 2
    with assms Cons have r: "utf8_rest 1 1 bs = Valid n" by simp
    then have "n = 2" using utf8_rest_bounds(1) by fastforce
    with utf8_rest_take [OF r] 2 Cons show ?thesis by (simp add: numeral_2_eq_2)
  next
    case 3
    with assms Cons have "utf8_second 1 b bs = Valid n" by simp
    from utf8_second_take [OF this] 3 Cons show ?thesis by (simp add: numeral_3_eq_3 numeral_2_eq_2)
  next
    case 4
    with assms Cons have "utf8_second 2 b bs = Valid n" by simp
    from utf8_second_take [OF this] 4 Cons show ?thesis by (simp add: numeral_eq_Suc)
  qed (use assms Cons in auto)
qed (use assms in simp)

lemma is_utf8_Nil [simp]: "is_utf8 []"
  by (simp add: is_utf8_def valid_up_to.simps)

lemma is_utf8_head:
  assumes "utf8_head s = Valid n"
  shows "is_utf8 s \<longleftrightarrow> is_utf8 (drop n s)"
  using utf8_head_Valid [OF assms] by (auto simp: is_utf8_def valid_up_to.simps [of s] assms)

lemma is_utf8_Cons_char: "utf8_head s = Valid n \<Longrightarrow> n = length s \<Longrightarrow> is_utf8 (s @ t) = is_utf8 t"
  using is_utf8_head [OF utf8_head_append, of s n t] by simp

lemma is_utf8_append: "is_utf8 s \<Longrightarrow> is_utf8 t \<Longrightarrow> is_utf8 (s @ t)"
proof (induction s rule: valid_up_to.induct)
  case (1 s)
  show ?case
  proof (cases "utf8_head s")
    case (Valid n)
    with 1 have "is_utf8 (drop n s @ t)" by (auto simp: is_utf8_head)
    moreover have "drop n (s @ t) = drop n s @ t" using utf8_head_Valid [OF Valid] by simp
    ultimately show ?thesis using is_utf8_head [OF utf8_head_append [OF Valid], of t] by simp
  next
    case (Invalid n)
    with 1 show ?thesis by (auto simp: is_utf8_def valid_up_to.simps [of s])
  next
    case Incomplete
    with 1 show ?thesis by (auto simp: is_utf8_def valid_up_to.simps [of s])
  qed
qed

lemma replacement_utf8: "is_utf8 replacement_char"
  by code_simp

text \<open>The prefix up to the boundary is valid.\<close>

lemma valid_prefix: "is_utf8 (take (valid_up_to s) s)"
proof (induction s rule: valid_up_to.induct)
  case (1 s)
  show ?case
  proof (cases "utf8_head s")
    case (Valid n)
    have n: "n \<le> length s" using utf8_head_Valid [OF Valid] by simp
    have "take (valid_up_to s) s = take n s @ take (valid_up_to (drop n s)) (drop n s)"
      by (subst valid_up_to.simps) (simp add: Valid take_add)
    moreover have "is_utf8 (take n s)"
      using utf8_head_take [OF Valid] n by (simp add: is_utf8_head)
    ultimately show ?thesis using 1 [OF Valid] by (simp add: is_utf8_append)
  qed (simp_all add: valid_up_to.simps [of s])
qed

text \<open>Lossy decoding always yields valid text and leaves valid text alone.\<close>

lemma lossy_utf8: "is_utf8 (from_utf8_lossy s)"
proof (induction s rule: from_utf8_lossy.induct)
  case (1 s)
  show ?case
  proof (cases "s = []")
    case False
    show ?thesis
    proof (cases "utf8_head s")
      case (Valid n)
      have "is_utf8 (take n s)"
        using utf8_head_take [OF Valid] utf8_head_Valid [OF Valid] by (simp add: is_utf8_head)
      with 1(1) [OF False Valid] Valid False show ?thesis
        by (subst from_utf8_lossy.simps) (simp add: is_utf8_append)
    next
      case (Invalid n)
      with 1(2) [OF False Invalid] False show ?thesis
        by (subst from_utf8_lossy.simps) (simp add: is_utf8_append replacement_utf8)
    next
      case Incomplete
      with False show ?thesis by (subst from_utf8_lossy.simps) (simp add: replacement_utf8)
    qed
  qed (simp add: from_utf8_lossy.simps)
qed

lemma lossy_valid: "is_utf8 s \<Longrightarrow> from_utf8_lossy s = s"
proof (induction s rule: from_utf8_lossy.induct)
  case (1 s)
  show ?case
  proof (cases "s = []")
    case False
    with 1(3) obtain n where n: "utf8_head s = Valid n"
      by (cases "utf8_head s") (auto simp: is_utf8_def valid_up_to.simps [of s])
    with 1(1) [OF False n] 1(3) False show ?thesis
      by (subst from_utf8_lossy.simps) (simp add: is_utf8_head)
  qed (simp add: from_utf8_lossy.simps)
qed

end
