(* ===== verification/Exec.thy ===== *)
theory Exec
  imports Render Transport Redact Binder Utf8
begin

text \<open>
  What every executor shares: the execution context and results of
  \<open>crates/earl-core/src/lib.rs\<close>, decoding of a response body
  (\<open>crates/earl-core/src/decode.rs\<close>), extraction (\<open>src/protocol/extract.rs\<close>) and the output
  renderers \<open>src/output/\<close>. The JSON reader, regular expressions, the HTML and XML readers and the
  template engine are parameters; UTF-8 and JSON pointers are modelled.
\<close>

section \<open>Contexts and results\<close>

record execution_context =
  ec_key :: string
  ec_mode :: command_mode
  ec_allow_rules :: "allow_rule list"
  ec_transport :: resolved_transport
  ec_result_template :: result_template
  ec_args :: json_map
  ec_redactor :: redactor

record raw_execution_result =
  raw_status :: u16
  raw_url :: string
  raw_body :: string
  raw_content_type :: "string option"

record execution_result =
  er_status :: u16
  er_url :: string
  er_result :: json
  er_decoded :: json

record stream_chunk =
  sc_data :: string
  sc_content_type :: "string option"

record stream_meta =
  sm_status :: u16
  sm_url :: string

section \<open>Decoding\<close>

datatype decoded_body =
    DJson json
  | DText string
  | DHtml string
  | DXml string
  | DBinary string

fun decoded_as_json :: "decoded_body \<Rightarrow> json option" where
  "decoded_as_json (DJson v) = Some v"
| "decoded_as_json b = None"

fun decoded_as_text :: "decoded_body \<Rightarrow> string option" where
  "decoded_as_text (DText v) = Some v"
| "decoded_as_text (DHtml v) = Some v"
| "decoded_as_text (DXml v) = Some v"
| "decoded_as_text b = None"

fun decoded_to_json :: "(string \<Rightarrow> string) \<Rightarrow> decoded_body \<Rightarrow> json" where
  "decoded_to_json b64 (DJson v) = v"
| "decoded_to_json b64 (DText v) = JString v"
| "decoded_to_json b64 (DHtml v) = JString v"
| "decoded_to_json b64 (DXml v) = JString v"
| "decoded_to_json b64 (DBinary v) = JString (b64 v)"

type_synonym json_reader = "string \<Rightarrow> string + json"

definition infer_mode :: "json_reader \<Rightarrow> string option \<Rightarrow> string \<Rightarrow> result_decode" where
  "infer_mode from_slice content_type body =
     (let probe = (if is_ok (from_slice body) then DecodeJson else DecodeText)
      in case content_type of
           None \<Rightarrow> probe
         | Some ct \<Rightarrow>
             (let lower = to_ascii_lowercase ct
              in if sublist ''application/json'' lower \<or> suffix ''+json'' lower then DecodeJson
                 else if sublist ''text/html'' lower then DecodeHtml
                 else if sublist ''xml'' lower then DecodeXml
                 else if prefix ''text/'' lower then DecodeText
                 else probe))"

definition decode_response ::
    "json_reader \<Rightarrow> result_decode \<Rightarrow> string option \<Rightarrow> string \<Rightarrow> decoded_body result" where
  "decode_response from_slice mode content_type bytes =
     (let inferred_mode = (case mode of DecodeAuto \<Rightarrow> infer_mode from_slice content_type bytes | explicit \<Rightarrow> explicit)
      in case inferred_mode of
           DecodeAuto \<Rightarrow> Inr (DText (from_utf8_lossy bytes))
         | DecodeText \<Rightarrow> Inr (DText (from_utf8_lossy bytes))
         | DecodeJson \<Rightarrow> and_then (map_err (\<lambda>e. [e]) (from_slice bytes)) (\<lambda>v. Inr (DJson v))
         | DecodeHtml \<Rightarrow> Inr (DHtml (from_utf8_lossy bytes))
         | DecodeXml \<Rightarrow> Inr (DXml (from_utf8_lossy bytes))
         | DecodeBinary \<Rightarrow> Inr (DBinary bytes))"

section \<open>JSON pointers\<close>

text \<open>\<open>Value::pointer\<close> of \<open>serde_json\<close>.\<close>

definition pointer_index :: "string \<Rightarrow> nat option" where
  "pointer_index s =
     (if prefix ''+'' s \<or> prefix ''0'' s \<and> length s \<noteq> 1 then None else parse_unsigned (2 ^ 64) s)"

definition pointer_unescape :: "string \<Rightarrow> string" where
  "pointer_unescape s = str_replace ''~0'' ''~'' (str_replace ''~1'' ''/'' s)"

fun pointer_step :: "json \<Rightarrow> string \<Rightarrow> json option" where
  "pointer_step (JObject m) token = bt_get m token"
| "pointer_step (JArray vs) token =
     Option.bind (pointer_index token) (\<lambda>i. if i < length vs then Some (vs ! i) else None)"
| "pointer_step v token = None"

fun pointer_walk :: "json \<Rightarrow> string list \<Rightarrow> json option" where
  "pointer_walk v [] = Some v"
| "pointer_walk v (token # tokens) = Option.bind (pointer_step v token) (\<lambda>w. pointer_walk w tokens)"

definition json_pointer :: "json \<Rightarrow> string \<Rightarrow> json option" where
  "json_pointer v pointer =
     (if pointer = [] then Some v
      else if \<not> prefix ''/'' pointer then None
      else pointer_walk v (map pointer_unescape (tl (split_char (CHR ''/'') pointer))))"

section \<open>Extraction\<close>

datatype xpath_value = XNodeset "string list" | XBoolean bool | XNumber f64 | XString string

text \<open>The capture groups of a match, group 0 first; a group that took no part is \<open>None\<close>. The
  text nodes of each element a selector finds. The string values of a node set in document order.\<close>

record ('re, 'sel, 'doc, 'xp) extractors =
  ex_regex_new :: "string \<Rightarrow> string + 're"
  ex_captures :: "'re \<Rightarrow> string \<Rightarrow> string option list option"
  ex_selector_parse :: "string \<Rightarrow> string + 'sel"
  ex_select :: "string \<Rightarrow> 'sel \<Rightarrow> string list list"
  ex_xml_parse :: "string \<Rightarrow> string + 'doc"
  ex_xpath_build :: "string \<Rightarrow> string + 'xp option"
  ex_xpath_evaluate :: "'xp \<Rightarrow> 'doc \<Rightarrow> string + xpath_value"
  ex_base64 :: "string \<Rightarrow> string"

definition extract_json_pointer :: "decoded_body \<Rightarrow> string \<Rightarrow> json result" where
  "extract_json_pointer decoded pointer =
     and_then (ok_or [''json_pointer extraction requires decoded JSON body''] (decoded_as_json decoded)) (\<lambda>v.
     ok_or [''json_pointer `'' @ pointer @ ''` did not match response body''] (json_pointer v pointer))"

definition extract_regex :: "('re, 'sel, 'doc, 'xp) extractors \<Rightarrow> decoded_body \<Rightarrow> string \<Rightarrow> json result" where
  "extract_regex ex decoded pattern =
     and_then (ok_or [''regex extraction requires decoded text/html/xml body''] (decoded_as_text decoded)) (\<lambda>t.
     and_then (map_err (\<lambda>e. [e]) (ex_regex_new ex pattern)) (\<lambda>regex.
     and_then (ok_or [''regex pattern did not match response body''] (ex_captures ex regex t)) (\<lambda>captures.
     let group = (\<lambda>i. if i < length captures then unwrap_or (captures ! i) [] else [])
     in if length captures > 1 then Inr (JString (group 1)) else Inr (JString (group 0)))))"

definition extract_css :: "('re, 'sel, 'doc, 'xp) extractors \<Rightarrow> decoded_body \<Rightarrow> string \<Rightarrow> json result" where
  "extract_css ex decoded selector =
     and_then (ok_or [''css_selector extraction requires decoded html/text body''] (decoded_as_text decoded)) (\<lambda>html.
     and_then (map_err (\<lambda>err. [''invalid css selector `'' @ selector @ ''`: '' @ err]) (ex_selector_parse ex selector)) (\<lambda>sel.
     let texts = map (\<lambda>pieces. trim (str_join '' '' pieces)) (ex_select ex html sel)
     in Inr (JArray (map JString (filter (\<lambda>t. t \<noteq> []) texts)))))"

definition extract_xpath :: "('re, 'sel, 'doc, 'xp) extractors \<Rightarrow> decoded_body \<Rightarrow> string \<Rightarrow> json result" where
  "extract_xpath ex decoded xpath =
     and_then (ok_or [''xpath extraction requires decoded xml/text body''] (decoded_as_text decoded)) (\<lambda>xml.
     and_then (map_err (\<lambda>err. [''invalid XML: '' @ err]) (ex_xml_parse ex xml)) (\<lambda>doc.
     and_then (map_err (\<lambda>e. [e]) (ex_xpath_build ex xpath)) (\<lambda>built.
     and_then (ok_or [''failed to compile xpath expression''] built) (\<lambda>compiled.
     and_then (map_err (\<lambda>e. [e]) (ex_xpath_evaluate ex compiled doc)) (\<lambda>v.
     case v of
       XNodeset nodes \<Rightarrow> Inr (JArray (map JString nodes))
     | XBoolean b \<Rightarrow> Inr (JBool b)
     | XNumber n \<Rightarrow>
         (case number_from_f64 n of
            Some k \<Rightarrow> Inr (JNumber k)
          | None \<Rightarrow> bail ''xpath returned invalid non-finite number'')
     | XString s \<Rightarrow> Inr (JString s))))))"

definition extract_result ::
    "('re, 'sel, 'doc, 'xp) extractors \<Rightarrow> result_extract option \<Rightarrow> decoded_body \<Rightarrow> json result" where
  "extract_result ex extract decoded =
     (case extract of
        None \<Rightarrow> Inr (decoded_to_json (ex_base64 ex) decoded)
      | Some (ExtractJsonPointer pointer) \<Rightarrow> extract_json_pointer decoded pointer
      | Some (ExtractRegex regex) \<Rightarrow> extract_regex ex decoded regex
      | Some (ExtractCssSelector selector) \<Rightarrow> extract_css ex decoded selector
      | Some (ExtractXPath xpath) \<Rightarrow> extract_xpath ex decoded xpath)"

section \<open>Output\<close>

definition render_human_output ::
    "('e, 'v) minijinja \<Rightarrow> result_template \<Rightarrow> json_map \<Rightarrow> json \<Rightarrow> string result" where
  "render_human_output mj rt args result =
     (let alias = unwrap_or (rt_alias rt) ''result'';
          ctx = bt_insert alias result
                  (bt_insert ''result'' result (bt_insert ''args'' (JObject args) []))
      in render_string_raw mj (rt_output rt) (JObject ctx))"

definition render_json_output :: "execution_result \<Rightarrow> json" where
  "render_json_output execution =
     jobj [(''status'', JNumber (PosInt (ucast (er_status execution)))), (''url'', JString (er_url execution)),
           (''result'', er_result execution), (''decoded'', er_decoded execution)]"

text \<open>The libraries a consumer of results uses.\<close>

record ('e, 'v, 're, 'sel, 'doc, 'xp) output_libs =
  ol_engine :: "('e, 'v) minijinja"
  ol_extractors :: "('re, 'sel, 'doc, 'xp) extractors"
  ol_json_read :: json_reader
  ol_json_text :: "json \<Rightarrow> string"

text \<open>One received chunk: a line to print, nothing when it is skipped, or an error.\<close>

definition stream_line ::
    "('e, 'v, 're, 'sel, 'doc, 'xp) output_libs \<Rightarrow> result_template \<Rightarrow> json_map \<Rightarrow> redactor \<Rightarrow> bool \<Rightarrow>
     string option \<Rightarrow> stream_chunk \<Rightarrow> string option result" where
  "stream_line ol rt args red json_mode active_env chunk =
     (case decode_response (ol_json_read ol) (rt_decode rt) (sc_content_type chunk) (sc_data chunk) of
        Inl e \<Rightarrow> Inr None
      | Inr decoded \<Rightarrow>
     (case extract_result (ol_extractors ol) (rt_extract rt) decoded of
        Inl e \<Rightarrow> Inr None
      | Inr extracted \<Rightarrow>
          if json_mode then
            (let m = bt_from_iter [(''result'', extracted),
                                   (''decoded'', decoded_to_json (ex_base64 (ol_extractors ol)) decoded)];
                 m = (case active_env of Some env \<Rightarrow> bt_insert ''environment'' (JString env) m | None \<Rightarrow> m)
             in Inr (Some (ol_json_text ol (redact_json red (JObject m)))))
          else
            and_then (render_human_output (ol_engine ol) rt args extracted) (\<lambda>output.
            Inr (Some (redact red output)))))"

text \<open>The loop over the channel; the state is the lines printed so far.\<close>

fun render_streaming_output ::
    "('e, 'v, 're, 'sel, 'doc, 'xp) output_libs \<Rightarrow> result_template \<Rightarrow> json_map \<Rightarrow> redactor \<Rightarrow> bool \<Rightarrow>
     string option \<Rightarrow> stream_chunk list \<Rightarrow> (string list, unit) action" where
  "render_streaming_output ol rt args red json_mode active_env [] out = (Inr (), out)"
| "render_streaming_output ol rt args red json_mode active_env (chunk # chunks) out =
     (case stream_line ol rt args red json_mode active_env chunk of
        Inl e \<Rightarrow> (Inl e, out)
      | Inr None \<Rightarrow> render_streaming_output ol rt args red json_mode active_env chunks out
      | Inr (Some line) \<Rightarrow>
          render_streaming_output ol rt args red json_mode active_env chunks (out @ [line]))"

section \<open>Properties\<close>

lemma infer_mode_cases: "infer_mode from_slice ct bytes \<noteq> DecodeAuto \<and> infer_mode from_slice ct bytes \<noteq> DecodeBinary"
  by (auto simp: infer_mode_def Let_def split: option.splits)

text \<open>Whether a decode asks for JSON by its mode or by the content type.\<close>

definition wants_json :: "result_decode \<Rightarrow> string option \<Rightarrow> bool" where
  "wants_json mode ct \<longleftrightarrow> mode = DecodeJson \<or> mode = DecodeAuto \<and>
     (\<exists>t. ct = Some t \<and> (sublist ''application/json'' (to_ascii_lowercase t) \<or> suffix ''+json'' (to_ascii_lowercase t)))"

text \<open>
  Decoding fails exactly when JSON was asked for, by the template or by the content type, and
  the body is not JSON. Decoded text is valid UTF-8 whatever the bytes, a body that is valid UTF-8
  is decoded to itself, and a binary body is kept byte for byte.
\<close>

theorem decode_response_total:
  "(case decode_response from_slice mode ct bytes of
      Inl e \<Rightarrow> wants_json mode ct \<and> \<not> is_ok (from_slice bytes)
    | Inr (DJson v) \<Rightarrow> from_slice bytes = Inr v
    | Inr (DBinary b) \<Rightarrow> mode = DecodeBinary \<and> b = bytes
    | Inr d \<Rightarrow> \<not> wants_json mode ct
        \<and> decoded_as_text d = Some (if is_utf8 bytes then bytes else from_utf8_lossy bytes)
        \<and> is_utf8 (if is_utf8 bytes then bytes else from_utf8_lossy bytes))"
proof (cases mode)
  case DecodeAuto
  then show ?thesis
    by (cases "from_slice bytes"; cases ct)
      (simp_all add: decode_response_def infer_mode_def wants_json_def Let_def lossy_valid lossy_utf8)
qed (cases "from_slice bytes"; simp add: decode_response_def wants_json_def lossy_valid lossy_utf8)+

text \<open>What is printed of a stream went through the redactor, line by line.\<close>

lemma stream_line_redacted:
  assumes "stream_line ol rt args red json_mode env chunk = Inr (Some line)"
  shows "if json_mode then \<exists>v. line = ol_json_text ol (redact_json red v) else \<exists>t. line = redact red t"
  using assms by (auto simp: stream_line_def Let_def and_then_Inr simp del: redact_json.simps split: sum.splits if_splits)

lemma streaming_lines_redacted:
  assumes "render_streaming_output ol rt args red json_mode env chunks out = (r, out')" and "line \<in> set out'"
  shows "line \<in> set out \<or> (if json_mode then \<exists>v. line = ol_json_text ol (redact_json red v) else \<exists>t. line = redact red t)"
  using assms
proof (induction chunks arbitrary: out)
  case (Cons chunk chunks)
  show ?case
  proof (cases "stream_line ol rt args red json_mode env chunk")
    case (Inr x)
    show ?thesis
    proof (cases x)
      case None
      with Inr Cons show ?thesis by simp
    next
      case (Some l)
      with Inr Cons.prems Cons.IH [of "out @ [l]"] stream_line_redacted [of ol rt args red json_mode env chunk l]
      show ?thesis by (auto split: if_splits)
    qed
  qed (use Cons in simp)
qed simp

text \<open>
  No secret reaches the terminal from a streamed response: no printed line, nor in JSON mode
  any string in the value a line is the text of, contains a form of a secret the redactor knows.
\<close>

theorem streaming_output_redacted:
  assumes "render_streaming_output ol rt args (redactor_new enc secrets) json_mode env chunks [] = (r, out)"
    and "line \<in> set out" and "encoders_ok enc" and "secret \<in> set secrets"
    and "v \<in> set (secret_variants enc secret)" and "outside_marker v"
  shows "if json_mode then \<exists>j. line = ol_json_text ol j \<and> (\<forall>s \<in> set (json_strings j). \<not> sublist v s)
         else \<not> sublist v line"
proof -
  have clean: "\<not> sublist v (redact (redactor_new enc secrets) t)" for t
    by (rule redact_removes_listed [OF assms(4,3,5,6)])
  then have "\<forall>s \<in> set (json_strings (redact_json (redactor_new enc secrets) j)). \<not> sublist v s" for j
    by (simp add: redact_json_strings)
  with clean streaming_lines_redacted [OF assms(1,2)] show ?thesis by (auto split: if_splits)
qed

definition sample_output_libs :: "(string, json, unit, unit, unit, unit) output_libs" where
  "sample_output_libs =
     \<lparr>ol_engine = sample_engine\<lparr>mj_render_str := (\<lambda>s ctx. Inr (s @ ''=''
         @ (case json_get ctx ''result'' of Some (JString t) \<Rightarrow> t | _ \<Rightarrow> [])))\<rparr>,
      ol_extractors =
        \<lparr>ex_regex_new = (\<lambda>p. Inl ''none''), ex_captures = (\<lambda>r t. None), ex_selector_parse = (\<lambda>s. Inl ''none''),
         ex_select = (\<lambda>h s. []), ex_xml_parse = (\<lambda>x. Inl ''none''), ex_xpath_build = (\<lambda>x. Inl ''none''),
         ex_xpath_evaluate = (\<lambda>x d. Inl ''none''), ex_base64 = id\<rparr>,
      ol_json_read = (\<lambda>s. Inl ''not json''), ol_json_text = (\<lambda>j. ''?'')\<rparr>"

theorem streaming_output_redacted_witness:
  "render_streaming_output sample_output_libs
     \<lparr>rt_decode = DecodeText, rt_extract = None, rt_output = ''out'', rt_alias = None\<rparr> []
     (redactor_new hex_encoders [''hunt'']) False None
     [\<lparr>sc_data = ''pw hunt'', sc_content_type = None\<rparr>] [] = (Inr (), [''out=pw [REDACTED]''])
   \<and> \<not> sublist ''hunt'' ''out=pw [REDACTED]''"
proof -
  have red: "redactor_new hex_encoders [''hunt''] = \<lparr>red_secrets = [''hunt'']\<rparr>"
    by (simp add: redactor_new_def secret_variants_def)
  have run: "render_streaming_output sample_output_libs
     \<lparr>rt_decode = DecodeText, rt_extract = None, rt_output = ''out'', rt_alias = None\<rparr> []
     (redactor_new hex_encoders [''hunt'']) False None
     [\<lparr>sc_data = ''pw hunt'', sc_content_type = None\<rparr>] [] = (Inr (), [''out=pw [REDACTED]''])"
    unfolding red by code_simp
  have "encoders_ok hex_encoders"
    by (simp add: encoders_ok_def hex_encoders_def hex_encode_Nil_iff)
  from streaming_output_redacted [OF run _ this, of "''out=pw [REDACTED]''" "''hunt''" "''hunt''"] run
  show ?thesis by (simp add: secret_variants_def outside_marker_def sublist_Cons_right)
qed

end
