(* ===== verification/Sse.thy ===== *)
theory Sse
  imports RustStr
begin

text \<open>
  The reader of server-sent events \<open>crates/earl-protocol-http/src/sse.rs\<close>: text arrives in
  chunks, complete blocks become events, the rest stays in the buffer. The buffer is the parser's
  whole state.
\<close>

section \<open>The parser\<close>

record sse_event =
  ev_type :: "string option"
  ev_data :: string
  ev_id :: "string option"

abbreviation lf :: char where "lf \<equiv> CHR 0x0A"
abbreviation cr :: char where "cr \<equiv> CHR 0x0D"

abbreviation blank_lf :: string where "blank_lf \<equiv> [lf, lf]"
abbreviation blank_crlf :: string where "blank_crlf \<equiv> [cr, lf, cr, lf]"

definition field_value :: "string \<Rightarrow> string" where
  "field_value rest = (case strip_prefix '' '' rest of Some v \<Rightarrow> v | None \<Rightarrow> rest)"

text \<open>The loop variables of \<open>parse_block\<close>: the data lines, the event type, the id.\<close>

type_synonym block_state = "string list \<times> string option \<times> string option"

definition parse_line :: "string \<Rightarrow> block_state \<Rightarrow> block_state" where
  "parse_line line = (\<lambda>(data_lines, event_type, id).
     (if prefix '':'' line then (data_lines, event_type, id)
      else case strip_prefix ''data:'' line of
        Some rest \<Rightarrow> (data_lines @ [field_value rest], event_type, id)
      | None \<Rightarrow>
     (case strip_prefix ''event:'' line of
        Some rest \<Rightarrow> (data_lines, Some (field_value rest), id)
      | None \<Rightarrow>
     (case strip_prefix ''id:'' line of
        Some rest \<Rightarrow> (data_lines, event_type, Some (field_value rest))
      | None \<Rightarrow> (data_lines, event_type, id)))))"

definition parse_block :: "string \<Rightarrow> sse_event option" where
  "parse_block block =
     (let (data_lines, event_type, id) = fold parse_line (str_lines block) ([], None, None)
      in if data_lines = [] then None
         else Some \<lparr>ev_type = event_type, ev_data = str_join [lf] data_lines, ev_id = id\<rparr>)"

definition boundary :: "string \<Rightarrow> (nat \<times> nat) option" where
  "boundary buffer =
     (case str_find blank_lf buffer of
        Some pos \<Rightarrow> Some (pos, 2)
      | None \<Rightarrow> (case str_find blank_crlf buffer of Some pos \<Rightarrow> Some (pos, 4) | None \<Rightarrow> None))"

lemma boundary_Some:
  "boundary s = Some (pos, n) \<Longrightarrow> 0 < n \<and> pos + n \<le> length s"
  by (auto simp: boundary_def split: option.splits dest: str_find_Some)

function drain_blocks :: "string \<Rightarrow> sse_event list \<times> string" where
  "drain_blocks buffer =
     (case boundary buffer of
        None \<Rightarrow> ([], buffer)
      | Some (pos, sep_len) \<Rightarrow>
          (let (events, rest) = drain_blocks (drop (pos + sep_len) buffer)
           in (case parse_block (take pos buffer) of Some e \<Rightarrow> e # events | None \<Rightarrow> events, rest)))"
  by pat_completeness auto
termination
  by (relation "measure length") (auto dest: boundary_Some)

declare drain_blocks.simps [simp del]

text \<open>\<open>feed\<close> and \<open>flush\<close> on the parser's buffer.\<close>

definition sse_new :: string where
  "sse_new = []"

definition sse_feed :: "string \<Rightarrow> string \<Rightarrow> sse_event list \<times> string" where
  "sse_feed input buffer = drain_blocks (buffer @ input)"

definition sse_flush :: "string \<Rightarrow> sse_event option \<times> string" where
  "sse_flush buffer =
     (let block = trim buffer in (if block = [] then None else parse_block block, []))"

fun sse_feeds :: "string list \<Rightarrow> string \<Rightarrow> sse_event list \<times> string" where
  "sse_feeds [] buffer = ([], buffer)"
| "sse_feeds (input # inputs) buffer =
     (let (events, buffer) = sse_feed input buffer; (more, buffer) = sse_feeds inputs buffer
      in (events @ more, buffer))"

section \<open>Chunk boundaries\<close>

lemma prefix_long: "prefix p (s @ t) \<Longrightarrow> length p \<le> length s \<Longrightarrow> prefix p s"
  by (metis prefix_append append_eq_append_conv2 prefix_length_prefix prefixI)

lemma str_find_append: "str_find p s = Some i \<Longrightarrow> str_find p (s @ t) = Some i"
proof (induction s arbitrary: i)
  case Nil
  then show ?case by (cases t) (auto split: if_splits)
next
  case (Cons c s)
  show ?case
  proof (cases "prefix p (c # s)")
    case True
    with Cons.prems show ?thesis using prefix_prefix [of p "c # s" t] by simp
  next
    case False
    with Cons.prems obtain j where j: "str_find p s = Some j" "i = Suc j" by auto
    have "\<not> prefix p ((c # s) @ t)"
      using prefix_long [of p "c # s" t] False str_find_Some [OF j(1)] by auto
    with Cons.IH [OF j(1)] j False show ?thesis by simp
  qed
qed

lemma str_find_None_append: "str_find p (s @ t) = None \<Longrightarrow> str_find p s = None"
  using str_find_append [of p s _ t] by (cases "str_find p s") auto

lemma str_find_drop_None: "str_find p s = None \<Longrightarrow> str_find p (drop n s) = None"
  unfolding str_find_None by (meson sublist_drop sublist_order.order_trans)

text \<open>Text with one kind of blank line only.\<close>

definition one_ending :: "string \<Rightarrow> bool" where
  "one_ending s \<longleftrightarrow> str_find blank_lf s = None \<or> str_find blank_crlf s = None"

lemma one_ending_drop: "one_ending s \<Longrightarrow> one_ending (drop n s)"
  by (auto simp: one_ending_def str_find_drop_None)

lemma boundary_append: "one_ending (s @ t) \<Longrightarrow> boundary s = Some b \<Longrightarrow> boundary (s @ t) = Some b"
  by (auto simp: boundary_def one_ending_def str_find_append split: option.splits dest: str_find_None_append)

lemma drain_None: "boundary s = None \<Longrightarrow> drain_blocks s = ([], s)"
  by (subst drain_blocks.simps) simp

lemma drain_Some:
  assumes "boundary s = Some (pos, n)" and "drain_blocks (drop (pos + n) s) = (events, rest)"
  shows "drain_blocks s = ((case parse_block (take pos s) of Some e \<Rightarrow> e # events | None \<Rightarrow> events), rest)"
  using assms by (subst drain_blocks.simps) simp

lemma drain_append:
  "one_ending (s @ t) \<Longrightarrow> drain_blocks s = (events, rest) \<Longrightarrow> drain_blocks (rest @ t) = (events', rest') \<Longrightarrow>
     drain_blocks (s @ t) = (events @ events', rest')"
proof (induction "length s" arbitrary: s events rule: less_induct)
  case less
  show ?case
  proof (cases "boundary s")
    case None
    with less.prems show ?thesis by (simp add: drain_None)
  next
    case (Some b)
    obtain pos n where b: "b = (pos, n)" by (cases b)
    obtain tl_events tl_rest where tail: "drain_blocks (drop (pos + n) s) = (tl_events, tl_rest)" by fastforce
    from drain_Some [OF Some [unfolded b] this] less.prems(2)
    have events: "events = (case parse_block (take pos s) of Some e \<Rightarrow> e # tl_events | None \<Rightarrow> tl_events)"
      and rest: "tl_rest = rest" by simp_all
    have len: "0 < n" "pos + n \<le> length s" using boundary_Some Some b by blast+
    then have drop: "drop (pos + n) (s @ t) = drop (pos + n) s @ t" and take: "take pos (s @ t) = take pos s" by simp_all
    have "drain_blocks (drop (pos + n) s @ t) = (tl_events @ events', rest')"
      using less.hyps [of "drop (pos + n) s" tl_events] len tail rest less.prems(3)
        one_ending_drop [OF less.prems(1), of "pos + n"] drop by simp
    moreover have "boundary (s @ t) = Some (pos, n)" using boundary_append [OF less.prems(1) Some] b by simp
    ultimately show ?thesis
      using drain_Some [of "s @ t" pos n, unfolded drop take] events
      by (cases "parse_block (take pos s)") simp_all
  qed
qed

lemma drain_rest: "drain_blocks s = (events, rest) \<Longrightarrow> boundary rest = None \<and> (\<exists>n. n \<le> length s \<and> rest = drop n s)"
proof (induction "length s" arbitrary: s events rule: less_induct)
  case less
  show ?case
  proof (cases "boundary s")
    case None
    with less.prems show ?thesis by (auto simp: drain_None intro: exI [of _ 0])
  next
    case (Some b)
    obtain pos n where b: "b = (pos, n)" by (cases b)
    obtain tl_events tl_rest where tail: "drain_blocks (drop (pos + n) s) = (tl_events, tl_rest)" by fastforce
    from drain_Some [OF Some [unfolded b] this] less.prems have rest: "tl_rest = rest" by simp
    have len: "0 < n" "pos + n \<le> length s" using boundary_Some Some b by blast+
    then have "boundary rest = None \<and> (\<exists>k. k \<le> length (drop (pos + n) s) \<and> rest = drop k (drop (pos + n) s))"
      using tail rest by (intro less.hyps [of "drop (pos + n) s" tl_events]) auto
    then obtain k where "boundary rest = None" "k \<le> length s - (pos + n)" "rest = drop k (drop (pos + n) s)"
      by (metis length_drop)
    then show ?thesis using len by (intro conjI exI [of _ "k + (pos + n)"]) auto
  qed
qed

lemma feeds_drain:
  "one_ending (buffer @ concat inputs) \<Longrightarrow> boundary buffer = None \<Longrightarrow>
     sse_feeds inputs buffer = drain_blocks (buffer @ concat inputs)"
proof (induction inputs arbitrary: buffer)
  case Nil
  then show ?case by (simp add: drain_None)
next
  case (Cons input inputs)
  obtain events rest where d: "drain_blocks (buffer @ input) = (events, rest)" by fastforce
  obtain events' rest' where d': "drain_blocks (rest @ concat inputs) = (events', rest')" by fastforce
  have one: "one_ending ((buffer @ input) @ concat inputs)" using Cons.prems(1) by simp
  from drain_append [OF one d d'] have whole: "drain_blocks (buffer @ concat (input # inputs)) = (events @ events', rest')"
    by simp
  from drain_rest [OF d] obtain n where n: "boundary rest = None" "n \<le> length (buffer @ input)"
    "rest = drop n (buffer @ input)" by blast
  then have "one_ending (rest @ concat inputs)" using one_ending_drop [OF one, of n] by simp
  from Cons.IH [OF this n(1)] d' have "sse_feeds inputs rest = (events', rest')" by simp
  with whole d show ?case by (simp add: sse_feed_def)
qed

text \<open>
  How the network cuts a stream into chunks does not change its events, nor what is left in the
  buffer, as long as the stream uses one kind of blank line.
\<close>

theorem sse_chunking_invariant:
  assumes "concat inputs = concat inputs'" and "one_ending (concat inputs)"
  shows "sse_feeds inputs sse_new = sse_feeds inputs' sse_new"
proof -
  have "sse_feeds xs sse_new = drain_blocks (concat xs)" if "one_ending (concat xs)" for xs
    using that feeds_drain [of sse_new xs] by (simp add: boundary_def sse_new_def)
  with assms show ?thesis by metis
qed

theorem sse_chunking_invariant_witness:
  "sse_feeds [''data: hel'', ''lo'' @ blank_lf @ ''data: x''] sse_new
     = sse_feeds [''data: hello'' @ [lf], [lf] @ ''data: x''] sse_new"
proof (rule sse_chunking_invariant)
  show "one_ending (concat [''data: hel'', ''lo'' @ blank_lf @ ''data: x''])" by code_simp
qed simp

text \<open>With both kinds the cuts matter: two events become one whose data has a stray line.\<close>

lemma mixed_endings_depend_on_chunks:
  "length (fst (sse_feeds [''data: a'' @ blank_crlf, ''data: b'' @ blank_lf] sse_new)) = 2"
  "fst (sse_feeds [''data: a'' @ blank_crlf @ ''data: b'' @ blank_lf] sse_new)
     = [\<lparr>ev_type = None, ev_data = ''a'' @ [lf] @ ''b'', ev_id = None\<rparr>]"
  by code_simp+

section \<open>Writing events and reading them back\<close>

text \<open>The lines of an event, as a server writes it.\<close>

definition data_line :: "string \<Rightarrow> string" where
  "data_line l = ''data: '' @ l"

definition event_lines :: "sse_event \<Rightarrow> string list" where
  "event_lines e =
     (case ev_type e of Some t \<Rightarrow> [''event: '' @ t] | None \<Rightarrow> [])
     @ (case ev_id e of Some i \<Rightarrow> [''id: '' @ i] | None \<Rightarrow> [])
     @ map data_line (split_char lf (ev_data e))"

definition write_event :: "sse_event \<Rightarrow> string" where
  "write_event e = str_join [lf] (event_lines e) @ blank_lf"

definition writable :: "sse_event \<Rightarrow> bool" where
  "writable e \<longleftrightarrow>
     cr \<notin> set (ev_data e)
     \<and> (case ev_type e of Some t \<Rightarrow> cr \<notin> set t \<and> lf \<notin> set t | None \<Rightarrow> True)
     \<and> (case ev_id e of Some i \<Rightarrow> cr \<notin> set i \<and> lf \<notin> set i | None \<Rightarrow> True)"

definition plain_line :: "string \<Rightarrow> bool" where
  "plain_line l \<longleftrightarrow> l \<noteq> [] \<and> lf \<notin> set l \<and> cr \<notin> set l"

lemma set_split_char: "w \<in> set (split_char d s) \<Longrightarrow> set w \<subseteq> set s"
  by (induction s arbitrary: w) (force split: list.splits if_splits)+

lemma event_lines_plain:
  assumes "writable e"
  shows "event_lines e \<noteq> [] \<and> (\<forall>l \<in> set (event_lines e). plain_line l)"
proof -
  have "plain_line (data_line l)" if "l \<in> set (split_char lf (ev_data e))" for l
    using that split_char_no_sep [OF that] set_split_char [OF that] assms by (auto simp: plain_line_def writable_def data_line_def)
  with assms show ?thesis
    by (auto simp: event_lines_def writable_def plain_line_def split: option.splits)
qed

lemma str_find_skip: "lf \<notin> set l \<Longrightarrow> str_find blank_lf (l @ s) = map_option ((+) (length l)) (str_find blank_lf s)"
  by (induction l) (auto simp: option.map_comp comp_def map_option.id [unfolded id_def] cong: map_option_cong)

lemma find_blank:
  "ls \<noteq> [] \<Longrightarrow> \<forall>l \<in> set ls. plain_line l \<Longrightarrow>
     str_find blank_lf (str_join [lf] ls @ blank_lf @ rest) = Some (length (str_join [lf] ls))"
proof (induction ls rule: induct_list012)
  case (2 l)
  then show ?case by (simp add: str_find_skip plain_line_def)
next
  case (3 l m ls)
  then have IH: "str_find blank_lf (str_join [lf] (m # ls) @ blank_lf @ rest) = Some (length (str_join [lf] (m # ls)))"
    by simp
  have m: "m \<noteq> []" "hd m \<noteq> lf" using 3(4) hd_in_set [of m] by (fastforce simp: plain_line_def)+
  then have "str_join [lf] (m # ls) \<noteq> [] \<and> hd (str_join [lf] (m # ls)) \<noteq> lf" by (cases ls) auto
  then have "\<not> prefix blank_lf (lf # str_join [lf] (m # ls) @ blank_lf @ rest)"
    by (cases "str_join [lf] (m # ls)") auto
  with IH 3(4) show ?case by (simp add: str_find_skip plain_line_def)
qed simp

lemma split_join: "ls \<noteq> [] \<Longrightarrow> \<forall>l \<in> set ls. lf \<notin> set l \<Longrightarrow> split_char lf (str_join [lf] ls) = ls"
proof (induction ls rule: induct_list012)
  case (2 l)
  then have "lf \<notin> set l" by simp
  then show ?case by (induction l) auto
next
  case (3 l m ls)
  have "split_char lf (l @ lf # s) = l # split_char lf s" if "lf \<notin> set l" for l s
    using that by (induction l) auto
  with 3 show ?case by simp
qed simp

lemma lines_join:
  assumes "ls \<noteq> []" and "\<forall>l \<in> set ls. plain_line l"
  shows "str_lines (str_join [lf] ls) = ls"
proof -
  have "strip_cr l = l" if "l \<in> set ls" for l
  proof -
    from assms(2) that have "l \<noteq> []" "cr \<notin> set l" by (simp_all add: plain_line_def)
    then have "last l \<noteq> cr" using last_in_set [of l] by metis
    then show ?thesis by (simp add: strip_cr_def)
  qed
  then have "map strip_cr (butlast ls) = butlast ls" by (intro map_idI) (auto dest: in_set_butlastD)
  moreover have "last ls \<noteq> []" using assms by (auto simp: plain_line_def)
  ultimately show ?thesis
    using assms split_join [of ls] by (simp add: plain_line_def)
qed

lemma parse_data_lines:
  "fold parse_line (map data_line ds) (acc, t, i) = (acc @ ds, t, i)"
  by (induction ds arbitrary: acc) (simp_all add: parse_line_def strip_prefix_def field_value_def data_line_def)

lemma parse_event_lines:
  "fold parse_line (event_lines e) ([], None, None) = (split_char lf (ev_data e), ev_type e, ev_id e)"
  by (auto simp: event_lines_def parse_data_lines parse_line_def strip_prefix_def field_value_def split: option.splits)

lemma parse_written:
  assumes "writable e"
  shows "parse_block (str_join [lf] (event_lines e)) = Some e"
  using event_lines_plain [OF assms]
  by (simp add: parse_block_def lines_join parse_event_lines join_split_char del: str_lines.simps)

lemma drain_written:
  "writable e \<Longrightarrow> drain_blocks (write_event e @ rest) =
     (e # fst (drain_blocks rest), snd (drain_blocks rest))"
proof -
  assume e: "writable e"
  let ?b = "str_join [lf] (event_lines e)"
  have "boundary (write_event e @ rest) = Some (length ?b, 2)"
    using event_lines_plain [OF e] find_blank [of "event_lines e" rest] by (simp add: boundary_def write_event_def)
  from drain_Some [OF this, of "fst (drain_blocks rest)" "snd (drain_blocks rest)"]
  show ?thesis by (simp add: write_event_def parse_written [OF e])
qed

lemma drain_all_written:
  "list_all writable es \<Longrightarrow> drain_blocks (concat (map write_event es)) = (es, [])"
proof (induction es)
  case Nil
  show ?case by (simp add: drain_None boundary_def)
next
  case (Cons e es)
  then show ?case by (simp add: drain_written)
qed

text \<open>
  Events written out by a server, each with its type, id and data lines, are read back exactly,
  in order, when the stream arrives.
\<close>

theorem sse_write_read:
  "list_all writable es \<Longrightarrow> sse_feed (concat (map write_event es)) sse_new = (es, [])"
  by (simp add: sse_feed_def sse_new_def drain_all_written)

theorem sse_write_read_witness:
  "sse_feed (concat (map write_event
      [\<lparr>ev_type = Some ''update'', ev_data = ''a'' @ [lf] @ ''b'', ev_id = None\<rparr>,
       \<lparr>ev_type = None, ev_data = [], ev_id = Some ''7''\<rparr>])) sse_new
   = ([\<lparr>ev_type = Some ''update'', ev_data = ''a'' @ [lf] @ ''b'', ev_id = None\<rparr>,
       \<lparr>ev_type = None, ev_data = [], ev_id = Some ''7''\<rparr>], [])"
  by (rule sse_write_read) (simp add: writable_def)

end
