(* ===== verification/Http.thy ===== *)
theory Http
  imports Exec Builders Ssrf Sse
begin

text \<open>
  The HTTP and GraphQL executors \<open>crates/earl-protocol-http/src/executor.rs\<close>, buffered and
  streaming. The network, the host validator and the request library are an interface over a state;
  the model adds a log of the requests put on the wire, each with the client it was sent by. Every
  hop of a redirect chain checks the allowlist, validates the host and pins the client to the
  validated addresses before it sends.
\<close>

section \<open>The network\<close>

text \<open>What \<open>build_http_client\<close> configures. The library's own redirects are always off.\<close>

record http_client =
  hc_timeout_ms :: nat
  hc_compression :: bool
  hc_tls_min :: "tls_version option"
  hc_proxy :: "string option"
  hc_host :: string
  hc_addrs :: "(ip_addr \<times> u16) list"

record http_request =
  hq_method :: string
  hq_url :: url
  hq_query :: "(string \<times> string) list"
  hq_headers :: "(string \<times> string) list"
  hq_body :: prepared_body

text \<open>A response: \<open>Location\<close> and \<open>Content-Type\<close> as the text they hold or the error of
  reading them as text, and what each call of \<open>chunk()\<close> gives until the body ends.\<close>

record http_response =
  hr_status :: u16
  hr_location :: "(string + string) option"
  hr_content_type :: "(string + string) option"
  hr_chunks :: "(string + string) list"

record 's http_net =
  hn_validate :: "url \<Rightarrow> ('s, ip_addr list) action"
  hn_send :: "http_client \<Rightarrow> http_request \<Rightarrow> 's \<Rightarrow> (string + http_response) \<times> 's"
  hn_join :: "url \<Rightarrow> string \<Rightarrow> string + url"
  hn_header_name :: "string \<Rightarrow> string + string"
  hn_header_value :: "string \<Rightarrow> string + string"
  hn_mime :: "string \<Rightarrow> string + unit"
  hn_proxy :: "string \<Rightarrow> string + unit"
  hn_build :: "http_client \<Rightarrow> string + unit"

record 's net_state =
  ns_world :: 's
  ns_sent :: "(http_client \<times> http_request) list"

section \<open>Requests\<close>

definition build_http_client ::
    "'s http_net \<Rightarrow> execution_context \<Rightarrow> url \<Rightarrow> ip_addr list \<Rightarrow> http_client result" where
  "build_http_client hn ctx u resolved_ips =
     (if resolved_ips = [] then bail ''host validation returned no resolved IP addresses''
      else
      and_then (case rv_proxy_url (ec_transport ctx) of
                  None \<Rightarrow> Inr ()
                | Some proxy \<Rightarrow>
                    with_context (''invalid proxy URL `'' @ proxy @ ''`'') (library (hn_proxy hn proxy))) (\<lambda>_.
      and_then (ok_or [''request URL missing host''] (url_host_str u)) (\<lambda>host.
      and_then (ok_or [''request URL missing port''] (url_port_or_known_default u)) (\<lambda>port.
      let client = \<lparr>hc_timeout_ms = rv_timeout_ms (ec_transport ctx),
                    hc_compression = rv_compression (ec_transport ctx),
                    hc_tls_min = rv_tls_min_version (ec_transport ctx),
                    hc_proxy = rv_proxy_url (ec_transport ctx), hc_host = host,
                    hc_addrs = map (\<lambda>ip. (ip, port)) resolved_ips\<rparr>
      in and_then (with_context ''failed constructing reqwest client'' (library (hn_build hn client))) (\<lambda>_.
         Inr client)))))"

definition header_insert :: "string \<Rightarrow> string \<Rightarrow> (string \<times> string) list \<Rightarrow> (string \<times> string) list" where
  "header_insert name v headers = filter (\<lambda>(k, _). k \<noteq> name) headers @ [(name, v)]"

definition append_header ::
    "'s http_net \<Rightarrow> string \<times> string \<Rightarrow> (string \<times> string) list \<Rightarrow> (string \<times> string) list result" where
  "append_header hn = (\<lambda>(name, v) header_map.
     and_then (with_context (''invalid header name `'' @ name @ ''`'') (library (hn_header_name hn name))) (\<lambda>header_name.
     and_then (with_context (''invalid header value for `'' @ name @ ''`'') (library (hn_header_value hn v))) (\<lambda>header_value.
     Inr (header_map @ [(header_name, header_value)]))))"

definition build_multipart :: "'s http_net \<Rightarrow> prepared_multipart_part list \<Rightarrow> unit result" where
  "build_multipart hn parts =
     try_for_each (\<lambda>part. case mp_content_type part of
        None \<Rightarrow> Inr () | Some content_type \<Rightarrow> library (hn_mime hn content_type)) parts"

definition request_headers ::
    "'s http_net \<Rightarrow> (string \<times> string) list \<Rightarrow> (string \<times> string) list \<Rightarrow> (string \<times> string) list result" where
  "request_headers hn headers cookies =
     and_then (try_fold (append_header hn) headers []) (\<lambda>header_map.
     if cookies \<noteq> [] then
       and_then (with_context ''invalid cookie header value''
         (library (hn_header_value hn (str_join ''; '' (map (\<lambda>(k, v). k @ ''='' @ v) cookies))))) (\<lambda>v.
       Inr (header_insert ''cookie'' v header_map))
     else Inr header_map)"

definition build_request ::
    "'s http_net \<Rightarrow> string \<Rightarrow> url \<Rightarrow> (string \<times> string) list \<Rightarrow> (string \<times> string) list \<Rightarrow>
     (string \<times> string) list \<Rightarrow> prepared_body \<Rightarrow> http_request result" where
  "build_request hn meth u headers cookies query body =
     and_then (request_headers hn headers cookies) (\<lambda>header_map.
     and_then (case body of MultipartBody parts \<Rightarrow> build_multipart hn parts | _ \<Rightarrow> Inr ()) (\<lambda>_.
     Inr \<lparr>hq_method = meth, hq_url = u, hq_query = query, hq_headers = header_map, hq_body = body\<rparr>))"

text \<open>\<open>usize::saturating_add\<close> on lengths.\<close>

definition sat_add :: "nat \<Rightarrow> nat \<Rightarrow> nat" where
  "sat_add a b = min (a + b) (2 ^ 64 - 1)"

fun read_response_body_limited :: "(string + string) list \<Rightarrow> usize \<Rightarrow> string \<Rightarrow> string result" where
  "read_response_body_limited [] limit out = Inr out"
| "read_response_body_limited (Inl e # chunks) limit out = Inl [e]"
| "read_response_body_limited (Inr chunk # chunks) limit out =
     (if sat_add (length out) (length chunk) > unat limit
      then bail (''response body exceeded configured max_response_bytes ('' @ show_nat (unat limit) @ '' bytes)'')
      else read_response_body_limited chunks limit (out @ chunk))"

section \<open>Redirects\<close>

definition is_redirection :: "u16 \<Rightarrow> bool" where
  "is_redirection status \<longleftrightarrow> 300 \<le> status \<and> status < 400"

text \<open>A hop ends in a redirect to follow or in the response to return.\<close>

datatype hop_outcome = HopRedirect string prepared_body url | HopResponse http_response

definition send_logged ::
    "'s http_net \<Rightarrow> http_client \<Rightarrow> http_request \<Rightarrow> ('s net_state, http_response) action" where
  "send_logged hn client request st =
     (case hn_send hn client request (ns_world st) of
        (r, w) \<Rightarrow> (with_context (''request execution failed for `'' @ url_as_str (hq_url request) @ ''`'') (library r),
                    \<lparr>ns_world = w, ns_sent = ns_sent st @ [(client, request)]\<rparr>))"

definition validate_host :: "'s http_net \<Rightarrow> url \<Rightarrow> ('s net_state, ip_addr list) action" where
  "validate_host hn u st = (case hn_validate hn u (ns_world st) of (r, w) \<Rightarrow> (r, st\<lparr>ns_world := w\<rparr>))"

definition redirect_target ::
    "'s http_net \<Rightarrow> execution_context \<Rightarrow> nat \<Rightarrow> url \<Rightarrow> http_response \<Rightarrow> url result" where
  "redirect_target hn ctx hop u response =
     (if hop \<ge> unat (rv_max_redirect_hops (ec_transport ctx))
      then bail (''maximum redirect hops reached ('' @ show_nat (unat (rv_max_redirect_hops (ec_transport ctx))) @ '')'')
      else
      and_then (ok_or [''redirect response missing Location header''] (hr_location response)) (\<lambda>value.
      and_then (with_context ''redirect Location header is not valid UTF-8'' (library value)) (\<lambda>location.
      with_context (''invalid redirect Location `'' @ location @ ''`'') (library (hn_join hn u location)))))"

definition http_hop ::
    "'s http_net \<Rightarrow> prepared_http_data \<Rightarrow> execution_context \<Rightarrow> nat \<Rightarrow> string \<Rightarrow> prepared_body \<Rightarrow> url \<Rightarrow>
     ('s net_state, hop_outcome) action" where
  "http_hop hn http_data ctx hop meth body u =
     act_bind (act_lift (ensure_url_allowed u (ec_allow_rules ctx))) (\<lambda>_.
     act_bind (validate_host hn u) (\<lambda>resolved_ips.
     act_bind (act_lift (build_http_client hn ctx u resolved_ips)) (\<lambda>client.
     act_bind (act_lift (build_request hn meth u (ph_headers http_data) (ph_cookies http_data)
                           (ph_query http_data) body)) (\<lambda>request.
     act_bind (send_logged hn client request) (\<lambda>response.
     if is_redirection (hr_status response) \<and> rv_follow_redirects (ec_transport ctx)
     then act_bind (act_lift (redirect_target hn ctx hop u response)) (\<lambda>new_url.
          if hr_status response = 303
             \<or> (hr_status response = 301 \<or> hr_status response = 302) \<and> meth = ''POST''
          then act_return (HopRedirect ''GET'' EmptyBody new_url)
          else act_return (HopRedirect meth body new_url))
     else act_return (HopResponse response))))))"

function http_hops ::
    "'s http_net \<Rightarrow> prepared_http_data \<Rightarrow> execution_context \<Rightarrow> nat \<Rightarrow> string \<Rightarrow> prepared_body \<Rightarrow> url \<Rightarrow>
     ('s net_state, http_response \<times> url) action" where
  "http_hops hn http_data ctx hop meth body u st =
     (if hop > unat (rv_max_redirect_hops (ec_transport ctx))
      then (bail ''redirect handling failed unexpectedly'', st)
      else case http_hop hn http_data ctx hop meth body u st of
             (Inl e, st') \<Rightarrow> (Inl e, st')
           | (Inr (HopRedirect meth' body' u'), st') \<Rightarrow> http_hops hn http_data ctx (Suc hop) meth' body' u' st'
           | (Inr (HopResponse response), st') \<Rightarrow> (Inr (response, u), st'))"
  by pat_completeness auto
termination
  by (relation "measure (\<lambda>(hn, http_data, ctx, hop, rest). Suc (unat (rv_max_redirect_hops (ec_transport ctx))) - hop)")
    auto

declare http_hops.simps [simp del]

text \<open>A content type that is not text counts as absent.\<close>

definition content_type_of :: "http_response \<Rightarrow> string option" where
  "content_type_of response = (case hr_content_type response of Some (Inr v) \<Rightarrow> Some v | _ \<Rightarrow> None)"

definition execute_http_once ::
    "'s http_net \<Rightarrow> prepared_http_data \<Rightarrow> execution_context \<Rightarrow> ('s net_state, raw_execution_result) action" where
  "execute_http_once hn http_data ctx =
     act_bind (http_hops hn http_data ctx 0 (ph_method http_data) (ph_body http_data) (ph_url http_data)) (\<lambda>(response, u).
     act_bind (act_lift (read_response_body_limited (hr_chunks response)
                           (rv_max_response_bytes (ec_transport ctx)) [])) (\<lambda>body_bytes.
     act_return \<lparr>raw_status = hr_status response, raw_url = url_as_str u, raw_body = body_bytes,
                 raw_content_type = content_type_of response\<rparr>))"

section \<open>Streaming\<close>

text \<open>The channel to the consumer: what it took, and how many more chunks it takes before it hangs
  up, if it does.\<close>

record channel =
  ch_taken :: "stream_chunk list"
  ch_left :: "nat option"

definition channel_send :: "stream_chunk \<Rightarrow> channel \<Rightarrow> bool \<times> channel" where
  "channel_send chunk ch =
     (if ch_left ch = Some 0 then (False, ch)
      else (True, \<lparr>ch_taken = ch_taken ch @ [chunk], ch_left = map_option (\<lambda>n. n - 1) (ch_left ch)\<rparr>))"

definition limit_error :: "usize \<Rightarrow> string" where
  "limit_error limit = ''streaming response exceeded configured max_response_bytes ('' @ show_nat (unat limit) @ '' bytes)''"

text \<open>The loop variables while streaming: bytes so far, the bytes not yet text, the parser's buffer
  and the channel.\<close>

record stream_state =
  st_total :: nat
  st_utf8 :: string
  st_sse :: string
  st_channel :: channel

text \<open>Sending events in turn: \<open>True\<close> when all were taken, \<open>False\<close> when the consumer hung up.\<close>

fun send_events :: "usize \<Rightarrow> sse_event list \<Rightarrow> (stream_state, bool) action" where
  "send_events limit [] s = (Inr True, s)"
| "send_events limit (e # events) s =
     (let s = s\<lparr>st_total := sat_add (st_total s) (length (ev_data e))\<rparr>
      in if st_total s > unat limit then (bail (limit_error limit), s)
         else case channel_send \<lparr>sc_data = ev_data e, sc_content_type = None\<rparr> (st_channel s) of
                (True, ch) \<Rightarrow> send_events limit events (s\<lparr>st_channel := ch\<rparr>)
              | (False, ch) \<Rightarrow> (Inr False, s\<lparr>st_channel := ch\<rparr>))"

text \<open>After the last chunk a hang-up is ignored.\<close>

fun send_last :: "usize \<Rightarrow> sse_event list \<Rightarrow> (stream_state, unit) action" where
  "send_last limit [] s = (Inr (), s)"
| "send_last limit (e # events) s =
     (let s = s\<lparr>st_total := sat_add (st_total s) (length (ev_data e))\<rparr>
      in if st_total s > unat limit then (bail (limit_error limit), s)
         else send_last limit events
           (s\<lparr>st_channel := snd (channel_send \<lparr>sc_data = ev_data e, sc_content_type = None\<rparr> (st_channel s))\<rparr>))"

text \<open>One chunk of an event stream; the result says whether to go on.\<close>

definition sse_chunk :: "usize \<Rightarrow> string \<Rightarrow> (stream_state, bool) action" where
  "sse_chunk limit chunk s =
     (let s = s\<lparr>st_utf8 := st_utf8 s @ chunk\<rparr>;
          valid = valid_up_to (st_utf8 s)
      in if length (st_utf8 s) > unat limit then (bail (limit_error limit), s)
         else if valid = 0 then (Inr True, s)
         else let (events, buffer) = sse_feed (take valid (st_utf8 s)) (st_sse s)
              in send_events limit events (s\<lparr>st_sse := buffer, st_utf8 := drop valid (st_utf8 s)\<rparr>))"

definition plain_chunk :: "usize \<Rightarrow> string option \<Rightarrow> string \<Rightarrow> (stream_state, bool) action" where
  "plain_chunk limit content_type chunk s =
     (let s = s\<lparr>st_total := sat_add (st_total s) (length chunk)\<rparr>
      in if st_total s > unat limit then (bail (limit_error limit), s)
         else case channel_send \<lparr>sc_data = chunk, sc_content_type = content_type\<rparr> (st_channel s) of
                (taken, ch) \<Rightarrow> (Inr taken, s\<lparr>st_channel := ch\<rparr>))"

fun stream_chunks ::
    "(string \<Rightarrow> (stream_state, bool) action) \<Rightarrow> (string + string) list \<Rightarrow> (stream_state, bool) action" where
  "stream_chunks step [] s = (Inr True, s)"
| "stream_chunks step (Inl e # chunks) s = (Inl [e], s)"
| "stream_chunks step (Inr chunk # chunks) s =
     (case step chunk s of
        (Inl e, s') \<Rightarrow> (Inl e, s')
      | (Inr False, s') \<Rightarrow> (Inr False, s')
      | (Inr True, s') \<Rightarrow> stream_chunks step chunks s')"

definition finish_sse :: "usize \<Rightarrow> (stream_state, unit) action" where
  "finish_sse limit s =
     act_bind (\<lambda>s. if is_utf8 (st_utf8 s) \<and> st_utf8 s \<noteq> []
                   then (let (events, buffer) = sse_feed (st_utf8 s) (st_sse s)
                         in send_last limit events (s\<lparr>st_sse := buffer\<rparr>))
                   else (Inr (), s)) (\<lambda>_ s.
       (case sse_flush (st_sse s) of
          (Some e, buffer) \<Rightarrow> send_last limit [e] (s\<lparr>st_sse := buffer\<rparr>)
        | (None, buffer) \<Rightarrow> (Inr (), s\<lparr>st_sse := buffer\<rparr>))) s"

definition is_event_stream :: "string option \<Rightarrow> bool" where
  "is_event_stream content_type = (case content_type of Some ct \<Rightarrow> prefix ''text/event-stream'' ct | None \<Rightarrow> False)"

definition stream_run :: "usize \<Rightarrow> http_response \<Rightarrow> (stream_state, unit) action" where
  "stream_run limit response =
     (let content_type = content_type_of response
      in if is_event_stream content_type
         then act_bind (stream_chunks (sse_chunk limit) (hr_chunks response)) (\<lambda>all.
                if all then finish_sse limit else act_return ())
         else act_bind (stream_chunks (plain_chunk limit content_type) (hr_chunks response)) (\<lambda>_. act_return ()))"

definition stream_start :: "channel \<Rightarrow> stream_state" where
  "stream_start ch = \<lparr>st_total = 0, st_utf8 = [], st_sse = sse_new, st_channel = ch\<rparr>"

definition stream_body :: "usize \<Rightarrow> http_response \<Rightarrow> channel \<Rightarrow> unit result \<times> channel" where
  "stream_body limit response ch =
     (case stream_run limit response (stream_start ch) of (r, s) \<Rightarrow> (r, st_channel s))"

definition execute_stream ::
    "'s http_net \<Rightarrow> prepared_http_data \<Rightarrow> execution_context \<Rightarrow> channel \<Rightarrow> 's net_state \<Rightarrow>
     stream_meta result \<times> channel \<times> 's net_state" where
  "execute_stream hn http_data ctx ch st =
     (case http_hops hn http_data ctx 0 (ph_method http_data) (ph_body http_data) (ph_url http_data) st of
        (Inl e, st') \<Rightarrow> (Inl e, ch, st')
      | (Inr (response, u), st') \<Rightarrow>
          (case stream_body (rv_max_response_bytes (ec_transport ctx)) response ch of
             (r, ch') \<Rightarrow> (and_then r (\<lambda>_. Inr \<lparr>sm_status = hr_status response, sm_url = url_as_str u\<rparr>), ch', st')))"

section \<open>Every request is guarded\<close>

text \<open>
  A logged request went to an allowed URL, through a client pinned to addresses the validator
  returned for that URL, and carried the prepared headers, cookies and query.
\<close>

definition guarded ::
    "'s http_net \<Rightarrow> prepared_http_data \<Rightarrow> execution_context \<Rightarrow> http_client \<times> http_request \<Rightarrow> bool" where
  "guarded hn http_data ctx sent \<longleftrightarrow>
     ensure_url_allowed (hq_url (snd sent)) (ec_allow_rules ctx) = Inr ()
     \<and> url_host_str (hq_url (snd sent)) = Some (hc_host (fst sent))
     \<and> hc_proxy (fst sent) = rv_proxy_url (ec_transport ctx)
     \<and> request_headers hn (ph_headers http_data) (ph_cookies http_data) = Inr (hq_headers (snd sent))
     \<and> hq_query (snd sent) = ph_query http_data
     \<and> (\<exists>ips port w w'. hn_validate hn (hq_url (snd sent)) w = (Inr ips, w') \<and> ips \<noteq> []
          \<and> url_port_or_known_default (hq_url (snd sent)) = Some port
          \<and> hc_addrs (fst sent) = map (\<lambda>ip. (ip, port)) ips)"

lemma build_http_client_Inr:
  "build_http_client hn ctx u ips = Inr client \<Longrightarrow>
     ips \<noteq> [] \<and> url_host_str u = Some (hc_host client) \<and> hc_proxy client = rv_proxy_url (ec_transport ctx)
     \<and> (\<exists>port. url_port_or_known_default u = Some port \<and> hc_addrs client = map (\<lambda>ip. (ip, port)) ips)"
  by (auto simp: build_http_client_def Let_def result_simps split: if_splits)

lemma build_request_Inr:
  assumes "build_request hn meth u headers cookies query body = Inr request"
  shows "hq_url request = u \<and> hq_method request = meth \<and> hq_body request = body \<and> hq_query request = query
    \<and> request_headers hn headers cookies = Inr (hq_headers request)"
  using assms unfolding build_request_def by (auto simp: and_then_Inr)

text \<open>One hop sends nothing or one guarded request.\<close>

lemma http_hop_sent:
  assumes "http_hop hn http_data ctx hop meth body u st = (r, st')"
  shows "(ns_sent st' = ns_sent st \<and> \<not> is_ok r)
    \<or> (\<exists>sent. ns_sent st' = ns_sent st @ [sent] \<and> guarded hn http_data ctx sent \<and> hq_url (snd sent) = u
         \<and> hq_method (snd sent) = meth \<and> hq_body (snd sent) = body)"
proof (cases "ensure_url_allowed u (ec_allow_rules ctx)")
  case (Inr unit)
  note allowed = this
  obtain v w where validated: "hn_validate hn u (ns_world st) = (v, w)" by fastforce
  show ?thesis
  proof (cases v)
    case (Inr ips)
    show ?thesis
    proof (cases "build_http_client hn ctx u ips")
      case (Inr client)
      note client = this
      show ?thesis
      proof (cases "build_request hn meth u (ph_headers http_data) (ph_cookies http_data) (ph_query http_data) body")
        case (Inr request)
        note request = build_request_Inr [OF this]
        have "ns_sent st' = ns_sent st @ [(client, request)]"
          using assms allowed validated \<open>v = Inr ips\<close> client Inr
          by (auto simp: http_hop_def act_bind_def validate_host_def send_logged_def
              split: prod.splits sum.splits if_splits)
        moreover have "guarded hn http_data ctx (client, request)"
          using request build_http_client_Inr [OF client] allowed validated \<open>v = Inr ips\<close>
          by (auto simp: guarded_def)
        ultimately show ?thesis using request by auto
      qed (use assms allowed validated \<open>v = Inr ips\<close> client in
          \<open>auto simp: http_hop_def act_bind_def validate_host_def\<close>)
    qed (use assms allowed validated \<open>v = Inr ips\<close> in \<open>auto simp: http_hop_def act_bind_def validate_host_def\<close>)
  qed (use assms allowed validated in \<open>auto simp: http_hop_def act_bind_def validate_host_def\<close>)
qed (use assms in \<open>auto simp: http_hop_def act_bind_def\<close>)

lemma http_hop_redirect:
  assumes "http_hop hn http_data ctx hop meth body u st = (Inr (HopRedirect meth' body' u'), st')"
  shows "hop < unat (rv_max_redirect_hops (ec_transport ctx)) \<and> rv_follow_redirects (ec_transport ctx)
    \<and> (meth' = meth \<and> body' = body \<or> meth' = ''GET'' \<and> body' = EmptyBody)"
  using assms
  by (auto simp: http_hop_def act_bind_Inr redirect_target_def bail_def split: if_splits)

lemma http_hop_response:
  assumes "http_hop hn http_data ctx hop meth body u st = (Inr (HopResponse response), st')"
  shows "\<not> (is_redirection (hr_status response) \<and> rv_follow_redirects (ec_transport ctx))"
  using assms by (auto simp: http_hop_def act_bind_Inr split: if_splits)

text \<open>How many requests a run that starts at a hop may send.\<close>

definition hop_budget :: "execution_context \<Rightarrow> nat \<Rightarrow> nat" where
  "hop_budget ctx hop =
     (if rv_follow_redirects (ec_transport ctx) then Suc (unat (rv_max_redirect_hops (ec_transport ctx))) - hop else 1)"

lemma http_hops_sent:
  "http_hops hn http_data ctx hop meth body u st = (r, st') \<Longrightarrow>
     \<exists>new. ns_sent st' = ns_sent st @ new \<and> list_all (guarded hn http_data ctx) new \<and> length new \<le> hop_budget ctx hop
       \<and> (\<forall>response u'. r = Inr (response, u') \<longrightarrow>
            new \<noteq> [] \<and> hq_url (snd (last new)) = u'
            \<and> \<not> (is_redirection (hr_status response) \<and> rv_follow_redirects (ec_transport ctx)))"
proof (induction hn http_data ctx hop meth body u st rule: http_hops.induct)
  case (1 hn http_data ctx hop meth body u st)
  show ?case
  proof (cases "hop > unat (rv_max_redirect_hops (ec_transport ctx))")
    case True
    with "1.prems" show ?thesis by (subst (asm) http_hops.simps) (auto simp: bail_def)
  next
    case False
    have budget: "1 \<le> hop_budget ctx hop" using False by (auto simp: hop_budget_def)
    obtain x st1 where hop: "http_hop hn http_data ctx hop meth body u st = (x, st1)" by fastforce
    note sent = http_hop_sent [OF hop]
    show ?thesis
    proof (cases x)
      case (Inl e)
      with "1.prems" False hop have "r = Inl e" "st' = st1" by (simp_all add: http_hops.simps [of hn])
      with sent budget show ?thesis by auto
    next
      case (Inr outcome)
      then obtain one where one: "ns_sent st1 = ns_sent st @ [one]" "guarded hn http_data ctx one" "hq_url (snd one) = u"
        using sent by auto
      show ?thesis
      proof (cases outcome)
        case (HopResponse response)
        with "1.prems" False hop Inr have "r = Inr (response, u)" "st' = st1" by (simp_all add: http_hops.simps [of hn])
        moreover have "\<not> (is_redirection (hr_status response) \<and> rv_follow_redirects (ec_transport ctx))"
          using http_hop_response [of hn http_data ctx hop meth body u st response st1] hop Inr HopResponse by simp
        ultimately show ?thesis using one budget by auto
      next
        case (HopRedirect meth' body' u')
        with "1.prems" False hop Inr
        have rest: "http_hops hn http_data ctx (Suc hop) meth' body' u' st1 = (r, st')"
          by (simp add: http_hops.simps [of hn http_data ctx hop])
        from "1.IH" [OF False hop [symmetric] Inr HopRedirect rest] obtain new where
          new: "ns_sent st' = ns_sent st1 @ new" "list_all (guarded hn http_data ctx) new" "length new \<le> hop_budget ctx (Suc hop)"
            "\<forall>response u''. r = Inr (response, u'') \<longrightarrow> new \<noteq> [] \<and> hq_url (snd (last new)) = u''
              \<and> \<not> (is_redirection (hr_status response) \<and> rv_follow_redirects (ec_transport ctx))"
          by blast
        have "Suc (hop_budget ctx (Suc hop)) \<le> hop_budget ctx hop"
          using http_hop_redirect [of hn http_data ctx hop meth body u st] hop Inr HopRedirect
          by (auto simp: hop_budget_def)
        with new one show ?thesis by (intro exI [of _ "one # new"]) auto
      qed
    qed
  qed
qed

lemma body_limited:
  "read_response_body_limited chunks limit out = Inr body \<Longrightarrow> length out \<le> unat limit \<Longrightarrow>
     unat limit < 2 ^ 64 - 1 \<Longrightarrow> length body \<le> unat limit"
  by (induction chunks limit out rule: read_response_body_limited.induct)
    (auto simp: bail_not_Inr sat_add_def split: if_splits)

lemma execute_http_sent:
  assumes "execute_http_once hn http_data ctx st = (r, st')"
  obtains new where "ns_sent st' = ns_sent st @ new" and "list_all (guarded hn http_data ctx) new"
    and "length new \<le> hop_budget ctx 0"
proof -
  obtain x st1 where hops: "http_hops hn http_data ctx 0 (ph_method http_data) (ph_body http_data) (ph_url http_data) st = (x, st1)"
    by fastforce
  with assms have "st' = st1"
    by (auto simp: execute_http_once_def act_bind_def split: sum.splits prod.splits)
  with http_hops_sent [OF hops] that show thesis by blast
qed

text \<open>
  C4. Whatever the servers answer, every request of an execution, redirects included, goes to a URL
  the egress rules allow, through a client pinned to addresses the validator returned for that very
  URL, with the prepared headers, cookies and query; and there are at most one more than the
  redirect limit, a single one when redirects are off.
\<close>

theorem http_requests_guarded:
  assumes "execute_http_once hn http_data ctx st = (r, st')"
  shows "\<exists>new. ns_sent st' = ns_sent st @ new \<and> list_all (guarded hn http_data ctx) new
     \<and> length new \<le> (if rv_follow_redirects (ec_transport ctx)
                      then Suc (unat (rv_max_redirect_hops (ec_transport ctx))) else 1)"
proof -
  from assms obtain new where "ns_sent st' = ns_sent st @ new" "list_all (guarded hn http_data ctx) new"
    "length new \<le> hop_budget ctx 0"
    by (rule execute_http_sent)
  then show ?thesis by (intro exI [of _ new]) (auto simp: hop_budget_def split: if_splits)
qed

text \<open>
  C36. A successful execution returns a body within the configured limit, a status that is not a
  redirect when redirects are followed, and the URL of the last request that was sent.
\<close>

theorem http_result_bounds:
  assumes "execute_http_once hn http_data ctx st = (Inr result, st')"
    and "rv_max_response_bytes (ec_transport ctx) \<le> 128 * 1024 * 1024"
  shows "length (raw_body result) \<le> unat (rv_max_response_bytes (ec_transport ctx))
     \<and> \<not> (is_redirection (raw_status result) \<and> rv_follow_redirects (ec_transport ctx))
     \<and> (\<exists>client request earlier. ns_sent st' = ns_sent st @ earlier @ [(client, request)]
          \<and> raw_url result = url_as_str (hq_url request))"
proof -
  let ?limit = "rv_max_response_bytes (ec_transport ctx)"
  from assms(1) obtain response u where
    hops: "http_hops hn http_data ctx 0 (ph_method http_data) (ph_body http_data) (ph_url http_data) st = (Inr (response, u), st')"
    and body: "read_response_body_limited (hr_chunks response) ?limit [] = Inr (raw_body result)"
    and result: "raw_status result = hr_status response" "raw_url result = url_as_str u"
    by (auto simp: execute_http_once_def act_bind_Inr)
  from http_hops_sent [OF hops] obtain new where
    new: "ns_sent st' = ns_sent st @ new" "new \<noteq> []" "hq_url (snd (last new)) = u"
      "\<not> (is_redirection (hr_status response) \<and> rv_follow_redirects (ec_transport ctx))"
    by blast
  have "unat ?limit \<le> unat (128 * 1024 * 1024 :: usize)" using assms(2) by (simp add: word_le_nat_alt)
  then have "unat ?limit < 2 ^ 64 - 1" by simp
  with body_limited [OF body] have "length (raw_body result) \<le> unat ?limit" by simp
  moreover have "ns_sent st' = ns_sent st @ butlast new @ [(fst (last new), snd (last new))]"
    using new by simp
  ultimately show ?thesis using new result by metis
qed

section \<open>Streaming\<close>

definition taken_bytes :: "channel \<Rightarrow> nat" where
  "taken_bytes ch = sum_list (map (\<lambda>c. length (sc_data c)) (ch_taken ch))"

lemma channel_send_bytes:
  "channel_send c ch = (taken, ch') \<Longrightarrow> taken_bytes ch' \<le> taken_bytes ch + length (sc_data c)"
  by (auto simp: channel_send_def taken_bytes_def split: if_splits)

text \<open>The consumer never gets more than has been counted, nor more than the limit.\<close>

definition counted :: "usize \<Rightarrow> stream_state \<Rightarrow> bool" where
  "counted limit s \<longleftrightarrow> taken_bytes (st_channel s) \<le> st_total s \<and> taken_bytes (st_channel s) \<le> unat limit"

lemma counted_send:
  assumes "unat limit < 2 ^ 64 - 1" and "counted limit s" and "\<not> sat_add (st_total s) (length (sc_data c)) > unat limit"
    and "channel_send c (st_channel s) = (taken, ch)"
  shows "counted limit (s\<lparr>st_total := sat_add (st_total s) (length (sc_data c)), st_channel := ch\<rparr>)"
  using assms channel_send_bytes [OF assms(4)] by (auto simp: counted_def sat_add_def)

lemma counted_total: "counted limit s \<Longrightarrow> counted limit (s\<lparr>st_total := sat_add (st_total s) n\<rparr>)"
  if "unat limit < 2 ^ 64 - 1"
  using that by (auto simp: counted_def sat_add_def)

lemma counted_buffers [simp]:
  "counted limit (s\<lparr>st_utf8 := x\<rparr>) = counted limit s" "counted limit (s\<lparr>st_sse := y\<rparr>) = counted limit s"
  by (simp_all add: counted_def)

lemma send_events_counted:
  "unat limit < 2 ^ 64 - 1 \<Longrightarrow> send_events limit events s = (r, s') \<Longrightarrow> counted limit s \<Longrightarrow> counted limit s'"
proof (induction limit events s rule: send_events.induct)
  case (2 limit e events s)
  let ?c = "\<lparr>sc_data = ev_data e, sc_content_type = None\<rparr>"
  obtain taken ch where ch: "channel_send ?c (st_channel s) = (taken, ch)" by fastforce
  show ?case
  proof (cases "sat_add (st_total s) (length (ev_data e)) > unat limit")
    case True
    with 2 counted_total [OF "2.prems"(1,3), of "length (ev_data e)"] show ?thesis by (auto simp: Let_def bail_def)
  next
    case False
    with counted_send [OF "2.prems"(1,3), of ?c taken ch] ch 2
    show ?thesis by (cases taken) (auto simp: Let_def)
  qed
qed simp

lemma send_last_counted:
  "unat limit < 2 ^ 64 - 1 \<Longrightarrow> send_last limit events s = (r, s') \<Longrightarrow> counted limit s \<Longrightarrow> counted limit s'"
proof (induction limit events s rule: send_last.induct)
  case (2 limit e events s)
  let ?c = "\<lparr>sc_data = ev_data e, sc_content_type = None\<rparr>"
  obtain taken ch where ch: "channel_send ?c (st_channel s) = (taken, ch)" by fastforce
  show ?case
  proof (cases "sat_add (st_total s) (length (ev_data e)) > unat limit")
    case True
    with 2 counted_total [OF "2.prems"(1,3), of "length (ev_data e)"] show ?thesis by (auto simp: Let_def bail_def)
  next
    case False
    with counted_send [OF "2.prems"(1,3), of ?c taken ch] ch 2 show ?thesis by (auto simp: Let_def)
  qed
qed simp

lemma sse_chunk_counted:
  assumes "unat limit < 2 ^ 64 - 1" and "sse_chunk limit chunk s = (r, s')" and "counted limit s"
  shows "counted limit s'"
  using assms by (auto simp: sse_chunk_def Let_def bail_def split: if_splits prod.splits
      dest!: send_events_counted [OF assms(1)])

lemma plain_chunk_counted:
  assumes "unat limit < 2 ^ 64 - 1" and "plain_chunk limit ct chunk s = (r, s')" and "counted limit s"
  shows "counted limit s'"
proof -
  let ?c = "\<lparr>sc_data = chunk, sc_content_type = ct\<rparr>"
  obtain taken ch where ch: "channel_send ?c (st_channel s) = (taken, ch)" by fastforce
  show ?thesis
  proof (cases "sat_add (st_total s) (length chunk) > unat limit")
    case True
    with assms counted_total [OF assms(1,3), of "length chunk"] show ?thesis by (auto simp: plain_chunk_def Let_def bail_def)
  next
    case False
    with counted_send [OF assms(1,3), of ?c taken ch] ch assms(2) show ?thesis by (auto simp: plain_chunk_def Let_def)
  qed
qed

lemma stream_chunks_counted:
  assumes "\<And>chunk s r s'. step chunk s = (r, s') \<Longrightarrow> counted limit s \<Longrightarrow> counted limit s'"
  shows "stream_chunks step chunks s = (r, s') \<Longrightarrow> counted limit s \<Longrightarrow> counted limit s'"
proof (induction chunks arbitrary: s)
  case (Cons chunk chunks)
  show ?case
  proof (cases chunk)
    case (Inl e)
    with Cons.prems show ?thesis by simp
  next
    case (Inr c)
    obtain x s1 where one: "step c s = (x, s1)" by fastforce
    with assms Cons.prems have s1: "counted limit s1" by blast
    show ?thesis
    proof (cases x)
      case (Inr go)
      with \<open>chunk = Inr c\<close> one Cons s1 show ?thesis by (cases go) auto
    qed (use \<open>chunk = Inr c\<close> one Cons.prems s1 in auto)
  qed
qed simp

lemma finish_sse_counted:
  assumes "unat limit < 2 ^ 64 - 1" and "finish_sse limit s = (r, s')" and "counted limit s"
  shows "counted limit s'"
proof -
  obtain x s1 where one: "(if is_utf8 (st_utf8 s) \<and> st_utf8 s \<noteq> []
      then (let (events, buffer) = sse_feed (st_utf8 s) (st_sse s) in send_last limit events (s\<lparr>st_sse := buffer\<rparr>))
      else (Inr (), s)) = (x, s1)" by fastforce
  then have s1: "counted limit s1"
    using assms(3) by (auto split: if_splits prod.splits dest!: send_last_counted [OF assms(1)])
  obtain flushed buffer where flush: "sse_flush (st_sse s1) = (flushed, buffer)" by fastforce
  have run: "finish_sse limit s = (case x of Inl e \<Rightarrow> (Inl e, s1)
      | Inr u \<Rightarrow> (case flushed of Some e \<Rightarrow> send_last limit [e] (s1\<lparr>st_sse := buffer\<rparr>) | None \<Rightarrow> (Inr (), s1\<lparr>st_sse := buffer\<rparr>)))"
    using one flush by (simp add: finish_sse_def act_bind_def split: sum.splits)
  show ?thesis
  proof (cases x)
    case (Inr u)
    show ?thesis
    proof (cases flushed)
      case (Some e)
      with run Inr assms(2) have "send_last limit [e] (s1\<lparr>st_sse := buffer\<rparr>) = (r, s')" by simp
      from send_last_counted [OF assms(1) this] s1 show ?thesis by simp
    qed (use run Inr assms(2) s1 in auto)
  qed (use run assms(2) s1 in auto)
qed

lemma stream_run_counted:
  assumes "unat limit < 2 ^ 64 - 1" and "stream_run limit response s = (r, s')" and "counted limit s"
  shows "counted limit s'"
proof (cases "is_event_stream (content_type_of response)")
  case True
  obtain x s1 where x: "stream_chunks (sse_chunk limit) (hr_chunks response) s = (x, s1)" by fastforce
  have s1: "counted limit s1"
    by (rule stream_chunks_counted [OF _ x assms(3)]) (rule sse_chunk_counted [OF assms(1)])
  from True assms(2) x have "s' = s1 \<or> finish_sse limit s1 = (r, s')"
    by (cases x) (auto simp: stream_run_def Let_def act_bind_def split: if_splits)
  with s1 show ?thesis using finish_sse_counted [OF assms(1)] by blast
next
  case False
  obtain x s1 where x: "stream_chunks (plain_chunk limit (content_type_of response)) (hr_chunks response) s = (x, s1)"
    by fastforce
  have s1: "counted limit s1"
    by (rule stream_chunks_counted [OF _ x assms(3)]) (rule plain_chunk_counted [OF assms(1)])
  from False assms(2) x have "s' = s1"
    by (cases x) (auto simp: stream_run_def Let_def act_bind_def)
  with s1 show ?thesis by simp
qed

text \<open>
  Whatever the server streams, event stream or not, and whenever it fails or the consumer hangs
  up, the consumer receives at most the configured number of bytes.
\<close>

theorem stream_within_limit:
  assumes "stream_body limit response \<lparr>ch_taken = [], ch_left = left\<rparr> = (r, ch)"
    and "limit \<le> 128 * 1024 * 1024"
  shows "taken_bytes ch \<le> unat limit"
proof -
  have "unat limit \<le> unat (128 * 1024 * 1024 :: usize)" using assms(2) by (simp add: word_le_nat_alt)
  then have l: "unat limit < 2 ^ 64 - 1" by simp
  obtain s' where s': "stream_run limit response (stream_start \<lparr>ch_taken = [], ch_left = left\<rparr>) = (r, s')" "ch = st_channel s'"
    using assms(1) by (auto simp: stream_body_def split: prod.splits)
  have "counted limit (stream_start \<lparr>ch_taken = [], ch_left = left\<rparr>)"
    by (simp add: counted_def taken_bytes_def stream_start_def)
  from stream_run_counted [OF l s'(1) this] s'(2) show ?thesis by (simp add: counted_def)
qed

lemma plain_stream_run:
  "unat limit < 2 ^ 64 - 1 \<Longrightarrow> st_total s = length out \<Longrightarrow> concat (map sc_data (ch_taken (st_channel s))) = out \<Longrightarrow>
     ch_left (st_channel s) = None \<Longrightarrow>
     (case read_response_body_limited chunks limit out of
        Inr body \<Rightarrow> \<exists>s'. stream_chunks (plain_chunk limit ct) chunks s = (Inr True, s')
                     \<and> concat (map sc_data (ch_taken (st_channel s'))) = body
      | Inl e \<Rightarrow> \<exists>e' s'. stream_chunks (plain_chunk limit ct) chunks s = (Inl e', s'))"
proof (induction chunks limit out arbitrary: s rule: read_response_body_limited.induct)
  case (3 chunk chunks limit out)
  show ?case
  proof (cases "sat_add (length out) (length chunk) > unat limit")
    case True
    with "3.prems" show ?thesis by (simp add: plain_chunk_def Let_def bail_def)
  next
    case False
    define s1 where "s1 = s\<lparr>st_total := sat_add (length out) (length chunk),
      st_channel := \<lparr>ch_taken = ch_taken (st_channel s) @ [\<lparr>sc_data = chunk, sc_content_type = ct\<rparr>], ch_left = None\<rparr>\<rparr>"
    have step: "plain_chunk limit ct chunk s = (Inr True, s1)"
      using False "3.prems" by (simp add: plain_chunk_def channel_send_def Let_def s1_def)
    have "sat_add (length out) (length chunk) = length (out @ chunk)"
      using False "3.prems"(1) by (simp add: sat_add_def)
    then have "case read_response_body_limited chunks limit (out @ chunk) of
        Inr body \<Rightarrow> \<exists>s'. stream_chunks (plain_chunk limit ct) chunks s1 = (Inr True, s')
                     \<and> concat (map sc_data (ch_taken (st_channel s'))) = body
      | Inl e \<Rightarrow> \<exists>e' s'. stream_chunks (plain_chunk limit ct) chunks s1 = (Inl e', s')"
      using "3.prems" by (intro "3.IH" [OF False]) (simp_all add: s1_def)
    moreover have "stream_chunks (plain_chunk limit ct) (Inr chunk # chunks) s = stream_chunks (plain_chunk limit ct) chunks s1"
      using step by simp
    ultimately show ?thesis
      using False by (cases "read_response_body_limited chunks limit (out @ chunk)") (simp_all del: stream_chunks.simps)
  qed
qed auto

text \<open>
  For a response that is not an event stream, streaming delivers exactly the bytes the buffered
  executor returns, and it fails exactly when the buffered executor fails.
\<close>

theorem stream_equals_buffered:
  assumes "\<not> is_event_stream (content_type_of response)" and "limit \<le> 128 * 1024 * 1024"
  shows "case read_response_body_limited (hr_chunks response) limit [] of
      Inr body \<Rightarrow> \<exists>ch. stream_body limit response \<lparr>ch_taken = [], ch_left = None\<rparr> = (Inr (), ch)
                   \<and> concat (map sc_data (ch_taken ch)) = body
    | Inl e \<Rightarrow> \<exists>e' ch. stream_body limit response \<lparr>ch_taken = [], ch_left = None\<rparr> = (Inl e', ch)"
proof -
  have "unat limit \<le> unat (128 * 1024 * 1024 :: usize)" using assms(2) by (simp add: word_le_nat_alt)
  then have l: "unat limit < 2 ^ 64 - 1" by simp
  let ?s = "stream_start \<lparr>ch_taken = [], ch_left = None\<rparr>"
  have body: "stream_body limit response \<lparr>ch_taken = [], ch_left = None\<rparr>
      = (case stream_chunks (plain_chunk limit (content_type_of response)) (hr_chunks response) ?s of
           (Inl e, s') \<Rightarrow> (Inl e, st_channel s') | (Inr b, s') \<Rightarrow> (Inr (), st_channel s'))"
    using assms(1) by (auto simp: stream_body_def stream_run_def Let_def act_bind_def split: prod.splits sum.splits)
  have "case read_response_body_limited (hr_chunks response) limit [] of
        Inr body \<Rightarrow> \<exists>s'. stream_chunks (plain_chunk limit (content_type_of response)) (hr_chunks response) ?s = (Inr True, s')
                     \<and> concat (map sc_data (ch_taken (st_channel s'))) = body
      | Inl e \<Rightarrow> \<exists>e' s'. stream_chunks (plain_chunk limit (content_type_of response)) (hr_chunks response) ?s = (Inl e', s')"
    by (rule plain_stream_run [OF l]) (simp_all add: stream_start_def)
  then show ?thesis
    by (cases "read_response_body_limited (hr_chunks response) limit []") (auto simp: body)
qed

section \<open>A concrete run\<close>

text \<open>A server that redirects from one host to another, and a client with a credential.\<close>

definition other_url :: url where
  "other_url = \<lparr>url_as_str = ''https://other.example.org/'', url_scheme = ''https'',
     url_host_str = Some ''other.example.org'', url_port_or_known_default = Some 443, url_path = ''/''\<rparr>"

definition sample_net :: "nat http_net" where
  "sample_net =
     \<lparr>hn_validate = (\<lambda>u w. (Inr [V4 (Ipv4 93 184 216 34)], w)),
      hn_send = (\<lambda>client request w.
        (Inr (if url_host_str (hq_url request) = Some ''other.example.org''
              then \<lparr>hr_status = 200, hr_location = None, hr_content_type = Some (Inr ''text/plain''),
                     hr_chunks = [Inr ''o'', Inr ''k'']\<rparr>
              else \<lparr>hr_status = 307, hr_location = Some (Inr ''https://other.example.org/''),
                     hr_content_type = None, hr_chunks = []\<rparr>), Suc w)),
      hn_join = (\<lambda>u location. Inr other_url),
      hn_header_name = (\<lambda>n. Inr (to_ascii_lowercase n)), hn_header_value = Inr, hn_mime = (\<lambda>m. Inr ()),
      hn_proxy = (\<lambda>p. Inr ()), hn_build = (\<lambda>c. Inr ())\<rparr>"

definition sample_http :: prepared_http_data where
  "sample_http = \<lparr>ph_method = ''GET'', ph_url = sample_url ''/'', ph_query = [],
     ph_headers = [(''Authorization'', ''Bearer t0ken'')], ph_cookies = [], ph_body = EmptyBody\<rparr>"

definition sample_context :: execution_context where
  "sample_context =
     \<lparr>ec_key = ''api.me'', ec_mode = ModeRead, ec_allow_rules = [],
      ec_transport = \<lparr>rv_timeout_ms = 30000, rv_follow_redirects = True, rv_max_redirect_hops = 5,
        rv_retry_max_attempts = 1, rv_retry_backoff_ms = 250, rv_retry_on_status = [], rv_compression = True,
        rv_tls_min_version = None, rv_proxy_url = None, rv_max_response_bytes = 8388608\<rparr>,
      ec_result_template = default_result_template, ec_args = [], ec_redactor = \<lparr>red_secrets = []\<rparr>\<rparr>"

definition sample_run :: "raw_execution_result result \<times> nat net_state" where
  "sample_run = execute_http_once sample_net sample_http sample_context \<lparr>ns_world = 0, ns_sent = []\<rparr>"

text \<open>What the run returns and sends.\<close>

definition sample_response :: http_response where
  "sample_response = \<lparr>hr_status = 200, hr_location = None, hr_content_type = Some (Inr ''text/plain''),
     hr_chunks = [Inr ''o'', Inr ''k'']\<rparr>"

definition sample_client :: "string \<Rightarrow> http_client" where
  "sample_client host = \<lparr>hc_timeout_ms = 30000, hc_compression = True, hc_tls_min = None, hc_proxy = None,
     hc_host = host, hc_addrs = [(V4 (Ipv4 93 184 216 34), 443)]\<rparr>"

definition sample_request :: "url \<Rightarrow> http_request" where
  "sample_request u = \<lparr>hq_method = ''GET'', hq_url = u, hq_query = [],
     hq_headers = [(''authorization'', ''Bearer t0ken'')], hq_body = EmptyBody\<rparr>"

lemmas sample_hop_simps = http_hop_def act_bind_def act_lift_def act_return_def validate_host_def send_logged_def
  build_http_client_def build_request_def request_headers_def append_header_def redirect_target_def
  ensure_url_allowed_def sample_net_def sample_context_def sample_http_def is_redirection_def
  library_def Let_def sample_response_def sample_client_def sample_request_def

lemma sample_hop_0:
  "http_hop sample_net sample_http sample_context 0 ''GET'' EmptyBody (sample_url ''/'') \<lparr>ns_world = w, ns_sent = sent\<rparr> =
     (Inr (HopRedirect ''GET'' EmptyBody other_url), \<lparr>ns_world = Suc w, ns_sent = sent @
        [(sample_client ''api.example.com'', sample_request (sample_url ''/''))]\<rparr>)"
proof -
  have "to_ascii_lowercase ''Authorization'' = ''authorization''" by code_simp
  then show ?thesis by (simp add: sample_hop_simps sample_url_def)
qed

lemma sample_hop_1:
  "http_hop sample_net sample_http sample_context (Suc 0) ''GET'' EmptyBody other_url \<lparr>ns_world = w, ns_sent = sent\<rparr> =
     (Inr (HopResponse sample_response), \<lparr>ns_world = Suc w, ns_sent = sent @
        [(sample_client ''other.example.org'', sample_request other_url)]\<rparr>)"
proof -
  have "to_ascii_lowercase ''Authorization'' = ''authorization''" by code_simp
  then show ?thesis by (simp add: sample_hop_simps other_url_def)
qed

lemma sample_body_read: "read_response_body_limited [Inr ''o'', Inr ''k''] 8388608 [] = Inr ''ok''"
  by (simp add: sat_add_def)

lemma sample_run_value:
  "sample_run = (Inr \<lparr>raw_status = 200, raw_url = ''https://other.example.org/'', raw_body = ''ok'',
       raw_content_type = Some ''text/plain''\<rparr>,
     \<lparr>ns_world = 2, ns_sent =
       [(sample_client ''api.example.com'', sample_request (sample_url ''/'')),
        (sample_client ''other.example.org'', sample_request other_url)]\<rparr>)"
proof -
  have "http_hops sample_net sample_http sample_context 0 ''GET'' EmptyBody (sample_url ''/'') \<lparr>ns_world = 0, ns_sent = []\<rparr>
    = (Inr (sample_response, other_url), \<lparr>ns_world = 2, ns_sent =
       [(sample_client ''api.example.com'', sample_request (sample_url ''/'')),
        (sample_client ''other.example.org'', sample_request other_url)]\<rparr>)"
    by (simp add: http_hops.simps [of _ _ _ 0] http_hops.simps [of _ _ _ "Suc 0"] sample_hop_0 sample_hop_1
        sample_context_def [THEN arg_cong [where f = "\<lambda>c. rv_max_redirect_hops (ec_transport c)"]])
  moreover have "ph_method sample_http = ''GET''" "ph_url sample_http = sample_url ''/''" "ph_body sample_http = EmptyBody"
    by (simp_all add: sample_http_def)
  moreover have "hr_status sample_response = 200" "hr_chunks sample_response = [Inr ''o'', Inr ''k'']"
    "content_type_of sample_response = Some ''text/plain''" "url_as_str other_url = ''https://other.example.org/''"
    "rv_max_response_bytes (ec_transport sample_context) = 8388608"
    by (simp_all add: sample_response_def content_type_of_def sample_context_def other_url_def)
  ultimately show ?thesis
    by (simp add: sample_run_def execute_http_once_def act_bind_def act_lift_def act_return_def sample_body_read
        del: read_response_body_limited.simps)
qed

text \<open>The credential was sent to both hosts: the headers are the same on every hop.\<close>

lemma redirect_resends_credentials:
  "map (\<lambda>(c, q). (hc_host c, hq_headers q)) (ns_sent (snd sample_run)) =
     [(''api.example.com'', [(''authorization'', ''Bearer t0ken'')]),
      (''other.example.org'', [(''authorization'', ''Bearer t0ken'')])]"
  by (simp add: sample_run_value sample_client_def sample_request_def)

theorem http_requests_guarded_witness:
  "length (ns_sent (snd sample_run)) = 2
   \<and> list_all (guarded sample_net sample_http sample_context) (ns_sent (snd sample_run))"
proof -
  obtain r st' where run: "execute_http_once sample_net sample_http sample_context
      \<lparr>ns_world = 0, ns_sent = []\<rparr> = (r, st')" by fastforce
  then have "snd sample_run = st'" by (simp add: sample_run_def)
  moreover have "length (ns_sent (snd sample_run)) = 2" by (simp add: sample_run_value)
  ultimately show ?thesis using http_requests_guarded [OF run] by simp
qed

theorem http_result_bounds_witness:
  "\<exists>result. fst sample_run = Inr result \<and> raw_status result = 200 \<and> length (raw_body result) \<le> 8388608
     \<and> \<not> is_redirection (raw_status result)"
proof -
  let ?result = "\<lparr>raw_status = 200, raw_url = ''https://other.example.org/'', raw_body = ''ok'',
     raw_content_type = Some ''text/plain''\<rparr>"
  obtain st' where run: "execute_http_once sample_net sample_http sample_context \<lparr>ns_world = 0, ns_sent = []\<rparr>
     = (Inr ?result, st')"
    using sample_run_value by (simp add: sample_run_def)
  have limit: "rv_max_response_bytes (ec_transport sample_context) = 8388608"
    and follow: "rv_follow_redirects (ec_transport sample_context)"
    by (simp_all add: sample_context_def)
  have "rv_max_response_bytes (ec_transport sample_context) \<le> 128 * 1024 * 1024" by (simp add: limit)
  from http_result_bounds [OF run this] show ?thesis by (simp add: sample_run_value limit follow)
qed

definition sample_events :: http_response where
  "sample_events = \<lparr>hr_status = 200, hr_location = None, hr_content_type = Some (Inr ''text/event-stream''),
     hr_chunks = [Inr (''data: abcdef'' @ blank_lf), Inr ''data: 012345'']\<rparr>"

theorem stream_within_limit_witness:
  "taken_bytes (snd (stream_body 9 sample_events \<lparr>ch_taken = [], ch_left = None\<rparr>)) \<le> 9"
proof -
  obtain r ch where run: "stream_body 9 sample_events \<lparr>ch_taken = [], ch_left = None\<rparr> = (r, ch)" by fastforce
  from stream_within_limit [OF run] show ?thesis by (simp add: run)
qed

definition sample_plain :: http_response where
  "sample_plain = \<lparr>hr_status = 200, hr_location = None, hr_content_type = None, hr_chunks = [Inr ''he'', Inr ''llo'']\<rparr>"

theorem stream_equals_buffered_witness:
  "\<exists>ch. stream_body 5 sample_plain \<lparr>ch_taken = [], ch_left = None\<rparr> = (Inr (), ch)
      \<and> concat (map sc_data (ch_taken ch)) = ''hello''"
proof -
  have "read_response_body_limited (hr_chunks sample_plain) 5 [] = Inr ''hello''"
    by (simp add: sample_plain_def sat_add_def)
  moreover have "\<not> is_event_stream (content_type_of sample_plain)"
    by (simp add: sample_plain_def is_event_stream_def content_type_of_def)
  ultimately show ?thesis using stream_equals_buffered [of sample_plain 5] by simp
qed

end
