(* ===== verification/Std.thy ===== *)
theory Std
  imports RustStr Json
begin

text \<open>
  Pieces of the standard library the executors use: how \<open>{:?}\<close> prints a
  \<open>std::time::Duration\<close> of whole milliseconds, the cast of an integer to \<open>f64\<close>, and
  \<open>as_f64\<close> and \<open>from_f64\<close> of \<open>serde_json::Number\<close>.
\<close>

section \<open>Durations\<close>

text \<open>Seconds with the milliseconds as a fraction without trailing zeros, or milliseconds alone.\<close>

definition show_fraction :: "nat \<Rightarrow> string" where
  "show_fraction ms =
     trim_end_matches [CHR ''0''] (show_nat (ms div 100) @ show_nat (ms div 10 mod 10) @ show_nat (ms mod 10))"

definition show_duration :: "nat \<Rightarrow> string" where
  "show_duration ms =
     (if ms \<ge> 1000 then
        show_nat (ms div 1000) @ (if ms mod 1000 = 0 then [] else CHR ''.'' # show_fraction (ms mod 1000)) @ ''s''
      else if ms > 0 then show_nat ms @ ''ms''
      else ''0ns'')"

section \<open>Floats\<close>

fun log2_floor :: "nat \<Rightarrow> nat" where
  "log2_floor n = (if n < 2 then 0 else Suc (log2_floor (n div 2)))"

declare log2_floor.simps [simp del]

text \<open>The bits of the double nearest to a natural number below \<open>2 ^ 64\<close>, ties to even.\<close>

definition nat_as_f64 :: "nat \<Rightarrow> nat" where
  "nat_as_f64 n =
     (if n = 0 then 0
      else let e = log2_floor n
           in if e \<le> 52 then (1023 + e) * 2 ^ 52 + (n * 2 ^ (52 - e) - 2 ^ 52)
              else let d = 2 ^ (e - 52);
                       q = n div d; r = n mod d;
                       up = (2 * r > d \<or> 2 * r = d \<and> odd q)
                   in (1023 + e) * 2 ^ 52 + (q + (if up then 1 else 0) - 2 ^ 52))"

fun number_as_f64 :: "number \<Rightarrow> f64 option" where
  "number_as_f64 (PosInt n) = Some (word_of_nat (nat_as_f64 (unat n)))"
| "number_as_f64 (NegInt i) = Some (word_of_nat (2 ^ 63 + nat_as_f64 (nat (- i))))"
| "number_as_f64 (Float f) = Some f"

text \<open>A double is finite unless its exponent bits are all set; only finite ones are JSON numbers.\<close>

definition f64_finite :: "f64 \<Rightarrow> bool" where
  "f64_finite f \<longleftrightarrow> unat f div 2 ^ 52 mod 2048 \<noteq> 2047"

definition number_from_f64 :: "f64 \<Rightarrow> number option" where
  "number_from_f64 f = (if f64_finite f then Some (Float f) else None)"

fun as_f64 :: "json \<Rightarrow> f64 option" where
  "as_f64 (JNumber n) = number_as_f64 n" | "as_f64 v = None"

text \<open>\<open>Value::from(f64)\<close>: a float that is not finite becomes null.\<close>

definition json_f64 :: "f64 \<Rightarrow> json" where
  "json_f64 f = (case number_from_f64 f of Some n \<Rightarrow> JNumber n | None \<Rightarrow> JNull)"

lemma number_as_f64_Some: "number_as_f64 n \<noteq> None"
  by (cases n) auto

text \<open>The cast is exact on the powers of two.\<close>

lemma nat_as_f64_examples:
  "nat_as_f64 1 = 0x3FF0000000000000" "nat_as_f64 3 = 0x4008000000000000"
  "nat_as_f64 (2 ^ 64 - 1) = 0x43F0000000000000"
  by (simp_all add: nat_as_f64_def log2_floor.simps)

end
