(* ===== verification/SqlExec.thy ===== *)
theory SqlExec
  imports Exec Builders Std
begin

text \<open>
  The SQL executor \<open>crates/earl-protocol-sql/src/\<close>: \<open>execute_query\<close> of \<open>sandbox.rs\<close> with
  its read-only enforcement, and \<open>execute_sql_once\<close> of \<open>executor.rs\<close>, which redacts the error.
  The database driver is a parameter over a state of its own; the model keeps the log of what was
  asked of it.
\<close>

section \<open>The driver\<close>

datatype sql_arg = ArgNullText | ArgBool bool | ArgI64 int | ArgF64 f64 | ArgText string

record sql_column =
  sc_name :: string
  sc_type :: string
  sc_ordinal :: nat

record 'row sql_rows =
  sr_columns :: "'row \<Rightarrow> sql_column list"
  sr_i64 :: "'row \<Rightarrow> nat \<Rightarrow> int option"
  sr_f64 :: "'row \<Rightarrow> nat \<Rightarrow> f64 option"
  sr_bool :: "'row \<Rightarrow> nat \<Rightarrow> bool option"
  sr_text :: "'row \<Rightarrow> nat \<Rightarrow> string option"

text \<open>Fetching all rows ends in the rows, in an error, or not before the timeout.\<close>

datatype 'row fetch_outcome = FetchTimeout | FetchError string | FetchRows "'row list"

record ('s, 'row) sql_driver =
  sd_connect :: "string \<Rightarrow> nat \<Rightarrow> 's \<Rightarrow> (string + unit) \<times> 's"
  sd_execute :: "string \<Rightarrow> 's \<Rightarrow> (string + unit) \<times> 's"
  sd_fetch :: "string \<Rightarrow> sql_arg list \<Rightarrow> nat \<Rightarrow> 's \<Rightarrow> 'row fetch_outcome \<times> 's"
  sd_close :: "'s \<Rightarrow> 's"
  sd_rows :: "'row sql_rows"

datatype sql_event = SqlConnect string | SqlExecute string | SqlFetch string "sql_arg list" | SqlClose

record 's sql_state =
  db_world :: 's
  db_log :: "sql_event list"

definition sql_call ::
    "sql_event \<Rightarrow> ('s \<Rightarrow> (string + 'a) \<times> 's) \<Rightarrow> 's sql_state \<Rightarrow> (string + 'a) \<times> 's sql_state" where
  "sql_call ev f st = (case f (db_world st) of (r, w) \<Rightarrow> (r, \<lparr>db_world = w, db_log = db_log st @ [ev]\<rparr>))"

section \<open>Parameters and rows\<close>

definition bind_json_param :: "(json \<Rightarrow> string) \<Rightarrow> json \<Rightarrow> sql_arg" where
  "bind_json_param to_text v =
     (case v of
        JNull \<Rightarrow> ArgNullText
      | JBool b \<Rightarrow> ArgBool b
      | JNumber n \<Rightarrow>
          (case number_as_i64 n of
             Some i \<Rightarrow> ArgI64 i
           | None \<Rightarrow> (case number_as_f64 n of Some f \<Rightarrow> ArgF64 f | None \<Rightarrow> ArgText (to_text v)))
      | JString s \<Rightarrow> ArgText s
      | _ \<Rightarrow> ArgText (to_text v))"

definition json_of_f64 :: "f64 option \<Rightarrow> json" where
  "json_of_f64 f = (case Option.bind f number_from_f64 of Some n \<Rightarrow> JNumber n | None \<Rightarrow> JNull)"

definition column_value :: "'row sql_rows \<Rightarrow> 'row \<Rightarrow> sql_column \<Rightarrow> json" where
  "column_value rw row col =
     (let i = sc_ordinal col
      in if sc_type col \<in> set [''INTEGER'', ''INT'', ''INT4'', ''INT8'', ''BIGINT''] then
           (case sr_i64 rw row i of Some v \<Rightarrow> JNumber (number_of_i64 v) | None \<Rightarrow> JNull)
         else if sc_type col \<in> set [''REAL'', ''FLOAT'', ''FLOAT4'', ''FLOAT8'', ''DOUBLE'', ''NUMERIC''] then
           json_of_f64 (sr_f64 rw row i)
         else if sc_type col \<in> set [''BOOLEAN'', ''BOOL''] then
           (case sr_bool rw row i of Some b \<Rightarrow> JBool b | None \<Rightarrow> JNull)
         else
           (case sr_i64 rw row i of Some v \<Rightarrow> JNumber (number_of_i64 v)
            | None \<Rightarrow> (case sr_f64 rw row i of Some f \<Rightarrow> json_of_f64 (Some f)
            | None \<Rightarrow> (case sr_bool rw row i of Some b \<Rightarrow> JBool b
            | None \<Rightarrow> (case sr_text rw row i of Some s \<Rightarrow> JString s
            | None \<Rightarrow> JNull)))))"

definition row_to_json :: "'row sql_rows \<Rightarrow> 'row \<Rightarrow> json_map" where
  "row_to_json rw row = fold (\<lambda>col. bt_insert (sc_name col) (column_value rw row col)) (sr_columns rw row) []"

section \<open>Running a query\<close>

text \<open>A read-only SQLite URL that does not ask for read-only mode is made to.\<close>

definition read_only_url :: "bool \<Rightarrow> string \<Rightarrow> string" where
  "read_only_url read_only url =
     (if read_only \<and> prefix ''sqlite'' (to_ascii_lowercase url)
         \<and> \<not> sublist ''mode=ro'' (to_ascii_lowercase url)
      then url @ (if CHR ''?'' \<in> set url then ''&'' else ''?'') @ ''mode=ro''
      else url)"

definition begin_read_only :: "bool \<Rightarrow> string \<Rightarrow> string option" where
  "begin_read_only read_only url =
     (let url_lower = to_ascii_lowercase url
      in if read_only \<and> (prefix ''postgres'' url_lower \<or> prefix ''mysql'' url_lower)
         then Some (if prefix ''postgres'' url_lower then ''BEGIN READ ONLY'' else ''START TRANSACTION READ ONLY'')
         else None)"

definition sql_connect :: "('s, 'row) sql_driver \<Rightarrow> string \<Rightarrow> nat \<Rightarrow> ('s sql_state, unit) action" where
  "sql_connect d url timeout st =
     (case sql_call (SqlConnect url) (sd_connect d url timeout) st of
        (r, st) \<Rightarrow> (with_context ''failed connecting to SQL database'' (library r), st))"

definition sql_begin :: "('s, 'row) sql_driver \<Rightarrow> string option \<Rightarrow> ('s sql_state, unit) action" where
  "sql_begin d begin_stmt st =
     (case begin_stmt of
        None \<Rightarrow> (Inr (), st)
      | Some stmt \<Rightarrow>
          (case sql_call (SqlExecute stmt) (sd_execute d stmt) st of
             (r, st) \<Rightarrow> (with_context ''failed starting read-only transaction'' (library r), st)))"

text \<open>The query with its timeout, and the rollback whatever came of it.\<close>

definition sql_fetch ::
    "('s, 'row) sql_driver \<Rightarrow> string \<Rightarrow> sql_arg list \<Rightarrow> nat \<Rightarrow> string option \<Rightarrow> ('s sql_state, 'row list) action" where
  "sql_fetch d query args timeout begin_stmt st =
     (case sd_fetch d query args timeout (db_world st) of
        (outcome, w) \<Rightarrow>
          (let st = \<lparr>db_world = w, db_log = db_log st @ [SqlFetch query args]\<rparr>;
               st = (if begin_stmt \<noteq> None
                     then snd (sql_call (SqlExecute ''ROLLBACK'') (sd_execute d ''ROLLBACK'') st) else st)
           in (case outcome of
                 FetchTimeout \<Rightarrow> bail (''SQL query timed out after '' @ show_duration timeout)
               | FetchError e \<Rightarrow> with_context ''SQL query execution failed'' (library (Inl e))
               | FetchRows rows \<Rightarrow> Inr rows, st)))"

definition execute_query ::
    "('s, 'row) sql_driver \<Rightarrow> (json \<Rightarrow> string) \<Rightarrow> string \<Rightarrow> string \<Rightarrow> json list \<Rightarrow> bool \<Rightarrow> usize \<Rightarrow> nat \<Rightarrow>
     ('s sql_state, json_map list) action" where
  "execute_query d to_text connection_url query params read_only max_rows timeout =
     (let connection_url = read_only_url read_only connection_url;
          begin_stmt = begin_read_only read_only connection_url
      in act_bind (sql_connect d connection_url timeout) (\<lambda>_.
         act_bind (sql_begin d begin_stmt) (\<lambda>_.
         act_bind (sql_fetch d query (map (bind_json_param to_text) params) timeout begin_stmt) (\<lambda>rows st.
         (Inr (map (row_to_json (sd_rows d)) (take (unat max_rows) rows)),
          \<lparr>db_world = sd_close d (db_world st), db_log = db_log st @ [SqlClose]\<rparr>)))))"

definition execute_sql_once ::
    "('s, 'row) sql_driver \<Rightarrow> (json \<Rightarrow> string) \<Rightarrow> prepared_sql_query \<Rightarrow> execution_context \<Rightarrow>
     ('s sql_state, raw_execution_result) action" where
  "execute_sql_once d to_text sql_data ctx st =
     (case execute_query d to_text (ps_connection_url sql_data) (ps_query sql_data) (ps_params sql_data)
             (ps_read_only sql_data) (ps_max_rows sql_data) (rv_timeout_ms (ec_transport ctx)) st of
        (Inl err, st') \<Rightarrow>
          (bail (''SQL query failed: '' @ redact (ec_redactor ctx) (str_join '': '' err)), st')
      | (Inr rows, st') \<Rightarrow>
          (Inr \<lparr>raw_status = 0, raw_url = ''sql://query'', raw_body = to_text (JArray (map JObject rows)),
                raw_content_type = Some ''application/json''\<rparr>, st'))"

section \<open>Properties\<close>

text \<open>What the driver is asked for, in order, when no step fails; a failing step ends it early.\<close>

definition sql_session :: "string \<Rightarrow> string option \<Rightarrow> string \<Rightarrow> sql_arg list \<Rightarrow> sql_event list \<Rightarrow> bool" where
  "sql_session url begin_stmt query args evs \<longleftrightarrow>
     evs = [SqlConnect url]
     \<or> (\<exists>stmt. begin_stmt = Some stmt \<and> evs = [SqlConnect url, SqlExecute stmt])
     \<or> (\<exists>rest. (rest = [] \<or> rest = [SqlClose])
          \<and> evs = SqlConnect url #
              (case begin_stmt of
                 None \<Rightarrow> [SqlFetch query args]
               | Some stmt \<Rightarrow> [SqlExecute stmt, SqlFetch query args, SqlExecute ''ROLLBACK'']) @ rest)"

lemma sql_connect_run:
  "sql_connect d url timeout st = (r, st') \<Longrightarrow> db_log st' = db_log st @ [SqlConnect url]"
  by (auto simp: sql_connect_def sql_call_def split: prod.splits)

lemma sql_begin_run:
  "sql_begin d b st = (r, st') \<Longrightarrow>
     db_log st' = db_log st @ (case b of None \<Rightarrow> [] | Some stmt \<Rightarrow> [SqlExecute stmt])
     \<and> (b = None \<longrightarrow> r = Inr ())"
  by (auto simp: sql_begin_def sql_call_def split: prod.splits option.splits)

lemma sql_fetch_run:
  "sql_fetch d query args timeout b st = (r, st') \<Longrightarrow>
     db_log st' = db_log st @ SqlFetch query args # (case b of None \<Rightarrow> [] | Some stmt \<Rightarrow> [SqlExecute ''ROLLBACK''])"
  by (auto simp: sql_fetch_def sql_call_def Let_def split: prod.splits option.splits if_splits)

lemma execute_query_session:
  assumes "execute_query d to_text url query params read_only max_rows timeout st = (r, st')"
  shows "\<exists>evs. db_log st' = db_log st @ evs
    \<and> sql_session (read_only_url read_only url) (begin_read_only read_only (read_only_url read_only url))
        query (map (bind_json_param to_text) params) evs"
proof -
  define u where "u = read_only_url read_only url"
  define b where "b = begin_read_only read_only u"
  define args where "args = map (bind_json_param to_text) params"
  obtain r1 st1 where c: "sql_connect d u timeout st = (r1, st1)" by fastforce
  obtain r2 st2 where s: "sql_begin d b st1 = (r2, st2)" by fastforce
  obtain r3 st3 where f: "sql_fetch d query args timeout b st2 = (r3, st3)" by fastforce
  note logs = sql_connect_run [OF c] sql_begin_run [OF s] sql_fetch_run [OF f]
  have st': "st' = (case r1 of Inl e \<Rightarrow> st1 | Inr _ \<Rightarrow> case r2 of Inl e \<Rightarrow> st2 | Inr _ \<Rightarrow>
      case r3 of Inl e \<Rightarrow> st3 | Inr rows \<Rightarrow> \<lparr>db_world = sd_close d (db_world st3), db_log = db_log st3 @ [SqlClose]\<rparr>)"
    using assms c s f by (auto simp: execute_query_def act_bind_def Let_def u_def b_def args_def split: sum.splits)
  show ?thesis
    unfolding u_def [symmetric] b_def [symmetric] args_def [symmetric]
    using logs by (cases r1; cases r2; cases r3; cases b) (auto simp: st' sql_session_def)
qed

lemma lower_append: "to_ascii_lowercase (a @ b) = to_ascii_lowercase a @ to_ascii_lowercase b"
  by (simp add: to_ascii_lowercase_def)

lemma lower_mode_ro: "to_ascii_lowercase ''mode=ro'' = ''mode=ro''"
  by code_simp

lemma read_only_url_sqlite:
  assumes "prefix ''sqlite'' (to_ascii_lowercase url)"
  shows "sublist ''mode=ro'' (to_ascii_lowercase (read_only_url True url))"
proof (cases "sublist ''mode=ro'' (to_ascii_lowercase url)")
  case False
  then have "to_ascii_lowercase (read_only_url True url)
      = (to_ascii_lowercase url @ to_ascii_lowercase (if CHR ''?'' \<in> set url then ''&'' else ''?'')) @ ''mode=ro''"
    using assms by (simp only: read_only_url_def lower_append lower_mode_ro append_assoc simp_thms if_True)
  then show ?thesis by (simp only: suffix_imp_sublist suffixI)
qed (simp add: read_only_url_def)


text \<open>
  A query returns at most the allowed number of rows, and the message of a failed one went
  through the redactor of the request.
\<close>

theorem sql_result_bounded_or_redacted:
  "case fst (execute_sql_once d to_text sql_data ctx st) of
     Inr raw \<Rightarrow> \<exists>rows. raw_body raw = to_text (JArray (map JObject rows))
                 \<and> length rows \<le> unat (ps_max_rows sql_data)
   | Inl err \<Rightarrow> \<exists>msg. err = [''SQL query failed: '' @ redact (ec_redactor ctx) msg]"
proof (cases "execute_query d to_text (ps_connection_url sql_data) (ps_query sql_data) (ps_params sql_data)
    (ps_read_only sql_data) (ps_max_rows sql_data) (rv_timeout_ms (ec_transport ctx)) st")
  case (Pair r st')
  then show ?thesis
  proof (cases r)
    case (Inr rows)
    then have "length rows \<le> unat (ps_max_rows sql_data)"
      using Pair by (auto simp: execute_query_def Let_def result_simps)
    then show ?thesis using Pair Inr by (auto simp: execute_sql_once_def)
  qed (auto simp: execute_sql_once_def bail_def)
qed

section \<open>Concrete runs\<close>

definition sample_driver :: "(nat, nat) sql_driver" where
  "sample_driver =
     \<lparr>sd_connect = (\<lambda>u t w. (Inr (), w)), sd_execute = (\<lambda>q w. (Inr (), Suc w)),
      sd_fetch = (\<lambda>q args t w. (FetchRows [1, 2], Suc w)), sd_close = (\<lambda>w. w),
      sd_rows = \<lparr>sr_columns = (\<lambda>row. [\<lparr>sc_name = ''id'', sc_type = ''INT8'', sc_ordinal = 0\<rparr>]),
        sr_i64 = (\<lambda>row i. Some (int row)), sr_f64 = (\<lambda>row i. None), sr_bool = (\<lambda>row i. None),
        sr_text = (\<lambda>row i. None)\<rparr>\<rparr>"

lemmas sql_run_simps = execute_query_def sql_connect_def sql_begin_def sql_fetch_def sql_call_def act_bind_def
  Let_def library_def sample_driver_def

text \<open>A \<open>mariadb\<close> connection, which the driver also accepts, is not made read-only.\<close>

lemma mariadb_not_read_only:
  "db_log (snd (execute_query sample_driver (\<lambda>v. []) ''mariadb://db/app'' ''DELETE FROM t'' [] True 10 30000
     \<lparr>db_world = 0, db_log = []\<rparr>))
   = [SqlConnect ''mariadb://db/app'', SqlFetch ''DELETE FROM t'' [], SqlClose]"
proof -
  have u: "read_only_url True ''mariadb://db/app'' = ''mariadb://db/app''" by code_simp
  have b: "begin_read_only True ''mariadb://db/app'' = None" by code_simp
  show ?thesis by (simp add: sql_run_simps u b)
qed

lemma sample_query_log:
  "db_log (snd (execute_query sample_driver (\<lambda>v. []) ''postgres://db/app'' ''DELETE FROM t'' [] True 10 30000
     \<lparr>db_world = 0, db_log = []\<rparr>))
   = [SqlConnect ''postgres://db/app'', SqlExecute ''BEGIN READ ONLY'', SqlFetch ''DELETE FROM t'' [],
      SqlExecute ''ROLLBACK'', SqlClose]"
proof -
  have u: "read_only_url True ''postgres://db/app'' = ''postgres://db/app''" by code_simp
  have b: "begin_read_only True ''postgres://db/app'' = Some ''BEGIN READ ONLY''" by code_simp
  show ?thesis by (simp add: sql_run_simps u b)
qed


end
