(* ===== verification/BashExec.thy ===== *)
theory BashExec
  imports Http Catalog Std
begin

text \<open>
  The Bash executor \<open>crates/earl-protocol-bash/src/\<close>: the sandboxed command of \<open>sandbox.rs\<close> on
  Linux and macOS, and the buffered and streaming runs of \<open>executor.rs\<close>. The operating system is a
  parameter: which files and tools exist, and what a spawned child writes and when it ends. The
  model keeps the log of the processes started and killed.
\<close>

section \<open>The operating system\<close>

datatype target_os = Linux | Macos | OtherOs

record sandbox_command =
  cm_program :: string
  cm_args :: "string list"
  cm_env :: "(string \<times> string) list"
  cm_dir :: "string option"
  cm_stdin_piped :: bool
  cm_limit_as :: "usize option"
  cm_limit_cpu :: "nat option"

datatype wait_outcome = WaitTimeout | WaitError string | WaitExited "int option"

text \<open>
  A child: its process id, what writing its standard input gives, what each read of its pipes gives
  (an empty read is the end), how waiting for it ends (given whether its group was killed), and the
  number of lines after which the deadline of a streaming run expires, if it does.
\<close>

record child =
  cd_pid :: "u32 option"
  cd_stdin :: "string + unit"
  cd_stdout :: "(string + string) list"
  cd_stderr :: "(string + string) list"
  cd_wait :: "bool \<Rightarrow> wait_outcome"
  cd_deadline :: "nat option"

record 's bash_os =
  bx_target :: target_os
  bx_which :: "string \<Rightarrow> bool"
  bx_exists :: "string \<Rightarrow> bool"
  bx_spawn :: "sandbox_command \<Rightarrow> 's \<Rightarrow> (string + child) \<times> 's"

datatype bash_event = BashSpawn sandbox_command | KillGroup u32 | KillChild u32

record 's bash_state =
  bh_world :: 's
  bh_log :: "bash_event list"

section \<open>The sandbox\<close>

definition sandbox_available :: "'s bash_os \<Rightarrow> bool" where
  "sandbox_available bx =
     (case bx_target bx of Linux \<Rightarrow> bx_which bx ''bwrap'' | Macos \<Rightarrow> bx_which bx ''sandbox-exec'' | OtherOs \<Rightarrow> False)"

definition sandbox_tool_name :: "target_os \<Rightarrow> string" where
  "sandbox_tool_name os =
     (case os of Linux \<Rightarrow> ''bwrap (bubblewrap)'' | Macos \<Rightarrow> ''sandbox-exec'' | OtherOs \<Rightarrow> ''unsupported'')"

text \<open>\<open>Path::join\<close>: an absolute path replaces the base.\<close>

definition path_join :: "string \<Rightarrow> string \<Rightarrow> string" where
  "path_join base p =
     (if prefix ''/'' p then p
      else if base = [] \<or> last base = CHR ''/'' then base @ p
      else base @ ''/'' @ p)"

definition validate_sandbox_cwd :: "string \<Rightarrow> unit result" where
  "validate_sandbox_cwd dir =
     (if ''..'' \<in> set (path_components dir) then bail ''sandbox cwd must not contain `..` path components''
      else Inr ())"

definition system_dirs :: "string list" where
  "system_dirs = [''/usr'', ''/bin'', ''/sbin'', ''/lib'', ''/lib64'', ''/etc'']"

definition ro_binds :: "'s bash_os \<Rightarrow> string list" where
  "ro_binds bx =
     concat (map (\<lambda>dir. if bx_exists bx dir then [''--ro-bind'', dir, dir] else []) system_dirs)"

definition cwd_args :: "'s bash_os \<Rightarrow> string \<Rightarrow> resolved_bash_sandbox \<Rightarrow> string list" where
  "cwd_args bx dir sandbox =
     [''--ro-bind'', dir, dir] @ [''--chdir'', dir]
     @ concat (map (\<lambda>writable.
          let full = path_join dir writable
          in if bx_exists bx full then [''--bind'', full, full] else []) (rb_writable_paths sandbox))"

definition plain_command :: "string \<Rightarrow> string list \<Rightarrow> (string \<times> string) list \<Rightarrow> sandbox_command" where
  "plain_command program args env =
     \<lparr>cm_program = program, cm_args = args, cm_env = env, cm_dir = None, cm_stdin_piped = False,
      cm_limit_as = None, cm_limit_cpu = None\<rparr>"

definition build_linux_command ::
    "'s bash_os \<Rightarrow> string \<Rightarrow> (string \<times> string) list \<Rightarrow> string option \<Rightarrow> resolved_bash_sandbox \<Rightarrow>
     sandbox_command result" where
  "build_linux_command bx script env cwd sandbox =
     (let args = ro_binds bx @ [''--tmpfs'', ''/tmp''] @ [''--dev'', ''/dev''] @ [''--proc'', ''/proc'']
            @ [''--unshare-pid''] @ [''--unshare-ipc''] @ [''--unshare-uts'']
            @ (if \<not> rb_network sandbox then [''--unshare-net''] else []) @ [''--die-with-parent'']
      in and_then (case cwd of
                     None \<Rightarrow> Inr args
                   | Some dir \<Rightarrow> and_then (validate_sandbox_cwd dir) (\<lambda>_. Inr (args @ cwd_args bx dir sandbox))) (\<lambda>args.
         Inr (plain_command ''bwrap'' (args @ [''--'', ''bash'', ''-c'', script]) env)))"

definition newline :: string where
  "newline = [CHR 0x0A]"

definition quoted :: "string \<Rightarrow> string" where
  "quoted s = [CHR 0x22] @ s @ [CHR 0x22]"

definition build_seatbelt_profile :: "string option \<Rightarrow> resolved_bash_sandbox \<Rightarrow> string" where
  "build_seatbelt_profile cwd sandbox =
     ''(version 1)'' @ newline @ ''(deny default)'' @ newline
     @ (if rb_network sandbox then ''(allow network*)'' else ''(deny network*)'') @ newline
     @ ''(allow process-exec)'' @ newline @ ''(allow process-fork)'' @ newline @ ''(allow sysctl-read)'' @ newline
     @ ''(allow file-read*)'' @ newline
     @ (case cwd of
          None \<Rightarrow> []
        | Some dir \<Rightarrow> concat (map (\<lambda>writable.
            ''(allow file-write* (subpath '' @ quoted (path_join dir writable) @ ''))'' @ newline)
            (rb_writable_paths sandbox)))
     @ ''(allow file-write* (literal '' @ quoted ''/dev/null'' @ ''))'' @ newline
     @ ''(allow file-write* (literal '' @ quoted ''/dev/tty'' @ ''))'' @ newline
     @ concat (map (\<lambda>service. ''(allow mach-lookup (global-name '' @ quoted service @ ''))'' @ newline)
         [''com.apple.system.logger'', ''com.apple.system.notification_center'', ''com.apple.SecurityServer'',
          ''com.apple.CoreServices.coreservicesd'', ''com.apple.lsd.mapdb''])"

definition build_macos_command ::
    "string \<Rightarrow> (string \<times> string) list \<Rightarrow> string option \<Rightarrow> resolved_bash_sandbox \<Rightarrow> sandbox_command result" where
  "build_macos_command script env cwd sandbox =
     (let cmd = plain_command ''sandbox-exec''
                  [''-p'', build_seatbelt_profile cwd sandbox, ''bash'', ''-c'', script] env
      in case cwd of
           None \<Rightarrow> Inr cmd
         | Some dir \<Rightarrow> and_then (validate_sandbox_cwd dir) (\<lambda>_. Inr (cmd\<lparr>cm_dir := Some dir\<rparr>)))"

definition build_sandboxed_command ::
    "'s bash_os \<Rightarrow> string \<Rightarrow> (string \<times> string) list \<Rightarrow> string option \<Rightarrow> resolved_bash_sandbox \<Rightarrow>
     sandbox_command result" where
  "build_sandboxed_command bx script env cwd sandbox =
     (case bx_target bx of
        Linux \<Rightarrow> build_linux_command bx script env cwd sandbox
      | Macos \<Rightarrow> build_macos_command script env cwd sandbox
      | OtherOs \<Rightarrow> bail (''bash sandbox is not supported on this platform; ''
                        @ ''only Linux (bwrap) and macOS (sandbox-exec) are supported''))"

section \<open>Running a script\<close>

definition bash_command :: "'s bash_os \<Rightarrow> prepared_bash_script \<Rightarrow> sandbox_command result" where
  "bash_command bx p =
     (if \<not> sandbox_available bx
      then bail (''bash sandbox tool ('' @ sandbox_tool_name (bx_target bx)
                 @ '') is not available on this system; install it or disable the bash feature'')
      else
      and_then (build_sandboxed_command bx (pb_script p) (pb_env p) (pb_cwd p) (pb_sandbox p)) (\<lambda>cmd.
      Inr (cmd\<lparr>cm_stdin_piped := pb_stdin p \<noteq> None,
               cm_limit_as := rb_max_memory_bytes (pb_sandbox p),
               cm_limit_cpu := map_option (\<lambda>ms. (unat ms + 999) div 1000) (rb_max_cpu_time_ms (pb_sandbox p))\<rparr>)))"

definition bash_spawn :: "'s bash_os \<Rightarrow> sandbox_command \<Rightarrow> ('s bash_state, u32 \<times> child) action" where
  "bash_spawn bx cmd st =
     (case bx_spawn bx cmd (bh_world st) of
        (r, w) \<Rightarrow>
          (and_then (with_context ''failed spawning sandboxed bash command'' (library r)) (\<lambda>c.
           and_then (ok_or [''failed to obtain PID of spawned bash process''] (cd_pid c)) (\<lambda>pid.
           Inr (pid, c))),
           \<lparr>bh_world = w, bh_log = bh_log st @ [BashSpawn cmd]\<rparr>))"

definition log_kill :: "bash_event list \<Rightarrow> 's bash_state \<Rightarrow> 's bash_state" where
  "log_kill evs st = st\<lparr>bh_log := bh_log st @ evs\<rparr>"

text \<open>The group is killed when the process id is an \<open>i32\<close>.\<close>

definition kill_group :: "u32 \<Rightarrow> bash_event list" where
  "kill_group pid = (if unat pid < 2 ^ 31 then [KillGroup pid] else [])"

fun read_stream_limited :: "usize \<Rightarrow> string \<Rightarrow> (string + string) list \<Rightarrow> string \<Rightarrow> string result" where
  "read_stream_limited limit label [] out = Inr out"
| "read_stream_limited limit label (Inl e # reads) out = Inl [''failed reading bash '' @ label, e]"
| "read_stream_limited limit label (Inr bytes # reads) out =
     (if bytes = [] then Inr out
      else if sat_add (length out) (length bytes) > unat limit
      then bail (''bash '' @ label @ '' exceeded configured max_response_bytes ('' @ show_nat (unat limit) @ '' bytes)'')
      else read_stream_limited limit label reads (out @ bytes))"

definition bash_max_bytes :: "prepared_bash_script \<Rightarrow> execution_context \<Rightarrow> usize" where
  "bash_max_bytes p ctx = unwrap_or (rb_max_output_bytes (pb_sandbox p)) (rv_max_response_bytes (ec_transport ctx))"

definition bash_timeout :: "prepared_bash_script \<Rightarrow> execution_context \<Rightarrow> nat" where
  "bash_timeout p ctx = unwrap_or (map_option unat (rb_max_time_ms (pb_sandbox p))) (rv_timeout_ms (ec_transport ctx))"

text \<open>\<open>c.clamp(0, u16::MAX) as u16\<close>; a process ended by a signal has no code.\<close>

definition exit_code :: "int option \<Rightarrow> u16" where
  "exit_code code = (case code of Some c \<Rightarrow> word_of_int (max 0 (min c 65535)) | None \<Rightarrow> 1)"

definition write_stdin :: "prepared_bash_script \<Rightarrow> child \<Rightarrow> unit result" where
  "write_stdin p c =
     (case pb_stdin p of
        None \<Rightarrow> Inr ()
      | Some input \<Rightarrow> with_context ''failed writing stdin to bash process'' (library (cd_stdin c)))"

definition timed_out :: "nat \<Rightarrow> 'a result" where
  "timed_out timeout = bail (''bash script timed out after '' @ show_duration timeout)"

definition execute_bash_once ::
    "'s bash_os \<Rightarrow> prepared_bash_script \<Rightarrow> execution_context \<Rightarrow> ('s bash_state, raw_execution_result) action" where
  "execute_bash_once bx p ctx =
     act_bind (act_lift (bash_command bx p)) (\<lambda>cmd.
     act_bind (bash_spawn bx cmd) (\<lambda>(pid, c).
     act_bind (act_lift (write_stdin p c)) (\<lambda>_ st.
     (case cd_wait c False of
        WaitTimeout \<Rightarrow> (timed_out (bash_timeout p ctx), log_kill (kill_group pid @ [KillChild pid]) st)
      | WaitError e \<Rightarrow> (Inl [''failed waiting for bash process'', e], st)
      | WaitExited code \<Rightarrow>
          (and_then (read_stream_limited (bash_max_bytes p ctx) ''stdout'' (cd_stdout c) []) (\<lambda>stdout_bytes.
           and_then (read_stream_limited (bash_max_bytes p ctx) ''stderr'' (cd_stderr c) []) (\<lambda>stderr_bytes.
           Inr \<lparr>raw_status = exit_code code, raw_url = ''bash://script'',
                raw_body = (if stdout_bytes = [] then stderr_bytes else stdout_bytes),
                raw_content_type = None\<rparr>)), st)))))"

section \<open>Streaming the output\<close>

text \<open>What a pipe holds up to its end or the first error, and its lines, each with its line feed.
  An error loses the unfinished line before it.\<close>

fun pipe_bytes :: "(string + string) list \<Rightarrow> string \<times> string option" where
  "pipe_bytes [] = ([], None)"
| "pipe_bytes (Inl e # reads) = ([], Some e)"
| "pipe_bytes (Inr bytes # reads) =
     (if bytes = [] then ([], None) else (case pipe_bytes reads of (rest, e) \<Rightarrow> (bytes @ rest, e)))"

fun split_inclusive :: "string \<Rightarrow> string list" where
  "split_inclusive [] = []"
| "split_inclusive (c # s) =
     (if c = CHR 0x0A then [c] # split_inclusive s
      else (case split_inclusive s of [] \<Rightarrow> [[c]] | l # ls \<Rightarrow> (c # l) # ls))"

definition pipe_lines :: "(string + string) list \<Rightarrow> string list \<times> string option" where
  "pipe_lines reads =
     (case pipe_bytes reads of
        (bytes, None) \<Rightarrow> (split_inclusive bytes, None)
      | (bytes, Some e) \<Rightarrow> (filter (\<lambda>l. last l = CHR 0x0A) (split_inclusive bytes), Some e))"

text \<open>How the reading loop ends: the pipe was read to its end, the consumer hung up, the limit was
  exceeded, a read failed, or the deadline expired.\<close>

datatype read_end = EndOfPipe | HungUp | OverLimit | ReadFailed string | DeadlineExpired

fun stream_lines ::
    "usize \<Rightarrow> nat option \<Rightarrow> string option \<Rightarrow> string list \<Rightarrow> nat \<Rightarrow> channel \<Rightarrow> read_end \<times> channel" where
  "stream_lines limit deadline err [] count ch =
     (if deadline = Some 0 then DeadlineExpired
      else case err of Some e \<Rightarrow> ReadFailed e | None \<Rightarrow> EndOfPipe, ch)"
| "stream_lines limit deadline err (l # ls) count ch =
     (if deadline = Some 0 then (DeadlineExpired, ch)
      else let count = sat_add count (length l)
           in if count > unat limit then (OverLimit, ch)
              else case channel_send \<lparr>sc_data = from_utf8_lossy l, sc_content_type = None\<rparr> ch of
                     (True, ch) \<Rightarrow> stream_lines limit (map_option (\<lambda>n. n - 1) deadline) err ls count ch
                   | (False, ch) \<Rightarrow> (HungUp, ch))"

text \<open>What a streaming run does once its reading loop ended.\<close>

definition stream_finish ::
    "prepared_bash_script \<Rightarrow> execution_context \<Rightarrow> u32 \<Rightarrow> child \<Rightarrow> read_end \<Rightarrow> ('s bash_state, stream_meta) action" where
  "stream_finish p ctx pid c ending st =
     (let expire = (\<lambda>st. (timed_out (bash_timeout p ctx), log_kill (kill_group pid @ [KillChild pid]) st));
          wait = (\<lambda>killed st. case cd_wait c killed of
             WaitTimeout \<Rightarrow> expire st
           | WaitError e \<Rightarrow> (Inl [''failed waiting for bash process'', e], st)
           | WaitExited code \<Rightarrow> (Inr \<lparr>sm_status = exit_code code, sm_url = ''bash://script''\<rparr>, st))
      in case ending of
           EndOfPipe \<Rightarrow> wait False st
         | HungUp \<Rightarrow> wait True (log_kill (kill_group pid) st)
         | OverLimit \<Rightarrow>
             (bail (''bash stdout exceeded configured max output bytes ('' @ show_nat (unat (bash_max_bytes p ctx)) @ '' bytes)''),
              log_kill (kill_group pid) st)
         | ReadFailed e \<Rightarrow> (Inl [''failed reading bash stdout'', e], st)
         | DeadlineExpired \<Rightarrow> expire st)"

definition execute_bash_stream ::
    "'s bash_os \<Rightarrow> prepared_bash_script \<Rightarrow> execution_context \<Rightarrow> channel \<Rightarrow> 's bash_state \<Rightarrow>
     stream_meta result \<times> channel \<times> 's bash_state" where
  "execute_bash_stream bx p ctx ch st =
     (case act_bind (act_lift (bash_command bx p)) (\<lambda>cmd.
           act_bind (bash_spawn bx cmd) (\<lambda>(pid, c).
           act_bind (act_lift (write_stdin p c)) (\<lambda>_.
           act_return (pid, c)))) st of
        (Inl e, st') \<Rightarrow> (Inl e, ch, st')
      | (Inr (pid, c), st') \<Rightarrow>
          (case pipe_lines (cd_stdout c) of (ls, err) \<Rightarrow>
          (case stream_lines (bash_max_bytes p ctx) (cd_deadline c) err ls 0 ch of (ending, ch') \<Rightarrow>
          (case stream_finish p ctx pid c ending st' of (r, st'') \<Rightarrow> (r, ch', st'')))))"

section \<open>Confinement\<close>

text \<open>The mounts and flags of a \<open>bwrap\<close> call, as the words they are passed as.\<close>

datatype bwrap_option =
    RoBind string | Bind string | Tmpfs string | Dev string | Proc string | Chdir string | Flag string

fun bwrap_words :: "bwrap_option \<Rightarrow> string list" where
  "bwrap_words (RoBind d) = [''--ro-bind'', d, d]"
| "bwrap_words (Bind d) = [''--bind'', d, d]"
| "bwrap_words (Tmpfs d) = [''--tmpfs'', d]"
| "bwrap_words (Dev d) = [''--dev'', d]"
| "bwrap_words (Proc d) = [''--proc'', d]"
| "bwrap_words (Chdir d) = [''--chdir'', d]"
| "bwrap_words (Flag f) = [f]"

text \<open>A path lies below another when its components extend the other's and never go up.\<close>

definition below :: "string \<Rightarrow> string \<Rightarrow> bool" where
  "below p dir \<longleftrightarrow> path_starts_with p dir \<and> ''..'' \<notin> set (path_components p)"

text \<open>
  A confined command runs the script and nothing else under \<open>bwrap\<close> in namespaces of its own; it
  may write only below the working directory, and shares the network only when allowed.
\<close>

definition confined :: "prepared_bash_script \<Rightarrow> sandbox_command \<Rightarrow> bool" where
  "confined p cmd \<longleftrightarrow>
     cm_program cmd = ''bwrap''
     \<and> (\<exists>opts. cm_args cmd = concat (map bwrap_words opts) @ [''--'', ''bash'', ''-c'', pb_script p]
          \<and> {Flag ''--unshare-pid'', Flag ''--unshare-ipc'', Flag ''--unshare-uts'', Flag ''--die-with-parent''} \<subseteq> set opts
          \<and> (rb_network (pb_sandbox p) \<or> Flag ''--unshare-net'' \<in> set opts)
          \<and> (\<forall>d. Bind d \<in> set opts \<longrightarrow> (\<exists>cwd. pb_cwd p = Some cwd \<and> below d cwd)))
     \<and> cm_env cmd = pb_env p
     \<and> cm_limit_as cmd = rb_max_memory_bytes (pb_sandbox p)"

lemma path_join_components:
  assumes "\<not> prefix ''/'' w" and "dir \<noteq> []"
  shows "path_components (path_join dir w) = path_components dir @ path_components w"
proof (cases "last dir = CHR ''/''")
  case True
  with assms(2) obtain a where a: "dir = a @ [CHR ''/'']" by (metis append_butlast_last_id)
  then have "path_join dir w = a @ CHR ''/'' # w" using assms by (simp add: path_join_def)
  moreover have "prefix ''/'' (a @ CHR ''/'' # w) = prefix ''/'' dir" using a by (cases a) auto
  ultimately show ?thesis
    using assms a by (simp add: path_components_def split_char_append [where b = "[]", simplified] split_char_append)
next
  case False
  then have "path_join dir w = dir @ CHR ''/'' # w" using assms by (simp add: path_join_def)
  moreover have "prefix ''/'' (dir @ CHR ''/'' # w) = prefix ''/'' dir" using assms(2) by (cases dir) auto
  ultimately show ?thesis
    using assms by (simp add: path_components_def split_char_append)
qed

lemma path_join_below:
  assumes "\<not> prefix ''/'' w" and "dir \<noteq> []" and "''..'' \<notin> set (split_char (CHR ''/'') w)"
    and "''..'' \<notin> set (path_components dir)"
  shows "below (path_join dir w) dir"
  using assms path_join_components [OF assms(1,2)]
  by (auto simp: below_def path_starts_with_def path_components_def)

lemma ro_binds_words:
  "ro_binds bx = concat (map bwrap_words (map RoBind (filter (bx_exists bx) system_dirs)))"
proof -
  have "concat (map (\<lambda>dir. if bx_exists bx dir then [''--ro-bind'', dir, dir] else []) dirs)
      = concat (map bwrap_words (map RoBind (filter (bx_exists bx) dirs)))" for dirs
    by (induction dirs) auto
  then show ?thesis by (simp only: ro_binds_def)
qed

lemma cwd_args_words:
  "cwd_args bx dir sandbox = concat (map bwrap_words (RoBind dir # Chdir dir #
     map Bind (filter (bx_exists bx) (map (path_join dir) (rb_writable_paths sandbox)))))"
proof -
  have "concat (map (\<lambda>writable. let full = path_join dir writable
          in if bx_exists bx full then [''--bind'', full, full] else []) ws)
      = concat (map bwrap_words (map Bind (filter (bx_exists bx) (map (path_join dir) ws))))" for ws
    by (induction ws) (auto simp: Let_def)
  then show ?thesis by (simp add: cwd_args_def)
qed

definition isolation_options :: "'s bash_os \<Rightarrow> bool \<Rightarrow> bwrap_option list" where
  "isolation_options bx network =
     map RoBind (filter (bx_exists bx) system_dirs)
     @ [Tmpfs ''/tmp'', Dev ''/dev'', Proc ''/proc'', Flag ''--unshare-pid'', Flag ''--unshare-ipc'',
        Flag ''--unshare-uts''] @ (if network then [] else [Flag ''--unshare-net'']) @ [Flag ''--die-with-parent'']"

lemma build_linux_command_words:
  assumes "build_linux_command bx script env cwd sandbox = Inr cmd"
  shows "cmd = plain_command ''bwrap'' (concat (map bwrap_words (isolation_options bx (rb_network sandbox) @
      (case cwd of None \<Rightarrow> [] | Some dir \<Rightarrow> RoBind dir # Chdir dir #
         map Bind (filter (bx_exists bx) (map (path_join dir) (rb_writable_paths sandbox))))))
      @ [''--'', ''bash'', ''-c'', script]) env"
    and "\<And>dir. cwd = Some dir \<Longrightarrow> ''..'' \<notin> set (path_components dir)"
proof -
  have args: "ro_binds bx @ [''--tmpfs'', ''/tmp''] @ [''--dev'', ''/dev''] @ [''--proc'', ''/proc'']
      @ [''--unshare-pid''] @ [''--unshare-ipc''] @ [''--unshare-uts'']
      @ (if \<not> n then [''--unshare-net''] else []) @ [''--die-with-parent'']
    = concat (map bwrap_words (isolation_options bx n))" for n
    by (simp add: isolation_options_def ro_binds_words)
  show "cmd = plain_command ''bwrap'' (concat (map bwrap_words (isolation_options bx (rb_network sandbox) @
      (case cwd of None \<Rightarrow> [] | Some dir \<Rightarrow> RoBind dir # Chdir dir #
         map Bind (filter (bx_exists bx) (map (path_join dir) (rb_writable_paths sandbox))))))
      @ [''--'', ''bash'', ''-c'', script]) env"
    using assms unfolding build_linux_command_def Let_def args
    by (cases cwd) (simp_all add: cwd_args_words result_simps)
  show "\<And>dir. cwd = Some dir \<Longrightarrow> ''..'' \<notin> set (path_components dir)"
    using assms unfolding build_linux_command_def Let_def args
    by (auto simp: validate_sandbox_cwd_def result_simps)
qed

lemma bash_command_confined:
  assumes "bash_command bx p = Inr cmd" and "bx_target bx = Linux"
    and "\<And>w. w \<in> set (rb_writable_paths (pb_sandbox p)) \<Longrightarrow>
      \<not> prefix ''/'' w \<and> ''..'' \<notin> set (split_char (CHR ''/'') w)"
    and "pb_cwd p \<noteq> Some []"
  shows "confined p cmd"
proof -
  obtain base where base: "build_linux_command bx (pb_script p) (pb_env p) (pb_cwd p) (pb_sandbox p) = Inr base"
    and cmd: "cm_program cmd = cm_program base" "cm_args cmd = cm_args base" "cm_env cmd = cm_env base"
      "cm_limit_as cmd = rb_max_memory_bytes (pb_sandbox p)"
    using assms(1,2) by (auto simp: bash_command_def build_sandboxed_command_def result_simps)
  define opts where "opts = isolation_options bx (rb_network (pb_sandbox p)) @
      (case pb_cwd p of None \<Rightarrow> [] | Some dir \<Rightarrow> RoBind dir # Chdir dir #
         map Bind (filter (bx_exists bx) (map (path_join dir) (rb_writable_paths (pb_sandbox p)))))"
  have "cm_args cmd = concat (map bwrap_words opts) @ [''--'', ''bash'', ''-c'', pb_script p]"
    using build_linux_command_words(1) [OF base] cmd by (simp add: plain_command_def opts_def)
  moreover have "\<exists>cwd. pb_cwd p = Some cwd \<and> below d cwd" if bind: "Bind d \<in> set opts" for d
  proof (cases "pb_cwd p")
    case None
    with bind show ?thesis by (auto simp: opts_def isolation_options_def split: if_splits)
  next
    case (Some cwd)
    with bind obtain w where w: "w \<in> set (rb_writable_paths (pb_sandbox p))" and d: "d = path_join cwd w"
      by (auto simp: opts_def isolation_options_def split: if_splits)
    have "below d cwd"
      unfolding d using assms(3) [OF w] assms(4) Some build_linux_command_words(2) [OF base Some]
      by (intro path_join_below) simp_all
    with Some show ?thesis by simp
  qed
  moreover have "{Flag ''--unshare-pid'', Flag ''--unshare-ipc'', Flag ''--unshare-uts'', Flag ''--die-with-parent''} \<subseteq> set opts"
    and "rb_network (pb_sandbox p) \<or> Flag ''--unshare-net'' \<in> set opts"
    by (simp_all add: opts_def isolation_options_def)
  moreover have "cm_program cmd = ''bwrap''" "cm_env cmd = pb_env p"
    using build_linux_command_words(1) [OF base] cmd by (simp_all add: plain_command_def)
  ultimately show ?thesis using cmd(4) unfolding confined_def by blast
qed

text \<open>Both runs start the one command the script is prepared as, and nothing else.\<close>

lemma kill_group_no_spawn: "BashSpawn cmd \<notin> set (kill_group pid)"
  by (simp add: kill_group_def)

lemma log_kill_log [simp]: "bh_log (log_kill evs st) = bh_log st @ evs"
  by (simp add: log_kill_def)

lemma bash_spawn_log: "bash_spawn bx cmd st = (r, st') \<Longrightarrow> bh_log st' = bh_log st @ [BashSpawn cmd]"
  by (auto simp: bash_spawn_def split: prod.splits)

lemma execute_bash_once_log:
  assumes "execute_bash_once bx p ctx st = (r, st')"
  shows "\<exists>evs. bh_log st' = bh_log st @ evs \<and> (\<forall>cmd. BashSpawn cmd \<in> set evs \<longrightarrow> bash_command bx p = Inr cmd)"
proof (cases "bash_command bx p")
  case (Inr cmd)
  obtain s st1 where spawn: "bash_spawn bx cmd st = (s, st1)" by fastforce
  have "\<exists>evs. bh_log st' = bh_log st1 @ evs \<and> (\<forall>c. BashSpawn c \<notin> set evs)"
    using assms Inr spawn kill_group_no_spawn
    by (auto simp: execute_bash_once_def act_bind_def split: sum.splits wait_outcome.splits)
  with bash_spawn_log [OF spawn] Inr show ?thesis by fastforce
qed (use assms in \<open>auto simp: execute_bash_once_def act_bind_def\<close>)

lemma stream_finish_log:
  "stream_finish p ctx pid c ending st = (r, st') \<Longrightarrow>
     \<exists>evs. bh_log st' = bh_log st @ evs \<and> (\<forall>cmd. BashSpawn cmd \<notin> set evs)"
  using kill_group_no_spawn
  by (cases ending) (force simp: stream_finish_def Let_def split: wait_outcome.splits)+

lemma execute_bash_stream_log:
  assumes "execute_bash_stream bx p ctx ch st = (r, ch', st')"
  shows "\<exists>evs. bh_log st' = bh_log st @ evs \<and> (\<forall>cmd. BashSpawn cmd \<in> set evs \<longrightarrow> bash_command bx p = Inr cmd)"
proof (cases "bash_command bx p")
  case (Inr cmd)
  obtain s st1 where spawn: "bash_spawn bx cmd st = (s, st1)" by fastforce
  have "\<exists>evs. bh_log st' = bh_log st1 @ evs \<and> (\<forall>c. BashSpawn c \<notin> set evs)"
    using assms Inr spawn
    by (auto simp: execute_bash_stream_def act_bind_def act_return_def split: sum.splits prod.splits
        dest: stream_finish_log)
  with bash_spawn_log [OF spawn] Inr show ?thesis by fastforce
qed (use assms in \<open>auto simp: execute_bash_stream_def act_bind_def\<close>)


section \<open>Output limits\<close>

lemma lossy_length: "length (from_utf8_lossy s) \<le> 3 * length s"
proof (induction s rule: from_utf8_lossy.induct)
  case (1 s)
  show ?case
  proof (cases "s = []")
    case False
    then have s: "0 < length s" by simp
    show ?thesis
    proof (cases "utf8_head s")
      case (Valid n)
      have "n \<le> length s" "length (from_utf8_lossy (drop n s)) \<le> 3 * (length s - n)"
        using 1(1) [OF False Valid] utf8_head_Valid [OF Valid] by simp_all
      then have "n + length (from_utf8_lossy (drop n s)) \<le> 3 * length s" by linarith
      with \<open>n \<le> length s\<close> False Valid show ?thesis by (subst from_utf8_lossy.simps) simp
    next
      case (Invalid n)
      have "length (from_utf8_lossy (drop n s)) \<le> 3 * (length s - n)" using 1(2) [OF False Invalid] by simp
      moreover have "length s - n < length s" using utf8_head_Invalid [OF Invalid] s by simp
      ultimately have "3 + length (from_utf8_lossy (drop n s)) \<le> 3 * length s" by linarith
      with False Invalid show ?thesis by (subst from_utf8_lossy.simps) (simp add: replacement_char_def)
    next
      case Incomplete
      have "3 \<le> 3 * length s" using s by linarith
      with Incomplete False show ?thesis by (subst from_utf8_lossy.simps) (simp add: replacement_char_def)
    qed
  qed (simp add: from_utf8_lossy.simps)
qed

definition line_chunk :: "string \<Rightarrow> stream_chunk" where
  "line_chunk l = \<lparr>sc_data = from_utf8_lossy l, sc_content_type = None\<rparr>"

lemma stream_lines_taken:
  assumes "unat limit < 2 ^ 64 - 1"
  shows "stream_lines limit deadline err ls n ch = (ending, ch') \<Longrightarrow> n \<le> unat limit \<Longrightarrow>
    \<exists>k. ch_taken ch' = ch_taken ch @ map line_chunk (take k ls) \<and> n + length (concat (take k ls)) \<le> unat limit"
proof (induction ls arbitrary: deadline n ch)
  case (Cons l ls)
  show ?case
  proof (cases "deadline = Some 0 \<or> sat_add n (length l) > unat limit \<or> ch_left ch = Some 0")
    case True
    with Cons.prems have "ch_taken ch' = ch_taken ch @ map line_chunk (take 0 (l # ls))"
      by (auto simp: Let_def channel_send_def split: if_splits)
    with Cons.prems(2) show ?thesis by (metis concat.simps(1) add_0_right list.size(3) take_0)
  next
    case False
    define ch1 where "ch1 = \<lparr>ch_taken = ch_taken ch @ [line_chunk l], ch_left = map_option (\<lambda>n. n - 1) (ch_left ch)\<rparr>"
    have n: "sat_add n (length l) = n + length l" "n + length l \<le> unat limit"
      using False assms by (auto simp: sat_add_def min_def split: if_splits)
    have "stream_lines limit (map_option (\<lambda>n. n - 1) deadline) err ls (n + length l) ch1 = (ending, ch')"
      using Cons.prems(1) False n by (simp add: channel_send_def ch1_def line_chunk_def Let_def)
    from Cons.IH [OF this n(2)] obtain k where
      "ch_taken ch' = ch_taken ch1 @ map line_chunk (take k ls)"
      "n + length l + length (concat (take k ls)) \<le> unat limit" by blast
    then show ?thesis by (intro exI [of _ "Suc k"]) (simp add: ch1_def)
  qed
qed (auto split: option.splits)

lemma lossy_lines_length: "length (concat (map (\<lambda>l. from_utf8_lossy l) ls)) \<le> 3 * length (concat ls)"
proof (induction ls)
  case (Cons l ls)
  with lossy_length [of l] show ?case by simp
qed simp

text \<open>
  A streaming run delivers the first lines the child wrote, each made valid UTF-8, and those lines
  are within the output limit; what is delivered is at most three times as long.
\<close>

theorem bash_stream_bounded:
  assumes "execute_bash_stream bx p ctx \<lparr>ch_taken = [], ch_left = left\<rparr> st = (r, ch, st')"
    and "unat (bash_max_bytes p ctx) < 2 ^ 64 - 1"
  shows "\<exists>ls. ch_taken ch = map line_chunk ls \<and> length (concat ls) \<le> unat (bash_max_bytes p ctx)
    \<and> taken_bytes ch \<le> 3 * unat (bash_max_bytes p ctx)
    \<and> (ls = [] \<or> (\<exists>cmd w c w'. bx_spawn bx cmd w = (Inr c, w') \<and> prefix ls (fst (pipe_lines (cd_stdout c)))))"
proof -
  let ?start = "act_bind (act_lift (bash_command bx p)) (\<lambda>cmd.
           act_bind (bash_spawn bx cmd) (\<lambda>(pid, c).
           act_bind (act_lift (write_stdin p c)) (\<lambda>_.
           act_return (pid, c)))) st"
  obtain s st1 where start: "?start = (s, st1)" by fastforce
  show ?thesis
  proof (cases s)
    case (Inl e)
    with assms(1) start have "ch_taken ch = []" by (auto simp: execute_bash_stream_def)
    then show ?thesis by (intro exI [of _ "[]"]) (simp add: taken_bytes_def)
  next
    case (Inr pc)
    obtain pid c where pc: "pc = (pid, c)" by fastforce
    obtain cmd w w' where spawn: "bx_spawn bx cmd w = (Inr c, w')"
      using start Inr pc
      by (auto simp: bash_spawn_def act_bind_def act_return_def result_simps library_def
          split: sum.splits prod.splits)
    obtain ls err where ls: "pipe_lines (cd_stdout c) = (ls, err)" by fastforce
    obtain ending ch1 where lines: "stream_lines (bash_max_bytes p ctx) (cd_deadline c) err ls 0
        \<lparr>ch_taken = [], ch_left = left\<rparr> = (ending, ch1)" by fastforce
    have "ch = ch1"
      using assms(1) start Inr pc ls lines by (auto simp: execute_bash_stream_def split: prod.splits)
    then obtain k where k: "ch_taken ch = map line_chunk (take k ls)"
      "length (concat (take k ls)) \<le> unat (bash_max_bytes p ctx)"
      using stream_lines_taken [OF assms(2) lines] by auto
    have "taken_bytes ch \<le> 3 * length (concat (take k ls))"
      using lossy_lines_length [of "take k ls"] k(1)
      by (simp add: taken_bytes_def line_chunk_def length_concat comp_def)
    moreover have "prefix (take k ls) (fst (pipe_lines (cd_stdout c)))" using ls by (simp add: take_is_prefix)
    ultimately show ?thesis using k spawn by (intro exI [of _ "take k ls"]) fastforce
  qed
qed

section \<open>A concrete run\<close>

definition sample_bash_op :: bash_operation where
  "sample_bash_op =
     \<lparr>bash_bash = \<lparr>bash_script_src = ''ls'', bash_env = None, bash_cwd = Some ''/w'',
        bash_sandbox = Some \<lparr>bs_network = Some True, bs_writable_paths = Some [''out''], bs_max_time_ms = None,
          bs_max_output_bytes = Some 8, bs_max_memory_bytes = None, bs_max_cpu_time_ms = None\<rparr>\<rparr>,
      bash_stream = False, bash_transport = None\<rparr>"

definition sample_bash_limits :: global_bash_limits where
  "sample_bash_limits = \<lparr>gl_allow_network = False, gl_max_time_ms = None, gl_max_output_bytes = None,
     gl_max_memory_bytes = None, gl_max_cpu_time_ms = None\<rparr>"

definition sample_script :: prepared_bash_script where
  "sample_script =
     \<lparr>pb_script = ''ls'', pb_env = [], pb_cwd = Some ''/w'', pb_stdin = None,
      pb_sandbox = \<lparr>rb_network = False, rb_writable_paths = [''out''], rb_max_time_ms = None,
        rb_max_output_bytes = Some 8, rb_max_memory_bytes = None, rb_max_cpu_time_ms = None\<rparr>\<rparr>"

definition sample_os :: "nat bash_os" where
  "sample_os =
     \<lparr>bx_target = Linux, bx_which = (\<lambda>tool. True), bx_exists = (\<lambda>p. p = ''/usr'' \<or> p = ''/w/out''),
      bx_spawn = (\<lambda>cmd w. (Inr \<lparr>cd_pid = Some 7, cd_stdin = Inr (),
        cd_stdout = [Inr (''ab'' @ newline @ ''c''), Inr (''d'' @ newline @ ''efghij'' @ newline)], cd_stderr = [],
        cd_wait = (\<lambda>killed. WaitExited (Some 0)), cd_deadline = None\<rparr>, Suc w))\<rparr>"

lemma sample_bash_request:
  "build_bash_request sample_libs echo_renderer sample_bash_op JNull sample_bash_limits = Inr sample_script"
proof -
  have "trim ''ls'' \<noteq> []" "trim ''/w'' \<noteq> []" by code_simp+
  then show ?thesis
    by (simp add: build_bash_request_def sample_bash_op_def sample_bash_limits_def sample_script_def
        echo_renderer_def render_key_value_map_def transpose_map_def Let_def)
qed

lemma sample_bash_op_wf: "op_wf (OpBash sample_bash_op)"
proof -
  have "trim ''ls'' \<noteq> []" by code_simp
  then show ?thesis by (simp add: sample_bash_op_def is_blank_def transport_wf_def)
qed

text \<open>The command of the sample script, as it is passed to \<open>bwrap\<close>.\<close>

definition sample_bwrap :: sandbox_command where
  "sample_bwrap = plain_command ''bwrap''
     [''--ro-bind'', ''/usr'', ''/usr'', ''--tmpfs'', ''/tmp'', ''--dev'', ''/dev'', ''--proc'', ''/proc'',
      ''--unshare-pid'', ''--unshare-ipc'', ''--unshare-uts'', ''--unshare-net'', ''--die-with-parent'',
      ''--ro-bind'', ''/w'', ''/w'', ''--chdir'', ''/w'', ''--bind'', ''/w/out'', ''/w/out'',
      ''--'', ''bash'', ''-c'', ''ls''] []"

lemma sample_bash_command: "bash_command sample_os sample_script = Inr sample_bwrap"
proof -
  have "path_components ''/w'' = [[], ''w'']" by code_simp
  then have "validate_sandbox_cwd ''/w'' = Inr ()" by (simp add: validate_sandbox_cwd_def)
  moreover have "path_join ''/w'' ''out'' = ''/w/out''" by code_simp
  ultimately show ?thesis
    by (simp add: bash_command_def build_sandboxed_command_def build_linux_command_def sandbox_available_def
        ro_binds_def system_dirs_def cwd_args_def sample_os_def sample_script_def sample_bwrap_def
        plain_command_def Let_def)
qed


theorem bash_stream_bounded_witness:
  "taken_bytes (fst (snd (execute_bash_stream sample_os sample_script sample_context \<lparr>ch_taken = [], ch_left = None\<rparr>
     \<lparr>bh_world = 0, bh_log = []\<rparr>))) \<le> 24"
proof -
  obtain r ch st' where run: "execute_bash_stream sample_os sample_script sample_context
      \<lparr>ch_taken = [], ch_left = None\<rparr> \<lparr>bh_world = 0, bh_log = []\<rparr> = (r, ch, st')"
    by (metis prod.collapse)
  have limit: "bash_max_bytes sample_script sample_context = 8"
    by (simp add: bash_max_bytes_def sample_script_def)
  then have "unat (bash_max_bytes sample_script sample_context) < 2 ^ 64 - 1" by simp
  from bash_stream_bounded [OF run this] limit run show ?thesis by auto
qed

end
