(* ===== verification/Reflection.thy ===== *)
theory Reflection
  imports RustStr
begin

text \<open>
  Server reflection of gRPC, \<open>crates/earl-protocol-grpc/src/grpc/reflection.rs\<close>: the files that
  define a symbol are fetched with everything they import. The stream to the server is a parameter
  over a state; the counter \<open>inflight\<close>, the collected files and the names already requested are the
  variables of the loop, which a server can keep going for ever, so it is a partial function.
\<close>

section \<open>Messages\<close>

datatype reflection_request = FileContainingSymbol string | FileByFilename string

record file_descriptor =
  fd_name :: "string option"
  fd_dependency :: "string list"
  fd_rest :: string

datatype reflection_reply = FileDescriptors "string list" | ErrorReply int string | OtherReply

datatype reflection_error =
    StreamInitFailed string
  | StreamFailure string
  | StreamClosed
  | SendFailed
  | ServerError int string
  | DecodeError string

definition show_reflection_error :: "reflection_error \<Rightarrow> string" where
  "show_reflection_error e =
     (case e of
        StreamInitFailed m \<Rightarrow> ''Failed to start reflection stream, reflection might not be supported: '' @ [CHR 0x27] @ m @ [CHR 0x27]
      | StreamFailure m \<Rightarrow> ''Reflection stream returned an error status: '' @ [CHR 0x27] @ m @ [CHR 0x27]
      | StreamClosed \<Rightarrow> ''Reflection stream closed unexpectedly''
      | SendFailed \<Rightarrow> ''Failed to send request to reflection stream''
      | ServerError code m \<Rightarrow> ''Server returned reflection error code '' @ show_int code @ '': '' @ m
      | DecodeError m \<Rightarrow> ''Failed to decode FileDescriptorProto: '' @ m)"

text \<open>The stream: opening it, sending a request (false when it is gone), and the next message, which
  is none when the server closed the stream. Decoding a descriptor is the library's.\<close>

record 's reflection_stream =
  rs_open :: "'s \<Rightarrow> (string + unit) \<times> 's"
  rs_send :: "reflection_request \<Rightarrow> 's \<Rightarrow> bool \<times> 's"
  rs_message :: "'s \<Rightarrow> (string + reflection_reply option) \<times> 's"
  rs_decode :: "string \<Rightarrow> string + file_descriptor"

type_synonym files = "(string \<times> file_descriptor) list"

section \<open>The loop\<close>

fun queue_dependencies ::
    "'s reflection_stream \<Rightarrow> string list \<Rightarrow> files \<Rightarrow> string list \<Rightarrow> nat \<Rightarrow> 's \<Rightarrow>
     (reflection_error + nat \<times> string list) \<times> 's" where
  "queue_dependencies rs [] collected requested count w = (Inr (count, requested), w)"
| "queue_dependencies rs (dep # deps) collected requested count w =
     (if map_of collected dep = None \<and> dep \<notin> set requested
      then case rs_send rs (FileByFilename dep) w of
             (False, w') \<Rightarrow> (Inl SendFailed, w')
           | (True, w') \<Rightarrow> queue_dependencies rs deps collected (requested @ [dep]) (Suc count) w'
      else queue_dependencies rs deps collected requested count w)"

fun process_descriptor_batch ::
    "'s reflection_stream \<Rightarrow> string list \<Rightarrow> files \<Rightarrow> string list \<Rightarrow> nat \<Rightarrow> 's \<Rightarrow>
     (reflection_error + nat \<times> files \<times> string list) \<times> 's" where
  "process_descriptor_batch rs [] collected requested sent_count w = (Inr (sent_count, collected, requested), w)"
| "process_descriptor_batch rs (raw # raws) collected requested sent_count w =
     (case rs_decode rs raw of
        Inl e \<Rightarrow> (Inl (DecodeError e), w)
      | Inr fd \<Rightarrow>
          (case fd_name fd of
             None \<Rightarrow> process_descriptor_batch rs raws collected requested sent_count w
           | Some name \<Rightarrow>
               if map_of collected name \<noteq> None
               then process_descriptor_batch rs raws collected requested sent_count w
               else case queue_dependencies rs (fd_dependency fd) collected requested 0 w of
                      (Inl e, w') \<Rightarrow> (Inl e, w')
                    | (Inr (count, requested'), w') \<Rightarrow>
                        process_descriptor_batch rs raws ((name, fd) # collected) requested' (sent_count + count) w'))"

text \<open>One round: the next message and what it asks for.\<close>

definition collect_round ::
    "'s reflection_stream \<Rightarrow> files \<Rightarrow> string list \<Rightarrow> 's \<Rightarrow>
     (reflection_error + nat \<times> files \<times> string list) \<times> 's" where
  "collect_round rs collected requested w =
     (case rs_message rs w of
        (Inl status, w') \<Rightarrow> (Inl (StreamFailure status), w')
      | (Inr None, w') \<Rightarrow> (Inl StreamClosed, w')
      | (Inr (Some (FileDescriptors raws)), w') \<Rightarrow> process_descriptor_batch rs raws collected requested 0 w'
      | (Inr (Some (ErrorReply code m)), w') \<Rightarrow> (Inl (ServerError code m), w')
      | (Inr (Some OtherReply), w') \<Rightarrow> (Inl StreamClosed, w'))"

partial_function (option) collect_descriptors ::
    "'s reflection_stream \<Rightarrow> nat \<Rightarrow> files \<Rightarrow> string list \<Rightarrow> 's \<Rightarrow> ((reflection_error + files) \<times> 's) option" where
  "collect_descriptors rs inflight collected requested w =
     (if inflight = 0 then Some (Inr collected, w)
      else case collect_round rs collected requested w of
             (Inl e, w') \<Rightarrow> Some (Inl e, w')
           | (Inr (sent_count, collected', requested'), w') \<Rightarrow>
               collect_descriptors rs (inflight - 1 + sent_count) collected' requested' w')"

definition resolve_file_descriptor_set ::
    "'s reflection_stream \<Rightarrow> string \<Rightarrow> 's \<Rightarrow> ((reflection_error + file_descriptor list) \<times> 's) option" where
  "resolve_file_descriptor_set rs symbol w =
     (case rs_open rs w of
        (Inl status, w1) \<Rightarrow> Some (Inl (StreamInitFailed status), w1)
      | (Inr _, w1) \<Rightarrow>
          (case rs_send rs (FileContainingSymbol symbol) w1 of
             (False, w2) \<Rightarrow> Some (Inl SendFailed, w2)
           | (True, w2) \<Rightarrow>
               map_option (\<lambda>(r, w3). (case r of Inl e \<Rightarrow> Inl e | Inr collected \<Rightarrow> Inr (map snd collected), w3))
                 (collect_descriptors rs 1 [] [] w2)))"

section \<open>A stream that answers in order\<close>

text \<open>
  A bidirectional stream to a server: requests wait in a queue and are answered in order. The reply
  depends on the request and on the state of the server.
\<close>

definition fifo_stream ::
    "(reflection_request \<Rightarrow> 'w \<Rightarrow> (string + reflection_reply option) \<times> 'w) \<Rightarrow> (string \<Rightarrow> string + file_descriptor) \<Rightarrow>
     (reflection_request list \<times> 'w) reflection_stream" where
  "fifo_stream reply decode =
     \<lparr>rs_open = (\<lambda>w. (Inr (), w)),
      rs_send = (\<lambda>request (queue, w). (True, (queue @ [request], w))),
      rs_message = (\<lambda>(queue, w). case queue of
          [] \<Rightarrow> (Inr None, (queue, w))
        | request # queue' \<Rightarrow> (case reply request w of (r, w') \<Rightarrow> (r, (queue', w')))),
      rs_decode = decode\<rparr>"

text \<open>The files of a reply by name.\<close>

definition decoded :: "(string \<Rightarrow> string + file_descriptor) \<Rightarrow> string list \<Rightarrow> file_descriptor list" where
  "decoded decode raws = concat (map (\<lambda>raw. case decode raw of Inr fd \<Rightarrow> [fd] | Inl e \<Rightarrow> []) raws)"

definition names :: "file_descriptor list \<Rightarrow> string set" where
  "names fds = {n. \<exists>fd \<in> set fds. fd_name fd = Some n}"

text \<open>
  The protocol: a reply to a request for a file holds the file, unless it was sent on this stream
  before. \<open>sent\<close> abstracts what the server counts as sent.
\<close>

definition serves_files ::
    "(reflection_request \<Rightarrow> 'w \<Rightarrow> (string + reflection_reply option) \<times> 'w) \<Rightarrow> (string \<Rightarrow> string + file_descriptor) \<Rightarrow>
     ('w \<Rightarrow> string set) \<Rightarrow> bool" where
  "serves_files reply decode sent \<longleftrightarrow>
     (\<forall>request w w' raws. reply request w = (Inr (Some (FileDescriptors raws)), w') \<longrightarrow>
        sent w' \<subseteq> sent w \<union> names (decoded decode raws)
        \<and> (\<forall>dep. request = FileByFilename dep \<longrightarrow> dep \<in> sent w \<union> names (decoded decode raws)))"

definition dependencies :: "files \<Rightarrow> string set" where
  "dependencies collected = (\<Union>(name, fd) \<in> set collected. set (fd_dependency fd))"

lemma dependencies_Cons [simp]:
  "dependencies ((name, fd) # collected) = set (fd_dependency fd) \<union> dependencies collected"
  by (auto simp: dependencies_def)

text \<open>What the queue asks for by name.\<close>

definition asked :: "reflection_request list \<Rightarrow> string set" where
  "asked queue = {dep. FileByFilename dep \<in> set queue}"

lemma asked_simps [simp]:
  "asked [] = {}" "asked (FileByFilename dep # queue) = insert dep (asked queue)"
  "asked (FileContainingSymbol s # queue) = asked queue" "asked (q @ q') = asked q \<union> asked q'"
  by (auto simp: asked_def)

lemma asked_by_name [simp]: "asked (map FileByFilename deps) = set deps"
  by (auto simp: asked_def)

lemma fifo_simps [simp]:
  "rs_decode (fifo_stream reply decode) = decode"
  "rs_send (fifo_stream reply decode) request (queue, w) = (True, (queue @ [request], w))"
  "rs_open (fifo_stream reply decode) qw = (Inr (), qw)"
  by (simp_all add: fifo_stream_def)

section \<open>What the loop keeps\<close>

lemma queue_dependencies_fifo:
  "\<exists>new. queue_dependencies (fifo_stream reply decode) deps collected requested count (q, w)
      = (Inr (count + length new, requested @ new), (q @ map FileByFilename new, w))
    \<and> distinct new \<and> set new = set deps - dom (map_of collected) - set requested"
proof (induction deps arbitrary: requested count q)
  case (Cons dep deps)
  show ?case
  proof (cases "map_of collected dep = None \<and> dep \<notin> set requested")
    case True
    obtain new where new: "queue_dependencies (fifo_stream reply decode) deps collected (requested @ [dep]) (Suc count)
          (q @ [FileByFilename dep], w)
        = (Inr (Suc count + length new, (requested @ [dep]) @ new), ((q @ [FileByFilename dep]) @ map FileByFilename new, w))"
      "distinct new" "set new = set deps - dom (map_of collected) - set (requested @ [dep])"
      using Cons.IH [of "requested @ [dep]" "Suc count" "q @ [FileByFilename dep]"] by blast
    with True show ?thesis by (intro exI [of _ "dep # new"]) auto
  next
    case False
    obtain new where new: "queue_dependencies (fifo_stream reply decode) deps collected requested count (q, w)
        = (Inr (count + length new, requested @ new), (q @ map FileByFilename new, w))"
      "distinct new" "set new = set deps - dom (map_of collected) - set requested"
      using Cons.IH by blast
    with False show ?thesis by (intro exI [of _ new]) auto
  qed
qed simp

definition file_deps :: "file_descriptor list \<Rightarrow> string set" where
  "file_deps fds = (\<Union>fd \<in> set fds. set (fd_dependency fd))"

lemma decoded_Cons [simp]:
  "decoded decode [] = []"
  "decode raw = Inr fd \<Longrightarrow> decoded decode (raw # raws) = fd # decoded decode raws"
  by (simp_all add: decoded_def)

lemma names_simps [simp]:
  "names [] = {}" "fd_name fd = None \<Longrightarrow> names (fd # fds) = names fds"
  "fd_name fd = Some n \<Longrightarrow> names (fd # fds) = insert n (names fds)"
  by (auto simp: names_def)

lemma file_deps_simps [simp]:
  "file_deps [] = {}" "file_deps (fd # fds) = set (fd_dependency fd) \<union> file_deps fds"
  by (auto simp: file_deps_def)

definition named :: "files \<Rightarrow> bool" where
  "named collected \<longleftrightarrow> (\<forall>(name, fd) \<in> set collected. fd_name fd = Some name)"

lemma named_simps [simp]:
  "named []" "named ((name, fd) # collected) \<longleftrightarrow> fd_name fd = Some name \<and> named collected"
  by (auto simp: named_def)

text \<open>What a batch adds: requests for new names, and the files of the batch.\<close>

definition batch_step ::
    "string list \<Rightarrow> files \<Rightarrow> string list \<Rightarrow> file_descriptor list \<Rightarrow> files \<Rightarrow> string list \<Rightarrow> bool" where
  "batch_step new collected requested fds collected' requested' \<longleftrightarrow>
     requested' = requested @ new \<and> distinct new \<and> set new \<inter> set requested = {} \<and> set new \<subseteq> file_deps fds
     \<and> dom (map_of collected') = dom (map_of collected) \<union> names fds
     \<and> (dependencies collected \<subseteq> dom (map_of collected) \<union> set requested \<longrightarrow>
          dependencies collected' \<subseteq> dom (map_of collected') \<union> set requested')
     \<and> (named collected \<longrightarrow> named collected')"

lemma process_batch_fifo:
  "process_descriptor_batch (fifo_stream reply decode) raws collected requested n (q, w) = (r, qw) \<Longrightarrow>
     (\<exists>e. r = Inl e)
     \<or> (\<exists>new collected' requested'. r = Inr (n + length new, collected', requested')
          \<and> qw = (q @ map FileByFilename new, w)
          \<and> batch_step new collected requested (decoded decode raws) collected' requested')"
proof (induction raws arbitrary: collected requested n q)
  case Nil
  then show ?case
    by (intro disjI2 exI [of _ "[]"] exI [of _ collected] exI [of _ requested]) (auto simp: batch_step_def)
next
  case (Cons raw raws)
  show ?case
  proof (cases "decode raw")
    case (Inl e)
    with Cons.prems show ?thesis by auto
  next
    case (Inr fd)
    show ?thesis
    proof (cases "\<exists>name. fd_name fd = Some name \<and> map_of collected name = None")
      case False
      then have "process_descriptor_batch (fifo_stream reply decode) raws collected requested n (q, w) = (r, qw)"
        using Cons.prems Inr by (auto split: option.splits)
      note IH = Cons.IH [OF this]
      have "batch_step new collected requested (fd # fds) collected' requested'"
        if "batch_step new collected requested fds collected' requested'" for new fds collected' requested'
        using that False by (cases "fd_name fd") (auto simp: batch_step_def)
      with IH Inr show ?thesis by (simp only: decoded_Cons) blast
    next
      case True
      then obtain name where name: "fd_name fd = Some name" "map_of collected name = None" by blast
      obtain new1 where new1: "queue_dependencies (fifo_stream reply decode) (fd_dependency fd) collected requested 0 (q, w)
          = (Inr (length new1, requested @ new1), (q @ map FileByFilename new1, w))"
        "distinct new1" "set new1 = set (fd_dependency fd) - dom (map_of collected) - set requested"
        using queue_dependencies_fifo [of reply decode "fd_dependency fd" collected requested 0 q w] by auto
      have "process_descriptor_batch (fifo_stream reply decode) raws ((name, fd) # collected) (requested @ new1)
          (n + length new1) (q @ map FileByFilename new1, w) = (r, qw)"
        using Cons.prems Inr name new1 by simp
      from Cons.IH [OF this] show ?thesis
      proof (elim disjE exE conjE)
        fix new2 collected' requested'
        assume r: "r = Inr (n + length new1 + length new2, collected', requested')"
          and qw: "qw = ((q @ map FileByFilename new1) @ map FileByFilename new2, w)"
          and step: "batch_step new2 ((name, fd) # collected) (requested @ new1) (decoded decode raws) collected' requested'"
        have "batch_step (new1 @ new2) collected requested (decoded decode (raw # raws)) collected' requested'"
          using step name new1(2,3) Inr by (auto simp: batch_step_def)
        with r qw show ?thesis by (intro disjI2 exI [of _ "new1 @ new2"]) auto
      qed auto
    qed
  qed
qed

text \<open>
  The counter is the length of the queue; what was requested and is not collected is still in the
  queue; what a collected file imports is collected or requested.
\<close>

definition loop_ok :: "('w \<Rightarrow> string set) \<Rightarrow> nat \<Rightarrow> files \<Rightarrow> string list \<Rightarrow> reflection_request list \<times> 'w \<Rightarrow> bool" where
  "loop_ok sent inflight collected requested qw \<longleftrightarrow>
     inflight = length (fst qw) \<and> distinct requested \<and> named collected
     \<and> dependencies collected \<subseteq> dom (map_of collected) \<union> set requested
     \<and> set requested \<subseteq> dom (map_of collected) \<union> asked (fst qw)
     \<and> sent (snd qw) \<subseteq> dom (map_of collected)"

lemma collect_round_ok:
  assumes "serves_files reply decode sent" and "loop_ok sent inflight collected requested (q, w)" and "inflight \<noteq> 0"
    and "collect_round (fifo_stream reply decode) collected requested (q, w) = (Inr (k, collected', requested'), qw')"
  shows "loop_ok sent (inflight - 1 + k) collected' requested' qw'
    \<and> (\<exists>request raws w'. reply request w = (Inr (Some (FileDescriptors raws)), w')
         \<and> set requested' \<subseteq> set requested \<union> file_deps (decoded decode raws))
    \<and> (\<exists>new. requested' = requested @ new \<and> k = length new)"
proof -
  obtain request q1 where q: "q = request # q1" using assms(2,3) by (cases q) (auto simp: loop_ok_def)
  obtain m w1 where reply: "reply request w = (m, w1)" by fastforce
  then obtain raws where m: "m = Inr (Some (FileDescriptors raws))"
    and batch: "process_descriptor_batch (fifo_stream reply decode) raws collected requested 0 (q1, w1)
      = (Inr (k, collected', requested'), qw')"
    using assms(4) q by (auto simp: collect_round_def fifo_stream_def split: sum.splits option.splits reflection_reply.splits)
  obtain new where k: "k = length new" "qw' = (q1 @ map FileByFilename new, w1)"
    and step: "batch_step new collected requested (decoded decode raws) collected' requested'"
    using process_batch_fifo [OF batch] by auto
  have server: "sent w1 \<subseteq> sent w \<union> names (decoded decode raws)"
    "request = FileByFilename dep \<Longrightarrow> dep \<in> sent w \<union> names (decoded decode raws)" for dep
    using assms(1) reply m unfolding serves_files_def by blast+
  have "set requested' \<subseteq> dom (map_of collected') \<union> asked (fst qw')"
  proof -
    have "set requested \<subseteq> dom (map_of collected') \<union> asked q1"
      using assms(2) step server(2) q by (cases request) (auto simp: loop_ok_def batch_step_def)
    with step k show ?thesis by (auto simp: batch_step_def)
  qed
  with assms(2) step server(1) k q have "loop_ok sent (inflight - 1 + k) collected' requested' qw'"
    by (auto simp: loop_ok_def batch_step_def)
  with step k reply m show ?thesis unfolding batch_step_def by fastforce
qed

lemma collect_closed:
  assumes "serves_files reply decode sent" and "finite U"
    and "\<And>request w w' raws. reply request w = (Inr (Some (FileDescriptors raws)), w') \<Longrightarrow>
      file_deps (decoded decode raws) \<subseteq> U"
  shows "loop_ok sent inflight collected requested (q, w) \<Longrightarrow> set requested \<subseteq> U \<Longrightarrow>
    \<exists>r qw'. collect_descriptors (fifo_stream reply decode) inflight collected requested (q, w) = Some (r, qw')
      \<and> (\<forall>files. r = Inr files \<longrightarrow> dependencies files \<subseteq> dom (map_of files) \<and> named files)"
proof (induction "2 * (card U - length requested) + inflight" arbitrary: inflight collected requested q w rule: less_induct)
  case less
  show ?case
  proof (cases "inflight = 0")
    case True
    with less.prems show ?thesis
      by (subst collect_descriptors.simps) (auto simp: loop_ok_def)
  next
    case False
    obtain x qw1 where round: "collect_round (fifo_stream reply decode) collected requested (q, w) = (x, qw1)"
      by (metis surj_pair)
    show ?thesis
    proof (cases x)
      case (Inl e)
      with round False show ?thesis by (subst collect_descriptors.simps) simp
    next
      case (Inr y)
      obtain k collected' requested' where y: "y = (k, collected', requested')" by (metis prod.exhaust)
      note ok = collect_round_ok [OF assms(1) less.prems(1) False round [unfolded Inr y]]
      obtain q1 w1 where qw1: "qw1 = (q1, w1)" by fastforce
      from ok obtain new where new: "requested' = requested @ new" "k = length new" by blast
      have U: "set requested' \<subseteq> U" using ok assms(3) less.prems(2) by blast
      have "distinct requested'" using ok by (simp add: loop_ok_def)
      then have "length requested + k \<le> card U"
        using U assms(2) new by (metis card_mono distinct_card length_append)
      then have "2 * (card U - length requested') + (inflight - 1 + k) < 2 * (card U - length requested) + inflight"
        using new False by auto
      from less.hyps [OF this] ok U qw1 obtain r qw' where
        "collect_descriptors (fifo_stream reply decode) (inflight - 1 + k) collected' requested' (q1, w1) = Some (r, qw')"
        "\<forall>files. r = Inr files \<longrightarrow> dependencies files \<subseteq> dom (map_of files) \<and> named files" by blast
      with round False Inr y qw1 show ?thesis by (subst collect_descriptors.simps) simp
    qed
  qed
qed


section \<open>A concrete server\<close>

text \<open>Two files that import each other; the server sends one file per reply.\<close>

definition sample_decode :: "string \<Rightarrow> string + file_descriptor" where
  "sample_decode raw =
     (if raw = ''A'' then Inr \<lparr>fd_name = Some ''a.proto'', fd_dependency = [''b.proto''], fd_rest = []\<rparr>
      else if raw = ''B'' then Inr \<lparr>fd_name = Some ''b.proto'', fd_dependency = [''a.proto''], fd_rest = []\<rparr>
      else Inl ''bad bytes'')"

definition sample_reply ::
    "reflection_request \<Rightarrow> unit \<Rightarrow> (string + reflection_reply option) \<times> unit" where
  "sample_reply request w =
     (Inr (Some (if request = FileContainingSymbol ''S'' \<or> request = FileByFilename ''a.proto''
                 then FileDescriptors [''A'']
                 else if request = FileByFilename ''b.proto'' then FileDescriptors [''B'']
                 else ErrorReply 5 ''not found'')), w)"

lemma sample_reflection_result:
  "resolve_file_descriptor_set (fifo_stream sample_reply sample_decode) ''S'' ([], ()) =
     Some (Inr [\<lparr>fd_name = Some ''b.proto'', fd_dependency = [''a.proto''], fd_rest = []\<rparr>,
                \<lparr>fd_name = Some ''a.proto'', fd_dependency = [''b.proto''], fd_rest = []\<rparr>], ([], ()))"
  by (simp add: resolve_file_descriptor_set_def collect_descriptors.simps collect_round_def fifo_stream_def
      sample_reply_def sample_decode_def)


end
