(* ===== verification/GrpcExec.thy ===== *)
theory GrpcExec
  imports Http Reflection
begin

text \<open>
  The gRPC executor: \<open>crates/earl-protocol-grpc/src/executor.rs\<close>, buffered and streaming, and the
  dynamic client \<open>src/grpc/client.rs\<close>. The transport, the descriptor library and the codec between
  JSON and Protobuf are parameters over a state; the model keeps the log of the endpoints dialed.
  A call with reflection may not return, so calls are partial.
\<close>

section \<open>The dynamic client\<close>

record grpc_status =
  gs_code :: nat
  gs_message :: string

record method_descriptor =
  md_service :: string
  md_name :: string
  md_client_streaming :: bool
  md_server_streaming :: bool

text \<open>A descriptor pool: the methods of a service by its name.\<close>

type_synonym descriptor_pool = "string \<Rightarrow> method_descriptor list option"

record dynamic_request =
  dr_body :: json
  dr_headers :: "(string \<times> string) list"
  dr_service :: string
  dr_method :: string

datatype dynamic_response =
    Unary "grpc_status + json"
  | Streaming "grpc_status + (grpc_status + json) list"

text \<open>A call on the channel: the path, the messages sent and the metadata.\<close>

record grpc_call =
  gc_path :: string
  gc_messages :: "json list"
  gc_metadata :: "(string \<times> string) list"

record 's grpc_net =
  gn_validate :: "url \<Rightarrow> ('s, ip_addr list) action"
  gn_show_ip :: "ip_addr \<Rightarrow> string"
  gn_set_host :: "string \<Rightarrow> url \<Rightarrow> url option"
  gn_set_path :: "string \<Rightarrow> url \<Rightarrow> url"
  gn_endpoint :: "string \<Rightarrow> string + unit"
  gn_connect :: "string \<Rightarrow> nat \<Rightarrow> 's \<Rightarrow> (string + unit) \<times> 's"
  gn_ready :: "'s \<Rightarrow> (string + unit) \<times> 's"
  gn_pool_decode :: "string \<Rightarrow> string + descriptor_pool"
  gn_pool_of_files :: "file_descriptor list \<Rightarrow> string + descriptor_pool"
  gn_reflection :: "'s reflection_stream"
  gn_metadata_key :: "string \<Rightarrow> string + string"
  gn_metadata_value :: "string \<Rightarrow> string + string"
  gn_single :: "grpc_call \<Rightarrow> 's \<Rightarrow> (grpc_status + json) \<times> 's"
  gn_multiple :: "grpc_call \<Rightarrow> 's \<Rightarrow> (grpc_status + (grpc_status + json) list) \<times> 's"
  gn_code_text :: "nat \<Rightarrow> string"
  gn_to_vec :: "json \<Rightarrow> string + string"

definition http_path :: "method_descriptor \<Rightarrow> string" where
  "http_path md = ''/'' @ md_service md @ ''/'' @ md_name md"

definition json_array :: "json \<Rightarrow> json list result" where
  "json_array v = (case v of JArray items \<Rightarrow> Inr items | _ \<Rightarrow> bail ''client streaming requires a JSON array body'')"

definition insert_metadata ::
    "'s grpc_net \<Rightarrow> string \<times> string \<Rightarrow> (string \<times> string) list \<Rightarrow> (string \<times> string) list result" where
  "insert_metadata gn = (\<lambda>(k, v) metadata.
     and_then (with_context (''invalid gRPC metadata key '' @ [CHR 0x27] @ k @ [CHR 0x27])
       (library (gn_metadata_key gn k))) (\<lambda>key.
     and_then (with_context (''invalid gRPC metadata value for key '' @ [CHR 0x27] @ k @ [CHR 0x27])
       (library (gn_metadata_value gn v))) (\<lambda>val.
     Inr (header_insert key val metadata))))"

definition build_grpc_call ::
    "'s grpc_net \<Rightarrow> method_descriptor \<Rightarrow> json list \<Rightarrow> (string \<times> string) list \<Rightarrow> grpc_call result" where
  "build_grpc_call gn md messages headers =
     and_then (try_fold (insert_metadata gn) headers []) (\<lambda>metadata.
     Inr \<lparr>gc_path = http_path md, gc_messages = messages, gc_metadata = metadata\<rparr>)"

definition do_single ::
    "'s grpc_net \<Rightarrow> method_descriptor \<Rightarrow> json list \<Rightarrow> (string \<times> string) list \<Rightarrow> ('s, dynamic_response) action" where
  "do_single gn md messages headers =
     act_bind (act_lift (build_grpc_call gn md messages headers)) (\<lambda>call w.
     case gn_single gn call w of (r, w') \<Rightarrow> (Inr (Unary r), w'))"

definition do_multiple ::
    "'s grpc_net \<Rightarrow> method_descriptor \<Rightarrow> json list \<Rightarrow> (string \<times> string) list \<Rightarrow> ('s, dynamic_response) action" where
  "do_multiple gn md messages headers =
     act_bind (act_lift (build_grpc_call gn md messages headers)) (\<lambda>call w.
     case gn_multiple gn call w of (r, w') \<Rightarrow> (Inr (Streaming r), w'))"

definition dynamic_call ::
    "'s grpc_net \<Rightarrow> descriptor_pool \<Rightarrow> dynamic_request \<Rightarrow> ('s, dynamic_response) action" where
  "dynamic_call gn pool request =
     act_bind (act_lift (ok_or [''service '' @ [CHR 0x27] @ dr_service request @ [CHR 0x27] @ '' not found in descriptor pool'']
                           (pool (dr_service request)))) (\<lambda>methods.
     act_bind (act_lift (ok_or [''method '' @ [CHR 0x27] @ dr_method request @ [CHR 0x27] @ '' not found in service'']
                           (find (\<lambda>m. md_name m = dr_method request) methods))) (\<lambda>md.
     act_bind (\<lambda>w. case gn_ready gn w of (r, w') \<Rightarrow> (with_context ''gRPC client not ready'' (library r), w')) (\<lambda>_.
     (case (md_client_streaming md, md_server_streaming md) of
        (False, False) \<Rightarrow> do_single gn md [dr_body request] (dr_headers request)
      | (False, True) \<Rightarrow> do_multiple gn md [dr_body request] (dr_headers request)
      | (True, False) \<Rightarrow>
          act_bind (act_lift (json_array (dr_body request))) (\<lambda>items. do_single gn md items (dr_headers request))
      | (True, True) \<Rightarrow>
          act_bind (act_lift (json_array (dr_body request))) (\<lambda>items. do_multiple gn md items (dr_headers request))))))"

definition dynamic_call_with_reflection ::
    "'s grpc_net \<Rightarrow> dynamic_request \<Rightarrow> 's \<Rightarrow> (dynamic_response result \<times> 's) option" where
  "dynamic_call_with_reflection gn request w =
     (case resolve_file_descriptor_set (gn_reflection gn) (dr_service request) w of
        None \<Rightarrow> None
      | Some (Inl e, w') \<Rightarrow> Some (Inl [''reflection resolution failed'', show_reflection_error e], w')
      | Some (Inr fd_set, w') \<Rightarrow>
          Some (act_bind (act_lift (with_context ''failed to build descriptor pool from reflection response''
                                      (library (gn_pool_of_files gn fd_set)))) (\<lambda>pool.
                dynamic_call gn pool request) w'))"

section \<open>The call\<close>

record 's grpc_state =
  gr_world :: 's
  gr_dialed :: "(url \<times> url) list"

definition grpc_method_url :: "'s grpc_net \<Rightarrow> url \<Rightarrow> string \<Rightarrow> string \<Rightarrow> url result" where
  "grpc_method_url gn base service meth =
     (let service = trim service; meth = trim meth
      in if service = [] \<or> meth = [] then bail ''gRPC service and method must not be empty''
         else let prefix = trim_end_matches [CHR ''/''] (url_path base);
                  path = (if prefix = [] \<or> prefix = ''/'' then ''/'' @ service @ ''/'' @ meth
                          else prefix @ ''/'' @ service @ ''/'' @ meth)
              in Inr (gn_set_path gn path base))"

definition grpc_request_body :: "prepared_body \<Rightarrow> json result" where
  "grpc_request_body body =
     (case body of
        JsonBody v \<Rightarrow> Inr v
      | EmptyBody \<Rightarrow> Inr (JObject [])
      | _ \<Rightarrow> bail ''gRPC request body must be JSON'')"

text \<open>The URL with its host replaced by the first resolved address, and the endpoint on it.\<close>

definition pin_endpoint ::
    "'s grpc_net \<Rightarrow> prepared_grpc_data \<Rightarrow> execution_context \<Rightarrow> ip_addr list \<Rightarrow> url result" where
  "pin_endpoint gn grpc_data ctx resolved_ips =
     (if resolved_ips = [] then bail ''host validation returned no resolved IP addresses''
      else if rv_proxy_url (ec_transport ctx) \<noteq> None then bail ''gRPC transport proxy_profile is not supported''
      else if rv_tls_min_version (ec_transport ctx) \<noteq> None then bail ''gRPC transport.tls.min_version is not supported''
      else
      let resolved_ip = gn_show_ip gn (hd resolved_ips)
      in and_then (ok_or [''failed pinning gRPC endpoint to resolved IP '' @ resolved_ip]
                     (gn_set_host gn resolved_ip (pg_url grpc_data))) (\<lambda>pinned_url.
         and_then (with_context ''invalid gRPC endpoint URL'' (library (gn_endpoint gn (url_as_str pinned_url)))) (\<lambda>_.
         Inr pinned_url)))"

definition grpc_validate_host :: "'s grpc_net \<Rightarrow> url \<Rightarrow> ('s grpc_state, ip_addr list) action" where
  "grpc_validate_host gn u st = (case gn_validate gn u (gr_world st) of (r, w) \<Rightarrow> (r, st\<lparr>gr_world := w\<rparr>))"

text \<open>Everything before the connection.\<close>

definition grpc_endpoint ::
    "'s grpc_net \<Rightarrow> prepared_grpc_data \<Rightarrow> execution_context \<Rightarrow> ('s grpc_state, url \<times> url) action" where
  "grpc_endpoint gn grpc_data ctx =
     act_bind (act_lift (grpc_method_url gn (pg_url grpc_data) (pg_service grpc_data) (pg_method grpc_data))) (\<lambda>rpc_url.
     act_bind (act_lift (ensure_url_allowed rpc_url (ec_allow_rules ctx))) (\<lambda>_.
     act_bind (grpc_validate_host gn rpc_url) (\<lambda>resolved_ips.
     act_bind (act_lift (pin_endpoint gn grpc_data ctx resolved_ips)) (\<lambda>pinned_url.
     act_return (rpc_url, pinned_url)))))"

definition grpc_dial ::
    "'s grpc_net \<Rightarrow> prepared_grpc_data \<Rightarrow> execution_context \<Rightarrow> url \<times> url \<Rightarrow> ('s grpc_state, unit) action" where
  "grpc_dial gn grpc_data ctx target st =
     (case gn_connect gn (url_as_str (snd target)) (rv_timeout_ms (ec_transport ctx)) (gr_world st) of
        (r, w) \<Rightarrow> (with_context (''failed connecting to gRPC endpoint `'' @ url_as_str (pg_url grpc_data) @ ''`'') (library r),
                   \<lparr>gr_world = w, gr_dialed = gr_dialed st @ [target]\<rparr>))"

definition grpc_connect_and_call ::
    "'s grpc_net \<Rightarrow> prepared_grpc_data \<Rightarrow> execution_context \<Rightarrow> 's grpc_state \<Rightarrow>
     ((url \<times> dynamic_response) result \<times> 's grpc_state) option" where
  "grpc_connect_and_call gn grpc_data ctx st =
     (case act_bind (grpc_endpoint gn grpc_data ctx) (\<lambda>target.
           act_bind (grpc_dial gn grpc_data ctx target) (\<lambda>_.
           act_bind (act_lift (grpc_request_body (pg_body grpc_data))) (\<lambda>body.
           act_return (fst target, \<lparr>dr_body = body, dr_headers = pg_headers grpc_data,
                                    dr_service = pg_service grpc_data, dr_method = pg_method grpc_data\<rparr>)))) st of
        (Inl e, st') \<Rightarrow> Some (Inl e, st')
      | (Inr (rpc_url, request), st') \<Rightarrow>
          (case (case pg_descriptor_set grpc_data of
                   Some descriptor_set \<Rightarrow>
                     (case with_context ''invalid gRPC descriptor set bytes'' (library (gn_pool_decode gn descriptor_set)) of
                        Inl e \<Rightarrow> Some (Inl e, gr_world st')
                      | Inr pool \<Rightarrow>
                          (case dynamic_call gn pool request (gr_world st') of
                             (r, w) \<Rightarrow> Some (map_err (\<lambda>err. [''gRPC request failed: '' @ err_display err]) r, w)))
                 | None \<Rightarrow>
                     map_option (\<lambda>(r, w). (map_err (\<lambda>err. [''gRPC reflection request failed: '' @ err_display err]) r, w))
                       (dynamic_call_with_reflection gn request (gr_world st'))) of
             None \<Rightarrow> None
           | Some (r, w) \<Rightarrow> Some (and_then r (\<lambda>response. Inr (rpc_url, response)), st'\<lparr>gr_world := w\<rparr>)))"

section \<open>The response\<close>

definition grpc_code :: "nat \<Rightarrow> u16" where
  "grpc_code code = word_of_nat code"

definition grpc_status_payload :: "'s grpc_net \<Rightarrow> grpc_status \<Rightarrow> json" where
  "grpc_status_payload gn status =
     jobj [(''grpc_code'', JString (gn_code_text gn (gs_code status))),
           (''grpc_code_number'', JNumber (PosInt (ucast (grpc_code (gs_code status))))),
           (''message'', JString (gs_message status))]"

definition message_json :: "'s grpc_net \<Rightarrow> grpc_status + json \<Rightarrow> json" where
  "message_json gn v = (case v of Inr item \<Rightarrow> item | Inl status \<Rightarrow> grpc_status_payload gn status)"

definition message_code :: "grpc_status + json \<Rightarrow> u16" where
  "message_code v = (case v of Inr item \<Rightarrow> 0 | Inl status \<Rightarrow> grpc_code (gs_code status))"

text \<open>The first code that is not zero is kept.\<close>

fun normalize_values ::
    "'s grpc_net \<Rightarrow> (grpc_status + json) list \<Rightarrow> u16 \<Rightarrow> json list \<Rightarrow> u16 \<times> json list" where
  "normalize_values gn [] status payload = (status, payload)"
| "normalize_values gn (v # vs) status payload =
     normalize_values gn vs (if status = 0 then message_code v else status) (payload @ [message_json gn v])"

definition normalize_dynamic_response :: "'s grpc_net \<Rightarrow> dynamic_response \<Rightarrow> u16 \<times> json" where
  "normalize_dynamic_response gn response =
     (case response of
        Unary v \<Rightarrow> (message_code v, message_json gn v)
      | Streaming (Inr vs) \<Rightarrow> (case normalize_values gn vs 0 [] of (status, payload) \<Rightarrow> (status, JArray payload))
      | Streaming (Inl status) \<Rightarrow> (grpc_code (gs_code status), grpc_status_payload gn status))"

definition grpc_limit_error :: "string \<Rightarrow> usize \<Rightarrow> string" where
  "grpc_limit_error what limit =
     ''gRPC '' @ what @ '' exceeded configured max_response_bytes ('' @ show_nat (unat limit) @ '' bytes)''"

definition grpc_raw ::
    "'s grpc_net \<Rightarrow> execution_context \<Rightarrow> url \<times> dynamic_response \<Rightarrow> raw_execution_result result" where
  "grpc_raw gn ctx = (\<lambda>(rpc_url, response).
     case normalize_dynamic_response gn response of
       (status, payload) \<Rightarrow>
         and_then (with_context ''failed serializing gRPC payload'' (library (gn_to_vec gn payload))) (\<lambda>payload_bytes.
         if length payload_bytes > unat (rv_max_response_bytes (ec_transport ctx))
         then bail (grpc_limit_error ''response'' (rv_max_response_bytes (ec_transport ctx)))
         else Inr \<lparr>raw_status = status, raw_url = url_as_str rpc_url, raw_body = payload_bytes,
                   raw_content_type = Some ''application/json''\<rparr>))"

definition execute_grpc_once ::
    "'s grpc_net \<Rightarrow> prepared_grpc_data \<Rightarrow> execution_context \<Rightarrow> 's grpc_state \<Rightarrow>
     (raw_execution_result result \<times> 's grpc_state) option" where
  "execute_grpc_once gn grpc_data ctx st =
     map_option (\<lambda>(r, st'). (and_then r (grpc_raw gn ctx), st')) (grpc_connect_and_call gn grpc_data ctx st)"

section \<open>Streaming\<close>

text \<open>One message: what its serialization is called when it fails, the limit, and the send. The result
  says whether the consumer took it.\<close>

definition send_message ::
    "'s grpc_net \<Rightarrow> usize \<Rightarrow> string \<Rightarrow> json \<Rightarrow> (nat \<times> channel, bool) action" where
  "send_message gn limit what payload = (\<lambda>(count, ch).
     case with_context (''failed serializing gRPC '' @ what) (library (gn_to_vec gn payload)) of
       Inl e \<Rightarrow> (Inl e, (count, ch))
     | Inr bytes \<Rightarrow>
         (let count = sat_add count (length bytes)
          in if count > unat limit then (bail (grpc_limit_error ''streaming response'' limit), (count, ch))
             else case channel_send \<lparr>sc_data = bytes, sc_content_type = Some ''application/json''\<rparr> ch of
                    (taken, ch') \<Rightarrow> (Inr taken, (count, ch'))))"

fun send_messages ::
    "'s grpc_net \<Rightarrow> usize \<Rightarrow> (grpc_status + json) list \<Rightarrow> u16 \<Rightarrow> (nat \<times> channel, u16) action" where
  "send_messages gn limit [] first_error_code s = (Inr first_error_code, s)"
| "send_messages gn limit (v # vs) first_error_code s =
     (case send_message gn limit (case v of Inr _ \<Rightarrow> ''stream message'' | Inl _ \<Rightarrow> ''stream error'') (message_json gn v) s of
        (Inl e, s') \<Rightarrow> (Inl e, s')
      | (Inr taken, s') \<Rightarrow>
          (let code = (if message_code v \<noteq> 0 \<and> first_error_code = 0 then message_code v else first_error_code)
           in if taken then send_messages gn limit vs code s' else (Inr code, s')))"

definition stream_response ::
    "'s grpc_net \<Rightarrow> usize \<Rightarrow> dynamic_response \<Rightarrow> (nat \<times> channel, u16) action" where
  "stream_response gn limit response =
     (case response of
        Unary v \<Rightarrow>
          act_bind (send_message gn limit (case v of Inr _ \<Rightarrow> ''unary payload'' | Inl _ \<Rightarrow> ''error payload'') (message_json gn v))
            (\<lambda>_. act_return (message_code v))
      | Streaming (Inr vs) \<Rightarrow> send_messages gn limit vs 0
      | Streaming (Inl status) \<Rightarrow>
          act_bind (send_message gn limit ''stream error payload'' (grpc_status_payload gn status))
            (\<lambda>_. act_return (grpc_code (gs_code status))))"

definition execute_grpc_stream ::
    "'s grpc_net \<Rightarrow> prepared_grpc_data \<Rightarrow> execution_context \<Rightarrow> channel \<Rightarrow> 's grpc_state \<Rightarrow>
     (stream_meta result \<times> channel \<times> 's grpc_state) option" where
  "execute_grpc_stream gn grpc_data ctx ch st =
     map_option (\<lambda>(r, st').
       (case r of
          Inl e \<Rightarrow> (Inl e, ch, st')
        | Inr (rpc_url, response) \<Rightarrow>
            (case stream_response gn (rv_max_response_bytes (ec_transport ctx)) response (0, ch) of
               (status, (_, ch')) \<Rightarrow>
                 (and_then status (\<lambda>code. Inr \<lparr>sm_status = code, sm_url = url_as_str rpc_url\<rparr>), ch', st'))))
       (grpc_connect_and_call gn grpc_data ctx st)"

section \<open>Properties\<close>

text \<open>A dialed endpoint is the template's URL with the host replaced by the first of the addresses
  the validator returned for the method's URL, which the allowlist admits.\<close>

definition dial_guarded :: "'s grpc_net \<Rightarrow> prepared_grpc_data \<Rightarrow> execution_context \<Rightarrow> url \<times> url \<Rightarrow> bool" where
  "dial_guarded gn grpc_data ctx = (\<lambda>(rpc_url, pinned_url).
     grpc_method_url gn (pg_url grpc_data) (pg_service grpc_data) (pg_method grpc_data) = Inr rpc_url
     \<and> ensure_url_allowed rpc_url (ec_allow_rules ctx) = Inr ()
     \<and> rv_proxy_url (ec_transport ctx) = None
     \<and> (\<exists>ips w w'. gn_validate gn rpc_url w = (Inr ips, w') \<and> ips \<noteq> []
          \<and> gn_set_host gn (gn_show_ip gn (hd ips)) (pg_url grpc_data) = Some pinned_url))"

lemma grpc_endpoint_guarded:
  assumes "grpc_endpoint gn grpc_data ctx st = (r, st')"
  shows "gr_dialed st' = gr_dialed st \<and> (\<forall>target. r = Inr target \<longrightarrow> dial_guarded gn grpc_data ctx target)"
proof -
  have validate: "gr_dialed t = gr_dialed st \<and> (\<forall>ips. v = Inr ips \<longrightarrow> (\<exists>w'. gn_validate gn u (gr_world st) = (Inr ips, w')))"
    if "grpc_validate_host gn u st = (v, t)" for u v t
    using that by (auto simp: grpc_validate_host_def split: prod.splits)
  have pin: "ips \<noteq> [] \<and> rv_proxy_url (ec_transport ctx) = None
      \<and> gn_set_host gn (gn_show_ip gn (hd ips)) (pg_url grpc_data) = Some u"
    if "pin_endpoint gn grpc_data ctx ips = Inr u" for ips u
    using that by (auto simp: pin_endpoint_def result_simps Let_def)
  show ?thesis
    using assms
    by (auto simp: grpc_endpoint_def act_bind_cases dial_guarded_def dest!: validate pin) blast
qed

lemma grpc_dial_log: "grpc_dial gn grpc_data ctx target st = (r, st') \<Longrightarrow> gr_dialed st' = gr_dialed st @ [target]"
  by (auto simp: grpc_dial_def split: prod.splits)

lemma grpc_call_dials:
  assumes "grpc_connect_and_call gn grpc_data ctx st = Some (r, st')"
  shows "gr_dialed st' = gr_dialed st
    \<or> (\<exists>target. gr_dialed st' = gr_dialed st @ [target] \<and> dial_guarded gn grpc_data ctx target)"
proof -
  obtain x st1 where endpoint: "grpc_endpoint gn grpc_data ctx st = (x, st1)" by fastforce
  note guarded = grpc_endpoint_guarded [OF endpoint]
  show ?thesis
  proof (cases x)
    case (Inl e)
    with endpoint assms have "st' = st1" by (auto simp: grpc_connect_and_call_def)
    with guarded show ?thesis by simp
  next
    case (Inr target)
    obtain y st2 where dial: "grpc_dial gn grpc_data ctx target st1 = (y, st2)" by fastforce
    have "gr_dialed st' = gr_dialed st2"
      using assms endpoint Inr dial
      by (auto simp: grpc_connect_and_call_def act_bind_def act_return_def
          split: sum.splits prod.splits option.splits)
    with guarded Inr grpc_dial_log [OF dial] show ?thesis by auto
  qed
qed

text \<open>
  C32. A gRPC execution, buffered or streaming, dials at most one endpoint, and only after the
  allowlist and the host validator have passed the method's URL; the endpoint is pinned to the first
  validated address, and no proxy is in between.
\<close>

theorem grpc_dials_guarded:
  assumes "execute_grpc_once gn grpc_data ctx st = Some (r, st')
      \<or> execute_grpc_stream gn grpc_data ctx ch st = Some (m, ch', st')"
  shows "\<exists>dialed. gr_dialed st' = gr_dialed st @ dialed \<and> length dialed \<le> 1
    \<and> list_all (dial_guarded gn grpc_data ctx) dialed"
proof -
  obtain x where call: "grpc_connect_and_call gn grpc_data ctx st = Some (x, st')"
    using assms
    by (cases "grpc_connect_and_call gn grpc_data ctx st")
      (auto simp: execute_grpc_once_def execute_grpc_stream_def split: sum.splits prod.splits)
  from grpc_call_dials [OF call] show ?thesis
  proof (elim disjE exE conjE)
    fix target
    assume "gr_dialed st' = gr_dialed st @ [target]" "dial_guarded gn grpc_data ctx target"
    then show ?thesis by (intro exI [of _ "[target]"]) simp
  qed (auto intro: exI [of _ "[]"])
qed

lemma normalize_values_payload:
  "normalize_values gn vs status payload = (fst (normalize_values gn vs status []), payload @ map (message_json gn) vs)"
proof (induction vs arbitrary: status payload)
  case (Cons v vs)
  show ?case
    using Cons [of "if status = 0 then message_code v else status" "payload @ [message_json gn v]"]
      Cons [of "if status = 0 then message_code v else status" "[message_json gn v]"]
    by simp
qed simp

definition within_budget :: "usize \<Rightarrow> nat \<times> channel \<Rightarrow> bool" where
  "within_budget limit = (\<lambda>(count, ch). taken_bytes ch \<le> count \<and> count \<le> unat limit \<and> ch_left ch = None)"

lemma send_message_taken:
  assumes "unat limit < 2 ^ 64 - 1" and "send_message gn limit what payload s = (Inr taken, s')" and "within_budget limit s"
  shows "taken \<and> within_budget limit s' \<and> (\<exists>c. ch_taken (snd s') = ch_taken (snd s) @ [c] \<and> gn_to_vec gn payload = Inr (sc_data c))"
proof -
  obtain count ch where s: "s = (count, ch)" by fastforce
  obtain bytes where bytes: "gn_to_vec gn payload = Inr bytes"
    using assms(2) s by (cases "gn_to_vec gn payload") (auto simp: send_message_def library_def)
  have fits: "sat_add count (length bytes) \<le> unat limit"
    using assms(2) s bytes by (auto simp: send_message_def library_def Let_def bail_def split: if_splits)
  then have "sat_add count (length bytes) = count + length bytes" using assms(1) by (simp add: sat_add_def min_def split: if_splits)
  with fits assms(2,3) s bytes show ?thesis
    by (auto simp: send_message_def library_def Let_def channel_send_def within_budget_def taken_bytes_def)
qed

lemma send_messages_taken:
  assumes "unat limit < 2 ^ 64 - 1"
  shows "send_messages gn limit vs first s = (Inr code, s') \<Longrightarrow> within_budget limit s \<Longrightarrow>
    within_budget limit s' \<and> code = fst (normalize_values gn vs first [])
    \<and> (\<exists>cs. ch_taken (snd s') = ch_taken (snd s) @ cs
         \<and> list_all2 (\<lambda>v c. gn_to_vec gn (message_json gn v) = Inr (sc_data c)) vs cs)"
proof (induction vs arbitrary: first s)
  case (Cons v vs)
  let ?what = "case v of Inr _ \<Rightarrow> ''stream message'' | Inl _ \<Rightarrow> ''stream error''"
  let ?first = "if first = 0 then message_code v else first"
  obtain taken s1 where one: "send_message gn limit ?what (message_json gn v) s = (Inr taken, s1)"
    using Cons.prems(1) by (auto split: prod.splits sum.splits)
  obtain c where taken: "taken" "within_budget limit s1" "ch_taken (snd s1) = ch_taken (snd s) @ [c]"
    "gn_to_vec gn (message_json gn v) = Inr (sc_data c)"
    using send_message_taken [OF assms one Cons.prems(2)] by blast
  have "(if message_code v \<noteq> 0 \<and> first = 0 then message_code v else first) = ?first" by auto
  then have rest: "send_messages gn limit vs ?first s1 = (Inr code, s')"
    using Cons.prems(1) one taken(1) by (simp add: Let_def)
  have "normalize_values gn (v # vs) first [] = normalize_values gn vs ?first [message_json gn v]" by simp
  then have "fst (normalize_values gn (v # vs) first []) = fst (normalize_values gn vs ?first [])"
    using normalize_values_payload [of gn vs ?first "[message_json gn v]"] by (metis fst_conv)
  moreover obtain cs where cs: "ch_taken (snd s') = ch_taken (snd s1) @ cs"
    "list_all2 (\<lambda>v c. gn_to_vec gn (message_json gn v) = Inr (sc_data c)) vs cs"
    and "within_budget limit s'" "code = fst (normalize_values gn vs ?first [])"
    using Cons.IH [OF rest taken(2)] by blast
  moreover have "ch_taken (snd s') = ch_taken (snd s) @ (c # cs)" using cs(1) taken(3) by simp
  moreover have "list_all2 (\<lambda>v c. gn_to_vec gn (message_json gn v) = Inr (sc_data c)) (v # vs) (c # cs)"
    using cs(2) taken(4) by simp
  ultimately show ?case by (intro conjI exI [of _ "c # cs"]) simp_all
qed simp

text \<open>
  When a response is streamed to a consumer that stays, without an error, the status is the one
  of the buffered execution and each chunk is one message of its payload, serialized; all of them
  together are within the limit.
\<close>

theorem grpc_stream_equals_buffered:
  assumes "stream_response gn limit response (0, \<lparr>ch_taken = [], ch_left = None\<rparr>) = (Inr code, (count, ch))"
    and "limit \<le> 128 * 1024 * 1024"
  shows "\<exists>payloads. normalize_dynamic_response gn response
        = (code, case response of Streaming (Inr vs) \<Rightarrow> JArray payloads | _ \<Rightarrow> hd payloads)
    \<and> list_all2 (\<lambda>payload chunk. gn_to_vec gn payload = Inr (sc_data chunk)) payloads (ch_taken ch)
    \<and> taken_bytes ch \<le> unat limit"
proof -
  have "unat limit \<le> unat (128 * 1024 * 1024 :: usize)" using assms(2) by (simp add: word_le_nat_alt)
  then have l: "unat limit < 2 ^ 64 - 1" by simp
  have start: "within_budget limit (0, \<lparr>ch_taken = [], ch_left = None\<rparr>)"
    by (simp add: within_budget_def taken_bytes_def)
  have one: "\<exists>payloads. normalize_dynamic_response gn response = (code, hd payloads)
      \<and> list_all2 (\<lambda>payload chunk. gn_to_vec gn payload = Inr (sc_data chunk)) payloads (ch_taken ch)
      \<and> taken_bytes ch \<le> unat limit"
    if norm: "normalize_dynamic_response gn response = (code, payload)"
      and sent: "send_message gn limit what payload (0, \<lparr>ch_taken = [], ch_left = None\<rparr>) = (Inr taken, (count, ch))"
    for payload what taken
  proof -
    from send_message_taken [OF l sent start] obtain c where
      "ch_taken ch = [c]" "gn_to_vec gn payload = Inr (sc_data c)" "taken_bytes ch \<le> unat limit"
      by (auto simp: within_budget_def)
    with norm show ?thesis by (intro exI [of _ "[payload]"]) simp
  qed
  show ?thesis
  proof (cases response)
    case (Unary v)
    then show ?thesis
      using assms(1) one [of "message_json gn v"]
      by (auto simp: stream_response_def normalize_dynamic_response_def act_bind_Inr)
  next
    case (Streaming r)
    show ?thesis
    proof (cases r)
      case (Inl status)
      then show ?thesis
        using Streaming assms(1) one [of "grpc_status_payload gn status"]
        by (auto simp: stream_response_def normalize_dynamic_response_def act_bind_Inr)
    next
      case (Inr vs)
      have "send_messages gn limit vs 0 (0, \<lparr>ch_taken = [], ch_left = None\<rparr>) = (Inr code, (count, ch))"
        using assms(1) Streaming Inr by (simp add: stream_response_def)
      from send_messages_taken [OF l this start] have sent: "taken_bytes ch \<le> unat limit"
        "code = fst (normalize_values gn vs 0 [])"
        "list_all2 (\<lambda>v c. gn_to_vec gn (message_json gn v) = Inr (sc_data c)) vs (ch_taken ch)"
        by (auto simp: within_budget_def)
      have "normalize_dynamic_response gn response = (code, JArray (map (message_json gn) vs))"
        using normalize_values_payload [of gn vs 0 "[]"] sent(2) Streaming Inr
        by (cases "normalize_values gn vs 0 []") (simp add: normalize_dynamic_response_def)
      with sent Streaming Inr show ?thesis
        by (intro exI [of _ "map (message_json gn) vs"]) (simp add: list_all2_map1)
    qed
  qed
qed

section \<open>A concrete call\<close>

definition sample_grpc_net :: "nat grpc_net" where
  "sample_grpc_net =
     \<lparr>gn_validate = (\<lambda>u w. (Inr [V4 (Ipv4 93 184 216 34)], w)), gn_show_ip = (\<lambda>ip. ''93.184.216.34''),
      gn_set_host = (\<lambda>host u. Some (u\<lparr>url_as_str := ''https://93.184.216.34/'', url_host_str := Some host\<rparr>)),
      gn_set_path = (\<lambda>path u. sample_url path), gn_endpoint = (\<lambda>u. Inr ()),
      gn_connect = (\<lambda>u t w. (Inr (), Suc w)), gn_ready = (\<lambda>w. (Inr (), w)),
      gn_pool_decode = (\<lambda>bytes. Inr [''x.Echo'' \<mapsto>
        [\<lparr>md_service = ''x.Echo'', md_name = ''Say'', md_client_streaming = False, md_server_streaming = True\<rparr>]]),
      gn_pool_of_files = (\<lambda>files. Inl ''none''), gn_reflection = \<lparr>rs_open = (\<lambda>w. (Inl ''closed'', w)), rs_send = (\<lambda>r w. (False, w)),
        rs_message = (\<lambda>w. (Inr None, w)), rs_decode = (\<lambda>raw. Inl ''none'')\<rparr>,
      gn_metadata_key = Inr, gn_metadata_value = Inr,
      gn_single = (\<lambda>call w. (Inr JNull, w)), gn_multiple = (\<lambda>call w. (Inr [Inr (JBool True), Inl \<lparr>gs_code = 5, gs_message = ''gone''\<rparr>], w)),
      gn_code_text = (\<lambda>code. ''code''), gn_to_vec = (\<lambda>v. if v = JBool True then Inr ''true'' else Inr ''{}'')\<rparr>"

definition sample_grpc :: prepared_grpc_data where
  "sample_grpc = \<lparr>pg_url = sample_url ''/'', pg_headers = [], pg_body = EmptyBody, pg_service = ''x.Echo'',
     pg_method = ''Say'', pg_descriptor_set = Some ''set''\<rparr>"

definition sample_grpc_messages :: "(grpc_status + json) list" where
  "sample_grpc_messages = [Inr (JBool True), Inl \<lparr>gs_code = 5, gs_message = ''gone''\<rparr>]"

definition sample_pinned :: url where
  "sample_pinned = (sample_url ''/'')\<lparr>url_as_str := ''https://93.184.216.34/'', url_host_str := Some ''93.184.216.34''\<rparr>"

lemma sample_grpc_net_simps:
  "gn_validate sample_grpc_net u w = (Inr [V4 (Ipv4 93 184 216 34)], w)"
  "gn_show_ip sample_grpc_net ip = ''93.184.216.34''"
  "gn_set_host sample_grpc_net ''93.184.216.34'' (sample_url ''/'') = Some sample_pinned"
  "gn_set_path sample_grpc_net path u = sample_url path"
  "gn_endpoint sample_grpc_net s = Inr ()" "gn_connect sample_grpc_net s t w = (Inr (), Suc w)"
  "gn_ready sample_grpc_net w = (Inr (), w)"
  "gn_pool_decode sample_grpc_net b = Inr [''x.Echo'' \<mapsto>
        [\<lparr>md_service = ''x.Echo'', md_name = ''Say'', md_client_streaming = False, md_server_streaming = True\<rparr>]]"
  "gn_multiple sample_grpc_net call w = (Inr sample_grpc_messages, w)"
  "gn_to_vec sample_grpc_net v = (if v = JBool True then Inr ''true'' else Inr ''{}'')"
  by (simp_all add: sample_grpc_net_def sample_grpc_messages_def sample_pinned_def)

lemma sample_grpc_endpoint:
  "grpc_endpoint sample_grpc_net sample_grpc sample_context \<lparr>gr_world = 0, gr_dialed = []\<rparr> =
     (Inr (sample_url ''/x.Echo/Say'', sample_pinned), \<lparr>gr_world = 0, gr_dialed = []\<rparr>)"
proof -
  have trims: "trim ''x.Echo'' = ''x.Echo''" "trim ''Say'' = ''Say''" "trim_end_matches [CHR ''/''] ''/'' = []"
    by code_simp+
  have "url_path (sample_url ''/'') = ''/''" by (simp add: sample_url_def)
  then have "grpc_method_url sample_grpc_net (sample_url ''/'') ''x.Echo'' ''Say'' = Inr (sample_url ''/x.Echo/Say'')"
    by (simp add: grpc_method_url_def trims Let_def sample_grpc_net_simps)
  moreover have "ensure_url_allowed u [] = Inr ()" for u by (simp add: ensure_url_allowed_def)
  moreover have "pin_endpoint sample_grpc_net sample_grpc sample_context [V4 (Ipv4 93 184 216 34)] = Inr sample_pinned"
    by (simp add: pin_endpoint_def sample_grpc_net_simps Let_def library_def)
      (simp add: sample_grpc_def sample_context_def sample_grpc_net_simps)
  moreover have "pg_url sample_grpc = sample_url ''/''" "pg_service sample_grpc = ''x.Echo''"
    "pg_method sample_grpc = ''Say''" "ec_allow_rules sample_context = []"
    by (simp_all add: sample_grpc_def sample_context_def)
  ultimately show ?thesis
    by (simp add: grpc_endpoint_def act_bind_def act_return_def grpc_validate_host_def sample_grpc_net_simps)
qed

lemma sample_grpc_call:
  "grpc_connect_and_call sample_grpc_net sample_grpc sample_context \<lparr>gr_world = 0, gr_dialed = []\<rparr> =
     Some (Inr (sample_url ''/x.Echo/Say'', Streaming (Inr sample_grpc_messages)),
       \<lparr>gr_world = 1, gr_dialed = [(sample_url ''/x.Echo/Say'', sample_pinned)]\<rparr>)"
proof -
  have p: "pg_body sample_grpc = EmptyBody" "pg_service sample_grpc = ''x.Echo''" "pg_method sample_grpc = ''Say''"
    "pg_descriptor_set sample_grpc = Some ''set''" "pg_headers sample_grpc = []"
    by (simp_all add: sample_grpc_def)
  show ?thesis
    by (simp add: grpc_connect_and_call_def sample_grpc_endpoint act_bind_def act_return_def grpc_dial_def
        grpc_request_body_def p library_def dynamic_call_def do_multiple_def build_grpc_call_def sample_grpc_net_simps)
qed

theorem grpc_dials_guarded_witness:
  "\<exists>r st'. execute_grpc_once sample_grpc_net sample_grpc sample_context \<lparr>gr_world = 0, gr_dialed = []\<rparr> = Some (r, st')
     \<and> length (gr_dialed st') = 1 \<and> list_all (dial_guarded sample_grpc_net sample_grpc sample_context) (gr_dialed st')"
proof -
  obtain r st' where run: "execute_grpc_once sample_grpc_net sample_grpc sample_context \<lparr>gr_world = 0, gr_dialed = []\<rparr>
      = Some (r, st')"
    by (simp add: execute_grpc_once_def sample_grpc_call)
  then have "length (gr_dialed st') = 1" by (auto simp: execute_grpc_once_def sample_grpc_call)
  with run show ?thesis
    using grpc_dials_guarded [of sample_grpc_net sample_grpc sample_context "\<lparr>gr_world = 0, gr_dialed = []\<rparr>" r st'] by auto
qed

definition sample_grpc_chunks :: "stream_chunk list" where
  "sample_grpc_chunks = [\<lparr>sc_data = ''true'', sc_content_type = Some ''application/json''\<rparr>,
     \<lparr>sc_data = ''{}'', sc_content_type = Some ''application/json''\<rparr>]"

theorem grpc_stream_equals_buffered_witness:
  "\<exists>payloads. normalize_dynamic_response sample_grpc_net (Streaming (Inr sample_grpc_messages)) = (5, JArray payloads)
     \<and> list_all2 (\<lambda>payload chunk. gn_to_vec sample_grpc_net payload = Inr (sc_data chunk)) payloads sample_grpc_chunks"
proof -
  have "grpc_status_payload sample_grpc_net status \<noteq> JBool True" for status
    by (simp add: grpc_status_payload_def jobj_def)
  then have "stream_response sample_grpc_net 64 (Streaming (Inr sample_grpc_messages)) (0, \<lparr>ch_taken = [], ch_left = None\<rparr>)
    = (Inr 5, (6, \<lparr>ch_taken = sample_grpc_chunks, ch_left = None\<rparr>))"
    by (simp add: stream_response_def sample_grpc_messages_def send_message_def message_json_def message_code_def
        grpc_code_def channel_send_def sat_add_def library_def Let_def sample_grpc_net_simps sample_grpc_chunks_def)
  from grpc_stream_equals_buffered [OF this] show ?thesis by auto
qed

end
