(* ===== verification/Execute.thy ===== *)
theory Execute
  imports Prepare GrpcExec SqlExec BashExec
begin

text \<open>
  Running a prepared request, \<open>src/protocol/executor.rs\<close>: the dispatch to the executor of the
  protocol, the retries with their pauses, decoding and extraction of the result, and the default
  host validator, which is the resolver of the security component. The state joins the logs of all
  executors; the browser executor is an action parameter.
\<close>

section \<open>The executors\<close>

record 's exec_state =
  xs_world :: 's
  xs_sent :: "(http_client \<times> http_request) list"
  xs_dialed :: "(url \<times> url) list"
  xs_sql :: "sql_event list"
  xs_bash :: "bash_event list"
  xs_slept :: "nat list"

definition on_http :: "('s net_state \<Rightarrow> 'a \<times> 's net_state) \<Rightarrow> 's exec_state \<Rightarrow> 'a \<times> 's exec_state" where
  "on_http f st =
     (case f \<lparr>ns_world = xs_world st, ns_sent = xs_sent st\<rparr> of
        (r, t) \<Rightarrow> (r, st\<lparr>xs_world := ns_world t, xs_sent := ns_sent t\<rparr>))"

definition on_grpc ::
    "('s grpc_state \<Rightarrow> ('a \<times> 's grpc_state) option) \<Rightarrow> 's exec_state \<Rightarrow> ('a \<times> 's exec_state) option" where
  "on_grpc f st =
     map_option (\<lambda>(r, t). (r, st\<lparr>xs_world := gr_world t, xs_dialed := gr_dialed t\<rparr>))
       (f \<lparr>gr_world = xs_world st, gr_dialed = xs_dialed st\<rparr>)"

definition on_sql :: "('s sql_state \<Rightarrow> 'a \<times> 's sql_state) \<Rightarrow> 's exec_state \<Rightarrow> 'a \<times> 's exec_state" where
  "on_sql f st =
     (case f \<lparr>db_world = xs_world st, db_log = xs_sql st\<rparr> of
        (r, t) \<Rightarrow> (r, st\<lparr>xs_world := db_world t, xs_sql := db_log t\<rparr>))"

definition on_bash :: "('s bash_state \<Rightarrow> 'a \<times> 's bash_state) \<Rightarrow> 's exec_state \<Rightarrow> 'a \<times> 's exec_state" where
  "on_bash f st =
     (case f \<lparr>bh_world = xs_world st, bh_log = xs_bash st\<rparr> of
        (r, t) \<Rightarrow> (r, st\<lparr>xs_world := bh_world t, xs_bash := bh_log t\<rparr>))"

definition on_world :: "('s, 'a) action \<Rightarrow> 's exec_state \<Rightarrow> 'a result \<times> 's exec_state" where
  "on_world f st = (case f (xs_world st) of (r, w) \<Rightarrow> (r, st\<lparr>xs_world := w\<rparr>))"

text \<open>The libraries behind the executors. What resolving a name gives depends on the state, so it may
  change between two lookups.\<close>

record ('s, 'row, 're, 'sel, 'doc, 'xp) executors =
  xe_http :: "'s http_net"
  xe_grpc :: "'s grpc_net"
  xe_sql :: "('s, 'row) sql_driver"
  xe_bash :: "'s bash_os"
  xe_browser :: "prepared_browser_command \<Rightarrow> execution_context \<Rightarrow> ('s, raw_execution_result) action"
  xe_show_ip :: "ip_addr \<Rightarrow> string"
  xe_dns :: "'s \<Rightarrow> dns_resolver"
  xe_json_text :: "json \<Rightarrow> string"
  xe_json_read :: json_reader
  xe_extract :: "('re, 'sel, 'doc, 'xp) extractors"

section \<open>Validating a URL\<close>

definition url_validator ::
    "(string \<Rightarrow> bool \<Rightarrow> ip_addr list result) \<Rightarrow> bool \<Rightarrow> url \<Rightarrow> ip_addr list result" where
  "url_validator validate allow_private_ips u =
     and_then (ok_or [''request URL missing host''] (url_host_str u)) (\<lambda>host. validate host allow_private_ips)"

context host_validator
begin

lemma url_validator_safe:
  "url_validator validate allow u = Inr ips \<Longrightarrow> ips \<noteq> [] \<and> (\<forall>ip \<in> set ips. \<not> blocked ip allow)"
  using validated_list by (auto simp: url_validator_def result_simps)

end

definition default_validator ::
    "('s, 'row, 're, 'sel, 'doc, 'xp) executors \<Rightarrow> bool \<Rightarrow> url \<Rightarrow> ('s, ip_addr list) action" where
  "default_validator ex allow_private_ips u w =
     (url_validator (resolve_and_validate_host (xe_show_ip ex) (xe_dns ex w)) allow_private_ips u, w)"

lemma default_validator_safe:
  assumes "default_validator ex allow u w = (Inr ips, w')"
  shows "ips \<noteq> [] \<and> (\<forall>ip \<in> set ips. \<not> is_blocked_ip ip allow)"
proof (rule dns.url_validator_safe)
  show "url_validator (resolve_and_validate_host (xe_show_ip ex) (xe_dns ex w)) allow u = Inr ips"
    using assms by (auto simp: default_validator_def)
qed

section \<open>One attempt\<close>

definition to_context :: "prepared_request \<Rightarrow> execution_context" where
  "to_context p =
     \<lparr>ec_key = rq_key p, ec_mode = rq_mode p, ec_allow_rules = rq_allow_rules p, ec_transport = rq_transport p,
      ec_result_template = rq_result_template p, ec_args = rq_args p, ec_redactor = rq_redactor p\<rparr>"

definition run_protocol ::
    "('s, 'row, 're, 'sel, 'doc, 'xp) executors \<Rightarrow> (url \<Rightarrow> ('s, ip_addr list) action) \<Rightarrow> prepared_request \<Rightarrow>
     's exec_state \<Rightarrow> (raw_execution_result result \<times> 's exec_state) option" where
  "run_protocol ex validator p st =
     (case rq_data p of
        PHttp http_data \<Rightarrow>
          Some (on_http (execute_http_once ((xe_http ex)\<lparr>hn_validate := validator\<rparr>) http_data (to_context p)) st)
      | PGraphql http_data \<Rightarrow>
          Some (on_http (execute_http_once ((xe_http ex)\<lparr>hn_validate := validator\<rparr>) http_data (to_context p)) st)
      | PGrpc grpc_data \<Rightarrow>
          on_grpc (execute_grpc_once ((xe_grpc ex)\<lparr>gn_validate := validator\<rparr>) grpc_data (to_context p)) st
      | PBash bash_data \<Rightarrow> Some (on_bash (execute_bash_once (xe_bash ex) bash_data (to_context p)) st)
      | PSql sql_data \<Rightarrow> Some (on_sql (execute_sql_once (xe_sql ex) (xe_json_text ex) sql_data (to_context p)) st)
      | PBrowser browser_data \<Rightarrow> Some (on_world (xe_browser ex browser_data (to_context p)) st))"

text \<open>The result of a response that is not retried.\<close>

definition finish_execution ::
    "('s, 'row, 're, 'sel, 'doc, 'xp) executors \<Rightarrow> prepared_request \<Rightarrow> raw_execution_result \<Rightarrow> execution_result result" where
  "finish_execution ex p raw =
     and_then (with_context ''failed decoding response''
                (decode_response (xe_json_read ex) (rt_decode (rq_result_template p)) (raw_content_type raw) (raw_body raw)))
       (\<lambda>decoded_body.
     and_then (extract_result (xe_extract ex) (rt_extract (rq_result_template p)) decoded_body) (\<lambda>extracted.
     Inr \<lparr>er_status = raw_status raw, er_url = raw_url raw, er_result = extracted,
          er_decoded = decoded_to_json (ex_base64 (xe_extract ex)) decoded_body\<rparr>))"

section \<open>Retries\<close>

text \<open>The pause before the next attempt in nanoseconds: the attempt is cast to \<open>u32\<close>, and the product
  saturates at \<open>Duration::MAX\<close>.\<close>

definition backoff :: "nat \<Rightarrow> nat \<Rightarrow> nat" where
  "backoff base_ms attempt = min (base_ms * 10 ^ 6 * (max attempt 1 mod 2 ^ 32)) (2 ^ 64 * 10 ^ 9 - 1)"

definition execution_attempts :: "prepared_request \<Rightarrow> nat" where
  "execution_attempts p = max (unat (rv_retry_max_attempts (rq_transport p))) 1"

definition pause :: "prepared_request \<Rightarrow> nat \<Rightarrow> 's exec_state \<Rightarrow> 's exec_state" where
  "pause p attempt st =
     st\<lparr>xs_slept := xs_slept st @ [backoff (rv_retry_backoff_ms (rq_transport p)) attempt]\<rparr>"

function retry_loop ::
    "('s, 'row, 're, 'sel, 'doc, 'xp) executors \<Rightarrow> (url \<Rightarrow> ('s, ip_addr list) action) \<Rightarrow> prepared_request \<Rightarrow>
     nat \<Rightarrow> anyhow option \<Rightarrow> 's exec_state \<Rightarrow> (execution_result result \<times> 's exec_state) option" where
  "retry_loop ex validator p attempt last_err st =
     (if attempt > execution_attempts p
      then Some (Inl (case last_err of Some e \<Rightarrow> e | None \<Rightarrow> [''request failed without details'']), st)
      else case run_protocol ex validator p st of
             None \<Rightarrow> None
           | Some (Inr raw, st') \<Rightarrow>
               if raw_status raw \<in> set (rv_retry_on_status (rq_transport p)) \<and> attempt < execution_attempts p
               then retry_loop ex validator p (Suc attempt) last_err (pause p attempt st')
               else Some (finish_execution ex p raw, st')
           | Some (Inl err, st') \<Rightarrow>
               if attempt \<ge> execution_attempts p then Some (Inl err, st')
               else retry_loop ex validator p (Suc attempt) (Some err) (pause p attempt st'))"
  by pat_completeness auto
termination
  by (relation "measure (\<lambda>(ex, v, p, attempt, rest). Suc (execution_attempts p) - attempt)") auto

declare retry_loop.simps [simp del]

definition execute_prepared_request_with ::
    "('s, 'row, 're, 'sel, 'doc, 'xp) executors \<Rightarrow> prepared_request \<Rightarrow> (url \<Rightarrow> ('s, ip_addr list) action) \<Rightarrow>
     's exec_state \<Rightarrow> (execution_result result \<times> 's exec_state) option" where
  "execute_prepared_request_with ex p validator st = retry_loop ex validator p 1 None st"

definition execute_prepared_request ::
    "('s, 'row, 're, 'sel, 'doc, 'xp) executors \<Rightarrow> prepared_request \<Rightarrow>
     's exec_state \<Rightarrow> (execution_result result \<times> 's exec_state) option" where
  "execute_prepared_request ex p =
     execute_prepared_request_with ex p (default_validator ex (rq_allow_private_ips p))"

section \<open>Streaming\<close>

definition stream_fail :: "string \<Rightarrow> channel \<Rightarrow> 's exec_state \<Rightarrow> stream_meta result \<times> channel \<times> 's exec_state" where
  "stream_fail msg ch st = (bail msg, ch, st)"

definition reassoc :: "('a \<times> 'b \<times> 'c) \<Rightarrow> ('a \<times> 'b) \<times> 'c" where
  "reassoc = (\<lambda>(a, b, c). ((a, b), c))"

definition unassoc :: "('a \<times> 'b) \<times> 'c \<Rightarrow> 'a \<times> 'b \<times> 'c" where
  "unassoc = (\<lambda>((a, b), c). (a, b, c))"

definition start_streaming_request ::
    "('s, 'row, 're, 'sel, 'doc, 'xp) executors \<Rightarrow> prepared_request \<Rightarrow> channel \<Rightarrow> 's exec_state \<Rightarrow>
     (stream_meta result \<times> channel \<times> 's exec_state) option" where
  "start_streaming_request ex p ch st =
     (let validate = default_validator ex (rq_allow_private_ips p);
          http = (\<lambda>http_data. Some (unassoc (on_http (\<lambda>t. reassoc
             (execute_stream ((xe_http ex)\<lparr>hn_validate := validate\<rparr>) http_data (to_context p) ch t)) st)))
      in case rq_data p of
           PHttp http_data \<Rightarrow> http http_data
         | PGraphql http_data \<Rightarrow> http http_data
         | PGrpc grpc_data \<Rightarrow>
             map_option unassoc (on_grpc (\<lambda>t. map_option reassoc
               (execute_grpc_stream ((xe_grpc ex)\<lparr>gn_validate := validate\<rparr>) grpc_data (to_context p) ch t)) st)
         | PBash bash_data \<Rightarrow>
             Some (unassoc (on_bash (\<lambda>t. reassoc (execute_bash_stream (xe_bash ex) bash_data (to_context p) ch t)) st))
         | PSql sql_data \<Rightarrow> Some (stream_fail ''streaming not supported for SQL protocol'' ch st)
         | PBrowser browser_data \<Rightarrow> Some (stream_fail ''streaming not supported for browser protocol'' ch st))"

section \<open>No request leaves the guards\<close>

text \<open>A request that was sent and an endpoint that was dialed, as the security configuration of the
  prepared request wants them.\<close>

definition safe_send :: "prepared_request \<Rightarrow> http_client \<times> http_request \<Rightarrow> bool" where
  "safe_send p = (\<lambda>(client, request).
     ensure_url_allowed (hq_url request) (rq_allow_rules p) = Inr ()
     \<and> url_host_str (hq_url request) = Some (hc_host client) \<and> hc_addrs client \<noteq> []
     \<and> (\<forall>(ip, port) \<in> set (hc_addrs client). \<not> is_blocked_ip ip (rq_allow_private_ips p)))"

definition safe_dial ::
    "('s, 'row, 're, 'sel, 'doc, 'xp) executors \<Rightarrow> prepared_request \<Rightarrow> url \<times> url \<Rightarrow> bool" where
  "safe_dial ex p = (\<lambda>(rpc_url, pinned_url).
     ensure_url_allowed rpc_url (rq_allow_rules p) = Inr ()
     \<and> (\<exists>ip base. \<not> is_blocked_ip ip (rq_allow_private_ips p)
          \<and> gn_set_host (xe_grpc ex) (gn_show_ip (xe_grpc ex) ip) base = Some pinned_url))"

definition safe_step ::
    "('s, 'row, 're, 'sel, 'doc, 'xp) executors \<Rightarrow> prepared_request \<Rightarrow> 's exec_state \<Rightarrow> 's exec_state \<Rightarrow> bool" where
  "safe_step ex p st st' \<longleftrightarrow>
     (\<exists>sent dialed. xs_sent st' = xs_sent st @ sent \<and> xs_dialed st' = xs_dialed st @ dialed
        \<and> list_all (safe_send p) sent \<and> list_all (safe_dial ex p) dialed)"

lemma safe_step_refl: "xs_sent st' = xs_sent st \<Longrightarrow> xs_dialed st' = xs_dialed st \<Longrightarrow> safe_step ex p st st'"
  by (simp add: safe_step_def)

lemma safe_step_trans: "safe_step ex p st st' \<Longrightarrow> safe_step ex p st' st'' \<Longrightarrow> safe_step ex p st st''"
  unfolding safe_step_def by (elim exE conjE) (simp add: list_all_append)

lemma guarded_safe:
  assumes "guarded (hn\<lparr>hn_validate := default_validator ex (rq_allow_private_ips p)\<rparr>) http_data (to_context p) sent"
  shows "safe_send p sent"
proof -
  let ?u = "hq_url (snd sent)"
  from assms obtain ips port w w' where
    valid: "default_validator ex (rq_allow_private_ips p) ?u w = (Inr ips, w')"
    and addrs: "hc_addrs (fst sent) = map (\<lambda>ip. (ip, port)) ips" "ips \<noteq> []"
    and rest: "ensure_url_allowed ?u (rq_allow_rules p) = Inr ()" "url_host_str ?u = Some (hc_host (fst sent))"
    by (auto simp: guarded_def to_context_def)
  from default_validator_safe [OF valid] addrs rest show ?thesis
    by (auto simp: safe_send_def split: prod.splits)
qed

lemma dial_guarded_safe:
  assumes "dial_guarded (gn\<lparr>gn_validate := default_validator ex (rq_allow_private_ips p)\<rparr>) grpc_data (to_context p) target"
    and "gn = xe_grpc ex"
  shows "safe_dial ex p target"
proof -
  obtain rpc_url pinned_url where t: "target = (rpc_url, pinned_url)" by fastforce
  from assms t obtain ips w w' where
    valid: "default_validator ex (rq_allow_private_ips p) rpc_url w = (Inr ips, w')"
    and pinned: "ips \<noteq> []" "gn_set_host gn (gn_show_ip gn (hd ips)) (pg_url grpc_data) = Some pinned_url"
    and allowed: "ensure_url_allowed rpc_url (rq_allow_rules p) = Inr ()"
    by (auto simp: dial_guarded_def to_context_def)
  have "\<not> is_blocked_ip (hd ips) (rq_allow_private_ips p)"
    using default_validator_safe [OF valid] by simp
  with pinned allowed t assms(2) show ?thesis by (auto simp: safe_dial_def)
qed

lemma on_http_safe:
  assumes "\<And>t r t'. f t = (r, t') \<Longrightarrow> \<exists>new. ns_sent t' = ns_sent t @ new \<and> list_all (safe_send p) new"
    and "on_http f st = (r, st')"
  shows "safe_step ex p st st' \<and> xs_slept st' = xs_slept st"
proof -
  obtain a t' where run: "f \<lparr>ns_world = xs_world st, ns_sent = xs_sent st\<rparr> = (a, t')" by fastforce
  from assms(1) [OF run] assms(2) run show ?thesis by (auto simp: on_http_def safe_step_def)
qed

lemma on_grpc_safe:
  assumes "\<And>t r t'. f t = Some (r, t') \<Longrightarrow> \<exists>new. gr_dialed t' = gr_dialed t @ new \<and> list_all (safe_dial ex p) new"
    and "on_grpc f st = Some (r, st')"
  shows "safe_step ex p st st' \<and> xs_slept st' = xs_slept st"
proof -
  obtain a t' where run: "f \<lparr>gr_world = xs_world st, gr_dialed = xs_dialed st\<rparr> = Some (a, t')"
    using assms(2) by (auto simp: on_grpc_def)
  from assms(1) [OF run] assms(2) run show ?thesis by (auto simp: on_grpc_def safe_step_def)
qed

lemma http_hops_safe:
  assumes "http_hops (hn\<lparr>hn_validate := default_validator ex (rq_allow_private_ips p)\<rparr>) http_data (to_context p)
    hop meth body u t = (r, t')"
  shows "\<exists>new. ns_sent t' = ns_sent t @ new \<and> list_all (safe_send p) new"
  using http_hops_sent [OF assms] guarded_safe by (fastforce simp: list_all_iff)

lemma execute_http_safe:
  assumes "execute_http_once (hn\<lparr>hn_validate := default_validator ex (rq_allow_private_ips p)\<rparr>) http_data (to_context p) t = (r, t')"
  shows "\<exists>new. ns_sent t' = ns_sent t @ new \<and> list_all (safe_send p) new"
proof -
  from assms obtain new where "ns_sent t' = ns_sent t @ new"
    "list_all (guarded (hn\<lparr>hn_validate := default_validator ex (rq_allow_private_ips p)\<rparr>) http_data (to_context p)) new"
    by (rule execute_http_sent)
  then show ?thesis using guarded_safe by (fastforce simp: list_all_iff)
qed

lemma grpc_call_safe:
  assumes "grpc_connect_and_call ((xe_grpc ex)\<lparr>gn_validate := default_validator ex (rq_allow_private_ips p)\<rparr>) grpc_data
    (to_context p) t = Some (r, t')"
  shows "\<exists>new. gr_dialed t' = gr_dialed t @ new \<and> list_all (safe_dial ex p) new"
  using grpc_call_dials [OF assms] dial_guarded_safe [OF _ refl] by (force intro: exI [of _ "[]"])

lemma run_protocol_safe:
  assumes "run_protocol ex (default_validator ex (rq_allow_private_ips p)) p st = Some (r, st')"
  shows "safe_step ex p st st' \<and> xs_slept st' = xs_slept st"
proof (cases "rq_data p")
  case (PHttp d)
  with assms show ?thesis by (intro on_http_safe) (auto simp: run_protocol_def dest: execute_http_safe)
next
  case (PGraphql d)
  with assms show ?thesis by (intro on_http_safe) (auto simp: run_protocol_def dest: execute_http_safe)
next
  case (PGrpc d)
  with assms show ?thesis
    by (intro on_grpc_safe) (auto simp: run_protocol_def execute_grpc_once_def dest: grpc_call_safe)
next
  case (PBash d)
  with assms show ?thesis by (auto simp: run_protocol_def on_bash_def safe_step_refl split: prod.splits)
next
  case (PSql d)
  with assms show ?thesis by (auto simp: run_protocol_def on_sql_def safe_step_refl split: prod.splits)
next
  case (PBrowser d)
  with assms show ?thesis by (auto simp: run_protocol_def on_world_def safe_step_refl split: prod.splits)
qed

lemma pause_simps [simp]:
  "xs_sent (pause p n st) = xs_sent st" "xs_dialed (pause p n st) = xs_dialed st"
  "xs_slept (pause p n st) = xs_slept st @ [backoff (rv_retry_backoff_ms (rq_transport p)) n]"
  by (simp_all add: pause_def)

lemma retry_loop_step:
  "run_protocol ex v p st = Some (x, st1) \<Longrightarrow> attempt \<le> execution_attempts p \<Longrightarrow>
     retry_loop ex v p attempt last_err st =
       (case x of
          Inr raw \<Rightarrow>
            if raw_status raw \<in> set (rv_retry_on_status (rq_transport p)) \<and> attempt < execution_attempts p
            then retry_loop ex v p (Suc attempt) last_err (pause p attempt st1)
            else Some (finish_execution ex p raw, st1)
        | Inl err \<Rightarrow>
            if attempt \<ge> execution_attempts p then Some (Inl err, st1)
            else retry_loop ex v p (Suc attempt) (Some err) (pause p attempt st1))"
  by (subst retry_loop.simps) (auto split: sum.splits)

lemma unassoc_iff: "unassoc x = (a, b, c) \<longleftrightarrow> x = ((a, b), c)"
  by (cases x) (auto simp: unassoc_def)

lemma reassoc_iff: "reassoc x = (r, c) \<longleftrightarrow> x = (fst r, snd r, c)"
  by (cases x; cases r) (auto simp: reassoc_def)

text \<open>What a run of the loop from an attempt on does: guarded requests, and the pauses of the
  attempts it makes.\<close>

lemma retry_loop_run:
  "retry_loop ex v p attempt last_err st = Some (r, st') \<Longrightarrow> v = default_validator ex (rq_allow_private_ips p) \<Longrightarrow>
     attempt \<le> execution_attempts p \<Longrightarrow>
     safe_step ex p st st'
     \<and> (\<exists>final. attempt \<le> final \<and> final \<le> execution_attempts p
          \<and> xs_slept st' = xs_slept st @ map (backoff (rv_retry_backoff_ms (rq_transport p))) [attempt..<final]
          \<and> (\<forall>result. r = Inr result \<longrightarrow>
               er_status result \<in> set (rv_retry_on_status (rq_transport p)) \<longrightarrow> final = execution_attempts p))"
proof (induction ex v p attempt last_err st rule: retry_loop.induct)
  case (1 ex v p attempt last_err st)
  obtain x st1 where run: "run_protocol ex v p st = Some (x, st1)"
    using "1.prems"(1,3) by (cases "run_protocol ex v p st") (auto simp: retry_loop.simps [of ex])
  note safe = run_protocol_safe [OF run [unfolded "1.prems"(2)]]
  note step = retry_loop_step [OF run "1.prems"(3), of last_err]
  have next_ok: ?case
    if again: "retry_loop ex v p (Suc attempt) last_err' (pause p attempt st1) = Some (r, st')"
      and less: "attempt < execution_attempts p"
      and ih: "safe_step ex p (pause p attempt st1) st'
        \<and> (\<exists>final. Suc attempt \<le> final \<and> final \<le> execution_attempts p
          \<and> xs_slept st' = xs_slept (pause p attempt st1)
              @ map (backoff (rv_retry_backoff_ms (rq_transport p))) [Suc attempt..<final]
          \<and> (\<forall>result. r = Inr result \<longrightarrow>
               er_status result \<in> set (rv_retry_on_status (rq_transport p)) \<longrightarrow> final = execution_attempts p))"
    for last_err'
  proof -
    from ih obtain final where final: "Suc attempt \<le> final" "final \<le> execution_attempts p"
      "xs_slept st' = xs_slept st1 @ backoff (rv_retry_backoff_ms (rq_transport p)) attempt
          # map (backoff (rv_retry_backoff_ms (rq_transport p))) [Suc attempt..<final]"
      "\<forall>result. r = Inr result \<longrightarrow>
         er_status result \<in> set (rv_retry_on_status (rq_transport p)) \<longrightarrow> final = execution_attempts p"
      by auto
    have "[attempt..<final] = attempt # [Suc attempt..<final]" using final(1) by (simp add: upt_conv_Cons)
    moreover have "safe_step ex p st1 (pause p attempt st1)" by (simp add: safe_step_refl)
    with ih safe have "safe_step ex p st st'" by (blast intro: safe_step_trans)
    ultimately show ?thesis using final safe by (intro conjI exI [of _ final]) auto
  qed
  show ?case
  proof (cases x)
    case (Inl err)
    show ?thesis
    proof (cases "attempt \<ge> execution_attempts p")
      case True
      with "1.prems"(1) Inl have "st' = st1" "r = Inl err" by (simp_all add: step)
      with safe "1.prems"(3) show ?thesis by (intro conjI exI [of _ attempt]) auto
    next
      case False
      with "1.prems"(1) Inl have again: "retry_loop ex v p (Suc attempt) (Some err) (pause p attempt st1) = Some (r, st')"
        by (simp add: step)
      show ?thesis
        by (rule next_ok [OF again]) (use False "1.IH"(1) [OF _ run refl Inl _ again] "1.prems"(2) in auto)
    qed
  next
    case (Inr raw)
    show ?thesis
    proof (cases "raw_status raw \<in> set (rv_retry_on_status (rq_transport p)) \<and> attempt < execution_attempts p")
      case True
      with "1.prems"(1) Inr have again: "retry_loop ex v p (Suc attempt) last_err (pause p attempt st1) = Some (r, st')"
        by (simp add: step)
      show ?thesis
        by (rule next_ok [OF again]) (use True "1.IH"(2) [OF _ run refl Inr True again] "1.prems"(2) in auto)
    next
      case False
      with "1.prems"(1) Inr have r: "st' = st1" "r = finish_execution ex p raw"
        by (auto simp: step)
      have "er_status result = raw_status raw" if "r = Inr result" for result
        using that r(2) by (auto simp: finish_execution_def result_simps)
      with False safe r(1) "1.prems"(3) show ?thesis by (intro conjI exI [of _ attempt]) auto
    qed
  qed
qed

lemma grpc_stream_call:
  "execute_grpc_stream gn d ctx ch t = Some (m, ch', t') \<Longrightarrow> \<exists>x. grpc_connect_and_call gn d ctx t = Some (x, t')"
  by (cases "grpc_connect_and_call gn d ctx t") (auto simp: execute_grpc_stream_def split: sum.splits prod.splits)

lemma start_streaming_safe:
  assumes "start_streaming_request ex p ch st = Some (m, ch', st')"
  shows "safe_step ex p st st'"
proof -
  let ?v = "default_validator ex (rq_allow_private_ips p)"
  have http: "safe_step ex p st st'"
    if "unassoc (on_http (\<lambda>t. reassoc (execute_stream ((xe_http ex)\<lparr>hn_validate := ?v\<rparr>) d (to_context p) ch t)) st) = (m, ch', st')"
    for d
  proof -
    have safe: "\<exists>new. ns_sent t' = ns_sent t @ new \<and> list_all (safe_send p) new"
      if "reassoc (execute_stream ((xe_http ex)\<lparr>hn_validate := ?v\<rparr>) d (to_context p) ch t) = (r, t')" for t r t'
    proof -
      obtain x t1 where hops: "http_hops ((xe_http ex)\<lparr>hn_validate := ?v\<rparr>) d (to_context p) 0 (ph_method d) (ph_body d) (ph_url d) t
          = (x, t1)" by fastforce
      have "execute_stream ((xe_http ex)\<lparr>hn_validate := ?v\<rparr>) d (to_context p) ch t = (fst r, snd r, t')"
        using that by (simp add: reassoc_iff)
      with hops have "t' = t1" by (cases x) (auto simp: execute_stream_def split: prod.splits)
      with http_hops_safe [OF hops] show ?thesis by simp
    qed
    have run: "on_http (\<lambda>t. reassoc (execute_stream ((xe_http ex)\<lparr>hn_validate := ?v\<rparr>) d (to_context p) ch t)) st = ((m, ch'), st')"
      using that by (simp only: unassoc_iff)
    show ?thesis by (rule on_http_safe [OF safe run, THEN conjunct1])
  qed
  show ?thesis
  proof (cases "rq_data p")
    case (PHttp d)
    with assms show ?thesis by (intro http) (simp add: start_streaming_request_def Let_def)
  next
    case (PGraphql d)
    with assms show ?thesis by (intro http) (simp add: start_streaming_request_def Let_def)
  next
    case (PGrpc d)
    have safe: "\<exists>new. gr_dialed t' = gr_dialed t @ new \<and> list_all (safe_dial ex p) new"
      if stream: "map_option reassoc (execute_grpc_stream ((xe_grpc ex)\<lparr>gn_validate := ?v\<rparr>) d (to_context p) ch t) = Some (r, t')" for t r t'
    proof -
      obtain x where "grpc_connect_and_call ((xe_grpc ex)\<lparr>gn_validate := ?v\<rparr>) d (to_context p) t = Some (x, t')"
        using stream grpc_stream_call by (fastforce simp: reassoc_iff)
      then show ?thesis by (rule grpc_call_safe)
    qed
    have run: "on_grpc (\<lambda>t. map_option reassoc (execute_grpc_stream ((xe_grpc ex)\<lparr>gn_validate := ?v\<rparr>) d (to_context p) ch t)) st
        = Some ((m, ch'), st')"
      using assms PGrpc by (auto simp: start_streaming_request_def Let_def unassoc_iff)
    show ?thesis by (rule on_grpc_safe [OF safe run, THEN conjunct1])
  next
    case (PBash d)
    with assms show ?thesis
      by (auto simp: start_streaming_request_def Let_def on_bash_def unassoc_iff safe_step_refl split: prod.splits)
  next
    case (PSql d)
    with assms show ?thesis by (auto simp: start_streaming_request_def Let_def stream_fail_def safe_step_refl)
  next
    case (PBrowser d)
    with assms show ?thesis by (auto simp: start_streaming_request_def Let_def stream_fail_def safe_step_refl)
  qed
qed

lemma execute_prepared_safe:
  assumes "execute_prepared_request ex p st = Some (r, st')"
  shows "safe_step ex p st st'"
proof -
  have "1 \<le> execution_attempts p" by (simp add: execution_attempts_def)
  with assms show ?thesis
    using retry_loop_run unfolding execute_prepared_request_def execute_prepared_request_with_def by blast
qed

text \<open>
  C2. Whatever names resolve to and whatever servers answer, over all attempts and redirects, and also
  when streaming: every HTTP request an execution sends goes to an allowed URL through a client that
  dials only addresses the filter passes, and every gRPC endpoint it dials is pinned to such an
  address. Addresses are filtered each time a name is looked up.
\<close>

theorem execution_never_leaves_guards:
  assumes "execute_prepared_request ex p st = Some (r, st')
      \<or> start_streaming_request ex p ch st = Some (m, ch', st')"
  shows "\<exists>sent dialed. xs_sent st' = xs_sent st @ sent \<and> xs_dialed st' = xs_dialed st @ dialed
    \<and> list_all (safe_send p) sent \<and> list_all (safe_dial ex p) dialed"
proof -
  from assms have "safe_step ex p st st'" using execute_prepared_safe start_streaming_safe by blast
  then show ?thesis by (simp add: safe_step_def)
qed

text \<open>
  A request is attempted at most as often as the transport says; the pause after attempt n is n
  times the base, saturated; and a result whose status asks for a retry is returned only when the
  attempts are used up.
\<close>

theorem retry_schedule:
  assumes "execute_prepared_request ex p st = Some (r, st')"
  shows "\<exists>attempts. 1 \<le> attempts \<and> attempts \<le> max 1 (unat (rv_retry_max_attempts (rq_transport p)))
    \<and> xs_slept st' = xs_slept st @ map (backoff (rv_retry_backoff_ms (rq_transport p))) [1..<attempts]
    \<and> (\<forall>result. r = Inr result \<longrightarrow>
         er_status result \<in> set (rv_retry_on_status (rq_transport p)) \<longrightarrow>
         attempts = max 1 (unat (rv_retry_max_attempts (rq_transport p))))"
proof -
  have n: "execution_attempts p = max 1 (unat (rv_retry_max_attempts (rq_transport p)))"
    by (simp add: execution_attempts_def max.commute)
  have "1 \<le> execution_attempts p" by (simp add: execution_attempts_def)
  with assms show ?thesis
    using retry_loop_run [of ex _ p 1 None st r st'] unfolding n [symmetric]
      execute_prepared_request_def execute_prepared_request_with_def by blast
qed

lemma run_protocol_returns:
  assumes "\<And>d. rq_data p = PGrpc d \<Longrightarrow> pg_descriptor_set d \<noteq> None"
  shows "run_protocol ex v p st \<noteq> None"
proof (cases "rq_data p")
  case (PGrpc d)
  with assms obtain bytes where "pg_descriptor_set d = Some bytes" by blast
  then have "grpc_connect_and_call gn d ctx t \<noteq> None" for gn :: "'a grpc_net" and ctx t
    by (auto simp: grpc_connect_and_call_def split: sum.splits prod.splits)
  with PGrpc show ?thesis by (simp add: run_protocol_def on_grpc_def execute_grpc_once_def)
qed (simp_all add: run_protocol_def)

lemma retry_loop_returns:
  assumes "\<And>d. rq_data p = PGrpc d \<Longrightarrow> pg_descriptor_set d \<noteq> None"
  shows "retry_loop ex v p attempt last_err st \<noteq> None"
proof (induction "Suc (execution_attempts p) - attempt" arbitrary: attempt last_err st rule: less_induct)
  case less
  obtain x st1 where run: "run_protocol ex v p st = Some (x, st1)"
    using run_protocol_returns [OF assms] by fastforce
  show ?case
  proof (cases "attempt \<le> execution_attempts p")
    case True
    then have "retry_loop ex v p (Suc attempt) e t \<noteq> None" for e t
      using less [of "Suc attempt"] by (simp add: Suc_diff_le del: not_None_eq)
    then show ?thesis
      unfolding retry_loop_step [OF run True] by (cases x) (simp_all del: not_None_eq)
  next
    case False
    then show ?thesis by (subst retry_loop.simps) simp
  qed
qed

text \<open>
  An execution returns, with a result or an error, whatever the servers answer: only a gRPC call
  that has no descriptor set, and so asks the server for its descriptors, may run for ever.
\<close>

theorem execution_returns:
  assumes "\<And>d. rq_data p = PGrpc d \<Longrightarrow> pg_descriptor_set d \<noteq> None"
  shows "\<exists>r st'. execute_prepared_request ex p st = Some (r, st')"
proof -
  have "execute_prepared_request ex p st \<noteq> None"
    unfolding execute_prepared_request_def execute_prepared_request_with_def by (rule retry_loop_returns [OF assms])
  then show ?thesis by fastforce
qed

section \<open>A concrete execution\<close>

definition sample_executors :: "(nat, nat, unit, unit, unit, unit) executors" where
  "sample_executors =
     \<lparr>xe_http = sample_net, xe_grpc = sample_grpc_net, xe_sql = sample_driver, xe_bash = sample_os,
      xe_browser = (\<lambda>cmd ctx w. (Inl [''no browser''], w)), xe_show_ip = (\<lambda>ip. ''ip''),
      xe_dns = (\<lambda>w. Inr (\<lambda>host. Inr [V4 (Ipv4 93 184 216 34)])), xe_json_text = (\<lambda>v. ''[]''),
      xe_json_read = (\<lambda>s. Inl ''no json''), xe_extract = ol_extractors sample_output_libs\<rparr>"

definition sample_exec_request :: prepared_request where
  "sample_exec_request =
     \<lparr>rq_key = ''api.me'', rq_mode = ModeRead, rq_stream = False, rq_allow_rules = [],
      rq_allow_private_ips = False, rq_transport = ec_transport sample_context,
      rq_result_template = default_result_template, rq_args = [], rq_redactor = \<lparr>red_secrets = []\<rparr>,
      rq_data = PHttp sample_http\<rparr>"

definition sample_exec_start :: "nat exec_state" where
  "sample_exec_start = \<lparr>xs_world = 0, xs_sent = [], xs_dialed = [], xs_sql = [], xs_bash = [], xs_slept = []\<rparr>"

lemma sample_exec_context: "to_context sample_exec_request = sample_context"
  by (simp add: to_context_def sample_exec_request_def sample_context_def)

lemma http_hop_validator:
  assumes "v u = hn_validate hn u"
  shows "http_hop (hn\<lparr>hn_validate := v\<rparr>) d ctx hop meth body u = http_hop hn d ctx hop meth body u"
proof -
  have "validate_host (hn\<lparr>hn_validate := v\<rparr>) u = validate_host hn u"
    using assms by (auto simp: validate_host_def fun_eq_iff)
  moreover have "hn_proxy (hn\<lparr>hn_validate := v\<rparr>) = hn_proxy hn" "hn_build (hn\<lparr>hn_validate := v\<rparr>) = hn_build hn"
    "hn_header_name (hn\<lparr>hn_validate := v\<rparr>) = hn_header_name hn" "hn_header_value (hn\<lparr>hn_validate := v\<rparr>) = hn_header_value hn"
    "hn_mime (hn\<lparr>hn_validate := v\<rparr>) = hn_mime hn" "hn_join (hn\<lparr>hn_validate := v\<rparr>) = hn_join hn"
    "hn_send (hn\<lparr>hn_validate := v\<rparr>) = hn_send hn"
    by simp_all
  ultimately show ?thesis
    unfolding http_hop_def build_http_client_def build_request_def request_headers_def append_header_def
      build_multipart_def redirect_target_def send_logged_def [abs_def] by (simp only:)
qed

lemma sample_exec_run:
  "\<exists>r st'. execute_prepared_request sample_executors sample_exec_request sample_exec_start = Some (r, st')
     \<and> xs_sent st' = [(sample_client ''api.example.com'', sample_request (sample_url ''/'')),
        (sample_client ''other.example.org'', sample_request other_url)] \<and> xs_slept st' = []"
proof -
  let ?v = "default_validator sample_executors False"
  let ?hn = "sample_net\<lparr>hn_validate := ?v\<rparr>"
  have v: "?v (sample_url ''/'') = hn_validate sample_net (sample_url ''/'')"
    "?v other_url = hn_validate sample_net other_url"
    by (simp_all add: fun_eq_iff default_validator_def url_validator_def resolve_and_validate_host_def
        sample_executors_def sample_net_def sample_url_def other_url_def ensure_safe_ip_def is_blocked_v4_def)
  have "http_hops ?hn sample_http sample_context 0 ''GET'' EmptyBody (sample_url ''/'') \<lparr>ns_world = 0, ns_sent = []\<rparr>
    = (Inr (sample_response, other_url), \<lparr>ns_world = 2, ns_sent =
       [(sample_client ''api.example.com'', sample_request (sample_url ''/'')),
        (sample_client ''other.example.org'', sample_request other_url)]\<rparr>)"
    by (simp add: http_hops.simps [of _ _ _ 0] http_hops.simps [of _ _ _ "Suc 0"] sample_hop_0 sample_hop_1
        http_hop_validator [of ?v _ sample_net, OF v(1)] http_hop_validator [of ?v _ sample_net, OF v(2)]
        sample_context_def [THEN arg_cong [where f = "\<lambda>c. rv_max_redirect_hops (ec_transport c)"]])
  moreover have "ph_method sample_http = ''GET''" "ph_url sample_http = sample_url ''/''" "ph_body sample_http = EmptyBody"
    by (simp_all add: sample_http_def)
  ultimately obtain r where once: "execute_http_once ?hn sample_http sample_context \<lparr>ns_world = 0, ns_sent = []\<rparr>
      = (r, \<lparr>ns_world = 2, ns_sent =
       [(sample_client ''api.example.com'', sample_request (sample_url ''/'')),
        (sample_client ''other.example.org'', sample_request other_url)]\<rparr>)"
    by (cases "read_response_body_limited (hr_chunks sample_response) (rv_max_response_bytes (ec_transport sample_context)) []")
      (simp_all add: execute_http_once_def act_bind_def)
  have "rq_data sample_exec_request = PHttp sample_http" "xe_http sample_executors = sample_net"
    "xs_world sample_exec_start = 0" "xs_sent sample_exec_start = []"
    by (simp_all add: sample_exec_request_def sample_executors_def sample_exec_start_def)
  then have "run_protocol sample_executors ?v sample_exec_request sample_exec_start
      = Some (r, sample_exec_start\<lparr>xs_world := 2, xs_sent := [(sample_client ''api.example.com'', sample_request (sample_url ''/'')),
        (sample_client ''other.example.org'', sample_request other_url)]\<rparr>)"
    by (simp add: run_protocol_def on_http_def sample_exec_context once)
  moreover have "execution_attempts sample_exec_request = 1"
    by (simp add: execution_attempts_def sample_exec_request_def sample_context_def)
  ultimately show ?thesis
    by (cases r) (simp_all add: execute_prepared_request_def execute_prepared_request_with_def retry_loop_step
        sample_exec_request_def [THEN arg_cong [where f = rq_allow_private_ips]] sample_exec_start_def)
qed

theorem execution_never_leaves_guards_witness:
  "\<exists>r st'. execute_prepared_request sample_executors sample_exec_request sample_exec_start = Some (r, st')
     \<and> length (xs_sent st') = 2 \<and> list_all (safe_send sample_exec_request) (xs_sent st')"
proof -
  from sample_exec_run obtain r st' where run: "execute_prepared_request sample_executors sample_exec_request
      sample_exec_start = Some (r, st')" and two: "length (xs_sent st') = 2" by auto
  have "xs_sent sample_exec_start = []" by (simp add: sample_exec_start_def)
  with run two execution_never_leaves_guards [OF disjI1, OF run] show ?thesis by auto
qed

theorem retry_schedule_witness:
  "\<exists>r st'. execute_prepared_request sample_executors sample_exec_request sample_exec_start = Some (r, st')
     \<and> (\<exists>attempts. 1 \<le> attempts \<and> attempts \<le> 1 \<and> xs_slept st' = map (backoff 250) [1..<attempts])"
proof -
  from sample_exec_run obtain r st' where run: "execute_prepared_request sample_executors sample_exec_request
      sample_exec_start = Some (r, st')" by blast
  have "xs_slept sample_exec_start = []" "rv_retry_backoff_ms (rq_transport sample_exec_request) = 250"
    "rv_retry_max_attempts (rq_transport sample_exec_request) = 1"
    by (simp_all add: sample_exec_start_def sample_exec_request_def sample_context_def)
  with run retry_schedule [OF run] show ?thesis by auto
qed

theorem execution_returns_witness:
  "\<exists>r st'. execute_prepared_request sample_executors sample_exec_request sample_exec_start = Some (r, st')"
  by (rule execution_returns) (simp add: sample_exec_request_def)

end
