(* ===== verification/Jwt.thy ===== *)
theory Jwt
  imports Ssrf Config Json Allowlist
begin

text \<open>
  JWT authentication of the MCP server, \<open>src/mcp/auth.rs\<close>: resolving the configuration, the cache of
  signing keys with its refresh policy, verifying a token, and the middleware. The HTTP client, the
  clock, the resolver, the JSON reader and the JWT library are parameters. Time is in nanoseconds of
  the monotonic clock; \<open>None\<close> is a panic, which the code has where a sum of durations overflows.
\<close>

section \<open>The subject\<close>

datatype subject = Subject (subject_sub: string) (subject_jti: "string option")

text \<open>\<open>char_indices().nth(n)\<close> and \<open>chars().count()\<close> on UTF-8.\<close>

fun nth_char_index :: "nat \<Rightarrow> nat \<Rightarrow> string \<Rightarrow> nat option" where
  "nth_char_index n i [] = None"
| "nth_char_index n i (c # s) =
     (if 128 \<le> byte c \<and> byte c < 192 then nth_char_index n (Suc i) s
      else case n of 0 \<Rightarrow> Some i | Suc m \<Rightarrow> nth_char_index m (Suc i) s)"

definition chars_count :: "string \<Rightarrow> nat" where
  "chars_count s = length (filter (\<lambda>c. \<not> (128 \<le> byte c \<and> byte c < 192)) s)"

definition subject_redacted :: "subject \<Rightarrow> string" where
  "subject_redacted sub =
     (case nth_char_index 8 0 (subject_sub sub) of
        Some byte_pos \<Rightarrow> take byte_pos (subject_sub sub)
      | None \<Rightarrow> subject_sub sub)"

definition subject_display :: "subject \<Rightarrow> string" where
  "subject_display sub =
     (if chars_count (subject_sub sub) > 8 then subject_redacted sub @ ''...'' else subject_sub sub)"

section \<open>Keys and configuration\<close>

datatype algorithm = HS256 | HS384 | HS512 | ES256 | ES384 | RS256 | RS384 | RS512 | PS256 | PS384 | PS512 | EdDSA

type_synonym jwk_key = json

definition jwk_kid :: "jwk_key \<Rightarrow> string option" where
  "jwk_kid raw = Option.bind (json_get raw ''kid'') as_str"

definition jwk_kty :: "jwk_key \<Rightarrow> string option" where
  "jwk_kty raw = Option.bind (json_get raw ''kty'') as_str"

record jwks_cache =
  kc_keys :: "jwk_key list"
  kc_fetched_at :: int
  kc_last_kid_miss_refresh :: "int option"

record resolved_jwt_config =
  jc_issuer :: string
  jc_jwks_uri :: string
  jc_audience :: string
  jc_algorithms :: "algorithm list"
  jc_clock_skew_seconds :: u64
  jc_jwks_cache_max_age_seconds :: u64

record jwt_header =
  jh_alg :: algorithm
  jh_kid :: "string option"

record jwt_claims =
  cl_sub :: string
  cl_jti :: "string option"

text \<open>What \<open>decode\<close> is told to check.\<close>

record validation =
  vd_issuer :: string
  vd_audience :: string
  vd_validate_nbf :: bool
  vd_leeway :: u64
  vd_algorithms :: "algorithm list"
  vd_required_claims :: "string list"

datatype decode_error = ExpiredSignature | OtherError string

text \<open>The libraries: \<open>'s\<close> is the outside world, \<open>'jwk\<close> a parsed key and \<open>'dk\<close> a decoding key. An HTTP
  answer is its status and what reading the body gives.\<close>

record ('s, 'jwk, 'dk) jwt_libs =
  jl_client :: "string + unit"
  jl_parse_url :: "string \<Rightarrow> string + url"
  jl_show_ip :: "ip_addr \<Rightarrow> string"
  jl_dns :: "'s \<Rightarrow> dns_resolver"
  jl_get :: "string \<Rightarrow> 's \<Rightarrow> (string + nat \<times> (string + string)) \<times> 's"
  jl_now :: "'s \<Rightarrow> int \<times> 's"
  jl_pid :: u32
  jl_show_status :: "nat \<Rightarrow> string"
  jl_read_discovery :: "string \<Rightarrow> string + string \<times> string"
  jl_read_jwks :: "string \<Rightarrow> string + jwk_key list"
  jl_upper :: "string \<Rightarrow> string"
  jl_decode_header :: "string \<Rightarrow> string + jwt_header"
  jl_read_jwk :: "jwk_key \<Rightarrow> string + 'jwk"
  jl_decoding_key :: "'jwk \<Rightarrow> string + 'dk"
  jl_decode :: "string \<Rightarrow> 'dk \<Rightarrow> validation \<Rightarrow> 's \<Rightarrow> decode_error + jwt_claims"

definition max_kid_length :: nat where "max_kid_length = 256"

definition max_jwks_response_bytes :: nat where "max_jwks_response_bytes = 1048576"

definition seconds :: "nat \<Rightarrow> int" where "seconds n = int n * 10 ^ 9"

definition kid_miss_refresh_cooldown :: int where "kid_miss_refresh_cooldown = seconds 30"

definition stale_grace_period :: int where "stale_grace_period = seconds 300"

section \<open>The configuration\<close>

text \<open>The world and the addresses fetched so far.\<close>

record 's jwt_net =
  jn_world :: 's
  jn_fetched :: "string list"

definition of_library :: "string + 'a \<Rightarrow> 'a result" where
  "of_library r = map_err (\<lambda>e. [e]) r"

definition validate_jwt_host :: "('s, 'jwk, 'dk) jwt_libs \<Rightarrow> string \<Rightarrow> ('s jwt_net, ip_addr list) action" where
  "validate_jwt_host jl host net =
     (resolve_and_validate_host (jl_show_ip jl) (jl_dns jl (jn_world net)) host False, net)"

definition jwt_get ::
    "('s, 'jwk, 'dk) jwt_libs \<Rightarrow> string \<Rightarrow> ('s jwt_net, nat \<times> (string + string)) action" where
  "jwt_get jl uri net =
     (case jl_get jl uri (jn_world net) of
        (r, w) \<Rightarrow> (of_library r, net\<lparr>jn_world := w, jn_fetched := jn_fetched net @ [uri]\<rparr>))"

definition jwt_now :: "('s, 'jwk, 'dk) jwt_libs \<Rightarrow> 's jwt_net \<Rightarrow> int \<times> 's jwt_net" where
  "jwt_now jl net = (case jl_now jl (jn_world net) of (t, w) \<Rightarrow> (t, net\<lparr>jn_world := w\<rparr>))"

definition parse_algorithm :: "('s, 'jwk, 'dk) jwt_libs \<Rightarrow> string \<Rightarrow> algorithm result" where
  "parse_algorithm jl alg =
     (let other = jl_upper jl alg
      in if other = ''RS256'' then Inr RS256
         else if other = ''RS384'' then Inr RS384
         else if other = ''RS512'' then Inr RS512
         else if other = ''ES256'' then Inr ES256
         else if other = ''ES384'' then Inr ES384
         else if other = ''PS256'' then Inr PS256
         else if other = ''PS384'' then Inr PS384
         else if other = ''PS512'' then Inr PS512
         else if other = ''EDDSA'' then Inr EdDSA
         else bail (''unsupported JWT algorithm: '' @ other))"

definition discover ::
    "('s, 'jwk, 'dk) jwt_libs \<Rightarrow> string \<Rightarrow> ('s jwt_net, string \<times> string) action" where
  "discover jl discovery_url =
     act_bind (act_lift (with_context (''invalid oidc_discovery_url: '' @ discovery_url)
                 (of_library (jl_parse_url jl discovery_url)))) (\<lambda>url.
     act_bind (act_lift (ok_or [''oidc_discovery_url has no host''] (url_host_str url))) (\<lambda>host.
     act_bind (validate_jwt_host jl host) (\<lambda>_.
     act_bind (\<lambda>net. (case jwt_get jl discovery_url net of
                 (r, net') \<Rightarrow> (with_context (''failed fetching OIDC discovery from '' @ discovery_url) r, net'))) (\<lambda>resp.
     act_bind (act_lift (with_context ''failed reading OIDC discovery response'' (of_library (snd resp)))) (\<lambda>body.
     if length body > max_jwks_response_bytes then act_lift (bail ''OIDC discovery response exceeds 1 MiB limit'')
     else act_lift (with_context ''failed parsing OIDC discovery document''
                      (of_library (jl_read_discovery jl body))))))))"

definition configured_issuer :: "jwt_config \<Rightarrow> (string \<times> string) result" where
  "configured_issuer jwt_config =
     and_then (ok_or [''[auth.jwt] requires either oidc_discovery_url or issuer''] (jwt_issuer jwt_config)) (\<lambda>issuer.
     and_then (ok_or [''[auth.jwt] requires either oidc_discovery_url or jwks_uri''] (jwt_jwks_uri jwt_config)) (\<lambda>jwks_uri.
     Inr (issuer, jwks_uri)))"

text \<open>\<open>Instant - Duration\<close>: the seconds of an instant are an \<open>i64\<close>.\<close>

definition instant_sub :: "int \<Rightarrow> nat \<Rightarrow> int option" where
  "instant_sub now secs =
     (if (now - seconds secs) div 10 ^ 9 < - (2 ^ 63) then None else Some (now - seconds secs))"

text \<open>\<open>JwtState::new\<close>. The initial cache is empty and dated one second before the maximal age; the
  addition of that second wraps at \<open>u64\<close>.\<close>

definition jwt_new ::
    "('s, 'jwk, 'dk) jwt_libs \<Rightarrow> jwt_config \<Rightarrow> 's jwt_net \<Rightarrow>
     ((resolved_jwt_config \<times> jwks_cache) result \<times> 's jwt_net) option" where
  "jwt_new jl jwt_config net =
     (case act_bind (act_lift (with_context ''failed building JWKS HTTP client'' (of_library (jl_client jl)))) (\<lambda>_.
           act_bind (case jwt_oidc_discovery_url jwt_config of
                       Some discovery_url \<Rightarrow> discover jl discovery_url
                     | None \<Rightarrow> act_lift (configured_issuer jwt_config)) (\<lambda>(issuer, jwks_uri).
           act_bind (act_lift (with_context (''invalid jwks_uri: '' @ jwks_uri)
                       (of_library (jl_parse_url jl jwks_uri)))) (\<lambda>jwks_url.
           act_bind (act_lift (ok_or [''jwks_uri has no host''] (url_host_str jwks_url))) (\<lambda>jwks_host.
           act_bind (validate_jwt_host jl jwks_host) (\<lambda>_.
           act_bind (act_lift (try_map (parse_algorithm jl) (jwt_algorithms jwt_config))) (\<lambda>algorithms.
           if algorithms = [] then act_lift (bail ''[auth.jwt] algorithms must not be empty'')
           else act_return
             \<lparr>jc_issuer = issuer, jc_jwks_uri = jwks_uri, jc_audience = jwt_audience jwt_config,
              jc_algorithms = algorithms,
              jc_clock_skew_seconds = min (jwt_clock_skew_seconds jwt_config) 300,
              jc_jwks_cache_max_age_seconds = jwt_jwks_cache_max_age_seconds jwt_config\<rparr>)))))) net of
        (Inl e, net') \<Rightarrow> Some (Inl e, net')
      | (Inr config, net') \<Rightarrow>
          (case jwt_now jl net' of (now, net'') \<Rightarrow>
             map_option (\<lambda>t. (Inr (config, \<lparr>kc_keys = [], kc_fetched_at = t, kc_last_kid_miss_refresh = None\<rparr>), net''))
               (instant_sub now (unat (jc_jwks_cache_max_age_seconds config + 1)))))"

section \<open>The key cache\<close>

definition fetch_jwks ::
    "('s, 'jwk, 'dk) jwt_libs \<Rightarrow> resolved_jwt_config \<Rightarrow> ('s jwt_net, jwk_key list) action" where
  "fetch_jwks jl config =
     act_bind (act_lift (of_library (jl_parse_url jl (jc_jwks_uri config)))) (\<lambda>url.
     act_bind (act_lift (ok_or [''jwks_uri has no host''] (url_host_str url))) (\<lambda>host.
     act_bind (validate_jwt_host jl host) (\<lambda>_.
     act_bind (\<lambda>net. (case jwt_get jl (jc_jwks_uri config) net of
                 (r, net') \<Rightarrow> (with_context (''failed fetching JWKS from '' @ jc_jwks_uri config) r, net'))) (\<lambda>resp.
     if \<not> (200 \<le> fst resp \<and> fst resp < 300)
     then act_lift (bail (''JWKS endpoint returned status '' @ jl_show_status jl (fst resp)))
     else
     act_bind (act_lift (with_context ''failed reading JWKS response'' (of_library (snd resp)))) (\<lambda>body.
     if length body > max_jwks_response_bytes then act_lift (bail ''JWKS response exceeds 1 MiB limit'')
     else act_lift (with_context ''failed parsing JWKS response'' (of_library (jl_read_jwks jl body))))))))"

text \<open>\<open>duration_since\<close> saturates at zero; the sum of two durations panics when its seconds pass \<open>u64\<close>.\<close>

definition duration_since :: "int \<Rightarrow> int \<Rightarrow> int" where
  "duration_since now earlier = max 0 (now - earlier)"

definition key_max_age :: "u32 \<Rightarrow> resolved_jwt_config \<Rightarrow> int option" where
  "key_max_age pid config =
     (let secs = unat (jc_jwks_cache_max_age_seconds config) + (unat pid mod 31 + 60)
      in if secs < 2 ^ 64 then Some (seconds secs) else None)"

text \<open>The block under the read lock: the keys to use without a fetch.\<close>

definition cached_keys :: "int \<Rightarrow> int \<Rightarrow> string option \<Rightarrow> jwks_cache \<Rightarrow> jwk_key list option" where
  "cached_keys max_age now kid cache =
     (if duration_since now (kc_fetched_at cache) < max_age \<and> kc_keys cache \<noteq> [] then
        (if (case kid of None \<Rightarrow> True | Some k \<Rightarrow> list_ex (\<lambda>key. jwk_kid key = Some k) (kc_keys cache))
         then Some (kc_keys cache)
         else case kc_last_kid_miss_refresh cache of
                Some last_refresh \<Rightarrow>
                  if duration_since now last_refresh < kid_miss_refresh_cooldown then Some (kc_keys cache) else None
              | None \<Rightarrow> None)
      else None)"

text \<open>The block under the write lock; the clock is read once or twice.\<close>

definition store_keys :: "string option \<Rightarrow> int \<Rightarrow> int \<Rightarrow> jwk_key list \<Rightarrow> jwks_cache \<Rightarrow> jwks_cache" where
  "store_keys kid t1 t2 keys cache =
     cache\<lparr>kc_keys := keys, kc_fetched_at := t1,
       kc_last_kid_miss_refresh := (if kid \<noteq> None then Some t2 else kc_last_kid_miss_refresh cache)\<rparr>"

text \<open>The keys to use after a failed fetch.\<close>

definition stale_keys :: "int \<Rightarrow> int \<Rightarrow> jwks_cache \<Rightarrow> jwk_key list option" where
  "stale_keys max_age now cache =
     (if duration_since now (kc_fetched_at cache) < max_age + stale_grace_period \<and> kc_keys cache \<noteq> []
      then Some (kc_keys cache) else None)"

definition get_or_refresh_keys ::
    "('s, 'jwk, 'dk) jwt_libs \<Rightarrow> resolved_jwt_config \<Rightarrow> string option \<Rightarrow> jwks_cache \<Rightarrow> 's jwt_net \<Rightarrow>
     (jwk_key list result \<times> jwks_cache \<times> 's jwt_net) option" where
  "get_or_refresh_keys jl config kid cache net =
     (case jwt_now jl net of (now, net) \<Rightarrow>
      Option.bind (key_max_age (jl_pid jl) config) (\<lambda>max_age.
      case cached_keys max_age now kid cache of
        Some keys \<Rightarrow> Some (Inr keys, cache, net)
      | None \<Rightarrow>
          (case fetch_jwks jl config net of
             (Inr keys, net) \<Rightarrow>
               (case jwt_now jl net of (t1, net) \<Rightarrow>
                case (if kid \<noteq> None then jwt_now jl net else (t1, net)) of (t2, net) \<Rightarrow>
                  Some (Inr keys, store_keys kid t1 t2 keys cache, net))
           | (Inl err, net) \<Rightarrow>
               if max_age + stale_grace_period \<ge> seconds (2 ^ 64) then None
               else Some (case stale_keys max_age now cache of
                            Some keys \<Rightarrow> Inr keys
                          | None \<Rightarrow> Inl err, cache, net))))"

section \<open>Verifying a token\<close>

datatype auth_error = AuthMissing | AuthExpired | AuthInvalid string

definition expected_kty :: "algorithm \<Rightarrow> string option" where
  "expected_kty alg =
     (if alg \<in> {RS256, RS384, RS512, PS256, PS384, PS512} then Some ''RSA''
      else if alg \<in> {ES256, ES384} then Some ''EC''
      else if alg = EdDSA then Some ''OKP''
      else None)"

definition find_key :: "string option \<Rightarrow> jwk_key list \<Rightarrow> jwk_key option" where
  "find_key kid keys =
     (case kid of
        Some k \<Rightarrow> find (\<lambda>key. jwk_kid key = Some k) keys
      | None \<Rightarrow> (case keys of [] \<Rightarrow> None | key # _ \<Rightarrow> Some key))"

definition validation_of :: "resolved_jwt_config \<Rightarrow> validation" where
  "validation_of config =
     \<lparr>vd_issuer = jc_issuer config, vd_audience = jc_audience config, vd_validate_nbf = True,
      vd_leeway = jc_clock_skew_seconds config, vd_algorithms = jc_algorithms config,
      vd_required_claims = [''exp'', ''sub'', ''iss'', ''aud'']\<rparr>"

definition invalid_if_error :: "string \<Rightarrow> 'e + 'a \<Rightarrow> auth_error + 'a" where
  "invalid_if_error reason r = map_err (\<lambda>_. AuthInvalid reason) r"

text \<open>What happens to the token once the keys are there.\<close>

definition verify_with_keys ::
    "('s, 'jwk, 'dk) jwt_libs \<Rightarrow> resolved_jwt_config \<Rightarrow> string \<Rightarrow> jwt_header \<Rightarrow> jwk_key list \<Rightarrow> 's \<Rightarrow>
     auth_error + subject" where
  "verify_with_keys jl config token header keys w =
     and_then (ok_or (AuthInvalid ''no matching signing key found'') (find_key (jh_kid header) keys)) (\<lambda>jwk.
     and_then (ok_or (AuthInvalid ''unsupported algorithm'') (expected_kty (jh_alg header))) (\<lambda>expected.
     if jl_upper jl (unwrap_or (jwk_kty jwk) []) \<noteq> expected then Inl (AuthInvalid ''signing key type mismatch'')
     else
     and_then (invalid_if_error ''failed to parse signing key'' (jl_read_jwk jl jwk)) (\<lambda>parsed.
     and_then (invalid_if_error ''failed to create decoding key'' (jl_decoding_key jl parsed)) (\<lambda>decoding_key.
     and_then (map_err (\<lambda>e. case e of ExpiredSignature \<Rightarrow> AuthExpired | OtherError _ \<Rightarrow> AuthInvalid ''token validation failed'')
                (jl_decode jl token decoding_key (validation_of config) w)) (\<lambda>claims.
     if trim (cl_sub claims) = [] then Inl (AuthInvalid ''sub claim is empty'')
     else Inr (Subject (cl_sub claims) (cl_jti claims)))))))"

definition verify_token ::
    "('s, 'jwk, 'dk) jwt_libs \<Rightarrow> resolved_jwt_config \<Rightarrow> string \<Rightarrow> jwks_cache \<Rightarrow> 's jwt_net \<Rightarrow>
     ((auth_error + subject) \<times> jwks_cache \<times> 's jwt_net) option" where
  "verify_token jl config token cache net =
     (case jl_decode_header jl token of
        Inl e \<Rightarrow> Some (Inl (AuthInvalid ''failed to decode token header''), cache, net)
      | Inr header \<Rightarrow>
     if (case jh_kid header of None \<Rightarrow> False | Some kid \<Rightarrow> length kid > max_kid_length)
     then Some (Inl (AuthInvalid ''kid exceeds maximum length''), cache, net)
     else if jh_alg header \<notin> set (jc_algorithms config)
     then Some (Inl (AuthInvalid ''token uses disallowed algorithm''), cache, net)
     else
     map_option (\<lambda>(r, cache, net).
         (and_then (invalid_if_error ''failed to fetch signing keys'' r) (\<lambda>keys.
            verify_with_keys jl config token header keys (jn_world net)), cache, net))
       (get_or_refresh_keys jl config (jh_kid header) cache net))"

section \<open>The middleware\<close>

definition auth_error_code :: "auth_error \<Rightarrow> string" where
  "auth_error_code e =
     (case e of AuthMissing \<Rightarrow> ''jwt_missing'' | AuthExpired \<Rightarrow> ''jwt_expired'' | AuthInvalid _ \<Rightarrow> ''jwt_invalid'')"

definition auth_error_message :: "auth_error \<Rightarrow> string" where
  "auth_error_message e =
     (case e of
        AuthMissing \<Rightarrow> ''missing or invalid Authorization header''
      | AuthExpired \<Rightarrow> ''token has expired''
      | AuthInvalid reason \<Rightarrow> reason)"

definition auth_error_response :: "auth_error \<Rightarrow> nat \<times> json" where
  "auth_error_response err =
     (401, jobj [(''jsonrpc'', JString ''2.0''), (''id'', JNull),
        (''error'', jobj [(''code'', JNumber (number_of_i64 (- 32001))),
           (''message'', JString (auth_error_message err)),
           (''data'', jobj [(''type'', JString (auth_error_code err))])])])"

text \<open>The header is the first \<open>authorization\<close> value when it is visible ASCII. The result is the response of a
  refused request, or the subject to go on with.\<close>

definition require_jwt_auth ::
    "('s, 'jwk, 'dk) jwt_libs \<Rightarrow> resolved_jwt_config \<Rightarrow> string option \<Rightarrow> jwks_cache \<Rightarrow> 's jwt_net \<Rightarrow>
     (((nat \<times> json) + subject) \<times> jwks_cache \<times> 's jwt_net) option" where
  "require_jwt_auth jl config auth_header cache net =
     (case Option.bind auth_header (strip_prefix ''Bearer '') of
        None \<Rightarrow> Some (Inl (auth_error_response AuthMissing), cache, net)
      | Some token \<Rightarrow>
          map_option (\<lambda>(r, cache, net). (map_err auth_error_response r, cache, net))
            (verify_token jl config token cache net))"

section \<open>Accepted tokens\<close>

lemma expected_kty_asymmetric:
  "expected_kty alg = Some ty \<longleftrightarrow>
     ty = ''RSA'' \<and> alg \<in> {RS256, RS384, RS512, PS256, PS384, PS512}
     \<or> ty = ''EC'' \<and> alg \<in> {ES256, ES384} \<or> ty = ''OKP'' \<and> alg = EdDSA"
  by (cases alg) (auto simp: expected_kty_def)

lemma find_key_Some:
  "find_key kid keys = Some jwk \<Longrightarrow> jwk \<in> set keys \<and> (\<forall>k. kid = Some k \<longrightarrow> jwk_kid jwk = Some k)"
  by (auto simp: find_key_def find_Some_iff split: option.splits list.splits)

lemma invalid_if_error_Inr [result_simps]: "invalid_if_error reason r = Inr x \<longleftrightarrow> r = Inr x"
  by (cases r) (simp_all add: invalid_if_error_def)

lemma verify_with_keys_Inr:
  "verify_with_keys jl config token header keys w = Inr sub \<longleftrightarrow>
     (\<exists>jwk ty parsed dk claims.
        find_key (jh_kid header) keys = Some jwk \<and> expected_kty (jh_alg header) = Some ty
        \<and> jl_upper jl (unwrap_or (jwk_kty jwk) []) = ty
        \<and> jl_read_jwk jl jwk = Inr parsed \<and> jl_decoding_key jl parsed = Inr dk
        \<and> jl_decode jl token dk (validation_of config) w = Inr claims
        \<and> trim (cl_sub claims) \<noteq> [] \<and> sub = Subject (cl_sub claims) (cl_jti claims))"
  unfolding verify_with_keys_def by (auto simp: result_simps)

lemma verify_token_Inr:
  "verify_token jl config token cache net = Some (Inr sub, cache', net') \<longleftrightarrow>
     (\<exists>header keys.
        jl_decode_header jl token = Inr header \<and> jh_alg header \<in> set (jc_algorithms config)
        \<and> (\<forall>kid. jh_kid header = Some kid \<longrightarrow> length kid \<le> max_kid_length)
        \<and> get_or_refresh_keys jl config (jh_kid header) cache net = Some (Inr keys, cache', net')
        \<and> verify_with_keys jl config token header keys (jn_world net') = Inr sub)"
  unfolding verify_token_def
  by (auto simp: result_simps split: sum.splits option.splits)

text \<open>
  C28. The middleware lets a request through only with a bearer token whose header names an algorithm of
  the configuration that is not an HMAC, whose signing key is one of the keys of the cache or of a
  fresh fetch, has the key id of the header and the key type of the algorithm, and which the JWT
  library accepts under that key for the configured issuer, audience and algorithms; the subject is
  the one of the accepted claims and is not blank.
\<close>

theorem jwt_subject_verified:
  assumes "require_jwt_auth jl config auth_header cache net = Some (Inr sub, cache', net')"
  shows "\<exists>token header keys jwk parsed dk claims.
    auth_header = Some (''Bearer '' @ token)
    \<and> jl_decode_header jl token = Inr header
    \<and> jh_alg header \<in> set (jc_algorithms config) - {HS256, HS384, HS512}
    \<and> get_or_refresh_keys jl config (jh_kid header) cache net = Some (Inr keys, cache', net')
    \<and> jwk \<in> set keys \<and> (\<forall>kid. jh_kid header = Some kid \<longrightarrow> jwk_kid jwk = Some kid)
    \<and> expected_kty (jh_alg header) = Some (jl_upper jl (unwrap_or (jwk_kty jwk) []))
    \<and> jl_read_jwk jl jwk = Inr parsed \<and> jl_decoding_key jl parsed = Inr dk
    \<and> jl_decode jl token dk (validation_of config) (jn_world net') = Inr claims
    \<and> sub = Subject (cl_sub claims) (cl_jti claims) \<and> trim (cl_sub claims) \<noteq> []"
proof -
  from assms obtain token where token: "auth_header = Some (''Bearer '' @ token)"
      and verified: "verify_token jl config token cache net = Some (Inr sub, cache', net')"
    by (auto simp: require_jwt_auth_def strip_prefix_def prefix_def result_simps
        split: option.splits bind_splits if_splits)
  from verified obtain header keys where
    header: "jl_decode_header jl token = Inr header" "jh_alg header \<in> set (jc_algorithms config)"
    and keys: "get_or_refresh_keys jl config (jh_kid header) cache net = Some (Inr keys, cache', net')"
    and checked: "verify_with_keys jl config token header keys (jn_world net') = Inr sub"
    by (auto simp: verify_token_Inr)
  from checked obtain jwk parsed dk claims where
    found: "find_key (jh_kid header) keys = Some jwk"
    and ty: "expected_kty (jh_alg header) = Some (jl_upper jl (unwrap_or (jwk_kty jwk) []))"
    and accepted: "jl_read_jwk jl jwk = Inr parsed" "jl_decoding_key jl parsed = Inr dk"
      "jl_decode jl token dk (validation_of config) (jn_world net') = Inr claims"
      "trim (cl_sub claims) \<noteq> []" "sub = Subject (cl_sub claims) (cl_jti claims)"
    by (auto simp: verify_with_keys_Inr)
  from ty have "jh_alg header \<notin> {HS256, HS384, HS512}"
    by (auto simp: expected_kty_def split: if_splits)
  with token header keys find_key_Some [OF found] ty accepted show ?thesis by blast
qed

section \<open>The key cache under interleaving\<close>

text \<open>
  Requests run side by side and meet at the lock around the cache. A request takes the keys it finds
  or notes the time and fetches; then it stores what it fetched, or takes what the cache holds by
  then. The clock only moves forward. The list of stored answers with their times is there to state
  properties.
\<close>

datatype jwks_task =
    Waiting "string option"
  | Fetching "string option" int
  | Served int "jwk_key list"
  | Refused

record jwks_system =
  sy_clock :: int
  sy_cache :: jwks_cache
  sy_tasks :: "nat \<Rightarrow> jwks_task option"
  sy_stored :: "(int \<times> jwk_key list) list"

definition set_task :: "nat \<Rightarrow> jwks_task \<Rightarrow> jwks_system \<Rightarrow> jwks_system" where
  "set_task i task s = s\<lparr>sy_tasks := (sy_tasks s)(i \<mapsto> task)\<rparr>"

inductive jwks_step :: "int \<Rightarrow> jwks_system \<Rightarrow> jwks_system \<Rightarrow> bool" for max_age :: int where
  Tick: "sy_clock s \<le> t \<Longrightarrow> jwks_step max_age s (s\<lparr>sy_clock := t\<rparr>)"
| Arrive: "sy_tasks s i = None \<Longrightarrow> jwks_step max_age s (set_task i (Waiting kid) s)"
| Hit: "sy_tasks s i = Some (Waiting kid) \<Longrightarrow> cached_keys max_age (sy_clock s) kid (sy_cache s) = Some keys \<Longrightarrow>
    jwks_step max_age s (set_task i (Served (sy_clock s) keys) s)"
| Miss: "sy_tasks s i = Some (Waiting kid) \<Longrightarrow> cached_keys max_age (sy_clock s) kid (sy_cache s) = None \<Longrightarrow>
    jwks_step max_age s (set_task i (Fetching kid (sy_clock s)) s)"
| Store: "sy_tasks s i = Some (Fetching kid now) \<Longrightarrow> sy_clock s \<le> t \<Longrightarrow>
    jwks_step max_age s (set_task i (Served now keys)
      (s\<lparr>sy_cache := store_keys kid (sy_clock s) t keys (sy_cache s), sy_clock := t,
         sy_stored := sy_stored s @ [(sy_clock s, keys)]\<rparr>))"
| Stale: "sy_tasks s i = Some (Fetching kid now) \<Longrightarrow> stale_keys max_age now (sy_cache s) = Some keys \<Longrightarrow>
    jwks_step max_age s (set_task i (Served now keys) s)"
| Refuse: "sy_tasks s i = Some (Fetching kid now) \<Longrightarrow> stale_keys max_age now (sy_cache s) = None \<Longrightarrow>
    jwks_step max_age s (set_task i Refused s)"

inductive_cases jwks_stepE: "jwks_step max_age s s'"

definition jwks_start :: "jwks_system \<Rightarrow> bool" where
  "jwks_start s \<longleftrightarrow> kc_keys (sy_cache s) = [] \<and> sy_tasks s = Map.empty \<and> sy_stored s = []"

text \<open>Keys that were stored recently enough for a request that looked at the clock at a time.\<close>

definition recent :: "int \<Rightarrow> jwks_system \<Rightarrow> int \<Rightarrow> jwk_key list \<Rightarrow> bool" where
  "recent max_age s now keys \<longleftrightarrow> (\<exists>t. (t, keys) \<in> set (sy_stored s) \<and> now - t < max_age + stale_grace_period)"

definition task_ok :: "int \<Rightarrow> jwks_system \<Rightarrow> jwks_task \<Rightarrow> bool" where
  "task_ok max_age s task =
     (case task of
        Fetching kid now \<Rightarrow> now \<le> sy_clock s
      | Served now keys \<Rightarrow> recent max_age s now keys
      | _ \<Rightarrow> True)"

definition jwks_inv :: "int \<Rightarrow> jwks_system \<Rightarrow> bool" where
  "jwks_inv max_age s \<longleftrightarrow>
     (kc_keys (sy_cache s) \<noteq> [] \<longrightarrow> (kc_fetched_at (sy_cache s), kc_keys (sy_cache s)) \<in> set (sy_stored s))
     \<and> (\<forall>i task. sy_tasks s i = Some task \<longrightarrow> task_ok max_age s task)"

lemma set_task_simps [simp]:
  "sy_clock (set_task i task s) = sy_clock s" "sy_cache (set_task i task s) = sy_cache s"
  "sy_stored (set_task i task s) = sy_stored s" "sy_tasks (set_task i task s) = (sy_tasks s)(i \<mapsto> task)"
  by (simp_all add: set_task_def)

lemma cached_keys_Some:
  "cached_keys max_age now kid cache = Some keys \<Longrightarrow>
     keys = kc_keys cache \<and> keys \<noteq> [] \<and> now - kc_fetched_at cache < max_age"
  by (auto simp: cached_keys_def duration_since_def split: if_splits option.splits)

lemma stale_keys_Some:
  "stale_keys max_age now cache = Some keys \<Longrightarrow>
     keys = kc_keys cache \<and> keys \<noteq> [] \<and> now - kc_fetched_at cache < max_age + stale_grace_period"
  by (auto simp: stale_keys_def duration_since_def split: if_splits)

lemma grace_positive: "0 < stale_grace_period"
  by (simp add: stale_grace_period_def seconds_def)

lemma task_ok_mono:
  "task_ok max_age s task \<Longrightarrow> sy_clock s \<le> sy_clock s' \<Longrightarrow> set (sy_stored s) \<subseteq> set (sy_stored s') \<Longrightarrow>
     task_ok max_age s' task"
  by (cases task) (auto simp: task_ok_def recent_def)

lemma task_ok_set_task [simp]: "task_ok max_age (set_task i task' s) task = task_ok max_age s task"
  by (cases task) (simp_all add: task_ok_def recent_def)

lemma jwks_inv_set_task:
  "jwks_inv max_age s \<Longrightarrow> task_ok max_age s task \<Longrightarrow> jwks_inv max_age (set_task i task s)"
  by (auto simp: jwks_inv_def)

lemma jwks_inv_forward:
  assumes "jwks_inv max_age s" and "sy_clock s \<le> sy_clock s'" and "set (sy_stored s) \<subseteq> set (sy_stored s')"
    and "sy_tasks s' = sy_tasks s"
    and "kc_keys (sy_cache s') \<noteq> [] \<Longrightarrow> (kc_fetched_at (sy_cache s'), kc_keys (sy_cache s')) \<in> set (sy_stored s')"
  shows "jwks_inv max_age s'"
  using assms task_ok_mono [OF _ assms(2,3)] by (auto simp: jwks_inv_def)

lemma jwks_inv_step:
  assumes "jwks_step max_age s s'" and "jwks_inv max_age s" and "0 \<le> max_age"
  shows "jwks_inv max_age s'"
  using assms(1)
proof (cases rule: jwks_step.cases)
  case (Tick t)
  with assms(2) show ?thesis by (intro jwks_inv_forward [OF assms(2)]) (auto simp: jwks_inv_def)
next
  case (Arrive i kid)
  with assms(2) show ?thesis by (auto intro: jwks_inv_set_task simp: task_ok_def)
next
  case (Hit i kid keys)
  from cached_keys_Some [OF Hit(3)] assms(2) grace_positive have "recent max_age s (sy_clock s) keys"
    by (force simp: jwks_inv_def recent_def)
  with Hit assms(2) show ?thesis by (auto intro: jwks_inv_set_task simp: task_ok_def)
next
  case (Miss i kid)
  with assms(2) show ?thesis by (auto intro: jwks_inv_set_task simp: task_ok_def)
next
  case (Store i kid now t keys)
  let ?u = "s\<lparr>sy_cache := store_keys kid (sy_clock s) t keys (sy_cache s), sy_clock := t,
     sy_stored := sy_stored s @ [(sy_clock s, keys)]\<rparr>"
  from Store assms(2) have "now \<le> sy_clock s" by (fastforce simp: jwks_inv_def task_ok_def)
  with grace_positive assms(3) have "task_ok max_age ?u (Served now keys)"
    by (force simp: task_ok_def recent_def)
  moreover have "jwks_inv max_age ?u"
    using Store(3) by (intro jwks_inv_forward [OF assms(2)]) (auto simp: store_keys_def)
  ultimately show ?thesis unfolding Store(1) by (intro jwks_inv_set_task)
next
  case (Stale i kid now keys)
  from stale_keys_Some [OF Stale(3)] assms(2) have "recent max_age s now keys"
    by (force simp: jwks_inv_def recent_def)
  with Stale assms(2) show ?thesis by (auto intro: jwks_inv_set_task simp: task_ok_def)
next
  case (Refuse i kid now)
  with assms(2) show ?thesis by (auto intro: jwks_inv_set_task simp: task_ok_def)
qed

lemma jwks_inv_run:
  assumes "(jwks_step max_age)\<^sup>*\<^sup>* s s'" and "jwks_start s" and "0 \<le> max_age"
  shows "jwks_inv max_age s'"
  using assms(1)
proof (induction rule: rtranclp_induct)
  case base
  from assms(2) show ?case by (simp add: jwks_start_def jwks_inv_def)
next
  case (step t u)
  with assms(3) show ?case by (blast intro: jwks_inv_step)
qed

text \<open>
  However the requests of a server interleave at the lock of the key cache, the keys one of them is
  served were stored by a successful fetch, less than the maximal age and the grace period of five
  minutes before the request looked at the clock.
\<close>

theorem served_keys_recent:
  assumes "(jwks_step max_age)\<^sup>*\<^sup>* s s'" and "jwks_start s" and "0 \<le> max_age"
    and "sy_tasks s' i = Some (Served now keys)"
  shows "\<exists>t. (t, keys) \<in> set (sy_stored s') \<and> now - t < max_age + stale_grace_period"
  using jwks_inv_run [OF assms(1,2,3)] assms(4) by (fastforce simp: jwks_inv_def task_ok_def recent_def)

section \<open>One request alone is a run of the system\<close>

definition clock_reads :: "('s, 'jwk, 'dk) jwt_libs \<Rightarrow> ('s \<Rightarrow> int) \<Rightarrow> bool" where
  "clock_reads jl clock \<longleftrightarrow>
     (\<forall>w t w'. jl_now jl w = (t, w') \<longrightarrow> t = clock w \<and> clock w \<le> clock w')
     \<and> (\<forall>uri w r w'. jl_get jl uri w = (r, w') \<longrightarrow> clock w \<le> clock w')"

lemma jwt_now_clock:
  assumes "clock_reads jl clock" and "jwt_now jl net = (t, net')"
  shows "t = clock (jn_world net) \<and> clock (jn_world net) \<le> clock (jn_world net')"
  using assms by (fastforce simp: clock_reads_def jwt_now_def split: prod.splits)

lemma fetch_jwks_clock:
  assumes "clock_reads jl clock" and "fetch_jwks jl config net = (r, net')"
  shows "clock (jn_world net) \<le> clock (jn_world net')"
  using assms
  by (fastforce simp: clock_reads_def fetch_jwks_def jwt_get_def validate_jwt_host_def act_bind_cases
      split: prod.splits if_splits)

lemma steps_2: "jwks_step m s t \<Longrightarrow> jwks_step m t u \<Longrightarrow> (jwks_step m)\<^sup>*\<^sup>* s u"
  by (meson converse_rtranclp_into_rtranclp rtranclp.rtrancl_refl)

lemma steps_3:
  "jwks_step m s t \<Longrightarrow> jwks_step m t u \<Longrightarrow> jwks_step m u v \<Longrightarrow> (jwks_step m)\<^sup>*\<^sup>* s v"
  by (meson converse_rtranclp_into_rtranclp rtranclp.rtrancl_refl)

text \<open>
  Looking up the keys as one request does it, with nothing else running, is a run of the steps of the
  system: the cache it leaves is the one of the run, and it gets keys exactly when its task is served
  those keys.
\<close>

theorem refresh_is_a_run:
  assumes clock: "clock_reads jl clock" and age: "key_max_age (jl_pid jl) config = Some max_age"
    and run: "get_or_refresh_keys jl config kid cache net = Some (r, cache', net')"
    and s: "sy_cache s = cache" "sy_clock s = clock (jn_world net)" "sy_tasks s i = Some (Waiting kid)"
  shows "\<exists>s'. (jwks_step max_age)\<^sup>*\<^sup>* s s' \<and> sy_cache s' = cache'
    \<and> sy_tasks s' i = Some (case r of Inr keys \<Rightarrow> Served (sy_clock s) keys | Inl e \<Rightarrow> Refused)"
proof -
  obtain now net1 where now: "jwt_now jl net = (now, net1)" by fastforce
  from jwt_now_clock [OF clock now] s(2) have now_s: "now = sy_clock s" and le1: "sy_clock s \<le> clock (jn_world net1)"
    by auto
  show ?thesis
  proof (cases "cached_keys max_age now kid cache")
    case (Some keys)
    with run now age have "r = Inr keys" "cache' = cache" by (auto simp: get_or_refresh_keys_def)
    moreover have "jwks_step max_age s (set_task i (Served (sy_clock s) keys) s)"
      using Hit [OF s(3)] Some s(1) now_s by simp
    ultimately show ?thesis using s by (intro exI [of _ "set_task i (Served (sy_clock s) keys) s"]) auto
  next
    case None
    let ?f = "set_task i (Fetching kid (sy_clock s)) s"
    have miss: "jwks_step max_age s ?f" using Miss [OF s(3)] None s(1) now_s by simp
    have task: "sy_tasks ?f i = Some (Fetching kid (sy_clock s))" by simp
    obtain fetched net2 where fetch: "fetch_jwks jl config net1 = (fetched, net2)" by fastforce
    show ?thesis
    proof (cases fetched)
      case (Inl e)
      with run now age None fetch have r: "cache' = cache"
        "r = (case stale_keys max_age now cache of Some keys \<Rightarrow> Inr keys | None \<Rightarrow> Inl e)"
        by (auto simp: get_or_refresh_keys_def split: if_splits)
      show ?thesis
      proof (cases "stale_keys max_age now cache")
        case None
        then have "jwks_step max_age ?f (set_task i Refused ?f)" using Refuse [OF task] s(1) now_s by simp
        with miss have "(jwks_step max_age)\<^sup>*\<^sup>* s (set_task i Refused ?f)" by (rule steps_2)
        with r None s(1) show ?thesis by (intro exI [of _ "set_task i Refused ?f"]) simp
      next
        case (Some keys)
        let ?g = "set_task i (Served (sy_clock s) keys) ?f"
        from Some have "jwks_step max_age ?f ?g" using Stale [OF task] s(1) now_s by simp
        with miss have "(jwks_step max_age)\<^sup>*\<^sup>* s ?g" by (rule steps_2)
        with r Some s(1) show ?thesis by (intro exI [of _ ?g]) simp
      qed
    next
      case (Inr keys)
      obtain t1 net3 where t1: "jwt_now jl net2 = (t1, net3)" by fastforce
      obtain t2 net4 where t2: "(if kid \<noteq> None then jwt_now jl net3 else (t1, net3)) = (t2, net4)" by fastforce
      from run now age None fetch Inr t1 t2 have r: "r = Inr keys" "cache' = store_keys kid t1 t2 keys cache"
        by (auto simp: get_or_refresh_keys_def split: if_splits)
      from jwt_now_clock [OF clock t1] fetch_jwks_clock [OF clock fetch] le1 have le: "sy_clock s \<le> t1" by simp
      have le2: "t1 \<le> t2"
        using jwt_now_clock [OF clock t1] jwt_now_clock [OF clock, of net3] t2 by (cases kid) auto
      let ?g = "?f\<lparr>sy_clock := t1\<rparr>"
      have "jwks_step max_age ?f ?g" by (rule Tick) (simp add: le)
      moreover have "sy_tasks ?g i = Some (Fetching kid (sy_clock s))" by simp
      note Store [OF this, of t2 max_age keys]
      ultimately show ?thesis using miss le2 r s(1) by (auto dest: steps_3)
    qed
  qed
qed

lemma failed_refresh_has_no_cooldown:
  assumes "key_max_age (jl_pid jl) config = Some max_age" and "max_age + stale_grace_period < seconds (2 ^ 64)"
    and "jwt_now jl net = (now, net1)" and "cached_keys max_age now kid cache = None"
    and "fetch_jwks jl config net1 = (Inl e, net2)"
  shows "\<exists>r. get_or_refresh_keys jl config kid cache net = Some (r, cache, net2)"
  using assms by (simp add: get_or_refresh_keys_def)

section \<open>A concrete server\<close>

definition sample_jwk :: jwk_key where
  "sample_jwk = JObject [(''kid'', JString ''k1''), (''kty'', JString ''RSA'')]"

definition sample_jwt_config :: resolved_jwt_config where
  "sample_jwt_config =
     \<lparr>jc_issuer = ''https://id.example.com'', jc_jwks_uri = ''https://id.example.com/jwks'', jc_audience = ''earl'',
      jc_algorithms = [RS256], jc_clock_skew_seconds = 30, jc_jwks_cache_max_age_seconds = 900\<rparr>"

definition jwks_host_url :: url where
  "jwks_host_url = \<lparr>url_as_str = ''https://id.example.com/jwks'', url_scheme = ''https'',
     url_host_str = Some ''id.example.com'', url_port_or_known_default = Some 443, url_path = ''/jwks''\<rparr>"

definition sample_jwt_libs :: "(nat, jwk_key, jwk_key) jwt_libs" where
  "sample_jwt_libs =
     \<lparr>jl_client = Inr (), jl_parse_url = (\<lambda>u. Inr jwks_host_url), jl_show_ip = (\<lambda>ip. ''ip''),
      jl_dns = (\<lambda>w. Inr (\<lambda>host. Inr [V4 (Ipv4 93 184 216 34)])),
      jl_get = (\<lambda>uri w. (Inr (200, Inr ''keys''), w + 5)), jl_now = (\<lambda>w. (int w, Suc w)), jl_pid = 7,
      jl_show_status = show_nat, jl_read_discovery = (\<lambda>b. Inl ''no document''),
      jl_read_jwks = (\<lambda>b. Inr [sample_jwk]), jl_upper = id,
      jl_decode_header = (\<lambda>t. Inr \<lparr>jh_alg = RS256, jh_kid = Some ''k1''\<rparr>), jl_read_jwk = Inr,
      jl_decoding_key = Inr, jl_decode = (\<lambda>t k v w. Inr \<lparr>cl_sub = ''alice'', cl_jti = None\<rparr>)\<rparr>"

definition old_cache :: jwks_cache where
  "old_cache = \<lparr>kc_keys = [], kc_fetched_at = - (10 ^ 12), kc_last_kid_miss_refresh = None\<rparr>"

lemma sample_key_age: "key_max_age 7 sample_jwt_config = Some (967 * 10 ^ 9)"
  by (simp add: key_max_age_def sample_jwt_config_def seconds_def)

lemma sample_fetch_jwks:
  "fetch_jwks sample_jwt_libs sample_jwt_config \<lparr>jn_world = 1, jn_fetched = []\<rparr>
     = (Inr [sample_jwk], \<lparr>jn_world = 6, jn_fetched = [''https://id.example.com/jwks'']\<rparr>)"
  by (simp add: fetch_jwks_def sample_jwt_libs_def sample_jwt_config_def jwks_host_url_def validate_jwt_host_def
      resolve_and_validate_host_def ensure_safe_ip_def is_blocked_v4_def jwt_get_def of_library_def ok_or_def
      with_context_def max_jwks_response_bytes_def)

lemma sample_refresh:
  "get_or_refresh_keys sample_jwt_libs sample_jwt_config (Some ''k1'') old_cache \<lparr>jn_world = 0, jn_fetched = []\<rparr>
     = Some (Inr [sample_jwk], \<lparr>kc_keys = [sample_jwk], kc_fetched_at = 6, kc_last_kid_miss_refresh = Some 7\<rparr>,
         \<lparr>jn_world = 8, jn_fetched = [''https://id.example.com/jwks'']\<rparr>)"
proof -
  have "jl_pid sample_jwt_libs = 7" "jl_now sample_jwt_libs = (\<lambda>w. (int w, Suc w))"
    by (simp_all add: sample_jwt_libs_def)
  moreover have "cached_keys m now kid old_cache = None" for m now kid
    by (simp add: cached_keys_def old_cache_def)
  ultimately show ?thesis
    by (simp add: get_or_refresh_keys_def jwt_now_def sample_key_age sample_fetch_jwks [unfolded One_nat_def]
        store_keys_def old_cache_def)
qed

lemma sample_authenticated:
  "require_jwt_auth sample_jwt_libs sample_jwt_config (Some ''Bearer t'') old_cache \<lparr>jn_world = 0, jn_fetched = []\<rparr>
     = Some (Inr (Subject ''alice'' None),
         \<lparr>kc_keys = [sample_jwk], kc_fetched_at = 6, kc_last_kid_miss_refresh = Some 7\<rparr>,
         \<lparr>jn_world = 8, jn_fetched = [''https://id.example.com/jwks'']\<rparr>)"
proof -
  let ?h = "\<lparr>jh_alg = RS256, jh_kid = Some ''k1''\<rparr>"
  have h: "jl_decode_header sample_jwt_libs t = Inr ?h" for t by (simp add: sample_jwt_libs_def)
  have "trim ''alice'' \<noteq> []" by code_simp
  then have "verify_with_keys sample_jwt_libs sample_jwt_config ''t'' ?h [sample_jwk] 8 = Inr (Subject ''alice'' None)"
    by (simp add: verify_with_keys_Inr sample_jwt_libs_def find_key_def sample_jwk_def jwk_kid_def jwk_kty_def
        expected_kty_def unwrap_or_def)
  moreover have "jh_alg ?h \<in> set (jc_algorithms sample_jwt_config)" by (simp add: sample_jwt_config_def)
  ultimately have "verify_token sample_jwt_libs sample_jwt_config ''t'' old_cache \<lparr>jn_world = 0, jn_fetched = []\<rparr>
    = Some (Inr (Subject ''alice'' None),
        \<lparr>kc_keys = [sample_jwk], kc_fetched_at = 6, kc_last_kid_miss_refresh = Some 7\<rparr>,
        \<lparr>jn_world = 8, jn_fetched = [''https://id.example.com/jwks'']\<rparr>)"
    using sample_refresh by (simp add: verify_token_def h max_kid_length_def invalid_if_error_def)
  moreover have "strip_prefix ''Bearer '' ''Bearer t'' = Some ''t''" by code_simp
  ultimately show ?thesis by (simp add: require_jwt_auth_def)
qed

theorem jwt_subject_verified_witness:
  "\<exists>keys. get_or_refresh_keys sample_jwt_libs sample_jwt_config (Some ''k1'') old_cache \<lparr>jn_world = 0, jn_fetched = []\<rparr>
     = Some (Inr keys, \<lparr>kc_keys = [sample_jwk], kc_fetched_at = 6, kc_last_kid_miss_refresh = Some 7\<rparr>,
         \<lparr>jn_world = 8, jn_fetched = [''https://id.example.com/jwks'']\<rparr>)"
  using jwt_subject_verified [OF sample_authenticated] by (auto simp: sample_jwt_libs_def)

definition sample_jwks_system :: jwks_system where
  "sample_jwks_system = \<lparr>sy_clock = 0, sy_cache = old_cache, sy_tasks = Map.empty, sy_stored = []\<rparr>"

lemma sample_jwks_start: "jwks_start sample_jwks_system"
  by (simp add: jwks_start_def sample_jwks_system_def old_cache_def)

theorem refresh_is_a_run_witness:
  "\<exists>s'. (jwks_step (967 * 10 ^ 9))\<^sup>*\<^sup>* (set_task 3 (Waiting (Some ''k1'')) sample_jwks_system) s'
     \<and> sy_cache s' = \<lparr>kc_keys = [sample_jwk], kc_fetched_at = 6, kc_last_kid_miss_refresh = Some 7\<rparr>
     \<and> sy_tasks s' 3 = Some (Served 0 [sample_jwk])"
proof -
  have "clock_reads sample_jwt_libs int" by (simp add: clock_reads_def sample_jwt_libs_def)
  moreover have "key_max_age (jl_pid sample_jwt_libs) sample_jwt_config = Some (967 * 10 ^ 9)"
    using sample_key_age by (simp add: sample_jwt_libs_def)
  ultimately show ?thesis
    using refresh_is_a_run [OF _ _ sample_refresh, of int "967 * 10 ^ 9"
        "set_task 3 (Waiting (Some ''k1'')) sample_jwks_system" 3]
    by (simp add: sample_jwks_system_def set_task_def)
qed

lemma sample_fetch_steps:
  "(jwks_step (967 * 10 ^ 9))\<^sup>*\<^sup>* sample_jwks_system
     (set_task 3 (Served 0 [sample_jwk])
        ((set_task 3 (Fetching None 0) (set_task 3 (Waiting None) sample_jwks_system))
           \<lparr>sy_cache := store_keys None 0 4 [sample_jwk] old_cache, sy_clock := 4, sy_stored := [(0, [sample_jwk])]\<rparr>))"
proof -
  let ?a = "set_task 3 (Waiting None) sample_jwks_system" and ?m = "967 * 10 ^ 9 :: int"
  have sys: "sy_clock sample_jwks_system = 0" "sy_cache sample_jwks_system = old_cache"
    "sy_stored sample_jwks_system = []" "sy_tasks sample_jwks_system = Map.empty"
    by (simp_all add: sample_jwks_system_def)
  have "jwks_step ?m sample_jwks_system ?a" by (rule Arrive) (simp add: sys)
  moreover have "jwks_step ?m ?a (set_task 3 (Fetching None 0) ?a)"
    using Miss [of ?a 3 None ?m] by (simp add: sys cached_keys_def old_cache_def)
  moreover have "jwks_step ?m (set_task 3 (Fetching None 0) ?a) (set_task 3 (Served 0 [sample_jwk])
        ((set_task 3 (Fetching None 0) ?a)
           \<lparr>sy_cache := store_keys None 0 4 [sample_jwk] old_cache, sy_clock := 4, sy_stored := [(0, [sample_jwk])]\<rparr>))"
    using Store [of "set_task 3 (Fetching None 0) ?a" 3 None 0 4 ?m "[sample_jwk]"] by (simp add: sys)
  ultimately show ?thesis by (rule steps_3)
qed

theorem served_keys_recent_witness:
  "\<exists>t. (t, [sample_jwk]) \<in> {(0, [sample_jwk])} \<and> 0 - t < 967 * 10 ^ 9 + stale_grace_period"
  using served_keys_recent [OF sample_fetch_steps sample_jwks_start, of 3 0 "[sample_jwk]"] by simp

end
