(* ===== verification/Stdio.thy ===== *)
theory Stdio
  imports RustStr Utf8
begin

text \<open>
  The framing of JSON-RPC over standard input and output, in \<open>src/mcp/mod.rs\<close>: a frame is a
  \<open>Content-Length\<close> header block with a body of that many bytes, or a line. Input is the bytes that are
  still to come and what the stream reports after them: its end, or an error.
\<close>

section \<open>Input\<close>

record stdin =
  si_bytes :: string
  si_error :: "string option"

definition no_utf8 :: string where
  "no_utf8 = ''stream did not contain valid UTF-8''"

text \<open>\<open>read_line\<close>: up to and with the next line feed, or what is left before the end; it must be UTF-8.\<close>

definition next_line :: "string \<Rightarrow> string" where
  "next_line s = takeWhile (\<lambda>c. c \<noteq> CHR 0x0A) s @ (if CHR 0x0A \<in> set s then [CHR 0x0A] else [])"

definition read_line :: "(stdin, string) action" where
  "read_line inp =
     (let line = next_line (si_bytes inp);
          inp' = inp\<lparr>si_bytes := drop (length line) (si_bytes inp)\<rparr>
      in if CHR 0x0A \<notin> set (si_bytes inp) \<and> si_error inp \<noteq> None then (Inl [the (si_error inp)], inp')
         else if \<not> is_utf8 line then (bail no_utf8, inp')
         else (Inr line, inp'))"

definition read_exact :: "nat \<Rightarrow> (stdin, string) action" where
  "read_exact n inp =
     (if n \<le> length (si_bytes inp)
      then (Inr (take n (si_bytes inp)), inp\<lparr>si_bytes := drop n (si_bytes inp)\<rparr>)
      else (Inl [case si_error inp of Some e \<Rightarrow> e | None \<Rightarrow> ''early eof''], inp\<lparr>si_bytes := []\<rparr>))"

section \<open>The length header\<close>

text \<open>\<open>parse::<usize>\<close> with its errors: digits are read from the left until one is invalid or the value
  no longer fits.\<close>

fun usize_digits :: "nat \<Rightarrow> string \<Rightarrow> string + nat" where
  "usize_digits acc [] = Inr acc"
| "usize_digits acc (c # s) =
     (if \<not> is_ascii_digit c then Inl ''invalid digit found in string''
      else if acc * 10 + (byte c - 48) \<ge> 2 ^ 64 then Inl ''number too large to fit in target type''
      else usize_digits (acc * 10 + (byte c - 48)) s)"

definition parse_usize :: "string \<Rightarrow> string + nat" where
  "parse_usize s =
     (case s of
        [] \<Rightarrow> Inl ''cannot parse integer from empty string''
      | c # cs \<Rightarrow> if c = CHR ''+'' \<and> cs \<noteq> [] then usize_digits 0 cs else usize_digits 0 s)"

definition parse_content_length :: "string \<Rightarrow> nat option result" where
  "parse_content_length line =
     (case split_once '':'' line of
        None \<Rightarrow> Inr None
      | Some (name, v) \<Rightarrow>
          if \<not> eq_ignore_ascii_case (trim name) ''Content-Length'' then Inr None
          else and_then (with_context (''invalid Content-Length header `'' @ line @ ''`'')
                          (map_err (\<lambda>e. [e]) (parse_usize (trim v)))) (\<lambda>len. Inr (Some len)))"

section \<open>Frames\<close>

definition max_frame_size :: nat where "max_frame_size = 10 * 1024 * 1024"

lemma read_line_Inr:
  "read_line inp = (Inr line, inp') \<Longrightarrow>
     line = next_line (si_bytes inp) \<and> inp' = inp\<lparr>si_bytes := drop (length line) (si_bytes inp)\<rparr>"
  by (auto simp: read_line_def Let_def bail_def split: if_splits)

lemma read_line_shorter:
  assumes "read_line inp = (Inr line, inp')" and "line \<noteq> []"
  shows "length (si_bytes inp') < length (si_bytes inp)"
proof -
  from read_line_Inr [OF assms(1)] have line: "line = next_line (si_bytes inp)"
    and "si_bytes inp' = drop (length line) (si_bytes inp)" by auto
  moreover from line assms(2) have "si_bytes inp \<noteq> []" by (auto simp: next_line_def)
  ultimately show ?thesis using assms(2) by simp
qed

text \<open>The rest of a header block, up to an empty line.\<close>

function skip_headers :: "(stdin, unit) action" where
  "skip_headers inp =
     (case read_line inp of
        (Inl e, inp') \<Rightarrow> (Inl e, inp')
      | (Inr header, inp') \<Rightarrow>
          if header = [] then (bail ''unexpected EOF while reading stdio headers'', inp')
          else if header = [CHR 0x0D, CHR 0x0A] \<or> header = [CHR 0x0A] then (Inr (), inp')
          else skip_headers inp')"
  by pat_completeness auto
termination
  by (relation "measure (\<lambda>inp. length (si_bytes inp))") (auto dest: read_line_shorter [OF sym])

declare skip_headers.simps [simp del]

function read_stdio_frame :: "(stdin, string option) action" where
  "read_stdio_frame inp =
     (case read_line inp of
        (Inl e, inp') \<Rightarrow> (Inl e, inp')
      | (Inr line, inp') \<Rightarrow>
          if line = [] then (Inr None, inp')
          else if trim line = [] then read_stdio_frame inp'
          else
            (case parse_content_length line of
               Inl e \<Rightarrow> (Inl e, inp')
             | Inr (Some content_length) \<Rightarrow>
                 if content_length > max_frame_size
                 then (bail (''Content-Length '' @ show_nat content_length @ '' exceeds maximum frame size (''
                         @ show_nat max_frame_size @ '' bytes)''), inp')
                 else act_bind skip_headers (\<lambda>_. act_bind (read_exact content_length) (\<lambda>body.
                      act_return (Some body))) inp'
             | Inr None \<Rightarrow> (Inr (Some (trim_end_matches [CHR 0x0D, CHR 0x0A] line)), inp')))"
  by pat_completeness auto
termination
  by (relation "measure (\<lambda>inp. length (si_bytes inp))") (auto dest: read_line_shorter [OF sym])

declare read_stdio_frame.simps [simp del]

text \<open>\<open>write_stdio_frame\<close>: the bytes of one response.\<close>

definition stdio_frame :: "string \<Rightarrow> string" where
  "stdio_frame body =
     ''Content-Length: '' @ show_nat (length body) @ [CHR 0x0D, CHR 0x0A, CHR 0x0D, CHR 0x0A] @ body"

section \<open>Reading consumes input\<close>

lemma read_line_le: "length (si_bytes (snd (read_line inp))) \<le> length (si_bytes inp)"
  by (auto simp: read_line_def Let_def)

lemma skip_headers_le: "length (si_bytes (snd (skip_headers inp))) \<le> length (si_bytes inp)"
proof (induction inp rule: skip_headers.induct)
  case (1 inp)
  obtain r inp' where line: "read_line inp = (r, inp')" by fastforce
  with read_line_le [of inp] have le: "length (si_bytes inp') \<le> length (si_bytes inp)" by simp
  show ?case
  proof (cases r)
    case (Inl e)
    with line le show ?thesis by (simp add: skip_headers.simps [of inp])
  next
    case (Inr header)
    with line le 1 [OF line [symmetric]] show ?thesis
      by (subst skip_headers.simps) (auto intro: le_trans)
  qed
qed

lemma read_exact_le: "length (si_bytes (snd (read_exact n inp))) \<le> length (si_bytes inp)"
  by (simp add: read_exact_def)

lemma read_stdio_frame_shorter:
  "read_stdio_frame inp = (Inr (Some frame), inp') \<Longrightarrow> length (si_bytes inp') < length (si_bytes inp)"
proof (induction inp rule: read_stdio_frame.induct)
  case (1 inp)
  from "1.prems" obtain line inp1 where line: "read_line inp = (Inr line, inp1)"
    by (subst (asm) read_stdio_frame.simps) (auto split: prod.splits sum.splits)
  show ?case
  proof (cases "line = []")
    case True
    with "1.prems" line show ?thesis by (simp add: read_stdio_frame.simps [of inp])
  next
    case False
    from read_line_shorter [OF line False] have less: "length (si_bytes inp1) < length (si_bytes inp)" .
    show ?thesis
    proof (cases "trim line = []")
      case True
      with "1.prems" line False have "read_stdio_frame inp1 = (Inr (Some frame), inp')"
        by (simp add: read_stdio_frame.simps [of inp])
      from "1.IH" [OF line [symmetric] refl False True this] less show ?thesis by simp
    next
      case nonblank: False
      have "length (si_bytes inp') \<le> length (si_bytes inp1)"
        using "1.prems" line False nonblank skip_headers_le [of inp1]
        by (auto simp: read_stdio_frame.simps [of inp] act_bind_cases bail_def
            split: sum.splits option.splits if_splits)
          (metis le_trans read_exact_le snd_conv)
      with less show ?thesis by simp
    qed
  qed
qed

section \<open>Reading back a written frame\<close>

definition graphic :: "char \<Rightarrow> bool" where
  "graphic c \<longleftrightarrow> 33 \<le> byte c \<and> byte c \<le> 126"

lemma digit_graphic: "is_ascii_digit c \<Longrightarrow> graphic c"
  by (simp add: graphic_def is_ascii_digit_def)

lemma white_space_first:
  "w \<in> set white_space \<Longrightarrow> graphic c \<Longrightarrow> \<not> prefix w (c # s)" "w \<in> set white_space \<Longrightarrow> graphic c \<Longrightarrow> \<not> prefix (rev w) (c # s)"
  by (auto simp: white_space_def graphic_def)

lemma trim_start_graphic: "graphic c \<Longrightarrow> trim_start (c # s) = c # s"
  unfolding trim_start_def by (rule strip_front_id) (auto dest: white_space_first)

lemma trim_start_space: "trim_start (CHR 0x20 # s) = trim_start s"
  unfolding trim_start_def by (subst strip_front.simps) (simp add: white_space_def)

lemma trim_end_graphic: "graphic c \<Longrightarrow> trim_end (s @ [c]) = s @ [c]"
  unfolding trim_end_def
  by (subst strip_front_id) (auto dest: white_space_first)

lemma trim_end_crlf: "trim_end (s @ [CHR 0x0D, CHR 0x0A]) = trim_end s"
  unfolding trim_end_def
  by (subst strip_front.simps, simp add: white_space_def, subst strip_front.simps, simp)

lemma trim_line:
  assumes "graphic c" and "graphic d"
  shows "trim (c # s @ [d, CHR 0x0D, CHR 0x0A]) = c # s @ [d]"
  using trim_end_crlf [of "c # s @ [d]"] trim_end_graphic [OF assms(2), of "c # s"]
  by (simp add: trim_def trim_start_graphic [OF assms(1)])

lemma show_nat_ends: obtains c s d t where "show_nat n = c # s" "show_nat n = t @ [d]" "graphic c" "graphic d"
proof -
  obtain c s where "show_nat n = c # s" by (cases "show_nat n") auto
  moreover obtain t d where "show_nat n = t @ [d]" by (cases "show_nat n" rule: rev_cases) auto
  moreover have "graphic x" if "x \<in> set (show_nat n)" for x
    using show_nat_digits [OF that] by (rule digit_graphic)
  ultimately show thesis using that by (metis in_set_conv_decomp list.set_intros(1))
qed

lemma trim_header_value: "trim (CHR 0x20 # show_nat n @ [CHR 0x0D, CHR 0x0A]) = show_nat n"
proof -
  obtain c s d t where ends: "show_nat n = c # s" "show_nat n = t @ [d]" "graphic c" "graphic d"
    by (rule show_nat_ends)
  have "trim_start (CHR 0x20 # show_nat n @ [CHR 0x0D, CHR 0x0A]) = show_nat n @ [CHR 0x0D, CHR 0x0A]"
    using ends(1,3) by (simp add: trim_start_space trim_start_graphic)
  moreover have "trim_end (show_nat n @ [CHR 0x0D, CHR 0x0A]) = show_nat n"
    unfolding trim_end_crlf using ends(2,4) by (simp add: trim_end_graphic)
  ultimately show ?thesis by (simp add: trim_def)
qed

lemma usize_digits_val: "digits_val acc s = Some n \<Longrightarrow> n < 2 ^ 64 \<Longrightarrow> usize_digits acc s = Inr n"
proof (induction acc s rule: digits_val.induct)
  case (2 acc c s)
  have "m \<le> n" if "digits_val m s = Some n" for m
    using that
  proof (induction s arbitrary: m)
    case (Cons c s)
    then have "m * 10 + (byte c - 48) \<le> n" by (auto split: if_splits)
    then show ?case by simp
  qed simp
  with 2 show ?case by (fastforce split: if_splits)
qed simp

lemma parse_usize_show:
  assumes "n < 2 ^ 64"
  shows "parse_usize (show_nat n) = Inr n"
proof -
  obtain c s where cs: "show_nat n = c # s" by (cases "show_nat n") auto
  then have "is_ascii_digit c" using show_nat_digits [of c n] by simp
  then have "c \<noteq> CHR ''+''" by (auto simp: is_ascii_digit_def)
  with cs usize_digits_val [OF digits_val_show_nat assms] show ?thesis by (simp add: parse_usize_def)
qed

lemma next_line_append: "CHR 0x0A \<notin> set l \<Longrightarrow> next_line (l @ CHR 0x0A # rest) = l @ [CHR 0x0A]"
  by (simp add: next_line_def takeWhile_append)

lemma is_utf8_ascii: "(\<And>c. c \<in> set s \<Longrightarrow> byte c < 128) \<Longrightarrow> is_utf8 s"
proof (induction s)
  case (Cons c s)
  have "byte c < 128" by (rule Cons.prems) simp
  then have "utf8_head [c] = Valid 1" by (simp add: byte_in_def)
  then have "is_utf8 ([c] @ s) = is_utf8 s" by (rule is_utf8_Cons_char) simp
  with Cons show ?case by simp
qed simp

lemma read_line_next:
  "CHR 0x0A \<notin> set l \<Longrightarrow> (\<And>c. c \<in> set l \<Longrightarrow> byte c < 128) \<Longrightarrow>
     read_line \<lparr>si_bytes = l @ CHR 0x0A # rest, si_error = e\<rparr> = (Inr (l @ [CHR 0x0A]), \<lparr>si_bytes = rest, si_error = e\<rparr>)"
proof -
  assume l: "CHR 0x0A \<notin> set l" "\<And>c. c \<in> set l \<Longrightarrow> byte c < 128"
  have "is_utf8 (l @ [CHR 0x0A])" by (rule is_utf8_ascii) (use l(2) in auto)
  with l(1) show ?thesis by (simp add: read_line_def next_line_append Let_def)
qed

definition length_header :: "nat \<Rightarrow> string" where
  "length_header n = ''Content-Length: '' @ show_nat n @ [CHR 0x0D]"

lemma length_header_chars: "c \<in> set (length_header n) \<Longrightarrow> byte c < 128 \<and> c \<noteq> CHR 0x0A"
  by (auto simp: length_header_def is_ascii_digit_def dest: show_nat_digits)

lemma length_header_line:
  "trim (length_header n @ [CHR 0x0A]) \<noteq> []" "n < 2 ^ 64 \<Longrightarrow> parse_content_length (length_header n @ [CHR 0x0A]) = Inr (Some n)"
proof -
  obtain c s d t where "show_nat n = t @ [d]" "graphic d" by (rule show_nat_ends)
  with trim_line [of "CHR ''C''" d "''ontent-Length: '' @ t"] show "trim (length_header n @ [CHR 0x0A]) \<noteq> []"
    by (simp add: length_header_def graphic_def)
next
  assume n: "n < 2 ^ 64"
  have "split_once '':'' (''Content-Length'' @ CHR '':'' # CHR 0x20 # show_nat n @ [CHR 0x0D, CHR 0x0A])
      = Some (''Content-Length'', CHR 0x20 # show_nat n @ [CHR 0x0D, CHR 0x0A])"
    by (simp add: split_once_char)
  moreover have "eq_ignore_ascii_case (trim ''Content-Length'') ''Content-Length''" by code_simp
  ultimately show "parse_content_length (length_header n @ [CHR 0x0A]) = Inr (Some n)"
    using n by (simp add: parse_content_length_def length_header_def trim_header_value parse_usize_show with_context_def)
qed

lemma stdio_frame_header:
  "stdio_frame body = length_header (length body) @ CHR 0x0A # [CHR 0x0D] @ CHR 0x0A # body"
  by (simp add: stdio_frame_def length_header_def)

lemma read_written_frame:
  assumes "length body \<le> max_frame_size"
  shows "read_stdio_frame \<lparr>si_bytes = stdio_frame body @ rest, si_error = e\<rparr>
    = (Inr (Some body), \<lparr>si_bytes = rest, si_error = e\<rparr>)"
proof -
  let ?h = "length_header (length body)"
  have line: "read_line \<lparr>si_bytes = stdio_frame body @ rest, si_error = e\<rparr>
      = (Inr (?h @ [CHR 0x0A]), \<lparr>si_bytes = [CHR 0x0D] @ CHR 0x0A # body @ rest, si_error = e\<rparr>)"
    unfolding stdio_frame_header using read_line_next [of ?h "[CHR 0x0D] @ CHR 0x0A # body @ rest" e] length_header_chars
    by (metis (no_types, lifting) append.assoc append_Cons)
  have "skip_headers \<lparr>si_bytes = [CHR 0x0D] @ CHR 0x0A # body @ rest, si_error = e\<rparr>
      = (Inr (), \<lparr>si_bytes = body @ rest, si_error = e\<rparr>)"
    by (subst skip_headers.simps, subst read_line_next) auto
  moreover have "length body < 2 ^ 64" using assms by (simp add: max_frame_size_def)
  then have "parse_content_length (?h @ [CHR 0x0A]) = Inr (Some (length body))" by (rule length_header_line(2))
  ultimately show ?thesis
    using assms
    by (subst read_stdio_frame.simps)
      (simp only: line, simp add: length_header_line(1) read_exact_def)
qed

text \<open>
  A frame that was written is read back: reading takes exactly the header block and the body of a
  response of at most 10 MiB, whatever bytes the body holds, and leaves what follows.
\<close>

theorem stdio_frame_roundtrip:
  assumes "length body \<le> max_frame_size"
  shows "read_stdio_frame \<lparr>si_bytes = stdio_frame body @ rest, si_error = e\<rparr>
    = (Inr (Some body), \<lparr>si_bytes = rest, si_error = e\<rparr>)"
  using assms by (rule read_written_frame)

theorem stdio_frame_roundtrip_witness:
  "read_stdio_frame \<lparr>si_bytes = stdio_frame ''{}'' @ ''next'', si_error = None\<rparr>
    = (Inr (Some ''{}''), \<lparr>si_bytes = ''next'', si_error = None\<rparr>)"
  by (rule stdio_frame_roundtrip) (simp add: max_frame_size_def)

text \<open>Only the first header of a block is looked at: when another one comes before the length, that
  header line itself is taken for a frame.\<close>

lemma length_must_come_first:
  "fst (read_stdio_frame \<lparr>si_bytes = ''X-Id: 1'' @ [CHR 0x0D, CHR 0x0A] @ stdio_frame ''{}'', si_error = None\<rparr>)
    = Inr (Some ''X-Id: 1'')"
  by code_simp

end
