(* ===== verification/Mcp.thy ===== *)
theory Mcp
  imports Execute Jwt Stdio Policy Binder "HOL-Library.Product_Lexorder"
begin

text \<open>
  The MCP server, \<open>src/mcp/mod.rs\<close>: JSON-RPC requests and responses, listing and calling tools in full
  and discovery mode, the tool search, the stdio framing with its loop and the HTTP routes. The
  deserialization errors of serde, the readers and writers of JSON text, and the libraries of the
  components it calls are parameters.
\<close>

section \<open>State and messages\<close>

definition default_discovery_limit :: nat where "default_discovery_limit = 10"

definition max_discovery_limit :: nat where "max_discovery_limit = 50"

datatype server_transport = StdioTransport | HttpTransport

datatype mcp_mode = McpFull | McpDiscovery

record mcp_server_options =
  so_transport :: server_transport
  so_mode :: mcp_mode
  so_auto_yes :: bool
  so_allow_unauthenticated :: bool

record mcp_state =
  mcp_catalog :: catalog
  mcp_cfg :: config
  mcp_mode :: mcp_mode
  mcp_auto_yes :: bool
  mcp_jwt :: "resolved_jwt_config option"
  mcp_policies :: "policy_rule list"
  mcp_active_env :: "string option"

record json_rpc_request =
  jr_jsonrpc :: string
  jr_method :: string
  jr_params :: "json option"
  jr_id :: "json option"

record json_rpc_error =
  je_code :: int
  je_message :: string

text \<open>A response; its version is always the constant. Exactly one of result and error is there.\<close>

record json_rpc_response =
  js_id :: json
  js_result :: "json option"
  js_error :: "json_rpc_error option"

definition response_success :: "json \<Rightarrow> json \<Rightarrow> json_rpc_response" where
  "response_success i result = \<lparr>js_id = i, js_result = Some result, js_error = None\<rparr>"

definition response_error :: "json \<Rightarrow> int \<Rightarrow> string \<Rightarrow> json_rpc_response" where
  "response_error i code message =
     \<lparr>js_id = i, js_result = None, js_error = Some \<lparr>je_code = code, je_message = message\<rparr>\<rparr>"

datatype rpc_failure = RpcFailure (rf_code: int) (rf_message: string)

definition access_denied :: "string \<Rightarrow> rpc_failure" where
  "access_denied message = RpcFailure (- 32001) message"

definition invalid_params :: "string \<Rightarrow> rpc_failure" where
  "invalid_params message = RpcFailure (- 32602) message"

definition method_not_found :: "string \<Rightarrow> rpc_failure" where
  "method_not_found message = RpcFailure (- 32601) message"

definition rpc_internal :: "anyhow \<Rightarrow> rpc_failure" where
  "rpc_internal err = RpcFailure (- 32603) (err_display err)"

section \<open>Reading parameters\<close>

text \<open>
  What \<open>#[derive(Deserialize)]\<close> makes of a struct. A field has a reader, the value it gets when an
  object does not have it, and the value it gets when an array is too short for it (only fields with
  \<open>#[serde(default)]\<close> have one). An object is read in key order, unknown keys are skipped; an array
  gives the fields in declaration order.
\<close>

record serde_errors =
  se_type :: "json \<Rightarrow> string \<Rightarrow> string"
  se_length :: "nat \<Rightarrow> string \<Rightarrow> string"
  se_missing :: "string \<Rightarrow> string"

record field_reader =
  fr_name :: string
  fr_read :: "json \<Rightarrow> string + json"
  fr_default :: "json option"
  fr_seq_default :: "json option"

fun read_elements :: "serde_errors \<Rightarrow> string \<Rightarrow> nat \<Rightarrow> field_reader list \<Rightarrow> json list \<Rightarrow> string + json list \<times> json list" where
  "read_elements se what i [] vs = Inr ([], vs)"
| "read_elements se what i (f # fs) [] =
     and_then (ok_or (se_length se i what) (fr_seq_default f)) (\<lambda>d.
     and_then (read_elements se what (Suc i) fs []) (\<lambda>(ds, rest). Inr (d # ds, rest)))"
| "read_elements se what i (f # fs) (v # vs) =
     and_then (fr_read f v) (\<lambda>x.
     and_then (read_elements se what (Suc i) fs vs) (\<lambda>(xs, rest). Inr (x # xs, rest)))"

definition read_field :: "field_reader list \<Rightarrow> string \<times> json \<Rightarrow> string + unit" where
  "read_field specs = (\<lambda>(k, v).
     case find (\<lambda>f. fr_name f = k) specs of
       None \<Rightarrow> Inr ()
     | Some f \<Rightarrow> and_then (fr_read f v) (\<lambda>_. Inr ()))"

definition take_field :: "serde_errors \<Rightarrow> json_map \<Rightarrow> field_reader \<Rightarrow> string + json" where
  "take_field se m f =
     (case bt_get m (fr_name f) of
        Some v \<Rightarrow> fr_read f v
      | None \<Rightarrow> ok_or (se_missing se (fr_name f)) (fr_default f))"

definition read_struct :: "serde_errors \<Rightarrow> string \<Rightarrow> field_reader list \<Rightarrow> json \<Rightarrow> string + json list" where
  "read_struct se what specs v =
     (case v of
        JObject m \<Rightarrow> and_then (try_for_each (read_field specs) m) (\<lambda>_. try_map (take_field se m) specs)
      | JArray vs \<Rightarrow>
          and_then (read_elements se (what @ '' with '' @ show_nat (length specs)
               @ (if length specs = 1 then '' element'' else '' elements'')) 0 specs vs) (\<lambda>(xs, rest).
          if rest = [] then Inr xs
          else Inl (se_length se (length vs) ''fewer elements in array''))
      | _ \<Rightarrow> Inl (se_type se v what))"

definition read_string :: "serde_errors \<Rightarrow> json \<Rightarrow> string + json" where
  "read_string se v = (case v of JString s \<Rightarrow> Inr v | _ \<Rightarrow> Inl (se_type se v ''a string''))"

definition read_optional :: "(json \<Rightarrow> string + json) \<Rightarrow> json \<Rightarrow> string + json" where
  "read_optional read v = (case v of JNull \<Rightarrow> Inr JNull | _ \<Rightarrow> read v)"

definition read_map :: "serde_errors \<Rightarrow> json \<Rightarrow> string + json" where
  "read_map se v = (case v of JObject m \<Rightarrow> Inr v | _ \<Rightarrow> Inl (se_type se v ''a map''))"

definition read_usize :: "serde_errors \<Rightarrow> json \<Rightarrow> string + json" where
  "read_usize se v = (case v of JNumber (PosInt n) \<Rightarrow> Inr v | _ \<Rightarrow> Inl (se_type se v ''usize''))"

definition required_field :: "string \<Rightarrow> (json \<Rightarrow> string + json) \<Rightarrow> field_reader" where
  "required_field name read = \<lparr>fr_name = name, fr_read = read, fr_default = None, fr_seq_default = None\<rparr>"

definition default_field :: "string \<Rightarrow> (json \<Rightarrow> string + json) \<Rightarrow> json \<Rightarrow> field_reader" where
  "default_field name read d = \<lparr>fr_name = name, fr_read = read, fr_default = Some d, fr_seq_default = Some d\<rparr>"

text \<open>The values of the fields after reading.\<close>

definition str_of :: "json \<Rightarrow> string" where
  "str_of v = (case v of JString s \<Rightarrow> s | _ \<Rightarrow> [])"

definition map_of_json :: "json \<Rightarrow> json_map" where
  "map_of_json v = (case v of JObject m \<Rightarrow> m | _ \<Rightarrow> [])"

definition usize_of :: "json \<Rightarrow> nat" where
  "usize_of v = (case v of JNumber (PosInt n) \<Rightarrow> unat n | _ \<Rightarrow> 0)"

record tool_call_params =
  tc_name :: string
  tc_arguments :: json_map

record discovery_search_args =
  ds_query :: string
  ds_limit :: nat
  ds_mode :: "string option"
  ds_provider :: "string option"
  ds_category :: "string option"

definition decode_failure :: "string + 'a \<Rightarrow> rpc_failure + 'a" where
  "decode_failure r = map_err (\<lambda>err. invalid_params (''invalid params: '' @ err)) r"

text \<open>The argument of \<open>decode_params\<close>: absent parameters are an empty object.\<close>

definition params_value :: "json option \<Rightarrow> json" where
  "params_value params = (case params of Some v \<Rightarrow> v | None \<Rightarrow> JObject [])"

definition read_initialize_params :: "serde_errors \<Rightarrow> json \<Rightarrow> string + string option" where
  "read_initialize_params se v =
     and_then (read_struct se ''struct InitializeParams''
        [\<lparr>fr_name = ''protocolVersion'', fr_read = read_optional (read_string se), fr_default = Some JNull,
          fr_seq_default = None\<rparr>] v) (\<lambda>xs.
     Inr (as_str (xs ! 0)))"

definition read_tool_call_params :: "serde_errors \<Rightarrow> string \<Rightarrow> json \<Rightarrow> string + tool_call_params" where
  "read_tool_call_params se what v =
     and_then (read_struct se what
        [required_field ''name'' (read_string se), default_field ''arguments'' (read_map se) (JObject [])] v) (\<lambda>xs.
     Inr \<lparr>tc_name = str_of (xs ! 0), tc_arguments = map_of_json (xs ! 1)\<rparr>)"

definition read_discovery_search_args :: "serde_errors \<Rightarrow> json \<Rightarrow> string + discovery_search_args" where
  "read_discovery_search_args se v =
     and_then (read_struct se ''struct DiscoverySearchArgs''
        [required_field ''query'' (read_string se),
         default_field ''limit'' (read_usize se) (JNumber (PosInt (word_of_nat default_discovery_limit))),
         default_field ''mode'' (read_optional (read_string se)) JNull,
         default_field ''provider'' (read_optional (read_string se)) JNull,
         default_field ''category'' (read_optional (read_string se)) JNull] v) (\<lambda>xs.
     Inr \<lparr>ds_query = str_of (xs ! 0), ds_limit = usize_of (xs ! 1), ds_mode = as_str (xs ! 2),
          ds_provider = as_str (xs ! 3), ds_category = as_str (xs ! 4)\<rparr>)"

section \<open>Describing tools\<close>

definition jstr :: "string \<Rightarrow> json" where "jstr s = JString s"

definition jnat :: "nat \<Rightarrow> json" where "jnat n = JNumber (PosInt (word_of_nat n))"

fun param_json_type :: "param_type \<Rightarrow> string" where
  "param_json_type PString = ''string''"
| "param_json_type PInteger = ''integer''"
| "param_json_type PNumber = ''number''"
| "param_json_type PBoolean = ''boolean''"
| "param_json_type PNull = ''null''"
| "param_json_type PArray = ''array''"
| "param_json_type PObject = ''object''"

definition param_schema :: "param_spec \<Rightarrow> json" where
  "param_schema param =
     (let schema = bt_insert ''type'' (jstr (param_json_type (param_ty param))) [];
          schema = (case param_description param of
                      Some description \<Rightarrow>
                        if trim description \<noteq> [] then bt_insert ''description'' (jstr (trim description)) schema else schema
                    | None \<Rightarrow> schema);
          schema = (case param_default param of
                      Some d \<Rightarrow> bt_insert ''default'' d schema
                    | None \<Rightarrow> schema)
      in JObject schema)"

definition input_schema_for :: "param_spec list \<Rightarrow> json" where
  "input_schema_for params =
     (let properties = fold (\<lambda>p. bt_insert (param_name p) (param_schema p)) params [];
          required = map (\<lambda>p. jstr (param_name p)) (filter param_required params);
          root = bt_insert ''additionalProperties'' (JBool False)
                   (bt_insert ''properties'' (JObject properties) (bt_insert ''type'' (jstr ''object'') []))
      in JObject (if required \<noteq> [] then bt_insert ''required'' (JArray required) root else root))"

definition tool_description :: "catalog_entry \<Rightarrow> string" where
  "tool_description entry =
     te_summary entry
     @ (if trim (te_description entry) \<noteq> [] then [CHR 0x0A, CHR 0x0A] @ trim (te_description entry) else [])
     @ [CHR 0x0A, CHR 0x0A] @ ''Mode: '' @ mode_as_str (te_mode entry)"

definition tool_from_entry :: "catalog_entry \<Rightarrow> json" where
  "tool_from_entry entry =
     jobj [(''name'', jstr (te_key entry)), (''title'', jstr (te_title entry)),
           (''description'', jstr (tool_description entry)),
           (''inputSchema'', input_schema_for (ct_params (te_template entry)))]"

definition build_discovery_tools :: "json list" where
  "build_discovery_tools =
     [jobj [(''name'', jstr ''earl.tool_search''),
            (''title'', jstr ''Search Earl Tools''),
            (''description'', jstr ''Find matching Earl template tools by natural-language query and optional filters.''),
            (''inputSchema'', jobj
              [(''type'', jstr ''object''),
               (''properties'', jobj
                 [(''query'', jobj [(''type'', jstr ''string''),
                     (''description'', jstr ''Natural-language intent to match against tool metadata.'')]),
                  (''limit'', jobj [(''type'', jstr ''integer''),
                     (''description'', jstr (''Maximum matches to return (1-'' @ show_nat max_discovery_limit @ '').'')),
                     (''default'', jnat default_discovery_limit)]),
                  (''mode'', jobj [(''type'', jstr ''string''), (''enum'', JArray [jstr ''read'', jstr ''write'']),
                     (''description'', jstr ''Optional mode filter.'')]),
                  (''provider'', jobj [(''type'', jstr ''string''),
                     (''description'', jstr ''Optional provider filter (for example `github`).'')]),
                  (''category'', jobj [(''type'', jstr ''string''),
                     (''description'', jstr ''Optional category filter.'')])]),
               (''required'', JArray [jstr ''query'']), (''additionalProperties'', JBool False)])],
      jobj [(''name'', jstr ''earl.tool_call''),
            (''title'', jstr ''Invoke Earl Tool''),
            (''description'', jstr ''Execute a discovered Earl template tool by name.''),
            (''inputSchema'', jobj
              [(''type'', jstr ''object''),
               (''properties'', jobj
                 [(''name'', jobj [(''type'', jstr ''string''),
                     (''description'', jstr ''Exact template tool name returned by earl.tool_search.'')]),
                  (''arguments'', jobj [(''type'', jstr ''object''),
                     (''description'', jstr ''Arguments for the selected template tool.''), (''default'', JObject [])])]),
               (''required'', JArray [jstr ''name'']), (''additionalProperties'', JBool False)])]]"

text \<open>The access filter of listing and search.\<close>

definition entry_visible :: "mcp_state \<Rightarrow> subject option \<Rightarrow> catalog_entry \<Rightarrow> bool" where
  "entry_visible state sub entry =
     (case sub of
        Some s \<Rightarrow> evaluate (mcp_policies state) (subject_sub s) (te_key entry) (te_mode entry) = Allow
      | None \<Rightarrow> mcp_auto_yes state \<or> te_mode entry \<noteq> ModeWrite)"

definition build_tools :: "mcp_state \<Rightarrow> subject option \<Rightarrow> json list" where
  "build_tools state sub =
     (case mcp_mode state of
        McpFull \<Rightarrow> map tool_from_entry (filter (entry_visible state sub) (catalog_values (mcp_catalog state)))
      | McpDiscovery \<Rightarrow> build_discovery_tools)"

section \<open>Searching tools\<close>

text \<open>
  Scores are \<open>f32\<close>. All summands are multiples of one half, so a score is a number of half points of at
  most 24 significant bits; a sum that has more is rounded to nearest, ties to even.
\<close>

definition f32_quotient :: "nat \<Rightarrow> nat \<Rightarrow> nat" where
  "f32_quotient n d =
     (let u = 2 ^ (log2_floor (n div d) - 23) * d;
          q = n div u; r = n mod u;
          up = (2 * r > u \<or> 2 * r = u \<and> odd q)
      in (q + (if up then 1 else 0)) * (u div d))"

definition add_points :: "nat \<Rightarrow> nat \<Rightarrow> nat" where
  "add_points half_points score =
     (let n = score + half_points in if n < 2 ^ 24 then n else f32_quotient n 1)"

definition add_if :: "bool \<Rightarrow> nat \<Rightarrow> nat \<Rightarrow> nat" where
  "add_if b half_points score = (if b then add_points half_points score else score)"

record search_terms =
  st_key :: string
  st_provider :: string
  st_command :: string
  st_title :: string
  st_summary :: string
  st_description :: string
  st_categories :: "string list"
  st_params :: "string list"

definition search_terms_of :: "catalog_entry \<Rightarrow> search_terms" where
  "search_terms_of entry =
     \<lparr>st_key = to_ascii_lowercase (te_key entry), st_provider = to_ascii_lowercase (te_provider entry),
      st_command = to_ascii_lowercase (te_command entry), st_title = to_ascii_lowercase (te_title entry),
      st_summary = to_ascii_lowercase (te_summary entry),
      st_description = to_ascii_lowercase (te_description entry),
      st_categories = map to_ascii_lowercase (te_categories entry),
      st_params = map (\<lambda>p. to_ascii_lowercase (param_name p)) (ct_params (te_template entry))\<rparr>"

definition token_score :: "search_terms \<Rightarrow> string \<Rightarrow> nat \<Rightarrow> nat" where
  "token_score t token score =
     (let score = add_if (sublist token (st_key t)) 4 score;
          score = add_if (st_provider t = token) 4 score;
          score = add_if (st_command t = token) 4 score;
          score = add_if (sublist token (st_title t)) 3 score;
          score = add_if (sublist token (st_summary t)) 2 score;
          score = add_if (sublist token (st_description t)) 1 score;
          score = add_if (list_ex (\<lambda>category. sublist token category) (st_categories t)) 2 score
      in add_if (list_ex (\<lambda>param. param = token) (st_params t)) 1 score)"

definition discovery_score :: "string \<Rightarrow> catalog_entry \<Rightarrow> nat" where
  "discovery_score query entry =
     (let query = to_ascii_lowercase query
      in if query = [] then 0
         else
         let t = search_terms_of entry;
             score = add_if (st_key t = query) 24 0;
             score = add_if (sublist query (st_key t)) 12 score;
             score = add_if (sublist query (st_title t)) 8 score;
             score = add_if (sublist query (st_summary t)) 6 score;
             score = add_if (sublist query (st_description t)) 4 score
         in fold (token_score t) (split_whitespace query) score)"

text \<open>\<open>round_score\<close>, and the number serde makes of it: the product with 1000, its rounding, which changes
  nothing on a whole number, and the quotient, each an \<open>f32\<close>; then the bits of the same value as \<open>f64\<close>.
  The quotient is computed with 40 more bits, which are taken off the exponent again.\<close>

definition round_score :: "nat \<Rightarrow> json" where
  "round_score half_points =
     (let thousands = (if 500 * half_points < 2 ^ 24 then 500 * half_points else f32_quotient (500 * half_points) 1);
          q = f32_quotient (thousands * 2 ^ 40) 1000
      in JNumber (Float (word_of_nat (if thousands = 0 then 0 else nat_as_f64 q - 40 * 2 ^ 52))))"

definition parse_mode_filter :: "string option \<Rightarrow> rpc_failure + command_mode option" where
  "parse_mode_filter mode =
     (case mode of
        None \<Rightarrow> Inr None
      | Some m \<Rightarrow>
          let other = trim m
          in if other = [] then Inr None
             else if other = ''read'' then Inr (Some ModeRead)
             else if other = ''write'' then Inr (Some ModeWrite)
             else Inl (invalid_params (''invalid mode filter `'' @ other @ ''`; expected `read` or `write`'')))"

text \<open>A filter text is trimmed, dropped when empty, and lowercased.\<close>

definition text_filter :: "string option \<Rightarrow> string option" where
  "text_filter given =
     (case given of
        None \<Rightarrow> None
      | Some s \<Rightarrow> if trim s = [] then None else Some (to_ascii_lowercase (trim s)))"

definition entry_matches ::
    "command_mode option \<Rightarrow> string option \<Rightarrow> string option \<Rightarrow> catalog_entry \<Rightarrow> bool" where
  "entry_matches mode_filter provider_filter category_filter entry \<longleftrightarrow>
     (case mode_filter of None \<Rightarrow> True | Some mode \<Rightarrow> te_mode entry = mode)
     \<and> (case provider_filter of None \<Rightarrow> True | Some provider \<Rightarrow> to_ascii_lowercase (te_provider entry) = provider)
     \<and> (case category_filter of
          None \<Rightarrow> True
        | Some category \<Rightarrow> list_ex (\<lambda>candidate. to_ascii_lowercase candidate = category) (te_categories entry))"

text \<open>The candidates, highest score first, equal scores by key.\<close>

definition rank_entries :: "(catalog_entry \<Rightarrow> bool) \<Rightarrow> string \<Rightarrow> nat \<Rightarrow> catalog \<Rightarrow> (catalog_entry \<times> nat) list" where
  "rank_entries keep query limit cat =
     take limit
       (sort_key (\<lambda>(entry, score). (- int score, te_key entry))
         (filter (\<lambda>(entry, score). score > 0)
           (map (\<lambda>entry. (entry, discovery_score query entry)) (filter keep (catalog_values cat)))))"

definition match_json :: "catalog_entry \<times> nat \<Rightarrow> json" where
  "match_json = (\<lambda>(entry, score).
     jobj [(''name'', jstr (te_key entry)), (''score'', round_score score), (''summary'', jstr (te_summary entry)),
           (''mode'', jstr (mode_as_str (te_mode entry))), (''categories'', JArray (map jstr (te_categories entry))),
           (''tool'', tool_from_entry entry)])"

definition str_member :: "json \<Rightarrow> string \<Rightarrow> string \<Rightarrow> string" where
  "str_member tool k d = (case Option.bind (json_get tool k) as_str of Some s \<Rightarrow> s | None \<Rightarrow> d)"

text \<open>\<open>{:02}\<close>\<close>

definition show_two :: "nat \<Rightarrow> string" where
  "show_two n = (if n < 10 then ''0'' else []) @ show_nat n"

definition match_line :: "nat \<times> json \<Rightarrow> string" where
  "match_line = (\<lambda>(index, tool).
     show_two (index + 1) @ ''. '' @ str_member tool ''name'' ''unknown'' @ '' ('' @ str_member tool ''mode'' ''unknown''
       @ '') - '' @ str_member tool ''summary'' [])"

definition search_text :: "string \<Rightarrow> json list \<Rightarrow> string" where
  "search_text query matches =
     (if matches = [] then ''No tools matched query `'' @ query @ ''`.''
      else ''Found '' @ show_nat (length matches) @ '' matching tools for `'' @ query @ ''`:'' @ [CHR 0x0A]
           @ str_join [CHR 0x0A] (map match_line (enumerate 0 matches)))"

definition text_content :: "string \<Rightarrow> json \<Rightarrow> json" where
  "text_content txt structured =
     jobj [(''content'', JArray [jobj [(''type'', jstr ''text''), (''text'', jstr txt)]]),
           (''structuredContent'', structured)]"

definition search_keep :: "mcp_state \<Rightarrow> subject option \<Rightarrow> command_mode option \<Rightarrow> discovery_search_args \<Rightarrow> catalog_entry \<Rightarrow> bool" where
  "search_keep state sub mode_filter args entry \<longleftrightarrow>
     entry_matches mode_filter (text_filter (ds_provider args)) (text_filter (ds_category args)) entry
     \<and> entry_visible state sub entry"

definition handle_discovery_search ::
    "serde_errors \<Rightarrow> json_map \<Rightarrow> mcp_state \<Rightarrow> subject option \<Rightarrow> rpc_failure + json" where
  "handle_discovery_search se arguments state sub =
     and_then (decode_failure (read_discovery_search_args se (JObject arguments))) (\<lambda>args.
     let query = trim (ds_query args)
     in if query = [] then Inl (invalid_params ''query must not be empty'')
        else and_then (parse_mode_filter (ds_mode args)) (\<lambda>mode_filter.
        let limit = max 1 (min (ds_limit args) max_discovery_limit);
            ranked = rank_entries (search_keep state sub mode_filter args) query limit (mcp_catalog state);
            matches = map match_json ranked
        in Inr (text_content (search_text query matches)
                 (jobj [(''query'', jstr query), (''limit'', jnat limit), (''matches'', JArray matches)]))))"

section \<open>Calling tools\<close>

fun show_bind_error :: "bind_error \<Rightarrow> string" where
  "show_bind_error (TooManyPositional expected actual) =
     ''too many positional arguments: expected at most '' @ show_nat expected @ '', got '' @ show_nat actual"
| "show_bind_error (UnknownArgument name) = ''unknown argument `'' @ name @ ''`''"
| "show_bind_error (DuplicateArgument name) = ''argument `'' @ name @ ''` provided multiple times''"
| "show_bind_error (MissingRequired name) = ''missing required argument `'' @ name @ ''`''"
| "show_bind_error (InvalidType name expected actual) =
     ''argument `'' @ name @ ''` has invalid type; expected '' @ expected @ '', got '' @ actual"

text \<open>What the server is built on. The configuration's part of the provision is overwritten.\<close>

record ('st, 'w, 'o, 'e, 'v, 's, 'row, 're, 'sel, 'doc, 'xp) server_libs =
  sl_serde :: serde_errors
  sl_provision :: "('st, 'w, 'o, 'e, 'v) provision"
  sl_executors :: "('s, 'row, 're, 'sel, 'doc, 'xp) executors"
  sl_oauth_new :: "config \<Rightarrow> unit result"

record ('w, 'o, 's) server_world =
  sw_prep :: "('w, 'o) prep_state"
  sw_exec :: "'s exec_state"

definition server_provision :: "('st, 'w, 'o, 'e, 'v) provision \<Rightarrow> config \<Rightarrow> ('st, 'w, 'o, 'e, 'v) provision" where
  "server_provision pv cfg =
     pv\<lparr>pv_allow_rules := nc_allow (cfg_network cfg), pv_proxy_profiles := nc_proxy_profiles (cfg_network cfg),
        pv_sandbox := cfg_sandbox cfg, pv_allow_private_ips := nc_allow_private_ips (cfg_network cfg)\<rparr>"

definition tool_output ::
    "('e, 'v) minijinja \<Rightarrow> prepared_request \<Rightarrow> execution_result result \<Rightarrow> json result" where
  "tool_output mj prepared run =
     and_then (map_err (\<lambda>e. [redact (rq_redactor prepared) (err_display e)]) run) (\<lambda>execution.
     and_then (render_human_output mj (rq_result_template prepared) (rq_args prepared) (er_result execution)) (\<lambda>output.
     Inr (text_content (redact (rq_redactor prepared) output)
            (redact_json (rq_redactor prepared) (render_json_output execution)))))"

definition execute_template_tool ::
    "('st, 'w, 'o, 'e, 'v, 's, 'row, 're, 'sel, 'doc, 'xp) server_libs \<Rightarrow> catalog_entry \<Rightarrow> json_map \<Rightarrow> mcp_state \<Rightarrow>
     ('w, 'o, 's) server_world \<Rightarrow> (json result \<times> ('w, 'o, 's) server_world) option" where
  "execute_template_tool sl entry arguments state w =
     (let expression = \<lparr>ce_provider = te_provider entry, ce_command = te_command entry,
                        ce_positional_args = [], ce_named_args = arguments\<rparr>;
          pv = server_provision (sl_provision sl) (mcp_cfg state)
      in case and_then (map_err (\<lambda>e. [show_bind_error e]) (bind_arguments expression (ct_params (te_template entry)))) (\<lambda>bound_args.
              and_then (sl_oauth_new sl (mcp_cfg state)) (\<lambda>_. Inr bound_args)) of
           Inl e \<Rightarrow> Some (Inl e, w)
         | Inr bound_args \<Rightarrow>
             (case build_prepared_request pv entry bound_args (mcp_active_env state) (sw_prep w) of
                (Inl e, ps) \<Rightarrow> Some (Inl e, w\<lparr>sw_prep := ps\<rparr>)
              | (Inr prepared, ps) \<Rightarrow>
                  map_option (\<lambda>(run, es). (tool_output (pv_engine pv) prepared run, w\<lparr>sw_prep := ps, sw_exec := es\<rparr>))
                    (execute_prepared_request (sl_executors sl) prepared (sw_exec w))))"

text \<open>The lookup and the gates before a call, in full mode and in \<open>earl.tool_call\<close>.\<close>

definition authorize_call :: "string \<Rightarrow> mcp_state \<Rightarrow> subject option \<Rightarrow> string \<Rightarrow> rpc_failure + catalog_entry" where
  "authorize_call unknown state sub name =
     (let tool_key = to_ascii_lowercase name
      in and_then (ok_or (invalid_params (unknown @ '' `'' @ name @ ''`'')) (catalog_get (mcp_catalog state) tool_key)) (\<lambda>entry.
         if te_mode entry = ModeWrite \<and> \<not> mcp_auto_yes state \<and> sub = None
         then Inl (access_denied ''write-mode tools are disabled on this server instance'')
         else case sub of
                Some s \<Rightarrow>
                  if evaluate (mcp_policies state) (subject_sub s) tool_key (te_mode entry) = Deny
                  then Inl (access_denied (''access denied: subject is not authorized to call `'' @ tool_key @ ''`''))
                  else Inr entry
              | None \<Rightarrow> Inr entry))"

definition call_entry ::
    "('st, 'w, 'o, 'e, 'v, 's, 'row, 're, 'sel, 'doc, 'xp) server_libs \<Rightarrow> mcp_state \<Rightarrow> rpc_failure + catalog_entry \<Rightarrow>
     json_map \<Rightarrow> ('w, 'o, 's) server_world \<Rightarrow> ((rpc_failure + json) \<times> ('w, 'o, 's) server_world) option" where
  "call_entry sl state authorized arguments w =
     (case authorized of
        Inl e \<Rightarrow> Some (Inl e, w)
      | Inr entry \<Rightarrow>
          map_option (\<lambda>(r, w). (map_err rpc_internal r, w)) (execute_template_tool sl entry arguments state w))"

definition handle_discovery_invoke ::
    "('st, 'w, 'o, 'e, 'v, 's, 'row, 're, 'sel, 'doc, 'xp) server_libs \<Rightarrow> json_map \<Rightarrow> mcp_state \<Rightarrow> subject option \<Rightarrow>
     ('w, 'o, 's) server_world \<Rightarrow> ((rpc_failure + json) \<times> ('w, 'o, 's) server_world) option" where
  "handle_discovery_invoke sl arguments state sub w =
     (case decode_failure (read_tool_call_params (sl_serde sl) ''struct DiscoveryInvokeArgs'' (JObject arguments)) of
        Inl e \<Rightarrow> Some (Inl e, w)
      | Inr args \<Rightarrow>
          call_entry sl state (authorize_call ''unknown template tool'' state sub (tc_name args)) (tc_arguments args) w)"

definition handle_discovery_tools_call ::
    "('st, 'w, 'o, 'e, 'v, 's, 'row, 're, 'sel, 'doc, 'xp) server_libs \<Rightarrow> tool_call_params \<Rightarrow> mcp_state \<Rightarrow> subject option \<Rightarrow>
     ('w, 'o, 's) server_world \<Rightarrow> ((rpc_failure + json) \<times> ('w, 'o, 's) server_world) option" where
  "handle_discovery_tools_call sl params state sub w =
     (if tc_name params = ''earl.tool_search''
      then Some (handle_discovery_search (sl_serde sl) (tc_arguments params) state sub, w)
      else if tc_name params = ''earl.tool_call''
      then handle_discovery_invoke sl (tc_arguments params) state sub w
      else Some (Inl (invalid_params (''unknown discovery tool `'' @ tc_name params @ ''`'')), w))"

definition handle_tools_call ::
    "('st, 'w, 'o, 'e, 'v, 's, 'row, 're, 'sel, 'doc, 'xp) server_libs \<Rightarrow> json option \<Rightarrow> mcp_state \<Rightarrow> subject option \<Rightarrow>
     ('w, 'o, 's) server_world \<Rightarrow> ((rpc_failure + json) \<times> ('w, 'o, 's) server_world) option" where
  "handle_tools_call sl params state sub w =
     (case decode_failure (read_tool_call_params (sl_serde sl) ''struct ToolCallParams'' (params_value params)) of
        Inl e \<Rightarrow> Some (Inl e, w)
      | Inr params \<Rightarrow>
          (case mcp_mode state of
             McpFull \<Rightarrow>
               call_entry sl state (authorize_call ''unknown tool'' state sub (tc_name params)) (tc_arguments params) w
           | McpDiscovery \<Rightarrow> handle_discovery_tools_call sl params state sub w))"

section \<open>Requests\<close>

definition package_version :: string where "package_version = ''0.5.2''"

definition handle_initialize :: "serde_errors \<Rightarrow> json option \<Rightarrow> mcp_mode \<Rightarrow> string option \<Rightarrow> rpc_failure + json" where
  "handle_initialize se params mode active_env =
     and_then (decode_failure (read_initialize_params se (params_value params))) (\<lambda>version.
     let protocol_version = (case version of Some v \<Rightarrow> v | None \<Rightarrow> ''2024-11-05'');
         env_str = (case active_env of Some e \<Rightarrow> e | None \<Rightarrow> ''(none)'');
         response = bt_from_iter
           [(''protocolVersion'', jstr protocol_version),
            (''capabilities'', jobj [(''tools'', jobj [(''listChanged'', JBool False)])]),
            (''serverInfo'', jobj [(''name'', jstr ''earl''), (''version'', jstr package_version),
                                   (''environment'', jstr env_str)])]
     in Inr (JObject
          (if mode = McpDiscovery
           then bt_insert ''instructions''
             (jstr (''Use `earl.tool_search` to discover relevant tools, then call `earl.tool_call` ''
                    @ ''with the selected tool name and arguments.'')) response
           else response)))"

definition rpc_respond :: "rpc_failure + json \<Rightarrow> json \<Rightarrow> json_rpc_response" where
  "rpc_respond result i =
     (case result of
        Inr v \<Rightarrow> response_success i v
      | Inl err \<Rightarrow> response_error i (rf_code err) (rf_message err))"

definition handle_request ::
    "('st, 'w, 'o, 'e, 'v, 's, 'row, 're, 'sel, 'doc, 'xp) server_libs \<Rightarrow> json_rpc_request \<Rightarrow> mcp_state \<Rightarrow> subject option \<Rightarrow>
     ('w, 'o, 's) server_world \<Rightarrow> (json_rpc_response option \<times> ('w, 'o, 's) server_world) option" where
  "handle_request sl request state sub w =
     (if jr_jsonrpc request \<noteq> ''2.0''
      then Some (map_option (\<lambda>i. response_error i (- 32600) (''jsonrpc must be '' @ [CHR 0x22] @ ''2.0'' @ [CHR 0x22]))
                   (jr_id request), w)
      else if jr_method request = ''notifications/initialized'' then Some (None, w)
      else
      map_option (\<lambda>(result, w). (map_option (rpc_respond result) (jr_id request), w))
        (if jr_method request = ''initialize''
         then Some (handle_initialize (sl_serde sl) (jr_params request) (mcp_mode state) (mcp_active_env state), w)
         else if jr_method request = ''ping'' then Some (Inr (JObject []), w)
         else if jr_method request = ''tools/list''
         then Some (Inr (jobj [(''tools'', JArray (build_tools state sub))]), w)
         else if jr_method request = ''tools/call'' then handle_tools_call sl (jr_params request) state sub w
         else Some (Inl (method_not_found (''method `'' @ jr_method request @ ''` not found'')), w)))"

section \<open>Who may call what\<close>

definition call_allowed :: "mcp_state \<Rightarrow> subject option \<Rightarrow> string \<Rightarrow> command_mode \<Rightarrow> bool" where
  "call_allowed state sub key mode \<longleftrightarrow>
     (case sub of
        Some s \<Rightarrow> evaluate (mcp_policies state) (subject_sub s) key mode = Allow
      | None \<Rightarrow> mcp_auto_yes state \<or> mode \<noteq> ModeWrite)"

lemma not_deny: "d \<noteq> Deny \<longleftrightarrow> d = Allow"
  by (cases d) simp_all

lemma entry_visible_iff: "entry_visible state sub entry \<longleftrightarrow> call_allowed state sub (te_key entry) (te_mode entry)"
  by (simp add: entry_visible_def call_allowed_def)

lemma authorize_call_Inr:
  "authorize_call unknown state sub name = Inr entry \<longleftrightarrow>
     catalog_get (mcp_catalog state) (to_ascii_lowercase name) = Some entry
     \<and> call_allowed state sub (to_ascii_lowercase name) (te_mode entry)"
  by (cases sub) (auto simp: authorize_call_def call_allowed_def Let_def result_simps not_deny split: if_splits)

lemma call_entry_Some:
  "call_entry sl state authorized arguments w = Some (r, w') \<Longrightarrow> w' \<noteq> w \<Longrightarrow>
     \<exists>entry out. authorized = Inr entry \<and> execute_template_tool sl entry arguments state w = Some (out, w')"
  by (auto simp: call_entry_def split: sum.splits)

text \<open>A change of the world comes from the execution of an allowed tool.\<close>

definition allowed_execution where
  "allowed_execution sl state sub w w' \<longleftrightarrow>
     (\<exists>key entry arguments out. catalog_get (mcp_catalog state) key = Some entry
        \<and> call_allowed state sub key (te_mode entry)
        \<and> execute_template_tool sl entry arguments state w = Some (out, w'))"

lemma authorized_execution:
  assumes "call_entry sl state (authorize_call unknown state sub name) arguments w = Some (r, w')" and "w' \<noteq> w"
  shows "allowed_execution sl state sub w w'"
  using call_entry_Some [OF assms] unfolding allowed_execution_def authorize_call_Inr by blast

lemma handle_discovery_allowed:
  assumes "handle_discovery_tools_call sl params state sub w = Some (r, w')" and "w' \<noteq> w"
  shows "allowed_execution sl state sub w w'"
proof -
  from assms have invoke: "handle_discovery_invoke sl (tc_arguments params) state sub w = Some (r, w')"
    by (simp add: handle_discovery_tools_call_def split: if_splits)
  show ?thesis
  proof (cases "decode_failure (read_tool_call_params (sl_serde sl) ''struct DiscoveryInvokeArgs'' (JObject (tc_arguments params)))")
    case (Inl e)
    with invoke assms(2) show ?thesis by (simp add: handle_discovery_invoke_def)
  next
    case (Inr args)
    with invoke have "call_entry sl state (authorize_call ''unknown template tool'' state sub (tc_name args))
        (tc_arguments args) w = Some (r, w')"
      by (simp add: handle_discovery_invoke_def)
    then show ?thesis using assms(2) by (rule authorized_execution)
  qed
qed

lemma handle_tools_call_allowed:
  assumes "handle_tools_call sl params state sub w = Some (r, w')" and "w' \<noteq> w"
  shows "allowed_execution sl state sub w w'"
proof (cases "decode_failure (read_tool_call_params (sl_serde sl) ''struct ToolCallParams'' (params_value params))")
  case (Inl e)
  with assms show ?thesis by (simp add: handle_tools_call_def)
next
  case (Inr p)
  show ?thesis
  proof (cases "mcp_mode state")
    case McpFull
    with assms(1) Inr have "call_entry sl state (authorize_call ''unknown tool'' state sub (tc_name p))
        (tc_arguments p) w = Some (r, w')"
      by (simp add: handle_tools_call_def)
    then show ?thesis using assms(2) by (rule authorized_execution)
  next
    case McpDiscovery
    with assms(1) Inr have "handle_discovery_tools_call sl p state sub w = Some (r, w')"
      by (simp add: handle_tools_call_def)
    then show ?thesis using assms(2) by (rule handle_discovery_allowed)
  qed
qed

lemma handle_request_allowed:
  assumes "handle_request sl request state sub w = Some (resp, w')" and "w' \<noteq> w"
  shows "jr_jsonrpc request = ''2.0'' \<and> jr_method request = ''tools/call'' \<and> allowed_execution sl state sub w w'"
proof -
  from assms have call: "jr_jsonrpc request = ''2.0'' \<and> jr_method request = ''tools/call''"
    by (auto simp: handle_request_def split: if_splits)
  with assms obtain r where "handle_tools_call sl (jr_params request) state sub w = Some (r, w')"
    by (auto simp: handle_request_def)
  with call assms(2) show ?thesis by (blast intro: handle_tools_call_allowed)
qed

text \<open>
  C5. A request to the server touches no secret, token, file, process or network unless it is a
  \<open>tools/call\<close> of the right version for a tool of the catalog which the caller may use: for an
  authenticated subject the policy allows it, for an unauthenticated one it is not a writing tool or
  the server runs with \<open>--yes\<close>. Then what happens is the execution of that tool and nothing else.
\<close>

theorem mcp_executes_only_allowed:
  assumes "handle_request sl request state sub w = Some (resp, w')" and "w' \<noteq> w"
  shows "jr_jsonrpc request = ''2.0'' \<and> jr_method request = ''tools/call''
    \<and> (\<exists>key entry arguments out. catalog_get (mcp_catalog state) key = Some entry
         \<and> (case sub of
              Some s \<Rightarrow> evaluate (mcp_policies state) (subject_sub s) key (te_mode entry) = Allow
            | None \<Rightarrow> mcp_auto_yes state \<or> te_mode entry \<noteq> ModeWrite)
         \<and> execute_template_tool sl entry arguments state w = Some (out, w'))"
  using handle_request_allowed [OF assms] unfolding allowed_execution_def call_allowed_def by blast

section \<open>What is listed can be called\<close>

lemma entries_of_values:
  assumes "bt_ok cat" and "\<forall>(k, e) \<in> set cat. k = te_key e"
  shows "entry \<in> set (catalog_values cat) \<longleftrightarrow> catalog_get cat (te_key entry) = Some entry"
proof -
  from assms(1) have distinct: "distinct (map fst cat)" by (simp add: strict_sorted_iff)
  from assms(2) have "entry \<in> set (catalog_values cat) \<longleftrightarrow> (te_key entry, entry) \<in> set cat"
    by (force simp: catalog_values_def)
  with distinct show ?thesis by (simp add: catalog_get_def)
qed

lemma listed_iff_authorized:
  assumes "bt_ok (mcp_catalog state)" and "\<forall>(k, e) \<in> set (mcp_catalog state). k = te_key e"
    and "to_ascii_lowercase name = name"
  shows "(\<exists>entry \<in> set (catalog_values (mcp_catalog state)). te_key entry = name \<and> entry_visible state sub entry)
    \<longleftrightarrow> (\<exists>entry. authorize_call unknown state sub name = Inr entry)"
proof -
  have key: "te_key entry = k" if "catalog_get (mcp_catalog state) k = Some entry" for k entry
    using that assms(2) by (auto simp: catalog_get_def dest: map_of_SomeD)
  show ?thesis
  proof
    assume "\<exists>entry \<in> set (catalog_values (mcp_catalog state)). te_key entry = name \<and> entry_visible state sub entry"
    then obtain entry where "catalog_get (mcp_catalog state) name = Some entry" "call_allowed state sub name (te_mode entry)"
      using entries_of_values [OF assms(1,2)] entry_visible_iff by metis
    then show "\<exists>entry. authorize_call unknown state sub name = Inr entry"
      unfolding authorize_call_Inr assms(3) by blast
  next
    assume "\<exists>entry. authorize_call unknown state sub name = Inr entry"
    then obtain entry where entry: "catalog_get (mcp_catalog state) name = Some entry" "call_allowed state sub name (te_mode entry)"
      unfolding authorize_call_Inr assms(3) by blast
    from key [OF entry(1)] entry have "entry \<in> set (catalog_values (mcp_catalog state))" "entry_visible state sub entry"
      by (simp_all add: entries_of_values [OF assms(1,2)] entry_visible_iff)
    with key [OF entry(1)]
    show "\<exists>entry \<in> set (catalog_values (mcp_catalog state)). te_key entry = name \<and> entry_visible state sub entry"
      by blast
  qed
qed

lemma tool_name: "json_get (tool_from_entry entry) ''name'' = Some (JString (te_key entry))"
  by (simp add: tool_from_entry_def jstr_def)

text \<open>
  In full mode the tools a caller is shown are the tools it may call: for a name in lower case and a
  catalog as the loader builds it, \<open>tools/list\<close> has a tool of that name exactly when \<open>tools/call\<close> with
  it gets past the lookup and the gates.
\<close>

theorem listed_tools_are_callable:
  assumes "mcp_mode state = McpFull" and "catalog_ok ld (mcp_catalog state)" and "to_ascii_lowercase name = name"
  shows "(\<exists>tool \<in> set (build_tools state sub). json_get tool ''name'' = Some (JString name))
    \<longleftrightarrow> (\<exists>entry. authorize_call ''unknown tool'' state sub name = Inr entry)"
proof -
  from assms(2) have "bt_ok (mcp_catalog state)" "\<forall>(k, e) \<in> set (mcp_catalog state). k = te_key e"
    by (auto simp: catalog_ok_def)
  from listed_iff_authorized [OF this assms(3), of sub "''unknown tool''"] assms(1) show ?thesis
    by (auto simp: build_tools_def tool_name)
qed

text \<open>The name of a call is lowercased before the lookup and the keys of the catalog are not, so a tool
  whose key has an upper-case letter is listed and cannot be called.\<close>

lemma upper_case_not_callable:
  assumes "to_ascii_lowercase (te_key entry) \<noteq> te_key entry" and "mcp_catalog state = [(te_key entry, entry)]"
    and "to_ascii_lowercase name = to_ascii_lowercase (te_key entry)"
  shows "authorize_call unknown state sub name = Inl (invalid_params (unknown @ '' `'' @ name @ ''`''))"
  using assms by (simp add: authorize_call_def catalog_get_def ok_or_def)

section \<open>The ranking\<close>

lemma rank_keys_sorted: "sorted (map (\<lambda>(entry, score). (- int score, te_key entry)) (rank_entries keep query limit cat))"
  unfolding rank_entries_def take_map [symmetric] by (intro sorted_wrt_take sorted_sort_key)

lemma rank_mem:
  "x \<in> set (rank_entries keep query limit cat) \<Longrightarrow>
     fst x \<in> set (catalog_values cat) \<and> keep (fst x) \<and> snd x = discovery_score query (fst x) \<and> 0 < snd x"
  by (auto simp: rank_entries_def dest!: in_set_takeD)

lemma sorted_take_best:
  assumes "sorted (map f xs)" and "x \<in> set (take n xs)" and "y \<in> set xs" and "y \<notin> set (take n xs)"
  shows "f x \<le> f y \<and> n < length xs"
proof -
  from assms(3,4) have y: "y \<in> set (drop n xs)" by (metis Un_iff append_take_drop_id set_append)
  from assms(1) have "sorted (map f (take n xs) @ map f (drop n xs))" by (metis append_take_drop_id map_append)
  with assms(2) y show ?thesis by (auto simp: sorted_append) (metis drop_eq_Nil empty_iff empty_set linorder_not_less y)
qed

text \<open>A candidate is listed before another one when its score is higher, or equal with a key that is not
  greater.\<close>

definition ranks_before :: "catalog_entry \<times> nat \<Rightarrow> catalog_entry \<times> nat \<Rightarrow> bool" where
  "ranks_before x y \<longleftrightarrow> snd x > snd y \<or> snd x = snd y \<and> te_key (fst x) \<le> te_key (fst y)"

lemma ranks_before_key:
  "(case x of (entry, score) \<Rightarrow> (- int score, te_key entry)) \<le> (case y of (entry, score) \<Rightarrow> (- int score, te_key entry))
     \<longleftrightarrow> ranks_before x y"
  by (cases x; cases y) (auto simp: ranks_before_def less_eq_prod_def)

lemma rank_entries_sorted: "sorted_wrt ranks_before (rank_entries keep query limit cat)"
  using rank_keys_sorted [of keep query limit cat] by (simp add: sorted_map ranks_before_key)

lemma rank_entries_best:
  assumes "entry \<in> set (catalog_values cat)" and "keep entry" and "0 < discovery_score query entry"
    and "(entry, discovery_score query entry) \<notin> set (rank_entries keep query limit cat)"
  shows "length (rank_entries keep query limit cat) = limit
    \<and> (\<forall>x \<in> set (rank_entries keep query limit cat). ranks_before x (entry, discovery_score query entry))"
proof -
  define f :: "catalog_entry \<times> nat \<Rightarrow> int \<times> string" where "f = (\<lambda>(entry, score). (- int score, te_key entry))"
  define found where "found = sort_key f (filter (\<lambda>(entry, score). score > 0)
      (map (\<lambda>entry. (entry, discovery_score query entry)) (filter keep (catalog_values cat))))"
  let ?x = "(entry, discovery_score query entry)"
  have ranked: "rank_entries keep query limit cat = take limit found"
    by (simp add: rank_entries_def found_def f_def)
  have sorted: "sorted (map f found)" unfolding found_def by (rule sorted_sort_key)
  have mem: "?x \<in> set found" unfolding found_def using assms(1,2,3) by simp
  have out: "?x \<notin> set (take limit found)" using assms(4) by (simp only: ranked not_False_eq_True)
  with mem have "limit < length found" by (metis not_le take_all)
  moreover have "ranks_before x ?x" if "x \<in> set (take limit found)" for x
    using sorted_take_best [OF sorted that mem out] ranks_before_key [of x ?x] by (simp only: f_def)
  ultimately show ?thesis unfolding ranked by (simp add: min_def)
qed

text \<open>
  The tool search answers with the best visible candidates: at most the limit asked for, which is
  kept between 1 and 50, every one a tool of the catalog that the filters and the access rules let
  through, with its score, which is positive, in descending order with ties by key, and a tool is left
  out only when the answer is full of tools that rank before it.
\<close>

theorem search_ranks_visible_tools:
  assumes "handle_discovery_search se arguments state sub = Inr answer"
  shows "\<exists>args mode limit ranked. read_discovery_search_args se (JObject arguments) = Inr args
    \<and> parse_mode_filter (ds_mode args) = Inr mode
    \<and> limit = max 1 (min (ds_limit args) 50) \<and> length ranked \<le> limit
    \<and> answer = text_content (search_text (trim (ds_query args)) (map match_json ranked))
         (jobj [(''query'', jstr (trim (ds_query args))), (''limit'', jnat limit), (''matches'', JArray (map match_json ranked))])
    \<and> sorted_wrt ranks_before ranked
    \<and> (let keep = \<lambda>entry. entry \<in> set (catalog_values (mcp_catalog state)) \<and> 0 < discovery_score (trim (ds_query args)) entry
              \<and> entry_matches mode (text_filter (ds_provider args)) (text_filter (ds_category args)) entry
              \<and> entry_visible state sub entry
       in (\<forall>(entry, score) \<in> set ranked. keep entry \<and> score = discovery_score (trim (ds_query args)) entry)
          \<and> (\<forall>entry. keep entry \<longrightarrow> (entry, discovery_score (trim (ds_query args)) entry) \<notin> set ranked \<longrightarrow>
               length ranked = limit
               \<and> (\<forall>x \<in> set ranked. ranks_before x (entry, discovery_score (trim (ds_query args)) entry))))"
proof -
  from assms obtain args mode where args: "read_discovery_search_args se (JObject arguments) = Inr args"
    and mode: "parse_mode_filter (ds_mode args) = Inr mode"
    and answer: "answer = (let limit = max 1 (min (ds_limit args) max_discovery_limit);
        ranked = rank_entries (search_keep state sub mode args) (trim (ds_query args)) limit (mcp_catalog state)
      in text_content (search_text (trim (ds_query args)) (map match_json ranked))
         (jobj [(''query'', jstr (trim (ds_query args))), (''limit'', jnat limit), (''matches'', JArray (map match_json ranked))]))"
    unfolding handle_discovery_search_def
    by (auto simp: result_simps decode_failure_def Let_def split: if_splits)
  let ?q = "trim (ds_query args)" and ?limit = "max 1 (min (ds_limit args) 50)"
  let ?ranked = "rank_entries (search_keep state sub mode args) ?q ?limit (mcp_catalog state)"
  have len: "length ?ranked \<le> ?limit" by (simp add: rank_entries_def)
  let ?keep = "\<lambda>entry. entry \<in> set (catalog_values (mcp_catalog state)) \<and> 0 < discovery_score ?q entry
      \<and> entry_matches mode (text_filter (ds_provider args)) (text_filter (ds_category args)) entry
      \<and> entry_visible state sub entry"
  have sound: "\<forall>(entry, score) \<in> set ?ranked. ?keep entry \<and> score = discovery_score ?q entry"
    using rank_mem [of _ "search_keep state sub mode args" ?q ?limit "mcp_catalog state"] by (auto simp: search_keep_def)
  have best: "\<forall>entry. ?keep entry \<longrightarrow> (entry, discovery_score ?q entry) \<notin> set ?ranked \<longrightarrow>
      length ?ranked = ?limit \<and> (\<forall>x \<in> set ?ranked. ranks_before x (entry, discovery_score ?q entry))"
    by (intro allI impI rank_entries_best) (simp_all add: search_keep_def)
  show ?thesis
    using args mode answer len rank_entries_sorted sound best
    by (intro exI [of _ args] exI [of _ mode] exI [of _ ?limit] exI [of _ ?ranked])
      (simp add: max_discovery_limit_def Let_def)
qed

section \<open>Responses\<close>


section \<open>What an execution leaves behind\<close>

lemma execute_template_tool_run:
  assumes "execute_template_tool sl entry arguments state w = Some (out, w')"
  obtains "sw_exec w' = sw_exec w" "is_ok out = False"
  | bound prepared ps run where
      "build_prepared_request (server_provision (sl_provision sl) (mcp_cfg state)) entry bound (mcp_active_env state)
         (sw_prep w) = (Inr prepared, ps)"
      "execute_prepared_request (sl_executors sl) prepared (sw_exec w) = Some (run, sw_exec w')"
      "out = tool_output (pv_engine (server_provision (sl_provision sl) (mcp_cfg state))) prepared run"
proof -
  let ?pv = "server_provision (sl_provision sl) (mcp_cfg state)"
  let ?bound = "and_then (map_err (\<lambda>e. [show_bind_error e]) (bind_arguments
      \<lparr>ce_provider = te_provider entry, ce_command = te_command entry, ce_positional_args = [], ce_named_args = arguments\<rparr>
      (ct_params (te_template entry)))) (\<lambda>bound_args. and_then (sl_oauth_new sl (mcp_cfg state)) (\<lambda>_. Inr bound_args))"
  show thesis
  proof (cases ?bound)
    case (Inl e)
    with assms have "sw_exec w' = sw_exec w" "is_ok out = False" by (auto simp: execute_template_tool_def Let_def)
    then show thesis by (rule that(1))
  next
    case (Inr bound)
    obtain r ps where build: "build_prepared_request ?pv entry bound (mcp_active_env state) (sw_prep w) = (r, ps)"
      by (cases "build_prepared_request ?pv entry bound (mcp_active_env state) (sw_prep w)")
    show thesis
    proof (cases r)
      case (Inl e)
      with assms Inr build have "sw_exec w' = sw_exec w" "is_ok out = False"
        by (auto simp: execute_template_tool_def Let_def)
      then show thesis by (rule that(1))
    next
      case prep: (Inr prepared)
      with assms Inr build obtain run es where
        "execute_prepared_request (sl_executors sl) prepared (sw_exec w) = Some (run, es)"
        "w' = w\<lparr>sw_prep := ps, sw_exec := es\<rparr>" "out = tool_output (pv_engine ?pv) prepared run"
        by (auto simp: execute_template_tool_def Let_def)
      with build prep show thesis by (intro that(2)) auto
    qed
  qed
qed

lemma run_protocol_unsent:
  assumes "run_protocol ex v p st = Some (r, st')" and "\<not> has_allow_rules (data_protocol (rq_data p))"
  shows "xs_sent st' = xs_sent st \<and> xs_dialed st' = xs_dialed st"
  using assms
  by (cases "rq_data p")
    (auto simp: run_protocol_def has_allow_rules_def on_bash_def on_sql_def on_world_def split: prod.splits)

lemma retry_loop_unsent:
  "retry_loop ex v p attempt last_err st = Some (r, st') \<Longrightarrow> \<not> has_allow_rules (data_protocol (rq_data p)) \<Longrightarrow>
     xs_sent st' = xs_sent st \<and> xs_dialed st' = xs_dialed st"
proof (induction ex v p attempt last_err st rule: retry_loop.induct)
  case (1 ex v p attempt last_err st)
  show ?case
  proof (cases "attempt > execution_attempts p")
    case True
    with "1.prems"(1) show ?thesis by (simp add: retry_loop.simps [of ex])
  next
    case False
    then have le: "attempt \<le> execution_attempts p" by simp
    obtain x st1 where run: "run_protocol ex v p st = Some (x, st1)"
      using "1.prems"(1) False by (cases "run_protocol ex v p st") (auto simp: retry_loop.simps [of ex])
    from run_protocol_unsent [OF run "1.prems"(2)] have st1: "xs_sent st1 = xs_sent st" "xs_dialed st1 = xs_dialed st"
      by auto
    show ?thesis
    proof (cases x)
      case (Inl err)
      with "1.prems" "1.IH"(1) [OF False run refl Inl] st1 show ?thesis
        by (auto simp: retry_loop_step [OF run le] split: if_splits)
    next
      case (Inr raw)
      with "1.prems" "1.IH"(2) [OF False run refl Inr] st1 show ?thesis
        by (auto simp: retry_loop_step [OF run le] split: if_splits)
    qed
  qed
qed

lemma execute_prepared_unsent:
  "execute_prepared_request ex p st = Some (r, st') \<Longrightarrow> \<not> has_allow_rules (data_protocol (rq_data p)) \<Longrightarrow>
     xs_sent st' = xs_sent st \<and> xs_dialed st' = xs_dialed st"
  unfolding execute_prepared_request_def execute_prepared_request_with_def by (rule retry_loop_unsent)

text \<open>A request or a dial as the configuration of the server wants it.\<close>

definition config_safe_send :: "network_config \<Rightarrow> http_client \<times> http_request \<Rightarrow> bool" where
  "config_safe_send nc = (\<lambda>(client, request).
     ensure_url_allowed (hq_url request) (nc_allow nc) = Inr ()
     \<and> url_host_str (hq_url request) = Some (hc_host client) \<and> hc_addrs client \<noteq> []
     \<and> (\<forall>(ip, port) \<in> set (hc_addrs client). \<not> is_blocked_ip ip (nc_allow_private_ips nc)))"

definition config_safe_dial ::
    "('s, 'row, 're, 'sel, 'doc, 'xp) executors \<Rightarrow> network_config \<Rightarrow> url \<times> url \<Rightarrow> bool" where
  "config_safe_dial ex nc = (\<lambda>(rpc_url, pinned_url).
     ensure_url_allowed rpc_url (nc_allow nc) = Inr ()
     \<and> (\<exists>ip base. \<not> is_blocked_ip ip (nc_allow_private_ips nc)
          \<and> gn_set_host (xe_grpc ex) (gn_show_ip (xe_grpc ex) ip) base = Some pinned_url))"

lemma executed_tool_safe:
  assumes "execute_template_tool sl entry arguments state w = Some (out, w')"
  shows "\<exists>sent dialed. xs_sent (sw_exec w') = xs_sent (sw_exec w) @ sent
    \<and> xs_dialed (sw_exec w') = xs_dialed (sw_exec w) @ dialed
    \<and> list_all (config_safe_send (cfg_network (mcp_cfg state))) sent
    \<and> list_all (config_safe_dial (sl_executors sl) (cfg_network (mcp_cfg state))) dialed"
  using assms
proof (cases rule: execute_template_tool_run)
  case 1
  then show ?thesis by (auto intro: exI [of _ "[]"])
next
  case (2 bound p ps run)
  let ?nc = "cfg_network (mcp_cfg state)" and ?op = "fst (select_for_env (te_template entry) (mcp_active_env state))"
  from build_prepared_configuration [OF 2(1)]
  have rules: "rq_allow_rules p = (if has_allow_rules (data_protocol (rq_data p)) then nc_allow ?nc else [])"
    and private_ips: "rq_allow_private_ips p = nc_allow_private_ips ?nc"
    by (simp_all add: Let_def server_provision_def)
  show ?thesis
  proof (cases "has_allow_rules (data_protocol (rq_data p))")
    case False
    from execute_prepared_unsent [OF 2(2) False] show ?thesis by (auto intro: exI [of _ "[]"])
  next
    case True
    with rules private_ips have "config_safe_send ?nc = safe_send p" "config_safe_dial (sl_executors sl) ?nc = safe_dial (sl_executors sl) p"
      by (simp_all add: config_safe_send_def safe_send_def config_safe_dial_def safe_dial_def)
    with execute_prepared_safe [OF 2(2)] show ?thesis by (simp add: safe_step_def)
  qed
qed


lemma tool_output_Inr:
  assumes "tool_output mj p run = Inr answer"
  obtains shown structured where "answer = text_content (redact (rq_redactor p) shown) (redact_json (rq_redactor p) structured)"
  using assms by (auto simp: tool_output_def result_simps)


section \<open>A concrete call\<close>

definition mcp_command :: command_template where
  "mcp_command = sample_command\<lparr>ct_params := [], ct_result := default_result_template\<lparr>rt_output := ''done''\<rparr>\<rparr>"

definition mcp_entry :: catalog_entry where
  "mcp_entry = sample_entry\<lparr>te_template := mcp_command\<rparr>"

definition mcp_cfg_sample :: config where
  "mcp_cfg_sample =
     \<lparr>cfg_search = default_search, cfg_auth = \<lparr>ac_profiles = [], ac_jwt = None\<rparr>,
      cfg_network = \<lparr>nc_allow = [], nc_proxy_profiles = [], nc_allow_private_ips = False\<rparr>,
      cfg_sandbox = default_sandbox\<lparr>sb_sql_max_rows := Some 5\<rparr>, cfg_policy = [],
      cfg_environments = \<lparr>env_cfg_default = None\<rparr>\<rparr>"

definition mcp_sample_state :: mcp_state where
  "mcp_sample_state =
     \<lparr>mcp_catalog = [(''db.rows'', mcp_entry)], mcp_cfg = mcp_cfg_sample, mcp_mode = McpFull, mcp_auto_yes = False,
      mcp_jwt = None, mcp_policies = [], mcp_active_env = None\<rparr>"

definition sample_serde :: serde_errors where
  "sample_serde = \<lparr>se_type = (\<lambda>v e. ''invalid type''), se_length = (\<lambda>n e. ''invalid length''), se_missing = (\<lambda>f. ''missing'')\<rparr>"

definition sample_server ::
    "(memory_store, unit, unit, string, json, nat, nat, unit, unit, unit, unit) server_libs" where
  "sample_server =
     \<lparr>sl_serde = sample_serde, sl_provision = sample_provision,
      sl_executors = sample_executors\<lparr>xe_json_read := (\<lambda>s. Inr JNull)\<rparr>, sl_oauth_new = (\<lambda>c. Inr ())\<rparr>"

definition sample_world :: "(unit, unit, nat) server_world" where
  "sample_world = \<lparr>sw_prep = (((), []), ()), sw_exec = sample_exec_start\<rparr>"

definition mcp_prepared :: prepared_request where
  "mcp_prepared = finish_request sample_provision mcp_entry [] (sample_sql ''select ?'', ct_result mcp_command)
     sample_transport (PSql sample_query, [], [''hunter2'', ''kay'', ''hunter2''])"

lemma mcp_select: "select_for_env (te_template mcp_entry) None = (sample_sql ''select ?'', ct_result mcp_command)"
  by (simp add: mcp_entry_def mcp_command_def sample_command_def select_for_env_def)

lemma mcp_declared: "declared_keys mcp_entry = [''db.url'', ''k'']"
  by code_simp

text \<open>What is prepared does not depend on where an entry comes from.\<close>

lemma sample_build:
  assumes "declared_keys entry = [''db.url'', ''k'']"
    and "select_for_env (te_template entry) None = (sample_sql ''select ?'', ct_result mcp_command)"
    and "te_key entry = te_key mcp_entry" and "te_mode entry = te_mode mcp_entry"
  shows "build_prepared_request sample_provision entry [] None s = (Inr mcp_prepared, s)"
proof -
  have t: "resolve_transport (op_transport (sample_sql ''select ?'')) (pv_proxy_profiles sample_provision)
      = Inr sample_transport"
    by (simp add: sample_sql_def resolve_transport_def parse_tls_min_version_def resolve_proxy_url_def
        trimmed_field_def clamp_def sample_transport_def default_max_response_bytes_def)
  have "build_protocol_data sample_provision (te_key mcp_entry) (sample_sql ''select ?'')
      (render_context [] sample_secrets []) [''hunter2'', ''kay''] s
    = (Inr (PSql sample_query, [], [''hunter2'', ''kay'', ''hunter2'']), s)"
    using sample_sql_built
    by (simp add: sample_sql_def sample_fetch Let_def)
      (simp add: sample_provision_def default_sandbox_def cap_sql_def sample_query_def)
  moreover have "resolve_vars mj envs None ctx vs = Inr ([], vs)" for mj :: "(string, json) minijinja" and envs ctx vs
    by (simp add: resolve_vars_def split: option.splits)
  moreover have "finish_request sample_provision entry = finish_request sample_provision mcp_entry"
    using assms(3,4) by (simp add: finish_request_def fun_eq_iff)
  ultimately show ?thesis
    using assms by (simp add: build_prepared_request_def sample_load_secrets prepare_operation_def t
        Let_def mcp_prepared_def del: load_secrets.simps)
qed

lemma mcp_build: "build_prepared_request sample_provision mcp_entry [] None s = (Inr mcp_prepared, s)"
  by (rule sample_build) (simp_all add: mcp_declared mcp_select)

lemma mcp_fields:
  "rq_data mcp_prepared = PSql sample_query" "rq_transport mcp_prepared = sample_transport"
  "rq_result_template mcp_prepared = default_result_template\<lparr>rt_output := ''done''\<rparr>" "rq_args mcp_prepared = []"
  "rq_allow_private_ips mcp_prepared = False"
  by (simp_all add: mcp_prepared_def finish_request_def mcp_command_def sample_provision_def)

definition mcp_raw :: raw_execution_result where
  "mcp_raw = \<lparr>raw_status = 0, raw_url = ''sql://query'', raw_body = ''[]'', raw_content_type = Some ''application/json''\<rparr>"

definition mcp_exec_end :: "nat exec_state" where
  "mcp_exec_end = sample_exec_start\<lparr>xs_world := 1,
     xs_sql := [SqlConnect ''hunter2'', SqlFetch ''select ?'' [ArgNullText], SqlClose]\<rparr>"

lemma mcp_execute:
  "execute_prepared_request (sl_executors sample_server) mcp_prepared sample_exec_start
    = Some (Inr \<lparr>er_status = 0, er_url = ''sql://query'', er_result = JNull, er_decoded = JNull\<rparr>, mcp_exec_end)"
proof -
  have ex: "xe_sql (sl_executors sample_server) = sample_driver" "xe_json_text (sl_executors sample_server) = (\<lambda>v. ''[]'')"
    "xe_json_read (sl_executors sample_server) = (\<lambda>s. Inr JNull)"
    by (simp_all add: sample_server_def sample_executors_def)
  have u: "read_only_url True ''hunter2'' = ''hunter2''" by code_simp
  have b: "begin_read_only True ''hunter2'' = None" by code_simp
  have "execute_sql_once sample_driver (\<lambda>v. ''[]'') sample_query (to_context mcp_prepared) \<lparr>db_world = 0, db_log = []\<rparr>
      = (Inr mcp_raw, \<lparr>db_world = 1, db_log = [SqlConnect ''hunter2'', SqlFetch ''select ?'' [ArgNullText], SqlClose]\<rparr>)"
    by (simp add: execute_sql_once_def sample_query_def sql_run_simps u b mcp_raw_def bind_json_param_def)
  then have run: "run_protocol (sl_executors sample_server) v mcp_prepared sample_exec_start = Some (Inr mcp_raw, mcp_exec_end)" for v
    by (simp add: run_protocol_def mcp_fields ex on_sql_def mcp_exec_end_def sample_exec_start_def)
  have attempts: "execution_attempts mcp_prepared = 1"
    by (simp add: execution_attempts_def mcp_fields sample_transport_def)
  have "decode_response (\<lambda>s. Inr JNull) DecodeAuto (Some ''application/json'') ''[]'' = Inr (DJson JNull)" by code_simp
  then have finish: "finish_execution (sl_executors sample_server) mcp_prepared mcp_raw
      = Inr \<lparr>er_status = 0, er_url = ''sql://query'', er_result = JNull, er_decoded = JNull\<rparr>"
    by (simp add: finish_execution_def mcp_fields ex mcp_raw_def default_result_template_def with_context_def
        extract_result_def)
  show ?thesis
    unfolding execute_prepared_request_def execute_prepared_request_with_def
    by (subst retry_loop_step [OF run]) (simp_all add: attempts finish)
qed

definition mcp_answer :: json where
  "mcp_answer = text_content (redact (rq_redactor mcp_prepared) ''done'')
     (redact_json (rq_redactor mcp_prepared)
        (render_json_output \<lparr>er_status = 0, er_url = ''sql://query'', er_result = JNull, er_decoded = JNull\<rparr>))"

definition mcp_world_end :: "(unit, unit, nat) server_world" where
  "mcp_world_end = sample_world\<lparr>sw_exec := mcp_exec_end\<rparr>"

lemma mcp_execute_tool_in:
  assumes pv: "server_provision (sl_provision sample_server) (mcp_cfg state) = sample_provision"
    and env: "mcp_active_env state = None"
  shows "execute_template_tool sample_server mcp_entry [] state sample_world = Some (Inr mcp_answer, mcp_world_end)"
proof -
  have "bind_arguments \<lparr>ce_provider = te_provider mcp_entry, ce_command = te_command mcp_entry, ce_positional_args = [],
      ce_named_args = []\<rparr> (ct_params (te_template mcp_entry)) = Inr []"
    by (simp add: bind_arguments_def mcp_entry_def mcp_command_def)
  moreover have "render_human_output (pv_engine sample_provision) (rq_result_template mcp_prepared) (rq_args mcp_prepared) JNull
      = Inr ''done''"
  proof -
    have "plain_text ''done''" by code_simp
    then show ?thesis
      by (simp add: mcp_fields render_human_output_def render_string_raw_def jinja_def sample_provision_def
          sample_engine_def with_context_def Let_def)
  qed
  moreover have "sl_oauth_new sample_server c = Inr ()" "sw_exec sample_world = sample_exec_start" for c
    by (simp_all add: sample_server_def sample_world_def)
  ultimately show ?thesis
    by (simp add: execute_template_tool_def Let_def pv env mcp_build mcp_execute tool_output_def mcp_answer_def mcp_world_end_def)
qed

lemma mcp_sample_provision:
  "server_provision (sl_provision sample_server) mcp_cfg_sample = sample_provision"
  by (simp add: server_provision_def sample_server_def mcp_cfg_sample_def sample_provision_def)

lemma mcp_execute_tool:
  "execute_template_tool sample_server mcp_entry [] mcp_sample_state sample_world = Some (Inr mcp_answer, mcp_world_end)"
  by (rule mcp_execute_tool_in) (simp_all add: mcp_sample_state_def mcp_sample_provision)

definition mcp_call :: json_rpc_request where
  "mcp_call = \<lparr>jr_jsonrpc = ''2.0'', jr_method = ''tools/call'',
     jr_params = Some (JObject [(''name'', JString ''DB.rows'')]), jr_id = Some (JString ''7'')\<rparr>"

lemma mcp_authorize: "authorize_call unknown mcp_sample_state None ''DB.rows'' = Inr mcp_entry"
proof -
  have "to_ascii_lowercase ''DB.rows'' = ''db.rows''" by code_simp
  moreover have "te_mode mcp_entry = ModeRead"
    by (simp add: mcp_entry_def sample_entry_def entry_of_def sample_command_def)
  ultimately show ?thesis
    by (simp add: authorize_call_Inr catalog_get_def mcp_sample_state_def call_allowed_def)
qed

lemma mcp_handle_in:
  assumes "authorize_call ''unknown tool'' state sub ''DB.rows'' = Inr mcp_entry" and "mcp_mode state = McpFull"
    and "execute_template_tool sample_server mcp_entry [] state sample_world = Some (Inr mcp_answer, mcp_world_end)"
  shows "handle_request sample_server mcp_call state sub sample_world
     = Some (Some (response_success (JString ''7'') mcp_answer), mcp_world_end)"
proof -
  have "read_tool_call_params (sl_serde sample_server) what (JObject [(''name'', JString ''DB.rows'')])
      = Inr \<lparr>tc_name = ''DB.rows'', tc_arguments = []\<rparr>" for what
    by (simp add: read_tool_call_params_def read_struct_def read_field_def take_field_def required_field_def
        default_field_def read_string_def str_of_def map_of_json_def ok_or_def)
  with assms have "handle_tools_call sample_server (jr_params mcp_call) state sub sample_world
      = Some (Inr mcp_answer, mcp_world_end)"
    by (simp add: handle_tools_call_def mcp_call_def params_value_def decode_failure_def call_entry_def)
  then show ?thesis by (simp add: handle_request_def mcp_call_def rpc_respond_def)
qed

lemma mcp_handle:
  "handle_request sample_server mcp_call mcp_sample_state None sample_world
     = Some (Some (response_success (JString ''7'') mcp_answer), mcp_world_end)"
  by (rule mcp_handle_in [OF mcp_authorize _ mcp_execute_tool]) (simp add: mcp_sample_state_def)

lemma mcp_world_changed: "mcp_world_end \<noteq> sample_world"
proof -
  have "xs_sql (sw_exec mcp_world_end) \<noteq> xs_sql (sw_exec sample_world)"
    by (simp add: mcp_world_end_def mcp_exec_end_def sample_world_def sample_exec_start_def)
  then show ?thesis by auto
qed

theorem mcp_executes_only_allowed_witness:
  "\<exists>key entry arguments out. catalog_get (mcp_catalog mcp_sample_state) key = Some entry \<and> te_mode entry \<noteq> ModeWrite
     \<and> execute_template_tool sample_server entry arguments mcp_sample_state sample_world = Some (out, mcp_world_end)"
  using mcp_executes_only_allowed [OF mcp_handle mcp_world_changed] by (simp add: mcp_sample_state_def)

theorem listed_tools_are_callable_witness:
  "\<exists>tool \<in> set (build_tools (mcp_sample_state\<lparr>mcp_catalog := [(''db.rows'', sample_entry)]\<rparr>) None).
     json_get tool ''name'' = Some (JString ''db.rows'')"
proof -
  let ?state = "mcp_sample_state\<lparr>mcp_catalog := [(''db.rows'', sample_entry)]\<rparr>"
  have lower: "to_ascii_lowercase ''db.rows'' = ''db.rows''" by code_simp
  have "te_mode sample_entry = ModeRead" by (simp add: sample_entry_def entry_of_def sample_command_def)
  then have "authorize_call ''unknown tool'' ?state None ''db.rows'' = Inr sample_entry"
    by (simp add: authorize_call_Inr lower catalog_get_def call_allowed_def)
  moreover have "catalog_ok sample_loader (mcp_catalog ?state)" using load_dirs_ok [OF sample_load] by simp
  moreover have "mcp_mode ?state = McpFull" by (simp add: mcp_sample_state_def)
  ultimately show ?thesis using listed_tools_are_callable [of ?state sample_loader "''db.rows''" None] lower by blast
qed




text \<open>A search over the same catalog.\<close>

lemma mcp_search_args:
  "read_discovery_search_args sample_serde (JObject [(''query'', JString ''rows'')])
    = Inr \<lparr>ds_query = ''rows'', ds_limit = 10, ds_mode = None, ds_provider = None, ds_category = None\<rparr>"
  by (simp add: read_discovery_search_args_def read_struct_def read_field_def take_field_def required_field_def
      default_field_def read_string_def str_of_def usize_of_def ok_or_def default_discovery_limit_def)

theorem search_ranks_visible_tools_witness:
  "\<exists>ranked. length ranked \<le> 10 \<and> sorted_wrt ranks_before ranked
     \<and> (\<forall>(entry, score) \<in> set ranked. entry_visible mcp_sample_state None entry \<and> 0 < score)"
proof -
  have trim: "trim ''rows'' = ''rows''" by code_simp
  have "is_ok (handle_discovery_search sample_serde [(''query'', JString ''rows'')] mcp_sample_state None)"
    by (simp add: handle_discovery_search_def mcp_search_args decode_failure_def trim parse_mode_filter_def Let_def)
  then obtain answer where "handle_discovery_search sample_serde [(''query'', JString ''rows'')] mcp_sample_state None = Inr answer"
    by (cases "handle_discovery_search sample_serde [(''query'', JString ''rows'')] mcp_sample_state None") auto
  from search_ranks_visible_tools [OF this] show ?thesis
    unfolding mcp_search_args Let_def by (elim exE conjE) (fastforce intro!: exI)
qed

end
