(* ===== verification/McpServer.thy ===== *)
theory McpServer
  imports Mcp
begin

text \<open>
  Running the MCP server, \<open>src/mcp/mod.rs\<close>: the checks at startup, the loop over standard input, and the
  HTTP routes behind the JWT middleware. The JSON reader and writer of messages and the HTTP body
  extractor are parameters; writing a frame may fail.
\<close>

section \<open>Startup\<close>

text \<open>\<open>run_server\<close> up to the transports: the state, and the key cache when tokens are verified.\<close>

definition check_transport :: "mcp_server_options \<Rightarrow> config \<Rightarrow> unit result" where
  "check_transport options cfg =
     (if so_transport options = HttpTransport then
        (let has_jwt = ac_jwt (cfg_auth cfg) \<noteq> None
         in if has_jwt \<and> so_allow_unauthenticated options
            then bail (''conflicting configuration: [auth.jwt] is configured but ''
                   @ ''--allow-unauthenticated was also passed; remove one to proceed'')
            else if \<not> has_jwt \<and> \<not> so_allow_unauthenticated options
            then bail (''HTTP transport requires authentication: configure [auth.jwt] in your ''
                   @ ''config file, or pass --allow-unauthenticated to explicitly opt out ''
                   @ ''(not recommended for production)'')
            else Inr ())
      else Inr ())"

definition start_jwt ::
    "('n, 'jwk, 'dk) jwt_libs \<Rightarrow> config \<Rightarrow> 'n jwt_net \<Rightarrow>
     ((resolved_jwt_config \<times> jwks_cache) option result \<times> 'n jwt_net) option" where
  "start_jwt jl cfg net =
     (case ac_jwt (cfg_auth cfg) of
        None \<Rightarrow> Some (Inr None, net)
      | Some jwt_config \<Rightarrow> map_option (\<lambda>(r, net). (and_then r (\<lambda>x. Inr (Some x)), net)) (jwt_new jl jwt_config net))"

definition start_server ::
    "('n, 'jwk, 'dk) jwt_libs \<Rightarrow> mcp_server_options \<Rightarrow> catalog \<Rightarrow> config \<Rightarrow> 'n jwt_net \<Rightarrow>
     ((mcp_state \<times> jwks_cache option) result \<times> 'n jwt_net) option" where
  "start_server jl options cat cfg net =
     (case check_transport options cfg of
        Inl e \<Rightarrow> Some (Inl e, net)
      | Inr _ \<Rightarrow>
          map_option (\<lambda>(r, net).
              (and_then r (\<lambda>jwt.
               let active_env = env_cfg_default (cfg_environments cfg)
               in and_then (case active_env of
                              None \<Rightarrow> Inr ()
                            | Some name \<Rightarrow> with_context ''config [environments].default is invalid'' (validate_env_name name)) (\<lambda>_.
                  Inr (\<lparr>mcp_catalog = cat, mcp_cfg = cfg, mcp_mode = so_mode options, mcp_auto_yes = so_auto_yes options,
                        mcp_jwt = map_option fst jwt, mcp_policies = cfg_policy cfg, mcp_active_env = active_env\<rparr>,
                       map_option snd jwt))), net))
            (start_jwt jl cfg net))"

section \<open>Standard input and output\<close>

record http_call =
  ht_method :: string
  ht_path :: string
  ht_authorization :: "string option"
  ht_body :: string

text \<open>\<open>io_write\<close> is the error of writing a frame after those written before, if there is one.\<close>

record server_io =
  io_read_request :: "string \<Rightarrow> string + json_rpc_request"
  io_read_http :: "http_call \<Rightarrow> string + json_rpc_request"
  io_response_text :: "json_rpc_response \<Rightarrow> string"
  io_write :: "string list \<Rightarrow> string \<Rightarrow> string option"

definition write_stdio_frame :: "server_io \<Rightarrow> json_rpc_response \<Rightarrow> string list \<Rightarrow> string list result" where
  "write_stdio_frame io response out =
     (let frame = stdio_frame (io_response_text io response)
      in case io_write io out frame of Some e \<Rightarrow> Inl [e] | None \<Rightarrow> Inr (out @ [frame]))"

definition parse_failure :: "string \<Rightarrow> json_rpc_response" where
  "parse_failure err = response_error JNull (- 32700) (''parse error: '' @ err)"

text \<open>One round of the loop on a frame: the response to write, and the world after it.\<close>

definition serve_frame ::
    "('st, 'w, 'o, 'e, 'v, 's, 'row, 're, 'sel, 'doc, 'xp) server_libs \<Rightarrow> server_io \<Rightarrow> mcp_state \<Rightarrow> string \<Rightarrow>
     ('w, 'o, 's) server_world \<Rightarrow> (json_rpc_response option \<times> ('w, 'o, 's) server_world) option" where
  "serve_frame sl io state frame w =
     (case io_read_request io frame of
        Inl err \<Rightarrow> Some (Some (parse_failure err), w)
      | Inr request \<Rightarrow> handle_request sl request state None w)"

definition answer_frame ::
    "('st, 'w, 'o, 'e, 'v, 's, 'row, 're, 'sel, 'doc, 'xp) server_libs \<Rightarrow> server_io \<Rightarrow> mcp_state \<Rightarrow> string \<Rightarrow>
     string list \<times> ('w, 'o, 's) server_world \<Rightarrow> (string list result \<times> ('w, 'o, 's) server_world) option" where
  "answer_frame sl io state frame = (\<lambda>(out, w).
     map_option (\<lambda>(resp, w). (case resp of
                                None \<Rightarrow> Inr out
                              | Some response \<Rightarrow> write_stdio_frame io response out, w))
       (serve_frame sl io state frame w))"

function run_stdio ::
    "('st, 'w, 'o, 'e, 'v, 's, 'row, 're, 'sel, 'doc, 'xp) server_libs \<Rightarrow> server_io \<Rightarrow> mcp_state \<Rightarrow> stdin \<Rightarrow>
     string list \<Rightarrow> ('w, 'o, 's) server_world \<Rightarrow> (unit result \<times> string list \<times> ('w, 'o, 's) server_world) option" where
  "run_stdio sl io state inp out w =
     (case read_stdio_frame inp of
        (Inl e, inp') \<Rightarrow> Some (Inl e, out, w)
      | (Inr None, inp') \<Rightarrow> Some (Inr (), out, w)
      | (Inr (Some frame), inp') \<Rightarrow>
          (case answer_frame sl io state frame (out, w) of
             None \<Rightarrow> None
           | Some (Inl e, w') \<Rightarrow> Some (Inl e, out, w')
           | Some (Inr out', w') \<Rightarrow> run_stdio sl io state inp' out' w'))"
  by pat_completeness auto
termination
  by (relation "measure (\<lambda>(sl, io, state, inp, rest). length (si_bytes inp))")
    (auto dest: read_stdio_frame_shorter [OF sym])

declare run_stdio.simps [simp del]

section \<open>HTTP\<close>

datatype http_reply = HttpStatus nat | HttpRpc json_rpc_response | HttpAuth nat json

definition handle_http_rpc ::
    "('st, 'w, 'o, 'e, 'v, 's, 'row, 're, 'sel, 'doc, 'xp) server_libs \<Rightarrow> server_io \<Rightarrow> mcp_state \<Rightarrow> subject option \<Rightarrow>
     http_call \<Rightarrow> ('w, 'o, 's) server_world \<Rightarrow> (http_reply \<times> ('w, 'o, 's) server_world) option" where
  "handle_http_rpc sl io state sub call w =
     (case io_read_http io call of
        Inl err \<Rightarrow> Some (HttpRpc (parse_failure err), w)
      | Inr request \<Rightarrow>
          map_option (\<lambda>(resp, w). (case resp of Some response \<Rightarrow> HttpRpc response | None \<Rightarrow> HttpStatus 202, w))
            (handle_request sl request state sub w))"

text \<open>The routes. The middleware wraps the whole \<open>/mcp\<close> route, so it also runs before a wrong method is
  refused.\<close>

definition mcp_route ::
    "('st, 'w, 'o, 'e, 'v, 's, 'row, 're, 'sel, 'doc, 'xp) server_libs \<Rightarrow> server_io \<Rightarrow> mcp_state \<Rightarrow> subject option \<Rightarrow>
     http_call \<Rightarrow> ('w, 'o, 's) server_world \<Rightarrow> (http_reply \<times> ('w, 'o, 's) server_world) option" where
  "mcp_route sl io state sub call w =
     (if ht_method call = ''POST'' then handle_http_rpc sl io state sub call w else Some (HttpStatus 405, w))"

definition serve_http ::
    "('n, 'jwk, 'dk) jwt_libs \<Rightarrow> ('st, 'w, 'o, 'e, 'v, 's, 'row, 're, 'sel, 'doc, 'xp) server_libs \<Rightarrow> server_io \<Rightarrow>
     mcp_state \<Rightarrow> http_call \<Rightarrow> jwks_cache \<Rightarrow> 'n jwt_net \<Rightarrow> ('w, 'o, 's) server_world \<Rightarrow>
     (http_reply \<times> jwks_cache \<times> 'n jwt_net \<times> ('w, 'o, 's) server_world) option" where
  "serve_http jl sl io state call cache net w =
     (if ht_path call = ''/health''
      then Some (HttpStatus (if ht_method call = ''GET'' \<or> ht_method call = ''HEAD'' then 204 else 405), cache, net, w)
      else if ht_path call = ''/mcp'' then
        (case mcp_jwt state of
           None \<Rightarrow> map_option (\<lambda>(reply, w). (reply, cache, net, w)) (mcp_route sl io state None call w)
         | Some config \<Rightarrow>
             (case require_jwt_auth jl config (ht_authorization call) cache net of
                None \<Rightarrow> None
              | Some (Inl (status, body), cache, net) \<Rightarrow> Some (HttpAuth status body, cache, net, w)
              | Some (Inr sub, cache, net) \<Rightarrow>
                  map_option (\<lambda>(reply, w). (reply, cache, net, w)) (mcp_route sl io state (Some sub) call w)))
      else Some (HttpStatus 404, cache, net, w))"

section \<open>Frames are served in order\<close>

fun serve_frames ::
    "('st, 'w, 'o, 'e, 'v, 's, 'row, 're, 'sel, 'doc, 'xp) server_libs \<Rightarrow> server_io \<Rightarrow> mcp_state \<Rightarrow> string list \<Rightarrow>
     string list \<Rightarrow> ('w, 'o, 's) server_world \<Rightarrow> (unit result \<times> string list \<times> ('w, 'o, 's) server_world) option" where
  "serve_frames sl io state [] out w = Some (Inr (), out, w)"
| "serve_frames sl io state (frame # frames) out w =
     (case answer_frame sl io state frame (out, w) of
        None \<Rightarrow> None
      | Some (Inl e, w') \<Rightarrow> Some (Inl e, out, w')
      | Some (Inr out', w') \<Rightarrow> serve_frames sl io state frames out' w')"

lemma read_stdio_frame_end: "read_stdio_frame \<lparr>si_bytes = [], si_error = None\<rparr> = (Inr None, \<lparr>si_bytes = [], si_error = None\<rparr>)"
  by (subst read_stdio_frame.simps) (simp add: read_line_def next_line_def)

text \<open>
  The stdio server takes the frames of its input one after the other, each as long as its header says,
  answers them in that order, and ends without error when the input ends.
\<close>

theorem stdio_serves_in_order:
  assumes "\<forall>frame \<in> set frames. length frame \<le> max_frame_size"
  shows "run_stdio sl io state \<lparr>si_bytes = concat (map stdio_frame frames), si_error = None\<rparr> out w
    = serve_frames sl io state frames out w"
  using assms
proof (induction frames arbitrary: out w)
  case Nil
  then show ?case by (subst run_stdio.simps) (simp add: read_stdio_frame_end)
next
  case (Cons frame frames)
  then have read: "read_stdio_frame \<lparr>si_bytes = stdio_frame frame @ concat (map stdio_frame frames), si_error = None\<rparr>
      = (Inr (Some frame), \<lparr>si_bytes = concat (map stdio_frame frames), si_error = None\<rparr>)"
    by (simp add: read_written_frame)
  from Cons show ?case
    by (subst run_stdio.simps) (simp add: read split: option.split prod.split sum.split)
qed

section \<open>A session changes the world only through allowed tools\<close>

lemma serve_frame_allowed:
  "serve_frame sl io state frame w = Some (resp, w') \<Longrightarrow> w' = w \<or> allowed_execution sl state None w w'"
  using handle_request_allowed by (fastforce simp: serve_frame_def split: sum.splits)

lemma answer_frame_allowed:
  assumes "answer_frame sl io state frame (out, w) = Some (r, w')"
  shows "(allowed_execution sl state None)\<^sup>*\<^sup>* w w'"
proof -
  from assms obtain resp where "serve_frame sl io state frame w = Some (resp, w')"
    by (auto simp: answer_frame_def)
  from serve_frame_allowed [OF this] show ?thesis by auto
qed

text \<open>
  Whatever bytes arrive on standard input, everything a session does to the world is a sequence of
  executions of tools of the catalog, none of them a writing tool unless the server runs with
  \<open>--yes\<close>.
\<close>

theorem stdio_session_allowed:
  assumes "run_stdio sl io state inp out w = Some (r, out', w')"
  shows "(\<lambda>u v. \<exists>key entry arguments result. catalog_get (mcp_catalog state) key = Some entry
       \<and> (mcp_auto_yes state \<or> te_mode entry \<noteq> ModeWrite)
       \<and> execute_template_tool sl entry arguments state u = Some (result, v))\<^sup>*\<^sup>* w w'"
proof -
  have "(allowed_execution sl state None)\<^sup>*\<^sup>* w w'"
    using assms
  proof (induction sl io state inp out w rule: run_stdio.induct)
    case (1 sl io state inp out w)
    obtain x inp' where read: "read_stdio_frame inp = (x, inp')" by fastforce
    show ?case
    proof (cases "\<exists>frame. x = Inr (Some frame)")
      case False
      with "1.prems" read show ?thesis
        by (cases x) (auto simp: run_stdio.simps [of sl io state inp] split: option.splits)
    next
      case True
      then obtain frame where x: "x = Inr (Some frame)" by blast
      with "1.prems" read obtain y u where answer: "answer_frame sl io state frame (out, w) = Some (y, u)"
        by (cases "answer_frame sl io state frame (out, w)") (auto simp: run_stdio.simps [of sl io state inp])
      from answer_frame_allowed [OF answer] have first: "(allowed_execution sl state None)\<^sup>*\<^sup>* w u" .
      show ?thesis
      proof (cases y)
        case (Inl e)
        with "1.prems" read x answer first show ?thesis by (simp add: run_stdio.simps [of sl io state inp])
      next
        case (Inr out1)
        with "1.prems" read x answer have "run_stdio sl io state inp' out1 u = Some (r, out', w')"
          by (simp add: run_stdio.simps [of sl io state inp])
        from "1.IH" [OF read [symmetric] x refl answer refl Inr this] first show ?thesis by (rule rtranclp_trans [rotated])
      qed
    qed
  qed
  then show ?thesis
    unfolding allowed_execution_def call_allowed_def
    by (rule rtranclp_mono [THEN predicate2D, rotated]) auto
qed

section \<open>HTTP calls are authenticated\<close>

lemma mcp_route_allowed:
  assumes "mcp_route sl io state sub call w = Some (reply, w')"
  shows "w' = w \<or> allowed_execution sl state sub w w'"
  using assms handle_request_allowed
  by (fastforce simp: mcp_route_def handle_http_rpc_def split: if_splits sum.splits)

lemma started_with_jwt:
  assumes "start_server jl options cat cfg net = Some (Inr (state, cache), net')"
    and "so_transport options = HttpTransport" and "\<not> so_allow_unauthenticated options"
  shows "mcp_jwt state \<noteq> None \<and> mcp_policies state = cfg_policy cfg \<and> mcp_catalog state = cat"
proof (cases "ac_jwt (cfg_auth cfg)")
  case None
  with assms show ?thesis by (simp add: start_server_def check_transport_def bail_def)
next
  case (Some jwt_config)
  with assms show ?thesis
    by (auto simp: start_server_def check_transport_def start_jwt_def bail_def result_simps Let_def split: sum.splits)
qed

text \<open>
  C12. A server started for HTTP without \<open>--allow-unauthenticated\<close> does nothing to the world for a call
  unless the call is to \<open>/mcp\<close> with a token the middleware accepts, and then only the execution of a
  tool of its catalog that the policies of its configuration allow the subject of the token.
\<close>

theorem http_calls_authenticated:
  assumes "start_server jl options cat cfg net0 = Some (Inr (state, cache0), net1)"
    and "so_transport options = HttpTransport" and "\<not> so_allow_unauthenticated options"
    and "serve_http jl sl io state call cache net w = Some (reply, cache', net', w')" and "w' \<noteq> w"
  shows "ht_path call = ''/mcp'' \<and> ht_method call = ''POST''
    \<and> (\<exists>config sub key entry arguments out.
         mcp_jwt state = Some config
         \<and> require_jwt_auth jl config (ht_authorization call) cache net = Some (Inr sub, cache', net')
         \<and> catalog_get cat key = Some entry
         \<and> evaluate (cfg_policy cfg) (subject_sub sub) key (te_mode entry) = Allow
         \<and> execute_template_tool sl entry arguments state w = Some (out, w'))"
proof -
  from started_with_jwt [OF assms(1,2,3)] obtain config where config: "mcp_jwt state = Some config"
    and same: "mcp_policies state = cfg_policy cfg" "mcp_catalog state = cat" by blast
  from assms(4,5) config obtain sub where path: "ht_path call = ''/mcp''"
    and auth: "require_jwt_auth jl config (ht_authorization call) cache net = Some (Inr sub, cache', net')"
    and route: "mcp_route sl io state (Some sub) call w = Some (reply, w')"
    by (auto simp: serve_http_def split: if_splits option.splits sum.splits prod.splits)
  from route assms(5) have "ht_method call = ''POST''" by (auto simp: mcp_route_def split: if_splits)
  moreover from mcp_route_allowed [OF route] assms(5) have "allowed_execution sl state (Some sub) w w'" by simp
  ultimately show ?thesis
    using path config auth unfolding allowed_execution_def call_allowed_def same by auto
qed

section \<open>A concrete server\<close>

definition sample_io :: server_io where
  "sample_io =
     \<lparr>io_read_request = (\<lambda>s. if s = ''call'' then Inr mcp_call else Inl ''no JSON''),
      io_read_http = (\<lambda>c. if ht_body c = ''call'' then Inr mcp_call else Inl ''no JSON''),
      io_response_text = (\<lambda>r. ''{}''), io_write = (\<lambda>out frame. None)\<rparr>"

theorem stdio_serves_in_order_witness:
  "run_stdio sample_server sample_io mcp_sample_state
     \<lparr>si_bytes = concat (map stdio_frame [''call'', ''?'']), si_error = None\<rparr> [] sample_world
   = Some (Inr (), [stdio_frame ''{}'', stdio_frame ''{}''], mcp_world_end)"
proof -
  have "answer_frame sample_server sample_io mcp_sample_state ''call'' ([], sample_world)
      = Some (Inr [stdio_frame ''{}''], mcp_world_end)"
    "answer_frame sample_server sample_io mcp_sample_state ''?'' ([stdio_frame ''{}''], mcp_world_end)
      = Some (Inr [stdio_frame ''{}'', stdio_frame ''{}''], mcp_world_end)"
    by (simp_all add: answer_frame_def serve_frame_def sample_io_def mcp_handle write_stdio_frame_def Let_def)
  then show ?thesis
    by (subst stdio_serves_in_order) (simp_all add: max_frame_size_def)
qed

theorem stdio_session_allowed_witness:
  "(\<lambda>u v. \<exists>key entry arguments result. catalog_get (mcp_catalog mcp_sample_state) key = Some entry
       \<and> (mcp_auto_yes mcp_sample_state \<or> te_mode entry \<noteq> ModeWrite)
       \<and> execute_template_tool sample_server entry arguments mcp_sample_state u = Some (result, v))\<^sup>*\<^sup>*
     sample_world mcp_world_end"
proof -
  have answer: "answer_frame sample_server sample_io mcp_sample_state ''call'' ([], sample_world)
      = Some (Inr [stdio_frame ''{}''], mcp_world_end)"
    by (simp add: answer_frame_def serve_frame_def sample_io_def mcp_handle write_stdio_frame_def Let_def)
  have "read_stdio_frame \<lparr>si_bytes = stdio_frame ''call'', si_error = None\<rparr>
      = (Inr (Some ''call''), \<lparr>si_bytes = [], si_error = None\<rparr>)"
    using read_written_frame [of "''call''" "[]" None] by (simp add: max_frame_size_def)
  then have "run_stdio sample_server sample_io mcp_sample_state \<lparr>si_bytes = stdio_frame ''call'', si_error = None\<rparr> [] sample_world
      = Some (Inr (), [stdio_frame ''{}''], mcp_world_end)"
    by (subst run_stdio.simps) (simp add: answer run_stdio.simps [of _ _ _ "\<lparr>si_bytes = [], si_error = None\<rparr>"] read_stdio_frame_end)
  then show ?thesis by (rule stdio_session_allowed)
qed

text \<open>The same server behind HTTP, with a policy that lets one subject read.\<close>

definition http_cfg :: config where
  "http_cfg = mcp_cfg_sample
     \<lparr>cfg_policy := [\<lparr>pr_subjects = [''alice''], pr_tools = [''*''], pr_modes = Some [PolicyRead], pr_effect = EffectAllow\<rparr>],
      cfg_auth := \<lparr>ac_profiles = [], ac_jwt = Some
        \<lparr>jwt_oidc_discovery_url = None, jwt_issuer = Some ''https://id.example.com'',
         jwt_jwks_uri = Some ''https://id.example.com/jwks'', jwt_audience = ''earl'', jwt_algorithms = [''RS256''],
         jwt_clock_skew_seconds = 30, jwt_jwks_cache_max_age_seconds = 900\<rparr>\<rparr>\<rparr>"

definition http_options :: mcp_server_options where
  "http_options = \<lparr>so_transport = HttpTransport, so_mode = McpFull, so_auto_yes = False, so_allow_unauthenticated = False\<rparr>"

definition http_state :: mcp_state where
  "http_state = mcp_sample_state\<lparr>mcp_cfg := http_cfg, mcp_jwt := Some sample_jwt_config, mcp_policies := cfg_policy http_cfg\<rparr>"

definition http_sample_call :: http_call where
  "http_sample_call = \<lparr>ht_method = ''POST'', ht_path = ''/mcp'', ht_authorization = Some ''Bearer t'', ht_body = ''call''\<rparr>"

lemma http_jwt_new:
  "jwt_new sample_jwt_libs (the (ac_jwt (cfg_auth http_cfg))) \<lparr>jn_world = 0, jn_fetched = []\<rparr>
    = Some (Inr (sample_jwt_config, \<lparr>kc_keys = [], kc_fetched_at = - (901 * 10 ^ 9), kc_last_kid_miss_refresh = None\<rparr>),
        \<lparr>jn_world = 1, jn_fetched = []\<rparr>)"
  by (simp add: jwt_new_def http_cfg_def configured_issuer_def ok_or_def with_context_def of_library_def
      sample_jwt_libs_def jwks_host_url_def validate_jwt_host_def resolve_and_validate_host_def ensure_safe_ip_def
      is_blocked_v4_def parse_algorithm_def jwt_now_def instant_sub_def seconds_def sample_jwt_config_def)

lemma http_started:
  "start_server sample_jwt_libs http_options [(''db.rows'', mcp_entry)] http_cfg \<lparr>jn_world = 0, jn_fetched = []\<rparr>
    = Some (Inr (http_state, Some \<lparr>kc_keys = [], kc_fetched_at = - (901 * 10 ^ 9), kc_last_kid_miss_refresh = None\<rparr>),
        \<lparr>jn_world = 1, jn_fetched = []\<rparr>)"
proof -
  obtain c where c: "ac_jwt (cfg_auth http_cfg) = Some c" by (simp add: http_cfg_def)
  with http_jwt_new have "start_jwt sample_jwt_libs http_cfg \<lparr>jn_world = 0, jn_fetched = []\<rparr>
      = Some (Inr (Some (sample_jwt_config, \<lparr>kc_keys = [], kc_fetched_at = - (901 * 10 ^ 9), kc_last_kid_miss_refresh = None\<rparr>)),
          \<lparr>jn_world = 1, jn_fetched = []\<rparr>)"
    by (simp add: start_jwt_def)
  moreover have "check_transport http_options http_cfg = Inr ()"
    by (simp add: check_transport_def http_options_def http_cfg_def)
  moreover have "env_cfg_default (cfg_environments http_cfg) = None"
    by (simp add: http_cfg_def mcp_cfg_sample_def)
  ultimately show ?thesis
    by (simp add: start_server_def http_options_def http_state_def mcp_sample_state_def Let_def)
qed

lemma http_authorized: "authorize_call unknown http_state (Some (Subject ''alice'' None)) ''DB.rows'' = Inr mcp_entry"
proof -
  have "to_ascii_lowercase ''DB.rows'' = ''db.rows''" by code_simp
  moreover have "te_mode mcp_entry = ModeRead"
    by (simp add: mcp_entry_def sample_entry_def entry_of_def sample_command_def)
  moreover have "evaluate [\<lparr>pr_subjects = [''alice''], pr_tools = [''*''], pr_modes = Some [PolicyRead], pr_effect = EffectAllow\<rparr>]
      ''alice'' ''db.rows'' ModeRead = Allow" by code_simp
  ultimately show ?thesis
    by (simp add: authorize_call_Inr catalog_get_def http_state_def mcp_sample_state_def call_allowed_def http_cfg_def)
qed

lemma http_served:
  "serve_http sample_jwt_libs sample_server sample_io http_state http_sample_call old_cache \<lparr>jn_world = 0, jn_fetched = []\<rparr>
     sample_world
   = Some (HttpRpc (response_success (JString ''7'') mcp_answer),
       \<lparr>kc_keys = [sample_jwk], kc_fetched_at = 6, kc_last_kid_miss_refresh = Some 7\<rparr>,
       \<lparr>jn_world = 8, jn_fetched = [''https://id.example.com/jwks'']\<rparr>, mcp_world_end)"
proof -
  have "execute_template_tool sample_server mcp_entry [] http_state sample_world = Some (Inr mcp_answer, mcp_world_end)"
    by (rule mcp_execute_tool_in)
      (simp_all add: http_state_def mcp_sample_state_def http_cfg_def server_provision_def sample_server_def
        mcp_cfg_sample_def sample_provision_def)
  then have "handle_request sample_server mcp_call http_state (Some (Subject ''alice'' None)) sample_world
      = Some (Some (response_success (JString ''7'') mcp_answer), mcp_world_end)"
    by (intro mcp_handle_in http_authorized) (simp_all add: http_state_def mcp_sample_state_def)
  then show ?thesis
    by (simp add: serve_http_def http_sample_call_def http_state_def [THEN arg_cong [where f = mcp_jwt]]
        sample_authenticated mcp_route_def handle_http_rpc_def sample_io_def)
qed

theorem http_calls_authenticated_witness:
  "\<exists>config sub key entry. mcp_jwt http_state = Some config
     \<and> catalog_get [(''db.rows'', mcp_entry)] key = Some entry
     \<and> evaluate (cfg_policy http_cfg) (subject_sub sub) key (te_mode entry) = Allow"
  using http_calls_authenticated [OF http_started _ _ http_served mcp_world_changed]
  by (simp add: http_options_def) blast

end
