(* ===== verification/Cli.thy ===== *)
theory Cli
  imports Mcp McpServer
begin

text \<open>
  The command line, \<open>src/app.rs\<close> with the argument types of \<open>src/cli.rs\<close>: calling a command with its
  write confirmation and both ways of output, listing and validating templates, the prompt of the
  template generator, the secrets commands and starting the MCP server. What clap has parsed is given;
  the table and pretty printers, the terminal and the coding tool are parameters.
\<close>

section \<open>The terminal\<close>

text \<open>Each element of the output is what one print writes, without the line feed of \<open>println!\<close>. Standard
  output and standard error take all that is written.\<close>

record terminal =
  tm_stdin :: stdin
  tm_out :: "string list"
  tm_err :: "string list"

definition print_out :: "string \<Rightarrow> (terminal, unit) action" where
  "print_out s t = (Inr (), t\<lparr>tm_out := tm_out t @ [s]\<rparr>)"

definition print_err :: "string \<Rightarrow> (terminal, unit) action" where
  "print_err s t = (Inr (), t\<lparr>tm_err := tm_err t @ [s]\<rparr>)"

definition read_answer :: "(terminal, string) action" where
  "read_answer t = (case read_line (tm_stdin t) of (r, inp) \<Rightarrow> (r, t\<lparr>tm_stdin := inp\<rparr>))"

definition line_end :: "char list" where "line_end = [CHR 0x0D, CHR 0x0A]"

definition prompt :: "string \<Rightarrow> (terminal, string) action" where
  "prompt label =
     act_bind (print_out label) (\<lambda>_.
     act_bind read_answer (\<lambda>line.
     act_return (trim_end_matches line_end line)))"

definition prompt_write_confirmation :: "string \<Rightarrow> (terminal, unit) action" where
  "prompt_write_confirmation command =
     act_bind (print_out (''Command `'' @ command @ ''` is write-enabled.'')) (\<lambda>_.
     act_bind (prompt ''Type YES to continue: '') (\<lambda>answer.
     if trim answer \<noteq> ''YES'' then act_lift (bail ''write command aborted'') else act_return ()))"

section \<open>Calling a command\<close>

fun show_cli_args_error :: "cli_args_error \<Rightarrow> string" where
  "show_cli_args_error (InvalidCommand c) = ''invalid command format `'' @ c @ ''`: expected provider.command''"
| "show_cli_args_error (UnknownParam n) = ''unknown parameter `--'' @ n @ ''`''"
| "show_cli_args_error (MissingValue n) = ''missing value for parameter `--'' @ n @ ''`''"
| "show_cli_args_error (InvalidValue n expected v) =
     ''failed to parse value for `--'' @ n @ ''`: expected '' @ expected @ '', got `'' @ v @ ''`''"
| "show_cli_args_error (BareArgument a) = ''unexpected bare argument `'' @ a @ ''` (use --param-name value)''"

text \<open>What the commands use beside the libraries of a server: the number and JSON readers of the arguments,
  the printers, and how many chunks a producer gets rid of before it is aborted.\<close>

record cli_libs =
  cl_parse_f64 :: "string \<Rightarrow> f64 option"
  cl_json_from_str :: "string \<Rightarrow> json option"
  cl_json_pretty :: "json \<Rightarrow> string"
  cl_aborted_after :: nat

record call_args =
  ca_command :: string
  ca_args :: "string list"
  ca_yes :: bool
  ca_json :: bool
  ca_env :: "string option"

record ('w, 'o, 's) cli_world =
  cw_terminal :: terminal
  cw_server :: "('w, 'o, 's) server_world"

text \<open>Everything up to the choice of the environment: the entry, the bound arguments and the environment.\<close>

definition active_env_of :: "string option \<Rightarrow> config \<Rightarrow> catalog_entry \<Rightarrow> string option result" where
  "active_env_of env_flag cfg entry =
     and_then (case env_flag of None \<Rightarrow> Inr () | Some name \<Rightarrow> validate_env_name name) (\<lambda>_.
     and_then (case env_cfg_default (cfg_environments cfg) of
                 None \<Rightarrow> Inr ()
               | Some name \<Rightarrow> with_context ''config [environments].default is invalid'' (validate_env_name name)) (\<lambda>_.
     Inr (resolve_active_env env_flag (env_cfg_default (cfg_environments cfg))
            (case te_provider_environments entry of None \<Rightarrow> None | Some e \<Rightarrow> pe_default e))))"

definition ready_call ::
    "cli_libs \<Rightarrow> call_args \<Rightarrow> config \<Rightarrow> catalog result \<Rightarrow> (terminal, catalog_entry \<times> json_map \<times> string option) action" where
  "ready_call cl args cfg loaded =
     act_bind (act_lift (
       and_then loaded (\<lambda>cat.
       and_then (ok_or [''unknown command `'' @ ca_command args @ ''`''] (catalog_get cat (ca_command args))) (\<lambda>entry.
       and_then (map_err (\<lambda>e. [show_cli_args_error e])
         (parse_cli_args (cl_parse_f64 cl) (cl_json_from_str cl) (ca_command args) (ca_args args)
            (ct_params (te_template entry)))) (\<lambda>expr.
       and_then (map_err (\<lambda>e. [show_bind_error e]) (bind_arguments expr (ct_params (te_template entry)))) (\<lambda>bound_args.
       Inr (entry, bound_args))))))) (\<lambda>(entry, bound_args).
     act_bind (if te_mode entry = ModeWrite \<and> \<not> ca_yes args then prompt_write_confirmation (te_key entry)
               else act_return ()) (\<lambda>_.
     act_bind (act_lift (active_env_of (ca_env args) cfg entry)) (\<lambda>active_env.
     act_bind (case active_env of
                 None \<Rightarrow> act_return ()
               | Some env \<Rightarrow> if ca_json args then act_return () else print_err (''[env: '' @ env @ '']'')) (\<lambda>_.
     act_return (entry, bound_args, active_env)))))"

text \<open>The environment is added to the JSON output after redaction.\<close>

definition with_environment :: "string option \<Rightarrow> json \<Rightarrow> json" where
  "with_environment active_env v =
     (case (active_env, v) of
        (Some env, JObject m) \<Rightarrow> JObject (bt_insert ''environment'' (JString env) m)
      | _ \<Rightarrow> v)"

definition call_output ::
    "cli_libs \<Rightarrow> ('e, 'v) minijinja \<Rightarrow> bool \<Rightarrow> string option \<Rightarrow> prepared_request \<Rightarrow> execution_result \<Rightarrow> string result" where
  "call_output cl mj json_mode active_env prepared execution =
     (if json_mode
      then Inr (cl_json_pretty cl (with_environment active_env
             (redact_json (rq_redactor prepared) (render_json_output execution))))
      else and_then (render_human_output mj (rq_result_template prepared) (rq_args prepared) (er_result execution)) (\<lambda>output.
           Inr (redact (rq_redactor prepared) output)))"

definition output_libs_of ::
    "('st, 'w, 'o, 'e, 'v) provision \<Rightarrow> ('s, 'row, 're, 'sel, 'doc, 'xp) executors \<Rightarrow>
     ('e, 'v, 're, 'sel, 'doc, 'xp) output_libs" where
  "output_libs_of pv ex =
     \<lparr>ol_engine = pv_engine pv, ol_extractors = xe_extract ex, ol_json_read = xe_json_read ex, ol_json_text = xe_json_text ex\<rparr>"

text \<open>
  A streaming command. The producer runs beside the consumer, which takes all chunks; a chunk that cannot
  be rendered ends the consumer and the producer is aborted after it has sent some of them.
\<close>

definition call_streaming ::
    "cli_libs \<Rightarrow> ('e, 'v, 're, 'sel, 'doc, 'xp) output_libs \<Rightarrow> ('s, 'row, 're, 'sel, 'doc, 'xp) executors \<Rightarrow> bool \<Rightarrow>
     string option \<Rightarrow> prepared_request \<Rightarrow> terminal \<Rightarrow> 's exec_state \<Rightarrow> (unit result \<times> terminal \<times> 's exec_state) option" where
  "call_streaming cl ol ex json_mode active_env prepared t es =
     (case start_streaming_request ex prepared \<lparr>ch_taken = [], ch_left = None\<rparr> es of
        None \<Rightarrow> None
      | Some (meta, ch, es') \<Rightarrow>
          (case render_streaming_output ol (rq_result_template prepared) (rq_args prepared) (rq_redactor prepared)
                  json_mode active_env (ch_taken ch) (tm_out t) of
             (Inl e, out) \<Rightarrow>
               map_option (\<lambda>(_, _, es''). (Inl e, t\<lparr>tm_out := out\<rparr>, es''))
                 (start_streaming_request ex prepared \<lparr>ch_taken = [], ch_left = Some (cl_aborted_after cl)\<rparr> es)
           | (Inr _, out) \<Rightarrow>
               Some (and_then (with_context ''streaming producer failed'' meta) (\<lambda>_. Inr ()), t\<lparr>tm_out := out\<rparr>, es')))"

definition run_prepared ::
    "('st, 'w, 'o, 'e, 'v, 's, 'row, 're, 'sel, 'doc, 'xp) server_libs \<Rightarrow> cli_libs \<Rightarrow> ('st, 'w, 'o, 'e, 'v) provision \<Rightarrow>
     bool \<Rightarrow> string option \<Rightarrow> prepared_request \<Rightarrow> terminal \<Rightarrow> 's exec_state \<Rightarrow>
     (unit result \<times> terminal \<times> 's exec_state) option" where
  "run_prepared sl cl pv json_mode active_env prepared t es =
     (if rq_stream prepared
      then call_streaming cl (output_libs_of pv (sl_executors sl)) (sl_executors sl) json_mode active_env prepared t es
      else
        map_option (\<lambda>(run, es').
            (case and_then run (call_output cl (pv_engine pv) json_mode active_env prepared) of
               Inl e \<Rightarrow> (Inl e, t, es')
             | Inr shown \<Rightarrow> (Inr (), t\<lparr>tm_out := tm_out t @ [shown]\<rparr>, es')))
          (execute_prepared_request (sl_executors sl) prepared es))"

definition run_call ::
    "('st, 'w, 'o, 'e, 'v, 's, 'row, 're, 'sel, 'doc, 'xp) server_libs \<Rightarrow> cli_libs \<Rightarrow> call_args \<Rightarrow> config \<Rightarrow>
     catalog result \<Rightarrow> ('w, 'o, 's) cli_world \<Rightarrow> (unit result \<times> ('w, 'o, 's) cli_world) option" where
  "run_call sl cl args cfg loaded w =
     (case ready_call cl args cfg loaded (cw_terminal w) of
        (Inl e, t) \<Rightarrow> Some (Inl e, w\<lparr>cw_terminal := t\<rparr>)
      | (Inr (entry, bound_args, active_env), t) \<Rightarrow>
     (case sl_oauth_new sl cfg of
        Inl e \<Rightarrow> Some (Inl e, w\<lparr>cw_terminal := t\<rparr>)
      | Inr _ \<Rightarrow>
          (let pv = server_provision (sl_provision sl) cfg; sw = cw_server w
           in case build_prepared_request pv entry bound_args active_env (sw_prep sw) of
                (Inl e, ps) \<Rightarrow> Some (Inl e, w\<lparr>cw_terminal := t, cw_server := sw\<lparr>sw_prep := ps\<rparr>\<rparr>)
              | (Inr prepared, ps) \<Rightarrow>
                  map_option (\<lambda>(r, t', es). (r, w\<lparr>cw_terminal := t', cw_server := sw\<lparr>sw_prep := ps, sw_exec := es\<rparr>\<rparr>))
                    (run_prepared sl cl pv (ca_json args) active_env prepared t (sw_exec sw)))))"


section \<open>What a call has been through\<close>

text \<open>The line the user answers the write prompt with.\<close>

definition answer_of :: "terminal \<Rightarrow> string" where
  "answer_of t = trim (trim_end_matches line_end (next_line (si_bytes (tm_stdin t))))"

definition write_prompt :: "catalog_entry \<Rightarrow> string list" where
  "write_prompt entry = [''Command `'' @ te_key entry @ ''` is write-enabled.'', ''Type YES to continue: '']"

lemma read_line_next_line: "read_line inp = (Inr line, inp') \<Longrightarrow> line = next_line (si_bytes inp)"
  by (auto simp: read_line_def Let_def bail_def split: if_splits)

lemma prompt_Inr:
  "prompt label t = (Inr a, t') \<Longrightarrow>
     a = trim_end_matches line_end (next_line (si_bytes (tm_stdin t))) \<and> tm_out t' = tm_out t @ [label]"
  by (auto simp: prompt_def print_out_def read_answer_def result_simps act_return_def split: prod.splits
      dest: read_line_next_line)

lemma prompt_out: "tm_out (snd (prompt label t)) = tm_out t @ [label]"
  by (auto simp: prompt_def act_bind_def print_out_def read_answer_def act_return_def split: prod.splits sum.splits)

lemma confirmation_Inr:
  "prompt_write_confirmation (te_key entry) t = (Inr u, t') \<Longrightarrow>
     answer_of t = ''YES'' \<and> tm_out t' = tm_out t @ write_prompt entry"
  by (auto simp: prompt_write_confirmation_def print_out_def result_simps act_return_def act_lift_def bail_def
      answer_of_def write_prompt_def split: if_splits dest!: prompt_Inr)

lemma confirmation_out:
  "tm_out (snd (prompt_write_confirmation (te_key entry) t)) = tm_out t @ write_prompt entry"
proof -
  let ?t = "snd (print_out (''Command `'' @ te_key entry @ ''` is write-enabled.'') t)"
  obtain r t' where p: "prompt ''Type YES to continue: '' ?t = (r, t')" by (cases "prompt ''Type YES to continue: '' ?t")
  from prompt_out [of "''Type YES to continue: ''" ?t] have "tm_out t' = tm_out ?t @ [''Type YES to continue: '']"
    unfolding p by simp
  with p show ?thesis
    by (cases r) (simp_all add: prompt_write_confirmation_def act_bind_def print_out_def write_prompt_def act_lift_def act_return_def)
qed

text \<open>A call that got ready: the entry, the answer to the prompt and what was printed.\<close>

lemma ready_call_Inr:
  assumes "ready_call cl args cfg loaded t = (Inr (entry, bound, env), t')"
  obtains cat asked where "loaded = Inr cat" "catalog_get cat (ca_command args) = Some entry"
    "active_env_of (ca_env args) cfg entry = Inr env"
    "te_mode entry = ModeWrite \<Longrightarrow> \<not> ca_yes args \<Longrightarrow> answer_of t = ''YES''"
    "tm_out t' = tm_out t @ asked" "asked = (if te_mode entry = ModeWrite \<and> \<not> ca_yes args then write_prompt entry else [])"
proof -
  from assms obtain cat where cat: "loaded = Inr cat" "catalog_get cat (ca_command args) = Some entry"
    "active_env_of (ca_env args) cfg entry = Inr env"
    and rest: "\<exists>t1. (if te_mode entry = ModeWrite \<and> \<not> ca_yes args then prompt_write_confirmation (te_key entry)
               else act_return ()) t = (Inr (), t1) \<and> tm_out t' = tm_out t1"
    by (fastforce simp: ready_call_def result_simps act_lift_def act_return_def print_err_def
        split: if_splits option.splits)
  have "(te_mode entry = ModeWrite \<and> \<not> ca_yes args \<longrightarrow> answer_of t = ''YES'')
      \<and> tm_out t' = tm_out t @ (if te_mode entry = ModeWrite \<and> \<not> ca_yes args then write_prompt entry else [])"
    using rest by (auto simp: act_return_def split: if_splits dest: confirmation_Inr)
  with cat show thesis by (intro that) auto
qed

section \<open>What a call does\<close>

text \<open>How a call ends: before anything was prepared, or after an execution.\<close>

lemma run_call_cases:
  assumes "run_call sl cl args cfg loaded w = Some (r, w')"
  obtains (unready) e where "ready_call cl args cfg loaded (cw_terminal w) = (Inl e, cw_terminal w')"
      "cw_server w' = cw_server w" "r = Inl e"
  | (unprepared) entry bound env where
      "ready_call cl args cfg loaded (cw_terminal w) = (Inr (entry, bound, env), cw_terminal w')"
      "sw_exec (cw_server w') = sw_exec (cw_server w)" "is_ok r = False"
  | (executed) entry bound env t prepared ps where
      "ready_call cl args cfg loaded (cw_terminal w) = (Inr (entry, bound, env), t)"
      "build_prepared_request (server_provision (sl_provision sl) cfg) entry bound env (sw_prep (cw_server w)) = (Inr prepared, ps)"
      "run_prepared sl cl (server_provision (sl_provision sl) cfg) (ca_json args) env prepared t (sw_exec (cw_server w))
         = Some (r, cw_terminal w', sw_exec (cw_server w'))"
proof -
  let ?pv = "server_provision (sl_provision sl) cfg"
  obtain x t where ready: "ready_call cl args cfg loaded (cw_terminal w) = (x, t)"
    by (cases "ready_call cl args cfg loaded (cw_terminal w)")
  show thesis
  proof (cases x)
    case (Inl e)
    with assms ready show thesis by (intro unready [of e]) (auto simp: run_call_def)
  next
    case (Inr y)
    then obtain entry bound env where y: "x = Inr (entry, bound, env)" by (cases y) auto
    obtain b ps where build: "build_prepared_request ?pv entry bound env (sw_prep (cw_server w)) = (b, ps)"
      by (cases "build_prepared_request ?pv entry bound env (sw_prep (cw_server w))")
    show thesis
    proof (cases "sl_oauth_new sl cfg")
      case (Inl e)
      with assms ready y have "r = Inl e" "w' = w\<lparr>cw_terminal := t\<rparr>" by (simp_all add: run_call_def)
      with ready y show thesis by (intro unprepared [of entry bound env]) simp_all
    next
      case oauth: (Inr u)
      show thesis
      proof (cases b)
        case (Inl e)
        with assms ready y oauth build show thesis
          by (intro unprepared [of entry bound env]) (auto simp: run_call_def Let_def)
      next
        case (Inr prepared)
        with assms ready y oauth build show thesis
          by (intro executed [of entry bound env t prepared ps]) (auto simp: run_call_def Let_def)
      qed
    qed
  qed
qed

lemma run_prepared_execution:
  assumes "run_prepared sl cl pv json_mode env prepared t es = Some (r, t', es')"
  shows "(\<exists>run. execute_prepared_request (sl_executors sl) prepared es = Some (run, es'))
    \<or> (\<exists>ch m ch'. start_streaming_request (sl_executors sl) prepared ch es = Some (m, ch', es'))"
proof (cases "rq_stream prepared")
  case True
  with assms show ?thesis
    by (auto simp: run_prepared_def call_streaming_def split: option.splits prod.splits sum.splits)
next
  case False
  with assms show ?thesis
    by (cases "execute_prepared_request (sl_executors sl) prepared es") (fastforce simp: run_prepared_def split: sum.splits)+
qed

lemma start_streaming_unsent:
  assumes "start_streaming_request ex p ch st = Some (m, ch', st')" and "\<not> has_allow_rules (data_protocol (rq_data p))"
  shows "xs_sent st' = xs_sent st \<and> xs_dialed st' = xs_dialed st"
  using assms
  by (cases "rq_data p")
    (auto simp: start_streaming_request_def has_allow_rules_def stream_fail_def on_bash_def unassoc_def Let_def split: prod.splits)

text \<open>A prepared request of a configuration runs inside that configuration.\<close>

lemma prepared_stays_inside:
  assumes "build_prepared_request (server_provision pv cfg) entry bound env s = (Inr p, s')"
    and "(\<exists>run. execute_prepared_request ex p es = Some (run, es'))
      \<or> (\<exists>ch m ch'. start_streaming_request ex p ch es = Some (m, ch', es'))"
  shows "\<exists>sent dialed. xs_sent es' = xs_sent es @ sent \<and> xs_dialed es' = xs_dialed es @ dialed
    \<and> list_all (config_safe_send (cfg_network cfg)) sent \<and> list_all (config_safe_dial ex (cfg_network cfg)) dialed"
proof -
  let ?nc = "cfg_network cfg"
  from build_prepared_configuration [OF assms(1)]
  have rules: "rq_allow_rules p = (if has_allow_rules (data_protocol (rq_data p)) then nc_allow ?nc else [])"
    and private_ips: "rq_allow_private_ips p = nc_allow_private_ips ?nc"
    by (simp_all add: Let_def server_provision_def)
  show ?thesis
  proof (cases "has_allow_rules (data_protocol (rq_data p))")
    case False
    with assms(2) have "xs_sent es' = xs_sent es \<and> xs_dialed es' = xs_dialed es"
      using execute_prepared_unsent start_streaming_unsent by blast
    then show ?thesis by (auto intro: exI [of _ "[]"])
  next
    case True
    with rules private_ips have "config_safe_send ?nc = safe_send p" "config_safe_dial ex ?nc = safe_dial ex p"
      by (simp_all add: config_safe_send_def safe_send_def config_safe_dial_def safe_dial_def)
    moreover from assms(2) have "safe_step ex p es es'" using execute_prepared_safe start_streaming_safe by blast
    ultimately show ?thesis by (simp add: safe_step_def)
  qed
qed

text \<open>
  C13. A call from the command line that touches the world is of a command of the catalog, in an
  environment with a well-formed name; a writing command runs only with \<open>--yes\<close> or after the user
  has answered the prompt with the line \<open>YES\<close>.
\<close>

theorem cli_write_needs_yes:
  assumes "run_call sl cl args cfg loaded w = Some (r, w')" and "cw_server w' \<noteq> cw_server w"
  shows "\<exists>cat entry env. loaded = Inr cat \<and> catalog_get cat (ca_command args) = Some entry
    \<and> active_env_of (ca_env args) cfg entry = Inr env
    \<and> (te_mode entry = ModeWrite \<longrightarrow> ca_yes args \<or> answer_of (cw_terminal w) = ''YES'')"
proof -
  from assms(1) have "(\<exists>entry bound env t. ready_call cl args cfg loaded (cw_terminal w) = (Inr (entry, bound, env), t))"
    by (cases rule: run_call_cases) (use assms(2) in blast)+
  then show ?thesis using ready_call_Inr by blast
qed

text \<open>
  Whatever command is called from the command line, streaming or not: every HTTP request goes to a URL
  the configured allow rules accept, through a client that dials only addresses the filter passes under the
  configured setting for private addresses, and every gRPC endpoint is pinned to such an address.
\<close>

theorem cli_requests_stay_inside:
  assumes "run_call sl cl args cfg loaded w = Some (r, w')"
  shows "\<exists>sent dialed. xs_sent (sw_exec (cw_server w')) = xs_sent (sw_exec (cw_server w)) @ sent
    \<and> xs_dialed (sw_exec (cw_server w')) = xs_dialed (sw_exec (cw_server w)) @ dialed
    \<and> list_all (config_safe_send (cfg_network cfg)) sent
    \<and> list_all (config_safe_dial (sl_executors sl) (cfg_network cfg)) dialed"
  using assms
proof (cases rule: run_call_cases)
  case executed
  from prepared_stays_inside [OF executed(2) run_prepared_execution [OF executed(3)]] show ?thesis .
qed (auto intro: exI [of _ "[]"])

section \<open>What a call prints\<close>

lemma ready_call_out:
  assumes "loaded = Inr cat" and "catalog_get cat (ca_command args) = Some entry"
  shows "\<exists>asked \<in> {[], write_prompt entry}. tm_out (snd (ready_call cl args cfg loaded t)) = tm_out t @ asked"
proof -
  define first where "first = and_then (map_err (\<lambda>e. [show_cli_args_error e])
      (parse_cli_args (cl_parse_f64 cl) (cl_json_from_str cl) (ca_command args) (ca_args args) (ct_params (te_template entry))))
      (\<lambda>expr. and_then (map_err (\<lambda>e. [show_bind_error e]) (bind_arguments expr (ct_params (te_template entry))))
      (\<lambda>bound_args. Inr (entry, bound_args)))"
  define ask where "ask = (if te_mode entry = ModeWrite \<and> \<not> ca_yes args then prompt_write_confirmation (te_key entry)
      else act_return ())"
  have asked: "tm_out (snd (ask t)) = tm_out t \<or> tm_out (snd (ask t)) = tm_out t @ write_prompt entry"
    by (simp add: ask_def act_return_def confirmation_out)
  have ready: "ready_call cl args cfg loaded = act_bind (act_lift first) (\<lambda>(entry, bound_args).
     act_bind (if te_mode entry = ModeWrite \<and> \<not> ca_yes args then prompt_write_confirmation (te_key entry)
               else act_return ()) (\<lambda>_.
     act_bind (act_lift (active_env_of (ca_env args) cfg entry)) (\<lambda>active_env.
     act_bind (case active_env of
                 None \<Rightarrow> act_return ()
               | Some env \<Rightarrow> if ca_json args then act_return () else print_err (''[env: '' @ env @ '']'')) (\<lambda>_.
     act_return (entry, bound_args, active_env)))))"
    using assms by (simp add: ready_call_def first_def)
  show ?thesis
  proof (cases first)
    case (Inl e)
    then show ?thesis unfolding ready by (simp add: act_bind_def act_lift_def)
  next
    case (Inr y)
    then obtain bound where y: "first = Inr (entry, bound)" by (auto simp: first_def result_simps)
    have "tm_out (snd (ready_call cl args cfg loaded t)) = tm_out (snd (ask t))"
      unfolding ready y
      by (cases "ask t"; cases "fst (ask t)"; cases "active_env_of (ca_env args) cfg entry")
        (auto simp: act_bind_def act_lift_def act_return_def print_err_def ask_def [symmetric] split: option.splits)
    with asked show ?thesis by auto
  qed
qed

lemma streaming_prints:
  assumes "render_streaming_output ol rt args red json_mode env chunks out = (r, out')"
  shows "\<exists>shown. out' = out @ shown \<and> (\<forall>line \<in> set shown.
      if json_mode then \<exists>v. line = ol_json_text ol (redact_json red v) else \<exists>t. line = redact red t)"
  using assms
proof (induction chunks arbitrary: out)
  case (Cons chunk chunks)
  show ?case
  proof (cases "stream_line ol rt args red json_mode env chunk")
    case (Inr x)
    show ?thesis
    proof (cases x)
      case None
      with Inr Cons show ?thesis by simp
    next
      case (Some l)
      with Inr Cons.prems Cons.IH [of "out @ [l]"] obtain shown where "out' = (out @ [l]) @ shown"
        "\<forall>line \<in> set shown. if json_mode then \<exists>v. line = ol_json_text ol (redact_json red v) else \<exists>t. line = redact red t"
        by auto
      with stream_line_redacted [of ol rt args red json_mode env chunk l] Inr Some show ?thesis
        by (intro exI [of _ "l # shown"]) (auto split: if_splits)
    qed
  qed (use Cons in simp)
qed simp

text \<open>A printed line of a call that a form of a secret is not in: in JSON mode not in a string of the value
  it is the text of, whatever environment is added to it.\<close>

definition clean_line ::
    "cli_libs \<Rightarrow> ('s, 'row, 're, 'sel, 'doc, 'xp) executors \<Rightarrow> bool \<Rightarrow> string option \<Rightarrow> string \<Rightarrow> string \<Rightarrow> bool" where
  "clean_line cl ex json_mode env v line \<longleftrightarrow>
     (if json_mode
      then \<exists>j. (line = cl_json_pretty cl (with_environment env j) \<or> line = xe_json_text ex j)
             \<and> (\<forall>s \<in> set (json_strings j). \<not> sublist v s)
      else \<not> sublist v line)"

lemma run_prepared_prints:
  assumes "run_prepared sl cl pv json_mode env prepared t es = Some (r, t', es')"
    and gone: "\<And>shown. \<not> sublist v (redact (rq_redactor prepared) shown)"
  shows "\<exists>shown. tm_out t' = tm_out t @ shown \<and> (\<forall>line \<in> set shown. clean_line cl (sl_executors sl) json_mode env v line)"
proof -
  have json: "\<forall>s \<in> set (json_strings (redact_json (rq_redactor prepared) j)). \<not> sublist v s" for j
    using gone by (simp add: redact_json_strings)
  show ?thesis
  proof (cases "rq_stream prepared")
    case False
    then obtain run where run: "execute_prepared_request (sl_executors sl) prepared es = Some (run, es')"
      and out: "(case and_then run (call_output cl (pv_engine pv) json_mode env prepared) of
          Inl e \<Rightarrow> t | Inr shown \<Rightarrow> t\<lparr>tm_out := tm_out t @ [shown]\<rparr>) = t'"
      using assms(1) by (cases "execute_prepared_request (sl_executors sl) prepared es")
        (fastforce simp: run_prepared_def split: sum.splits)+
    show ?thesis
    proof (cases "and_then run (call_output cl (pv_engine pv) json_mode env prepared)")
      case (Inl e)
      with out show ?thesis by (auto intro: exI [of _ "[]"])
    next
      case (Inr shown)
      then have "clean_line cl (sl_executors sl) json_mode env v shown"
        using gone json by (cases json_mode) (auto 4 4 simp: call_output_def clean_line_def result_simps)
      with Inr out show ?thesis by (auto intro: exI [of _ "[shown]"])
    qed
  next
    case True
    let ?ol = "output_libs_of pv (sl_executors sl)"
    from True assms(1) obtain chunks r0 out where
      "render_streaming_output ?ol (rq_result_template prepared) (rq_args prepared) (rq_redactor prepared) json_mode env
         chunks (tm_out t) = (r0, out)" "tm_out t' = out"
      by (auto simp: run_prepared_def call_streaming_def split: option.splits prod.splits sum.splits)
    with streaming_prints obtain shown where "tm_out t' = tm_out t @ shown" and lines: "\<forall>line \<in> set shown.
        if json_mode then \<exists>v. line = ol_json_text ?ol (redact_json (rq_redactor prepared) v)
        else \<exists>t. line = redact (rq_redactor prepared) t"
      by blast
    moreover have "clean_line cl (sl_executors sl) json_mode env v line" if "line \<in> set shown" for line
      using lines that gone json by (fastforce simp: clean_line_def output_libs_of_def split: if_splits)
    ultimately show ?thesis by blast
  qed
qed


section \<open>Listing and validating templates\<close>

record template_list_row =
  tr_command :: string
  tr_mode :: string
  tr_categories :: "string list"
  tr_title :: string
  tr_summary :: string
  tr_description :: string
  tr_input_schema :: "param_spec list"
  tr_path :: string
  tr_scope :: string

fun template_scope_label :: "template_scope \<Rightarrow> string" where
  "template_scope_label ScopeLocal = ''local''"
| "template_scope_label ScopeGlobal = ''global''"

definition row_of :: "catalog_entry \<Rightarrow> template_list_row" where
  "row_of entry =
     \<lparr>tr_command = te_key entry, tr_mode = mode_as_str (te_mode entry), tr_categories = te_categories entry,
      tr_title = te_title entry, tr_summary = te_summary entry, tr_description = te_description entry,
      tr_input_schema = ct_params (te_template entry), tr_path = src_path (te_source entry),
      tr_scope = template_scope_label (src_scope (te_source entry))\<rparr>"

definition row_wanted :: "string option \<Rightarrow> command_mode option \<Rightarrow> catalog_entry \<Rightarrow> bool" where
  "row_wanted category mode entry \<longleftrightarrow>
     (case category of None \<Rightarrow> True | Some c \<Rightarrow> c \<in> set (te_categories entry))
     \<and> (case mode of None \<Rightarrow> True | Some m \<Rightarrow> te_mode entry = m)"

definition template_rows :: "string option \<Rightarrow> command_mode option \<Rightarrow> catalog \<Rightarrow> template_list_row list" where
  "template_rows category mode cat =
     sort_key tr_command (map row_of (filter (row_wanted category mode) (catalog_values cat)))"

text \<open>\<open>json_text\<close> is how a value is displayed.\<close>

definition format_param_schema_line :: "(json \<Rightarrow> string) \<Rightarrow> param_spec \<Rightarrow> string" where
  "format_param_schema_line json_text param =
     (let details =
        [if param_required param then ''required'' else ''optional'']
        @ (case param_default param of None \<Rightarrow> [] | Some d \<Rightarrow> [''default='' @ json_text d])
        @ (case param_description param of
             None \<Rightarrow> []
           | Some description \<Rightarrow> if trim description \<noteq> [] then [trim description] else [])
      in ''- '' @ param_name param @ '': '' @ param_type_display (param_ty param) @ '' ('' @ str_join '', '' details @ '')'')"

definition format_input_schema_list :: "(json \<Rightarrow> string) \<Rightarrow> param_spec list \<Rightarrow> string" where
  "format_input_schema_list json_text params =
     (if params = [] then ''[]'' else str_join [CHR 0x0A] (map (format_param_schema_line json_text) params))"

text \<open>The printers: rows as JSON, a table from its header and rows, a list of strings as JSON.\<close>

record list_printers =
  lp_rows_json :: "template_list_row list \<Rightarrow> string"
  lp_strings_json :: "string list \<Rightarrow> string"
  lp_table :: "string list \<Rightarrow> string list list \<Rightarrow> string"
  lp_json_text :: "json \<Rightarrow> string"
  lp_rfc3339 :: "int \<Rightarrow> string"

definition row_cells :: "list_printers \<Rightarrow> template_list_row \<Rightarrow> string list" where
  "row_cells lp row =
     [tr_command row, tr_mode row, str_join '','' (tr_categories row), tr_title row, tr_summary row,
      tr_description row, format_input_schema_list (lp_json_text lp) (tr_input_schema row), tr_path row]"

definition run_templates_list ::
    "list_printers \<Rightarrow> bool \<Rightarrow> string option \<Rightarrow> command_mode option \<Rightarrow> catalog result \<Rightarrow> (terminal, unit) action" where
  "run_templates_list lp json_mode category mode loaded =
     act_bind (act_lift loaded) (\<lambda>cat.
     let rows = template_rows category mode cat
     in print_out (if json_mode then lp_rows_json lp rows
          else lp_table lp [''Command'', ''Mode'', ''Categories'', ''Title'', ''Summary'', ''Description'', ''Input Schema'', ''Source'']
                 (map (row_cells lp) rows)))"

fun print_lines :: "string list \<Rightarrow> (terminal, unit) action" where
  "print_lines [] = act_return ()"
| "print_lines (l # ls) = act_bind (print_out l) (\<lambda>_. print_lines ls)"

definition run_templates_validate :: "list_printers \<Rightarrow> bool \<Rightarrow> string list result \<Rightarrow> (terminal, unit) action" where
  "run_templates_validate lp json_mode validated =
     act_bind (act_lift validated) (\<lambda>files.
     if json_mode then print_out (lp_strings_json lp files)
     else if files = [] then print_out ''No templates found.''
     else print_lines (map (\<lambda>path. ''ok: '' @ path) files))"

section \<open>Generating a template\<close>

partial_function (option) prompt_required :: "string \<Rightarrow> terminal \<Rightarrow> (string result \<times> terminal) option" where
  "prompt_required label t =
     (case prompt label t of
        (Inl e, t') \<Rightarrow> Some (Inl e, t')
      | (Inr v, t') \<Rightarrow>
          if trim v \<noteq> [] then Some (Inr v, t')
          else prompt_required label (snd (print_out ''A value is required.'' t')))"

definition is_identifier :: "string \<Rightarrow> bool" where
  "is_identifier raw \<longleftrightarrow> raw \<noteq> [] \<and> list_all (\<lambda>c. is_ascii_alphanumeric c \<or> c = CHR ''_'') raw"

definition hint_separators :: "string list" where
  "hint_separators = white_space @ map (\<lambda>c. [c]) ('',;:()[]{}'' @ [CHR 0x22, CHR 0x27])"

text \<open>The pieces between separators; white space may take several bytes.\<close>

function hint_tokens :: "string \<Rightarrow> string list" where
  "hint_tokens s =
     (let token = take_until hint_separators s; rest = drop (length token) s
      in case find (\<lambda>w. w \<noteq> [] \<and> prefix w rest) hint_separators of
           None \<Rightarrow> [token]
         | Some w \<Rightarrow> token # hint_tokens (drop (length w) rest))"
  by pat_completeness auto
termination
proof (relation "measure length")
  fix s token rest w
  assume "token = take_until hint_separators s" and rest: "rest = drop (length token) s"
    and "find (\<lambda>w. w \<noteq> [] \<and> prefix w rest) hint_separators = Some w"
  then have "w \<noteq> []" "prefix w rest" by (auto simp: find_Some_iff)
  then have "length (drop (length w) rest) < length rest" by (auto simp: prefix_def)
  also have "length rest \<le> length s" by (simp add: rest)
  finally show "(drop (length w) rest, s) \<in> measure length" by simp
qed simp

declare hint_tokens.simps [simp del]

fun first_hint :: "string list \<Rightarrow> (string \<times> string) option" where
  "first_hint [] = None"
| "first_hint (token # tokens) =
     (case split_once ''.'' token of
        None \<Rightarrow> first_hint tokens
      | Some (provider, command) \<Rightarrow>
          if is_identifier provider \<and> is_identifier command then Some (provider, command)
          else first_hint tokens)"

definition extract_command_hint :: "string \<Rightarrow> (string \<times> string) option" where
  "extract_command_hint raw = first_hint (hint_tokens raw)"

definition hint_block :: "string \<Rightarrow> string" where
  "hint_block request =
     (case extract_command_hint request of
        Some (provider, command) \<Rightarrow>
          ''- likely command key: `'' @ provider @ ''.'' @ command @ ''`'' @ [CHR 0x0A]
          @ ''- likely file: `templates/'' @ provider @ ''.hcl`''
      | None \<Rightarrow> ''- infer command key and file path from the user request'')"

definition build_template_generation_prompt :: "string \<Rightarrow> string" where
  "build_template_generation_prompt request =
     concat (map (\<lambda>l. l @ [CHR 0x0A])
       [''You are editing templates for the earl CLI project.'',
        [],
        ''User request:'',
        request,
        [],
        ''Hints:'',
        hint_block request,
        [],
        ''Constraints:'',
        ''- Do most of the design work yourself; avoid asking follow-up questions unless strictly necessary.'',
        ''- Follow the earl template schema (`version`, `provider`, `commands`, `params`, `operation`, `result`).'',
        ''- Create or update the command in the provider file (prefer `templates/<provider>.hcl`).'',
        ''- Determine `annotations.mode` (`read` vs `write`) from the requested behavior.'',
        ''- Keep existing commands in the same file unless they must be adjusted for schema correctness.'',
        ''- Include a useful `title`, `summary`, and markdown `description`.'',
        ''- Add a `## Guidance for AI agents` section and an `earl call provider.command --param value` usage example in the description.'',
        ''- Model parameters in `params` with appropriate `type`, `required`, and `default`.'',
        ''- Prefer least-privilege handling for secrets/auth and avoid overbroad network behavior.'',
        [],
        ''After editing:'',
        ''1. Run `earl templates validate`.'',
        ''2. If validation fails, fix the template and rerun validation.'',
        ''3. Return a brief summary of what changed and any assumptions.''])"

text \<open>The coding tool: starting it, its input, writing to the input, and how it ended.\<close>

record coding_cli =
  cc_spawn :: "string \<Rightarrow> string list \<Rightarrow> string + unit"
  cc_has_stdin :: bool
  cc_write :: "string \<Rightarrow> string + unit"
  cc_write_newline :: "string + unit"
  cc_wait :: "string + bool \<times> string"

definition feed_coding_cli :: "coding_cli \<Rightarrow> string \<Rightarrow> string list \<Rightarrow> string \<Rightarrow> unit result" where
  "feed_coding_cli cc program cli_args generated_prompt =
     and_then (with_context (''failed to start coding CLI `'' @ program @ ''`'') (os_error (cc_spawn cc program cli_args))) (\<lambda>_.
     and_then (ensure (cc_has_stdin cc) ''failed opening coding CLI stdin'') (\<lambda>_.
     and_then (with_context ''failed writing prompt to coding CLI stdin'' (os_error (cc_write cc generated_prompt))) (\<lambda>_.
     and_then (with_context ''failed writing newline to coding CLI stdin'' (os_error (cc_write_newline cc))) (\<lambda>_.
     and_then (with_context ''failed waiting for coding CLI process'' (os_error (cc_wait cc))) (\<lambda>(success, status).
     if \<not> success then bail (''coding CLI exited with status '' @ status) else Inr ())))))"

definition run_template_generate ::
    "coding_cli \<Rightarrow> string list \<Rightarrow> bool \<Rightarrow> terminal \<Rightarrow> (unit result \<times> terminal) option" where
  "run_template_generate cc command json_mode t =
     (if json_mode then Some (bail ''`earl templates generate` does not support --json'', t)
      else
        case prompt_required ''Describe the template you want (include provider.command if known): ''
               (snd (print_out ''Template generation wizard'' t)) of
          None \<Rightarrow> None
        | Some (Inl e, t') \<Rightarrow> Some (Inl e, t')
        | Some (Inr request, t') \<Rightarrow>
            Some (case command of
              [] \<Rightarrow> (bail ''missing coding CLI command'', t')
            | program # cli_args \<Rightarrow>
                act_bind (print_out (''Sending prompt to coding CLI: '' @ str_join '' '' command)) (\<lambda>_.
                act_bind (act_lift (feed_coding_cli cc program cli_args (build_template_generation_prompt request))) (\<lambda>_.
                print_out ''Template request sent.'')) t'))"

section \<open>When the wizard gets its answer\<close>

lemma next_line_Nil: "next_line s = [] \<longleftrightarrow> s = []"
  by (cases s) (auto simp: next_line_def takeWhile_eq_Nil_iff)

function input_lines :: "string \<Rightarrow> string list" where
  "input_lines s = (if s = [] then [] else next_line s # input_lines (drop (length (next_line s)) s))"
  by pat_completeness auto
termination by (relation "measure length") (auto simp: next_line_Nil)

declare input_lines.simps [simp del]

definition blank_line :: "string \<Rightarrow> bool" where
  "blank_line l \<longleftrightarrow> is_utf8 l \<and> trim (trim_end_matches line_end l) = []"

definition line_read :: "terminal \<Rightarrow> string list \<Rightarrow> terminal" where
  "line_read t printed =
     t\<lparr>tm_stdin := (tm_stdin t)\<lparr>si_bytes := drop (length (next_line (si_bytes (tm_stdin t)))) (si_bytes (tm_stdin t))\<rparr>,
       tm_out := tm_out t @ printed\<rparr>"

lemma prompt_run:
  "prompt label t =
     (let s = si_bytes (tm_stdin t); l = next_line s
      in if CHR 0x0A \<notin> set s \<and> si_error (tm_stdin t) \<noteq> None then (Inl [the (si_error (tm_stdin t))], line_read t [label])
         else if \<not> is_utf8 l then (bail no_utf8, line_read t [label])
         else (Inr (trim_end_matches line_end l), line_read t [label]))"
  by (simp add: prompt_def print_out_def read_answer_def act_bind_def read_line_def act_return_def line_read_def Let_def
      bail_def)

lemma prompt_required_step:
  "prompt_required label t =
     (let s = si_bytes (tm_stdin t); l = next_line s
      in if CHR 0x0A \<notin> set s \<and> si_error (tm_stdin t) \<noteq> None then Some (Inl [the (si_error (tm_stdin t))], line_read t [label])
         else if \<not> is_utf8 l then Some (bail no_utf8, line_read t [label])
         else if blank_line l then prompt_required label (line_read t [label, ''A value is required.''])
         else Some (Inr (trim_end_matches line_end l), line_read t [label]))"
  by (subst prompt_required.simps)
    (simp add: prompt_run Let_def blank_line_def bail_def print_out_def line_read_def)

lemma blank_Nil: "blank_line []"
  by (simp add: blank_line_def trim_end_matches_def is_utf8_ascii)

lemma prompt_required_end:
  assumes "prompt_required label t = Some x"
  shows "\<not> (si_bytes (tm_stdin t) = [] \<and> si_error (tm_stdin t) = None)"
proof (rule prompt_required.raw_induct [where P = "\<lambda>label t x. \<not> (si_bytes (tm_stdin t) = [] \<and> si_error (tm_stdin t) = None)",
      OF _ assms])
  fix ask :: "string \<Rightarrow> terminal \<Rightarrow> (string result \<times> terminal) option" and label t x
  assume IH: "\<And>label t x. ask label t = Some x \<Longrightarrow> \<not> (si_bytes (tm_stdin t) = [] \<and> si_error (tm_stdin t) = None)"
    and body: "(case prompt label t of (Inl e, t') \<Rightarrow> Some (Inl e, t')
      | (Inr v, t') \<Rightarrow> if trim v \<noteq> [] then Some (Inr v, t')
          else ask label (snd (print_out ''A value is required.'' t'))) = Some x"
  show "\<not> (si_bytes (tm_stdin t) = [] \<and> si_error (tm_stdin t) = None)"
  proof
    assume empty: "si_bytes (tm_stdin t) = [] \<and> si_error (tm_stdin t) = None"
    then have "prompt label t = (Inr [], line_read t [label])"
      using blank_Nil by (simp add: prompt_run Let_def blank_line_def next_line_def trim_end_matches_def)
    with body have "ask label (snd (print_out ''A value is required.'' (line_read t [label]))) = Some x" by simp
    from IH [OF this] empty show False by (simp add: print_out_def line_read_def)
  qed
qed

lemma input_lines_Cons: "s \<noteq> [] \<Longrightarrow> input_lines s = next_line s # input_lines (drop (length (next_line s)) s)"
  by (subst input_lines.simps) simp

lemma prompt_required_some:
  "(\<exists>r t'. prompt_required label t = Some (r, t'))
     \<longleftrightarrow> si_error (tm_stdin t) \<noteq> None \<or> (\<exists>l \<in> set (input_lines (si_bytes (tm_stdin t))). \<not> blank_line l)"
proof (induction "si_bytes (tm_stdin t)" arbitrary: t rule: input_lines.induct)
  case (1 t)
  let ?s = "si_bytes (tm_stdin t)" and ?next = "line_read t [label, ''A value is required.'']"
  have kept: "si_error (tm_stdin ?next) = si_error (tm_stdin t)"
    "si_bytes (tm_stdin ?next) = drop (length (next_line ?s)) ?s" by (simp_all add: line_read_def)
  show ?case
  proof (cases "?s = []")
    case True
    show ?thesis
    proof (cases "si_error (tm_stdin t)")
      case None
      with True prompt_required_end [of label t] show ?thesis by (auto simp: input_lines.simps)
    next
      case (Some e)
      with True show ?thesis by (subst prompt_required_step) (simp add: Let_def)
    qed
  next
    case False
    show ?thesis
    proof (cases "(CHR 0x0A \<notin> set ?s \<and> si_error (tm_stdin t) \<noteq> None) \<or> \<not> is_utf8 (next_line ?s) \<or> \<not> blank_line (next_line ?s)")
      case True
      with False have "si_error (tm_stdin t) \<noteq> None \<or> (\<exists>l \<in> set (input_lines ?s). \<not> blank_line l)"
        by (auto simp: input_lines_Cons blank_line_def)
      moreover from True have "\<exists>r t'. prompt_required label t = Some (r, t')"
        by (subst prompt_required_step) (auto simp: Let_def)
      ultimately show ?thesis by simp
    next
      case blank: False
      then have step: "prompt_required label t = prompt_required label ?next"
        by (subst prompt_required_step) (auto simp: Let_def)
      from False 1 [OF False] kept have "(\<exists>r t'. prompt_required label ?next = Some (r, t'))
          \<longleftrightarrow> si_error (tm_stdin t) \<noteq> None \<or> (\<exists>l \<in> set (input_lines (drop (length (next_line ?s)) ?s)). \<not> blank_line l)"
        by auto
      with step blank False show ?thesis by (simp add: input_lines_Cons)
    qed
  qed
qed

text \<open>
  The prompt of the template generator asks forever exactly on an input of blank lines that simply
  ends, such as an empty one; it comes back when a line is not blank or not UTF-8, or when the input ends
  in a read error.
\<close>

theorem prompt_required_returns:
  "prompt_required label t = None
     \<longleftrightarrow> si_error (tm_stdin t) = None \<and> list_all blank_line (input_lines (si_bytes (tm_stdin t)))"
  using prompt_required_some [of label t] by (cases "prompt_required label t") (auto simp: list_all_iff)

section \<open>Secrets\<close>

datatype secrets_command =
    SecretsSet string bool
  | SecretsGet string
  | SecretsList
  | SecretsDelete string

type_synonym ('st, 'f) secrets_cli = "terminal \<times> ('st, 'f) secret_world"

definition on_terminal :: "(terminal, 'a) action \<Rightarrow> (('st, 'f) secrets_cli, 'a) action" where
  "on_terminal m = (\<lambda>(t, w). case m t of (r, t') \<Rightarrow> (r, (t', w)))"

definition on_secrets :: "(('st, 'f) secret_world, 'a) action \<Rightarrow> (('st, 'f) secrets_cli, 'a) action" where
  "on_secrets m = (\<lambda>(t, w). case m w of (r, w') \<Rightarrow> (r, (t, w')))"

text \<open>\<open>read_to_string\<close> on standard input.\<close>

definition read_all :: "(terminal, string) action" where
  "read_all t =
     (let inp = tm_stdin t; t' = t\<lparr>tm_stdin := inp\<lparr>si_bytes := []\<rparr>\<rparr>
      in case si_error inp of
           Some e \<Rightarrow> (Inl [e], t')
         | None \<Rightarrow> if is_utf8 (si_bytes inp) then (Inr (si_bytes inp), t') else (bail no_utf8, t'))"

text \<open>What the secrets commands use: the store, the index file, the clock, the password prompt and the printers.\<close>

record ('st, 'f) secrets_libs =
  sc_store :: "'st secret_store_ops"
  sc_io :: "'f index_io"
  sc_now :: int
  sc_password :: "string \<Rightarrow> string + string"
  sc_printers :: list_printers

definition external_key_error :: "string \<Rightarrow> string" where
  "external_key_error key =
     ''secret key `'' @ key @ ''` looks like an external secret reference (contains ://). ''
     @ ''External secrets are read-only and managed by their respective secret managers. ''
     @ ''Use `earl secrets set <name>` for keychain secrets only.''"

definition secret_input :: "('st, 'f) secrets_libs \<Rightarrow> bool \<Rightarrow> (terminal, string) action" where
  "secret_input sc from_stdin =
     (if from_stdin
      then act_bind read_all (\<lambda>raw. act_return (trim_end_matches line_end raw))
      else act_lift (with_context ''failed reading secret from terminal'' (os_error (sc_password sc ''Enter secret value: ''))))"

definition secret_lines :: "list_printers \<Rightarrow> string \<Rightarrow> secret_metadata \<Rightarrow> string list" where
  "secret_lines lp key meta =
     [''key: '' @ key, ''created_at: '' @ lp_rfc3339 lp (sm_created_at meta),
      ''updated_at: '' @ lp_rfc3339 lp (sm_updated_at meta), ''value: [REDACTED]'']"

fun run_secrets :: "('st, 'f) secrets_libs \<Rightarrow> secrets_command \<Rightarrow> (('st, 'f) secrets_cli, unit) action" where
  "run_secrets sc (SecretsSet key from_stdin) =
     (if sublist ''://'' key then act_lift (bail (external_key_error key))
      else
        act_bind (on_terminal (secret_input sc from_stdin)) (\<lambda>v.
        act_bind (on_secrets (manager_set (sc_store sc) (sc_io sc) (sc_now sc) key v)) (\<lambda>_.
        on_terminal (print_out (''Stored secret `'' @ key @ ''`.'')))))"
| "run_secrets sc (SecretsGet key) =
     act_bind (on_secrets (manager_get (sc_store sc) (sc_io sc) (sc_now sc) key)) (\<lambda>found.
     case found of
       Some meta \<Rightarrow> on_terminal (print_lines (secret_lines (sc_printers sc) key meta))
     | None \<Rightarrow> act_lift (bail (''secret `'' @ key @ ''` not found'')))"
| "run_secrets sc SecretsList =
     act_bind (on_secrets (manager_list (sc_io sc))) (\<lambda>entries.
     on_terminal (print_out
       (if entries = [] then ''No secrets found.''
        else lp_table (sc_printers sc) [''Key'', ''Created'', ''Updated'']
               (map (\<lambda>meta. [sm_key meta, lp_rfc3339 (sc_printers sc) (sm_created_at meta),
                             lp_rfc3339 (sc_printers sc) (sm_updated_at meta)]) entries))))"
| "run_secrets sc (SecretsDelete key) =
     act_bind (on_secrets (manager_delete (sc_store sc) (sc_io sc) key)) (\<lambda>deleted.
     on_terminal (print_out (if deleted then ''Deleted secret `'' @ key @ ''`.''
                             else ''Secret `'' @ key @ ''` did not exist.'')))"

section \<open>Starting the MCP server\<close>

record mcp_args =
  ma_transport :: server_transport
  ma_mode :: mcp_mode
  ma_yes :: bool
  ma_allow_unauthenticated :: bool

definition run_mcp ::
    "('n, 'jwk, 'dk) jwt_libs \<Rightarrow> mcp_args \<Rightarrow> catalog result \<Rightarrow> config \<Rightarrow> 'n jwt_net \<Rightarrow>
     ((mcp_state \<times> jwks_cache option) result \<times> 'n jwt_net) option" where
  "run_mcp jl args loaded cfg net =
     (case loaded of
        Inl e \<Rightarrow> Some (Inl e, net)
      | Inr cat \<Rightarrow>
          start_server jl \<lparr>so_transport = ma_transport args, so_mode = ma_mode args, so_auto_yes = ma_yes args,
              so_allow_unauthenticated = ma_allow_unauthenticated args\<rparr> cat cfg net)"

section \<open>The secrets commands hide the values\<close>

text \<open>Results that tell the same whatever the value of a secret is.\<close>

definition same_found :: "'a option result \<Rightarrow> 'a option result \<Rightarrow> bool" where
  "same_found a b \<longleftrightarrow>
     (case (a, b) of (Inl e, Inl e') \<Rightarrow> e = e' | (Inr x, Inr y) \<Rightarrow> (x = None) = (y = None) | _ \<Rightarrow> False)"

text \<open>A store with states that differ in the values only: what its operations say does not depend on them.\<close>

definition hides_values :: "'st secret_store_ops \<Rightarrow> ('st \<Rightarrow> 'st \<Rightarrow> bool) \<Rightarrow> bool" where
  "hides_values store same \<longleftrightarrow>
     (\<forall>st1 st2. same st1 st2 \<longrightarrow>
        (\<forall>k a b. fst (set_secret store k a st1) = fst (set_secret store k b st2)
           \<and> same (snd (set_secret store k a st1)) (snd (set_secret store k b st2)))
        \<and> (\<forall>k. same_found (get_secret store k st1) (get_secret store k st2))
        \<and> (\<forall>k. fst (delete_secret store k st1) = fst (delete_secret store k st2)
           \<and> same (snd (delete_secret store k st1)) (snd (delete_secret store k st2))))"

definition same_keys :: "memory_store \<Rightarrow> memory_store \<Rightarrow> bool" where
  "same_keys st1 st2 \<longleftrightarrow> ms_poisoned st1 = ms_poisoned st2 \<and> bt_keys (ms_values st1) = bt_keys (ms_values st2)"

lemma bt_keys_insert_same: "bt_keys m1 = bt_keys m2 \<Longrightarrow> bt_keys (bt_insert k a m1) = bt_keys (bt_insert k b m2)"
proof (induction m1 arbitrary: m2)
  case (Cons x m1)
  then show ?case by (cases x; cases m2) auto
qed simp

lemma bt_keys_remove_same: "bt_keys m1 = bt_keys m2 \<Longrightarrow> bt_keys (bt_remove k m1) = bt_keys (bt_remove k m2)"
proof (induction m1 arbitrary: m2)
  case (Cons x m1)
  then show ?case by (cases x; cases m2) auto
qed simp

lemma bt_get_same: "bt_keys m1 = bt_keys m2 \<Longrightarrow> (bt_get m1 k = None) = (bt_get m2 k = None)"
  by (simp add: bt_get_None_iff)

lemma memory_hides_values: "hides_values in_memory_store same_keys"
  unfolding hides_values_def
proof (intro allI impI conjI)
  fix st1 st2 :: memory_store and k a b :: string
  assume "same_keys st1 st2"
  then have poisoned: "ms_poisoned st1 = ms_poisoned st2" and keys: "bt_keys (ms_values st1) = bt_keys (ms_values st2)"
    by (simp_all add: same_keys_def)
  have found: "(bt_get (ms_values st1) k = None) = (bt_get (ms_values st2) k = None)"
    using keys by (rule bt_get_same)
  show "fst (set_secret in_memory_store k a st1) = fst (set_secret in_memory_store k b st2)"
    using poisoned by (simp add: in_memory_store_def mem_set_secret_def)
  show "same_keys (snd (set_secret in_memory_store k a st1)) (snd (set_secret in_memory_store k b st2))"
    using poisoned bt_keys_insert_same [OF keys] keys by (simp add: in_memory_store_def mem_set_secret_def same_keys_def)
  show "same_found (get_secret in_memory_store k st1) (get_secret in_memory_store k st2)"
    using poisoned found by (simp add: in_memory_store_def mem_get_secret_def same_found_def)
  show "fst (delete_secret in_memory_store k st1) = fst (delete_secret in_memory_store k st2)"
    unfolding in_memory_store_def mem_delete_secret_def by (simp only: poisoned found secret_store_ops.simps split: if_split) simp
  show "same_keys (snd (delete_secret in_memory_store k st1)) (snd (delete_secret in_memory_store k st2))"
    using poisoned bt_keys_remove_same [OF keys] keys by (simp add: in_memory_store_def mem_delete_secret_def same_keys_def)
qed

text \<open>Two worlds with the same index whose stores differ in values only, and actions that cannot tell them apart.\<close>

definition alike :: "('st \<Rightarrow> 'st \<Rightarrow> bool) \<Rightarrow> ('st, 'f) secret_world \<Rightarrow> ('st, 'f) secret_world \<Rightarrow> bool" where
  "alike same w1 w2 \<longleftrightarrow> same (sw_store w1) (sw_store w2) \<and> sw_index w1 = sw_index w2"

definition blind ::
    "('st \<Rightarrow> 'st \<Rightarrow> bool) \<Rightarrow> (('st, 'f) secret_world, 'a) action \<Rightarrow> (('st, 'f) secret_world, 'a) action \<Rightarrow> bool" where
  "blind same m1 m2 \<longleftrightarrow>
     (\<forall>w1 w2. alike same w1 w2 \<longrightarrow> fst (m1 w1) = fst (m2 w2) \<and> alike same (snd (m1 w1)) (snd (m2 w2)))"

lemma blind_bind:
  fixes m1 m2 :: "(('st, 'f) secret_world, 'a) action"
  assumes "blind same m1 m2" and "\<And>x. blind same (k1 x) (k2 x)"
  shows "blind same (act_bind m1 k1) (act_bind m2 k2)"
  unfolding blind_def
proof (intro allI impI)
  fix w1 w2 :: "('st, 'f) secret_world" assume w: "alike same w1 w2"
  obtain r1 v1 r2 v2 where run: "m1 w1 = (r1, v1)" "m2 w2 = (r2, v2)" by (cases "m1 w1"; cases "m2 w2")
  with assms(1) w have same: "r2 = r1" "alike same v1 v2" unfolding blind_def by (metis fst_conv snd_conv)+
  show "fst (act_bind m1 k1 w1) = fst (act_bind m2 k2 w2)
      \<and> alike same (snd (act_bind m1 k1 w1)) (snd (act_bind m2 k2 w2))"
  proof (cases r1)
    case (Inl e)
    with run same show ?thesis by (simp add: act_bind_def)
  next
    case (Inr x)
    with run same assms(2) [of x] show ?thesis by (simp add: act_bind_def blind_def)
  qed
qed

lemma blind_return: "blind same (act_return x) (act_return x)"
  by (simp add: blind_def act_return_def)

lemma blind_index: "blind same (on_index m) (on_index m)"
  by (auto simp: blind_def alike_def on_index_def split: prod.splits)

lemma blind_load: "blind same (manager_load_index io) (manager_load_index io)"
  by (auto simp: blind_def alike_def manager_load_index_def)

lemma blind_set: "hides_values store same \<Longrightarrow> blind same (on_store (set_secret store k a)) (on_store (set_secret store k b))"
  unfolding hides_values_def blind_def alike_def on_store_def by (simp add: split_beta)

lemma blind_delete: "hides_values store same \<Longrightarrow> blind same (on_store (delete_secret store k)) (on_store (delete_secret store k))"
  unfolding hides_values_def blind_def alike_def on_store_def by (simp add: split_beta)

lemma blind_manager_set:
  "hides_values store same \<Longrightarrow> blind same (manager_set store io now k a) (manager_set store io now k b)"
  unfolding manager_set_def by (intro blind_bind blind_set blind_load blind_index)

lemma blind_manager_delete:
  "hides_values store same \<Longrightarrow> blind same (manager_delete store io k) (manager_delete store io k)"
  unfolding manager_delete_def by (intro blind_bind blind_delete blind_load blind_index blind_return)

lemma blind_manager_list: "blind same (manager_list io) (manager_list io)"
  unfolding manager_list_def by (intro blind_bind blind_load blind_return)

lemma blind_manager_get:
  fixes store :: "'st secret_store_ops" and io :: "'f index_io"
  assumes "hides_values store same"
  shows "blind same (manager_get store io now k) (manager_get store io now k)"
proof -
  let ?rest = "\<lambda>index. if index_get index k = None then
         act_bind (on_index (save_index io (index_upsert now k index))) (\<lambda>_. act_return (index_get (index_upsert now k index) k))
       else act_return (index_get index k)"
  have rest: "blind same (act_bind (manager_load_index io) ?rest) (act_bind (manager_load_index io) ?rest)"
    by (intro blind_bind blind_load) (simp add: blind_bind blind_index blind_return)
  show ?thesis
    unfolding blind_def
  proof (intro allI impI)
    fix w1 w2 :: "('st, 'f) secret_world" assume w: "alike same w1 w2"
    have "same_found (get_secret store k (sw_store w1)) (get_secret store k (sw_store w2))"
      using assms w unfolding hides_values_def alike_def by blast
    with w rest show "fst (manager_get store io now k w1) = fst (manager_get store io now k w2)
        \<and> alike same (snd (manager_get store io now k w1)) (snd (manager_get store io now k w2))"
      unfolding manager_get_def blind_def
      by (cases "get_secret store k (sw_store w1)"; cases "get_secret store k (sw_store w2)")
        (auto simp: same_found_def act_bind_def act_return_def split: option.splits)
  qed
qed

text \<open>Two ends of a command that look the same.\<close>

definition twins ::
    "('st \<Rightarrow> 'st \<Rightarrow> bool) \<Rightarrow> unit result \<times> ('st, 'f) secrets_cli \<Rightarrow> unit result \<times> ('st, 'f) secrets_cli \<Rightarrow> bool" where
  "twins same = (\<lambda>(r1, t1, w1) (r2, t2, w2). r1 = r2 \<and> t1 = t2 \<and> alike same w1 w2)"

lemma twins_bind:
  assumes "blind same m1 m2" and "alike same w1 w2"
    and "\<And>x. k1 x = on_terminal (p x) \<and> k2 x = on_terminal (p x)"
  shows "twins same (act_bind (on_secrets m1) k1 (t, w1)) (act_bind (on_secrets m2) k2 (t, w2))"
proof -
  obtain r1 v1 r2 v2 where run: "m1 w1 = (r1, v1)" "m2 w2 = (r2, v2)" by (cases "m1 w1"; cases "m2 w2")
  with assms(1,2) have same: "r2 = r1" "alike same v1 v2" unfolding blind_def by (metis fst_conv snd_conv)+
  show ?thesis
  proof (cases r1)
    case (Inl e)
    with run same show ?thesis by (simp add: act_bind_def on_secrets_def twins_def)
  next
    case (Inr x)
    with run same assms(3) [of x] show ?thesis
      by (cases "p x t") (simp add: act_bind_def on_secrets_def on_terminal_def twins_def act_lift_def)
  qed
qed

lemma lift_on_terminal: "act_lift r = on_terminal (act_lift r)"
  by (auto simp: act_lift_def on_terminal_def)

text \<open>
  The commands on secrets never show a value: what they print and how they end is the same for two
  stores that differ only in the values of their secrets, whatever is typed at the password prompt, and
  leaves two such stores again.
\<close>

theorem secrets_commands_hide_values:
  assumes "hides_values (sc_store sc) same" and "same (sw_store w1) (sw_store w2)" and "sw_index w1 = sw_index w2"
    and "sc_password sc ''Enter secret value: '' = Inr a" and "password ''Enter secret value: '' = Inr b"
    and "run_secrets sc command (t, w1) = (r1, t1, w1')"
    and "run_secrets (sc\<lparr>sc_password := password\<rparr>) command (t, w2) = (r2, t2, w2')"
  shows "r2 = r1 \<and> t2 = t1 \<and> sw_index w2' = sw_index w1' \<and> same (sw_store w1') (sw_store w2')"
proof -
  have w: "alike same w1 w2" using assms(2,3) by (simp add: alike_def)
  have kept: "sc_store (sc\<lparr>sc_password := password\<rparr>) = sc_store sc" "sc_io (sc\<lparr>sc_password := password\<rparr>) = sc_io sc"
    "sc_now (sc\<lparr>sc_password := password\<rparr>) = sc_now sc" "sc_printers (sc\<lparr>sc_password := password\<rparr>) = sc_printers sc"
    by simp_all
  have "twins same (run_secrets sc command (t, w1)) (run_secrets (sc\<lparr>sc_password := password\<rparr>) command (t, w2))"
  proof (cases command)
    case (SecretsSet key from_stdin)
    let ?set = "\<lambda>v. act_bind (on_secrets (manager_set (sc_store sc) (sc_io sc) (sc_now sc) key v))
        (\<lambda>_. on_terminal (print_out (''Stored secret `'' @ key @ ''`.'')))"
    have stored: "twins same (?set v1 (t', w1)) (?set v2 (t', w2))" for v1 v2 t'
      by (rule twins_bind [OF blind_manager_set [OF assms(1)] w]) simp
    show ?thesis
    proof (cases from_stdin)
      case True
      then have same_input: "secret_input (sc\<lparr>sc_password := password\<rparr>) from_stdin = secret_input sc from_stdin"
        by (simp add: secret_input_def)
      obtain r t' where "secret_input sc from_stdin t = (r, t')" by (cases "secret_input sc from_stdin t")
      with stored w same_input show ?thesis
        by (cases r) (auto simp: SecretsSet act_bind_def on_terminal_def twins_def act_lift_def)
    next
      case False
      with assms(4,5) have "secret_input sc from_stdin t = (Inr a, t)"
        "secret_input (sc\<lparr>sc_password := password\<rparr>) from_stdin t = (Inr b, t)"
        by (simp_all add: secret_input_def act_lift_def os_error_def)
      with stored w show ?thesis
        by (auto simp: SecretsSet act_bind_def on_terminal_def twins_def act_lift_def)
    qed
  next
    case (SecretsGet key)
    show ?thesis
      unfolding SecretsGet run_secrets.simps kept
      by (rule twins_bind [OF blind_manager_get [OF assms(1)] w,
            where p = "\<lambda>found. case found of Some meta \<Rightarrow> print_lines (secret_lines (sc_printers sc) key meta)
              | None \<Rightarrow> act_lift (bail (''secret `'' @ key @ ''` not found''))"])
        (auto simp: lift_on_terminal [symmetric] split: option.splits)
  next
    case SecretsList
    show ?thesis
      unfolding SecretsList run_secrets.simps kept
      by (rule twins_bind [OF blind_manager_list w]) simp
  next
    case (SecretsDelete key)
    show ?thesis
      unfolding SecretsDelete run_secrets.simps kept
      by (rule twins_bind [OF blind_manager_delete [OF assms(1)] w]) simp
  qed
  then show ?thesis unfolding assms(6,7) by (simp add: twins_def alike_def)
qed

text \<open>A name with the mark of an external reference is refused before anything is read or stored.\<close>

lemma external_key_refused:
  "sublist ''://'' key \<Longrightarrow> run_secrets sc (SecretsSet key from_stdin) tw = (bail (external_key_error key), tw)"
  by (simp add: act_lift_def)

section \<open>A concrete call\<close>

definition cli_sample :: cli_libs where
  "cli_sample = \<lparr>cl_parse_f64 = (\<lambda>s. None), cl_json_from_str = (\<lambda>s. None), cl_json_pretty = (\<lambda>v. ''{}''), cl_aborted_after = 0\<rparr>"

definition cli_args :: call_args where
  "cli_args = \<lparr>ca_command = ''db.rows'', ca_args = [], ca_yes = False, ca_json = False, ca_env = None\<rparr>"

definition cli_terminal :: terminal where
  "cli_terminal = \<lparr>tm_stdin = \<lparr>si_bytes = [], si_error = None\<rparr>, tm_out = [], tm_err = []\<rparr>"

definition cli_start :: "(unit, unit, nat) cli_world" where
  "cli_start = \<lparr>cw_terminal = cli_terminal, cw_server = sample_world\<rparr>"

definition cli_end :: "(unit, unit, nat) cli_world" where
  "cli_end = \<lparr>cw_terminal = cli_terminal\<lparr>tm_out := [redact (rq_redactor mcp_prepared) ''done'']\<rparr>, cw_server = mcp_world_end\<rparr>"

text \<open>The entry of the sample server without a default environment.\<close>

definition cli_entry :: catalog_entry where
  "cli_entry = mcp_entry\<lparr>te_provider_environments := Some \<lparr>pe_default = None, pe_secrets = [''k''],
     pe_environments = [(''prod'', [(''v'', ''{{ secrets.k }}'')])]\<rparr>\<rparr>"

lemma cli_env: "active_env_of (ca_env cli_args) mcp_cfg_sample cli_entry = Inr None"
  by (simp add: active_env_of_def cli_args_def mcp_cfg_sample_def resolve_active_env_def cli_entry_def)

lemma cli_select: "select_for_env (te_template cli_entry) None = (sample_sql ''select ?'', ct_result mcp_command)"
  by (simp add: cli_entry_def mcp_select)

lemma cli_declared: "declared_keys cli_entry = [''db.url'', ''k'']"
  by code_simp

lemma cli_build: "build_prepared_request sample_provision cli_entry [] None s = (Inr mcp_prepared, s)"
  by (rule sample_build) (simp_all add: cli_declared cli_select, simp_all add: cli_entry_def)

lemma cli_ready:
  "ready_call cli_sample cli_args mcp_cfg_sample (Inr [(''db.rows'', cli_entry)]) cli_terminal
     = (Inr (cli_entry, [], None), cli_terminal)"
proof -
  have "parse_cli_args pf pj ''db.rows'' [] params
      = Inr \<lparr>ce_provider = ''db'', ce_command = ''rows'', ce_positional_args = [], ce_named_args = []\<rparr>" for pf pj params
  proof -
    have "split_once ''.'' ''db.rows'' = Some (''db'', ''rows'')" by code_simp
    then show ?thesis by (simp add: parse_cli_args_def ok_or_def)
  qed
  moreover have "bind_arguments \<lparr>ce_provider = ''db'', ce_command = ''rows'', ce_positional_args = [], ce_named_args = []\<rparr>
      (ct_params (te_template cli_entry)) = Inr []"
    by (simp add: bind_arguments_def cli_entry_def mcp_entry_def mcp_command_def)
  moreover have "te_mode cli_entry = ModeRead"
    by (simp add: cli_entry_def mcp_entry_def sample_entry_def entry_of_def sample_command_def)
  moreover have "ca_command cli_args = ''db.rows''" "ca_args cli_args = []" by (simp_all add: cli_args_def)
  ultimately show ?thesis
    using cli_env by (simp add: ready_call_def catalog_get_def act_bind_def act_lift_def act_return_def)
qed

lemma cli_run:
  "run_call sample_server cli_sample cli_args mcp_cfg_sample (Inr [(''db.rows'', cli_entry)]) cli_start
     = Some (Inr (), cli_end)"
proof -
  have oauth: "sl_oauth_new sample_server c = Inr ()" for c by (simp add: sample_server_def)
  have "plain_text ''done''" by code_simp
  then have "render_human_output (pv_engine sample_provision) (rq_result_template mcp_prepared) (rq_args mcp_prepared) JNull
      = Inr ''done''"
    by (simp add: mcp_fields render_human_output_def render_string_raw_def jinja_def sample_provision_def
        sample_engine_def with_context_def Let_def)
  moreover have "rq_stream mcp_prepared = False"
    by (simp add: mcp_prepared_def finish_request_def sample_sql_def mcp_select)
  moreover have "sw_exec sample_world = sample_exec_start" by (simp add: sample_world_def)
  ultimately have "run_prepared sample_server cli_sample sample_provision False None mcp_prepared cli_terminal (sw_exec sample_world)
      = Some (Inr (), cli_terminal\<lparr>tm_out := [redact (rq_redactor mcp_prepared) ''done'']\<rparr>, mcp_exec_end)"
    by (simp add: run_prepared_def mcp_execute call_output_def cli_terminal_def)
  moreover have "ca_json cli_args = False" by (simp add: cli_args_def)
  ultimately show ?thesis
    by (simp add: run_call_def cli_start_def cli_ready oauth Let_def mcp_sample_provision cli_build cli_end_def mcp_world_end_def
        sample_world_def)
qed

theorem cli_write_needs_yes_witness:
  "\<exists>cat entry env. Inr [(''db.rows'', cli_entry)] = (Inr cat :: catalog result) \<and> catalog_get cat ''db.rows'' = Some entry
    \<and> active_env_of None mcp_cfg_sample entry = Inr env"
proof -
  have "cw_server cli_end \<noteq> cw_server cli_start" using mcp_world_changed by (simp add: cli_end_def cli_start_def)
  from cli_write_needs_yes [OF cli_run this] show ?thesis unfolding cli_args_def call_args.simps by blast
qed

theorem cli_requests_stay_inside_witness:
  "\<exists>sent. xs_sent (sw_exec mcp_world_end) = xs_sent (sw_exec sample_world) @ sent
     \<and> list_all (config_safe_send (cfg_network mcp_cfg_sample)) sent"
  using cli_requests_stay_inside [OF cli_run] by (auto simp: cli_end_def cli_start_def)


definition two_stores :: "string \<Rightarrow> (memory_store, secret_index) secret_world" where
  "two_stores v = \<lparr>sw_store = \<lparr>ms_poisoned = False, ms_values = [(''gh.token'', v)]\<rparr>, sw_index = None\<rparr>"

definition sample_secrets_libs :: "(memory_store, secret_index) secrets_libs" where
  "sample_secrets_libs =
     \<lparr>sc_store = in_memory_store, sc_io = plain_io, sc_now = 7, sc_password = (\<lambda>label. Inr ''a''),
      sc_printers = \<lparr>lp_rows_json = (\<lambda>rows. ''[]''), lp_strings_json = (\<lambda>l. ''[]''), lp_table = (\<lambda>h rows. ''table''),
        lp_json_text = (\<lambda>v. ''null''), lp_rfc3339 = (\<lambda>n. show_int n)\<rparr>\<rparr>"

theorem secrets_commands_hide_values_witness:
  "fst (run_secrets sample_secrets_libs (SecretsGet ''gh.token'') (cli_terminal, two_stores ''hunter2''))
     = fst (run_secrets (sample_secrets_libs\<lparr>sc_password := \<lambda>label. Inr ''b''\<rparr>) (SecretsGet ''gh.token'') (cli_terminal, two_stores ''swordfish''))"
proof -
  obtain r1 t1 w1 r2 t2 w2 where runs:
    "run_secrets sample_secrets_libs (SecretsGet ''gh.token'') (cli_terminal, two_stores ''hunter2'') = (r1, t1, w1)"
    "run_secrets (sample_secrets_libs\<lparr>sc_password := \<lambda>label. Inr ''b''\<rparr>) (SecretsGet ''gh.token'')
       (cli_terminal, two_stores ''swordfish'') = (r2, t2, w2)"
    by (metis prod.exhaust)
  have "hides_values (sc_store sample_secrets_libs) same_keys"
    using memory_hides_values by (simp add: sample_secrets_libs_def)
  moreover have "same_keys (sw_store (two_stores ''hunter2'')) (sw_store (two_stores ''swordfish''))"
    "sw_index (two_stores ''hunter2'') = sw_index (two_stores ''swordfish'')"
    by (simp_all add: two_stores_def same_keys_def)
  moreover have "sc_password sample_secrets_libs ''Enter secret value: '' = Inr ''a''"
    by (simp add: sample_secrets_libs_def)
  ultimately have "r2 = r1" using secrets_commands_hide_values [OF _ _ _ _ refl runs] by blast
  with runs show ?thesis by simp
qed

end
