(* ===== verification/Web.thy ===== *)
theory Web
  imports Cli
begin

text \<open>
  The web playground, \<open>src/web/mod.rs\<close>: the routes with the token check, the handlers of the API, the
  page that carries the token, and the example command lines. What axum reads from a request body and
  answers by itself, the embedded files, the MIME table and the printers are parameters; so are the
  catalog and the configuration, which each request loads anew.
\<close>

section \<open>Requests and replies\<close>

record web_request =
  wq_method :: string
  wq_path :: string
  wq_authorization :: "string option"
  wq_body :: string

record execute_request =
  xr_command :: string
  xr_args :: json_map
  xr_confirm_write :: bool

record validate_request =
  vr_command :: string
  vr_args :: json_map

record tool_summary =
  ts_key :: string
  ts_provider :: string
  ts_command :: string
  ts_title :: string
  ts_summary :: string
  ts_description :: string
  ts_mode :: string
  ts_protocol :: string
  ts_categories :: "string list"
  ts_secrets :: "string list"
  ts_params :: "param_spec list"
  ts_scope :: string
  ts_path :: string
  ts_example_cli :: string

record execute_success =
  es_key :: string
  es_mode :: string
  es_status :: u16
  es_url :: string
  es_result :: json
  es_decoded :: json
  es_human_output :: string

record validate_response =
  vs_valid :: bool
  vs_command_key :: "string option"
  vs_bound_params :: "string list option"
  vs_missing_required :: "string list option"
  vs_error :: "(string \<times> string) option"

record api_error =
  ae_status :: nat
  ae_code :: string
  ae_message :: string

datatype web_reply =
    WebNoContent
  | WebUnauthorized
  | WebMethodNotAllowed
  | WebRejected nat string
  | WebTools "tool_summary list"
  | WebTool tool_summary json
  | WebExecuted execute_success
  | WebValidated validate_response
  | WebSecrets "(string, bool) btree"
  | WebError api_error
  | WebFile "(string \<times> string) list" string
  | WebNotFound

definition unknown_command :: "string \<Rightarrow> api_error" where
  "unknown_command m = \<lparr>ae_status = 404, ae_code = ''unknown_command'', ae_message = m\<rparr>"

definition web_bind_error :: "string \<Rightarrow> api_error" where
  "web_bind_error m = \<lparr>ae_status = 400, ae_code = ''bind_error'', ae_message = m\<rparr>"

definition write_confirmation_required :: "string \<Rightarrow> api_error" where
  "write_confirmation_required m = \<lparr>ae_status = 403, ae_code = ''write_confirmation_required'', ae_message = m\<rparr>"

definition execution_error :: "string \<Rightarrow> api_error" where
  "execution_error m = \<lparr>ae_status = 400, ae_code = ''execution_error'', ae_message = m\<rparr>"

text \<open>What the handlers use: the extractors of axum with the status and text they reject a request with, the
  text of a JSON value, serializing an operation, the embedded files and the MIME table.\<close>

record web_libs =
  wl_read_execute :: "web_request \<Rightarrow> nat \<times> string + execute_request"
  wl_read_validate :: "web_request \<Rightarrow> nat \<times> string + validate_request"
  wl_read_secrets :: "web_request \<Rightarrow> nat \<times> string + string list"
  wl_path_param :: "string \<Rightarrow> nat \<times> string + string"
  wl_json_text :: "json \<Rightarrow> string"
  wl_operation_json :: "operation_template \<Rightarrow> string + json"
  wl_dist :: "string \<Rightarrow> string option"
  wl_mime :: "string \<Rightarrow> string"

text \<open>\<open>{err:#}\<close>: the whole chain.\<close>

definition err_alternate :: "anyhow \<Rightarrow> string" where
  "err_alternate e = str_join '': '' e"

section \<open>Example command lines\<close>

definition single_quote :: string where "single_quote = [CHR 0x27]"

definition shell_quote :: "string \<Rightarrow> string" where
  "shell_quote s =
     (if list_ex (\<lambda>w. sublist w s) (white_space @ [[CHR 0x22], single_quote])
      then single_quote @ str_replace single_quote [CHR 0x27, CHR 0x5C, CHR 0x27, CHR 0x27] s @ single_quote
      else if s = [] then [CHR 0x22, CHR 0x22]
      else s)"

definition cli_example_value :: "(json \<Rightarrow> string) \<Rightarrow> json \<Rightarrow> string" where
  "cli_example_value json_text v =
     (case v of
        JString txt \<Rightarrow> shell_quote txt
      | JArray _ \<Rightarrow> shell_quote (json_text v)
      | JObject _ \<Rightarrow> shell_quote (json_text v)
      | _ \<Rightarrow> json_text v)"

fun cli_placeholder_value :: "param_type \<Rightarrow> string" where
  "cli_placeholder_value PString = [CHR 0x22, CHR 0x22]"
| "cli_placeholder_value PInteger = ''0''"
| "cli_placeholder_value PNumber = ''0''"
| "cli_placeholder_value PBoolean = ''true''"
| "cli_placeholder_value PNull = ''null''"
| "cli_placeholder_value PArray = single_quote @ ''[]'' @ single_quote"
| "cli_placeholder_value PObject = single_quote @ ''{}'' @ single_quote"

definition example_cli_arg :: "(json \<Rightarrow> string) \<Rightarrow> param_spec \<Rightarrow> string" where
  "example_cli_arg json_text param =
     ''--'' @ param_name param @ '' ''
     @ (case param_default param of
          Some d \<Rightarrow> cli_example_value json_text d
        | None \<Rightarrow> cli_placeholder_value (param_ty param))"

definition build_example_cli :: "(json \<Rightarrow> string) \<Rightarrow> catalog_entry \<Rightarrow> string" where
  "build_example_cli json_text entry =
     (if ct_params (te_template entry) = [] then ''earl call '' @ te_key entry
      else ''earl call '' @ te_key entry @ '' ''
           @ str_join '' '' (map (example_cli_arg json_text) (ct_params (te_template entry))))"

section \<open>Tools\<close>

fun protocol_label :: "operation_protocol \<Rightarrow> string" where
  "protocol_label Http = ''http''"
| "protocol_label Graphql = ''graphql''"
| "protocol_label Grpc = ''grpc''"
| "protocol_label Bash = ''bash''"
| "protocol_label Sql = ''sql''"
| "protocol_label Browser = ''unknown''"

definition tool_summary_from_entry :: "(json \<Rightarrow> string) \<Rightarrow> catalog_entry \<Rightarrow> tool_summary" where
  "tool_summary_from_entry json_text entry =
     \<lparr>ts_key = te_key entry, ts_provider = te_provider entry, ts_command = te_command entry,
      ts_title = te_title entry, ts_summary = te_summary entry, ts_description = te_description entry,
      ts_mode = mode_as_str (te_mode entry),
      ts_protocol = protocol_label (op_protocol (ct_operation (te_template entry))),
      ts_categories = te_categories entry, ts_secrets = ann_secrets (ct_annotations (te_template entry)),
      ts_params = ct_params (te_template entry), ts_scope = template_scope_label (src_scope (te_source entry)),
      ts_path = src_path (te_source entry), ts_example_cli = build_example_cli json_text entry\<rparr>"

definition load_for_web :: "catalog result \<Rightarrow> api_error + catalog" where
  "load_for_web loaded = map_err (\<lambda>e. execution_error (''failed loading template catalog: '' @ err_alternate e)) loaded"

definition api_list_tools :: "web_libs \<Rightarrow> catalog result \<Rightarrow> api_error + tool_summary list" where
  "api_list_tools wl loaded =
     and_then (load_for_web loaded) (\<lambda>cat.
     Inr (sort_key ts_key (map (tool_summary_from_entry (wl_json_text wl)) (catalog_values cat))))"

definition api_get_tool :: "web_libs \<Rightarrow> catalog result \<Rightarrow> string \<Rightarrow> api_error + tool_summary \<times> json" where
  "api_get_tool wl loaded key =
     and_then (load_for_web loaded) (\<lambda>cat.
     and_then (ok_or (unknown_command (''unknown command `'' @ key @ ''`'')) (catalog_get cat key)) (\<lambda>entry.
     and_then (map_err (\<lambda>err. execution_error (''failed serializing operation: '' @ err))
                (wl_operation_json wl (ct_operation (te_template entry)))) (\<lambda>operation.
     Inr (tool_summary_from_entry (wl_json_text wl) entry, operation))))"

section \<open>Executing\<close>

definition call_of :: "catalog_entry \<Rightarrow> json_map \<Rightarrow> call_expression" where
  "call_of entry args =
     \<lparr>ce_provider = te_provider entry, ce_command = te_command entry, ce_positional_args = [], ce_named_args = args\<rparr>"

definition execute_success_of ::
    "('e, 'v) minijinja \<Rightarrow> catalog_entry \<Rightarrow> prepared_request \<Rightarrow> execution_result result \<Rightarrow> execute_success result" where
  "execute_success_of mj entry prepared run =
     and_then run (\<lambda>execution.
     and_then (render_human_output mj (rq_result_template prepared) (rq_args prepared) (er_result execution)) (\<lambda>human_output.
     Inr \<lparr>es_key = te_key entry, es_mode = mode_as_str (te_mode entry), es_status = er_status execution,
          es_url = redact (rq_redactor prepared) (er_url execution),
          es_result = redact_json (rq_redactor prepared) (er_result execution),
          es_decoded = redact_json (rq_redactor prepared) (er_decoded execution),
          es_human_output = redact (rq_redactor prepared) human_output\<rparr>))"

definition execute_entry ::
    "('st, 'w, 'o, 'e, 'v, 's, 'row, 're, 'sel, 'doc, 'xp) server_libs \<Rightarrow> catalog_entry \<Rightarrow> json_map \<Rightarrow> config \<Rightarrow>
     ('w, 'o, 's) server_world \<Rightarrow> (execute_success result \<times> ('w, 'o, 's) server_world) option" where
  "execute_entry sl entry args cfg w =
     (case sl_oauth_new sl cfg of
        Inl e \<Rightarrow> Some (Inl e, w)
      | Inr _ \<Rightarrow>
          (let pv = server_provision (sl_provision sl) cfg
           in case build_prepared_request pv entry args None (sw_prep w) of
                (Inl e, ps) \<Rightarrow> Some (Inl e, w\<lparr>sw_prep := ps\<rparr>)
              | (Inr prepared, ps) \<Rightarrow>
                  map_option (\<lambda>(run, es). (execute_success_of (pv_engine pv) entry prepared run, w\<lparr>sw_prep := ps, sw_exec := es\<rparr>))
                    (execute_prepared_request (sl_executors sl) prepared (sw_exec w))))"

text \<open>Everything before the execution: the entry, the bound arguments and the configuration.\<close>

definition web_call_ready ::
    "catalog result \<Rightarrow> config result \<Rightarrow> execute_request \<Rightarrow> api_error + catalog_entry \<times> json_map \<times> config" where
  "web_call_ready loaded cfg_loaded payload =
     and_then (load_for_web loaded) (\<lambda>cat.
     and_then (ok_or (unknown_command (''unknown command `'' @ xr_command payload @ ''`''))
                (catalog_get cat (xr_command payload))) (\<lambda>entry.
     and_then (map_err (\<lambda>err. web_bind_error (show_bind_error err))
                (bind_arguments (call_of entry (xr_args payload)) (ct_params (te_template entry)))) (\<lambda>args.
     if te_mode entry = ModeWrite \<and> \<not> xr_confirm_write payload
     then Inl (write_confirmation_required
            (''command `'' @ te_key entry @ ''` is write-enabled and requires confirm_write=true''))
     else and_then (map_err (\<lambda>e. execution_error (''failed loading config: '' @ err_alternate e)) cfg_loaded) (\<lambda>cfg.
          Inr (entry, args, cfg)))))"

definition api_execute ::
    "('st, 'w, 'o, 'e, 'v, 's, 'row, 're, 'sel, 'doc, 'xp) server_libs \<Rightarrow> catalog result \<Rightarrow> config result \<Rightarrow>
     execute_request \<Rightarrow> ('w, 'o, 's) server_world \<Rightarrow>
     ((api_error + execute_success) \<times> ('w, 'o, 's) server_world) option" where
  "api_execute sl loaded cfg_loaded payload w =
     (case web_call_ready loaded cfg_loaded payload of
        Inl e \<Rightarrow> Some (Inl e, w)
      | Inr (entry, args, cfg) \<Rightarrow>
          map_option (\<lambda>(r, w'). (map_err (\<lambda>err. execution_error (err_display err)) r, w'))
            (execute_entry sl entry args cfg w))"

definition api_validate :: "catalog result \<Rightarrow> validate_request \<Rightarrow> api_error + validate_response" where
  "api_validate loaded payload =
     and_then (load_for_web loaded) (\<lambda>cat.
     let key = vr_command payload;
         failed = (\<lambda>code message. \<lparr>vs_valid = False, vs_command_key = Some key, vs_bound_params = None,
                      vs_missing_required = None, vs_error = Some (code, message)\<rparr>)
     in case catalog_get cat key of
          None \<Rightarrow> Inr (failed ''unknown_command'' (''unknown command `'' @ key @ ''`''))
        | Some entry \<Rightarrow>
            (case bind_arguments (call_of entry (vr_args payload)) (ct_params (te_template entry)) of
               Inr args \<Rightarrow> Inr \<lparr>vs_valid = True, vs_command_key = Some key, vs_bound_params = Some (bt_keys args),
                                vs_missing_required = Some [], vs_error = None\<rparr>
             | Inl err \<Rightarrow> Inr (failed ''bind_error'' (show_bind_error err))))"

text \<open>Whether secrets are there; looking one up may write the index.\<close>

definition secret_configured ::
    "'st secret_store_ops \<Rightarrow> 'f index_io \<Rightarrow> int \<Rightarrow> string \<Rightarrow>
     (string, bool) btree \<times> ('st, 'f) secret_world \<Rightarrow> (string, bool) btree \<times> ('st, 'f) secret_world" where
  "secret_configured store io now name = (\<lambda>(answers, w).
     case manager_get store io now name w of
       (found, w') \<Rightarrow>
         (bt_insert name (case found of Inr (Some meta) \<Rightarrow> True | _ \<Rightarrow> False) answers, w'))"

definition api_secrets_status ::
    "'st secret_store_ops \<Rightarrow> 'f index_io \<Rightarrow> int \<Rightarrow> string list \<Rightarrow> ('st, 'f) secret_world \<Rightarrow>
     (string, bool) btree \<times> ('st, 'f) secret_world" where
  "api_secrets_status store io now wanted w = fold (secret_configured store io now) wanted ([], w)"

section \<open>Files\<close>

definition token_tag :: "string \<Rightarrow> string" where
  "token_tag token =
     ''<meta name='' @ [CHR 0x22] @ ''earl-token'' @ [CHR 0x22] @ '' content='' @ [CHR 0x22] @ token @ [CHR 0x22] @ ''></head>''"

definition serve_embedded_file :: "web_libs \<Rightarrow> string \<Rightarrow> bool \<Rightarrow> string option \<Rightarrow> web_reply" where
  "serve_embedded_file wl path is_index token =
     (case wl_dist wl path of
        None \<Rightarrow> WebNotFound
      | Some content \<Rightarrow>
          (let headers = [(''content-type'', wl_mime wl path)]
             @ (if is_index then [(''cache-control'', ''no-cache'')]
                else if prefix ''assets/'' path then [(''cache-control'', ''public, max-age=31536000, immutable'')]
                else [])
           in case token of
                Some tok \<Rightarrow>
                  if is_index \<and> is_utf8 content
                  then WebFile headers (str_replace ''</head>'' (token_tag tok) content)
                  else WebFile headers content
              | None \<Rightarrow> WebFile headers content))"

definition serve_index :: "web_libs \<Rightarrow> string \<Rightarrow> web_reply" where
  "serve_index wl token = serve_embedded_file wl ''index.html'' True (Some token)"

definition serve_static_or_index :: "web_libs \<Rightarrow> string \<Rightarrow> string \<Rightarrow> web_reply" where
  "serve_static_or_index wl token raw_path =
     (let path = dropWhile (\<lambda>c. c = CHR ''/'') raw_path
      in if path = [] then serve_index wl token
         else if wl_dist wl path \<noteq> None then serve_embedded_file wl path False None
         else serve_index wl token)"

section \<open>Routes\<close>

datatype web_route =
    RouteHealth
  | RouteListTools
  | RouteGetTool string
  | RouteExecute
  | RouteValidate
  | RouteSecretsStatus
  | RouteIndex
  | RoutePath string

definition web_route_of :: "string \<Rightarrow> web_route" where
  "web_route_of path =
     (if path = ''/api/health'' then RouteHealth
      else if path = ''/api/tools'' then RouteListTools
      else if path = ''/api/execute'' then RouteExecute
      else if path = ''/api/validate'' then RouteValidate
      else if path = ''/api/secrets/status'' then RouteSecretsStatus
      else if path = ''/'' then RouteIndex
      else case strip_prefix ''/api/tools/'' path of
             Some key \<Rightarrow> if key \<noteq> [] \<and> CHR ''/'' \<notin> set key then RouteGetTool key else RoutePath (tl path)
           | None \<Rightarrow> RoutePath (tl path))"

fun authenticated_route :: "web_route \<Rightarrow> bool" where
  "authenticated_route RouteListTools = True"
| "authenticated_route (RouteGetTool key) = True"
| "authenticated_route RouteExecute = True"
| "authenticated_route RouteValidate = True"
| "authenticated_route RouteSecretsStatus = True"
| "authenticated_route _ = False"

definition bearer_authorized :: "string \<Rightarrow> web_request \<Rightarrow> bool" where
  "bearer_authorized token request \<longleftrightarrow> wq_authorization request = Some (''Bearer '' @ token)"

definition route_method :: "web_route \<Rightarrow> string \<Rightarrow> bool" where
  "route_method route method_name \<longleftrightarrow>
     (if route \<in> {RouteExecute, RouteValidate, RouteSecretsStatus} then method_name = ''POST''
      else method_name = ''GET'' \<or> method_name = ''HEAD'')"

record ('st, 'f, 'w, 'o, 's) web_world =
  wb_server :: "('w, 'o, 's) server_world"
  wb_secrets :: "('st, 'f) secret_world"

text \<open>What one request loads: the catalog, the configuration and the clock of the index.\<close>

record web_loads =
  wo_catalog :: "catalog result"
  wo_config :: "config result"
  wo_now :: int

definition reply_of :: "(api_error + 'a) \<Rightarrow> ('a \<Rightarrow> web_reply) \<Rightarrow> web_reply" where
  "reply_of r f = (case r of Inl e \<Rightarrow> WebError e | Inr x \<Rightarrow> f x)"

definition rejected :: "nat \<times> string \<Rightarrow> web_reply" where
  "rejected = (\<lambda>(status, text). WebRejected status text)"

definition serve_route ::
    "('st, 'w, 'o, 'e, 'v, 's, 'row, 're, 'sel, 'doc, 'xp) server_libs \<Rightarrow> web_libs \<Rightarrow> 'f index_io \<Rightarrow> string \<Rightarrow>
     web_loads \<Rightarrow> web_route \<Rightarrow> web_request \<Rightarrow> ('st, 'f, 'w, 'o, 's) web_world \<Rightarrow>
     (web_reply \<times> ('st, 'f, 'w, 'o, 's) web_world) option" where
  "serve_route sl wl io token loads route request w =
     (case route of
        RouteHealth \<Rightarrow> Some (WebNoContent, w)
      | RouteListTools \<Rightarrow> Some (reply_of (api_list_tools wl (wo_catalog loads)) WebTools, w)
      | RouteGetTool raw \<Rightarrow>
          Some (case wl_path_param wl raw of
                  Inl e \<Rightarrow> rejected e
                | Inr key \<Rightarrow> reply_of (api_get_tool wl (wo_catalog loads) key) (\<lambda>(tool, operation). WebTool tool operation), w)
      | RouteExecute \<Rightarrow>
          (case wl_read_execute wl request of
             Inl e \<Rightarrow> Some (rejected e, w)
           | Inr payload \<Rightarrow>
               map_option (\<lambda>(r, server). (reply_of r WebExecuted, w\<lparr>wb_server := server\<rparr>))
                 (api_execute sl (wo_catalog loads) (wo_config loads) payload (wb_server w)))
      | RouteValidate \<Rightarrow>
          Some (case wl_read_validate wl request of
                  Inl e \<Rightarrow> rejected e
                | Inr payload \<Rightarrow> reply_of (api_validate (wo_catalog loads) payload) WebValidated, w)
      | RouteSecretsStatus \<Rightarrow>
          (case wl_read_secrets wl request of
             Inl e \<Rightarrow> Some (rejected e, w)
           | Inr wanted \<Rightarrow>
               (case api_secrets_status (pv_store (sl_provision sl)) io (wo_now loads) wanted (wb_secrets w) of
                  (answers, secrets) \<Rightarrow> Some (WebSecrets answers, w\<lparr>wb_secrets := secrets\<rparr>)))
      | RouteIndex \<Rightarrow> Some (serve_index wl token, w)
      | RoutePath raw \<Rightarrow>
          Some (case wl_path_param wl raw of Inl e \<Rightarrow> rejected e | Inr path \<Rightarrow> serve_static_or_index wl token path, w))"

text \<open>The token check comes before the method check on the routes it guards.\<close>

definition serve_web ::
    "('st, 'w, 'o, 'e, 'v, 's, 'row, 're, 'sel, 'doc, 'xp) server_libs \<Rightarrow> web_libs \<Rightarrow> 'f index_io \<Rightarrow> string \<Rightarrow>
     web_loads \<Rightarrow> web_request \<Rightarrow> ('st, 'f, 'w, 'o, 's) web_world \<Rightarrow>
     (web_reply \<times> ('st, 'f, 'w, 'o, 's) web_world) option" where
  "serve_web sl wl io token loads request w =
     (let route = web_route_of (wq_path request)
      in if authenticated_route route \<and> \<not> bearer_authorized token request then Some (WebUnauthorized, w)
         else if \<not> route_method route (wq_method request) then Some (WebMethodNotAllowed, w)
         else serve_route sl wl io token loads route request w)"

section \<open>Who may use the API\<close>

lemma execute_entry_cases:
  assumes "execute_entry sl entry args cfg w = Some (r, w')"
  obtains (unprepared) "sw_exec w' = sw_exec w" "is_ok r = False"
  | (executed) prepared ps run where
      "build_prepared_request (server_provision (sl_provision sl) cfg) entry args None (sw_prep w) = (Inr prepared, ps)"
      "execute_prepared_request (sl_executors sl) prepared (sw_exec w) = Some (run, sw_exec w')"
      "r = execute_success_of (pv_engine (server_provision (sl_provision sl) cfg)) entry prepared run"
proof -
  let ?pv = "server_provision (sl_provision sl) cfg"
  obtain b ps where build: "build_prepared_request ?pv entry args None (sw_prep w) = (b, ps)"
    by (cases "build_prepared_request ?pv entry args None (sw_prep w)")
  show thesis
  proof (cases "sl_oauth_new sl cfg")
    case (Inl e)
    with assms have "r = Inl e" "w' = w" by (simp_all add: execute_entry_def)
    then show thesis by (intro unprepared) simp_all
  next
    case (Inr u)
    with assms build show thesis
      by (cases b) (auto simp: execute_entry_def Let_def intro: unprepared executed)
  qed
qed

lemma api_execute_ready:
  assumes "api_execute sl loaded cfg_loaded payload w = Some (r, w')" and "w' \<noteq> w"
  shows "\<exists>entry args cfg out. web_call_ready loaded cfg_loaded payload = Inr (entry, args, cfg)
    \<and> execute_entry sl entry args cfg w = Some (out, w')"
  using assms by (cases "web_call_ready loaded cfg_loaded payload") (auto simp: api_execute_def)

lemma web_call_ready_Inr:
  assumes "web_call_ready loaded cfg_loaded payload = Inr (entry, args, cfg)"
  shows "(\<exists>cat. loaded = Inr cat \<and> catalog_get cat (xr_command payload) = Some entry)
    \<and> (te_mode entry = ModeWrite \<longrightarrow> xr_confirm_write payload) \<and> cfg_loaded = Inr cfg
    \<and> bind_arguments (call_of entry (xr_args payload)) (ct_params (te_template entry)) = Inr args"
  using assms by (auto simp: web_call_ready_def load_for_web_def result_simps split: if_splits)

text \<open>
  C14. A web request without the exact token gets nothing from the API: on the guarded routes it is answered
  that it is unauthorized, and no request without it changes anything. A request that does something besides
  looking up secrets runs the command that it names, with the arguments it gives, and
  for a writing command with its confirmation.
\<close>

theorem web_api_needs_token:
  assumes "serve_web sl wl io token loads request w = Some (reply, w')"
  shows "(wq_authorization request \<noteq> Some (''Bearer '' @ token) \<longrightarrow>
       w' = w \<and> (authenticated_route (web_route_of (wq_path request)) \<longrightarrow> reply = WebUnauthorized))
    \<and> (wb_server w' \<noteq> wb_server w \<longrightarrow>
         wq_path request = ''/api/execute'' \<and> wq_method request = ''POST''
         \<and> (\<exists>payload cat entry args cfg out. wl_read_execute wl request = Inr payload
              \<and> wo_catalog loads = Inr cat \<and> catalog_get cat (xr_command payload) = Some entry
              \<and> (te_mode entry = ModeWrite \<longrightarrow> xr_confirm_write payload)
              \<and> bind_arguments (call_of entry (xr_args payload)) (ct_params (te_template entry)) = Inr args
              \<and> wo_config loads = Inr cfg
              \<and> execute_entry sl entry args cfg (wb_server w) = Some (out, wb_server w')))"
proof
  show "wq_authorization request \<noteq> Some (''Bearer '' @ token) \<longrightarrow>
      w' = w \<and> (authenticated_route (web_route_of (wq_path request)) \<longrightarrow> reply = WebUnauthorized)"
    using assms by (cases "web_route_of (wq_path request)")
      (auto simp: serve_web_def Let_def bearer_authorized_def serve_route_def split: if_splits)
next
  show "wb_server w' \<noteq> wb_server w \<longrightarrow>
         wq_path request = ''/api/execute'' \<and> wq_method request = ''POST''
         \<and> (\<exists>payload cat entry args cfg out. wl_read_execute wl request = Inr payload
              \<and> wo_catalog loads = Inr cat \<and> catalog_get cat (xr_command payload) = Some entry
              \<and> (te_mode entry = ModeWrite \<longrightarrow> xr_confirm_write payload)
              \<and> bind_arguments (call_of entry (xr_args payload)) (ct_params (te_template entry)) = Inr args
              \<and> wo_config loads = Inr cfg
              \<and> execute_entry sl entry args cfg (wb_server w) = Some (out, wb_server w'))"
  proof
    assume changed: "wb_server w' \<noteq> wb_server w"
    with assms have route: "web_route_of (wq_path request) = RouteExecute" and allowed: "wq_method request = ''POST''"
      and serve: "serve_route sl wl io token loads RouteExecute request w = Some (reply, w')"
      by (cases "web_route_of (wq_path request)";
          auto simp: serve_web_def Let_def serve_route_def route_method_def split: if_splits sum.splits prod.splits)+
    from route have path: "wq_path request = ''/api/execute''"
      by (auto simp: web_route_of_def split: if_splits option.splits)
    from serve changed obtain payload r where payload: "wl_read_execute wl request = Inr payload"
      and run: "api_execute sl (wo_catalog loads) (wo_config loads) payload (wb_server w) = Some (r, wb_server w')"
      by (auto simp: serve_route_def split: sum.splits)
    from api_execute_ready [OF run changed] obtain entry args cfg out where
      ready: "web_call_ready (wo_catalog loads) (wo_config loads) payload = Inr (entry, args, cfg)"
      and out: "execute_entry sl entry args cfg (wb_server w) = Some (out, wb_server w')" by blast
    from web_call_ready_Inr [OF ready] path allowed payload out
    show "wq_path request = ''/api/execute'' \<and> wq_method request = ''POST''
         \<and> (\<exists>payload cat entry args cfg out. wl_read_execute wl request = Inr payload
              \<and> wo_catalog loads = Inr cat \<and> catalog_get cat (xr_command payload) = Some entry
              \<and> (te_mode entry = ModeWrite \<longrightarrow> xr_confirm_write payload)
              \<and> bind_arguments (call_of entry (xr_args payload)) (ct_params (te_template entry)) = Inr args
              \<and> wo_config loads = Inr cfg
              \<and> execute_entry sl entry args cfg (wb_server w) = Some (out, wb_server w'))"
      by blast
  qed
qed

text \<open>
  Whatever a web request asks for: every HTTP request made while it is handled goes to a URL the
  configuration then loaded allows, through a client that dials only addresses the filter passes, and
  every gRPC endpoint is pinned to such an address.
\<close>

theorem web_requests_stay_inside:
  assumes "serve_web sl wl io token loads request w = Some (reply, w')" and "wo_config loads = Inr cfg"
  shows "\<exists>sent dialed. xs_sent (sw_exec (wb_server w')) = xs_sent (sw_exec (wb_server w)) @ sent
    \<and> xs_dialed (sw_exec (wb_server w')) = xs_dialed (sw_exec (wb_server w)) @ dialed
    \<and> list_all (config_safe_send (cfg_network cfg)) sent
    \<and> list_all (config_safe_dial (sl_executors sl) (cfg_network cfg)) dialed"
proof (cases "wb_server w' = wb_server w")
  case True
  then show ?thesis by (auto intro: exI [of _ "[]"])
next
  case False
  with assms have route: "web_route_of (wq_path request) = RouteExecute"
    and serve: "serve_route sl wl io token loads RouteExecute request w = Some (reply, w')"
    by (cases "web_route_of (wq_path request)";
        auto simp: serve_web_def Let_def serve_route_def route_method_def split: if_splits sum.splits prod.splits)+
  from serve False obtain payload r
    where run: "api_execute sl (wo_catalog loads) (wo_config loads) payload (wb_server w) = Some (r, wb_server w')"
    by (auto simp: serve_route_def split: sum.splits)
  from api_execute_ready [OF run False] obtain entry args cfg' out where
    "web_call_ready (wo_catalog loads) (wo_config loads) payload = Inr (entry, args, cfg')"
    and out: "execute_entry sl entry args cfg' (wb_server w) = Some (out, wb_server w')" by blast
  with assms(2) have cfg: "cfg' = cfg" using web_call_ready_Inr by fastforce
  from out show ?thesis
  proof (cases rule: execute_entry_cases)
    case unprepared
    then show ?thesis by (auto intro: exI [of _ "[]"])
  next
    case (executed prepared ps run)
    from prepared_stays_inside [OF executed(1)] executed(2) show ?thesis unfolding cfg by blast
  qed
qed

section \<open>What the API answers\<close>

definition success_strings :: "execute_success \<Rightarrow> string list" where
  "success_strings s =
     [es_url s, es_human_output s] @ json_strings (es_result s) @ json_strings (es_decoded s)"

text \<open>
  The answer to an execution over the web shows no secret: neither the URL and the human output nor any
  string of the result and the decoded body holds, in a form the redactor knows, a secret of the store
  that the command or its environments declare or that its authentication or SQL connection names.
\<close>

theorem web_answers_redacted:
  assumes "execute_entry sl entry args cfg w = Some (Inr success, w')"
    and "key \<in> set (declared_keys entry @ op_secrets (ct_operation (te_template entry)))"
    and "store_value (sl_provision sl) key = Some secret" and "encoders_ok (pv_encoders (sl_provision sl))"
    and "v \<in> set (secret_variants (pv_encoders (sl_provision sl)) secret)" and "outside_marker v"
  shows "\<forall>s \<in> set (success_strings success). \<not> sublist v s"
  using assms(1)
proof (cases rule: execute_entry_cases)
  case (executed prepared ps run)
  let ?pv = "server_provision (sl_provision sl) cfg"
  have kept: "pv_store ?pv = pv_store (sl_provision sl)" "pv_secrets ?pv = pv_secrets (sl_provision sl)"
    and encoders: "pv_encoders ?pv = pv_encoders (sl_provision sl)" by (simp_all add: server_provision_def)
  have stored: "store_value ?pv key = store_value (sl_provision sl) key"
    unfolding store_value_def kept encoders by (rule refl)
  have selected: "fst (select_for_env (te_template entry) None) = ct_operation (te_template entry)"
    by (simp add: select_for_env_def)
  have gone: "\<not> sublist v (redact (rq_redactor prepared) shown)" for shown
    using build_prepared_redacts [OF executed(1), unfolded selected, OF assms(2), of secret v] assms(3-6)
    unfolding stored encoders by blast
  from executed(3) [symmetric] show ?thesis
    by (auto simp: execute_success_of_def result_simps success_strings_def redact_json_strings gone)
qed simp

text \<open>
  Validation predicts execution: a call is said to be valid exactly when executing it with the same
  command and arguments gets past the lookup and the binding, and is then refused only for want of
  confirmation or of a configuration; what it says is wrong is what executing it answers.
\<close>

theorem validate_predicts_execute:
  "api_validate (Inr cat) \<lparr>vr_command = command, vr_args = args\<rparr> = Inr answer \<longleftrightarrow>
     (case web_call_ready (Inr cat) cfg_loaded \<lparr>xr_command = command, xr_args = args, xr_confirm_write = confirm\<rparr> of
        Inr (entry, bound, cfg) \<Rightarrow>
          answer = \<lparr>vs_valid = True, vs_command_key = Some command, vs_bound_params = Some (bt_keys bound),
             vs_missing_required = Some [], vs_error = None\<rparr>
      | Inl e \<Rightarrow>
          if ae_code e \<in> {''unknown_command'', ''bind_error''}
          then answer = \<lparr>vs_valid = False, vs_command_key = Some command, vs_bound_params = None,
             vs_missing_required = None, vs_error = Some (ae_code e, ae_message e)\<rparr>
          else \<exists>entry bound. catalog_get cat command = Some entry
             \<and> bind_arguments (call_of entry args) (ct_params (te_template entry)) = Inr bound
             \<and> answer = \<lparr>vs_valid = True, vs_command_key = Some command, vs_bound_params = Some (bt_keys bound),
                 vs_missing_required = Some [], vs_error = None\<rparr>)"
proof (cases "catalog_get cat command")
  case None
  then show ?thesis
    by (auto simp: api_validate_def load_for_web_def web_call_ready_def unknown_command_def ok_or_def Let_def)
next
  case (Some entry)
  show ?thesis
  proof (cases "bind_arguments (call_of entry args) (ct_params (te_template entry))")
    case (Inl err)
    with Some show ?thesis
      by (auto simp: api_validate_def load_for_web_def web_call_ready_def web_bind_error_def ok_or_def Let_def)
  next
    case (Inr bound)
    with Some show ?thesis
      by (cases cfg_loaded)
        (auto simp: api_validate_def load_for_web_def web_call_ready_def ok_or_def Let_def
          write_confirmation_required_def execution_error_def)
  qed
qed

section \<open>Where the token is shown\<close>

text \<open>The index page is served without authorization and carries the token, so the token check keeps out
  only clients that cannot read the page.\<close>

lemma str_replace_shows: "p \<noteq> [] \<Longrightarrow> sublist p s \<Longrightarrow> sublist r (str_replace p r s)"
proof (induction s)
  case (Cons c cs)
  then show ?case
    by (cases "prefix p (c # cs)") (auto simp: str_replace_hit str_replace_miss sublist_Cons_right sublist_append_rightI)
qed simp

lemma index_reveals_token:
  assumes "web_route_of (wq_path request) = RouteIndex" and "wq_method request = ''GET''"
    and "wl_dist wl ''index.html'' = Some html" and "is_utf8 html" and "sublist ''</head>'' html"
  shows "\<exists>headers body. serve_web sl wl io token loads request w = Some (WebFile headers body, w) \<and> sublist (token_tag token) body"
proof -
  from assms(5) have "sublist (token_tag token) (str_replace ''</head>'' (token_tag token) html)"
    by (rule str_replace_shows [rotated]) simp
  with assms show ?thesis
    by (simp add: serve_web_def serve_route_def serve_index_def serve_embedded_file_def route_method_def Let_def)
qed

section \<open>A concrete server\<close>

definition web_sample :: web_libs where
  "web_sample =
     \<lparr>wl_read_execute = (\<lambda>r. if wq_body r = ''call'' then Inr \<lparr>xr_command = ''db.rows'', xr_args = [], xr_confirm_write = False\<rparr>
                              else Inl (400, ''no JSON'')),
      wl_read_validate = (\<lambda>r. Inl (400, ''no JSON'')), wl_read_secrets = (\<lambda>r. Inl (400, ''no JSON'')), wl_path_param = Inr,
      wl_json_text = (\<lambda>v. ''null''), wl_operation_json = (\<lambda>op. Inr JNull), wl_dist = (\<lambda>p. None), wl_mime = (\<lambda>p. ''text/html'')\<rparr>"

definition web_call :: web_request where
  "web_call = \<lparr>wq_method = ''POST'', wq_path = ''/api/execute'', wq_authorization = Some ''Bearer t0ken'', wq_body = ''call''\<rparr>"

definition web_sample_loads :: web_loads where
  "web_sample_loads = \<lparr>wo_catalog = Inr [(''db.rows'', cli_entry)], wo_config = Inr mcp_cfg_sample, wo_now = 7\<rparr>"

definition web_start :: "(memory_store, secret_index, unit, unit, nat) web_world" where
  "web_start = \<lparr>wb_server = sample_world, wb_secrets = empty_world\<rparr>"

definition web_success :: execute_success where
  "web_success =
     \<lparr>es_key = te_key cli_entry, es_mode = ''read'', es_status = 0, es_url = redact (rq_redactor mcp_prepared) ''sql://query'',
      es_result = redact_json (rq_redactor mcp_prepared) JNull, es_decoded = redact_json (rq_redactor mcp_prepared) JNull,
      es_human_output = redact (rq_redactor mcp_prepared) ''done''\<rparr>"

lemma web_mode: "te_mode cli_entry = ModeRead"
  by (simp add: cli_entry_def mcp_entry_def sample_entry_def entry_of_def sample_command_def)

lemma web_execute:
  "execute_entry sample_server cli_entry [] mcp_cfg_sample sample_world = Some (Inr web_success, mcp_world_end)"
proof -
  have oauth: "sl_oauth_new sample_server c = Inr ()" for c by (simp add: sample_server_def)
  have "plain_text ''done''" by code_simp
  then have "render_human_output (pv_engine sample_provision) (rq_result_template mcp_prepared) (rq_args mcp_prepared) JNull
      = Inr ''done''"
    by (simp add: mcp_fields render_human_output_def render_string_raw_def jinja_def sample_provision_def
        sample_engine_def with_context_def Let_def)
  moreover have "sw_exec sample_world = sample_exec_start" by (simp add: sample_world_def)
  ultimately show ?thesis
    by (simp add: execute_entry_def oauth Let_def mcp_sample_provision cli_build mcp_execute execute_success_of_def
        web_success_def web_mode mcp_world_end_def)
qed

lemma web_run:
  "serve_web sample_server web_sample plain_io ''t0ken'' web_sample_loads web_call web_start
     = Some (WebExecuted web_success, web_start\<lparr>wb_server := mcp_world_end\<rparr>)"
proof -
  have "bind_arguments (call_of cli_entry []) (ct_params (te_template cli_entry)) = Inr []"
    by (simp add: call_of_def bind_arguments_def cli_entry_def mcp_entry_def mcp_command_def)
  then have "web_call_ready (wo_catalog web_sample_loads) (wo_config web_sample_loads)
      \<lparr>xr_command = ''db.rows'', xr_args = [], xr_confirm_write = False\<rparr> = Inr (cli_entry, [], mcp_cfg_sample)"
    by (simp add: web_call_ready_def load_for_web_def web_sample_loads_def catalog_get_def web_mode)
  then have "api_execute sample_server (wo_catalog web_sample_loads) (wo_config web_sample_loads)
      \<lparr>xr_command = ''db.rows'', xr_args = [], xr_confirm_write = False\<rparr> sample_world = Some (Inr web_success, mcp_world_end)"
    by (simp add: api_execute_def web_execute)
  then show ?thesis
    by (simp add: serve_web_def web_call_def web_route_of_def bearer_authorized_def route_method_def serve_route_def
        web_sample_def reply_of_def web_start_def)
qed

theorem web_api_needs_token_witness:
  "\<exists>payload entry. wl_read_execute web_sample web_call = Inr payload
     \<and> catalog_get [(''db.rows'', cli_entry)] (xr_command payload) = Some entry \<and> te_mode entry \<noteq> ModeWrite"
proof -
  have "wb_server (web_start\<lparr>wb_server := mcp_world_end\<rparr>) \<noteq> wb_server web_start"
    using mcp_world_changed by (simp add: web_start_def)
  with web_api_needs_token [OF web_run] obtain payload cat entry where
    "wl_read_execute web_sample web_call = Inr payload" "wo_catalog web_sample_loads = Inr cat"
    "catalog_get cat (xr_command payload) = Some entry" "te_mode entry = ModeWrite \<longrightarrow> xr_confirm_write payload" by blast
  then show ?thesis
    by (auto simp: web_sample_loads_def web_sample_def web_call_def)
qed

theorem web_requests_stay_inside_witness:
  "\<exists>sent. xs_sent (sw_exec mcp_world_end) = xs_sent (sw_exec sample_world) @ sent
     \<and> list_all (config_safe_send (cfg_network mcp_cfg_sample)) sent"
  using web_requests_stay_inside [OF web_run, of mcp_cfg_sample] by (auto simp: web_start_def web_sample_loads_def)

theorem web_answers_redacted_witness:
  "\<not> sublist ''hunter2'' (redact (rq_redactor mcp_prepared) ''sql://query'')"
proof -
  have "declared_keys cli_entry @ op_secrets (ct_operation (te_template cli_entry)) = ''db.url'' # ''k'' # op_secrets (ct_operation (te_template cli_entry))"
    by (simp add: cli_declared)
  then have declared: "''db.url'' \<in> set (declared_keys cli_entry @ op_secrets (ct_operation (te_template cli_entry)))" by simp
  have "split_once ''://'' ''db.url'' = None" by code_simp
  then have stored: "store_value (sl_provision sample_server) ''db.url'' = Some ''hunter2''"
    by (simp add: sample_server_def store_value_def sample_provision_def in_memory_store_def mem_get_secret_def)
  have encoders: "encoders_ok (pv_encoders (sl_provision sample_server))"
    by (simp add: encoders_ok_def hex_encoders_def hex_encode_Nil_iff sample_provision_def sample_server_def)
  have variant: "''hunter2'' \<in> set (secret_variants (pv_encoders (sl_provision sample_server)) ''hunter2'')"
    by (simp add: secret_variants_def)
  have "outside_marker ''hunter2''" by (simp add: outside_marker_def sublist_Cons_right)
  from web_answers_redacted [OF web_execute declared stored encoders variant this] show ?thesis
    by (simp add: success_strings_def web_success_def)
qed

end
