(* ===== verification/ActionLog.thy ===== *)
theory ActionLog
  imports Prelude
begin

text \<open>
  Actions that only append to a log of their state: what they append satisfies a predicate. The rules follow
  the combinators of actions, so that the requests of a whole flow are bounded by those of its steps.
\<close>

text \<open>Trying another action when the first fails; what the first did stays done.\<close>

definition act_catch :: "('s, 'a) action \<Rightarrow> (anyhow \<Rightarrow> ('s, 'a) action) \<Rightarrow> ('s, 'a) action" where
  "act_catch m h s = (case m s of (Inl e, s') \<Rightarrow> h e s' | (Inr x, s') \<Rightarrow> (Inr x, s'))"

text \<open>An action with a context on its error.\<close>

definition act_context :: "string \<Rightarrow> ('s, 'a) action \<Rightarrow> ('s, 'a) action" where
  "act_context msg m s = (case m s of (r, s') \<Rightarrow> (with_context msg r, s'))"

definition logs :: "('s \<Rightarrow> 'l list) \<Rightarrow> ('l \<Rightarrow> bool) \<Rightarrow> ('s, 'a) action \<Rightarrow> bool" where
  "logs log P m \<longleftrightarrow>
     (\<forall>w r w'. m w = (r, w') \<longrightarrow> (\<exists>ls. log w' = log w @ ls \<and> list_all P ls))"

named_theorems logs_intros

lemma logsI:
  "(\<And>w r w'. m w = (r, w') \<Longrightarrow> \<exists>ls. log w' = log w @ ls \<and> list_all P ls) \<Longrightarrow> logs log P m"
  unfolding logs_def by blast

lemma logs_run: "logs log P m \<Longrightarrow> \<exists>ls. log (snd (m w)) = log w @ ls \<and> list_all P ls"
  unfolding logs_def by (metis prod.collapse)

lemma logs_silent: "(\<And>w. log (snd (m w)) = log w) \<Longrightarrow> logs log P m"
  unfolding logs_def by (intro allI impI exI [of _ "[]"]) (metis append_Nil2 list.pred_inject(1) snd_conv)

lemma logs_bind_when:
  assumes "logs log P m" and "\<And>x w w'. m w = (Inr x, w') \<Longrightarrow> logs log P (k x)"
  shows "logs log P (act_bind m k)"
proof (rule logsI)
  fix w r w' assume run: "act_bind m k w = (r, w')"
  obtain x v where first: "m w = (x, v)" by (cases "m w")
  with assms(1) obtain ls where ls: "log v = log w @ ls" "list_all P ls"
    unfolding logs_def by blast
  show "\<exists>ls. log w' = log w @ ls \<and> list_all P ls"
  proof (cases x)
    case (Inl e)
    with run first ls show ?thesis by (auto simp: act_bind_def)
  next
    case (Inr y)
    with run first have "k y v = (r, w')" by (simp add: act_bind_def)
    with assms(2) [of w y v] first Inr obtain more where "log w' = log v @ more" "list_all P more"
      unfolding logs_def by blast
    with ls show ?thesis by (intro exI [of _ "ls @ more"]) (simp add: list_all_append)
  qed
qed

lemma logs_bind [logs_intros]: "logs log P m \<Longrightarrow> (\<And>x. logs log P (k x)) \<Longrightarrow> logs log P (act_bind m k)"
  by (rule logs_bind_when)

lemma logs_return [logs_intros]: "logs log P (act_return x)"
  by (rule logs_silent) (simp add: act_return_def)

lemma logs_lift [logs_intros]: "logs log P (act_lift r)"
  by (rule logs_silent) (simp add: act_lift_def)

lemma logs_context [logs_intros]: "logs log P m \<Longrightarrow> logs log P (\<lambda>w. case m w of (r, w') \<Rightarrow> (with_context msg r, w'))"
  unfolding logs_def by (auto split: prod.splits)

lemma logs_act_context [logs_intros]: "logs log P m \<Longrightarrow> logs log P (act_context msg m)"
  unfolding logs_def by (auto simp: act_context_def split: prod.splits)

text \<open>An action that looks at its state first.\<close>

lemma logs_pointwise: "(\<And>w. \<exists>m. f w = m w \<and> logs log P m) \<Longrightarrow> logs log P f"
  unfolding logs_def by metis

lemma logs_state: "(\<And>v. logs log P (f v)) \<Longrightarrow> logs log P (\<lambda>w. f w w)"
  unfolding logs_def by blast

lemma logs_case_prod [logs_intros]: "(\<And>x y. logs log P (f x y)) \<Longrightarrow> logs log P (case z of (x, y) \<Rightarrow> f x y)"
  by (cases z) simp

lemma logs_let [logs_intros]: "logs log P (f x) \<Longrightarrow> logs log P (let y = x in f y)"
  by simp

lemma logs_if [logs_intros]: "(b \<Longrightarrow> logs log P m) \<Longrightarrow> (\<not> b \<Longrightarrow> logs log P n) \<Longrightarrow> logs log P (if b then m else n)"
  by simp

lemma logs_option [logs_intros]:
  "(x = None \<Longrightarrow> logs log P m) \<Longrightarrow> (\<And>y. x = Some y \<Longrightarrow> logs log P (f y)) \<Longrightarrow> logs log P (case x of None \<Rightarrow> m | Some y \<Rightarrow> f y)"
  by (cases x) simp_all

lemma logs_catch [logs_intros]:
  assumes "logs log P m" and "\<And>e. logs log P (h e)"
  shows "logs log P (act_catch m h)"
proof (rule logsI)
  fix w r w' assume run: "act_catch m h w = (r, w')"
  obtain x v where first: "m w = (x, v)" by (cases "m w")
  with assms(1) obtain ls where ls: "log v = log w @ ls" "list_all P ls"
    unfolding logs_def by blast
  show "\<exists>ls. log w' = log w @ ls \<and> list_all P ls"
  proof (cases x)
    case (Inr y)
    with run first ls show ?thesis by (auto simp: act_catch_def)
  next
    case (Inl e)
    with run first have "h e v = (r, w')" by (simp add: act_catch_def)
    with assms(2) [of e] obtain more where "log w' = log v @ more" "list_all P more"
      unfolding logs_def by blast
    with ls show ?thesis by (intro exI [of _ "ls @ more"]) (simp add: list_all_append)
  qed
qed

lemma logs_lift_bind: "(\<And>x. r = Inr x \<Longrightarrow> logs log P (k x)) \<Longrightarrow> logs log P (act_bind (act_lift r) k)"
  by (rule logs_bind_when [OF logs_lift]) (simp add: act_lift_def)

end
