(* ===== verification/OAuth.thy ===== *)
theory OAuth
  imports Cli ActionLog "HOL-Library.Countable"
begin

text \<open>
  OAuth, \<open>src/auth/profiles.rs\<close>, \<open>src/auth/token_store.rs\<close> and \<open>src/auth/oauth2.rs\<close>: resolving a profile
  with OIDC discovery and the checks of its endpoints, the three login flows, storing, refreshing and
  handing out tokens, the listener of the callback, and the auth commands of \<open>src/app.rs\<close>. The
  \<open>oauth2\<close> crate, HTTP, DNS, URLs, JSON, the browser, sockets and the clock are parameters.
\<close>

section \<open>Data\<close>

record resolved_profile =
  rp_name :: string
  rp_flow :: oauth_flow
  rp_client_id :: string
  rp_client_secret :: "string option"
  rp_authorization_url :: "string option"
  rp_token_url :: string
  rp_device_authorization_url :: "string option"
  rp_redirect_url :: "string option"
  rp_scopes :: "string list"
  rp_use_auth_request_body :: bool

record oidc_metadata =
  om_authorization_endpoint :: "string option"
  om_token_endpoint :: "string option"
  om_device_authorization_endpoint :: "string option"

text \<open>Times are nanoseconds.\<close>

record stored_token =
  st_access_token :: string
  st_refresh_token :: "string option"
  st_token_type :: "string option"
  st_expires_at :: "int option"
  st_scopes :: "string list"

record auth_status =
  au_logged_in :: bool
  au_expires_at :: "int option"
  au_scopes :: "string list"

text \<open>The client of the \<open>oauth2\<close> crate, the requests it makes for a token, and the answers.\<close>

record oauth_client =
  oc_client_id :: string
  oc_client_secret :: "string option"
  oc_auth_uri :: "url option"
  oc_token_uri :: url
  oc_device_uri :: "url option"
  oc_redirect_uri :: "url option"
  oc_request_body :: bool

record device_details =
  dd_verification_uri :: string
  dd_user_code :: string
  dd_device_code :: string

datatype exchange =
    ExchangeCode string string
  | ExchangeDevice device_details
  | ExchangeCredentials "string list"
  | ExchangeRefresh string

record token_response =
  tp_access_token :: string
  tp_refresh_token :: "string option"
  tp_token_type :: string
  tp_expires_in :: "nat option"
  tp_scopes :: "string list option"

text \<open>The world: secrets with their index, the resolvers, the network with clock and browser, what was
  printed, and the token requests made.\<close>

record ('st, 'f, 'w, 'n) oauth_world =
  ow_secrets :: "('st, 'f) secret_world"
  ow_resolvers :: "'w \<times> nat list"
  ow_net :: 'n
  ow_out :: "string list"
  ow_err :: "string list"
  ow_requests :: "(oauth_client \<times> exchange) list"

record ('st, 'f, 'w, 'n) oauth_libs =
  ox_store :: "'st secret_store_ops"
  ox_io :: "'f index_io"
  ox_lower :: "string \<Rightarrow> string"
  ox_secret_resolvers :: "'w secret_resolver list"
  ox_client :: "anyhow + unit"
  ox_parse_url :: "string \<Rightarrow> string + url"
  ox_parse_ip :: "string \<Rightarrow> ip_addr option"
  ox_show_ip :: "ip_addr \<Rightarrow> string"
  ox_dns :: "'n \<Rightarrow> dns_resolver"
  ox_get :: "string \<Rightarrow> 'n \<Rightarrow> (nat \<times> string result) result \<times> 'n"
  ox_show_status :: "nat \<Rightarrow> string"
  ox_read_metadata :: "string \<Rightarrow> string + oidc_metadata"
  ox_now :: "'n \<Rightarrow> int \<times> 'n"
  ox_pkce :: "'n \<Rightarrow> (string \<times> string) \<times> 'n"
  ox_csrf :: "'n \<Rightarrow> string \<times> 'n"
  ox_authorize_url :: "oauth_client \<Rightarrow> string \<Rightarrow> string list \<Rightarrow> string \<Rightarrow> string"
  ox_open_browser :: "string \<Rightarrow> ('n, unit) action"
  ox_wait_callback :: "string \<Rightarrow> ('n, string \<times> string) action"
  ox_device :: "oauth_client \<Rightarrow> string list \<Rightarrow> ('n, device_details) action"
  ox_token :: "oauth_client \<Rightarrow> exchange \<Rightarrow> ('n, token_response) action"
  ox_token_text :: "stored_token \<Rightarrow> string"
  ox_token_read :: "string \<Rightarrow> string + stored_token"
  ox_rfc3339 :: "int \<Rightarrow> string"

definition on_net :: "('n, 'a) action \<Rightarrow> (('st, 'f, 'w, 'n) oauth_world, 'a) action" where
  "on_net m w = (case m (ow_net w) of (r, n) \<Rightarrow> (r, w\<lparr>ow_net := n\<rparr>))"

definition from_net :: "('n \<Rightarrow> 'a \<times> 'n) \<Rightarrow> (('st, 'f, 'w, 'n) oauth_world, 'a) action" where
  "from_net f w = (case f (ow_net w) of (x, n) \<Rightarrow> (Inr x, w\<lparr>ow_net := n\<rparr>))"

definition on_vault :: "(('st, 'f) secret_world, 'a) action \<Rightarrow> (('st, 'f, 'w, 'n) oauth_world, 'a) action" where
  "on_vault m w = (case m (ow_secrets w) of (r, s) \<Rightarrow> (r, w\<lparr>ow_secrets := s\<rparr>))"

definition say :: "string \<Rightarrow> (('st, 'f, 'w, 'n) oauth_world, unit) action" where
  "say s w = (Inr (), w\<lparr>ow_out := ow_out w @ [s]\<rparr>)"

definition warn :: "string list \<Rightarrow> (('st, 'f, 'w, 'n) oauth_world, unit) action" where
  "warn ls w = (Inr (), w\<lparr>ow_err := ow_err w @ ls\<rparr>)"

definition token_request ::
    "('st, 'f, 'w, 'n) oauth_libs \<Rightarrow> oauth_client \<Rightarrow> exchange \<Rightarrow>
     (('st, 'f, 'w, 'n) oauth_world, token_response) action" where
  "token_request ox client req w =
     on_net (ox_token ox client req) (w\<lparr>ow_requests := ow_requests w @ [(client, req)]\<rparr>)"

section \<open>Resolving a profile\<close>

fun ip_is_loopback :: "ip_addr \<Rightarrow> bool" where
  "ip_is_loopback (V4 v4) = v4_is_loopback v4"
| "ip_is_loopback (V6 v6) = v6_is_loopback v6"

definition is_loopback_host :: "(string \<Rightarrow> ip_addr option) \<Rightarrow> string \<Rightarrow> bool" where
  "is_loopback_host parse_ip host \<longleftrightarrow>
     eq_ignore_ascii_case host ''localhost''
     \<or> (case parse_ip host of None \<Rightarrow> False | Some ip \<Rightarrow> ip_is_loopback ip)"

definition validate_endpoint_url ::
    "('st, 'f, 'w, 'n) oauth_libs \<Rightarrow> string \<Rightarrow> url \<Rightarrow> (('st, 'f, 'w, 'n) oauth_world, unit) action" where
  "validate_endpoint_url ox field parsed w =
     (and_then (ok_or [field @ '' URL `'' @ url_as_str parsed @ ''` is missing host''] (url_host_str parsed)) (\<lambda>host.
      if url_scheme parsed = ''https''
      then and_then (resolve_and_validate_host (ox_show_ip ox) (ox_dns ox (ow_net w)) host False) (\<lambda>_. Inr ())
      else if url_scheme parsed = ''http'' \<and> is_loopback_host (ox_parse_ip ox) host then Inr ()
      else bail (field @ '' URL `'' @ url_as_str parsed @ ''` uses unsupported scheme `'' @ url_scheme parsed
             @ ''`; expected https (or loopback http for local development)'')), w)"

definition parse_endpoint :: "('st, 'f, 'w, 'n) oauth_libs \<Rightarrow> string \<Rightarrow> string \<Rightarrow> url result" where
  "parse_endpoint ox field raw =
     with_context (''invalid '' @ field @ '' URL `'' @ raw @ ''`'') (os_error (ox_parse_url ox raw))"

definition validate_oauth_endpoint ::
    "('st, 'f, 'w, 'n) oauth_libs \<Rightarrow> string \<Rightarrow> string \<Rightarrow> (('st, 'f, 'w, 'n) oauth_world, unit) action" where
  "validate_oauth_endpoint ox field raw =
     act_bind (act_lift (parse_endpoint ox field raw)) (validate_endpoint_url ox field)"

definition discover_oidc ::
    "('st, 'f, 'w, 'n) oauth_libs \<Rightarrow> string \<Rightarrow> (('st, 'f, 'w, 'n) oauth_world, oidc_metadata) action" where
  "discover_oidc ox issuer =
     act_bind (act_lift (parse_endpoint ox ''issuer'' issuer)) (\<lambda>parsed.
     act_bind (validate_endpoint_url ox ''issuer'' parsed) (\<lambda>_.
     let url = trim_end_matches ''/'' (url_as_str parsed) @ ''/.well-known/openid-configuration''
     in act_bind (\<lambda>w. case on_net (ox_get ox url) w of
             (r, w') \<Rightarrow> (with_context (''failed OIDC discovery request to `'' @ url @ ''`'') r, w')) (\<lambda>(status, body).
        if \<not> (200 \<le> status \<and> status < 300)
        then act_lift (bail (''OIDC discovery failed at `'' @ url @ ''` with status '' @ ox_show_status ox status))
        else act_bind (act_lift (with_context (''failed reading OIDC discovery response from `'' @ url @ ''`'') body)) (\<lambda>txt.
             act_lift (with_context (''invalid OIDC discovery response from `'' @ url @ ''`'')
               (os_error (ox_read_metadata ox txt)))))))"

definition or_else :: "'a option \<Rightarrow> 'a option \<Rightarrow> 'a option" where
  "or_else x y = (case x of Some a \<Rightarrow> Some a | None \<Rightarrow> y)"

text \<open>The endpoints of a profile, with those of the issuer in the place of missing ones.\<close>

definition profile_endpoints ::
    "('st, 'f, 'w, 'n) oauth_libs \<Rightarrow> oauth_profile \<Rightarrow>
     (('st, 'f, 'w, 'n) oauth_world, string option \<times> string option \<times> string option) action" where
  "profile_endpoints ox profile =
     (case oa_issuer profile of
        None \<Rightarrow> act_return (oa_authorization_url profile, oa_token_url profile, oa_device_authorization_url profile)
      | Some issuer \<Rightarrow>
          act_bind (discover_oidc ox issuer) (\<lambda>metadata.
          act_return (or_else (oa_authorization_url profile) (om_authorization_endpoint metadata),
                      or_else (oa_token_url profile) (om_token_endpoint metadata),
                      or_else (oa_device_authorization_url profile) (om_device_authorization_endpoint metadata))))"

definition profile_secret ::
    "('st, 'f, 'w, 'n) oauth_libs \<Rightarrow> oauth_profile \<Rightarrow> (('st, 'f, 'w, 'n) oauth_world, string option) action" where
  "profile_secret ox profile w =
     (case oa_client_secret_key profile of
        None \<Rightarrow> (Inr None, w)
      | Some key \<Rightarrow>
          (case require_secret (ox_lower ox) (ox_store ox) (ox_secret_resolvers ox) key (sw_store (ow_secrets w)) (ow_resolvers w) of
             (r, ws) \<Rightarrow> (and_then r (\<lambda>s. Inr (Some s)), w\<lparr>ow_resolvers := ws\<rparr>)))"

definition validate_optional ::
    "('st, 'f, 'w, 'n) oauth_libs \<Rightarrow> string \<Rightarrow> string option \<Rightarrow> (('st, 'f, 'w, 'n) oauth_world, unit) action" where
  "validate_optional ox field raw =
     (case raw of None \<Rightarrow> act_return () | Some url \<Rightarrow> validate_oauth_endpoint ox field url)"

definition resolve_profile ::
    "('st, 'f, 'w, 'n) oauth_libs \<Rightarrow> config \<Rightarrow> string \<Rightarrow> (('st, 'f, 'w, 'n) oauth_world, resolved_profile) action" where
  "resolve_profile ox cfg name =
     act_bind (act_lift (ok_or [''unknown auth profile `'' @ name @ ''`''] (bt_get (ac_profiles (cfg_auth cfg)) name))) (\<lambda>profile.
     act_bind (profile_endpoints ox profile) (\<lambda>(authorization_url, found_token_url, device_authorization_url).
     act_bind (act_lift (ok_or [''profile `'' @ name @ ''` missing token_url''] found_token_url)) (\<lambda>token_url.
     act_bind (profile_secret ox profile) (\<lambda>client_secret.
     act_bind (act_lift (
       and_then (ensure (\<not> (oa_flow profile = AuthCodePkce \<and> authorization_url = None))
                   (''profile `'' @ name @ ''` requires authorization_url for auth_code_pkce'')) (\<lambda>_.
       ensure (\<not> (oa_flow profile = DeviceCode \<and> device_authorization_url = None))
              (''profile `'' @ name @ ''` requires device_authorization_url for device_code'')))) (\<lambda>_.
     act_bind (validate_oauth_endpoint ox ''token_url'' token_url) (\<lambda>_.
     act_bind (validate_optional ox ''authorization_url'' authorization_url) (\<lambda>_.
     act_bind (validate_optional ox ''device_authorization_url'' device_authorization_url) (\<lambda>_.
     act_return \<lparr>rp_name = name, rp_flow = oa_flow profile, rp_client_id = oa_client_id profile,
                 rp_client_secret = client_secret, rp_authorization_url = authorization_url,
                 rp_token_url = token_url, rp_device_authorization_url = device_authorization_url,
                 rp_redirect_url = oa_redirect_url profile, rp_scopes = oa_scopes profile,
                 rp_use_auth_request_body = oa_use_auth_request_body profile\<rparr>))))))))"

section \<open>Stored tokens\<close>

definition key_for_profile :: "string \<Rightarrow> string" where
  "key_for_profile profile = ''oauth2.'' @ profile @ ''.token''"

definition token_expired :: "int \<Rightarrow> stored_token \<Rightarrow> bool" where
  "token_expired now token \<longleftrightarrow>
     (case st_expires_at token of None \<Rightarrow> False | Some expires \<Rightarrow> expires \<le> now + seconds 30)"

definition load_token ::
    "('st, 'f, 'w, 'n) oauth_libs \<Rightarrow> string \<Rightarrow> (('st, 'f, 'w, 'n) oauth_world, stored_token option) action" where
  "load_token ox profile w =
     (and_then (get_secret (ox_store ox) (key_for_profile profile) (sw_store (ow_secrets w))) (\<lambda>found.
      case found of
        None \<Rightarrow> Inr None
      | Some secret \<Rightarrow>
          and_then (with_context (''failed decoding token payload for profile `'' @ profile @ ''`'')
                     (os_error (ox_token_read ox secret))) (\<lambda>token. Inr (Some token))), w)"

definition save_token ::
    "('st, 'f, 'w, 'n) oauth_libs \<Rightarrow> string \<Rightarrow> stored_token \<Rightarrow> (('st, 'f, 'w, 'n) oauth_world, unit) action" where
  "save_token ox profile token =
     act_bind (from_net (ox_now ox)) (\<lambda>now.
     on_vault (manager_set (ox_store ox) (ox_io ox) now (key_for_profile profile) (ox_token_text ox token)))"

definition delete_token ::
    "('st, 'f, 'w, 'n) oauth_libs \<Rightarrow> string \<Rightarrow> (('st, 'f, 'w, 'n) oauth_world, bool) action" where
  "delete_token ox profile = on_vault (manager_delete (ox_store ox) (ox_io ox) (key_for_profile profile))"

text \<open>\<open>chrono\<close> takes durations of at most \<open>i64::MAX\<close> milliseconds. The sum with the clock panics beyond
  the last year it can represent; that panic ends the program and is the second error here.\<close>

definition chrono_last :: int where
  "chrono_last = 8210266876799 * 10 ^ 9 + 999999999"

definition token_response_to_stored ::
    "('st, 'f, 'w, 'n) oauth_libs \<Rightarrow> token_response \<Rightarrow> string list \<Rightarrow> (('st, 'f, 'w, 'n) oauth_world, stored_token) action" where
  "token_response_to_stored ox token fallback_scopes =
     act_bind (case tp_expires_in token of
         None \<Rightarrow> act_return None
       | Some secs \<Rightarrow>
           if secs > (2 ^ 63 - 1) div 1000 then act_lift (bail ''source duration value is out of range for the target type'')
           else act_bind (from_net (ox_now ox)) (\<lambda>now.
                if now + seconds secs > chrono_last then act_lift (bail ''`DateTime + TimeDelta` overflowed'')
                else act_return (Some (now + seconds secs)))) (\<lambda>expires_at.
     act_return \<lparr>st_access_token = tp_access_token token, st_refresh_token = tp_refresh_token token,
                 st_token_type = Some (tp_token_type token), st_expires_at = expires_at,
                 st_scopes = (case tp_scopes token of Some scopes \<Rightarrow> scopes | None \<Rightarrow> fallback_scopes)\<rparr>)"

section \<open>Logging in\<close>

definition uri_of :: "('st, 'f, 'w, 'n) oauth_libs \<Rightarrow> string \<Rightarrow> string \<Rightarrow> url result" where
  "uri_of ox what raw = with_context (''invalid '' @ what) (os_error (ox_parse_url ox raw))"

text \<open>The part of the client all flows share.\<close>

definition client_of :: "resolved_profile \<Rightarrow> url \<Rightarrow> oauth_client" where
  "client_of profile token_uri =
     \<lparr>oc_client_id = rp_client_id profile, oc_client_secret = rp_client_secret profile, oc_auth_uri = None,
      oc_token_uri = token_uri, oc_device_uri = None, oc_redirect_uri = None,
      oc_request_body = rp_use_auth_request_body profile\<rparr>"

definition exchange_token ::
    "('st, 'f, 'w, 'n) oauth_libs \<Rightarrow> resolved_profile \<Rightarrow> string \<Rightarrow> oauth_client \<Rightarrow> exchange \<Rightarrow>
     (('st, 'f, 'w, 'n) oauth_world, stored_token) action" where
  "exchange_token ox profile failure client req =
     act_bind (\<lambda>w. case token_request ox client req w of (r, w') \<Rightarrow> (with_context failure r, w')) (\<lambda>token.
     token_response_to_stored ox token (rp_scopes profile))"

definition default_redirect :: string where "default_redirect = ''http://127.0.0.1:8976/callback''"

definition code_client :: "('st, 'f, 'w, 'n) oauth_libs \<Rightarrow> resolved_profile \<Rightarrow> oauth_client result" where
  "code_client ox profile =
     and_then (ok_or [''profile missing authorization_url''] (rp_authorization_url profile)) (\<lambda>auth_url.
     and_then (uri_of ox ''authorization_url'' auth_url) (\<lambda>auth_uri.
     and_then (uri_of ox ''token_url'' (rp_token_url profile)) (\<lambda>token_uri.
     and_then (uri_of ox ''redirect_url'' (case rp_redirect_url profile of Some r \<Rightarrow> r | None \<Rightarrow> default_redirect)) (\<lambda>redirect_uri.
     Inr ((client_of profile token_uri)\<lparr>oc_auth_uri := Some auth_uri, oc_redirect_uri := Some redirect_uri\<rparr>)))))"

definition login_auth_code_pkce ::
    "('st, 'f, 'w, 'n) oauth_libs \<Rightarrow> resolved_profile \<Rightarrow> (('st, 'f, 'w, 'n) oauth_world, stored_token) action" where
  "login_auth_code_pkce ox profile =
     act_bind (act_lift (code_client ox profile)) (\<lambda>client.
     act_bind (from_net (ox_pkce ox)) (\<lambda>(challenge, verifier).
     act_bind (from_net (ox_csrf ox)) (\<lambda>csrf_state.
     let authorize_url = ox_authorize_url ox client csrf_state (rp_scopes profile) challenge
     in act_bind (say (''Open this URL in your browser:'' @ [CHR 0x0A] @ authorize_url @ [CHR 0x0A])) (\<lambda>_.
        act_bind (on_net (ox_open_browser ox authorize_url)) (\<lambda>_.
        act_bind (on_net (ox_wait_callback ox
            (case rp_redirect_url profile of Some r \<Rightarrow> r | None \<Rightarrow> default_redirect))) (\<lambda>(code, returned_state).
        if returned_state \<noteq> csrf_state then act_lift (bail ''csrf state mismatch during OAuth callback'')
        else exchange_token ox profile ''failed exchanging authorization code'' client (ExchangeCode code verifier)))))))"

definition login_device_code ::
    "('st, 'f, 'w, 'n) oauth_libs \<Rightarrow> resolved_profile \<Rightarrow> (('st, 'f, 'w, 'n) oauth_world, stored_token) action" where
  "login_device_code ox profile =
     act_bind (act_lift (
       and_then (ok_or [''profile missing device_authorization_url''] (rp_device_authorization_url profile)) (\<lambda>device_url.
       and_then (uri_of ox ''token_url'' (rp_token_url profile)) (\<lambda>token_uri.
       and_then (uri_of ox ''device_authorization_url'' device_url) (\<lambda>device_uri.
       Inr ((client_of profile token_uri)\<lparr>oc_device_uri := Some device_uri\<rparr>)))))) (\<lambda>client.
     act_bind (\<lambda>w. case on_net (ox_device ox client (rp_scopes profile)) w of
                 (r, w') \<Rightarrow> (with_context ''failed to request OAuth device code'' r, w')) (\<lambda>details.
     act_bind (warn [''Open this URL in your browser:'', dd_verification_uri details,
                     ''and enter the code: '' @ dd_user_code details]) (\<lambda>_.
     exchange_token ox profile ''failed device code token exchange'' client (ExchangeDevice details))))"

definition login_client_credentials ::
    "('st, 'f, 'w, 'n) oauth_libs \<Rightarrow> resolved_profile \<Rightarrow> (('st, 'f, 'w, 'n) oauth_world, stored_token) action" where
  "login_client_credentials ox profile =
     act_bind (act_lift (uri_of ox ''token_url'' (rp_token_url profile))) (\<lambda>token_uri.
     exchange_token ox profile ''failed client credentials token exchange'' (client_of profile token_uri)
       (ExchangeCredentials (rp_scopes profile)))"

definition login_flow ::
    "('st, 'f, 'w, 'n) oauth_libs \<Rightarrow> resolved_profile \<Rightarrow> (('st, 'f, 'w, 'n) oauth_world, stored_token) action" where
  "login_flow ox profile =
     (case rp_flow profile of
        AuthCodePkce \<Rightarrow>
          act_catch (login_auth_code_pkce ox profile) (\<lambda>err.
            if rp_device_authorization_url profile \<noteq> None
            then act_bind (warn [''auth code flow failed for `'' @ rp_name profile @ ''`; trying device flow fallback'']) (\<lambda>_.
                 login_device_code ox profile)
            else act_lift (Inl err))
      | DeviceCode \<Rightarrow> login_device_code ox profile
      | ClientCredentials \<Rightarrow> login_client_credentials ox profile)"

definition login :: "('st, 'f, 'w, 'n) oauth_libs \<Rightarrow> config \<Rightarrow> string \<Rightarrow> (('st, 'f, 'w, 'n) oauth_world, unit) action" where
  "login ox cfg profile_name =
     act_bind (resolve_profile ox cfg profile_name) (\<lambda>profile.
     act_bind (login_flow ox profile) (\<lambda>token.
     save_token ox profile_name token))"

section \<open>Refreshing and handing out tokens\<close>

definition refresh_token_if_possible ::
    "('st, 'f, 'w, 'n) oauth_libs \<Rightarrow> resolved_profile \<Rightarrow> stored_token \<Rightarrow>
     (('st, 'f, 'w, 'n) oauth_world, stored_token) action" where
  "refresh_token_if_possible ox profile current =
     act_bind (from_net (ox_now ox)) (\<lambda>now.
     if \<not> token_expired now current then act_return current
     else case st_refresh_token current of
            Some refresh_token \<Rightarrow>
              act_bind (act_lift (uri_of ox ''token_url'' (rp_token_url profile))) (\<lambda>token_uri.
              exchange_token ox profile ''failed refreshing OAuth token'' (client_of profile token_uri) (ExchangeRefresh refresh_token))
          | None \<Rightarrow>
              if rp_flow profile = ClientCredentials then login_client_credentials ox profile
              else act_lift (bail (''token expired for profile `'' @ rp_name profile
                     @ ''` and no refresh token is available; run `earl auth login '' @ rp_name profile @ ''`'')))"

definition refresh :: "('st, 'f, 'w, 'n) oauth_libs \<Rightarrow> config \<Rightarrow> string \<Rightarrow> (('st, 'f, 'w, 'n) oauth_world, unit) action" where
  "refresh ox cfg profile_name =
     act_bind (resolve_profile ox cfg profile_name) (\<lambda>profile.
     act_bind (load_token ox profile_name) (\<lambda>found.
     act_bind (act_lift (ok_or [''no existing token for profile `'' @ profile_name @ ''`''] found)) (\<lambda>current.
     act_bind (refresh_token_if_possible ox profile current) (\<lambda>refreshed.
     save_token ox profile_name refreshed))))"

definition logout :: "('st, 'f, 'w, 'n) oauth_libs \<Rightarrow> string \<Rightarrow> (('st, 'f, 'w, 'n) oauth_world, bool) action" where
  "logout ox profile_name = delete_token ox profile_name"

definition login_status ::
    "('st, 'f, 'w, 'n) oauth_libs \<Rightarrow> string \<Rightarrow> (('st, 'f, 'w, 'n) oauth_world, auth_status) action" where
  "login_status ox profile_name =
     act_bind (load_token ox profile_name) (\<lambda>found.
     act_return (case found of
       Some token \<Rightarrow> \<lparr>au_logged_in = True, au_expires_at = st_expires_at token, au_scopes = st_scopes token\<rparr>
     | None \<Rightarrow> \<lparr>au_logged_in = False, au_expires_at = None, au_scopes = []\<rparr>))"

definition current_token ::
    "('st, 'f, 'w, 'n) oauth_libs \<Rightarrow> string \<Rightarrow> resolved_profile \<Rightarrow> (('st, 'f, 'w, 'n) oauth_world, stored_token) action" where
  "current_token ox profile_name profile =
     act_bind (load_token ox profile_name) (\<lambda>found.
     case found of
       Some existing \<Rightarrow>
         act_bind (from_net (ox_now ox)) (\<lambda>now.
         if token_expired now existing then refresh_token_if_possible ox profile existing
         else act_return existing)
     | None \<Rightarrow>
         if rp_flow profile = ClientCredentials then login_client_credentials ox profile
         else act_lift (bail (''profile `'' @ profile_name @ ''` is not logged in; run `earl auth login '' @ profile_name @ ''`'')))"

definition access_token_for_profile ::
    "('st, 'f, 'w, 'n) oauth_libs \<Rightarrow> config \<Rightarrow> string \<Rightarrow> (('st, 'f, 'w, 'n) oauth_world, string) action" where
  "access_token_for_profile ox cfg profile_name =
     act_bind (resolve_profile ox cfg profile_name) (\<lambda>profile.
     act_bind (current_token ox profile_name profile) (\<lambda>token.
     act_bind (save_token ox profile_name token) (\<lambda>_.
     act_return (st_access_token token))))"

section \<open>The commands\<close>

datatype auth_command = AuthLogin string | AuthStatus string | AuthRefresh string | AuthLogout string

definition show_bool :: "bool \<Rightarrow> string" where "show_bool b = (if b then ''true'' else ''false'')"

fun say_all :: "string list \<Rightarrow> (('st, 'f, 'w, 'n) oauth_world, unit) action" where
  "say_all [] = act_return ()"
| "say_all (l # ls) = act_bind (say l) (\<lambda>_. say_all ls)"

fun run_auth :: "('st, 'f, 'w, 'n) oauth_libs \<Rightarrow> config \<Rightarrow> auth_command \<Rightarrow> (('st, 'f, 'w, 'n) oauth_world, unit) action" where
  "run_auth ox cfg command =
     act_bind (act_lift (with_context ''failed creating OAuth HTTP client'' (ox_client ox))) (\<lambda>_.
     case command of
       AuthLogin profile \<Rightarrow>
         act_bind (login ox cfg profile) (\<lambda>_. say (''Authenticated profile `'' @ profile @ ''`.''))
     | AuthStatus profile \<Rightarrow>
         act_bind (login_status ox profile) (\<lambda>status.
         say_all ([''profile: '' @ profile, ''logged_in: '' @ show_bool (au_logged_in status)]
           @ (case au_expires_at status of None \<Rightarrow> [] | Some e \<Rightarrow> [''expires_at: '' @ ox_rfc3339 ox e])
           @ (if au_scopes status = [] then [] else [''scopes: '' @ str_join '' '' (au_scopes status)])))
     | AuthRefresh profile \<Rightarrow>
         act_bind (refresh ox cfg profile) (\<lambda>_. say (''Refreshed profile `'' @ profile @ ''`.''))
     | AuthLogout profile \<Rightarrow>
         act_bind (logout ox profile) (\<lambda>deleted.
         say (if deleted then ''Logged out profile `'' @ profile @ ''`.''
              else ''No token found for profile `'' @ profile @ ''`.'')))"

section \<open>The callback\<close>

text \<open>Sockets: binding gives an error or nothing; accepting and the first read give the bytes of the request;
  writing the answer.\<close>

record 'n callback_net =
  cb_parse_url :: "string \<Rightarrow> string + url"
  cb_parse_ip :: "string \<Rightarrow> ip_addr option"
  cb_query :: "url \<Rightarrow> (string \<times> string) list"
  cb_bind :: "string \<Rightarrow> u16 \<Rightarrow> ('n, unit) action"
  cb_read :: "nat \<Rightarrow> ('n, string) action"
  cb_write :: "string \<Rightarrow> ('n, unit) action"

definition callback_target :: "'n callback_net \<Rightarrow> string \<Rightarrow> (string \<times> u16 \<times> string) result" where
  "callback_target cb redirect_url =
     and_then (with_context ''invalid redirect URL'' (os_error (cb_parse_url cb redirect_url))) (\<lambda>parsed.
     and_then (ensure (url_scheme parsed = ''http'')
       (''redirect URL `'' @ redirect_url @ ''` must use http scheme for local callback listener'')) (\<lambda>_.
     and_then (ok_or [''redirect URL missing host''] (url_host_str parsed)) (\<lambda>host.
     and_then (ensure (is_loopback_host (cb_parse_ip cb) host)
       (''redirect URL host `'' @ host @ ''` must be loopback (127.0.0.1, ::1, or localhost)'')) (\<lambda>_.
     and_then (ok_or [''redirect URL missing port''] (url_port_or_known_default parsed)) (\<lambda>port.
     Inr (host, port, url_path parsed))))))"

text \<open>The code and the state of a request; its path must be the one of the redirect.\<close>

definition callback_params :: "'n callback_net \<Rightarrow> string \<Rightarrow> string \<Rightarrow> (string \<times> string) result" where
  "callback_params cb expected_path bytes =
     and_then (ok_or [''empty callback request'']
       (case str_lines (from_utf8_lossy bytes) of [] \<Rightarrow> None | l # _ \<Rightarrow> Some l)) (\<lambda>first_line.
     and_then (ok_or [''invalid callback request line'']
       (let ws = split_whitespace first_line in if 1 < length ws then Some (ws ! 1) else None)) (\<lambda>path.
     and_then (with_context ''failed parsing callback URL'' (os_error (cb_parse_url cb (''http://localhost'' @ path)))) (\<lambda>callback_url.
     and_then (ensure (url_path callback_url = expected_path)
       (''authorization callback path mismatch: expected `'' @ expected_path @ ''`, got `'' @ url_path callback_url @ ''`'')) (\<lambda>_.
     let query_pairs = bt_from_iter (cb_query cb callback_url)
     in and_then (ok_or [''authorization callback missing `code`''] (bt_get query_pairs ''code'')) (\<lambda>code.
        and_then (ok_or [''authorization callback missing `state`''] (bt_get query_pairs ''state'')) (\<lambda>state.
        Inr (code, state)))))))"

definition callback_response :: string where
  "callback_response =
     (let body = ''Authentication completed. You can return to the terminal.''; crlf = [CHR 0x0D, CHR 0x0A]
      in ''HTTP/1.1 200 OK'' @ crlf @ ''content-type: text/plain'' @ crlf
         @ ''content-length: '' @ show_nat (length body) @ crlf @ crlf @ body)"

definition wait_for_auth_callback :: "'n callback_net \<Rightarrow> string \<Rightarrow> ('n, string \<times> string) action" where
  "wait_for_auth_callback cb redirect_url =
     act_bind (act_lift (callback_target cb redirect_url)) (\<lambda>(host, port, expected_path).
     act_bind (\<lambda>n. case cb_bind cb host port n of
         (r, n') \<Rightarrow> (with_context (''failed to bind redirect callback server on '' @ host @ '':'' @ show_nat (unat port)) r, n')) (\<lambda>_.
     act_bind (cb_read cb 8192) (\<lambda>bytes.
     act_bind (act_lift (callback_params cb expected_path bytes)) (\<lambda>answer.
     act_bind (cb_write cb callback_response) (\<lambda>_.
     act_return answer)))))"

section \<open>Which requests an action makes\<close>

abbreviation makes ::
    "(oauth_client \<times> exchange \<Rightarrow> bool) \<Rightarrow> (('st, 'f, 'w, 'n) oauth_world, 'a) action \<Rightarrow> bool" where
  "makes \<equiv> logs ow_requests"

lemma makes_on_net [logs_intros]: "makes P (on_net m)"
  by (rule logs_silent) (simp add: on_net_def split: prod.splits)

lemma makes_from_net [logs_intros]: "makes P (from_net f)"
  by (rule logs_silent) (simp add: from_net_def split: prod.splits)

lemma makes_on_vault [logs_intros]: "makes P (on_vault m)"
  by (rule logs_silent) (simp add: on_vault_def split: prod.splits)

lemma makes_say [logs_intros]: "makes P (say s)"
  by (rule logs_silent) (simp add: say_def)

lemma makes_warn [logs_intros]: "makes P (warn ls)"
  by (rule logs_silent) (simp add: warn_def)

lemma makes_token_request: "P (client, req) \<Longrightarrow> makes P (token_request ox client req)"
  by (rule logsI) (auto simp: token_request_def on_net_def split: prod.splits)

lemma makes_stored [logs_intros]: "makes P (token_response_to_stored ox token scopes)"
  unfolding token_response_to_stored_def by (intro logs_intros)

lemma makes_exchange: "P (client, req) \<Longrightarrow> makes P (exchange_token ox profile failure client req)"
  unfolding exchange_token_def by (intro logs_intros makes_token_request)

lemma makes_validate [logs_intros]: "makes P (validate_endpoint_url ox field u)"
  by (rule logs_silent) (simp add: validate_endpoint_url_def)

lemma makes_validate_raw [logs_intros]: "makes P (validate_oauth_endpoint ox field raw)"
  unfolding validate_oauth_endpoint_def by (intro logs_intros)

lemma makes_validate_optional [logs_intros]: "makes P (validate_optional ox field raw)"
  unfolding validate_optional_def by (intro logs_intros)

lemma makes_discover [logs_intros]: "makes P (discover_oidc ox issuer)"
  unfolding discover_oidc_def by (intro logs_intros)

lemma makes_endpoints [logs_intros]: "makes P (profile_endpoints ox profile)"
  unfolding profile_endpoints_def by (intro logs_intros)

lemma makes_secret [logs_intros]: "makes P (profile_secret ox profile)"
  by (rule logs_silent) (simp add: profile_secret_def split: option.splits prod.splits)

lemma makes_resolve [logs_intros]: "makes P (resolve_profile ox cfg name)"
  unfolding resolve_profile_def by (intro logs_intros)

lemma makes_load [logs_intros]: "makes P (load_token ox profile)"
  by (rule logs_silent) (simp add: load_token_def)

lemma makes_save [logs_intros]: "makes P (save_token ox profile token)"
  unfolding save_token_def by (intro logs_intros)

lemma makes_delete [logs_intros]: "makes P (delete_token ox profile)"
  unfolding delete_token_def by (intro logs_intros)

section \<open>Requests go to checked endpoints\<close>

text \<open>An endpoint that passed its check at some state of the network.\<close>

definition endpoint_checked :: "('st, 'f, 'w, 'n) oauth_libs \<Rightarrow> url \<Rightarrow> bool" where
  "endpoint_checked ox u \<longleftrightarrow>
     (\<exists>host. url_host_str u = Some host
        \<and> (url_scheme u = ''https'' \<and> (\<exists>n ips. resolve_and_validate_host (ox_show_ip ox) (ox_dns ox n) host False = Inr ips)
           \<or> url_scheme u = ''http'' \<and> is_loopback_host (ox_parse_ip ox) host))"

text \<open>A token request of a profile: its client with its identity, for a checked endpoint.\<close>

definition proper_request ::
    "('st, 'f, 'w, 'n) oauth_libs \<Rightarrow> oauth_profile \<Rightarrow> oauth_client \<times> exchange \<Rightarrow> bool" where
  "proper_request ox p = (\<lambda>(client, req).
     oc_client_id client = oa_client_id p \<and> (oc_client_secret client = None \<longleftrightarrow> oa_client_secret_key p = None)
     \<and> endpoint_checked ox (oc_token_uri client))"

definition proper_profile :: "('st, 'f, 'w, 'n) oauth_libs \<Rightarrow> oauth_profile \<Rightarrow> resolved_profile \<Rightarrow> bool" where
  "proper_profile ox p rp \<longleftrightarrow>
     rp_client_id rp = oa_client_id p \<and> (rp_client_secret rp = None \<longleftrightarrow> oa_client_secret_key p = None)
     \<and> (\<exists>u. ox_parse_url ox (rp_token_url rp) = Inr u \<and> endpoint_checked ox u)"

lemma validate_endpoint_checked:
  assumes "validate_oauth_endpoint ox field raw w = (Inr x, w')"
  shows "\<exists>u. ox_parse_url ox raw = Inr u \<and> endpoint_checked ox u"
proof -
  from assms obtain u where "ox_parse_url ox raw = Inr u" and check: "validate_endpoint_url ox field u w = (Inr x, w')"
    by (auto simp: validate_oauth_endpoint_def act_bind_Inr act_lift_def parse_endpoint_def os_error_def result_simps)
  moreover from check have "endpoint_checked ox u"
    by (auto simp: validate_endpoint_url_def endpoint_checked_def result_simps split: if_splits)
  ultimately show ?thesis by blast
qed

lemma profile_secret_none:
  "profile_secret ox p w = (Inr secret, w') \<Longrightarrow> secret = None \<longleftrightarrow> oa_client_secret_key p = None"
  by (auto simp: profile_secret_def result_simps split: option.splits prod.splits)

lemma resolve_profile_Inr:
  assumes "resolve_profile ox cfg name w = (Inr rp, w')"
  shows "\<exists>p. bt_get (ac_profiles (cfg_auth cfg)) name = Some p \<and> proper_profile ox p rp \<and> rp_flow rp = oa_flow p
    \<and> rp_scopes rp = oa_scopes p \<and> rp_name rp = name"
proof -
  from assms obtain p token_url secret v1 v2 v3 v4 x where p: "bt_get (ac_profiles (cfg_auth cfg)) name = Some p"
    and secret: "profile_secret ox p v1 = (Inr secret, v2)"
    and check: "validate_oauth_endpoint ox ''token_url'' token_url v3 = (Inr x, v4)"
    and rp: "rp_client_id rp = oa_client_id p" "rp_client_secret rp = secret" "rp_token_url rp = token_url"
      "rp_flow rp = oa_flow p" "rp_scopes rp = oa_scopes p" "rp_name rp = name"
    unfolding resolve_profile_def
    by (auto simp: act_bind_Inr act_lift_def act_return_def ok_or_Inr split: prod.splits)
  from profile_secret_none [OF secret] validate_endpoint_checked [OF check] p rp show ?thesis
    by (auto simp: proper_profile_def)
qed

lemma uri_of_Inr: "uri_of ox what raw = Inr u \<Longrightarrow> ox_parse_url ox raw = Inr u"
  by (simp add: uri_of_def os_error_def result_simps)

lemma proper_client:
  assumes "proper_profile ox p rp" and "uri_of ox what (rp_token_url rp) = Inr u"
    and "oc_client_id client = rp_client_id rp" and "oc_client_secret client = rp_client_secret rp" and "oc_token_uri client = u"
  shows "proper_request ox p (client, req)"
  using assms uri_of_Inr [OF assms(2)] by (auto simp: proper_request_def proper_profile_def)

lemma makes_credentials:
  assumes "proper_profile ox p rp"
  shows "makes (proper_request ox p) (login_client_credentials ox rp)"
  unfolding login_client_credentials_def
  by (intro logs_lift_bind makes_exchange proper_client [OF assms]) (simp_all add: client_of_def)

lemma makes_device:
  assumes "proper_profile ox p rp"
  shows "makes (proper_request ox p) (login_device_code ox rp)"
  unfolding login_device_code_def
  by (intro logs_lift_bind logs_intros makes_exchange)
    (auto simp: result_simps client_of_def intro!: proper_client [OF assms])

lemma makes_code:
  assumes "proper_profile ox p rp"
  shows "makes (proper_request ox p) (login_auth_code_pkce ox rp)"
  unfolding login_auth_code_pkce_def code_client_def
  by (intro logs_lift_bind logs_intros makes_exchange)
    (auto simp: result_simps client_of_def intro!: proper_client [OF assms])

lemma makes_refresh_token:
  assumes "proper_profile ox p rp"
  shows "makes (proper_request ox p) (refresh_token_if_possible ox rp current)"
  unfolding refresh_token_if_possible_def
  by (intro logs_bind makes_from_net logs_if logs_return logs_option logs_lift_bind makes_credentials [OF assms]
      makes_exchange logs_lift proper_client [OF assms]) (simp_all add: client_of_def)

lemma makes_flow:
  assumes "proper_profile ox p rp"
  shows "makes (proper_request ox p) (login_flow ox rp)"
proof (cases "rp_flow rp")
  case AuthCodePkce
  then show ?thesis
    by (auto simp: login_flow_def intro!: logs_catch makes_code [OF assms] logs_bind makes_warn makes_device [OF assms] logs_lift)
qed (simp_all add: login_flow_def makes_device [OF assms] makes_credentials [OF assms])

lemma makes_current:
  assumes "proper_profile ox p rp"
  shows "makes (proper_request ox p) (current_token ox name rp)"
  unfolding current_token_def
  by (intro logs_bind makes_load logs_option logs_if makes_credentials [OF assms] logs_lift makes_from_net
      makes_refresh_token [OF assms] logs_return)

lemma makes_after_resolve:
  assumes "\<And>rp. proper_profile ox p rp \<Longrightarrow> makes (proper_request ox p) (k rp)"
    and "bt_get (ac_profiles (cfg_auth cfg)) name = Some p"
  shows "makes (proper_request ox p) (act_bind (resolve_profile ox cfg name) k)"
proof (rule logs_bind_when [OF makes_resolve])
  fix rp w w' assume "resolve_profile ox cfg name w = (Inr rp, w')"
  from resolve_profile_Inr [OF this] assms(2) have "proper_profile ox p rp" by auto
  then show "makes (proper_request ox p) (k rp)" by (rule assms(1))
qed

text \<open>
  C29. Tokens are asked for only where the profile says and the check allows: every token request made by a
  login, a refresh or the use of a profile identifies itself as the client of that profile and goes to a
  token endpoint that passed its check, which is HTTPS at a name with only public addresses or HTTP on
  the loopback host.
\<close>

theorem token_requests_checked:
  assumes "bt_get (ac_profiles (cfg_auth cfg)) name = Some p"
    and "login ox cfg name w = (r, w') \<or> refresh ox cfg name w = (r, w')
      \<or> access_token_for_profile ox cfg name w = (x, w')"
  shows "\<exists>reqs. ow_requests w' = ow_requests w @ reqs \<and> list_all (proper_request ox p) reqs"
proof -
  have "makes (proper_request ox p) (login ox cfg name)"
    unfolding login_def by (intro makes_after_resolve [OF _ assms(1)] logs_bind makes_flow makes_save)
  moreover have "makes (proper_request ox p) (refresh ox cfg name)"
    unfolding refresh_def
    by (intro makes_after_resolve [OF _ assms(1)] logs_bind makes_load logs_lift makes_refresh_token makes_save)
  moreover have "makes (proper_request ox p) (access_token_for_profile ox cfg name)"
    unfolding access_token_for_profile_def
    by (intro makes_after_resolve [OF _ assms(1)] logs_bind makes_current makes_save logs_return)
  ultimately show ?thesis using assms(2) unfolding logs_def by blast
qed

section \<open>A code is exchanged only for the own state\<close>

lemma exchange_token_requests:
  assumes "exchange_token ox profile failure client req w = (r, w')"
  shows "ow_requests w' = ow_requests w @ [(client, req)]"
proof -
  have silent: "makes (\<lambda>q. False) (token_response_to_stored ox token scopes)" for token scopes
    by (rule makes_stored)
  have quiet: "ow_requests v' = ow_requests v"
    if "token_response_to_stored ox token scopes v = (x, v')" for token scopes v x v'
  proof -
    from silent that obtain reqs where "ow_requests v' = ow_requests v @ reqs" "list_all (\<lambda>q. False) reqs"
      unfolding logs_def by blast
    then show ?thesis by (cases reqs) simp_all
  qed
  have asked: "ow_requests v = ow_requests w @ [(client, req)]" if "token_request ox client req w = (x, v)" for x v
    using that by (auto simp: token_request_def on_net_def split: prod.splits)
  obtain x v where first: "token_request ox client req w = (x, v)" by (cases "token_request ox client req w")
  with assms asked [OF first] quiet show ?thesis
    by (cases x) (auto simp: exchange_token_def act_bind_def)
qed

text \<open>
  C39. In the login with a code, a code is exchanged only when the callback came back with the very state that
  was put into the authorization URL, and then with the verifier of the challenge in that URL.
\<close>

theorem code_needs_own_state:
  assumes "login_auth_code_pkce ox profile w = (r, w')" and "ow_requests w' \<noteq> ow_requests w"
  shows "\<exists>client challenge verifier n1 csrf n2 n3 code n4.
      ox_pkce ox (ow_net w) = ((challenge, verifier), n1) \<and> ox_csrf ox n1 = (csrf, n2)
      \<and> ox_open_browser ox (ox_authorize_url ox client csrf (rp_scopes profile) challenge) n2 = (Inr (), n3)
      \<and> ox_wait_callback ox (case rp_redirect_url profile of Some u \<Rightarrow> u | None \<Rightarrow> default_redirect) n3 = (Inr (code, csrf), n4)
      \<and> ow_requests w' = ow_requests w @ [(client, ExchangeCode code verifier)]"
proof -
  obtain challenge verifier n1 where pkce: "ox_pkce ox (ow_net w) = ((challenge, verifier), n1)" by (metis prod.exhaust)
  obtain csrf n2 where csrf: "ox_csrf ox n1 = (csrf, n2)" by (metis prod.exhaust)
  show ?thesis
  proof (cases "code_client ox profile")
    case (Inl e)
    with assms show ?thesis by (simp add: login_auth_code_pkce_def act_bind_def act_lift_def)
  next
    case (Inr client)
    let ?url = "ox_authorize_url ox client csrf (rp_scopes profile) challenge"
    let ?redirect = "case rp_redirect_url profile of Some u \<Rightarrow> u | None \<Rightarrow> default_redirect"
    obtain o1 n3 where opened: "ox_open_browser ox ?url n2 = (o1, n3)" by (metis prod.exhaust)
    obtain a n4 where waited: "ox_wait_callback ox ?redirect n3 = (a, n4)" by (metis prod.exhaust)
    let ?said = "w\<lparr>ow_out := ow_out w @ [''Open this URL in your browser:'' @ [CHR 0x0A] @ ?url @ [CHR 0x0A]], ow_net := n4\<rparr>"
    have "o1 = Inr () \<and> (\<exists>code. a = Inr (code, csrf)
        \<and> exchange_token ox profile ''failed exchanging authorization code'' client (ExchangeCode code verifier) ?said = (r, w'))"
    proof (cases o1)
      case (Inl e)
      with assms pkce csrf opened \<open>code_client ox profile = Inr client\<close> show ?thesis
        by (auto simp: login_auth_code_pkce_def act_bind_def act_lift_def from_net_def say_def on_net_def Let_def)
    next
      case unit: (Inr u)
      show ?thesis
      proof (cases a)
        case (Inl e)
        with unit assms pkce csrf opened waited \<open>code_client ox profile = Inr client\<close> show ?thesis
          by (auto simp: login_auth_code_pkce_def act_bind_def act_lift_def from_net_def say_def on_net_def Let_def)
      next
        case (Inr answer)
        with unit assms pkce csrf opened waited \<open>code_client ox profile = Inr client\<close> show ?thesis
          by (auto simp: login_auth_code_pkce_def act_bind_def act_lift_def from_net_def say_def on_net_def Let_def bail_def
              split: prod.splits if_splits)
      qed
    qed
    then obtain code where "o1 = Inr ()" "a = Inr (code, csrf)"
      and run: "exchange_token ox profile ''failed exchanging authorization code'' client (ExchangeCode code verifier) ?said = (r, w')"
      by blast
    with exchange_token_requests [OF run] pkce csrf opened waited show ?thesis by auto
  qed
qed

section \<open>What is handed out\<close>

text \<open>The text of a token reads back as the token.\<close>

definition tokens_readable :: "('st, 'f, 'w, 'n) oauth_libs \<Rightarrow> bool" where
  "tokens_readable ox \<longleftrightarrow> (\<forall>t. ox_token_read ox (ox_token_text ox t) = Inr t)"

context managed_store begin

lemma set_then_get:
  "inv (sw_store w) \<Longrightarrow> manager_set store io now key secret w = (Inr u, w') \<Longrightarrow>
     get_secret store key (sw_store w') = Inr (Some secret)"
  using put_look by (auto simp: manager_set_def act_bind_Inr on_store_iff on_index_iff manager_load_index_def)

lemma save_then_load:
  assumes "ox_store ox = store" and "inv (sw_store (ow_secrets w))" and "tokens_readable ox"
    and "save_token ox profile token w = (Inr u, w')"
  shows "load_token ox profile w' = (Inr (Some token), w')"
proof -
  obtain now n where clock: "ox_now ox (ow_net w) = (now, n)" by (metis prod.exhaust)
  obtain x s where set_run: "manager_set store (ox_io ox) now (key_for_profile profile) (ox_token_text ox token) (ow_secrets w) = (x, s)"
    by (metis prod.exhaust)
  with assms(1,4) clock have w': "x = Inr ()" "w' = w\<lparr>ow_net := n, ow_secrets := s\<rparr>"
    by (simp_all add: save_token_def act_bind_def from_net_def on_vault_def)
  from set_then_get [OF assms(2) set_run [unfolded w'(1)]] w'(2)
  have "get_secret store (key_for_profile profile) (sw_store (ow_secrets w')) = Inr (Some (ox_token_text ox token))" by simp
  with assms(1,3) show ?thesis by (simp add: load_token_def tokens_readable_def os_error_def)
qed

lemma delete_then_load:
  assumes "ox_store ox = store" and "inv (sw_store (ow_secrets w))"
    and "delete_token ox profile w = (Inr b, w')"
  shows "load_token ox profile w' = (Inr None, w')"
proof -
  from assms(3) obtain s where run: "manager_delete store (ox_io ox) (key_for_profile profile) (ow_secrets w) = (Inr b, s)"
    and w': "w' = w\<lparr>ow_secrets := s\<rparr>"
    by (auto simp: delete_token_def on_vault_def assms(1) split: prod.splits)
  have "get_secret store (key_for_profile profile) (sw_store s) = Inr None"
    using run del_look assms(2) by (auto simp: manager_delete_def act_bind_Inr on_store_iff on_index_iff manager_load_index_def)
  with w' assms(1) show ?thesis by (simp add: load_token_def)
qed

end

text \<open>A step that leaves the store alone.\<close>

definition keeps_vault :: "(('st, 'f, 'w, 'n) oauth_world, 'a) action \<Rightarrow> bool" where
  "keeps_vault m \<longleftrightarrow> (\<forall>w. ow_secrets (snd (m w)) = ow_secrets w)"

lemma keeps_vault_run: "keeps_vault m \<Longrightarrow> m w = (r, w') \<Longrightarrow> ow_secrets w' = ow_secrets w"
  unfolding keeps_vault_def by (metis snd_conv)

lemma keeps_vault_bind: "keeps_vault m \<Longrightarrow> (\<And>x. keeps_vault (k x)) \<Longrightarrow> keeps_vault (act_bind m k)"
  unfolding keeps_vault_def act_bind_def by (simp split: prod.splits sum.splits) (metis snd_conv)

named_theorems vault_intros

lemma keeps_vault_basic [vault_intros]:
  "keeps_vault (act_return x)" "keeps_vault (act_lift r)" "keeps_vault (on_net m1)" "keeps_vault (from_net f)"
  "keeps_vault (say s)" "keeps_vault (warn ls)" "keeps_vault (token_request ox client req)"
  "keeps_vault (profile_secret ox p)" "keeps_vault (validate_endpoint_url ox field u)" "keeps_vault (load_token ox name)"
  by (simp_all add: keeps_vault_def act_return_def act_lift_def on_net_def from_net_def say_def warn_def
      token_request_def profile_secret_def validate_endpoint_url_def load_token_def split: prod.splits option.splits)

lemma keeps_vault_if [vault_intros]: "(b \<Longrightarrow> keeps_vault m) \<Longrightarrow> (\<not> b \<Longrightarrow> keeps_vault n) \<Longrightarrow> keeps_vault (if b then m else n)"
  by simp

lemma keeps_vault_option [vault_intros]:
  "(x = None \<Longrightarrow> keeps_vault m) \<Longrightarrow> (\<And>y. x = Some y \<Longrightarrow> keeps_vault (f y)) \<Longrightarrow> keeps_vault (case x of None \<Rightarrow> m | Some y \<Rightarrow> f y)"
  by (cases x) simp_all

lemma keeps_vault_prod [vault_intros]: "(\<And>x y. keeps_vault (f x y)) \<Longrightarrow> keeps_vault (case z of (x, y) \<Rightarrow> f x y)"
  by (cases z) simp

lemma keeps_vault_let [vault_intros]: "keeps_vault (f x) \<Longrightarrow> keeps_vault (let y = x in f y)"
  by simp

lemma keeps_vault_context [vault_intros]: "keeps_vault m \<Longrightarrow> keeps_vault (\<lambda>w. case m w of (r, w') \<Rightarrow> (with_context msg r, w'))"
  unfolding keeps_vault_def by (simp split: prod.splits) (metis snd_conv)

lemma keeps_vault_exchange: "keeps_vault (exchange_token ox profile failure client req)"
  unfolding exchange_token_def token_response_to_stored_def by (intro keeps_vault_bind vault_intros)

lemma keeps_vault_resolve: "keeps_vault (resolve_profile ox cfg name)"
  unfolding resolve_profile_def profile_endpoints_def discover_oidc_def validate_oauth_endpoint_def validate_optional_def
  by (intro keeps_vault_bind vault_intros)

lemma keeps_vault_refresh: "keeps_vault (refresh_token_if_possible ox profile current)"
  unfolding refresh_token_if_possible_def login_client_credentials_def
  by (intro keeps_vault_bind vault_intros keeps_vault_exchange)

lemma keeps_vault_current: "keeps_vault (current_token ox name profile)"
  unfolding current_token_def login_client_credentials_def
  by (intro keeps_vault_bind vault_intros keeps_vault_exchange keeps_vault_refresh)

text \<open>A token that is fresh: not expired when the clock was read, or just issued.\<close>

definition fresh_token ::
    "('st, 'f, 'w, 'n) oauth_libs \<Rightarrow> ('st, 'f, 'w, 'n) oauth_world \<Rightarrow> ('st, 'f, 'w, 'n) oauth_world \<Rightarrow>
     stored_token option \<Rightarrow> stored_token \<Rightarrow> bool" where
  "fresh_token ox w w' stored token \<longleftrightarrow>
     (stored = Some token \<and> ow_requests w' = ow_requests w \<and> (\<exists>n. \<not> token_expired (fst (ox_now ox n)) token))
     \<or> (\<exists>client req n resp n'. ow_requests w' = ow_requests w @ [(client, req)]
          \<and> ox_token ox client req n = (Inr resp, n') \<and> st_access_token token = tp_access_token resp)"

lemma exchange_token_Inr:
  assumes "exchange_token ox profile failure client req w = (Inr token, w')"
  shows "\<exists>n resp n'. ox_token ox client req n = (Inr resp, n') \<and> st_access_token token = tp_access_token resp
    \<and> st_refresh_token token = tp_refresh_token resp"
proof -
  from assms obtain resp v where "token_request ox client req w = (Inr resp, v)"
    and stored: "token_response_to_stored ox resp (rp_scopes profile) v = (Inr token, w')"
    by (auto simp: exchange_token_def act_bind_Inr result_simps split: prod.splits)
  then have "\<exists>n n'. ox_token ox client req n = (Inr resp, n')"
    by (auto simp: token_request_def on_net_def split: prod.splits)
  moreover from stored have "st_access_token token = tp_access_token resp" "st_refresh_token token = tp_refresh_token resp"
    by (auto simp: token_response_to_stored_def act_bind_Inr act_return_def)
  ultimately show ?thesis by blast
qed

lemma exchanged_is_fresh:
  assumes "exchange_token ox profile failure client req w = (Inr token, w')"
  shows "fresh_token ox w w' stored token"
  using exchange_token_requests [OF assms] exchange_token_Inr [OF assms] unfolding fresh_token_def by blast

lemma lifted_exchange_is_fresh:
  assumes "act_bind (act_lift r) (\<lambda>x. exchange_token ox profile failure (client x) (req x)) w = (Inr token, w')"
  shows "fresh_token ox w w' stored token"
proof -
  from assms obtain x where "exchange_token ox profile failure (client x) (req x) w = (Inr token, w')"
    by (auto simp: act_bind_Inr act_lift_def)
  then show ?thesis by (rule exchanged_is_fresh)
qed

lemma refresh_is_fresh:
  assumes "refresh_token_if_possible ox profile current w = (Inr token, w')"
  shows "fresh_token ox w w' (Some current) token"
proof -
  obtain now n where clock: "ox_now ox (ow_net w) = (now, n)" by (metis prod.exhaust)
  let ?v = "w\<lparr>ow_net := n\<rparr>"
  have run: "(if \<not> token_expired now current then act_return current
     else case st_refresh_token current of
            Some refresh_token \<Rightarrow>
              act_bind (act_lift (uri_of ox ''token_url'' (rp_token_url profile))) (\<lambda>token_uri.
              exchange_token ox profile ''failed refreshing OAuth token'' (client_of profile token_uri) (ExchangeRefresh refresh_token))
          | None \<Rightarrow>
              if rp_flow profile = ClientCredentials then login_client_credentials ox profile
              else act_lift (bail (''token expired for profile `'' @ rp_name profile
                     @ ''` and no refresh token is available; run `earl auth login '' @ rp_name profile @ ''`''))) ?v
    = (Inr token, w')"
    using assms by (simp add: refresh_token_if_possible_def act_bind_def from_net_def clock)
  have moved: "fresh_token ox ?v w' (Some current) token \<Longrightarrow> fresh_token ox w w' (Some current) token"
    by (simp add: fresh_token_def)
  show ?thesis
  proof (cases "token_expired now current")
    case False
    with run have "token = current" "w' = ?v" by (simp_all add: act_return_def)
    with False clock show ?thesis by (auto simp: fresh_token_def intro: exI [of _ "ow_net w"])
  next
    case True
    show ?thesis
    proof (cases "st_refresh_token current")
      case (Some rt)
      with run True have "act_bind (act_lift (uri_of ox ''token_url'' (rp_token_url profile))) (\<lambda>token_uri.
          exchange_token ox profile ''failed refreshing OAuth token'' (client_of profile token_uri) (ExchangeRefresh rt)) ?v
        = (Inr token, w')" by simp
      then show ?thesis by (intro moved lifted_exchange_is_fresh)
    next
      case None
      with run True have "rp_flow profile = ClientCredentials" "login_client_credentials ox profile ?v = (Inr token, w')"
        by (auto simp: act_lift_def bail_def split: if_splits)
      then show ?thesis unfolding login_client_credentials_def by (intro moved lifted_exchange_is_fresh)
    qed
  qed
qed

lemma current_is_fresh:
  assumes "current_token ox name profile w = (Inr token, w')" and "load_token ox name w = (Inr found, w)"
  shows "fresh_token ox w w' found token"
proof (cases found)
  case None
  with assms have "login_client_credentials ox profile w = (Inr token, w')"
    by (auto simp: current_token_def act_bind_def act_lift_def bail_def split: if_splits)
  then show ?thesis unfolding login_client_credentials_def by (rule lifted_exchange_is_fresh)
next
  case (Some existing)
  obtain now n where clock: "ox_now ox (ow_net w) = (now, n)" by (metis prod.exhaust)
  let ?v = "w\<lparr>ow_net := n\<rparr>"
  have run: "(if token_expired now existing then refresh_token_if_possible ox profile existing else act_return existing) ?v
      = (Inr token, w')"
    using assms Some by (simp add: current_token_def act_bind_def from_net_def clock)
  show ?thesis
  proof (cases "token_expired now existing")
    case False
    with run have "token = existing" "w' = ?v" by (simp_all add: act_return_def)
    with False clock Some show ?thesis by (auto simp: fresh_token_def intro: exI [of _ "ow_net w"])
  next
    case True
    with run have "refresh_token_if_possible ox profile existing ?v = (Inr token, w')" by simp
    from refresh_is_fresh [OF this] Some show ?thesis by (simp add: fresh_token_def)
  qed
qed


section \<open>Where the code surprises\<close>

text \<open>A refresh, which the command line calls forced, leaves a token alone that has not expired.\<close>

lemma refresh_not_forced:
  "\<not> token_expired (fst (ox_now ox (ow_net w))) current \<Longrightarrow>
     refresh_token_if_possible ox profile current w = (Inr current, w\<lparr>ow_net := snd (ox_now ox (ow_net w))\<rparr>)"
  by (cases "ox_now ox (ow_net w)") (simp add: refresh_token_if_possible_def act_bind_def from_net_def act_return_def)

text \<open>A refreshed token has the refresh token of the answer only; a server that does not repeat it, as it
  may, makes the old one disappear.\<close>

lemma refresh_forgets_refresh_token:
  assumes "exchange_token ox profile failure client (ExchangeRefresh rt) w = (Inr token, w')"
    and "\<And>n resp n'. ox_token ox client (ExchangeRefresh rt) n = (Inr resp, n') \<Longrightarrow> tp_refresh_token resp = None"
  shows "st_refresh_token token = None"
proof -
  from exchange_token_Inr [OF assms(1)] obtain n resp n' where
    "ox_token ox client (ExchangeRefresh rt) n = (Inr resp, n')" "st_refresh_token token = tp_refresh_token resp" by blast
  with assms(2) show ?thesis by simp
qed

text \<open>The host of a URL with an IPv6 address has brackets, with which it does not parse as an address, so the
  loopback address the message names is refused.\<close>

lemma bracketed_loopback_refused:
  "parse_ip ''[::1]'' = None \<Longrightarrow> \<not> is_loopback_host parse_ip ''[::1]''"
  by (simp add: is_loopback_host_def eq_ignore_ascii_case_def to_ascii_lowercase_def)

lemma callback_on_loopback:
  "callback_target cb redirect_url = Inr (host, port, path) \<Longrightarrow> is_loopback_host (cb_parse_ip cb) host"
  by (auto simp: callback_target_def result_simps)

section \<open>A concrete profile\<close>

definition sample_token_text :: "stored_token \<Rightarrow> string" where
  "sample_token_text t =
     show_nat (to_nat (st_access_token t, st_refresh_token t, st_token_type t, st_expires_at t, st_scopes t))"

definition sample_token_read :: "string \<Rightarrow> string + stored_token" where
  "sample_token_read s =
     (case digits_val 0 s of
        None \<Rightarrow> Inl ''no token''
      | Some n \<Rightarrow> (case from_nat n of (a, r, ty, e, scopes) \<Rightarrow>
          Inr \<lparr>st_access_token = a, st_refresh_token = r, st_token_type = ty, st_expires_at = e, st_scopes = scopes\<rparr>))"

lemma sample_token_round: "sample_token_read (sample_token_text t) = Inr t"
  by (simp add: sample_token_read_def sample_token_text_def digits_val_show_nat)

definition sample_oauth :: "(memory_store, secret_index, unit, nat) oauth_libs" where
  "sample_oauth =
     \<lparr>ox_store = in_memory_store, ox_io = plain_io, ox_lower = id, ox_secret_resolvers = [], ox_client = Inr (),
      ox_parse_url = (\<lambda>s. Inr \<lparr>url_as_str = s, url_scheme = ''https'', url_host_str = Some ''id.example.com'',
                                url_port_or_known_default = Some 443, url_path = ''/token''\<rparr>),
      ox_parse_ip = (\<lambda>s. None), ox_show_ip = (\<lambda>ip. ''ip''), ox_dns = (\<lambda>n. Inr (\<lambda>h. Inr [V4 (Ipv4 93 184 216 34)])),
      ox_get = (\<lambda>u n. (Inl [''offline''], n)), ox_show_status = show_nat, ox_read_metadata = (\<lambda>s. Inl ''no JSON''),
      ox_now = (\<lambda>n. (int n, Suc n)), ox_pkce = (\<lambda>n. ((''challenge'', ''verifier''), Suc n)), ox_csrf = (\<lambda>n. (''state'', Suc n)),
      ox_authorize_url = (\<lambda>c s scopes ch. ''https://id.example.com/auth''), ox_open_browser = (\<lambda>u n. (Inr (), n)),
      ox_wait_callback = (\<lambda>u n. (Inr (''c0de'', ''state''), n)), ox_device = (\<lambda>c scopes n. (Inl [''offline''], n)),
      ox_token = (\<lambda>c req n. (Inr \<lparr>tp_access_token = ''t0ken'', tp_refresh_token = None, tp_token_type = ''Bearer'',
                                   tp_expires_in = None, tp_scopes = None\<rparr>, Suc n)),
      ox_token_text = sample_token_text, ox_token_read = sample_token_read, ox_rfc3339 = show_int\<rparr>"

definition sample_profile :: oauth_profile where
  "sample_profile =
     \<lparr>oa_flow = ClientCredentials, oa_client_id = ''earl'', oa_client_secret_key = None, oa_issuer = None,
      oa_authorization_url = None, oa_token_url = Some ''https://id.example.com/token'', oa_device_authorization_url = None,
      oa_redirect_url = None, oa_scopes = [''read''], oa_use_auth_request_body = False\<rparr>"

definition oauth_cfg :: config where
  "oauth_cfg = mcp_cfg_sample\<lparr>cfg_auth := \<lparr>ac_profiles = [(''gh'', sample_profile)], ac_jwt = None\<rparr>\<rparr>"

definition oauth_start :: "(memory_store, secret_index, unit, nat) oauth_world" where
  "oauth_start = \<lparr>ow_secrets = empty_world, ow_resolvers = ((), []), ow_net = 0, ow_out = [], ow_err = [], ow_requests = []\<rparr>"

definition sample_resolved :: resolved_profile where
  "sample_resolved =
     \<lparr>rp_name = ''gh'', rp_flow = ClientCredentials, rp_client_id = ''earl'', rp_client_secret = None,
      rp_authorization_url = None, rp_token_url = ''https://id.example.com/token'', rp_device_authorization_url = None,
      rp_redirect_url = None, rp_scopes = [''read''], rp_use_auth_request_body = False\<rparr>"

definition sample_uri :: "string \<Rightarrow> url" where
  "sample_uri s = \<lparr>url_as_str = s, url_scheme = ''https'', url_host_str = Some ''id.example.com'',
     url_port_or_known_default = Some 443, url_path = ''/token''\<rparr>"

definition sample_issued :: stored_token where
  "sample_issued = \<lparr>st_access_token = ''t0ken'', st_refresh_token = None, st_token_type = Some ''Bearer'',
     st_expires_at = None, st_scopes = [''read'']\<rparr>"

lemma sample_validate: "validate_oauth_endpoint sample_oauth field raw w = (Inr (), w)"
  by (simp add: validate_oauth_endpoint_def act_bind_def act_lift_def parse_endpoint_def os_error_def sample_oauth_def
      validate_endpoint_url_def resolve_and_validate_host_def ensure_safe_ip_def is_blocked_v4_def)

lemma sample_resolve: "resolve_profile sample_oauth oauth_cfg ''gh'' w = (Inr sample_resolved, w)"
  by (simp add: resolve_profile_def oauth_cfg_def act_bind_def act_lift_def act_return_def profile_endpoints_def
      sample_profile_def profile_secret_def sample_validate validate_optional_def sample_resolved_def ensure_def)

lemma sample_login:
  "login_client_credentials sample_oauth sample_resolved w
     = (Inr sample_issued, w\<lparr>ow_net := Suc (ow_net w),
          ow_requests := ow_requests w @ [(client_of sample_resolved (sample_uri ''https://id.example.com/token''), ExchangeCredentials [''read''])]\<rparr>)"
  by (simp add: login_client_credentials_def act_bind_def act_lift_def uri_of_def os_error_def sample_oauth_def sample_resolved_def
      sample_uri_def exchange_token_def token_request_def on_net_def token_response_to_stored_def act_return_def sample_issued_def)

lemma sample_profile_found: "bt_get (ac_profiles (cfg_auth oauth_cfg)) ''gh'' = Some sample_profile"
  by (simp add: oauth_cfg_def)

lemma sample_not_loaded: "load_token sample_oauth ''gh'' oauth_start = (Inr None, oauth_start)"
  by (simp add: load_token_def sample_oauth_def in_memory_store_def mem_get_secret_def oauth_start_def empty_world_def)

lemma sample_access:
  "\<exists>w'. access_token_for_profile sample_oauth oauth_cfg ''gh'' oauth_start = (Inr ''t0ken'', w')"
proof -
  let ?v = "oauth_start\<lparr>ow_net := 1, ow_requests := [(client_of sample_resolved (sample_uri ''https://id.example.com/token''), ExchangeCredentials [''read''])]\<rparr>"
  have "current_token sample_oauth ''gh'' sample_resolved oauth_start = (Inr sample_issued, ?v)"
    using sample_login [of oauth_start] sample_not_loaded
    by (simp add: current_token_def act_bind_def sample_resolved_def oauth_start_def)
  moreover have "is_ok (fst (save_token sample_oauth ''gh'' sample_issued ?v))"
    by (simp add: save_token_def act_bind_def from_net_def sample_oauth_def on_vault_def manager_set_def on_store_def
        in_memory_store_def mem_set_secret_def oauth_start_def empty_world_def manager_load_index_def load_index_def
        on_index_def save_index_def plain_io_def act_lift_def os_error_def)
  then obtain w' where "save_token sample_oauth ''gh'' sample_issued ?v = (Inr (), w')"
    by (cases "save_token sample_oauth ''gh'' sample_issued ?v"; cases "fst (save_token sample_oauth ''gh'' sample_issued ?v)") auto
  ultimately have "access_token_for_profile sample_oauth oauth_cfg ''gh'' oauth_start = (Inr ''t0ken'', w')"
    by (simp add: access_token_for_profile_def act_bind_def sample_resolve act_return_def sample_issued_def)
  then show ?thesis by blast
qed

theorem token_requests_checked_witness:
  "\<exists>w' reqs. access_token_for_profile sample_oauth oauth_cfg ''gh'' oauth_start = (Inr ''t0ken'', w')
     \<and> ow_requests w' = reqs \<and> list_all (proper_request sample_oauth sample_profile) reqs"
proof -
  obtain w' where run: "access_token_for_profile sample_oauth oauth_cfg ''gh'' oauth_start = (Inr ''t0ken'', w')"
    using sample_access by blast
  from token_requests_checked [OF sample_profile_found, of sample_oauth oauth_start _ w'] run
  have "\<exists>reqs. ow_requests w' = ow_requests oauth_start @ reqs \<and> list_all (proper_request sample_oauth sample_profile) reqs"
    by blast
  with run show ?thesis by (auto simp: oauth_start_def)
qed


definition code_profile :: resolved_profile where
  "code_profile = sample_resolved\<lparr>rp_flow := AuthCodePkce, rp_authorization_url := Some ''https://id.example.com/auth''\<rparr>"

theorem code_needs_own_state_witness:
  "\<exists>client w'. login_auth_code_pkce sample_oauth code_profile oauth_start = (Inr sample_issued, w')
     \<and> ow_requests w' = [(client, ExchangeCode ''c0de'' ''verifier'')]"
proof -
  let ?client = "(client_of code_profile (sample_uri ''https://id.example.com/token''))
      \<lparr>oc_auth_uri := Some (sample_uri ''https://id.example.com/auth''), oc_redirect_uri := Some (sample_uri default_redirect)\<rparr>"
  have client: "code_client sample_oauth code_profile = Inr ?client"
    by (simp add: code_client_def code_profile_def sample_resolved_def uri_of_def os_error_def sample_oauth_def sample_uri_def)
  have parts: "ox_pkce sample_oauth n = ((''challenge'', ''verifier''), Suc n)" "ox_csrf sample_oauth n = (''state'', Suc n)"
    "ox_open_browser sample_oauth u n = (Inr (), n)" "ox_wait_callback sample_oauth u n = (Inr (''c0de'', ''state''), n)" for n u
    by (simp_all add: sample_oauth_def)
  have "rp_scopes code_profile = [''read'']" by (simp add: code_profile_def sample_resolved_def)
  then have issued: "exchange_token sample_oauth code_profile f c q w
      = (Inr sample_issued, w\<lparr>ow_net := Suc (ow_net w), ow_requests := ow_requests w @ [(c, q)]\<rparr>)" for f c q w
    by (simp add: exchange_token_def act_bind_def token_request_def on_net_def sample_oauth_def token_response_to_stored_def
        act_return_def sample_issued_def)
  obtain w' where run: "login_auth_code_pkce sample_oauth code_profile oauth_start = (Inr sample_issued, w')"
      and asked: "ow_requests w' = ow_requests oauth_start @ [(?client, ExchangeCode ''c0de'' ''verifier'')]"
    by (simp add: login_auth_code_pkce_def client act_bind_def act_lift_def from_net_def parts say_def on_net_def Let_def issued)
  then have "ow_requests w' \<noteq> ow_requests oauth_start" by simp
  from code_needs_own_state [OF run this] run asked show ?thesis
    by (simp add: parts oauth_start_def)
qed

end
