(* ===== verification/SecretRefs.thy ===== *)
theory SecretRefs
  imports Secrets Utf8 Allowlist
begin

text \<open>
  References to external secrets, the parsers of \<open>src/secrets/resolvers/\<close>: characters of a text, the
  validators of its parts, the five schemes, and cutting the body of an error. The main lemmas say which
  texts each parser takes and that the reference is read back exactly. \<open>char::escape_debug\<close>, which only
  words error messages, is a parameter.
\<close>

section \<open>Characters\<close>

text \<open>\<open>is_control\<close>: U+0000 to U+001F and U+007F to U+009F.\<close>

definition is_control :: "string \<Rightarrow> bool" where
  "is_control ch \<longleftrightarrow>
     (case ch of
        [b] \<Rightarrow> byte b < 0x20 \<or> byte b = 0x7F
      | [a, b] \<Rightarrow> byte a = 0xC2 \<and> byte b < 0xA0
      | _ \<Rightarrow> False)"

definition is_whitespace :: "string \<Rightarrow> bool" where
  "is_whitespace ch \<longleftrightarrow> ch \<in> set white_space"

section \<open>Validators\<close>

definition squoted :: "string \<Rightarrow> string" where "squoted s = [CHR 0x27] @ s @ [CHR 0x27]"

definition em_dash :: string where "em_dash = '' '' @ [CHR 0xE2, CHR 0x80, CHR 0x94] @ '' ''"

text \<open>The loop all validators share: the first character that is bad ends it.\<close>

definition no_bad_char :: "(string \<Rightarrow> string) \<Rightarrow> (string \<Rightarrow> bool) \<Rightarrow> string \<Rightarrow> string \<Rightarrow> string \<Rightarrow> unit result" where
  "no_bad_char esc bad wanted val field_name =
     (case find bad (chars val) of
        None \<Rightarrow> Inr ()
      | Some ch \<Rightarrow> bail (field_name @ '' contains invalid character '' @ squoted (esc ch) @ em_dash @ wanted))"

definition not_empty :: "string \<Rightarrow> string \<Rightarrow> unit result" where
  "not_empty val field_name = ensure (val \<noteq> []) (field_name @ '' must not be empty'')"

definition path_char_bad :: "string \<Rightarrow> bool" where
  "path_char_bad ch \<longleftrightarrow> ch \<in> {''/'', ''?'', ''#''} \<or> is_whitespace ch \<or> is_control ch"

definition validate_path_segment :: "(string \<Rightarrow> string) \<Rightarrow> string \<Rightarrow> string \<Rightarrow> unit result" where
  "validate_path_segment esc val field_name =
     and_then (not_empty val field_name) (\<lambda>_.
     no_bad_char esc path_char_bad
       (''must not contain '' @ squoted ''/'' @ '', '' @ squoted ''?'' @ '', '' @ squoted ''#'' @ '', whitespace, or control characters'')
       val field_name)"

definition op_char_bad :: "string \<Rightarrow> bool" where
  "op_char_bad ch \<longleftrightarrow> ch \<in> {''/'', ''?'', ''#''} \<or> is_control ch"

definition validate_op_segment :: "(string \<Rightarrow> string) \<Rightarrow> string \<Rightarrow> string \<Rightarrow> unit result" where
  "validate_op_segment esc val field_name =
     and_then (not_empty val field_name) (\<lambda>_.
     no_bad_char esc op_char_bad
       (''must not contain '' @ squoted ''/'' @ '', '' @ squoted ''?'' @ '', '' @ squoted ''#'' @ '', or control characters'')
       val field_name)"

definition scim_char_bad :: "string \<Rightarrow> bool" where
  "scim_char_bad ch \<longleftrightarrow> ch \<in> {[CHR 0x22], [CHR 0x5C]} \<or> is_control ch"

definition validate_scim_value :: "(string \<Rightarrow> string) \<Rightarrow> string \<Rightarrow> string \<Rightarrow> unit result" where
  "validate_scim_value esc val field_name =
     no_bad_char esc scim_char_bad
       (''must not contain '' @ squoted [CHR 0x22] @ '', '' @ squoted [CHR 0x5C]
        @ '', or control characters (SCIM filter injection risk)'') val field_name"

definition aws_char_bad :: "string \<Rightarrow> bool" where
  "aws_char_bad ch \<longleftrightarrow> ch \<in> {''?'', ''#''} \<or> is_whitespace ch \<or> is_control ch"

definition validate_aws_component :: "(string \<Rightarrow> string) \<Rightarrow> string \<Rightarrow> string \<Rightarrow> unit result" where
  "validate_aws_component esc val field_name =
     no_bad_char esc aws_char_bad
       (''must not contain '' @ squoted ''?'' @ '', '' @ squoted ''#'' @ '', whitespace, or control characters'')
       val field_name"

definition host_char_bad :: "string \<Rightarrow> bool" where
  "host_char_bad ch \<longleftrightarrow> ch \<in> {''/'', ''?'', ''#'', ''@''} \<or> is_whitespace ch \<or> is_control ch"

definition validate_hostname :: "(string \<Rightarrow> string) \<Rightarrow> string \<Rightarrow> string \<Rightarrow> unit result" where
  "validate_hostname esc val field_name =
     and_then (not_empty val field_name) (\<lambda>_.
     no_bad_char esc host_char_bad
       (''must be a valid hostname (no '' @ squoted ''/'' @ '', '' @ squoted ''?'' @ '', '' @ squoted ''#'' @ '', '' @ squoted ''@''
        @ '', whitespace, or control characters)'') val field_name)"

definition id_char_bad :: "string \<Rightarrow> bool" where
  "id_char_bad ch \<longleftrightarrow> (case ch of [c] \<Rightarrow> \<not> is_ascii_alphanumeric c \<and> c \<noteq> CHR ''-'' | _ \<Rightarrow> True)"

definition validate_azure_id :: "(string \<Rightarrow> string) \<Rightarrow> string \<Rightarrow> string \<Rightarrow> unit result" where
  "validate_azure_id esc val field_name =
     and_then (not_empty val field_name) (\<lambda>_.
     no_bad_char esc id_char_bad ''expected a UUID (alphanumeric and hyphens only)'' val field_name)"

definition validate_azure_vault_name :: "string \<Rightarrow> unit result" where
  "validate_azure_vault_name name =
     and_then (ensure (\<not> (length name < 3 \<or> length name > 24))
       (''Azure vault name must be 3-24 characters long, got '' @ show_nat (length name) @ '' characters'')) (\<lambda>_.
     and_then (ensure (list_all (\<lambda>ch. \<not> id_char_bad ch) (chars name))
       (''Azure vault name must contain only alphanumeric characters and hyphens, got: '' @ name)) (\<lambda>_.
     and_then (ensure (\<not> (prefix ''-'' name \<or> suffix ''-'' name))
       ''Azure vault name must not start or end with a hyphen'') (\<lambda>_.
     ensure (\<not> sublist ''--'' name) ''Azure vault name must not contain consecutive hyphens'')))"

text \<open>Printable ASCII and the tab, byte by byte.\<close>

definition is_header_safe :: "string \<Rightarrow> bool" where
  "is_header_safe s \<longleftrightarrow> list_all (\<lambda>b. byte b = 9 \<or> 0x20 \<le> byte b \<and> byte b \<le> 0x7E) s"

text \<open>The identifiers 1Password generates.\<close>

definition is_op_uuid :: "string \<Rightarrow> bool" where
  "is_op_uuid s \<longleftrightarrow>
     length s = 26
     \<and> list_all (\<lambda>ch. case ch of [c] \<Rightarrow> CHR ''A'' \<le> c \<and> c \<le> CHR ''Z'' \<or> CHR ''2'' \<le> c \<and> c \<le> CHR ''7'' | _ \<Rightarrow> False) (chars s)"

section \<open>The five schemes\<close>

definition scheme_error :: "string \<Rightarrow> string \<Rightarrow> string" where
  "scheme_error product scheme = ''invalid '' @ product @ '' reference: must start with '' @ scheme"

definition empty_segments :: "string \<Rightarrow> string \<Rightarrow> string" where
  "empty_segments product reference =
     ''invalid '' @ product @ '' reference: contains empty path segments (double slash or trailing slash) in '' @ reference"

record op_reference =
  op_vault :: string
  op_item :: string
  op_field :: string

definition parse_op :: "(string \<Rightarrow> string) \<Rightarrow> string \<Rightarrow> op_reference result" where
  "parse_op esc reference =
     and_then (ok_or [scheme_error ''1Password'' ''op://''] (strip_prefix ''op://'' reference)) (\<lambda>path.
     let segments = split_char (CHR ''/'') path
     in and_then (ensure (\<not> list_ex (\<lambda>s. s = []) segments) (empty_segments ''1Password'' reference)) (\<lambda>_.
        case segments of
          [vault, item, field] \<Rightarrow>
            and_then (validate_op_segment esc vault ''vault name'') (\<lambda>_.
            and_then (validate_op_segment esc item ''item name'') (\<lambda>_.
            and_then (validate_op_segment esc field ''field name'') (\<lambda>_.
            Inr \<lparr>op_vault = vault, op_item = item, op_field = field\<rparr>)))
        | [vault, item, part, field] \<Rightarrow>
            and_then (validate_op_segment esc vault ''vault name'') (\<lambda>_.
            and_then (validate_op_segment esc item ''item name'') (\<lambda>_.
            and_then (validate_op_segment esc part ''section name'') (\<lambda>_.
            and_then (validate_op_segment esc field ''field name'') (\<lambda>_.
            Inr \<lparr>op_vault = vault, op_item = item, op_field = part @ ''/'' @ field\<rparr>))))
        | _ \<Rightarrow> bail (''invalid 1Password reference: expected op://vault/item/field or op://vault/item/section/field, got: ''
                 @ reference)))"

record vault_reference =
  vr_mount :: string
  vr_path :: string
  vr_field :: string

definition parse_vault :: "(string \<Rightarrow> string) \<Rightarrow> string \<Rightarrow> vault_reference result" where
  "parse_vault esc reference =
     and_then (ok_or [scheme_error ''Vault'' ''vault://''] (strip_prefix ''vault://'' reference)) (\<lambda>after_scheme.
     and_then (ok_or [''invalid Vault reference: missing '' @ squoted ''#field'' @ '' suffix in '' @ reference]
       (split_once ''#'' after_scheme)) (\<lambda>(full_path, field).
     and_then (ensure (field \<noteq> []) (''invalid Vault reference: field after '' @ squoted ''#'' @ '' must not be empty in '' @ reference)) (\<lambda>_.
     let segments = split_char (CHR ''/'') full_path
     in and_then (ensure (\<not> list_ex (\<lambda>s. s = []) segments) (empty_segments ''Vault'' reference)) (\<lambda>_.
        and_then (ensure (\<not> length segments < 2)
          (''invalid Vault reference: expected vault://mount/path#field, got: '' @ reference)) (\<lambda>_.
        and_then (validate_path_segment esc (hd segments) ''mount point'') (\<lambda>_.
        and_then (try_for_each (\<lambda>segment. validate_path_segment esc segment ''secret path segment'') (tl segments)) (\<lambda>_.
        and_then (validate_path_segment esc field ''field name'') (\<lambda>_.
        Inr \<lparr>vr_mount = hd segments, vr_path = str_join ''/'' (tl segments), vr_field = field\<rparr>))))))))"

record aws_reference =
  ar_secret_id :: string
  ar_json_key :: "string option"

definition parse_aws :: "(string \<Rightarrow> string) \<Rightarrow> string \<Rightarrow> aws_reference result" where
  "parse_aws esc reference =
     (let no_name = ''invalid AWS reference: secret name must not be empty in '' @ reference
      in and_then (ok_or [scheme_error ''AWS'' ''aws://''] (strip_prefix ''aws://'' reference)) (\<lambda>after_scheme.
         and_then (ensure (after_scheme \<noteq> []) no_name) (\<lambda>_.
         and_then (case split_once ''#'' after_scheme of
             Some (name, key) \<Rightarrow>
               and_then (ensure (name \<noteq> []) no_name) (\<lambda>_.
               and_then (ensure (key \<noteq> [])
                 (''invalid AWS reference: JSON key after '' @ squoted ''#'' @ '' must not be empty in '' @ reference)) (\<lambda>_.
               Inr (name, Some key)))
           | None \<Rightarrow> Inr (after_scheme, None)) (\<lambda>(secret_id, json_key).
         and_then (validate_aws_component esc secret_id ''secret name'') (\<lambda>_.
         and_then (case json_key of None \<Rightarrow> Inr () | Some key \<Rightarrow> validate_aws_component esc key ''JSON key'') (\<lambda>_.
         Inr \<lparr>ar_secret_id = secret_id, ar_json_key = json_key\<rparr>))))))"

record gcp_reference =
  gr_project :: string
  gr_secret :: string
  gr_version :: string

definition parse_gcp :: "(string \<Rightarrow> string) \<Rightarrow> string \<Rightarrow> gcp_reference result" where
  "parse_gcp esc reference =
     and_then (ok_or [scheme_error ''GCP'' ''gcp://''] (strip_prefix ''gcp://'' reference)) (\<lambda>after_scheme.
     and_then (ensure (after_scheme \<noteq> []) (''invalid GCP reference: project and secret name are required in '' @ reference)) (\<lambda>_.
     let segments = split_char (CHR ''/'') after_scheme
     in and_then (ensure (\<not> list_ex (\<lambda>s. s = []) segments) (empty_segments ''GCP'' reference)) (\<lambda>_.
        case segments of
          [] \<Rightarrow> bail (''invalid GCP reference: expected gcp://project/secret-name[/version], got: '' @ reference)
        | [_] \<Rightarrow> bail (''invalid GCP reference: expected gcp://project/secret-name[/version], got: '' @ reference)
        | [project, secret] \<Rightarrow>
            and_then (validate_path_segment esc project ''project name'') (\<lambda>_.
            and_then (validate_path_segment esc secret ''secret name'') (\<lambda>_.
            Inr \<lparr>gr_project = project, gr_secret = secret, gr_version = ''latest''\<rparr>))
        | [project, secret, version] \<Rightarrow>
            and_then (validate_path_segment esc project ''project name'') (\<lambda>_.
            and_then (validate_path_segment esc secret ''secret name'') (\<lambda>_.
            and_then (validate_path_segment esc version ''version'') (\<lambda>_.
            Inr \<lparr>gr_project = project, gr_secret = secret, gr_version = version\<rparr>)))
        | _ \<Rightarrow> bail (''invalid GCP reference: too many path segments, expected gcp://project/secret-name[/version], got: ''
                 @ reference))))"

record azure_reference =
  zr_vault_name :: string
  zr_secret_name :: string

definition parse_azure :: "(string \<Rightarrow> string) \<Rightarrow> string \<Rightarrow> azure_reference result" where
  "parse_azure esc reference =
     and_then (ok_or [scheme_error ''Azure'' ''az://''] (strip_prefix ''az://'' reference)) (\<lambda>after_scheme.
     and_then (ensure (after_scheme \<noteq> []) (''invalid Azure reference: vault name and secret name are required in '' @ reference)) (\<lambda>_.
     let segments = split_char (CHR ''/'') after_scheme
     in and_then (ensure (\<not> list_ex (\<lambda>s. s = []) segments) (empty_segments ''Azure'' reference)) (\<lambda>_.
        case segments of
          [] \<Rightarrow> bail (''invalid Azure reference: expected az://vault-name/secret-name, got: '' @ reference)
        | [_] \<Rightarrow> bail (''invalid Azure reference: expected az://vault-name/secret-name, got: '' @ reference)
        | [vault_name, secret_name] \<Rightarrow>
            and_then (validate_azure_vault_name vault_name) (\<lambda>_.
            and_then (validate_path_segment esc secret_name ''secret name'') (\<lambda>_.
            Inr \<lparr>zr_vault_name = vault_name, zr_secret_name = secret_name\<rparr>))
        | _ \<Rightarrow> bail (''invalid Azure reference: too many path segments, expected az://vault-name/secret-name, got: ''
                 @ reference))))"

section \<open>Cutting the body of an error\<close>

definition is_char_boundary :: "string \<Rightarrow> nat \<Rightarrow> bool" where
  "is_char_boundary s i \<longleftrightarrow> i = 0 \<or> i = length s \<or> i < length s \<and> \<not> cont_byte (s ! i)"

fun boundary_below :: "string \<Rightarrow> nat \<Rightarrow> nat" where
  "boundary_below s 0 = 0"
| "boundary_below s (Suc i) = (if \<not> is_char_boundary s (Suc i) then boundary_below s i else Suc i)"

definition truncate_body :: "string \<Rightarrow> nat \<Rightarrow> string" where
  "truncate_body body max_len =
     (if length body \<le> max_len then body else take (boundary_below body max_len) body)"

definition error_body_max_len :: nat where "error_body_max_len = 256"

section \<open>Splitting and characters\<close>

lemma strip_prefix_Some: "strip_prefix p s = Some t \<longleftrightarrow> s = p @ t"
  by (auto simp: strip_prefix_def elim: prefixE)

lemma split_char_unit: "d \<notin> set w \<Longrightarrow> split_char d w = [w]"
  by (induction w) auto

lemma split_char_eq:
  "split_char d s = ws \<longleftrightarrow> ws \<noteq> [] \<and> (\<forall>w \<in> set ws. d \<notin> set w) \<and> s = str_join [d] ws"
proof
  assume "split_char d s = ws"
  then show "ws \<noteq> [] \<and> (\<forall>w \<in> set ws. d \<notin> set w) \<and> s = str_join [d] ws"
    using join_split_char [of d s] split_char_no_sep [of _ d s] by auto
next
  assume ws: "ws \<noteq> [] \<and> (\<forall>w \<in> set ws. d \<notin> set w) \<and> s = str_join [d] ws"
  have "ws \<noteq> [] \<Longrightarrow> \<forall>w \<in> set ws. d \<notin> set w \<Longrightarrow> split_char d (str_join [d] ws) = ws"
    by (induction "[d]" ws rule: str_join.induct) (simp_all add: split_char_unit split_char_append)
  with ws show "split_char d s = ws" by blast
qed

lemma no_bad_char_Inr [result_simps]: "no_bad_char esc bad wanted v name = Inr () \<longleftrightarrow> list_all (\<lambda>ch. \<not> bad ch) (chars v)"
  by (cases "find bad (chars v)")
    (simp_all add: no_bad_char_def bail_def, (auto simp: find_None_iff list_all_iff)[1],
      auto simp: find_Some_iff list_all_iff dest: nth_mem)

text \<open>A part of a reference that a validator takes.\<close>

definition part_ok :: "(string \<Rightarrow> bool) \<Rightarrow> string \<Rightarrow> bool" where
  "part_ok bad v \<longleftrightarrow> v \<noteq> [] \<and> list_all (\<lambda>ch. \<not> bad ch) (chars v)"

lemma validators_Inr [result_simps]:
  "validate_path_segment esc v name = Inr () \<longleftrightarrow> part_ok path_char_bad v"
  "validate_op_segment esc v name = Inr () \<longleftrightarrow> part_ok op_char_bad v"
  "validate_scim_value esc v name = Inr () \<longleftrightarrow> list_all (\<lambda>ch. \<not> scim_char_bad ch) (chars v)"
  "validate_aws_component esc v name = Inr () \<longleftrightarrow> list_all (\<lambda>ch. \<not> aws_char_bad ch) (chars v)"
  "validate_hostname esc v name = Inr () \<longleftrightarrow> part_ok host_char_bad v"
  "validate_azure_id esc v name = Inr () \<longleftrightarrow> part_ok id_char_bad v"
  by (simp_all add: validate_path_segment_def validate_op_segment_def validate_scim_value_def validate_aws_component_def
      validate_hostname_def validate_azure_id_def not_empty_def part_ok_def result_simps)

section \<open>What the parsers take\<close>

abbreviation slashless :: "string \<Rightarrow> bool" where "slashless v \<equiv> CHR ''/'' \<notin> set v"

definition show_op :: "op_reference \<Rightarrow> string" where
  "show_op r = ''op://'' @ op_vault r @ ''/'' @ op_item r @ ''/'' @ op_field r"

definition op_reference_ok :: "op_reference \<Rightarrow> bool" where
  "op_reference_ok r \<longleftrightarrow>
     slashless (op_vault r) \<and> part_ok op_char_bad (op_vault r) \<and> slashless (op_item r) \<and> part_ok op_char_bad (op_item r)
     \<and> list_all (part_ok op_char_bad) (split_char (CHR ''/'') (op_field r)) \<and> length (split_char (CHR ''/'') (op_field r)) \<le> 2"

lemma part_ok_not_Nil: "part_ok bad v \<Longrightarrow> v \<noteq> []"
  by (simp add: part_ok_def)

lemma ensure_nonempty [result_simps]: "ensure (\<not> list_ex (\<lambda>s. s = []) ws) m = Inr u \<longleftrightarrow> [] \<notin> set ws"
  by (auto simp: ensure_Inr list_ex_iff)

lemma up_to_five:
  obtains (few) "length ws < 2" | (two) a b where "ws = [a, b]" | (three) a b c where "ws = [a, b, c]"
  | (four) a b c d where "ws = [a, b, c, d]" | (many) a b c d e rest where "ws = a # b # c # d # e # rest"
proof -
  consider "length ws < 2" | "length ws = 2" | "length ws = 3" | "length ws = 4" | "5 \<le> length ws" by linarith
  then show thesis
    by cases (auto simp: numeral_eq_Suc length_Suc_conv Suc_le_length_iff intro: that)
qed

lemma short_list: "length ws < 2 \<Longrightarrow> ws \<noteq> [] \<Longrightarrow> \<exists>a. ws = [a]"
  by (cases ws) auto

lemma parse_op_iff: "parse_op esc s = Inr r \<longleftrightarrow> s = show_op r \<and> op_reference_ok r"
proof
  assume "parse_op esc s = Inr r"
  then obtain path where s: "s = ''op://'' @ path" and
    run: "parse_op esc (''op://'' @ path) = Inr r"
    by (auto simp: parse_op_def result_simps strip_prefix_Some)
  show "s = show_op r \<and> op_reference_ok r"
  proof (cases "split_char (CHR ''/'') path" rule: up_to_five)
    case few
    with run show ?thesis
      by (auto simp: parse_op_def result_simps strip_prefix_Some dest!: short_list)
  next
    case (three v i f)
    with run show ?thesis
      by (auto simp: parse_op_def result_simps strip_prefix_Some split_char_eq [where ws = "_ # _"] s show_op_def
          op_reference_ok_def split_char_unit)
  next
    case (four v i p f)
    with run show ?thesis
      by (auto simp: parse_op_def result_simps strip_prefix_Some split_char_eq [where ws = "_ # _"] s show_op_def
          op_reference_ok_def split_char_unit split_char_append)
  qed (use run in \<open>auto simp: parse_op_def result_simps strip_prefix_Some\<close>)
next
  assume r: "s = show_op r \<and> op_reference_ok r"
  obtain v i f where eq: "r = \<lparr>op_vault = v, op_item = i, op_field = f\<rparr>" by (cases r)
  let ?fs = "split_char (CHR ''/'') f"
  have split: "split_char (CHR ''/'') (v @ ''/'' @ i @ ''/'' @ f) = [v, i] @ ?fs"
    using r by (simp add: eq op_reference_ok_def split_char_append split_char_unit)
  have ok: "part_ok op_char_bad v" "part_ok op_char_bad i" "list_all (part_ok op_char_bad) ?fs"
    using r by (simp_all add: eq op_reference_ok_def)
  have "?fs \<noteq> []" "length ?fs \<le> 2" using r by (simp_all add: eq op_reference_ok_def)
  then consider a where "?fs = [a]" | a b where "?fs = [a, b]"
    by (cases ?fs; cases "tl ?fs") auto
  then have "parse_op esc (''op://'' @ v @ ''/'' @ i @ ''/'' @ f) = Inr r"
  proof cases
    case (1 a)
    with split ok have "f = a" using join_split_char [of "CHR ''/''" f] by simp
    with 1 split ok show ?thesis
      by (auto simp: parse_op_def result_simps strip_prefix_def eq dest: part_ok_not_Nil)
  next
    case (2 a b)
    with split ok have "f = a @ ''/'' @ b" using join_split_char [of "CHR ''/''" f] by simp
    with 2 split ok show ?thesis
      by (auto simp: parse_op_def result_simps strip_prefix_def eq dest: part_ok_not_Nil)
  qed
  then show "parse_op esc s = Inr r" using r by (simp add: show_op_def eq)
qed

definition show_vault :: "vault_reference \<Rightarrow> string" where
  "show_vault r = ''vault://'' @ vr_mount r @ ''/'' @ vr_path r @ ''#'' @ vr_field r"

definition vault_reference_ok :: "vault_reference \<Rightarrow> bool" where
  "vault_reference_ok r \<longleftrightarrow>
     CHR ''#'' \<notin> set (vr_mount r @ vr_path r) \<and> slashless (vr_mount r) \<and> part_ok path_char_bad (vr_mount r)
     \<and> list_all (part_ok path_char_bad) (split_char (CHR ''/'') (vr_path r)) \<and> part_ok path_char_bad (vr_field r)"

lemma parse_vault_iff: "parse_vault esc s = Inr r \<longleftrightarrow> s = show_vault r \<and> vault_reference_ok r"
proof
  assume "parse_vault esc s = Inr r"
  then obtain full where s: "s = ''vault://'' @ full @ ''#'' @ vr_field r" and sharp: "CHR ''#'' \<notin> set full"
    and two: "\<not> length (split_char (CHR ''/'') full) < 2"
    and all: "part_ok path_char_bad (hd (split_char (CHR ''/'') full))"
      "list_all (part_ok path_char_bad) (tl (split_char (CHR ''/'') full))"
    and r: "vr_mount r = hd (split_char (CHR ''/'') full)" "vr_path r = str_join ''/'' (tl (split_char (CHR ''/'') full))"
      "part_ok path_char_bad (vr_field r)"
    by (auto simp: parse_vault_def result_simps strip_prefix_Some split_once_char Let_def list_all_iff)
  from two obtain mount w ws' where ws': "split_char (CHR ''/'') full = mount # w # ws'"
    by (cases "split_char (CHR ''/'') full"; cases "tl (split_char (CHR ''/'') full)") auto
  define ws where "ws = w # ws'"
  have ws: "ws \<noteq> []" and split: "split_char (CHR ''/'') full = mount # ws" by (simp_all add: ws_def ws')
  then have "full = mount @ ''/'' @ str_join ''/'' ws" "slashless mount" "split_char (CHR ''/'') (str_join ''/'' ws) = ws"
    by (auto simp: split_char_eq split_char_eq [of _ _ ws] neq_Nil_conv)
  then show "s = show_vault r \<and> vault_reference_ok r"
    using s sharp ws r all split by (simp add: show_vault_def vault_reference_ok_def)
next
  assume r: "s = show_vault r \<and> vault_reference_ok r"
  let ?ws = "split_char (CHR ''/'') (vr_path r)"
  have split: "split_char (CHR ''/'') (vr_mount r @ ''/'' @ vr_path r) = vr_mount r # ?ws"
    using r by (simp add: vault_reference_ok_def split_char_append split_char_unit)
  have once: "split_once ''#'' ((vr_mount r @ ''/'' @ vr_path r) @ ''#'' @ vr_field r) = Some (vr_mount r @ ''/'' @ vr_path r, vr_field r)"
    using r by (simp add: split_once_char vault_reference_ok_def)
  show "parse_vault esc s = Inr r"
    using r split once join_split_char [of "CHR ''/''" "vr_path r"]
    by (auto simp: parse_vault_def show_vault_def vault_reference_ok_def result_simps strip_prefix_Some list_all_iff
        list_ex_iff dest: part_ok_not_Nil split: list.splits)
qed

definition show_aws :: "aws_reference \<Rightarrow> string" where
  "show_aws r = ''aws://'' @ ar_secret_id r @ (case ar_json_key r of None \<Rightarrow> [] | Some key \<Rightarrow> ''#'' @ key)"

definition aws_reference_ok :: "aws_reference \<Rightarrow> bool" where
  "aws_reference_ok r \<longleftrightarrow>
     CHR ''#'' \<notin> set (ar_secret_id r) \<and> part_ok aws_char_bad (ar_secret_id r)
     \<and> (case ar_json_key r of None \<Rightarrow> True | Some key \<Rightarrow> part_ok aws_char_bad key)"

lemma parse_aws_iff: "parse_aws esc s = Inr r \<longleftrightarrow> s = show_aws r \<and> aws_reference_ok r"
proof
  assume "parse_aws esc s = Inr r"
  then obtain rest where s: "s = ''aws://'' @ rest" and run: "parse_aws esc (''aws://'' @ rest) = Inr r"
    by (auto simp: parse_aws_def Let_def result_simps strip_prefix_Some)
  show "s = show_aws r \<and> aws_reference_ok r"
  proof (cases "split_once ''#'' rest")
    case None
    with run s show ?thesis
      by (auto simp: parse_aws_def Let_def result_simps strip_prefix_Some show_aws_def aws_reference_ok_def split_once_char_None
          part_ok_def)
  next
    case (Some nk)
    then obtain name key where "rest = name @ ''#'' @ key" "CHR ''#'' \<notin> set name" "nk = (name, key)"
      by (cases nk) (auto simp: split_once_char)
    with run s Some show ?thesis
      by (auto simp: parse_aws_def Let_def result_simps strip_prefix_Some show_aws_def aws_reference_ok_def part_ok_def)
  qed
next
  assume r: "s = show_aws r \<and> aws_reference_ok r"
  show "parse_aws esc s = Inr r"
  proof (cases "ar_json_key r")
    case None
    with r have "split_once ''#'' (ar_secret_id r) = None" by (simp add: split_once_char_None aws_reference_ok_def)
    with r None show ?thesis
      by (auto simp: parse_aws_def Let_def result_simps strip_prefix_Some show_aws_def aws_reference_ok_def part_ok_def)
  next
    case (Some key)
    with r have "split_once ''#'' (ar_secret_id r @ ''#'' @ key) = Some (ar_secret_id r, key)"
      by (simp add: split_once_char aws_reference_ok_def)
    with r Some show ?thesis
      by (auto simp: parse_aws_def Let_def result_simps strip_prefix_Some show_aws_def aws_reference_ok_def part_ok_def)
  qed
qed

definition show_gcp :: "gcp_reference \<Rightarrow> string" where
  "show_gcp r = ''gcp://'' @ gr_project r @ ''/'' @ gr_secret r @ ''/'' @ gr_version r"

text \<open>The version may be left out when it is the latest.\<close>

definition show_gcp_short :: "gcp_reference \<Rightarrow> string" where
  "show_gcp_short r = ''gcp://'' @ gr_project r @ ''/'' @ gr_secret r"

definition gcp_reference_ok :: "gcp_reference \<Rightarrow> bool" where
  "gcp_reference_ok r \<longleftrightarrow>
     list_all (\<lambda>part. slashless part \<and> part_ok path_char_bad part) [gr_project r, gr_secret r, gr_version r]"

lemma latest_ok: "slashless ''latest'' \<and> part_ok path_char_bad ''latest''"
  by code_simp

lemma segments_two: "split_char d (a @ [d] @ b) = [a, b] \<longleftrightarrow> d \<notin> set a \<and> d \<notin> set b"
  by (auto simp: split_char_eq [where ws = "[a, b]"])

lemma segments_three: "split_char d (a @ [d] @ b @ [d] @ c) = [a, b, c] \<longleftrightarrow> d \<notin> set a \<and> d \<notin> set b \<and> d \<notin> set c"
  by (auto simp: split_char_eq [where ws = "[a, b, c]"])

lemma parse_gcp_iff:
  "parse_gcp esc s = Inr r \<longleftrightarrow>
     (s = show_gcp r \<or> s = show_gcp_short r \<and> gr_version r = ''latest'') \<and> gcp_reference_ok r"
proof
  assume "parse_gcp esc s = Inr r"
  then obtain path where s: "s = ''gcp://'' @ path" and run: "parse_gcp esc (''gcp://'' @ path) = Inr r"
    by (auto simp: parse_gcp_def result_simps strip_prefix_Some)
  show "(s = show_gcp r \<or> s = show_gcp_short r \<and> gr_version r = ''latest'') \<and> gcp_reference_ok r"
  proof (cases "split_char (CHR ''/'') path" rule: up_to_five)
    case few
    with run show ?thesis by (auto simp: parse_gcp_def result_simps strip_prefix_Some dest!: short_list)
  next
    case (two p n)
    with run show ?thesis
      using latest_ok by (auto simp: parse_gcp_def result_simps strip_prefix_Some split_char_eq [where ws = "_ # _"] s
          show_gcp_short_def gcp_reference_ok_def)
  next
    case (three p n v)
    with run show ?thesis
      by (auto simp: parse_gcp_def result_simps strip_prefix_Some split_char_eq [where ws = "_ # _"] s
          show_gcp_def gcp_reference_ok_def)
  qed (use run in \<open>auto simp: parse_gcp_def result_simps strip_prefix_Some\<close>)
next
  assume r: "(s = show_gcp r \<or> s = show_gcp_short r \<and> gr_version r = ''latest'') \<and> gcp_reference_ok r"
  then have "split_char (CHR ''/'') (gr_project r @ ''/'' @ gr_secret r) = [gr_project r, gr_secret r]"
    and "split_char (CHR ''/'') (gr_project r @ ''/'' @ gr_secret r @ ''/'' @ gr_version r)
      = [gr_project r, gr_secret r, gr_version r]"
    by (simp_all only: segments_two segments_three) (simp_all add: gcp_reference_ok_def)
  with r show "parse_gcp esc s = Inr r"
    by (auto simp: parse_gcp_def result_simps strip_prefix_Some show_gcp_def show_gcp_short_def gcp_reference_ok_def
        dest: part_ok_not_Nil)
qed

definition show_azure :: "azure_reference \<Rightarrow> string" where
  "show_azure r = ''az://'' @ zr_vault_name r @ ''/'' @ zr_secret_name r"

definition azure_reference_ok :: "azure_reference \<Rightarrow> bool" where
  "azure_reference_ok r \<longleftrightarrow>
     slashless (zr_vault_name r) \<and> validate_azure_vault_name (zr_vault_name r) = Inr ()
     \<and> slashless (zr_secret_name r) \<and> part_ok path_char_bad (zr_secret_name r)"

lemma vault_name_not_Nil: "validate_azure_vault_name name = Inr () \<Longrightarrow> name \<noteq> []"
  by (auto simp: validate_azure_vault_name_def result_simps)

lemma parse_azure_iff: "parse_azure esc s = Inr r \<longleftrightarrow> s = show_azure r \<and> azure_reference_ok r"
proof
  assume "parse_azure esc s = Inr r"
  then obtain path where s: "s = ''az://'' @ path" and run: "parse_azure esc (''az://'' @ path) = Inr r"
    by (auto simp: parse_azure_def result_simps strip_prefix_Some)
  show "s = show_azure r \<and> azure_reference_ok r"
  proof (cases "split_char (CHR ''/'') path" rule: up_to_five)
    case few
    with run show ?thesis by (auto simp: parse_azure_def result_simps strip_prefix_Some dest!: short_list)
  next
    case (two v n)
    with run show ?thesis
      by (auto simp: parse_azure_def result_simps strip_prefix_Some split_char_eq [where ws = "_ # _"] s
          show_azure_def azure_reference_ok_def)
  qed (use run in \<open>auto simp: parse_azure_def result_simps strip_prefix_Some\<close>)
next
  assume r: "s = show_azure r \<and> azure_reference_ok r"
  then have "split_char (CHR ''/'') (zr_vault_name r @ ''/'' @ zr_secret_name r) = [zr_vault_name r, zr_secret_name r]"
    by (simp only: segments_two) (simp add: azure_reference_ok_def)
  with r show "parse_azure esc s = Inr r"
    by (auto simp: parse_azure_def result_simps strip_prefix_Some show_azure_def azure_reference_ok_def
        dest: part_ok_not_Nil vault_name_not_Nil)
qed

section \<open>UTF-8 and character boundaries\<close>

lemma second_ok_cont: "second_ok b0 b1 \<Longrightarrow> cont_byte b1"
  by (auto simp: second_ok_def byte_in_def split: if_splits)

lemma utf8_rest_cont: "utf8_rest k n bs = Valid m \<Longrightarrow> list_all cont_byte (take k bs)"
  by (induction k n bs rule: utf8_rest.induct) (auto split: if_splits)

text \<open>The shape of a sequence: its first byte tells its length, the others are continuation bytes.\<close>

lemma utf8_head_shape:
  assumes "utf8_head (b # bs) = Valid n"
  shows "n = utf8_len b \<and> list_all cont_byte (take (n - 1) bs) \<and> \<not> cont_byte b \<and> (n = 1 \<or> 128 \<le> byte b) \<and> n \<le> 4"
proof -
  have rest: "utf8_rest k m bs' = Valid n \<Longrightarrow> n = m + k \<and> list_all cont_byte (take k bs')" for k m bs'
    using utf8_rest_bounds(1) [of k m bs' n] utf8_rest_cont [of k m bs' n] by simp
  consider (one) "byte_in 0 127 b" | (two) "\<not> byte_in 0 127 b" "byte_in 194 223 b"
    | (three) "\<not> byte_in 0 127 b" "byte_in 224 239 b" | (four) "\<not> byte_in 0 127 b" "byte_in 240 244 b"
    using assms by (auto split: if_splits)
  then show ?thesis
  proof cases
    case one
    with assms show ?thesis by (auto simp: byte_in_def utf8_len_def)
  next
    case two
    with assms have "utf8_rest 1 1 bs = Valid n" by simp
    from rest [OF this] two show ?thesis by (auto simp: byte_in_def utf8_len_def)
  next
    case three
    then have no: "\<not> byte_in 194 223 b" by (auto simp: byte_in_def)
    with assms three obtain b1 bs' where bs: "bs = b1 # bs'" "second_ok b b1" and "utf8_rest 1 2 bs' = Valid n"
      by (auto simp: utf8_second_def split: list.splits if_splits)
    from rest [OF this(3)] second_ok_cont [OF bs(2)] three bs(1) show ?thesis
      by (auto simp: byte_in_def utf8_len_def)
  next
    case four
    then have no: "\<not> byte_in 194 223 b" "\<not> byte_in 224 239 b" by (auto simp: byte_in_def)
    with assms four obtain b1 bs' where bs: "bs = b1 # bs'" "second_ok b b1" and "utf8_rest 2 2 bs' = Valid n"
      by (auto simp: utf8_second_def split: list.splits if_splits)
    from rest [OF this(3)] second_ok_cont [OF bs(2)] four bs(1) show ?thesis
      by (auto simp: byte_in_def utf8_len_def)
  qed
qed

text \<open>Induction over the characters of a valid text.\<close>

lemma utf8_induct [consumes 1, case_names Nil char]:
  assumes "is_utf8 s" and "P []"
    and "\<And>b w rest. is_utf8 rest \<Longrightarrow> P rest \<Longrightarrow> is_utf8 (b # w) \<Longrightarrow> utf8_len b = length (b # w)
      \<Longrightarrow> \<not> cont_byte b \<Longrightarrow> list_all cont_byte w \<Longrightarrow> w = [] \<or> 128 \<le> byte b \<Longrightarrow> length w < 4 \<Longrightarrow> P (b # w @ rest)"
  shows "P s"
  using assms(1)
proof (induction s rule: valid_up_to.induct)
  case (1 s)
  show ?case
  proof (cases s)
    case (Cons b bs)
    with 1(2) have "valid_up_to s \<noteq> 0" by (simp add: is_utf8_def)
    then obtain n where n: "utf8_head s = Valid n"
      by (cases "utf8_head s") (simp_all add: valid_up_to.simps [of s])
    note shape = utf8_head_shape [OF n [unfolded Cons]] and len = utf8_head_Valid [OF n]
    obtain m where m: "n = Suc m" using len by (cases n) auto
    have rest: "is_utf8 (drop m bs)" using 1(2) is_utf8_head [OF n] by (simp add: Cons m)
    have "P (b # take m bs @ drop m bs)"
    proof (rule assms(3))
      show "P (drop m bs)" using 1(1) [OF n] rest by (simp add: Cons m)
      show "is_utf8 (b # take m bs)" using utf8_head_take [OF n] len by (simp add: is_utf8_head Cons m)
      show "take m bs = [] \<or> 128 \<le> byte b" using shape m by auto
    qed (use rest shape len in \<open>auto simp: m Cons\<close>)
    then show ?thesis by (simp add: Cons)
  qed (simp add: assms(2))
qed

lemma chars_append: "utf8_len b = length (b # w) \<Longrightarrow> chars (b # w @ rest) = (b # w) # chars rest"
  by (simp add: chars.simps)

lemma ascii_in_chars: "is_utf8 s \<Longrightarrow> c \<in> set s \<Longrightarrow> byte c < 128 \<Longrightarrow> [c] \<in> set (chars s)"
proof (induction s rule: utf8_induct)
  case (char b w rest)
  then show ?case
    by (auto simp: chars_append list_all_iff byte_in_def dest!: bspec)
qed simp

text \<open>Valid text a validator takes has none of the ASCII bytes the validator refuses.\<close>

lemma part_ok_ascii: "is_utf8 v \<Longrightarrow> part_ok bad v \<Longrightarrow> bad [c] \<Longrightarrow> byte c < 128 \<Longrightarrow> c \<notin> set v"
  using ascii_in_chars [of v c] by (auto simp: part_ok_def list_all_iff)

section \<open>The cut\<close>

lemma boundary_below_le: "boundary_below s i \<le> i"
  by (induction s i rule: boundary_below.induct) auto

lemma boundary_below_boundary: "is_char_boundary s (boundary_below s i)"
  by (induction s i rule: boundary_below.induct) (auto simp: is_char_boundary_def)

lemma boundary_below_last: "j \<le> i \<Longrightarrow> is_char_boundary s j \<Longrightarrow> j \<le> boundary_below s i"
  by (induction s i rule: boundary_below.induct) (auto simp: le_Suc_eq)

lemma boundary_shift:
  assumes "list_all cont_byte w" and "0 < i" and "is_char_boundary (b # w @ rest) i"
  shows "length (b # w) \<le> i \<and> is_char_boundary rest (i - length (b # w))"
proof -
  obtain j where j: "i = Suc j" using assms(2) by (cases i) auto
  have "\<not> j < length w"
    using assms(1,3) by (auto simp: is_char_boundary_def j nth_append list_all_length)
  then show ?thesis using assms(3) by (auto simp: is_char_boundary_def j nth_append)
qed

lemma boundary_lift: "is_char_boundary rest j \<Longrightarrow> \<not> cont_byte (hd rest) \<or> rest = [] \<Longrightarrow>
    is_char_boundary (b # w @ rest) (length (b # w) + j)"
  by (cases rest) (auto simp: is_char_boundary_def nth_append)

lemma first_not_cont: "is_utf8 s \<Longrightarrow> \<not> cont_byte (hd s) \<or> s = []"
proof (induction s rule: utf8_induct)
  case (char b w rest)
  then show ?case by simp
qed simp

lemma take_boundary_utf8: "is_utf8 s \<Longrightarrow> is_char_boundary s i \<Longrightarrow> is_utf8 (take i s)"
proof (induction s arbitrary: i rule: utf8_induct)
  case (char b w rest)
  show ?case
  proof (cases "i = 0")
    case False
    with boundary_shift [of w i b rest] char
    have "length (b # w) \<le> i" and "is_utf8 (take (i - length (b # w)) rest)" by auto
    then have "is_utf8 ((b # w) @ take (i - length (b # w)) rest)" using char by (intro is_utf8_append)
    with \<open>length (b # w) \<le> i\<close> show ?thesis by (cases i) simp_all
  qed simp
qed simp

text \<open>Of four positions in a row one is a boundary.\<close>

lemma boundary_near: "is_utf8 s \<Longrightarrow> i \<le> length s \<Longrightarrow> \<exists>j \<le> i. i < j + 4 \<and> is_char_boundary s j"
proof (induction s arbitrary: i rule: utf8_induct)
  case (char b w rest)
  show ?case
  proof (cases "i < length (b # w)")
    case True
    with char show ?thesis by (intro exI [of _ 0]) (simp add: is_char_boundary_def)
  next
    case False
    then obtain k where k: "i = length (b # w) + k" by (metis le_Suc_ex not_less)
    with char.prems have "k \<le> length rest" by simp
    with char.IH obtain j where "j \<le> k" "k < j + 4" "is_char_boundary rest j" by blast
    then show ?thesis
      using boundary_lift [of rest j b w] first_not_cont [OF char.hyps(1)]
      by (intro exI [of _ "length (b # w) + j"]) (simp add: k)
  qed
qed (auto simp: is_char_boundary_def)

text \<open>
  An error body quoted in a message is cut safely: it is a prefix of the body of at most the given
  length, still valid UTF-8, the whole body when it fits, and short of the limit by at most three bytes
  otherwise.
\<close>

theorem truncate_body_keeps_text:
  assumes "is_utf8 body"
  shows "prefix (truncate_body body max_len) body \<and> length (truncate_body body max_len) \<le> max_len
    \<and> is_utf8 (truncate_body body max_len)
    \<and> (if length body \<le> max_len then truncate_body body max_len = body
       else max_len < length (truncate_body body max_len) + 4)"
proof (cases "length body \<le> max_len")
  case False
  let ?i = "boundary_below body max_len"
  have i: "?i \<le> max_len" "is_char_boundary body ?i"
    by (rule boundary_below_le, rule boundary_below_boundary)
  from boundary_near [OF assms, of max_len] False obtain j where "j \<le> max_len" "max_len < j + 4" "is_char_boundary body j"
    by auto
  with boundary_below_last [of j max_len body] have "max_len < ?i + 4" by simp
  with False i take_boundary_utf8 [OF assms i(2)] show ?thesis
    by (simp add: truncate_body_def take_is_prefix)
qed (simp add: truncate_body_def assms)

theorem truncate_body_keeps_text_witness:
  "truncate_body [CHR ''a'', CHR 0xC3, CHR 0xA9] 2 = ''a''
   \<and> prefix (truncate_body [CHR ''a'', CHR 0xC3, CHR 0xA9] 2) [CHR ''a'', CHR 0xC3, CHR 0xA9]"
proof -
  have "is_utf8 [CHR ''a'', CHR 0xC3, CHR 0xA9]" by code_simp
  from truncate_body_keeps_text [OF this, of 2] show ?thesis
    by (auto simp: truncate_body_def is_char_boundary_def byte_in_def numeral_2_eq_2)
qed

section \<open>References\<close>


end
