(* ===== verification/Resolvers.thy ===== *)
theory Resolvers
  imports SecretRefs ActionLog Jwt
begin

text \<open>
  The resolvers of external secrets, \<open>src/secrets/resolvers/\<close>: 1Password over its Connect server or its
  command line, Vault, AWS, Google with its default credentials and Azure with its four ways to log in, the
  cached tokens, and the list \<open>default_resolvers\<close> of \<open>src/secrets/mod.rs\<close>. Requests, processes, files
  and the reads of the two client libraries are logged in the world; \<open>reqwest\<close>, \<open>url\<close>, \<open>serde_json\<close>,
  \<open>base64\<close>, \<open>percent_encoding\<close>, \<open>jsonwebtoken\<close>, \<open>vaultrs\<close> and the AWS SDK are parameters.
\<close>

section \<open>The outside\<close>

record full_url = url +
  fu_username :: string
  fu_password :: "string option"
  fu_query :: "string option"
  fu_fragment :: "string option"

record api_request =
  aq_method :: string
  aq_url :: string
  aq_query :: "(string \<times> string) list"
  aq_headers :: "(string \<times> string) list"
  aq_form :: "(string \<times> string) list"

record vault_settings =
  vs_address :: string
  vs_token :: string
  vs_namespace :: "string option"
  vs_verify :: bool

datatype outside =
    Sent api_request
  | Ran string "string list"
  | AwsGet string
  | VaultRead vault_settings string string
  | FileRead string

record cached_token =
  kt_token :: string
  kt_expires_at :: int

record ('n, 'c) resolver_world =
  rw_net :: 'n
  rw_log :: "outside list"
  rw_aws :: "'c option"
  rw_gcp :: "cached_token option"
  rw_azure :: "cached_token option"

datatype spawn_error = SpawnNotFound | SpawnOther string

record process_output =
  po_success :: bool
  po_code :: "int option"
  po_stdout :: string
  po_stderr :: string

datatype aws_error_kind = AwsNotFound | AwsInvalidRequest | AwsDecryption | AwsInvalidParameter | AwsCode "string option"

text \<open>An error of the SDK: its kind if the service gave it, and its chain.\<close>

record aws_error =
  ae_service :: "aws_error_kind option"
  ae_chain :: anyhow

record service_account =
  sa_client_email :: string
  sa_private_key :: string
  sa_token_uri :: "string option"

record user_credentials =
  uc_client_id :: string
  uc_client_secret :: string
  uc_refresh_token :: string

text \<open>HTTP and URLs.\<close>

record 'n api_libs =
  al_client :: "string + unit"
  al_build :: "api_request \<Rightarrow> string + unit"
  al_send :: "api_request \<Rightarrow> 'n \<Rightarrow> (nat \<times> string result) result \<times> 'n"
  al_text :: "string \<Rightarrow> string"
  al_parse_url :: "string \<Rightarrow> string + full_url"
  al_push :: "full_url \<Rightarrow> string list \<Rightarrow> full_url option"
  al_append_query :: "full_url \<Rightarrow> (string \<times> string) list \<Rightarrow> full_url"
  al_encode :: "string \<Rightarrow> string"

text \<open>Processes and the clock.\<close>

record 'n process_libs =
  pl_spawn :: "string \<Rightarrow> string list \<Rightarrow> 'n \<Rightarrow> (spawn_error + unit) \<times> 'n"
  pl_try_wait :: "'n \<Rightarrow> (string + bool) \<times> 'n"
  pl_sleep :: "nat \<Rightarrow> 'n \<Rightarrow> 'n"
  pl_kill :: "'n \<Rightarrow> 'n"
  pl_output :: "'n \<Rightarrow> (string + process_output) \<times> 'n"
  pl_run :: "string \<Rightarrow> string list \<Rightarrow> 'n \<Rightarrow> (spawn_error + process_output) \<times> 'n"
  pl_now :: "'n \<Rightarrow> int \<times> 'n"

text \<open>What reads the bodies and files.\<close>

record readers =
  re_json :: "string \<Rightarrow> string + json"
  re_json_list :: "string \<Rightarrow> string + json list"
  re_show_json :: "json \<Rightarrow> string"
  re_access_token :: "string \<Rightarrow> string + string"
  re_token :: "string \<Rightarrow> string + (string \<times> nat option)"
  re_imds_token :: "string \<Rightarrow> string + (string \<times> string option)"
  re_payload :: "string \<Rightarrow> string + string"
  re_value :: "string \<Rightarrow> string + string"
  re_kind :: "string \<Rightarrow> string + string"
  re_account :: "string \<Rightarrow> string + service_account"
  re_user :: "string \<Rightarrow> string + user_credentials"
  re_base64 :: "string \<Rightarrow> string + string"

record ('n, 'c) resolver_libs =
  rl_api :: "'n api_libs"
  rl_process :: "'n process_libs"
  rl_read :: readers
  rl_escape :: "string \<Rightarrow> string"
  rl_lower :: "string \<Rightarrow> string"
  rl_env :: "string \<Rightarrow> string option"
  rl_home :: "string option"
  rl_exists :: "string \<Rightarrow> 'n \<Rightarrow> bool"
  rl_file :: "string \<Rightarrow> 'n \<Rightarrow> string + string"
  rl_unix_time :: "'n \<Rightarrow> int \<times> 'n"
  rl_pem_key :: "string \<Rightarrow> string + unit"
  rl_sign :: "string \<Rightarrow> json \<Rightarrow> 'n \<Rightarrow> (string + string) \<times> 'n"
  rl_aws_load :: "'n \<Rightarrow> 'c \<times> 'n"
  rl_aws_get :: "'c \<Rightarrow> string \<Rightarrow> 'n \<Rightarrow> (aws_error + string option) \<times> 'n"
  rl_vault_settings :: "vault_settings \<Rightarrow> string + unit"
  rl_vault_client :: "vault_settings \<Rightarrow> string + unit"
  rl_vault_read :: "vault_settings \<Rightarrow> string \<Rightarrow> string \<Rightarrow> 'n \<Rightarrow> ((string, json) btree) result \<times> 'n"

definition set_net :: "'n \<Rightarrow> ('n, 'c) resolver_world \<Rightarrow> ('n, 'c) resolver_world" where
  "set_net n w = w\<lparr>rw_net := n\<rparr>"

definition outside_io :: "outside \<Rightarrow> ('n \<Rightarrow> 'a result \<times> 'n) \<Rightarrow> (('n, 'c) resolver_world, 'a) action" where
  "outside_io entry f w = (case f (rw_net w) of (r, n) \<Rightarrow> (r, w\<lparr>rw_net := n, rw_log := rw_log w @ [entry]\<rparr>))"

definition quiet_io :: "('n \<Rightarrow> 'a \<times> 'n) \<Rightarrow> (('n, 'c) resolver_world, 'a) action" where
  "quiet_io f w = (case f (rw_net w) of (x, n) \<Rightarrow> (Inr x, w\<lparr>rw_net := n\<rparr>))"

text \<open>An environment variable, with the default for an absent or empty one.\<close>

definition env_filled :: "('n, 'c) resolver_libs \<Rightarrow> string \<Rightarrow> string option" where
  "env_filled rl key = (case rl_env rl key of Some v \<Rightarrow> if v = [] then None else Some v | None \<Rightarrow> None)"

definition env_or :: "('n, 'c) resolver_libs \<Rightarrow> string \<Rightarrow> string \<Rightarrow> string" where
  "env_or rl key fallback = (case env_filled rl key of Some v \<Rightarrow> v | None \<Rightarrow> fallback)"

section \<open>Requests\<close>

definition bearer_headers :: "string \<Rightarrow> (string \<times> string) list" where
  "bearer_headers token = [(''Authorization'', ''Bearer '' @ token), (''Accept'', ''application/json'')]"

definition get_request :: "string \<Rightarrow> (string \<times> string) list \<Rightarrow> (string \<times> string) list \<Rightarrow> api_request" where
  "get_request url query headers = \<lparr>aq_method = ''GET'', aq_url = url, aq_query = query, aq_headers = headers, aq_form = []\<rparr>"

definition post_form :: "string \<Rightarrow> (string \<times> string) list \<Rightarrow> api_request" where
  "post_form url form = \<lparr>aq_method = ''POST'', aq_url = url, aq_query = [], aq_headers = [], aq_form = form\<rparr>"

text \<open>Building the client, whose redirects are off and whose time is limited, and executing a request.\<close>

definition build_client :: "('n, 'c) resolver_libs \<Rightarrow> string \<Rightarrow> (('n, 'c) resolver_world, unit) action" where
  "build_client rl msg = act_lift (with_context msg (os_error (al_client (rl_api rl))))"

definition api_call ::
    "('n, 'c) resolver_libs \<Rightarrow> string \<Rightarrow> string \<Rightarrow> api_request \<Rightarrow> (('n, 'c) resolver_world, nat \<times> string result) action" where
  "api_call rl building sending req =
     act_bind (act_lift (with_context building (os_error (al_build (rl_api rl) req)))) (\<lambda>_.
     act_context sending (outside_io (Sent req) (al_send (rl_api rl) req)))"

definition http_success :: "nat \<Rightarrow> bool" where "http_success status \<longleftrightarrow> 200 \<le> status \<and> status < 300"

definition success_or_body :: "('n, 'c) resolver_libs \<Rightarrow> string \<Rightarrow> nat \<times> string result \<Rightarrow> string result result" where
  "success_or_body rl what = (\<lambda>(status, body).
     if http_success status then Inr body
     else bail (what @ '' returned HTTP '' @ show_nat status @ '': ''
            @ truncate_body (case body of Inr bytes \<Rightarrow> al_text (rl_api rl) bytes | Inl _ \<Rightarrow> []) error_body_max_len))"

definition success_only :: "string \<Rightarrow> nat \<times> string result \<Rightarrow> string result result" where
  "success_only what = (\<lambda>(status, body).
     if http_success status then Inr body else bail (what @ '' returned HTTP '' @ show_nat status))"

definition read_body :: "string \<Rightarrow> (string \<Rightarrow> string + 'a) \<Rightarrow> string result \<Rightarrow> 'a result" where
  "read_body msg reader body = with_context msg (and_then body (\<lambda>bytes. os_error (reader bytes)))"

section \<open>1Password\<close>

record connect_auth =
  oh_host :: string
  oh_token :: string

definition op_auth_from_env :: "('n, 'c) resolver_libs \<Rightarrow> connect_auth result" where
  "op_auth_from_env rl =
     (case (env_filled rl ''OP_CONNECT_TOKEN'', env_filled rl ''OP_CONNECT_HOST'') of
        (Some token, Some host) \<Rightarrow>
          and_then (with_context (''OP_CONNECT_HOST is not a valid URL: '' @ host)
            (os_error (al_parse_url (rl_api rl) host))) (\<lambda>parsed.
          and_then (ensure (url_scheme parsed = ''https'' \<or> url_scheme parsed = ''http'')
            (''OP_CONNECT_HOST must use http:// or https:// scheme, got: '' @ url_scheme parsed)) (\<lambda>_.
          and_then (ensure (\<not> (url_path parsed \<noteq> [] \<and> url_path parsed \<noteq> ''/''))
            (''OP_CONNECT_HOST must not include a path, got: '' @ host)) (\<lambda>_.
          and_then (ensure (\<not> (fu_username parsed \<noteq> [] \<or> fu_password parsed \<noteq> None))
            (''OP_CONNECT_HOST must not include userinfo (username/password), got: '' @ host)) (\<lambda>_.
          and_then (ensure (fu_query parsed = None) (''OP_CONNECT_HOST must not include a query string, got: '' @ host)) (\<lambda>_.
          and_then (ensure (fu_fragment parsed = None) (''OP_CONNECT_HOST must not include a fragment, got: '' @ host)) (\<lambda>_.
          Inr \<lparr>oh_host = trim_end_matches ''/'' host, oh_token = token\<rparr>))))))
      | _ \<Rightarrow> bail (''1Password Connect Server requires OP_CONNECT_TOKEN + OP_CONNECT_HOST ''
               @ ''environment variables. See https://developer.1password.com/docs/connect/''))"

definition name_filter :: "string \<Rightarrow> string \<Rightarrow> (string \<times> string) list" where
  "name_filter attribute name = [(''filter'', attribute @ '' eq '' @ [CHR 0x22] @ name @ [CHR 0x22])]"

text \<open>The lookup both identifiers share: exactly one hit, whose identifier is safe in a URL.\<close>

definition single_id :: "('n, 'c) resolver_libs \<Rightarrow> string \<Rightarrow> string \<Rightarrow> (nat \<Rightarrow> string) \<Rightarrow> json list \<Rightarrow> string result" where
  "single_id rl kind missing ambiguous hits =
     (case hits of
        [] \<Rightarrow> bail missing
      | hit # others \<Rightarrow>
          and_then (ensure (others = []) (ambiguous (length hits))) (\<lambda>_.
          and_then (ok_or [''1Password '' @ kind @ '' response missing '' @ squoted ''id'' @ '' field''] (as_str (json_at hit ''id''))) (\<lambda>id.
          and_then (validate_op_segment (rl_escape rl) id (kind @ '' ID from API'')) (\<lambda>_. Inr id))))"

definition op_lookup ::
    "('n, 'c) resolver_libs \<Rightarrow> string \<Rightarrow> string \<Rightarrow> string \<Rightarrow> string \<Rightarrow> string \<Rightarrow> string \<Rightarrow> (nat \<Rightarrow> string) \<Rightarrow> string \<Rightarrow>
     (('n, 'c) resolver_world, string) action" where
  "op_lookup rl kind attribute url token name_or_id missing ambiguous what =
     (if is_op_uuid name_or_id then act_return name_or_id
      else act_bind (api_call rl (''failed to build '' @ what @ '' request'') (what @ '' request failed'')
             (get_request url (name_filter attribute name_or_id) (bearer_headers token))) (\<lambda>answer.
           act_lift (
             and_then (success_or_body rl what answer) (\<lambda>body.
             and_then (read_body (''failed to parse '' @ what @ '' response'') (re_json_list (rl_read rl)) body) (\<lambda>hits.
             single_id rl kind missing ambiguous hits)))))"

definition resolve_vault_id ::
    "('n, 'c) resolver_libs \<Rightarrow> string \<Rightarrow> string \<Rightarrow> string \<Rightarrow> (('n, 'c) resolver_world, string) action" where
  "resolve_vault_id rl base token name_or_id =
     op_lookup rl ''vault'' ''name'' (base @ ''/v1/vaults'') token name_or_id
       (''1Password vault '' @ squoted name_or_id @ '' not found'')
       (\<lambda>n. ''1Password vault name '' @ squoted name_or_id @ '' is ambiguous'' @ em_dash @ show_nat n
          @ '' vaults matched. Use the vault UUID instead to resolve the ambiguity.'')
       ''1Password vault lookup''"

definition resolve_item_id ::
    "('n, 'c) resolver_libs \<Rightarrow> string \<Rightarrow> string \<Rightarrow> string \<Rightarrow> string \<Rightarrow> (('n, 'c) resolver_world, string) action" where
  "resolve_item_id rl base token vault_id name_or_id =
     op_lookup rl ''item'' ''title'' (base @ ''/v1/vaults/'' @ vault_id @ ''/items'') token name_or_id
       (''1Password item '' @ squoted name_or_id @ '' not found in vault'')
       (\<lambda>n. ''1Password item title '' @ squoted name_or_id @ '' is ambiguous'' @ em_dash @ show_nat n
          @ '' items matched in vault. Use the item UUID instead to resolve the ambiguity.'')
       ''1Password item lookup''"

text \<open>The field by label or identifier, within the section when one is named.\<close>

definition field_matches :: "string option \<Rightarrow> string \<Rightarrow> json \<Rightarrow> bool" where
  "field_matches expected_section expected_field f \<longleftrightarrow>
     (as_str (json_at f ''label'') = Some expected_field \<or> as_str (json_at f ''id'') = Some expected_field)
     \<and> (case expected_section of
          None \<Rightarrow> True
        | Some part \<Rightarrow> as_str (json_at (json_at f ''section'') ''label'') = Some part
                     \<or> as_str (json_at (json_at f ''section'') ''id'') = Some part)"

definition op_field_value :: "op_reference \<Rightarrow> json \<Rightarrow> string result" where
  "op_field_value op_ref body =
     and_then (ok_or [''1Password API response missing '' @ squoted ''fields'' @ '' array''] (as_array (json_at body ''fields''))) (\<lambda>fields'.
     let (expected_section, expected_field) =
           (case split_once ''/'' (op_field op_ref) of Some (s, f) \<Rightarrow> (Some s, f) | None \<Rightarrow> (None, op_field op_ref))
     in ok_or [''field '' @ squoted (op_field op_ref) @ '' not found in 1Password item ''
               @ squoted (op_vault op_ref @ ''/'' @ op_item op_ref)
               @ ''. Verify the field label and section name (if specified) are correct.'']
          (case find (field_matches expected_section expected_field) fields' of
             Some f \<Rightarrow> as_str (json_at f ''value'')
           | None \<Rightarrow> None))"

definition resolve_via_connect ::
    "('n, 'c) resolver_libs \<Rightarrow> op_reference \<Rightarrow> connect_auth \<Rightarrow> (('n, 'c) resolver_world, string) action" where
  "resolve_via_connect rl op_ref auth =
     (let base = trim_end_matches ''/'' (oh_host auth); token = oh_token auth
      in act_bind (act_lift (
           and_then (validate_scim_value (rl_escape rl) (op_vault op_ref) ''vault name'') (\<lambda>_.
           validate_scim_value (rl_escape rl) (op_item op_ref) ''item name''))) (\<lambda>_.
         act_bind (build_client rl ''failed to build HTTP client for 1Password'') (\<lambda>_.
         act_bind (resolve_vault_id rl base token (op_vault op_ref)) (\<lambda>vault_id.
         act_bind (resolve_item_id rl base token vault_id (op_item op_ref)) (\<lambda>item_id.
         act_bind (api_call rl ''failed to build 1Password item request'' ''1Password API request failed''
           (get_request (base @ ''/v1/vaults/'' @ vault_id @ ''/items/'' @ item_id) [] (bearer_headers token))) (\<lambda>answer.
         act_lift (
           and_then (success_or_body rl ''1Password API'' answer) (\<lambda>body.
           and_then (read_body ''failed to parse 1Password API response'' (re_json (rl_read rl)) body) (\<lambda>item.
           op_field_value op_ref item)))))))))"

text \<open>Waiting for the child: a poll every 50 ms until it has ended or 30 seconds are over. No answer means
  that the polls ran out.\<close>

fun poll_child :: "'n process_libs \<Rightarrow> int \<Rightarrow> nat \<Rightarrow> 'n \<Rightarrow> unit result option \<times> 'n" where
  "poll_child pl deadline 0 n = (None, n)"
| "poll_child pl deadline (Suc polls) n =
     (case pl_try_wait pl n of
        (Inl err, n') \<Rightarrow> (Some (bail (''failed to wait for 1Password CLI: '' @ err)), n')
      | (Inr True, n') \<Rightarrow> (Some (Inr ()), n')
      | (Inr False, n') \<Rightarrow>
          (case pl_now pl n' of
             (now, n'') \<Rightarrow>
               if deadline \<le> now
               then (Some (bail (''1Password CLI `op read` did not complete within 30 seconds. ''
                       @ ''The CLI may be waiting for interactive authentication (biometric/GUI). ''
                       @ ''For non-interactive use, set OP_SERVICE_ACCOUNT_TOKEN or use Connect Server.'')), pl_kill pl n'')
               else poll_child pl deadline polls (pl_sleep pl 50 n'')))"

definition cli_polls :: nat where "cli_polls = 602"

definition utf8_error :: "string \<Rightarrow> string" where
  "utf8_error bytes =
     (case utf8_head (drop (valid_up_to bytes) bytes) of
        Invalid n \<Rightarrow> ''invalid utf-8 sequence of '' @ show_nat n @ '' bytes from index '' @ show_nat (valid_up_to bytes)
      | _ \<Rightarrow> ''incomplete utf-8 byte sequence from index '' @ show_nat (valid_up_to bytes))"

definition from_utf8 :: "string \<Rightarrow> string result" where
  "from_utf8 bytes = (if is_utf8 bytes then Inr bytes else bail (utf8_error bytes))"

definition read_op_output :: "process_output \<Rightarrow> string result" where
  "read_op_output result =
     (if po_success result
      then with_context ''1Password CLI returned non-UTF-8 output'' (from_utf8 (po_stdout result))
      else bail (''1Password CLI `op read` failed (exit ''
             @ show_int (case po_code result of Some c \<Rightarrow> c | None \<Rightarrow> -1) @ ''): ''
             @ trim (from_utf8_lossy (po_stderr result)) @ [CHR 0x0A, CHR 0x0A]
             @ ''Ensure you are authenticated via one of:'' @ [CHR 0x0A]
             @ ''  - OP_SERVICE_ACCOUNT_TOKEN env var (CI/CD)'' @ [CHR 0x0A]
             @ ''  - `op signin` interactive session (developer workstation)'' @ [CHR 0x0A]
             @ ''  - Connect Server: set OP_CONNECT_TOKEN + OP_CONNECT_HOST''))"

definition op_cli_args :: "string \<Rightarrow> string list" where
  "op_cli_args reference = [''read'', ''--no-newline'', reference]"

definition op_spawn_error :: "spawn_error \<Rightarrow> string" where
  "op_spawn_error err =
     (case err of
        SpawnNotFound \<Rightarrow>
          ''1Password secret resolution requires either:'' @ [CHR 0x0A]
          @ ''  1. Connect Server: set OP_CONNECT_TOKEN + OP_CONNECT_HOST'' @ [CHR 0x0A]
          @ ''  2. CLI: install `op` (https://developer.1password.com/docs/cli/) ''
          @ ''and set OP_SERVICE_ACCOUNT_TOKEN or run `op signin`''
      | SpawnOther e \<Rightarrow> ''failed to execute 1Password CLI `op read`: '' @ e)"

definition resolve_via_cli :: "('n, 'c) resolver_libs \<Rightarrow> string \<Rightarrow> (('n, 'c) resolver_world, string) action" where
  "resolve_via_cli rl reference =
     (let pl = rl_process rl
      in act_bind (outside_io (Ran ''op'' (op_cli_args reference))
           (\<lambda>n. case pl_spawn pl ''op'' (op_cli_args reference) n of
              (Inl err, n') \<Rightarrow> (bail (op_spawn_error err), n') | (Inr _, n') \<Rightarrow> (Inr (), n'))) (\<lambda>_.
         act_bind (quiet_io (pl_now pl)) (\<lambda>now.
         act_bind (quiet_io (poll_child pl (now + seconds 30) cli_polls)) (\<lambda>ended.
         act_bind (act_lift (case ended of Some r \<Rightarrow> r | None \<Rightarrow> bail ''still waiting'')) (\<lambda>_.
         act_bind (quiet_io (pl_output pl)) (\<lambda>output.
         act_lift (and_then (with_context ''failed to read 1Password CLI output'' (os_error output)) read_op_output)))))))"

definition resolve_op :: "('n, 'c) resolver_libs \<Rightarrow> string \<Rightarrow> (('n, 'c) resolver_world, string) action" where
  "resolve_op rl reference =
     act_bind (act_lift (parse_op (rl_escape rl) reference)) (\<lambda>op_ref.
     case op_auth_from_env rl of
       Inr auth \<Rightarrow> resolve_via_connect rl op_ref auth
     | Inl _ \<Rightarrow> resolve_via_cli rl (show_op op_ref))"

section \<open>Vault\<close>

definition vault_env_missing :: "string \<Rightarrow> string" where
  "vault_env_missing key =
     key @ '' is not set. Set both VAULT_ADDR and VAULT_TOKEN environment variables to use vault:// secret references. ''
     @ ''For enterprise Vault with namespaces, also set VAULT_NAMESPACE.''"

definition header_unsafe :: "string \<Rightarrow> string" where
  "header_unsafe key =
     key @ '' contains characters that are not valid in HTTP headers (control characters, DEL, or non-ASCII). ''"

definition vault_settings_from_env :: "('n, 'c) resolver_libs \<Rightarrow> vault_settings result" where
  "vault_settings_from_env rl =
     and_then (ok_or [vault_env_missing ''VAULT_ADDR''] (env_filled rl ''VAULT_ADDR'')) (\<lambda>addr.
     and_then (ok_or [vault_env_missing ''VAULT_TOKEN''] (env_filled rl ''VAULT_TOKEN'')) (\<lambda>token.
     and_then (ensure (is_header_safe token)
       (header_unsafe ''VAULT_TOKEN'' @ ''Vault tokens must consist only of printable ASCII characters.'')) (\<lambda>_.
     let namespace = env_filled rl ''VAULT_NAMESPACE''
     in and_then (with_context (''VAULT_ADDR is not a valid URL: '' @ addr @ ''. Expected format: https://vault.example.com:8200'')
          (os_error (al_parse_url (rl_api rl) addr))) (\<lambda>parsed_addr.
        and_then (ensure (url_scheme parsed_addr = ''http'' \<or> url_scheme parsed_addr = ''https'')
          (''VAULT_ADDR must use http:// or https:// scheme, got: '' @ url_scheme parsed_addr)) (\<lambda>_.
        and_then (case namespace of
            None \<Rightarrow> Inr ()
          | Some ns \<Rightarrow> ensure (is_header_safe ns)
              (header_unsafe ''VAULT_NAMESPACE'' @ ''Must be a valid Vault namespace path (e.g., '' @ squoted ''admin/team-a'' @ '').'')) (\<lambda>_.
        let skip_verify = (case rl_env rl ''VAULT_SKIP_VERIFY'' of
              None \<Rightarrow> False
            | Some v \<Rightarrow> rl_lower rl v \<in> {''1'', ''true'', ''t''})
        in Inr \<lparr>vs_address = addr, vs_token = token, vs_namespace = namespace, vs_verify = (\<not> skip_verify)\<rparr>))))))"

definition ns_hint :: "vault_settings \<Rightarrow> string" where
  "ns_hint settings = (case vs_namespace settings of None \<Rightarrow> [] | Some ns \<Rightarrow> '' (namespace='' @ squoted ns @ '')'')"

text \<open>A JSON string is its text, another value its JSON form.\<close>

definition value_text :: "('n, 'c) resolver_libs \<Rightarrow> json \<Rightarrow> string" where
  "value_text rl v = (case as_str v of Some s \<Rightarrow> s | None \<Rightarrow> re_show_json (rl_read rl) v)"

definition resolve_vault :: "('n, 'c) resolver_libs \<Rightarrow> string \<Rightarrow> (('n, 'c) resolver_world, string) action" where
  "resolve_vault rl reference =
     act_bind (act_lift (parse_vault (rl_escape rl) reference)) (\<lambda>r.
     act_bind (act_lift (ensure (\<not> (prefix ''data/'' (vr_path r) \<or> vr_path r = ''data''))
       (''Vault secret path '' @ squoted (vr_path r) @ '' starts with '' @ squoted ''data/'' @ em_dash @ ''this is likely a mistake. ''
        @ ''Earl uses the KV v2 API which automatically adds the '' @ squoted ''data/'' @ '' prefix. ''
        @ ''Use the path without '' @ squoted ''data/'' @ '' (e.g., '' @ squoted ''myapp'' @ '' instead of '' @ squoted ''data/myapp'' @ '').''))) (\<lambda>_.
     act_bind (act_lift (
       and_then (vault_settings_from_env rl) (\<lambda>settings.
       and_then (with_context ''failed to build Vault client settings'' (os_error (rl_vault_settings rl settings))) (\<lambda>_.
       and_then (with_context ''failed to create Vault client'' (os_error (rl_vault_client rl settings))) (\<lambda>_.
       Inr settings))))) (\<lambda>settings.
     act_bind (act_context (''failed to read Vault secret at mount='' @ squoted (vr_mount r) @ '', path='' @ squoted (vr_path r)
         @ ns_hint settings @ ''. Note: Earl uses KV v2'' @ em_dash @ ''ensure the mount uses the KV v2 secrets engine.'')
       (outside_io (VaultRead settings (vr_mount r) (vr_path r)) (rl_vault_read rl settings (vr_mount r) (vr_path r)))) (\<lambda>secret_data.
     act_lift (
       and_then (ok_or [''field '' @ squoted (vr_field r) @ '' not found in Vault secret '' @ squoted (vr_mount r @ ''/'' @ vr_path r)
           @ ns_hint settings @ ''. Verify the field name matches a top-level key in the secret'' @ [CHR 0x27] @ ''s data map.'']
         (bt_get secret_data (vr_field r))) (\<lambda>v. Inr (value_text rl v)))))))"

section \<open>AWS\<close>

definition aws_client :: "('n, 'c) resolver_libs \<Rightarrow> (('n, 'c) resolver_world, 'c) action" where
  "aws_client rl w =
     (case rw_aws w of
        Some client \<Rightarrow> (Inr client, w)
      | None \<Rightarrow> (case rl_aws_load rl (rw_net w) of (client, n) \<Rightarrow> (Inr client, w\<lparr>rw_net := n, rw_aws := Some client\<rparr>)))"

definition aws_error_text :: "string \<Rightarrow> aws_error \<Rightarrow> anyhow" where
  "aws_error_text secret_id err =
     (let secret = ''AWS secret '' @ squoted secret_id;
          other = (''failed to retrieve '' @ secret @ '': ensure AWS credentials are configured ''
            @ ''(AWS_ACCESS_KEY_ID/AWS_SECRET_ACCESS_KEY/AWS_SESSION_TOKEN, ~/.aws/credentials, or IAM role). ''
            @ ''Set AWS_REGION or AWS_DEFAULT_REGION to your secret'' @ [CHR 0x27] @ ''s region.'') # ae_chain err
      in case ae_service err of
           Some AwsNotFound \<Rightarrow>
             [secret @ '' was not found in Secrets Manager. Verify the secret name and that AWS_REGION or ''
              @ ''AWS_DEFAULT_REGION points to the correct region.'']
         | Some AwsInvalidRequest \<Rightarrow>
             [secret @ '' cannot be retrieved: the secret may be scheduled for deletion or in an invalid state. ''
              @ ''Check the secret status in the AWS console.'']
         | Some AwsDecryption \<Rightarrow>
             [secret @ '' could not be decrypted: the KMS key used to encrypt this secret is unavailable, disabled, ''
              @ ''or the IAM principal lacks kms:Decrypt permission.'']
         | Some AwsInvalidParameter \<Rightarrow>
             [secret @ '': invalid parameter'' @ em_dash @ ''verify the secret name is correct and contains no unsupported characters.'']
         | Some (AwsCode code) \<Rightarrow>
             if code = Some ''AccessDeniedException''
             then [''IAM access denied for '' @ secret @ '': the IAM principal lacks secretsmanager:GetSecretValue permission ''
                   @ ''(or kms:Decrypt if using a customer-managed KMS key). Verify the IAM policy grants access to this secret.'']
             else other
         | None \<Rightarrow> other)"

definition aws_extract :: "('n, 'c) resolver_libs \<Rightarrow> aws_reference \<Rightarrow> string \<Rightarrow> string result" where
  "aws_extract rl r secret_string =
     (case ar_json_key r of
        None \<Rightarrow> Inr secret_string
      | Some key \<Rightarrow>
          and_then (with_context (''failed to parse AWS secret '' @ squoted (ar_secret_id r) @ '' as JSON (needed for ''
              @ squoted (''#'' @ key) @ '' key extraction)'') (os_error (re_json (rl_read rl) secret_string))) (\<lambda>parsed.
          and_then (ok_or [''top-level key '' @ squoted key @ '' not found in AWS secret '' @ squoted (ar_secret_id r)
              @ ''. Verify the key exists at the top level of the secret'' @ [CHR 0x27] @ ''s JSON structure. ''
              @ ''Note: nested key paths (e.g., '' @ squoted ''a.b'' @ '') are not supported'' @ em_dash
              @ ''only top-level keys can be extracted.''] (json_get parsed key)) (\<lambda>v.
          Inr (value_text rl v))))"

definition resolve_aws :: "('n, 'c) resolver_libs \<Rightarrow> string \<Rightarrow> (('n, 'c) resolver_world, string) action" where
  "resolve_aws rl reference =
     act_bind (act_lift (parse_aws (rl_escape rl) reference)) (\<lambda>r.
     act_bind (aws_client rl) (\<lambda>client.
     act_bind (outside_io (AwsGet (ar_secret_id r)) (\<lambda>n. case rl_aws_get rl client (ar_secret_id r) n of
         (Inl err, n') \<Rightarrow> (Inl (aws_error_text (ar_secret_id r) err), n')
       | (Inr found, n') \<Rightarrow> (Inr found, n'))) (\<lambda>found.
     act_lift (
       and_then (ok_or [''AWS secret '' @ squoted (ar_secret_id r) @ '' does not contain a SecretString (it may be binary)''] found)
         (aws_extract rl r)))))"

section \<open>Cached tokens\<close>

definition get_if_valid :: "int \<Rightarrow> cached_token \<Rightarrow> string option" where
  "get_if_valid now c = (if kt_expires_at c > now + seconds 30 then Some (kt_token c) else None)"

text \<open>The clock is read only when a token is there.\<close>

definition cached_token_of ::
    "('n, 'c) resolver_libs \<Rightarrow> cached_token option \<Rightarrow> (('n, 'c) resolver_world, string option) action" where
  "cached_token_of rl cache =
     (case cache of
        None \<Rightarrow> act_return None
      | Some c \<Rightarrow> act_bind (quiet_io (pl_now (rl_process rl))) (\<lambda>now. act_return (get_if_valid now c)))"

text \<open>An instant beyond the last one is a panic.\<close>

definition last_instant :: int where "last_instant = (2 ^ 63 - 1) * 10 ^ 9 + 999999999"

definition instant_token ::
    "('n, 'c) resolver_libs \<Rightarrow> string \<Rightarrow> nat \<Rightarrow> (('n, 'c) resolver_world, cached_token) action" where
  "instant_token rl token ttl_secs =
     act_bind (quiet_io (pl_now (rl_process rl))) (\<lambda>now.
     if now + seconds ttl_secs > last_instant then act_lift (bail ''overflow when adding duration to instant'')
     else act_return \<lparr>kt_token = token, kt_expires_at = now + seconds ttl_secs\<rparr>)"

section \<open>Google\<close>

definition cloud_scope :: string where "cloud_scope = ''https://www.googleapis.com/auth/cloud-platform''"

definition google_token_uri :: string where "google_token_uri = ''https://oauth2.googleapis.com/token''"

text \<open>The exchange both kinds of credentials share.\<close>

definition gcp_exchange ::
    "('n, 'c) resolver_libs \<Rightarrow> string \<Rightarrow> string \<Rightarrow> api_request \<Rightarrow> (('n, 'c) resolver_world, string) action" where
  "gcp_exchange rl name sending req =
     act_bind (build_client rl (''failed to build HTTP client for '' @ name)) (\<lambda>_.
     act_bind (api_call rl (''failed to build '' @ name @ '' request'') sending req) (\<lambda>answer.
     act_lift (
       and_then (success_or_body rl (''GCP '' @ name) answer) (\<lambda>body.
       read_body (''failed to parse '' @ name @ '' response'') (re_access_token (rl_read rl)) body))))"

definition account_claims :: "service_account \<Rightarrow> string \<Rightarrow> int \<Rightarrow> json" where
  "account_claims sa token_uri now =
     jobj [(''iss'', JString (sa_client_email sa)), (''scope'', JString cloud_scope), (''aud'', JString token_uri),
           (''iat'', JNumber (number_of_i64 now)), (''exp'', JNumber (number_of_i64 (now + 3600)))]"

definition account_token_uri :: "service_account \<Rightarrow> string" where
  "account_token_uri sa = (case sa_token_uri sa of Some uri \<Rightarrow> uri | None \<Rightarrow> google_token_uri)"

definition token_from_service_account ::
    "('n, 'c) resolver_libs \<Rightarrow> service_account \<Rightarrow> (('n, 'c) resolver_world, string) action" where
  "token_from_service_account rl sa =
     act_bind (quiet_io (rl_unix_time rl)) (\<lambda>now.
     act_bind (act_lift (with_context ''failed to parse service account private key'' (os_error (rl_pem_key rl (sa_private_key sa))))) (\<lambda>_.
     act_bind (quiet_io (rl_sign rl (sa_private_key sa) (account_claims sa (account_token_uri sa) now))) (\<lambda>signed.
     act_bind (act_lift (with_context ''failed to sign JWT for service account'' (os_error signed))) (\<lambda>jwt.
     gcp_exchange rl ''token exchange'' ''service account token exchange request failed''
       (post_form (account_token_uri sa)
          [(''grant_type'', ''urn:ietf:params:oauth:grant-type:jwt-bearer''), (''assertion'', jwt)])))))"

definition token_from_user_credentials ::
    "('n, 'c) resolver_libs \<Rightarrow> user_credentials \<Rightarrow> (('n, 'c) resolver_world, string) action" where
  "token_from_user_credentials rl user =
     gcp_exchange rl ''token refresh'' ''user credentials token refresh request failed''
       (post_form google_token_uri
          [(''client_id'', uc_client_id user), (''client_secret'', uc_client_secret user),
           (''refresh_token'', uc_refresh_token user), (''grant_type'', ''refresh_token'')])"

definition metadata_url :: string where
  "metadata_url = ''http://metadata.google.internal/computeMetadata/v1/instance/service-accounts/default/token''"

definition token_from_metadata_server :: "('n, 'c) resolver_libs \<Rightarrow> (('n, 'c) resolver_world, string) action" where
  "token_from_metadata_server rl =
     act_bind (build_client rl ''failed to build HTTP client for metadata server'') (\<lambda>_.
     act_bind (api_call rl ''failed to build metadata server request'' ''GCE metadata server request failed''
       (get_request metadata_url [] [(''Metadata-Flavor'', ''Google'')])) (\<lambda>answer.
     act_lift (
       and_then (success_only ''GCE metadata server'' answer) (\<lambda>body.
       read_body ''failed to parse metadata server token response'' (re_access_token (rl_read rl)) body))))"

definition token_from_credentials_file ::
    "('n, 'c) resolver_libs \<Rightarrow> string \<Rightarrow> (('n, 'c) resolver_world, string) action" where
  "token_from_credentials_file rl path =
     act_bind (act_context (''failed to read credentials file at '' @ path)
       (outside_io (FileRead path) (\<lambda>n. (os_error (rl_file rl path n), n)))) (\<lambda>content.
     act_bind (act_lift (with_context (''failed to parse credentials file at '' @ path) (os_error (re_kind (rl_read rl) content)))) (\<lambda>kind.
     if kind = ''service_account''
     then act_bind (act_lift (with_context ''failed to parse service account credentials'' (os_error (re_account (rl_read rl) content))))
            (token_from_service_account rl)
     else if kind = ''authorized_user''
     then act_bind (act_lift (with_context ''failed to parse user credentials'' (os_error (re_user (rl_read rl) content))))
            (token_from_user_credentials rl)
     else if kind = ''external_account''
     then act_lift (bail (''GCP credentials type '' @ squoted ''external_account'' @ '' (Workload Identity Federation) in '' @ path
            @ '' is not yet supported by Earl. Use a service_account key file or ''
            @ ''`gcloud auth application-default login` instead.''))
     else act_lift (bail (''unsupported GCP credentials type '' @ squoted kind @ '' in '' @ path
            @ ''. Supported types: service_account, authorized_user.''))))"

definition well_known_credentials_path :: "('n, 'c) resolver_libs \<Rightarrow> string option" where
  "well_known_credentials_path rl =
     map_option (\<lambda>home. path_join (path_join (path_join home ''.config'') ''gcloud'') ''application_default_credentials.json'') (rl_home rl)"

definition existing_path :: "('n, 'c) resolver_libs \<Rightarrow> 'n \<Rightarrow> string option \<Rightarrow> string option" where
  "existing_path rl n path = (case path of Some p \<Rightarrow> if rl_exists rl p n then Some p else None | None \<Rightarrow> None)"

definition gcp_obtain_token :: "('n, 'c) resolver_libs \<Rightarrow> (('n, 'c) resolver_world, string) action" where
  "gcp_obtain_token rl w =
     (case existing_path rl (rw_net w) (env_filled rl ''GOOGLE_APPLICATION_CREDENTIALS'') of
        Some path \<Rightarrow> token_from_credentials_file rl path w
      | None \<Rightarrow>
          (case existing_path rl (rw_net w) (well_known_credentials_path rl) of
             Some path \<Rightarrow> token_from_credentials_file rl path w
           | None \<Rightarrow>
               act_catch (token_from_metadata_server rl) (\<lambda>_. act_lift (bail (
                 ''GCP credentials not found. Set GOOGLE_APPLICATION_CREDENTIALS to a service account key file, or run ''
                 @ ''`gcloud auth application-default login`. ''
                 @ ''The service account/user needs roles/secretmanager.secretAccessor permission.''))) w))"

definition gcp_access_token :: "('n, 'c) resolver_libs \<Rightarrow> (('n, 'c) resolver_world, string) action" where
  "gcp_access_token rl w =
     act_bind (cached_token_of rl (rw_gcp w)) (\<lambda>cached.
     case cached of
       Some token \<Rightarrow> act_return token
     | None \<Rightarrow>
         act_bind (act_context ''failed to obtain GCP access token'' (gcp_obtain_token rl)) (\<lambda>token.
         act_bind (instant_token rl token (50 * 60)) (\<lambda>c v. (Inr token, v\<lparr>rw_gcp := Some c\<rparr>)))) w"

definition gcp_secret_url :: "('n, 'c) resolver_libs \<Rightarrow> gcp_reference \<Rightarrow> string" where
  "gcp_secret_url rl r =
     (let enc = al_encode (rl_api rl)
      in ''https://secretmanager.googleapis.com/v1/projects/'' @ enc (gr_project r) @ ''/secrets/'' @ enc (gr_secret r)
         @ ''/versions/'' @ enc (gr_version r) @ '':access'')"

definition resolve_gcp :: "('n, 'c) resolver_libs \<Rightarrow> string \<Rightarrow> (('n, 'c) resolver_world, string) action" where
  "resolve_gcp rl reference =
     act_bind (act_lift (parse_gcp (rl_escape rl) reference)) (\<lambda>r.
     act_bind (gcp_access_token rl) (\<lambda>access_token.
     act_bind (build_client rl ''failed to build HTTP client for GCP Secret Manager'') (\<lambda>_.
     act_bind (api_call rl ''failed to build GCP Secret Manager request'' ''GCP Secret Manager API request failed''
       (get_request (gcp_secret_url rl r) [] (bearer_headers access_token))) (\<lambda>answer.
     act_lift (
       and_then (success_or_body rl ''GCP Secret Manager API'' answer) (\<lambda>body.
       and_then (read_body ''failed to parse GCP Secret Manager API response'' (re_payload (rl_read rl)) body) (\<lambda>payload.
       and_then (with_context ''failed to base64-decode secret payload'' (os_error (re_base64 (rl_read rl) payload))) (\<lambda>decoded.
       with_context ''GCP secret payload is not valid UTF-8'' (from_utf8 decoded)))))))))"

section \<open>Azure\<close>

definition vault_suffix :: "('n, 'c) resolver_libs \<Rightarrow> string result" where
  "vault_suffix rl =
     (let suffix_host = env_or rl ''AZURE_VAULT_SUFFIX'' ''vault.azure.net''
      in and_then (validate_hostname (rl_escape rl) suffix_host ''AZURE_VAULT_SUFFIX'') (\<lambda>_. Inr suffix_host))"

text \<open>A token and the seconds it lasts, if the server says so.\<close>

type_synonym token_with_expiry = "string \<times> nat option"

definition token_via_client_credentials ::
    "('n, 'c) resolver_libs \<Rightarrow> string \<Rightarrow> string \<Rightarrow> string \<Rightarrow> (('n, 'c) resolver_world, token_with_expiry) action" where
  "token_via_client_credentials rl tenant_id client_id client_secret =
     (let authority = env_or rl ''AZURE_AUTHORITY_HOST'' ''login.microsoftonline.com''
      in act_bind (act_lift (
           and_then (validate_hostname (rl_escape rl) authority ''AZURE_AUTHORITY_HOST'') (\<lambda>_.
           and_then (validate_azure_id (rl_escape rl) tenant_id ''AZURE_TENANT_ID'') (\<lambda>_.
           and_then (vault_suffix rl) (\<lambda>suffix_host.
           and_then (with_context ''failed to parse AZURE_AUTHORITY_HOST as URL base''
             (os_error (al_parse_url (rl_api rl) (''https://'' @ authority)))) (\<lambda>base.
           and_then (ok_or [''invalid Azure AD authority URL'']
             (al_push (rl_api rl) base [tenant_id, ''oauth2'', ''v2.0'', ''token''])) (\<lambda>token_url.
           Inr (token_url, ''https://'' @ suffix_host @ ''/.default'')))))))) (\<lambda>(token_url, scope).
         act_bind (build_client rl ''failed to build HTTP client for Azure AD token exchange'') (\<lambda>_.
         act_bind (api_call rl ''failed to build Azure AD token request'' ''Azure AD token exchange request failed''
           (post_form (url_as_str token_url)
              [(''grant_type'', ''client_credentials''), (''client_id'', client_id),
               (''client_secret'', client_secret), (''scope'', scope)])) (\<lambda>answer.
         act_lift (
           and_then (success_or_body rl ''Azure AD token exchange'' answer) (\<lambda>body.
           read_body ''failed to parse Azure AD token response'' (re_token (rl_read rl)) body))))))"

text \<open>The answer both identity endpoints give; a lifetime that is no number is dropped.\<close>

definition read_imds_token :: "('n, 'c) resolver_libs \<Rightarrow> string \<Rightarrow> string result \<Rightarrow> token_with_expiry result" where
  "read_imds_token rl msg body =
     and_then (read_body msg (re_imds_token (rl_read rl)) body) (\<lambda>(token, expires_in).
     Inr (token, case expires_in of Some s \<Rightarrow> parse_unsigned (2 ^ 64) s | None \<Rightarrow> None))"

definition identity_query :: "string \<Rightarrow> string \<Rightarrow> string option \<Rightarrow> (string \<times> string) list" where
  "identity_query version resource client_id =
     [(''api-version'', version), (''resource'', resource)]
     @ (case client_id of Some cid \<Rightarrow> [(''client_id'', cid)] | None \<Rightarrow> [])"

definition token_via_app_service_identity ::
    "('n, 'c) resolver_libs \<Rightarrow> string option \<Rightarrow> (('n, 'c) resolver_world, token_with_expiry) action" where
  "token_via_app_service_identity rl client_id =
     act_bind (act_lift (
       and_then (ok_or [''IDENTITY_ENDPOINT not set (not running on App Service)''] (env_filled rl ''IDENTITY_ENDPOINT'')) (\<lambda>endpoint.
       and_then (ok_or [''IDENTITY_HEADER not set (not running on App Service)''] (env_filled rl ''IDENTITY_HEADER'')) (\<lambda>header.
       and_then (ensure (is_header_safe header)
         (header_unsafe ''IDENTITY_HEADER''
          @ ''This value is set by the App Service platform and should not contain such characters.'')) (\<lambda>_.
       and_then (vault_suffix rl) (\<lambda>suffix_host.
       Inr (endpoint, header, ''https://'' @ suffix_host))))))) (\<lambda>(endpoint, header, resource).
     act_bind (build_client rl ''failed to build HTTP client for App Service identity'') (\<lambda>_.
     act_bind (act_lift (
       and_then (with_context ''failed to parse IDENTITY_ENDPOINT as URL'' (os_error (al_parse_url (rl_api rl) endpoint))) (\<lambda>url.
       and_then (ensure (url_scheme url = ''http'' \<or> url_scheme url = ''https'')
         (''IDENTITY_ENDPOINT must use http:// or https:// scheme, got: '' @ url_scheme url)) (\<lambda>_.
       Inr (al_append_query (rl_api rl) url (identity_query ''2019-08-01'' resource client_id)))))) (\<lambda>url.
     act_bind (api_call rl ''failed to build App Service identity request'' ''App Service identity request failed''
       (get_request (url_as_str url) [] [(''X-IDENTITY-HEADER'', header)])) (\<lambda>answer.
     act_lift (
       and_then (success_only ''App Service identity endpoint'' answer)
         (read_imds_token rl ''failed to parse App Service identity response''))))))"

definition imds_url :: string where "imds_url = ''http://169.254.169.254/metadata/identity/oauth2/token''"

definition token_via_imds ::
    "('n, 'c) resolver_libs \<Rightarrow> string option \<Rightarrow> (('n, 'c) resolver_world, token_with_expiry) action" where
  "token_via_imds rl client_id =
     act_bind (act_lift (vault_suffix rl)) (\<lambda>suffix_host.
     act_bind (build_client rl ''failed to build HTTP client for Azure IMDS'') (\<lambda>_.
     act_bind (act_lift (with_context ''failed to parse IMDS base URL'' (os_error (al_parse_url (rl_api rl) imds_url)))) (\<lambda>url.
     act_bind (api_call rl ''failed to build Azure IMDS request'' ''Azure IMDS request failed''
       (get_request (url_as_str (al_append_query (rl_api rl) url
          (identity_query ''2018-02-01'' (''https://'' @ suffix_host) client_id))) [] [(''Metadata'', ''true'')])) (\<lambda>answer.
     act_lift (
       and_then (success_only ''Azure IMDS'' answer) (read_imds_token rl ''failed to parse Azure IMDS token response''))))))"

definition az_cli_args :: "string \<Rightarrow> string list" where
  "az_cli_args suffix_host =
     [''account'', ''get-access-token'', ''--scope'', ''https://'' @ suffix_host @ ''/.default'', ''--output'', ''json'']"

definition read_az_output :: "('n, 'c) resolver_libs \<Rightarrow> process_output \<Rightarrow> token_with_expiry result" where
  "read_az_output rl result =
     (if po_success result
      then and_then (with_context ''Azure CLI returned non-UTF-8 output'' (from_utf8 (po_stdout result))) (\<lambda>stdout.
           and_then (with_context ''failed to parse Azure CLI JSON output'' (os_error (re_json (rl_read rl) stdout))) (\<lambda>parsed.
           and_then (ok_or [''Azure CLI output missing '' @ squoted ''accessToken'' @ '' field''] (as_str (json_at parsed ''accessToken''))) (\<lambda>token.
           Inr (token, None))))
      else bail (''Azure CLI `az account get-access-token` failed (exit ''
             @ show_int (case po_code result of Some c \<Rightarrow> c | None \<Rightarrow> -1) @ ''): ''
             @ truncate_body (trim (from_utf8_lossy (po_stderr result))) error_body_max_len))"

definition token_via_az_cli :: "('n, 'c) resolver_libs \<Rightarrow> (('n, 'c) resolver_world, token_with_expiry) action" where
  "token_via_az_cli rl =
     act_bind (act_lift (vault_suffix rl)) (\<lambda>suffix_host.
     act_bind (outside_io (Ran ''az'' (az_cli_args suffix_host))
       (\<lambda>n. case pl_run (rl_process rl) ''az'' (az_cli_args suffix_host) n of
          (Inl SpawnNotFound, n') \<Rightarrow> (bail ''Azure CLI `az` not found on PATH'', n')
        | (Inl (SpawnOther err), n') \<Rightarrow> (bail (''failed to execute Azure CLI: '' @ err), n')
        | (Inr result, n') \<Rightarrow> (Inr result, n'))) (\<lambda>result.
     act_lift (read_az_output rl result)))"

text \<open>\<open>{:#}\<close> of an error: the whole chain.\<close>

definition chain_text :: "anyhow \<Rightarrow> string" where "chain_text err = str_join '': '' err"

definition azure_obtain_token :: "('n, 'c) resolver_libs \<Rightarrow> (('n, 'c) resolver_world, token_with_expiry) action" where
  "azure_obtain_token rl =
     (let client_id = env_filled rl ''AZURE_CLIENT_ID''
      in case (env_filled rl ''AZURE_TENANT_ID'', client_id, env_filled rl ''AZURE_CLIENT_SECRET'') of
           (Some tenant, Some client, Some secret) \<Rightarrow>
             act_bind (act_lift (validate_azure_id (rl_escape rl) client ''AZURE_CLIENT_ID'')) (\<lambda>_.
             token_via_client_credentials rl tenant client secret)
         | _ \<Rightarrow>
             act_catch (token_via_app_service_identity rl client_id) (\<lambda>app_svc_err.
             act_catch (token_via_imds rl client_id) (\<lambda>imds_err.
             act_catch (token_via_az_cli rl) (\<lambda>cli_err.
             act_lift (bail (''Azure authentication failed. Configure one of:'' @ [CHR 0x0A]
               @ ''  1. Service principal: set AZURE_TENANT_ID, AZURE_CLIENT_ID, and AZURE_CLIENT_SECRET'' @ [CHR 0x0A]
               @ ''  2. Managed Identity: run on Azure infrastructure (App Service: '' @ chain_text app_svc_err
               @ ''; IMDS: '' @ chain_text imds_err @ '')'' @ [CHR 0x0A]
               @ ''  3. Azure CLI: run `az login` (CLI failed: '' @ chain_text cli_err @ '')'' @ [CHR 0x0A, CHR 0x0A]
               @ ''For sovereign clouds, also set AZURE_AUTHORITY_HOST and AZURE_VAULT_SUFFIX.''))))))"

definition azure_ttl :: "nat option \<Rightarrow> nat" where
  "azure_ttl expires_in = (case expires_in of Some s \<Rightarrow> s - 120 | None \<Rightarrow> 50 * 60)"

definition azure_access_token :: "('n, 'c) resolver_libs \<Rightarrow> (('n, 'c) resolver_world, string) action" where
  "azure_access_token rl w =
     act_bind (cached_token_of rl (rw_azure w)) (\<lambda>cached.
     case cached of
       Some token \<Rightarrow> act_return token
     | None \<Rightarrow>
         act_bind (act_context ''failed to obtain Azure AD access token'' (azure_obtain_token rl)) (\<lambda>(token, expires_in).
         act_bind (instant_token rl token (azure_ttl expires_in)) (\<lambda>c v. (Inr token, v\<lparr>rw_azure := Some c\<rparr>)))) w"

definition azure_secret_url :: "('n, 'c) resolver_libs \<Rightarrow> azure_reference \<Rightarrow> full_url result" where
  "azure_secret_url rl r =
     and_then (vault_suffix rl) (\<lambda>suffix_host.
     and_then (with_context ''failed to parse Azure Key Vault base URL''
       (os_error (al_parse_url (rl_api rl) (''https://'' @ zr_vault_name r @ ''.'' @ suffix_host)))) (\<lambda>url.
     and_then (ok_or [''invalid Azure Key Vault URL''] (al_push (rl_api rl) url [''secrets'', zr_secret_name r])) (\<lambda>url.
     Inr (al_append_query (rl_api rl) url [(''api-version'', ''7.4'')]))))"

definition resolve_azure :: "('n, 'c) resolver_libs \<Rightarrow> string \<Rightarrow> (('n, 'c) resolver_world, string) action" where
  "resolve_azure rl reference =
     act_bind (act_lift (parse_azure (rl_escape rl) reference)) (\<lambda>r.
     act_bind (azure_access_token rl) (\<lambda>access_token.
     act_bind (act_lift (azure_secret_url rl r)) (\<lambda>url.
     act_bind (build_client rl ''failed to build HTTP client for Azure Key Vault'') (\<lambda>_.
     act_bind (api_call rl ''failed to build Azure Key Vault request'' ''Azure Key Vault API request failed''
       (get_request (url_as_str url) [] (bearer_headers access_token))) (\<lambda>answer.
     act_lift (
       and_then (success_or_body rl ''Azure Key Vault API'' answer) (\<lambda>body.
       read_body ''failed to parse Azure Key Vault API response'' (re_value (rl_read rl)) body)))))))"

section \<open>The list of resolvers\<close>

text \<open>The features compiled in, by scheme.\<close>

definition default_resolvers ::
    "('n, 'c) resolver_libs \<Rightarrow> (string \<Rightarrow> bool) \<Rightarrow> ('n, 'c) resolver_world secret_resolver list" where
  "default_resolvers rl enabled =
     filter (\<lambda>r. enabled (resolver_scheme r))
       [\<lparr>resolver_scheme = ''op'', resolver_resolve = resolve_op rl\<rparr>,
        \<lparr>resolver_scheme = ''vault'', resolver_resolve = resolve_vault rl\<rparr>,
        \<lparr>resolver_scheme = ''aws'', resolver_resolve = resolve_aws rl\<rparr>,
        \<lparr>resolver_scheme = ''gcp'', resolver_resolve = resolve_gcp rl\<rparr>,
        \<lparr>resolver_scheme = ''az'', resolver_resolve = resolve_azure rl\<rparr>]"

section \<open>Waiting for the command line of 1Password\<close>

text \<open>A clock that polling does not turn back and that a sleep advances.\<close>

definition clock_advances :: "'n process_libs \<Rightarrow> ('n \<Rightarrow> int) \<Rightarrow> bool" where
  "clock_advances pl clock \<longleftrightarrow>
     (\<forall>n. clock n \<le> fst (pl_now pl n) \<and> clock n \<le> clock (snd (pl_now pl n))
        \<and> clock n \<le> clock (snd (pl_try_wait pl n)))
     \<and> (\<forall>ms n. clock n + int ms * 10 ^ 6 \<le> clock (pl_sleep pl ms n))"

lemma poll_child_more: "fst (poll_child pl deadline polls n) \<noteq> None \<Longrightarrow> polls \<le> fuel \<Longrightarrow>
    poll_child pl deadline fuel n = poll_child pl deadline polls n"
proof (induction pl deadline polls n arbitrary: fuel rule: poll_child.induct)
  case (2 pl deadline polls n)
  obtain fuel' where fuel: "fuel = Suc fuel'" "polls \<le> fuel'" using 2(3) by (cases fuel) auto
  obtain r n' where tried: "pl_try_wait pl n = (r, n')" by (cases "pl_try_wait pl n")
  obtain now n'' where read: "pl_now pl n' = (now, n'')" by (cases "pl_now pl n'")
  show ?case
  proof (cases "r = Inr False \<and> \<not> deadline \<le> now")
    case True
    with 2(2) have "fst (poll_child pl deadline polls (pl_sleep pl 50 n'')) \<noteq> None" by (simp add: tried read)
    note ih = 2(1) [OF tried [symmetric] _ _ read [symmetric] _ this fuel(2)]
    have "poll_child pl deadline fuel' (pl_sleep pl 50 n'') = poll_child pl deadline polls (pl_sleep pl 50 n'')"
      by (rule ih [of False]) (use True in simp_all)
    with True show ?thesis by (simp add: fuel tried read)
  next
    case False
    then show ?thesis by (auto simp: fuel tried read split: sum.splits bool.splits)
  qed
qed simp

lemma poll_child_ends:
  assumes clock: "clock_advances pl clock"
  shows "deadline + 50 * 10 ^ 6 \<le> clock n + int polls * (50 * 10 ^ 6) \<Longrightarrow> 0 < polls \<Longrightarrow>
    fst (poll_child pl deadline polls n) \<noteq> None"
proof (induction polls arbitrary: n)
  case (Suc polls)
  obtain r n' where tried: "pl_try_wait pl n = (r, n')" by (cases "pl_try_wait pl n")
  obtain now n'' where read: "pl_now pl n' = (now, n'')" by (cases "pl_now pl n'")
  have later: "clock n \<le> clock n'" "clock n' \<le> now" "clock n' \<le> clock n''"
    "clock n'' + 50 * 10 ^ 6 \<le> clock (pl_sleep pl 50 n'')"
  proof -
    from clock have "\<And>m. clock m \<le> clock (snd (pl_try_wait pl m))" "\<And>m. clock m \<le> fst (pl_now pl m)"
      "\<And>m. clock m \<le> clock (snd (pl_now pl m))" "clock n'' + int 50 * 10 ^ 6 \<le> clock (pl_sleep pl 50 n'')"
      unfolding clock_advances_def by blast+
    from this(1) [of n] this(2,3) [of n'] this(4) show "clock n \<le> clock n'" "clock n' \<le> now" "clock n' \<le> clock n''"
      "clock n'' + 50 * 10 ^ 6 \<le> clock (pl_sleep pl 50 n'')"
      by (simp_all add: tried read)
  qed
  show ?case
  proof (cases "r = Inr False \<and> \<not> deadline \<le> now")
    case True
    have "deadline + 50 * 10 ^ 6 \<le> clock (pl_sleep pl 50 n'') + int polls * (50 * 10 ^ 6)"
      using Suc.prems(1) later by (simp add: algebra_simps)
    moreover have "0 < polls"
      using Suc.prems(1) later True by (cases polls) simp_all
    ultimately show ?thesis using Suc.IH True by (simp add: tried read)
  next
    case False
    then show ?thesis by (auto simp: tried read split: sum.splits bool.splits)
  qed
qed simp

text \<open>
  Waiting for the 1Password command line ends: whatever the child does, as long as polling does not turn
  the clock back and a sleep advances it, the loop answers within 602 polls, and more polls would not
  change its answer.
\<close>

theorem op_cli_wait_ends:
  assumes "clock_advances pl clock" and "cli_polls \<le> polls" and "start \<le> clock n"
  shows "fst (poll_child pl (start + seconds 30) polls n) \<noteq> None
    \<and> poll_child pl (start + seconds 30) polls n = poll_child pl (start + seconds 30) cli_polls n"
proof -
  have "fst (poll_child pl (start + seconds 30) cli_polls n) \<noteq> None"
    using assms(3) by (intro poll_child_ends [OF assms(1)]) (simp_all add: cli_polls_def seconds_def)
  with poll_child_more [OF this assms(2)] show ?thesis by simp
qed

text \<open>A child that never ends, under a clock that only sleeping moves.\<close>

definition sleeping_child :: "int process_libs" where
  "sleeping_child =
     \<lparr>pl_spawn = (\<lambda>program args n. (Inr (), n)), pl_try_wait = (\<lambda>n. (Inr False, n)),
      pl_sleep = (\<lambda>ms n. n + int ms * 10 ^ 6), pl_kill = id,
      pl_output = (\<lambda>n. (Inl ''none'', n)), pl_run = (\<lambda>program args n. (Inl SpawnNotFound, n)),
      pl_now = (\<lambda>n. (n, n))\<rparr>"

theorem op_cli_wait_ends_witness:
  "fst (poll_child sleeping_child (7 + seconds 30) 1000 7) \<noteq> None
   \<and> poll_child sleeping_child (7 + seconds 30) 1000 7 = poll_child sleeping_child (7 + seconds 30) cli_polls 7"
  by (rule op_cli_wait_ends [of _ "\<lambda>n. n"]) (simp_all add: clock_advances_def sleeping_child_def cli_polls_def)

section \<open>What a resolver does outside\<close>

lemma logs_outside: "P entry \<Longrightarrow> logs rw_log P (outside_io entry f)"
  by (rule logsI) (auto simp: outside_io_def split: prod.splits)

lemma logs_quiet [logs_intros]: "logs rw_log P (quiet_io f)"
  by (rule logs_silent) (simp add: quiet_io_def split: prod.splits)

lemma logs_client [logs_intros]: "logs rw_log P (build_client rl msg)"
  unfolding build_client_def by (rule logs_lift)

lemma logs_call: "P (Sent req) \<Longrightarrow> logs rw_log P (api_call rl building sending req)"
  unfolding api_call_def by (intro logs_intros logs_outside)

text \<open>1Password: only the command line with the reference itself, or requests below the configured host
  that carry its token, whose identifiers and filters cannot leave their place.\<close>

definition connect_request :: "connect_auth \<Rightarrow> api_request \<Rightarrow> bool" where
  "connect_request auth req \<longleftrightarrow>
     aq_method req = ''GET'' \<and> aq_headers req = bearer_headers (oh_token auth) \<and> aq_form req = []
     \<and> (let vaults = trim_end_matches ''/'' (oh_host auth) @ ''/v1/vaults''; safe = part_ok op_char_bad;
            quoted_ok = (\<lambda>name. list_all (\<lambda>ch. \<not> scim_char_bad ch) (chars name))
        in aq_url req = vaults \<and> (\<exists>name. quoted_ok name \<and> aq_query req = name_filter ''name'' name)
           \<or> (\<exists>v name. safe v \<and> quoted_ok name \<and> aq_url req = vaults @ ''/'' @ v @ ''/items''
                \<and> aq_query req = name_filter ''title'' name)
           \<or> (\<exists>v i. safe v \<and> safe i \<and> aq_url req = vaults @ ''/'' @ v @ ''/items/'' @ i \<and> aq_query req = []))"

definition op_use :: "('n, 'c) resolver_libs \<Rightarrow> string \<Rightarrow> outside \<Rightarrow> bool" where
  "op_use rl reference u \<longleftrightarrow>
     is_ok (parse_op (rl_escape rl) reference)
     \<and> (case u of
          Sent req \<Rightarrow> (\<exists>auth. op_auth_from_env rl = Inr auth \<and> connect_request auth req)
        | Ran program args \<Rightarrow> program = ''op'' \<and> args = op_cli_args reference \<and> \<not> is_ok (op_auth_from_env rl)
        | _ \<Rightarrow> False)"

lemma uuid_char: "(case ch of [c] \<Rightarrow> CHR ''A'' \<le> c \<and> c \<le> CHR ''Z'' \<or> CHR ''2'' \<le> c \<and> c \<le> CHR ''7'' | _ \<Rightarrow> False) \<Longrightarrow>
    \<not> op_char_bad ch"
  by (cases ch; cases "tl ch") (auto simp: op_char_bad_def is_control_def less_eq_char_def)

lemma uuid_safe: "is_op_uuid s \<Longrightarrow> part_ok op_char_bad s"
  using uuid_char by (auto simp: is_op_uuid_def part_ok_def list_all_iff)

lemma single_id_safe: "single_id rl kind missing ambiguous hits = Inr i \<Longrightarrow> part_ok op_char_bad i"
  by (auto simp: single_id_def result_simps split: list.splits)

lemma op_lookup_safe:
  assumes "op_lookup rl kind attribute url token name missing ambiguous what w = (Inr i, w')"
  shows "part_ok op_char_bad i"
proof (cases "is_op_uuid name")
  case True
  with assms show ?thesis by (simp add: op_lookup_def act_return_def uuid_safe)
next
  case False
  with assms obtain hits where "single_id rl kind missing ambiguous hits = Inr i"
    by (auto simp: op_lookup_def act_bind_Inr act_lift_def result_simps)
  then show ?thesis by (rule single_id_safe)
qed

lemma logs_op_lookup:
  "P (Sent (get_request url (name_filter attribute name) (bearer_headers token))) \<Longrightarrow>
    logs rw_log P (op_lookup rl kind attribute url token name missing ambiguous what)"
  unfolding op_lookup_def by (intro logs_intros logs_call)

lemma connect_requests:
  fixes auth :: connect_auth
  defines "vaults \<equiv> trim_end_matches ''/'' (oh_host auth) @ ''/v1/vaults''" and "hs \<equiv> bearer_headers (oh_token auth)"
  shows "list_all (\<lambda>ch. \<not> scim_char_bad ch) (chars name) \<Longrightarrow> connect_request auth (get_request vaults (name_filter ''name'' name) hs)"
    and "list_all (\<lambda>ch. \<not> scim_char_bad ch) (chars name) \<Longrightarrow> part_ok op_char_bad v \<Longrightarrow>
      connect_request auth (get_request (vaults @ ''/'' @ v @ ''/items'') (name_filter ''title'' name) hs)"
    and "part_ok op_char_bad v \<Longrightarrow> part_ok op_char_bad i \<Longrightarrow>
      connect_request auth (get_request (vaults @ ''/'' @ v @ ''/items/'' @ i) [] hs)"
  unfolding connect_request_def get_request_def vaults_def hs_def Let_def by auto

lemma logs_connect:
  assumes "op_auth_from_env rl = Inr auth" and "is_ok (parse_op (rl_escape rl) reference)"
  shows "logs rw_log (op_use rl reference) (resolve_via_connect rl op_ref auth)"
proof -
  have use: "op_use rl reference (Sent req)" if "connect_request auth req" for req
    using assms that by (auto simp: op_use_def)
  let ?base = "trim_end_matches ''/'' (oh_host auth)"
  have vault: "logs rw_log (op_use rl reference) (resolve_vault_id rl ?base (oh_token auth) name)"
    if "list_all (\<lambda>ch. \<not> scim_char_bad ch) (chars name)" for name
    unfolding resolve_vault_id_def by (intro logs_op_lookup use connect_requests that)
  have item: "logs rw_log (op_use rl reference) (resolve_item_id rl ?base (oh_token auth) v name)"
    if "list_all (\<lambda>ch. \<not> scim_char_bad ch) (chars name)" "part_ok op_char_bad v" for name v
    using use [OF connect_requests(2) [of name v auth]] that
    unfolding resolve_item_id_def by (intro logs_op_lookup) simp
  have get: "logs rw_log (op_use rl reference) (api_call rl m m'
      (get_request (?base @ ''/v1/vaults/'' @ v @ ''/items/'' @ i) [] (bearer_headers (oh_token auth))))"
    if "part_ok op_char_bad v" "part_ok op_char_bad i" for v i m m'
    using use [OF connect_requests(3) [of v i auth]] that by (intro logs_call) simp
  show ?thesis
    unfolding resolve_via_connect_def Let_def
    by (intro logs_lift_bind logs_bind_when logs_client vault item get logs_lift)
      (auto simp: result_simps resolve_vault_id_def resolve_item_id_def intro: op_lookup_safe)
qed

lemma logs_cli:
  assumes "parse_op (rl_escape rl) reference = Inr op_ref" and "\<not> is_ok (op_auth_from_env rl)"
  shows "logs rw_log (op_use rl reference) (resolve_via_cli rl (show_op op_ref))"
proof -
  have "op_use rl reference (Ran ''op'' (op_cli_args (show_op op_ref)))"
    using assms by (auto simp: op_use_def parse_op_iff is_ok_iff)
  then show ?thesis
    unfolding resolve_via_cli_def Let_def by (intro logs_intros logs_outside)
qed

lemma logs_op: "logs rw_log (op_use rl reference) (resolve_op rl reference)"
  unfolding resolve_op_def
proof (rule logs_lift_bind)
  fix op_ref assume parsed: "parse_op (rl_escape rl) reference = Inr op_ref"
  show "logs rw_log (op_use rl reference) (case op_auth_from_env rl of
      Inr auth \<Rightarrow> resolve_via_connect rl op_ref auth | Inl _ \<Rightarrow> resolve_via_cli rl (show_op op_ref))"
    using logs_connect [of rl _ reference op_ref] logs_cli [OF parsed] parsed
    by (cases "op_auth_from_env rl") simp_all
qed

text \<open>Vault: one read of the path of the reference, with the settings of the environment.\<close>

definition vault_use :: "('n, 'c) resolver_libs \<Rightarrow> string \<Rightarrow> outside \<Rightarrow> bool" where
  "vault_use rl reference u \<longleftrightarrow>
     (\<exists>r settings. parse_vault (rl_escape rl) reference = Inr r \<and> vault_settings_from_env rl = Inr settings
        \<and> \<not> prefix ''data/'' (vr_path r) \<and> u = VaultRead settings (vr_mount r) (vr_path r))"

lemma logs_vault: "logs rw_log (vault_use rl reference) (resolve_vault rl reference)"
  unfolding resolve_vault_def
  by (intro logs_lift_bind logs_bind logs_lift logs_act_context logs_outside)
    (auto simp: vault_use_def result_simps)

text \<open>AWS: one request for the secret of the reference.\<close>

definition aws_use :: "('n, 'c) resolver_libs \<Rightarrow> string \<Rightarrow> outside \<Rightarrow> bool" where
  "aws_use rl reference u \<longleftrightarrow> (\<exists>r. parse_aws (rl_escape rl) reference = Inr r \<and> u = AwsGet (ar_secret_id r))"

lemma logs_aws_client: "logs rw_log P (aws_client rl)"
  by (rule logs_silent) (simp add: aws_client_def split: option.split prod.split)

lemma logs_aws: "logs rw_log (aws_use rl reference) (resolve_aws rl reference)"
  unfolding resolve_aws_def
  by (intro logs_lift_bind logs_bind logs_lift logs_aws_client logs_outside) (auto simp: aws_use_def)

text \<open>Google: the token goes to the Secret Manager only; the credentials are read from the two known places and
  exchanged at the address they name, or the metadata server is asked.\<close>

inductive gcp_use :: "('n, 'c) resolver_libs \<Rightarrow> string \<Rightarrow> outside \<Rightarrow> bool" for rl reference where
  gcp_credentials: "parse_gcp (rl_escape rl) reference = Inr r \<Longrightarrow>
    env_filled rl ''GOOGLE_APPLICATION_CREDENTIALS'' = Some path \<or> well_known_credentials_path rl = Some path \<Longrightarrow>
    gcp_use rl reference (FileRead path)"
| gcp_account: "parse_gcp (rl_escape rl) reference = Inr r \<Longrightarrow>
    gcp_use rl reference (Sent (post_form (account_token_uri sa) form))"
| gcp_user: "parse_gcp (rl_escape rl) reference = Inr r \<Longrightarrow>
    gcp_use rl reference (Sent (post_form google_token_uri form))"
| gcp_metadata: "parse_gcp (rl_escape rl) reference = Inr r \<Longrightarrow>
    gcp_use rl reference (Sent (get_request metadata_url [] [(''Metadata-Flavor'', ''Google'')]))"
| gcp_secret: "parse_gcp (rl_escape rl) reference = Inr r \<Longrightarrow>
    gcp_use rl reference (Sent (get_request (gcp_secret_url rl r) [] (bearer_headers token)))"

lemma logs_cached [logs_intros]: "logs rw_log P (cached_token_of rl cache)"
  unfolding cached_token_of_def by (intro logs_intros)

lemma logs_instant [logs_intros]: "logs rw_log P (instant_token rl token ttl)"
  unfolding instant_token_def by (intro logs_intros)

lemma logs_exchange: "P (Sent req) \<Longrightarrow> logs rw_log P (gcp_exchange rl name sending req)"
  unfolding gcp_exchange_def by (intro logs_intros logs_call)

lemma logs_credentials:
  assumes "\<And>sa form. P (Sent (post_form (account_token_uri sa) form))" and "\<And>form. P (Sent (post_form google_token_uri form))"
    and "P (FileRead path)"
  shows "logs rw_log P (token_from_credentials_file rl path)"
  unfolding token_from_credentials_file_def token_from_service_account_def token_from_user_credentials_def
  by (intro logs_intros logs_outside logs_exchange assms)

lemma existing_path_Some: "existing_path rl n path = Some p \<Longrightarrow> path = Some p"
  by (auto simp: existing_path_def split: option.splits if_splits)

lemma logs_gcp_obtain:
  fixes rl :: "('n, 'c) resolver_libs"
  assumes parsed: "parse_gcp (rl_escape rl) reference = Inr r"
  shows "logs rw_log (gcp_use rl reference) (gcp_obtain_token rl)"
proof -
  have from_file: "logs rw_log (gcp_use rl reference) (token_from_credentials_file rl path)"
    if "env_filled rl ''GOOGLE_APPLICATION_CREDENTIALS'' = Some path \<or> well_known_credentials_path rl = Some path" for path
    using parsed that by (intro logs_credentials) (auto intro: gcp_use.intros)
  have metadata: "logs rw_log (gcp_use rl reference) (token_from_metadata_server rl)"
    unfolding token_from_metadata_server_def using parsed by (intro logs_intros logs_call) (auto intro: gcp_use.intros)
  have none: "logs rw_log (gcp_use rl reference) (act_catch (token_from_metadata_server rl) (\<lambda>_. act_lift e))" for e
    by (intro logs_catch metadata logs_lift)
  show ?thesis
  proof (rule logs_pointwise)
    fix w :: "('n, 'c) resolver_world"
    let ?env = "existing_path rl (rw_net w) (env_filled rl ''GOOGLE_APPLICATION_CREDENTIALS'')"
    let ?home = "existing_path rl (rw_net w) (well_known_credentials_path rl)"
    show "\<exists>m. gcp_obtain_token rl w = m w \<and> logs rw_log (gcp_use rl reference) m"
    proof (cases ?env)
      case (Some path)
      with from_file show ?thesis unfolding gcp_obtain_token_def by (auto dest: existing_path_Some)
    next
      case no_env: None
      show ?thesis
      proof (cases ?home)
        case (Some path)
        with no_env from_file show ?thesis unfolding gcp_obtain_token_def by (auto dest: existing_path_Some)
      next
        case None
        with no_env none show ?thesis unfolding gcp_obtain_token_def by auto
      qed
    qed
  qed
qed

lemma logs_gcp: "logs rw_log (gcp_use rl reference) (resolve_gcp rl reference)"
proof -
  have token: "logs rw_log (gcp_use rl reference) (gcp_access_token rl)"
    if "parse_gcp (rl_escape rl) reference = Inr r" for r
    unfolding gcp_access_token_def
    by (rule logs_state, intro logs_intros logs_gcp_obtain [OF that] logs_silent) simp
  show ?thesis
    unfolding resolve_gcp_def
    by (intro logs_lift_bind logs_bind logs_lift logs_client logs_call token) (auto intro: gcp_use.intros)
qed

text \<open>Azure: the token goes to the vault of the reference only, the client secret to the authority only.\<close>

abbreviation azure_authority :: "('n, 'c) resolver_libs \<Rightarrow> string" where
  "azure_authority rl \<equiv> env_or rl ''AZURE_AUTHORITY_HOST'' ''login.microsoftonline.com''"

inductive azure_use :: "('n, 'c) resolver_libs \<Rightarrow> string \<Rightarrow> outside \<Rightarrow> bool" for rl reference where
  azure_login: "parse_azure (rl_escape rl) reference = Inr r \<Longrightarrow>
    al_parse_url (rl_api rl) (''https://'' @ azure_authority rl) = Inr base \<Longrightarrow> part_ok host_char_bad (azure_authority rl) \<Longrightarrow>
    part_ok id_char_bad tenant \<Longrightarrow> al_push (rl_api rl) base [tenant, ''oauth2'', ''v2.0'', ''token''] = Some url \<Longrightarrow>
    azure_use rl reference (Sent (post_form (url_as_str url) form))"
| azure_app_service: "parse_azure (rl_escape rl) reference = Inr r \<Longrightarrow>
    env_filled rl ''IDENTITY_ENDPOINT'' = Some endpoint \<Longrightarrow> al_parse_url (rl_api rl) endpoint = Inr url \<Longrightarrow>
    url_scheme url \<in> {''http'', ''https''} \<Longrightarrow> is_header_safe header \<Longrightarrow>
    azure_use rl reference (Sent (get_request (url_as_str (al_append_query (rl_api rl) url query)) [] [(''X-IDENTITY-HEADER'', header)]))"
| azure_imds: "parse_azure (rl_escape rl) reference = Inr r \<Longrightarrow> al_parse_url (rl_api rl) imds_url = Inr url \<Longrightarrow>
    azure_use rl reference (Sent (get_request (url_as_str (al_append_query (rl_api rl) url query)) [] [(''Metadata'', ''true'')]))"
| azure_cli: "parse_azure (rl_escape rl) reference = Inr r \<Longrightarrow> vault_suffix rl = Inr host \<Longrightarrow>
    azure_use rl reference (Ran ''az'' (az_cli_args host))"
| azure_secret: "parse_azure (rl_escape rl) reference = Inr r \<Longrightarrow> azure_secret_url rl r = Inr url \<Longrightarrow>
    azure_use rl reference (Sent (get_request (url_as_str url) [] (bearer_headers token)))"

lemma os_error_Inr [result_simps]: "os_error x = Inr y \<longleftrightarrow> x = Inr y"
  by (simp add: os_error_def result_simps)

lemma logs_azure_obtain:
  assumes parsed: "parse_azure (rl_escape rl) reference = Inr r"
  shows "logs rw_log (azure_use rl reference) (azure_obtain_token rl)"
proof -
  have app: "logs rw_log (azure_use rl reference) (token_via_app_service_identity rl client)" for client
    unfolding token_via_app_service_identity_def split_beta
    using parsed by (intro logs_lift_bind logs_bind logs_client logs_call logs_lift)
      (auto simp: result_simps intro: azure_use.intros)
  have imds: "logs rw_log (azure_use rl reference) (token_via_imds rl client)" for client
    unfolding token_via_imds_def
    using parsed by (intro logs_lift_bind logs_bind logs_client logs_call logs_lift)
      (auto simp: result_simps intro: azure_use.intros)
  have cli: "logs rw_log (azure_use rl reference) (token_via_az_cli rl)"
    unfolding token_via_az_cli_def
    using parsed by (intro logs_lift_bind logs_bind logs_lift logs_outside) (auto intro: azure_use.intros)
  have credentials: "logs rw_log (azure_use rl reference) (token_via_client_credentials rl tenant client secret)" for tenant client secret
    unfolding token_via_client_credentials_def Let_def split_beta
    using parsed by (intro logs_lift_bind logs_bind logs_client logs_call logs_lift)
      (auto simp: result_simps intro: azure_use.intros)
  show ?thesis
    unfolding azure_obtain_token_def Let_def
    by (auto simp: logs_catch app imds cli logs_lift logs_bind credentials split: option.split)
qed

lemma logs_azure: "logs rw_log (azure_use rl reference) (resolve_azure rl reference)"
proof -
  have token: "logs rw_log (azure_use rl reference) (azure_access_token rl)"
    if "parse_azure (rl_escape rl) reference = Inr r" for r
    unfolding azure_access_token_def
    by (rule logs_state, intro logs_intros logs_azure_obtain [OF that] logs_silent) simp
  show ?thesis
    unfolding resolve_azure_def
    by (intro logs_lift_bind logs_bind logs_lift logs_client logs_call token) (auto intro: azure_use.intros)
qed

section \<open>Resolving\<close>


lemma cached_token_of_Some:
  assumes "cached_token_of rl cache w = (Inr (Some t), w')"
  shows "\<exists>c. cache = Some c \<and> kt_token c = t \<and> fst (pl_now (rl_process rl) (rw_net w)) + seconds 30 < kt_expires_at c
    \<and> rw_log w' = rw_log w \<and> rw_azure w' = rw_azure w \<and> rw_gcp w' = rw_gcp w"
  using assms
  by (cases cache) (auto simp: cached_token_of_def quiet_io_def act_bind_Inr act_return_def get_if_valid_def
      split: if_splits prod.splits)

lemma instant_token_Inr:
  "instant_token rl t ttl v = (Inr c, v') \<Longrightarrow>
    kt_token c = t \<and> kt_expires_at c = fst (pl_now (rl_process rl) (rw_net v)) + seconds ttl"
  by (auto simp: instant_token_def quiet_io_def act_bind_Inr act_return_def act_lift_def bail_def split: if_splits prod.splits)

text \<open>
  An Azure token handed out is the one cached afterwards, and it is live: either it was in the cache with
  more than 30 seconds left, and nothing was done outside, or it was obtained now and expires the reported
  lifetime less two minutes after that.
\<close>

theorem azure_token_live:
  assumes "azure_access_token rl w = (Inr t, w')"
  shows "\<exists>c. rw_azure w' = Some c \<and> kt_token c = t
    \<and> (rw_azure w = Some c \<and> fst (pl_now (rl_process rl) (rw_net w)) + seconds 30 < kt_expires_at c \<and> rw_log w' = rw_log w
       \<or> (\<exists>v v' expires_in. azure_obtain_token rl v = (Inr (t, expires_in), v')
            \<and> kt_expires_at c = fst (pl_now (rl_process rl) (rw_net v')) + seconds (azure_ttl expires_in)))"
proof -
  from assms obtain cached v where first: "cached_token_of rl (rw_azure w) w = (Inr cached, v)"
    by (auto simp: azure_access_token_def act_bind_Inr)
  show ?thesis
  proof (cases cached)
    case (Some t')
    with assms first have "t' = t" "w' = v" by (simp_all add: azure_access_token_def act_return_def)
    with cached_token_of_Some [OF first [unfolded Some]] show ?thesis by auto
  next
    case None
    with assms first obtain expires_in c v' v'' where "azure_obtain_token rl v = (Inr (t, expires_in), v')"
      and "instant_token rl t (azure_ttl expires_in) v' = (Inr c, v'')" and "rw_azure w' = Some c"
      by (auto simp: azure_access_token_def act_bind_Inr act_context_def result_simps split: prod.splits)
    with instant_token_Inr [of rl t _ v' c v''] show ?thesis by blast
  qed
qed

text \<open>So a token with a reported lifetime is last handed out 150 seconds before its end.\<close>

lemma azure_margin:
  assumes "fetched \<le> now"
  shows "get_if_valid now \<lparr>kt_token = t, kt_expires_at = fetched + seconds (azure_ttl (Some s))\<rparr> \<noteq> None \<longleftrightarrow>
    120 \<le> s \<and> now + seconds 150 < fetched + seconds s"
  using assms by (auto simp: get_if_valid_def azure_ttl_def seconds_def of_nat_diff not_le)

text \<open>A lifetime beyond the range of instants is the panic.\<close>

lemma instant_token_panics:
  assumes "0 \<le> fst (pl_now (rl_process rl) (rw_net w))" and "2 ^ 63 \<le> ttl"
  shows "fst (instant_token rl t ttl w) = bail ''overflow when adding duration to instant''"
proof -
  have "seconds (2 ^ 63) \<le> seconds ttl" using assms(2) by (simp add: seconds_def)
  then have "last_instant < fst (pl_now (rl_process rl) (rw_net w)) + seconds ttl"
    using assms(1) by (simp add: last_instant_def seconds_def)
  then show ?thesis
    by (auto simp: instant_token_def quiet_io_def act_bind_def act_lift_def bail_def split: prod.splits)
qed

text \<open>A machine with nothing but a logged-in \<open>az\<close>; its clock stands at a second.\<close>

definition az_only :: "(int, unit) resolver_libs" where
  "az_only =
     \<lparr>rl_api = \<lparr>al_client = Inr (), al_build = (\<lambda>_. Inr ()), al_send = (\<lambda>_ n. (bail ''no route'', n)), al_text = id,
        al_parse_url = (\<lambda>s. Inr \<lparr>url_as_str = s, url_scheme = ''http'', url_host_str = None, url_port_or_known_default = None,
          url_path = [], fu_username = [], fu_password = None, fu_query = None, fu_fragment = None\<rparr>),
        al_push = (\<lambda>u _. Some u), al_append_query = (\<lambda>u _. u), al_encode = id\<rparr>,
      rl_process = sleeping_child\<lparr>pl_run := (\<lambda>_ _ n. (Inr \<lparr>po_success = True, po_code = Some 0, po_stdout = ''out'', po_stderr = []\<rparr>, n))\<rparr>,
      rl_read = \<lparr>re_json = (\<lambda>_. Inr (jobj [(''accessToken'', JString ''tok'')])), re_json_list = (\<lambda>_. Inl []), re_show_json = (\<lambda>_. []),
        re_access_token = (\<lambda>_. Inl []), re_token = (\<lambda>_. Inl []), re_imds_token = (\<lambda>_. Inl []), re_payload = (\<lambda>_. Inl []),
        re_value = (\<lambda>_. Inl []), re_kind = (\<lambda>_. Inl []), re_account = (\<lambda>_. Inl []), re_user = (\<lambda>_. Inl []), re_base64 = (\<lambda>_. Inl [])\<rparr>,
      rl_escape = id, rl_lower = id, rl_env = (\<lambda>_. None), rl_home = None, rl_exists = (\<lambda>_ _. False), rl_file = (\<lambda>_ _. Inl []),
      rl_unix_time = (\<lambda>n. (0, n)), rl_pem_key = (\<lambda>_. Inl []), rl_sign = (\<lambda>_ _ n. (Inl [], n)), rl_aws_load = (\<lambda>n. ((), n)),
      rl_aws_get = (\<lambda>_ _ n. (Inr None, n)), rl_vault_settings = (\<lambda>_. Inr ()), rl_vault_client = (\<lambda>_. Inr ()),
      rl_vault_read = (\<lambda>_ _ _ n. (bail ''sealed'', n))\<rparr>"

definition az_world :: "(int, unit) resolver_world" where
  "az_world = \<lparr>rw_net = seconds 1, rw_log = [], rw_aws = None, rw_gcp = None, rw_azure = None\<rparr>"

lemma az_only_run:
  "azure_access_token az_only az_world =
     (Inr ''tok'', az_world\<lparr>rw_log := [Sent (get_request imds_url [] [(''Metadata'', ''true'')]),
        Ran ''az'' (az_cli_args ''vault.azure.net'')], rw_azure := Some \<lparr>kt_token = ''tok'', kt_expires_at = seconds 3001\<rparr>\<rparr>)"
  by code_simp

theorem azure_token_live_witness:
  "\<exists>c. rw_azure (snd (azure_access_token az_only az_world)) = Some c \<and> kt_token c = ''tok''"
  using azure_token_live [OF az_only_run] az_only_run by auto

end
