(* ===== verification/Timed.thy ===== *)
theory Timed
  imports Std
begin

text \<open>
  Asynchronous work under a deadline, as \<open>tokio::time::timeout\<close> runs it: time passes only while a call is
  awaited, a call whose answer would come after the deadline is dropped there, and the work ends at the deadline.
  The world carries a clock in nanoseconds and a log of the calls made. The predicate \<open>within\<close> says of a piece
  of work that it ends by its deadline and that each call it makes is allowed; its rules follow the combinators.
\<close>

named_theorems within_intros \<open>what timed work does, by its combinators\<close>

section \<open>Outcomes\<close>

text \<open>The result, the deadline, or a panic, which no handler catches.\<close>

datatype 'a outcome = Done "'a result" | Elapsed | Panicked

type_synonym ('s, 'a) timed = "'s \<Rightarrow> 'a outcome \<times> 's"

definition t_return :: "'a \<Rightarrow> ('s, 'a) timed" where
  "t_return x s = (Done (Inr x), s)"

definition t_lift :: "'a result \<Rightarrow> ('s, 'a) timed" where
  "t_lift r s = (Done r, s)"

definition t_panic :: "('s, 'a) timed" where
  "t_panic s = (Panicked, s)"

definition t_get :: "('s, 's) timed" where
  "t_get s = (Done (Inr s), s)"

definition t_bind :: "('s, 'a) timed \<Rightarrow> ('a \<Rightarrow> ('s, 'b) timed) \<Rightarrow> ('s, 'b) timed" where
  "t_bind m f s =
     (case m s of
        (Done (Inr x), s') \<Rightarrow> f x s'
      | (Done (Inl e), s') \<Rightarrow> (Done (Inl e), s')
      | (Elapsed, s') \<Rightarrow> (Elapsed, s')
      | (Panicked, s') \<Rightarrow> (Panicked, s'))"

lemma t_simps [simp]:
  "t_return x s = (Done (Inr x), s)" "t_lift r s = (Done r, s)" "t_panic s = (Panicked, s)"
  by (simp_all add: t_return_def t_lift_def t_panic_def)

lemma t_bind_run [simp]:
  "m s = (Done (Inr x), s') \<Longrightarrow> t_bind m f s = f x s'"
  "m s = (Done (Inl e), s') \<Longrightarrow> t_bind m f s = (Done (Inl e), s')"
  "m s = (Elapsed, s') \<Longrightarrow> t_bind m f s = (Elapsed, s')"
  "m s = (Panicked, s') \<Longrightarrow> t_bind m f s = (Panicked, s')"
  by (simp_all add: t_bind_def)

lemma t_bind_cong [fundef_cong]:
  "s = s' \<Longrightarrow> m s' = m' s' \<Longrightarrow> (\<And>x t. m' s' = (Done (Inr x), t) \<Longrightarrow> f x t = f' x t) \<Longrightarrow> t_bind m f s = t_bind m' f' s'"
  by (auto simp: t_bind_def split: prod.splits outcome.splits sum.splits)

lemma t_bind_assoc: "t_bind (t_bind m f) g = t_bind m (\<lambda>x. t_bind (f x) g)"
  by (rule ext) (simp add: t_bind_def split: prod.splits outcome.splits sum.splits)

lemma t_get_bind [simp]: "t_bind t_get f s = f s s"
  by (simp add: t_bind_def t_get_def)

text \<open>Weakest preconditions: what holds of the outcome and the state after it.\<close>

definition t_wp :: "('s, 'a) timed \<Rightarrow> 's \<Rightarrow> ('a outcome \<Rightarrow> 's \<Rightarrow> bool) \<Rightarrow> bool" where
  "t_wp m s Q \<longleftrightarrow> (case m s of (r, s') \<Rightarrow> Q r s')"

lemma t_wp_bind:
  "t_wp (t_bind m f) s Q \<longleftrightarrow>
     t_wp m s (\<lambda>r s'. case r of
       Done (Inr x) \<Rightarrow> t_wp (f x) s' Q
     | Done (Inl e) \<Rightarrow> Q (Done (Inl e)) s'
     | Elapsed \<Rightarrow> Q Elapsed s'
     | Panicked \<Rightarrow> Q Panicked s')"
  by (auto simp: t_wp_def t_bind_def split: prod.splits outcome.splits sum.splits)

lemma t_wp_simps [simp]:
  "t_wp (t_return x) s Q \<longleftrightarrow> Q (Done (Inr x)) s"
  "t_wp (t_lift r) s Q \<longleftrightarrow> Q (Done r) s"
  "t_wp t_panic s Q \<longleftrightarrow> Q Panicked s"
  by (simp_all add: t_wp_def)

lemma t_wp_mono: "t_wp m s P \<Longrightarrow> (\<And>r s'. P r s' \<Longrightarrow> Q r s') \<Longrightarrow> t_wp m s Q"
  by (auto simp: t_wp_def split: prod.splits)

lemma t_wp_bindI:
  assumes "t_wp m s R"
    and "\<And>x s'. R (Done (Inr x)) s' \<Longrightarrow> t_wp (f x) s' Q" and "\<And>e s'. R (Done (Inl e)) s' \<Longrightarrow> Q (Done (Inl e)) s'"
    and "\<And>s'. R Elapsed s' \<Longrightarrow> Q Elapsed s'" and "\<And>s'. R Panicked s' \<Longrightarrow> Q Panicked s'"
  shows "t_wp (t_bind m f) s Q"
  using assms(1) unfolding t_wp_bind
  by (rule t_wp_mono) (use assms(2-5) in \<open>auto split: outcome.splits sum.splits\<close>)

lemma t_wp_lift_bind:
  "(\<And>x. r = Inr x \<Longrightarrow> t_wp (f x) s Q) \<Longrightarrow> (\<And>e. r = Inl e \<Longrightarrow> Q (Done (Inl e)) s) \<Longrightarrow> t_wp (t_bind (t_lift r) f) s Q"
  by (cases r) (simp_all add: t_wp_bind)

lemma t_wp_return_bind: "t_wp (f x) s Q \<Longrightarrow> t_wp (t_bind (t_return x) f) s Q"
  by (simp add: t_wp_bind)

lemma t_wp_get_bind: "t_wp (f s) s Q \<Longrightarrow> t_wp (t_bind t_get f) s Q"
  by (simp add: t_wp_def)

lemma t_wp_run: "t_wp m s Q \<Longrightarrow> m s = (r, s') \<Longrightarrow> Q r s'"
  by (simp add: t_wp_def)

text \<open>\<open>for x in xs { body(x).await?; }\<close>\<close>

fun t_for_each :: "('x \<Rightarrow> ('s, unit) timed) \<Rightarrow> 'x list \<Rightarrow> ('s, unit) timed" where
  "t_for_each f [] = t_return ()"
| "t_for_each f (x # xs) = t_bind (f x) (\<lambda>_. t_for_each f xs)"

section \<open>The world and awaiting\<close>

text \<open>What runs, the time in nanoseconds, and the calls made, oldest first.\<close>

record ('w, 'c) timed_world =
  tw_inner :: 'w
  tw_now :: nat
  tw_log :: "'c list"

text \<open>An answer and how long it takes, or none ever.\<close>

type_synonym ('w, 'a) reply = "'w \<Rightarrow> ((string + 'a) \<times> nat) option \<times> 'w"

definition await :: "nat \<Rightarrow> 'c \<Rightarrow> ('w, 'a) reply \<Rightarrow> (('w, 'c) timed_world, string + 'a) timed" where
  "await deadline call f w =
     (case f (tw_inner w) of
        (answer, inner) \<Rightarrow>
          (let w' = w \<lparr> tw_inner := inner, tw_log := tw_log w @ [call] \<rparr>;
               cut = (Elapsed, w' \<lparr> tw_now := max (tw_now w) deadline \<rparr>)
           in case answer of
                None \<Rightarrow> cut
              | Some (r, d) \<Rightarrow>
                  if d > 0 \<and> tw_now w + d > deadline then cut
                  else (Done (Inr r), w' \<lparr> tw_now := tw_now w + d \<rparr>)))"

text \<open>\<open>f().await.map_err(|e| anyhow!("msg{e}"))?\<close>\<close>

definition call_or :: "string \<Rightarrow> nat \<Rightarrow> 'c \<Rightarrow> ('w, 'a) reply \<Rightarrow> (('w, 'c) timed_world, 'a) timed" where
  "call_or msg deadline call f = t_bind (await deadline call f) (\<lambda>r. t_lift (map_err (\<lambda>e. [msg @ e]) r))"

text \<open>
  \<open>tokio::time::sleep\<close>: at least the duration, and by how much longer is up to the timer.
\<close>

definition sleep_for :: "nat \<Rightarrow> 'c \<Rightarrow> ('w \<Rightarrow> nat \<times> 'w) \<Rightarrow> nat \<Rightarrow> (('w, 'c) timed_world, unit) timed" where
  "sleep_for deadline call late d =
     t_bind (await deadline call (\<lambda>w. case late w of (extra, w') \<Rightarrow> (Some (Inr (), d + extra), w'))) (\<lambda>_. t_return ())"

text \<open>
  A nested \<open>timeout\<close>: it is asked after the outer one has let the work go on, so it gives its own error when
  its deadline comes first or with the outer one.
\<close>

definition t_timeout :: "nat \<Rightarrow> nat \<Rightarrow> anyhow \<Rightarrow> (nat \<Rightarrow> (('w, 'c) timed_world, 'a) timed) \<Rightarrow> (('w, 'c) timed_world, 'a) timed" where
  "t_timeout deadline d err m w =
     (if tw_now w + d \<le> deadline
      then case m (tw_now w + d) w of (Elapsed, w') \<Rightarrow> (Done (Inl err), w') | run \<Rightarrow> run
      else m deadline w)"

section \<open>What timed work does\<close>

definition within :: "nat \<Rightarrow> ('c \<Rightarrow> bool) \<Rightarrow> (('w, 'c) timed_world, 'a) timed \<Rightarrow> bool" where
  "within deadline P m \<longleftrightarrow>
     (\<forall>w r w'. m w = (r, w') \<longrightarrow> tw_now w \<le> deadline \<longrightarrow>
        tw_now w \<le> tw_now w' \<and> tw_now w' \<le> deadline \<and>
        (\<exists>calls. tw_log w' = tw_log w @ calls \<and> list_all P calls))"

lemma withinI:
  "(\<And>w r w'. m w = (r, w') \<Longrightarrow> tw_now w \<le> deadline \<Longrightarrow>
      tw_now w \<le> tw_now w' \<and> tw_now w' \<le> deadline \<and> (\<exists>calls. tw_log w' = tw_log w @ calls \<and> list_all P calls))
   \<Longrightarrow> within deadline P m"
  unfolding within_def by blast

lemma withinD:
  assumes "within deadline P m" and "m w = (r, w')" and "tw_now w \<le> deadline"
  obtains calls where "tw_now w \<le> tw_now w'" "tw_now w' \<le> deadline"
    "tw_log w' = tw_log w @ calls" "list_all P calls"
  using assms unfolding within_def by blast

lemma within_bind_when:
  assumes "within deadline P m" and "\<And>x w w'. m w = (Done (Inr x), w') \<Longrightarrow> within deadline P (k x)"
  shows "within deadline P (t_bind m k)"
proof (rule withinI)
  fix w r w' assume run: "t_bind m k w = (r, w')" and now: "tw_now w \<le> deadline"
  obtain x v where first: "m w = (x, v)" by (cases "m w")
  from withinD [OF assms(1) first now] obtain calls
    where v: "tw_now w \<le> tw_now v" "tw_now v \<le> deadline" "tw_log v = tw_log w @ calls" "list_all P calls" .
  show "tw_now w \<le> tw_now w' \<and> tw_now w' \<le> deadline \<and>
      (\<exists>calls. tw_log w' = tw_log w @ calls \<and> list_all P calls)"
  proof (cases "\<exists>y. x = Done (Inr y)")
    case True
    then obtain y where "m w = (Done (Inr y), v)" using first by blast
    with run assms(2) have "k y v = (r, w')" "within deadline P (k y)" by simp_all
    from withinD [OF this(2,1) v(2)] obtain more
      where "tw_now v \<le> tw_now w'" "tw_now w' \<le> deadline" "tw_log w' = tw_log v @ more" "list_all P more" .
    with v show ?thesis by (intro conjI exI [of _ "calls @ more"]) (simp_all add: list_all_append)
  next
    case False
    with run first have "w' = v" by (auto simp: t_bind_def split: outcome.splits sum.splits)
    with v show ?thesis by blast
  qed
qed

lemma within_bind [within_intros]:
  "within deadline P m \<Longrightarrow> (\<And>x. within deadline P (k x)) \<Longrightarrow> within deadline P (t_bind m k)"
  by (rule within_bind_when)

lemma within_still: "(\<And>w. snd (m w) = w) \<Longrightarrow> within deadline P m"
  by (rule withinI) (metis append_Nil2 list.pred_inject(1) order_refl snd_conv)

lemma within_return [within_intros]: "within deadline P (t_return x)"
  by (rule within_still) simp

lemma within_lift [within_intros]: "within deadline P (t_lift r)"
  by (rule within_still) simp

lemma within_panic [within_intros]: "within deadline P t_panic"
  by (rule within_still) simp

lemma within_lift_bind:
  "(\<And>x. r = Inr x \<Longrightarrow> within deadline P (k x)) \<Longrightarrow> within deadline P (t_bind (t_lift r) k)"
  by (rule within_bind_when [OF within_lift]) simp

lemma within_await [within_intros]: "P call \<Longrightarrow> within deadline P (await deadline call f)"
  by (rule withinI) (auto simp: await_def Let_def split: prod.splits option.splits if_splits)

lemma within_call_or [within_intros]: "P call \<Longrightarrow> within deadline P (call_or msg deadline call f)"
  unfolding call_or_def by (intro within_intros)

lemma within_sleep [within_intros]: "P call \<Longrightarrow> within deadline P (sleep_for deadline call late d)"
  unfolding sleep_for_def by (intro within_intros)

lemma within_if [within_intros]:
  "(b \<Longrightarrow> within deadline P m) \<Longrightarrow> (\<not> b \<Longrightarrow> within deadline P n) \<Longrightarrow> within deadline P (if b then m else n)"
  by simp

lemma within_option [within_intros]:
  "(x = None \<Longrightarrow> within deadline P m) \<Longrightarrow> (\<And>y. x = Some y \<Longrightarrow> within deadline P (f y))
   \<Longrightarrow> within deadline P (case x of None \<Rightarrow> m | Some y \<Rightarrow> f y)"
  by (cases x) simp_all

lemma within_let [within_intros]: "within deadline P (f x) \<Longrightarrow> within deadline P (let y = x in f y)"
  by simp

lemma within_case_prod [within_intros]:
  "(\<And>x y. within deadline P (f x y)) \<Longrightarrow> within deadline P (case z of (x, y) \<Rightarrow> f x y)"
  by (cases z) simp

lemma within_for_each [within_intros]:
  "(\<And>x. x \<in> set xs \<Longrightarrow> within deadline P (f x)) \<Longrightarrow> within deadline P (t_for_each f xs)"
  by (induction xs) (auto intro!: within_intros)

lemma within_timeout [within_intros]:
  assumes "\<And>dl. within dl P (m dl)"
  shows "within deadline P (t_timeout deadline d err m)"
proof (rule withinI)
  fix w r w' assume run: "t_timeout deadline d err m w = (r, w')" and now: "tw_now w \<le> deadline"
  define dl where "dl = (if tw_now w + d \<le> deadline then tw_now w + d else deadline)"
  from run obtain r' v where run': "m dl w = (r', v)" and v: "w' = v"
    by (cases "m dl w") (auto simp: t_timeout_def dl_def split: if_splits outcome.splits)
  note run'
  moreover from now have dl: "tw_now w \<le> dl" "dl \<le> deadline" by (simp_all add: dl_def)
  ultimately obtain calls where "tw_now w \<le> tw_now v" "tw_now v \<le> dl" "tw_log v = tw_log w @ calls" "list_all P calls"
    using withinD [OF assms(1)] by meson
  with dl v show "tw_now w \<le> tw_now w' \<and> tw_now w' \<le> deadline \<and>
      (\<exists>calls. tw_log w' = tw_log w @ calls \<and> list_all P calls)"
    by auto
qed

lemma within_mono: "within deadline P m \<Longrightarrow> (\<And>c. P c \<Longrightarrow> Q c) \<Longrightarrow> within deadline Q m"
  unfolding within_def by (metis list.pred_mono_strong)

text \<open>Awaiting never panics, and an answer only comes while there is time.\<close>

lemma await_clock: "await deadline call f w = (r, w') \<Longrightarrow> tw_now w \<le> tw_now w'"
  by (auto simp: await_def Let_def split: prod.splits option.splits if_splits)

lemma await_answer:
  assumes "await deadline call f w = (Done (Inr r), w')"
  obtains d inner where "f (tw_inner w) = (Some (r, d), inner)" "tw_now w' = tw_now w + d" "tw_inner w' = inner"
  using assms by (auto simp: await_def Let_def split: prod.splits option.splits if_splits)

lemma t_bind_Done:
  "t_bind m f w = (Done (Inr y), w') \<longleftrightarrow> (\<exists>x v. m w = (Done (Inr x), v) \<and> f x v = (Done (Inr y), w'))"
  by (auto simp: t_bind_def split: prod.splits outcome.splits sum.splits)

lemma sleep_for_advances:
  assumes "sleep_for deadline call late d w = (Done (Inr u), w')"
  shows "tw_now w + d \<le> tw_now w'"
proof -
  from assms obtain r where "await deadline call (\<lambda>w. case late w of (extra, w') \<Rightarrow> (Some (Inr (), d + extra), w')) w
      = (Done (Inr (r :: string + unit)), w')"
    by (auto simp: sleep_for_def t_bind_Done)
  then show ?thesis by (rule await_answer) (auto split: prod.splits)
qed

lemma call_or_clock:
  assumes "call_or msg deadline call f w = (Done (Inr x), w')"
  shows "tw_now w \<le> tw_now w'"
  using assms by (auto simp: call_or_def t_bind_Done dest: await_clock)

section \<open>Durations from seconds\<close>

text \<open>The nearest whole number to a fraction, ties to even.\<close>

definition round_half_even :: "nat \<Rightarrow> nat \<Rightarrow> nat" where
  "round_half_even a b =
     (let q = a div b; r = a mod b in if 2 * r > b \<or> 2 * r = b \<and> odd q then q + 1 else q)"

text \<open>
  \<open>Duration::from_secs_f64\<close> in nanoseconds: the value of the double is \<open>(2 ^ 52 + m) * 2 ^ (e - 1075)\<close>; a
  negative value, one of at least \<open>2 ^ 64\<close> seconds and a NaN panic.
\<close>

definition duration_from_secs_f64 :: "f64 \<Rightarrow> nat option" where
  "duration_from_secs_f64 f =
     (let bits = unat f; e = bits div 2 ^ 52 mod 2048; mant = bits mod 2 ^ 52
      in if bits \<ge> 2 ^ 63 \<and> \<not> (e = 0 \<and> mant = 0) then None
         else if e \<ge> 1087 then None
         else if e < 992 then Some 0
         else Some (round_half_even ((2 ^ 52 + mant) * 10 ^ 9 * 2 ^ (e - 992)) (2 ^ 83)))"

lemma duration_examples:
  "duration_from_secs_f64 0x3FE0000000000000 = Some 500000000"
  "duration_from_secs_f64 0xBFF0000000000000 = None"
  "duration_from_secs_f64 0x8000000000000000 = Some 0"
  by (simp_all add: duration_from_secs_f64_def round_half_even_def Let_def)

end
