(* ===== verification/AccessTree.thy ===== *)
theory AccessTree
  imports Json
begin

text \<open>
  The accessibility snapshot (\<open>crates/earl-protocol-browser/src/accessibility.rs\<close> and \<open>step_snapshot\<close> of
  \<open>steps.rs\<close>): the tree is rebuilt from the flat list of the browser's nodes down to a fixed depth and printed as
  an indented list of at most 5000 nodes, with the references it names. The lemmas give the printed text as the
  lines of the tree's preorder, cut at the limit.
\<close>

section \<open>The tree\<close>

datatype ax_tree = AX_Node u64 string string "ax_tree list"

text \<open>A node as the browser sends it; the role and the name are values that may be left out.\<close>

record cdp_ax_node =
  an_node_id :: string
  an_ignored :: bool
  an_role :: "json option option"
  an_name :: "json option option"
  an_parent_id :: "string option"
  an_child_ids :: "string list option"
  an_backend_dom_node_id :: "int option"

type_synonym node_map = "string \<Rightarrow> cdp_ax_node option"

definition index_nodes :: "cdp_ax_node list \<Rightarrow> node_map" where
  "index_nodes nodes = map_of (rev (map (\<lambda>n. (an_node_id n, n)) nodes))"

definition ax_text :: "json option option \<Rightarrow> string option" where
  "ax_text v = Option.bind (Option.bind v id) as_str"

definition max_tree_depth :: nat where "max_tree_depth = 80"

text \<open>
  \<open>build_tree\<close> at a depth, by the levels still allowed: \<open>max_tree_depth + 1 - depth\<close>.
\<close>

primrec build_tree :: "node_map \<Rightarrow> nat \<Rightarrow> string \<Rightarrow> ax_tree option" where
  "build_tree nodes 0 node_id = None"
| "build_tree nodes (Suc levels) node_id =
     (case nodes node_id of
        None \<Rightarrow> None
      | Some cdp \<Rightarrow>
          if an_ignored cdp then None
          else
            Some (AX_Node
              (case an_backend_dom_node_id cdp of Some i \<Rightarrow> word_of_int i | None \<Rightarrow> 0)
              (case ax_text (an_role cdp) of Some s \<Rightarrow> s | None \<Rightarrow> ''unknown'')
              (case ax_text (an_name cdp) of Some s \<Rightarrow> s | None \<Rightarrow> [])
              (List.map_filter (build_tree nodes levels)
                 (case an_child_ids cdp of Some ids \<Rightarrow> ids | None \<Rightarrow> []))))"

definition is_root :: "node_map \<Rightarrow> cdp_ax_node \<Rightarrow> bool" where
  "is_root nodes n \<longleftrightarrow>
     \<not> an_ignored n \<and> (case an_parent_id n of None \<Rightarrow> True | Some parent \<Rightarrow> nodes parent = None)"

definition snapshot_roots :: "cdp_ax_node list \<Rightarrow> ax_tree list" where
  "snapshot_roots nodes =
     (let index = index_nodes nodes
      in List.map_filter (\<lambda>n. build_tree index (max_tree_depth + 1) (an_node_id n)) (filter (is_root index) nodes))"

section \<open>Printing\<close>

definition ref_of :: "u64 \<Rightarrow> string" where
  "ref_of node_id = ''e'' @ show_nat (unat node_id)"

definition indent_of :: "nat \<Rightarrow> string" where
  "indent_of depth = concat (replicate depth ''  '')"

definition node_line :: "nat \<Rightarrow> u64 \<Rightarrow> string \<Rightarrow> string \<Rightarrow> string" where
  "node_line depth node_id role name =
     indent_of depth @ ''- '' @ role @ '' '' @ [CHR 0x22] @ name @ [CHR 0x22] @ '' [ref='' @ ref_of node_id @ '']'' @ [CHR 0x0A]"

text \<open>The loop's variables: how many nodes, the text, and the references.\<close>

type_synonym ax_print = "nat \<times> string \<times> (string, u64) btree"

definition emit_node :: "nat \<Rightarrow> u64 \<Rightarrow> string \<Rightarrow> string \<Rightarrow> ax_print \<Rightarrow> ax_print" where
  "emit_node depth node_id role name st =
     (case st of (count, buf, refs) \<Rightarrow>
        (count + 1, buf @ node_line depth node_id role name, bt_insert (ref_of node_id) node_id refs))"

fun render_nodes :: "ax_tree list \<Rightarrow> nat \<Rightarrow> nat \<Rightarrow> ax_print \<Rightarrow> ax_print" where
  "render_nodes [] depth limit st = st"
| "render_nodes (AX_Node node_id role name children # nodes) depth limit st =
     (if fst st \<ge> limit then st
      else
        (let st' = emit_node depth node_id role name st;
             st'' = (if children = [] then st' else render_nodes children (depth + 1) limit st')
         in render_nodes nodes depth limit st''))"

definition render_ax_tree :: "ax_tree list \<Rightarrow> nat \<Rightarrow> string \<times> (string, u64) btree" where
  "render_ax_tree nodes max_nodes =
     (case render_nodes nodes 0 max_nodes (0, [], []) of
        (count, buf, refs) \<Rightarrow>
          (buf @ (if count \<ge> max_nodes
                  then [CHR 0x0A] @ ''[accessibility tree truncated at '' @ show_nat max_nodes @ '' nodes ''
                         @ [CHR 0xE2, CHR 0x80, CHR 0x94] @ '' increase max_snapshot_nodes if needed]''
                  else []), refs))"

definition max_snapshot_nodes :: nat where "max_snapshot_nodes = 5000"

definition snapshot_text :: "cdp_ax_node list \<Rightarrow> string \<times> (string, u64) btree" where
  "snapshot_text nodes = render_ax_tree (snapshot_roots nodes) max_snapshot_nodes"

section \<open>The printed list is a prefix of the preorder\<close>

text \<open>The nodes in the order of the document, each with its depth.\<close>

fun preorder :: "nat \<Rightarrow> ax_tree list \<Rightarrow> (nat \<times> u64 \<times> string \<times> string) list" where
  "preorder depth [] = []"
| "preorder depth (AX_Node node_id role name children # nodes) =
     (depth, node_id, role, name) # preorder (depth + 1) children @ preorder depth nodes"

definition emit_all :: "(nat \<times> u64 \<times> string \<times> string) list \<Rightarrow> ax_print \<Rightarrow> ax_print" where
  "emit_all xs st = fold (\<lambda>(depth, node_id, role, name). emit_node depth node_id role name) xs st"

lemma emit_all_simps:
  "emit_all [] st = st"
  "emit_all ((d, i, r, n) # xs) st = emit_all xs (emit_node d i r n st)"
  "emit_all (xs @ ys) st = emit_all ys (emit_all xs st)"
  by (simp_all add: emit_all_def)

lemma emit_all_fields:
  "emit_all xs (count, buf, refs) =
     (count + length xs, buf @ concat (map (\<lambda>(d, i, r, n). node_line d i r n) xs),
      fold (\<lambda>(d, i, r, n). bt_insert (ref_of i) i) xs refs)"
  by (induction xs arbitrary: count buf refs) (auto simp: emit_all_simps emit_node_def)

lemma fst_emit_node [simp]: "fst (emit_node d i r n st) = fst st + 1"
  by (cases st) (simp add: emit_node_def)

lemma fst_emit_all [simp]: "fst (emit_all xs st) = fst st + length xs"
  by (cases st) (simp add: emit_all_fields)

lemma render_nodes_preorder:
  "fst st \<le> limit \<Longrightarrow>
     render_nodes nodes depth limit st = emit_all (take (limit - fst st) (preorder depth nodes)) st"
proof (induction nodes depth limit st rule: render_nodes.induct)
  case (2 node_id role name children nodes depth limit st)
  show ?case
  proof (cases "fst st = limit")
    case False
    with "2.prems" have room: "fst st < limit" by simp
    define st' where "st' = emit_node depth node_id role name st"
    define st'' where "st'' = (if children = [] then st' else render_nodes children (depth + 1) limit st')"
    have st': "fst st' = fst st + 1" by (simp add: st'_def)
    have st'': "st'' = emit_all (take (limit - fst st') (preorder (depth + 1) children)) st'"
      using "2.IH"(1) [OF _ st'_def] room st' by (cases "children = []") (auto simp: st''_def emit_all_simps)
    then have count: "fst st'' = fst st' + min (limit - fst st') (length (preorder (depth + 1) children))"
      by (simp add: min.commute)
    have "render_nodes nodes depth limit st'' = emit_all (take (limit - fst st'') (preorder depth nodes)) st''"
      using "2.IH"(2) [OF _ st'_def] room st' count by (auto simp: st''_def)
    moreover have "limit - fst st = Suc (limit - fst st')" using room st' by simp
    moreover have "limit - fst st'' = limit - fst st' - length (preorder (depth + 1) children)" using count by auto
    moreover have "render_nodes (AX_Node node_id role name children # nodes) depth limit st
        = render_nodes nodes depth limit st''"
      using room by (simp add: st'_def st''_def Let_def)
    ultimately show ?thesis by (simp only: preorder.simps take_Suc_Cons take_append emit_all_simps st'' st'_def)
  qed (simp add: emit_all_simps)
qed (simp add: emit_all_simps)

lemma render_ax_tree_preorder:
  "render_ax_tree nodes max_nodes =
     (let shown = take max_nodes (preorder 0 nodes)
      in (concat (map (\<lambda>(d, i, r, n). node_line d i r n) shown)
            @ (if length (preorder 0 nodes) \<ge> max_nodes
               then [CHR 0x0A] @ ''[accessibility tree truncated at '' @ show_nat max_nodes @ '' nodes ''
                      @ [CHR 0xE2, CHR 0x80, CHR 0x94] @ '' increase max_snapshot_nodes if needed]''
               else []),
          bt_from_iter (map (\<lambda>(d, i, r, n). (ref_of i, i)) shown)))"
proof -
  have "fold (\<lambda>(d, i, r, n). bt_insert (ref_of i) i) xs refs
      = fold (\<lambda>(k, v). bt_insert k v) (map (\<lambda>(d, i, r, n). (ref_of i, i)) xs) refs" for xs and refs :: "(string, u64) btree"
    by (simp add: fold_map comp_def case_prod_unfold)
  then show ?thesis
    by (simp add: render_ax_tree_def render_nodes_preorder emit_all_fields bt_from_iter_def Let_def)
qed

section \<open>How deep and how many\<close>

fun tree_height :: "ax_tree \<Rightarrow> nat" where
  "tree_height (AX_Node i r n children) = Suc (fold max (map tree_height children) 0)"

lemma fold_max_le: "(\<And>x. x \<in> set xs \<Longrightarrow> x \<le> (b::nat)) \<Longrightarrow> a \<le> b \<Longrightarrow> fold max xs a \<le> b"
  by (induction xs arbitrary: a) auto

lemma fold_max_ge: "a \<le> fold max xs (a::nat) \<and> (\<forall>x \<in> set xs. x \<le> fold max xs a)"
proof (induction xs arbitrary: a)
  case (Cons y xs)
  from Cons [of "max y a"] show ?case by simp
qed simp

lemma build_tree_height: "build_tree nodes levels i = Some t \<Longrightarrow> tree_height t \<le> levels"
proof (induction levels arbitrary: i t)
  case (Suc levels)
  then show ?case
    by (auto simp: map_filter_def split: option.splits if_splits intro!: fold_max_le)
qed simp

lemma preorder_depth:
  "(d, x) \<in> set (preorder depth nodes) \<Longrightarrow> \<forall>t \<in> set nodes. tree_height t \<le> h \<Longrightarrow> d < depth + h"
proof (induction depth nodes arbitrary: h rule: preorder.induct)
  case (2 depth node_id role name children nodes)
  then have hd: "Suc (fold max (map tree_height children) 0) \<le> h" by simp
  then have "\<forall>t \<in> set children. tree_height t \<le> h - 1"
    using fold_max_ge [of 0 "map tree_height children"] by fastforce
  then show ?case using "2.prems" "2.IH"(1) [of "h - 1"] "2.IH"(2) [of h] hd by auto
qed simp

lemma snapshot_height: "t \<in> set (snapshot_roots nodes) \<Longrightarrow> tree_height t \<le> max_tree_depth + 1"
  using build_tree_height by (fastforce simp: snapshot_roots_def Let_def map_filter_def simp del: build_tree.simps)

lemma snapshot_depth: "(d, x) \<in> set (preorder 0 (snapshot_roots nodes)) \<Longrightarrow> d \<le> max_tree_depth"
  using preorder_depth [of d x 0 "snapshot_roots nodes" "max_tree_depth + 1"] snapshot_height by fastforce

text \<open>
  C33. A snapshot prints the accessible nodes in document order, one line each with its depth as indentation, its role,
  its name and its reference. It shows the first 5000 nodes and none below depth 80, says that it was cut exactly when
  there are at least 5000, and the references it returns are those of the lines it shows.
\<close>

theorem snapshot_shows_preorder:
  "snapshot_text nodes =
     (let shown = take 5000 (preorder 0 (snapshot_roots nodes))
      in (concat (map (\<lambda>(d, i, r, n). node_line d i r n) shown)
            @ (if length (preorder 0 (snapshot_roots nodes)) \<ge> 5000
               then [CHR 0x0A] @ ''[accessibility tree truncated at 5000 nodes ''
                      @ [CHR 0xE2, CHR 0x80, CHR 0x94] @ '' increase max_snapshot_nodes if needed]''
               else []),
          bt_from_iter (map (\<lambda>(d, i, r, n). (ref_of i, i)) shown)))
   \<and> list_all (\<lambda>(d, x). d \<le> 80) (preorder 0 (snapshot_roots nodes))"
proof -
  have five: "show_nat 5000 = ''5000''" by (simp add: show_nat.simps)
  show ?thesis
    using snapshot_depth
    by (auto simp: snapshot_text_def render_ax_tree_preorder max_snapshot_nodes_def five Let_def list_all_iff max_tree_depth_def)
qed

end
