(* ===== verification/BrowserJs.thy ===== *)
theory BrowserJs
  imports Main
begin

text \<open>
  The scripts that the browser steps evaluate in the page (\<open>crates/earl-protocol-browser/src/steps.rs\<close>), character
  by character; what a step puts into one is JSON text.
\<close>

definition select_option_js :: "string \<Rightarrow> string \<Rightarrow> string" where
  "select_option_js sel_json values_json =
     ''(function() {'' @ [CHR 0x0A] @ ''                var el = document.querySelector('' @ sel_json @ '');'' @
     [CHR 0x0A] @ ''                if (!el) return false;'' @ [CHR 0x0A] @
     ''                Array.from(el.options).forEach(function(o) {'' @ [CHR 0x0A] @
     ''                    o.selected = '' @ values_json @ ''.indexOf(o.value) !== -1;'' @ [CHR 0x0A] @
     ''                });'' @ [CHR 0x0A] @ ''                el.dispatchEvent(new Event('' @ [CHR 0x27] @
     ''change'' @ [CHR 0x27] @ '', {bubbles: true}));'' @ [CHR 0x0A] @ ''                return true;'' @
     [CHR 0x0A] @ ''            })()''"

definition drag_js :: "string \<Rightarrow> string \<Rightarrow> string" where
  "drag_js start_json end_json =
     ''(function() {'' @ [CHR 0x0A] @ ''                var src = document.querySelector('' @ start_json @ '');'' @
     [CHR 0x0A] @ ''                var dst = document.querySelector('' @ end_json @ '');'' @ [CHR 0x0A] @
     ''                if (!src || !dst) return false;'' @ [CHR 0x0A] @
     ''                src.dispatchEvent(new DragEvent('' @ [CHR 0x27] @ ''dragstart'' @ [CHR 0x27] @
     '', {bubbles: true, cancelable: true}));'' @ [CHR 0x0A] @ ''                dst.dispatchEvent(new DragEvent('' @
     [CHR 0x27] @ ''dragenter'' @ [CHR 0x27] @ '', {bubbles: true, cancelable: true}));'' @ [CHR 0x0A] @
     ''                dst.dispatchEvent(new DragEvent('' @ [CHR 0x27] @ ''dragover'' @ [CHR 0x27] @
     '',  {bubbles: true, cancelable: true}));'' @ [CHR 0x0A] @
     ''                dst.dispatchEvent(new DragEvent('' @ [CHR 0x27] @ ''drop'' @ [CHR 0x27] @
     '',      {bubbles: true, cancelable: true}));'' @ [CHR 0x0A] @
     ''                src.dispatchEvent(new DragEvent('' @ [CHR 0x27] @ ''dragend'' @ [CHR 0x27] @
     '',   {bubbles: true, cancelable: true}));'' @ [CHR 0x0A] @ ''                return true;'' @ [CHR 0x0A] @
     ''            })()''"

definition element_visible_js :: "string \<Rightarrow> string \<Rightarrow> string" where
  "element_visible_js role_json name_json =
     ''(function() {'' @ [CHR 0x0A] @ ''                var role = '' @ role_json @ '';'' @ [CHR 0x0A] @
     ''                var name = '' @ name_json @ '';'' @ [CHR 0x0A] @
     ''                var els = document.querySelectorAll('' @ [CHR 0x27] @ ''*'' @ [CHR 0x27] @ '');'' @
     [CHR 0x0A] @ ''                for (var i = 0; i < els.length; i++) {'' @ [CHR 0x0A] @
     ''                    var el = els[i];'' @ [CHR 0x0A] @ ''                    var elRole = el.getAttribute('' @
     [CHR 0x27] @ ''role'' @ [CHR 0x27] @ '') || el.tagName.toLowerCase();'' @ [CHR 0x0A] @
     ''                    var elName = el.getAttribute('' @ [CHR 0x27] @ ''aria-label'' @ [CHR 0x27] @
     '') || el.textContent || '' @ [CHR 0x27, CHR 0x27] @ '';'' @ [CHR 0x0A] @
     ''                    if ((role === '' @ [CHR 0x27, CHR 0x27] @ '' || elRole === role) && (name === '' @
     [CHR 0x27, CHR 0x27] @ '' || elName.trim().indexOf(name) !== -1)) {'' @ [CHR 0x0A] @
     ''                        return true;'' @ [CHR 0x0A] @ ''                    }'' @ [CHR 0x0A] @
     ''                }'' @ [CHR 0x0A] @ ''                return false;'' @ [CHR 0x0A] @ ''            })()''"

definition active_value_js :: string where
  "active_value_js =
     ''(function() {'' @ [CHR 0x0A] @
     ''                var el = document.activeElement || document.querySelector('' @ [CHR 0x27] @
     ''input,textarea,select'' @ [CHR 0x27] @ '');'' @ [CHR 0x0A] @ ''                if (!el) return null;'' @
     [CHR 0x0A] @ ''                return el.value !== undefined ? el.value : el.textContent;'' @ [CHR 0x0A] @
     ''            })()''"

definition local_storage_js :: string where
  "local_storage_js =
     ''(function() {'' @ [CHR 0x0A] @ ''                var out = {};'' @ [CHR 0x0A] @
     ''                for (var i = 0; i < localStorage.length; i++) {'' @ [CHR 0x0A] @
     ''                    var k = localStorage.key(i);'' @ [CHR 0x0A] @
     ''                    out[k] = localStorage.getItem(k);'' @ [CHR 0x0A] @ ''                }'' @ [CHR 0x0A] @
     ''                return out;'' @ [CHR 0x0A] @ ''            })()''"

definition restore_storage_js :: "string \<Rightarrow> string" where
  "restore_storage_js entries_json =
     ''(function(entries) {'' @ [CHR 0x0A] @ ''                    localStorage.clear();'' @ [CHR 0x0A] @
     ''                    for (var k in entries) {'' @ [CHR 0x0A] @
     ''                        localStorage.setItem(k, entries[k]);'' @ [CHR 0x0A] @ ''                    }'' @
     [CHR 0x0A] @ ''                })('' @ entries_json @ '')''"

definition status_js :: string where
  "status_js =
     ''window.performance.getEntriesByType('' @ [CHR 0x27] @ ''navigation'' @ [CHR 0x27] @
     '')[0]?.responseStatus ?? 0''"

definition dblclick_js :: string where
  "dblclick_js =
     ''function() { this.dispatchEvent(new MouseEvent('' @ [CHR 0x27] @ ''dblclick'' @ [CHR 0x27] @
     '', {bubbles: true, cancelable: true})); }''"

definition clear_value_js :: string where
  "clear_value_js =
     ''function() { this.value = '' @ [CHR 0x27, CHR 0x27] @ ''; this.dispatchEvent(new Event('' @ [CHR 0x27] @
     ''input'' @ [CHR 0x27] @ '', {bubbles: true})); }''"

definition checked_js :: string where
  "checked_js =
     ''function() { return this.checked; }''"

definition centre_js :: string where
  "centre_js =
     ''({x: window.innerWidth / 2, y: window.innerHeight / 2})''"

definition body_text_js :: string where
  "body_text_js =
     ''document.body ? document.body.innerText : '' @ [CHR 0x27, CHR 0x27]"

end
