(* ===== verification/BrowserPage.thy ===== *)
theory BrowserPage
  imports Timed AccessTree BrowserSchema Validator BrowserJs
begin

text \<open>
  What the browser steps work with (\<open>crates/earl-protocol-browser/src/error.rs\<close> and the context of \<open>steps.rs\<close>): the
  errors, what the browser takes and answers, and the page. The page, the elements and the browser's protocol are
  chromiumoxide's: every call is an operation of \<open>page_ops\<close> that answers after some time or never, and is noted in
  the log with its arguments. JSON text, \<open>{:?}\<close> of a string, Unicode case and classes, base64 and the table of keys
  are parameters.
\<close>

section \<open>Errors\<close>

datatype browser_error =
    ElementNotFound nat string string nat nat
  | ElementNotInteractable nat string string nat nat
  | NavigationFailed nat string
  | AssertionFailed nat string string
  | RendererCrashed nat
  | DialogBlocking nat
  | DownloadBlocked nat
  | NewTabOpened nat
  | StepTimeout nat string u64
  | StaleRef string string
  | DisallowedScheme string
  | SessionLocked string u32
  | ChromeNotFound string
  | SessionLost nat string string

definition mdash :: string where "mdash = [CHR 0xE2, CHR 0x80, CHR 0x94]"

definition dquoted :: "string \<Rightarrow> string" where "dquoted s = [CHR 0x22] @ s @ [CHR 0x22]"

definition show_step :: "nat \<Rightarrow> string \<Rightarrow> string" where
  "show_step step action = ''browser step '' @ show_nat step @ '' ('' @ action @ '')''"

primrec show_browser_error :: "browser_error \<Rightarrow> string" where
  "show_browser_error (ElementNotFound step action selector completed all_steps) =
     show_step step action @ '' failed: element not found '' @ mdash @ '' '' @ selector @ '' '' @ mdash
       @ '' completed '' @ show_nat completed @ '' of '' @ show_nat all_steps @ '' steps''"
| "show_browser_error (ElementNotInteractable step action selector completed all_steps) =
     show_step step action @ '' failed: element not interactable '' @ mdash @ '' '' @ selector @ '' '' @ mdash
       @ '' completed '' @ show_nat completed @ '' of '' @ show_nat all_steps @ '' steps''"
| "show_browser_error (NavigationFailed step reason) = show_step step ''navigate'' @ '' failed: '' @ reason"
| "show_browser_error (AssertionFailed step action message) = show_step step action @ '' assertion failed: '' @ message"
| "show_browser_error (RendererCrashed step) = ''browser renderer crashed at step '' @ show_nat step"
| "show_browser_error (DialogBlocking step) =
     ''browser step '' @ show_nat step @ '': a dialog is blocking the page '' @ mdash
       @ '' add a handle_dialog step before this one''"
| "show_browser_error (DownloadBlocked step) =
     ''browser step '' @ show_nat step @ '': a download was triggered '' @ mdash
       @ '' use a download step with save_to to handle it explicitly''"
| "show_browser_error (NewTabOpened step) =
     show_step step ''click'' @ '': a new tab was opened '' @ mdash @ '' add a tabs step with operation=''
       @ dquoted ''select'' @ '' to switch to it''"
| "show_browser_error (StepTimeout step action timeout_ms) =
     show_step step action @ '' timed out after '' @ show_nat (unat timeout_ms) @ ''ms''"
| "show_browser_error (StaleRef ref_id action) =
     ''ref '' @ dquoted ref_id @ '' no longer exists in the accessibility tree (used in '' @ action @ '')''"
| "show_browser_error (DisallowedScheme scheme) =
     ''URL scheme '' @ dquoted scheme @ '' is not allowed in navigate '' @ mdash @ '' only http and https are permitted''"
| "show_browser_error (SessionLocked session_id pid) =
     ''browser session is locked by another earl process (PID '' @ show_nat (unat pid) @ '')''"
| "show_browser_error (ChromeNotFound paths) =
     ''Chrome not found '' @ mdash @ '' install Chrome/Chromium or set EARL_BROWSER_PATH'' @ [CHR 0x0A]
       @ ''Paths tried:'' @ [CHR 0x0A] @ paths"
| "show_browser_error (SessionLost step action reason) =
     ''browser session lost during step '' @ show_nat step @ '' ('' @ action @ ''): '' @ reason"

definition browser_bail :: "browser_error \<Rightarrow> 'a result" where
  "browser_bail e = bail (show_browser_error e)"

section \<open>What the browser takes and answers\<close>

datatype key_event_type = KeyDown | RawKeyDown | KeyUp

record key_event =
  ke_type :: key_event_type
  ke_text :: "string option"
  ke_key :: string
  ke_code :: string
  ke_key_code :: int

record key_definition =
  kd_key :: string
  kd_code :: string
  kd_text :: "string option"
  kd_key_code :: int

datatype mouse_event_type = MouseMoved | MousePressed | MouseReleased | MouseWheeled

datatype mouse_button = LeftButton | RightButton | MiddleButton | BackButton | ForwardButton

record mouse_event =
  me_type :: mouse_event_type
  me_x :: f64
  me_y :: f64
  me_button :: "mouse_button option"
  me_click_count :: "int option"
  me_delta_x :: "f64 option"
  me_delta_y :: "f64 option"

record cookie =
  ck_name :: string
  ck_value :: string
  ck_domain :: string
  ck_path :: string
  ck_expires :: f64
  ck_http_only :: bool
  ck_secure :: bool
  ck_session :: bool

record set_cookie =
  co_name :: string
  co_value :: string
  co_domain :: "string option"
  co_path :: "string option"
  co_expires :: "f64 option"
  co_http_only :: "bool option"
  co_secure :: "bool option"

text \<open>The calls a step makes, with what they carry.\<close>

datatype (plugins only: ) page_call =
    Goto string
  | EvalJs string
  | FindElement string
  | ElementClick
  | ElementHover
  | ElementJs string
  | ElementType string
  | ElementKey string
  | GetHistory
  | ToHistoryEntry int
  | AwaitNavigation
  | ReloadPage
  | GetAxTree
  | TakeScreenshot bool
  | WriteFile string string
  | ReadFile string
  | KeyEvent key_event
  | MouseEvent mouse_event
  | SetDeviceMetrics int int
  | ClosePage
  | GetCookies
  | SetCookie set_cookie
  | DeleteCookies string "string option"
  | ClearCookies
  | GetUrl
  | ListenDialogs
  | AnswerDialog bool "string option"
  | NextDialog
  | PrintPdf
  | SleepFor nat
  | WriteDiagnostic string string

text \<open>
  The page as the libraries provide it: answers with their delays. \<open>evaluate\<close> answers with the error of
  \<open>into_value\<close> or the value. A sleep may last longer than asked.
\<close>

record ('b, 'el) page_ops =
  po_goto :: "string \<Rightarrow> ('b, unit) reply"
  po_evaluate :: "string \<Rightarrow> ('b, string + json) reply"
  po_find_element :: "string \<Rightarrow> ('b, 'el) reply"
  po_click :: "'el \<Rightarrow> ('b, unit) reply"
  po_hover :: "'el \<Rightarrow> ('b, unit) reply"
  po_call_js :: "'el \<Rightarrow> string \<Rightarrow> ('b, json option) reply"
  po_type_str :: "'el \<Rightarrow> string \<Rightarrow> ('b, unit) reply"
  po_press_key :: "'el \<Rightarrow> string \<Rightarrow> ('b, unit) reply"
  po_history :: "('b, int \<times> int list) reply"
  po_to_entry :: "int \<Rightarrow> ('b, unit) reply"
  po_wait_navigation :: "('b, unit) reply"
  po_reload :: "('b, unit) reply"
  po_ax_tree :: "('b, cdp_ax_node list) reply"
  po_screenshot :: "bool \<Rightarrow> ('b, string) reply"
  po_write :: "string \<Rightarrow> string \<Rightarrow> ('b, unit) reply"
  po_read :: "string \<Rightarrow> ('b, string) reply"
  po_key_event :: "key_event \<Rightarrow> ('b, unit) reply"
  po_mouse_event :: "mouse_event \<Rightarrow> ('b, unit) reply"
  po_device_metrics :: "int \<Rightarrow> int \<Rightarrow> ('b, unit) reply"
  po_close :: "('b, unit) reply"
  po_cookies :: "('b, cookie list) reply"
  po_set_cookie :: "set_cookie \<Rightarrow> ('b, unit) reply"
  po_delete_cookies :: "string \<Rightarrow> string option \<Rightarrow> ('b, unit) reply"
  po_clear_cookies :: "('b, unit) reply"
  po_url :: "('b, string option) reply"
  po_listen_dialogs :: "('b, unit) reply"
  po_answer_dialog :: "bool \<Rightarrow> string option \<Rightarrow> ('b, unit) reply"
  po_next_dialog :: "('b, unit) reply"
  po_print_pdf :: "('b, string) reply"
  po_late :: "'b \<Rightarrow> nat \<times> 'b"
  po_timestamp_millis :: "'b \<Rightarrow> int"
  po_write_diagnostic :: "string \<Rightarrow> string \<Rightarrow> 'b \<Rightarrow> bool \<times> 'b"

text \<open>The other libraries: text to JSON and back, debug format, Unicode, base64, the key table, the temp directory.\<close>

record browser_libs =
  bw_lowercase :: "string \<Rightarrow> string"
  bw_alphanumeric :: "string \<Rightarrow> bool"
  bw_debug :: "string \<Rightarrow> string"
  bw_json_text :: "json \<Rightarrow> string"
  bw_json_pretty :: "json \<Rightarrow> string"
  bw_json_read :: "string \<Rightarrow> string + json"
  bw_base64 :: "string \<Rightarrow> string"
  bw_base64_decode :: "string \<Rightarrow> string + string"
  bw_key_definition :: "string \<Rightarrow> key_definition option"
  bw_temp_dir :: string

text \<open>\<open>StepContext\<close>, with the deadline of the \<open>timeout\<close> around the step.\<close>

record ('b, 'el) step_context =
  sc_page :: "('b, 'el) page_ops"
  sc_step_index :: nat
  sc_total_steps :: nat
  sc_global_timeout_ms :: u64
  sc_deadline :: nat

type_synonym 'b page_world = "('b, page_call) timed_world"

definition page_do ::
    "('b, 'el) step_context \<Rightarrow> string \<Rightarrow> page_call \<Rightarrow> (('b, 'el) page_ops \<Rightarrow> ('b, 'a) reply) \<Rightarrow> ('b page_world, 'a) timed" where
  "page_do ctx msg call f = call_or msg (sc_deadline ctx) call (f (sc_page ctx))"

text \<open>\<open>evaluate(js).await.map_err(..)?.into_value()?\<close>\<close>

definition page_run :: "('b, 'el) step_context \<Rightarrow> string \<Rightarrow> string \<Rightarrow> ('b page_world, string + json) timed" where
  "page_run ctx msg js = page_do ctx msg (EvalJs js) (\<lambda>p. po_evaluate p js)"

definition page_value :: "('b, 'el) step_context \<Rightarrow> string \<Rightarrow> string \<Rightarrow> ('b page_world, json) timed" where
  "page_value ctx msg js = t_bind (page_run ctx msg js) (\<lambda>r. t_lift (map_err (\<lambda>e. [e]) r))"

definition ok_json :: json where "ok_json = jobj [(''ok'', JBool True)]"

definition json_nat :: "nat \<Rightarrow> json" where "json_nat n = JNumber (PosInt (word_of_nat n))"

definition note_json :: "string \<Rightarrow> json" where
  "note_json note = jobj [(''ok'', JBool True), (''note'', JString note)]"

definition text_of :: "json \<Rightarrow> string" where
  "text_of v = unwrap_or (as_str v) []"

end
