(* ===== verification/BrowserSteps.thy ===== *)
theory BrowserSteps
  imports BrowserPage
begin

text \<open>
  The steps of a browser command that act on the page (\<open>crates/earl-protocol-browser/src/steps.rs\<close>): navigation,
  observation, elements and the mouse. Each is a piece of timed work that stops at its first error.
\<close>

section \<open>Checks\<close>

definition validate_url_scheme :: "browser_libs \<Rightarrow> string \<Rightarrow> unit result" where
  "validate_url_scheme lib url =
     (let scheme = bw_lowercase lib (hd (split_char (CHR '':'') url))
      in if scheme = ''http'' \<or> scheme = ''https'' then Inr () else browser_bail (DisallowedScheme scheme))"

definition validate_file_path :: "string \<Rightarrow> unit result" where
  "validate_file_path path =
     (if prefix ''/'' path
      then bail (''file path '' @ dquoted path @ '' is not allowed: only relative paths are permitted'')
      else if has_parent_dir path
      then bail (''file path '' @ dquoted path @ '' is not allowed: path traversal (`..`) is not permitted'')
      else Inr ())"

definition check_path :: "string option \<Rightarrow> unit result" where
  "check_path path = (case path of Some p \<Rightarrow> validate_file_path p | None \<Rightarrow> Inr ())"

section \<open>Navigation\<close>

definition status_of :: "string + json \<Rightarrow> u16" where
  "status_of r = (case r of Inl e \<Rightarrow> 0 | Inr v \<Rightarrow> (case as_u64 v of Some n \<Rightarrow> ucast n | None \<Rightarrow> 0))"

definition step_navigate ::
    "browser_libs \<Rightarrow> ('b, 'el) step_context \<Rightarrow> string \<Rightarrow> u16 option \<Rightarrow> ('b page_world, json) timed" where
  "step_navigate lib ctx url expected_status =
     t_bind (t_lift (validate_url_scheme lib url)) (\<lambda>_.
     t_bind (page_do ctx (''navigate to '' @ url @ '' failed: '') (Goto url) (\<lambda>p. po_goto p url)) (\<lambda>_.
     t_bind
       (case expected_status of
          None \<Rightarrow> t_return ()
        | Some expected \<Rightarrow>
            t_bind (page_run ctx ''navigate status check failed: '' status_js) (\<lambda>r.
              if status_of r \<noteq> expected
              then t_lift (browser_bail (AssertionFailed (sc_step_index ctx) ''navigate''
                     (''expected HTTP status '' @ show_nat (unat expected) @ '', got ''
                        @ show_nat (unat (status_of r)) @ '' for '' @ url)))
              else t_return ())) (\<lambda>_.
     t_return (jobj [(''ok'', JBool True), (''url'', JString url)]))))"

definition go_to_entry :: "('b, 'el) step_context \<Rightarrow> string \<Rightarrow> string \<Rightarrow> int \<Rightarrow> ('b page_world, json) timed" where
  "go_to_entry ctx direction go entry_id =
     t_bind (page_do ctx (''navigate '' @ direction @ '' failed: '') (ToHistoryEntry entry_id) (\<lambda>p. po_to_entry p entry_id)) (\<lambda>_.
     t_bind (page_do ctx (''wait for navigation after '' @ go @ '' failed: '') AwaitNavigation po_wait_navigation) (\<lambda>_.
     t_return ok_json))"

definition step_navigate_back :: "('b, 'el) step_context \<Rightarrow> ('b page_world, json) timed" where
  "step_navigate_back ctx =
     t_bind (page_do ctx ''get navigation history failed: '' GetHistory po_history) (\<lambda>(current_index, entries).
       if current_index \<le> 0 then t_return ok_json
       else
         let target_index = nat (current_index - 1)
         in if target_index \<ge> length entries then t_return ok_json
            else go_to_entry ctx ''back'' ''go-back'' (entries ! target_index))"

text \<open>\<open>current_index as usize + 1\<close> wraps, as a release build computes it.\<close>

definition step_navigate_forward :: "('b, 'el) step_context \<Rightarrow> ('b page_world, json) timed" where
  "step_navigate_forward ctx =
     t_bind (page_do ctx ''get navigation history failed: '' GetHistory po_history) (\<lambda>(current_index, entries).
       let next_index = unat (word_of_int current_index + 1 :: usize)
       in if next_index \<ge> length entries then t_return ok_json
          else go_to_entry ctx ''forward'' ''go-forward'' (entries ! next_index))"

definition step_reload :: "('b, 'el) step_context \<Rightarrow> ('b page_world, json) timed" where
  "step_reload ctx = t_bind (page_do ctx ''reload failed: '' ReloadPage po_reload) (\<lambda>_. t_return ok_json)"

section \<open>Observation\<close>

definition refs_json :: "(string, u64) btree \<Rightarrow> json" where
  "refs_json refs = JObject (map (\<lambda>(k, i). (k, JNumber (PosInt i))) refs)"

definition step_snapshot :: "('b, 'el) step_context \<Rightarrow> ('b page_world, json) timed" where
  "step_snapshot ctx =
     t_bind (page_do ctx ''get full AX tree failed: '' GetAxTree po_ax_tree) (\<lambda>cdp_nodes.
       case snapshot_text cdp_nodes of
         (markdown, refs) \<Rightarrow> t_return (jobj [(''text'', JString markdown), (''refs'', refs_json refs)]))"

definition write_output :: "('b, 'el) step_context \<Rightarrow> string \<Rightarrow> string \<Rightarrow> string \<Rightarrow> ('b page_world, unit) timed" where
  "write_output ctx what p bytes =
     page_do ctx (what @ '' write '' @ p @ '': '') (WriteFile p bytes) (\<lambda>ops. po_write ops p bytes)"

definition step_screenshot ::
    "browser_libs \<Rightarrow> ('b, 'el) step_context \<Rightarrow> string option \<Rightarrow> bool \<Rightarrow> ('b page_world, json) timed" where
  "step_screenshot lib ctx path full_page =
     t_bind (t_lift (check_path path)) (\<lambda>_.
     t_bind (page_do ctx ''screenshot failed: '' (TakeScreenshot full_page) (\<lambda>p. po_screenshot p full_page)) (\<lambda>bytes.
     case path of
       Some p \<Rightarrow> t_bind (write_output ctx ''screenshot'' p bytes) (\<lambda>_. t_return (jobj [(''path'', JString p)]))
     | None \<Rightarrow> t_return (jobj [(''data'', JString (bw_base64 lib bytes))])))"

section \<open>Interaction\<close>

definition element_missing :: "('b, 'el) step_context \<Rightarrow> string \<Rightarrow> string \<Rightarrow> browser_error" where
  "element_missing ctx action sel =
     ElementNotFound (sc_step_index ctx) action sel (sc_step_index ctx) (sc_total_steps ctx)"

definition find_element_by_selector ::
    "('b, 'el) step_context \<Rightarrow> string option \<Rightarrow> string option \<Rightarrow> string \<Rightarrow> ('b page_world, 'el) timed" where
  "find_element_by_selector ctx selector ref action =
     (case selector of
        None \<Rightarrow>
          if ref \<noteq> None
          then t_lift (bail (show_step (sc_step_index ctx) action @ '': '' @ [CHR 0x27] @ ''ref'' @ [CHR 0x27]
                 @ '' targeting requires session mode (not yet available in this version); use ''
                 @ [CHR 0x27] @ ''selector'' @ [CHR 0x27] @ '' instead''))
          else t_lift (browser_bail (element_missing ctx action ''(none provided)''))
      | Some sel \<Rightarrow>
          t_bind (await (sc_deadline ctx) (FindElement sel) (po_find_element (sc_page ctx) sel)) (\<lambda>r.
          t_lift (map_err (\<lambda>_. [show_browser_error (element_missing ctx action sel)]) r)))"

definition click_element :: "('b, 'el) step_context \<Rightarrow> string \<Rightarrow> 'el \<Rightarrow> ('b page_world, unit) timed" where
  "click_element ctx msg el = page_do ctx msg ElementClick (\<lambda>p. po_click p el)"

definition element_js :: "('b, 'el) step_context \<Rightarrow> string \<Rightarrow> 'el \<Rightarrow> string \<Rightarrow> ('b page_world, json option) timed" where
  "element_js ctx msg el js = page_do ctx msg (ElementJs js) (\<lambda>p. po_call_js p el js)"

definition step_click ::
    "('b, 'el) step_context \<Rightarrow> string option \<Rightarrow> string option \<Rightarrow> bool \<Rightarrow> ('b page_world, json) timed" where
  "step_click ctx ref selector double_click =
     t_bind (find_element_by_selector ctx selector ref ''click'') (\<lambda>el.
     t_bind (click_element ctx ''click failed: '' el) (\<lambda>_.
     t_bind
       (if double_click
        then t_bind (click_element ctx ''double-click second click failed: '' el) (\<lambda>_.
             t_bind (element_js ctx ''double-click dblclick event dispatch failed: '' el dblclick_js) (\<lambda>_. t_return ()))
        else t_return ()) (\<lambda>_.
     t_return ok_json)))"

definition step_hover :: "('b, 'el) step_context \<Rightarrow> string option \<Rightarrow> string option \<Rightarrow> ('b page_world, json) timed" where
  "step_hover ctx ref selector =
     t_bind (find_element_by_selector ctx selector ref ''hover'') (\<lambda>el.
     t_bind (page_do ctx ''hover failed: '' ElementHover (\<lambda>p. po_hover p el)) (\<lambda>_.
     t_return ok_json))"

definition step_fill ::
    "('b, 'el) step_context \<Rightarrow> string option \<Rightarrow> string option \<Rightarrow> string \<Rightarrow> bool option \<Rightarrow> ('b page_world, json) timed" where
  "step_fill ctx ref selector text_value submit =
     t_bind (find_element_by_selector ctx selector ref ''fill'') (\<lambda>el.
     t_bind (click_element ctx ''fill click: '' el) (\<lambda>_.
     t_bind (element_js ctx ''fill clear value: '' el clear_value_js) (\<lambda>_.
     t_bind (page_do ctx ''fill type_str: '' (ElementType text_value) (\<lambda>p. po_type_str p el text_value)) (\<lambda>_.
     t_bind
       (if unwrap_or submit False
        then page_do ctx ''fill submit: '' (ElementKey ''Enter'') (\<lambda>p. po_press_key p el ''Enter'')
        else t_return ()) (\<lambda>_.
     t_return ok_json)))))"

definition step_select_option ::
    "browser_libs \<Rightarrow> ('b, 'el) step_context \<Rightarrow> string option \<Rightarrow> string list \<Rightarrow> ('b page_world, json) timed" where
  "step_select_option lib ctx selector option_values =
     t_bind (page_run ctx ''select_option: ''
       (select_option_js (bw_json_text lib (JString (unwrap_or selector [])))
          (bw_json_text lib (JArray (map JString option_values))))) (\<lambda>_.
     t_return ok_json)"

definition key_down_event :: "key_definition \<Rightarrow> key_event" where
  "key_down_event kd =
     \<lparr> ke_type = (if kd_text kd \<noteq> None \<or> length (kd_key kd) = 1 then KeyDown else RawKeyDown),
       ke_text = (if kd_text kd \<noteq> None then kd_text kd else if length (kd_key kd) = 1 then Some (kd_key kd) else None),
       ke_key = kd_key kd, ke_code = kd_code kd, ke_key_code = kd_key_code kd \<rparr>"

definition send_key :: "('b, 'el) step_context \<Rightarrow> string \<Rightarrow> key_event \<Rightarrow> ('b page_world, unit) timed" where
  "send_key ctx msg ev = page_do ctx msg (KeyEvent ev) (\<lambda>p. po_key_event p ev)"

definition step_press_key :: "browser_libs \<Rightarrow> ('b, 'el) step_context \<Rightarrow> string \<Rightarrow> ('b page_world, json) timed" where
  "step_press_key lib ctx key =
     t_bind (t_lift (ok_or [''press_key: unknown key '' @ [CHR 0x27] @ key @ [CHR 0x27]] (bw_key_definition lib key))) (\<lambda>key_def.
     t_bind (send_key ctx ''press_key key_down: '' (key_down_event key_def)) (\<lambda>_.
     t_bind (send_key ctx ''press_key key_up: '' ((key_down_event key_def) \<lparr> ke_type := KeyUp \<rparr>)) (\<lambda>_.
     t_return ok_json)))"

definition step_set_checked ::
    "('b, 'el) step_context \<Rightarrow> string option \<Rightarrow> string option \<Rightarrow> bool \<Rightarrow> ('b page_world, json) timed" where
  "step_set_checked ctx ref selector checked =
     t_bind (find_element_by_selector ctx selector ref (if checked then ''check'' else ''uncheck'')) (\<lambda>el.
     t_bind (element_js ctx ''set_checked get state: '' el checked_js) (\<lambda>current.
     t_bind
       (if as_bool (unwrap_or current (JBool False)) \<noteq> Some checked
        then click_element ctx ''set_checked click: '' el else t_return ()) (\<lambda>_.
     t_return ok_json)))"

definition step_drag ::
    "browser_libs \<Rightarrow> ('b, 'el) step_context \<Rightarrow> string option \<Rightarrow> string option \<Rightarrow> ('b page_world, json) timed" where
  "step_drag lib ctx start_selector end_selector =
     t_bind (page_run ctx ''drag: ''
       (drag_js (bw_json_text lib (JString (unwrap_or start_selector [])))
          (bw_json_text lib (JString (unwrap_or end_selector []))))) (\<lambda>_.
     t_return ok_json)"

definition field_text :: "json \<Rightarrow> string \<Rightarrow> string option" where
  "field_text field key = Option.bind (json_get field key) as_str"

definition fill_field :: "('b, 'el) step_context \<Rightarrow> json \<Rightarrow> ('b page_world, unit) timed" where
  "fill_field ctx field =
     (let ref = field_text field ''ref''; selector = field_text field ''selector'';
          field_value = unwrap_or (field_text field ''value'') [];
          field_type = unwrap_or (field_text field ''type'') ''textbox''
      in t_bind
           (if field_type = ''checkbox''
            then step_set_checked ctx ref selector (field_value = ''true'' \<or> field_value = ''1'')
            else step_fill ctx ref selector field_value None) (\<lambda>_. t_return ()))"

definition step_fill_form :: "('b, 'el) step_context \<Rightarrow> json list \<Rightarrow> ('b page_world, json) timed" where
  "step_fill_form ctx form_fields = t_bind (t_for_each (fill_field ctx) form_fields) (\<lambda>_. t_return ok_json)"

section \<open>Mouse\<close>

definition parse_mouse_button :: "string option \<Rightarrow> mouse_button" where
  "parse_mouse_button button =
     (if button = Some ''right'' then RightButton
      else if button = Some ''middle'' then MiddleButton
      else if button = Some ''back'' then BackButton
      else if button = Some ''forward'' then ForwardButton
      else LeftButton)"

definition mouse_at :: "mouse_event_type \<Rightarrow> f64 \<Rightarrow> f64 \<Rightarrow> mouse_event" where
  "mouse_at type x y =
     \<lparr> me_type = type, me_x = x, me_y = y, me_button = None, me_click_count = None, me_delta_x = None, me_delta_y = None \<rparr>"

definition send_mouse :: "('b, 'el) step_context \<Rightarrow> string \<Rightarrow> mouse_event \<Rightarrow> ('b page_world, unit) timed" where
  "send_mouse ctx msg ev = page_do ctx msg (MouseEvent ev) (\<lambda>p. po_mouse_event p ev)"

definition step_mouse_move :: "('b, 'el) step_context \<Rightarrow> f64 \<Rightarrow> f64 \<Rightarrow> ('b page_world, json) timed" where
  "step_mouse_move ctx x y = t_bind (send_mouse ctx ''mouse_move: '' (mouse_at MouseMoved x y)) (\<lambda>_. t_return ok_json)"

definition step_mouse_click ::
    "('b, 'el) step_context \<Rightarrow> f64 \<Rightarrow> f64 \<Rightarrow> string option \<Rightarrow> ('b page_world, json) timed" where
  "step_mouse_click ctx x y button =
     (let mb = parse_mouse_button button;
          ev = (\<lambda>type. (mouse_at type x y) \<lparr> me_button := Some mb, me_click_count := Some 1 \<rparr>)
      in t_bind (send_mouse ctx ''mouse_click pressed: '' (ev MousePressed)) (\<lambda>_.
         t_bind (send_mouse ctx ''mouse_click released: '' (ev MouseReleased)) (\<lambda>_.
         t_return ok_json)))"

definition step_mouse_drag ::
    "('b, 'el) step_context \<Rightarrow> f64 \<Rightarrow> f64 \<Rightarrow> f64 \<Rightarrow> f64 \<Rightarrow> ('b page_world, json) timed" where
  "step_mouse_drag ctx start_x start_y end_x end_y =
     t_bind (send_mouse ctx ''mouse_drag pressed: '' (mouse_at MousePressed start_x start_y)) (\<lambda>_.
     t_bind (send_mouse ctx ''mouse_drag moved: '' (mouse_at MouseMoved end_x end_y)) (\<lambda>_.
     t_bind (send_mouse ctx ''mouse_drag released: '' (mouse_at MouseReleased end_x end_y)) (\<lambda>_.
     t_return ok_json)))"

text \<open>The centre of the viewport, or \<open>(400, 300)\<close> where the page does not say.\<close>

definition pos_at :: "json \<Rightarrow> string \<Rightarrow> nat \<Rightarrow> f64" where
  "pos_at pos key d = unwrap_or (as_f64 (json_at pos key)) (word_of_nat (nat_as_f64 d))"

definition step_mouse_button :: "('b, 'el) step_context \<Rightarrow> string option \<Rightarrow> bool \<Rightarrow> ('b page_world, json) timed" where
  "step_mouse_button ctx button pressed =
     t_bind (page_value ctx ''mouse_button get position: '' centre_js) (\<lambda>pos.
     t_bind (send_mouse ctx ''mouse_button: ''
       ((mouse_at (if pressed then MousePressed else MouseReleased) (pos_at pos ''x'' 400) (pos_at pos ''y'' 300))
          \<lparr> me_button := Some (parse_mouse_button button) \<rparr>)) (\<lambda>_.
     t_return ok_json))"

definition step_mouse_wheel :: "('b, 'el) step_context \<Rightarrow> f64 \<Rightarrow> f64 \<Rightarrow> ('b page_world, json) timed" where
  "step_mouse_wheel ctx delta_x delta_y =
     t_bind (page_value ctx ''mouse_wheel get position: '' centre_js) (\<lambda>pos.
     t_bind (send_mouse ctx ''mouse_wheel: ''
       ((mouse_at MouseWheeled (pos_at pos ''x'' 400) (pos_at pos ''y'' 300))
          \<lparr> me_delta_x := Some delta_x, me_delta_y := Some delta_y \<rparr>)) (\<lambda>_.
     t_return ok_json))"

end
