(* ===== verification/BrowserState.thy ===== *)
theory BrowserState
  imports BrowserSteps
begin

text \<open>
  The steps of a browser command that wait for and check the page, run scripts, and read and write its state
  (\<open>crates/earl-protocol-browser/src/steps.rs\<close>): text and values, cookies, web storage, dialogs and documents.
\<close>

section \<open>Waiting\<close>

definition text_wait_over :: "string \<Rightarrow> string option \<Rightarrow> string option \<Rightarrow> bool" where
  "text_wait_over body wanted gone =
     (case wanted of
        Some t \<Rightarrow> sublist t body \<and> (case gone of Some tg \<Rightarrow> \<not> sublist tg body | None \<Rightarrow> True)
      | None \<Rightarrow> (case gone of Some tg \<Rightarrow> \<not> sublist tg body | None \<Rightarrow> False))"

definition ms :: nat where "ms = 1000000"

definition step_pause :: "('b, 'el) step_context \<Rightarrow> nat \<Rightarrow> ('b page_world, unit) timed" where
  "step_pause ctx d = sleep_for (sc_deadline ctx) (SleepFor d) (po_late (sc_page ctx)) d"

lemma page_value_clock: "page_value ctx msg js w = (Done (Inr v), w') \<Longrightarrow> tw_now w \<le> tw_now w'"
  by (auto simp: page_value_def page_run_def page_do_def t_bind_Done dest: call_or_clock)

lemma step_pause_advances: "step_pause ctx d w = (Done (Inr u), w') \<Longrightarrow> tw_now w + d \<le> tw_now w'"
  unfolding step_pause_def by (rule sleep_for_advances)

text \<open>The poll: each round that does not end the wait sleeps for at least a nanosecond, so the loop ends.\<close>

function wait_loop ::
    "('b, 'el) step_context \<Rightarrow> string option \<Rightarrow> string option \<Rightarrow> u64 \<Rightarrow> nat \<Rightarrow> ('b page_world, json) timed" where
  "wait_loop ctx wanted gone timeout_ms deadline w =
     t_bind (page_value ctx ''wait_for evaluate: '' body_text_js) (\<lambda>body_text v.
       if text_wait_over (text_of body_text) wanted gone then t_return ok_json v
       else if tw_now v \<ge> deadline
       then t_lift (browser_bail (StepTimeout (sc_step_index ctx) ''wait_for'' timeout_ms)) v
       else t_bind (step_pause ctx (min (deadline - tw_now v) (200 * ms))) (\<lambda>_ u.
              wait_loop ctx wanted gone timeout_ms deadline u) v) w"
  by pat_completeness auto
termination
  by (relation "measure (\<lambda>(ctx, wanted, gone, timeout_ms, deadline, w). deadline - tw_now w)")
    (auto dest!: page_value_clock step_pause_advances simp: ms_def)

declare wait_loop.simps [simp del]

definition step_wait_for ::
    "('b, 'el) step_context \<Rightarrow> f64 option \<Rightarrow> string option \<Rightarrow> string option \<Rightarrow> u64 \<Rightarrow> ('b page_world, json) timed" where
  "step_wait_for ctx time wanted gone timeout_ms =
     t_bind
       (case time of
          None \<Rightarrow> t_return ()
        | Some secs \<Rightarrow> (case duration_from_secs_f64 secs of None \<Rightarrow> t_panic | Some d \<Rightarrow> step_pause ctx d)) (\<lambda>_.
     if wanted = None \<and> gone = None then t_return ok_json
     else (\<lambda>w. wait_loop ctx wanted gone timeout_ms (tw_now w + unat (max timeout_ms 200) * ms) w))"

section \<open>Checks of the page\<close>

definition assertion_failed :: "('b, 'el) step_context \<Rightarrow> string \<Rightarrow> string \<Rightarrow> 'a result" where
  "assertion_failed ctx action message = browser_bail (AssertionFailed (sc_step_index ctx) action message)"

definition step_verify_text_visible ::
    "browser_libs \<Rightarrow> ('b, 'el) step_context \<Rightarrow> string \<Rightarrow> ('b page_world, json) timed" where
  "step_verify_text_visible lib ctx wanted =
     t_bind (page_value ctx ''verify_text_visible evaluate: '' body_text_js) (\<lambda>body_text.
     if sublist wanted (text_of body_text)
     then t_return (jobj [(''ok'', JBool True), (''text'', JString wanted)])
     else t_lift (assertion_failed ctx ''verify_text_visible'' (''text not found in page: '' @ bw_debug lib wanted)))"

definition debug_list :: "browser_libs \<Rightarrow> string list \<Rightarrow> string" where
  "debug_list lib xs = ''['' @ str_join '', '' (map (bw_debug lib) xs) @ '']''"

definition debug_option :: "browser_libs \<Rightarrow> string option \<Rightarrow> string" where
  "debug_option lib x = (case x of None \<Rightarrow> ''None'' | Some s \<Rightarrow> ''Some('' @ bw_debug lib s @ '')'')"

definition step_verify_list_visible ::
    "browser_libs \<Rightarrow> ('b, 'el) step_context \<Rightarrow> string list \<Rightarrow> ('b page_world, json) timed" where
  "step_verify_list_visible lib ctx items =
     t_bind (page_value ctx ''verify_list_visible evaluate: '' body_text_js) (\<lambda>body_text.
     let missing = filter (\<lambda>item. \<not> sublist item (text_of body_text)) items
     in if missing = [] then t_return ok_json
        else t_lift (assertion_failed ctx ''verify_list_visible'' (''items not found in page: '' @ debug_list lib missing)))"

definition visible_script :: "browser_libs \<Rightarrow> string option \<Rightarrow> string option \<Rightarrow> string" where
  "visible_script lib role accessible_name =
     element_visible_js (bw_json_text lib (JString (unwrap_or role [])))
       (bw_json_text lib (JString (unwrap_or accessible_name [])))"

definition step_verify_element_visible ::
    "browser_libs \<Rightarrow> ('b, 'el) step_context \<Rightarrow> string option \<Rightarrow> string option \<Rightarrow> ('b page_world, json) timed" where
  "step_verify_element_visible lib ctx role accessible_name =
     t_bind (page_value ctx ''verify_element_visible evaluate: '' (visible_script lib role accessible_name)) (\<lambda>found.
     if unwrap_or (as_bool found) False then t_return ok_json
     else t_lift (assertion_failed ctx ''verify_element_visible''
            (''element not found '' @ mdash @ '' role='' @ debug_option lib role
               @ '' name='' @ debug_option lib accessible_name)))"

definition step_verify_value :: "browser_libs \<Rightarrow> ('b, 'el) step_context \<Rightarrow> string \<Rightarrow> ('b page_world, json) timed" where
  "step_verify_value lib ctx expected =
     t_bind (page_value ctx ''verify_value evaluate: '' active_value_js) (\<lambda>found.
     let actual = text_of found
     in if actual = expected then t_return (jobj [(''ok'', JBool True), (''value'', JString actual)])
        else t_lift (assertion_failed ctx ''verify_value''
               (''expected value '' @ bw_json_text lib (JString expected) @ '', got '' @ bw_debug lib actual)))"

section \<open>Scripts, tabs and the viewport\<close>

definition run_code_js :: "string \<Rightarrow> string" where
  "run_code_js code = ''(async () => { '' @ code @ '' })()''"

definition step_evaluate :: "('b, 'el) step_context \<Rightarrow> string \<Rightarrow> ('b page_world, json) timed" where
  "step_evaluate ctx function_text =
     t_bind (page_value ctx ''evaluate: '' function_text) (\<lambda>v. t_return (jobj [(''value'', v)]))"

definition step_run_code :: "('b, 'el) step_context \<Rightarrow> string \<Rightarrow> ('b page_world, json) timed" where
  "step_run_code ctx code =
     t_bind (page_value ctx ''run_code: '' (run_code_js code)) (\<lambda>v. t_return (jobj [(''value'', v)]))"

definition location_js :: string where "location_js = ''window.location.href''"

definition step_tabs :: "('b, 'el) step_context \<Rightarrow> string \<Rightarrow> ('b page_world, json) timed" where
  "step_tabs ctx operation =
     (if operation = ''list''
      then t_bind (page_value ctx ''tabs list: '' location_js) (\<lambda>url.
           t_return (jobj [(''tabs'',
             JArray [jobj [(''url'', url), (''index'', json_nat 0), (''active'', JBool True)]])]))
      else t_return (note_json ''full tab management (new/select/close) requires session mode''))"

definition step_resize :: "('b, 'el) step_context \<Rightarrow> u32 \<Rightarrow> u32 \<Rightarrow> ('b page_world, json) timed" where
  "step_resize ctx width height =
     t_bind (page_do ctx ''resize: '' (SetDeviceMetrics (uint width) (uint height))
       (\<lambda>p. po_device_metrics p (uint width) (uint height))) (\<lambda>_.
     t_return (jobj [(''ok'', JBool True), (''width'', JNumber (PosInt (ucast width))),
       (''height'', JNumber (PosInt (ucast height)))]))"

definition step_close :: "('b, 'el) step_context \<Rightarrow> ('b page_world, json) timed" where
  "step_close ctx = t_bind (page_do ctx ''close: '' ClosePage po_close) (\<lambda>_. t_return ok_json)"

section \<open>Cookies\<close>

text \<open>A cookie in an answer; the list also shows whether it ends with the session.\<close>

definition cookie_fields :: "cookie \<Rightarrow> (string \<times> json) list" where
  "cookie_fields c =
     [(''name'', JString (ck_name c)), (''value'', JString (ck_value c)), (''domain'', JString (ck_domain c)),
      (''path'', JString (ck_path c)), (''expires'', json_f64 (ck_expires c)),
      (''http_only'', JBool (ck_http_only c)), (''secure'', JBool (ck_secure c))]"

definition all_cookies :: "('b, 'el) step_context \<Rightarrow> string \<Rightarrow> ('b page_world, cookie list) timed" where
  "all_cookies ctx msg = page_do ctx msg GetCookies po_cookies"

definition step_cookie_list :: "('b, 'el) step_context \<Rightarrow> string option \<Rightarrow> ('b page_world, json) timed" where
  "step_cookie_list ctx domain =
     t_bind (all_cookies ctx ''cookie_list: '') (\<lambda>cookies.
     t_return (jobj [(''cookies'', JArray
       (map (\<lambda>c. jobj (cookie_fields c @ [(''session'', JBool (ck_session c))]))
          (filter (\<lambda>c. case domain of None \<Rightarrow> True | Some d \<Rightarrow> sublist d (ck_domain c)) cookies)))]))"

definition step_cookie_get :: "('b, 'el) step_context \<Rightarrow> string \<Rightarrow> ('b page_world, json) timed" where
  "step_cookie_get ctx name =
     t_bind (all_cookies ctx ''cookie_get: '') (\<lambda>cookies.
     t_return
       (case find (\<lambda>c. ck_name c = name) cookies of
          Some c \<Rightarrow> jobj (cookie_fields c)
        | None \<Rightarrow> jobj [(''name'', JString name), (''value'', JNull)]))"

definition put_cookie :: "('b, 'el) step_context \<Rightarrow> string \<Rightarrow> set_cookie \<Rightarrow> ('b page_world, unit) timed" where
  "put_cookie ctx msg params = page_do ctx msg (SetCookie params) (\<lambda>p. po_set_cookie p params)"

definition ok_name :: "string \<Rightarrow> json" where
  "ok_name name = jobj [(''ok'', JBool True), (''name'', JString name)]"

definition step_cookie_set ::
    "('b, 'el) step_context \<Rightarrow> string \<Rightarrow> string \<Rightarrow> string option \<Rightarrow> string option \<Rightarrow> f64 option \<Rightarrow> bool \<Rightarrow> bool
     \<Rightarrow> ('b page_world, json) timed" where
  "step_cookie_set ctx name val domain path expires http_only secure =
     t_bind (put_cookie ctx ''cookie_set: ''
       \<lparr> co_name = name, co_value = val, co_domain = domain, co_path = path, co_expires = expires,
         co_http_only = Some http_only, co_secure = Some secure \<rparr>) (\<lambda>_.
     t_return (ok_name name))"

definition step_cookie_delete :: "('b, 'el) step_context \<Rightarrow> string \<Rightarrow> ('b page_world, json) timed" where
  "step_cookie_delete ctx name =
     t_bind (await (sc_deadline ctx) GetUrl (po_url (sc_page ctx))) (\<lambda>r.
     let url = (case r of Inr u \<Rightarrow> u | Inl e \<Rightarrow> None)
     in t_bind (page_do ctx ''cookie_delete: '' (DeleteCookies name url) (\<lambda>p. po_delete_cookies p name url)) (\<lambda>_.
        t_return (ok_name name)))"

definition step_cookie_clear :: "('b, 'el) step_context \<Rightarrow> ('b page_world, json) timed" where
  "step_cookie_clear ctx =
     t_bind (page_do ctx ''cookie_clear: '' ClearCookies po_clear_cookies) (\<lambda>_. t_return ok_json)"

section \<open>Web storage\<close>

definition storage_js_obj :: "string \<Rightarrow> string" where
  "storage_js_obj kind = (if kind = ''session'' then ''sessionStorage'' else ''localStorage'')"

definition storage_call_js :: "string \<Rightarrow> string \<Rightarrow> string list \<Rightarrow> string" where
  "storage_call_js kind operation arguments = storage_js_obj kind @ ''.'' @ operation @ ''('' @ str_join '', '' arguments @ '')''"

definition ok_key :: "string \<Rightarrow> json" where
  "ok_key key = jobj [(''ok'', JBool True), (''key'', JString key)]"

definition step_storage_get ::
    "browser_libs \<Rightarrow> ('b, 'el) step_context \<Rightarrow> string \<Rightarrow> string \<Rightarrow> ('b page_world, json) timed" where
  "step_storage_get lib ctx kind key =
     t_bind (page_value ctx ''storage_get: '' (storage_call_js kind ''getItem'' [bw_json_text lib (JString key)])) (\<lambda>val.
     t_return (jobj [(''key'', JString key), (''value'', val)]))"

definition step_storage_set ::
    "browser_libs \<Rightarrow> ('b, 'el) step_context \<Rightarrow> string \<Rightarrow> string \<Rightarrow> string \<Rightarrow> ('b page_world, json) timed" where
  "step_storage_set lib ctx kind key val =
     t_bind (page_run ctx ''storage_set: ''
       (storage_call_js kind ''setItem'' [bw_json_text lib (JString key), bw_json_text lib (JString val)])) (\<lambda>_.
     t_return (ok_key key))"

definition step_storage_delete ::
    "browser_libs \<Rightarrow> ('b, 'el) step_context \<Rightarrow> string \<Rightarrow> string \<Rightarrow> ('b page_world, json) timed" where
  "step_storage_delete lib ctx kind key =
     t_bind (page_run ctx ''storage_delete: '' (storage_call_js kind ''removeItem'' [bw_json_text lib (JString key)])) (\<lambda>_.
     t_return (ok_key key))"

definition step_storage_clear :: "('b, 'el) step_context \<Rightarrow> string \<Rightarrow> ('b page_world, json) timed" where
  "step_storage_clear ctx kind =
     t_bind (page_run ctx ''storage_clear: '' (storage_call_js kind ''clear'' [])) (\<lambda>_. t_return ok_json)"

definition step_storage_state ::
    "browser_libs \<Rightarrow> ('b, 'el) step_context \<Rightarrow> string option \<Rightarrow> ('b page_world, json) timed" where
  "step_storage_state lib ctx path =
     t_bind (all_cookies ctx ''storage_state cookies: '') (\<lambda>cookies.
     t_bind (page_value ctx ''storage_state localStorage: '' local_storage_js) (\<lambda>ls.
     let state = jobj [(''cookies'', JArray (map (\<lambda>c. jobj (cookie_fields c)) cookies)), (''local_storage'', ls)]
     in case path of
          None \<Rightarrow> t_return state
        | Some p \<Rightarrow>
            t_bind (t_lift (validate_file_path p)) (\<lambda>_.
            t_bind (write_output ctx ''storage_state'' p (bw_json_pretty lib state)) (\<lambda>_.
            t_return (jobj [(''path'', JString p), (''cookies'', json_nat (length cookies))])))))"

definition restored_cookie :: "json \<Rightarrow> set_cookie" where
  "restored_cookie c =
     \<lparr> co_name = unwrap_or (field_text c ''name'') [], co_value = unwrap_or (field_text c ''value'') [],
       co_domain = field_text c ''domain'', co_path = field_text c ''path'',
       co_expires = Option.bind (json_get c ''expires'') as_f64,
       co_http_only = Option.bind (json_get c ''http_only'') as_bool,
       co_secure = Option.bind (json_get c ''secure'') as_bool \<rparr>"

definition step_set_storage_state ::
    "browser_libs \<Rightarrow> ('b, 'el) step_context \<Rightarrow> string \<Rightarrow> ('b page_world, json) timed" where
  "step_set_storage_state lib ctx path =
     t_bind (t_lift (validate_file_path path)) (\<lambda>_.
     t_bind (page_do ctx (''set_storage_state read '' @ path @ '': '') (ReadFile path) (\<lambda>p. po_read p path)) (\<lambda>bytes.
     t_bind (t_lift (map_err (\<lambda>e. [''set_storage_state parse: '' @ e]) (bw_json_read lib bytes))) (\<lambda>state.
     t_bind
       (case Option.bind (json_get state ''cookies'') as_array of
          None \<Rightarrow> t_return ()
        | Some cookies \<Rightarrow>
            t_for_each (\<lambda>c. put_cookie ctx ''set_storage_state set cookie: '' (restored_cookie c)) cookies) (\<lambda>_.
     t_bind
       (case Option.bind (json_get state ''local_storage'') as_object of
          None \<Rightarrow> t_return ()
        | Some ls \<Rightarrow>
            t_bind (page_run ctx ''set_storage_state localStorage: '' (restore_storage_js (bw_json_text lib (JObject ls)))) (\<lambda>_.
            t_return ())) (\<lambda>_.
     t_return (jobj [(''ok'', JBool True), (''path'', JString path)]))))))"

section \<open>Dialogs, documents, locators\<close>

definition answer_dialog ::
    "('b, 'el) step_context \<Rightarrow> bool \<Rightarrow> string option \<Rightarrow> ('b page_world, string + unit) timed" where
  "answer_dialog ctx accept prompt_text =
     await (sc_deadline ctx) (AnswerDialog accept prompt_text) (po_answer_dialog (sc_page ctx) accept prompt_text)"

definition step_handle_dialog ::
    "('b, 'el) step_context \<Rightarrow> bool \<Rightarrow> string option \<Rightarrow> ('b page_world, json) timed" where
  "step_handle_dialog ctx accept prompt_text =
     t_bind (page_do ctx ''handle_dialog: subscribe: '' ListenDialogs po_listen_dialogs) (\<lambda>_.
     t_bind (answer_dialog ctx accept prompt_text) (\<lambda>r.
     let answer = jobj [(''ok'', JBool True), (''accept'', JBool accept)]
     in if is_ok r then t_return answer
        else
          t_bind (t_timeout (sc_deadline ctx) (unat (sc_global_timeout_ms ctx) * ms)
                    [''handle_dialog: timed out waiting for dialog to appear'']
                    (\<lambda>deadline. await deadline NextDialog (po_next_dialog (sc_page ctx)))) (\<lambda>_.
          t_bind (answer_dialog ctx accept prompt_text) (\<lambda>r'.
          t_bind (t_lift (map_err (\<lambda>e. [''handle_dialog: '' @ e]) r')) (\<lambda>_.
          t_return answer)))))"

definition step_pdf_save :: "browser_libs \<Rightarrow> ('b, 'el) step_context \<Rightarrow> string option \<Rightarrow> ('b page_world, json) timed" where
  "step_pdf_save lib ctx path =
     t_bind (t_lift (check_path path)) (\<lambda>_.
     t_bind (page_do ctx ''pdf_save: '' PrintPdf po_print_pdf) (\<lambda>b64.
     t_bind (t_lift (map_err (\<lambda>e. [''pdf_save base64 decode: '' @ e]) (bw_base64_decode lib (trim b64)))) (\<lambda>pdf_bytes.
     case path of
       Some p \<Rightarrow>
         t_bind (write_output ctx ''pdf_save'' p pdf_bytes) (\<lambda>_.
         t_return (jobj [(''path'', JString p), (''size'', json_nat (length pdf_bytes))]))
     | None \<Rightarrow>
         t_return (jobj [(''data'', JString (bw_base64 lib pdf_bytes)), (''size'', json_nat (length pdf_bytes))]))))"

definition locator_char_ok :: "browser_libs \<Rightarrow> string \<Rightarrow> bool" where
  "locator_char_ok lib c \<longleftrightarrow> bw_alphanumeric lib c \<or> c = ''-'' \<or> c = ''_''"

definition step_generate_locator :: "browser_libs \<Rightarrow> string \<Rightarrow> json result" where
  "step_generate_locator lib ref =
     (if \<not> list_all (locator_char_ok lib) (chars ref)
      then bail (''generate_locator: ref '' @ [CHR 0x27] @ ref @ [CHR 0x27]
             @ '' contains characters unsafe for CSS attribute selector'')
      else Inr (jobj [(''locator'', JString (''[data-ref='' @ dquoted ref @ '']'')), (''ref'', JString ref)]))"

end
