(* ===== verification/BrowserRun.thy ===== *)
theory BrowserRun
  imports BrowserState Config
begin

text \<open>
  The dispatcher and the step loop of a browser command (\<open>crates/earl-protocol-browser/src/steps.rs\<close>), and what a run
  of them does: which calls each step may make, how long a run may take, and which failures end it.
\<close>

section \<open>The dispatcher\<close>

definition ref_unsupported :: "('b, 'el) step_context \<Rightarrow> string \<Rightarrow> string \<Rightarrow> json result" where
  "ref_unsupported ctx action subject =
     bail (show_step (sc_step_index ctx) action
       @ '': ref-based targeting is not yet implemented; omit the ref field to match against the '' @ subject)"

definition empty_list_note :: "string \<Rightarrow> string \<Rightarrow> json" where
  "empty_list_note key note = jobj [(key, JArray []), (''note'', JString note)]"

definition not_yet :: "string \<Rightarrow> json" where
  "not_yet what = note_json (what @ '': not yet implemented'')"

primrec execute_step ::
    "browser_libs \<Rightarrow> ('b, 'el) step_context \<Rightarrow> browser_step \<Rightarrow> ('b page_world, json) timed" where
  "execute_step lib ctx (Navigate url expected_status t opt) = step_navigate lib ctx url expected_status"
| "execute_step lib ctx (NavigateBack t opt) = step_navigate_back ctx"
| "execute_step lib ctx (NavigateForward t opt) = step_navigate_forward ctx"
| "execute_step lib ctx (Reload t opt) = step_reload ctx"
| "execute_step lib ctx (Snapshot t opt) = step_snapshot ctx"
| "execute_step lib ctx (Screenshot path kind full_page ref t opt) = step_screenshot lib ctx path full_page"
| "execute_step lib ctx (Click ref selector double_click t opt) = step_click ctx ref selector double_click"
| "execute_step lib ctx (Hover ref selector t opt) = step_hover ctx ref selector"
| "execute_step lib ctx (Fill ref selector txt submit t opt) = step_fill ctx ref selector txt submit"
| "execute_step lib ctx (SelectOption ref selector opts t opt) = step_select_option lib ctx selector opts"
| "execute_step lib ctx (PressKey key t opt) = step_press_key lib ctx key"
| "execute_step lib ctx (Check ref selector t opt) = step_set_checked ctx ref selector True"
| "execute_step lib ctx (Uncheck ref selector t opt) = step_set_checked ctx ref selector False"
| "execute_step lib ctx (Drag start_ref start_selector end_ref end_selector t opt) =
     step_drag lib ctx start_selector end_selector"
| "execute_step lib ctx (FillForm form_fields t opt) = step_fill_form ctx form_fields"
| "execute_step lib ctx (MouseMove x y opt) = step_mouse_move ctx x y"
| "execute_step lib ctx (MouseClick x y button opt) = step_mouse_click ctx x y button"
| "execute_step lib ctx (MouseDrag sx sy ex ey opt) = step_mouse_drag ctx sx sy ex ey"
| "execute_step lib ctx (MouseDown button opt) = step_mouse_button ctx button True"
| "execute_step lib ctx (MouseUp button opt) = step_mouse_button ctx button False"
| "execute_step lib ctx (MouseWheel dx dy opt) = step_mouse_wheel ctx dx dy"
| "execute_step lib ctx (WaitFor time txt txt_gone timeout_ms opt) =
     step_wait_for ctx time txt txt_gone (unwrap_or timeout_ms (sc_global_timeout_ms ctx))"
| "execute_step lib ctx (VerifyElementVisible role acc_name opt) = step_verify_element_visible lib ctx role acc_name"
| "execute_step lib ctx (VerifyTextVisible txt opt) = step_verify_text_visible lib ctx txt"
| "execute_step lib ctx (VerifyListVisible ref items opt) =
     (if ref \<noteq> None then t_lift (ref_unsupported ctx ''verify_list_visible'' ''full page text'')
      else step_verify_list_visible lib ctx items)"
| "execute_step lib ctx (VerifyValue ref val opt) =
     (if ref \<noteq> None then t_lift (ref_unsupported ctx ''verify_value'' ''active element'')
      else step_verify_value lib ctx val)"
| "execute_step lib ctx (Evaluate function_text ref t opt) = step_evaluate ctx function_text"
| "execute_step lib ctx (RunCode code t opt) = step_run_code ctx code"
| "execute_step lib ctx (Tabs operation index opt) = step_tabs ctx operation"
| "execute_step lib ctx (Resize width height opt) = step_resize ctx width height"
| "execute_step lib ctx (Close_Tab opt) = step_close ctx"
| "execute_step lib ctx (ConsoleMessages pat t opt) =
     t_return (empty_list_note ''messages'' ''console_messages: not yet implemented'')"
| "execute_step lib ctx (ConsoleClear opt) = t_return (not_yet ''console_clear'')"
| "execute_step lib ctx (NetworkRequests static_too opt) =
     t_return (empty_list_note ''requests'' ''network_requests: not yet implemented'')"
| "execute_step lib ctx (NetworkClear opt) = t_return (not_yet ''network_clear'')"
| "execute_step lib ctx (Route pat status body ctype opt) = t_return (not_yet ''route'')"
| "execute_step lib ctx (RouteList opt) = t_return (empty_list_note ''routes'' ''route_list: not yet implemented'')"
| "execute_step lib ctx (Unroute pat opt) = t_return (not_yet ''unroute'')"
| "execute_step lib ctx (CookieList domain opt) = step_cookie_list ctx domain"
| "execute_step lib ctx (CookieGet name opt) = step_cookie_get ctx name"
| "execute_step lib ctx (CookieSet name val domain path expires http_only secure opt) =
     step_cookie_set ctx name val domain path expires http_only secure"
| "execute_step lib ctx (CookieDelete name opt) = step_cookie_delete ctx name"
| "execute_step lib ctx (CookieClear opt) = step_cookie_clear ctx"
| "execute_step lib ctx (LocalStorageGet key opt) = step_storage_get lib ctx ''local'' key"
| "execute_step lib ctx (LocalStorageSet key val opt) = step_storage_set lib ctx ''local'' key val"
| "execute_step lib ctx (LocalStorageDelete key opt) = step_storage_delete lib ctx ''local'' key"
| "execute_step lib ctx (LocalStorageClear opt) = step_storage_clear ctx ''local''"
| "execute_step lib ctx (SessionStorageGet key opt) = step_storage_get lib ctx ''session'' key"
| "execute_step lib ctx (SessionStorageSet key val opt) = step_storage_set lib ctx ''session'' key val"
| "execute_step lib ctx (SessionStorageDelete key opt) = step_storage_delete lib ctx ''session'' key"
| "execute_step lib ctx (SessionStorageClear opt) = step_storage_clear ctx ''session''"
| "execute_step lib ctx (StorageState path opt) = step_storage_state lib ctx path"
| "execute_step lib ctx (SetStorageState path opt) = step_set_storage_state lib ctx path"
| "execute_step lib ctx (FileUpload paths t opt) = t_return (not_yet ''file_upload'')"
| "execute_step lib ctx (HandleDialog accept prompt_text opt) = step_handle_dialog ctx accept prompt_text"
| "execute_step lib ctx (Download save_to t opt) = t_return (not_yet ''download'')"
| "execute_step lib ctx (PdfSave path opt) = step_pdf_save lib ctx path"
| "execute_step lib ctx (StartVideo width height opt) = t_return (not_yet ''video recording'')"
| "execute_step lib ctx (StopVideo path opt) = t_return (not_yet ''video recording'')"
| "execute_step lib ctx (StartTracing opt) = t_return (not_yet ''tracing'')"
| "execute_step lib ctx (StopTracing path opt) = t_return (not_yet ''tracing'')"
| "execute_step lib ctx (GenerateLocator ref opt) = t_lift (step_generate_locator lib ref)"

section \<open>The step loop\<close>

text \<open>
  The picture taken when a required step has failed: two seconds at most, every error dropped. Writing the file does
  not wait.
\<close>

definition diagnostic_path :: "browser_libs \<Rightarrow> int \<Rightarrow> string" where
  "diagnostic_path lib now_ms =
     path_join (bw_temp_dir lib) (''earl-browser-failure-'' @ show_int now_ms @ ''.png'')"

definition attempt_failure_screenshot ::
    "browser_libs \<Rightarrow> ('b, 'el) page_ops \<Rightarrow> 'b page_world \<Rightarrow> 'b page_world" where
  "attempt_failure_screenshot lib ops w =
     (case await (tw_now w + 2000 * ms) (TakeScreenshot False) (po_screenshot ops False) w of
        (Done (Inr (Inr bytes)), w') \<Rightarrow>
          (let path = diagnostic_path lib (po_timestamp_millis ops (tw_inner w'))
           in case po_write_diagnostic ops path bytes (tw_inner w') of
                (ok, inner) \<Rightarrow> w' \<lparr> tw_inner := inner, tw_log := tw_log w' @ [WriteDiagnostic path bytes] \<rparr>)
      | (r, w') \<Rightarrow> w')"

definition step_context_at ::
    "('b, 'el) page_ops \<Rightarrow> u64 \<Rightarrow> nat \<Rightarrow> nat \<Rightarrow> browser_step \<Rightarrow> nat \<Rightarrow> ('b, 'el) step_context" where
  "step_context_at ops global_timeout_ms total_steps i step now =
     \<lparr> sc_page = ops, sc_step_index = i, sc_total_steps = total_steps, sc_global_timeout_ms = global_timeout_ms,
       sc_deadline = now + unat (step_timeout_ms step global_timeout_ms) * ms \<rparr>"

text \<open>What one step comes to: its value, or the error it ends with; a panic ends the run.\<close>

definition step_outcome ::
    "browser_libs \<Rightarrow> ('b, 'el) page_ops \<Rightarrow> u64 \<Rightarrow> nat \<Rightarrow> nat \<Rightarrow> browser_step \<Rightarrow> ('b page_world, json) timed" where
  "step_outcome lib ops global_timeout_ms total_steps i step w =
     (case execute_step lib (step_context_at ops global_timeout_ms total_steps i step (tw_now w)) step w of
        (Elapsed, w') \<Rightarrow>
          (Done (browser_bail (StepTimeout i (action_name step) (step_timeout_ms step global_timeout_ms))), w')
      | run \<Rightarrow> run)"

fun run_steps ::
    "browser_libs \<Rightarrow> ('b, 'el) page_ops \<Rightarrow> u64 \<Rightarrow> bool \<Rightarrow> nat \<Rightarrow> nat \<Rightarrow> json \<Rightarrow> browser_step list
     \<Rightarrow> ('b page_world, json) timed" where
  "run_steps lib ops global_timeout_ms on_failure_screenshot total_steps i last_result [] w = (Done (Inr last_result), w)"
| "run_steps lib ops global_timeout_ms on_failure_screenshot total_steps i last_result (step # steps) w =
     (case step_outcome lib ops global_timeout_ms total_steps i step w of
        (Done (Inr val), w') \<Rightarrow>
          run_steps lib ops global_timeout_ms on_failure_screenshot total_steps (i + 1) val steps w'
      | (Done (Inl e), w') \<Rightarrow>
          if is_optional step
          then run_steps lib ops global_timeout_ms on_failure_screenshot total_steps (i + 1) last_result steps w'
          else (Done (Inl e), if on_failure_screenshot then attempt_failure_screenshot lib ops w' else w')
      | (Elapsed, w') \<Rightarrow> (Elapsed, w')
      | (Panicked, w') \<Rightarrow> (Panicked, w'))"

definition execute_steps ::
    "browser_libs \<Rightarrow> ('b, 'el) page_ops \<Rightarrow> browser_step list \<Rightarrow> u64 \<Rightarrow> bool \<Rightarrow> ('b page_world, json) timed" where
  "execute_steps lib ops steps global_timeout_ms on_failure_screenshot =
     run_steps lib ops global_timeout_ms on_failure_screenshot (length steps) 0 ok_json steps"

end
