(* ===== verification/BrowserSafety.thy ===== *)
theory BrowserSafety
  imports BrowserRun
begin

text \<open>
  What a run of browser steps does: each step makes only the calls that its fields name, ends by its deadline, and the
  run takes no longer than its steps' timeouts together; it fails only with the error of a required step.
\<close>

section \<open>The calls a step may make\<close>

definition relative_path :: "string \<Rightarrow> bool" where
  "relative_path path \<longleftrightarrow> \<not> prefix ''/'' path \<and> \<not> has_parent_dir path"

text \<open>The scripts a step runs in the page: its own code, or a fixed text around JSON.\<close>

definition step_scripts :: "browser_libs \<Rightarrow> browser_step \<Rightarrow> string \<Rightarrow> bool" where
  "step_scripts lib step js \<longleftrightarrow>
     (let quote = (\<lambda>s. bw_json_text lib (JString s)) in
      case step of
        Navigate url status t opt \<Rightarrow> js = status_js
      | SelectOption ref selector opts t opt \<Rightarrow>
          js = select_option_js (quote (unwrap_or selector [])) (bw_json_text lib (JArray (map JString opts)))
      | Drag r1 s1 r2 s2 t opt \<Rightarrow> js = drag_js (quote (unwrap_or s1 [])) (quote (unwrap_or s2 []))
      | MouseDown button opt \<Rightarrow> js = centre_js
      | MouseUp button opt \<Rightarrow> js = centre_js
      | MouseWheel dx dy opt \<Rightarrow> js = centre_js
      | WaitFor time txt gone t opt \<Rightarrow> js = body_text_js
      | VerifyTextVisible txt opt \<Rightarrow> js = body_text_js
      | VerifyListVisible ref items opt \<Rightarrow> js = body_text_js
      | VerifyElementVisible role name opt \<Rightarrow>
          js = element_visible_js (quote (unwrap_or role [])) (quote (unwrap_or name []))
      | VerifyValue ref val opt \<Rightarrow> js = active_value_js
      | Evaluate code ref t opt \<Rightarrow> js = code
      | RunCode code t opt \<Rightarrow> js = run_code_js code
      | Tabs operation index opt \<Rightarrow> js = location_js
      | LocalStorageGet key opt \<Rightarrow> js = storage_call_js ''local'' ''getItem'' [quote key]
      | LocalStorageSet key val opt \<Rightarrow> js = storage_call_js ''local'' ''setItem'' [quote key, quote val]
      | LocalStorageDelete key opt \<Rightarrow> js = storage_call_js ''local'' ''removeItem'' [quote key]
      | LocalStorageClear opt \<Rightarrow> js = storage_call_js ''local'' ''clear'' []
      | SessionStorageGet key opt \<Rightarrow> js = storage_call_js ''session'' ''getItem'' [quote key]
      | SessionStorageSet key val opt \<Rightarrow> js = storage_call_js ''session'' ''setItem'' [quote key, quote val]
      | SessionStorageDelete key opt \<Rightarrow> js = storage_call_js ''session'' ''removeItem'' [quote key]
      | SessionStorageClear opt \<Rightarrow> js = storage_call_js ''session'' ''clear'' []
      | StorageState path opt \<Rightarrow> js = local_storage_js
      | SetStorageState path opt \<Rightarrow> (\<exists>ls. js = restore_storage_js (bw_json_text lib (JObject ls)))
      | _ \<Rightarrow> False)"

text \<open>The file a step writes and the one it reads.\<close>

definition step_output :: "browser_step \<Rightarrow> string option" where
  "step_output step =
     (case step of
        Screenshot path kind full_page ref t opt \<Rightarrow> path
      | StorageState path opt \<Rightarrow> path
      | PdfSave path opt \<Rightarrow> path
      | _ \<Rightarrow> None)"

definition step_input :: "browser_step \<Rightarrow> string option" where
  "step_input step = (case step of SetStorageState path opt \<Rightarrow> Some path | _ \<Rightarrow> None)"

definition step_target :: "browser_step \<Rightarrow> string option" where
  "step_target step = (case step of Navigate url status t opt \<Rightarrow> Some url | _ \<Rightarrow> None)"

definition sets_cookie :: "browser_step \<Rightarrow> string \<Rightarrow> bool" where
  "sets_cookie step name \<longleftrightarrow>
     (case step of
        CookieSet n v d p e h s opt \<Rightarrow> name = n
      | SetStorageState path opt \<Rightarrow> True
      | _ \<Rightarrow> False)"

definition step_call_ok :: "browser_libs \<Rightarrow> browser_step \<Rightarrow> page_call \<Rightarrow> bool" where
  "step_call_ok lib step call \<longleftrightarrow>
     (case call of
        Goto url \<Rightarrow>
          step_target step = Some url \<and> bw_lowercase lib (hd (split_char (CHR '':'') url)) \<in> {''http'', ''https''}
      | EvalJs js \<Rightarrow> step_scripts lib step js
      | ElementJs js \<Rightarrow> js \<in> {dblclick_js, clear_value_js, checked_js}
      | WriteFile path bytes \<Rightarrow> step_output step = Some path \<and> relative_path path
      | ReadFile path \<Rightarrow> step_input step = Some path \<and> relative_path path
      | SetCookie params \<Rightarrow> sets_cookie step (co_name params)
      | WriteDiagnostic path bytes \<Rightarrow> False
      | _ \<Rightarrow> True)"

lemmas step_call_simps = step_call_ok_def step_scripts_def step_output_def step_input_def step_target_def sets_cookie_def

lemma validate_file_path_Inr [simp]: "validate_file_path path = Inr u \<longleftrightarrow> relative_path path"
  by (simp add: validate_file_path_def relative_path_def bail_def)

lemma validate_url_scheme_Inr [simp]:
  "validate_url_scheme lib url = Inr u \<longleftrightarrow> bw_lowercase lib (hd (split_char (CHR '':'') url)) \<in> {''http'', ''https''}"
  by (simp add: validate_url_scheme_def browser_bail_def bail_def Let_def)

section \<open>Every step makes only those, by its deadline\<close>

lemma within_page_do [within_intros]: "P call \<Longrightarrow> within (sc_deadline ctx) P (page_do ctx msg call f)"
  unfolding page_do_def by (rule within_call_or)

lemma within_page_run [within_intros]: "P (EvalJs js) \<Longrightarrow> within (sc_deadline ctx) P (page_run ctx msg js)"
  unfolding page_run_def by (rule within_page_do)

lemma within_page_value [within_intros]: "P (EvalJs js) \<Longrightarrow> within (sc_deadline ctx) P (page_value ctx msg js)"
  unfolding page_value_def by (intro within_intros)

lemma within_step_pause [within_intros]: "P (SleepFor d) \<Longrightarrow> within (sc_deadline ctx) P (step_pause ctx d)"
  unfolding step_pause_def by (rule within_sleep)

lemma within_find_element [within_intros]:
  "(\<And>sel. P (FindElement sel)) \<Longrightarrow> within (sc_deadline ctx) P (find_element_by_selector ctx selector ref action)"
  unfolding find_element_by_selector_def by (intro within_intros)

lemma within_write_output [within_intros]:
  "P (WriteFile p bytes) \<Longrightarrow> within (sc_deadline ctx) P (write_output ctx what p bytes)"
  unfolding write_output_def by (rule within_page_do)

lemma within_go_to_entry [within_intros]:
  "P (ToHistoryEntry i) \<Longrightarrow> P AwaitNavigation \<Longrightarrow> within (sc_deadline ctx) P (go_to_entry ctx direction go i)"
  unfolding go_to_entry_def by (intro within_intros)

lemma within_fill [within_intros]:
  assumes "\<And>sel. P (FindElement sel)" "P ElementClick" "P (ElementJs clear_value_js)" "\<And>s. P (ElementType s)"
    "P (ElementKey ''Enter'')"
  shows "within (sc_deadline ctx) P (step_fill ctx ref selector txt submit)"
  unfolding step_fill_def click_element_def element_js_def by (intro within_intros assms)

lemma within_set_checked [within_intros]:
  assumes "\<And>sel. P (FindElement sel)" "P ElementClick" "P (ElementJs checked_js)"
  shows "within (sc_deadline ctx) P (step_set_checked ctx ref selector checked)"
  unfolding step_set_checked_def click_element_def element_js_def by (intro within_intros assms)

lemma within_fill_field [within_intros]:
  assumes "\<And>sel. P (FindElement sel)" "P ElementClick" "\<And>js. js \<in> {clear_value_js, checked_js} \<Longrightarrow> P (ElementJs js)"
    "\<And>s. P (ElementType s)" "P (ElementKey ''Enter'')"
  shows "within (sc_deadline ctx) P (fill_field ctx field)"
  unfolding fill_field_def by (intro within_intros assms) simp_all

lemma within_wait_loop:
  assumes "P (EvalJs body_text_js)" and "\<And>d. P (SleepFor d)"
  shows "within (sc_deadline ctx) P (wait_loop ctx wanted gone timeout_ms deadline)"
proof -
  have "wait_loop ctx wanted gone timeout_ms deadline w = (r, w') \<Longrightarrow> tw_now w \<le> sc_deadline ctx \<Longrightarrow>
      tw_now w \<le> tw_now w' \<and> tw_now w' \<le> sc_deadline ctx \<and>
      (\<exists>calls. tw_log w' = tw_log w @ calls \<and> list_all P calls)" for w r w'
  proof (induction "deadline - tw_now w" arbitrary: w rule: less_induct)
    case less
    obtain x v where first: "page_value ctx ''wait_for evaluate: '' body_text_js w = (x, v)"
      by (cases "page_value ctx ''wait_for evaluate: '' body_text_js w")
    from withinD [OF within_page_value [of P, OF assms(1)] first less.prems(2)] obtain calls
      where v: "tw_now w \<le> tw_now v" "tw_now v \<le> sc_deadline ctx" "tw_log v = tw_log w @ calls" "list_all P calls" .
    define d where "d = min (deadline - tw_now v) (200 * ms)"
    show ?case
    proof (cases "\<exists>body. x = Done (Inr body) \<and> \<not> text_wait_over (text_of body) wanted gone \<and> tw_now v < deadline")
      case False
      with less.prems(1) first have "w' = v"
        by (subst (asm) wait_loop.simps) (auto simp: t_bind_def split: outcome.splits sum.splits if_splits)
      with v show ?thesis by blast
    next
      case True
      obtain y u where nap: "step_pause ctx d v = (y, u)" by (cases "step_pause ctx d v")
      from withinD [OF within_step_pause [of P, OF assms(2)] nap v(2)] obtain more
        where u: "tw_now v \<le> tw_now u" "tw_now u \<le> sc_deadline ctx" "tw_log u = tw_log v @ more" "list_all P more" .
      from True first nap less.prems(1) have
        rest: "t_bind (\<lambda>v. (y, u)) (\<lambda>_. wait_loop ctx wanted gone timeout_ms deadline) v = (r, w')"
        by (subst (asm) wait_loop.simps) (auto simp: t_bind_def d_def)
      show ?thesis
      proof (cases "\<exists>z. y = Done (Inr z)")
        case False
        with rest have "w' = u" by (auto simp: t_bind_def split: outcome.splits sum.splits)
        with u v show ?thesis by auto
      next
        case again: True
        with rest have rec: "wait_loop ctx wanted gone timeout_ms deadline u = (r, w')" by auto
        from again nap have "tw_now v + d \<le> tw_now u" by (auto dest: step_pause_advances)
        with True v have "deadline - tw_now u < deadline - tw_now w" by (auto simp: d_def ms_def)
        from less.hyps [OF this rec u(2)] u v show ?thesis by auto
      qed
    qed
  qed
  then show ?thesis unfolding within_def by blast
qed

lemma within_wait_for [within_intros]:
  assumes "P (EvalJs body_text_js)" and "\<And>d. P (SleepFor d)"
  shows "within (sc_deadline ctx) P (step_wait_for ctx time wanted gone timeout_ms)"
proof -
  have "within (sc_deadline ctx) P (\<lambda>w. wait_loop ctx wanted gone timeout_ms (f w) w)" for f
    using within_wait_loop [of P ctx wanted gone timeout_ms, OF assms] unfolding within_def by blast
  then show ?thesis unfolding step_wait_for_def by (intro within_intros assms)
qed

lemma within_navigate:
  assumes "validate_url_scheme lib url = Inr () \<Longrightarrow> P (Goto url)" and "P (EvalJs status_js)"
  shows "within (sc_deadline ctx) P (step_navigate lib ctx url expected_status)"
  unfolding step_navigate_def by (rule within_lift_bind) (intro within_intros assms, simp)

lemma within_screenshot:
  assumes "P (TakeScreenshot full_page)" and "\<And>p bytes. path = Some p \<Longrightarrow> relative_path p \<Longrightarrow> P (WriteFile p bytes)"
  shows "within (sc_deadline ctx) P (step_screenshot lib ctx path full_page)"
  unfolding step_screenshot_def
  by (rule within_lift_bind) (intro within_intros assms, simp_all add: check_path_def)

lemma within_pdf_save:
  assumes "P PrintPdf" and "\<And>p bytes. path = Some p \<Longrightarrow> relative_path p \<Longrightarrow> P (WriteFile p bytes)"
  shows "within (sc_deadline ctx) P (step_pdf_save lib ctx path)"
  unfolding step_pdf_save_def
  by (rule within_lift_bind) (intro within_intros assms, simp_all add: check_path_def)

lemma within_storage_state:
  assumes "P GetCookies" "P (EvalJs local_storage_js)"
    and "\<And>p bytes. path = Some p \<Longrightarrow> relative_path p \<Longrightarrow> P (WriteFile p bytes)"
  shows "within (sc_deadline ctx) P (step_storage_state lib ctx path)"
  unfolding step_storage_state_def all_cookies_def Let_def
  by (intro within_bind within_page_do within_page_value within_option within_return within_lift_bind
      within_write_output assms) simp_all

lemma within_set_storage_state:
  assumes "relative_path path \<Longrightarrow> P (ReadFile path)" and "\<And>c. P (SetCookie c)"
    and "\<And>ls. P (EvalJs (restore_storage_js (bw_json_text lib (JObject ls))))"
  shows "within (sc_deadline ctx) P (step_set_storage_state lib ctx path)"
  unfolding step_set_storage_state_def put_cookie_def
  by (rule within_lift_bind) (intro within_intros assms, simp)

lemma within_handle_dialog [within_intros]:
  assumes "P ListenDialogs" "P (AnswerDialog accept prompt_text)" "P NextDialog"
  shows "within (sc_deadline ctx) P (step_handle_dialog ctx accept prompt_text)"
  unfolding step_handle_dialog_def answer_dialog_def by (intro within_intros assms)

lemmas step_defs =
  step_navigate_back_def step_navigate_forward_def step_reload_def step_snapshot_def step_click_def step_hover_def
  step_select_option_def step_press_key_def step_drag_def step_fill_form_def step_mouse_move_def
  step_mouse_click_def step_mouse_drag_def step_mouse_button_def step_mouse_wheel_def step_verify_text_visible_def
  step_verify_list_visible_def step_verify_element_visible_def visible_script_def step_verify_value_def
  step_evaluate_def step_run_code_def step_tabs_def step_resize_def step_close_def step_cookie_list_def
  step_cookie_get_def step_cookie_set_def step_cookie_delete_def step_cookie_clear_def step_storage_get_def
  step_storage_set_def step_storage_delete_def step_storage_clear_def click_element_def element_js_def send_key_def
  send_mouse_def all_cookies_def put_cookie_def

lemma step_within: "within (sc_deadline ctx) (step_call_ok lib step) (execute_step lib ctx step)"
  by (cases step)
    (simp_all only: execute_step.simps step_defs,
     (intro within_intros within_navigate within_screenshot within_pdf_save within_storage_state within_set_storage_state;
      auto simp: step_call_simps)+)


section \<open>The run\<close>

text \<open>The calls of the steps and, when it is asked for, of the picture after a failure.\<close>

definition run_call_ok :: "browser_libs \<Rightarrow> browser_step list \<Rightarrow> bool \<Rightarrow> page_call \<Rightarrow> bool" where
  "run_call_ok lib steps on_failure_screenshot call \<longleftrightarrow>
     list_ex (\<lambda>step. step_call_ok lib step call) steps
     \<or> on_failure_screenshot
        \<and> (case call of
             TakeScreenshot full_page \<Rightarrow> \<not> full_page
           | WriteDiagnostic path bytes \<Rightarrow> (\<exists>now_ms. path = diagnostic_path lib now_ms)
           | _ \<Rightarrow> False)"

definition run_budget :: "browser_step list \<Rightarrow> u64 \<Rightarrow> nat" where
  "run_budget steps global_timeout_ms = sum_list (map (\<lambda>step. unat (step_timeout_ms step global_timeout_ms) * ms) steps)"

definition picture_budget :: "bool \<Rightarrow> nat" where
  "picture_budget on_failure_screenshot = (if on_failure_screenshot then 2000 * ms else 0)"

text \<open>From one world to a later one: time has passed within a budget, and the calls are allowed.\<close>

definition moves :: "(page_call \<Rightarrow> bool) \<Rightarrow> nat \<Rightarrow> 'b page_world \<Rightarrow> 'b page_world \<Rightarrow> bool" where
  "moves P budget w w' \<longleftrightarrow>
     tw_now w \<le> tw_now w' \<and> tw_now w' \<le> tw_now w + budget
     \<and> (\<exists>calls. tw_log w' = tw_log w @ calls \<and> list_all P calls)"

lemma moves_refl: "moves P budget w w"
  by (simp add: moves_def)

lemma moves_trans: "moves P a u v \<Longrightarrow> moves P b v w \<Longrightarrow> a + b \<le> c \<Longrightarrow> moves P c u w"
  by (auto simp: moves_def)

lemma moves_mono: "moves P a u v \<Longrightarrow> a \<le> b \<Longrightarrow> moves P b u v"
  by (auto simp: moves_def)

lemma moves_within: "within (tw_now w + d) P m \<Longrightarrow> m w = (r, w') \<Longrightarrow> moves P d w w'"
  unfolding within_def moves_def by (meson le_add1)

lemma screenshot_moves:
  assumes "P (TakeScreenshot False)" and "\<And>now_ms bytes. P (WriteDiagnostic (diagnostic_path lib now_ms) bytes)"
  shows "moves P (2000 * ms) w (attempt_failure_screenshot lib ops w)"
proof -
  define shot where "shot = await (tw_now w + 2000 * ms) (TakeScreenshot False) (po_screenshot ops False)"
  obtain r v where run: "shot w = (r, v)" by (cases "shot w")
  have "within (tw_now w + 2000 * ms) P shot"
    unfolding shot_def using assms(1) by (rule within_await)
  from moves_within [OF this run] have moved: "moves P (2000 * ms) w v" .
  show ?thesis
  proof (cases "\<exists>bytes. r = Done (Inr (Inr bytes))")
    case True
    then obtain bytes where "shot w = (Done (Inr (Inr bytes)), v)" using run by blast
    then show ?thesis
      using moved assms(2)
      by (auto simp: attempt_failure_screenshot_def shot_def [symmetric] moves_def Let_def split: prod.splits)
  next
    case False
    then have "attempt_failure_screenshot lib ops w = v"
      using run by (auto simp: attempt_failure_screenshot_def shot_def [symmetric] split: outcome.splits sum.splits)
    with moved show ?thesis by simp
  qed
qed

lemma step_outcome_moves:
  assumes "step_outcome lib ops global_timeout_ms total_steps i step w = (r, w')"
  shows "moves (step_call_ok lib step) (unat (step_timeout_ms step global_timeout_ms) * ms) w w'" "r \<noteq> Elapsed"
proof -
  define ctx where "ctx = step_context_at ops global_timeout_ms total_steps i step (tw_now w)"
  obtain r' where run: "execute_step lib ctx step w = (r', w')" and "r \<noteq> Elapsed"
    using assms by (auto simp: step_outcome_def ctx_def split: prod.splits outcome.splits)
  then show "r \<noteq> Elapsed" by simp
  have "sc_deadline ctx = tw_now w + unat (step_timeout_ms step global_timeout_ms) * ms"
    by (simp add: ctx_def step_context_at_def)
  with step_within [of ctx lib step] moves_within [where m = "execute_step lib ctx step", OF _ run]
  show "moves (step_call_ok lib step) (unat (step_timeout_ms step global_timeout_ms) * ms) w w'" by simp
qed

lemma moves_weaken: "moves P d w w' \<Longrightarrow> (\<And>c. P c \<Longrightarrow> Q c) \<Longrightarrow> moves Q d w w'"
  unfolding moves_def by (metis list.pred_mono_strong)

lemma run_steps_moves:
  assumes "run_steps lib ops global_timeout_ms shot total_steps i last_result steps w = (r, w')"
    and "\<And>step call. step \<in> set steps \<Longrightarrow> step_call_ok lib step call \<Longrightarrow> P call"
    and "shot \<Longrightarrow> P (TakeScreenshot False)"
    and "\<And>now_ms bytes. shot \<Longrightarrow> P (WriteDiagnostic (diagnostic_path lib now_ms) bytes)"
  shows "moves P (run_budget steps global_timeout_ms + picture_budget shot) w w' \<and> r \<noteq> Elapsed"
  using assms
proof (induction steps arbitrary: i last_result w)
  case Nil
  then show ?case by (auto simp: moves_refl)
next
  case (Cons step steps)
  let ?b = "unat (step_timeout_ms step global_timeout_ms) * ms"
  have budget: "run_budget (step # steps) global_timeout_ms = ?b + run_budget steps global_timeout_ms"
    by (simp add: run_budget_def)
  obtain r1 v where one: "step_outcome lib ops global_timeout_ms total_steps i step w = (r1, v)"
    by (cases "step_outcome lib ops global_timeout_ms total_steps i step w")
  from step_outcome_moves(1) [OF one] have first: "moves P ?b w v"
    by (rule moves_weaken) (auto intro: Cons.prems(2))
  have fin: "r1 \<noteq> Elapsed" by (rule step_outcome_moves(2) [OF one])
  have go_on: ?case if "run_steps lib ops global_timeout_ms shot total_steps (i + 1) val steps v = (r, w')" for val
  proof -
    have "moves P (run_budget steps global_timeout_ms + picture_budget shot) v w' \<and> r \<noteq> Elapsed"
      by (rule Cons.IH [OF that]) (use Cons.prems(2-4) in auto)
    with moves_trans [OF first, of "run_budget steps global_timeout_ms + picture_budget shot" w'] budget
    show ?thesis by simp
  qed
  show ?case
  proof (cases r1)
    case (Done res)
    then show ?thesis
    proof (cases res)
      case (Inl e)
      show ?thesis
      proof (cases "is_optional step")
        case True
        with Cons.prems(1) one Done Inl show ?thesis by (intro go_on [of last_result]) simp
      next
        case False
        with Cons.prems(1) one Done Inl
        have r: "r = Done (Inl e)" and w': "w' = (if shot then attempt_failure_screenshot lib ops v else v)" by auto
        have "moves P (picture_budget shot) v w'"
          using screenshot_moves [of P lib v ops] Cons.prems(3,4) by (auto simp: w' picture_budget_def moves_refl)
        with moves_trans [OF first, of "picture_budget shot" w'] r budget show ?thesis by simp
      qed
    next
      case (Inr val)
      with Cons.prems(1) one Done show ?thesis by (intro go_on [of val]) simp
    qed
  next
    case Panicked
    with Cons.prems(1) one first budget show ?thesis by (auto intro: moves_mono)
  qed (use fin in simp)
qed

lemma execute_steps_moves:
  "case execute_steps lib ops steps global_timeout_ms shot w of (r, w') \<Rightarrow>
     moves (run_call_ok lib steps shot) (run_budget steps global_timeout_ms + picture_budget shot) w w' \<and> r \<noteq> Elapsed"
proof -
  obtain r w' where run: "execute_steps lib ops steps global_timeout_ms shot w = (r, w')"
    by (cases "execute_steps lib ops steps global_timeout_ms shot w")
  have "moves (run_call_ok lib steps shot) (run_budget steps global_timeout_ms + picture_budget shot) w w' \<and> r \<noteq> Elapsed"
    by (rule run_steps_moves [OF run [unfolded execute_steps_def]]) (auto simp: run_call_ok_def list_ex_iff)
  with run show ?thesis by simp
qed

text \<open>
  C10. A run of browser steps navigates only to the addresses of its navigate steps, and of those only to http and https
  ones; it writes and reads only the files its steps name, all of them relative paths without two dots; every script it
  runs in the page is a step's own code or a fixed text around JSON text; and it sets only the cookies its steps give.
  The picture after a failure goes to the temporary directory.
\<close>

theorem browser_run_stays_inside:
  "case execute_steps lib ops steps global_timeout_ms on_failure_screenshot w of (r, w') \<Rightarrow>
     \<exists>calls. tw_log w' = tw_log w @ calls \<and> list_all (run_call_ok lib steps on_failure_screenshot) calls"
  using execute_steps_moves [where lib = lib and ops = ops and steps = steps and shot = on_failure_screenshot
    and global_timeout_ms = global_timeout_ms and w = w]
  by (auto simp: moves_def split: prod.splits)

text \<open>
  C19. Whatever the browser does, and also when it never answers, a run of browser steps comes to an end with a result or
  a panic, within the sum of its steps' timeouts and two more seconds for the picture where that is asked for.
\<close>

theorem browser_run_ends:
  "case execute_steps lib ops steps global_timeout_ms on_failure_screenshot w of (r, w') \<Rightarrow>
     r \<noteq> Elapsed
     \<and> tw_now w' \<le> tw_now w
         + sum_list (map (\<lambda>step. unat (step_timeout_ms step global_timeout_ms) * 1000000) steps)
         + (if on_failure_screenshot then 2000000000 else 0)"
  using execute_steps_moves [where lib = lib and ops = ops and steps = steps and shot = on_failure_screenshot
    and global_timeout_ms = global_timeout_ms and w = w]
  by (auto simp: moves_def run_budget_def picture_budget_def ms_def split: prod.splits)

lemma run_steps_append:
  "run_steps lib ops g shot n i last_result (xs @ ys) w =
     (case run_steps lib ops g shot n i last_result xs w of
        (Done (Inr val), w') \<Rightarrow> run_steps lib ops g shot n (i + length xs) val ys w'
      | run \<Rightarrow> run)"
  by (induction xs arbitrary: i last_result w) (auto split: prod.splits outcome.splits sum.splits)

lemma optional_steps_never_fail:
  "list_all is_optional steps \<Longrightarrow> fst (run_steps lib ops g shot n i last_result steps w) \<noteq> Done (Inl e)"
  by (induction steps arbitrary: i last_result w) (auto split: prod.splits outcome.splits sum.splits)

text \<open>
  The steps run in order: a list runs as its first part and then, only when that gave a value, the rest on the page
  it left, with the numbers going on; the first failure of a required step, or a panic, is the result of the whole. An
  optional step never fails a run, whatever goes wrong in it.
\<close>

theorem browser_steps_in_order:
  "run_steps lib ops g shot n i last_result (xs @ ys) w =
     (case run_steps lib ops g shot n i last_result xs w of
        (Done (Inr val), w') \<Rightarrow> run_steps lib ops g shot n (i + length xs) val ys w'
      | run \<Rightarrow> run)
   \<and> fst (run_steps lib ops g shot n i last_result (filter is_optional xs) w) \<noteq> Done (Inl e)"
  using run_steps_append [where lib = lib and ops = ops and xs = xs and ys = ys and w = w]
  by (simp add: optional_steps_never_fail list_all_iff)

end
