(* ===== verification/BrowserSession.thy ===== *)
theory BrowserSession
  imports BrowserSafety Builders Catalog Exec Config
begin

text \<open>
  How a browser command gets its page and gives it back: session files and locks, finding and launching Chrome, and
  the executor (\<open>session.rs\<close>, \<open>launcher.rs\<close>, \<open>executor.rs\<close> of \<open>crates/earl-protocol-browser\<close>). The browser, the
  file system, the process table and the clocks are operations of \<open>chrome_ops\<close>; each is noted in a log with whether it
  went well. The work is not under a deadline of its own; the steps are.
\<close>

section \<open>Sessions\<close>

definition session_char_ok :: "char \<Rightarrow> bool" where
  "session_char_ok c \<longleftrightarrow> is_ascii_alphanumeric c \<or> c = CHR ''-'' \<or> c = CHR ''_''"

definition validate_session_id :: "string \<Rightarrow> unit result" where
  "validate_session_id session_id =
     (if session_id = [] then bail ''session_id must not be empty''
      else if \<not> list_all session_char_ok session_id
      then bail (''session_id contains invalid characters; only ASCII letters, digits, hyphens, ''
             @ ''and underscores are allowed'')
      else Inr ())"

text \<open>Times are nanoseconds since the epoch.\<close>

record session_file =
  sf_pid :: u32
  sf_websocket_url :: string
  sf_target_id :: string
  sf_started_at :: int
  sf_last_used_at :: int
  sf_interrupted :: bool

text \<open>The libraries that read and write a session file: JSON, and chrono's form of a time.\<close>

record session_libs =
  sl_json_text :: "(string \<times> json) list \<Rightarrow> string"
  sl_json_read :: "string \<Rightarrow> string + json"
  sl_show_time :: "int \<Rightarrow> string"
  sl_read_time :: "string \<Rightarrow> int option"

definition session_fields :: "session_libs \<Rightarrow> session_file \<Rightarrow> (string \<times> json) list" where
  "session_fields sl sf =
     [(''pid'', JNumber (PosInt (ucast (sf_pid sf)))),
      (''websocket_url'', JString (sf_websocket_url sf)),
      (''target_id'', JString (sf_target_id sf)),
      (''started_at'', JString (sl_show_time sl (sf_started_at sf))),
      (''last_used_at'', JString (sl_show_time sl (sf_last_used_at sf))),
      (''interrupted'', JBool (sf_interrupted sf))]"

definition json_u32 :: "json \<Rightarrow> u32 option" where
  "json_u32 v =
     (case as_u64 v of Some n \<Rightarrow> if uint n < 2 ^ 32 then Some (ucast n) else None | None \<Rightarrow> None)"

definition json_time :: "session_libs \<Rightarrow> json \<Rightarrow> int option" where
  "json_time sl v = Option.bind (as_str v) (sl_read_time sl)"

text \<open>The derived reader: every field has to be there with its type; others are ignored.\<close>

definition session_of_json :: "session_libs \<Rightarrow> json \<Rightarrow> session_file option" where
  "session_of_json sl v =
     Option.bind (Option.bind (json_get v ''pid'') json_u32) (\<lambda>pid.
     Option.bind (Option.bind (json_get v ''websocket_url'') as_str) (\<lambda>url.
     Option.bind (Option.bind (json_get v ''target_id'') as_str) (\<lambda>target_id.
     Option.bind (Option.bind (json_get v ''started_at'') (json_time sl)) (\<lambda>started_at.
     Option.bind (Option.bind (json_get v ''last_used_at'') (json_time sl)) (\<lambda>last_used_at.
     Option.bind (Option.bind (json_get v ''interrupted'') as_bool) (\<lambda>interrupted.
     Some \<lparr> sf_pid = pid, sf_websocket_url = url, sf_target_id = target_id, sf_started_at = started_at,
            sf_last_used_at = last_used_at, sf_interrupted = interrupted \<rparr>))))))"

text \<open>\<open>load_from\<close>: a file that does not read as a session counts as none.\<close>

definition load_session :: "session_libs \<Rightarrow> fs_error + string \<Rightarrow> session_file option result" where
  "load_session sl contents =
     (case contents of
        Inr s \<Rightarrow>
          Inr (case sl_json_read sl s of Inr v \<Rightarrow> session_of_json sl v | Inl e \<Rightarrow> None)
      | Inl NotFound \<Rightarrow> Inr None
      | Inl (FsError e) \<Rightarrow> Inl [''reading session file'', e])"

definition delete_session :: "fs_error + unit \<Rightarrow> unit result" where
  "delete_session removed =
     (case removed of
        Inr u \<Rightarrow> Inr ()
      | Inl NotFound \<Rightarrow> Inr ()
      | Inl (FsError e) \<Rightarrow> Inl [''deleting session file'', e])"

definition sessions_dir :: "string option \<Rightarrow> string result" where
  "sessions_dir user_config_dir =
     and_then (ok_or [''could not determine home directory''] user_config_dir) (\<lambda>base.
     Inr (path_join (path_join base ''earl'') ''browser-sessions''))"

definition session_path :: "string \<Rightarrow> string option \<Rightarrow> string \<Rightarrow> string result" where
  "session_path extension user_config_dir session_id =
     and_then (validate_session_id session_id) (\<lambda>_.
     and_then (sessions_dir user_config_dir) (\<lambda>dir.
     Inr (path_join dir (session_id @ extension))))"

definition session_file_path :: "string option \<Rightarrow> string \<Rightarrow> string result" where
  "session_file_path = session_path ''.json''"

definition lock_file_path :: "string option \<Rightarrow> string \<Rightarrow> string result" where
  "lock_file_path = session_path ''.lock''"

text \<open>
  \<open>kill(pid, 0)\<close> says whether a process is there; a number above \<open>2 ^ 31 - 1\<close> would be negative and is refused.
\<close>

definition is_pid_alive :: "bool \<Rightarrow> (int \<Rightarrow> bool) \<Rightarrow> u32 \<Rightarrow> bool" where
  "is_pid_alive unix kill_ok pid =
     (if pid = 0 then True
      else if unix then (let pid_t = sint (ucast pid :: 32 word) in if pid_t \<le> 0 then False else kill_ok pid_t)
      else True)"

section \<open>Chrome\<close>

datatype chrome_platform = OnLinux | OnMacos | OnWindows | OnOther

definition platform_candidates :: "chrome_platform \<Rightarrow> string list" where
  "platform_candidates platform =
     (case platform of
        OnMacos \<Rightarrow>
          [''/Applications/Google Chrome.app/Contents/MacOS/Google Chrome'',
           ''/Applications/Chromium.app/Contents/MacOS/Chromium'']
      | OnLinux \<Rightarrow>
          [''/usr/bin/google-chrome'', ''/usr/bin/google-chrome-stable'', ''/usr/bin/chromium-browser'', ''/usr/bin/chromium'']
      | OnWindows \<Rightarrow>
          map (str_join [CHR 0x5C])
            [[''C:'', ''Program Files'', ''Google'', ''Chrome'', ''Application'', ''chrome.exe''],
             [''C:'', ''Program Files (x86)'', ''Google'', ''Chrome'', ''Application'', ''chrome.exe'']]
      | OnOther \<Rightarrow> [])"

fun add_on_path :: "(string \<Rightarrow> string option) \<Rightarrow> string list \<Rightarrow> string list \<Rightarrow> string list" where
  "add_on_path which [] candidates = candidates"
| "add_on_path which (name # names) candidates =
     add_on_path which names
       (case which name of
          Some p \<Rightarrow> if p \<in> set candidates then candidates else candidates @ [p]
        | None \<Rightarrow> candidates)"

definition chrome_binary_candidates ::
    "chrome_platform \<Rightarrow> string option \<Rightarrow> (string \<Rightarrow> string option) \<Rightarrow> string list" where
  "chrome_binary_candidates platform env_path which =
     (case env_path of
        Some p \<Rightarrow> [p]
      | None \<Rightarrow>
          add_on_path which [''chrome'', ''google-chrome'', ''chromium'', ''chromium-browser'']
            (platform_candidates platform))"

definition find_chrome :: "string list \<Rightarrow> (string \<Rightarrow> bool) \<Rightarrow> string result" where
  "find_chrome candidates path_exists =
     (case find path_exists candidates of
        Some p \<Rightarrow> Inr p
      | None \<Rightarrow>
          browser_bail (ChromeNotFound (str_join [CHR 0x0A] (map (\<lambda>p. ''  - '' @ p) candidates))))"

section \<open>The world of the executor\<close>

text \<open>What it does outside the page; the page is named by its target.\<close>

datatype (plugins only: ) browser_call =
    MakeDir string
  | RestrictDir string
  | OpenLock string
  | TakeLock string
  | DropLock string
  | ReadLock string
  | LoadSession string
  | SaveSession string session_file
  | LaunchChrome string bool
  | ConnectChrome string
  | ListPages
  | NewPage string
  | DenyDownloads string
  | RunSteps string
  | CloseChrome

text \<open>The calls with whether they succeeded, and the world of the page.\<close>

record 's browser_world =
  bw_page_world :: "'s page_world"
  bw_log :: "(browser_call \<times> bool) list"

type_synonym ('s, 'a) effect = "'s \<Rightarrow> (string + 'a) \<times> 's"

record ('s, 'lock, 'chrome, 'page, 'el) chrome_ops =
  co_platform :: chrome_platform
  co_env_path :: "string option"
  co_which :: "string \<Rightarrow> string option"
  co_exists :: "string \<Rightarrow> bool"
  co_config_dir :: "string option"
  co_session_libs :: session_libs
  co_browser_libs :: browser_libs
  co_kill_ok :: "int \<Rightarrow> bool"
  co_utc_now :: "'s \<Rightarrow> int"
  co_make_dir :: "string \<Rightarrow> ('s, unit) effect"
  co_restrict_dir :: "string \<Rightarrow> ('s, unit) effect"
  co_open_lock :: "string \<Rightarrow> ('s, 'lock) effect"
  co_try_lock :: "'lock \<Rightarrow> ('s, unit) effect"
  co_unlock :: "'lock \<Rightarrow> 's \<Rightarrow> 's"
  co_read :: "string \<Rightarrow> 's \<Rightarrow> (fs_error + string) \<times> 's"
  co_temp_file :: "string \<Rightarrow> ('s, string) effect"
  co_temp_write :: "string \<Rightarrow> string \<Rightarrow> ('s, unit) effect"
  co_temp_persist :: "string \<Rightarrow> string \<Rightarrow> ('s, unit) effect"
  co_config_error :: "string \<Rightarrow> bool \<Rightarrow> string option"
  co_launch :: "string \<Rightarrow> bool \<Rightarrow> ('s, 'chrome) effect"
  co_connect :: "string \<Rightarrow> ('s, 'chrome) effect"
  co_websocket_address :: "'chrome \<Rightarrow> string"
  co_pages :: "'chrome \<Rightarrow> ('s, 'page list) effect"
  co_new_page :: "'chrome \<Rightarrow> string \<Rightarrow> ('s, 'page) effect"
  co_deny_downloads :: "'page \<Rightarrow> ('s, unit) effect"
  co_close :: "'chrome \<Rightarrow> ('s, unit) effect"
  co_target_id :: "'page \<Rightarrow> string"
  co_page_ops :: "'page \<Rightarrow> ('s, 'el) page_ops"

type_synonym ('s, 'a) browser_action = "('s browser_world, 'a) timed"

text \<open>One call: its answer, noted.\<close>

definition chrome_try :: "browser_call \<Rightarrow> ('s \<Rightarrow> ('e + 'a) \<times> 's) \<Rightarrow> ('s, 'e + 'a) browser_action" where
  "chrome_try call f w =
     (case f (tw_inner (bw_page_world w)) of
        (r, inner) \<Rightarrow>
          (Done (Inr r),
           w \<lparr> bw_page_world := (bw_page_world w) \<lparr> tw_inner := inner \<rparr>, bw_log := bw_log w @ [(call, is_ok r)] \<rparr>))"

definition chrome_do :: "string list \<Rightarrow> browser_call \<Rightarrow> ('s, 'a) effect \<Rightarrow> ('s, 'a) browser_action" where
  "chrome_do ctx call f = t_bind (chrome_try call f) (\<lambda>r. t_lift (map_err (\<lambda>e. ctx @ [e]) r))"

section \<open>Locks, files, launching\<close>

definition ensure_sessions_dir :: "('s, 'l, 'c, 'p, 'el) chrome_ops \<Rightarrow> string \<Rightarrow> ('s, unit) browser_action" where
  "ensure_sessions_dir co dir =
     t_bind (chrome_do [''creating sessions directory''] (MakeDir dir) (co_make_dir co dir)) (\<lambda>_.
     if co_platform co = OnWindows then t_return ()
     else chrome_do [''setting sessions directory permissions''] (RestrictDir dir) (co_restrict_dir co dir))"

text \<open>The lock, with the path it was taken at.\<close>

definition acquire_session_lock ::
    "('s, 'l, 'c, 'p, 'el) chrome_ops \<Rightarrow> string \<Rightarrow> ('s, string \<times> 'l) browser_action" where
  "acquire_session_lock co session_id =
     t_bind (t_lift (validate_session_id session_id)) (\<lambda>_.
     t_bind (t_lift (sessions_dir (co_config_dir co))) (\<lambda>dir.
     t_bind (ensure_sessions_dir co dir) (\<lambda>_.
     let lock_path = path_join dir (session_id @ ''.lock'')
     in t_bind (chrome_do [''opening session lock file''] (OpenLock lock_path) (co_open_lock co lock_path)) (\<lambda>file.
        t_bind (chrome_try (TakeLock lock_path) (co_try_lock co file)) (\<lambda>r.
        if is_ok r then t_return (lock_path, file)
        else
          t_bind (chrome_try (ReadLock lock_path) (co_read co lock_path)) (\<lambda>contents.
          let pid = (case contents of
                       Inl e \<Rightarrow> 0
                     | Inr s \<Rightarrow> (case parse_unsigned (2 ^ 32) (trim s) of Some n \<Rightarrow> word_of_nat n | None \<Rightarrow> 0))
          in t_lift (browser_bail (SessionLocked session_id pid))))))))"

text \<open>\<open>save_to\<close>: a temporary file in the same directory that then takes the name.\<close>

definition save_to :: "('s, 'l, 'c, 'p, 'el) chrome_ops \<Rightarrow> string \<Rightarrow> session_file \<Rightarrow> ('s, unit) action" where
  "save_to co path sf =
     act_bind (\<lambda>s. map_prod (map_err (\<lambda>e. [''creating temp session file'', e])) id (co_temp_file co (path_parent path) s)) (\<lambda>tmp.
     act_bind (\<lambda>s. map_prod (map_err (\<lambda>e. [''serializing session file'', e])) id
       (co_temp_write co tmp (sl_json_text (co_session_libs co) (session_fields (co_session_libs co) sf)) s)) (\<lambda>_.
     (\<lambda>s. map_prod (map_err (\<lambda>e. [''persisting session file: '' @ e])) id (co_temp_persist co tmp path s))))"

definition save_session ::
    "('s, 'l, 'c, 'p, 'el) chrome_ops \<Rightarrow> string \<Rightarrow> session_file \<Rightarrow> ('s, anyhow + unit) browser_action" where
  "save_session co path sf = chrome_try (SaveSession path sf) (save_to co path sf)"

definition launch_chrome ::
    "('s, 'l, 'c, 'p, 'el) chrome_ops \<Rightarrow> bool \<Rightarrow> ('s, 'c \<times> string) browser_action" where
  "launch_chrome co headless =
     t_bind (t_lift (find_chrome (chrome_binary_candidates (co_platform co) (co_env_path co) (co_which co)) (co_exists co))) (\<lambda>chrome.
     t_bind (t_lift (case co_config_error co chrome headless of
                       Some e \<Rightarrow> bail (''browser config error: '' @ e) | None \<Rightarrow> Inr ())) (\<lambda>_.
     t_bind (chrome_do [''launching Chrome''] (LaunchChrome chrome headless) (co_launch co chrome headless)) (\<lambda>browser.
     t_return (browser, co_websocket_address co browser))))"

definition connect_chrome ::
    "('s, 'l, 'c, 'p, 'el) chrome_ops \<Rightarrow> string \<Rightarrow> ('s, string + 'c) browser_action" where
  "connect_chrome co ws_url = chrome_try (ConnectChrome ws_url) (co_connect co ws_url)"

definition configure_page :: "('s, 'l, 'c, 'p, 'el) chrome_ops \<Rightarrow> 'p \<Rightarrow> ('s, anyhow + unit) browser_action" where
  "configure_page co page =
     t_bind (chrome_try (DenyDownloads (co_target_id co page)) (co_deny_downloads co page)) (\<lambda>r.
     t_return (map_err (\<lambda>e. [''setting download behavior to deny'', e]) r))"

definition close_chrome :: "('s, 'l, 'c, 'p, 'el) chrome_ops \<Rightarrow> 'c \<Rightarrow> ('s, unit) browser_action" where
  "close_chrome co browser = t_bind (chrome_try CloseChrome (co_close co browser)) (\<lambda>_. t_return ())"

section \<open>The executor\<close>

text \<open>The steps as a value: their own error is the caller's to pass on.\<close>

definition run_page_steps ::
    "('s, 'l, 'c, 'p, 'el) chrome_ops \<Rightarrow> prepared_browser_command \<Rightarrow> 'p \<Rightarrow> ('s, json result) browser_action" where
  "run_page_steps co data page w =
     (case execute_steps (co_browser_libs co) (co_page_ops co page) (pc_steps data) (pc_timeout_ms data)
             (pc_on_failure_screenshot data) (bw_page_world w) of
        (r, page_world) \<Rightarrow>
          (let w' = w \<lparr> bw_page_world := page_world,
                       bw_log := bw_log w @ [(RunSteps (co_target_id co page), (\<exists>v. r = Done (Inr v)))] \<rparr>
           in case r of
                Done res \<Rightarrow> (Done (Inr res), w')
              | Elapsed \<Rightarrow> (Elapsed, w')
              | Panicked \<Rightarrow> (Panicked, w')))"

definition run_ephemeral ::
    "('s, 'l, 'c, 'p, 'el) chrome_ops \<Rightarrow> prepared_browser_command \<Rightarrow> ('s, json) browser_action" where
  "run_ephemeral co data =
     t_bind (launch_chrome co (pc_headless data)) (\<lambda>(browser, ws_url).
     t_bind (chrome_try (NewPage ''about:blank'') (co_new_page co browser ''about:blank'')) (\<lambda>opened.
     case opened of
       Inl e \<Rightarrow> t_bind (close_chrome co browser) (\<lambda>_. t_lift (Inl [e]))
     | Inr page \<Rightarrow>
         t_bind (configure_page co page) (\<lambda>configured.
         case configured of
           Inl e \<Rightarrow> t_bind (close_chrome co browser) (\<lambda>_. t_lift (Inl e))
         | Inr _ \<Rightarrow>
             t_bind (run_page_steps co data page) (\<lambda>result.
             t_bind (close_chrome co browser) (\<lambda>_.
             t_lift result)))))"

text \<open>Reconnecting to the Chrome of the session file, or launching one.\<close>

definition session_chrome ::
    "('s, 'l, 'c, 'p, 'el) chrome_ops \<Rightarrow> bool \<Rightarrow> session_file option \<Rightarrow> ('s, 'c \<times> string) browser_action" where
  "session_chrome co headless existing =
     (case existing of
        None \<Rightarrow> launch_chrome co headless
      | Some sf \<Rightarrow>
          if is_pid_alive (co_platform co \<noteq> OnWindows) (co_kill_ok co) (sf_pid sf)
          then t_bind (connect_chrome co (sf_websocket_url sf)) (\<lambda>connected.
               case connected of
                 Inr b \<Rightarrow> t_return (b, sf_websocket_url sf)
               | Inl e \<Rightarrow> launch_chrome co headless)
          else launch_chrome co headless)"

definition session_page :: "('s, 'l, 'c, 'p, 'el) chrome_ops \<Rightarrow> 'c \<Rightarrow> ('s, 'p) browser_action" where
  "session_page co browser =
     t_bind (chrome_try ListPages (co_pages co browser)) (\<lambda>pages.
     t_bind
       (case pages of
          Inr (p # ps) \<Rightarrow> t_return p
        | _ \<Rightarrow> chrome_do [] (NewPage ''about:blank'') (co_new_page co browser ''about:blank'')) (\<lambda>page.
     t_bind (configure_page co page) (\<lambda>configured.
     t_bind (t_lift configured) (\<lambda>_. t_return page))))"

text \<open>What runs while the lock is held; the session file is saved whatever the steps gave.\<close>

definition with_session ::
    "('s, 'l, 'c, 'p, 'el) chrome_ops \<Rightarrow> prepared_browser_command \<Rightarrow> string \<Rightarrow> ('s, json) browser_action" where
  "with_session co data session_id =
     t_bind (t_lift (session_file_path (co_config_dir co) session_id)) (\<lambda>sf_path.
     t_bind (chrome_try (LoadSession sf_path) (co_read co sf_path)) (\<lambda>contents.
     t_bind (t_lift (load_session (co_session_libs co) contents)) (\<lambda>existing.
     t_bind (session_chrome co (pc_headless data) existing) (\<lambda>(browser, ws_url).
     t_bind (session_page co browser) (\<lambda>page.
     t_bind t_get (\<lambda>w.
       let now = co_utc_now co (tw_inner (bw_page_world w));
           sf_to_save = \<lparr> sf_pid = 0, sf_websocket_url = ws_url, sf_target_id = co_target_id co page,
             sf_started_at = (case existing of Some sf \<Rightarrow> sf_started_at sf | None \<Rightarrow> now),
             sf_last_used_at = now, sf_interrupted = False \<rparr>
       in t_bind (run_page_steps co data page) (\<lambda>step_result.
          t_bind t_get (\<lambda>v.
            let updated_sf = sf_to_save \<lparr> sf_last_used_at := co_utc_now co (tw_inner (bw_page_world v)),
                                          sf_interrupted := \<not> is_ok step_result \<rparr>
            in t_bind (save_session co sf_path updated_sf) (\<lambda>_. t_lift step_result)))))))))"

text \<open>The lock is the file's: it goes when the function is left, on every path.\<close>

definition drop_lock ::
    "('s, 'l, 'c, 'p, 'el) chrome_ops \<Rightarrow> string \<times> 'l \<Rightarrow> 's browser_world \<Rightarrow> 's browser_world" where
  "drop_lock co lock w =
     w \<lparr> bw_page_world := (bw_page_world w) \<lparr> tw_inner := co_unlock co (snd lock) (tw_inner (bw_page_world w)) \<rparr>,
         bw_log := bw_log w @ [(DropLock (fst lock), True)] \<rparr>"

definition run_with_session ::
    "('s, 'l, 'c, 'p, 'el) chrome_ops \<Rightarrow> prepared_browser_command \<Rightarrow> string \<Rightarrow> ('s, json) browser_action" where
  "run_with_session co data session_id =
     t_bind (t_lift (sessions_dir (co_config_dir co))) (\<lambda>dir.
     t_bind (ensure_sessions_dir co dir) (\<lambda>_.
     t_bind (acquire_session_lock co session_id) (\<lambda>lock w.
       case with_session co data session_id w of (r, w') \<Rightarrow> (r, drop_lock co lock w'))))"

definition run_browser_command ::
    "('s, 'l, 'c, 'p, 'el) chrome_ops \<Rightarrow> prepared_browser_command \<Rightarrow> ('s, json) browser_action" where
  "run_browser_command co data =
     (case pc_session_id data of
        None \<Rightarrow> run_ephemeral co data
      | Some session_id \<Rightarrow> run_with_session co data session_id)"

definition execute_browser ::
    "('s, 'l, 'c, 'p, 'el) chrome_ops \<Rightarrow> prepared_browser_command \<Rightarrow> ('s, raw_execution_result) browser_action" where
  "execute_browser co data =
     t_bind (run_browser_command co data) (\<lambda>result.
     t_return \<lparr> raw_status = 0, raw_url = ''browser://command'', raw_body = bw_json_text (co_browser_libs co) result,
                raw_content_type = Some ''application/json'' \<rparr>)"


section \<open>The protocol of a command\<close>

text \<open>
  What a command has to keep, as a monitor of its calls: a session's files and its Chrome are used only while its lock
  is held, steps run only on a page whose downloads have been denied, a lock is dropped only while it is held. It
  counts the Chromes launched and not closed.
\<close>

record monitor =
  mo_locked :: bool
  mo_denied :: "string list"
  mo_open :: int

definition mon_start :: monitor where
  "mon_start = \<lparr> mo_locked = False, mo_denied = [], mo_open = 0 \<rparr>"

definition needs_lock :: "browser_call \<Rightarrow> bool" where
  "needs_lock call =
     (case call of
        MakeDir p \<Rightarrow> False | RestrictDir p \<Rightarrow> False | OpenLock p \<Rightarrow> False | TakeLock p \<Rightarrow> False | ReadLock p \<Rightarrow> False
      | _ \<Rightarrow> True)"

definition mon_step :: "bool \<Rightarrow> browser_call \<times> bool \<Rightarrow> monitor \<Rightarrow> monitor option" where
  "mon_step in_session entry m =
     (let call = fst entry; ok = snd entry in
      if in_session \<and> needs_lock call \<and> \<not> mo_locked m then None
      else
        (case call of
           TakeLock p \<Rightarrow> Some (m \<lparr> mo_locked := ok \<rparr>)
         | DropLock p \<Rightarrow> if mo_locked m then Some (m \<lparr> mo_locked := False \<rparr>) else None
         | DenyDownloads t \<Rightarrow> Some (if ok then m \<lparr> mo_denied := t # mo_denied m \<rparr> else m)
         | RunSteps t \<Rightarrow> if t \<in> set (mo_denied m) then Some m else None
         | LaunchChrome p h \<Rightarrow> Some (if ok then m \<lparr> mo_open := mo_open m + 1 \<rparr> else m)
         | CloseChrome \<Rightarrow> Some (m \<lparr> mo_open := mo_open m - 1 \<rparr>)
         | _ \<Rightarrow> Some m))"

primrec mon_run :: "bool \<Rightarrow> (browser_call \<times> bool) list \<Rightarrow> monitor \<Rightarrow> monitor option" where
  "mon_run in_session [] m = Some m"
| "mon_run in_session (entry # entries) m = Option.bind (mon_step in_session entry m) (mon_run in_session entries)"

abbreviation mon :: "bool \<Rightarrow> 's browser_world \<Rightarrow> monitor option" where
  "mon in_session w \<equiv> mon_run in_session (bw_log w) mon_start"

lemma mon_run_append: "mon_run s (xs @ ys) m = Option.bind (mon_run s xs m) (mon_run s ys)"
  by (induction xs arbitrary: m) (simp_all add: bind_assoc split: Option.bind_split)

lemmas mon_step_simps = mon_step_def needs_lock_def

lemma mon_run_Nil [simp]: "mon_run s [] = Some"
  by (rule ext) simp

text \<open>From a monitor state that has not objected, each piece of the executor leads to one.\<close>

definition allowed_by :: "bool \<Rightarrow> monitor \<Rightarrow> bool" where
  "allowed_by in_session m \<longleftrightarrow> (in_session \<longrightarrow> mo_locked m)"

lemma try_wp:
  fixes w :: "'s browser_world" and f :: "'s \<Rightarrow> ('e + 'a) \<times> 's"
  assumes "mon s w = Some m"
    and "\<And>x w'. mon s w' = mon_step s (call, is_ok x) m \<Longrightarrow> Q (Done (Inr x)) w'"
  shows "t_wp (chrome_try call f) w Q"
proof (cases "f (tw_inner (bw_page_world w))")
  case (Pair x inner)
  then show ?thesis
    by (simp add: t_wp_def chrome_try_def) (rule assms(2), simp add: mon_run_append assms(1))
qed

lemma try_bind_wp:
  fixes w :: "'s browser_world" and g :: "'s \<Rightarrow> ('e + 'a) \<times> 's"
  assumes "mon s w = Some m"
    and "\<And>x w'. mon s w' = mon_step s (call, is_ok x) m \<Longrightarrow> t_wp (f x) w' Q"
  shows "t_wp (t_bind (chrome_try call g) f) w Q"
  by (rule t_wp_bindI [where R = "\<lambda>r w'. \<exists>x. r = Done (Inr x) \<and> mon s w' = mon_step s (call, is_ok x) m"],
      rule try_wp [OF assms(1)]) (use assms(2) in auto)

lemma do_wp:
  fixes w :: "'s browser_world" and f :: "('s, 'a) effect"
  assumes "mon s w = Some m"
    and "\<And>x w'. mon s w' = mon_step s (call, is_ok x) m \<Longrightarrow> Q (Done x) w'"
  shows "t_wp (chrome_do ctx call f) w Q"
  unfolding chrome_do_def
proof (rule try_bind_wp [OF assms(1)])
  fix x :: "string + 'a" and w' :: "'s browser_world"
  assume "mon s w' = mon_step s (call, is_ok x) m"
  with assms(2) [of w' "map_err (\<lambda>e. ctx @ [e]) x"]
  show "t_wp (t_lift (map_err (\<lambda>e. ctx @ [e]) x)) w' Q" by (cases x) simp_all
qed

lemma do_bind_wp:
  fixes w :: "'s browser_world" and g :: "('s, 'a) effect"
  assumes "mon s w = Some m"
    and "\<And>x w'. mon s w' = mon_step s (call, True) m \<Longrightarrow> t_wp (f x) w' Q"
    and "\<And>e w'. mon s w' = mon_step s (call, False) m \<Longrightarrow> Q (Done (Inl e)) w'"
  shows "t_wp (t_bind (chrome_do ctx call g) f) w Q"
  by (rule t_wp_bindI [where R = "\<lambda>r w'. \<exists>x. r = Done x \<and> mon s w' = mon_step s (call, is_ok x) m"],
      rule do_wp [OF assms(1)]) (use assms(2,3) in auto)

text \<open>The calls that the monitor only checks the lock for.\<close>

definition neutral :: "browser_call \<Rightarrow> bool" where
  "neutral call \<longleftrightarrow> (\<forall>s ok m. mon_step s (call, ok) m = (if s \<and> needs_lock call \<and> \<not> mo_locked m then None else Some m))"

lemma neutral_calls [simp]:
  "neutral (MakeDir p)" "neutral (RestrictDir p)" "neutral (OpenLock p)" "neutral (ReadLock p)" "neutral (LoadSession p)"
  "neutral (SaveSession p sf)" "neutral (ConnectChrome url)" "neutral ListPages" "neutral (NewPage url)"
  by (simp_all add: neutral_def mon_step_def needs_lock_def Let_def)

definition no_lock_needed :: "bool \<Rightarrow> browser_call \<Rightarrow> monitor \<Rightarrow> bool" where
  "no_lock_needed s call m \<longleftrightarrow> \<not> (s \<and> needs_lock call \<and> \<not> mo_locked m)"

lemma no_lock_needed_simps [simp]:
  "no_lock_needed s (MakeDir p) m" "no_lock_needed s (RestrictDir p) m" "no_lock_needed s (OpenLock p) m"
  "no_lock_needed s (ReadLock p) m"
  by (simp_all add: no_lock_needed_def needs_lock_def)

lemma allowed_no_lock_needed [simp]: "allowed_by s m \<Longrightarrow> no_lock_needed s call m"
  by (simp add: allowed_by_def no_lock_needed_def)

lemma allowed_by_simps [simp]:
  "allowed_by False m" "mo_locked m \<Longrightarrow> allowed_by s m"
  "allowed_by s (m \<lparr> mo_open := k \<rparr>) = allowed_by s m" "allowed_by s (m \<lparr> mo_denied := d \<rparr>) = allowed_by s m"
  by (simp_all add: allowed_by_def)

lemma neutral_step: "neutral call \<Longrightarrow> no_lock_needed s call m \<Longrightarrow> mon_step s (call, ok) m = Some m"
  by (auto simp: neutral_def no_lock_needed_def)

lemma neutral_try_bind_wp:
  fixes w :: "'s browser_world" and g :: "'s \<Rightarrow> ('e + 'a) \<times> 's"
  assumes "mon s w = Some m" and "neutral call" and "no_lock_needed s call m"
    and "\<And>x w'. mon s w' = Some m \<Longrightarrow> t_wp (f x) w' Q"
  shows "t_wp (t_bind (chrome_try call g) f) w Q"
  by (rule try_bind_wp [OF assms(1)]) (use assms(2-4) in \<open>auto simp: neutral_step\<close>)

lemma neutral_do_bind_wp:
  fixes w :: "'s browser_world" and g :: "('s, 'a) effect"
  assumes "mon s w = Some m" and "neutral call" and "no_lock_needed s call m"
    and "\<And>x w'. mon s w' = Some m \<Longrightarrow> t_wp (f x) w' Q" and "\<And>e w'. mon s w' = Some m \<Longrightarrow> Q (Done (Inl e)) w'"
  shows "t_wp (t_bind (chrome_do ctx call g) f) w Q"
  by (rule do_bind_wp [OF assms(1)]) (use assms(2-5) in \<open>auto simp: neutral_step\<close>)

lemma neutral_do_wp:
  fixes w :: "'s browser_world" and g :: "('s, 'a) effect"
  assumes "mon s w = Some m" and "neutral call" and "no_lock_needed s call m"
    and "\<And>x w'. mon s w' = Some m \<Longrightarrow> Q (Done x) w'"
  shows "t_wp (chrome_do ctx call g) w Q"
  by (rule do_wp [OF assms(1)]) (use assms(2-4) in \<open>auto simp: neutral_step\<close>)

lemma t_wp_case_sum:
  "(\<And>e. x = Inl e \<Longrightarrow> t_wp (f e) w Q) \<Longrightarrow> (\<And>y. x = Inr y \<Longrightarrow> t_wp (g y) w Q) \<Longrightarrow> t_wp (case x of Inl e \<Rightarrow> f e | Inr y \<Rightarrow> g y) w Q"
  by (cases x) simp_all

lemma launch_bind_wp:
  fixes w :: "'s browser_world"
  assumes "mon s w = Some m" and "allowed_by s m"
    and "\<And>x w'. mon s w' = Some (m \<lparr> mo_open := mo_open m + 1 \<rparr>) \<Longrightarrow> t_wp (f x) w' Q"
    and "\<And>e w'. mon s w' = Some m \<Longrightarrow> Q (Done (Inl e)) w'"
  shows "t_wp (t_bind (launch_chrome co headless) f) w Q"
  unfolding launch_chrome_def t_bind_assoc
  by (rule t_wp_lift_bind, rule t_wp_lift_bind, rule do_bind_wp [OF assms(1)])
    (use assms in \<open>auto simp: mon_step_simps allowed_by_def t_wp_bind\<close>)

lemma launch_wp:
  fixes w :: "'s browser_world"
  assumes "mon s w = Some m" and "allowed_by s m"
    and "\<And>x w'. mon s w' = Some (m \<lparr> mo_open := mo_open m + 1 \<rparr>) \<Longrightarrow> Q (Done (Inr x)) w'"
    and "\<And>e w'. mon s w' = Some m \<Longrightarrow> Q (Done (Inl e)) w'"
  shows "t_wp (launch_chrome co headless) w Q"
  unfolding launch_chrome_def
  by (rule t_wp_lift_bind, rule t_wp_lift_bind, rule do_bind_wp [OF assms(1)])
    (use assms in \<open>auto simp: mon_step_simps allowed_by_def\<close>)

lemma close_bind_wp:
  fixes w :: "'s browser_world"
  assumes "mon s w = Some m" and "allowed_by s m"
    and "\<And>w'. mon s w' = Some (m \<lparr> mo_open := mo_open m - 1 \<rparr>) \<Longrightarrow> t_wp (f ()) w' Q"
  shows "t_wp (t_bind (close_chrome co browser) f) w Q"
  unfolding close_chrome_def t_bind_assoc
  by (rule try_bind_wp [OF assms(1)]) (use assms in \<open>auto simp: mon_step_simps allowed_by_def t_wp_bind\<close>)

lemma configure_bind_wp:
  fixes w :: "'s browser_world"
  assumes "mon s w = Some m" and "allowed_by s m"
    and "\<And>w'. mon s w' = Some (m \<lparr> mo_denied := co_target_id co page # mo_denied m \<rparr>) \<Longrightarrow> t_wp (f (Inr ())) w' Q"
    and "\<And>e w'. mon s w' = Some m \<Longrightarrow> t_wp (f (Inl e)) w' Q"
  shows "t_wp (t_bind (configure_page co page) f) w Q"
  unfolding configure_page_def t_bind_assoc
proof (rule try_bind_wp [OF assms(1)])
  fix x :: "string + unit" and w' :: "'s browser_world"
  assume "mon s w' = mon_step s (DenyDownloads (co_target_id co page), is_ok x) m"
  then show "t_wp (t_bind (t_return (map_err (\<lambda>e. [''setting download behavior to deny'', e]) x)) f) w' Q"
    using assms(2-4) by (cases x) (auto simp: mon_step_simps allowed_by_def t_wp_bind)
qed

lemma steps_bind_wp:
  fixes w :: "'s browser_world"
  assumes "mon s w = Some m" and "allowed_by s m" and "co_target_id co page \<in> set (mo_denied m)"
    and "\<And>x w'. mon s w' = Some m \<Longrightarrow> t_wp (f x) w' Q"
    and "\<And>w'. mon s w' = Some m \<Longrightarrow> Q Panicked w'"
  shows "t_wp (t_bind (run_page_steps co data page) f) w Q"
proof -
  obtain r pw where run: "execute_steps (co_browser_libs co) (co_page_ops co page) (pc_steps data) (pc_timeout_ms data)
      (pc_on_failure_screenshot data) (bw_page_world w) = (r, pw)" by fastforce
  have "r \<noteq> Elapsed"
    using execute_steps_moves [where lib = "co_browser_libs co" and ops = "co_page_ops co page" and steps = "pc_steps data"
      and global_timeout_ms = "pc_timeout_ms data" and shot = "pc_on_failure_screenshot data" and w = "bw_page_world w"] run
    by simp
  then have "t_wp (run_page_steps co data page) w (\<lambda>r w'. mon s w' = Some m \<and> ((\<exists>x. r = Done (Inr x)) \<or> r = Panicked))"
    using run assms(1-3)
    by (cases r) (auto simp: t_wp_def run_page_steps_def mon_run_append mon_step_simps allowed_by_def)
  then show ?thesis by (rule t_wp_bindI) (use assms(4,5) in auto)
qed

section \<open>A command on its own\<close>

lemma ephemeral_mon:
  fixes w :: "'s browser_world"
  assumes "mon False w = Some m"
  shows "t_wp (run_ephemeral co data) w (\<lambda>r w'. \<exists>m'. mon False w' = Some m' \<and> (mo_open m' = mo_open m \<or> r = Panicked))"
  unfolding run_ephemeral_def case_prod_beta
  by (rule launch_bind_wp [OF assms];
      (assumption | (simp add: assms; fail)
       | rule neutral_try_bind_wp close_bind_wp configure_bind_wp steps_bind_wp t_wp_case_sum)+)

section \<open>A command in a session\<close>

lemma session_chrome_bind_wp:
  fixes w :: "'s browser_world"
  assumes "mon s w = Some m" and "allowed_by s m"
    and "\<And>x k w'. mon s w' = Some (m \<lparr> mo_open := k \<rparr>) \<Longrightarrow> t_wp (f x) w' Q"
    and "\<And>e w'. mon s w' = Some m \<Longrightarrow> Q (Done (Inl e)) w'"
  shows "t_wp (t_bind (session_chrome co headless existing) f) w Q"
proof -
  have launch: "t_wp (t_bind (launch_chrome co headless) f) v Q" if "mon s v = Some m" for v
    by (rule launch_bind_wp [OF that assms(2)]) (use assms(3,4) in auto)
  have same: "t_wp (f x) v Q" if "mon s v = Some m" for x v
    using assms(3) [of v "mo_open m" x] that by simp
  have "t_wp (t_bind (t_bind (connect_chrome co url) (\<lambda>connected. case connected of
      Inr b \<Rightarrow> t_return (b, url) | Inl e \<Rightarrow> launch_chrome co headless)) f) w Q" for url
    unfolding t_bind_assoc connect_chrome_def
    by (rule neutral_try_bind_wp [OF assms(1)])
      (use assms(2) launch same in \<open>auto intro!: t_wp_return_bind split: sum.splits\<close>)
  then show ?thesis
    using launch [OF assms(1)] by (simp add: session_chrome_def split: option.splits)
qed

lemma session_page_bind_wp:
  fixes w :: "'s browser_world" and co :: "('s, 'l, 'c, 'p, 'el) chrome_ops"
  assumes "mon s w = Some m" and "allowed_by s m"
    and "\<And>page w'. mon s w' = Some (m \<lparr> mo_denied := co_target_id co page # mo_denied m \<rparr>) \<Longrightarrow> t_wp (f page) w' Q"
    and "\<And>e w'. mon s w' = Some m \<Longrightarrow> Q (Done (Inl e)) w'"
  shows "t_wp (t_bind (session_page co browser) f) w Q"
proof -
  have configure: "t_wp (t_bind (configure_page co page) (\<lambda>configured.
      t_bind (t_bind (t_lift configured) (\<lambda>_. t_return page)) f)) v Q" if "mon s v = Some m" for page v
    by (rule configure_bind_wp [OF that assms(2)]) (use assms(3,4) in \<open>auto simp: t_wp_bind\<close>)
  show ?thesis
    unfolding session_page_def t_bind_assoc
  proof (rule neutral_try_bind_wp [OF assms(1)])
    fix pages :: "string + 'p list" and v :: "'s browser_world"
    assume v: "mon s v = Some m"
    have fresh: "t_wp (t_bind (chrome_do [] (NewPage ''about:blank'') (co_new_page co browser ''about:blank'')) (\<lambda>page.
        t_bind (configure_page co page) (\<lambda>configured. t_bind (t_bind (t_lift configured) (\<lambda>_. t_return page)) f))) v Q"
      by (rule neutral_do_bind_wp [OF v]) (use assms(2,4) configure in auto)
    show "t_wp (t_bind (case pages of Inr (p # ps) \<Rightarrow> t_return p
        | _ \<Rightarrow> chrome_do [] (NewPage ''about:blank'') (co_new_page co browser ''about:blank'')) (\<lambda>page.
        t_bind (configure_page co page) (\<lambda>configured. t_bind (t_lift configured) (\<lambda>_. t_bind (t_return page) f)))) v Q"
      using fresh configure [OF v] by (auto simp: t_bind_assoc intro!: t_wp_return_bind split: sum.splits list.splits)
  qed (use assms(2) in simp_all)
qed

lemma with_session_mon:
  fixes w :: "'s browser_world"
  assumes "mon True w = Some m" and "mo_locked m"
  shows "t_wp (with_session co data session_id) w (\<lambda>r w'. \<exists>m'. mon True w' = Some m' \<and> mo_locked m')"
  unfolding with_session_def case_prod_beta save_session_def Let_def
  by (rule t_wp_lift_bind;
      (assumption | rule assms(1) | (simp add: assms; fail)
       | rule neutral_try_bind_wp session_chrome_bind_wp session_page_bind_wp steps_bind_wp t_wp_lift_bind t_wp_get_bind)+)

lemma ensure_dir_bind_wp:
  fixes w :: "'s browser_world"
  assumes "mon s w = Some m"
    and "\<And>w'. mon s w' = Some m \<Longrightarrow> t_wp (f ()) w' Q" and "\<And>e w'. mon s w' = Some m \<Longrightarrow> Q (Done (Inl e)) w'"
  shows "t_wp (t_bind (ensure_sessions_dir co dir) f) w Q"
proof -
  have restrict: "t_wp (t_bind (if co_platform co = OnWindows then t_return ()
      else chrome_do ctx (RestrictDir dir) (co_restrict_dir co dir)) f) v Q" if "mon s v = Some m" for v ctx
    using that assms(2,3) by (auto intro!: t_wp_return_bind neutral_do_bind_wp [OF that])
  show ?thesis
    unfolding ensure_sessions_dir_def t_bind_assoc
    by (rule neutral_do_bind_wp [OF assms(1)]) (use assms(3) restrict in auto)
qed

lemma acquire_bind_wp:
  fixes w :: "'s browser_world"
  assumes "mon True w = Some m"
    and "\<And>lock w'. mon True w' = Some (m \<lparr> mo_locked := True \<rparr>) \<Longrightarrow> t_wp (f lock) w' Q"
    and "\<And>e m' w'. mon True w' = Some m' \<Longrightarrow> m' \<in> {m, m \<lparr> mo_locked := False \<rparr>} \<Longrightarrow> Q (Done (Inl e)) w'"
  shows "t_wp (t_bind (acquire_session_lock co session_id) f) w Q"
proof -
  have take: "t_wp (t_bind (t_bind (chrome_try (TakeLock p) g) (\<lambda>r. if is_ok r then t_return x
        else t_bind (chrome_try (ReadLock p) h) (\<lambda>c. t_lift (browser_bail (k c))))) f) v Q"
    if v: "mon True v = Some m" for p v x k and g :: "'s \<Rightarrow> (string + unit) \<times> 's" and h :: "'s \<Rightarrow> (fs_error + string) \<times> 's"
    unfolding t_bind_assoc
  proof (rule try_bind_wp [OF v])
    fix r :: "string + unit" and u :: "'s browser_world"
    assume u: "mon True u = mon_step True (TakeLock p, is_ok r) m"
    show "t_wp (t_bind (if is_ok r then t_return x
        else t_bind (chrome_try (ReadLock p) h) (\<lambda>c. t_lift (browser_bail (k c)))) f) u Q"
    proof (cases "is_ok r")
      case True
      with u have "mon True u = Some (m \<lparr> mo_locked := True \<rparr>)" by (simp add: mon_step_simps)
      with True assms(2) [of u x] show ?thesis by (simp add: t_wp_bind)
    next
      case False
      with u have unlocked: "mon True u = Some (m \<lparr> mo_locked := False \<rparr>)" by (simp add: mon_step_simps)
      have "t_wp (t_bind (t_lift (browser_bail (k c))) f) u' Q" if "mon True u' = Some (m \<lparr> mo_locked := False \<rparr>)" for c u'
        using assms(3) [OF that] by (simp add: browser_bail_def bail_def t_wp_bind)
      with neutral_try_bind_wp [OF unlocked, of "ReadLock p" "\<lambda>c. t_bind (t_lift (browser_bail (k c))) f" Q h] False
      show ?thesis by (simp add: t_bind_assoc)
    qed
  qed
  have refused: "Q (Done (Inl e)) w'" if "mon True w' = Some m" for e w'
    using assms(3) [OF that] by simp
  show ?thesis
    unfolding acquire_session_lock_def t_bind_assoc Let_def
    by (rule t_wp_lift_bind;
        (assumption | rule assms(1) refused take [unfolded t_bind_assoc] | (simp; fail)
         | rule neutral_do_bind_wp ensure_dir_bind_wp t_wp_lift_bind)+)
qed

lemma with_lock_wp:
  fixes w :: "'s browser_world"
  assumes "mon True w = Some m" and "mo_locked m"
  shows "t_wp (\<lambda>w. case with_session co data session_id w of (r, w') \<Rightarrow> (r, drop_lock co lock w')) w
      (\<lambda>r w'. \<exists>m'. mon True w' = Some m' \<and> \<not> mo_locked m')"
proof -
  obtain r v where run: "with_session co data session_id w = (r, v)" by fastforce
  from t_wp_run [OF with_session_mon [OF assms] run] obtain m' where m': "mon True v = Some m'" "mo_locked m'" by blast
  then have "mon True (drop_lock co lock v) = Some (m' \<lparr> mo_locked := False \<rparr>)"
    by (simp add: drop_lock_def mon_run_append mon_step_simps)
  with run show ?thesis by (simp add: t_wp_def)
qed

lemma session_mon:
  fixes w :: "'s browser_world"
  assumes "mon True w = Some m" and "\<not> mo_locked m"
  shows "t_wp (run_with_session co data session_id) w (\<lambda>r w'. \<exists>m'. mon True w' = Some m' \<and> \<not> mo_locked m')"
proof -
  have body: "t_wp (t_bind (acquire_session_lock co session_id) (\<lambda>lock w.
      case with_session co data session_id w of (r, w') \<Rightarrow> (r, drop_lock co lock w'))) v
      (\<lambda>r w'. \<exists>m'. mon True w' = Some m' \<and> \<not> mo_locked m')" if "mon True v = Some m" for v
    by (rule acquire_bind_wp [OF that]) (use assms(2) in \<open>auto intro: with_lock_wp\<close>)
  show ?thesis
    unfolding run_with_session_def
    by (rule t_wp_lift_bind, rule ensure_dir_bind_wp [OF assms(1)]) (use assms body in auto)
qed

text \<open>
  C20. A browser command keeps the protocol of its calls. Steps run only on a page whose downloads have been denied. In a
  session, the session file and Chrome are touched only while the session's lock is held, and the lock is given back
  whatever happens. Without a session the Chrome that was launched is closed again, unless a step panics.
\<close>

theorem browser_command_protocol:
  "case run_browser_command co data (w \<lparr> bw_log := [] \<rparr>) of (r, w') \<Rightarrow>
     (case mon_run (pc_session_id data \<noteq> None) (bw_log w') mon_start of
        None \<Rightarrow> False
      | Some m \<Rightarrow>
          (case pc_session_id data of
             None \<Rightarrow> r = Panicked \<or> mo_open m = 0
           | Some session_id \<Rightarrow> \<not> mo_locked m))"
proof (cases "pc_session_id data")
  case None
  have "mon False (w \<lparr> bw_log := [] \<rparr>) = Some mon_start" by simp
  from ephemeral_mon [OF this, of co data] None show ?thesis
    by (auto simp: run_browser_command_def t_wp_def mon_start_def split: prod.splits)
next
  case (Some session_id)
  have "mon True (w \<lparr> bw_log := [] \<rparr>) = Some mon_start" by simp
  from session_mon [OF this, of co data session_id] Some show ?thesis
    by (auto simp: run_browser_command_def t_wp_def mon_start_def split: prod.splits)
qed

section \<open>Session files\<close>

lemma u32_through_u64: "ucast (ucast x :: u64) = (x :: u32)"
  by transfer (simp add: take_bit_take_bit)

text \<open>
  A saved session file reads back: given that JSON and times read back, the text written for a session is loaded as
  that session.
\<close>

theorem session_file_reads_back:
  assumes "sl_json_read sl (sl_json_text sl (session_fields sl sf)) = Inr (jobj (session_fields sl sf))"
    and "sl_read_time sl (sl_show_time sl (sf_started_at sf)) = Some (sf_started_at sf)"
    and "sl_read_time sl (sl_show_time sl (sf_last_used_at sf)) = Some (sf_last_used_at sf)"
  shows "load_session sl (Inr (sl_json_text sl (session_fields sl sf))) = Inr (Some sf)"
proof -
  have "uint (ucast (sf_pid sf) :: u64) < 2 ^ 32"
    using uint_lt2p [of "sf_pid sf"] by (simp add: unsigned_ucast_eq take_bit_int_eq_self)
  then have "json_u32 (JNumber (PosInt (ucast (sf_pid sf)))) = Some (sf_pid sf)"
    by (simp add: json_u32_def u32_through_u64)
  with assms show ?thesis
    by (simp add: load_session_def session_of_json_def json_time_def) (simp add: session_fields_def)
qed

definition sample_session_libs :: session_libs where
  "sample_session_libs =
     \<lparr> sl_json_text = (\<lambda>kvs. ''session''),
       sl_json_read = (\<lambda>s. Inr (jobj [(''pid'', JNumber (PosInt 7)), (''websocket_url'', JString ''ws''),
         (''target_id'', JString ''T''), (''started_at'', JString ''1''), (''last_used_at'', JString ''2''),
         (''interrupted'', JBool True)])),
       sl_show_time = show_int, sl_read_time = (\<lambda>s. map_option int (parse_unsigned (2 ^ 32) s)) \<rparr>"

lemma session_file_reads_back_witness:
  "load_session sample_session_libs (Inr ''session'') =
     Inr (Some \<lparr> sf_pid = 7, sf_websocket_url = ''ws'', sf_target_id = ''T'', sf_started_at = 1, sf_last_used_at = 2,
                 sf_interrupted = True \<rparr>)"
proof -
  let ?sf = "\<lparr> sf_pid = 7, sf_websocket_url = ''ws'', sf_target_id = ''T'', sf_started_at = 1, sf_last_used_at = 2,
                 sf_interrupted = True \<rparr>"
  have "parse_unsigned (2 ^ 32) (show_int 1) = Some 1" "parse_unsigned (2 ^ 32) (show_int 2) = Some 2"
    by (simp_all add: show_int_def show_nat.simps parse_unsigned_def Let_def is_ascii_digit_def)
  moreover have "show_int 1 = ''1''" "show_int 2 = ''2''"
    by (simp_all add: show_int_def show_nat.simps)
  ultimately show ?thesis
    using session_file_reads_back [of sample_session_libs ?sf]
    by (simp add: sample_session_libs_def session_fields_def)
qed

end
