(* ===== verification/CacheJson.thy ===== *)
theory CacheJson
  imports Utf8 Json
begin

text \<open>
  The wrappers that put JSON values and paths into the archive of the catalog cache as text
  (\<open>crates/earl-core/src/with.rs\<close>). \<open>resolve_with\<close> and \<open>serialize_with\<close> write the same text, so each pair is one
  writer here. The text form of JSON is a parameter; a path is the bytes it has on the file system.
\<close>

record json_codec =
  jc_text :: "json \<Rightarrow> string + string"
  jc_read :: "string \<Rightarrow> string + json"

section \<open>Paths\<close>

definition as_path_write :: "string \<Rightarrow> string" where
  "as_path_write path = from_utf8_lossy path"

definition as_path_read :: "string \<Rightarrow> string" where
  "as_path_read archived = archived"

section \<open>Values\<close>

text \<open>\<open>to_string(..).unwrap_or_default()\<close>, and reading with a default for a text that is not of the type.\<close>

definition json_write :: "json_codec \<Rightarrow> json \<Rightarrow> string" where
  "json_write jc v = (case jc_text jc v of Inr s \<Rightarrow> s | Inl e \<Rightarrow> [])"

definition as_json_write_value :: "json_codec \<Rightarrow> json \<Rightarrow> string" where
  "as_json_write_value jc v = json_write jc v"

definition as_json_read_value :: "json_codec \<Rightarrow> string \<Rightarrow> json" where
  "as_json_read_value jc s = (case jc_read jc s of Inr v \<Rightarrow> v | Inl e \<Rightarrow> JNull)"

definition as_json_write_map :: "json_codec \<Rightarrow> json_map \<Rightarrow> string" where
  "as_json_write_map jc kvs = json_write jc (JObject kvs)"

definition as_json_read_map :: "json_codec \<Rightarrow> string \<Rightarrow> json_map" where
  "as_json_read_map jc s = (case jc_read jc s of Inr (JObject kvs) \<Rightarrow> kvs | _ \<Rightarrow> [])"

definition as_json_write_list :: "json_codec \<Rightarrow> json list \<Rightarrow> string" where
  "as_json_write_list jc vs = json_write jc (JArray vs)"

definition as_json_read_list :: "json_codec \<Rightarrow> string \<Rightarrow> json list" where
  "as_json_read_list jc s = (case jc_read jc s of Inr (JArray vs) \<Rightarrow> vs | _ \<Rightarrow> [])"

definition as_json_write_opt_value :: "json_codec \<Rightarrow> json option \<Rightarrow> string option" where
  "as_json_write_opt_value jc v = map_option (json_write jc) v"

definition as_json_read_opt_value :: "json_codec \<Rightarrow> string option \<Rightarrow> json option" where
  "as_json_read_opt_value jc s = map_option (as_json_read_value jc) s"

definition as_json_write_opt_map :: "json_codec \<Rightarrow> json_map option \<Rightarrow> string option" where
  "as_json_write_opt_map jc kvs = map_option (as_json_write_map jc) kvs"

definition as_json_read_opt_map :: "json_codec \<Rightarrow> string option \<Rightarrow> json_map option" where
  "as_json_read_opt_map jc s = map_option (as_json_read_map jc) s"

definition as_json_write_opt_list :: "json_codec \<Rightarrow> json list option \<Rightarrow> string option" where
  "as_json_write_opt_list jc vs = map_option (as_json_write_list jc) vs"

definition as_json_read_opt_list :: "json_codec \<Rightarrow> string option \<Rightarrow> json list option" where
  "as_json_read_opt_list jc s = map_option (as_json_read_list jc) s"

section \<open>Fingerprints\<close>

text \<open>A list of pairs as JSON, and reading one: an array of two-element arrays of a string and an unsigned number.\<close>

definition pair_json :: "string \<times> u64 \<Rightarrow> json" where
  "pair_json pt = JArray [JString (fst pt), JNumber (PosInt (snd pt))]"

fun json_pair :: "json \<Rightarrow> (string \<times> u64) option" where
  "json_pair (JArray [JString p, JNumber (PosInt t)]) = Some (p, t)"
| "json_pair v = None"

fun json_pairs :: "json list \<Rightarrow> (string \<times> u64) list option" where
  "json_pairs [] = Some []"
| "json_pairs (v # vs) =
     (case (json_pair v, json_pairs vs) of (Some pt, Some pts) \<Rightarrow> Some (pt # pts) | _ \<Rightarrow> None)"

definition pairs_json :: "(string \<times> u64) list \<Rightarrow> json" where
  "pairs_json pts = JArray (map pair_json pts)"

definition lossy_pairs :: "(string \<times> u64) list \<Rightarrow> (string \<times> u64) list" where
  "lossy_pairs fps = map (\<lambda>(p, t). (from_utf8_lossy p, t)) fps"

definition as_json_write_fingerprint :: "json_codec \<Rightarrow> (string \<times> u64) list \<Rightarrow> string" where
  "as_json_write_fingerprint jc fps = json_write jc (pairs_json (lossy_pairs fps))"

definition as_json_read_fingerprint :: "json_codec \<Rightarrow> string \<Rightarrow> (string \<times> u64) list" where
  "as_json_read_fingerprint jc s =
     (case jc_read jc s of
        Inr (JArray vs) \<Rightarrow> (case json_pairs vs of Some pts \<Rightarrow> pts | None \<Rightarrow> [])
      | _ \<Rightarrow> [])"

section \<open>What survives the archive\<close>

text \<open>The codec keeps a value: what it writes reads back.\<close>

definition codec_keeps :: "json_codec \<Rightarrow> json \<Rightarrow> bool" where
  "codec_keeps jc v \<longleftrightarrow> (case jc_text jc v of Inr s \<Rightarrow> jc_read jc s = Inr v | Inl e \<Rightarrow> False)"

lemma codec_keeps_write: "codec_keeps jc v \<Longrightarrow> jc_read jc (json_write jc v) = Inr v"
  by (auto simp: codec_keeps_def json_write_def split: sum.splits)

lemma values_read_back:
  "codec_keeps jc v \<Longrightarrow> as_json_read_value jc (as_json_write_value jc v) = v"
  "codec_keeps jc (JObject kvs) \<Longrightarrow> as_json_read_map jc (as_json_write_map jc kvs) = kvs"
  "codec_keeps jc (JArray vs) \<Longrightarrow> as_json_read_list jc (as_json_write_list jc vs) = vs"
  by (simp_all add: as_json_read_value_def as_json_write_value_def as_json_read_map_def as_json_write_map_def
      as_json_read_list_def as_json_write_list_def codec_keeps_write)

lemma options_read_back:
  "(\<And>x. v = Some x \<Longrightarrow> codec_keeps jc x) \<Longrightarrow> as_json_read_opt_value jc (as_json_write_opt_value jc v) = v"
  "(\<And>x. kvs = Some x \<Longrightarrow> codec_keeps jc (JObject x)) \<Longrightarrow> as_json_read_opt_map jc (as_json_write_opt_map jc kvs) = kvs"
  "(\<And>x. vs = Some x \<Longrightarrow> codec_keeps jc (JArray x)) \<Longrightarrow> as_json_read_opt_list jc (as_json_write_opt_list jc vs) = vs"
  using values_read_back
  by (auto simp: as_json_read_opt_value_def as_json_write_opt_value_def as_json_read_opt_map_def as_json_write_opt_map_def
      as_json_read_opt_list_def as_json_write_opt_list_def as_json_write_value_def option.map_comp comp_def
      split: option.splits intro!: map_option_idI)

lemma lossy_fixed: "from_utf8_lossy s = s \<longleftrightarrow> is_utf8 s"
  using lossy_utf8 [of s] lossy_valid [of s] by metis

lemma as_path_read_back: "as_path_read (as_path_write p) = p \<longleftrightarrow> is_utf8 p"
  by (simp add: as_path_read_def as_path_write_def lossy_fixed)

lemma json_pairs_map [simp]: "json_pairs (map pair_json pts) = Some pts"
  by (induction pts) (auto simp: pair_json_def)

lemma lossy_pairs_fixed: "lossy_pairs fps = fps \<longleftrightarrow> list_all (\<lambda>(p, t). is_utf8 p) fps"
  by (induction fps) (auto simp: lossy_pairs_def lossy_fixed)

text \<open>
  The fingerprint of the template files that a cache keeps comes back with every path made valid UTF-8, so that it is
  the fingerprint that was stored exactly when every path is valid UTF-8; with any other path the cache never hits.
\<close>

theorem fingerprint_survives_iff_utf8:
  assumes "codec_keeps jc (pairs_json (lossy_pairs fps))"
  shows "as_json_read_fingerprint jc (as_json_write_fingerprint jc fps) = lossy_pairs fps
    \<and> (as_json_read_fingerprint jc (as_json_write_fingerprint jc fps) = fps \<longleftrightarrow> list_all (\<lambda>(p, t). is_utf8 p) fps)"
proof -
  have "as_json_read_fingerprint jc (as_json_write_fingerprint jc fps) = lossy_pairs fps"
    using codec_keeps_write [OF assms]
    by (simp add: as_json_read_fingerprint_def as_json_write_fingerprint_def pairs_json_def)
  then show ?thesis by (simp add: lossy_pairs_fixed)
qed

text \<open>One file name is a single byte that is not UTF-8.\<close>

definition sample_codec :: json_codec where
  "sample_codec =
     \<lparr> jc_text = (\<lambda>v. Inr ''text''),
       jc_read = (\<lambda>s. Inr (pairs_json [(''a.hcl'', 5), (replacement_char, 6)])) \<rparr>"

lemma fingerprint_survives_iff_utf8_witness:
  "as_json_read_fingerprint sample_codec (as_json_write_fingerprint sample_codec [(''a.hcl'', 5), ([CHR 0xFF], 6)])
     = [(''a.hcl'', 5), (replacement_char, 6)]"
proof -
  have "lossy_pairs [(''a.hcl'', 5), ([CHR 0xFF], 6)] = [(''a.hcl'', 5), (replacement_char, 6)]"
    by code_simp
  then show ?thesis
    using fingerprint_survives_iff_utf8 [of sample_codec "[(''a.hcl'', 5), ([CHR 0xFF], 6)]"]
    by (simp add: codec_keeps_def sample_codec_def)
qed

end
