(* ===== verification/Float32.thy ===== *)
theory Float32
  imports Std
begin

text \<open>
  Rust's \<open>f32\<close>, as far as the search uses it: a value is its IEEE 754 bit pattern, and addition, multiplication,
  division and square root are the exact result rounded to nearest, ties to even. Which NaN an operation gives is left
  open by Rust and is a parameter.
\<close>

type_synonym f32 = "32 word"

definition f32_negative :: "f32 \<Rightarrow> bool" where "f32_negative f \<longleftrightarrow> unat f \<ge> 2 ^ 31"
definition f32_expo :: "f32 \<Rightarrow> nat" where "f32_expo f = unat f div 2 ^ 23 mod 256"
definition f32_frac :: "f32 \<Rightarrow> nat" where "f32_frac f = unat f mod 2 ^ 23"

definition f32_is_nan :: "f32 \<Rightarrow> bool" where "f32_is_nan f \<longleftrightarrow> f32_expo f = 255 \<and> f32_frac f \<noteq> 0"
definition f32_is_inf :: "f32 \<Rightarrow> bool" where "f32_is_inf f \<longleftrightarrow> f32_expo f = 255 \<and> f32_frac f = 0"
definition f32_is_zero :: "f32 \<Rightarrow> bool" where "f32_is_zero f \<longleftrightarrow> f32_expo f = 0 \<and> f32_frac f = 0"

text \<open>A finite value is a whole number of units \<open>2 ^ -149\<close>; this is how many, without the sign.\<close>

definition f32_units :: "f32 \<Rightarrow> nat" where
  "f32_units f = (if f32_expo f = 0 then f32_frac f else (2 ^ 23 + f32_frac f) * 2 ^ (f32_expo f - 1))"

definition f32_int :: "f32 \<Rightarrow> int" where
  "f32_int f = (if f32_negative f then - int (f32_units f) else int (f32_units f))"

definition f32_of :: "bool \<Rightarrow> nat \<Rightarrow> f32" where
  "f32_of negative bits = word_of_nat ((if negative then 2 ^ 31 else 0) + bits)"

definition f32_inf :: "bool \<Rightarrow> f32" where "f32_inf negative = f32_of negative 0x7F800000"

text \<open>
  The nearest \<open>f32\<close> to \<open>n / d\<close> units, for \<open>d > 0\<close>: below \<open>2 ^ 24\<close> units every whole number is a value; above, the
  value has 24 bits, and its last place is \<open>2 ^ e\<close> units. A carry goes into the exponent by itself.
\<close>

definition round_even :: "nat \<Rightarrow> nat \<Rightarrow> nat" where
  "round_even n d = (let q = n div d; r = n mod d in if 2 * r > d \<or> 2 * r = d \<and> odd q then q + 1 else q)"

definition f32_round :: "bool \<Rightarrow> nat \<Rightarrow> nat \<Rightarrow> f32" where
  "f32_round negative n d =
     (let e = log2_floor (n div d) - 23;
          bits = e * 2 ^ 23 + round_even n (d * 2 ^ e)
      in if bits \<ge> 0x7F800000 then f32_inf negative else f32_of negative bits)"

section \<open>Arithmetic\<close>

definition f32_add :: "f32 \<Rightarrow> f32 \<Rightarrow> f32 \<Rightarrow> f32" where
  "f32_add nan x y =
     (if f32_is_nan x \<or> f32_is_nan y then nan
      else if f32_is_inf x \<and> f32_is_inf y then if f32_negative x = f32_negative y then x else nan
      else if f32_is_inf x then x
      else if f32_is_inf y then y
      else
        let s = f32_int x + f32_int y
        in if s = 0 then f32_of (f32_negative x \<and> f32_negative y) 0 else f32_round (s < 0) (nat \<bar>s\<bar>) 1)"

definition f32_mul :: "f32 \<Rightarrow> f32 \<Rightarrow> f32 \<Rightarrow> f32" where
  "f32_mul nan x y =
     (let sign = (f32_negative x \<noteq> f32_negative y)
      in if f32_is_nan x \<or> f32_is_nan y then nan
         else if f32_is_inf x \<or> f32_is_inf y then if f32_is_zero x \<or> f32_is_zero y then nan else f32_inf sign
         else f32_round sign (f32_units x * f32_units y) (2 ^ 149))"

definition f32_div :: "f32 \<Rightarrow> f32 \<Rightarrow> f32 \<Rightarrow> f32" where
  "f32_div nan x y =
     (let sign = (f32_negative x \<noteq> f32_negative y)
      in if f32_is_nan x \<or> f32_is_nan y then nan
         else if f32_is_inf x then if f32_is_inf y then nan else f32_inf sign
         else if f32_is_inf y then f32_of sign 0
         else if f32_is_zero y then if f32_is_zero x then nan else f32_inf sign
         else f32_round sign (f32_units x * 2 ^ 149) (f32_units y))"

text \<open>The whole part of a square root, digit by digit in base 4.\<close>

fun isqrt :: "nat \<Rightarrow> nat" where
  "isqrt n = (if n = 0 then 0 else let s = 2 * isqrt (n div 4) in if (s + 1) * (s + 1) \<le> n then s + 1 else s)"

declare isqrt.simps [simp del]

text \<open>
  In units the root of \<open>u\<close> units is the root of \<open>u * 2 ^ 149\<close>. It has at least 75 bits or \<open>u\<close> is zero, so that an inexact
  root may be replaced by any number strictly between the same two whole ones.
\<close>

definition f32_sqrt :: "f32 \<Rightarrow> f32 \<Rightarrow> f32" where
  "f32_sqrt nan x =
     (if f32_is_nan x then nan
      else if f32_is_zero x then x
      else if f32_negative x then nan
      else if f32_is_inf x then x
      else
        let a = f32_units x * 2 ^ 149; r = isqrt a
        in f32_round False (if r * r = a then 2 * r else 2 * r + 1) 2)"

text \<open>\<open>==\<close>: zeros are equal, a NaN is equal to nothing.\<close>

definition f32_eq :: "f32 \<Rightarrow> f32 \<Rightarrow> bool" where
  "f32_eq x y \<longleftrightarrow> \<not> f32_is_nan x \<and> \<not> f32_is_nan y \<and> (x = y \<or> f32_is_zero x \<and> f32_is_zero y)"

text \<open>\<open>total_cmp\<close>: by the bits, negative ones reversed.\<close>

definition f32_key :: "f32 \<Rightarrow> int" where
  "f32_key f = (if f32_negative f then - 1 - (int (unat f) - 2 ^ 31) else int (unat f))"

definition f32_one :: f32 where "f32_one = 0x3F800000"

section \<open>Facts\<close>

lemma isqrt_correct: "isqrt n * isqrt n \<le> n \<and> n < (isqrt n + 1) * (isqrt n + 1)"
proof (induction n rule: isqrt.induct)
  case (1 n)
  show ?case
  proof (cases "n = 0")
    case False
    define s where "s = isqrt (n div 4)"
    have IH: "s * s \<le> n div 4" "n div 4 < (s + 1) * (s + 1)" using 1 False by (simp_all add: s_def)
    then have low: "(2 * s) * (2 * s) \<le> n" and high: "n < (2 * s + 2) * (2 * s + 2)" by (auto simp: algebra_simps)
    have "isqrt n = (if (2 * s + 1) * (2 * s + 1) \<le> n then 2 * s + 1 else 2 * s)"
      using False by (subst isqrt.simps) (simp add: s_def Let_def)
    with low high show ?thesis by (simp add: algebra_simps)
  qed (simp add: isqrt.simps)
qed

lemma f32_examples:
  "f32_add nan f32_one f32_one = 0x40000000" "f32_add nan 0x40000000 f32_one = 0x40400000"
  "f32_div nan f32_one 0x40400000 = 0x3EAAAAAB" "f32_mul nan 0x3EAAAAAB 0x40400000 = f32_one"
  by (simp_all add: f32_add_def f32_mul_def f32_div_def f32_one_def f32_is_nan_def f32_is_inf_def
      f32_is_zero_def f32_expo_def f32_frac_def f32_int_def f32_units_def f32_negative_def f32_round_def f32_of_def
      f32_inf_def round_even_def log2_floor.simps)

end
