(* ===== verification/Search.thy ===== *)
theory Search
  imports Float32 Catalog Secrets ActionLog
begin

text \<open>
  The search over templates (\<open>src/search/\<close>): the documents made from a catalog, similarity in \<open>f32\<close>, the remote and the
  local semantic searches and the count of words they fall back to. The HTTP client, the readers of the answers and the
  models of fastembed are parameters; where Rust leaves a NaN open it is a parameter too.
\<close>

section \<open>Documents\<close>

record search_document =
  sd_key :: string
  sd_text :: string
  sd_title :: string
  sd_summary :: string
  sd_description :: string
  sd_categories :: "string list"
  sd_mode :: string
  sd_source_scope :: string

record search_hit =
  sh_key :: string
  sh_score :: f32
  sh_summary :: string

text \<open>What the operation adds to the text.\<close>

definition text_list :: "string option \<Rightarrow> string list" where
  "text_list x = (case x of None \<Rightarrow> [] | Some s \<Rightarrow> [s])"

definition operation_corpus :: "operation_template \<Rightarrow> string list" where
  "operation_corpus op =
     (case op_protocol op of
        Http \<Rightarrow> text_list (op_request_url op)
      | Graphql \<Rightarrow> text_list (op_request_url op)
      | Grpc \<Rightarrow>
          text_list (op_request_url op)
          @ (case op_grpc_service_method op of None \<Rightarrow> [] | Some (service, meth) \<Rightarrow> [service @ ''.'' @ meth])
      | Bash \<Rightarrow> text_list (op_bash_script op)
      | Sql \<Rightarrow> text_list (op_sql_query op)
      | Browser \<Rightarrow> [])"

fun scope_label :: "template_scope \<Rightarrow> string" where
  "scope_label ScopeLocal = ''local''"
| "scope_label ScopeGlobal = ''global''"

definition entry_corpus :: "catalog_entry \<Rightarrow> string list" where
  "entry_corpus entry =
     [te_key entry, te_title entry, te_summary entry, te_description entry] @ te_categories entry
     @ operation_corpus (ct_operation (te_template entry))
     @ [rt_output (ct_result (te_template entry))]
     @ map (\<lambda>p. param_name p @ '':'' @ param_type_display (param_ty p)) (ct_params (te_template entry))"

definition entry_document :: "catalog_entry \<Rightarrow> search_document" where
  "entry_document entry =
     \<lparr> sd_key = te_key entry, sd_text = str_join [CHR 0x0A] (entry_corpus entry), sd_title = te_title entry,
       sd_summary = te_summary entry, sd_description = te_description entry, sd_categories = te_categories entry,
       sd_mode = mode_as_str (te_mode entry), sd_source_scope = scope_label (src_scope (te_source entry)) \<rparr>"

definition build_documents :: "catalog \<Rightarrow> search_document list" where
  "build_documents cat = map entry_document (bt_values cat)"

definition hit_of :: "search_document \<Rightarrow> f32 \<Rightarrow> search_hit" where
  "hit_of doc score = \<lparr> sh_key = sd_key doc, sh_score = score, sh_summary = sd_summary doc \<rparr>"

section \<open>Similarity and ranking\<close>

definition dot_norms :: "f32 \<Rightarrow> f32 list \<Rightarrow> f32 list \<Rightarrow> f32 \<times> f32 \<times> f32" where
  "dot_norms nan a b =
     fold (\<lambda>(x, y) (dot, norm_a, norm_b).
         (f32_add nan dot (f32_mul nan x y), f32_add nan norm_a (f32_mul nan x x), f32_add nan norm_b (f32_mul nan y y)))
       (zip a b) (0, 0, 0)"

definition cosine_similarity :: "f32 \<Rightarrow> f32 list \<Rightarrow> f32 list \<Rightarrow> f32" where
  "cosine_similarity nan a b =
     (if a = [] \<or> b = [] \<or> length a \<noteq> length b then 0
      else case dot_norms nan a b of
        (dot, norm_a, norm_b) \<Rightarrow>
          if f32_eq norm_a 0 \<or> f32_eq norm_b 0 then 0
          else f32_div nan dot (f32_mul nan (f32_sqrt nan norm_a) (f32_sqrt nan norm_b)))"

text \<open>A stable sort by descending \<open>total_cmp\<close>.\<close>

definition sort_scored :: "('i \<times> f32) list \<Rightarrow> ('i \<times> f32) list" where
  "sort_scored xs = sort_key (\<lambda>x. - f32_key (snd x)) xs"

definition rank_embeddings :: "f32 \<Rightarrow> f32 list \<Rightarrow> f32 list list \<Rightarrow> (nat \<times> f32) list" where
  "rank_embeddings nan query_embedding embeddings =
     sort_scored (enumerate 0 (map (cosine_similarity nan query_embedding) embeddings))"

text \<open>The documents a reranker chose among the best ones; an index it makes up is skipped.\<close>

definition reranked_hits :: "search_document list \<Rightarrow> nat list \<Rightarrow> (nat \<times> f32) list \<Rightarrow> search_hit list" where
  "reranked_hits documents top_indices items =
     concat (map (\<lambda>(index, score).
         if index < length top_indices then [hit_of (documents ! (top_indices ! index)) score] else []) items)"

section \<open>The words of the query\<close>

definition lexical_score :: "f32 \<Rightarrow> string \<Rightarrow> string \<Rightarrow> f32" where
  "lexical_score nan query txt =
     fold (\<lambda>token score. if sublist token (to_ascii_lowercase txt) then f32_add nan score f32_one else score)
       (split_whitespace (to_ascii_lowercase query)) 0"

definition lexical_fallback :: "f32 \<Rightarrow> string \<Rightarrow> search_document list \<Rightarrow> search_hit list" where
  "lexical_fallback nan query documents =
     sort_key (\<lambda>h. - f32_key (sh_score h)) (map (\<lambda>doc. hit_of doc (lexical_score nan query (sd_text doc))) documents)"

section \<open>The local search\<close>

text \<open>fastembed: the names it knows, the two models it loads, and what they compute.\<close>

record local_models =
  lm_embedding_name :: "string \<Rightarrow> string + unit"
  lm_reranker_name :: "string \<Rightarrow> string + unit"
  lm_embedder :: "string \<Rightarrow> string + unit"
  lm_reranker :: "string \<Rightarrow> string + unit"
  lm_embed :: "string \<Rightarrow> string list \<Rightarrow> string + f32 list list"
  lm_rerank :: "string \<Rightarrow> string \<Rightarrow> string list \<Rightarrow> string + (nat \<times> f32) list"

text \<open>None is a panic: a model that gives more embeddings than texts leads to an index out of range.\<close>

definition search_local ::
    "f32 \<Rightarrow> local_models \<Rightarrow> string \<Rightarrow> search_document list \<Rightarrow> search_config \<Rightarrow> search_hit list result option" where
  "search_local nan lm query documents cfg =
     (if documents = [] then Some (Inr [])
      else
        let embedding_model = ls_embedding_model (sc_local cfg); reranker_model = ls_reranker_model (sc_local cfg);
            doc_texts = map sd_text documents;
            ready =
              and_then (with_context (''invalid embedding model `'' @ embedding_model @ ''`'')
                (os_error (lm_embedding_name lm embedding_model))) (\<lambda>_.
              and_then (with_context (''invalid reranker model `'' @ reranker_model @ ''`'')
                (os_error (lm_reranker_name lm reranker_model))) (\<lambda>_.
              and_then (with_context ''failed to initialize local embedding model''
                (os_error (lm_embedder lm embedding_model))) (\<lambda>_.
              and_then (with_context ''failed to initialize local reranker model''
                (os_error (lm_reranker lm reranker_model))) (\<lambda>_.
              and_then (with_context ''failed generating query embedding''
                (os_error (lm_embed lm embedding_model [query]))) (\<lambda>query_embeddings.
              and_then
                (case query_embeddings of
                   [] \<Rightarrow> bail ''embedding model returned empty query embedding''
                 | q # _ \<Rightarrow> Inr q) (\<lambda>query_embedding.
              and_then (with_context ''failed generating document embeddings''
                (os_error (lm_embed lm embedding_model doc_texts))) (\<lambda>doc_embeddings.
              Inr (map fst (take (unat (sc_top_k cfg)) (rank_embeddings nan query_embedding doc_embeddings))))))))))
        in case ready of
             Inl e \<Rightarrow> Some (Inl e)
           | Inr top_indices \<Rightarrow>
               if \<not> list_all (\<lambda>i. i < length documents) top_indices then None
               else
                 Some (and_then (with_context ''local reranking failed''
                     (os_error (lm_rerank lm reranker_model query (map (\<lambda>i. doc_texts ! i) top_indices)))) (\<lambda>reranked.
                   Inr (reranked_hits documents top_indices (take (unat (sc_rerank_k cfg)) reranked)))))"

section \<open>The remote search\<close>

record search_request =
  sq_url :: string
  sq_bearer :: string
  sq_body :: json

text \<open>An answer: whether its status is a success, and the two readers of its body.\<close>

record search_answer =
  sa_success :: bool
  sa_embeddings :: "string + f32 list list"
  sa_rerank :: "string + (nat \<times> f32) list"

record ('n, 'w) search_world =
  sw_net :: 'n
  sw_secrets :: "'w \<times> nat list"
  sw_log :: "search_request list"

record ('n, 'w, 'st) search_libs =
  sx_nan :: f32
  sx_lower :: "string \<Rightarrow> string"
  sx_store :: "'st secret_store_ops"
  sx_store_state :: 'st
  sx_resolvers :: "'w secret_resolver list"
  sx_client :: "u64 \<Rightarrow> string + unit"
  sx_post :: "search_request \<Rightarrow> 'n \<Rightarrow> (string + search_answer) \<times> 'n"
  sx_local :: "local_models option"

definition require_key :: "('n, 'w, 'st) search_libs \<Rightarrow> string \<Rightarrow> (('n, 'w) search_world, string) action" where
  "require_key sx key w =
     (case require_secret (sx_lower sx) (sx_store sx) (sx_resolvers sx) key (sx_store_state sx) (sw_secrets w) of
        (r, secrets) \<Rightarrow> (r, w \<lparr> sw_secrets := secrets \<rparr>))"

definition send_search :: "('n, 'w, 'st) search_libs \<Rightarrow> search_request \<Rightarrow> (('n, 'w) search_world, string + search_answer) action" where
  "send_search sx req w =
     (case sx_post sx req (sw_net w) of
        (r, net) \<Rightarrow> (Inr r, w \<lparr> sw_net := net, sw_log := sw_log w @ [req] \<rparr>))"

definition strings_json :: "string list \<Rightarrow> json" where "strings_json xs = JArray (map JString xs)"

definition embeddings_request :: "string \<Rightarrow> string \<Rightarrow> string list \<Rightarrow> search_request" where
  "embeddings_request url key texts =
     \<lparr> sq_url = url, sq_bearer = key,
       sq_body = jobj [(''model'', JString ''text-embedding-3-small''), (''input'', strings_json texts)] \<rparr>"

definition rerank_request :: "string \<Rightarrow> string \<Rightarrow> string \<Rightarrow> string list \<Rightarrow> search_request" where
  "rerank_request url key query docs =
     \<lparr> sq_url = url, sq_bearer = key,
       sq_body = jobj [(''query'', JString query), (''documents'', strings_json docs), (''top_n'', JNumber (PosInt 10))] \<rparr>"

definition best_hits :: "search_document list \<Rightarrow> (nat \<times> f32) list \<Rightarrow> search_hit list" where
  "best_hits documents scored = map (\<lambda>(i, score). hit_of (documents ! i) score) (take 10 scored)"

text \<open>What the answer to the second request adds: hits, or nothing on any failure.\<close>

definition rerank_hits_of ::
    "search_document list \<Rightarrow> (nat \<times> f32) list \<Rightarrow> string + search_answer \<Rightarrow> search_hit list" where
  "rerank_hits_of documents scored answer =
     (case answer of
        Inl e \<Rightarrow> []
      | Inr resp \<Rightarrow>
          if sa_success resp
          then (case sa_rerank resp of
                  Inl e \<Rightarrow> []
                | Inr items \<Rightarrow> reranked_hits documents (map fst (take 40 scored)) (take 10 items))
          else [])"

definition rank_remote ::
    "('n, 'w, 'st) search_libs \<Rightarrow> string \<Rightarrow> search_document list \<Rightarrow> string \<Rightarrow> string \<Rightarrow> f32 list list \<Rightarrow>
     (('n, 'w) search_world, search_hit list option) action" where
  "rank_remote sx query documents rerank_url api_key embeddings =
     (let scored = rank_embeddings (sx_nan sx) (hd embeddings) (tl embeddings);
          rerank_docs = map (\<lambda>(i, score). sd_text (documents ! i)) (take 40 scored)
      in act_bind (send_search sx (rerank_request rerank_url api_key query rerank_docs)) (\<lambda>answer.
         let hits = rerank_hits_of documents scored answer
         in act_return (Some (if hits \<noteq> [] then hits else best_hits documents scored))))"

definition search_remote ::
    "('n, 'w, 'st) search_libs \<Rightarrow> string \<Rightarrow> search_document list \<Rightarrow> remote_search_config \<Rightarrow>
     (('n, 'w) search_world, search_hit list option) action" where
  "search_remote sx query documents cfg =
     (if \<not> rs_enabled cfg then act_return None
      else
        case rs_base_url cfg of
          None \<Rightarrow> act_return None
        | Some url \<Rightarrow>
            (let base_url = trim_end_matches ''/'' url
             in case rs_api_key_secret cfg of
                  None \<Rightarrow> act_return None
                | Some secret_key \<Rightarrow>
                    act_bind (require_key sx secret_key) (\<lambda>api_key.
                    act_bind (act_lift (with_context ''failed building remote search client''
                      (os_error (sx_client sx (rs_timeout_ms cfg))))) (\<lambda>_.
                    let embeddings_url = base_url @ rs_embeddings_path cfg
                    in act_bind (send_search sx (embeddings_request embeddings_url api_key (query # map sd_text documents))) (\<lambda>answer.
                       act_bind (act_lift (with_context (''remote embeddings request failed: '' @ embeddings_url)
                         (os_error answer))) (\<lambda>resp.
                       if \<not> sa_success resp then act_return None
                       else
                         act_bind (act_lift (with_context ''failed decoding remote embeddings response''
                           (os_error (sa_embeddings resp)))) (\<lambda>embeddings.
                         if length embeddings \<noteq> length documents + 1 then act_return None
                         else rank_remote sx query documents (base_url @ rs_rerank_path cfg) api_key embeddings)))))))"

section \<open>The search\<close>

text \<open>Without the feature for local search there is no local model.\<close>

definition local_hits :: "('n, 'w, 'st) search_libs \<Rightarrow> string \<Rightarrow> search_document list \<Rightarrow> search_config \<Rightarrow> search_hit list option" where
  "local_hits sx query documents cfg =
     (case sx_local sx of
        None \<Rightarrow> None
      | Some lm \<Rightarrow>
          (case search_local (sx_nan sx) lm query documents cfg of
             Some (Inr hits) \<Rightarrow> Some hits
           | _ \<Rightarrow> None))"

definition search_templates ::
    "('n, 'w, 'st) search_libs \<Rightarrow> string \<Rightarrow> catalog \<Rightarrow> config \<Rightarrow> usize \<Rightarrow> (('n, 'w) search_world, search_hit list) action" where
  "search_templates sx query cat cfg limit =
     (let documents = build_documents cat
      in act_bind (search_remote sx query documents (sc_remote (cfg_search cfg))) (\<lambda>remote_hits.
         act_return (take (unat limit)
           (case remote_hits of
              Some hits \<Rightarrow> hits
            | None \<Rightarrow>
                (case local_hits sx query documents (cfg_search cfg) of
                   Some hits \<Rightarrow> hits
                 | None \<Rightarrow> lexical_fallback (sx_nan sx) query documents)))))"


section \<open>Every hit is a document\<close>

definition hit_in :: "catalog \<Rightarrow> search_hit \<Rightarrow> bool" where
  "hit_in cat hit \<longleftrightarrow> list_ex (\<lambda>entry. sh_key hit = te_key entry \<and> sh_summary hit = te_summary entry) (bt_values cat)"

definition hit_among :: "search_document list \<Rightarrow> search_hit \<Rightarrow> bool" where
  "hit_among documents hit \<longleftrightarrow> (\<exists>doc \<in> set documents. sh_key hit = sd_key doc \<and> sh_summary hit = sd_summary doc)"

lemma hit_among_built: "hit_among (build_documents cat) hit \<Longrightarrow> hit_in cat hit"
  by (auto simp: hit_among_def hit_in_def build_documents_def entry_document_def list_ex_iff)

lemma hit_of_among: "doc \<in> set documents \<Longrightarrow> hit_among documents (hit_of doc score)"
  by (auto simp: hit_among_def hit_of_def)

lemma set_sort_scored [simp]: "set (sort_scored xs) = set xs"
  by (simp add: sort_scored_def)

lemma ranked_indices: "(i, score) \<in> set (rank_embeddings nan q embeddings) \<Longrightarrow> i < length embeddings"
  by (auto simp: rank_embeddings_def dest: in_set_enumerate_eq [THEN iffD1])

lemma reranked_among:
  "list_all (\<lambda>i. i < length documents) top_indices \<Longrightarrow> list_all (hit_among documents) (reranked_hits documents top_indices items)"
  by (auto simp: reranked_hits_def list_all_iff intro!: hit_of_among split: if_splits)

lemma search_local_among:
  "search_local nan lm query documents cfg = Some (Inr hits) \<Longrightarrow> list_all (hit_among documents) hits"
  by (auto simp: search_local_def Let_def result_simps reranked_among split: if_splits sum.splits)

lemma lexical_among: "list_all (hit_among documents) (lexical_fallback nan query documents)"
  by (auto simp: lexical_fallback_def list_all_iff intro!: hit_of_among)

lemma rank_remote_among:
  assumes "rank_remote sx query documents url key embeddings w = (Inr (Some hits), w')"
    and "length embeddings = length documents + 1"
  shows "list_all (hit_among documents) hits"
proof -
  let ?scored = "rank_embeddings (sx_nan sx) (hd embeddings) (tl embeddings)"
  have below: "i < length documents" if "(i, s) \<in> set (take n ?scored)" for i s n
    using ranked_indices [OF in_set_takeD [OF that]] assms(2) by simp
  have "list_all (hit_among documents) (rerank_hits_of documents ?scored answer)" for answer
  proof -
    have "list_all (\<lambda>i. i < length documents) (map fst (take n ?scored))" for n
      using below by (auto simp: list_all_iff)
    then show ?thesis
      by (auto simp: rerank_hits_of_def intro!: reranked_among split: sum.splits)
  qed
  moreover have "list_all (hit_among documents) (best_hits documents ?scored)"
    using below by (auto simp: best_hits_def list_all_iff intro!: hit_of_among)
  ultimately show ?thesis
    using assms(1) by (auto simp: rank_remote_def Let_def act_bind_Inr split: if_splits)
qed

lemma search_remote_among:
  "search_remote sx query documents cfg w = (Inr (Some hits), w') \<Longrightarrow> list_all (hit_among documents) hits"
  by (auto simp: search_remote_def Let_def act_bind_Inr split: if_splits option.splits intro: rank_remote_among)

lemma local_hits_among:
  "local_hits sx query documents cfg = Some hits \<Longrightarrow> list_all (hit_among documents) hits"
  by (auto simp: local_hits_def split: option.splits sum.splits dest: search_local_among)

text \<open>
  A search over the templates never gives more hits than its limit, and every hit is a command of the catalog with
  its summary, whatever the remote service and the local models answer.
\<close>

theorem search_hits_from_catalog:
  "case search_templates sx query cat cfg limit w of
     (Inl e, w') \<Rightarrow> True
   | (Inr hits, w') \<Rightarrow> length hits \<le> unat limit \<and> list_all (hit_in cat) hits"
proof -
  let ?documents = "build_documents cat"
  have among: "list_all (hit_in cat) (take n hits)" if "list_all (hit_among ?documents) hits" for hits n
    using that hit_among_built by (auto simp: list_all_iff dest!: in_set_takeD)
  show ?thesis
  proof (cases "search_remote sx query ?documents (sc_remote (cfg_search cfg)) w")
    case (Pair r w')
    show ?thesis
    proof (cases r)
      case (Inl e)
      then show ?thesis
        using Pair by (simp add: search_templates_def Let_def act_bind_def)
    next
      case (Inr remote_hits)
      let ?hits = "case remote_hits of Some hits \<Rightarrow> hits
        | None \<Rightarrow> (case local_hits sx query ?documents (cfg_search cfg) of
            Some hits \<Rightarrow> hits | None \<Rightarrow> lexical_fallback (sx_nan sx) query ?documents)"
      have "list_all (hit_among ?documents) ?hits"
        using Pair Inr search_remote_among local_hits_among lexical_among by (auto split: option.splits)
      then show ?thesis
        using Pair Inr by (simp add: search_templates_def Let_def act_bind_def act_return_def among)
    qed
  qed
qed

end
