(* ===== verification/Doctor.thy ===== *)
theory Doctor
  imports Cli Web
begin

text \<open>
  \<open>earl doctor\<close> (\<open>src/doctor.rs\<close> and \<open>run_doctor\<close> of \<open>src/app.rs\<close>): the checks in their order, the report they
  build, its summary and how it is printed. The checks only read, so the file system, the TOML reader, the
  sandbox tools and the answers of the keychain are parameters and no state changes but the terminal.
\<close>

section \<open>Reports\<close>

datatype doctor_status = StatusOk | StatusWarning | StatusError

record doctor_check =
  dc_id :: string
  dc_status :: doctor_status
  dc_message :: string
  dc_suggestion :: "string option"

record doctor_summary =
  ds_ok :: nat
  ds_warning :: nat
  ds_error :: nat

type_synonym doctor_report = "doctor_check list"

definition add_ok :: "string \<Rightarrow> string \<Rightarrow> doctor_report \<Rightarrow> doctor_report" where
  "add_ok check_id msg report =
     report @ [\<lparr> dc_id = check_id, dc_status = StatusOk, dc_message = msg, dc_suggestion = None \<rparr>]"

definition add_warning :: "string \<Rightarrow> string \<Rightarrow> string option \<Rightarrow> doctor_report \<Rightarrow> doctor_report" where
  "add_warning check_id msg suggestion report =
     report @ [\<lparr> dc_id = check_id, dc_status = StatusWarning, dc_message = msg, dc_suggestion = suggestion \<rparr>]"

definition add_error :: "string \<Rightarrow> string \<Rightarrow> string option \<Rightarrow> doctor_report \<Rightarrow> doctor_report" where
  "add_error check_id msg suggestion report =
     report @ [\<lparr> dc_id = check_id, dc_status = StatusError, dc_message = msg, dc_suggestion = suggestion \<rparr>]"

definition report_summary :: "doctor_report \<Rightarrow> doctor_summary" where
  "report_summary report =
     fold (\<lambda>check summary. case dc_status check of
         StatusOk \<Rightarrow> summary\<lparr>ds_ok := ds_ok summary + 1\<rparr>
       | StatusWarning \<Rightarrow> summary\<lparr>ds_warning := ds_warning summary + 1\<rparr>
       | StatusError \<Rightarrow> summary\<lparr>ds_error := ds_error summary + 1\<rparr>)
       report \<lparr> ds_ok = 0, ds_warning = 0, ds_error = 0 \<rparr>"

definition has_errors :: "doctor_report \<Rightarrow> bool" where
  "has_errors report \<longleftrightarrow> list_ex (\<lambda>check. dc_status check = StatusError) report"

definition error_count :: "doctor_report \<Rightarrow> nat" where
  "error_count report = length (filter (\<lambda>check. dc_status check = StatusError) report)"

section \<open>What the checks look at\<close>

record ('s, 'st) doctor_env =
  dr_home :: string
  dr_exists :: "string \<Rightarrow> bool"
  dr_toml :: "string \<Rightarrow> string + config"
  dr_loader :: loader
  dr_store :: "'st secret_store_ops"
  dr_store_state :: 'st
  dr_bash :: "'s bash_os"
  dr_uppercase :: "string \<Rightarrow> string"

text \<open>A \<open>BTreeSet\<close> of strings, the text that is missing or blank, and a list cut to its first items.\<close>

definition btree_set :: "string list \<Rightarrow> string list" where
  "btree_set xs = sort (remdups xs)"

definition missing_text :: "string option \<Rightarrow> bool" where
  "missing_text v \<longleftrightarrow> (case v of None \<Rightarrow> True | Some s \<Rightarrow> trim s = [])"

definition summarize_items :: "string list \<Rightarrow> nat \<Rightarrow> string" where
  "summarize_items items limit =
     str_join '', '' (take limit items
       @ (if length items > limit then [''... +'' @ show_nat (length items - limit) @ '' more''] else []))"

text \<open>The walk over a template directory, as deep as its fuel.\<close>

fun collect_discovered_template_files ::
    "filesystem \<Rightarrow> nat \<Rightarrow> string \<Rightarrow> string list \<Rightarrow> string list result option" where
  "collect_discovered_template_files fs 0 dir acc = None"
| "collect_discovered_template_files fs (Suc fuel) dir acc =
     (case fs_read_dir fs dir of
        Inl e \<Rightarrow> Some (Inl [''failed listing template directory '' @ dir, e])
      | Inr entries \<Rightarrow>
          fold (\<lambda>entry state.
            (case state of
               None \<Rightarrow> None
             | Some (Inl e) \<Rightarrow> Some (Inl e)
             | Some (Inr files) \<Rightarrow>
                 (case entry of
                    Inl e \<Rightarrow> Some (Inl [e])
                  | Inr (path, kind) \<Rightarrow>
                      (case kind of
                         Inl e \<Rightarrow> Some (Inl [''failed inspecting template path '' @ path, e])
                       | Inr FileDir \<Rightarrow> collect_discovered_template_files fs fuel path files
                       | Inr FileRegular \<Rightarrow> Some (Inr (if is_template_file path then files @ [path] else files))
                       | Inr FileOther \<Rightarrow> Some (Inr files)))))
            entries (Some (Inr acc)))"

definition discover_template_files :: "('s, 'st) doctor_env \<Rightarrow> nat \<Rightarrow> string \<Rightarrow> string list result option" where
  "discover_template_files dr fuel dir =
     (if \<not> dr_exists dr dir then Some (Inr [])
      else map_option (\<lambda>r. and_then r (\<lambda>files. Inr (sort_key path_components files)))
             (collect_discovered_template_files (ld_fs (dr_loader dr)) fuel dir []))"

section \<open>The checks\<close>

definition check_config :: "('s, 'st) doctor_env \<Rightarrow> doctor_report \<Rightarrow> config \<times> doctor_report" where
  "check_config dr report =
     (let config_path = config_file_path (dr_home dr)
      in if \<not> dr_exists dr config_path
         then (default_config,
               add_warning ''config_file'' (''Config file not found at '' @ config_path)
                 (Some ''Create ~/.config/earl/config.toml (for example by copying examples/config.toml).'') report)
         else
           case load_config (dr_exists dr) (fs_read (ld_fs (dr_loader dr))) (dr_toml dr) (dr_home dr) of
             Inr cfg \<Rightarrow> (cfg, add_ok ''config_file'' (''Loaded config from '' @ config_path) report)
           | Inl err \<Rightarrow>
               (default_config,
                add_error ''config_file'' (''Failed to parse '' @ config_path @ '': '' @ err_alternate err)
                  (Some ''Fix config TOML syntax, then re-run `earl doctor`.'') report))"

definition check_allowlist :: "config \<Rightarrow> doctor_report \<Rightarrow> doctor_report" where
  "check_allowlist cfg =
     add_ok ''network_allowlist''
       (if nc_allow (cfg_network cfg) = []
        then ''No [[network.allow]] entries configured; outbound requests are allowed by default.''
        else ''Configured '' @ show_nat (length (nc_allow (cfg_network cfg))) @ '' allowlist rule(s).'')"

text \<open>One listing: its files, or none and an error.\<close>

definition check_listing ::
    "string \<Rightarrow> string \<Rightarrow> string list result \<Rightarrow> doctor_report \<Rightarrow> string list \<times> doctor_report" where
  "check_listing scope dir found report =
     (case found of
        Inr files \<Rightarrow> (files, report)
      | Inl err \<Rightarrow>
          ([], add_error ''templates''
                 (''Failed listing '' @ scope @ '' templates in '' @ dir @ '': '' @ err_alternate err) None report))"

definition check_template_count ::
    "string \<Rightarrow> string \<Rightarrow> string list \<Rightarrow> string list \<Rightarrow> doctor_report \<Rightarrow> doctor_report" where
  "check_template_count local_dir global_dir local_files global_files =
     (let template_count = length global_files + length local_files
      in if template_count = 0
         then add_warning ''templates'' (''No template files found in '' @ local_dir @ '' or '' @ global_dir @ ''.'')
                (Some ''Add a .hcl template under ./templates or ~/.config/earl/templates.'')
         else add_ok ''templates''
                (''Found '' @ show_nat template_count @ '' template file(s) (local: '' @ show_nat (length local_files)
                   @ '', global: '' @ show_nat (length global_files) @ '').''))"

definition check_validation :: "string list result \<Rightarrow> doctor_report \<Rightarrow> doctor_report" where
  "check_validation validated =
     (case validated of
        Inr files \<Rightarrow> add_ok ''template_validation'' (''Validated '' @ show_nat (length files) @ '' template file(s).'')
      | Inl err \<Rightarrow>
          add_error ''template_validation'' (''Template validation failed: '' @ err_alternate err)
            (Some ''Run `earl templates validate` for details.''))"

definition check_commands :: "catalog result \<Rightarrow> doctor_report \<Rightarrow> doctor_report" where
  "check_commands loaded =
     (case loaded of
        Inr found \<Rightarrow>
          if found = []
          then add_warning ''commands'' ''No commands available after loading templates.''
                 (Some (''Ensure template files define at least one `command '' @ [CHR 0x22] @ ''<name>'' @ [CHR 0x22]
                          @ '' { ... }` block.''))
          else add_ok ''commands'' (''Loaded '' @ show_nat (length found) @ '' command(s).'')
      | Inl err \<Rightarrow> add_error ''commands'' (''Failed loading template catalog: '' @ err_alternate err) None)"

text \<open>The keys the store does not have; the first failing lookup ends the loop.\<close>

fun missing_keys :: "(string \<Rightarrow> string option result) \<Rightarrow> string list \<Rightarrow> string list result" where
  "missing_keys get [] = Inr []"
| "missing_keys get (key # keys) =
     (case get key of
        Inr (Some _) \<Rightarrow> missing_keys get keys
      | Inr None \<Rightarrow> and_then (missing_keys get keys) (\<lambda>missing. Inr (key # missing))
      | Inl err \<Rightarrow> Inl err)"

definition check_required_secrets :: "('s, 'st) doctor_env \<Rightarrow> catalog \<Rightarrow> doctor_report \<Rightarrow> doctor_report" where
  "check_required_secrets dr cat =
     (let required = btree_set (concat (map (\<lambda>entry. ann_secrets (ct_annotations (te_template entry))) (catalog_values cat)))
      in if required = [] then add_ok ''required_secrets'' ''Templates do not require any secrets.''
         else
           case missing_keys (\<lambda>key. get_secret (dr_store dr) key (dr_store_state dr)) required of
             Inl err \<Rightarrow>
               add_warning ''required_secrets'' (''Could not verify keychain secrets: '' @ err_alternate err)
                 (Some ''Ensure keychain access is available, then run `earl doctor` again.'')
           | Inr missing \<Rightarrow>
               if missing = []
               then add_ok ''required_secrets''
                      (''All '' @ show_nat (length required) @ '' required secret(s) are present.'')
               else add_warning ''required_secrets''
                      (''Missing '' @ show_nat (length missing) @ '' required secret(s): '' @ summarize_items missing 5)
                      (Some ''Set missing values with `earl secrets set <key>`.''))"

definition validate_profile :: "oauth_profile \<Rightarrow> string list" where
  "validate_profile profile =
     (let has_issuer = (case oa_issuer profile of None \<Rightarrow> False | Some v \<Rightarrow> trim v \<noteq> [])
      in (if trim (oa_client_id profile) = [] then [''client_id is empty''] else [])
         @ (if missing_text (oa_token_url profile) \<and> \<not> has_issuer
            then [''missing token_url (or issuer for discovery)''] else [])
         @ (case oa_flow profile of
              AuthCodePkce \<Rightarrow>
                if missing_text (oa_authorization_url profile) \<and> \<not> has_issuer
                then [''missing authorization_url (or issuer for discovery)''] else []
            | DeviceCode \<Rightarrow>
                if missing_text (oa_device_authorization_url profile) \<and> \<not> has_issuer
                then [''missing device_authorization_url (or issuer for discovery)''] else []
            | ClientCredentials \<Rightarrow> []))"

text \<open>The profiles the templates name.\<close>

definition referenced_profiles :: "catalog \<Rightarrow> string list" where
  "referenced_profiles cat =
     btree_set (List.map_filter (\<lambda>entry.
         case op_auth (ct_operation (te_template entry)) of
           Some (AuthOAuth2Profile profile) \<Rightarrow> Some profile
         | _ \<Rightarrow> None) (catalog_values cat))"

definition check_oauth_profiles :: "catalog \<Rightarrow> config \<Rightarrow> doctor_report \<Rightarrow> doctor_report" where
  "check_oauth_profiles cat cfg =
     (let referenced = referenced_profiles cat;
          profiles = ac_profiles (cfg_auth cfg);
          missing = filter (\<lambda>n. bt_get profiles n = None) referenced;
          invalid = List.map_filter (\<lambda>n.
              case bt_get profiles n of
                None \<Rightarrow> None
              | Some profile \<Rightarrow>
                  (let issues = validate_profile profile
                   in if issues \<noteq> [] then Some (n @ '' ('' @ str_join ''; '' issues @ '')'') else None)) referenced
      in if referenced = []
         then add_ok ''oauth_profiles'' ''Templates do not reference any oauth2_profile auth settings.''
         else if missing = [] \<and> invalid = []
         then add_ok ''oauth_profiles''
                (''All '' @ show_nat (length referenced) @ '' referenced OAuth profile(s) are configured.'')
         else add_error ''oauth_profiles''
                (str_join ''; ''
                   ((if missing \<noteq> [] then [''missing profiles: '' @ summarize_items missing 5] else [])
                    @ (if invalid \<noteq> [] then [''invalid profiles: '' @ summarize_items invalid 3] else [])))
                (Some ''Add or fix entries under [auth.profiles.<name>] in ~/.config/earl/config.toml.''))"

definition text_or_empty :: "string option \<Rightarrow> string" where
  "text_or_empty v = (case v of None \<Rightarrow> [] | Some s \<Rightarrow> s)"

definition check_remote_search :: "('s, 'st) doctor_env \<Rightarrow> config \<Rightarrow> doctor_report \<Rightarrow> doctor_report" where
  "check_remote_search dr cfg =
     (let remote = sc_remote (cfg_search cfg);
          issues = (if missing_text (rs_base_url remote) then [''base_url is not set''] else [])
            @ (if missing_text (rs_api_key_secret remote) then [''api_key_secret is not set''] else []);
          secret_key = text_or_empty (rs_api_key_secret remote)
      in if \<not> rs_enabled remote then add_ok ''remote_search'' ''Remote semantic search is disabled.''
         else if issues \<noteq> []
         then add_warning ''remote_search'' (''Remote semantic search enabled but '' @ str_join '', '' issues)
                (Some ''Set [search.remote].base_url and [search.remote].api_key_secret.'')
         else
           case get_secret (dr_store dr) secret_key (dr_store_state dr) of
             Inr (Some _) \<Rightarrow>
               add_ok ''remote_search''
                 (''Remote semantic search is configured (base_url: '' @ text_or_empty (rs_base_url remote) @ '').'')
           | Inr None \<Rightarrow>
               add_warning ''remote_search'' (''Remote search API key secret `'' @ secret_key @ ''` is missing.'')
                 (Some (''Set it with `earl secrets set '' @ secret_key @ ''`.''))
           | Inl err \<Rightarrow>
               add_warning ''remote_search'' (''Could not verify remote search API key secret: '' @ err_alternate err)
                 (Some ''Ensure keychain access is available, then run `earl doctor` again.''))"

text \<open>The checks of the JWT section are one after the other; both early errors end them.\<close>

definition check_jwt_audience :: "jwt_config \<Rightarrow> doctor_report \<Rightarrow> doctor_report" where
  "check_jwt_audience jwt =
     (if trim (jwt_audience jwt) = []
      then add_error ''jwt_audience'' ''JWT audience is empty.''
             (Some ''Set audience to a non-empty value in [auth.jwt].'')
      else add_ok ''jwt_audience'' (''JWT audience: '' @ jwt_audience jwt))"

definition check_jwt_algorithms :: "('s, 'st) doctor_env \<Rightarrow> jwt_config \<Rightarrow> doctor_report \<Rightarrow> doctor_report" where
  "check_jwt_algorithms dr jwt =
     (if jwt_algorithms jwt = []
      then add_warning ''jwt_algorithms'' ''No JWT algorithms configured.''
             (Some (''Add algorithms (e.g., ['' @ [CHR 0x22] @ ''RS256'' @ [CHR 0x22] @ '']) to [auth.jwt].''))
      else if list_all (\<lambda>a. dr_uppercase dr a = ''HS256'') (jwt_algorithms jwt)
      then add_warning ''jwt_algorithms''
             ''Only HS256 is configured. Symmetric HMAC is unusual for external IdP tokens.''
             (Some (''Most IdPs use RS256. Verify your IdP'' @ [CHR 0x27] @ ''s signing algorithm.''))
      else add_ok ''jwt_algorithms'' (''JWT algorithms: '' @ str_join '', '' (jwt_algorithms jwt)))"

definition check_jwt_skew :: "jwt_config \<Rightarrow> doctor_report \<Rightarrow> doctor_report" where
  "check_jwt_skew jwt report =
     (if jwt_clock_skew_seconds jwt > 300
      then add_warning ''jwt_config''
             (''clock_skew_seconds is '' @ show_nat (unat (jwt_clock_skew_seconds jwt)) @ '' (max effective: 300).'')
             (Some ''Values above 300 are capped. Consider reducing to 30-60.'') report
      else report)"

definition check_jwt_issuer :: "jwt_config \<Rightarrow> doctor_report \<Rightarrow> doctor_report" where
  "check_jwt_issuer jwt report =
     (case jwt_issuer jwt of
        None \<Rightarrow> report
      | Some issuer \<Rightarrow>
          if \<not> prefix ''https://'' issuer
          then add_warning ''jwt_issuer'' (''JWT issuer does not use HTTPS: '' @ issuer)
                 (Some ''Use an HTTPS URL for the issuer in production.'') report
          else add_ok ''jwt_issuer'' (''JWT issuer: '' @ issuer) report)"

definition check_jwt_keys :: "jwt_config \<Rightarrow> doctor_report \<Rightarrow> doctor_report" where
  "check_jwt_keys jwt report =
     (case jwt_jwks_uri jwt of
        Some jwks_uri \<Rightarrow> add_ok ''jwt_jwks'' (''JWT JWKS URI: '' @ jwks_uri) report
      | None \<Rightarrow>
          (case jwt_oidc_discovery_url jwt of
             Some discovery_url \<Rightarrow> add_ok ''jwt_config'' (''JWT using OIDC discovery: '' @ discovery_url) report
           | None \<Rightarrow> report))"

definition check_jwt :: "('s, 'st) doctor_env \<Rightarrow> config \<Rightarrow> doctor_report \<Rightarrow> doctor_report" where
  "check_jwt dr cfg report =
     (case ac_jwt (cfg_auth cfg) of
        None \<Rightarrow>
          add_warning ''jwt_config''
            ''No [auth.jwt] configured. MCP HTTP transport will require --allow-unauthenticated.''
            (Some ''Add [auth.jwt] to ~/.config/earl/config.toml to enable JWT authentication.'') report
      | Some jwt \<Rightarrow>
          (let has_discovery = jwt_oidc_discovery_url jwt \<noteq> None;
               has_manual = (jwt_issuer jwt \<noteq> None \<or> jwt_jwks_uri jwt \<noteq> None)
           in if has_discovery \<and> has_manual
              then add_error ''jwt_config''
                     ''Both oidc_discovery_url and issuer/jwks_uri are set. These are mutually exclusive.''
                     (Some ''Remove either oidc_discovery_url or issuer/jwks_uri.'') report
              else if \<not> has_discovery \<and> \<not> has_manual
              then add_error ''jwt_config'' ''Neither oidc_discovery_url nor issuer/jwks_uri are configured.''
                     (Some ''Set oidc_discovery_url (recommended) or both issuer and jwks_uri.'') report
              else check_jwt_keys jwt (check_jwt_issuer jwt (check_jwt_skew jwt
                     (check_jwt_algorithms dr jwt (check_jwt_audience jwt report))))))"

text \<open>The warnings of a rule, given its index.\<close>

definition rule_issues :: "nat \<times> policy_rule \<Rightarrow> string list" where
  "rule_issues rule =
     (case rule of (i, r) \<Rightarrow>
       (if pr_subjects r = []
        then [''Policy rule '' @ show_nat (i + 1) @ '' has empty subjects list (matches nothing).''] else [])
       @ (if pr_tools r = []
          then [''Policy rule '' @ show_nat (i + 1) @ '' has empty tools list (matches nothing).''] else []))"

definition check_policies :: "config \<Rightarrow> doctor_report \<Rightarrow> doctor_report" where
  "check_policies cfg report =
     (if cfg_policy cfg = [] then
        if ac_jwt (cfg_auth cfg) \<noteq> None
        then add_warning ''policies''
               (''JWT authentication is configured but no [[policy]] rules are defined. ''
                @ ''All tool access will be denied (default deny).'')
               (Some ''Add [[policy]] rules to config.toml to grant access.'') report
        else report
      else
        let issues = concat (map rule_issues (enumerate 0 (cfg_policy cfg)));
            warned = fold (\<lambda>msg. add_warning ''policies'' msg None) issues report
        in if issues = []
           then add_ok ''policies'' (''Loaded '' @ show_nat (length (cfg_policy cfg)) @ '' policy rule(s).'') warned
           else warned)"

definition check_bash :: "('s, 'st) doctor_env \<Rightarrow> doctor_report \<Rightarrow> doctor_report" where
  "check_bash dr =
     (let tool = sandbox_tool_name (bx_target (dr_bash dr))
      in if sandbox_available (dr_bash dr) then
           if bx_target (dr_bash dr) = Macos
           then add_warning ''bash'' (''Bash sandbox uses '' @ tool @ '' (deprecated on macOS).'')
                  (Some ''Consider installing bubblewrap via Homebrew for stronger isolation.'')
           else add_ok ''bash'' (''Bash sandbox tool available: '' @ tool)
         else add_error ''bash'' (''Bash sandbox tool not found ('' @ tool @ '').'')
                (Some ''Install bubblewrap (Linux) or verify sandbox-exec (macOS).''))"

section \<open>All checks\<close>

text \<open>The checks of the two template directories, once they are listed. The catalog is there only if it loads.\<close>

definition check_templates ::
    "('s, 'st) doctor_env \<Rightarrow> nat \<Rightarrow> string \<Rightarrow> string \<Rightarrow> string list result \<Rightarrow> string list result \<Rightarrow> doctor_report \<Rightarrow>
     (catalog option \<times> doctor_report) option" where
  "check_templates dr fuel global_dir local_dir global_found local_found report =
     (case check_listing ''global'' global_dir global_found report of (global_files, report1) \<Rightarrow>
      case check_listing ''local'' local_dir local_found report1 of (local_files, report2) \<Rightarrow>
        if isl global_found \<or> isl local_found then Some (None, report2)
        else
          let report3 = check_template_count local_dir global_dir local_files global_files report2;
              validated =
                (if length global_files + length local_files > 0
                 then map_option (\<lambda>r. check_validation r report3)
                        (validate_all_from_dirs (dr_loader dr) fuel global_dir local_dir)
                 else Some report3)
          in case validated of
               None \<Rightarrow> None
             | Some report4 \<Rightarrow>
                 map_option (\<lambda>loaded. (case loaded of Inr found \<Rightarrow> Some found | Inl e \<Rightarrow> None, check_commands loaded report4))
                   (load_catalog_from_dirs (dr_loader dr) fuel global_dir local_dir))"

text \<open>The checks after the templates.\<close>

definition check_rest :: "('s, 'st) doctor_env \<Rightarrow> config \<Rightarrow> catalog option \<Rightarrow> doctor_report \<Rightarrow> doctor_report" where
  "check_rest dr cfg found report =
     (let report1 = (case found of
            None \<Rightarrow> report
          | Some cat \<Rightarrow> check_oauth_profiles cat cfg (check_required_secrets dr cat report))
      in check_bash dr (check_policies cfg (check_jwt dr cfg (check_remote_search dr cfg report1))))"

definition run_checks :: "('s, 'st) doctor_env \<Rightarrow> nat \<Rightarrow> string \<Rightarrow> doctor_report option" where
  "run_checks dr fuel cwd =
     (let global_dir = global_templates_dir (dr_home dr); local_dir = local_templates_dir cwd
      in case check_config dr [] of (cfg, report) \<Rightarrow>
         (case discover_template_files dr fuel global_dir of
            None \<Rightarrow> None
          | Some global_found \<Rightarrow>
              (case discover_template_files dr fuel local_dir of
                 None \<Rightarrow> None
               | Some local_found \<Rightarrow>
                   map_option (\<lambda>(found, report1). check_rest dr cfg found report1)
                     (check_templates dr fuel global_dir local_dir global_found local_found (check_allowlist cfg report)))))"

section \<open>The command\<close>

fun doctor_status_label :: "doctor_status \<Rightarrow> string" where
  "doctor_status_label StatusOk = ''OK''"
| "doctor_status_label StatusWarning = ''WARN''"
| "doctor_status_label StatusError = ''ERROR''"

fun doctor_status_name :: "doctor_status \<Rightarrow> string" where
  "doctor_status_name StatusOk = ''ok''"
| "doctor_status_name StatusWarning = ''warning''"
| "doctor_status_name StatusError = ''error''"

definition check_json :: "doctor_check \<Rightarrow> json" where
  "check_json check =
     jobj [(''id'', JString (dc_id check)), (''status'', JString (doctor_status_name (dc_status check))),
           (''message'', JString (dc_message check)),
           (''suggestion'', case dc_suggestion check of None \<Rightarrow> JNull | Some s \<Rightarrow> JString s)]"

definition summary_json :: "doctor_summary \<Rightarrow> json" where
  "summary_json s =
     jobj [(''ok'', JNumber (PosInt (of_nat (ds_ok s)))), (''warning'', JNumber (PosInt (of_nat (ds_warning s)))),
           (''error'', JNumber (PosInt (of_nat (ds_error s))))]"

definition check_lines :: "doctor_check \<Rightarrow> string list" where
  "check_lines check =
     (''['' @ doctor_status_label (dc_status check) @ ''] '' @ dc_id check @ '': '' @ dc_message check)
     # (case dc_suggestion check of None \<Rightarrow> [] | Some s \<Rightarrow> [''  fix: '' @ s])"

definition render_doctor_report :: "doctor_report \<Rightarrow> string \<Rightarrow> string list" where
  "render_doctor_report report cwd =
     (let summary = report_summary report
      in (''Doctor checks for '' @ cwd) # concat (map check_lines report)
         @ [''Summary: '' @ show_nat (ds_ok summary) @ '' ok, '' @ show_nat (ds_warning summary) @ '' warning, ''
            @ show_nat (ds_error summary) @ '' error''])"

text \<open>After the working directory is known.\<close>

definition run_doctor ::
    "cli_libs \<Rightarrow> ('s, 'st) doctor_env \<Rightarrow> nat \<Rightarrow> bool \<Rightarrow> string \<Rightarrow> terminal \<Rightarrow> (unit result \<times> terminal) option" where
  "run_doctor cl dr fuel json_mode cwd t =
     map_option (\<lambda>report.
         let summary = report_summary report
         in act_bind
              (if json_mode
               then print_out (cl_json_pretty cl
                      (jobj [(''checks'', JArray (map check_json report)), (''summary'', summary_json summary)]))
               else print_lines (render_doctor_report report cwd)) (\<lambda>_.
            if ds_error summary > 0
            then act_lift (bail (''doctor found '' @ show_nat (ds_error summary) @ '' error(s)''))
            else act_return ()) t)
       (run_checks dr fuel cwd)"

section \<open>When the checks end\<close>

text \<open>A finite tree: a directory inside another one is of smaller rank, and a canonical name is of no larger one.\<close>

definition ranked_tree :: "filesystem \<Rightarrow> (string \<Rightarrow> nat) \<Rightarrow> bool" where
  "ranked_tree fs rank \<longleftrightarrow>
     (\<forall>dir. case fs_read_dir fs dir of
        Inl e \<Rightarrow> True
      | Inr entries \<Rightarrow> \<forall>path. Inr (path, Inr FileDir) \<in> set entries \<longrightarrow> rank path < rank dir)
     \<and> (\<forall>path. case fs_canonicalize fs path of Inl e \<Rightarrow> True | Inr canonical \<Rightarrow> rank canonical \<le> rank path)"

lemma ranked_tree_child:
  "ranked_tree fs rank \<Longrightarrow> fs_read_dir fs dir = Inr entries \<Longrightarrow> Inr (path, Inr FileDir) \<in> set entries \<Longrightarrow> rank path < rank dir"
  unfolding ranked_tree_def by (auto dest!: spec [of _ dir])

lemma ranked_tree_canonical:
  "ranked_tree fs rank \<Longrightarrow> fs_canonicalize fs path = Inr canonical \<Longrightarrow> rank canonical \<le> rank path"
  unfolding ranked_tree_def by (auto dest!: spec [of _ path])

lemma fold_walk_ends:
  assumes "\<And>entry files. entry \<in> set entries \<Longrightarrow> step entry files \<noteq> None"
  shows "fold (\<lambda>entry state. case state of None \<Rightarrow> None | Some (Inl e) \<Rightarrow> Some (Inl e)
      | Some (Inr files) \<Rightarrow> step entry files) entries (Some r) \<noteq> None"
  using assms
proof (induction entries arbitrary: r)
  case (Cons entry entries)
  show ?case
  proof (cases r)
    case (Inl e)
    then show ?thesis using Cons.IH [of "Inl e"] Cons.prems by auto
  next
    case (Inr files)
    then obtain r' where "step entry files = Some r'" using Cons.prems [of entry files] by auto
    then show ?thesis using Cons.IH [of r'] Cons.prems Inr by auto
  qed
qed simp

lemma discovered_walk_ends:
  "ranked_tree fs rank \<Longrightarrow> rank dir < fuel \<Longrightarrow> \<exists>r. collect_discovered_template_files fs fuel dir acc = Some r"
proof (induction fuel arbitrary: dir acc)
  case (Suc fuel)
  show ?case
  proof (cases "fs_read_dir fs dir")
    case (Inr entries)
    have "\<exists>r. collect_discovered_template_files fs fuel path files = Some r"
      if "Inr (path, Inr FileDir) \<in> set entries" for path files
      using Suc.IH [OF Suc.prems(1)] ranked_tree_child [OF Suc.prems(1) Inr that] Suc.prems(2) by simp
    then show ?thesis
      using Inr by (auto intro!: fold_walk_ends [simplified] split: sum.splits file_kind.splits)
  qed simp
qed simp

lemma loader_walk_ends:
  "ranked_tree fs rank \<Longrightarrow> rank dir < fuel \<Longrightarrow> \<exists>r. collect_template_files fs fuel dir root acc = Some r"
proof (induction fuel arbitrary: dir acc)
  case (Suc fuel)
  show ?case
  proof (cases "fs_read_dir fs dir")
    case (Inr entries)
    have "\<exists>r. collect_template_files fs fuel canonical root files = Some r"
      if "Inr (path, Inr FileDir) \<in> set entries" and "fs_canonicalize fs path = Inr canonical" for path canonical files
      using Suc.IH [OF Suc.prems(1)] ranked_tree_child [OF Suc.prems(1) Inr that(1)]
        ranked_tree_canonical [OF Suc.prems(1) that(2)] Suc.prems(2) by simp
    then show ?thesis
      using Inr by (auto intro!: fold_walk_ends [simplified] split: sum.splits file_kind.splits)
  qed simp
qed simp

lemma template_files_end:
  assumes "ranked_tree fs rank" "rank dir < fuel"
  shows "\<exists>r. template_files_in_dir fs fuel dir = Some r"
proof (cases "fs_canonicalize fs dir")
  case (Inl e)
  then show ?thesis by (cases e) (simp_all add: template_files_in_dir_def)
next
  case (Inr canonical)
  then show ?thesis
    using loader_walk_ends [OF assms(1), of canonical fuel canonical "[]"] ranked_tree_canonical [OF assms(1) Inr] assms(2)
    by (auto simp: template_files_in_dir_def)
qed

text \<open>
  On a finite directory tree, with fuel above the depth of both template directories, the doctor gives its verdict.
\<close>

theorem doctor_returns:
  assumes "ranked_tree (ld_fs (dr_loader dr)) rank"
    and "rank (global_templates_dir (dr_home dr)) < fuel" and "rank (local_templates_dir cwd) < fuel"
  shows "run_doctor cl dr fuel json_mode cwd t \<noteq> None"
proof -
  have "\<exists>r. template_files_in_dir (ld_fs (dr_loader dr)) fuel (global_templates_dir (dr_home dr)) = Some r"
      "\<exists>r. template_files_in_dir (ld_fs (dr_loader dr)) fuel (local_templates_dir cwd) = Some r"
    using template_files_end [OF assms(1)] assms by blast+
  then have "\<exists>r. validate_all_from_dirs (dr_loader dr) fuel (global_templates_dir (dr_home dr)) (local_templates_dir cwd) = Some r"
      "\<exists>r. load_catalog_from_dirs (dr_loader dr) fuel (global_templates_dir (dr_home dr)) (local_templates_dir cwd) = Some r"
    by (auto simp: validate_all_from_dirs_def load_catalog_from_dirs_def Let_def split: sum.splits)
  moreover have "\<exists>r. discover_template_files dr fuel (global_templates_dir (dr_home dr)) = Some r"
      "\<exists>r. discover_template_files dr fuel (local_templates_dir cwd) = Some r"
    using discovered_walk_ends [OF assms(1)] assms by (fastforce simp: discover_template_files_def)+
  ultimately show ?thesis
    by (auto simp: run_doctor_def run_checks_def check_templates_def Let_def split: prod.splits)
qed

section \<open>What makes the doctor fail\<close>

text \<open>Each check, by what it adds to the errors.\<close>

lemma has_errors_add [simp]:
  "has_errors (add_ok i m report) = has_errors report"
  "has_errors (add_warning i m g report) = has_errors report"
  "has_errors (add_error i m g report)"
  by (simp_all add: has_errors_def add_ok_def add_warning_def add_error_def)

lemma has_errors_Nil [simp]: "\<not> has_errors []"
  by (simp add: has_errors_def)

lemma has_errors_warned [simp]: "has_errors (fold (\<lambda>msg. add_warning i msg g) msgs report) = has_errors report"
  by (induction msgs arbitrary: report) simp_all

lemma errors_of_settings [simp]:
  "has_errors (check_allowlist cfg report) = has_errors report"
  "has_errors (check_required_secrets dr cat report) = has_errors report"
  "has_errors (check_remote_search dr cfg report) = has_errors report"
  "has_errors (check_policies cfg report) = has_errors report"
  "has_errors (check_bash dr report) \<longleftrightarrow> has_errors report \<or> \<not> sandbox_available (dr_bash dr)"
  by (auto simp: check_allowlist_def check_required_secrets_def check_remote_search_def check_policies_def
      check_bash_def Let_def split: sum.splits option.splits)

lemma errors_of_templates [simp]:
  "has_errors (check_template_count l g ls gs report) = has_errors report"
  "has_errors (check_validation validated report) \<longleftrightarrow> has_errors report \<or> isl validated"
  "has_errors (check_commands loaded report) \<longleftrightarrow> has_errors report \<or> isl loaded"
  "has_errors (snd (check_listing scope dir found report)) \<longleftrightarrow> has_errors report \<or> isl found"
  by (auto simp: check_template_count_def check_validation_def check_commands_def check_listing_def Let_def
      split: sum.splits)

text \<open>What is wrong, stated without the report.\<close>

definition effective_config :: "('s, 'st) doctor_env \<Rightarrow> config result" where
  "effective_config dr = load_config (dr_exists dr) (fs_read (ld_fs (dr_loader dr))) (dr_toml dr) (dr_home dr)"

definition profiles_broken :: "catalog \<Rightarrow> config \<Rightarrow> bool" where
  "profiles_broken cat cfg \<longleftrightarrow>
     list_ex (\<lambda>n. case bt_get (ac_profiles (cfg_auth cfg)) n of None \<Rightarrow> True | Some profile \<Rightarrow> validate_profile profile \<noteq> [])
       (referenced_profiles cat)"

definition jwt_broken :: "config \<Rightarrow> bool" where
  "jwt_broken cfg \<longleftrightarrow>
     (case ac_jwt (cfg_auth cfg) of
        None \<Rightarrow> False
      | Some jwt \<Rightarrow>
          (jwt_oidc_discovery_url jwt = None \<longleftrightarrow> jwt_issuer jwt = None \<and> jwt_jwks_uri jwt = None)
          \<or> trim (jwt_audience jwt) = [])"

definition templates_broken :: "('s, 'st) doctor_env \<Rightarrow> nat \<Rightarrow> config \<Rightarrow> string \<Rightarrow> string \<Rightarrow> bool" where
  "templates_broken dr fuel cfg global_dir local_dir \<longleftrightarrow>
     (case (discover_template_files dr fuel global_dir, discover_template_files dr fuel local_dir) of
        (Some (Inr global_files), Some (Inr local_files)) \<Rightarrow>
          (global_files @ local_files \<noteq> []
             \<and> (case validate_all_from_dirs (dr_loader dr) fuel global_dir local_dir of Some (Inl e) \<Rightarrow> True | _ \<Rightarrow> False))
          \<or> (case load_catalog_from_dirs (dr_loader dr) fuel global_dir local_dir of
               Some (Inr cat) \<Rightarrow> profiles_broken cat cfg
             | _ \<Rightarrow> True)
      | _ \<Rightarrow> True)"

lemma errors_of_config:
  "check_config dr [] = (cfg, report) \<Longrightarrow>
     cfg = (case effective_config dr of Inr c \<Rightarrow> c | Inl e \<Rightarrow> default_config) \<and> has_errors report = isl (effective_config dr)"
  by (auto simp: check_config_def effective_config_def Let_def load_config_missing split: if_splits sum.splits)

lemma map_filter_Nil: "List.map_filter f xs = [] \<longleftrightarrow> list_all (\<lambda>x. f x = None) xs"
  by (induction xs) (auto simp: List.map_filter_simps split: option.splits)

lemma errors_of_profiles [simp]:
  "has_errors (check_oauth_profiles cat cfg report) \<longleftrightarrow> has_errors report \<or> profiles_broken cat cfg"
proof -
  have "profiles_broken cat cfg \<longleftrightarrow>
      referenced_profiles cat \<noteq> []
      \<and> (filter (\<lambda>n. bt_get (ac_profiles (cfg_auth cfg)) n = None) (referenced_profiles cat) \<noteq> []
        \<or> List.map_filter (\<lambda>n. case bt_get (ac_profiles (cfg_auth cfg)) n of None \<Rightarrow> None
            | Some profile \<Rightarrow> (let issues = validate_profile profile
                in if issues \<noteq> [] then Some (n @ '' ('' @ str_join ''; '' issues @ '')'') else None)) (referenced_profiles cat) \<noteq> [])"
    by (auto simp: profiles_broken_def map_filter_Nil list_all_iff list_ex_iff filter_empty_conv Let_def
        split: option.splits if_splits; force)
  then show ?thesis
    by (auto simp: check_oauth_profiles_def Let_def)
qed

lemma errors_of_jwt [simp]: "has_errors (check_jwt dr cfg report) \<longleftrightarrow> has_errors report \<or> jwt_broken cfg"
proof -
  have "has_errors (check_jwt_audience jwt r) \<longleftrightarrow> has_errors r \<or> trim (jwt_audience jwt) = []" for jwt r
    by (simp add: check_jwt_audience_def)
  moreover have "has_errors (check_jwt_keys jwt r) = has_errors r" "has_errors (check_jwt_issuer jwt r) = has_errors r"
      "has_errors (check_jwt_skew jwt r) = has_errors r" "has_errors (check_jwt_algorithms dr jwt r) = has_errors r" for jwt r
    by (simp_all add: check_jwt_keys_def check_jwt_issuer_def check_jwt_skew_def check_jwt_algorithms_def
        split: option.splits)
  ultimately show ?thesis
    by (auto simp: check_jwt_def jwt_broken_def Let_def split: option.splits)
qed

lemma errors_of_checked_templates:
  assumes "check_templates dr fuel g l gfound lfound report = Some (found, report')"
    and "discover_template_files dr fuel g = Some gfound" and "discover_template_files dr fuel l = Some lfound"
  shows "has_errors (check_rest dr cfg found report') \<longleftrightarrow>
    has_errors report \<or> templates_broken dr fuel cfg g l \<or> jwt_broken cfg \<or> \<not> sandbox_available (dr_bash dr)"
proof (cases "isl gfound \<or> isl lfound")
  case True
  then have "found = None" "has_errors report'"
    using assms(1) by (auto simp: check_templates_def check_listing_def split: prod.splits sum.splits)
  moreover have "templates_broken dr fuel cfg g l"
    using True assms(2,3) by (auto simp: templates_broken_def split: sum.splits)
  ultimately show ?thesis by (simp add: check_rest_def)
next
  case False
  then obtain gs ls where [simp]: "gfound = Inr gs" "lfound = Inr ls" by (cases gfound; cases lfound) auto
  let ?loaded = "load_catalog_from_dirs (dr_loader dr) fuel g l" and ?valid = "validate_all_from_dirs (dr_loader dr) fuel g l"
  let ?counted = "check_template_count l g ls gs report"
  have run: "map_option (\<lambda>loaded. (case loaded of Inr c \<Rightarrow> Some c | Inl e \<Rightarrow> None, check_commands loaded report4)) ?loaded
      = Some (found, report')"
    if "(if gs @ ls \<noteq> [] then map_option (\<lambda>r. check_validation r ?counted) ?valid else Some ?counted) = Some report4" for report4
    using assms(1) that by (simp add: check_templates_def check_listing_def Let_def split: if_splits)
  obtain report4 where report4:
      "(if gs @ ls \<noteq> [] then map_option (\<lambda>r. check_validation r ?counted) ?valid else Some ?counted) = Some report4"
    using assms(1) by (fastforce simp: check_templates_def check_listing_def Let_def split: if_splits option.splits)
  obtain loaded where loaded: "?loaded = Some loaded"
      "found = (case loaded of Inr c \<Rightarrow> Some c | Inl e \<Rightarrow> None)" "report' = check_commands loaded report4"
    using run [OF report4] by auto
  have "has_errors report4 \<longleftrightarrow> has_errors report \<or> gs @ ls \<noteq> [] \<and> (case ?valid of Some (Inl e) \<Rightarrow> True | _ \<Rightarrow> False)"
    using report4 by (auto split: if_splits option.splits sum.splits)
  then show ?thesis
    by (cases loaded) (auto simp: templates_broken_def check_rest_def Let_def assms(2,3) loaded simp del: append_is_Nil_conv)
qed

lemma run_checks_errors:
  "case run_checks dr fuel cwd of
     None \<Rightarrow> True
   | Some report \<Rightarrow>
       has_errors report \<longleftrightarrow>
         isl (effective_config dr)
         \<or> templates_broken dr fuel (case effective_config dr of Inr c \<Rightarrow> c | Inl e \<Rightarrow> default_config)
             (global_templates_dir (dr_home dr)) (local_templates_dir cwd)
         \<or> jwt_broken (case effective_config dr of Inr c \<Rightarrow> c | Inl e \<Rightarrow> default_config)
         \<or> \<not> sandbox_available (dr_bash dr)"
proof -
  obtain cfg report0 where c: "check_config dr [] = (cfg, report0)" by fastforce
  note e = errors_of_config [OF c]
  show ?thesis
    unfolding run_checks_def Let_def c prod.case
    by (auto simp: e [THEN conjunct1, symmetric] e [THEN conjunct2] errors_of_checked_templates split: option.splits)
qed

section \<open>The verdict\<close>

lemma summary_counts:
  "report_summary report =
     \<lparr> ds_ok = length (filter (\<lambda>c. dc_status c = StatusOk) report),
       ds_warning = length (filter (\<lambda>c. dc_status c = StatusWarning) report), ds_error = error_count report \<rparr>"
proof -
  have "fold (\<lambda>check summary. case dc_status check of
         StatusOk \<Rightarrow> summary\<lparr>ds_ok := ds_ok summary + 1\<rparr>
       | StatusWarning \<Rightarrow> summary\<lparr>ds_warning := ds_warning summary + 1\<rparr>
       | StatusError \<Rightarrow> summary\<lparr>ds_error := ds_error summary + 1\<rparr>) report \<lparr> ds_ok = a, ds_warning = b, ds_error = c \<rparr>
     = \<lparr> ds_ok = a + length (filter (\<lambda>c. dc_status c = StatusOk) report),
         ds_warning = b + length (filter (\<lambda>c. dc_status c = StatusWarning) report), ds_error = c + error_count report \<rparr>" for a b c
    by (induction report arbitrary: a b c) (auto simp: error_count_def split: doctor_status.splits)
  then show ?thesis by (simp add: report_summary_def)
qed

lemma error_count_pos: "0 < error_count report \<longleftrightarrow> has_errors report"
  by (induction report) (auto simp: error_count_def has_errors_def)

lemma print_lines_ok: "print_lines ls t = (Inr (), t\<lparr>tm_out := tm_out t @ ls\<rparr>)"
  by (induction ls arbitrary: t) (simp_all add: act_return_def act_bind_def print_out_def)

text \<open>
  C34. The doctor succeeds exactly when the configuration loads, the template directories can be listed, every template is
  valid and the catalog loads, every profile the templates name is there and complete, a JWT section has one of its two
  sources of keys and an audience, and there is a sandbox for scripts; missing secrets and
  policies never make it fail. It reads no input and prints the report.
\<close>

theorem doctor_fails_iff:
  "case run_doctor cl dr fuel json_mode cwd t of
     None \<Rightarrow> True
   | Some (r, t') \<Rightarrow>
       (is_ok r \<longleftrightarrow>
          is_ok (effective_config dr)
          \<and> \<not> templates_broken dr fuel (case effective_config dr of Inr c \<Rightarrow> c | Inl e \<Rightarrow> default_config)
                (global_templates_dir (dr_home dr)) (local_templates_dir cwd)
          \<and> \<not> jwt_broken (case effective_config dr of Inr c \<Rightarrow> c | Inl e \<Rightarrow> default_config)
          \<and> sandbox_available (dr_bash dr))
       \<and> tm_stdin t' = tm_stdin t \<and> tm_err t' = tm_err t"
proof (cases "run_checks dr fuel cwd")
  case (Some report)
  have "case run_doctor cl dr fuel json_mode cwd t of
     None \<Rightarrow> False
   | Some (r, t') \<Rightarrow> (is_ok r \<longleftrightarrow> \<not> has_errors report) \<and> tm_stdin t' = tm_stdin t \<and> tm_err t' = tm_err t"
    by (simp add: run_doctor_def Some Let_def print_lines_ok print_out_def act_bind_def act_lift_def act_return_def bail_def
        summary_counts error_count_pos)
  then show ?thesis
    using run_checks_errors [of dr fuel cwd] Some by (cases "effective_config dr") (auto split: option.splits)
qed (simp add: run_doctor_def)

text \<open>An empty installation: the directories do not exist.\<close>

definition doctor_sample :: "(unit, memory_store) doctor_env" where
  "doctor_sample =
     \<lparr> dr_home = ''/home/u'', dr_exists = (\<lambda>p. False), dr_toml = (\<lambda>s. Inl ''toml''),
       dr_loader = sample_loader\<lparr>ld_fs := \<lparr> fs_canonicalize = (\<lambda>p. Inl NotFound), fs_read_dir = (\<lambda>d. Inr []),
         fs_read = (\<lambda>p. Inl ''absent''), fs_mtime = (\<lambda>p. None) \<rparr>\<rparr>,
       dr_store = in_memory_store, dr_store_state = \<lparr> ms_poisoned = False, ms_values = [] \<rparr>,
       dr_bash = \<lparr> bx_target = Linux, bx_which = (\<lambda>n. n = ''bwrap''), bx_exists = (\<lambda>p. True),
         bx_spawn = (\<lambda>c s. (Inl ''spawn'', s)) \<rparr>,
       dr_uppercase = id \<rparr>"

theorem doctor_returns_witness: "run_doctor cli_sample doctor_sample 1 False ''/work'' t \<noteq> None"
  by (rule doctor_returns [of _ "\<lambda>_. 0"]) (simp_all add: ranked_tree_def doctor_sample_def)

text \<open>The doctor is content with settings that the server refuses: an issuer without the address of its keys.\<close>

definition half_jwt :: jwt_config where
  "half_jwt =
     \<lparr> jwt_oidc_discovery_url = None, jwt_issuer = Some ''https://id.example.com'', jwt_jwks_uri = None,
       jwt_audience = ''earl'', jwt_algorithms = [''RS256''], jwt_clock_skew_seconds = 30,
       jwt_jwks_cache_max_age_seconds = 900 \<rparr>"

lemma doctor_passes_half_jwt:
  "\<not> jwt_broken (default_config\<lparr>cfg_auth := \<lparr> ac_profiles = [], ac_jwt = Some half_jwt \<rparr>\<rparr>)"
  "configured_issuer half_jwt = bail ''[auth.jwt] requires either oidc_discovery_url or jwks_uri''"
proof -
  have "trim ''earl'' = ''earl''" by code_simp
  then show "\<not> jwt_broken (default_config\<lparr>cfg_auth := \<lparr> ac_profiles = [], ac_jwt = Some half_jwt \<rparr>\<rparr>)"
    by (simp add: jwt_broken_def half_jwt_def)
qed (simp add: configured_issuer_def half_jwt_def ok_or_def bail_def)

end
