(* ===== verification/TemplateImport.thy ===== *)
theory TemplateImport
  imports Cli ActionLog
begin

text \<open>
  Importing a template (\<open>src/template/import.rs\<close>, and its command in \<open>src/app.rs\<close>): the source reference, the name of
  the file, the limits of a download, the one file that is written, and the scan of the secrets it asks for. The file
  system, the HTTP client and the URL parser are parameters; what the import does to them is also kept in a log.
\<close>

section \<open>The source\<close>

datatype template_source_ref = LocalPath string | RemoteUrl url

definition parse_template_source_ref :: "(string \<Rightarrow> string + url) \<Rightarrow> string \<Rightarrow> template_source_ref result" where
  "parse_template_source_ref url_parse source_ref =
     (let trimmed = trim source_ref
      in if trimmed = []
         then bail (''invalid template source reference `'' @ source_ref @ ''`; expected a local path or an http(s) URL'')
         else if prefix ''http://'' trimmed \<or> prefix ''https://'' trimmed
         then and_then (with_context (''invalid template URL `'' @ source_ref @ ''`'') (os_error (url_parse trimmed)))
                (\<lambda>u. Inr (RemoteUrl u))
         else if sublist ''://'' trimmed
         then bail (''unsupported template URL scheme in `'' @ source_ref @ ''`; only http:// and https:// are supported'')
         else Inr (LocalPath trimmed))"

definition resolve_local_source_path :: "string \<Rightarrow> string \<Rightarrow> string" where
  "resolve_local_source_path cwd path = (if prefix ''/'' path then path else Config.path_join cwd path)"

definition resolve_source_for_display :: "string \<Rightarrow> template_source_ref \<Rightarrow> string" where
  "resolve_source_for_display cwd src =
     (case src of LocalPath path \<Rightarrow> resolve_local_source_path cwd path | RemoteUrl u \<Rightarrow> url_as_str u)"

text \<open>\<open>Path::file_name\<close> has none for a path that ends in two dots; \<open>to_str\<close> needs UTF-8.\<close>

definition utf8_file_name :: "string \<Rightarrow> string option" where
  "utf8_file_name p =
     (let name = file_name p in if name = [] \<or> name = ''..'' \<or> \<not> is_utf8 name then None else Some name)"

text \<open>The last segment of the path of a URL that is not empty.\<close>

definition last_segment :: "url \<Rightarrow> string option" where
  "last_segment u =
     (case filter (\<lambda>s. s \<noteq> []) (split_char (CHR ''/'') (url_path u)) of [] \<Rightarrow> None | segments \<Rightarrow> Some (last segments))"

definition validate_template_file_name :: "string \<Rightarrow> unit result" where
  "validate_template_file_name name =
     (if name = ''.'' \<or> name = ''..'' then bail (''template file name contains invalid segment `'' @ name @ ''`'')
      else if CHR ''/'' \<in> set name \<or> CHR 0x5C \<in> set name
      then bail (''template file name contains invalid segment `'' @ name @ ''`'')
      else if \<not> suffix ''.hcl'' name then bail ''template file must end with .hcl''
      else Inr ())"

section \<open>The world of an import\<close>

record import_response =
  ir_success :: bool
  ir_status :: string
  ir_content_length :: "u64 option"
  ir_bytes :: "string + string"

text \<open>The client follows at most five redirects and gives up after 30 seconds; both are inside \<open>io_get\<close>.\<close>

record 'w import_os =
  io_is_file :: "string \<Rightarrow> 'w \<Rightarrow> bool"
  io_exists :: "string \<Rightarrow> 'w \<Rightarrow> bool"
  io_read :: "string \<Rightarrow> 'w \<Rightarrow> string + string"
  io_create_dir_all :: "string \<Rightarrow> 'w \<Rightarrow> (string + unit) \<times> 'w"
  io_write :: "string \<Rightarrow> string \<Rightarrow> 'w \<Rightarrow> (string + unit) \<times> 'w"
  io_client :: "string + unit"
  io_get :: "url \<Rightarrow> 'w \<Rightarrow> (string + import_response) \<times> 'w"
  io_parse :: "string \<Rightarrow> string \<Rightarrow> 'w \<Rightarrow> template_file result"
  io_url_parse :: "string \<Rightarrow> string + url"

datatype import_event = Fetched url | MadeDir string | FoundFree string | Wrote string string

record 'w import_world =
  iw_world :: 'w
  iw_log :: "import_event list"

definition log_event :: "import_event \<Rightarrow> ('w import_world, unit) action" where
  "log_event ev w = (Inr (), w\<lparr>iw_log := iw_log w @ [ev]\<rparr>)"

definition on_world :: "('w \<Rightarrow> (string + 'a) \<times> 'w) \<Rightarrow> ('w import_world, 'a) action" where
  "on_world f w = (case f (iw_world w) of (r, w') \<Rightarrow> (os_error r, w\<lparr>iw_world := w'\<rparr>))"

definition look :: "('w \<Rightarrow> 'a) \<Rightarrow> ('w import_world, 'a) action" where
  "look f w = (Inr (f (iw_world w)), w)"

section \<open>Names and bytes\<close>

definition not_a_file :: "string \<Rightarrow> string" where
  "not_a_file resolved = ''template source path `'' @ resolved @ ''` was not found or is not a file''"

definition raw_file_name :: "'w import_os \<Rightarrow> string \<Rightarrow> template_source_ref \<Rightarrow> ('w import_world, string) action" where
  "raw_file_name io cwd src =
     (case src of
        LocalPath path \<Rightarrow>
          (let resolved = resolve_local_source_path cwd path
           in act_bind (look (io_is_file io resolved)) (\<lambda>is_file.
              act_lift (if \<not> is_file then bail (not_a_file resolved)
                        else ok_or [''template source path must include a file name''] (utf8_file_name resolved))))
      | RemoteUrl u \<Rightarrow> act_lift (ok_or [''template URL path must include a file name''] (last_segment u)))"

definition template_file_name :: "'w import_os \<Rightarrow> string \<Rightarrow> template_source_ref \<Rightarrow> ('w import_world, string) action" where
  "template_file_name io cwd src =
     act_bind (raw_file_name io cwd src) (\<lambda>raw_name.
     act_bind (act_lift (validate_template_file_name raw_name)) (\<lambda>_.
     act_return raw_name))"

definition max_template_size :: nat where
  "max_template_size = 1048576"

definition too_large :: "url \<Rightarrow> nat \<Rightarrow> string" where
  "too_large u len =
     ''template from `'' @ url_as_str u @ ''` exceeds maximum size ('' @ show_nat len @ '' bytes > ''
     @ show_nat max_template_size @ '' bytes)''"

text \<open>The checks of a response.\<close>

definition response_body :: "url \<Rightarrow> import_response \<Rightarrow> string result" where
  "response_body u resp =
     (if \<not> ir_success resp
      then bail (''failed downloading template from `'' @ url_as_str u @ ''`: HTTP '' @ ir_status resp)
      else
        and_then (case ir_content_length resp of
            None \<Rightarrow> Inr ()
          | Some len \<Rightarrow> if unat len > max_template_size then bail (too_large u (unat len)) else Inr ()) (\<lambda>_.
        and_then (with_context (''failed reading template response body from `'' @ url_as_str u @ ''`'')
            (os_error (ir_bytes resp))) (\<lambda>body.
        if length body > max_template_size then bail (too_large u (length body)) else Inr body)))"

definition read_source_bytes :: "'w import_os \<Rightarrow> string \<Rightarrow> template_source_ref \<Rightarrow> ('w import_world, string) action" where
  "read_source_bytes io cwd src =
     (case src of
        LocalPath path \<Rightarrow>
          (let resolved = resolve_local_source_path cwd path
           in act_bind (look (io_is_file io resolved)) (\<lambda>is_file.
              if \<not> is_file then act_lift (bail (not_a_file resolved))
              else act_bind (look (io_read io resolved)) (\<lambda>r.
                   act_lift (with_context (''failed reading template source '' @ resolved) (os_error r)))))
      | RemoteUrl u \<Rightarrow>
          act_bind (act_lift (with_context ''failed building HTTP client for template download''
            (os_error (io_client io)))) (\<lambda>_.
          act_bind (log_event (Fetched u)) (\<lambda>_.
          act_bind (act_context (''failed downloading template from `'' @ url_as_str u @ ''`'')
            (on_world (io_get io u))) (\<lambda>resp.
          act_lift (response_body u resp)))))"

section \<open>The secrets a template asks for\<close>

definition collect_credential_keys :: "template_file \<Rightarrow> string list" where
  "collect_credential_keys parsed =
     sort (remdups (filter (\<lambda>s. s \<noteq> [])
       (map trim (concat (map (\<lambda>command. ann_secrets (ct_annotations command)) (bt_values (tf_commands parsed)))))))"

text \<open>\<open>read_to_string\<close> refuses bytes that are not UTF-8.\<close>

definition scan_credential_keys :: "'w import_os \<Rightarrow> string \<Rightarrow> ('w import_world, string list) action" where
  "scan_credential_keys io template_path =
     act_bind (look (io_read io template_path)) (\<lambda>r.
     act_bind (act_lift (with_context (''failed reading imported template for secret scan '' @ template_path)
       (and_then (os_error r) (\<lambda>bytes.
          if is_utf8 bytes then Inr bytes else bail ''stream did not contain valid UTF-8'')))) (\<lambda>content.
     act_bind (look (io_parse io content (path_parent template_path))) (\<lambda>parsed.
     act_bind (act_lift (with_context (''imported template is not valid HCL/schema '' @ template_path) parsed)) (\<lambda>parsed.
     act_return (collect_credential_keys parsed)))))"

section \<open>The import\<close>

record import_result =
  im_source_ref :: string
  im_source :: string
  im_destination :: string
  im_required_credential_names :: "string list"

definition import_template_from_source_ref ::
    "'w import_os \<Rightarrow> string \<Rightarrow> string \<Rightarrow> string \<Rightarrow> ('w import_world, import_result) action" where
  "import_template_from_source_ref io cwd source_ref destination_dir =
     act_bind (act_lift (parse_template_source_ref (io_url_parse io) source_ref)) (\<lambda>src.
     let source_path = resolve_source_for_display cwd src
     in act_bind (template_file_name io cwd src) (\<lambda>name.
        act_bind (read_source_bytes io cwd src) (\<lambda>source_bytes.
        act_bind (log_event (MadeDir destination_dir)) (\<lambda>_.
        act_bind (act_context (''failed creating template directory '' @ destination_dir)
          (on_world (io_create_dir_all io destination_dir))) (\<lambda>_.
        let destination_path = Config.path_join destination_dir name
        in act_bind (look (io_exists io destination_path)) (\<lambda>there.
           if there then act_lift (bail (''template destination already exists: '' @ destination_path))
           else
             act_bind (log_event (FoundFree destination_path)) (\<lambda>_.
             act_bind (log_event (Wrote destination_path source_bytes)) (\<lambda>_.
             act_bind (act_context (''failed writing imported template to '' @ destination_path)
               (on_world (io_write io destination_path source_bytes))) (\<lambda>_.
             act_bind (scan_credential_keys io destination_path) (\<lambda>required_credential_names.
             act_return
               \<lparr> im_source_ref = source_ref, im_source = source_path, im_destination = destination_path,
                 im_required_credential_names = required_credential_names \<rparr>))))))))))"

section \<open>The command\<close>

datatype import_scope = ImportLocal | ImportGlobal

definition import_destination :: "string \<Rightarrow> string \<Rightarrow> import_scope \<Rightarrow> string" where
  "import_destination home cwd scope =
     (case scope of ImportLocal \<Rightarrow> local_templates_dir cwd | ImportGlobal \<Rightarrow> global_templates_dir home)"

definition import_lines :: "import_result \<Rightarrow> string list" where
  "import_lines imported =
     (''Imported template from `'' @ im_source_ref imported @ ''` to `'' @ im_destination imported @ ''`.'')
     # (if im_required_credential_names imported = [] then [''No required secrets were declared by this template.'']
        else [''Required secrets:''] @ map (\<lambda>n. ''- '' @ n) (im_required_credential_names imported)
             @ [''Set up with:''] @ map (\<lambda>n. ''earl secrets set '' @ n) (im_required_credential_names imported))"

definition run_templates_import ::
    "(import_result \<Rightarrow> string) \<Rightarrow> 'w import_os \<Rightarrow> bool \<Rightarrow> string \<Rightarrow> string \<Rightarrow> import_scope \<Rightarrow> string \<Rightarrow>
     terminal \<times> 'w import_world \<Rightarrow> unit result \<times> terminal \<times> 'w import_world" where
  "run_templates_import result_json io json_mode home cwd scope source_ref s =
     (case s of (t, w) \<Rightarrow>
        (case import_template_from_source_ref io cwd source_ref (import_destination home cwd scope) w of
           (Inl e, w') \<Rightarrow> (Inl e, t, w')
         | (Inr imported, w') \<Rightarrow>
             (case (if json_mode then print_out (result_json imported) else print_lines (import_lines imported)) t of
                (r, t') \<Rightarrow> (r, t', w'))))"

section \<open>Reasoning about an action\<close>

text \<open>An action ends in a state of the one kind when it fails and of the other when it succeeds.\<close>

definition act_wp :: "('s \<Rightarrow> bool) \<Rightarrow> ('a \<Rightarrow> 's \<Rightarrow> bool) \<Rightarrow> ('s, 'a) action \<Rightarrow> 's \<Rightarrow> bool" where
  "act_wp E Q m s \<longleftrightarrow> (case m s of (Inl e, s') \<Rightarrow> E s' | (Inr x, s') \<Rightarrow> Q x s')"

named_theorems wp_intros

lemma act_wp_bind [wp_intros]: "act_wp E (\<lambda>x. act_wp E Q (k x)) m s \<Longrightarrow> act_wp E Q (act_bind m k) s"
  by (auto simp: act_wp_def act_bind_def split: prod.splits sum.splits)

lemma act_wp_return [wp_intros]: "Q x s \<Longrightarrow> act_wp E Q (act_return x) s"
  by (simp add: act_wp_def act_return_def)

lemma act_wp_lift [wp_intros]: "(\<And>x. r = Inr x \<Longrightarrow> Q x s) \<Longrightarrow> E s \<Longrightarrow> act_wp E Q (act_lift r) s"
  by (cases r) (simp_all add: act_wp_def act_lift_def)

lemma act_wp_context [wp_intros]: "act_wp E Q m s \<Longrightarrow> act_wp E Q (act_context msg m) s"
  by (auto simp: act_wp_def act_context_def split: prod.splits sum.splits)

lemma act_wp_look [wp_intros]: "Q (f (iw_world s)) s \<Longrightarrow> act_wp E Q (look f) s"
  by (simp add: act_wp_def look_def)

lemma act_wp_log_event [wp_intros]: "Q () (s\<lparr>iw_log := iw_log s @ [ev]\<rparr>) \<Longrightarrow> act_wp E Q (log_event ev) s"
  by (simp add: act_wp_def log_event_def)

lemma act_wp_on_world [wp_intros]:
  "(\<And>x w. Q x (s\<lparr>iw_world := w\<rparr>)) \<Longrightarrow> (\<And>w. E (s\<lparr>iw_world := w\<rparr>)) \<Longrightarrow> act_wp E Q (on_world f) s"
  by (auto simp: act_wp_def on_world_def os_error_def split: prod.splits sum.splits)

lemma act_wp_if [wp_intros]:
  "(b \<Longrightarrow> act_wp E Q m s) \<Longrightarrow> (\<not> b \<Longrightarrow> act_wp E Q n s) \<Longrightarrow> act_wp E Q (if b then m else n) s"
  by simp

lemma act_wp_let [wp_intros]: "act_wp E Q (f x) s \<Longrightarrow> act_wp E Q (let y = x in f y) s"
  by simp

lemma act_wp_mono: "act_wp E P m s \<Longrightarrow> (\<And>x s'. P x s' \<Longrightarrow> Q x s') \<Longrightarrow> act_wp E Q m s"
  by (auto simp: act_wp_def split: prod.splits sum.splits)

section \<open>What an import does\<close>

definition plain_hcl_name :: "string \<Rightarrow> bool" where
  "plain_hcl_name name \<longleftrightarrow> suffix ''.hcl'' name \<and> CHR ''/'' \<notin> set name \<and> CHR 0x5C \<notin> set name"

text \<open>The whole of what an import may do, given its source, the name of the file and its bytes.\<close>

definition import_events :: "template_source_ref \<Rightarrow> string \<Rightarrow> string \<Rightarrow> string \<Rightarrow> import_event list" where
  "import_events src destination_dir name bytes =
     (case src of LocalPath path \<Rightarrow> [] | RemoteUrl u \<Rightarrow> [Fetched u])
     @ [MadeDir destination_dir, FoundFree (Config.path_join destination_dir name),
        Wrote (Config.path_join destination_dir name) bytes]"

definition small_download :: "template_source_ref \<Rightarrow> string \<Rightarrow> bool" where
  "small_download src bytes \<longleftrightarrow> (case src of LocalPath path \<Rightarrow> True | RemoteUrl u \<Rightarrow> length bytes \<le> max_template_size)"

definition import_done :: "template_source_ref \<Rightarrow> string \<Rightarrow> import_event list \<Rightarrow> bool" where
  "import_done src destination_dir ls \<longleftrightarrow>
     (\<exists>name bytes. plain_hcl_name name \<and> small_download src bytes
        \<and> prefix ls (import_events src destination_dir name bytes))"

lemma import_doneI:
  "plain_hcl_name name \<Longrightarrow> small_download src bytes \<Longrightarrow> prefix ls (import_events src d name bytes) \<Longrightarrow> import_done src d ls"
  unfolding import_done_def by blast

lemma import_done_early: "import_done src d []" "import_done (RemoteUrl u) d [Fetched u]"
proof -
  have "plain_hcl_name ''.hcl''" "small_download src' []" for src'
    by (simp_all add: plain_hcl_name_def small_download_def split: template_source_ref.splits)
  then show "import_done src d []" "import_done (RemoteUrl u) d [Fetched u]"
    by (auto intro!: import_doneI [of "''.hcl''" _ "[]"] simp: import_events_def)
qed

lemma valid_name_plain: "validate_template_file_name name = Inr u \<Longrightarrow> plain_hcl_name name"
  by (auto simp: validate_template_file_name_def plain_hcl_name_def result_simps split: if_splits)

lemma response_body_small: "response_body u resp = Inr body \<Longrightarrow> length body \<le> max_template_size"
  by (auto simp: response_body_def result_simps split: if_splits option.splits)

lemma wp_template_file_name:
  assumes "E s" and "\<And>name. plain_hcl_name name \<Longrightarrow> Q name s"
  shows "act_wp E Q (template_file_name io cwd src) s"
  unfolding template_file_name_def raw_file_name_def using assms
  by (cases src) (auto intro!: wp_intros dest: valid_name_plain split: if_splits)

definition fetch_log :: "template_source_ref \<Rightarrow> import_event list" where
  "fetch_log src = (case src of LocalPath path \<Rightarrow> [] | RemoteUrl u \<Rightarrow> [Fetched u])"

lemma wp_read_source_bytes:
  assumes "\<And>w ls. iw_log w = iw_log s @ ls \<Longrightarrow> import_done src d ls \<Longrightarrow> E w"
    and "\<And>bytes w. small_download src bytes \<Longrightarrow> iw_log w = iw_log s @ fetch_log src \<Longrightarrow> Q bytes w"
  shows "act_wp E Q (read_source_bytes io cwd src) s"
  unfolding read_source_bytes_def using assms(1) [of _ "[]"] assms(1) [of _ "fetch_log src"] assms(2)
  by (cases src) (auto intro!: wp_intros simp: import_done_early small_download_def fetch_log_def dest: response_body_small)

lemma wp_scan: "E s \<Longrightarrow> (\<And>keys. Q keys s) \<Longrightarrow> act_wp E Q (scan_credential_keys io template_path) s"
  unfolding scan_credential_keys_def by (intro wp_intros) simp_all

lemma import_events_prefix:
  "import_events src d name bytes =
     fetch_log src @ [MadeDir d, FoundFree (Config.path_join d name), Wrote (Config.path_join d name) bytes]"
  by (simp add: import_events_def fetch_log_def)


text \<open>Keys are without white space around them, in order, once each.\<close>

lemma credential_keys_sorted: "sorted (collect_credential_keys parsed) \<and> distinct (collect_credential_keys parsed)"
  by (simp add: collect_credential_keys_def)

text \<open>
  A file that does not parse stays where it was written although the import fails, and the next load of the catalog
  meets it. A name that is only the extension is imported, but the catalog does not see such a file.
\<close>

definition import_sample :: "unit import_os" where
  "import_sample =
     \<lparr> io_is_file = (\<lambda>p w. p = ''/src/bad.hcl''), io_exists = (\<lambda>p w. False), io_read = (\<lambda>p w. Inr ''not HCL''),
       io_create_dir_all = (\<lambda>d w. (Inr (), w)), io_write = (\<lambda>p b w. (Inr (), w)), io_client = Inr (),
       io_get = (\<lambda>u w. (Inl ''offline'', w)), io_parse = (\<lambda>c d w. bail ''HCL''), io_url_parse = (\<lambda>s. Inl ''url'') \<rparr>"

lemma invalid_template_stays:
  "import_template_from_source_ref import_sample ''/'' '' /src/bad.hcl'' ''/t'' \<lparr> iw_world = (), iw_log = [] \<rparr>
   = (Inl [''imported template is not valid HCL/schema /t/bad.hcl'', ''HCL''],
      \<lparr> iw_world = (), iw_log = [MadeDir ''/t'', FoundFree ''/t/bad.hcl'', Wrote ''/t/bad.hcl'' ''not HCL''] \<rparr>)"
  by code_simp

lemma bare_extension_imported:
  "validate_template_file_name ''.hcl'' = Inr ()" "\<not> is_template_file ''/t/.hcl''"
  by code_simp+

end
