(* ===== verification/App.thy ===== *)
theory App
  imports Doctor TemplateImport Search OAuth
begin

text \<open>
  The program as a whole (\<open>src/cli.rs\<close>, \<open>run\<close> of \<open>src/app.rs\<close>, \<open>src/main.rs\<close>): the commands, the directories that
  are made first, the configuration that four of the commands read, and the components each command runs on. A process
  runs one command, so the world is the components side by side. Parsing the command line is left to clap.
\<close>

section \<open>Commands\<close>

datatype templates_command =
    TemplatesList "string option" "command_mode option"
  | TemplatesSearch string usize
  | TemplatesValidate
  | TemplatesImport string import_scope
  | TemplatesGenerate "string list"

datatype completion_shell = ShellBash | ShellZsh | ShellFish | ShellPowerShell | ShellElvish

record web_args =
  wa_listen :: string
  wa_no_open :: bool

datatype command =
    CmdCall call_args
  | CmdTemplates bool templates_command
  | CmdSecrets secrets_command
  | CmdAuth auth_command
  | CmdMcp mcp_args
  | CmdDoctor bool
  | CmdWeb web_args
  | CmdCompletion completion_shell

text \<open>What the command line leaves out.\<close>

definition default_search_limit :: usize where "default_search_limit = 10"
definition default_import_scope :: import_scope where "default_import_scope = ImportLocal"
definition default_mcp_listen :: string where "default_mcp_listen = ''127.0.0.1:8977''"
definition default_mcp_args :: mcp_args where
  "default_mcp_args =
     \<lparr> ma_transport = StdioTransport, ma_mode = McpFull, ma_yes = False, ma_allow_unauthenticated = False \<rparr>"
definition default_web_args :: web_args where "default_web_args = \<lparr> wa_listen = ''127.0.0.1:0'', wa_no_open = False \<rparr>"

section \<open>The directories\<close>

definition catalog_cache_path :: "string \<Rightarrow> string" where
  "catalog_cache_path home =
     Config.path_join (cache_dir home) (''catalog-'' @ show_nat (unat cache_version) @ ''.bin'')"

text \<open>None is the panic for a machine that names no home directory.\<close>

definition home_dir :: "string option \<Rightarrow> string option \<Rightarrow> string option" where
  "home_dir env_home base_dirs = (case env_home of Some h \<Rightarrow> Some h | None \<Rightarrow> base_dirs)"

definition runtime_dirs :: "string \<Rightarrow> string list" where
  "runtime_dirs home = [config_dir home, state_dir home, cache_dir home, global_templates_dir home]"

fun make_dirs :: "(string \<Rightarrow> 'd \<Rightarrow> (string + unit) \<times> 'd) \<Rightarrow> string list \<Rightarrow> ('d, unit) action" where
  "make_dirs create [] = act_return ()"
| "make_dirs create (path # paths) =
     act_bind (act_context (''failed creating directory '' @ path) (\<lambda>d. case create path d of (r, d') \<Rightarrow> (os_error r, d')))
       (\<lambda>_. make_dirs create paths)"

definition ensure_runtime_dirs :: "(string \<Rightarrow> 'd \<Rightarrow> (string + unit) \<times> 'd) \<Rightarrow> string \<Rightarrow> ('d, unit) action" where
  "ensure_runtime_dirs create home = make_dirs create (runtime_dirs home)"

section \<open>The web server\<close>

record bound_addr =
  ba_ipv6 :: bool
  ba_ip :: string
  ba_port :: u16

definition web_url_for_addr :: "bound_addr \<Rightarrow> string" where
  "web_url_for_addr addr =
     (if ba_ipv6 addr then ''http://['' @ ba_ip addr @ '']:'' @ show_nat (unat (ba_port addr))
      else ''http://'' @ ba_ip addr @ '':'' @ show_nat (unat (ba_port addr)))"

text \<open>Four hashes of nothing by fresh hasher states make the 32 bytes of the token.\<close>

definition generate_bearer_token :: "(u64 \<Rightarrow> string) \<Rightarrow> (string \<Rightarrow> string) \<Rightarrow> (nat \<Rightarrow> u64) \<Rightarrow> string" where
  "generate_bearer_token ne_bytes url_safe_no_pad hashes =
     url_safe_no_pad (concat (map (\<lambda>i. ne_bytes (hashes i)) [0, 1, 2, 3]))"

record web_start =
  ws_bind :: "string \<Rightarrow> string + unit"
  ws_local_addr :: "string + bound_addr"
  ws_ne_bytes :: "u64 \<Rightarrow> string"
  ws_url_safe_no_pad :: "string \<Rightarrow> string"
  ws_hashes :: "nat \<Rightarrow> u64"

text \<open>Up to the moment the server serves: the token it asks for. Opening the browser may fail without effect.\<close>

definition run_web :: "web_start \<Rightarrow> web_args \<Rightarrow> string result \<Rightarrow> (terminal, string \<times> string) action" where
  "run_web ws args cwd =
     act_bind (act_lift cwd) (\<lambda>cwd.
     act_bind (act_lift (with_context (''failed to bind web listener on '' @ wa_listen args)
       (os_error (ws_bind ws (wa_listen args))))) (\<lambda>_.
     act_bind (act_lift (with_context ''failed reading bound web listener address'' (os_error (ws_local_addr ws)))) (\<lambda>bound.
     let token = generate_bearer_token (ws_ne_bytes ws) (ws_url_safe_no_pad ws) (ws_hashes ws)
     in act_bind (print_out (''earl web playground listening at '' @ web_url_for_addr bound)) (\<lambda>_.
        act_bind (print_out (''Authorization: Bearer '' @ token)) (\<lambda>_.
        act_return (cwd, token))))))"

section \<open>The world and the libraries of a process\<close>

record ('w, 'o, 's, 'st, 'f, 'n, 'i, 'c, 'd) earl_world =
  ew_call :: "('w, 'o, 's) cli_world"
  ew_secrets :: "('st, 'f) secret_world"
  ew_oauth :: "('st, 'f, 'w, 'n) oauth_world"
  ew_search :: "('n, 'w) search_world"
  ew_import :: "'i import_world"
  ew_jwt :: "'n jwt_net"
  ew_cache :: "'c option"
  ew_dirs :: 'd

text \<open>How a process goes on: it ends, or a server takes over.\<close>

datatype earl_outcome =
    Finished "unit result"
  | ServingMcp server_transport mcp_state "jwks_cache option"
  | ServingWeb string string

record ('w, 'o, 'e, 'v, 's, 'row, 're, 'sel, 'doc, 'xp, 'st, 'f, 'n, 'i, 'c, 'd, 'jwk, 'dk) earl_libs =
  el_server :: "('st, 'w, 'o, 'e, 'v, 's, 'row, 're, 'sel, 'doc, 'xp) server_libs"
  el_cli :: cli_libs
  el_printers :: list_printers
  el_secrets :: "('st, 'f) secrets_libs"
  el_oauth :: "('st, 'f, 'w, 'n) oauth_libs"
  el_jwt :: "('n, 'jwk, 'dk) jwt_libs"
  el_search :: "('n, 'w, 'st) search_libs"
  el_hits_json :: "search_hit list \<Rightarrow> string"
  el_score :: "f32 \<Rightarrow> string"
  el_import :: "'i import_os"
  el_import_json :: "import_result \<Rightarrow> string"
  el_doctor :: "('s, 'st) doctor_env"
  el_cache :: "'c cache_io"
  el_coding :: coding_cli
  el_web :: web_start
  el_completion :: "completion_shell \<Rightarrow> string"
  el_create_dir :: "string \<Rightarrow> 'd \<Rightarrow> (string + unit) \<times> 'd"
  el_cwd :: "string result"
  el_fuel :: nat

abbreviation el_home where "el_home el \<equiv> dr_home (el_doctor el)"

section \<open>Running a command\<close>

text \<open>An action on the terminal alone.\<close>

definition on_screen :: "(terminal, 'a) action \<Rightarrow> ('w, 'o, 's, 'st, 'f, 'n, 'i, 'c, 'd) earl_world \<Rightarrow>
    'a result \<times> ('w, 'o, 's, 'st, 'f, 'n, 'i, 'c, 'd) earl_world" where
  "on_screen m w =
     (case m (cw_terminal (ew_call w)) of (r, t) \<Rightarrow> (r, w\<lparr>ew_call := (ew_call w)\<lparr>cw_terminal := t\<rparr>\<rparr>))"

text \<open>\<open>load_catalog\<close> in the working directory, with the cache of the process.\<close>

definition load_here where
  "load_here el w =
     (case el_cwd el of
        Inl e \<Rightarrow> Some (Inl e, w)
      | Inr cwd \<Rightarrow>
          map_option (\<lambda>(loaded, content). (loaded, w\<lparr>ew_cache := content\<rparr>))
            (load_catalog_with_cache (dr_loader (el_doctor el)) (el_fuel el) (el_cache el)
               (global_templates_dir (el_home el)) (local_templates_dir cwd) (ew_cache w)))"

definition search_lines where
  "search_lines el json_mode hits =
     (if json_mode then el_hits_json el hits
      else lp_table (el_printers el) [''Score'', ''Command'', ''Summary'']
             (map (\<lambda>hit. [el_score el (sh_score hit), sh_key hit, sh_summary hit]) hits))"

definition run_templates_search where
  "run_templates_search el json_mode query limit cfg loaded w =
     (case loaded of
        Inl e \<Rightarrow> (Inl e, w)
      | Inr cat \<Rightarrow>
          (case search_templates (el_search el) query cat cfg limit (ew_search w) of
             (Inl e, sw) \<Rightarrow> (Inl e, w\<lparr>ew_search := sw\<rparr>)
           | (Inr hits, sw) \<Rightarrow>
               on_screen (print_out (search_lines el json_mode hits)) (w\<lparr>ew_search := sw\<rparr>)))"

definition run_templates where
  "run_templates el json_mode cmd cfg w =
     (case el_cwd el of
        Inl e \<Rightarrow> Some (Inl e, w)
      | Inr cwd \<Rightarrow>
          (case cmd of
             TemplatesList category mode \<Rightarrow>
               map_option (\<lambda>(loaded, w'). on_screen (run_templates_list (el_printers el) json_mode category mode loaded) w')
                 (load_here el w)
           | TemplatesSearch query limit \<Rightarrow>
               map_option (\<lambda>(loaded, w'). run_templates_search el json_mode query limit cfg loaded w') (load_here el w)
           | TemplatesValidate \<Rightarrow>
               map_option (\<lambda>validated. on_screen (run_templates_validate (el_printers el) json_mode validated) w)
                 (validate_all_from_dirs (dr_loader (el_doctor el)) (el_fuel el)
                    (global_templates_dir (el_home el)) (local_templates_dir cwd))
           | TemplatesImport source_ref scope \<Rightarrow>
               Some (case run_templates_import (el_import_json el) (el_import el) json_mode (el_home el) cwd scope source_ref
                         (cw_terminal (ew_call w), ew_import w) of
                       (r, t, iw) \<Rightarrow> (r, w\<lparr>ew_call := (ew_call w)\<lparr>cw_terminal := t\<rparr>, ew_import := iw\<rparr>))
           | TemplatesGenerate cc \<Rightarrow>
               map_option (\<lambda>(r, t). (r, w\<lparr>ew_call := (ew_call w)\<lparr>cw_terminal := t\<rparr>\<rparr>))
                 (run_template_generate (el_coding el) cc json_mode (cw_terminal (ew_call w)))))"

definition run_secrets_command where
  "run_secrets_command el cmd w =
     (case run_secrets (el_secrets el) cmd (cw_terminal (ew_call w), ew_secrets w) of
        (r, t, sw) \<Rightarrow> (r, w\<lparr>ew_call := (ew_call w)\<lparr>cw_terminal := t\<rparr>, ew_secrets := sw\<rparr>))"

definition run_mcp_command where
  "run_mcp_command el args cfg w =
     (case load_here el w of
        None \<Rightarrow> None
      | Some (loaded, w') \<Rightarrow>
          map_option (\<lambda>(r, net).
              ((case r of Inl e \<Rightarrow> Finished (Inl e) | Inr (state, keys) \<Rightarrow> ServingMcp (ma_transport args) state keys),
               w'\<lparr>ew_jwt := net\<rparr>))
            (run_mcp (el_jwt el) args loaded cfg (ew_jwt w')))"

definition finish :: "('w \<Rightarrow> unit result \<times> 'w) \<Rightarrow> 'w \<Rightarrow> earl_outcome \<times> 'w" where
  "finish m w = (case m w of (r, w') \<Rightarrow> (Finished r, w'))"

text \<open>The configuration is read only here, by the commands that take it.\<close>

definition with_config where
  "with_config el k w =
     (case effective_config (el_doctor el) of Inl e \<Rightarrow> Some (Finished (Inl e), w) | Inr cfg \<Rightarrow> k cfg w)"

definition run_command where
  "run_command el cmd w =
     (case cmd of
        CmdCall args \<Rightarrow>
          with_config el (\<lambda>cfg w.
            (case load_here el w of
               None \<Rightarrow> None
             | Some (loaded, w') \<Rightarrow>
                 map_option (\<lambda>(r, cw). (Finished r, w'\<lparr>ew_call := cw\<rparr>))
                   (run_call (el_server el) (el_cli el) args cfg loaded (ew_call w')))) w
      | CmdTemplates json_mode sub \<Rightarrow>
          with_config el (\<lambda>cfg w. map_option (\<lambda>(r, w'). (Finished r, w')) (run_templates el json_mode sub cfg w)) w
      | CmdSecrets sub \<Rightarrow> Some (finish (run_secrets_command el sub) w)
      | CmdAuth sub \<Rightarrow>
          with_config el (\<lambda>cfg w. Some (case run_auth (el_oauth el) cfg sub (ew_oauth w) of
            (r, ow) \<Rightarrow> (Finished r, w\<lparr>ew_oauth := ow\<rparr>))) w
      | CmdMcp args \<Rightarrow> with_config el (run_mcp_command el args) w
      | CmdDoctor json_mode \<Rightarrow>
          (case el_cwd el of
             Inl e \<Rightarrow> Some (Finished (Inl e), w)
           | Inr cwd \<Rightarrow>
               map_option (\<lambda>(r, t). (Finished r, w\<lparr>ew_call := (ew_call w)\<lparr>cw_terminal := t\<rparr>\<rparr>))
                 (run_doctor (el_cli el) (el_doctor el) (el_fuel el) json_mode cwd (cw_terminal (ew_call w))))
      | CmdWeb args \<Rightarrow>
          Some (case on_screen (run_web (el_web el) args (el_cwd el)) w of
            (Inl e, w') \<Rightarrow> (Finished (Inl e), w') | (Inr (cwd, token), w') \<Rightarrow> (ServingWeb cwd token, w'))
      | CmdCompletion shell \<Rightarrow> Some (finish (on_screen (print_out (el_completion el shell))) w))"

definition run where
  "run el cmd w =
     (case ensure_runtime_dirs (el_create_dir el) (el_home el) (ew_dirs w) of
        (Inl e, d) \<Rightarrow> Some (Finished (Inl e), w\<lparr>ew_dirs := d\<rparr>)
      | (Inr _, d) \<Rightarrow> run_command el cmd (w\<lparr>ew_dirs := d\<rparr>))"

text \<open>What \<open>main\<close> adds: the line on standard error and the exit code of a process that ends.\<close>

definition main_end :: "unit result \<Rightarrow> string list \<times> nat" where
  "main_end r = (case r of Inl err \<Rightarrow> ([''error: '' @ err_alternate err], 1) | Inr _ \<Rightarrow> ([], 0))"

section \<open>Which commands read the configuration\<close>

fun needs_config :: "command \<Rightarrow> bool" where
  "needs_config (CmdCall args) = True"
| "needs_config (CmdTemplates json_mode sub) = True"
| "needs_config (CmdSecrets sub) = False"
| "needs_config (CmdAuth sub) = True"
| "needs_config (CmdMcp args) = True"
| "needs_config (CmdDoctor json_mode) = False"
| "needs_config (CmdWeb args) = False"
| "needs_config (CmdCompletion shell) = False"

lemma with_config_broken:
  "effective_config (el_doctor el) = Inl e \<Longrightarrow> with_config el k w = Some (Finished (Inl e), w)"
  by (simp add: with_config_def)

lemma run_command_broken:
  "effective_config (el_doctor el) = Inl e \<Longrightarrow> needs_config cmd \<Longrightarrow> run_command el cmd w = Some (Finished (Inl e), w)"
  by (cases cmd) (simp_all add: run_command_def with_config_broken)

lemma run_command_other_doctor:
  "(case cmd of CmdDoctor json_mode \<Rightarrow> False | _ \<Rightarrow> \<not> needs_config cmd) \<Longrightarrow>
     run_command (el\<lparr>el_doctor := dr\<rparr>) cmd w = run_command el cmd w"
  by (cases cmd) (simp_all add: run_command_def run_secrets_command_def finish_def)

text \<open>
  A configuration that does not load ends every command that uses it with that error, before anything but the four
  directories is touched; the secrets, web and completion commands do the same whatever the configuration is, and the
  doctor still gives its report. Without its directories no command runs.
\<close>

theorem broken_configuration_stops:
  "case ensure_runtime_dirs (el_create_dir el) (el_home el) (ew_dirs w) of
     (Inl e, d) \<Rightarrow> run el cmd w = Some (Finished (Inl e), w\<lparr>ew_dirs := d\<rparr>)
   | (Inr _, d) \<Rightarrow>
       (if needs_config cmd
        then (case effective_config (el_doctor el) of
                Inl e \<Rightarrow> run el cmd w = Some (Finished (Inl e), w\<lparr>ew_dirs := d\<rparr>)
              | Inr cfg \<Rightarrow> True)
        else (case cmd of
                CmdDoctor json_mode \<Rightarrow> True
              | _ \<Rightarrow> run (el\<lparr>el_doctor := (el_doctor el)\<lparr>dr_toml := toml\<rparr>\<rparr>) cmd w = run el cmd w))"
  by (auto simp: run_def run_command_broken run_command_other_doctor split: prod.splits sum.splits command.splits)

end
