(* ===== verification/StepJson.thy ===== *)
theory StepJson
  imports Std Utf8 Builders
begin

text \<open>
  How a step of a browser command is written as JSON and read again, the \<open>Serialize\<close> and \<open>Deserialize\<close> that serde
  derives for \<open>BrowserStep\<close> in \<open>crates/earl-protocol-browser/src/schema.rs\<close> from its attributes (an internal tag
  \<open>action\<close>, snake case, unknown fields denied, defaults). The builder renders a step through this form, so what
  rendering can make of a step is settled here. The messages of serde are parameters.
\<close>

section \<open>Fields\<close>

text \<open>The types of the fields; a flag is a boolean with a default, every option has the default None.\<close>

datatype ftype =
    TStr | TOptStr | TFlag | TBool | TOptBool | TOptU16 | TU32 | TOptU32 | TOptU64 | TF64 | TOptF64 | TStrs | TVals

datatype fval =
    VStr (the_str: string)
  | VOptStr (the_opt_str: "string option")
  | VBool (the_bool: bool)
  | VOptBool (the_opt_bool: "bool option")
  | VOptU16 (the_opt_u16: "u16 option")
  | VU32 (the_u32: u32)
  | VOptU32 (the_opt_u32: "u32 option")
  | VOptU64 (the_opt_u64: "u64 option")
  | VF64 (the_f64: f64)
  | VOptF64 (the_opt_f64: "f64 option")
  | VStrs (the_strs: "string list")
  | VVals (the_vals: "json list")

fun fits :: "ftype \<Rightarrow> fval \<Rightarrow> bool" where
  "fits TStr v = is_VStr v" | "fits TOptStr v = is_VOptStr v" | "fits TFlag v = is_VBool v"
| "fits TBool v = is_VBool v" | "fits TOptBool v = is_VOptBool v" | "fits TOptU16 v = is_VOptU16 v"
| "fits TU32 v = is_VU32 v" | "fits TOptU32 v = is_VOptU32 v" | "fits TOptU64 v = is_VOptU64 v"
| "fits TF64 v = is_VF64 v" | "fits TOptF64 v = is_VOptF64 v" | "fits TStrs v = is_VStrs v"
| "fits TVals v = is_VVals v"

definition opt_json :: "('a \<Rightarrow> json) \<Rightarrow> 'a option \<Rightarrow> json" where
  "opt_json f x = (case x of None \<Rightarrow> JNull | Some y \<Rightarrow> f y)"

definition word_json :: "'a::len word \<Rightarrow> json" where
  "word_json w = JNumber (PosInt (ucast w))"

fun fval_json :: "fval \<Rightarrow> json" where
  "fval_json (VStr s) = JString s"
| "fval_json (VOptStr x) = opt_json JString x"
| "fval_json (VBool b) = JBool b"
| "fval_json (VOptBool x) = opt_json JBool x"
| "fval_json (VOptU16 x) = opt_json word_json x"
| "fval_json (VU32 w) = word_json w"
| "fval_json (VOptU32 x) = opt_json word_json x"
| "fval_json (VOptU64 x) = opt_json word_json x"
| "fval_json (VF64 f) = json_f64 f"
| "fval_json (VOptF64 x) = opt_json json_f64 x"
| "fval_json (VStrs xs) = JArray (map JString xs)"
| "fval_json (VVals vs) = JArray vs"

text \<open>Reading: an option takes null, an unsigned integer only a number in its range, a float any number.\<close>

definition opt_read :: "(json \<Rightarrow> 'a option) \<Rightarrow> json \<Rightarrow> 'a option option" where
  "opt_read f v = (case v of JNull \<Rightarrow> Some None | _ \<Rightarrow> map_option Some (f v))"

definition as_word :: "json \<Rightarrow> 'a::len word option" where
  "as_word v = (case as_u64 v of None \<Rightarrow> None | Some n \<Rightarrow> if unat n < 2 ^ LENGTH('a) then Some (ucast n) else None)"

fun read_strings :: "json list \<Rightarrow> string list option" where
  "read_strings [] = Some []"
| "read_strings (v # vs) = (case (as_str v, read_strings vs) of (Some s, Some ss) \<Rightarrow> Some (s # ss) | _ \<Rightarrow> None)"

definition as_strings :: "json \<Rightarrow> string list option" where
  "as_strings v = Option.bind (as_array v) read_strings"

fun read_field :: "ftype \<Rightarrow> json \<Rightarrow> fval option" where
  "read_field TStr v = map_option VStr (as_str v)"
| "read_field TOptStr v = map_option VOptStr (opt_read as_str v)"
| "read_field TFlag v = map_option VBool (as_bool v)"
| "read_field TBool v = map_option VBool (as_bool v)"
| "read_field TOptBool v = map_option VOptBool (opt_read as_bool v)"
| "read_field TOptU16 v = map_option VOptU16 (opt_read as_word v)"
| "read_field TU32 v = map_option VU32 (as_word v)"
| "read_field TOptU32 v = map_option VOptU32 (opt_read as_word v)"
| "read_field TOptU64 v = map_option VOptU64 (opt_read as_word v)"
| "read_field TF64 v = map_option VF64 (as_f64 v)"
| "read_field TOptF64 v = map_option VOptF64 (opt_read as_f64 v)"
| "read_field TStrs v = map_option VStrs (as_strings v)"
| "read_field TVals v = map_option VVals (as_array v)"

fun default_field :: "ftype \<Rightarrow> fval option" where
  "default_field TOptStr = Some (VOptStr None)" | "default_field TFlag = Some (VBool False)"
| "default_field TOptBool = Some (VOptBool None)" | "default_field TOptU16 = Some (VOptU16 None)"
| "default_field TOptU32 = Some (VOptU32 None)" | "default_field TOptU64 = Some (VOptU64 None)"
| "default_field TOptF64 = Some (VOptF64 None)"
| "default_field ty = None"

section \<open>Steps\<close>

text \<open>The fields of a step in their order.\<close>

primrec step_fields :: "browser_step \<Rightarrow> (string \<times> fval) list" where
  "step_fields (Navigate url expected_status timeout_ms optional) =
     [(''url'', VStr url), (''expected_status'', VOptU16 expected_status), (''timeout_ms'', VOptU64 timeout_ms),
       (''optional'', VBool optional)]"
| "step_fields (NavigateBack timeout_ms optional) =
     [(''timeout_ms'', VOptU64 timeout_ms), (''optional'', VBool optional)]"
| "step_fields (NavigateForward timeout_ms optional) =
     [(''timeout_ms'', VOptU64 timeout_ms), (''optional'', VBool optional)]"
| "step_fields (Reload timeout_ms optional) =
     [(''timeout_ms'', VOptU64 timeout_ms), (''optional'', VBool optional)]"
| "step_fields (Snapshot timeout_ms optional) =
     [(''timeout_ms'', VOptU64 timeout_ms), (''optional'', VBool optional)]"
| "step_fields (Screenshot path1 type1 full_page ref1 timeout_ms optional) =
     [(''path'', VOptStr path1), (''type'', VOptStr type1), (''full_page'', VBool full_page),
       (''ref'', VOptStr ref1), (''timeout_ms'', VOptU64 timeout_ms), (''optional'', VBool optional)]"
| "step_fields (ConsoleMessages level timeout_ms optional) =
     [(''level'', VOptStr level), (''timeout_ms'', VOptU64 timeout_ms), (''optional'', VBool optional)]"
| "step_fields (ConsoleClear optional) =
     [(''optional'', VBool optional)]"
| "step_fields (NetworkRequests include_static optional) =
     [(''include_static'', VBool include_static), (''optional'', VBool optional)]"
| "step_fields (NetworkClear optional) =
     [(''optional'', VBool optional)]"
| "step_fields (Click ref1 selector1 double_click timeout_ms optional) =
     [(''ref'', VOptStr ref1), (''selector'', VOptStr selector1), (''double_click'', VBool double_click),
       (''timeout_ms'', VOptU64 timeout_ms), (''optional'', VBool optional)]"
| "step_fields (Hover ref1 selector1 timeout_ms optional) =
     [(''ref'', VOptStr ref1), (''selector'', VOptStr selector1), (''timeout_ms'', VOptU64 timeout_ms),
       (''optional'', VBool optional)]"
| "step_fields (Drag start_ref start_selector end_ref end_selector timeout_ms optional) =
     [(''start_ref'', VOptStr start_ref), (''start_selector'', VOptStr start_selector),
       (''end_ref'', VOptStr end_ref), (''end_selector'', VOptStr end_selector),
       (''timeout_ms'', VOptU64 timeout_ms), (''optional'', VBool optional)]"
| "step_fields (Fill ref1 selector1 text1 submit timeout_ms optional) =
     [(''ref'', VOptStr ref1), (''selector'', VOptStr selector1), (''text'', VStr text1),
       (''submit'', VOptBool submit), (''timeout_ms'', VOptU64 timeout_ms), (''optional'', VBool optional)]"
| "step_fields (FillForm fields1 timeout_ms optional) =
     [(''fields'', VVals fields1), (''timeout_ms'', VOptU64 timeout_ms), (''optional'', VBool optional)]"
| "step_fields (SelectOption ref1 selector1 values1 timeout_ms optional) =
     [(''ref'', VOptStr ref1), (''selector'', VOptStr selector1), (''values'', VStrs values1),
       (''timeout_ms'', VOptU64 timeout_ms), (''optional'', VBool optional)]"
| "step_fields (PressKey key1 timeout_ms optional) =
     [(''key'', VStr key1), (''timeout_ms'', VOptU64 timeout_ms), (''optional'', VBool optional)]"
| "step_fields (Check ref1 selector1 timeout_ms optional) =
     [(''ref'', VOptStr ref1), (''selector'', VOptStr selector1), (''timeout_ms'', VOptU64 timeout_ms),
       (''optional'', VBool optional)]"
| "step_fields (Uncheck ref1 selector1 timeout_ms optional) =
     [(''ref'', VOptStr ref1), (''selector'', VOptStr selector1), (''timeout_ms'', VOptU64 timeout_ms),
       (''optional'', VBool optional)]"
| "step_fields (MouseMove x y optional) =
     [(''x'', VF64 x), (''y'', VF64 y), (''optional'', VBool optional)]"
| "step_fields (MouseClick x y button optional) =
     [(''x'', VF64 x), (''y'', VF64 y), (''button'', VOptStr button), (''optional'', VBool optional)]"
| "step_fields (MouseDrag start_x start_y end_x end_y optional) =
     [(''start_x'', VF64 start_x), (''start_y'', VF64 start_y), (''end_x'', VF64 end_x), (''end_y'', VF64 end_y),
       (''optional'', VBool optional)]"
| "step_fields (MouseDown button optional) =
     [(''button'', VOptStr button), (''optional'', VBool optional)]"
| "step_fields (MouseUp button optional) =
     [(''button'', VOptStr button), (''optional'', VBool optional)]"
| "step_fields (MouseWheel delta_x delta_y optional) =
     [(''delta_x'', VF64 delta_x), (''delta_y'', VF64 delta_y), (''optional'', VBool optional)]"
| "step_fields (WaitFor time1 text1 text_gone timeout_ms optional) =
     [(''time'', VOptF64 time1), (''text'', VOptStr text1), (''text_gone'', VOptStr text_gone),
       (''timeout_ms'', VOptU64 timeout_ms), (''optional'', VBool optional)]"
| "step_fields (VerifyElementVisible role accessible_name optional) =
     [(''role'', VOptStr role), (''accessible_name'', VOptStr accessible_name), (''optional'', VBool optional)]"
| "step_fields (VerifyTextVisible text1 optional) =
     [(''text'', VStr text1), (''optional'', VBool optional)]"
| "step_fields (VerifyListVisible ref1 items1 optional) =
     [(''ref'', VOptStr ref1), (''items'', VStrs items1), (''optional'', VBool optional)]"
| "step_fields (VerifyValue ref1 value1 optional) =
     [(''ref'', VOptStr ref1), (''value'', VStr value1), (''optional'', VBool optional)]"
| "step_fields (Evaluate function1 ref1 timeout_ms optional) =
     [(''function'', VStr function1), (''ref'', VOptStr ref1), (''timeout_ms'', VOptU64 timeout_ms),
       (''optional'', VBool optional)]"
| "step_fields (RunCode code timeout_ms optional) =
     [(''code'', VStr code), (''timeout_ms'', VOptU64 timeout_ms), (''optional'', VBool optional)]"
| "step_fields (Tabs operation index1 optional) =
     [(''operation'', VStr operation), (''index'', VOptU64 index1), (''optional'', VBool optional)]"
| "step_fields (Resize width height optional) =
     [(''width'', VU32 width), (''height'', VU32 height), (''optional'', VBool optional)]"
| "step_fields (Close_Tab optional) =
     [(''optional'', VBool optional)]"
| "step_fields (Route pattern status body content_type optional) =
     [(''pattern'', VStr pattern), (''status'', VOptU16 status), (''body'', VOptStr body),
       (''content_type'', VOptStr content_type), (''optional'', VBool optional)]"
| "step_fields (RouteList optional) =
     [(''optional'', VBool optional)]"
| "step_fields (Unroute pattern optional) =
     [(''pattern'', VStr pattern), (''optional'', VBool optional)]"
| "step_fields (CookieList domain optional) =
     [(''domain'', VOptStr domain), (''optional'', VBool optional)]"
| "step_fields (CookieGet name1 optional) =
     [(''name'', VStr name1), (''optional'', VBool optional)]"
| "step_fields (CookieSet name1 value1 domain path1 expires http_only secure optional) =
     [(''name'', VStr name1), (''value'', VStr value1), (''domain'', VOptStr domain), (''path'', VOptStr path1),
       (''expires'', VOptF64 expires), (''http_only'', VBool http_only), (''secure'', VBool secure),
       (''optional'', VBool optional)]"
| "step_fields (CookieDelete name1 optional) =
     [(''name'', VStr name1), (''optional'', VBool optional)]"
| "step_fields (CookieClear optional) =
     [(''optional'', VBool optional)]"
| "step_fields (LocalStorageGet key1 optional) =
     [(''key'', VStr key1), (''optional'', VBool optional)]"
| "step_fields (LocalStorageSet key1 value1 optional) =
     [(''key'', VStr key1), (''value'', VStr value1), (''optional'', VBool optional)]"
| "step_fields (LocalStorageDelete key1 optional) =
     [(''key'', VStr key1), (''optional'', VBool optional)]"
| "step_fields (LocalStorageClear optional) =
     [(''optional'', VBool optional)]"
| "step_fields (SessionStorageGet key1 optional) =
     [(''key'', VStr key1), (''optional'', VBool optional)]"
| "step_fields (SessionStorageSet key1 value1 optional) =
     [(''key'', VStr key1), (''value'', VStr value1), (''optional'', VBool optional)]"
| "step_fields (SessionStorageDelete key1 optional) =
     [(''key'', VStr key1), (''optional'', VBool optional)]"
| "step_fields (SessionStorageClear optional) =
     [(''optional'', VBool optional)]"
| "step_fields (StorageState path1 optional) =
     [(''path'', VOptStr path1), (''optional'', VBool optional)]"
| "step_fields (SetStorageState path1 optional) =
     [(''path'', VStr path1), (''optional'', VBool optional)]"
| "step_fields (FileUpload paths timeout_ms optional) =
     [(''paths'', VStrs paths), (''timeout_ms'', VOptU64 timeout_ms), (''optional'', VBool optional)]"
| "step_fields (HandleDialog accept prompt_text optional) =
     [(''accept'', VBool accept), (''prompt_text'', VOptStr prompt_text), (''optional'', VBool optional)]"
| "step_fields (Download save_to timeout_ms optional) =
     [(''save_to'', VStr save_to), (''timeout_ms'', VOptU64 timeout_ms), (''optional'', VBool optional)]"
| "step_fields (PdfSave path1 optional) =
     [(''path'', VOptStr path1), (''optional'', VBool optional)]"
| "step_fields (StartVideo width height optional) =
     [(''width'', VOptU32 width), (''height'', VOptU32 height), (''optional'', VBool optional)]"
| "step_fields (StopVideo path1 optional) =
     [(''path'', VOptStr path1), (''optional'', VBool optional)]"
| "step_fields (StartTracing optional) =
     [(''optional'', VBool optional)]"
| "step_fields (StopTracing path1 optional) =
     [(''path'', VOptStr path1), (''optional'', VBool optional)]"
| "step_fields (GenerateLocator ref1 optional) =
     [(''ref'', VStr ref1), (''optional'', VBool optional)]"

text \<open>The variants by their tag: the types of the fields, and the step that fields of these types make.\<close>

type_synonym step_table = "(string \<times> (string \<times> ftype) list \<times> (fval list \<Rightarrow> browser_step)) list"

definition navigation_variants :: step_table where
  "navigation_variants =
     [(''navigate'', [(''url'', TStr), (''expected_status'', TOptU16), (''timeout_ms'', TOptU64),
       (''optional'', TFlag)],
        \<lambda>v. Navigate (the_str (v ! 0)) (the_opt_u16 (v ! 1)) (the_opt_u64 (v ! 2)) (the_bool (v ! 3))),
      (''navigate_back'', [(''timeout_ms'', TOptU64), (''optional'', TFlag)],
        \<lambda>v. NavigateBack (the_opt_u64 (v ! 0)) (the_bool (v ! 1))),
      (''navigate_forward'', [(''timeout_ms'', TOptU64), (''optional'', TFlag)],
        \<lambda>v. NavigateForward (the_opt_u64 (v ! 0)) (the_bool (v ! 1))),
      (''reload'', [(''timeout_ms'', TOptU64), (''optional'', TFlag)],
        \<lambda>v. Reload (the_opt_u64 (v ! 0)) (the_bool (v ! 1)))]"

definition observation_variants :: step_table where
  "observation_variants =
     [(''snapshot'', [(''timeout_ms'', TOptU64), (''optional'', TFlag)],
        \<lambda>v. Snapshot (the_opt_u64 (v ! 0)) (the_bool (v ! 1))),
      (''screenshot'', [(''path'', TOptStr), (''type'', TOptStr), (''full_page'', TFlag), (''ref'', TOptStr),
       (''timeout_ms'', TOptU64), (''optional'', TFlag)],
        \<lambda>v. Screenshot (the_opt_str (v ! 0)) (the_opt_str (v ! 1)) (the_bool (v ! 2)) (the_opt_str (v ! 3)) (the_opt_u64 (v ! 4)) (the_bool (v ! 5))),
      (''console_messages'', [(''level'', TOptStr), (''timeout_ms'', TOptU64), (''optional'', TFlag)],
        \<lambda>v. ConsoleMessages (the_opt_str (v ! 0)) (the_opt_u64 (v ! 1)) (the_bool (v ! 2))),
      (''console_clear'', [(''optional'', TFlag)],
        \<lambda>v. ConsoleClear (the_bool (v ! 0))),
      (''network_requests'', [(''include_static'', TFlag), (''optional'', TFlag)],
        \<lambda>v. NetworkRequests (the_bool (v ! 0)) (the_bool (v ! 1))),
      (''network_clear'', [(''optional'', TFlag)],
        \<lambda>v. NetworkClear (the_bool (v ! 0)))]"

definition interaction_variants :: step_table where
  "interaction_variants =
     [(''click'', [(''ref'', TOptStr), (''selector'', TOptStr), (''double_click'', TFlag),
       (''timeout_ms'', TOptU64), (''optional'', TFlag)],
        \<lambda>v. Click (the_opt_str (v ! 0)) (the_opt_str (v ! 1)) (the_bool (v ! 2)) (the_opt_u64 (v ! 3)) (the_bool (v ! 4))),
      (''hover'', [(''ref'', TOptStr), (''selector'', TOptStr), (''timeout_ms'', TOptU64), (''optional'', TFlag)],
        \<lambda>v. Hover (the_opt_str (v ! 0)) (the_opt_str (v ! 1)) (the_opt_u64 (v ! 2)) (the_bool (v ! 3))),
      (''drag'', [(''start_ref'', TOptStr), (''start_selector'', TOptStr), (''end_ref'', TOptStr),
       (''end_selector'', TOptStr), (''timeout_ms'', TOptU64), (''optional'', TFlag)],
        \<lambda>v. Drag (the_opt_str (v ! 0)) (the_opt_str (v ! 1)) (the_opt_str (v ! 2)) (the_opt_str (v ! 3)) (the_opt_u64 (v ! 4)) (the_bool (v ! 5))),
      (''fill'', [(''ref'', TOptStr), (''selector'', TOptStr), (''text'', TStr), (''submit'', TOptBool),
       (''timeout_ms'', TOptU64), (''optional'', TFlag)],
        \<lambda>v. Fill (the_opt_str (v ! 0)) (the_opt_str (v ! 1)) (the_str (v ! 2)) (the_opt_bool (v ! 3)) (the_opt_u64 (v ! 4)) (the_bool (v ! 5))),
      (''fill_form'', [(''fields'', TVals), (''timeout_ms'', TOptU64), (''optional'', TFlag)],
        \<lambda>v. FillForm (the_vals (v ! 0)) (the_opt_u64 (v ! 1)) (the_bool (v ! 2))),
      (''select_option'', [(''ref'', TOptStr), (''selector'', TOptStr), (''values'', TStrs),
       (''timeout_ms'', TOptU64), (''optional'', TFlag)],
        \<lambda>v. SelectOption (the_opt_str (v ! 0)) (the_opt_str (v ! 1)) (the_strs (v ! 2)) (the_opt_u64 (v ! 3)) (the_bool (v ! 4))),
      (''press_key'', [(''key'', TStr), (''timeout_ms'', TOptU64), (''optional'', TFlag)],
        \<lambda>v. PressKey (the_str (v ! 0)) (the_opt_u64 (v ! 1)) (the_bool (v ! 2))),
      (''check'', [(''ref'', TOptStr), (''selector'', TOptStr), (''timeout_ms'', TOptU64), (''optional'', TFlag)],
        \<lambda>v. Check (the_opt_str (v ! 0)) (the_opt_str (v ! 1)) (the_opt_u64 (v ! 2)) (the_bool (v ! 3))),
      (''uncheck'', [(''ref'', TOptStr), (''selector'', TOptStr), (''timeout_ms'', TOptU64), (''optional'', TFlag)],
        \<lambda>v. Uncheck (the_opt_str (v ! 0)) (the_opt_str (v ! 1)) (the_opt_u64 (v ! 2)) (the_bool (v ! 3)))]"

definition mouse_variants :: step_table where
  "mouse_variants =
     [(''mouse_move'', [(''x'', TF64), (''y'', TF64), (''optional'', TFlag)],
        \<lambda>v. MouseMove (the_f64 (v ! 0)) (the_f64 (v ! 1)) (the_bool (v ! 2))),
      (''mouse_click'', [(''x'', TF64), (''y'', TF64), (''button'', TOptStr), (''optional'', TFlag)],
        \<lambda>v. MouseClick (the_f64 (v ! 0)) (the_f64 (v ! 1)) (the_opt_str (v ! 2)) (the_bool (v ! 3))),
      (''mouse_drag'', [(''start_x'', TF64), (''start_y'', TF64), (''end_x'', TF64), (''end_y'', TF64),
       (''optional'', TFlag)],
        \<lambda>v. MouseDrag (the_f64 (v ! 0)) (the_f64 (v ! 1)) (the_f64 (v ! 2)) (the_f64 (v ! 3)) (the_bool (v ! 4))),
      (''mouse_down'', [(''button'', TOptStr), (''optional'', TFlag)],
        \<lambda>v. MouseDown (the_opt_str (v ! 0)) (the_bool (v ! 1))),
      (''mouse_up'', [(''button'', TOptStr), (''optional'', TFlag)],
        \<lambda>v. MouseUp (the_opt_str (v ! 0)) (the_bool (v ! 1))),
      (''mouse_wheel'', [(''delta_x'', TF64), (''delta_y'', TF64), (''optional'', TFlag)],
        \<lambda>v. MouseWheel (the_f64 (v ! 0)) (the_f64 (v ! 1)) (the_bool (v ! 2)))]"

definition assertion_variants :: step_table where
  "assertion_variants =
     [(''wait_for'', [(''time'', TOptF64), (''text'', TOptStr), (''text_gone'', TOptStr),
       (''timeout_ms'', TOptU64), (''optional'', TFlag)],
        \<lambda>v. WaitFor (the_opt_f64 (v ! 0)) (the_opt_str (v ! 1)) (the_opt_str (v ! 2)) (the_opt_u64 (v ! 3)) (the_bool (v ! 4))),
      (''verify_element_visible'', [(''role'', TOptStr), (''accessible_name'', TOptStr), (''optional'', TFlag)],
        \<lambda>v. VerifyElementVisible (the_opt_str (v ! 0)) (the_opt_str (v ! 1)) (the_bool (v ! 2))),
      (''verify_text_visible'', [(''text'', TStr), (''optional'', TFlag)],
        \<lambda>v. VerifyTextVisible (the_str (v ! 0)) (the_bool (v ! 1))),
      (''verify_list_visible'', [(''ref'', TOptStr), (''items'', TStrs), (''optional'', TFlag)],
        \<lambda>v. VerifyListVisible (the_opt_str (v ! 0)) (the_strs (v ! 1)) (the_bool (v ! 2))),
      (''verify_value'', [(''ref'', TOptStr), (''value'', TStr), (''optional'', TFlag)],
        \<lambda>v. VerifyValue (the_opt_str (v ! 0)) (the_str (v ! 1)) (the_bool (v ! 2)))]"

definition script_variants :: step_table where
  "script_variants =
     [(''evaluate'', [(''function'', TStr), (''ref'', TOptStr), (''timeout_ms'', TOptU64), (''optional'', TFlag)],
        \<lambda>v. Evaluate (the_str (v ! 0)) (the_opt_str (v ! 1)) (the_opt_u64 (v ! 2)) (the_bool (v ! 3))),
      (''run_code'', [(''code'', TStr), (''timeout_ms'', TOptU64), (''optional'', TFlag)],
        \<lambda>v. RunCode (the_str (v ! 0)) (the_opt_u64 (v ! 1)) (the_bool (v ! 2)))]"

definition tab_variants :: step_table where
  "tab_variants =
     [(''tabs'', [(''operation'', TStr), (''index'', TOptU64), (''optional'', TFlag)],
        \<lambda>v. Tabs (the_str (v ! 0)) (the_opt_u64 (v ! 1)) (the_bool (v ! 2))),
      (''resize'', [(''width'', TU32), (''height'', TU32), (''optional'', TFlag)],
        \<lambda>v. Resize (the_u32 (v ! 0)) (the_u32 (v ! 1)) (the_bool (v ! 2))),
      (''close'', [(''optional'', TFlag)],
        \<lambda>v. Close_Tab (the_bool (v ! 0)))]"

definition route_variants :: step_table where
  "route_variants =
     [(''route'', [(''pattern'', TStr), (''status'', TOptU16), (''body'', TOptStr), (''content_type'', TOptStr),
       (''optional'', TFlag)],
        \<lambda>v. Route (the_str (v ! 0)) (the_opt_u16 (v ! 1)) (the_opt_str (v ! 2)) (the_opt_str (v ! 3)) (the_bool (v ! 4))),
      (''route_list'', [(''optional'', TFlag)],
        \<lambda>v. RouteList (the_bool (v ! 0))),
      (''unroute'', [(''pattern'', TStr), (''optional'', TFlag)],
        \<lambda>v. Unroute (the_str (v ! 0)) (the_bool (v ! 1)))]"

definition cookie_variants :: step_table where
  "cookie_variants =
     [(''cookie_list'', [(''domain'', TOptStr), (''optional'', TFlag)],
        \<lambda>v. CookieList (the_opt_str (v ! 0)) (the_bool (v ! 1))),
      (''cookie_get'', [(''name'', TStr), (''optional'', TFlag)],
        \<lambda>v. CookieGet (the_str (v ! 0)) (the_bool (v ! 1))),
      (''cookie_set'', [(''name'', TStr), (''value'', TStr), (''domain'', TOptStr), (''path'', TOptStr),
       (''expires'', TOptF64), (''http_only'', TFlag), (''secure'', TFlag), (''optional'', TFlag)],
        \<lambda>v. CookieSet (the_str (v ! 0)) (the_str (v ! 1)) (the_opt_str (v ! 2)) (the_opt_str (v ! 3)) (the_opt_f64 (v ! 4)) (the_bool (v ! 5)) (the_bool (v ! 6)) (the_bool (v ! 7))),
      (''cookie_delete'', [(''name'', TStr), (''optional'', TFlag)],
        \<lambda>v. CookieDelete (the_str (v ! 0)) (the_bool (v ! 1))),
      (''cookie_clear'', [(''optional'', TFlag)],
        \<lambda>v. CookieClear (the_bool (v ! 0)))]"

definition storage_variants :: step_table where
  "storage_variants =
     [(''local_storage_get'', [(''key'', TStr), (''optional'', TFlag)],
        \<lambda>v. LocalStorageGet (the_str (v ! 0)) (the_bool (v ! 1))),
      (''local_storage_set'', [(''key'', TStr), (''value'', TStr), (''optional'', TFlag)],
        \<lambda>v. LocalStorageSet (the_str (v ! 0)) (the_str (v ! 1)) (the_bool (v ! 2))),
      (''local_storage_delete'', [(''key'', TStr), (''optional'', TFlag)],
        \<lambda>v. LocalStorageDelete (the_str (v ! 0)) (the_bool (v ! 1))),
      (''local_storage_clear'', [(''optional'', TFlag)],
        \<lambda>v. LocalStorageClear (the_bool (v ! 0))),
      (''session_storage_get'', [(''key'', TStr), (''optional'', TFlag)],
        \<lambda>v. SessionStorageGet (the_str (v ! 0)) (the_bool (v ! 1))),
      (''session_storage_set'', [(''key'', TStr), (''value'', TStr), (''optional'', TFlag)],
        \<lambda>v. SessionStorageSet (the_str (v ! 0)) (the_str (v ! 1)) (the_bool (v ! 2))),
      (''session_storage_delete'', [(''key'', TStr), (''optional'', TFlag)],
        \<lambda>v. SessionStorageDelete (the_str (v ! 0)) (the_bool (v ! 1))),
      (''session_storage_clear'', [(''optional'', TFlag)],
        \<lambda>v. SessionStorageClear (the_bool (v ! 0))),
      (''storage_state'', [(''path'', TOptStr), (''optional'', TFlag)],
        \<lambda>v. StorageState (the_opt_str (v ! 0)) (the_bool (v ! 1))),
      (''set_storage_state'', [(''path'', TStr), (''optional'', TFlag)],
        \<lambda>v. SetStorageState (the_str (v ! 0)) (the_bool (v ! 1)))]"

definition dialog_variants :: step_table where
  "dialog_variants =
     [(''file_upload'', [(''paths'', TStrs), (''timeout_ms'', TOptU64), (''optional'', TFlag)],
        \<lambda>v. FileUpload (the_strs (v ! 0)) (the_opt_u64 (v ! 1)) (the_bool (v ! 2))),
      (''handle_dialog'', [(''accept'', TBool), (''prompt_text'', TOptStr), (''optional'', TFlag)],
        \<lambda>v. HandleDialog (the_bool (v ! 0)) (the_opt_str (v ! 1)) (the_bool (v ! 2))),
      (''download'', [(''save_to'', TStr), (''timeout_ms'', TOptU64), (''optional'', TFlag)],
        \<lambda>v. Download (the_str (v ! 0)) (the_opt_u64 (v ! 1)) (the_bool (v ! 2)))]"

definition recording_variants :: step_table where
  "recording_variants =
     [(''pdf_save'', [(''path'', TOptStr), (''optional'', TFlag)],
        \<lambda>v. PdfSave (the_opt_str (v ! 0)) (the_bool (v ! 1))),
      (''start_video'', [(''width'', TOptU32), (''height'', TOptU32), (''optional'', TFlag)],
        \<lambda>v. StartVideo (the_opt_u32 (v ! 0)) (the_opt_u32 (v ! 1)) (the_bool (v ! 2))),
      (''stop_video'', [(''path'', TOptStr), (''optional'', TFlag)],
        \<lambda>v. StopVideo (the_opt_str (v ! 0)) (the_bool (v ! 1))),
      (''start_tracing'', [(''optional'', TFlag)],
        \<lambda>v. StartTracing (the_bool (v ! 0))),
      (''stop_tracing'', [(''path'', TOptStr), (''optional'', TFlag)],
        \<lambda>v. StopTracing (the_opt_str (v ! 0)) (the_bool (v ! 1))),
      (''generate_locator'', [(''ref'', TStr), (''optional'', TFlag)],
        \<lambda>v. GenerateLocator (the_str (v ! 0)) (the_bool (v ! 1)))]"

definition step_variants :: step_table where
  "step_variants =
     navigation_variants @ observation_variants @ interaction_variants @ mouse_variants @ assertion_variants
      @ script_variants @ tab_variants @ route_variants @ cookie_variants @ storage_variants @ dialog_variants
      @ recording_variants"

section \<open>Writing and reading\<close>

definition step_to_value :: "browser_step \<Rightarrow> json" where
  "step_to_value s = jobj ((''action'', JString (action_name s)) # map (\<lambda>(k, x). (k, fval_json x)) (step_fields s))"

text \<open>
  The messages of serde. A value that is no object is read by position, which nothing here produces; what serde makes of
  it is a parameter too.
\<close>

record step_errors =
  se_missing :: "string \<Rightarrow> string"
  se_unknown_field :: "string \<Rightarrow> string"
  se_unknown_variant :: "string \<Rightarrow> string"
  se_type :: "string \<Rightarrow> json \<Rightarrow> string"
  se_positional :: "json \<Rightarrow> string + browser_step"

text \<open>The entries in the order of the map, up to the first that is unknown or of another type.\<close>

fun read_entries ::
    "step_errors \<Rightarrow> (string \<times> ftype) list \<Rightarrow> (string \<times> json) list \<Rightarrow> string + (string \<times> fval) list" where
  "read_entries se types [] = Inr []"
| "read_entries se types ((k, v) # m) =
     (case map_of types k of
        None \<Rightarrow> Inl (se_unknown_field se k)
      | Some ty \<Rightarrow>
          (case read_field ty v of
             None \<Rightarrow> Inl (se_type se k v)
           | Some x \<Rightarrow> and_then (read_entries se types m) (\<lambda>found. Inr ((k, x) # found))))"

text \<open>Then the fields in the order of the type, with the defaults.\<close>

fun take_fields ::
    "step_errors \<Rightarrow> (string \<times> ftype) list \<Rightarrow> (string \<times> fval) list \<Rightarrow> string + fval list" where
  "take_fields se [] found = Inr []"
| "take_fields se ((n, ty) # types) found =
     and_then (case map_of found n of
         Some x \<Rightarrow> Inr x
       | None \<Rightarrow> ok_or (se_missing se n) (default_field ty)) (\<lambda>x.
     and_then (take_fields se types found) (\<lambda>xs. Inr (x # xs)))"

definition read_variant ::
    "step_errors \<Rightarrow> (string \<times> ftype) list \<Rightarrow> (fval list \<Rightarrow> browser_step) \<Rightarrow> json_map \<Rightarrow> string + browser_step" where
  "read_variant se types build m =
     and_then (read_entries se types (filter (\<lambda>(k, v). k \<noteq> ''action'') m)) (\<lambda>found.
     and_then (take_fields se types found) (\<lambda>xs.
     Inr (build xs)))"

definition step_from_value :: "step_errors \<Rightarrow> json \<Rightarrow> string + browser_step" where
  "step_from_value se v =
     (case v of
        JObject m \<Rightarrow>
          (case bt_get m ''action'' of
             None \<Rightarrow> Inl (se_missing se ''action'')
           | Some (JString tag) \<Rightarrow>
               (case map_of step_variants tag of
                  None \<Rightarrow> Inl (se_unknown_variant se tag)
                | Some (types, build) \<Rightarrow> read_variant se types build m)
           | Some t \<Rightarrow> Inl (se_type se ''action'' t))
      | _ \<Rightarrow> se_positional se v)"

section \<open>A field is read as it was written\<close>

fun fval_finite :: "fval \<Rightarrow> bool" where
  "fval_finite (VF64 f) = f64_finite f"
| "fval_finite (VOptF64 x) = (case x of None \<Rightarrow> True | Some f \<Rightarrow> f64_finite f)"
| "fval_finite v = True"

definition finite_step :: "browser_step \<Rightarrow> bool" where
  "finite_step s \<longleftrightarrow> list_all (\<lambda>(k, x). fval_finite x) (step_fields s)"

lemma opt_read_json:
  "(\<And>y. x = Some y \<Longrightarrow> f (g y) = Some y) \<Longrightarrow> (\<And>y. x = Some y \<Longrightarrow> g y \<noteq> JNull) \<Longrightarrow> opt_read f (opt_json g x) = Some x"
  by (cases x) (auto simp: opt_read_def opt_json_def split: json.splits)

lemma as_word_json: "LENGTH('a) \<le> 64 \<Longrightarrow> as_word (word_json (w :: 'a::len word)) = Some w"
proof -
  assume le: "LENGTH('a) \<le> 64"
  have "unat w < 2 ^ LENGTH('a)" by (rule unsigned_less)
  moreover from this le have "unat w < 2 ^ 64" by (meson order_less_le_trans one_le_numeral power_increasing)
  ultimately have "unat (ucast w :: u64) = unat w" by (simp add: unsigned_ucast_eq take_bit_nat_eq_self)
  moreover have "ucast (ucast w :: u64) = w" by (rule ucast_up_ucast_id) (simp add: is_up le)
  ultimately show ?thesis using \<open>unat w < 2 ^ LENGTH('a)\<close> by (simp add: as_word_def word_json_def)
qed

lemma as_word_json_simps [simp]:
  "as_word (word_json (w :: u16)) = Some w" "as_word (word_json (w' :: u32)) = Some w'" "as_word (word_json (w'' :: u64)) = Some w''"
  by (simp_all add: as_word_json)

lemma json_f64_reads [simp]: "f64_finite f \<Longrightarrow> as_f64 (json_f64 f) = Some f" "f64_finite f \<Longrightarrow> json_f64 f \<noteq> JNull"
  by (simp_all add: json_f64_def Std.number_from_f64_def)

lemma read_strings_map [simp]: "read_strings (map JString xs) = Some xs"
  by (induction xs) simp_all

lemma read_fval: "fits ty x \<Longrightarrow> fval_finite x \<Longrightarrow> read_field ty (fval_json x) = Some x"
  by (cases ty; cases x) (auto simp: opt_read_json word_json_def [symmetric] as_strings_def intro!: opt_read_json
      split: option.splits, simp_all add: word_json_def)

section \<open>Rendering a field\<close>

text \<open>What rendering can make of a field: another of its type, and the same if there is no string in it.\<close>

definition rendered_field :: "fval \<Rightarrow> fval \<Rightarrow> bool" where
  "rendered_field x y \<longleftrightarrow>
     (\<forall>ty. fits ty x \<longrightarrow> fits ty y) \<and> (fval_finite x \<longrightarrow> fval_finite y) \<and> (is_VBool x \<or> is_VOptU64 x \<longrightarrow> y = x)"

lemma fits_strings [simp]:
  "fits ty (VStr s) \<longleftrightarrow> ty = TStr" "fits ty (VOptStr o') \<longleftrightarrow> ty = TOptStr" "fits ty (VStrs ss) \<longleftrightarrow> ty = TStrs"
  "fits ty (VVals vs) \<longleftrightarrow> ty = TVals"
  by (cases ty; simp)+

lemma render_strings_map:
  "render_strings_in_list r ctx (map JString xs) = Inr ws \<Longrightarrow> \<exists>ys. ws = map JString ys"
proof (induction xs arbitrary: ws)
  case (Cons x xs)
  then obtain t ws' where "ws = JString t # ws'" "render_strings_in_list r ctx (map JString xs) = Inr ws'"
    by (auto simp: result_simps)
  with Cons.IH show ?case by (metis list.simps(9))
qed simp

lemma render_plain [simp]:
  "render_strings_in_value r ctx (word_json w) = Inr (word_json w)"
  "render_strings_in_value r ctx (json_f64 f) = Inr (json_f64 f)"
  by (simp_all add: word_json_def json_f64_def split: option.splits)

lemma render_opt:
  "render_strings_in_value r ctx (opt_json f x) = Inr w \<Longrightarrow> (\<And>y. render_strings_in_value r ctx (f y) = Inr (f y)) \<Longrightarrow> w = opt_json f x"
  by (cases x) (auto simp: opt_json_def)

lemma render_fval:
  assumes "render_strings_in_value r ctx (fval_json x) = Inr w"
  shows "\<exists>y. w = fval_json y \<and> rendered_field x y"
proof (cases x)
  case (VStr s)
  with assms obtain t where "w = JString t" by (auto simp: result_simps)
  with VStr show ?thesis by (intro exI [of _ "VStr t"]) (simp add: rendered_field_def)
next
  case (VOptStr s)
  with assms obtain t where "w = opt_json JString t"
    by (cases s) (auto simp: result_simps opt_json_def intro: that [of None] that [of "Some _"])
  with VOptStr show ?thesis by (intro exI [of _ "VOptStr t"]) (simp add: rendered_field_def)
next
  case (VStrs xs)
  with assms obtain ys where "w = JArray (map JString ys)"
    by (auto simp: result_simps dest: render_strings_map)
  with VStrs show ?thesis by (intro exI [of _ "VStrs ys"]) (simp add: rendered_field_def)
next
  case (VVals vs)
  with assms obtain ys where "w = JArray ys" by (auto simp: result_simps)
  with VVals show ?thesis by (intro exI [of _ "VVals ys"]) (simp add: rendered_field_def)
qed (use assms in \<open>auto simp: rendered_field_def intro!: exI [of _ x] dest!: render_opt\<close>)

lemma render_lookup:
  "render_strings_in_fields r ctx m = Inr n \<Longrightarrow> k \<noteq> ''action'' \<Longrightarrow> bt_get m k = Some v \<Longrightarrow>
     \<exists>w. render_strings_in_value r ctx v = Inr w \<and> bt_get n k = Some w"
  by (induction m arbitrary: n) (auto simp: result_simps split: if_splits)

section \<open>A variant is read from its fields\<close>

lemma read_entries_Inr:
  assumes "\<And>k v. (k, v) \<in> set es \<Longrightarrow> \<exists>ty x. map_of types k = Some ty \<and> read_field ty v = Some x"
  shows "\<exists>found. read_entries se types es = Inr found
    \<and> (\<forall>k v ty x. map_of es k = Some v \<longrightarrow> map_of types k = Some ty \<longrightarrow> read_field ty v = Some x \<longrightarrow> map_of found k = Some x)"
  using assms
proof (induction es)
  case (Cons e es)
  obtain k v where e: "e = (k, v)" by (cases e)
  obtain ty x where x: "map_of types k = Some ty" "read_field ty v = Some x" using Cons.prems [of k v] e by auto
  obtain found where "read_entries se types es = Inr found"
      "\<forall>k v ty x. map_of es k = Some v \<longrightarrow> map_of types k = Some ty \<longrightarrow> read_field ty v = Some x \<longrightarrow> map_of found k = Some x"
    using Cons by (meson list.set_intros(2))
  with x e show ?case by auto
qed simp

lemma take_fields_Inr:
  "list_all2 (\<lambda>(n, ty) x. map_of found n = Some x) types xs \<Longrightarrow> take_fields se types found = Inr xs"
  by (induction types xs rule: list_all2_induct) auto

lemma read_variant_Inr:
  assumes "bt_ok m" and "set (bt_keys m) \<subseteq> insert ''action'' (set (map fst types))"
    and "distinct (map fst types)" and "''action'' \<notin> set (map fst types)"
    and "list_all2 (\<lambda>(n, ty) x. bt_get m n = Some (fval_json x) \<and> fits ty x \<and> fval_finite x) types xs"
  shows "read_variant se types build m = Inr (build xs)"
proof -
  let ?es = "filter (\<lambda>(k, v). k \<noteq> ''action'') m"
  have dist: "distinct (map fst ?es)"
    using bt_ok_distinct [OF assms(1)] by (simp add: distinct_map_filter)
  have field: "\<exists>x. bt_get m n = Some (fval_json x) \<and> read_field ty (fval_json x) = Some x" if "(n, ty) \<in> set types" for n ty
    using assms(5) that read_fval by (fastforce simp: list_all2_conv_all_nth in_set_conv_nth)
  have look: "map_of ?es n = bt_get m n" if "n \<noteq> ''action''" for n
    using that by (induction m) auto
  have "\<exists>ty x. map_of types k = Some ty \<and> read_field ty v = Some x" if "(k, v) \<in> set ?es" for k v
  proof -
    from that have k: "(k, v) \<in> set m" "k \<noteq> ''action''" by auto
    then obtain ty where ty: "(k, ty) \<in> set types" using assms(2) by force
    with assms(3) have "map_of types k = Some ty" by simp
    with field [OF ty] bt_get_mem [OF assms(1) k(1)] show ?thesis by auto
  qed
  from read_entries_Inr [of ?es types se, OF this] obtain found where found: "read_entries se types ?es = Inr found"
      "\<And>k v ty x. map_of ?es k = Some v \<Longrightarrow> map_of types k = Some ty \<Longrightarrow> read_field ty v = Some x \<Longrightarrow> map_of found k = Some x"
    by blast
  have "list_all2 (\<lambda>(n, ty) x. map_of found n = Some x) types xs"
  proof (rule list_all2_all_nthI)
    show "length types = length xs" using assms(5) by (rule list_all2_lengthD)
    fix i assume i: "i < length types"
    obtain n ty where nt: "types ! i = (n, ty)" by (cases "types ! i")
    with list_all2_nthD [OF assms(5) i]
    have x: "bt_get m n = Some (fval_json (xs ! i))" "fits ty (xs ! i)" "fval_finite (xs ! i)" by auto
    have mem: "(n, ty) \<in> set types" using nt i by (metis nth_mem)
    then have "n \<noteq> ''action''" "map_of types n = Some ty" using assms(3,4) by force+
    with found(2) [of n] x read_fval [OF x(2,3)] look nt show "(case types ! i of (n, ty) \<Rightarrow> \<lambda>x. map_of found n = Some x) (xs ! i)" by simp
  qed
  from take_fields_Inr [OF this] found(1) show ?thesis by (simp add: read_variant_def)
qed

section \<open>The tables\<close>

text \<open>A builder makes, of values that fit, the step with these fields.\<close>

definition made_of :: "string \<Rightarrow> (string \<times> ftype) list \<Rightarrow> (fval list \<Rightarrow> browser_step) \<Rightarrow> bool" where
  "made_of tag types build \<longleftrightarrow>
     (\<forall>xs. list_all2 (\<lambda>(n, ty) x. fits ty x) types xs \<longrightarrow>
        action_name (build xs) = tag \<and> step_fields (build xs) = zip (map fst types) xs)"

definition variant_ok :: "string \<times> (string \<times> ftype) list \<times> (fval list \<Rightarrow> browser_step) \<Rightarrow> bool" where
  "variant_ok v \<longleftrightarrow>
     (case v of (tag, types, build) \<Rightarrow>
        distinct (map fst types) \<and> ''action'' \<notin> set (map fst types) \<and> made_of tag types build)"

lemma is_fval [simp]:
  "is_VStr x \<longleftrightarrow> (\<exists>y. x = VStr y)" "is_VOptStr x \<longleftrightarrow> (\<exists>y. x = VOptStr y)" "is_VBool x \<longleftrightarrow> (\<exists>y. x = VBool y)"
  "is_VOptBool x \<longleftrightarrow> (\<exists>y. x = VOptBool y)" "is_VOptU16 x \<longleftrightarrow> (\<exists>y. x = VOptU16 y)" "is_VU32 x \<longleftrightarrow> (\<exists>y. x = VU32 y)"
  "is_VOptU32 x \<longleftrightarrow> (\<exists>y. x = VOptU32 y)" "is_VOptU64 x \<longleftrightarrow> (\<exists>y. x = VOptU64 y)" "is_VF64 x \<longleftrightarrow> (\<exists>y. x = VF64 y)"
  "is_VOptF64 x \<longleftrightarrow> (\<exists>y. x = VOptF64 y)" "is_VStrs x \<longleftrightarrow> (\<exists>y. x = VStrs y)" "is_VVals x \<longleftrightarrow> (\<exists>y. x = VVals y)"
  by (cases x; simp)+

lemma navigation_ok: "list_all variant_ok navigation_variants"
  unfolding navigation_variants_def by (simp add: variant_ok_def made_of_def) (auto simp: list_all2_Cons1)

lemma observation_ok: "list_all variant_ok observation_variants"
  unfolding observation_variants_def by (simp add: variant_ok_def made_of_def) (auto simp: list_all2_Cons1)

lemma interaction_ok: "list_all variant_ok interaction_variants"
  unfolding interaction_variants_def by (simp add: variant_ok_def made_of_def) (auto simp: list_all2_Cons1)

lemma mouse_ok: "list_all variant_ok mouse_variants"
  unfolding mouse_variants_def by (simp add: variant_ok_def made_of_def) (auto simp: list_all2_Cons1)

lemma assertion_ok: "list_all variant_ok assertion_variants"
  unfolding assertion_variants_def by (simp add: variant_ok_def made_of_def) (auto simp: list_all2_Cons1)

lemma script_ok: "list_all variant_ok script_variants"
  unfolding script_variants_def by (simp add: variant_ok_def made_of_def) (auto simp: list_all2_Cons1)

lemma tab_ok: "list_all variant_ok tab_variants"
  unfolding tab_variants_def by (simp add: variant_ok_def made_of_def) (auto simp: list_all2_Cons1)

lemma route_ok: "list_all variant_ok route_variants"
  unfolding route_variants_def by (simp add: variant_ok_def made_of_def) (auto simp: list_all2_Cons1)

lemma cookie_ok: "list_all variant_ok cookie_variants"
  unfolding cookie_variants_def by (simp add: variant_ok_def made_of_def) (auto simp: list_all2_Cons1)

lemma storage_ok: "list_all variant_ok storage_variants"
  unfolding storage_variants_def by (simp add: variant_ok_def made_of_def) (auto simp: list_all2_Cons1)

lemma dialog_ok: "list_all variant_ok dialog_variants"
  unfolding dialog_variants_def by (simp add: variant_ok_def made_of_def) (auto simp: list_all2_Cons1)

lemma recording_ok: "list_all variant_ok recording_variants"
  unfolding recording_variants_def by (simp add: variant_ok_def made_of_def) (auto simp: list_all2_Cons1)


lemma step_variants_ok: "list_all variant_ok step_variants"
  using navigation_ok observation_ok interaction_ok mouse_ok assertion_ok script_ok tab_ok route_ok cookie_ok storage_ok dialog_ok recording_ok
  by (simp add: step_variants_def)

text \<open>A table covers a step: it has a variant of its tag, whose builder makes the step of its fields.\<close>

definition covers :: "step_table \<Rightarrow> browser_step \<Rightarrow> bool" where
  "covers table s \<longleftrightarrow>
     (case map_of table (action_name s) of
        None \<Rightarrow> False
      | Some (types, build) \<Rightarrow>
          list_all2 (\<lambda>(n, ty) (n', x). n = n' \<and> fits ty x) types (step_fields s) \<and> build (map snd (step_fields s)) = s)"

lemma covers_concat:
  assumes "distinct (map fst (concat ts))" and "t \<in> set ts" and "covers t s"
  shows "covers (concat ts) s"
proof -
  from assms(3) obtain v where v: "map_of t (action_name s) = Some v"
    by (auto simp: covers_def split: option.splits)
  then have "(action_name s, v) \<in> set (concat ts)" using assms(2) map_of_SomeD by fastforce
  with assms(1) have "map_of (concat ts) (action_name s) = Some v" by (rule map_of_is_SomeI)
  with v assms(3) show ?thesis by (simp add: covers_def)
qed

lemma navigation_covered:
  "covers navigation_variants (Navigate a0 b0 c0 d0)"
  "covers navigation_variants (NavigateBack a1 b1)"
  "covers navigation_variants (NavigateForward a2 b2)"
  "covers navigation_variants (Reload a3 b3)"
  by (simp_all add: covers_def navigation_variants_def)

lemma observation_covered:
  "covers observation_variants (Snapshot a0 b0)"
  "covers observation_variants (Screenshot a1 b1 c1 d1 e1 f1)"
  "covers observation_variants (ConsoleMessages a2 b2 c2)"
  "covers observation_variants (ConsoleClear a3)"
  "covers observation_variants (NetworkRequests a4 b4)"
  "covers observation_variants (NetworkClear a5)"
  by (simp_all add: covers_def observation_variants_def)

lemma interaction_covered:
  "covers interaction_variants (Click a0 b0 c0 d0 e0)"
  "covers interaction_variants (Hover a1 b1 c1 d1)"
  "covers interaction_variants (Drag a2 b2 c2 d2 e2 f2)"
  "covers interaction_variants (Fill a3 b3 c3 d3 e3 f3)"
  "covers interaction_variants (FillForm a4 b4 c4)"
  "covers interaction_variants (SelectOption a5 b5 c5 d5 e5)"
  "covers interaction_variants (PressKey a6 b6 c6)"
  "covers interaction_variants (Check a7 b7 c7 d7)"
  "covers interaction_variants (Uncheck a8 b8 c8 d8)"
  by (simp_all add: covers_def interaction_variants_def)

lemma mouse_covered:
  "covers mouse_variants (MouseMove a0 b0 c0)"
  "covers mouse_variants (MouseClick a1 b1 c1 d1)"
  "covers mouse_variants (MouseDrag a2 b2 c2 d2 e2)"
  "covers mouse_variants (MouseDown a3 b3)"
  "covers mouse_variants (MouseUp a4 b4)"
  "covers mouse_variants (MouseWheel a5 b5 c5)"
  by (simp_all add: covers_def mouse_variants_def)

lemma assertion_covered:
  "covers assertion_variants (WaitFor a0 b0 c0 d0 e0)"
  "covers assertion_variants (VerifyElementVisible a1 b1 c1)"
  "covers assertion_variants (VerifyTextVisible a2 b2)"
  "covers assertion_variants (VerifyListVisible a3 b3 c3)"
  "covers assertion_variants (VerifyValue a4 b4 c4)"
  by (simp_all add: covers_def assertion_variants_def)

lemma script_covered:
  "covers script_variants (Evaluate a0 b0 c0 d0)"
  "covers script_variants (RunCode a1 b1 c1)"
  by (simp_all add: covers_def script_variants_def)

lemma tab_covered:
  "covers tab_variants (Tabs a0 b0 c0)"
  "covers tab_variants (Resize a1 b1 c1)"
  "covers tab_variants (Close_Tab a2)"
  by (simp_all add: covers_def tab_variants_def)

lemma route_covered:
  "covers route_variants (Route a0 b0 c0 d0 e0)"
  "covers route_variants (RouteList a1)"
  "covers route_variants (Unroute a2 b2)"
  by (simp_all add: covers_def route_variants_def)

lemma cookie_covered:
  "covers cookie_variants (CookieList a0 b0)"
  "covers cookie_variants (CookieGet a1 b1)"
  "covers cookie_variants (CookieSet a2 b2 c2 d2 e2 f2 g2 h2)"
  "covers cookie_variants (CookieDelete a3 b3)"
  "covers cookie_variants (CookieClear a4)"
  by (simp_all add: covers_def cookie_variants_def)

lemma storage_covered:
  "covers storage_variants (LocalStorageGet a0 b0)"
  "covers storage_variants (LocalStorageSet a1 b1 c1)"
  "covers storage_variants (LocalStorageDelete a2 b2)"
  "covers storage_variants (LocalStorageClear a3)"
  "covers storage_variants (SessionStorageGet a4 b4)"
  "covers storage_variants (SessionStorageSet a5 b5 c5)"
  "covers storage_variants (SessionStorageDelete a6 b6)"
  "covers storage_variants (SessionStorageClear a7)"
  "covers storage_variants (StorageState a8 b8)"
  "covers storage_variants (SetStorageState a9 b9)"
  by (simp_all add: covers_def storage_variants_def)

lemma dialog_covered:
  "covers dialog_variants (FileUpload a0 b0 c0)"
  "covers dialog_variants (HandleDialog a1 b1 c1)"
  "covers dialog_variants (Download a2 b2 c2)"
  by (simp_all add: covers_def dialog_variants_def)

lemma recording_covered:
  "covers recording_variants (PdfSave a0 b0)"
  "covers recording_variants (StartVideo a1 b1 c1)"
  "covers recording_variants (StopVideo a2 b2)"
  "covers recording_variants (StartTracing a3)"
  "covers recording_variants (StopTracing a4 b4)"
  "covers recording_variants (GenerateLocator a5 b5)"
  by (simp_all add: covers_def recording_variants_def)

definition step_tables :: "step_table list" where
  "step_tables = [navigation_variants, observation_variants, interaction_variants, mouse_variants, assertion_variants, script_variants, tab_variants, route_variants, cookie_variants, storage_variants, dialog_variants, recording_variants]"

lemma step_variants_tables: "step_variants = concat step_tables"
  by (simp add: step_variants_def step_tables_def)

lemma step_tags_distinct: "distinct (map fst (concat step_tables))"
  by code_simp

lemma step_covered: "covers step_variants s"
proof -
  have "\<exists>t \<in> set step_tables. covers t s"
    by (cases s) (simp_all add: step_tables_def navigation_covered observation_covered interaction_covered mouse_covered assertion_covered script_covered tab_covered route_covered cookie_covered storage_covered dialog_covered recording_covered)
  then show ?thesis
    unfolding step_variants_tables using covers_concat [OF step_tags_distinct] by blast
qed

lemma step_shape:
  "is_optional s \<longleftrightarrow> map_of (step_fields s) ''optional'' = Some (VBool True)"
  "step_timeout_ms s global =
     (case map_of (step_fields s) ''timeout_ms'' of Some (VOptU64 (Some t)) \<Rightarrow> t | _ \<Rightarrow> global)"
  by (cases s; simp add: unwrap_or_def split: option.splits)+

section \<open>A step through its JSON\<close>

lemma step_fields_ok: "distinct (map fst (step_fields s)) \<and> ''action'' \<notin> set (map fst (step_fields s))"
  by (cases s) simp_all

definition step_map :: "browser_step \<Rightarrow> json_map" where
  "step_map s = bt_from_iter ((''action'', JString (action_name s)) # map (\<lambda>(k, x). (k, fval_json x)) (step_fields s))"

lemma step_to_value_map: "step_to_value s = JObject (step_map s)"
  by (simp add: step_to_value_def step_map_def jobj_def)

lemma step_map_get:
  "bt_get (step_map s) = (map_of (map (\<lambda>(k, x). (k, fval_json x)) (step_fields s)))(''action'' \<mapsto> JString (action_name s))"
proof -
  have keys: "map fst (map (\<lambda>(k, x). (k, fval_json x)) (step_fields s)) = map fst (step_fields s)"
    by (simp add: case_prod_beta comp_def)
  have "distinct (''action'' # map fst (map (\<lambda>(k, x). (k, fval_json x)) (step_fields s)))"
    unfolding keys using step_fields_ok [of s] by simp
  then have "distinct (map fst ((''action'', JString (action_name s)) # map (\<lambda>(k, x). (k, fval_json x)) (step_fields s)))"
    by (simp only: list.map fst_conv)
  from map_of_rev [OF this] show ?thesis
    unfolding step_map_def bt_get_from_iter by simp
qed

lemma step_map_ok: "bt_ok (step_map s)"
  by (simp add: step_map_def)

lemma step_map_keys: "set (bt_keys (step_map s)) = insert ''action'' (set (map fst (step_fields s)))"
  by (simp only: dom_map_of_conv_image_fst [symmetric] list.set_map step_map_get)
    (auto simp: map_of_map dom_map_of_conv_image_fst image_image case_prod_beta)

lemma step_map_field: "(k, x) \<in> set (step_fields s) \<Longrightarrow> bt_get (step_map s) k = Some (fval_json x)"
  using step_fields_ok [of s] by (force simp: step_map_get map_of_map)

text \<open>An ordered map with the tag of a step and fields of the types of the step's fields is read as a step of them.\<close>

lemma step_read:
  assumes "bt_ok m" and "set (bt_keys m) \<subseteq> insert ''action'' (set (map fst (step_fields s)))"
    and "bt_get m ''action'' = Some (JString (action_name s))"
    and ys: "list_all2 (\<lambda>(k, x) y. bt_get m k = Some (fval_json y) \<and> (\<forall>ty. fits ty x \<longrightarrow> fits ty y) \<and> fval_finite y)
      (step_fields s) ys"
  shows "\<exists>out. step_from_value se (JObject m) = Inr out \<and> action_name out = action_name s
    \<and> step_fields out = zip (map fst (step_fields s)) ys \<and> (ys = map snd (step_fields s) \<longrightarrow> out = s)"
proof -
  obtain types build where v: "map_of step_variants (action_name s) = Some (types, build)"
      "list_all2 (\<lambda>(n, ty) (n', x). n = n' \<and> fits ty x) types (step_fields s)" "build (map snd (step_fields s)) = s"
    using step_covered [of s] by (auto simp: covers_def split: option.splits)
  have names: "map fst types = map fst (step_fields s)"
    using v(2) by (auto simp: list_all2_conv_all_nth case_prod_beta intro: nth_equalityI)
  have ok: "made_of (action_name s) types build" "distinct (map fst types)" "''action'' \<notin> set (map fst types)"
    using map_of_SomeD [OF v(1)] step_variants_ok by (auto simp: list_all_iff variant_ok_def)
  have fit: "list_all2 (\<lambda>(k, ty) y. bt_get m k = Some (fval_json y) \<and> fits ty y \<and> fval_finite y) types ys"
    using v(2) ys by (auto simp: list_all2_conv_all_nth case_prod_beta)
  have "read_variant se types build m = Inr (build ys)"
    by (rule read_variant_Inr [OF assms(1) _ ok(2,3) fit]) (use assms(2) names in simp)
  then have "step_from_value se (JObject m) = Inr (build ys)"
    using assms(3) v(1) by (simp add: step_from_value_def)
  moreover have "list_all2 (\<lambda>(k, ty) y. fits ty y) types ys"
    using fit by (rule list_all2_mono) auto
  then have "action_name (build ys) = action_name s" "step_fields (build ys) = zip (map fst (step_fields s)) ys"
    using ok(1) names by (auto simp: made_of_def)
  ultimately show ?thesis using v(3) by auto
qed

text \<open>
  A step of a browser command whose numbers are finite is read back from its JSON as the same step.
\<close>

theorem step_reads_back:
  assumes "finite_step s"
  shows "step_from_value se (step_to_value s) = Inr s"
proof -
  have "list_all2 (\<lambda>(k, x) y. bt_get (step_map s) k = Some (fval_json y) \<and> (\<forall>ty. fits ty x \<longrightarrow> fits ty y) \<and> fval_finite y)
      (step_fields s) (map snd (step_fields s))"
    using assms step_map_field [of _ _ s] by (auto simp: list_all2_conv_all_nth finite_step_def list_all_length case_prod_beta)
  from step_read [OF step_map_ok equalityD1 [OF step_map_keys] _ this] show ?thesis
    by (auto simp: step_to_value_map step_map_get)
qed

definition sample_step_errors :: step_errors where
  "sample_step_errors =
     \<lparr> se_missing = id, se_unknown_field = id, se_unknown_variant = id, se_type = (\<lambda>k v. k),
       se_positional = (\<lambda>v. Inl ''positional'') \<rparr>"

theorem step_reads_back_witness:
  "step_from_value sample_step_errors (step_to_value (Navigate ''https://example.com'' (Some 200) None True))
     = Inr (Navigate ''https://example.com'' (Some 200) None True)"
  by (rule step_reads_back) (simp add: finite_step_def)

section \<open>What rendering makes of a step\<close>

lemma rendered_fields:
  assumes "render_strings_in_fields r ctx (step_map s) = Inr m"
  shows "\<exists>ys. list_all2 (\<lambda>(k, x) y. bt_get m k = Some (fval_json y) \<and> rendered_field x y) (step_fields s) ys"
proof -
  have "\<exists>y. bt_get m k = Some (fval_json y) \<and> rendered_field x y" if "(k, x) \<in> set (step_fields s)" for k x
  proof -
    from that have "k \<noteq> ''action''" using step_fields_ok [of s] by force
    from render_lookup [OF assms this step_map_field [OF that]] show ?thesis
      using render_fval [of r ctx x] by blast
  qed
  then have "\<forall>e \<in> set (step_fields s). \<exists>y. bt_get m (fst e) = Some (fval_json y) \<and> rendered_field (snd e) y"
    by auto
  from bchoice [OF this] obtain f where
    "\<forall>e \<in> set (step_fields s). bt_get m (fst e) = Some (fval_json (f e)) \<and> rendered_field (snd e) (f e)" by blast
  then have "list_all2 (\<lambda>(k, x) y. bt_get m k = Some (fval_json y) \<and> rendered_field x y) (step_fields s) (map f (step_fields s))"
    by (simp add: list.rel_map list_all2_same case_prod_beta)
  then show ?thesis by blast
qed

text \<open>The step that was read has the rendered map as its JSON.\<close>

lemma same_map:
  assumes "bt_keys m = bt_keys (step_map s)" and "bt_get m ''action'' = Some (JString (action_name s))"
    and "list_all2 (\<lambda>(k, x) y. bt_get m k = Some (fval_json y)) (step_fields s) ys"
    and out: "action_name out = action_name s" "step_fields out = zip (map fst (step_fields s)) ys"
  shows "step_map out = m"
proof (rule bt_ext)
  show "bt_ok (step_map out)" by (rule step_map_ok)
  show "bt_ok m" using assms(1) step_map_ok [of s] by metis
  show "bt_get (step_map out) = bt_get m"
  proof
    fix k
    have len: "length ys = length (step_fields s)" using list_all2_lengthD [OF assms(3)] by simp
    show "bt_get (step_map out) k = bt_get m k"
    proof (cases "k \<in> insert ''action'' (set (map fst (step_fields s)))")
      case False
      then have "k \<notin> set (bt_keys m)" unfolding assms(1) step_map_keys .
      moreover have "k \<notin> set (bt_keys (step_map out))"
        using False len unfolding step_map_keys out(2) by simp
      ultimately show ?thesis by (metis map_of_eq_None_iff list.set_map)
    next
      case True
      show ?thesis
      proof (cases "k = ''action''")
        case True
        then show ?thesis using assms(2) out(1) by (simp add: step_map_get)
      next
        case False
        with True obtain i where i: "i < length (step_fields s)" "k = fst (step_fields s ! i)"
          by (auto simp: in_set_conv_nth)
        then have "(k, ys ! i) \<in> set (step_fields out)"
          using len unfolding out(2) by (auto simp: in_set_zip intro!: exI [of _ i])
        from step_map_field [OF this] show ?thesis
          using list_all2_nthD [OF assms(3) i(1)] i(2) by (simp add: case_prod_beta)
      qed
    qed
  qed
qed

lemma rendered_lookup:
  assumes "list_all2 (\<lambda>(k, x) y. rendered_field x y) fs ys" and "map_of fs k = Some x"
    and "is_VBool x \<or> is_VOptU64 x"
  shows "map_of (zip (map fst fs) ys) k = Some x"
  using assms
  by (induction fs ys rule: list_all2_induct) (auto simp: rendered_field_def split: if_splits)

lemma rendered_lookup_none: "length ys = length fs \<Longrightarrow> map_of fs k = None \<Longrightarrow> map_of (zip (map fst fs) ys) k = None"
  by (induction fs ys rule: list_induct2') (auto split: if_splits)

lemma shape_fields:
  "\<exists>b. map_of (step_fields s) ''optional'' = Some (VBool b)"
  "map_of (step_fields s) ''timeout_ms'' = None \<or> (\<exists>t. map_of (step_fields s) ''timeout_ms'' = Some (VOptU64 t))"
  by (cases s; simp)+

definition with_serde :: "step_errors \<Rightarrow> builder_libs \<Rightarrow> builder_libs" where
  "with_serde se lib = lib\<lparr>bl_step_to_value := (\<lambda>s. Inr (step_to_value s)), bl_step_from_value := step_from_value se\<rparr>"

text \<open>
  C21. Rendering a step of a browser command fails only where rendering one of its strings fails. Otherwise it gives a
  step whose JSON is the rendered JSON of the step, with the same action, the same timeout and the same answer to
  whether it is optional, whatever the arguments of the call are.
\<close>

theorem rendered_step:
  assumes "finite_step step"
  shows "case render_strings_in_value r ctx (step_to_value step) of
      Inl e \<Rightarrow> render_step (with_serde se lib) r ctx step = Inl e
    | Inr w \<Rightarrow>
        \<exists>out. render_step (with_serde se lib) r ctx step = Inr out \<and> step_to_value out = w
          \<and> action_name out = action_name step \<and> is_optional out = is_optional step
          \<and> step_timeout_ms out = step_timeout_ms step"
proof (cases "render_strings_in_fields r ctx (step_map step)")
  case (Inl e)
  then show ?thesis
    by (simp add: step_to_value_map render_step_def with_serde_def library_def)
next
  case (Inr m)
  have keys: "bt_keys m = bt_keys (step_map step)" and tag: "bt_get m ''action'' = Some (JString (action_name step))"
    using render_strings_in_fields_keys [OF Inr] by (simp_all add: step_map_get)
  obtain ys where ys: "list_all2 (\<lambda>(k, x) y. bt_get m k = Some (fval_json y) \<and> rendered_field x y) (step_fields step) ys"
    using rendered_fields [OF Inr] by blast
  have "list_all2 (\<lambda>(k, x) y. bt_get m k = Some (fval_json y) \<and> (\<forall>ty. fits ty x \<longrightarrow> fits ty y) \<and> fval_finite y)
      (step_fields step) ys"
    using ys assms by (auto simp: list_all2_conv_all_nth rendered_field_def finite_step_def list_all_length case_prod_beta)
  moreover have "bt_ok m" using keys step_map_ok [of step] by metis
  moreover have "set (bt_keys m) \<subseteq> insert ''action'' (set (map fst (step_fields step)))"
    unfolding keys step_map_keys by (rule subset_refl)
  ultimately obtain out where out: "step_from_value se (JObject m) = Inr out" "action_name out = action_name step"
      "step_fields out = zip (map fst (step_fields step)) ys"
    using step_read [of m step ys se] tag by blast
  have "step_map out = m"
    by (rule same_map [OF keys tag _ out(2,3)]) (use ys in \<open>auto elim!: list_all2_mono\<close>)
  moreover have rendered: "list_all2 (\<lambda>(k, x) y. rendered_field x y) (step_fields step) ys"
    using ys by (auto elim!: list_all2_mono)
  have "is_optional out = is_optional step"
    using shape_fields(1) [of step] rendered_lookup [OF rendered] unfolding step_shape(1) out(3) by fastforce
  moreover have "step_timeout_ms out = step_timeout_ms step"
    using shape_fields(2) [of step] rendered_lookup [OF rendered] rendered_lookup_none [OF list_all2_lengthD [OF rendered, symmetric]]
    unfolding step_shape(2) out(3) fun_eq_iff by fastforce
  ultimately show ?thesis
    using Inr out by (simp add: step_to_value_map render_step_def with_serde_def library_def)
qed

text \<open>A navigation with a timeout of its own.\<close>

theorem rendered_step_witness:
  "\<exists>out. render_step (with_serde sample_step_errors sample_libs) echo_renderer JNull (Navigate ''{{ args.url }}'' None (Some 9) False) = Inr out
     \<and> action_name out = ''navigate'' \<and> step_timeout_ms out 5 = 9 \<and> \<not> is_optional out"
proof -
  let ?step = "Navigate ''{{ args.url }}'' None (Some 9) False"
  have "\<exists>w. render_strings_in_value echo_renderer JNull (step_to_value ?step) = Inr w"
    by (simp add: step_to_value_def jobj_def bt_from_iter_def echo_renderer_def opt_json_def word_json_def)
  then show ?thesis
    using rendered_step [where step = ?step and r = echo_renderer and ctx = JNull and se = sample_step_errors
        and lib = sample_libs] by (auto simp: finite_step_def unwrap_or_def)
qed

end
