(* ===== verification/Spec2Isabelle.thy ===== *)
theory Spec2Isabelle
  imports Ssrf Allowlist Policy Binder Redact Secrets Validator Catalog Parser Transport Render Builders Prepare
    Utf8 Exec Sse Http Std SqlExec BashExec Reflection GrpcExec Execute Jwt Stdio Mcp McpServer Cli Web OAuth
    ActionLog SecretRefs Resolvers BrowserSession CacheJson Search Doctor TemplateImport App StepJson
begin

text \<open>
  A verification library for Earl, a command line program and MCP server that runs commands described by HCL
  templates for people and for language models, over HTTP, GraphQL, gRPC, SQL, Bash and a browser. What the
  program promises is mostly what a run cannot do: leave the allowed addresses, reach private networks, show a
  secret, write without consent, run without authentication. The definitions translate the Rust sources under
  \<open>src/\<close> and \<open>crates/\<close>; the theorems, each after a text that says it in words, state those promises over the
  translated code.

  How a command runs. \<open>App.run\<close> makes the directories, reads the configuration for the commands that need it and
  hands over. \<open>Cli.run_call\<close> takes the entry from the catalog, reads and binds the arguments, asks for a
  confirmation of a writing command, chooses the environment and builds the prepared request (\<open>Prepare\<close>:
  secrets, rendering, the limits of the configuration), which \<open>Execute\<close> gives to the executor of its protocol;
  the answer is decoded, extracted, rendered and redacted. The MCP server (\<open>Mcp\<close>, \<open>McpServer\<close>) and the web
  playground (\<open>Web\<close>) run the same two stages behind their own checks. What HTTP, GraphQL and gRPC send passes
  the allowlist (\<open>Allowlist\<close>) and the address filter (\<open>Ssrf\<close>); the browser and scripts with network access are
  outside both, as in the code.

  Parts, in the order of the imports.

  \<^item> Foundations. \<open>Prelude\<close>: errors as chains of messages, fallible steps, actions on a state, ordered maps as
    sorted association lists (locale \<open>ordered_map\<close>). \<open>RustStr\<close>, \<open>Utf8\<close>: \<open>String\<close> and \<open>str\<close> as bytes, and UTF-8
    with its lossy reading. \<open>Json\<close>, \<open>Std\<close>, \<open>Float32\<close>: \<open>serde_json\<close> values, conversions of numbers, \<open>f32\<close> on its
    bits. \<open>ActionLog\<close>: what an action appends to a log. \<open>Timed\<close>: asynchronous work under a deadline, where time
    passes only while a call is awaited and a call may never answer.
  \<^item> Templates. \<open>Schema\<close>, \<open>BrowserSchema\<close>: \<open>crates/earl-core/src/schema.rs\<close>, \<open>src/template/schema.rs\<close> and the
    schemas of the protocol crates. \<open>Config\<close>: \<open>src/config.rs\<close>. \<open>Parser\<close>, \<open>Validator\<close>, \<open>Catalog\<close>, \<open>CacheJson\<close>:
    reading, validating and loading the templates of a directory, the catalog with its cache, and the text form
    of the archive. \<open>TemplateImport\<close>, \<open>Search\<close>, \<open>Doctor\<close>: \<open>src/template/import.rs\<close>, \<open>src/search/\<close>,
    \<open>src/doctor.rs\<close>.
  \<^item> Guards. \<open>Ssrf\<close> (\<open>src/security/\<close>), \<open>Allowlist\<close>, \<open>Policy\<close> (\<open>src/mcp/policy.rs\<close>), \<open>Redact\<close>.
  \<^item> Secrets. \<open>Secrets\<close>: stores (locale \<open>secret_store\<close>, interpreted on the store in memory), the index, the
    manager (locale \<open>managed_store\<close>). \<open>SecretRefs\<close>, \<open>Resolvers\<close>: references to external secrets and the five
    resolvers (\<open>src/secrets/resolvers/\<close>). \<open>OAuth\<close>: \<open>src/auth/\<close>.
  \<^item> From a call to a request. \<open>Binder\<close> (\<open>src/expression/\<close>), \<open>Transport\<close>, \<open>Render\<close> (locale \<open>template_renderer\<close>,
    interpreted on the model of the engine's wrapper), \<open>Builders\<close>, \<open>Prepare\<close> (\<open>src/protocol/\<close> and the protocol
    crates).
  \<^item> Executors. \<open>Exec\<close> (decoding, extraction, output), \<open>Sse\<close>, \<open>Http\<close>, \<open>SqlExec\<close>, \<open>BashExec\<close>, \<open>Reflection\<close>,
    \<open>GrpcExec\<close>, \<open>Execute\<close> (dispatch, retries, streams). The browser: \<open>AccessTree\<close> (the snapshot), \<open>BrowserJs\<close>
    (the fixed scripts), \<open>BrowserPage\<close> (a page as its calls), \<open>BrowserSteps\<close> and \<open>BrowserState\<close> (the steps),
    \<open>BrowserRun\<close> (dispatch and loop), \<open>StepJson\<close> (a step as JSON, by which its strings are rendered),
    \<open>BrowserSafety\<close> (what a run does), \<open>BrowserSession\<close> (sessions, locks, Chrome).
  \<^item> Front ends. \<open>Jwt\<close>, \<open>Stdio\<close>, \<open>Mcp\<close>, \<open>McpServer\<close> (\<open>src/mcp/\<close>), \<open>Web\<close> (\<open>src/web/mod.rs\<close>), \<open>Cli\<close> and \<open>App\<close>
    (\<open>src/app.rs\<close>, \<open>src/cli.rs\<close>, \<open>src/main.rs\<close>).

  Conventions. A struct is a record and an enum a datatype with the source's names; an integer keeps its width
  where it can wrap and is unbounded where the code compares or counts only. An \<open>anyhow::Error\<close> is its chain of
  messages, the outermost first, so the theorems see which error comes. A function that acts on the outside is
  an \<open>action\<close>: it takes the state and gives a result and the state it leaves, also when it fails. What the
  outside was asked is kept in a log of the state, which the safety theorems speak of. Third-party crates, the
  operating system, clocks and servers are records of functions given to the definitions, so a theorem holds
  whatever they answer; laws asked of them are named in the statement. A panic, and a loop that does not end,
  are values of their own.

  What the groups of theorems show.

  \<^item> Addresses: the filter is a list of CIDR blocks for both versions of IP; a validated name has only public
    addresses and the client is pinned to them; every hop of a redirect and every gRPC connection, streams
    included, is checked before it is made; the requests of OAuth and of the resolvers stay at their provider. A
    browser step navigates only to its own http or https address, touches only relative paths it names and runs
    only its own or fixed scripts, and rendering its arguments never makes another step of it.
  \<^item> Secrets: only declared secrets are read, every value that was read is redacted in whatever is printed or
    answered, in all its encodings; the parsers of references read back what they came from.
  \<^item> Consent and authentication: a writing command needs its confirmation, a policy decides by deny over allow
    with globs given a meaning as languages, HTTP calls need a token whose key and claims were verified, the web
    API needs its bearer token, OAuth a code with its own state.
  \<^item> Bounds and ends: results, downloads and streams keep their limits; SQL is read only and scripts are
    sandboxed as configured; a browser run ends within the sum of its timeouts and its lock and Chrome are given
    back; descriptors are collected to a closed set; the doctor and the import do what they say and nothing
    else.

  Bounds and fuel. The walk over a template directory (\<open>Catalog\<close>, \<open>Doctor\<close>) takes fuel for its depth: on a
  finite tree, given as a rank that falls from a directory to those in it, fuel above the rank of the root is
  enough (\<open>Doctor.loader_walk_ends\<close>, \<open>Doctor.discovered_walk_ends\<close>), and the theorems on loading have the
  outcome None for a walk that does not end. The wait of the 1Password resolver for its child takes 602 polls,
  one every 50 ms for 30 seconds and the last ones; \<open>Resolvers\<close> shows that they are enough and that more change
  nothing. The snapshot goes to depth 80 and 5000 nodes as in the code. The loop of \<open>wait_for\<close> is measured by
  the time that is left, the retries of a request by their number. The two loops that may run for ever, reading
  an answer at the prompt and asking a reflection server, are partial functions; \<open>Cli\<close> and \<open>Reflection\<close> state
  when they end.

  Not modelled, and why. The parsing of the command line by clap, tracing, shell completion and the build script
  are calls of libraries. The gRPC codec passes JSON to prost-reflect inside the transport. The derived serde
  and rkyv code of all types but the browser steps, the TOML and HCL readers, the template engine, Unicode
  tables, base64, hashes and JSON text are parameters. The accept loops of the servers and the tasks that pump a
  stream or a browser connection are taken as the sequence of the calls they make. The stdio server handles one
  frame after another; HTTP requests run side by side only where they share state, at the cache of keys, whose
  interleavings \<open>Jwt\<close> models by the blocks under its locks.
\<close>

end
